(* ===== verification/Prelude.thy ===== *)
theory Prelude
  imports Main
begin

text \<open>
  What every component shares: the theorem collections, the result type of a check that may
  refuse, and generic facts on lists, association lists and options.
\<close>

section \<open>Collections\<close>

text \<open>
  \<open>eval_defs\<close> collects the definitions a concrete run unfolds; \<open>frame_simps\<close> what an operation
  leaves alone.
\<close>

named_theorems eval_defs
named_theorems frame_simps

section \<open>Checks that may refuse\<close>

text \<open>
  A TypeScript function that throws, or returns a refusal object, is a function into
  \<open>'e + 'a\<close>: \<open>Inl\<close> carries the refusal. An assertion returns \<open>unit\<close>.
  \<open>then_check\<close> is statement sequencing: the second statement runs only if the first did not
  refuse. \<open>refuse_if\<close> is \<open>if (c) throw e\<close>.
\<close>

type_synonym 'e check = "'e + unit"

definition passed :: "'e check" where
  "passed = Inr ()"

definition refuse_if :: "bool \<Rightarrow> 'e \<Rightarrow> 'e check" where
  "refuse_if c e = (if c then Inl e else passed)"

fun then_check :: "'e + 'a \<Rightarrow> ('a \<Rightarrow> 'e + 'b) \<Rightarrow> 'e + 'b" where
  "then_check (Inl e) k = Inl e"
| "then_check (Inr a) k = k a"

fun check_all :: "'e check list \<Rightarrow> 'e check" where
  "check_all [] = passed"
| "check_all (c # cs) = then_check c (\<lambda>_. check_all cs)"

lemma passed_iff [simp]: "x = passed \<longleftrightarrow> x = Inr ()" "passed = x \<longleftrightarrow> x = Inr ()"
  by (auto simp: passed_def)

lemma refuse_if_simps [simp]:
  "refuse_if c e = Inr u \<longleftrightarrow> \<not> c"
  "refuse_if c e = Inl d \<longleftrightarrow> c \<and> d = e"
  "Inr u = refuse_if c e \<longleftrightarrow> \<not> c"
  by (auto simp: refuse_if_def passed_def)

lemma then_check_Inr [simp]:
  "then_check c k = Inr b \<longleftrightarrow> (\<exists>a. c = Inr a \<and> k a = Inr b)"
  by (cases c) auto

lemma check_all_Inr [simp]:
  "check_all cs = Inr u \<longleftrightarrow> (\<forall>c \<in> set cs. c = Inr ())"
  by (induction cs) (auto simp: passed_def)

lemma check_all_append:
  "check_all (xs @ ys) = then_check (check_all xs) (\<lambda>_. check_all ys)"
proof (induction xs)
  case (Cons x xs)
  then show ?case by (cases x) simp_all
qed (simp add: passed_def)

text \<open>The refusal reported is the first one in program order.\<close>

lemma check_all_first_refusal:
  "check_all cs = Inl e \<longleftrightarrow> (\<exists>xs ys. cs = xs @ Inl e # ys \<and> (\<forall>c \<in> set xs. c = Inr ()))"
proof (induction cs)
  case Nil
  then show ?case by (simp add: passed_def)
next
  case (Cons c cs)
  show ?case
  proof (cases c)
    case (Inl d)
    then show ?thesis by (auto simp: Cons_eq_append_conv)
  next
    case (Inr u)
    then have "(\<exists>xs ys. c # cs = xs @ Inl e # ys \<and> (\<forall>c \<in> set xs. c = Inr ()))
        \<longleftrightarrow> (\<exists>xs ys. cs = xs @ Inl e # ys \<and> (\<forall>c \<in> set xs. c = Inr ()))"
      by (auto simp: Cons_eq_append_conv) (metis list.set_intros(2) set_ConsD)+
    with Inr Cons.IH show ?thesis by simp
  qed
qed

definition is_ok :: "'e + 'a \<Rightarrow> bool" where
  "is_ok r = (case r of Inl _ \<Rightarrow> False | Inr _ \<Rightarrow> True)"

lemma is_ok_simps [simp]: "is_ok (Inr a)" "\<not> is_ok (Inl e)"
  by (auto simp: is_ok_def)

section \<open>Plain objects: association lists\<close>

text \<open>
  A plain object used as a record of unknown keys is the list of its own properties;
  \<open>alist_put\<close> is \<open>{ ...o, [k]: v }\<close>.
\<close>

definition alist_put :: "'k \<Rightarrow> 'v \<Rightarrow> ('k \<times> 'v) list \<Rightarrow> ('k \<times> 'v) list" where
  "alist_put k v o1 = (k, v) # filter (\<lambda>p. fst p \<noteq> k) o1"

lemma map_of_filter_other: "k' \<noteq> k \<Longrightarrow> map_of (filter (\<lambda>p. fst p \<noteq> k) o1) k' = map_of o1 k'"
  by (induction o1) auto

lemma map_of_alist_put [simp]:
  "map_of (alist_put k v o1) k' = (if k' = k then Some v else map_of o1 k')"
  by (simp add: alist_put_def map_of_filter_other)

section \<open>Options\<close>

text \<open>\<open>a ?? b\<close> on an optional value.\<close>

definition or_else :: "'a option \<Rightarrow> 'a \<Rightarrow> 'a" where
  "or_else a b = (case a of None \<Rightarrow> b | Some x \<Rightarrow> x)"

lemma or_else_simps [simp]: "or_else None b = b" "or_else (Some x) b = x"
  by (simp_all add: or_else_def)

section \<open>Pairs\<close>

lemma fst_if: "fst (if c then a else b) = (if c then fst a else fst b)"
  by simp

lemma snd_if: "snd (if c then a else b) = (if c then snd a else snd b)"
  by simp

section \<open>Lists\<close>

text \<open>A separator found in neither prefix splits a list in one way.\<close>

lemma append_mark_eq:
  "xs @ m # us = ys @ m # vs \<Longrightarrow> m \<notin> set xs \<Longrightarrow> m \<notin> set ys \<Longrightarrow> xs = ys \<and> us = vs"
proof (induction xs arbitrary: ys)
  case Nil
  then show ?case by (cases ys) auto
next
  case (Cons x xs)
  then show ?case by (cases ys) auto
qed

end
