(* ===== verification/JsBase.thy ===== *)
theory JsBase
  imports Prelude Complex_Main "HOL-Library.Char_ord"
begin

text \<open>
  What the source uses of JavaScript: the values \<open>unknown\<close> ranges over, \<open>String(v)\<close>,
  \<open>BigInt(s)\<close>, string methods, and \<open>new Date(s).getTime()\<close>. Everything computes.

  A string is a list of code units below 256. A finite number is the decimal JavaScript
  prints for it, a \<open>rat\<close>; the arithmetic the program does on clocks, deadlines and counters
  stays inside the safe integers, where that is exact. \<open>Date\<close> parsing is the format of the
  language specification; a string outside it (a local time, a free-form date) is read by
  the host, so it is a field of the environment record \<open>env\<close>.
\<close>

section \<open>Numbers and values\<close>

type_synonym num = rat

datatype jsnum = Fin num | NaN | PosInf | NegInf

datatype jsval =
    VUndef
  | VNull
  | VBool bool
  | VNum jsnum
  | VBig int
  | VStr string
  | VArr "jsval list"
  | VObj "(string \<times> jsval) list"

type_synonym obj = "(string \<times> jsval) list"

definition obj_get :: "obj \<Rightarrow> string \<Rightarrow> jsval" where
  "obj_get ob k = (case map_of ob k of None \<Rightarrow> VUndef | Some v \<Rightarrow> v)"

definition VInt :: "int \<Rightarrow> jsval" where
  "VInt n = VNum (Fin (of_int n))"

definition is_finite_num :: "jsnum \<Rightarrow> bool" where
  "is_finite_num n = (case n of Fin _ \<Rightarrow> True | _ \<Rightarrow> False)"

definition is_int_num :: "num \<Rightarrow> bool" where
  "is_int_num r \<longleftrightarrow> of_int \<lfloor>r\<rfloor> = r"

text \<open>Reading a property of a value that may be no object (\<open>v?.k\<close>, and \<open>v.k\<close> on an object).\<close>

definition val_get :: "jsval \<Rightarrow> string \<Rightarrow> jsval" where
  "val_get v k = (case v of VObj ob \<Rightarrow> obj_get ob k | _ \<Rightarrow> VUndef)"

definition nullish :: "jsval \<Rightarrow> bool" where
  "nullish v \<longleftrightarrow> v = VUndef \<or> v = VNull"

definition val_or :: "jsval \<Rightarrow> jsval \<Rightarrow> jsval" where
  "val_or v w = (if nullish v then w else v)"

fun truthy :: "jsval \<Rightarrow> bool" where
  "truthy VUndef = False"
| "truthy VNull = False"
| "truthy (VBool b) = b"
| "truthy (VNum n) = (case n of Fin r \<Rightarrow> r \<noteq> 0 | NaN \<Rightarrow> False | _ \<Rightarrow> True)"
| "truthy (VBig n) = (n \<noteq> 0)"
| "truthy (VStr s) = (s \<noteq> [])"
| "truthy (VArr _) = True"
| "truthy (VObj _) = True"

lemma obj_get_simps [simp]:
  "obj_get [] k = VUndef"
  "obj_get ((k', v) # ob) k = (if k' = k then v else obj_get ob k)"
  by (auto simp: obj_get_def)

section \<open>Strings\<close>

definition code :: "char \<Rightarrow> nat" where
  "code c = of_char c"

definition is_space :: "char \<Rightarrow> bool" where
  "is_space c \<longleftrightarrow> code c \<in> {9, 10, 11, 12, 13, 32, 160}"

definition trim :: "string \<Rightarrow> string" where
  "trim s = rev (dropWhile is_space (rev (dropWhile is_space s)))"

definition lower_char :: "char \<Rightarrow> char" where
  "lower_char c = (let n = code c in
     if 65 \<le> n \<and> n \<le> 90 \<or> 192 \<le> n \<and> n \<le> 222 \<and> n \<noteq> 215 then char_of (n + 32) else c)"

text \<open>
  The upper case of the two letters that have none below 256 is left out: they map to themselves.
\<close>

definition upper_char :: "char \<Rightarrow> string" where
  "upper_char c = (let n = code c in
     if 97 \<le> n \<and> n \<le> 122 \<or> 224 \<le> n \<and> n \<le> 254 \<and> n \<noteq> 247 then [char_of (n - 32)]
     else if n = 223 then ''SS'' else [c])"

definition to_lower :: "string \<Rightarrow> string" where
  "to_lower = map lower_char"

definition to_upper :: "string \<Rightarrow> string" where
  "to_upper s = concat (map upper_char s)"

definition starts_with :: "string \<Rightarrow> string \<Rightarrow> bool" where
  "starts_with s p \<longleftrightarrow> take (length p) s = p"

fun includes_str :: "string \<Rightarrow> string \<Rightarrow> bool" where
  "includes_str [] p = (p = [])"
| "includes_str (c # s) p = (starts_with (c # s) p \<or> includes_str s p)"

definition is_digit :: "char \<Rightarrow> bool" where
  "is_digit c \<longleftrightarrow> 48 \<le> code c \<and> code c \<le> 57"

definition is_hex_digit :: "char \<Rightarrow> bool" where
  "is_hex_digit c \<longleftrightarrow>
     is_digit c \<or> 65 \<le> code c \<and> code c \<le> 70 \<or> 97 \<le> code c \<and> code c \<le> 102"

text \<open>The regular expressions \<open>^\d+$\<close> and \<open>^0x[0-9a-fA-F]+$\<close>, the latter also with the \<open>i\<close> flag.\<close>

definition all_digits :: "string \<Rightarrow> bool" where
  "all_digits s \<longleftrightarrow> s \<noteq> [] \<and> list_all is_digit s"

definition hex_literal :: "string \<Rightarrow> bool" where
  "hex_literal s \<longleftrightarrow>
     starts_with s ''0x'' \<and> drop 2 s \<noteq> [] \<and> list_all is_hex_digit (drop 2 s)"

definition hex_literal_i :: "string \<Rightarrow> bool" where
  "hex_literal_i s \<longleftrightarrow>
     (starts_with s ''0x'' \<or> starts_with s ''0X'') \<and> drop 2 s \<noteq> [] \<and> list_all is_hex_digit (drop 2 s)"

fun join :: "string \<Rightarrow> string list \<Rightarrow> string" where
  "join sep [] = []"
| "join sep [s] = s"
| "join sep (s # t # ss) = s @ sep @ join sep (t # ss)"

lemma lower_char_idem [simp]: "lower_char (lower_char c) = lower_char c"
proof -
  have "code c < 256" by (simp add: code_def)
  then show ?thesis by (auto simp: lower_char_def code_def Let_def)
qed

lemma to_lower_idem [simp]: "to_lower (to_lower s) = to_lower s"
  by (simp add: to_lower_def)

lemma to_lower_Nil [simp]: "to_lower s = [] \<longleftrightarrow> s = []" "to_lower [] = []"
  by (auto simp: to_lower_def)

section \<open>Decimal spelling and BigInt\<close>

definition digit_char :: "nat \<Rightarrow> char" where
  "digit_char d = char_of (48 + d)"

fun show_nat :: "nat \<Rightarrow> string" where
  "show_nat n = (if n < 10 then [digit_char n] else show_nat (n div 10) @ [digit_char (n mod 10)])"

declare show_nat.simps [simp del]

definition show_int :: "int \<Rightarrow> string" where
  "show_int n = (if n < 0 then CHR ''-'' # show_nat (nat (- n)) else show_nat (nat n))"

definition digit_val :: "char \<Rightarrow> nat" where
  "digit_val c = (let n = code c in
     if n \<le> 57 then n - 48 else if n \<le> 70 then n - 55 else n - 87)"

definition digits_val :: "nat \<Rightarrow> string \<Rightarrow> nat" where
  "digits_val base s = foldl (\<lambda>acc c. acc * base + digit_val c) 0 s"

text \<open>
  \<open>BigInt(s)\<close>, \<open>None\<close> where it throws: white space is trimmed, an empty string is 0, the prefixes
  \<open>0x\<close>, \<open>0o\<close> and \<open>0b\<close> take no sign, a decimal may have one.
\<close>

definition digits_in :: "(char \<Rightarrow> bool) \<Rightarrow> string \<Rightarrow> bool" where
  "digits_in P s \<longleftrightarrow> s \<noteq> [] \<and> list_all P s"

definition is_octal :: "char \<Rightarrow> bool" where
  "is_octal c \<longleftrightarrow> 48 \<le> code c \<and> code c \<le> 55"

definition is_binary :: "char \<Rightarrow> bool" where
  "is_binary c \<longleftrightarrow> 48 \<le> code c \<and> code c \<le> 49"

definition decimal_int :: "string \<Rightarrow> int option" where
  "decimal_int s = (if all_digits s then Some (int (digits_val 10 s)) else None)"

definition big_int :: "string \<Rightarrow> int option" where
  "big_int raw = (let s = trim raw; body = drop 2 s in
     if s = [] then Some 0
     else if starts_with s ''0x'' \<or> starts_with s ''0X''
       then (if digits_in is_hex_digit body then Some (int (digits_val 16 body)) else None)
     else if starts_with s ''0o'' \<or> starts_with s ''0O''
       then (if digits_in is_octal body then Some (int (digits_val 8 body)) else None)
     else if starts_with s ''0b'' \<or> starts_with s ''0B''
       then (if digits_in is_binary body then Some (int (digits_val 2 body)) else None)
     else if hd s = CHR ''-'' then map_option uminus (decimal_int (tl s))
     else if hd s = CHR ''+'' then decimal_int (tl s)
     else decimal_int s)"

section \<open>String(v)\<close>

text \<open>
  The fraction of a number, digit by digit. The number is a finite decimal, and JavaScript prints
  at most seventeen significant digits, so twenty-five places are enough.
\<close>

fun show_fraction :: "nat \<Rightarrow> num \<Rightarrow> string" where
  "show_fraction 0 r = []"
| "show_fraction (Suc k) r = (if r = 0 then [] else
     (let d = \<lfloor>r * 10\<rfloor> in digit_char (nat d) # show_fraction k (r * 10 - of_int d)))"

text \<open>An integer of more than twenty-one digits is printed in the exponent form, \<open>1.5e+21\<close>.\<close>

definition show_exponent :: "nat \<Rightarrow> string" where
  "show_exponent n = (let ds = show_nat n; frac = rev (dropWhile (\<lambda>c. c = CHR ''0'') (rev (tl ds))) in
     hd ds # (if frac = [] then [] else CHR ''.'' # frac) @ ''e+'' @ show_nat (length ds - 1))"

definition show_num :: "num \<Rightarrow> string" where
  "show_num r = (if \<bar>r\<bar> \<ge> 10 ^ 21 then
       (if r < 0 then ''-'' else []) @ show_exponent (nat \<lfloor>\<bar>r\<bar>\<rfloor>)
     else if is_int_num r then show_int \<lfloor>r\<rfloor>
     else (if r < 0 then ''-'' else []) @ show_int \<lfloor>\<bar>r\<bar>\<rfloor> @ ''.''
       @ show_fraction 25 (\<bar>r\<bar> - of_int \<lfloor>\<bar>r\<bar>\<rfloor>))"

definition show_jsnum :: "jsnum \<Rightarrow> string" where
  "show_jsnum n = (case n of Fin r \<Rightarrow> show_num r | NaN \<Rightarrow> ''NaN''
     | PosInf \<Rightarrow> ''Infinity'' | NegInf \<Rightarrow> ''-Infinity'')"

fun js_string :: "jsval \<Rightarrow> string" where
  "js_string VUndef = ''undefined''"
| "js_string VNull = ''null''"
| "js_string (VBool b) = (if b then ''true'' else ''false'')"
| "js_string (VNum n) = show_jsnum n"
| "js_string (VBig n) = show_int n"
| "js_string (VStr s) = s"
| "js_string (VArr vs) = join '','' (map (\<lambda>v. if nullish v then [] else js_string v) vs)"
| "js_string (VObj _) = ''[object Object]''"

text \<open>\<open>BigInt(String(v))\<close>, the reading the value checks share.\<close>

definition big_of :: "jsval \<Rightarrow> int option" where
  "big_of v = big_int (js_string v)"


section \<open>Number(v)\<close>

text \<open>
  An integer past \<open>2^53\<close> is rounded to the nearest double, ties to even; past the largest double it is
  infinite.
\<close>

fun bit_len :: "nat \<Rightarrow> nat" where
  "bit_len n = (if n = 0 then 0 else Suc (bit_len (n div 2)))"

declare bit_len.simps [simp del]

definition round_even :: "num \<Rightarrow> int" where
  "round_even r = (let f = \<lfloor>r\<rfloor>; d = r - of_int f in
     if d < 1 / 2 then f else if d > 1 / 2 then f + 1 else if f mod 2 = 0 then f else f + 1)"

definition round_double :: "num \<Rightarrow> jsnum" where
  "round_double r = (let n = nat \<lfloor>\<bar>r\<bar>\<rfloor> in
     if n < 2 ^ 53 then Fin r
     else (let q = 2 ^ (bit_len n - 53); m = round_even (\<bar>r\<bar> / of_int q) * q in
       if m \<ge> 2 ^ 1024 then (if r < 0 then NegInf else PosInf)
       else Fin (of_int (if r < 0 then - m else m))))"

text \<open>A decimal literal: an optional sign, digits with an optional fraction, an optional exponent.\<close>

definition split_at :: "(char \<Rightarrow> bool) \<Rightarrow> string \<Rightarrow> string \<times> string option" where
  "split_at P s = (takeWhile (\<lambda>c. \<not> P c) s,
     (case dropWhile (\<lambda>c. \<not> P c) s of [] \<Rightarrow> None | _ # t \<Rightarrow> Some t))"

definition signed_int :: "string \<Rightarrow> int option" where
  "signed_int s = (case s of
     CHR ''-'' # t \<Rightarrow> map_option uminus (decimal_int t)
   | CHR ''+'' # t \<Rightarrow> decimal_int t
   | _ \<Rightarrow> decimal_int s)"

definition mantissa :: "string \<Rightarrow> num option" where
  "mantissa s = (case split_at (\<lambda>c. c = CHR ''.'') s of
     (ip, None) \<Rightarrow> map_option of_int (decimal_int ip)
   | (ip, Some fp) \<Rightarrow> (if ip @ fp \<noteq> [] \<and> list_all is_digit (ip @ fp)
       then Some (of_nat (digits_val 10 (ip @ fp)) / 10 ^ length fp) else None))"

definition unsigned_decimal :: "string \<Rightarrow> num option" where
  "unsigned_decimal s = (case split_at (\<lambda>c. c = CHR ''e'' \<or> c = CHR ''E'') s of
     (m, None) \<Rightarrow> mantissa m
   | (m, Some e) \<Rightarrow> (case (mantissa m, signed_int e) of
       (Some r, Some k) \<Rightarrow> Some (if k \<ge> 0 then r * 10 ^ nat k else r / 10 ^ nat (- k))
     | _ \<Rightarrow> None))"

definition decimal_num :: "string \<Rightarrow> jsnum" where
  "decimal_num s = (let neg = (take 1 s = ''-''); body = (if take 1 s = ''-'' \<or> take 1 s = ''+'' then drop 1 s else s) in
     if body = ''Infinity'' then (if neg then NegInf else PosInf)
     else (case unsigned_decimal body of None \<Rightarrow> NaN
       | Some r \<Rightarrow> round_double (if neg then - r else r)))"

definition prefixed_literal :: "string \<Rightarrow> bool" where
  "prefixed_literal s \<longleftrightarrow> list_ex (starts_with s) [''0x'', ''0X'', ''0o'', ''0O'', ''0b'', ''0B'']"

definition string_number :: "string \<Rightarrow> jsnum" where
  "string_number raw = (let s = trim raw in
     if s = [] then Fin 0
     else if prefixed_literal s then
       (case big_int s of None \<Rightarrow> NaN | Some n \<Rightarrow> round_double (of_int n))
     else decimal_num s)"

definition js_number :: "jsval \<Rightarrow> jsnum" where
  "js_number v = (case v of VUndef \<Rightarrow> NaN | VNull \<Rightarrow> Fin 0 | VBool b \<Rightarrow> Fin (if b then 1 else 0)
     | VNum n \<Rightarrow> n | VBig n \<Rightarrow> round_double (of_int n) | VStr s \<Rightarrow> string_number s
     | VArr _ \<Rightarrow> string_number (js_string v) | VObj _ \<Rightarrow> NaN)"

text \<open>\<open>Number.isInteger(n)\<close> and the integer it is.\<close>

definition int_of_num :: "jsnum \<Rightarrow> int option" where
  "int_of_num n = (case n of Fin r \<Rightarrow> (if is_int_num r then Some \<lfloor>r\<rfloor> else None) | _ \<Rightarrow> None)"

section \<open>Dates\<close>

text \<open>
  The environment: the host's clock (\<open>Date.now()\<close>, which the signer's checks read), its reading of a
  date string outside the specified format, and the third-party functions the source calls
  (\<open>verifyMessage\<close> of ethers, which recovers an address or throws, and \<open>sha256\<close> of viem).
\<close>

record env =
  wall_now :: num
  date_other :: "string \<Rightarrow> num option"
  recover_message :: "string \<Rightarrow> string \<Rightarrow> string option"
  sha256 :: "nat list \<Rightarrow> nat list"

text \<open>Days from the epoch to the first of a month, in the proleptic Gregorian calendar.\<close>

definition leap_year :: "int \<Rightarrow> bool" where
  "leap_year y \<longleftrightarrow> y mod 4 = 0 \<and> y mod 100 \<noteq> 0 \<or> y mod 400 = 0"

definition days_before_year :: "int \<Rightarrow> int" where
  "days_before_year y = 365 * (y - 1970) + ((y - 1969) div 4) - ((y - 1901) div 100) + ((y - 1601) div 400)"

definition month_lengths :: "int \<Rightarrow> int list" where
  "month_lengths y = [31, if leap_year y then 29 else 28, 31, 30, 31, 30, 31, 31, 30, 31, 30, 31]"

definition days_to :: "int \<Rightarrow> nat \<Rightarrow> nat \<Rightarrow> int" where
  "days_to y mo d = days_before_year y + sum_list (take (mo - 1) (month_lengths y)) + int d - 1"

definition digits_at :: "string \<Rightarrow> nat \<Rightarrow> nat \<Rightarrow> nat option" where
  "digits_at s i n = (let t = take n (drop i s) in
     if length t = n \<and> list_all is_digit t then Some (digits_val 10 t) else None)"

definition char_at :: "string \<Rightarrow> nat \<Rightarrow> char \<Rightarrow> bool" where
  "char_at s i c \<longleftrightarrow> take 1 (drop i s) = [c]"

text \<open>
  The zone suffix: minutes east of UTC, \<open>None\<close> outside the format (no suffix is a local time).
\<close>

definition zone_offset :: "string \<Rightarrow> int option" where
  "zone_offset s = (if s = ''Z'' then Some 0
     else if length s = 6 \<and> char_at s 3 CHR '':'' then
       (case (digits_at s 1 2, digits_at s 4 2) of
          (Some h, Some mi) \<Rightarrow> (if h \<le> 23 \<and> mi \<le> 59 then
             (if char_at s 0 CHR ''+'' then Some (int (h * 60 + mi))
              else if char_at s 0 CHR ''-'' then Some (- int (h * 60 + mi)) else None) else None)
        | _ \<Rightarrow> None)
     else None)"

definition time_ms :: "nat \<Rightarrow> nat \<Rightarrow> nat \<Rightarrow> nat \<Rightarrow> int option" where
  "time_ms h mi sec ms = (if mi \<le> 59 \<and> sec \<le> 59 \<and> (h \<le> 23 \<or> h = 24 \<and> mi = 0 \<and> sec = 0 \<and> ms = 0)
     then Some (int (((h * 60 + mi) * 60 + sec) * 1000 + ms)) else None)"

text \<open>
  \<open>YYYY-MM-DD\<close>, optionally \<open>THH:mm\<close>, \<open>:ss\<close>, \<open>.sss\<close> and a zone. The outer option says whether the string
  has that shape, the inner one whether its elements are in range.
\<close>

definition iso_day :: "string \<Rightarrow> int option option" where
  "iso_day s = (case (digits_at s 0 4, digits_at s 5 2, digits_at s 8 2) of
     (Some y, Some mo, Some d) \<Rightarrow> (if char_at s 4 CHR ''-'' \<and> char_at s 7 CHR ''-''
        then Some (if 1 \<le> mo \<and> mo \<le> 12 \<and> 1 \<le> d \<and> d \<le> 31 then Some (days_to (int y) mo d) else None)
        else None)
   | _ \<Rightarrow> None)"

definition iso_clock :: "string \<Rightarrow> (nat \<times> nat \<times> nat \<times> nat \<times> string) option" where
  "iso_clock s = (case (digits_at s 0 2, digits_at s 3 2) of
     (Some h, Some mi) \<Rightarrow> (if \<not> char_at s 2 CHR '':'' then None
        else if \<not> char_at s 5 CHR '':'' then Some (h, mi, 0, 0, drop 5 s)
        else (case digits_at s 6 2 of None \<Rightarrow> None
          | Some sec \<Rightarrow> (if \<not> char_at s 8 CHR ''.'' then Some (h, mi, sec, 0, drop 8 s)
              else (case digits_at s 9 3 of None \<Rightarrow> None
                | Some ms \<Rightarrow> Some (h, mi, sec, ms, drop 12 s)))))
   | _ \<Rightarrow> None)"

definition date_get_time :: "env \<Rightarrow> string \<Rightarrow> num option" where
  "date_get_time env s = (case iso_day s of
     None \<Rightarrow> date_other env s
   | Some day \<Rightarrow>
      (if length s = 10 then map_option (\<lambda>d. of_int (d * 86400000)) day
       else if \<not> char_at s 10 CHR ''T'' then date_other env s
       else (case iso_clock (drop 11 s) of
          None \<Rightarrow> date_other env s
        | Some (h, mi, sec, ms, zone) \<Rightarrow>
           (case zone_offset zone of
              None \<Rightarrow> date_other env s
            | Some off \<Rightarrow> (case (day, time_ms h mi sec ms) of
                 (Some d, Some t) \<Rightarrow> Some (of_int (d * 86400000 + t - off * 60000))
               | _ \<Rightarrow> None)))))"

section \<open>Spelling round trips\<close>

lemma code_digit_char [simp]: "d < 10 \<Longrightarrow> code (digit_char d) = 48 + d"
  by (simp add: code_def digit_char_def)

lemma is_digit_digit_char [simp]: "d < 10 \<Longrightarrow> is_digit (digit_char d)"
  by (simp add: is_digit_def)

lemma digit_val_digit_char [simp]: "d < 10 \<Longrightarrow> digit_val (digit_char d) = d"
  by (simp add: digit_val_def)

lemma digits_val_append:
  "digits_val b (s @ [c]) = digits_val b s * b + digit_val c"
  by (simp add: digits_val_def)

lemma show_nat_not_Nil [simp]: "show_nat n \<noteq> []"
  by (subst show_nat.simps) simp

lemma all_digits_show_nat [simp]: "list_all is_digit (show_nat n)"
proof (induction n rule: show_nat.induct)
  case (1 n)
  then show ?case by (subst show_nat.simps) simp
qed

lemma digits_val_show_nat [simp]: "digits_val 10 (show_nat n) = n"
proof (induction n rule: show_nat.induct)
  case (1 n)
  show ?case
  proof (cases "n < 10")
    case True
    then show ?thesis by (subst show_nat.simps) (simp add: digits_val_def)
  next
    case False
    with 1 show ?thesis
      by (subst show_nat.simps) (simp add: digits_val_append)
  qed
qed

lemma decimal_int_show_nat [simp]: "decimal_int (show_nat n) = Some (int n)"
  by (simp add: decimal_int_def all_digits_def)

lemma not_space_digit: "is_digit c \<Longrightarrow> \<not> is_space c"
  by (auto simp: is_digit_def is_space_def)

lemma trim_no_space: "list_all (\<lambda>c. \<not> is_space c) s \<Longrightarrow> trim s = s"
proof -
  have dw: "dropWhile is_space t = t" if "list_all (\<lambda>c. \<not> is_space c) t" for t
    using that by (cases t) simp_all
  assume s: "list_all (\<lambda>c. \<not> is_space c) s"
  then have "list_all (\<lambda>c. \<not> is_space c) (rev s)" by (simp add: list_all_iff)
  with s show ?thesis by (simp add: trim_def dw)
qed

lemma digit_literal_no_prefix:
  assumes "list_all is_digit s" and "\<not> is_digit c"
  shows "\<not> starts_with s [d, c]"
proof
  assume "starts_with s [d, c]"
  then have "c \<in> set (take (Suc (Suc 0)) s)" by (simp add: starts_with_def)
  then have "c \<in> set s" by (meson in_set_takeD)
  with assms show False by (simp add: list_all_iff)
qed

lemma big_int_digits:
  assumes "all_digits s"
  shows "big_int s = Some (int (digits_val 10 s))"
proof -
  from assms have d: "list_all is_digit s" and ne: "s \<noteq> []" by (auto simp: all_digits_def)
  from d have t: "trim s = s"
    by (intro trim_no_space) (auto simp: list_all_iff dest: not_space_digit)
  from d ne have h: "is_digit (hd s)" by (simp add: list_all_iff)
  have "hd s \<noteq> CHR ''-''" "hd s \<noteq> CHR ''+''"
    using h by (auto simp: is_digit_def code_def)
  with d ne t assms show ?thesis
    by (simp add: big_int_def Let_def digit_literal_no_prefix is_digit_def code_def decimal_int_def)
qed

lemma all_digits_show_natI [simp]: "all_digits (show_nat n)"
  by (simp add: all_digits_def)

text \<open>\<open>BigInt(String(n))\<close> is \<open>n\<close>.\<close>

lemma big_int_show_int [simp]: "big_int (show_int n) = Some n"
proof (cases "n < 0")
  case True
  let ?s = "CHR ''-'' # show_nat (nat (- n))"
  have "list_all (\<lambda>c. \<not> is_space c) (show_nat (nat (- n)))"
    using all_digits_show_nat [of "nat (- n)"] by (auto simp: list_all_iff dest: not_space_digit)
  then have "list_all (\<lambda>c. \<not> is_space c) ?s"
    by (simp add: is_space_def code_def)
  then have "trim ?s = ?s" by (rule trim_no_space)
  with True show ?thesis
    by (simp add: big_int_def show_int_def Let_def starts_with_def)
next
  case False
  then show ?thesis by (simp add: show_int_def big_int_digits)
qed

lemma big_of_VInt:
  assumes "\<bar>n\<bar> < 10 ^ 21"
  shows "big_of (VInt n) = Some n"
proof -
  have "\<bar>of_int n\<bar> < (10 ^ 21 :: rat)"
  proof -
    have "of_int \<bar>n\<bar> < (of_int (10 ^ 21) :: rat)" using assms by (simp only: of_int_less_iff)
    then show ?thesis by simp
  qed
  then show ?thesis
    by (simp add: big_of_def VInt_def show_jsnum_def show_num_def is_int_num_def not_le)
qed

lemma big_of_VStr [simp]: "big_of (VStr s) = big_int s"
  by (simp add: big_of_def)

end
