(* ===== verification/Chains.thy ===== *)
theory Chains
  imports JsBase
begin

text \<open>
  \<open>packages/client/src/shared/chains.ts\<close>, \<open>stealth.ts\<close> and \<open>validators.ts\<close>: the chain registry and the
  maps derived from it, the stealth-factory allowlist, and the EVM and Tron address checks. The
  double SHA-256 of the Tron checksum is viem's, so it is the environment's \<open>sha256\<close>.
\<close>

section \<open>The registry\<close>

record chain_definition =
  ch_slug :: string
  ch_id :: int
  ch_name :: string
  ch_short :: string
  ch_explorer :: string
  ch_native :: "string option"

definition chain_list :: "chain_definition list" where
  "chain_list = [
     \<lparr>ch_slug = ''ethereum'', ch_id = 1, ch_name = ''Ethereum'', ch_short = ''ETH'',
       ch_explorer = ''https://etherscan.io'', ch_native = None\<rparr>,
     \<lparr>ch_slug = ''optimism'', ch_id = 10, ch_name = ''Optimism'', ch_short = ''OP'',
       ch_explorer = ''https://optimistic.etherscan.io'', ch_native = None\<rparr>,
     \<lparr>ch_slug = ''polygon'', ch_id = 137, ch_name = ''Polygon'', ch_short = ''POLY'',
       ch_explorer = ''https://polygonscan.com'', ch_native = Some ''POL''\<rparr>,
     \<lparr>ch_slug = ''arbitrum'', ch_id = 42161, ch_name = ''Arbitrum'', ch_short = ''ARB'',
       ch_explorer = ''https://arbiscan.io'', ch_native = None\<rparr>,
     \<lparr>ch_slug = ''base'', ch_id = 8453, ch_name = ''Base'', ch_short = ''BASE'',
       ch_explorer = ''https://basescan.org'', ch_native = None\<rparr>,
     \<lparr>ch_slug = ''robinhood'', ch_id = 4663, ch_name = ''Robinhood'', ch_short = ''HOOD'',
       ch_explorer = ''https://robinhoodchain.blockscout.com'', ch_native = None\<rparr>,
     \<lparr>ch_slug = ''arc'', ch_id = 5042, ch_name = ''Arc'', ch_short = ''ARC'',
       ch_explorer = ''https://explorer.arc.io'', ch_native = Some ''USDC''\<rparr>,
     \<lparr>ch_slug = ''gnosis'', ch_id = 100, ch_name = ''Gnosis'', ch_short = ''GNO'',
       ch_explorer = ''https://gnosisscan.io'', ch_native = Some ''xDAI''\<rparr>]"

definition by_chain_id :: "(chain_definition \<Rightarrow> 'a) \<Rightarrow> (int \<times> 'a) list" where
  "by_chain_id project = foldl (\<lambda>lookup c. alist_put (ch_id c) (project c) lookup) [] chain_list"

definition TRON_CHAIN_ID :: int where
  "TRON_CHAIN_ID = 728126428"

definition is_tron_chain_id :: "int \<Rightarrow> bool" where
  "is_tron_chain_id v \<longleftrightarrow> v = TRON_CHAIN_ID"

definition supported_chain_ids :: "int list" where
  "supported_chain_ids = map ch_id chain_list"

definition is_chain_id :: "int \<Rightarrow> bool" where
  "is_chain_id v \<longleftrightarrow> List.member supported_chain_ids v"

definition is_selectable_chain_id :: "int \<Rightarrow> bool" where
  "is_selectable_chain_id v \<longleftrightarrow> is_chain_id v \<or> is_tron_chain_id v"

definition is_extended_chain_id :: "int \<Rightarrow> bool" where
  "is_extended_chain_id v \<longleftrightarrow> v = 0 \<or> v = TRON_CHAIN_ID \<or> List.member supported_chain_ids v"

definition chain_names :: "(int \<times> string) list" where
  "chain_names = by_chain_id ch_name"

definition chain_short_names :: "(int \<times> string) list" where
  "chain_short_names = alist_put TRON_CHAIN_ID ''TRON'' (by_chain_id ch_short)"

definition chain_explorers :: "(int \<times> string) list" where
  "chain_explorers = by_chain_id ch_explorer"

definition chain_native_currency :: "(int \<times> string) list" where
  "chain_native_currency = by_chain_id (\<lambda>c. or_else (ch_native c) ''ETH'')"

definition extended_chain_names :: "(int \<times> string) list" where
  "extended_chain_names = alist_put TRON_CHAIN_ID ''Tron'' (alist_put 0 ''Xochi'' chain_names)"

text \<open>A template literal prints a missing entry as \<open>undefined\<close>.\<close>

definition extended_chain_name :: "int \<Rightarrow> string" where
  "extended_chain_name c = or_else (map_of extended_chain_names c) ''undefined''"

definition explorer_tx_url :: "int \<Rightarrow> string \<Rightarrow> string" where
  "explorer_tx_url c tx = (if is_tron_chain_id c then ''https://tronscan.org/#/transaction/'' @ tx
     else case map_of chain_explorers c of None \<Rightarrow> [] | Some base \<Rightarrow> base @ ''/tx/'' @ tx)"

definition explorer_address_url :: "int \<Rightarrow> string \<Rightarrow> string" where
  "explorer_address_url c a = (if is_tron_chain_id c then ''https://tronscan.org/#/address/'' @ a
     else case map_of chain_explorers c of None \<Rightarrow> [] | Some base \<Rightarrow> base @ ''/address/'' @ a)"

lemma supported_chain_ids_eval:
  "supported_chain_ids = [1, 10, 137, 42161, 8453, 4663, 5042, 100]"
  by (simp add: supported_chain_ids_def chain_list_def)

lemma is_chain_id_iff: "is_chain_id v \<longleftrightarrow> v \<in> {1, 10, 137, 42161, 8453, 4663, 5042, 100}"
  by (simp add: is_chain_id_def supported_chain_ids_eval)

text \<open>The registry names each chain once, so every derived map is total on the supported ids.\<close>

lemma distinct_chain_ids: "distinct (map ch_id chain_list)"
  by (simp add: chain_list_def)

lemma by_chain_id_total:
  "is_chain_id v \<Longrightarrow> \<exists>c \<in> set chain_list. ch_id c = v \<and> map_of (by_chain_id f) v = Some (f c)"
  by (auto simp: is_chain_id_iff by_chain_id_def chain_list_def)

lemma by_chain_id_only:
  "map_of (by_chain_id f) v = Some x \<Longrightarrow> is_chain_id v"
  by (auto simp: is_chain_id_iff by_chain_id_def chain_list_def split: if_splits)

lemma tron_not_evm: "is_tron_chain_id v \<Longrightarrow> \<not> is_chain_id v"
  by (simp add: is_tron_chain_id_def is_chain_id_iff TRON_CHAIN_ID_def)

section \<open>Stealth factories\<close>

definition SIMPLE_ACCOUNT_FACTORY :: string where
  "SIMPLE_ACCOUNT_FACTORY = ''0x13E9ed32155810FDbd067D4522C492D6f68E5944''"

definition STEALTH_ACCOUNT_SALT :: num where
  "STEALTH_ACCOUNT_SALT = 0"

definition trusted_stealth_factories :: "(int \<times> string list) list" where
  "trusted_stealth_factories = [(1, [SIMPLE_ACCOUNT_FACTORY]), (8453, [SIMPLE_ACCOUNT_FACTORY])]"

definition is_trusted_stealth_factory :: "string option \<Rightarrow> int option \<Rightarrow> bool" where
  "is_trusted_stealth_factory address chain = (case (address, chain) of
     (Some a, Some c) \<Rightarrow> (if a = [] then False else
        (case map_of trusted_stealth_factories c of
           None \<Rightarrow> False
         | Some allowed \<Rightarrow> list_ex (\<lambda>f. to_lower f = to_lower a) allowed))
   | _ \<Rightarrow> False)"

lemma trusted_factory_is_pinned:
  "is_trusted_stealth_factory a c \<Longrightarrow>
     (c = Some 1 \<or> c = Some 8453) \<and> (\<exists>x. a = Some x \<and> to_lower x = to_lower SIMPLE_ACCOUNT_FACTORY)"
  by (auto simp: is_trusted_stealth_factory_def trusted_stealth_factories_def
      split: option.splits if_splits)

section \<open>Addresses\<close>

definition ETH_ADDRESS_LENGTH :: nat where
  "ETH_ADDRESS_LENGTH = 42"

definition ZERO_ADDRESS :: string where
  "ZERO_ADDRESS = ''0x0000000000000000000000000000000000000000''"

definition is_valid_address :: "string \<Rightarrow> bool" where
  "is_valid_address s \<longleftrightarrow>
     starts_with s ''0x'' \<and> length (drop 2 s) = 40 \<and> list_all is_hex_digit (drop 2 s)"

definition BASE58_ALPHABET :: string where
  "BASE58_ALPHABET = ''123456789ABCDEFGHJKLMNPQRSTUVWXYZabcdefghijkmnopqrstuvwxyz''"

definition tron_address_shape :: "string \<Rightarrow> bool" where
  "tron_address_shape s \<longleftrightarrow> take 1 s = ''T'' \<and> length s = 34
     \<and> list_all (List.member BASE58_ALPHABET) (drop 1 s)"

fun index_of :: "string \<Rightarrow> char \<Rightarrow> nat option" where
  "index_of [] c = None"
| "index_of (x # xs) c = (if x = c then Some 0 else map_option Suc (index_of xs c))"

fun base58_acc :: "nat \<Rightarrow> string \<Rightarrow> nat option" where
  "base58_acc acc [] = Some acc"
| "base58_acc acc (c # cs) = (case index_of BASE58_ALPHABET c of
     None \<Rightarrow> None | Some d \<Rightarrow> base58_acc (acc * 58 + d) cs)"

fun bytes_of_nat :: "nat \<Rightarrow> nat list" where
  "bytes_of_nat n = (if n = 0 then [] else bytes_of_nat (n div 256) @ [n mod 256])"

declare bytes_of_nat.simps [simp del]

definition base58_decode :: "string \<Rightarrow> nat list option" where
  "base58_decode s = map_option
     (\<lambda>acc. replicate (length (takeWhile (\<lambda>c. c = CHR ''1'') s)) 0 @ bytes_of_nat acc)
     (base58_acc 0 s)"

definition is_valid_tron_address :: "env \<Rightarrow> string \<Rightarrow> bool" where
  "is_valid_tron_address env s = (if \<not> tron_address_shape s then False else
     (case base58_decode s of
        None \<Rightarrow> False
      | Some decoded \<Rightarrow>
          if length decoded \<noteq> 25 then False
          else if hd decoded \<noteq> 65 then False
          else (let payload = take 21 decoded; checksum = drop 21 decoded;
                    digest = sha256 env (sha256 env payload)
                in length digest \<ge> 4 \<and> checksum = take 4 digest)))"

lemma bytes_of_nat_bound: "b \<in> set (bytes_of_nat n) \<Longrightarrow> b < 256"
proof (induction n rule: bytes_of_nat.induct)
  case (1 n)
  then show ?case by (subst (asm) bytes_of_nat.simps) (auto split: if_splits)
qed

lemma base58_decode_bytes: "base58_decode s = Some bs \<Longrightarrow> list_all (\<lambda>b. b < 256) bs"
  by (auto simp: base58_decode_def list_all_iff dest: bytes_of_nat_bound)

lemma address_not_tron: "is_valid_address s \<Longrightarrow> \<not> is_valid_tron_address env s"
  by (auto simp: is_valid_address_def is_valid_tron_address_def tron_address_shape_def starts_with_def
      split: if_splits option.splits)

end
