(* ===== verification/Intents.thy ===== *)
theory Intents
  imports JsBase
begin

text \<open>
  \<open>packages/client/src/shared/intents.ts\<close>: the vocabularies of the intent system and its two status
  tables (market orders and limit orders), with the reachability facts the trade machine rests on.
\<close>

section \<open>Vocabularies\<close>

datatype settlement_type = Public | Shielded | Stealth

definition settlement_str :: "settlement_type \<Rightarrow> string" where
  "settlement_str t = (case t of Public \<Rightarrow> ''public'' | Shielded \<Rightarrow> ''shielded'' | Stealth \<Rightarrow> ''stealth'')"

definition is_settlement_type :: "jsval \<Rightarrow> bool" where
  "is_settlement_type v \<longleftrightarrow> v = VStr ''public'' \<or> v = VStr ''shielded'' \<or> v = VStr ''stealth''"

definition settlement_of :: "string \<Rightarrow> settlement_type option" where
  "settlement_of s = (if s = ''public'' then Some Public else if s = ''shielded'' then Some Shielded
     else if s = ''stealth'' then Some Stealth else None)"

lemma settlement_of_str [simp]: "settlement_of (settlement_str t) = Some t"
  by (cases t) (simp_all add: settlement_of_def settlement_str_def)

lemma settlement_of_Some_iff: "settlement_of s = Some t \<longleftrightarrow> s = settlement_str t"
  by (cases t) (auto simp: settlement_of_def settlement_str_def)

lemma settlement_str_inject [simp]: "settlement_str s = settlement_str t \<longleftrightarrow> s = t"
  by (metis option.inject settlement_of_str)

datatype intent_status =
    Idle | Pending | Quoting | Quoted | Signing | AwaitingDeposit | Executing | Bridging
  | Settling | Completed | Refunded | Failed | Expired

definition all_statuses :: "intent_status list" where
  "all_statuses = [Idle, Pending, Quoting, Quoted, Signing, AwaitingDeposit, Executing, Bridging,
     Settling, Completed, Refunded, Failed, Expired]"

definition status_str :: "intent_status \<Rightarrow> string" where
  "status_str s = (case s of
     Idle \<Rightarrow> ''idle'' | Pending \<Rightarrow> ''pending'' | Quoting \<Rightarrow> ''quoting'' | Quoted \<Rightarrow> ''quoted''
   | Signing \<Rightarrow> ''signing'' | AwaitingDeposit \<Rightarrow> ''awaiting_deposit'' | Executing \<Rightarrow> ''executing''
   | Bridging \<Rightarrow> ''bridging'' | Settling \<Rightarrow> ''settling'' | Completed \<Rightarrow> ''completed''
   | Refunded \<Rightarrow> ''refunded'' | Failed \<Rightarrow> ''failed'' | Expired \<Rightarrow> ''expired'')"

text \<open>\<open>isIntentStatus\<close>, as a reading: the status a string names.\<close>

definition intent_status_of :: "string \<Rightarrow> intent_status option" where
  "intent_status_of s = find (\<lambda>t. status_str t = s) all_statuses"

definition is_intent_status :: "jsval \<Rightarrow> bool" where
  "is_intent_status v = (case v of VStr s \<Rightarrow> intent_status_of s \<noteq> None | _ \<Rightarrow> False)"

lemma all_statuses_complete [simp]: "s \<in> set all_statuses"
  by (cases s) (simp_all add: all_statuses_def)

lemma intent_status_of_str [simp]: "intent_status_of (status_str s) = Some s"
  by (cases s) (simp_all add: intent_status_of_def all_statuses_def status_str_def)

lemma intent_status_of_Some: "intent_status_of s = Some t \<longleftrightarrow> status_str t = s"
proof
  assume "intent_status_of s = Some t"
  then show "status_str t = s" by (auto simp: intent_status_of_def find_Some_iff)
qed auto

lemma status_str_inject [simp]: "status_str s = status_str t \<longleftrightarrow> s = t"
  by (metis intent_status_of_str option.inject)

definition NOT_EXECUTED_SUBSTATUS :: string where
  "NOT_EXECUTED_SUBSTATUS = ''not_executed''"

section \<open>The market-order table\<close>

fun status_transitions :: "intent_status \<Rightarrow> intent_status list" where
  "status_transitions Idle = [Quoting, Pending]"
| "status_transitions Pending = [Quoting, Failed]"
| "status_transitions Quoting = [Quoted, Failed, Idle, Quoting]"
| "status_transitions Quoted =
     [Signing, AwaitingDeposit, Executing, Completed, Expired, Quoting, Failed, Idle]"
| "status_transitions Signing = [Executing, Completed, Failed, Quoted]"
| "status_transitions AwaitingDeposit =
     [Executing, Bridging, Settling, Completed, Refunded, Failed, Expired, Quoting, Idle]"
| "status_transitions Executing = [Bridging, Settling, Completed, Refunded, Failed]"
| "status_transitions Bridging = [Settling, Completed, Refunded, Failed]"
| "status_transitions Settling = [Completed, Refunded, Failed]"
| "status_transitions Completed = [Idle, Quoting]"
| "status_transitions Refunded = [Idle, Quoting]"
| "status_transitions Failed = [Idle, Quoting]"
| "status_transitions Expired = [Quoting, Idle]"

definition can_transition_to :: "intent_status \<Rightarrow> intent_status \<Rightarrow> bool" where
  "can_transition_to from to \<longleftrightarrow> List.member (status_transitions from) to"

section \<open>The limit-order table\<close>

datatype limit_status =
    LIdle | LimitQuoting | LimitQuoted | LSigning | LWaiting | LTriggered | LExecuting
  | LCompleted | LCancelled | LExpired

fun limit_transitions :: "limit_status \<Rightarrow> limit_status list" where
  "limit_transitions LIdle = [LimitQuoting]"
| "limit_transitions LimitQuoting = [LimitQuoted, LExpired]"
| "limit_transitions LimitQuoted = [LSigning, LExpired, LimitQuoting]"
| "limit_transitions LSigning = [LWaiting, LimitQuoted]"
| "limit_transitions LWaiting = [LTriggered, LCancelled, LExpired]"
| "limit_transitions LTriggered = [LExecuting, LCancelled]"
| "limit_transitions LExecuting = [LCompleted, LCancelled]"
| "limit_transitions LCompleted = [LIdle]"
| "limit_transitions LCancelled = [LIdle]"
| "limit_transitions LExpired = [LIdle, LimitQuoting]"

definition can_limit_order_transition_to :: "limit_status \<Rightarrow> limit_status \<Rightarrow> bool" where
  "can_limit_order_transition_to from to \<longleftrightarrow> List.member (limit_transitions from) to"

section \<open>Labels\<close>

definition status_label :: "intent_status \<Rightarrow> string" where
  "status_label s = (case s of
     Idle \<Rightarrow> ''Ready'' | Pending \<Rightarrow> ''Pending'' | Quoting \<Rightarrow> ''Getting quote...''
   | Quoted \<Rightarrow> ''Quote ready'' | Signing \<Rightarrow> ''Awaiting signature...''
   | AwaitingDeposit \<Rightarrow> ''Waiting for your deposit...'' | Executing \<Rightarrow> ''Submitting...''
   | Bridging \<Rightarrow> ''Bridging...'' | Settling \<Rightarrow> ''Settling...'' | Completed \<Rightarrow> ''Complete''
   | Refunded \<Rightarrow> ''Refunded'' | Failed \<Rightarrow> ''Failed'' | Expired \<Rightarrow> ''Quote expired'')"

definition refund_reason_label :: "string option \<Rightarrow> string" where
  "refund_reason_label code1 =
     (if code1 = Some ''quote_expired''
        then ''The quote expired before your deposit arrived, so it was sent back.''
      else if code1 = Some ''wrong_token''
        then ''A different token arrived than the quote was for, so it was sent back.''
      else if code1 = Some ''deposit_shortfall''
        then ''The deposit was smaller than the quote, so it was sent back.''
      else if code1 = Some ''duplicate_deposit''
        then ''This looked like a repeat of a deposit already handled, so it was sent back.''
      else ''Your deposit was sent back to you.'')"

section \<open>Regions of a table\<close>

text \<open>
  A table with a region that can only be left through its exits: \<open>table_walk\<close> is a sequence of moves the
  table allows, and a walk from the region to a state beyond the exits visits an exit. Both tables
  have such a region, the part of a trade in which funds may be moving.
\<close>

fun table_walk :: "('s \<Rightarrow> 's \<Rightarrow> bool) \<Rightarrow> 's \<Rightarrow> 's list \<Rightarrow> bool" where
  "table_walk can s [] = True"
| "table_walk can s (t # ts) = (can s t \<and> table_walk can t ts)"

locale status_region =
  fixes can :: "'s \<Rightarrow> 's \<Rightarrow> bool"
    and inside :: "'s \<Rightarrow> bool"
    and exits :: "'s \<Rightarrow> bool"
  assumes region_closed: "inside s \<Longrightarrow> can s t \<Longrightarrow> inside t \<or> exits t"
    and exits_outside: "exits s \<Longrightarrow> \<not> inside s"
begin

lemma walk_first_exit:
  assumes "inside s" and "table_walk can s ts" and "\<not> inside (last (s # ts))"
  shows "\<exists>us t vs. ts = us @ t # vs \<and> list_all inside us \<and> exits t"
  using assms
proof (induction ts arbitrary: s)
  case Nil
  then show ?case by simp
next
  case (Cons t ts)
  show ?case
  proof (cases "exits t")
    case True
    then show ?thesis by (intro exI [of _ "[]"]) auto
  next
    case False
    with Cons.prems region_closed have t: "inside t" by auto
    moreover have "table_walk can t ts" "\<not> inside (last (t # ts))" using Cons.prems by simp_all
    ultimately obtain us u vs where "ts = us @ u # vs" "list_all inside us" "exits u"
      using Cons.IH by blast
    with t show ?thesis by (intro exI [of _ "t # us"]) auto
  qed
qed

lemma walk_leaves_by_exit:
  assumes "inside s" and "table_walk can s ts" and "\<not> inside (last (s # ts))"
  shows "\<exists>t \<in> set ts. exits t"
  using walk_first_exit [OF assms] by auto

end

definition market_in_flight :: "intent_status \<Rightarrow> bool" where
  "market_in_flight s \<longleftrightarrow> s = Executing \<or> s = Bridging \<or> s = Settling"

definition market_ended :: "intent_status \<Rightarrow> bool" where
  "market_ended s \<longleftrightarrow> s = Completed \<or> s = Refunded \<or> s = Failed"

definition limit_live :: "limit_status \<Rightarrow> bool" where
  "limit_live s \<longleftrightarrow> s = LWaiting \<or> s = LTriggered \<or> s = LExecuting"

definition limit_ended :: "limit_status \<Rightarrow> bool" where
  "limit_ended s \<longleftrightarrow> s = LCompleted \<or> s = LCancelled \<or> s = LExpired"

interpretation market: status_region can_transition_to market_in_flight market_ended
  by unfold_locales (auto simp: can_transition_to_def market_in_flight_def market_ended_def)

interpretation limit_order: status_region can_limit_order_transition_to limit_live limit_ended
  by unfold_locales (auto simp: can_limit_order_transition_to_def limit_live_def limit_ended_def)

lemma can_transition_to_simps [simp]:
  "can_transition_to Idle t \<longleftrightarrow> t = Quoting \<or> t = Pending"
  "can_transition_to Pending t \<longleftrightarrow> t = Quoting \<or> t = Failed"
  "can_transition_to Quoting t \<longleftrightarrow> t = Quoted \<or> t = Failed \<or> t = Idle \<or> t = Quoting"
  "can_transition_to Quoted t \<longleftrightarrow> t = Signing \<or> t = AwaitingDeposit \<or> t = Executing \<or> t = Completed
     \<or> t = Expired \<or> t = Quoting \<or> t = Failed \<or> t = Idle"
  "can_transition_to Signing t \<longleftrightarrow> t = Executing \<or> t = Completed \<or> t = Failed \<or> t = Quoted"
  "can_transition_to AwaitingDeposit t \<longleftrightarrow> t = Executing \<or> t = Bridging \<or> t = Settling
     \<or> t = Completed \<or> t = Refunded \<or> t = Failed \<or> t = Expired \<or> t = Quoting \<or> t = Idle"
  "can_transition_to Executing t \<longleftrightarrow>
     t = Bridging \<or> t = Settling \<or> t = Completed \<or> t = Refunded \<or> t = Failed"
  "can_transition_to Bridging t \<longleftrightarrow> t = Settling \<or> t = Completed \<or> t = Refunded \<or> t = Failed"
  "can_transition_to Settling t \<longleftrightarrow> t = Completed \<or> t = Refunded \<or> t = Failed"
  "can_transition_to Completed t \<longleftrightarrow> t = Idle \<or> t = Quoting"
  "can_transition_to Refunded t \<longleftrightarrow> t = Idle \<or> t = Quoting"
  "can_transition_to Failed t \<longleftrightarrow> t = Idle \<or> t = Quoting"
  "can_transition_to Expired t \<longleftrightarrow> t = Quoting \<or> t = Idle"
  by (auto simp: can_transition_to_def)

text \<open>The only state that may move to itself is \<open>Quoting\<close>.\<close>

lemma no_self_edge: "can_transition_to s s \<longleftrightarrow> s = Quoting"
  by (cases s) simp_all

lemma terminal_requotes_only:
  "market_ended s \<Longrightarrow> can_transition_to s t \<longleftrightarrow> t = Idle \<or> t = Quoting"
  by (auto simp: market_ended_def)

end
