(* ===== verification/Eip712.thy ===== *)
theory Eip712
  imports JsBase
begin

text \<open>
  Typed data as it is served and the comparisons every value check shares:
  \<open>packages/client/src/shared/eip712.ts\<close> (the shape, the origin-pull amount),
  \<open>packages/signer/src/compare.ts\<close> and \<open>permit2.ts\<close>. The domain and the message are untyped in the
  source (\<open>unknown\<close> off the wire), so they are objects of JavaScript values here.
\<close>

section \<open>Typed data\<close>

record typed_data =
  td_domain :: obj
  td_types :: "(string \<times> (string \<times> string) list) list"
  td_primaryType :: string
  td_message :: obj

abbreviation msg :: "typed_data \<Rightarrow> string \<Rightarrow> jsval" where
  "msg td k \<equiv> obj_get (td_message td) k"

definition PERMIT2_ADDRESS :: string where
  "PERMIT2_ADDRESS = ''0x000000000022D473030F116dDEE9F6B43aC78BA3''"

section \<open>Comparisons\<close>

definition fold_hex :: "string \<Rightarrow> string" where
  "fold_hex v = (if hex_literal_i v then to_lower v else v)"

definition same_addressish :: "string \<Rightarrow> string \<Rightarrow> bool" where
  "same_addressish a b \<longleftrightarrow> fold_hex a = fold_hex b"

definition same_numeric :: "jsval \<Rightarrow> jsval \<Rightarrow> bool" where
  "same_numeric a b = (case (big_of a, big_of b) of
     (Some x, Some y) \<Rightarrow> x = y
   | _ \<Rightarrow> False)"

text \<open>\<open>String(v ?? "")\<close>.\<close>

definition str_or_empty :: "jsval \<Rightarrow> string" where
  "str_or_empty v = js_string (val_or v (VStr []))"

lemma same_addressish_refl [simp]: "same_addressish a a"
  by (simp add: same_addressish_def)

lemma same_addressish_sym: "same_addressish a b \<Longrightarrow> same_addressish b a"
  by (simp add: same_addressish_def)

lemma same_addressish_trans: "same_addressish a b \<Longrightarrow> same_addressish b c \<Longrightarrow> same_addressish a c"
  by (simp add: same_addressish_def)

lemma same_addressish_verbatim:
  "\<not> hex_literal_i a \<Longrightarrow> same_addressish a b \<Longrightarrow> \<not> hex_literal_i b \<Longrightarrow> a = b"
  by (simp add: same_addressish_def fold_hex_def)

lemma same_numeric_iff:
  "same_numeric a b \<longleftrightarrow> (\<exists>n. big_of a = Some n \<and> big_of b = Some n)"
  by (auto simp: same_numeric_def split: option.splits)

lemma same_numeric_sym: "same_numeric a b \<Longrightarrow> same_numeric b a"
  by (auto simp: same_numeric_iff)

lemma same_numeric_trans: "same_numeric a b \<Longrightarrow> same_numeric b c \<Longrightarrow> same_numeric a c"
  by (auto simp: same_numeric_iff)

lemma big_of_VUndef [simp]: "big_of VUndef = None"
  by (simp add: big_of_def big_int_def trim_def is_space_def code_def starts_with_def Let_def
      decimal_int_def all_digits_def is_digit_def)

lemma big_of_VNull [simp]: "big_of VNull = None"
  by (simp add: big_of_def big_int_def trim_def is_space_def code_def starts_with_def Let_def
      decimal_int_def all_digits_def is_digit_def)

text \<open>An absent field is equal to nothing, another absence included.\<close>

lemma same_numeric_absent [simp]: "\<not> same_numeric VUndef b" "\<not> same_numeric a VUndef"
  by (auto simp: same_numeric_iff)

section \<open>The amount an origin pull collects\<close>

definition coerce_pull_amount :: "jsval \<Rightarrow> int option" where
  "coerce_pull_amount v = (case v of
     VBig n \<Rightarrow> Some n
   | VNum n \<Rightarrow> int_of_num n
   | VStr s \<Rightarrow> (if all_digits (trim s) then big_int (trim s) else None)
   | _ \<Rightarrow> None)"

definition extract_pull_amount :: "typed_data \<Rightarrow> int option" where
  "extract_pull_amount pull =
     (if td_primaryType pull = ''ReceiveWithAuthorization''
         \<or> td_primaryType pull = ''TransferWithAuthorization''
      then coerce_pull_amount (msg pull ''value'')
      else if td_primaryType pull = ''PermitWitnessTransferFrom''
      then (if truthy (msg pull ''permitted'')
            then coerce_pull_amount (val_get (msg pull ''permitted'') ''amount'') else None)
      else None)"

lemmas eip712_defs [eval_defs] = fold_hex_def same_addressish_def same_numeric_def str_or_empty_def
  coerce_pull_amount_def extract_pull_amount_def PERMIT2_ADDRESS_def

end
