(* ===== verification/Wire.thy ===== *)
theory Wire
  imports Intents Eip712
begin

text \<open>
  \<open>packages/client/src/machine/wire.ts\<close>: the shapes the client works on, the mapping of a served quote
  and execute body onto them, and the decoder of a served status.

  A wire body has passed its schema when it is mapped, so a declared field, when present, has its
  declared type; the readers below take it out of the object at that type. A field the source
  leaves \<open>unknown\<close> (\<open>escrow\<close>, \<open>route\<close>) stays a JavaScript value.
\<close>

section \<open>Reading a declared field\<close>

definition get_str :: "obj \<Rightarrow> string \<Rightarrow> string option" where
  "get_str w k = (case obj_get w k of VStr s \<Rightarrow> Some s | _ \<Rightarrow> None)"

definition get_num :: "obj \<Rightarrow> string \<Rightarrow> num option" where
  "get_num w k = (case obj_get w k of VNum (Fin r) \<Rightarrow> Some r | _ \<Rightarrow> None)"

definition get_int :: "obj \<Rightarrow> string \<Rightarrow> int option" where
  "get_int w k = map_option floor (get_num w k)"

definition get_bool :: "obj \<Rightarrow> string \<Rightarrow> bool option" where
  "get_bool w k = (case obj_get w k of VBool b \<Rightarrow> Some b | _ \<Rightarrow> None)"

definition get_obj :: "obj \<Rightarrow> string \<Rightarrow> obj option" where
  "get_obj w k = (case obj_get w k of VObj ob \<Rightarrow> Some ob | _ \<Rightarrow> None)"

definition get_list :: "obj \<Rightarrow> string \<Rightarrow> jsval list" where
  "get_list w k = (case obj_get w k of VArr vs \<Rightarrow> vs | _ \<Rightarrow> [])"

definition str_field :: "jsval \<Rightarrow> string \<Rightarrow> string" where
  "str_field v k = (case val_get v k of VStr s \<Rightarrow> s | _ \<Rightarrow> [])"

definition read_type_fields :: "jsval \<Rightarrow> (string \<times> string) list" where
  "read_type_fields v = (case v of
     VArr fs \<Rightarrow> map (\<lambda>f. (str_field f ''name'', str_field f ''type'')) fs | _ \<Rightarrow> [])"

definition read_typed_data :: "obj \<Rightarrow> typed_data" where
  "read_typed_data w = \<lparr>td_domain = or_else (get_obj w ''domain'') [],
     td_types = map (\<lambda>(k, v). (k, read_type_fields v)) (or_else (get_obj w ''types'') []),
     td_primaryType = or_else (get_str w ''primaryType'') [],
     td_message = or_else (get_obj w ''message'') []\<rparr>"

section \<open>Quote requests\<close>

record stealth_meta =
  sm_spendingPubKey :: string
  sm_viewingPubKey :: string
  sm_chainId :: int

record quote_request =
  r_wallet :: "string option"
  r_preview :: "bool option"
  r_allocationKey :: "string option"
  r_fromChainId :: int
  r_toChainId :: int
  r_fromToken :: string
  r_toToken :: string
  r_fromAmount :: string
  r_deadline :: num
  r_slippageBps :: num
  r_trustScore :: "num option"
  r_settlementPreference :: settlement_type
  r_recipientAddress :: "string option"
  r_refundAddress :: "string option"
  r_stealthMetaAddress :: "stealth_meta option"
  r_ref :: "string option"
  r_promo :: "string option"

section \<open>Quotes\<close>

datatype payment_method = Erc3009 | Permit2 | Pimlico | X402 | Mpp | Approval | PayDeposit

definition payment_of :: "string \<Rightarrow> payment_method option" where
  "payment_of s = map_of [(''erc3009'', Erc3009), (''permit2'', Permit2), (''pimlico'', Pimlico),
     (''x402'', X402), (''mpp'', Mpp), (''approval'', Approval), (''deposit'', PayDeposit)] s"

datatype fee_denomination = OriginToken | DestinationToken

record fee_breakdown =
  fb_tier :: string
  fb_assetClass :: string
  fb_gasFloor :: "string \<times> string"
  fb_solverFeeBps :: num
  fb_solverFee :: string
  fb_priceImpactBps :: num
  fb_priceImpact :: string
  fb_venueFeeBps :: num
  fb_venueFee :: string
  fb_routingFeeBps :: num
  fb_routingFee :: string
  fb_totalBps :: num
  fb_totalFee :: string
  fb_totalUsd :: string
  fb_surplusSharePct :: num

record claim_info =
  c_factoryAddress :: "string option"
  c_salt :: "num option"

record quote_response =
  q_success :: bool
  q_intentId :: string
  q_quoteId :: string
  q_canSolve :: bool
  q_preview :: "bool option"
  q_toAmount :: string
  q_minToAmount :: string
  q_xochiFee :: string
  q_xochiFeeRate :: string
  q_costBps :: "num option"
  q_feeBreakdown :: "fee_breakdown option"
  q_feeDenomination :: "fee_denomination option"
  q_estimatedGasCost :: string
  q_streamTopic :: "string option"
  q_expiry :: string
  q_gasless :: bool
  q_gaslessFee :: "string option"
  q_paymentMethod :: "payment_method option"
  q_eip712Data :: "typed_data option"
  q_pullAuthorization :: "typed_data option"
  q_depositAddress :: "string option"
  q_depositAttestation :: "string option"
  q_depositDeadline :: "num option"
  q_settlementType :: "settlement_type option"
  q_escrow :: jsval
  q_recipientAddress :: "string option"
  q_settlementOptions :: "jsval list"
  q_claimInfo :: "claim_info option"
  q_error :: "string option"
  q_errorCategory :: "string option"
  q_referral :: jsval
  q_referralNote :: "string option"
  q_promo :: jsval
  q_promoNote :: "string option"
  q_minimumAmountUsd :: "num option"
  q_minFillableUsd :: "num option"

definition read_fee_breakdown :: "obj \<Rightarrow> fee_breakdown" where
  "read_fee_breakdown w =
     (let str = (\<lambda>k. or_else (get_str w k) []); number = (\<lambda>k. or_else (get_num w k) 0);
          gas = or_else (get_obj w ''gas_floor'') [] in
      \<lparr>fb_tier = str ''tier'', fb_assetClass = str ''asset_class'',
       fb_gasFloor = (or_else (get_str gas ''amount'') [], or_else (get_str gas ''usd'') []),
       fb_solverFeeBps = number ''solver_fee_bps'', fb_solverFee = str ''solver_fee'',
       fb_priceImpactBps = number ''price_impact_bps'', fb_priceImpact = str ''price_impact'',
       fb_venueFeeBps = number ''venue_fee_bps'', fb_venueFee = str ''venue_fee'',
       fb_routingFeeBps = number ''routing_fee_bps'', fb_routingFee = str ''routing_fee'',
       fb_totalBps = number ''total_bps'', fb_totalFee = str ''total_fee'',
       fb_totalUsd = str ''total_usd'', fb_surplusSharePct = number ''surplus_share_pct''\<rparr>)"

definition fee_denomination_of :: "string \<Rightarrow> fee_denomination option" where
  "fee_denomination_of s = (if s = ''origin'' then Some OriginToken
     else if s = ''destination'' then Some DestinationToken else None)"

definition read_resolved_settlement_type :: "obj option \<Rightarrow> settlement_type option" where
  "read_resolved_settlement_type route = (case route of None \<Rightarrow> None
     | Some r \<Rightarrow> (case obj_get r ''settlement_type'' of VStr s \<Rightarrow> settlement_of s | _ \<Rightarrow> None))"

definition map_quote_response :: "obj \<Rightarrow> quote_response" where
  "map_quote_response w = \<lparr>
     q_success = or_else (get_bool w ''success'') False,
     q_intentId = or_else (get_str w ''intent_id'') [],
     q_quoteId = or_else (get_str w ''quote_id'') [],
     q_canSolve = or_else (get_bool w ''can_solve'') False,
     q_preview = get_bool w ''preview'',
     q_toAmount = or_else (get_str w ''to_amount'') ''0'',
     q_minToAmount = or_else (get_str w ''min_to_amount'') ''0'',
     q_xochiFee = or_else (get_str w ''xochi_fee'') ''0'',
     q_xochiFeeRate = or_else (get_str w ''xochi_fee_rate'') [],
     q_costBps = get_num w ''cost_bps'',
     q_feeBreakdown = map_option read_fee_breakdown (get_obj w ''fee_breakdown''),
     q_feeDenomination = Option.bind (get_str w ''fee_denomination'') fee_denomination_of,
     q_estimatedGasCost = or_else (get_str w ''estimated_gas_cost'') [],
     q_streamTopic = get_str w ''stream_topic'',
     q_expiry = or_else (get_str w ''expiry'') [],
     q_gasless = or_else (get_bool w ''gasless'') False,
     q_gaslessFee = get_str w ''gasless_fee'',
     q_paymentMethod = Option.bind (get_str w ''payment_method'') payment_of,
     q_eip712Data = map_option read_typed_data (get_obj w ''eip712''),
     q_pullAuthorization = map_option read_typed_data (get_obj w ''pull_authorization''),
     q_depositAddress = get_str w ''deposit_address'',
     q_depositAttestation = get_str w ''deposit_attestation'',
     q_depositDeadline = get_num w ''deposit_deadline'',
     q_settlementType = read_resolved_settlement_type (get_obj w ''route''),
     q_escrow = obj_get w ''escrow'',
     q_recipientAddress = get_str w ''recipient_address'',
     q_settlementOptions = get_list w ''settlement_options'',
     q_claimInfo = map_option (\<lambda>c. \<lparr>c_factoryAddress = get_str c ''factory_address'',
        c_salt = get_num c ''salt''\<rparr>) (get_obj w ''claim_info''),
     q_error = get_str w ''error'',
     q_errorCategory = get_str w ''error_category'',
     q_referral = obj_get w ''referral'',
     q_referralNote = get_str w ''referral_note'',
     q_promo = obj_get w ''promo'',
     q_promoNote = get_str w ''promo_note'',
     q_minimumAmountUsd = get_num w ''minimum_amount_usd'',
     q_minFillableUsd = get_num w ''min_fillable_usd''\<rparr>"

section \<open>Served statuses\<close>

text \<open>
  \<open>GRANULAR_WIRE_STATUS[raw]\<close> indexes a plain object, so beside its own keys it finds the names every
  object inherits from \<open>Object.prototype\<close>; those are functions (or the prototype itself), not
  statuses, and count as found. A decoded status is therefore a status or such a value.
\<close>

definition prototype_keys :: "string list" where
  "prototype_keys = [''constructor'', ''__defineGetter__'', ''__defineSetter__'', ''hasOwnProperty'',
     ''__lookupGetter__'', ''__lookupSetter__'', ''isPrototypeOf'', ''propertyIsEnumerable'',
     ''toString'', ''valueOf'', ''__proto__'', ''toLocaleString'']"

datatype status_value = StatusOf intent_status | NotAStatus string

datatype decoded_status = Mapped status_value | Unmapped string | Absent

definition granular_wire_status :: "(string \<times> intent_status) list" where
  "granular_wire_status = [(''pulling'', Executing), (''pulled'', Executing), (''filling'', Settling),
     (''filled'', Completed), (''refunding'', Settling), (''pull_failed'', Failed),
     (''fill_failed'', Failed), (''refund_failed'', Failed)]"

definition granular_lookup :: "string \<Rightarrow> status_value option" where
  "granular_lookup raw = (case map_of granular_wire_status raw of
     Some s \<Rightarrow> Some (StatusOf s)
   | None \<Rightarrow> (if List.member prototype_keys raw then Some (NotAStatus raw) else None))"

definition decode_wire_status :: "jsval \<Rightarrow> decoded_status" where
  "decode_wire_status raw = (case raw of
     VStr s \<Rightarrow> (case intent_status_of s of
        Some t \<Rightarrow> Mapped (StatusOf t)
      | None \<Rightarrow> (case granular_lookup s of Some v \<Rightarrow> Mapped v | None \<Rightarrow> Unmapped s))
   | _ \<Rightarrow> Absent)"

definition decoded_value :: "decoded_status \<Rightarrow> status_value" where
  "decoded_value d = (case d of Mapped v \<Rightarrow> v | _ \<Rightarrow> StatusOf Executing)"

definition is_terminal_intent_status :: "status_value \<Rightarrow> bool" where
  "is_terminal_intent_status v \<longleftrightarrow> v = StatusOf Completed \<or> v = StatusOf Failed
     \<or> v = StatusOf Expired \<or> v = StatusOf Refunded"

definition withheld_settlement_confirmed :: "jsval \<Rightarrow> jsval \<Rightarrow> jsval \<Rightarrow> bool" where
  "withheld_settlement_confirmed status withheld confirmed =
     (if withheld \<noteq> VBool True \<or> confirmed \<noteq> VBool True then False
      else (case decode_wire_status status of
         Mapped v \<Rightarrow>
          (if (case status of VStr s \<Rightarrow> starts_with s ''refund'' | _ \<Rightarrow> False) then False
           else \<not> (is_terminal_intent_status v \<and> v \<noteq> StatusOf Completed))
       | _ \<Rightarrow> False))"

section \<open>Execute\<close>

record execute_request =
  x_intentId :: string
  x_quoteId :: string
  x_signature :: string
  x_nonce :: num
  x_pullSignature :: "string option"

record execute_response =
  e_success :: bool
  e_intentId :: string
  e_status :: string
  e_txHash :: "string option"
  e_receivingTxHash :: "string option"
  e_settlementTxHash :: "string option"
  e_settlementChainId :: "int option"
  e_bridgeTxHash :: "string option"
  e_reconciling :: "bool option"
  e_error :: "string option"
  e_substatus :: "string option"
  e_noteCommitment :: "string option"
  e_stealthAddress :: "string option"
  e_ephemeralPubKey :: "string option"
  e_viewTag :: "int option"
  e_readToken :: "string option"

definition read_token_pattern :: "string \<Rightarrow> bool" where
  "read_token_pattern s \<longleftrightarrow> length s = 43 \<and>
     list_all (\<lambda>c. is_digit c \<or> 65 \<le> code c \<and> code c \<le> 90 \<or> 97 \<le> code c \<and> code c \<le> 122
       \<or> c = CHR ''_'' \<or> c = CHR ''-'') s"

definition map_execute_response :: "obj \<Rightarrow> execute_response" where
  "map_execute_response w = \<lparr>
     e_success = or_else (get_bool w ''success'') False,
     e_intentId = or_else (get_str w ''intent_id'') [],
     e_status = or_else (get_str w ''status'') [],
     e_txHash = get_str w ''tx_hash'',
     e_receivingTxHash = get_str w ''receiving_tx_hash'',
     e_settlementTxHash = get_str w ''settlement_tx_hash'',
     e_settlementChainId = get_int w ''settlement_chain_id'',
     e_bridgeTxHash = get_str w ''bridge_tx_hash'',
     e_reconciling = get_bool w ''reconciling'',
     e_error = get_str w ''error'',
     e_substatus = get_str w ''substatus'',
     e_noteCommitment = get_str w ''note_commitment'',
     e_stealthAddress = get_str w ''stealth_address'',
     e_ephemeralPubKey = get_str w ''ephemeral_pub_key'',
     e_viewTag = get_int w ''view_tag'',
     e_readToken = (case get_str w ''read_token'' of
        Some t \<Rightarrow> (if read_token_pattern t then Some t else None) | None \<Rightarrow> None)\<rparr>"

section \<open>Status polls\<close>

text \<open>A field the source types \<open>T | null\<close> or optional is an option.\<close>

record intent_status_data =
  d_intentId :: "string option"
  d_status :: status_value
  d_unmapped :: bool
  d_txHash :: "string option"
  d_receivingTxHash :: "string option"
  d_settlementTxHash :: "string option"
  d_settlementChainId :: "num option"
  d_error :: "string option"
  d_refundReason :: "string option"
  d_substatus :: "string option"
  d_terminal :: bool
  d_legsWithheld :: bool
  d_settlementConfirmed :: bool

datatype status_result = StatusData intent_status_data | NotFound | NoStatus

record status_message =
  w_intentId :: string
  w_status :: status_value
  w_txHash :: "string option"
  w_receivingTxHash :: "string option"
  w_settlementTxHash :: "string option"
  w_settlementChainId :: "num option"
  w_reconciling :: "bool option"
  w_substatus :: "string option"
  w_error :: "string option"
  w_refundReason :: "string option"

section \<open>Intent records\<close>

record intent_record =
  ir_id :: string
  ir_walletAddress :: string
  ir_status :: string
  ir_fromChainId :: "int option"
  ir_toChainId :: "int option"
  ir_fromToken :: string
  ir_toToken :: string
  ir_fromAmount :: "string option"
  ir_toAmount :: "string option"
  ir_quoteId :: string
  ir_tier :: string
  ir_feeRate :: num
  ir_settlementType :: string
  ir_aztecNoteHash :: "string option"
  ir_txHash :: "string option"
  ir_settlementTxHash :: "string option"
  ir_settlementChainId :: "int option"
  ir_createdAt :: "string option"
  ir_updatedAt :: "string option"
  ir_error :: "string option"
  ir_substatus :: "string option"

record withheld_record =
  wr_id :: string
  wr_status :: status_value
  wr_unmapped :: bool
  wr_fromChainId :: "int option"
  wr_toChainId :: "int option"
  wr_settlementType :: "string option"
  wr_error :: "string option"
  wr_substatus :: "string option"
  wr_settlementConfirmed :: bool

datatype intent_read = FullRecord intent_record | WithheldRecord withheld_record

definition map_intent_record :: "obj \<Rightarrow> intent_record" where
  "map_intent_record w = \<lparr>
     ir_id = or_else (get_str w ''id'') [],
     ir_walletAddress = or_else (get_str w ''wallet_address'') [],
     ir_status = or_else (get_str w ''status'') [],
     ir_fromChainId = get_int w ''from_chain_id'', ir_toChainId = get_int w ''to_chain_id'',
     ir_fromToken = or_else (get_str w ''from_token'') [],
     ir_toToken = or_else (get_str w ''to_token'') [],
     ir_fromAmount = get_str w ''from_amount'', ir_toAmount = get_str w ''to_amount'',
     ir_quoteId = or_else (get_str w ''quote_id'') [],
     ir_tier = or_else (get_str w ''tier'') [],
     ir_feeRate = or_else (get_num w ''fee_rate'') 0,
     ir_settlementType = or_else (get_str w ''settlement_type'') ''public'',
     ir_aztecNoteHash = get_str w ''aztec_note_hash'',
     ir_txHash = get_str w ''tx_hash'',
     ir_settlementTxHash = get_str w ''settlement_tx_hash'',
     ir_settlementChainId = get_int w ''settlement_chain_id'',
     ir_createdAt = get_str w ''created_at'', ir_updatedAt = get_str w ''updated_at'',
     ir_error = get_str w ''error'', ir_substatus = get_str w ''substatus''\<rparr>"

definition map_intent_read :: "obj \<Rightarrow> intent_read" where
  "map_intent_read w = (if obj_get w ''legs_withheld'' \<noteq> VBool True then FullRecord (map_intent_record w)
     else (let decoded = decode_wire_status (obj_get w ''status'') in
       WithheldRecord \<lparr>
         wr_id = or_else (get_str w ''id'') [],
         wr_status = decoded_value decoded,
         wr_unmapped = (case decoded of Unmapped _ \<Rightarrow> True | _ \<Rightarrow> False),
         wr_fromChainId = get_int w ''from_chain_id'', wr_toChainId = get_int w ''to_chain_id'',
         wr_settlementType = get_str w ''settlement_type'',
         wr_error = get_str w ''error'', wr_substatus = get_str w ''substatus'',
         wr_settlementConfirmed = withheld_settlement_confirmed (obj_get w ''status'')
            (obj_get w ''legs_withheld'') (obj_get w ''settlement_confirmed'')\<rparr>))"

section \<open>Race messages\<close>

definition is_race_message :: "jsval \<Rightarrow> bool" where
  "is_race_message v = (case v of
     VObj ob \<Rightarrow> (case obj_get ob ''type'' of
        VStr t \<Rightarrow> List.member [''race_started'', ''solver_bid'', ''race_won''] t
          \<and> (case obj_get ob ''intentId'' of VStr _ \<Rightarrow> True | _ \<Rightarrow> False)
      | _ \<Rightarrow> False)
   | _ \<Rightarrow> False)"

section \<open>Facts of the decoder\<close>

lemma granular_lookup_Some:
  "granular_lookup s = Some (StatusOf t) \<longleftrightarrow> map_of granular_wire_status s = Some t"
  by (auto simp: granular_lookup_def split: option.splits if_splits)

lemma status_str_not_granular: "map_of granular_wire_status (status_str t) = None"
  by (cases t) (simp_all add: granular_wire_status_def status_str_def)

lemma decode_own_status [simp]: "decode_wire_status (VStr (status_str t)) = Mapped (StatusOf t)"
  by (simp add: decode_wire_status_def)

lemma decode_completed_only:
  "decoded_value (decode_wire_status raw) = StatusOf Completed \<longleftrightarrow>
     raw = VStr ''completed'' \<or> raw = VStr ''filled''"
proof (cases "\<exists>s. raw = VStr s")
  case False
  then show ?thesis by (cases raw) (auto simp: decode_wire_status_def decoded_value_def)
next
  case True
  then obtain s where raw: "raw = VStr s" by blast
  show ?thesis
  proof (cases "intent_status_of s")
    case (Some t)
    then have s: "s = status_str t" by (simp add: intent_status_of_Some)
    with raw have "decoded_value (decode_wire_status raw) = StatusOf t"
      by (simp add: decoded_value_def)
    with raw s show ?thesis by (cases t) (simp_all add: status_str_def)
  next
    case None
    then have "s \<noteq> ''completed''"
      by (auto simp: intent_status_of_def all_statuses_def status_str_def)
    with raw None show ?thesis
      by (auto simp: decode_wire_status_def decoded_value_def granular_lookup_def
          granular_wire_status_def split: option.splits if_splits)
  qed
qed

end
