(* ===== verification/Validate.thy ===== *)
theory Validate
  imports Chains Wire
begin

text \<open>
  \<open>packages/client/src/machine/validateRequest.ts\<close>: the quote request validators. A validator is a
  function into a check; \<open>chain_validators\<close> is the source's \<open>chain\<close>, the first refusal in order. The
  request is \<open>Partial\<close>, so every field of it is optional here.
\<close>

section \<open>Validators\<close>

type_synonym 'a validator = "'a \<Rightarrow> string check"

definition chain_validators :: "'a validator list \<Rightarrow> 'a validator" where
  "chain_validators vs = (\<lambda>value. check_all (map (\<lambda>v. v value) vs))"

definition not_empty :: "string validator" where
  "not_empty s = refuse_if (s = [] \<or> trim s = []) ''Required''"

definition starts_with_hex :: "string validator" where
  "starts_with_hex s = refuse_if (\<not> starts_with s ''0x'') ''Must start with 0x''"

definition has_correct_length :: "string validator" where
  "has_correct_length s = refuse_if (length s \<noteq> ETH_ADDRESS_LENGTH) ''Must be 42 characters''"

definition has_valid_hex_chars :: "string validator" where
  "has_valid_hex_chars s = refuse_if (\<not> is_valid_address s) ''Contains invalid characters''"

definition not_equal :: "'a \<Rightarrow> string \<Rightarrow> 'a validator" where
  "not_equal forbidden message v = refuse_if (v = forbidden) message"

definition validate_address :: "string validator" where
  "validate_address = chain_validators [not_empty, starts_with_hex, has_correct_length,
     has_valid_hex_chars, not_equal ZERO_ADDRESS ''Zero address is not allowed'']"

definition validate_token_address :: "string validator" where
  "validate_token_address = chain_validators [validate_address,
     not_equal ZERO_ADDRESS ''Use wrapped token address (WETH)'']"

definition error_of :: "string check \<Rightarrow> string" where
  "error_of r = (case r of Inr _ \<Rightarrow> [] | Inl e \<Rightarrow> e)"

section \<open>Fields\<close>

record swap_params =
  p_wallet :: "string option"
  p_preview :: bool
  p_fromChainId :: "int option"
  p_toChainId :: "int option"
  p_fromToken :: "string option"
  p_toToken :: "string option"
  p_fromAmount :: "string option"
  p_deadline :: "num option"
  p_slippageBps :: "num option"
  p_settlementPreference :: "string option"
  p_ref :: "string option"
  p_promo :: "string option"

definition blank :: "string option \<Rightarrow> bool" where
  "blank s \<longleftrightarrow> s = None \<or> s = Some []"

definition validate_wallet :: "string option \<Rightarrow> string list" where
  "validate_wallet wallet = (if blank wallet then [''Wallet is required'']
     else if \<not> is_ok (validate_address (the wallet))
       then [''Wallet: '' @ error_of (validate_address (the wallet))] else [])"

definition validate_from_chain :: "int option \<Rightarrow> string list" where
  "validate_from_chain c = (case c of None \<Rightarrow> [''Source chain is required'']
     | Some i \<Rightarrow> if \<not> is_chain_id i \<and> \<not> is_tron_chain_id i then [''Invalid source chain''] else [])"

definition validate_to_chain :: "int option \<Rightarrow> string list" where
  "validate_to_chain c = (case c of None \<Rightarrow> [''Destination chain is required'']
     | Some i \<Rightarrow> if \<not> is_chain_id i \<and> \<not> is_tron_chain_id i then [''Invalid destination chain''] else [])"

definition validate_from_token :: "env \<Rightarrow> string option \<Rightarrow> string list" where
  "validate_from_token env token = (if blank token then [''Source token is required'']
     else if is_ok (validate_token_address (the token)) \<or> is_valid_tron_address env (the token) then []
     else [''Source token: '' @ error_of (validate_token_address (the token))])"

definition validate_to_token :: "env \<Rightarrow> string option \<Rightarrow> string list" where
  "validate_to_token env token = (if blank token then [''Destination token is required'']
     else if is_ok (validate_token_address (the token)) \<or> is_valid_tron_address env (the token) then []
     else [''Destination token: '' @ error_of (validate_token_address (the token))])"

definition validate_from_amount :: "string option \<Rightarrow> string list" where
  "validate_from_amount amount = (if blank amount then [''Amount is required'']
     else (case big_int (the amount) of
        None \<Rightarrow> [''Invalid amount format'']
      | Some n \<Rightarrow> if n > 0 then [] else [''Amount must be greater than 0'']))"

definition MAX_DEADLINE_OFFSET_SEC :: num where
  "MAX_DEADLINE_OFFSET_SEC = 3600"

definition MAX_SLIPPAGE_BPS :: num where
  "MAX_SLIPPAGE_BPS = 50 * 100"

definition MAX_QUOTE_CODE_LENGTH :: nat where
  "MAX_QUOTE_CODE_LENGTH = 64"

definition validate_deadline :: "num option \<Rightarrow> num \<Rightarrow> string list" where
  "validate_deadline deadline now_ms = (case deadline of None \<Rightarrow> [''Deadline is required'']
     | Some d \<Rightarrow> (let now = of_int \<lfloor>now_ms / 1000\<rfloor> in
         if d \<le> now then [''Deadline must be in the future'']
         else if d > now + MAX_DEADLINE_OFFSET_SEC then [''Deadline cannot exceed 1 hour''] else []))"

definition validate_slippage_bps :: "num option \<Rightarrow> string list" where
  "validate_slippage_bps bps = (case bps of None \<Rightarrow> [''Slippage tolerance is required'']
     | Some b \<Rightarrow> if b < 1 then [''Slippage must be at least 0.01%'']
         else if b > MAX_SLIPPAGE_BPS then [''Slippage cannot exceed 50%''] else [])"

definition validate_settlement :: "string option \<Rightarrow> string list" where
  "validate_settlement pref = (if blank pref then [''Settlement preference is required'']
     else if \<not> is_settlement_type (VStr (the pref)) then [''Invalid settlement preference''] else [])"

definition validate_code :: "string option \<Rightarrow> string \<Rightarrow> string list" where
  "validate_code c name = (case c of None \<Rightarrow> []
     | Some s \<Rightarrow> if length s \<le> MAX_QUOTE_CODE_LENGTH then []
         else [''Invalid '' @ name @ '' code: at most 64 characters''])"

definition validate_same_token :: "swap_params \<Rightarrow> string list" where
  "validate_same_token p =
     (if \<not> blank (p_fromToken p) \<and> \<not> blank (p_toToken p) \<and> p_fromChainId p = p_toChainId p
         \<and> to_lower (the (p_fromToken p)) = to_lower (the (p_toToken p))
      then [''Cannot swap token to itself''] else [])"

definition validate_swap_params :: "env \<Rightarrow> swap_params \<Rightarrow> num \<Rightarrow> string list" where
  "validate_swap_params env p now_ms =
     (if p_preview p then [] else validate_wallet (p_wallet p))
     @ validate_from_chain (p_fromChainId p)
     @ validate_to_chain (p_toChainId p)
     @ validate_from_token env (p_fromToken p)
     @ validate_to_token env (p_toToken p)
     @ validate_from_amount (p_fromAmount p)
     @ validate_deadline (p_deadline p) now_ms
     @ validate_slippage_bps (p_slippageBps p)
     @ validate_settlement (p_settlementPreference p)
     @ validate_same_token p
     @ validate_code (p_ref p) ''referral''
     @ validate_code (p_promo p) ''promo''"

text \<open>A full request as the validator reads it.\<close>

definition params_of_request :: "quote_request \<Rightarrow> swap_params" where
  "params_of_request r = \<lparr>p_wallet = r_wallet r, p_preview = or_else (r_preview r) False,
     p_fromChainId = Some (r_fromChainId r), p_toChainId = Some (r_toChainId r),
     p_fromToken = Some (r_fromToken r), p_toToken = Some (r_toToken r),
     p_fromAmount = Some (r_fromAmount r), p_deadline = Some (r_deadline r),
     p_slippageBps = Some (r_slippageBps r),
     p_settlementPreference = Some (settlement_str (r_settlementPreference r)),
     p_ref = r_ref r, p_promo = r_promo r\<rparr>"

section \<open>What an accepted request is\<close>

lemma chain_validators_ok:
  "chain_validators vs a = Inr u \<longleftrightarrow> (\<forall>v \<in> set vs. v a = Inr ())"
  by (auto simp: chain_validators_def)

lemma validate_address_ok:
  "validate_address s = Inr u \<longleftrightarrow> is_valid_address s \<and> s \<noteq> ZERO_ADDRESS"
proof
  assume "validate_address s = Inr u"
  then show "is_valid_address s \<and> s \<noteq> ZERO_ADDRESS"
    by (simp add: validate_address_def chain_validators_ok has_valid_hex_chars_def not_equal_def)
next
  assume a: "is_valid_address s \<and> s \<noteq> ZERO_ADDRESS"
  then have p: "take 2 s = ''0x''" and l: "length (drop 2 s) = 40"
    by (simp_all add: is_valid_address_def starts_with_def numeral_2_eq_2)
  from l have len: "length s = 42" by simp
  obtain t where s: "s = CHR ''0'' # CHR ''x'' # t"
    using p by (cases s; cases "tl s") (auto simp: numeral_2_eq_2)
  have hex: "list_all is_hex_digit t" using a s by (simp add: is_valid_address_def)
  have "list_all (\<lambda>c. \<not> is_space c) s"
    using hex s by (auto simp: list_all_iff is_hex_digit_def is_digit_def is_space_def code_def)
  then have "trim s = s" by (rule trim_no_space)
  with a s p len show "validate_address s = Inr u"
    by (simp add: validate_address_def chain_validators_ok has_valid_hex_chars_def not_equal_def
        not_empty_def starts_with_hex_def has_correct_length_def ETH_ADDRESS_LENGTH_def
        starts_with_def)
qed

lemma is_ok_iff: "is_ok r \<longleftrightarrow> (\<exists>a. r = Inr a)"
  by (cases r) auto

lemma validate_token_address_ok:
  "is_ok (validate_token_address s) \<longleftrightarrow> is_valid_address s \<and> s \<noteq> ZERO_ADDRESS"
  by (auto simp: is_ok_iff validate_token_address_def chain_validators_ok validate_address_ok
      not_equal_def)

lemma validate_address_is_ok:
  "is_ok (validate_address s) \<longleftrightarrow> is_valid_address s \<and> s \<noteq> ZERO_ADDRESS"
  by (auto simp: is_ok_iff validate_address_ok)

definition sendable :: "env \<Rightarrow> swap_params \<Rightarrow> num \<Rightarrow> bool" where
  "sendable env p now_ms \<longleftrightarrow>
     (p_preview p \<or> (\<exists>w. p_wallet p = Some w \<and> is_valid_address w \<and> w \<noteq> ZERO_ADDRESS))
   \<and> (\<exists>c. p_fromChainId p = Some c \<and> is_selectable_chain_id c)
   \<and> (\<exists>c. p_toChainId p = Some c \<and> is_selectable_chain_id c)
   \<and> (\<exists>t. p_fromToken p = Some t \<and> (is_valid_address t \<and> t \<noteq> ZERO_ADDRESS \<or> is_valid_tron_address env t))
   \<and> (\<exists>t. p_toToken p = Some t \<and> (is_valid_address t \<and> t \<noteq> ZERO_ADDRESS \<or> is_valid_tron_address env t))
   \<and> (\<exists>a n. p_fromAmount p = Some a \<and> a \<noteq> [] \<and> big_int a = Some n \<and> n > 0)
   \<and> (\<exists>d. p_deadline p = Some d \<and> of_int \<lfloor>now_ms / 1000\<rfloor> < d \<and> d \<le> of_int \<lfloor>now_ms / 1000\<rfloor> + 3600)
   \<and> (\<exists>b. p_slippageBps p = Some b \<and> 1 \<le> b \<and> b \<le> 5000)
   \<and> (\<exists>t. p_settlementPreference p = Some (settlement_str t))
   \<and> \<not> (p_fromChainId p = p_toChainId p
        \<and> map_option to_lower (p_fromToken p) = map_option to_lower (p_toToken p))
   \<and> (\<forall>c \<in> set_option (p_ref p) \<union> set_option (p_promo p). length c \<le> 64)"

lemma validate_wallet_ok:
  "validate_wallet w = [] \<longleftrightarrow> (\<exists>a. w = Some a \<and> is_valid_address a \<and> a \<noteq> ZERO_ADDRESS)"
  by (cases w) (auto simp: validate_wallet_def blank_def validate_address_is_ok is_valid_address_def)

lemma validate_chain_ok:
  "validate_from_chain c = [] \<longleftrightarrow> (\<exists>i. c = Some i \<and> is_selectable_chain_id i)"
  "validate_to_chain c = [] \<longleftrightarrow> (\<exists>i. c = Some i \<and> is_selectable_chain_id i)"
  by (auto simp: validate_from_chain_def validate_to_chain_def is_selectable_chain_id_def
      split: option.splits)

lemma address_not_Nil: "is_valid_address t \<Longrightarrow> t \<noteq> []"
  by (auto simp: is_valid_address_def)

lemma tron_not_Nil: "is_valid_tron_address env t \<Longrightarrow> t \<noteq> []"
  by (auto simp: is_valid_tron_address_def tron_address_shape_def starts_with_def)

lemma validate_token_ok:
  "validate_from_token env t = [] \<longleftrightarrow> (\<exists>a. t = Some a \<and>
     (is_valid_address a \<and> a \<noteq> ZERO_ADDRESS \<or> is_valid_tron_address env a))"
  "validate_to_token env t = [] \<longleftrightarrow> (\<exists>a. t = Some a \<and>
     (is_valid_address a \<and> a \<noteq> ZERO_ADDRESS \<or> is_valid_tron_address env a))"
  by (cases t; auto simp: validate_from_token_def validate_to_token_def blank_def
      validate_token_address_ok is_valid_address_def dest: tron_not_Nil)+

lemma validate_from_amount_ok:
  "validate_from_amount a = [] \<longleftrightarrow> (\<exists>s n. a = Some s \<and> s \<noteq> [] \<and> big_int s = Some n \<and> n > 0)"
  by (cases a) (auto simp: validate_from_amount_def blank_def split: option.splits)

lemma validate_deadline_ok:
  "validate_deadline d now_ms = [] \<longleftrightarrow> (\<exists>t. d = Some t \<and> of_int \<lfloor>now_ms / 1000\<rfloor> < t
     \<and> t \<le> of_int \<lfloor>now_ms / 1000\<rfloor> + 3600)"
  by (cases d) (auto simp: validate_deadline_def Let_def MAX_DEADLINE_OFFSET_SEC_def)

lemma validate_slippage_ok:
  "validate_slippage_bps b = [] \<longleftrightarrow> (\<exists>x. b = Some x \<and> 1 \<le> x \<and> x \<le> 5000)"
  by (cases b) (auto simp: validate_slippage_bps_def MAX_SLIPPAGE_BPS_def)

lemma settlement_str_not_Nil [simp]: "settlement_str t \<noteq> []"
  by (cases t) (simp_all add: settlement_str_def)

lemma is_settlement_type_str: "is_settlement_type (VStr s) \<longleftrightarrow> (\<exists>t. s = settlement_str t)"
proof -
  have "(\<exists>t. s = settlement_str t) \<longleftrightarrow>
      s = settlement_str Public \<or> s = settlement_str Shielded \<or> s = settlement_str Stealth"
    by (metis settlement_type.exhaust)
  then show ?thesis by (simp add: is_settlement_type_def settlement_str_def)
qed

lemma validate_settlement_ok:
  "validate_settlement p = [] \<longleftrightarrow> (\<exists>t. p = Some (settlement_str t))"
  by (cases p) (auto simp: validate_settlement_def blank_def is_settlement_type_str)

lemma validate_code_ok: "validate_code c name = [] \<longleftrightarrow> (\<forall>s \<in> set_option c. length s \<le> 64)"
  by (cases c) (auto simp: validate_code_def MAX_QUOTE_CODE_LENGTH_def)

lemmas validator_ok = validate_wallet_ok validate_chain_ok validate_token_ok
  validate_from_amount_ok validate_deadline_ok validate_slippage_ok validate_settlement_ok
  validate_code_ok

lemma validate_swap_params_ok:
  "validate_swap_params env p now_ms = [] \<longleftrightarrow> sendable env p now_ms"
proof -
  have same: "validate_same_token p = [] \<longleftrightarrow>
      \<not> (p_fromChainId p = p_toChainId p
        \<and> map_option to_lower (p_fromToken p) = map_option to_lower (p_toToken p))"
    if "validate_from_token env (p_fromToken p) = []" and "validate_to_token env (p_toToken p) = []"
  proof -
    from that obtain a b where "p_fromToken p = Some a" "p_toToken p = Some b" "a \<noteq> []" "b \<noteq> []"
      unfolding validate_token_ok using tron_not_Nil address_not_Nil by blast
    then show ?thesis by (auto simp: validate_same_token_def blank_def)
  qed
  have codes: "(\<forall>c \<in> set_option (p_ref p) \<union> set_option (p_promo p). length c \<le> 64) \<longleftrightarrow>
      validate_code (p_ref p) ''referral'' = [] \<and> validate_code (p_promo p) ''promo'' = []"
    by (auto simp: validate_code_ok)
  show ?thesis
    unfolding sendable_def validate_swap_params_def codes
    unfolding validator_ok [symmetric] append_is_Nil_conv
    using same by (auto simp: validator_ok)
qed

text \<open>
  C18. Validation accepts exactly the sendable requests: both chains known, each token a non-zero EVM address or a
  Tron address, a positive integer amount, a deadline after the current second and at most an hour ahead,
  slippage between 0.01% and 50%, a known settlement, tokens that differ unless the chains do, codes of
  at most 64 characters, and a non-zero EVM wallet unless the request only asks for a price. As in the code, a
  token is not held to the family of its chain: a Tron token on an EVM chain, or an EVM token on
  Tron, is accepted. Deadline, slippage and clock are finite numbers.
\<close>

theorem validate_swap_params_sound_complete:
  "validate_swap_params env p now_ms = [] \<longleftrightarrow> sendable env p now_ms"
  by (rule validate_swap_params_ok)

end
