(* ===== verification/IntentVerify.thy ===== *)
theory IntentVerify
  imports Eip712
begin

text \<open>
  \<open>packages/signer/src/intent-verify.ts\<close> and \<open>escrow-pin.ts\<close>: the value checks over a served intent and
  its origin pull. Each throw site is a constructor of \<open>mismatch\<close>; the message text is not modelled.
  A request field is read under its snake_case or camelCase key in the source (\<open>pick\<close>); here it is
  one field.
\<close>

section \<open>Inputs and refusals\<close>

record quote_params =
  qp_wallet :: "string option"
  qp_from_chain_id :: jsval
  qp_to_chain_id :: jsval
  qp_from_token :: "string option"
  qp_to_token :: "string option"
  qp_settlement_preference :: "string option"
  qp_swap_kind :: "string option"
  qp_output_amount :: jsval
  qp_from_amount :: jsval
  qp_max_from_amount :: jsval
  qp_recipient_address :: "string option"
  qp_refund_address :: "string option"
  qp_stealth_spending_pub_key :: "string option"
  qp_stealth_viewing_pub_key :: "string option"

record served_quote =
  sq_eip712 :: "typed_data option"
  sq_pull :: "typed_data option"
  sq_escrow :: jsval

datatype pull_kind = ERC3009 | PERMIT2

record method_pin =
  mp_erc3009 :: jsval
  mp_permit2 :: jsval

type_synonym pinned_recipients = "(int \<times> method_pin) list"

record pull_options =
  po_recipients :: "pinned_recipients option"
  po_buffer :: jsval
  po_escrows :: jsval

datatype mismatch =
    NoEip712Message | FieldMismatch string | DeadlineUnreadable | DeadlineTooFar
  | MaxFromAmountMissing | FromAmountUnreadable | FromAmountAboveMax
  | EscrowEnvelope | PullWithoutIntent | UnknownPullType | PullAmountMismatch
  | PullChainMismatch | PullTokenMismatch | PullContractMismatch
  | EscrowPinNotObject | EscrowPinKey | EscrowPinAddress | EscrowPinConflict | PullToPinnedEscrow
  | IntentChainMissing | IntentChainInvalid
  | PinEmptyObject | PinMethodMissing | PinEmptyList | PinEntryNotString | PinEntryBlank
  | PullRecipientMissing | PullRecipientNotPinned
  | PullExpiryUnreadable | PullOutlivesIntent

section \<open>The escrow envelope and the intent deadline\<close>

definition assert_no_escrow_envelope :: "served_quote \<Rightarrow> mismatch check" where
  "assert_no_escrow_envelope q = refuse_if (\<not> nullish (sq_escrow q)) EscrowEnvelope"

definition MAX_INTENT_DEADLINE_AHEAD_OF_NOW_SECONDS :: int where
  "MAX_INTENT_DEADLINE_AHEAD_OF_NOW_SECONDS = 3600"

definition assert_deadline_within_wall_clock_bound :: "env \<Rightarrow> jsval \<Rightarrow> mismatch check" where
  "assert_deadline_within_wall_clock_bound env deadline =
     (if nullish deadline then passed
      else (case big_of deadline of
         None \<Rightarrow> Inl DeadlineUnreadable
       | Some v \<Rightarrow> (let now = \<lfloor>wall_now env / 1000\<rfloor> in
           refuse_if (v - now > MAX_INTENT_DEADLINE_AHEAD_OF_NOW_SECONDS) DeadlineTooFar)))"

section \<open>The intent against the request\<close>

definition check_address :: "string \<Rightarrow> jsval \<Rightarrow> string option \<Rightarrow> mismatch check" where
  "check_address field got want = (case want of None \<Rightarrow> passed
     | Some w \<Rightarrow> refuse_if (\<not> same_addressish (str_or_empty got) w) (FieldMismatch field))"

definition check_numeric :: "string \<Rightarrow> jsval \<Rightarrow> jsval \<Rightarrow> mismatch check" where
  "check_numeric field got want = (if nullish want then passed
     else refuse_if (\<not> same_numeric got want) (FieldMismatch field))"

definition assert_from_amount_within_max :: "quote_params \<Rightarrow> jsval \<Rightarrow> mismatch check" where
  "assert_from_amount_within_max params from_amount =
     (let max = qp_max_from_amount params in
      if nullish max then Inl MaxFromAmountMissing
      else (case (big_of from_amount, big_of max) of
         (Some got, Some cap) \<Rightarrow> refuse_if (got > cap) FromAmountAboveMax
       | _ \<Rightarrow> Inl FromAmountUnreadable))"

definition check_wallet :: "jsval \<Rightarrow> string option \<Rightarrow> mismatch check" where
  "check_wallet got wallet =
     (if wallet = Some [] then passed else check_address ''wallet'' got wallet)"

definition check_amounts :: "quote_params \<Rightarrow> (string \<Rightarrow> jsval) \<Rightarrow> mismatch check" where
  "check_amounts params m =
     (if or_else (qp_swap_kind params) ''exact_input'' = ''exact_output''
      then then_check (check_numeric ''toAmount'' (m ''toAmount'') (qp_output_amount params))
             (\<lambda>_. assert_from_amount_within_max params (m ''fromAmount''))
      else check_numeric ''fromAmount'' (m ''fromAmount'') (qp_from_amount params))"

definition expected_recipient :: "quote_params \<Rightarrow> string option" where
  "expected_recipient params = (case qp_recipient_address params of
     Some r \<Rightarrow> Some r | None \<Rightarrow> qp_wallet params)"

definition intent_checks :: "env \<Rightarrow> quote_params \<Rightarrow> typed_data \<Rightarrow> mismatch check list" where
  "intent_checks env params intent = (let m = msg intent in
     [check_wallet (m ''wallet'') (qp_wallet params),
      check_numeric ''fromChainId'' (m ''fromChainId'') (qp_from_chain_id params),
      check_numeric ''toChainId'' (m ''toChainId'') (qp_to_chain_id params),
      check_address ''fromToken'' (m ''fromToken'') (qp_from_token params),
      check_address ''toToken'' (m ''toToken'') (qp_to_token params),
      check_address ''recipient'' (m ''recipient'') (expected_recipient params),
      refuse_if (m ''settlementPreference''
        \<noteq> VStr (or_else (qp_settlement_preference params) ''public'')) (FieldMismatch ''settlementPreference''),
      assert_deadline_within_wall_clock_bound env (m ''deadline''),
      check_amounts params m])"

definition assert_intent_matches_request :: "env \<Rightarrow> quote_params \<Rightarrow> served_quote \<Rightarrow> mismatch check" where
  "assert_intent_matches_request env params q = (case sq_eip712 q of
     None \<Rightarrow> Inl NoEip712Message
   | Some intent \<Rightarrow> check_all (intent_checks env params intent))"

section \<open>The caller's pins\<close>

definition MAX_PULL_EXPIRY_AFTER_INTENT_SECONDS :: int where
  "MAX_PULL_EXPIRY_AFTER_INTENT_SECONDS = 3600"

definition pull_expiry_bound_seconds :: "jsval \<Rightarrow> int" where
  "pull_expiry_bound_seconds advertised = (case advertised of
     VNum n \<Rightarrow> (case int_of_num n of
        Some a \<Rightarrow> (if a < 0 then MAX_PULL_EXPIRY_AFTER_INTENT_SECONDS
                  else min a MAX_PULL_EXPIRY_AFTER_INTENT_SECONDS)
      | None \<Rightarrow> MAX_PULL_EXPIRY_AFTER_INTENT_SECONDS)
   | _ \<Rightarrow> MAX_PULL_EXPIRY_AFTER_INTENT_SECONDS)"

definition pull_kind_of :: "typed_data \<Rightarrow> mismatch + pull_kind" where
  "pull_kind_of pull =
     (if map_of (td_types pull) ''ReceiveWithAuthorization'' \<noteq> None then Inr ERC3009
      else if map_of (td_types pull) ''PermitWitnessTransferFrom'' \<noteq> None then Inr PERMIT2
      else Inl UnknownPullType)"

definition require_intent_chain_id :: "typed_data \<Rightarrow> mismatch + int" where
  "require_intent_chain_id intent = (let v = msg intent ''fromChainId'' in
     if nullish v then Inl IntentChainMissing
     else (case int_of_num (js_number v) of
        Some c \<Rightarrow> (if c \<le> 0 then Inl IntentChainInvalid else Inr c)
      | None \<Rightarrow> Inl IntentChainInvalid))"

fun accepted_entries :: "jsval list \<Rightarrow> mismatch + string list" where
  "accepted_entries [] = Inr []"
| "accepted_entries (v # vs) = (case v of
     VStr s \<Rightarrow> (if trim s = [] then Inl PinEntryBlank
        else then_check (accepted_entries vs) (\<lambda>rest. Inr (trim s # rest)))
   | _ \<Rightarrow> Inl PinEntryNotString)"

definition pin_for :: "pull_kind \<Rightarrow> method_pin \<Rightarrow> jsval" where
  "pin_for kind p = (case kind of ERC3009 \<Rightarrow> mp_erc3009 p | PERMIT2 \<Rightarrow> mp_permit2 p)"

text \<open>\<open>Inr None\<close> is the source's \<open>null\<close>: the caller pinned nothing that applies.\<close>

definition pinned_for :: "typed_data \<Rightarrow> pull_kind \<Rightarrow> pinned_recipients option
    \<Rightarrow> mismatch + string list option" where
  "pinned_for intent kind pinned = (case pinned of None \<Rightarrow> Inr None
   | Some ps \<Rightarrow>
      (if ps = [] then Inl PinEmptyObject
       else then_check (require_intent_chain_id intent) (\<lambda>c.
        (case map_of ps c of None \<Rightarrow> Inr None
         | Some forChain \<Rightarrow> (let raw = pin_for kind forChain in
            if nullish raw then Inl PinMethodMissing
            else (let listed = (case raw of VArr vs \<Rightarrow> vs | v \<Rightarrow> [v]) in
              if listed = [] then Inl PinEmptyList
              else then_check (accepted_entries listed) (\<lambda>acc. Inr (Some acc))))))))"

definition pin_accepts :: "string list \<Rightarrow> string \<Rightarrow> bool" where
  "pin_accepts accepted served \<longleftrightarrow> list_ex (\<lambda>v. same_addressish served v) accepted"

definition pull_recipient_was_checked :: "served_quote \<Rightarrow> pinned_recipients option \<Rightarrow> bool" where
  "pull_recipient_was_checked q pinned = (case (pinned, sq_pull q, sq_eip712 q) of
     (Some ps, Some pull, Some intent) \<Rightarrow>
       (case then_check (pull_kind_of pull) (\<lambda>kind. pinned_for intent kind (Some ps)) of
          Inr (Some _) \<Rightarrow> True | _ \<Rightarrow> False)
   | _ \<Rightarrow> False)"

section \<open>The escrow pin\<close>

definition chain_id_of_key :: "string \<Rightarrow> int option" where
  "chain_id_of_key key = (let t = trim key in
     if hex_literal_i t \<or> all_digits t then
       (case big_int t of Some n \<Rightarrow> (if n > 0 then Some n else None) | None \<Rightarrow> None)
     else None)"

definition evm_address :: "string \<Rightarrow> bool" where
  "evm_address s \<longleftrightarrow> starts_with s ''0x'' \<and> length (drop 2 s) = 40 \<and> list_all is_hex_digit (drop 2 s)"

definition zero_address :: "string \<Rightarrow> bool" where
  "zero_address s \<longleftrightarrow> to_lower s = ''0x0000000000000000000000000000000000000000''"

fun escrow_values :: "int \<Rightarrow> obj \<Rightarrow> mismatch + jsval list" where
  "escrow_values chain [] = Inr []"
| "escrow_values chain ((k, v) # ps) = (case chain_id_of_key k of
     None \<Rightarrow> Inl EscrowPinKey
   | Some c \<Rightarrow> then_check (escrow_values chain ps) (\<lambda>vs. Inr (if c = chain then v # vs else vs)))"

fun escrow_addresses :: "jsval list \<Rightarrow> mismatch + string list" where
  "escrow_addresses [] = Inr []"
| "escrow_addresses (v # vs) = (case v of
     VStr s \<Rightarrow> (if evm_address (trim s) \<and> \<not> zero_address (trim s)
        then then_check (escrow_addresses vs) (\<lambda>rest. Inr (trim s # rest))
        else Inl EscrowPinAddress)
   | _ \<Rightarrow> Inl EscrowPinAddress)"

definition resolve_pinned_escrow :: "obj \<Rightarrow> int \<Rightarrow> mismatch + string option" where
  "resolve_pinned_escrow pin chain =
     then_check (escrow_values chain pin) (\<lambda>values.
       (if values = [] then Inr None
        else then_check (escrow_addresses values) (\<lambda>trimmed.
          (if list_ex (\<lambda>v. to_lower v \<noteq> to_lower (hd trimmed)) trimmed
           then Inl EscrowPinConflict else Inr (Some (hd trimmed))))))"

section \<open>The pull against the intent\<close>

definition pull_field :: "pull_kind \<Rightarrow> string \<Rightarrow> string \<Rightarrow> string" where
  "pull_field kind a b = (case kind of ERC3009 \<Rightarrow> a | PERMIT2 \<Rightarrow> b)"

definition pull_recipient :: "pull_kind \<Rightarrow> typed_data \<Rightarrow> jsval" where
  "pull_recipient kind pull = msg pull (pull_field kind ''to'' ''spender'')"

definition pulled_amount :: "pull_kind \<Rightarrow> typed_data \<Rightarrow> jsval" where
  "pulled_amount kind pull = (case kind of ERC3009 \<Rightarrow> msg pull ''value''
     | PERMIT2 \<Rightarrow> val_get (msg pull ''permitted'') ''amount'')"

definition pulled_token :: "pull_kind \<Rightarrow> typed_data \<Rightarrow> jsval" where
  "pulled_token kind pull = (case kind of ERC3009 \<Rightarrow> obj_get (td_domain pull) ''verifyingContract''
     | PERMIT2 \<Rightarrow> val_get (msg pull ''permitted'') ''token'')"

definition assert_pull_not_to_pinned_escrow ::
    "typed_data \<Rightarrow> pull_kind \<Rightarrow> typed_data \<Rightarrow> jsval \<Rightarrow> mismatch check" where
  "assert_pull_not_to_pinned_escrow intent kind pull pins =
     (if nullish pins then passed
      else (case pins of
        VObj ob \<Rightarrow> then_check (require_intent_chain_id intent) (\<lambda>chain.
           then_check (resolve_pinned_escrow ob chain) (\<lambda>pinned.
             (case pinned of None \<Rightarrow> passed
              | Some e \<Rightarrow> (let served = pull_recipient kind pull in
                  refuse_if (\<not> nullish served \<and> same_addressish (js_string served) e)
                    PullToPinnedEscrow))))
      | _ \<Rightarrow> Inl EscrowPinNotObject))"

definition check_pull_amount :: "typed_data \<Rightarrow> pull_kind \<Rightarrow> typed_data \<Rightarrow> mismatch check" where
  "check_pull_amount intent kind pull =
     (let want = msg intent ''fromAmount''; pulled = pulled_amount kind pull in
      refuse_if (want \<noteq> VUndef \<and> pulled \<noteq> VUndef \<and> \<not> same_numeric pulled want) PullAmountMismatch)"

definition check_pull_chain :: "typed_data \<Rightarrow> typed_data \<Rightarrow> mismatch check" where
  "check_pull_chain intent pull =
     refuse_if (\<not> same_numeric (obj_get (td_domain pull) ''chainId'') (msg intent ''fromChainId''))
       PullChainMismatch"

definition check_pull_token :: "typed_data \<Rightarrow> pull_kind \<Rightarrow> typed_data \<Rightarrow> mismatch check" where
  "check_pull_token intent kind pull = (let want = msg intent ''fromToken'' in
     refuse_if (want \<noteq> VUndef
       \<and> \<not> same_addressish (str_or_empty (pulled_token kind pull)) (js_string want)) PullTokenMismatch)"

definition check_pull_contract :: "pull_kind \<Rightarrow> typed_data \<Rightarrow> mismatch check" where
  "check_pull_contract kind pull = refuse_if (kind = PERMIT2 \<and>
     \<not> same_addressish (str_or_empty (obj_get (td_domain pull) ''verifyingContract'')) PERMIT2_ADDRESS)
     PullContractMismatch"

definition check_pull_recipient ::
    "typed_data \<Rightarrow> pull_kind \<Rightarrow> typed_data \<Rightarrow> pinned_recipients option \<Rightarrow> mismatch check" where
  "check_pull_recipient intent kind pull pins =
     then_check (pinned_for intent kind pins) (\<lambda>pinned.
       (case pinned of None \<Rightarrow> passed
        | Some accepted \<Rightarrow> (let served = pull_recipient kind pull in
            if nullish served then Inl PullRecipientMissing
            else refuse_if (\<not> pin_accepts accepted (js_string served)) PullRecipientNotPinned)))"

definition check_pull_expiry :: "typed_data \<Rightarrow> pull_kind \<Rightarrow> typed_data \<Rightarrow> jsval \<Rightarrow> mismatch check" where
  "check_pull_expiry intent kind pull advertised =
     (let expiry = msg pull (pull_field kind ''validBefore'' ''deadline''); deadline = msg intent ''deadline'' in
      if expiry = VUndef \<or> deadline = VUndef then passed
      else (case (big_of deadline, big_of expiry) of
         (Some d, Some e) \<Rightarrow> refuse_if (e > d + pull_expiry_bound_seconds advertised) PullOutlivesIntent
       | _ \<Rightarrow> Inl PullExpiryUnreadable))"

definition pull_checks ::
    "env \<Rightarrow> pull_options \<Rightarrow> typed_data \<Rightarrow> pull_kind \<Rightarrow> typed_data \<Rightarrow> mismatch check list" where
  "pull_checks env opts intent kind pull =
     [check_pull_amount intent kind pull,
      check_pull_chain intent pull,
      check_pull_token intent kind pull,
      check_pull_contract kind pull,
      assert_pull_not_to_pinned_escrow intent kind pull (po_escrows opts),
      check_pull_recipient intent kind pull (po_recipients opts),
      assert_deadline_within_wall_clock_bound env (msg intent ''deadline''),
      check_pull_expiry intent kind pull (po_buffer opts)]"

definition assert_pull_matches_intent :: "env \<Rightarrow> served_quote \<Rightarrow> pull_options \<Rightarrow> mismatch check" where
  "assert_pull_matches_intent env q opts =
     then_check (assert_no_escrow_envelope q) (\<lambda>_.
       (case sq_pull q of None \<Rightarrow> passed
        | Some pull \<Rightarrow> (case sq_eip712 q of None \<Rightarrow> Inl PullWithoutIntent
            | Some intent \<Rightarrow> then_check (pull_kind_of pull) (\<lambda>kind.
                check_all (pull_checks env opts intent kind pull)))))"

section \<open>What the checks establish\<close>

text \<open>
  The specification: the values of an accepted intent are the requested ones, and an accepted pull
  moves the intent's amount of the intent's token on the intent's chain, and for no longer than an hour
  past the intent's deadline.
\<close>

definition deadline_bounded :: "env \<Rightarrow> jsval \<Rightarrow> bool" where
  "deadline_bounded env deadline \<longleftrightarrow> nullish deadline \<or>
     (case big_of deadline of Some d \<Rightarrow> d \<le> \<lfloor>wall_now env / 1000\<rfloor> + 3600 | None \<Rightarrow> False)"

lemma assert_deadline_ok:
  "assert_deadline_within_wall_clock_bound env d = Inr u \<longleftrightarrow> deadline_bounded env d"
  by (cases "big_of d") (auto simp: assert_deadline_within_wall_clock_bound_def deadline_bounded_def
      MAX_INTENT_DEADLINE_AHEAD_OF_NOW_SECONDS_def passed_def Let_def)

lemma check_address_ok:
  "check_address f got want = Inr u \<longleftrightarrow> (\<forall>w. want = Some w \<longrightarrow> same_addressish (str_or_empty got) w)"
  by (cases want) (auto simp: check_address_def passed_def)

lemma check_numeric_ok:
  "check_numeric f got want = Inr u \<longleftrightarrow> nullish want \<or> same_numeric got want"
  by (auto simp: check_numeric_def passed_def)

lemma check_wallet_ok:
  "check_wallet got w = Inr u \<longleftrightarrow> (\<forall>a. w = Some a \<and> a \<noteq> [] \<longrightarrow> same_addressish (str_or_empty got) a)"
  by (cases w) (auto simp: check_wallet_def check_address_ok passed_def)

lemma check_amounts_exact_input:
  "qp_swap_kind p = Some ''exact_input'' \<Longrightarrow>
     check_amounts p m = Inr u \<longleftrightarrow> nullish (qp_from_amount p) \<or> same_numeric (m ''fromAmount'') (qp_from_amount p)"
  by (simp add: check_amounts_def check_numeric_ok)

lemma assert_from_amount_within_max_ok:
  "assert_from_amount_within_max p a = Inr u \<longleftrightarrow>
     (\<exists>got cap. \<not> nullish (qp_max_from_amount p) \<and> big_of a = Some got
        \<and> big_of (qp_max_from_amount p) = Some cap \<and> got \<le> cap)"
  by (auto simp: assert_from_amount_within_max_def Let_def split: option.splits)

lemma check_amounts_exact_output:
  assumes "qp_swap_kind p = Some ''exact_output''"
  shows "check_amounts p m = Inr u \<longleftrightarrow>
     (nullish (qp_output_amount p) \<or> same_numeric (m ''toAmount'') (qp_output_amount p))
   \<and> assert_from_amount_within_max p (m ''fromAmount'') = Inr ()"
  using assms by (auto simp: check_amounts_def check_numeric_ok)

lemma assert_intent_ok:
  "assert_intent_matches_request env p q = Inr u \<longleftrightarrow>
     (\<exists>i. sq_eip712 q = Some i \<and>
        check_wallet (msg i ''wallet'') (qp_wallet p) = Inr ()
      \<and> (nullish (qp_from_chain_id p) \<or> same_numeric (msg i ''fromChainId'') (qp_from_chain_id p))
      \<and> (nullish (qp_to_chain_id p) \<or> same_numeric (msg i ''toChainId'') (qp_to_chain_id p))
      \<and> check_address ''fromToken'' (msg i ''fromToken'') (qp_from_token p) = Inr ()
      \<and> check_address ''toToken'' (msg i ''toToken'') (qp_to_token p) = Inr ()
      \<and> check_address ''recipient'' (msg i ''recipient'') (expected_recipient p) = Inr ()
      \<and> msg i ''settlementPreference'' = VStr (or_else (qp_settlement_preference p) ''public'')
      \<and> deadline_bounded env (msg i ''deadline'')
      \<and> check_amounts p (msg i) = Inr ())"
  by (auto simp: assert_intent_matches_request_def intent_checks_def Let_def check_numeric_ok
      assert_deadline_ok split: option.splits)

lemma pull_expiry_bound_le [simp]: "pull_expiry_bound_seconds v \<le> 3600"
  by (auto simp: pull_expiry_bound_seconds_def MAX_PULL_EXPIRY_AFTER_INTENT_SECONDS_def
      split: jsval.splits option.splits)

lemma pull_expiry_bound_nonneg [simp]: "0 \<le> pull_expiry_bound_seconds v"
  by (auto simp: pull_expiry_bound_seconds_def MAX_PULL_EXPIRY_AFTER_INTENT_SECONDS_def
      split: jsval.splits option.splits)

definition pull_recipient_pinned ::
    "typed_data \<Rightarrow> pull_kind \<Rightarrow> typed_data \<Rightarrow> pinned_recipients option \<Rightarrow> bool" where
  "pull_recipient_pinned intent kind pull pins \<longleftrightarrow> (case pinned_for intent kind pins of
     Inl _ \<Rightarrow> False | Inr None \<Rightarrow> True
   | Inr (Some accepted) \<Rightarrow> \<not> nullish (pull_recipient kind pull)
       \<and> pin_accepts accepted (js_string (pull_recipient kind pull)))"

lemma check_pull_recipient_ok:
  "check_pull_recipient intent kind pull pins = Inr u \<longleftrightarrow> pull_recipient_pinned intent kind pull pins"
  by (auto simp: check_pull_recipient_def pull_recipient_pinned_def Let_def passed_def
      split: sum.splits option.splits)

lemma check_pull_expiry_ok:
  "check_pull_expiry intent kind pull adv = Inr u \<longleftrightarrow>
     (let e = msg pull (pull_field kind ''validBefore'' ''deadline''); d = msg intent ''deadline'' in
      e = VUndef \<or> d = VUndef \<or> (\<exists>x y. big_of e = Some x \<and> big_of d = Some y
        \<and> x \<le> y + pull_expiry_bound_seconds adv))"
  by (auto simp: check_pull_expiry_def Let_def passed_def split: option.splits)

definition pull_matches ::
    "env \<Rightarrow> pull_options \<Rightarrow> typed_data \<Rightarrow> pull_kind \<Rightarrow> typed_data \<Rightarrow> bool" where
  "pull_matches env opts i kind pull \<longleftrightarrow>
     (msg i ''fromAmount'' = VUndef \<or> pulled_amount kind pull = VUndef
        \<or> same_numeric (pulled_amount kind pull) (msg i ''fromAmount''))
   \<and> same_numeric (obj_get (td_domain pull) ''chainId'') (msg i ''fromChainId'')
   \<and> (msg i ''fromToken'' = VUndef
        \<or> same_addressish (str_or_empty (pulled_token kind pull)) (js_string (msg i ''fromToken'')))
   \<and> (kind = PERMIT2 \<longrightarrow>
        same_addressish (str_or_empty (obj_get (td_domain pull) ''verifyingContract'')) PERMIT2_ADDRESS)
   \<and> assert_pull_not_to_pinned_escrow i kind pull (po_escrows opts) = Inr ()
   \<and> pull_recipient_pinned i kind pull (po_recipients opts)
   \<and> deadline_bounded env (msg i ''deadline'')
   \<and> check_pull_expiry i kind pull (po_buffer opts) = Inr ()"

lemma assert_pull_ok:
  "assert_pull_matches_intent env q opts = Inr u \<longleftrightarrow> nullish (sq_escrow q) \<and>
     (sq_pull q = None \<or> (\<exists>pull i kind. sq_pull q = Some pull \<and> sq_eip712 q = Some i
        \<and> pull_kind_of pull = Inr kind \<and> pull_matches env opts i kind pull))"
  by (auto simp: assert_pull_matches_intent_def assert_no_escrow_envelope_def passed_def
      pull_checks_def pull_matches_def check_pull_amount_def check_pull_chain_def
      check_pull_token_def check_pull_contract_def check_pull_recipient_ok assert_deadline_ok
      Let_def split: option.splits)

end
