(* ===== verification/DepositVerify.thy ===== *)
theory DepositVerify
  imports IntentVerify
begin

text \<open>
  \<open>packages/signer/src/deposit-verify.ts\<close>: the attestation over a deposit route. The signed message is
  rebuilt from the request and the quote, its signer recovered (\<open>verifyMessage\<close> of ethers, the
  environment's \<open>recover_message\<close>) and held to the pinned one, and the attested deal is held to the
  request. \<open>recordDepositAddress\<close> works on any store of addresses, so its facts are proved in a locale.
\<close>

section \<open>The attested fields\<close>

record deposit_fields =
  f_intent_id :: string
  f_quote_id :: string
  f_wallet :: string
  f_from_chain_id :: jsnum
  f_from_token :: string
  f_from_amount :: string
  f_deposit_address :: "string option"
  f_deposit_deadline :: "jsnum option"
  f_refund_address :: "string option"
  f_to_chain_id :: jsnum
  f_to_token :: string
  f_to_amount :: string
  f_min_to_amount :: string
  f_recipient :: string
  f_stealth_spending_pub_key :: "string option"
  f_stealth_viewing_pub_key :: "string option"
  f_settlement_preference :: string

datatype deposit_error =
    RequestParamMissing string | NoAttestation | NoPinnedSigner | NoDepositAddress
  | NotRecoverable | WrongSigner
  | DepositEscrow | DepositAmountCeiling | DepositAmount | PartyNotCaseBindable string
  | ShownRecipient | RecipientIsToken | NoAttestedDeadline | DepositWindow | AddressReissued

text \<open>The throws of \<open>DepositQuoteMismatchError\<close>; the others are the base class.\<close>

definition is_quote_mismatch :: "deposit_error \<Rightarrow> bool" where
  "is_quote_mismatch e = (case e of RequestParamMissing _ \<Rightarrow> False | NoAttestation \<Rightarrow> False
     | NoPinnedSigner \<Rightarrow> False | NoDepositAddress \<Rightarrow> False | NotRecoverable \<Rightarrow> False
     | WrongSigner \<Rightarrow> False | _ \<Rightarrow> True)"

section \<open>Canonicalisation\<close>

definition normalize_address :: "string \<Rightarrow> string" where
  "normalize_address a = (if starts_with a ''0x'' then to_lower a else a)"

definition normalize_party_capable :: "string \<Rightarrow> string" where
  "normalize_party_capable a = (if hex_literal a then to_lower a else a)"

definition optional_str :: "string option \<Rightarrow> string" where
  "optional_str v = (case v of None \<Rightarrow> [] | Some s \<Rightarrow> normalize_address s)"

definition optional_num :: "jsnum option \<Rightarrow> string" where
  "optional_num v = (case v of None \<Rightarrow> [] | Some n \<Rightarrow> show_jsnum n)"

definition recipient_is_destination_token :: "string \<Rightarrow> string \<Rightarrow> bool" where
  "recipient_is_destination_token recipient to_token =
     (if recipient = [] \<or> to_token = [] then False
      else normalize_party_capable recipient = normalize_party_capable to_token)"

section \<open>The signed message\<close>

definition DEPOSIT_ATTESTATION_VERSION :: string where
  "DEPOSIT_ATTESTATION_VERSION = ''xochi-deposit-attestation:v3''"

definition attestation_parts :: "deposit_fields \<Rightarrow> string list" where
  "attestation_parts f = [
     DEPOSIT_ATTESTATION_VERSION, f_intent_id f, f_quote_id f,
     normalize_address (f_wallet f), show_jsnum (f_from_chain_id f),
     normalize_address (f_from_token f), f_from_amount f,
     normalize_address (or_else (f_deposit_address f) []),
     optional_num (f_deposit_deadline f), optional_str (f_refund_address f),
     show_jsnum (f_to_chain_id f), normalize_party_capable (f_to_token f),
     f_to_amount f, f_min_to_amount f, normalize_party_capable (f_recipient f),
     optional_str (f_stealth_spending_pub_key f), optional_str (f_stealth_viewing_pub_key f),
     f_settlement_preference f]"

definition newline :: char where
  "newline = CHR 0x0A"

definition build_deposit_attestation_message :: "deposit_fields \<Rightarrow> string option" where
  "build_deposit_attestation_message f = (let parts = attestation_parts f in
     if list_ex (\<lambda>p. List.member p newline) parts then None else Some (join [newline] parts))"

definition recover_deposit_attestation_signer :: "env \<Rightarrow> deposit_fields \<Rightarrow> string \<Rightarrow> string option" where
  "recover_deposit_attestation_signer env f attestation =
     Option.bind (build_deposit_attestation_message f)
       (\<lambda>m. map_option to_lower (recover_message env m attestation))"

definition verify_deposit_attestation ::
    "env \<Rightarrow> deposit_fields \<Rightarrow> string option \<Rightarrow> string option \<Rightarrow> deposit_error check" where
  "verify_deposit_attestation env f attestation expected_signer =
     (case attestation of None \<Rightarrow> Inl NoAttestation
      | Some att \<Rightarrow> (if att = [] then Inl NoAttestation
          else (case expected_signer of None \<Rightarrow> Inl NoPinnedSigner
            | Some signer \<Rightarrow> (if signer = [] then Inl NoPinnedSigner
                else if f_deposit_address f = None \<or> f_deposit_address f = Some [] then Inl NoDepositAddress
                else (case recover_deposit_attestation_signer env f att of
                   None \<Rightarrow> Inl NotRecoverable
                 | Some recovered \<Rightarrow> refuse_if (recovered \<noteq> to_lower signer) WrongSigner)))))"

definition attestation_signer_consistency :: "string option \<Rightarrow> string option \<Rightarrow> bool" where
  "attestation_signer_consistency pinned advertised = (case (pinned, advertised) of
     (Some p, Some a) \<Rightarrow> (p = [] \<or> a = [] \<or> to_lower p = to_lower a)
   | _ \<Rightarrow> True)"

section \<open>Assembling the fields\<close>

record deposit_quote =
  dq_intent_id :: string
  dq_quote_id :: string
  dq_from_amount :: jsval
  dq_deposit_address :: "string option"
  dq_deposit_deadline :: jsval
  dq_to_amount :: jsval
  dq_min_to_amount :: jsval

definition require_param :: "bool \<Rightarrow> string \<Rightarrow> deposit_error check" where
  "require_param present name = refuse_if (\<not> present) (RequestParamMissing name)"

definition deposit_attestation_fields :: "deposit_quote \<Rightarrow> quote_params \<Rightarrow> deposit_error + deposit_fields" where
  "deposit_attestation_fields q p =
     then_check (check_all [
        require_param (qp_wallet p \<noteq> None) ''wallet'',
        require_param (\<not> nullish (qp_from_chain_id p)) ''from_chain_id'',
        require_param (qp_from_token p \<noteq> None) ''from_token'',
        require_param (\<not> nullish (qp_to_chain_id p)) ''to_chain_id'',
        require_param (qp_to_token p \<noteq> None) ''to_token''])
      (\<lambda>_. (let wallet = or_else (qp_wallet p) [] in Inr \<lparr>
        f_intent_id = dq_intent_id q, f_quote_id = dq_quote_id q,
        f_wallet = wallet,
        f_from_chain_id = js_number (qp_from_chain_id p),
        f_from_token = or_else (qp_from_token p) [],
        f_from_amount = js_string (dq_from_amount q),
        f_deposit_address = dq_deposit_address q,
        f_deposit_deadline = (if nullish (dq_deposit_deadline q) then None
           else Some (js_number (dq_deposit_deadline q))),
        f_refund_address = qp_refund_address p,
        f_to_chain_id = js_number (qp_to_chain_id p),
        f_to_token = or_else (qp_to_token p) [],
        f_to_amount = js_string (dq_to_amount q),
        f_min_to_amount = js_string (dq_min_to_amount q),
        f_recipient = or_else (qp_recipient_address p) wallet,
        f_stealth_spending_pub_key = qp_stealth_spending_pub_key p,
        f_stealth_viewing_pub_key = qp_stealth_viewing_pub_key p,
        f_settlement_preference = or_else (qp_settlement_preference p) ''public''\<rparr>))"

section \<open>The attested deal against the request\<close>

definition DEPOSIT_MIN_WINDOW_SECONDS :: num where
  "DEPOSIT_MIN_WINDOW_SECONDS = 60"

definition same_amount_digits :: "string \<Rightarrow> string \<Rightarrow> bool" where
  "same_amount_digits a b = (if all_digits a \<and> all_digits b then big_int a = big_int b else a = b)"

definition party_case_bindable :: "string \<Rightarrow> string \<Rightarrow> deposit_error check" where
  "party_case_bindable name v =
     refuse_if (starts_with v ''0x'' \<and> \<not> hex_literal v) (PartyNotCaseBindable name)"

definition assert_deposit_parties_case_bindable ::
    "string \<Rightarrow> string \<Rightarrow> string option \<Rightarrow> deposit_error check" where
  "assert_deposit_parties_case_bindable recipient wallet refund = check_all [
     party_case_bindable ''recipient'' recipient,
     party_case_bindable ''wallet'' wallet,
     (case refund of None \<Rightarrow> passed | Some r \<Rightarrow> party_case_bindable ''refund_address'' r)]"

definition check_deposit_amount :: "quote_params \<Rightarrow> deposit_fields \<Rightarrow> deposit_error check" where
  "check_deposit_amount p f =
     (if or_else (qp_swap_kind p) ''exact_input'' = ''exact_output''
      then refuse_if (\<not> is_ok (assert_from_amount_within_max p (VStr (f_from_amount f)))) DepositAmountCeiling
      else refuse_if (\<not> nullish (qp_from_amount p)
             \<and> \<not> same_amount_digits (js_string (qp_from_amount p)) (f_from_amount f)) DepositAmount)"

definition check_shown_recipient :: "string option \<Rightarrow> deposit_fields \<Rightarrow> deposit_error check" where
  "check_shown_recipient shown f = (case shown of None \<Rightarrow> passed
     | Some s \<Rightarrow> refuse_if (\<not> (if hex_literal_i s \<and> hex_literal_i (f_recipient f)
          then to_lower s = to_lower (f_recipient f) else s = f_recipient f)) ShownRecipient)"

text \<open>\<open>deposit_deadline - now < 60\<close>: a comparison with \<open>NaN\<close> is false.\<close>

definition window_too_short :: "jsnum \<Rightarrow> num \<Rightarrow> bool" where
  "window_too_short d now = (case d of Fin r \<Rightarrow> r - now < DEPOSIT_MIN_WINDOW_SECONDS
     | NegInf \<Rightarrow> True | _ \<Rightarrow> False)"

definition check_deposit_window :: "env \<Rightarrow> deposit_fields \<Rightarrow> deposit_error check" where
  "check_deposit_window env f = (case f_deposit_deadline f of
     None \<Rightarrow> Inl NoAttestedDeadline
   | Some d \<Rightarrow> refuse_if (window_too_short d (of_int \<lfloor>wall_now env / 1000\<rfloor>)) DepositWindow)"

definition assert_deposit_quote_matches_request ::
    "env \<Rightarrow> quote_params \<Rightarrow> deposit_fields \<Rightarrow> string option \<Rightarrow> jsval \<Rightarrow> deposit_error check" where
  "assert_deposit_quote_matches_request env p f shown escrow = check_all [
     refuse_if (\<not> nullish escrow) DepositEscrow,
     check_deposit_amount p f,
     assert_deposit_parties_case_bindable (f_recipient f) (f_wallet f) (f_refund_address f),
     check_shown_recipient shown f,
     refuse_if (recipient_is_destination_token (f_recipient f) (f_to_token f)) RecipientIsToken,
     check_deposit_window env f]"

section \<open>The record of issued addresses\<close>

text \<open>
  A store over a plain object finds, beside its own keys, what every object inherits:
  \<open>Inherited\<close> is such a value, which is neither absent nor an intent id.
\<close>

datatype seen_value = SeenIntent string | Inherited

definition record_deposit_address ::
    "('s \<Rightarrow> string \<Rightarrow> seen_value option) \<Rightarrow> ('s \<Rightarrow> string \<Rightarrow> string \<Rightarrow> 's)
      \<Rightarrow> 's \<Rightarrow> string \<Rightarrow> string \<Rightarrow> deposit_error + 's" where
  "record_deposit_address get put store address intent =
     (let key = normalize_address address; previous = get store key in
      if previous \<noteq> None \<and> previous \<noteq> Some (SeenIntent intent) then Inl AddressReissued
      else Inr (put store key intent))"

fun record_all ::
    "('s \<Rightarrow> string \<Rightarrow> seen_value option) \<Rightarrow> ('s \<Rightarrow> string \<Rightarrow> string \<Rightarrow> 's)
      \<Rightarrow> 's \<Rightarrow> (string \<times> string) list \<Rightarrow> deposit_error + 's" where
  "record_all get put s [] = Inr s"
| "record_all get put s ((a, i) # rs) =
     then_check (record_deposit_address get put s a i) (\<lambda>s'. record_all get put s' rs)"

locale seen_store =
  fixes get :: "'s \<Rightarrow> string \<Rightarrow> seen_value option"
    and put :: "'s \<Rightarrow> string \<Rightarrow> string \<Rightarrow> 's"
  assumes get_put_same: "get s k = None \<or> get s k = Some (SeenIntent i) \<Longrightarrow> get (put s k i) k = Some (SeenIntent i)"
    and get_put_other: "k' \<noteq> k \<Longrightarrow> get (put s k i) k' = get s k'"
begin

lemma record_holds:
  "record_deposit_address get put s a i = Inr s' \<Longrightarrow> get s' (normalize_address a) = Some (SeenIntent i)"
  by (auto simp: record_deposit_address_def Let_def get_put_same split: if_splits)

lemma record_keeps:
  assumes "record_deposit_address get put s a i = Inr s'" and "get s k = Some v"
  shows "get s' k = Some v"
  using assms by (cases "k = normalize_address a")
    (auto simp: record_deposit_address_def Let_def get_put_same get_put_other split: if_splits)

lemma record_all_keeps:
  "record_all get put s rs = Inr s' \<Longrightarrow> get s k = Some v \<Longrightarrow> get s' k = Some v"
proof (induction rs arbitrary: s)
  case (Cons r rs)
  obtain a i where r: "r = (a, i)" by (cases r)
  with Cons.prems obtain s1 where "record_deposit_address get put s a i = Inr s1"
      and "record_all get put s1 rs = Inr s'" by auto
  with Cons show ?case using record_keeps by blast
qed simp

lemma record_all_holds:
  "record_all get put s rs = Inr s' \<Longrightarrow> (a, i) \<in> set rs \<Longrightarrow>
     get s' (normalize_address a) = Some (SeenIntent i)"
proof (induction rs arbitrary: s)
  case (Cons r rs)
  obtain b j where r: "r = (b, j)" by (cases r)
  with Cons.prems obtain s1 where s1: "record_deposit_address get put s b j = Inr s1"
      and rest: "record_all get put s1 rs = Inr s'" by auto
  show ?case
  proof (cases "(a, i) \<in> set rs")
    case True
    with rest Cons.IH show ?thesis by blast
  next
    case False
    with Cons.prems r have "a = b" "i = j" by auto
    with s1 rest record_holds record_all_keeps show ?thesis by blast
  qed
qed simp

text \<open>Over any run of records that were all accepted, one address was issued for one intent.\<close>

lemma one_intent_per_address:
  assumes "record_all get put s rs = Inr s'" and "(a, i) \<in> set rs" and "(b, j) \<in> set rs"
    and "normalize_address a = normalize_address b"
  shows "i = j"
  using record_all_holds [OF assms(1,2)] record_all_holds [OF assms(1,3)] assms(4) by simp

end

section \<open>The message determines the deal\<close>

lemma member_newline_join:
  "length xs = length ys \<Longrightarrow>
   \<forall>x \<in> set xs. newline \<notin> set x \<Longrightarrow> \<forall>y \<in> set ys. newline \<notin> set y \<Longrightarrow>
   join [newline] xs = join [newline] ys \<Longrightarrow> xs = ys"
proof (induction xs ys rule: list_induct2)
  case (Cons x xs y ys)
  show ?case
  proof (cases xs)
    case Nil
    with Cons show ?thesis by simp
  next
    case (Cons x2 xs2)
    with Cons.hyps obtain y2 ys2 where ys: "ys = y2 # ys2" by (cases ys) auto
    have "x @ newline # join [newline] xs = y @ newline # join [newline] ys"
      using Cons.prems Cons ys by simp
    moreover have "newline \<notin> set x" "newline \<notin> set y" using Cons.prems by auto
    ultimately have "x = y \<and> join [newline] xs = join [newline] ys"
      by (rule append_mark_eq)
    with Cons.IH Cons.prems show ?thesis by auto
  qed
qed simp

lemma build_message_Some:
  "build_deposit_attestation_message f = Some m \<longleftrightarrow>
     (\<forall>p \<in> set (attestation_parts f). newline \<notin> set p) \<and> m = join [newline] (attestation_parts f)"
  by (auto simp: build_deposit_attestation_message_def Let_def list_ex_iff)

text \<open>What two field sets that sign one message agree on.\<close>

definition same_deal :: "deposit_fields \<Rightarrow> deposit_fields \<Rightarrow> bool" where
  "same_deal f g \<longleftrightarrow>
     f_intent_id f = f_intent_id g \<and> f_quote_id f = f_quote_id g
   \<and> normalize_address (f_wallet f) = normalize_address (f_wallet g)
   \<and> show_jsnum (f_from_chain_id f) = show_jsnum (f_from_chain_id g)
   \<and> normalize_address (f_from_token f) = normalize_address (f_from_token g)
   \<and> f_from_amount f = f_from_amount g
   \<and> normalize_address (or_else (f_deposit_address f) []) = normalize_address (or_else (f_deposit_address g) [])
   \<and> optional_num (f_deposit_deadline f) = optional_num (f_deposit_deadline g)
   \<and> optional_str (f_refund_address f) = optional_str (f_refund_address g)
   \<and> show_jsnum (f_to_chain_id f) = show_jsnum (f_to_chain_id g)
   \<and> normalize_party_capable (f_to_token f) = normalize_party_capable (f_to_token g)
   \<and> f_to_amount f = f_to_amount g \<and> f_min_to_amount f = f_min_to_amount g
   \<and> normalize_party_capable (f_recipient f) = normalize_party_capable (f_recipient g)
   \<and> optional_str (f_stealth_spending_pub_key f) = optional_str (f_stealth_spending_pub_key g)
   \<and> optional_str (f_stealth_viewing_pub_key f) = optional_str (f_stealth_viewing_pub_key g)
   \<and> f_settlement_preference f = f_settlement_preference g"

text \<open>
  C25. The deposit attestation message is unambiguous: two sets of fields that sign the same message
  are the same deal, field by field, up to the canonical spelling of an address. No field can borrow
  bytes from its neighbour.
\<close>

theorem attestation_message_injective:
  assumes "build_deposit_attestation_message f = Some m"
    and "build_deposit_attestation_message g = Some m"
  shows "same_deal f g"
proof -
  have "attestation_parts f = attestation_parts g"
  proof (rule member_newline_join)
    show "length (attestation_parts f) = length (attestation_parts g)"
      by (simp add: attestation_parts_def)
  qed (use assms in \<open>auto simp: build_message_Some\<close>)
  then show ?thesis by (simp add: attestation_parts_def same_deal_def)
qed

section \<open>An accepted attestation\<close>

lemma verify_attestation_ok:
  "verify_deposit_attestation env f att signer = Inr u \<longleftrightarrow>
     (\<exists>a s m r. att = Some a \<and> a \<noteq> [] \<and> signer = Some s \<and> s \<noteq> []
       \<and> f_deposit_address f \<notin> {None, Some []}
       \<and> build_deposit_attestation_message f = Some m
       \<and> recover_message env m a = Some r \<and> to_lower r = to_lower s)"
  by (auto simp: verify_deposit_attestation_def recover_deposit_attestation_signer_def
      split: option.splits if_splits bind_splits)

lemma deposit_fields_ok:
  "deposit_attestation_fields q p = Inr f \<Longrightarrow>
     (\<exists>w t v. qp_wallet p = Some w \<and> qp_from_token p = Some t \<and> qp_to_token p = Some v
       \<and> f_wallet f = w \<and> f_from_token f = t \<and> f_to_token f = v
       \<and> f_recipient f = or_else (qp_recipient_address p) w)
   \<and> f_from_chain_id f = js_number (qp_from_chain_id p) \<and> f_to_chain_id f = js_number (qp_to_chain_id p)
   \<and> f_deposit_address f = dq_deposit_address q \<and> f_intent_id f = dq_intent_id q
   \<and> f_from_amount f = js_string (dq_from_amount q)
   \<and> f_refund_address f = qp_refund_address p"
  by (auto simp: deposit_attestation_fields_def require_param_def Let_def)

end
