(* ===== verification/QuoteChecks.thy ===== *)
theory QuoteChecks
  imports Validate DepositVerify
begin

text \<open>
  The checks a quote goes through at ingest: \<open>quoteChecks.ts\<close> (the signer's checks over a signable
  quote), \<open>recipientEcho.ts\<close> and \<open>claimInfo.ts\<close> of \<open>packages/client/src/machine\<close>.
\<close>

section \<open>quoteChecks.ts\<close>

definition quote_request_params :: "quote_request \<Rightarrow> quote_params" where
  "quote_request_params r = \<lparr>
     qp_wallet = r_wallet r,
     qp_from_chain_id = VInt (r_fromChainId r), qp_to_chain_id = VInt (r_toChainId r),
     qp_from_token = Some (r_fromToken r), qp_to_token = Some (r_toToken r),
     qp_settlement_preference = Some (settlement_str (r_settlementPreference r)),
     qp_swap_kind = Some ''exact_input'', qp_output_amount = VUndef,
     qp_from_amount = VStr (r_fromAmount r), qp_max_from_amount = VUndef,
     qp_recipient_address = r_recipientAddress r,
     qp_refund_address = r_refundAddress r,
     qp_stealth_spending_pub_key = map_option sm_spendingPubKey (r_stealthMetaAddress r),
     qp_stealth_viewing_pub_key = map_option sm_viewingPubKey (r_stealthMetaAddress r)\<rparr>"

datatype quote_refusal = IntentMismatch mismatch | PullMismatch mismatch

definition served_of :: "quote_response \<Rightarrow> served_quote" where
  "served_of q = \<lparr>sq_eip712 = q_eip712Data q, sq_pull = q_pullAuthorization q, sq_escrow = q_escrow q\<rparr>"

definition client_pull_options :: "pinned_recipients option \<Rightarrow> pull_options" where
  "client_pull_options pins = \<lparr>po_recipients = pins, po_buffer = VUndef, po_escrows = VUndef\<rparr>"

definition check_signable_quote ::
    "env \<Rightarrow> quote_request \<Rightarrow> quote_response \<Rightarrow> pinned_recipients option \<Rightarrow> quote_refusal check" where
  "check_signable_quote env r q pins =
     (case assert_intent_matches_request env (quote_request_params r) (served_of q) of
        Inl e \<Rightarrow> Inl (IntentMismatch e)
      | Inr _ \<Rightarrow> (case assert_pull_matches_intent env (served_of q) (client_pull_options pins) of
          Inl e \<Rightarrow> Inl (PullMismatch e)
        | Inr _ \<Rightarrow> passed))"

section \<open>recipientEcho.ts\<close>

datatype echo_error = RecipientUnconfirmed | RecipientMismatch

definition recipient_echo_error :: "string option \<Rightarrow> string option \<Rightarrow> echo_error option" where
  "recipient_echo_error requested quoted =
     (if requested = None \<or> requested = Some [] then None
      else if quoted = None \<or> quoted = Some [] then Some RecipientUnconfirmed
      else if requested = quoted then None else Some RecipientMismatch)"

section \<open>claimInfo.ts\<close>

datatype claim_code = UntrustedFactory | UnexpectedSalt

definition claim_info_error ::
    "claim_info option \<Rightarrow> int option \<Rightarrow> settlement_type option \<Rightarrow> (claim_code \<times> string) option" where
  "claim_info_error info chain requested = (case info of
     None \<Rightarrow> (if requested \<noteq> Some Stealth then None
        else Some (UntrustedFactory, ''This private quote names no account factory to check''))
   | Some c \<Rightarrow>
      (if \<not> is_trusted_stealth_factory (c_factoryAddress c) chain
       then Some (UntrustedFactory, ''This quote settles through an account factory this app does not recognize'')
       else if c_salt c \<noteq> None \<and> c_salt c \<noteq> Some STEALTH_ACCOUNT_SALT
       then Some (UnexpectedSalt, ''This quote settles to an unexpected account slot'')
       else None))"

section \<open>What a quote that passes is\<close>

lemma check_signable_quote_ok:
  "check_signable_quote env r q pins = Inr u \<longleftrightarrow>
     assert_intent_matches_request env (quote_request_params r) (served_of q) = Inr ()
   \<and> assert_pull_matches_intent env (served_of q) (client_pull_options pins) = Inr ()"
  by (auto simp: check_signable_quote_def passed_def split: sum.splits)

lemma recipient_echo_ok:
  "recipient_echo_error requested quoted = None \<longleftrightarrow>
     requested = None \<or> requested = Some [] \<or> requested = quoted"
  by (auto simp: recipient_echo_error_def)

lemma claim_info_ok:
  "claim_info_error info chain requested = None \<longleftrightarrow>
     (case info of None \<Rightarrow> requested \<noteq> Some Stealth
      | Some c \<Rightarrow> is_trusted_stealth_factory (c_factoryAddress c) chain
          \<and> (c_salt c = None \<or> c_salt c = Some 0))"
  by (auto simp: claim_info_error_def STEALTH_ACCOUNT_SALT_def split: option.splits)

text \<open>
  The signable quote, against the request that was sent: the pull moves the requested amount of the
  requested token on the requested chain, and expires within two hours of the wall clock (an intent
  without a deadline has no encoding to sign).
\<close>

definition pull_bound_to_request ::
    "env \<Rightarrow> quote_request \<Rightarrow> typed_data \<Rightarrow> pull_kind \<Rightarrow> typed_data \<Rightarrow> bool" where
  "pull_bound_to_request env r intent kind pull \<longleftrightarrow>
     (pulled_amount kind pull = VUndef \<or> big_of (pulled_amount kind pull) = big_int (r_fromAmount r))
   \<and> big_of (obj_get (td_domain pull) ''chainId'') = Some (r_fromChainId r)
   \<and> same_addressish (str_or_empty (pulled_token kind pull)) (r_fromToken r)
   \<and> (msg intent ''deadline'' = VUndef \<or>
       (let e = msg pull (pull_field kind ''validBefore'' ''deadline'') in
        e = VUndef \<or> (\<exists>x. big_of e = Some x \<and> x \<le> \<lfloor>wall_now env / 1000\<rfloor> + 7200)))"

definition intent_bound_to_request :: "env \<Rightarrow> quote_request \<Rightarrow> typed_data \<Rightarrow> bool" where
  "intent_bound_to_request env r i \<longleftrightarrow>
     (\<forall>w. r_wallet r = Some w \<and> w \<noteq> [] \<longrightarrow> same_addressish (str_or_empty (msg i ''wallet'')) w)
   \<and> big_of (msg i ''fromAmount'') = big_int (r_fromAmount r)
   \<and> big_of (msg i ''fromChainId'') = Some (r_fromChainId r)
   \<and> big_of (msg i ''toChainId'') = Some (r_toChainId r)
   \<and> same_addressish (str_or_empty (msg i ''fromToken'')) (r_fromToken r)
   \<and> same_addressish (str_or_empty (msg i ''toToken'')) (r_toToken r)
   \<and> (\<forall>a. (case r_recipientAddress r of Some x \<Rightarrow> Some x | None \<Rightarrow> r_wallet r) = Some a \<longrightarrow>
        same_addressish (str_or_empty (msg i ''recipient'')) a)
   \<and> msg i ''settlementPreference'' = VStr (settlement_str (r_settlementPreference r))
   \<and> deadline_bounded env (msg i ''deadline'')"

lemma big_of_chain: "is_selectable_chain_id c \<Longrightarrow> big_of (VInt c) = Some c"
  by (rule big_of_VInt) (auto simp: is_selectable_chain_id_def is_chain_id_iff is_tron_chain_id_def
      TRON_CHAIN_ID_def)

lemma nullish_simps [simp]: "\<not> nullish (VInt n)" "\<not> nullish (VStr s)"
  by (simp_all add: nullish_def VInt_def)

lemma same_numeric_big: "big_of b = Some n \<Longrightarrow> same_numeric a b \<longleftrightarrow> big_of a = Some n"
  by (auto simp: same_numeric_iff)

lemma str_or_empty_present: "\<not> nullish v \<Longrightarrow> str_or_empty v = js_string v"
  by (simp add: str_or_empty_def val_or_def)

lemma same_addressish_Nil: "same_addressish [] t \<Longrightarrow> t = []"
  by (auto simp: same_addressish_def fold_hex_def hex_literal_i_def starts_with_def to_lower_def
      split: if_splits)

lemma addressish_present:
  "same_addressish (str_or_empty v) t \<Longrightarrow> t \<noteq> [] \<Longrightarrow> \<not> nullish v"
  by (auto simp: str_or_empty_def val_or_def dest: same_addressish_Nil)

lemma sendable_request:
  assumes "sendable env0 (params_of_request r) now_ms"
  shows "is_selectable_chain_id (r_fromChainId r)" "is_selectable_chain_id (r_toChainId r)"
    "r_fromToken r \<noteq> []" "r_toToken r \<noteq> []" "\<exists>n > 0. big_int (r_fromAmount r) = Some n"
  using assms by (auto simp: sendable_def params_of_request_def dest: tron_not_Nil address_not_Nil)

lemma checked_intent_bound:
  assumes ok: "assert_intent_matches_request env (quote_request_params r) (served_of q) = Inr u"
    and s: "sendable env0 (params_of_request r) now_ms" and i: "q_eip712Data q = Some i"
  shows "intent_bound_to_request env r i"
proof -
  note r = sendable_request [OF s]
  from r(5) obtain n where n: "big_int (r_fromAmount r) = Some n" by blast
  have amt: "same_numeric a (VStr (r_fromAmount r)) \<longleftrightarrow> big_of a = Some n" for a
    using n by (simp add: same_numeric_big)
  have exact: "qp_swap_kind (quote_request_params r) = Some ''exact_input''"
    by (simp add: quote_request_params_def)
  from ok i show ?thesis
    unfolding assert_intent_ok check_amounts_exact_input [OF exact]
    by (auto simp: quote_request_params_def served_of_def intent_bound_to_request_def n amt
        same_numeric_big [OF big_of_chain [OF r(1)]] same_numeric_big [OF big_of_chain [OF r(2)]]
        check_address_ok check_wallet_ok expected_recipient_def split: option.splits)
qed

lemma accepted_signable:
  assumes "check_signable_quote env r q pins = Inr ()"
    and "sendable env0 (params_of_request r) now_ms"
    and "q_pullAuthorization q = Some pull"
  shows "\<exists>i kind. q_eip712Data q = Some i \<and> pull_kind_of pull = Inr kind
     \<and> intent_bound_to_request env r i \<and> pull_bound_to_request env r i kind pull
     \<and> pull_recipient_pinned i kind pull pins"
proof -
  from assms(1) have int: "assert_intent_matches_request env (quote_request_params r) (served_of q) = Inr ()"
    and pl: "assert_pull_matches_intent env (served_of q) (client_pull_options pins) = Inr ()"
    by (simp_all add: check_signable_quote_ok)
  from pl assms(3) obtain i kind where i: "q_eip712Data q = Some i" and k: "pull_kind_of pull = Inr kind"
    and m: "pull_matches env (client_pull_options pins) i kind pull"
    by (auto simp: assert_pull_ok served_of_def)
  have b: "intent_bound_to_request env r i" by (rule checked_intent_bound [OF int assms(2) i])
  note r = sendable_request [OF assms(2)]
  from b have fa: "big_of (msg i ''fromAmount'') = big_int (r_fromAmount r)"
    and fc: "big_of (msg i ''fromChainId'') = Some (r_fromChainId r)"
    and ft: "same_addressish (str_or_empty (msg i ''fromToken'')) (r_fromToken r)"
    and dl: "deadline_bounded env (msg i ''deadline'')"
    by (simp_all add: intent_bound_to_request_def)
  from ft r(3) have present: "\<not> nullish (msg i ''fromToken'')" by (rule addressish_present)
  then have ft': "same_addressish (js_string (msg i ''fromToken'')) (r_fromToken r)"
    and ne: "msg i ''fromToken'' \<noteq> VUndef"
    using ft by (simp_all add: str_or_empty_present nullish_def)
  have na: "msg i ''fromAmount'' \<noteq> VUndef" using fa r(5) by auto
  from m ne have tok: "same_addressish (str_or_empty (pulled_token kind pull)) (r_fromToken r)"
    using ft' by (auto simp: pull_matches_def intro: same_addressish_trans)
  from m na have "pulled_amount kind pull = VUndef \<or> big_of (pulled_amount kind pull) = big_int (r_fromAmount r)"
    using fa by (auto simp: pull_matches_def same_numeric_iff)
  moreover from m have "big_of (obj_get (td_domain pull) ''chainId'') = Some (r_fromChainId r)"
    using fc by (auto simp: pull_matches_def same_numeric_iff)
  moreover have "msg i ''deadline'' = VUndef \<or> msg pull (pull_field kind ''validBefore'' ''deadline'') = VUndef \<or>
      (\<exists>x. big_of (msg pull (pull_field kind ''validBefore'' ''deadline'')) = Some x
         \<and> x \<le> \<lfloor>wall_now env / 1000\<rfloor> + 7200)"
  proof -
    have "check_pull_expiry i kind pull VUndef = Inr ()"
      using m by (simp add: pull_matches_def client_pull_options_def)
    moreover have "y + pull_expiry_bound_seconds VUndef \<le> \<lfloor>wall_now env / 1000\<rfloor> + 7200"
      if "big_of (msg i ''deadline'') = Some y" for y
    proof -
      have "y \<le> \<lfloor>wall_now env / 1000\<rfloor> + 3600"
        using dl that by (auto simp: deadline_bounded_def nullish_def)
      then show ?thesis using pull_expiry_bound_le [of VUndef] by linarith
    qed
    ultimately show ?thesis
      unfolding check_pull_expiry_ok Let_def
      by (elim disjE exE conjE) (auto dest: order_trans)
  qed
  moreover from m have "pull_recipient_pinned i kind pull pins"
    by (simp add: pull_matches_def client_pull_options_def)
  ultimately show ?thesis using i k b tok
    by (auto simp: pull_bound_to_request_def Let_def)
qed


end
