(* ===== verification/Deposit.thy ===== *)
theory Deposit
  imports QuoteChecks
begin

text \<open>
  \<open>packages/client/src/machine/deposit.ts\<close>: the deposit route at quote ingest (\<open>checkDepositQuote\<close>) and
  on resume (\<open>verifyStoredDeposit\<close>). The session's record of issued addresses is a plain object, so the
  store locale is interpreted on it.
\<close>

section \<open>The record of issued addresses\<close>

type_synonym seen_addresses = "(string \<times> string) list"

definition seen_get :: "seen_addresses \<Rightarrow> string \<Rightarrow> seen_value option" where
  "seen_get seen k = (case map_of seen k of
     Some i \<Rightarrow> Some (SeenIntent i)
   | None \<Rightarrow> (if List.member prototype_keys k then Some Inherited else None))"

text \<open>Assigning a string to an inherited \<open>__proto__\<close> does nothing.\<close>

definition seen_put :: "seen_addresses \<Rightarrow> string \<Rightarrow> string \<Rightarrow> seen_addresses" where
  "seen_put seen k i = (if k = ''__proto__'' then seen else alist_put k i seen)"

interpretation seen: seen_store seen_get seen_put
  by unfold_locales (auto simp: seen_get_def seen_put_def prototype_keys_def split: option.splits if_splits)

section \<open>A served deposit route\<close>

record stored_deposit =
  st_attested :: deposit_fields
  st_attestation :: string

datatype deposit_refusal = Unavailable deposit_error | MalformedSignature | AddressReuse deposit_error

definition signature_re :: "string \<Rightarrow> bool" where
  "signature_re s \<longleftrightarrow> starts_with s ''0x'' \<and> length (drop 2 s) = 130 \<and> list_all is_hex_digit (drop 2 s)"

definition deposit_quote_of :: "quote_request \<Rightarrow> quote_response \<Rightarrow> deposit_quote" where
  "deposit_quote_of r q = \<lparr>dq_intent_id = q_intentId q, dq_quote_id = q_quoteId q,
     dq_from_amount = VStr (r_fromAmount r), dq_deposit_address = q_depositAddress q,
     dq_deposit_deadline = (case q_depositDeadline q of None \<Rightarrow> VUndef | Some d \<Rightarrow> VNum (Fin d)),
     dq_to_amount = VStr (q_toAmount q), dq_min_to_amount = VStr (q_minToAmount q)\<rparr>"

definition verified_fields ::
    "env \<Rightarrow> quote_request \<Rightarrow> quote_response \<Rightarrow> string option \<Rightarrow> deposit_error + deposit_fields" where
  "verified_fields env r q signer = (let p = quote_request_params r in
     then_check (deposit_attestation_fields (deposit_quote_of r q) p) (\<lambda>f.
       then_check (verify_deposit_attestation env f (q_depositAttestation q) signer) (\<lambda>_.
         then_check (assert_deposit_quote_matches_request env p f (q_recipientAddress q) (q_escrow q))
           (\<lambda>_. Inr f))))"

definition check_deposit_quote ::
    "env \<Rightarrow> quote_request \<Rightarrow> quote_response \<Rightarrow> string option \<Rightarrow> seen_addresses
      \<Rightarrow> deposit_refusal + (stored_deposit \<times> seen_addresses)" where
  "check_deposit_quote env r q signer seen =
     (let att = or_else (q_depositAttestation q) [] in
      if att \<noteq> [] \<and> \<not> signature_re att then Inl MalformedSignature
      else (case verified_fields env r q signer of
         Inl e \<Rightarrow> Inl (Unavailable e)
       | Inr f \<Rightarrow>
          (case record_deposit_address seen_get seen_put seen
                  (or_else (f_deposit_address f) []) (f_intent_id f) of
             Inl e \<Rightarrow> Inl (if is_quote_mismatch e then AddressReuse e else Unavailable e)
           | Inr next \<Rightarrow> Inr (\<lparr>st_attested = f, st_attestation = att\<rparr>, next))))"

section \<open>A stored deposit, read back\<close>

datatype stored_refusal =
    NoStoredAttestation | NoStoredFields | UnrecognisedShape | FieldMalformed string
  | OtherIntent | OtherOwner | StoredSignatureMalformed | StoredRecipientIsToken
  | StoredDepositRefused deposit_error

definition has_key :: "obj \<Rightarrow> string \<Rightarrow> bool" where
  "has_key ob k \<longleftrightarrow> map_of ob k \<noteq> None"

definition safe_integer :: "jsval \<Rightarrow> jsnum option" where
  "safe_integer v = (case v of VNum n \<Rightarrow> (case int_of_num n of
       Some i \<Rightarrow> (if \<bar>i\<bar> \<le> 9007199254740991 then Some n else None) | None \<Rightarrow> None) | _ \<Rightarrow> None)"

definition read_required_str :: "obj \<Rightarrow> string \<Rightarrow> stored_refusal + string" where
  "read_required_str ob k = (case obj_get ob k of VStr s \<Rightarrow> Inr s | _ \<Rightarrow> Inl (FieldMalformed k))"

definition read_optional_str :: "obj \<Rightarrow> string \<Rightarrow> stored_refusal + string option" where
  "read_optional_str ob k = (if nullish (obj_get ob k) then Inr None
     else (case obj_get ob k of VStr s \<Rightarrow> Inr (Some s) | _ \<Rightarrow> Inl (FieldMalformed k)))"

definition read_integer :: "obj \<Rightarrow> string \<Rightarrow> stored_refusal + jsnum" where
  "read_integer ob k = (case safe_integer (obj_get ob k) of
     Some n \<Rightarrow> Inr n | None \<Rightarrow> Inl (FieldMalformed k))"

definition read_optional_integer :: "obj \<Rightarrow> string \<Rightarrow> stored_refusal + jsnum option" where
  "read_optional_integer ob k = (if nullish (obj_get ob k) then Inr None
     else then_check (read_integer ob k) (\<lambda>n. Inr (Some n)))"

definition legacy_names :: "(string \<times> string) list" where
  "legacy_names = [(''intent_id'', ''intentId''), (''quote_id'', ''quoteId''), (''wallet'', ''wallet''),
     (''from_chain_id'', ''fromChainId''), (''from_token'', ''fromToken''), (''from_amount'', ''fromAmount''),
     (''deposit_address'', ''depositAddress''), (''deposit_deadline'', ''depositDeadline''),
     (''refund_address'', ''refundAddress''), (''to_chain_id'', ''toChainId''), (''to_token'', ''toToken''),
     (''to_amount'', ''toAmount''), (''min_to_amount'', ''minToAmount''), (''recipient'', ''recipient''),
     (''stealth_spending_pub_key'', ''stealthSpendingPubKey''),
     (''stealth_viewing_pub_key'', ''stealthViewingPubKey''),
     (''settlement_preference'', ''resolvedSettlementType'')]"

definition stored_key :: "bool \<Rightarrow> string \<Rightarrow> string" where
  "stored_key legacy name = (if legacy then or_else (map_of legacy_names name) name else name)"

definition read_attested :: "bool \<Rightarrow> obj \<Rightarrow> stored_refusal + deposit_fields" where
  "read_attested legacy ob = (let key = stored_key legacy in
     then_check (read_required_str ob (key ''intent_id'')) (\<lambda>intent_id.
     then_check (read_required_str ob (key ''quote_id'')) (\<lambda>quote_id.
     then_check (read_required_str ob (key ''wallet'')) (\<lambda>wallet.
     then_check (read_integer ob (key ''from_chain_id'')) (\<lambda>from_chain_id.
     then_check (read_required_str ob (key ''from_token'')) (\<lambda>from_token.
     then_check (read_required_str ob (key ''from_amount'')) (\<lambda>from_amount.
     then_check (read_required_str ob (key ''deposit_address'')) (\<lambda>deposit_address.
     then_check (read_optional_integer ob (key ''deposit_deadline'')) (\<lambda>deposit_deadline.
     then_check (read_optional_str ob (key ''refund_address'')) (\<lambda>refund_address.
     then_check (read_integer ob (key ''to_chain_id'')) (\<lambda>to_chain_id.
     then_check (read_required_str ob (key ''to_token'')) (\<lambda>to_token.
     then_check (read_required_str ob (key ''to_amount'')) (\<lambda>to_amount.
     then_check (read_required_str ob (key ''min_to_amount'')) (\<lambda>min_to_amount.
     then_check (read_required_str ob (key ''recipient'')) (\<lambda>recipient.
     then_check (read_optional_str ob (key ''stealth_spending_pub_key'')) (\<lambda>spending.
     then_check (read_optional_str ob (key ''stealth_viewing_pub_key'')) (\<lambda>viewing.
     then_check (read_required_str ob (key ''settlement_preference'')) (\<lambda>settlement.
       Inr \<lparr>f_intent_id = intent_id, f_quote_id = quote_id, f_wallet = wallet,
         f_from_chain_id = from_chain_id, f_from_token = from_token, f_from_amount = from_amount,
         f_deposit_address = Some deposit_address, f_deposit_deadline = deposit_deadline,
         f_refund_address = refund_address, f_to_chain_id = to_chain_id, f_to_token = to_token,
         f_to_amount = to_amount, f_min_to_amount = min_to_amount, f_recipient = recipient,
         f_stealth_spending_pub_key = spending, f_stealth_viewing_pub_key = viewing,
         f_settlement_preference = settlement\<rparr>))))))))))))))))))"

definition read_stored_deposit :: "jsval \<Rightarrow> stored_refusal + stored_deposit" where
  "read_stored_deposit raw = (case val_get raw ''attestation'' of
     VStr att \<Rightarrow> (if att = [] then Inl NoStoredAttestation
       else (case val_get raw ''attested'' of
          VObj source \<Rightarrow>
            (let legacy = (\<not> has_key source ''intent_id'' \<and> has_key source ''intentId'') in
             if \<not> legacy \<and> \<not> has_key source ''intent_id'' then Inl UnrecognisedShape
             else then_check (read_attested legacy source) (\<lambda>f.
               Inr \<lparr>st_attested = f, st_attestation = att\<rparr>))
        | VArr _ \<Rightarrow> Inl UnrecognisedShape
        | _ \<Rightarrow> Inl NoStoredFields))
   | _ \<Rightarrow> Inl NoStoredAttestation)"

definition verify_stored_deposit ::
    "env \<Rightarrow> jsval \<Rightarrow> string option \<Rightarrow> string \<Rightarrow> string \<Rightarrow> stored_refusal + stored_deposit" where
  "verify_stored_deposit env raw signer intent owner =
     then_check (read_stored_deposit raw) (\<lambda>stored. (let f = st_attested stored in
       if f_intent_id f \<noteq> intent then Inl OtherIntent
       else if owner = [] \<or> normalize_address (f_wallet f) \<noteq> normalize_address owner then Inl OtherOwner
       else if \<not> signature_re (st_attestation stored) then Inl StoredSignatureMalformed
       else if recipient_is_destination_token (f_recipient f) (f_to_token f) then Inl StoredRecipientIsToken
       else (case verify_deposit_attestation env f (Some (st_attestation stored)) signer of
          Inl e \<Rightarrow> Inl (StoredDepositRefused e)
        | Inr _ \<Rightarrow> Inr stored)))"

section \<open>What a revealed deposit address is\<close>

definition deposit_bound :: "env \<Rightarrow> quote_request \<Rightarrow> quote_response \<Rightarrow> string option \<Rightarrow> stored_deposit \<Rightarrow> bool" where
  "deposit_bound env r q signer st \<longleftrightarrow> (let f = st_attested st in
     f_intent_id f = q_intentId q
   \<and> q_depositAddress q = f_deposit_address f \<and> f_deposit_address f \<notin> {None, Some []}
   \<and> r_wallet r = Some (f_wallet f)
   \<and> f_recipient f = or_else (r_recipientAddress r) (f_wallet f)
   \<and> f_from_chain_id f = Fin (of_int (r_fromChainId r)) \<and> f_from_token f = r_fromToken r
   \<and> f_to_chain_id f = Fin (of_int (r_toChainId r)) \<and> f_to_token f = r_toToken r
   \<and> f_from_amount f = r_fromAmount r \<and> f_refund_address f = r_refundAddress r
   \<and> nullish (q_escrow q)
   \<and> \<not> recipient_is_destination_token (f_recipient f) (f_to_token f)
   \<and> (\<exists>d. q_depositDeadline q = Some d \<and> f_deposit_deadline f = Some (Fin d)
        \<and> d \<ge> of_int \<lfloor>wall_now env / 1000\<rfloor> + 60)
   \<and> (\<exists>m s a. build_deposit_attestation_message f = Some m \<and> signer = Some s \<and> s \<noteq> []
        \<and> recover_message env m (st_attestation st) = Some a \<and> to_lower a = to_lower s))"

lemma js_number_VInt [simp]: "js_number (VInt n) = Fin (of_int n)"
  by (simp add: js_number_def VInt_def)

lemma verified_fields_bound:
  assumes "verified_fields env r q signer = Inr f"
  shows "deposit_bound env r q signer \<lparr>st_attested = f, st_attestation = or_else (q_depositAttestation q) []\<rparr>"
proof -
  let ?p = "quote_request_params r"
  from assms have fields: "deposit_attestation_fields (deposit_quote_of r q) ?p = Inr f"
    and sig: "verify_deposit_attestation env f (q_depositAttestation q) signer = Inr ()"
    and deal: "assert_deposit_quote_matches_request env ?p f (q_recipientAddress q) (q_escrow q) = Inr ()"
    by (auto simp: verified_fields_def Let_def)
  from deal have win: "check_deposit_window env f = Inr ()" and esc: "nullish (q_escrow q)"
    and tok: "\<not> recipient_is_destination_token (f_recipient f) (f_to_token f)"
    by (simp_all add: assert_deposit_quote_matches_request_def)
  have dl: "f_deposit_deadline f = map_option Fin (q_depositDeadline q)"
    using fields by (auto simp: deposit_attestation_fields_def Let_def deposit_quote_of_def
        nullish_def js_number_def split: option.splits)
  have "\<exists>d. q_depositDeadline q = Some d \<and> f_deposit_deadline f = Some (Fin d)
      \<and> d \<ge> of_int \<lfloor>wall_now env / 1000\<rfloor> + 60"
    using win dl by (auto simp: check_deposit_window_def window_too_short_def
        DEPOSIT_MIN_WINDOW_SECONDS_def split: option.splits)
  moreover from fields have "f_wallet f = or_else (r_wallet r) [] \<and> r_wallet r \<noteq> None"
    by (auto simp: deposit_attestation_fields_def Let_def require_param_def quote_request_params_def)
  moreover from fields have "f_from_chain_id f = Fin (of_int (r_fromChainId r))"
      "f_to_chain_id f = Fin (of_int (r_toChainId r))" "f_from_token f = r_fromToken r"
      "f_to_token f = r_toToken r" "f_from_amount f = r_fromAmount r"
      "f_refund_address f = r_refundAddress r" "f_intent_id f = q_intentId q"
      "f_deposit_address f = q_depositAddress q"
      "f_recipient f = or_else (r_recipientAddress r) (f_wallet f)"
    by (auto simp: deposit_attestation_fields_def Let_def require_param_def quote_request_params_def
        deposit_quote_of_def)
  ultimately show ?thesis
    using sig esc tok by (auto simp: deposit_bound_def Let_def verify_attestation_ok)
qed

lemma check_deposit_quote_ok:
  "check_deposit_quote env r q signer seen = Inr (st, seen') \<Longrightarrow>
     (\<exists>f. verified_fields env r q signer = Inr f
       \<and> st = \<lparr>st_attested = f, st_attestation = or_else (q_depositAttestation q) []\<rparr>
       \<and> record_deposit_address seen_get seen_put seen (or_else (f_deposit_address f) []) (f_intent_id f)
           = Inr seen')"
  by (auto simp: check_deposit_quote_def Let_def split: if_splits sum.splits)

text \<open>
  C17. A deposit address is revealed only for the user's own deal. The pinned signer signed exactly the
  fields rebuilt from the request (wallet, chains, tokens, amount, recipient, refund address) and the
  quote's address and intent; the payout is not the destination token contract, no escrow envelope
  rides along, at least a minute of the attested window is left, and the address was not issued for
  another intent this session.
\<close>

theorem revealed_deposit_is_attested:
  assumes "check_deposit_quote env r q signer seen = Inr (st, seen')"
  shows "deposit_bound env r q signer st
     \<and> seen_get seen' (normalize_address (or_else (q_depositAddress q) [])) = Some (SeenIntent (q_intentId q))
     \<and> (\<forall>k v. seen_get seen k = Some v \<longrightarrow> seen_get seen' k = Some v)"
proof -
  from check_deposit_quote_ok [OF assms] obtain f where f: "verified_fields env r q signer = Inr f"
    and st: "st = \<lparr>st_attested = f, st_attestation = or_else (q_depositAttestation q) []\<rparr>"
    and rec: "record_deposit_address seen_get seen_put seen (or_else (f_deposit_address f) []) (f_intent_id f)
      = Inr seen'" by blast
  have b: "deposit_bound env r q signer st" using verified_fields_bound [OF f] st by simp
  then have "f_intent_id f = q_intentId q" "f_deposit_address f = q_depositAddress q"
    by (simp_all add: deposit_bound_def Let_def st)
  with b seen.record_holds [OF rec] seen.record_keeps [OF rec] show ?thesis by simp
qed

text \<open>
  C27. The address tripwire over a whole session: in any sequence of deposit routes the client accepted,
  one address (up to the case of a hex address) was only ever shown for one intent.
\<close>

theorem one_intent_per_deposit_address:
  assumes "record_all seen_get seen_put seen rs = Inr seen'"
    and "(a, i) \<in> set rs" and "(b, j) \<in> set rs" and "normalize_address a = normalize_address b"
  shows "i = j"
  using assms by (rule seen.one_intent_per_address)

section \<open>A stored binding, written back\<close>

text \<open>\<open>JSON.stringify\<close> of a proven binding, as the host persists it.\<close>

definition optional_val :: "string option \<Rightarrow> jsval" where
  "optional_val v = (case v of None \<Rightarrow> VNull | Some s \<Rightarrow> VStr s)"

definition fields_json :: "(string \<Rightarrow> string) \<Rightarrow> deposit_fields \<Rightarrow> obj" where
  "fields_json key f = [
     (key ''intent_id'', VStr (f_intent_id f)), (key ''quote_id'', VStr (f_quote_id f)),
     (key ''wallet'', VStr (f_wallet f)), (key ''from_chain_id'', VNum (f_from_chain_id f)),
     (key ''from_token'', VStr (f_from_token f)), (key ''from_amount'', VStr (f_from_amount f)),
     (key ''deposit_address'', optional_val (f_deposit_address f)),
     (key ''deposit_deadline'', (case f_deposit_deadline f of None \<Rightarrow> VNull | Some n \<Rightarrow> VNum n)),
     (key ''refund_address'', optional_val (f_refund_address f)),
     (key ''to_chain_id'', VNum (f_to_chain_id f)), (key ''to_token'', VStr (f_to_token f)),
     (key ''to_amount'', VStr (f_to_amount f)), (key ''min_to_amount'', VStr (f_min_to_amount f)),
     (key ''recipient'', VStr (f_recipient f)),
     (key ''stealth_spending_pub_key'', optional_val (f_stealth_spending_pub_key f)),
     (key ''stealth_viewing_pub_key'', optional_val (f_stealth_viewing_pub_key f)),
     (key ''settlement_preference'', VStr (f_settlement_preference f))]"

definition stored_json :: "bool \<Rightarrow> stored_deposit \<Rightarrow> jsval" where
  "stored_json legacy st = VObj [(''attested'', VObj (fields_json (stored_key legacy) (st_attested st))),
     (''attestation'', VStr (st_attestation st))]"

definition well_read :: "deposit_fields \<Rightarrow> bool" where
  "well_read f \<longleftrightarrow> f_deposit_address f \<noteq> None
     \<and> safe_integer (VNum (f_from_chain_id f)) = Some (f_from_chain_id f)
     \<and> safe_integer (VNum (f_to_chain_id f)) = Some (f_to_chain_id f)
     \<and> (\<forall>n \<in> set_option (f_deposit_deadline f). safe_integer (VNum n) = Some n)"

lemma safe_integer_Some: "safe_integer v = Some n \<Longrightarrow> safe_integer (VNum n) = Some n"
  by (auto simp: safe_integer_def split: jsval.splits option.splits if_splits)

lemma read_integer_safe: "read_integer ob k = Inr n \<Longrightarrow> safe_integer (VNum n) = Some n"
  by (auto simp: read_integer_def split: option.splits dest: safe_integer_Some)

lemma read_attested_well_read: "read_attested legacy ob = Inr f \<Longrightarrow> well_read f"
  by (auto simp: read_attested_def Let_def well_read_def read_optional_integer_def
      dest: read_integer_safe split: if_splits)

lemma stored_key_current: "stored_key False k = k"
  by (simp add: stored_key_def)

lemma stored_key_legacy:
  "stored_key True ''intent_id'' = ''intentId''"
  "stored_key True ''quote_id'' = ''quoteId''"
  "stored_key True ''wallet'' = ''wallet''"
  "stored_key True ''from_chain_id'' = ''fromChainId''"
  "stored_key True ''from_token'' = ''fromToken''"
  "stored_key True ''from_amount'' = ''fromAmount''"
  "stored_key True ''deposit_address'' = ''depositAddress''"
  "stored_key True ''deposit_deadline'' = ''depositDeadline''"
  "stored_key True ''refund_address'' = ''refundAddress''"
  "stored_key True ''to_chain_id'' = ''toChainId''"
  "stored_key True ''to_token'' = ''toToken''"
  "stored_key True ''to_amount'' = ''toAmount''"
  "stored_key True ''min_to_amount'' = ''minToAmount''"
  "stored_key True ''recipient'' = ''recipient''"
  "stored_key True ''stealth_spending_pub_key'' = ''stealthSpendingPubKey''"
  "stored_key True ''stealth_viewing_pub_key'' = ''stealthViewingPubKey''"
  "stored_key True ''settlement_preference'' = ''resolvedSettlementType''"
  by (simp_all add: stored_key_def legacy_names_def)

lemma read_optional_str_val: "obj_get ob k = optional_val v \<Longrightarrow> read_optional_str ob k = Inr v"
  by (cases v) (auto simp: read_optional_str_def optional_val_def nullish_def)

lemma fields_json_get:
  "obj_get (fields_json (stored_key legacy) f) (stored_key legacy ''intent_id'') = VStr (f_intent_id f)"
  "obj_get (fields_json (stored_key legacy) f) (stored_key legacy ''quote_id'') = VStr (f_quote_id f)"
  "obj_get (fields_json (stored_key legacy) f) (stored_key legacy ''wallet'') = VStr (f_wallet f)"
  "obj_get (fields_json (stored_key legacy) f) (stored_key legacy ''from_chain_id'') = VNum (f_from_chain_id f)"
  "obj_get (fields_json (stored_key legacy) f) (stored_key legacy ''from_token'') = VStr (f_from_token f)"
  "obj_get (fields_json (stored_key legacy) f) (stored_key legacy ''from_amount'') = VStr (f_from_amount f)"
  "obj_get (fields_json (stored_key legacy) f) (stored_key legacy ''deposit_address'') = optional_val (f_deposit_address f)"
  "obj_get (fields_json (stored_key legacy) f) (stored_key legacy ''deposit_deadline'') = (case f_deposit_deadline f of None \<Rightarrow> VNull | Some n \<Rightarrow> VNum n)"
  "obj_get (fields_json (stored_key legacy) f) (stored_key legacy ''refund_address'') = optional_val (f_refund_address f)"
  "obj_get (fields_json (stored_key legacy) f) (stored_key legacy ''to_chain_id'') = VNum (f_to_chain_id f)"
  "obj_get (fields_json (stored_key legacy) f) (stored_key legacy ''to_token'') = VStr (f_to_token f)"
  "obj_get (fields_json (stored_key legacy) f) (stored_key legacy ''to_amount'') = VStr (f_to_amount f)"
  "obj_get (fields_json (stored_key legacy) f) (stored_key legacy ''min_to_amount'') = VStr (f_min_to_amount f)"
  "obj_get (fields_json (stored_key legacy) f) (stored_key legacy ''recipient'') = VStr (f_recipient f)"
  "obj_get (fields_json (stored_key legacy) f) (stored_key legacy ''stealth_spending_pub_key'') = optional_val (f_stealth_spending_pub_key f)"
  "obj_get (fields_json (stored_key legacy) f) (stored_key legacy ''stealth_viewing_pub_key'') = optional_val (f_stealth_viewing_pub_key f)"
  "obj_get (fields_json (stored_key legacy) f) (stored_key legacy ''settlement_preference'') = VStr (f_settlement_preference f)"
  by (cases legacy; simp add: fields_json_def stored_key_current stored_key_legacy)+

lemma read_required_str_eq: "obj_get ob k = VStr s \<Longrightarrow> read_required_str ob k = Inr s"
  by (simp add: read_required_str_def)

lemma read_integer_eq:
  "obj_get ob k = VNum n \<Longrightarrow> safe_integer (VNum n) = Some n \<Longrightarrow> read_integer ob k = Inr n"
  by (simp add: read_integer_def)

lemma read_optional_integer_eq:
  "obj_get ob k = (case v of None \<Rightarrow> VNull | Some n \<Rightarrow> VNum n) \<Longrightarrow>
     \<forall>n \<in> set_option v. safe_integer (VNum n) = Some n \<Longrightarrow> read_optional_integer ob k = Inr v"
  by (cases v) (auto simp: read_optional_integer_def read_integer_eq nullish_def)

lemma read_fields_json:
  assumes "well_read f"
  shows "read_attested legacy (fields_json (stored_key legacy) f) = Inr f"
proof -
  obtain a where a: "f_deposit_address f = Some a" using assms by (auto simp: well_read_def)
  from assms have "safe_integer (VNum (f_from_chain_id f)) = Some (f_from_chain_id f)"
    "safe_integer (VNum (f_to_chain_id f)) = Some (f_to_chain_id f)"
    "\<forall>n \<in> set_option (f_deposit_deadline f). safe_integer (VNum n) = Some n"
    by (simp_all add: well_read_def)
  note ints = read_integer_eq [OF fields_json_get(4) this(1)] read_integer_eq [OF fields_json_get(10) this(2)]
    read_optional_integer_eq [OF fields_json_get(8) this(3)]
  have addr: "obj_get (fields_json (stored_key legacy) f) (stored_key legacy ''deposit_address'') = VStr a"
    by (simp add: fields_json_get a optional_val_def)
  note strs = fields_json_get(1-3,5,6,11-14,17) [THEN read_required_str_eq] addr [THEN read_required_str_eq]
    fields_json_get(9,15,16) [THEN read_optional_str_val]
  have "f = \<lparr>f_intent_id = f_intent_id f, f_quote_id = f_quote_id f, f_wallet = f_wallet f,
      f_from_chain_id = f_from_chain_id f, f_from_token = f_from_token f, f_from_amount = f_from_amount f,
      f_deposit_address = Some a, f_deposit_deadline = f_deposit_deadline f,
      f_refund_address = f_refund_address f, f_to_chain_id = f_to_chain_id f, f_to_token = f_to_token f,
      f_to_amount = f_to_amount f, f_min_to_amount = f_min_to_amount f, f_recipient = f_recipient f,
      f_stealth_spending_pub_key = f_stealth_spending_pub_key f,
      f_stealth_viewing_pub_key = f_stealth_viewing_pub_key f,
      f_settlement_preference = f_settlement_preference f\<rparr>"
    using a by simp
  then show ?thesis by (simp only: read_attested_def Let_def strs ints then_check.simps)
qed

lemma read_stored_json:
  assumes "well_read (st_attested st)" and "st_attestation st \<noteq> []"
  shows "read_stored_deposit (stored_json legacy st) = Inr st"
proof -
  have "has_key (fields_json (stored_key True) g) ''intentId''"
    "\<not> has_key (fields_json (stored_key True) g) ''intent_id''"
    "has_key (fields_json (stored_key False) g) ''intent_id''" for g
    by (simp_all add: has_key_def fields_json_def stored_key_current stored_key_legacy)
  with assms read_fields_json [OF assms(1), of legacy] show ?thesis
    by (cases legacy) (simp_all add: read_stored_deposit_def stored_json_def val_get_def Let_def)
qed

lemma verify_stored_ok:
  "verify_stored_deposit env raw signer intent owner = Inr st \<longleftrightarrow>
     read_stored_deposit raw = Inr st \<and> f_intent_id (st_attested st) = intent \<and> owner \<noteq> []
   \<and> normalize_address (f_wallet (st_attested st)) = normalize_address owner
   \<and> signature_re (st_attestation st)
   \<and> \<not> recipient_is_destination_token (f_recipient (st_attested st)) (f_to_token (st_attested st))
   \<and> verify_deposit_attestation env (st_attested st) (Some (st_attestation st)) signer = Inr ()"
proof (cases "read_stored_deposit raw")
  case (Inr s)
  then show ?thesis
    by (cases "verify_deposit_attestation env (st_attested s) (Some (st_attestation s)) signer")
       (auto simp: verify_stored_deposit_def Let_def)
qed (simp add: verify_stored_deposit_def)

lemma read_stored_ok:
  assumes "read_stored_deposit raw = Inr st"
  shows "\<exists>legacy source. read_attested legacy source = Inr (st_attested st) \<and> st_attestation st \<noteq> []"
proof -
  from assms obtain att where att: "val_get raw ''attestation'' = VStr att" "att \<noteq> []"
    by (cases "val_get raw ''attestation''") (simp_all add: read_stored_deposit_def split: if_splits)
  with assms obtain source where src: "val_get raw ''attested'' = VObj source"
    by (cases "val_get raw ''attested''") (simp_all add: read_stored_deposit_def)
  from assms att src show ?thesis
    by (simp add: read_stored_deposit_def Let_def split: if_splits) (elim exE conjE, force)+
qed

lemma read_stored_well_read:
  assumes "read_stored_deposit raw = Inr st"
  shows "well_read (st_attested st)" and "st_attestation st \<noteq> []"
  using read_stored_ok [OF assms] read_attested_well_read by blast+

text \<open>
  C26. A stored deposit binding is shown only to its owner, and proving it is stable: what
  \<open>verifyStoredDeposit\<close> returns attests the record's intent and its owner's wallet with the pinned
  signer's signature, and written back, in the current shape or the one of older builds, it is proved
  again and read as the same binding.
\<close>

theorem stored_deposit_roundtrip:
  assumes "verify_stored_deposit env raw signer intent owner = Inr st"
  shows "f_intent_id (st_attested st) = intent
     \<and> normalize_address (f_wallet (st_attested st)) = normalize_address owner
     \<and> verify_deposit_attestation env (st_attested st) (Some (st_attestation st)) signer = Inr ()
     \<and> verify_stored_deposit env (stored_json legacy st) signer intent owner = Inr st"
proof -
  from assms have "read_stored_deposit raw = Inr st" by (simp add: verify_stored_ok)
  from read_stored_well_read [OF this] have "read_stored_deposit (stored_json legacy st) = Inr st"
    by (simp add: read_stored_json)
  with assms show ?thesis by (simp add: verify_stored_ok)
qed

end
