(* ===== verification/IntentState.thy ===== *)
theory IntentState
  imports Deposit
begin

text \<open>
  \<open>state.ts\<close>, \<open>transition.ts\<close> and \<open>phase.ts\<close> of \<open>packages/client/src/machine\<close>: the intent the machine
  holds, a validated status move, and the phase a host renders. \<open>Partial<IntentState>\<close> is a function on
  the state. A move the table refuses returns the same object in the source; here it is \<open>None\<close>.
\<close>

section \<open>state.ts\<close>

record structured_error =
  se_message :: string
  se_code :: "num option"
  se_retryAfter :: "jsnum option"
  se_reason :: "string option"

datatype intent_error = ErrText string | ErrStruct structured_error

datatype sign_refusal =
    WrongChain int | WalletChanged | PayoutMismatch | PullUnpinned | ApprovalRequired

record intent_state =
  i_status :: intent_status
  i_intentId :: "string option"
  i_quoteId :: "string option"
  i_quote :: "quote_response option"
  i_error :: "intent_error option"
  i_txHash :: "string option"
  i_receivingTxHash :: "string option"
  i_settlementTxHash :: "string option"
  i_settlementChainId :: "num option"
  i_substatus :: "string option"
  i_legsWithheld :: "bool option"
  i_reconciling :: bool
  i_refundReason :: "string option"
  i_quotedAddress :: "string option"
  i_quotedChainId :: "int option"
  i_quotedFromAmount :: "string option"
  i_quotedSettlement :: "settlement_type option"
  i_depositDeadline :: "num option"
  i_attestedDeposit :: "stored_deposit option"
  i_pollExhausted :: bool
  i_mayHaveMoved :: bool
  i_notSent :: bool
  i_refusal :: "sign_refusal option"

definition INITIAL_INTENT_STATE :: intent_state where
  "INITIAL_INTENT_STATE = \<lparr>i_status = Idle, i_intentId = None, i_quoteId = None, i_quote = None,
     i_error = None, i_txHash = None, i_receivingTxHash = None, i_settlementTxHash = None,
     i_settlementChainId = None, i_substatus = None, i_legsWithheld = None, i_reconciling = False,
     i_refundReason = None, i_quotedAddress = None, i_quotedChainId = None, i_quotedFromAmount = None,
     i_quotedSettlement = None, i_depositDeadline = None, i_attestedDeposit = None,
     i_pollExhausted = False, i_mayHaveMoved = False, i_notSent = False, i_refusal = None\<rparr>"

lemma INITIAL_simps [simp]:
  "i_status INITIAL_INTENT_STATE = Idle" "i_intentId INITIAL_INTENT_STATE = None"
  "i_quote INITIAL_INTENT_STATE = None" "i_mayHaveMoved INITIAL_INTENT_STATE = False"
  "i_notSent INITIAL_INTENT_STATE = False" "i_reconciling INITIAL_INTENT_STATE = False"
  "i_quotedAddress INITIAL_INTENT_STATE = None" "i_quotedFromAmount INITIAL_INTENT_STATE = None"
  "i_quotedChainId INITIAL_INTENT_STATE = None" "i_quoteId INITIAL_INTENT_STATE = None"
  "i_depositDeadline INITIAL_INTENT_STATE = None" "i_attestedDeposit INITIAL_INTENT_STATE = None"
  by (simp_all add: INITIAL_INTENT_STATE_def)

type_synonym updates = "intent_state \<Rightarrow> intent_state"

section \<open>transition.ts\<close>

definition can_move :: "intent_status \<Rightarrow> status_value \<Rightarrow> bool" where
  "can_move from to = (case to of StatusOf t \<Rightarrow> can_transition_to from t | NotAStatus _ \<Rightarrow> False)"

definition apply_status_transition :: "intent_state \<Rightarrow> status_value \<Rightarrow> updates \<Rightarrow> intent_state option" where
  "apply_status_transition prev to upd = (case to of
     StatusOf t \<Rightarrow> (if can_transition_to (i_status prev) t then Some (upd (prev\<lparr>i_status := t\<rparr>)) else None)
   | NotAStatus _ \<Rightarrow> None)"

lemma apply_status_transition_Some:
  "apply_status_transition prev to upd = Some i \<longleftrightarrow>
     (\<exists>t. to = StatusOf t \<and> can_transition_to (i_status prev) t \<and> i = upd (prev\<lparr>i_status := t\<rparr>))"
  by (auto simp: apply_status_transition_def split: status_value.splits)

section \<open>phase.ts\<close>

datatype swap_phase =
    PConfirm | PAwaitingWallet | PDeposit | PSubmitting | PBridging | PSettling | PSuccess
  | PRefunded | PFailed | PMayHaveMoved | PNotSent | PPending

definition phase_from_status :: "intent_status \<Rightarrow> bool \<Rightarrow> bool \<Rightarrow> bool \<Rightarrow> swap_phase" where
  "phase_from_status status reconciling mayHaveMoved notSent = (case status of
     Signing \<Rightarrow> PAwaitingWallet
   | AwaitingDeposit \<Rightarrow> PDeposit
   | Executing \<Rightarrow> if notSent then PNotSent else if reconciling then PPending else PSubmitting
   | Bridging \<Rightarrow> if reconciling then PPending else PBridging
   | Settling \<Rightarrow> if reconciling then PPending else PSettling
   | Completed \<Rightarrow> PSuccess
   | Refunded \<Rightarrow> PRefunded
   | Failed \<Rightarrow> if mayHaveMoved then PMayHaveMoved else PFailed
   | _ \<Rightarrow> PConfirm)"

lemma phase_failed_iff: "phase_from_status s r mm ns = PFailed \<longleftrightarrow> s = Failed \<and> \<not> mm"
  by (cases s) (simp_all add: phase_from_status_def)

lemma phase_success_iff: "phase_from_status s r mm ns = PSuccess \<longleftrightarrow> s = Completed"
  by (cases s) (simp_all add: phase_from_status_def)

end
