(* ===== verification/Decisions.thy ===== *)
theory Decisions
  imports IntentState
begin

text \<open>
  \<open>packages/client/src/machine/decisions.ts\<close>: the pure decisions of the intent lifecycle, each a function
  of its inputs, with what each of them guarantees. Times are unix seconds or milliseconds as in the
  source; a date that does not parse is \<open>None\<close> (\<open>NaN\<close>, for which every comparison is false).
\<close>

section \<open>Lifecycle state sets\<close>

definition QUOTE_BUSY_STATES :: "intent_status list" where
  "QUOTE_BUSY_STATES = [Signing, AwaitingDeposit, Executing, Bridging, Settling]"

definition ALLOCATABLE_STATES :: "intent_status list" where
  "ALLOCATABLE_STATES = [Idle, Pending, Quoting, Quoted]"

definition ENDED_STATES :: "intent_status list" where
  "ENDED_STATES = [Completed, Refunded]"

definition WALLET_INTERRUPTIBLE_STATES :: "intent_status list" where
  "WALLET_INTERRUPTIBLE_STATES = [Quoted, Signing, Expired, Failed]"

definition POLL_INFLIGHT_STATES :: "intent_status list" where
  "POLL_INFLIGHT_STATES = [AwaitingDeposit, Executing, Bridging, Settling]"

definition LOADING_STATES :: "intent_status list" where
  "LOADING_STATES = [Quoting, Signing, Executing, Bridging, Settling]"

abbreviation busy :: "intent_status \<Rightarrow> bool" where
  "busy s \<equiv> List.member QUOTE_BUSY_STATES s"

abbreviation in_flight :: "intent_status \<Rightarrow> bool" where
  "in_flight s \<equiv> List.member POLL_INFLIGHT_STATES s"

abbreviation allocatable :: "intent_status \<Rightarrow> bool" where
  "allocatable s \<equiv> List.member ALLOCATABLE_STATES s"

lemma state_set_simps [simp]:
  "busy s \<longleftrightarrow> s \<in> {Signing, AwaitingDeposit, Executing, Bridging, Settling}"
  "in_flight s \<longleftrightarrow> s \<in> {AwaitingDeposit, Executing, Bridging, Settling}"
  "allocatable s \<longleftrightarrow> s \<in> {Idle, Pending, Quoting, Quoted}"
  "List.member ENDED_STATES s \<longleftrightarrow> s \<in> {Completed, Refunded}"
  "List.member WALLET_INTERRUPTIBLE_STATES s \<longleftrightarrow> s \<in> {Quoted, Signing, Expired, Failed}"
  by (auto simp: QUOTE_BUSY_STATES_def POLL_INFLIGHT_STATES_def ALLOCATABLE_STATES_def
      ENDED_STATES_def WALLET_INTERRUPTIBLE_STATES_def)

definition failure_may_have_moved :: "string option \<Rightarrow> bool" where
  "failure_may_have_moved substatus \<longleftrightarrow> substatus \<noteq> Some NOT_EXECUTED_SUBSTATUS"

section \<open>Deadlines of an execute\<close>

definition MAX_EXECUTE_RESENDS :: nat where
  "MAX_EXECUTE_RESENDS = 3"

definition EXECUTE_RESEND_MARGIN_SECS :: num where
  "EXECUTE_RESEND_MARGIN_SECS = 5"

definition QUOTED_EXPIRY_GRACE_SECS :: num where
  "QUOTED_EXPIRY_GRACE_SECS = 60"

text \<open>A signed deadline: a digit string is read as a number, a finite number is itself.\<close>

definition signed_secs :: "jsval \<Rightarrow> num option" where
  "signed_secs v = (let n = (case v of VStr s \<Rightarrow> (if all_digits s then Some (string_number s) else None)
       | VNum k \<Rightarrow> Some k | _ \<Rightarrow> None)
     in case n of Some (Fin r) \<Rightarrow> Some r | _ \<Rightarrow> None)"

definition signed_field :: "typed_data option \<Rightarrow> string \<Rightarrow> num option" where
  "signed_field td k = (case td of None \<Rightarrow> None | Some t \<Rightarrow> signed_secs (msg t k))"

definition expiry_secs :: "env \<Rightarrow> quote_response \<Rightarrow> num option" where
  "expiry_secs env q = map_option (\<lambda>ms. of_int \<lfloor>ms / 1000\<rfloor>) (date_get_time env (q_expiry q))"

definition present :: "'a option list \<Rightarrow> 'a list" where
  "present vs = map the (filter (\<lambda>v. v \<noteq> None) vs)"

definition unexecuted_finish_at :: "env \<Rightarrow> quote_response option \<Rightarrow> num option" where
  "unexecuted_finish_at env quote = (case quote of None \<Rightarrow> None
     | Some q \<Rightarrow> (case present [expiry_secs env q, signed_field (q_eip712Data q) ''deadline''] of
         [] \<Rightarrow> None
       | c # cs \<Rightarrow> Some (foldl max c cs + QUOTED_EXPIRY_GRACE_SECS)))"

definition execute_deadline :: "env \<Rightarrow> quote_response option \<Rightarrow> num option" where
  "execute_deadline env quote = (case quote of None \<Rightarrow> None
     | Some q \<Rightarrow> (case expiry_secs env q of None \<Rightarrow> None
       | Some e \<Rightarrow> Some (foldl min e (present [
            signed_field (q_eip712Data q) ''deadline'',
            signed_field (q_pullAuthorization q) ''validBefore'',
            signed_field (q_pullAuthorization q) ''deadline'']))))"

section \<open>Status poll cadence and ceilings\<close>

definition STATUS_POLL_MS :: num where
  "STATUS_POLL_MS = 4000"

definition STATUS_POLL_FLAT_CEILING_ATTEMPTS :: num where
  "STATUS_POLL_FLAT_CEILING_ATTEMPTS = 150"

definition STATUS_POLL_FLAT_CEILING_MS :: num where
  "STATUS_POLL_FLAT_CEILING_MS = STATUS_POLL_FLAT_CEILING_ATTEMPTS * STATUS_POLL_MS"

definition DEPOSIT_POLL_GRACE_MS :: num where
  "DEPOSIT_POLL_GRACE_MS = 10 * 60000"

definition POLL_CEILING_MAX_MS :: num where
  "POLL_CEILING_MAX_MS = 2 * 60 * 60000"

definition nonzero :: "num option \<Rightarrow> bool" where
  "nonzero n \<longleftrightarrow> n \<noteq> None \<and> n \<noteq> Some 0"

definition poll_window :: "intent_status \<Rightarrow> num option \<Rightarrow> num \<Rightarrow> num \<Rightarrow> num option \<Rightarrow> num option" where
  "poll_window status deposit_deadline now_ms poll_ms finish =
     (if status = AwaitingDeposit \<and> nonzero deposit_deadline
        then Some (the deposit_deadline * 1000 - now_ms + DEPOSIT_POLL_GRACE_MS)
      else if status = Executing \<and> nonzero finish
        then Some (the finish * 1000 - now_ms + poll_ms)
      else None)"

definition poll_ceiling_attempts ::
    "intent_status \<Rightarrow> num option \<Rightarrow> num \<Rightarrow> num \<Rightarrow> num \<Rightarrow> num option \<Rightarrow> int" where
  "poll_ceiling_attempts status deposit_deadline now_ms poll_ms flat_ms finish =
     (let flat = \<lceil>flat_ms / poll_ms\<rceil> in
      case poll_window status deposit_deadline now_ms poll_ms finish of
        None \<Rightarrow> flat
      | Some w \<Rightarrow> (if w \<le> 0 then flat else max flat \<lceil>min w POLL_CEILING_MAX_MS / poll_ms\<rceil>))"

section \<open>Resuming\<close>

definition blank_str :: "string option \<Rightarrow> bool" where
  "blank_str s \<longleftrightarrow> s = None \<or> s = Some []"

definition can_adopt_resumed_intent :: "intent_state \<Rightarrow> bool" where
  "can_adopt_resumed_intent st \<longleftrightarrow> i_status st = Idle \<and> blank_str (i_intentId st)"

definition build_resumed_state ::
    "intent_state \<Rightarrow> string \<Rightarrow> intent_status \<Rightarrow> string \<Rightarrow> num option \<Rightarrow> intent_state option" where
  "build_resumed_state prev intent status owner deadline =
     (if intent = [] \<or> owner = [] \<or> \<not> can_adopt_resumed_intent prev then None
      else Some (INITIAL_INTENT_STATE\<lparr>i_intentId := Some intent, i_status := status,
        i_quotedAddress := Some owner, i_depositDeadline := deadline\<rparr>))"

section \<open>The quote request\<close>

text \<open>\<open>s?.trim() || undefined\<close>.\<close>

definition trimmed :: "string option \<Rightarrow> string option" where
  "trimmed s = (case s of None \<Rightarrow> None | Some t \<Rightarrow> (if trim t = [] then None else Some (trim t)))"

definition normalize_quote_code :: "string option \<Rightarrow> string option" where
  "normalize_quote_code s = map_option to_upper (trimmed s)"

definition normalize_stealth :: "settlement_type \<Rightarrow> stealth_meta option \<Rightarrow> stealth_meta option" where
  "normalize_stealth settlement meta = (if settlement = Stealth then meta else None)"

definition build_quote_request :: "quote_request \<Rightarrow> quote_request" where
  "build_quote_request r = r\<lparr>
     r_recipientAddress := trimmed (r_recipientAddress r),
     r_refundAddress := trimmed (r_refundAddress r),
     r_stealthMetaAddress := normalize_stealth (r_settlementPreference r) (r_stealthMetaAddress r),
     r_ref := normalize_quote_code (r_ref r), r_promo := normalize_quote_code (r_promo r)\<rparr>"

section \<open>Preview or executable\<close>

datatype quote_access = Executable | Preview | NeedsWallet

definition quote_access_decision :: "bool \<Rightarrow> settlement_type \<Rightarrow> bool \<Rightarrow> bool \<Rightarrow> quote_access" where
  "quote_access_decision has_wallet settlement is_deposit_origin allocate =
     (if settlement \<noteq> Public then (if has_wallet then Executable else NeedsWallet)
      else if is_deposit_origin then
        (if \<not> allocate then Preview else if has_wallet then Executable else NeedsWallet)
      else if has_wallet then Executable else Preview)"

definition should_upgrade_preview_quote :: "bool \<Rightarrow> bool \<Rightarrow> intent_status \<Rightarrow> bool \<Rightarrow> bool \<Rightarrow> bool" where
  "should_upgrade_preview_quote has_wallet has_amount status is_preview is_deposit_origin \<longleftrightarrow>
     \<not> is_deposit_origin \<and> has_wallet \<and> has_amount \<and> status = Quoted \<and> is_preview"

definition quote_is_preview :: "quote_response \<Rightarrow> bool" where
  "quote_is_preview q \<longleftrightarrow> q_preview q = Some True"

definition can_sign_quote :: "intent_status \<Rightarrow> quote_response option \<Rightarrow> bool" where
  "can_sign_quote status quote = (case quote of None \<Rightarrow> False
     | Some q \<Rightarrow> status = Quoted \<and> q_canSolve q \<and> \<not> quote_is_preview q)"

definition can_allocate_deposit_quote ::
    "bool \<Rightarrow> bool \<Rightarrow> intent_status \<Rightarrow> quote_response option \<Rightarrow> bool" where
  "can_allocate_deposit_quote has_wallet is_deposit_origin status quote = (case quote of None \<Rightarrow> False
     | Some q \<Rightarrow> has_wallet \<and> is_deposit_origin \<and> status = Quoted \<and> q_canSolve q \<and> quote_is_preview q)"

definition compute_refresh_delay_ms :: "env \<Rightarrow> string \<Rightarrow> num \<Rightarrow> num \<Rightarrow> num option" where
  "compute_refresh_delay_ms env expiry now buffer =
     map_option (\<lambda>t. t - now - buffer) (date_get_time env expiry)"

definition should_refresh_quote :: "intent_status \<Rightarrow> bool \<Rightarrow> bool \<Rightarrow> bool" where
  "should_refresh_quote status hidden has_allocated_deposit =
     (if status \<noteq> Quoted then False else if hidden then False else \<not> has_allocated_deposit)"

definition should_refresh_on_return :: "intent_status \<Rightarrow> bool \<Rightarrow> bool \<Rightarrow> bool" where
  "should_refresh_on_return status paused has_allocated_deposit =
     (if paused \<or> has_allocated_deposit then False else status = Quoted \<or> status = Expired)"

section \<open>Sign preflight\<close>

record preflight_input =
  pf_hasDepositAddress :: bool
  pf_hasEip712 :: bool
  pf_address :: "string option"
  pf_quotedAddress :: "string option"
  pf_quotedChainId :: "int option"
  pf_chainId :: "int option"
  pf_originChainId :: int
  pf_expiryMs :: "num option"
  pf_now :: num

datatype sign_preflight =
    PfAwaitingDeposit | PfNoQuote
  | PfRejectQuoted sign_refusal string
  | PfRejectExpired string
  | PfProceed

definition WALLET_CHANGED :: sign_preflight where
  "WALLET_CHANGED = PfRejectQuoted WalletChanged ''The wallet or network changed. Get a fresh quote.''"

definition account_changed :: "string option \<Rightarrow> string option \<Rightarrow> bool" where
  "account_changed address quoted \<longleftrightarrow> blank_str address
     \<or> (\<exists>q \<in> set_option quoted. to_lower (or_else address []) \<noteq> to_lower q)"

definition decide_sign_preflight :: "preflight_input \<Rightarrow> sign_preflight" where
  "decide_sign_preflight p =
     (if pf_hasDepositAddress p then PfAwaitingDeposit
      else if \<not> pf_hasEip712 p then PfNoQuote
      else if account_changed (pf_address p) (pf_quotedAddress p) then WALLET_CHANGED
      else if pf_chainId p \<noteq> Some (pf_originChainId p) then
        PfRejectQuoted (WrongChain (pf_originChainId p))
          (''Switch the wallet to '' @ extended_chain_name (pf_originChainId p) @ '' to sign.'')
      else if pf_quotedChainId p \<noteq> None \<and> pf_chainId p \<noteq> pf_quotedChainId p then WALLET_CHANGED
      else if nonzero (pf_expiryMs p) \<and> pf_now p \<ge> the (pf_expiryMs p) then PfRejectExpired ''Quote expired''
      else PfProceed)"

section \<open>The execute reply\<close>

text \<open>An execute response with its status decoded, as \<open>decideExecuteResult\<close> reads it.\<close>

record execute_result =
  xr_success :: bool
  xr_status :: status_value
  xr_reconciling :: "bool option"
  xr_error :: "string option"
  xr_substatus :: "string option"
  xr_txHash :: "string option"
  xr_receivingTxHash :: "string option"
  xr_settlementTxHash :: "string option"
  xr_settlementChainId :: "num option"

text \<open>\<open>s || null\<close>.\<close>

definition or_null :: "string option \<Rightarrow> string option" where
  "or_null s = (if s = Some [] then None else s)"

text \<open>\<open>s || fallback\<close>.\<close>

definition or_str :: "string option \<Rightarrow> string \<Rightarrow> string" where
  "or_str s fallback = or_else (or_null s) fallback"

text \<open>A transition carries its receipt fields and whether it is in doubt.\<close>

datatype execute_decision =
    DecFailed string bool
  | DecTransition status_value updates bool

definition receipt_of :: "execute_result \<Rightarrow> updates" where
  "receipt_of r = (\<lambda>i. i\<lparr>i_txHash := or_null (xr_txHash r),
     i_receivingTxHash := or_null (xr_receivingTxHash r),
     i_settlementTxHash := or_null (xr_settlementTxHash r),
     i_settlementChainId := xr_settlementChainId r\<rparr>)"

definition decide_execute_result :: "execute_result \<Rightarrow> execute_decision" where
  "decide_execute_result r =
     (let reconciling = or_else (xr_reconciling r) (\<not> xr_success r) in
      if xr_status r = StatusOf Failed \<and> \<not> xr_success r \<and> \<not> reconciling then
        DecFailed (or_str (xr_error r) ''Execution failed'') (failure_may_have_moved (xr_substatus r))
      else if xr_status r = StatusOf Completed then DecTransition (StatusOf Completed) (receipt_of r) False
      else if xr_status r = StatusOf Failed then DecTransition (StatusOf Executing) (receipt_of r) True
      else DecTransition (xr_status r) (receipt_of r) reconciling)"

datatype resend_reason = Exhausted | NoRetryAfter | StaleRetryAfter | PastDeadline

datatype execute_resend = Resend num | GiveUp resend_reason

definition RETRY_AFTER_MAX_AGE_SECS :: num where
  "RETRY_AFTER_MAX_AGE_SECS = 60"

definition decide_execute_resend :: "nat \<Rightarrow> jsnum option \<Rightarrow> num option \<Rightarrow> num \<Rightarrow> execute_resend" where
  "decide_execute_resend resends retry_after deadline now =
     (if resends \<ge> MAX_EXECUTE_RESENDS then GiveUp Exhausted
      else (case retry_after of
         Some (Fin r) \<Rightarrow>
           (if r * 1000 < now - RETRY_AFTER_MAX_AGE_SECS * 1000 then GiveUp StaleRetryAfter
            else (let send_at = max (r * 1000) (now + 1000) in
              case deadline of
                None \<Rightarrow> GiveUp PastDeadline
              | Some d \<Rightarrow> (if send_at > (d - EXECUTE_RESEND_MARGIN_SECS) * 1000 then GiveUp PastDeadline
                  else Resend (send_at - now))))
       | _ \<Rightarrow> GiveUp NoRetryAfter))"

section \<open>Status updates\<close>

definition map_status_update :: "status_message \<Rightarrow> status_value \<times> updates" where
  "map_status_update w =
     (if w_status w = StatusOf Completed then (StatusOf Completed,
        (\<lambda>i. i\<lparr>i_txHash := or_null (w_txHash w), i_receivingTxHash := or_null (w_receivingTxHash w),
          i_settlementTxHash := or_null (w_settlementTxHash w),
          i_settlementChainId := w_settlementChainId w, i_reconciling := False\<rparr>))
      else if w_status w = StatusOf Refunded then (StatusOf Refunded,
        (\<lambda>i. i\<lparr>i_error := None, i_reconciling := False,
          i_refundReason := Some (refund_reason_label (w_refundReason w))\<rparr>))
      else if w_status w = StatusOf Failed then (StatusOf Failed,
        (\<lambda>i. i\<lparr>i_error := Some (ErrText (or_str (w_error w) ''Intent failed'')), i_reconciling := False\<rparr>))
      else (w_status w,
        (\<lambda>i. i\<lparr>i_receivingTxHash := or_null (w_receivingTxHash w),
          i_settlementTxHash := or_null (w_settlementTxHash w),
          i_settlementChainId := w_settlementChainId w, i_substatus := w_substatus w,
          i_reconciling := or_else (w_reconciling w) False\<rparr>)))"

text \<open>
  A lifecycle frame of the stream, checked by its schema. \<open>toISOString\<close> throws on a time past the
  range of a date, which the schema's safe integer admits.
\<close>

record status_frame =
  sf_intent_id :: string
  sf_status :: intent_status
  sf_revision :: "num option"
  sf_ts :: num
  sf_tx_hash :: "string option"

definition safe_num :: "jsval \<Rightarrow> num option" where
  "safe_num v = (case safe_integer v of Some (Fin r) \<Rightarrow> Some r | _ \<Rightarrow> None)"

definition optional_string :: "jsval \<Rightarrow> bool" where
  "optional_string v = (case v of VUndef \<Rightarrow> True | VStr _ \<Rightarrow> True | _ \<Rightarrow> False)"

definition is_str :: "jsval \<Rightarrow> bool" where
  "is_str v = (case v of VStr _ \<Rightarrow> True | _ \<Rightarrow> False)"

definition parse_status_frame :: "jsval \<Rightarrow> status_frame option" where
  "parse_status_frame v = (case v of
     VObj ob \<Rightarrow>
       (case (get_str ob ''intent_id'', Option.bind (get_str ob ''status'') intent_status_of,
              safe_num (obj_get ob ''ts'')) of
          (Some iid, Some st, Some ts) \<Rightarrow>
            (if obj_get ob ''type'' = VStr ''status'' \<and> iid \<noteq> []
                \<and> is_intent_status (obj_get ob ''from_status'') \<and> is_str (obj_get ob ''protocol'')
                \<and> (obj_get ob ''revision'' = VNull \<or> safe_num (obj_get ob ''revision'') \<noteq> None)
                \<and> optional_string (obj_get ob ''tx_hash'') \<and> optional_string (obj_get ob ''substatus'')
             then Some \<lparr>sf_intent_id = iid, sf_status = st, sf_revision = safe_num (obj_get ob ''revision''),
                sf_ts = ts, sf_tx_hash = get_str ob ''tx_hash''\<rparr>
             else None)
        | _ \<Rightarrow> None)
   | _ \<Rightarrow> None)"

datatype frame_result = NotCurrent | FrameThrows | CurrentFrame "num option" "status_message option"

definition message_of_frame :: "status_frame \<Rightarrow> status_message" where
  "message_of_frame f = \<lparr>w_intentId = sf_intent_id f, w_status = StatusOf (sf_status f),
     w_txHash = sf_tx_hash f, w_receivingTxHash = None, w_settlementTxHash = None,
     w_settlementChainId = None, w_reconciling = None, w_substatus = None, w_error = None,
     w_refundReason = None\<rparr>"

definition map_status_frame :: "jsval \<Rightarrow> num option \<Rightarrow> frame_result" where
  "map_status_frame v last_revision = (case parse_status_frame v of
     None \<Rightarrow> NotCurrent
   | Some f \<Rightarrow>
      (if sf_revision f \<noteq> None \<and> last_revision \<noteq> None \<and> the (sf_revision f) \<le> the last_revision
       then NotCurrent
       else if \<not> in_flight (sf_status f) then CurrentFrame (sf_revision f) None
       else if \<bar>sf_ts f\<bar> > 8640000000000000 then FrameThrows
       else CurrentFrame (sf_revision f) (Some (message_of_frame f))))"

definition not_found_drift_warning :: "string \<Rightarrow> string option \<Rightarrow> string option" where
  "not_found_drift_warning intent reported = (if intent = [] \<or> reported = Some intent then None
     else Some (''[useIntent] Status poll 404 for dispatched intent '' @ intent
       @ '': holding, not failing. The worker has no row for a swap that was already dispatched; leaving the outcome to reconciliation.''))"

text \<open>A field that arrived, is not empty and differs from the one held.\<close>

definition news :: "string option \<Rightarrow> string option \<Rightarrow> bool" where
  "news arrived held \<longleftrightarrow> or_null arrived \<noteq> None \<and> arrived \<noteq> held"

definition merge_same_status_receipt :: "intent_state \<Rightarrow> status_message \<Rightarrow> updates option" where
  "merge_same_status_receipt prev w =
     (let sub = news (w_substatus w) (i_substatus prev);
          rec = news (w_receivingTxHash w) (i_receivingTxHash prev);
          stl = news (w_settlementTxHash w) (i_settlementTxHash prev);
          chn = (nonzero (w_settlementChainId w) \<and> w_settlementChainId w \<noteq> i_settlementChainId prev) in
      if \<not> (sub \<or> rec \<or> stl \<or> chn) then None
      else Some (\<lambda>i. i\<lparr>
        i_substatus := (if sub then w_substatus w else i_substatus i),
        i_receivingTxHash := (if rec then w_receivingTxHash w else i_receivingTxHash i),
        i_settlementTxHash := (if stl then w_settlementTxHash w else i_settlementTxHash i),
        i_settlementChainId := (if chn then w_settlementChainId w else i_settlementChainId i)\<rparr>))"

section \<open>The poll budget\<close>

lemma ceiling_flat [simp]: "\<lceil>STATUS_POLL_FLAT_CEILING_MS / STATUS_POLL_MS\<rceil> = 150"
  by (simp add: STATUS_POLL_FLAT_CEILING_MS_def STATUS_POLL_FLAT_CEILING_ATTEMPTS_def STATUS_POLL_MS_def)

text \<open>
  The poll never runs away and never stops short. Whatever deadline a solver serves, a phase polls
  at least 150 and at most 1800 intervals (two hours); while a deposit is awaited it outlasts the deposit
  deadline by ten minutes, and while an execute is out it outlasts the Worker's own finish, unless the
  two-hour cap comes first.
\<close>

lemma poll_ceiling_bounds:
  "let n = poll_ceiling_attempts status d now STATUS_POLL_MS STATUS_POLL_FLAT_CEILING_MS fin in
     150 \<le> n \<and> n \<le> 1800
     \<and> (status = AwaitingDeposit \<and> nonzero d \<longrightarrow>
          of_int n * STATUS_POLL_MS \<ge> min (the d * 1000 - now + DEPOSIT_POLL_GRACE_MS) POLL_CEILING_MAX_MS)
     \<and> (status = Executing \<and> nonzero fin \<longrightarrow>
          of_int n * STATUS_POLL_MS \<ge> min (the fin * 1000 - now + STATUS_POLL_MS) POLL_CEILING_MAX_MS)"
proof -
  let ?w = "poll_window status d now STATUS_POLL_MS fin"
  define n where "n = poll_ceiling_attempts status d now STATUS_POLL_MS STATUS_POLL_FLAT_CEILING_MS fin"
  have n: "n = (case ?w of None \<Rightarrow> 150 | Some w \<Rightarrow>
      if w \<le> 0 then 150 else max 150 \<lceil>min w POLL_CEILING_MAX_MS / STATUS_POLL_MS\<rceil>)"
    by (simp add: n_def poll_ceiling_attempts_def Let_def)
  have up: "\<lceil>min w POLL_CEILING_MAX_MS / STATUS_POLL_MS\<rceil> \<le> 1800" for w
  proof -
    have "min w POLL_CEILING_MAX_MS / STATUS_POLL_MS \<le> 1800"
      by (simp add: POLL_CEILING_MAX_MS_def STATUS_POLL_MS_def)
    then show ?thesis by (simp add: ceiling_le_iff)
  qed
  have low: "of_int n * STATUS_POLL_MS \<ge> min w POLL_CEILING_MAX_MS" if "?w = Some w" for w
  proof (cases "w \<le> 0")
    case True
    have "of_int n * STATUS_POLL_MS \<ge> 0" using n that True by (simp add: STATUS_POLL_MS_def)
    then show ?thesis using True by simp
  next
    case False
    have "min w POLL_CEILING_MAX_MS / STATUS_POLL_MS \<le> of_int n"
      using n that False by (simp add: le_max_iff_disj) linarith
    then show ?thesis by (simp add: STATUS_POLL_MS_def field_simps)
  qed
  have "150 \<le> n \<and> n \<le> 1800" unfolding n using up by (auto split: option.splits)
  with low show ?thesis by (auto simp: poll_window_def Let_def n_def [symmetric])
qed

section \<open>Resends\<close>

lemma resend_decided:
  assumes "decide_execute_resend resends retry_after deadline now = Resend delay"
  shows "resends < 3 \<and> delay \<ge> 1000
     \<and> (\<exists>r d. retry_after = Some (Fin r) \<and> deadline = Some d
          \<and> now - 60000 \<le> r * 1000 \<and> r * 1000 \<le> now + delay \<and> now + delay \<le> (d - 5) * 1000)"
  using assms by (auto simp: decide_execute_resend_def Let_def MAX_EXECUTE_RESENDS_def
      RETRY_AFTER_MAX_AGE_SECS_def EXECUTE_RESEND_MARGIN_SECS_def
      split: if_splits option.splits jsnum.splits)

text \<open>
  A resend of a refused execute is bounded: at most three are sent, only on a refusal that named an
  absolute time no older than a minute, at least a second after the refusal and never before that time,
  and the request still reaches the server five seconds before the earliest deadline it carries.
\<close>

lemma resend_bounds:
  assumes "decide_execute_resend resends retry_after deadline now = Resend delay"
  shows "resends < 3 \<and> delay \<ge> 1000
     \<and> (\<exists>r d. retry_after = Some (Fin r) \<and> deadline = Some d
          \<and> now - 60000 \<le> r * 1000 \<and> r * 1000 \<le> now + delay \<and> now + delay \<le> (d - 5) * 1000)"
  using resend_decided [OF assms] .

lemma foldl_min_le: "foldl min (a :: num) xs \<le> a" "x \<in> set xs \<Longrightarrow> foldl min a xs \<le> x"
proof (induction xs arbitrary: a)
  case (Cons y ys)
  { case 1 show ?case using Cons.IH(1) [of "min a y"] by simp }
  { case 2 then show ?case using Cons.IH [of "min a y"] by auto }
qed auto

lemma foldl_max_ge: "a \<le> foldl max (a :: num) xs" "x \<in> set xs \<Longrightarrow> x \<le> foldl max a xs"
proof (induction xs arbitrary: a)
  case (Cons y ys)
  { case 1 show ?case using Cons.IH(1) [of "max a y"] by simp }
  { case 2 then show ?case using Cons.IH [of "max a y"] by auto }
qed auto

lemma present_set: "x \<in> set (present vs) \<longleftrightarrow> Some x \<in> set vs"
  by (force simp: present_def)

lemma execute_deadline_earliest:
  assumes "execute_deadline env (Some q) = Some d"
  shows "\<exists>e. expiry_secs env q = Some e \<and> d \<le> e"
    and "signed_field (q_eip712Data q) ''deadline'' = Some x \<Longrightarrow> d \<le> x"
    and "signed_field (q_pullAuthorization q) ''validBefore'' = Some y \<Longrightarrow> d \<le> y"
    and "signed_field (q_pullAuthorization q) ''deadline'' = Some z \<Longrightarrow> d \<le> z"
  using assms by (auto simp: execute_deadline_def present_set foldl_min_le split: option.splits)

lemma unexecuted_finish_latest:
  assumes "unexecuted_finish_at env (Some q) = Some f"
  shows "expiry_secs env q = Some e \<Longrightarrow> e + 60 \<le> f"
    and "signed_field (q_eip712Data q) ''deadline'' = Some x \<Longrightarrow> x + 60 \<le> f"
  using assms by (auto simp: unexecuted_finish_at_def present_def QUOTED_EXPIRY_GRACE_SECS_def
      foldl_max_ge split: list.splits if_splits)

text \<open>The Worker's finish of an unexecuted intent is past every deadline a resend could meet.\<close>

lemma finish_after_deadline:
  "execute_deadline env q = Some d \<Longrightarrow> unexecuted_finish_at env q = Some f \<Longrightarrow> d + 60 \<le> f"
  using execute_deadline_earliest(1) unexecuted_finish_latest(1) by (cases q) (fastforce simp: execute_deadline_def)+

section \<open>Verdicts\<close>

lemma preflight_proceeds:
  "decide_sign_preflight p = PfProceed \<longleftrightarrow>
     \<not> pf_hasDepositAddress p \<and> pf_hasEip712 p
   \<and> (\<exists>a. pf_address p = Some a \<and> a \<noteq> []
        \<and> (\<forall>q. pf_quotedAddress p = Some q \<longrightarrow> to_lower a = to_lower q))
   \<and> pf_chainId p = Some (pf_originChainId p)
   \<and> (pf_quotedChainId p = None \<or> pf_quotedChainId p = pf_chainId p)
   \<and> (\<forall>e. pf_expiryMs p = Some e \<and> e \<noteq> 0 \<longrightarrow> pf_now p < e)"
  by (cases "pf_address p"; cases "pf_expiryMs p")
     (auto simp: decide_sign_preflight_def WALLET_CHANGED_def account_changed_def blank_str_def
       nonzero_def not_le)

text \<open>
  The signing preflight lets exactly one situation through: an executable payload, the account the
  quote was made for, the wallet on the origin chain and on the chain it was quoted on, and a quote not
  past its expiry.
\<close>

lemma preflight_proceed_iff:
  "decide_sign_preflight p = PfProceed \<longleftrightarrow>
     \<not> pf_hasDepositAddress p \<and> pf_hasEip712 p
   \<and> (\<exists>a. pf_address p = Some a \<and> a \<noteq> []
        \<and> (\<forall>q. pf_quotedAddress p = Some q \<longrightarrow> to_lower a = to_lower q))
   \<and> pf_chainId p = Some (pf_originChainId p)
   \<and> (pf_quotedChainId p = None \<or> pf_quotedChainId p = pf_chainId p)
   \<and> (\<forall>e. pf_expiryMs p = Some e \<and> e \<noteq> 0 \<longrightarrow> pf_now p < e)"
  by (rule preflight_proceeds)

text \<open>The quote fields a silent merge keeps: a later poll that omits a hash never blanks it.\<close>

lemma merge_keeps_receipt:
  assumes "merge_same_status_receipt i w = Some u"
  shows "i_status (u i) = i_status i" "i_reconciling (u i) = i_reconciling i"
    "or_null (i_settlementTxHash i) \<noteq> None \<Longrightarrow> or_null (i_settlementTxHash (u i)) \<noteq> None"
    "or_null (i_receivingTxHash i) \<noteq> None \<Longrightarrow> or_null (i_receivingTxHash (u i)) \<noteq> None"
  using assms by (auto simp: merge_same_status_receipt_def Let_def news_def split: if_splits)

lemma frame_message_in_flight:
  "map_status_frame v r = CurrentFrame revision (Some w) \<Longrightarrow> \<exists>s. w_status w = StatusOf s \<and> in_flight s"
  by (auto simp: map_status_frame_def message_of_frame_def split: option.splits if_splits)

end
