(* ===== verification/SolverPin.thy ===== *)
theory SolverPin
  imports Eip712
begin

text \<open>
  \<open>packages/client/src/machine/solverPin.ts\<close>: the pins run before the wallet signs. \<open>validateSolverPin\<close>
  holds the origin pull to the operator's allowlist and to the amount the user asked for,
  \<open>validatePayoutPin\<close> holds the payout of the intent to what the client rendered. A refusal carries the
  source's \<open>field\<close> and \<open>reason\<close>.
\<close>

section \<open>The origin pull\<close>

record solver_pin_config =
  erc3009Allowlist :: "string list"
  permit2Allowlist :: "string list"
  requirePin :: bool

datatype pin_field = PullTo | PullSpender | PullType | PullAmount | PayoutAmount | PayoutRecipient

type_synonym pin_check = "(pin_field \<times> string) check"

definition field_name :: "pin_field \<Rightarrow> string" where
  "field_name f = (case f of PullTo \<Rightarrow> ''pull_to'' | PullSpender \<Rightarrow> ''pull_spender''
     | PullType \<Rightarrow> ''pull_type'' | PullAmount \<Rightarrow> ''pull_amount''
     | PayoutAmount \<Rightarrow> ''payout_amount'' | PayoutRecipient \<Rightarrow> ''payout_recipient'')"

definition check_recipient :: "pin_field \<Rightarrow> jsval \<Rightarrow> bool \<Rightarrow> string list \<Rightarrow> solver_pin_config \<Rightarrow> pin_check" where
  "check_recipient field recipient is_erc3009 allowlist config =
     (let addr = (case recipient of VStr s \<Rightarrow> Some (to_lower s) | _ \<Rightarrow> None) in
      if allowlist = [] then
        (if is_erc3009 \<and> \<not> requirePin config then passed
         else Inl (field, if \<not> is_erc3009 then ''permit2 origin pull requires a pinned spender address''
           else ''solver pin required but no allowlist is configured''))
      else refuse_if (\<not> (case addr of Some a \<Rightarrow> List.member allowlist a | None \<Rightarrow> False))
        (field, ''origin-pull '' @ field_name field @ '' '' @ js_string recipient
           @ '' is not an allowed solver address''))"

definition check_amount :: "typed_data \<Rightarrow> int \<Rightarrow> pin_check" where
  "check_amount pull expected = (case extract_pull_amount pull of
     None \<Rightarrow> Inl (PullAmount, ''origin-pull amount is missing or unparseable'')
   | Some n \<Rightarrow> refuse_if (n \<noteq> expected) (PullAmount, ''origin-pull amount '' @ show_int n
       @ '' does not match the intended input '' @ show_int expected))"

definition validate_solver_pin :: "typed_data \<Rightarrow> solver_pin_config \<Rightarrow> int \<Rightarrow> pin_check" where
  "validate_solver_pin pull config expected =
     (let contract = obj_get (td_domain pull) ''verifyingContract'' in
      if td_primaryType pull = ''ReceiveWithAuthorization'' then
        then_check (check_recipient PullTo (msg pull ''to'') True (erc3009Allowlist config) config)
          (\<lambda>_. check_amount pull expected)
      else if td_primaryType pull = ''PermitWitnessTransferFrom'' then
        (if \<not> same_addressish (str_or_empty contract) PERMIT2_ADDRESS
         then Inl (PullType, ''Permit2 pull domain names '' @ js_string contract
           @ '', not the canonical Permit2 '' @ PERMIT2_ADDRESS)
         else then_check (check_recipient PullSpender (msg pull ''spender'') False (permit2Allowlist config) config)
          (\<lambda>_. check_amount pull expected))
      else Inl (PullType, ''unsupported origin-pull authorization type: '' @ td_primaryType pull))"

section \<open>The payout\<close>

record payout_expectation =
  pe_toAmount :: string
  pe_recipient :: "string option"

definition big_int_arg :: "jsval \<Rightarrow> int option" where
  "big_int_arg v = (case v of VStr s \<Rightarrow> big_int s | VNum n \<Rightarrow> int_of_num n | _ \<Rightarrow> None)"

definition same_amount :: "jsval \<Rightarrow> string \<Rightarrow> bool" where
  "same_amount served expected = (case (big_int_arg served, big_int expected) of
     (Some a, Some b) \<Rightarrow> a = b
   | _ \<Rightarrow> js_string served = expected)"

definition same_recipient :: "string \<Rightarrow> string \<Rightarrow> bool" where
  "same_recipient a b = (if starts_with a ''0x'' \<and> starts_with b ''0x''
     then to_lower a = to_lower b else a = b)"

definition is_str_or_num :: "jsval \<Rightarrow> bool" where
  "is_str_or_num v = (case v of VStr _ \<Rightarrow> True | VNum _ \<Rightarrow> True | _ \<Rightarrow> False)"

definition validate_payout_pin :: "typed_data \<Rightarrow> payout_expectation \<Rightarrow> pin_check" where
  "validate_payout_pin intent expected =
     (let served = msg intent ''toAmount''; recipient = msg intent ''recipient'' in
      if \<not> is_str_or_num served
        then Inl (PayoutAmount, ''intent payout amount is missing or unparseable'')
      else if \<not> same_amount served (pe_toAmount expected)
        then Inl (PayoutAmount, ''intent payout '' @ js_string served
          @ '' does not match the quoted output '' @ pe_toAmount expected)
      else (case pe_recipient expected of
         None \<Rightarrow> Inl (PayoutRecipient, ''no expected recipient to check the payout against'')
       | Some want \<Rightarrow>
          (if want = [] then Inl (PayoutRecipient, ''no expected recipient to check the payout against'')
           else (case recipient of
              VStr got \<Rightarrow>
                (if got = [] then Inl (PayoutRecipient, ''intent payout recipient is missing or unparseable'')
                 else refuse_if (\<not> same_recipient got want) (PayoutRecipient, ''intent payout recipient ''
                   @ got @ '' is not the address this quote was for''))
            | _ \<Rightarrow> Inl (PayoutRecipient, ''intent payout recipient is missing or unparseable'')))))"

lemmas pin_defs [eval_defs] = check_recipient_def check_amount_def validate_solver_pin_def
  big_int_arg_def same_amount_def same_recipient_def is_str_or_num_def validate_payout_pin_def

section \<open>What a pinned pull is\<close>

definition pinned_erc3009 :: "typed_data \<Rightarrow> solver_pin_config \<Rightarrow> bool" where
  "pinned_erc3009 pull config \<longleftrightarrow> td_primaryType pull = ''ReceiveWithAuthorization'' \<and>
     (if erc3009Allowlist config = [] then \<not> requirePin config
      else \<exists>a. msg pull ''to'' = VStr a \<and> to_lower a \<in> set (erc3009Allowlist config))"

definition pinned_permit2 :: "typed_data \<Rightarrow> solver_pin_config \<Rightarrow> bool" where
  "pinned_permit2 pull config \<longleftrightarrow> td_primaryType pull = ''PermitWitnessTransferFrom''
     \<and> same_addressish (str_or_empty (obj_get (td_domain pull) ''verifyingContract'')) PERMIT2_ADDRESS
     \<and> (\<exists>a. msg pull ''spender'' = VStr a \<and> to_lower a \<in> set (permit2Allowlist config))"

lemma check_recipient_ok:
  "check_recipient field v erc al config = Inr u \<longleftrightarrow>
     (if al = [] then erc \<and> \<not> requirePin config else (\<exists>a. v = VStr a \<and> to_lower a \<in> set al))"
  by (auto simp: check_recipient_def Let_def passed_def split: jsval.splits option.splits)

lemma check_amount_ok: "check_amount pull n = Inr u \<longleftrightarrow> extract_pull_amount pull = Some n"
  by (auto simp: check_amount_def split: option.splits)

lemma validate_solver_pin_ok:
  "validate_solver_pin pull config expected = Inr () \<longleftrightarrow>
     (pinned_erc3009 pull config \<or> pinned_permit2 pull config)
   \<and> extract_pull_amount pull = Some expected"
  by (auto simp: validate_solver_pin_def Let_def check_recipient_ok check_amount_ok pinned_erc3009_def
      pinned_permit2_def)

text \<open>
  The origin pull is signed only when it is pinned: an ERC-3009 pull to an allowlisted address (or,
  with no allowlist and no hard pin, to any), or a Permit2 pull on the canonical Permit2 contract by an
  allowlisted spender, never an unpinned Permit2 pull; and in either case it collects exactly the
  amount the user asked for.
\<close>

lemma validate_solver_pin_iff:
  "validate_solver_pin pull config expected = Inr () \<longleftrightarrow>
     (pinned_erc3009 pull config \<or> pinned_permit2 pull config)
   \<and> extract_pull_amount pull = Some expected"
  by (rule validate_solver_pin_ok)

definition pays_out :: "typed_data \<Rightarrow> string \<Rightarrow> string \<Rightarrow> bool" where
  "pays_out intent amount recipient \<longleftrightarrow>
     is_str_or_num (msg intent ''toAmount'') \<and> same_amount (msg intent ''toAmount'') amount
   \<and> (\<exists>r. msg intent ''recipient'' = VStr r \<and> r \<noteq> [] \<and> same_recipient r recipient)"

lemma validate_payout_pin_iff:
  "validate_payout_pin intent e = Inr u \<longleftrightarrow>
     (\<exists>want. pe_recipient e = Some want \<and> want \<noteq> [] \<and> pays_out intent (pe_toAmount e) want)"
  by (auto simp: validate_payout_pin_def pays_out_def Let_def split: option.splits jsval.splits)

lemma same_amount_value:
  "big_int expected = Some n \<Longrightarrow> big_int_arg v = Some k \<Longrightarrow> same_amount v expected \<longleftrightarrow> k = n"
  by (simp add: same_amount_def)

lemma same_recipient_verbatim:
  "\<not> starts_with b ''0x'' \<Longrightarrow> same_recipient a b \<longleftrightarrow> a = b"
  by (simp add: same_recipient_def)

end
