(* ===== verification/Machine.thy ===== *)
theory Machine
  imports Decisions SolverPin
begin

text \<open>
  \<open>packages/client/src/machine/machine.ts\<close>, first part: the messages, effects and model of the trade
  machine, its helpers and the validated status move.

  The source pushes effects on a list passed along; here an operation returns the model with the list
  of effects it adds, in order (\<open>step_result\<close>). A log keeps its level and message; its \<open>data\<close>
  arguments are left out. \<open>JSON.stringify\<close> of a key tuple is the tuple itself.
\<close>

section \<open>Constants\<close>

definition QUOTE_DEBOUNCE_MS :: num where
  "QUOTE_DEBOUNCE_MS = 500"

definition QUOTE_REFRESH_BUFFER_MS :: num where
  "QUOTE_REFRESH_BUFFER_MS = 5000"

definition RECONCILE_AFTER_ATTEMPTS :: nat where
  "RECONCILE_AFTER_ATTEMPTS = nat \<lceil>90000 / STATUS_POLL_MS\<rceil>"

definition SIGN_PROMPT_TIMEOUT_MS :: num where
  "SIGN_PROMPT_TIMEOUT_MS = 90000"

definition QUOTE_DEADLINE_SECS :: num where
  "QUOTE_DEADLINE_SECS = 3600"

definition LOG :: string where
  "LOG = ''[useIntent]''"

definition NOT_SENT_SWEPT_ERROR :: string where
  "NOT_SENT_SWEPT_ERROR = ''This order expired without being sent. Nothing moved.''"

section \<open>Context and configuration\<close>

record wallet_context =
  wl_address :: "string option"
  wl_chainId :: "int option"
  wl_stepwise :: bool

record trade_context =
  cx_fromChainId :: int
  cx_toChainId :: int
  cx_fromToken :: string
  cx_toToken :: string
  cx_settlementPreference :: settlement_type
  cx_trustScore :: num
  cx_slippageBps :: num
  cx_recipientAddress :: "string option"
  cx_refundAddress :: "string option"
  cx_stealthMetaAddress :: "stealth_meta option"
  cx_ref :: "string option"
  cx_promo :: "string option"
  cx_paused :: bool
  cx_wallet :: wallet_context

record machine_config =
  cfg_solverPin :: solver_pin_config
  cfg_pullRecipients :: "pinned_recipients option"
  cfg_depositAttestationSigner :: "string option"

section \<open>Effects\<close>

datatype timer_name = TDebounce | TRefresh | TExpiry | TPoll | TSignPrompt | TExecute

datatype sign_purpose = ForIntent | ForPull

datatype api_call =
    ApiQuote string quote_request bool
  | ApiExecute string execute_request
  | ApiStatus string nat nat

datatype wallet_call =
    EnsureSession string bool
  | SignTypedData string sign_purpose typed_data "int option"
  | EnsureApproval string string
  | ResetApproval

datatype timer_call = SetTimer timer_name num bool | ClearTimer timer_name

datatype log_level = Debug | Warn | Error

datatype machine_event = LogEvent log_level string | AllocationEvent string bool

datatype effect = Api api_call | Wallet wallet_call | Timer timer_call | Emit machine_event

section \<open>Messages\<close>

record error_report =
  er_rejected :: bool
  er_value :: "intent_error option"
  er_notAccepted :: "bool option"

text \<open>
  An execute reply is read defensively in the source, so it is an untyped value: a failure with its
  report, a reply object, or neither.
\<close>

datatype exec_outcome = ExecFailed "error_report option" | ExecReply jsval | ExecMalformed

datatype session_result = SessionOk | SessionRefused | SessionSkipped

datatype msg_body =
    ContextChanged trade_context
  | QuoteRequested string
  | AllocateRequested string string
  | RefreshRequested
  | SignRequested
  | PullSignRequested
  | CancelSignRequested
  | ResetRequested
  | ResumeRequested string intent_status string "num option" "string option"
  | VisibilityChanged
  | StreamStatus status_message
  | TimerFired timer_name
  | SessionReplied string session_result
  | QuoteReplied string "error_report + quote_response"
  | SignReplied string sign_purpose "error_report + string"
  | ApprovalReplied string "error_report + bool"
  | ExecuteReplied string exec_outcome
  | StatusReplied nat nat "error_report + status_result"

record message =
  body :: msg_body
  msg_now :: num
  msg_hidden :: bool

section \<open>The model\<close>

datatype flight_stage = FSession | FApi

record quote_flight =
  fl_id :: string
  fl_stage :: flight_stage
  fl_amount :: string
  fl_silent :: bool
  fl_forceRefresh :: bool
  fl_allocate :: "(string \<times> string) option"
  fl_ctx :: trade_context
  fl_depositOrigin :: bool
  fl_preview :: bool
  fl_request :: "quote_request option"

datatype sign_origin = FromSign | FromPull

datatype sign_stage = StageIntent | StageApproval | StagePull | StageExecute

record execute_attempt =
  at_request :: execute_request
  at_resends :: nat
  at_resendAt :: "num option"
  at_error :: "intent_error option"

record sign_flow =
  sg_id :: string
  sg_origin :: sign_origin
  sg_stage :: sign_stage
  sg_intentSignature :: "string option"
  sg_execute :: "execute_attempt option"

record poll_state =
  pl_key :: string
  pl_intentId :: string
  pl_gen :: nat
  pl_polls :: nat
  pl_answered :: nat
  pl_spent :: nat
  pl_max :: int
  pl_stopped :: bool

text \<open>The trade key: every context field the request is built from, normalised as the request is.\<close>

type_synonym trade_key = "int \<times> int \<times> string \<times> string \<times> settlement_type \<times> num \<times> num
  \<times> string option \<times> string option \<times> (string \<times> string \<times> int) option
  \<times> string option \<times> int option \<times> string option \<times> string option"

type_synonym wallet_key = "string option \<times> int option \<times> string option \<times> int option"

type_synonym upgrade_key = "trade_key \<times> string \<times> bool \<times> intent_status"

record watched_keys =
  wk_wallet :: "wallet_key option"
  wk_upgrade :: "upgrade_key option"
  wk_expiry :: "string option"

record model =
  m_config :: machine_config
  m_ctx :: trade_context
  m_hidden :: bool
  m_intent :: intent_state
  m_amount :: string
  m_allocationKey :: "string option"
  m_awaitingPull :: bool
  m_isSigningPull :: bool
  m_pendingIntentSig :: "string option"
  m_quoteExpiresIn :: "jsnum option"
  m_submittedAt :: "num option"
  m_clientFillMs :: "num option"
  m_notFoundReported :: "string option"
  m_seq :: nat
  m_flights :: "quote_flight list"
  m_sign :: "sign_flow option"
  m_poll :: "poll_state option"
  m_refresh :: "(string \<times> bool) option"
  m_quotedTrade :: "trade_key option"
  m_seenDepositAddresses :: seen_addresses
  m_watched :: watched_keys

type_synonym step_result = "model \<times> effect list"

definition init_model :: "machine_config \<Rightarrow> trade_context \<Rightarrow> bool \<Rightarrow> model" where
  "init_model config ctx hidden = \<lparr>m_config = config, m_ctx = ctx, m_hidden = hidden,
     m_intent = INITIAL_INTENT_STATE, m_amount = [], m_allocationKey = None, m_awaitingPull = False,
     m_isSigningPull = False, m_pendingIntentSig = None, m_quoteExpiresIn = None,
     m_submittedAt = None, m_clientFillMs = None, m_notFoundReported = None, m_seq = 0,
     m_flights = [], m_sign = None, m_poll = None, m_refresh = None, m_quotedTrade = None,
     m_seenDepositAddresses = [],
     m_watched = \<lparr>wk_wallet = None, wk_upgrade = None, wk_expiry = None\<rparr>\<rparr>"

definition trade_key_of :: "trade_context \<Rightarrow> trade_key" where
  "trade_key_of c = (cx_fromChainId c, cx_toChainId c, cx_fromToken c, cx_toToken c,
     cx_settlementPreference c, cx_trustScore c, cx_slippageBps c,
     trimmed (cx_recipientAddress c), trimmed (cx_refundAddress c),
     map_option (\<lambda>s. (sm_spendingPubKey s, sm_viewingPubKey s, sm_chainId s))
       (normalize_stealth (cx_settlementPreference c) (cx_stealthMetaAddress c)),
     wl_address (cx_wallet c), wl_chainId (cx_wallet c),
     normalize_quote_code (cx_ref c), normalize_quote_code (cx_promo c))"

definition holds_current_quote :: "model \<Rightarrow> bool" where
  "holds_current_quote m \<longleftrightarrow> i_quotedFromAmount (m_intent m) = Some (m_amount m)
     \<and> m_quotedTrade m = Some (trade_key_of (m_ctx m))"

section \<open>Effect helpers\<close>

definition and_then :: "step_result \<Rightarrow> (model \<Rightarrow> step_result) \<Rightarrow> step_result" where
  "and_then r f = (case r of (m, es) \<Rightarrow> (case f m of (m', es') \<Rightarrow> (m', es @ es')))"

definition emitting :: "effect list \<Rightarrow> step_result \<Rightarrow> step_result" where
  "emitting es r = (case r of (m, es') \<Rightarrow> (m, es @ es'))"

definition log_fx :: "log_level \<Rightarrow> string \<Rightarrow> effect" where
  "log_fx level message = Emit (LogEvent level (LOG @ message))"

definition set_timer :: "timer_name \<Rightarrow> num \<Rightarrow> bool \<Rightarrow> effect" where
  "set_timer t ms rep = Timer (SetTimer t ms rep)"

definition clear_timer :: "timer_name \<Rightarrow> effect" where
  "clear_timer t = Timer (ClearTimer t)"

definition end_allocation :: "(string \<times> string) option \<Rightarrow> bool \<Rightarrow> effect list" where
  "end_allocation allocate ok = (case allocate of None \<Rightarrow> []
     | Some (key, ref) \<Rightarrow> [Emit (AllocationEvent ref ok)])"

lemma and_then_simps [simp]:
  "fst (and_then r f) = fst (f (fst r))"
  "snd (and_then r f) = snd r @ snd (f (fst r))"
  by (simp_all add: and_then_def split: prod.splits)

lemma emitting_simps [simp]:
  "fst (emitting es r) = fst r"
  "snd (emitting es r) = es @ snd r"
  by (simp_all add: emitting_def split: prod.splits)

definition patch :: "model \<Rightarrow> updates \<Rightarrow> model" where
  "patch m u = m\<lparr>m_intent := u (m_intent m)\<rparr>"

definition awaiting_resend :: "model \<Rightarrow> bool" where
  "awaiting_resend m = (case m_sign m of None \<Rightarrow> False
     | Some s \<Rightarrow> sg_stage s = StageExecute \<and>
         (case sg_execute s of None \<Rightarrow> False | Some a \<Rightarrow> at_resendAt a \<noteq> None))"

definition without_flight :: "model \<Rightarrow> string \<Rightarrow> model" where
  "without_flight m fid = m\<lparr>m_flights := filter (\<lambda>f. fl_id f \<noteq> fid) (m_flights m)\<rparr>"

definition put_flight :: "model \<Rightarrow> quote_flight \<Rightarrow> model" where
  "put_flight m f = m\<lparr>m_flights := filter (\<lambda>g. fl_id g \<noteq> fl_id f) (m_flights m) @ [f]\<rparr>"

definition supersede_flights :: "model \<Rightarrow> step_result" where
  "supersede_flights m = (if m_flights m = [] then (m, [])
     else (m\<lparr>m_flights := []\<rparr>, concat (map (\<lambda>f. end_allocation (fl_allocate f) False) (m_flights m))))"

definition abandon_sign :: "model \<Rightarrow> step_result" where
  "abandon_sign m = (m\<lparr>m_sign := None, m_pendingIntentSig := None, m_awaitingPull := False,
       m_isSigningPull := False\<rparr>,
     (if m_sign m \<noteq> None then [clear_timer TSignPrompt] else [])
     @ (if awaiting_resend m then [clear_timer TExecute] else []))"

definition end_sign_flow :: "model \<Rightarrow> sign_flow \<Rightarrow> model" where
  "end_sign_flow m flow = m\<lparr>m_sign := None,
     m_isSigningPull := (if sg_origin flow = FromPull then False else m_isSigningPull m)\<rparr>"

section \<open>The validated status move\<close>

definition own_execute :: "model \<Rightarrow> status_value \<Rightarrow> bool" where
  "own_execute m to \<longleftrightarrow> to = StatusOf Executing \<and>
     (case m_sign m of None \<Rightarrow> False | Some s \<Rightarrow> sg_stage s = StageExecute)"

definition busy_value :: "status_value \<Rightarrow> bool" where
  "busy_value v = (case v of StatusOf t \<Rightarrow> busy t | NotAStatus _ \<Rightarrow> False)"

definition status_value_str :: "status_value \<Rightarrow> string" where
  "status_value_str v = (case v of StatusOf s \<Rightarrow> status_str s | NotAStatus s \<Rightarrow> s)"

definition transition :: "model \<Rightarrow> status_value \<Rightarrow> updates \<Rightarrow> step_result" where
  "transition m to upd = (let from = i_status (m_intent m) in
     case apply_status_transition (m_intent m) to upd of
       None \<Rightarrow> (m, [log_fx Warn ('' Invalid transition: '' @ status_str from @ '' -> '' @ status_value_str to)])
     | Some intent \<Rightarrow>
        and_then
          (let next = m\<lparr>m_intent := intent\<lparr>i_notSent := False\<rparr>\<rparr> in
           if busy_value to \<and> \<not> busy from
           then supersede_flights next else (next, []))
          (\<lambda>next. if from = Executing \<or> from = Signing \<and> \<not> own_execute next to
             then abandon_sign next else (next, [])))"

end
