(* ===== verification/MachineQuote.thy ===== *)
theory MachineQuote
  imports Machine
begin

text \<open>
  \<open>machine.ts\<close>, the quote leg: starting a quote, the wallet session, the request, the gates a served
  quote passes, and its acceptance.
\<close>

section \<open>Asking for a quote\<close>

record quote_opts =
  qo_amount :: string
  qo_silent :: bool
  qo_forceRefresh :: bool
  qo_allocate :: "(string \<times> string) option"

definition quote_opts_of :: "string \<Rightarrow> quote_opts" where
  "quote_opts_of amount = \<lparr>qo_amount = amount, qo_silent = False, qo_forceRefresh = False, qo_allocate = None\<rparr>"

definition held_may_have_moved :: "model \<Rightarrow> bool" where
  "held_may_have_moved m \<longleftrightarrow> i_status (m_intent m) = Failed \<and> i_mayHaveMoved (m_intent m)"

definition allocation_refused :: "model \<Rightarrow> bool" where
  "allocation_refused m \<longleftrightarrow> m_amount m = [] \<or> is_chain_id (cx_fromChainId (m_ctx m))
     \<or> blank_str (wl_address (cx_wallet (m_ctx m))) \<or> \<not> allocatable (i_status (m_intent m))"

definition raw_request :: "quote_flight \<Rightarrow> num \<Rightarrow> quote_request" where
  "raw_request f now = (let c = fl_ctx f in \<lparr>
     r_wallet = (if fl_preview f then None else wl_address (cx_wallet c)),
     r_preview = Some (fl_preview f),
     r_allocationKey = map_option fst (fl_allocate f),
     r_fromChainId = cx_fromChainId c, r_toChainId = cx_toChainId c,
     r_fromToken = cx_fromToken c, r_toToken = cx_toToken c,
     r_fromAmount = fl_amount f,
     r_deadline = of_int \<lfloor>now / 1000\<rfloor> + QUOTE_DEADLINE_SECS,
     r_slippageBps = cx_slippageBps c, r_trustScore = Some (cx_trustScore c),
     r_settlementPreference = cx_settlementPreference c,
     r_recipientAddress = cx_recipientAddress c, r_refundAddress = cx_refundAddress c,
     r_stealthMetaAddress = cx_stealthMetaAddress c, r_ref = cx_ref c, r_promo = cx_promo c\<rparr>)"

definition send_quote :: "env \<Rightarrow> num \<Rightarrow> quote_flight \<Rightarrow> model \<Rightarrow> step_result" where
  "send_quote env now f m =
     (if cx_settlementPreference (fl_ctx f) = Stealth \<and> cx_stealthMetaAddress (fl_ctx f) = None then
        emitting (end_allocation (fl_allocate f) False)
          (let next = without_flight m (fl_id f) in
           if fl_silent f then (next, [])
           else transition next (StatusOf Quoting) (\<lambda>i. i\<lparr>i_quote := None, i_error := None\<rparr>))
      else (let request = build_quote_request (raw_request f now);
                errors = validate_swap_params env (params_of_request request) now in
        if errors \<noteq> [] then
          emitting (log_fx Warn '' Quote request failed validation:'' # end_allocation (fl_allocate f) False)
            (let next = without_flight m (fl_id f) in
             (if fl_silent f then next
              else patch next (\<lambda>i. i\<lparr>i_status := Failed, i_error := Some (ErrText (hd errors))\<rparr>), []))
        else and_then (if fl_silent f then (m, []) else transition m (StatusOf Quoting) id)
          (\<lambda>next. (put_flight next (f\<lparr>fl_stage := FApi, fl_request := Some request\<rparr>),
             [Api (ApiQuote (fl_id f) request (fl_forceRefresh f))]))))"

definition start_quote :: "env \<Rightarrow> num \<Rightarrow> quote_opts \<Rightarrow> model \<Rightarrow> step_result" where
  "start_quote env now opts m =
     (if held_may_have_moved m then
        (m, log_fx Debug '' Ignoring quote request: the last order may have moved funds''
              # end_allocation (qo_allocate opts) False)
      else (let ctx = m_ctx m; address = wl_address (cx_wallet ctx);
                depositOrigin = (\<not> is_chain_id (cx_fromChainId ctx));
                access = quote_access_decision (\<not> blank_str address) (cx_settlementPreference ctx)
                  depositOrigin (qo_allocate opts \<noteq> None) in
        if access = NeedsWallet then
          (patch m (\<lambda>i. i\<lparr>i_error := Some (ErrText ''Connect a wallet to quote this route'')\<rparr>),
           end_allocation (qo_allocate opts) False)
        else (let preview = (access = Preview); seq = m_seq m + 1; fid = CHR ''q'' # show_nat seq;
                  next = m\<lparr>m_seq := seq\<rparr>;
                  f = \<lparr>fl_id = fid, fl_stage = FSession, fl_amount = qo_amount opts,
                       fl_silent = qo_silent opts, fl_forceRefresh = qo_forceRefresh opts,
                       fl_allocate = qo_allocate opts, fl_ctx = ctx, fl_depositOrigin = depositOrigin,
                       fl_preview = preview, fl_request = None\<rparr> in
          if depositOrigin \<and> \<not> preview then
            (if qo_silent opts \<and> blank_str address then (next, [])
             else (put_flight next f, [Wallet (EnsureSession fid (\<not> qo_silent opts))]))
          else send_quote env now f next)))"

section \<open>The wallet session\<close>

definition find_flight :: "model \<Rightarrow> string \<Rightarrow> flight_stage \<Rightarrow> quote_flight option" where
  "find_flight m fid stage = find (\<lambda>f. fl_id f = fid \<and> fl_stage f = stage) (m_flights m)"

definition drop_stale_flight :: "model \<Rightarrow> quote_flight \<Rightarrow> step_result" where
  "drop_stale_flight m f = (without_flight m (fl_id f),
     log_fx Warn ('' Dropping a quote reply: intent is '' @ status_str (i_status (m_intent m)))
       # end_allocation (fl_allocate f) False)"

definition allocation_failed :: "model \<Rightarrow> intent_error \<Rightarrow> model" where
  "allocation_failed m e = (if allocatable (i_status (m_intent m))
     then patch m (\<lambda>i. i\<lparr>i_status := Quoted, i_error := Some e\<rparr>)
     else patch m (\<lambda>i. i\<lparr>i_error := Some e\<rparr>))"

definition fail_quote :: "model \<Rightarrow> quote_flight \<Rightarrow> intent_error \<Rightarrow> model" where
  "fail_quote m f e = (if fl_allocate f \<noteq> None then allocation_failed m e
     else patch m (\<lambda>i. i\<lparr>i_status := Failed, i_error := Some e, i_quote := None\<rparr>))"

definition on_session :: "env \<Rightarrow> num \<Rightarrow> string \<Rightarrow> session_result \<Rightarrow> model \<Rightarrow> step_result" where
  "on_session env now fid result m = (case find_flight m fid FSession of
     None \<Rightarrow> (m, [])
   | Some f \<Rightarrow>
      (if busy (i_status (m_intent m)) then drop_stale_flight m f
       else if result = SessionOk then send_quote env now f m
       else (let next = without_flight m fid in
         (if fl_silent f then next
          else fail_quote next f (ErrText ''Wallet sign-in is required to allocate a Tron deposit route''),
          end_allocation (fl_allocate f) False))))"

section \<open>The gates\<close>

record quote_reject =
  rj_log :: effect
  rj_error :: string
  rj_quote :: "quote_response option"

definition reject_with :: "log_level \<Rightarrow> string \<Rightarrow> string \<Rightarrow> quote_response option \<Rightarrow> quote_reject check" where
  "reject_with level message err quote = Inl \<lparr>rj_log = log_fx level message, rj_error = err, rj_quote = quote\<rparr>"

definition QUOTE_MISMATCH_ERROR :: string where
  "QUOTE_MISMATCH_ERROR = ''This quote did not match the requested trade, so it cannot be signed.''"

definition has_deposit_address :: "quote_response \<Rightarrow> bool" where
  "has_deposit_address q \<longleftrightarrow> \<not> blank_str (q_depositAddress q)"

definition resolved_recipient :: "trade_context \<Rightarrow> string option" where
  "resolved_recipient c = (case trimmed (cx_recipientAddress c) of
     Some r \<Rightarrow> Some r | None \<Rightarrow> or_null (wl_address (cx_wallet c)))"

definition gate_success :: "quote_response \<Rightarrow> quote_reject check" where
  "gate_success q = (if q_success q then passed
     else reject_with Warn '' Quote request rejected:'' (or_str (q_error q) ''Failed to get quote'') None)"

definition gate_solvable :: "quote_response \<Rightarrow> quote_reject check" where
  "gate_solvable q = (if q_canSolve q then passed
     else reject_with Warn '' Quote not solvable:''
       (or_str (q_error q) ''No liquidity available for this route'') (Some q))"

definition gate_kind :: "quote_response \<Rightarrow> quote_flight \<Rightarrow> quote_reject check" where
  "gate_kind q f = (if quote_is_preview q = fl_preview f then passed
     else reject_with Error '' Refusing a quote that answers the wrong kind of request''
       QUOTE_MISMATCH_ERROR None)"

definition gate_echo :: "quote_response \<Rightarrow> quote_flight \<Rightarrow> quote_reject check" where
  "gate_echo q f = (case recipient_echo_error (Option.bind (fl_request f) r_recipientAddress)
       (q_recipientAddress q) of
     None \<Rightarrow> passed
   | Some _ \<Rightarrow> reject_with Warn '' Recipient echo rejected:''
       ''Couldn't confirm the destination address for this route. Please try again.'' None)"

definition requested_settlement :: "quote_flight \<Rightarrow> settlement_type" where
  "requested_settlement f = (case fl_request f of
     Some r \<Rightarrow> r_settlementPreference r | None \<Rightarrow> cx_settlementPreference (fl_ctx f))"

definition gate_claim :: "quote_response \<Rightarrow> quote_flight \<Rightarrow> quote_reject check" where
  "gate_claim q f = (case claim_info_error (q_claimInfo q) (Some (cx_toChainId (fl_ctx f)))
       (Some (requested_settlement f)) of
     None \<Rightarrow> passed
   | Some (_, message) \<Rightarrow> reject_with Error '' Stealth claim info rejected:''
       (message @ ''. Send this one public, or try again later.'') None)"

definition gate_token :: "quote_flight \<Rightarrow> quote_reject check" where
  "gate_token f = (if recipient_is_destination_token (or_else (resolved_recipient (fl_ctx f)) [])
       (cx_toToken (fl_ctx f))
     then reject_with Error '' Refusing a quote whose payout recipient is the destination token''
       ''That destination address is the token's own contract. Funds sent there cannot be recovered.'' None
     else passed)"

definition gate_route :: "quote_response \<Rightarrow> quote_flight \<Rightarrow> quote_reject check" where
  "gate_route q f = (if quote_is_preview q \<and> has_deposit_address q
       \<or> \<not> quote_is_preview q \<and> fl_depositOrigin f \<noteq> has_deposit_address q
     then reject_with Error '' Deposit-route disagreement between origin chain and quote''
       ''This route is not available right now.'' None
     else passed)"

definition gate_signable ::
    "env \<Rightarrow> pinned_recipients option \<Rightarrow> quote_response \<Rightarrow> quote_flight \<Rightarrow> quote_reject check" where
  "gate_signable env pins q f =
     (if \<not> has_deposit_address q \<and> q_eip712Data q \<noteq> None
         \<and> (case fl_request f of None \<Rightarrow> True | Some r \<Rightarrow> \<not> is_ok (check_signable_quote env r q pins))
      then reject_with Error '' Refusing a quote that does not match the request:'' QUOTE_MISMATCH_ERROR None
      else passed)"

definition quote_gates ::
    "env \<Rightarrow> pinned_recipients option \<Rightarrow> quote_response \<Rightarrow> quote_flight \<Rightarrow> quote_reject check" where
  "quote_gates env pins q f = check_all [gate_success q, gate_solvable q, gate_kind q f, gate_echo q f,
     gate_claim q f, gate_token f, gate_route q f, gate_signable env pins q f]"

section \<open>The reply\<close>

definition refuse_quote :: "quote_flight \<Rightarrow> updates \<Rightarrow> model \<Rightarrow> step_result" where
  "refuse_quote f upd m = emitting (end_allocation (fl_allocate f) False)
     (if fl_silent f then (m, []) else transition m (StatusOf Failed) upd)"

definition quote_threw :: "quote_flight \<Rightarrow> error_report \<Rightarrow> model \<Rightarrow> step_result" where
  "quote_threw f report m =
     (if fl_silent f then m
      else fail_quote m f (or_else (er_value report) (ErrText ''Quote request failed'')),
      log_fx Error '' Quote error:'' # end_allocation (fl_allocate f) False)"

definition attestation_rejected :: "quote_flight \<Rightarrow> bool \<Rightarrow> model \<Rightarrow> step_result" where
  "attestation_rejected f address_reuse m =
     emitting [log_fx Warn '' Deposit attestation rejected:'']
       (refuse_quote f (\<lambda>i. i\<lparr>i_error := Some (ErrText (if address_reuse
          then ''We were given a deposit address that was already in use. Reload the page and try again.''
          else ''This deposit route is not available right now.'')), i_quote := None\<rparr>) m)"

definition accepted_state :: "quote_flight \<Rightarrow> quote_response \<Rightarrow> stored_deposit option \<Rightarrow> updates" where
  "accepted_state f q attested = (\<lambda>i. i\<lparr>
     i_intentId := Some (q_intentId q), i_quoteId := Some (q_quoteId q), i_quote := Some q,
     i_error := None, i_refusal := None, i_refundReason := None,
     i_quotedAddress := (if quote_is_preview q then None else wl_address (cx_wallet (fl_ctx f))),
     i_quotedChainId := wl_chainId (cx_wallet (fl_ctx f)),
     i_quotedFromAmount := Some (fl_amount f),
     i_quotedSettlement := Some (requested_settlement f),
     i_depositDeadline := (if has_deposit_address q then q_depositDeadline q else None),
     i_attestedDeposit := attested\<rparr>)"

text \<open>The quote landed: the state was patched, or the move to \<open>quoted\<close> was allowed.\<close>

definition accept_landing ::
    "quote_flight \<Rightarrow> quote_response \<Rightarrow> stored_deposit option \<Rightarrow> model \<Rightarrow> step_result \<times> bool" where
  "accept_landing f q attested m =
     (let fresh = (\<lambda>i. accepted_state f q attested i\<lparr>i_pollExhausted := False\<rparr>) in
      if fl_silent f then ((patch m (accepted_state f q attested), []), True)
      else if i_status (m_intent m) = Quoted then ((patch m fresh, []), True)
      else (transition m (StatusOf Quoted) fresh, can_transition_to (i_status (m_intent m)) Quoted))"

definition arm_refresh :: "env \<Rightarrow> num \<Rightarrow> quote_flight \<Rightarrow> quote_response \<Rightarrow> model \<Rightarrow> step_result" where
  "arm_refresh env now f q m =
     (case compute_refresh_delay_ms env (q_expiry q) now QUOTE_REFRESH_BUFFER_MS of
        None \<Rightarrow> (m, [])
      | Some ms \<Rightarrow> (if ms > 0
          then (m\<lparr>m_refresh := Some (fl_amount f, has_deposit_address q)\<rparr>, [set_timer TRefresh ms False])
          else (m, [])))"

definition accept_quote ::
    "env \<Rightarrow> num \<Rightarrow> quote_flight \<Rightarrow> quote_response \<Rightarrow> stored_deposit option \<Rightarrow> model \<Rightarrow> step_result" where
  "accept_quote env now f q attested m =
     (if fl_silent f \<and> i_status (m_intent m) \<noteq> Quoted then (m, [])
      else (let (landing, landed) = accept_landing f q attested m in
        and_then landing (\<lambda>next0.
          (let next = (if landed then next0\<lparr>m_quotedTrade := Some (trade_key_of (fl_ctx f))\<rparr> else next0)
           in and_then (arm_refresh env now f q next)
                (\<lambda>armed. (armed, end_allocation (fl_allocate f) True))))))"

definition deposit_precheck :: "quote_response \<Rightarrow> quote_request option \<Rightarrow> quote_request option" where
  "deposit_precheck q request = (case (q_settlementType q, request) of
     (Some s, Some r) \<Rightarrow> (if blank_str (r_wallet r) \<or> s \<noteq> r_settlementPreference r then None else Some r)
   | _ \<Rightarrow> None)"

definition is_address_reuse :: "deposit_refusal \<Rightarrow> bool" where
  "is_address_reuse e = (case e of AddressReuse _ \<Rightarrow> True | _ \<Rightarrow> False)"

definition take_quote :: "env \<Rightarrow> num \<Rightarrow> quote_flight \<Rightarrow> quote_response \<Rightarrow> model \<Rightarrow> step_result" where
  "take_quote env now f q m = (case quote_gates env (cfg_pullRecipients (m_config m)) q f of
     Inl rj \<Rightarrow> emitting [rj_log rj] (refuse_quote f
        (\<lambda>i. i\<lparr>i_error := Some (ErrText (rj_error rj)), i_quote := rj_quote rj\<rparr>) m)
   | Inr _ \<Rightarrow>
      (if \<not> has_deposit_address q then accept_quote env now f q None m
       else (case deposit_precheck q (fl_request f) of
          None \<Rightarrow> attestation_rejected f False m
        | Some r \<Rightarrow>
           (case check_deposit_quote env r q (cfg_depositAttestationSigner (m_config m))
                   (m_seenDepositAddresses m) of
              Inl e \<Rightarrow> attestation_rejected f (is_address_reuse e) m
            | Inr (stored, seen) \<Rightarrow>
                accept_quote env now f q (Some stored) (m\<lparr>m_seenDepositAddresses := seen\<rparr>)))))"

definition on_quote :: "env \<Rightarrow> num \<Rightarrow> string \<Rightarrow> error_report + quote_response \<Rightarrow> model \<Rightarrow> step_result" where
  "on_quote env now fid result m = (case find_flight m fid FApi of
     None \<Rightarrow> (m, [])
   | Some f \<Rightarrow>
      (if busy (i_status (m_intent m)) \<or> List.member ENDED_STATES (i_status (m_intent m))
       then drop_stale_flight m f
       else (let m1 = without_flight m fid in
         case result of Inl report \<Rightarrow> quote_threw f report m1
         | Inr q \<Rightarrow> take_quote env now f q m1)))"

end
