(* ===== verification/MachineSign.thy ===== *)
theory MachineSign
  imports MachineQuote
begin

text \<open>
  \<open>machine.ts\<close>, the signing and execute leg: Confirm, the origin pull, the wallet replies, the execute,
  its reply, and the resends of an execute the server did not accept.
\<close>

section \<open>Preflight and Confirm\<close>

definition quote_field :: "model \<Rightarrow> (quote_response \<Rightarrow> 'a option) \<Rightarrow> 'a option" where
  "quote_field m f = Option.bind (i_quote (m_intent m)) f"

definition quote_expiry_ms :: "env \<Rightarrow> quote_response option \<Rightarrow> num option" where
  "quote_expiry_ms env quote = (case quote of None \<Rightarrow> Some 0
     | Some q \<Rightarrow> (if q_expiry q = [] then Some 0 else date_get_time env (q_expiry q)))"

definition sign_preflight_of :: "env \<Rightarrow> num \<Rightarrow> model \<Rightarrow> sign_preflight" where
  "sign_preflight_of env now m = decide_sign_preflight \<lparr>
     pf_hasDepositAddress = False, pf_hasEip712 = True,
     pf_address = wl_address (cx_wallet (m_ctx m)),
     pf_quotedAddress = i_quotedAddress (m_intent m),
     pf_quotedChainId = i_quotedChainId (m_intent m),
     pf_chainId = wl_chainId (cx_wallet (m_ctx m)),
     pf_originChainId = cx_fromChainId (m_ctx m),
     pf_expiryMs = quote_expiry_ms env (i_quote (m_intent m)), pf_now = now\<rparr>"

definition set_error :: "string \<Rightarrow> updates" where
  "set_error e = (\<lambda>i. i\<lparr>i_error := Some (ErrText e)\<rparr>)"

definition payout_expectation_of :: "model \<Rightarrow> quote_response \<Rightarrow> payout_expectation" where
  "payout_expectation_of m q = \<lparr>pe_toAmount = q_toAmount q, pe_recipient = resolved_recipient (m_ctx m)\<rparr>"

definition deposit_window_open :: "num option \<Rightarrow> num \<Rightarrow> bool" where
  "deposit_window_open deadline now = (case deadline of None \<Rightarrow> False
     | Some d \<Rightarrow> \<not> (d - of_int \<lfloor>now / 1000\<rfloor> < DEPOSIT_MIN_WINDOW_SECONDS))"

definition reveal_deposit :: "num \<Rightarrow> model \<Rightarrow> step_result" where
  "reveal_deposit now m =
     (if \<not> deposit_window_open (i_depositDeadline (m_intent m)) now
      then emitting [log_fx Warn '' Not revealing a deposit address past its window'']
        (transition m (StatusOf Expired) (set_error ''Quote expired''))
      else transition m (StatusOf AwaitingDeposit) id)"

definition prompt_intent :: "model \<Rightarrow> typed_data \<Rightarrow> step_result" where
  "prompt_intent m eip712 =
     (case transition m (StatusOf Signing) (\<lambda>i. i\<lparr>i_refusal := None\<rparr>) of (signing, es) \<Rightarrow>
       (if i_status (m_intent signing) \<noteq> Signing then (signing, es)
        else (let seq = m_seq signing + 1; sid = CHR ''s'' # show_nat seq in
          (signing\<lparr>m_seq := seq, m_sign := Some \<lparr>sg_id = sid, sg_origin = FromSign,
             sg_stage = StageIntent, sg_intentSignature = None, sg_execute = None\<rparr>\<rparr>,
           es @ [Wallet (SignTypedData sid ForIntent eip712 (wl_chainId (cx_wallet (m_ctx signing)))),
                 set_timer TSignPrompt SIGN_PROMPT_TIMEOUT_MS False]))))"

definition confirm_quote :: "env \<Rightarrow> num \<Rightarrow> quote_response \<Rightarrow> typed_data \<Rightarrow> model \<Rightarrow> step_result" where
  "confirm_quote env now q eip712 m =
     (case sign_preflight_of env now m of
        PfRejectQuoted refusal err \<Rightarrow> (patch m (\<lambda>i. i\<lparr>i_refusal := Some refusal\<rparr>), [])
      | PfRejectExpired err \<Rightarrow> transition m (StatusOf Expired) (set_error err)
      | _ \<Rightarrow>
         (if \<not> is_ok (validate_payout_pin eip712 (payout_expectation_of m q))
          then (patch m (\<lambda>i. i\<lparr>i_refusal := Some PayoutMismatch\<rparr>),
                [log_fx Error '' Refusing to sign intent:''])
          else prompt_intent m eip712))"

definition begin_sign :: "env \<Rightarrow> num \<Rightarrow> model \<Rightarrow> step_result" where
  "begin_sign env now m =
     (if i_status (m_intent m) \<noteq> Quoted then (m, [])
      else if \<not> can_sign_quote (i_status (m_intent m)) (i_quote (m_intent m))
        then (patch m (set_error ''No quote to sign''), [])
      else if \<not> holds_current_quote m
        then (m, [log_fx Warn '' Not signing a quote for a trade no longer on the form''])
      else (let q = the (i_quote (m_intent m)) in
        if has_deposit_address q then reveal_deposit now m
        else (case q_eip712Data q of
           None \<Rightarrow> (patch m (set_error ''No quote to sign''), [])
         | Some eip712 \<Rightarrow> confirm_quote env now q eip712 m)))"

section \<open>The origin pull\<close>

text \<open>\<open>BigInt(v)\<close> on a value off the wire, and the message of its throw, which \<open>intent.error\<close> shows.\<close>

definition js_bigint :: "jsval \<Rightarrow> int option" where
  "js_bigint v = (case v of VStr s \<Rightarrow> big_int s | VNum n \<Rightarrow> int_of_num n
     | VBool b \<Rightarrow> Some (if b then 1 else 0) | VBig n \<Rightarrow> Some n
     | VArr _ \<Rightarrow> big_int (js_string v) | _ \<Rightarrow> None)"

definition bigint_error :: "jsval \<Rightarrow> string" where
  "bigint_error v = (case v of
     VNum n \<Rightarrow> ''The number '' @ show_jsnum n @ '' cannot be converted to a BigInt because it is not an integer''
   | _ \<Rightarrow> ''Cannot convert '' @ js_string v @ '' to a BigInt'')"

definition intended_amount :: "model \<Rightarrow> typed_data \<Rightarrow> jsval" where
  "intended_amount m eip712 = (case or_null (i_quotedFromAmount (m_intent m)) of
     Some a \<Rightarrow> VStr a
   | None \<Rightarrow> (if truthy (msg eip712 ''fromAmount'') then msg eip712 ''fromAmount'' else VStr ''0''))"

text \<open>A wallet step failed: from Confirm, and from the second tap.\<close>

definition sign_flow_failed :: "error_report \<Rightarrow> model \<Rightarrow> step_result" where
  "sign_flow_failed report m = (case m_sign m of
     None \<Rightarrow> (m, [])
   | Some flow \<Rightarrow> emitting [clear_timer TSignPrompt] (let next = end_sign_flow m flow in
      if sg_origin flow = FromSign then
        (if er_rejected report then transition next (StatusOf Quoted) (set_error ''Signature rejected'')
         else if er_value report = Some (ErrText ''wallet_prompt_timeout'')
           then transition next (StatusOf Quoted)
             (set_error ''Couldn't reach the wallet. Press Confirm to try again.'')
         else emitting [log_fx Error '' Sign error:'']
           (transition next (StatusOf Failed)
             (\<lambda>i. i\<lparr>i_error := Some (or_else (er_value report) (ErrText ''Signing failed''))\<rparr>)))
      else if er_rejected report then
        transition (next\<lparr>m_awaitingPull := False\<rparr>) (StatusOf Quoted) (set_error ''Signature rejected'')
      else (patch next (set_error ''Couldn't reach the wallet. Tap to try the second signature again.''),
            [log_fx Error '' Pull sign error:''])))"

definition complete_pull :: "sign_flow \<Rightarrow> model \<Rightarrow> step_result" where
  "complete_pull flow m =
     (case (quote_field m q_pullAuthorization, quote_field m q_eip712Data) of
        (Some pull, Some eip712) \<Rightarrow>
          (case js_bigint (intended_amount m eip712) of
             None \<Rightarrow> sign_flow_failed \<lparr>er_rejected = False,
                 er_value = Some (ErrText (bigint_error (intended_amount m eip712))),
                 er_notAccepted = None\<rparr> (m\<lparr>m_sign := Some flow\<rparr>)
           | Some expected \<Rightarrow>
              (case validate_solver_pin pull (cfg_solverPin (m_config m)) expected of
                 Inl (_, reason) \<Rightarrow> emitting [log_fx Error '' Refusing to sign origin pull:'']
                   (transition (m\<lparr>m_sign := Some flow\<rparr>) (StatusOf Quoted)
                     (\<lambda>i. i\<lparr>i_error := Some (ErrText (''Refusing to sign origin pull: '' @ reason)),
                        i_refusal := Some PullUnpinned\<rparr>))
               | Inr _ \<Rightarrow> (m\<lparr>m_sign := Some (flow\<lparr>sg_stage := StageApproval\<rparr>)\<rparr>,
                   [Wallet (EnsureApproval (sg_id flow) (show_int expected))])))
      | _ \<Rightarrow> (end_sign_flow m flow, []))"

definition begin_pull_sign :: "env \<Rightarrow> num \<Rightarrow> model \<Rightarrow> step_result" where
  "begin_pull_sign env now m =
     (if blank_str (m_pendingIntentSig m) \<or> quote_field m q_pullAuthorization = None
         \<or> m_isSigningPull m \<or> m_sign m \<noteq> None then (m, [])
      else (let reject = (\<lambda>err. transition (m\<lparr>m_awaitingPull := False\<rparr>) (StatusOf Quoted) (set_error err)) in
        case sign_preflight_of env now m of
          PfRejectQuoted _ err \<Rightarrow> reject err
        | PfRejectExpired err \<Rightarrow> reject err
        | _ \<Rightarrow> (let seq = m_seq m + 1 in
            complete_pull \<lparr>sg_id = CHR ''s'' # show_nat seq, sg_origin = FromPull,
               sg_stage = StageApproval, sg_intentSignature = m_pendingIntentSig m, sg_execute = None\<rparr>
              (m\<lparr>m_isSigningPull := True, m_seq := seq\<rparr>))))"

definition flow_at :: "model \<Rightarrow> string \<Rightarrow> sign_stage \<Rightarrow> sign_flow option" where
  "flow_at m fid stage = (case m_sign m of None \<Rightarrow> None
     | Some flow \<Rightarrow> (if sg_id flow = fid \<and> sg_stage flow = stage then Some flow else None))"

definition on_approval :: "string \<Rightarrow> error_report + bool \<Rightarrow> model \<Rightarrow> step_result" where
  "on_approval fid result m = (case flow_at m fid StageApproval of
     None \<Rightarrow> (m, [])
   | Some flow \<Rightarrow>
      (case result of
         Inl report \<Rightarrow> sign_flow_failed report m
       | Inr approved \<Rightarrow>
          (if \<not> approved then transition m (StatusOf Quoted)
             (\<lambda>i. i\<lparr>i_error := Some (ErrText ''Token approval required to continue''),
                i_refusal := Some ApprovalRequired\<rparr>)
           else (case quote_field m q_pullAuthorization of
              None \<Rightarrow> (end_sign_flow m flow, [])
            | Some pull \<Rightarrow> (m\<lparr>m_sign := Some (flow\<lparr>sg_stage := StagePull\<rparr>)\<rparr>,
                [Wallet (SignTypedData (sg_id flow) ForPull pull (wl_chainId (cx_wallet (m_ctx m)))),
                 set_timer TSignPrompt SIGN_PROMPT_TIMEOUT_MS False])))))"

section \<open>The execute\<close>

definition run_execute ::
    "num \<Rightarrow> sign_flow \<Rightarrow> string \<Rightarrow> string option \<Rightarrow> model \<Rightarrow> step_result" where
  "run_execute now flow signature pull_signature m =
     (if i_status (m_intent m) \<noteq> Signing then
        emitting [log_fx Warn ('' Dropping signature: intent is '' @ status_str (i_status (m_intent m))
          @ '', not signing'')] (abandon_sign m)
      else (let request = \<lparr>x_intentId = or_else (i_intentId (m_intent m)) [],
                x_quoteId = or_else (i_quoteId (m_intent m)) [], x_signature = signature,
                x_nonce = now, x_pullSignature = pull_signature\<rparr>;
              staged = m\<lparr>m_sign := Some (flow\<lparr>sg_stage := StageExecute, sg_execute := Some
                \<lparr>at_request = request, at_resends = 0, at_resendAt = None, at_error = None\<rparr>\<rparr>)\<rparr> in
        case transition staged (StatusOf Executing) id of (executing, es) \<Rightarrow>
          (if i_status (m_intent executing) \<noteq> Executing then emitting es (abandon_sign m)
           else (executing\<lparr>m_submittedAt := Some now, m_clientFillMs := None\<rparr>,
             es @ [Api (ApiExecute (sg_id flow) request)]))))"

definition stage_of_purpose :: "sign_purpose \<Rightarrow> sign_stage" where
  "stage_of_purpose p = (case p of ForIntent \<Rightarrow> StageIntent | ForPull \<Rightarrow> StagePull)"

definition intent_signed :: "num \<Rightarrow> sign_flow \<Rightarrow> string \<Rightarrow> model \<Rightarrow> step_result" where
  "intent_signed now flow signature m =
     (let next = m\<lparr>m_pendingIntentSig := Some signature\<rparr>;
          signed = flow\<lparr>sg_intentSignature := Some signature\<rparr> in
      if quote_field next q_pullAuthorization = None then run_execute now signed signature None next
      else if wl_stepwise (cx_wallet (m_ctx next)) then (next\<lparr>m_awaitingPull := True, m_sign := None\<rparr>, [])
      else complete_pull signed next)"

definition on_signed ::
    "num \<Rightarrow> string \<Rightarrow> sign_purpose \<Rightarrow> error_report + string \<Rightarrow> model \<Rightarrow> step_result" where
  "on_signed now fid purpose result m = (case flow_at m fid (stage_of_purpose purpose) of
     None \<Rightarrow> (m, [])
   | Some flow \<Rightarrow>
      (if i_status (m_intent m) \<noteq> Signing then abandon_sign m
       else emitting [clear_timer TSignPrompt]
        (case result of
           Inl report \<Rightarrow> sign_flow_failed report m
         | Inr signature \<Rightarrow>
            (case purpose of
               ForPull \<Rightarrow> run_execute now flow (or_else (sg_intentSignature flow) []) (Some signature)
                  (m\<lparr>m_awaitingPull := False\<rparr>)
             | ForIntent \<Rightarrow> intent_signed now flow signature m))))"

section \<open>The execute reply\<close>

definition not_accepted_report :: "exec_outcome \<Rightarrow> error_report option" where
  "not_accepted_report result = (case result of
     ExecFailed (Some report) \<Rightarrow> (if er_notAccepted report = Some True then Some report else None)
   | _ \<Rightarrow> None)"

definition optional_kind :: "(jsval \<Rightarrow> bool) \<Rightarrow> jsval \<Rightarrow> bool" where
  "optional_kind is_kind v \<longleftrightarrow> v = VUndef \<or> is_kind v"

definition is_num :: "jsval \<Rightarrow> bool" where
  "is_num v = (case v of VNum _ \<Rightarrow> True | _ \<Rightarrow> False)"

definition is_bool :: "jsval \<Rightarrow> bool" where
  "is_bool v = (case v of VBool _ \<Rightarrow> True | _ \<Rightarrow> False)"

definition is_relayed_execute_reply :: "jsval \<Rightarrow> bool" where
  "is_relayed_execute_reply v = (case v of
     VObj ob \<Rightarrow> is_bool (obj_get ob ''success'') \<and> is_str (obj_get ob ''intentId'')
       \<and> is_str (obj_get ob ''status'')
       \<and> optional_kind is_bool (obj_get ob ''reconciling'')
       \<and> optional_kind is_num (obj_get ob ''settlementChainId'')
       \<and> list_all (\<lambda>k. optional_kind is_str (obj_get ob k))
            [''error'', ''txHash'', ''receivingTxHash'', ''settlementTxHash'', ''substatus'']
   | _ \<Rightarrow> False)"

definition result_of_reply :: "obj \<Rightarrow> execute_result" where
  "result_of_reply ob =
     (let status = or_else (get_str ob ''status'') []; decoded = decode_wire_status (VStr status) in
      \<lparr>xr_success = or_else (get_bool ob ''success'') False,
       xr_status = decoded_value decoded,
       xr_reconciling = get_bool ob ''reconciling'',
       xr_error = get_str ob ''error'',
       xr_substatus = (if decoded_value decoded = StatusOf Failed \<and> status \<noteq> ''failed''
          then Some status else get_str ob ''substatus''),
       xr_txHash = get_str ob ''txHash'', xr_receivingTxHash = get_str ob ''receivingTxHash'',
       xr_settlementTxHash = get_str ob ''settlementTxHash'',
       xr_settlementChainId = get_num ob ''settlementChainId''\<rparr>)"

text \<open>The response, and whether its status is outside this build's vocabulary; \<open>None\<close> is in doubt.\<close>

definition response_unless_in_doubt ::
    "exec_outcome \<Rightarrow> string option \<Rightarrow> (execute_result \<times> bool) option \<times> effect list" where
  "response_unless_in_doubt result intent = (case result of
     ExecFailed _ \<Rightarrow> (None, [log_fx Warn '' Execute in-doubt; polling to resolve:''])
   | ExecMalformed \<Rightarrow> (None, [log_fx Error '' Execute reply is not an execute response; in doubt, polling''])
   | ExecReply v \<Rightarrow>
      (if \<not> is_relayed_execute_reply v
       then (None, [log_fx Error '' Execute reply is not an execute response; in doubt, polling''])
       else (case v of VObj ob \<Rightarrow>
          (if get_str ob ''intentId'' \<noteq> intent
           then (None, [log_fx Error '' Execute reply names another intent; in doubt, polling''])
           else (Some (result_of_reply ob,
                   (case decode_wire_status (obj_get ob ''status'') of Unmapped _ \<Rightarrow> True | _ \<Rightarrow> False)),
                 (if obj_get ob ''readToken'' \<noteq> VUndef
                  then [log_fx Warn '' Execute reply carried a readToken; keep it outside the machine'']
                  else [])))
        | _ \<Rightarrow> (None, []))))"

definition stop_resending :: "sign_flow \<Rightarrow> intent_error \<Rightarrow> model \<Rightarrow> model" where
  "stop_resending flow err m =
     patch (end_sign_flow m flow) (\<lambda>i. i\<lparr>i_notSent := True, i_error := Some err\<rparr>)"

definition busy_error :: intent_error where
  "busy_error = ErrText ''The solver is busy. Try again.''"

definition report_retry_after :: "error_report \<Rightarrow> jsnum option" where
  "report_retry_after report = (case er_value report of
     Some (ErrStruct s) \<Rightarrow> se_retryAfter s | _ \<Rightarrow> None)"

definition own_attempt :: "sign_flow \<Rightarrow> model \<Rightarrow> execute_attempt option" where
  "own_attempt flow m = (case (sg_execute flow, i_intentId (m_intent m)) of
     (Some a, Some i) \<Rightarrow> (if x_intentId (at_request a) = i \<and> i_status (m_intent m) = Executing
        \<and> \<not> i_reconciling (m_intent m) then Some a else None)
   | _ \<Rightarrow> None)"

definition resend_reason_str :: "resend_reason \<Rightarrow> string" where
  "resend_reason_str r = (case r of Exhausted \<Rightarrow> ''exhausted'' | NoRetryAfter \<Rightarrow> ''no_retry_after''
     | StaleRetryAfter \<Rightarrow> ''stale_retry_after'' | PastDeadline \<Rightarrow> ''deadline'')"

definition on_not_accepted ::
    "env \<Rightarrow> num \<Rightarrow> sign_flow \<Rightarrow> error_report \<Rightarrow> model \<Rightarrow> model option \<times> effect list" where
  "on_not_accepted env now flow report m = (case own_attempt flow m of
     None \<Rightarrow> (None, [log_fx Warn '' Execute not accepted, but kept in doubt: the intent already is''])
   | Some attempt \<Rightarrow> (let err = or_else (er_value report) busy_error in
      case decide_execute_resend (at_resends attempt) (report_retry_after report)
             (execute_deadline env (i_quote (m_intent m))) now of
        GiveUp reason \<Rightarrow> (Some (stop_resending flow err (m\<lparr>m_pendingIntentSig := None\<rparr>)),
          [log_fx Warn ('' Execute not accepted; not resending ('' @ resend_reason_str reason @ '')'')])
      | Resend delay \<Rightarrow> (Some (m\<lparr>m_pendingIntentSig := None,
            m_sign := Some (flow\<lparr>sg_execute := Some (attempt\<lparr>at_resendAt := Some (now + delay),
              at_error := Some err\<rparr>)\<rparr>)\<rparr>),
          [log_fx Warn ('' Execute not accepted (solver busy); resend '' @ show_nat (at_resends attempt + 1)
             @ ''/'' @ show_nat MAX_EXECUTE_RESENDS @ '' in '' @ show_num delay @ ''ms''),
           set_timer TExecute delay False])))"

definition resend_execute :: "env \<Rightarrow> num \<Rightarrow> model \<Rightarrow> step_result" where
  "resend_execute env now m = (case m_sign m of None \<Rightarrow> (m, [])
   | Some flow \<Rightarrow> (case sg_execute flow of None \<Rightarrow> (m, [])
     | Some attempt \<Rightarrow>
        (if \<not> awaiting_resend m \<or> i_status (m_intent m) \<noteq> Executing then (m, [])
         else (let deadline = execute_deadline env (i_quote (m_intent m)) in
           if deadline = None \<or> now > (the deadline - EXECUTE_RESEND_MARGIN_SECS) * 1000
           then (stop_resending flow (or_else (at_error attempt) busy_error) m,
                 [log_fx Warn '' Execute not accepted; the deadline passed before the resend''])
           else (let seq = m_seq m + 1; sid = CHR ''s'' # show_nat seq in
             (m\<lparr>m_seq := seq, m_submittedAt := Some now,
                m_sign := Some (flow\<lparr>sg_id := sid, sg_execute := Some (attempt\<lparr>
                  at_resends := at_resends attempt + 1, at_resendAt := None, at_error := None\<rparr>)\<rparr>)\<rparr>,
              [Api (ApiExecute sid (at_request attempt))]))))))"

definition resend_backstop :: "env \<Rightarrow> num \<Rightarrow> model \<Rightarrow> step_result" where
  "resend_backstop env now m =
     (case Option.bind (Option.bind (m_sign m) sg_execute) at_resendAt of
        None \<Rightarrow> (m, [])
      | Some t \<Rightarrow> (if now < t then (m, [])
          else emitting [log_fx Warn '' The resend is due and still pending; resending from the poll timer'',
                         clear_timer TExecute] (resend_execute env now m)))"

text \<open>The reply read for its intent, after the flow ended.\<close>

definition apply_execute_result :: "num \<Rightarrow> execute_result \<Rightarrow> bool \<Rightarrow> model \<Rightarrow> step_result" where
  "apply_execute_result now r unmapped next =
     (if \<not> xr_success r \<and> xr_status r = StatusOf Quoted \<and> i_status (m_intent next) = Executing
         \<and> \<not> i_reconciling (m_intent next)
      then (patch next (\<lambda>i. i\<lparr>i_notSent := True,
              i_error := Some (ErrText (or_str (xr_error r) ''The order was not sent.''))\<rparr>),
            [log_fx Warn '' Execute ended unclaimed (the intent reads quoted); not sent yet''])
      else (case decide_execute_result r of
         DecFailed err moved \<Rightarrow> transition next (StatusOf Failed)
           (\<lambda>i. i\<lparr>i_error := Some (ErrText err), i_mayHaveMoved := moved\<rparr>)
       | DecTransition status upd reconciling0 \<Rightarrow>
          (let reconciling = (unmapped \<or> reconciling0);
               timed = (if status = StatusOf Completed \<and> m_submittedAt next \<noteq> None
                 then next\<lparr>m_clientFillMs := Some (now - the (m_submittedAt next))\<rparr> else next) in
           and_then (transition timed status (\<lambda>i. (upd i)\<lparr>i_reconciling := reconciling\<rparr>))
             (\<lambda>moved. if reconciling \<and> \<not> can_move (i_status (m_intent timed)) status
                then (patch moved (\<lambda>i. i\<lparr>i_reconciling := True\<rparr>), []) else (moved, [])))))"

definition on_executed :: "env \<Rightarrow> num \<Rightarrow> string \<Rightarrow> exec_outcome \<Rightarrow> model \<Rightarrow> step_result" where
  "on_executed env now fid result m = (case flow_at m fid StageExecute of
     None \<Rightarrow> (m, [])
   | Some flow \<Rightarrow>
      (if awaiting_resend m then (m, [])
       else (let (handled, es0) = (case not_accepted_report result of
                None \<Rightarrow> (None, []) | Some report \<Rightarrow> on_not_accepted env now flow report m) in
         case handled of Some m' \<Rightarrow> (m', es0)
         | None \<Rightarrow> (let next = end_sign_flow (m\<lparr>m_pendingIntentSig := None\<rparr>) flow;
              (reply, es1) = response_unless_in_doubt result (i_intentId (m_intent next)) in
            emitting (es0 @ es1) (case reply of
               None \<Rightarrow> (patch next (\<lambda>i. i\<lparr>i_reconciling := True\<rparr>), [])
             | Some (r, unmapped) \<Rightarrow> apply_execute_result now r unmapped next)))))"

end
