(* ===== verification/MachineStatus.thy ===== *)
theory MachineStatus
  imports MachineSign
begin

text \<open>
  \<open>machine.ts\<close>, the status leg: applying a status update, the poll and its replies.
\<close>

section \<open>Applying an update\<close>

definition doubt_unmapped :: "bool \<Rightarrow> model \<Rightarrow> model" where
  "doubt_unmapped unmapped m =
     (if unmapped \<and> in_flight (i_status (m_intent m)) \<and> \<not> i_reconciling (m_intent m)
      then patch m (\<lambda>i. i\<lparr>i_reconciling := True\<rparr>) else m)"

definition end_not_sent :: "status_value \<Rightarrow> model \<Rightarrow> model" where
  "end_not_sent status m =
     (if i_notSent (m_intent m) \<and> status \<noteq> StatusOf Quoted
      then patch m (\<lambda>i. i\<lparr>i_notSent := False, i_reconciling := True\<rparr>) else m)"

definition status_updates :: "model \<Rightarrow> status_message \<Rightarrow> updates" where
  "status_updates m w = (case map_status_update w of (status, upd) \<Rightarrow>
     (if status = StatusOf Failed \<and> in_flight (i_status (m_intent m))
      then (\<lambda>i. (upd i)\<lparr>i_mayHaveMoved := failure_may_have_moved (w_substatus w)\<rparr>) else upd))"

definition apply_status_update :: "status_message \<Rightarrow> bool \<Rightarrow> model \<Rightarrow> step_result" where
  "apply_status_update w unmapped m =
     emitting [log_fx Debug '' Status update:'']
      (let status = fst (map_status_update w) in
       and_then
        (if status = StatusOf (i_status (m_intent m)) then
           (case merge_same_status_receipt (m_intent m) w of
              None \<Rightarrow> (m, []) | Some u \<Rightarrow> (patch m u, []))
         else transition m status (status_updates m w))
        (\<lambda>next. (end_not_sent status (doubt_unmapped unmapped next), [])))"

section \<open>Polling\<close>

definition poll_tick :: "bool \<Rightarrow> model \<Rightarrow> step_result" where
  "poll_tick elapsed m = (case m_poll m of None \<Rightarrow> (m, [])
   | Some poll \<Rightarrow> (let polls = pl_polls poll + 1 in
      (m\<lparr>m_poll := Some (poll\<lparr>pl_polls := polls,
          pl_spent := (if elapsed then pl_spent poll + 1 else pl_spent poll)\<rparr>)\<rparr>,
       [Api (ApiStatus (pl_intentId poll) (pl_gen poll) polls)])))"

definition foreign_status :: "error_report + status_result \<Rightarrow> string \<Rightarrow> bool" where
  "foreign_status result pid = (case result of
     Inr (StatusData s) \<Rightarrow> d_intentId s \<noteq> Some pid | _ \<Rightarrow> False)"

definition reads_not_sent ::
    "model \<Rightarrow> poll_state \<Rightarrow> string \<Rightarrow> nat \<Rightarrow> error_report + status_result \<Rightarrow> bool" where
  "reads_not_sent m poll pid attempt result \<longleftrightarrow>
     attempt \<ge> pl_answered poll
   \<and> (case result of Inr (StatusData s) \<Rightarrow> d_status s = StatusOf Quoted \<and> \<not> d_unmapped s | _ \<Rightarrow> False)
   \<and> i_intentId (m_intent m) = Some pid \<and> i_status (m_intent m) = Executing
   \<and> m_sign m = None \<and> \<not> i_reconciling (m_intent m)"

definition escalates_to_reconcile :: "intent_state \<Rightarrow> string \<Rightarrow> nat \<Rightarrow> bool" where
  "escalates_to_reconcile i pid attempt \<longleftrightarrow> attempt \<ge> RECONCILE_AFTER_ATTEMPTS
     \<and> i_intentId i = Some pid \<and> \<not> i_reconciling i \<and> \<not> i_notSent i"

definition swept_past_finish :: "env \<Rightarrow> intent_state \<Rightarrow> string \<Rightarrow> num \<Rightarrow> bool" where
  "swept_past_finish env i pid now \<longleftrightarrow> i_notSent i \<and> i_intentId i = Some pid
     \<and> (case unexecuted_finish_at env (i_quote i) of None \<Rightarrow> False | Some f \<Rightarrow> now > f * 1000)"

definition status_jsval :: "status_value \<Rightarrow> jsval" where
  "status_jsval v = (case v of StatusOf s \<Rightarrow> VStr (status_str s) | NotAStatus _ \<Rightarrow> VObj [])"

definition message_of_data :: "string \<Rightarrow> intent_status_data \<Rightarrow> status_message" where
  "message_of_data pid s = \<lparr>w_intentId = pid, w_status = d_status s, w_txHash = d_txHash s,
     w_receivingTxHash = d_receivingTxHash s, w_settlementTxHash = d_settlementTxHash s,
     w_settlementChainId = d_settlementChainId s, w_reconciling = None,
     w_substatus = (if withheld_settlement_confirmed
         (if d_unmapped s then VUndef else status_jsval (d_status s))
         (VBool (d_legsWithheld s)) (VBool (d_settlementConfirmed s))
       then Some ''filled'' else d_substatus s),
     w_error = d_error s, w_refundReason = d_refundReason s\<rparr>"

datatype poll_verdict = VerdictStop | VerdictProgress | VerdictNone

text \<open>The reply's own effect on the model, and its verdict on the poll.\<close>

definition read_not_found :: "env \<Rightarrow> num \<Rightarrow> string \<Rightarrow> model \<Rightarrow> step_result \<times> poll_verdict" where
  "read_not_found env now pid m =
     (if swept_past_finish env (m_intent m) pid now then
        (let r = emitting [log_fx Warn '' A not-sent intent is gone (swept unexecuted); offering Retry'']
           (transition m (StatusOf Failed) (\<lambda>i. i\<lparr>i_error := Some (ErrText NOT_SENT_SWEPT_ERROR),
              i_reconciling := False, i_mayHaveMoved := False\<rparr>)) in
         (r, if i_status (m_intent (fst r)) = Failed then VerdictStop else VerdictNone))
      else (case not_found_drift_warning pid (m_notFoundReported m) of
         None \<Rightarrow> ((m, []), VerdictNone)
       | Some warning \<Rightarrow> ((m\<lparr>m_notFoundReported := Some pid\<rparr>, [Emit (LogEvent Warn warning)]), VerdictNone)))"

definition read_data :: "bool \<Rightarrow> string \<Rightarrow> intent_status_data \<Rightarrow> model \<Rightarrow> step_result \<times> poll_verdict" where
  "read_data unsent pid s m =
     (let previous = i_status (m_intent m);
          r = and_then (apply_status_update (message_of_data pid s) (d_unmapped s) m)
            (\<lambda>next. (if i_intentId (m_intent next) = Some pid
                \<and> i_legsWithheld (m_intent next) \<noteq> Some (d_legsWithheld s)
              then patch next (\<lambda>i. i\<lparr>i_legsWithheld := Some (d_legsWithheld s)\<rparr>) else next, []));
          i = m_intent (fst r) in
      (r, if d_terminal s then VerdictStop
          else if i_status i \<noteq> previous \<or> (unsent \<and> i_notSent i \<and> i_quote i = None) then VerdictProgress
          else VerdictNone))"

definition read_status ::
    "env \<Rightarrow> num \<Rightarrow> bool \<Rightarrow> string \<Rightarrow> error_report + status_result \<Rightarrow> model \<Rightarrow> step_result \<times> poll_verdict" where
  "read_status env now unsent pid result m = (case result of
     Inl _ \<Rightarrow> ((m, [log_fx Error '' status poll threw; counting the attempt'']), VerdictNone)
   | Inr NoStatus \<Rightarrow> ((m, []), VerdictNone)
   | Inr NotFound \<Rightarrow> read_not_found env now pid m
   | Inr (StatusData s) \<Rightarrow> read_data unsent pid s m)"

definition exhausted_message :: "poll_state \<Rightarrow> string" where
  "exhausted_message poll = '' status poll stopped after ~'' @ show_nat (4 * pl_spent poll)
     @ ''s with no observable change ('' @ show_nat (pl_spent poll) @ '' intervals, ''
     @ show_nat (pl_polls poll) @ '' polls); leaving resolution to reconciliation/webhooks''"

definition close_poll ::
    "poll_state \<Rightarrow> poll_state \<Rightarrow> poll_verdict \<Rightarrow> model \<Rightarrow> step_result" where
  "close_poll poll answered verdict m = (case verdict of
     VerdictStop \<Rightarrow> (m\<lparr>m_poll := Some (answered\<lparr>pl_stopped := True\<rparr>)\<rparr>, [clear_timer TPoll])
   | VerdictProgress \<Rightarrow> (m\<lparr>m_poll := Some (answered\<lparr>pl_spent := 0\<rparr>)\<rparr>, [])
   | VerdictNone \<Rightarrow>
      (if int (pl_spent poll) < pl_max poll then (m\<lparr>m_poll := Some answered\<rparr>, [])
       else (let next = m\<lparr>m_poll := Some (answered\<lparr>pl_stopped := True\<rparr>)\<rparr> in
         (if i_intentId (m_intent next) = Some (pl_intentId poll) \<and> \<not> i_pollExhausted (m_intent next)
          then patch next (\<lambda>i. i\<lparr>i_pollExhausted := True\<rparr>) else next,
          [clear_timer TPoll, log_fx Warn (exhausted_message poll)]))))"

definition is_reply :: "error_report + status_result \<Rightarrow> bool" where
  "is_reply result = (case result of Inl _ \<Rightarrow> False | Inr _ \<Rightarrow> True)"

definition mark_unsent :: "bool \<Rightarrow> string \<Rightarrow> model \<Rightarrow> step_result" where
  "mark_unsent unsent pid m =
     (if unsent \<and> \<not> i_notSent (m_intent m)
      then (patch m (\<lambda>i. i\<lparr>i_notSent := True\<rparr>),
            [log_fx Warn ('' Intent '' @ pid @ '' reads quoted after execute: not sent yet'')])
      else (m, []))"

definition mark_slow :: "string \<Rightarrow> nat \<Rightarrow> model \<Rightarrow> model" where
  "mark_slow pid attempt m = (if escalates_to_reconcile (m_intent m) pid attempt
     then patch m (\<lambda>i. i\<lparr>i_reconciling := True\<rparr>) else m)"

definition answer_poll ::
    "env \<Rightarrow> num \<Rightarrow> poll_state \<Rightarrow> nat \<Rightarrow> error_report + status_result \<Rightarrow> model \<Rightarrow> step_result" where
  "answer_poll env now poll attempt result m =
     (let pid = pl_intentId poll;
          unsent = reads_not_sent m poll pid attempt result;
          answered = (if is_reply result then poll\<lparr>pl_answered := max (pl_answered poll) attempt\<rparr> else poll) in
      and_then (mark_unsent unsent pid m)
        (\<lambda>m1. (case read_status env now unsent pid result (mark_slow pid attempt m1) of
           (r, verdict) \<Rightarrow> and_then r (close_poll poll answered verdict))))"

definition on_status ::
    "env \<Rightarrow> num \<Rightarrow> nat \<Rightarrow> nat \<Rightarrow> error_report + status_result \<Rightarrow> model \<Rightarrow> step_result" where
  "on_status env now gen attempt result m = (case m_poll m of None \<Rightarrow> (m, [])
   | Some poll \<Rightarrow>
      (if pl_gen poll \<noteq> gen \<or> pl_stopped poll then (m, [])
       else if is_reply result \<and> attempt < pl_answered poll then (m, [])
       else if foreign_status result (pl_intentId poll) then
         (m, [log_fx Warn '' Ignoring a status response for another intent; keeping the poll active''])
       else answer_poll env now poll attempt result m))"

end
