(* ===== verification/MachineUpdate.thy ===== *)
theory MachineUpdate
  imports MachineStatus
begin

text \<open>
  \<open>machine.ts\<close>, the update function: the timers, the reactive rules run after every step, and \<open>update\<close>
  itself.
\<close>

section \<open>Timers\<close>

definition tick_expiry :: "env \<Rightarrow> num \<Rightarrow> model \<Rightarrow> step_result" where
  "tick_expiry env now m = (case i_quote (m_intent m) of None \<Rightarrow> (m, [])
   | Some q \<Rightarrow> (if q_expiry q = [] then (m, [])
      else (case date_get_time env (q_expiry q) of
         None \<Rightarrow> (m\<lparr>m_quoteExpiresIn := Some NaN\<rparr>, [])
       | Some t \<Rightarrow> (let remaining = max 0 (of_int \<lfloor>(t - now) / 1000\<rfloor>);
                next = m\<lparr>m_quoteExpiresIn := Some (Fin remaining)\<rparr> in
           if remaining = 0 then transition next (StatusOf Expired) (set_error ''Quote expired'')
           else (next, [])))))"

definition ask_again :: "env \<Rightarrow> num \<Rightarrow> model \<Rightarrow> step_result" where
  "ask_again env now m =
     (if busy (i_status (m_intent m)) then (m, [log_fx Debug '' Ignoring quote request during''])
      else if m_amount m = [] then (m, []) else start_quote env now (quote_opts_of (m_amount m)) m)"

definition refresh_fired :: "env \<Rightarrow> num \<Rightarrow> model \<Rightarrow> step_result" where
  "refresh_fired env now m = (case m_refresh m of None \<Rightarrow> (m, [])
   | Some (amount, allocated) \<Rightarrow> (let next = m\<lparr>m_refresh := None\<rparr> in
      if \<not> should_refresh_quote (i_status (m_intent next)) (m_hidden next) allocated then (next, [])
      else start_quote env now \<lparr>qo_amount = amount, qo_silent = cx_paused (m_ctx next),
             qo_forceRefresh = True, qo_allocate = None\<rparr> next))"

definition prompt_timeout :: error_report where
  "prompt_timeout = \<lparr>er_rejected = False, er_value = Some (ErrText ''wallet_prompt_timeout''),
     er_notAccepted = None\<rparr>"

definition on_timer :: "env \<Rightarrow> num \<Rightarrow> timer_name \<Rightarrow> model \<Rightarrow> step_result" where
  "on_timer env now timer m = (case timer of
     TDebounce \<Rightarrow> ask_again env now m
   | TRefresh \<Rightarrow> refresh_fired env now m
   | TExpiry \<Rightarrow> tick_expiry env now m
   | TPoll \<Rightarrow> (if awaiting_resend m then resend_backstop env now m
       else (case m_poll m of None \<Rightarrow> (m, [])
         | Some poll \<Rightarrow> (if pl_stopped poll then (m, []) else poll_tick True m)))
   | TSignPrompt \<Rightarrow> sign_flow_failed prompt_timeout m
   | TExecute \<Rightarrow> resend_execute env now m)"

section \<open>Steps\<close>

definition context_changed :: "trade_context \<Rightarrow> model \<Rightarrow> step_result" where
  "context_changed ctx m = (let next = m\<lparr>m_ctx := ctx\<rparr> in
     if m_flights m = [] \<or> trade_key_of ctx = trade_key_of (m_ctx m) then (next, [])
     else emitting (if i_status (m_intent m) = Quoting \<and> m_amount m \<noteq> []
          then [set_timer TDebounce QUOTE_DEBOUNCE_MS False] else [])
        (supersede_flights next))"

definition survives_cleared_amount :: "intent_state \<Rightarrow> bool" where
  "survives_cleared_amount i \<longleftrightarrow> i_status i = Failed \<and> i_mayHaveMoved i \<or> i_notSent i"

definition quote_requested :: "string \<Rightarrow> model \<Rightarrow> step_result" where
  "quote_requested amount m =
     emitting [clear_timer TDebounce, clear_timer TRefresh]
      (and_then (if amount = m_amount m then (m, []) else supersede_flights m)
        (\<lambda>kept. (let next = kept\<lparr>m_allocationKey := None, m_amount := amount, m_refresh := None\<rparr> in
          if amount = [] \<or> amount = ''0'' then
            (if survives_cleared_amount (m_intent m) then (next, [])
             else abandon_sign (next\<lparr>m_intent := INITIAL_INTENT_STATE\<rparr>))
          else (next, [set_timer TDebounce QUOTE_DEBOUNCE_MS False]))))"

definition allocate_requested :: "env \<Rightarrow> num \<Rightarrow> string \<Rightarrow> string \<Rightarrow> model \<Rightarrow> step_result" where
  "allocate_requested env now key ref m =
     (if allocation_refused m then (m, [Emit (AllocationEvent ref False)])
      else (let k = or_else (m_allocationKey m) key in
        start_quote env now \<lparr>qo_amount = m_amount m, qo_silent = False, qo_forceRefresh = True,
          qo_allocate = Some (k, ref)\<rparr> (m\<lparr>m_allocationKey := Some k\<rparr>)))"

definition cancel_sign :: "model \<Rightarrow> step_result" where
  "cancel_sign m = (if i_status (m_intent m) \<noteq> Signing \<or> m_sign m = None then (m, [])
     else and_then (abandon_sign m)
       (\<lambda>next. transition next (StatusOf Quoted) (set_error ''Signature cancelled'')))"

definition reset_machine :: "model \<Rightarrow> step_result" where
  "reset_machine m =
     emitting ([clear_timer TDebounce, clear_timer TRefresh, clear_timer TSignPrompt]
         @ (if awaiting_resend m then [clear_timer TExecute] else []) @ [Wallet ResetApproval])
      (and_then (supersede_flights m)
        (\<lambda>next. (next\<lparr>m_intent := INITIAL_INTENT_STATE, m_amount := [], m_submittedAt := None,
            m_clientFillMs := None, m_awaitingPull := False, m_isSigningPull := False,
            m_pendingIntentSig := None, m_allocationKey := None, m_refresh := None,
            m_quotedTrade := None, m_sign := None\<rparr>, [])))"

definition resume_intent ::
    "string \<Rightarrow> intent_status \<Rightarrow> string \<Rightarrow> num option \<Rightarrow> string option \<Rightarrow> model \<Rightarrow> step_result" where
  "resume_intent intent status owner deadline substatus m =
     (case build_resumed_state (m_intent m) intent status owner deadline of
        None \<Rightarrow> (m, [])
      | Some resumed \<Rightarrow>
         (let adopted = (if i_status resumed = Failed
              then resumed\<lparr>i_mayHaveMoved := failure_may_have_moved substatus\<rparr> else resumed) in
          emitting [clear_timer TDebounce]
            (and_then (supersede_flights m) (\<lambda>next. (next\<lparr>m_intent := adopted\<rparr>, [])))))"

definition visibility_changed :: "env \<Rightarrow> num \<Rightarrow> bool \<Rightarrow> model \<Rightarrow> step_result" where
  "visibility_changed env now hidden m =
     (if hidden then (m, [])
      else and_then
        (if m_amount m \<noteq> [] \<and> should_refresh_on_return (i_status (m_intent m)) (cx_paused (m_ctx m))
              (case i_quote (m_intent m) of None \<Rightarrow> False | Some q \<Rightarrow> has_deposit_address q)
         then start_quote env now ((quote_opts_of (m_amount m))\<lparr>qo_forceRefresh := True\<rparr>) m
         else (m, []))
        (\<lambda>next. (if awaiting_resend next then resend_backstop env now next
           else (case m_poll next of None \<Rightarrow> (next, [])
             | Some poll \<Rightarrow> (if pl_stopped poll
                 then ((patch next (\<lambda>i. i\<lparr>i_pollExhausted := False\<rparr>))\<lparr>m_poll := None\<rparr>, [])
                 else poll_tick False next)))))"

definition stream_status :: "status_message \<Rightarrow> model \<Rightarrow> step_result" where
  "stream_status w m = (if Some (w_intentId w) \<noteq> i_intentId (m_intent m)
     then (m, [log_fx Warn '' Ignoring a status frame for another intent:''])
     else apply_status_update w False m)"

definition step :: "env \<Rightarrow> message \<Rightarrow> model \<Rightarrow> step_result" where
  "step env g m = (let now = msg_now g in case body g of
     ContextChanged ctx \<Rightarrow> context_changed ctx m
   | QuoteRequested amount \<Rightarrow> quote_requested amount m
   | AllocateRequested key ref \<Rightarrow> allocate_requested env now key ref m
   | RefreshRequested \<Rightarrow> ask_again env now m
   | SignRequested \<Rightarrow> begin_sign env now m
   | PullSignRequested \<Rightarrow> begin_pull_sign env now m
   | CancelSignRequested \<Rightarrow> cancel_sign m
   | ResetRequested \<Rightarrow> reset_machine m
   | ResumeRequested intent status owner deadline substatus \<Rightarrow>
       resume_intent intent status owner deadline substatus m
   | VisibilityChanged \<Rightarrow> visibility_changed env now (msg_hidden g) m
   | StreamStatus w \<Rightarrow> stream_status w m
   | TimerFired timer \<Rightarrow> on_timer env now timer m
   | SessionReplied flight result \<Rightarrow> on_session env now flight result m
   | QuoteReplied flight result \<Rightarrow> on_quote env now flight result m
   | SignReplied flow purpose result \<Rightarrow> on_signed now flow purpose result m
   | ApprovalReplied flow result \<Rightarrow> on_approval flow result m
   | ExecuteReplied flow result \<Rightarrow> on_executed env now flow result m
   | StatusReplied gen attempt result \<Rightarrow> on_status env now gen attempt result m)"

section \<open>Reactive rules\<close>

definition wallet_key_of :: "model \<Rightarrow> wallet_key" where
  "wallet_key_of m = (wl_address (cx_wallet (m_ctx m)), wl_chainId (cx_wallet (m_ctx m)),
     i_quotedAddress (m_intent m), i_quotedChainId (m_intent m))"

definition wallet_moved :: "model \<Rightarrow> bool" where
  "wallet_moved m \<longleftrightarrow> account_changed (wl_address (cx_wallet (m_ctx m))) (i_quotedAddress (m_intent m))
     \<or> i_quotedChainId (m_intent m) \<noteq> None
        \<and> wl_chainId (cx_wallet (m_ctx m)) \<noteq> i_quotedChainId (m_intent m)"

definition watch_wallet :: "model \<Rightarrow> step_result" where
  "watch_wallet m =
     (if wk_wallet (m_watched m) = Some (wallet_key_of m) then (m, [])
      else (let next = m\<lparr>m_watched := (m_watched m)\<lparr>wk_wallet := Some (wallet_key_of m)\<rparr>\<rparr> in
        if blank_str (i_quotedAddress (m_intent m)) \<or> \<not> wallet_moved m
            \<or> \<not> List.member WALLET_INTERRUPTIBLE_STATES (i_status (m_intent m))
            \<or> i_mayHaveMoved (m_intent m)
        then (next, [])
        else (next\<lparr>m_intent := INITIAL_INTENT_STATE, m_refresh := None, m_awaitingPull := False,
                m_isSigningPull := False, m_pendingIntentSig := None, m_sign := None\<rparr>,
              [clear_timer TDebounce, clear_timer TRefresh, clear_timer TSignPrompt])))"

definition held_preview :: "model \<Rightarrow> bool" where
  "held_preview m = (case i_quote (m_intent m) of None \<Rightarrow> False | Some q \<Rightarrow> quote_is_preview q)"

definition upgrade_key_of :: "model \<Rightarrow> upgrade_key" where
  "upgrade_key_of m = (trade_key_of (m_ctx m), m_amount m, held_preview m, i_status (m_intent m))"

definition upgrade_preview :: "env \<Rightarrow> num \<Rightarrow> model \<Rightarrow> step_result" where
  "upgrade_preview env now m =
     (if wk_upgrade (m_watched m) = Some (upgrade_key_of m) then (m, [])
      else (let next = m\<lparr>m_watched := (m_watched m)\<lparr>wk_upgrade := Some (upgrade_key_of m)\<rparr>\<rparr> in
        if should_upgrade_preview_quote (\<not> blank_str (wl_address (cx_wallet (m_ctx m)))) (m_amount m \<noteq> [])
             (i_status (m_intent m)) (held_preview m) (\<not> is_chain_id (cx_fromChainId (m_ctx m)))
        then start_quote env now \<lparr>qo_amount = m_amount m, qo_silent = True, qo_forceRefresh = True,
               qo_allocate = None\<rparr> next
        else (next, [])))"

definition expiry_key_of :: "model \<Rightarrow> string option" where
  "expiry_key_of m = (case i_quote (m_intent m) of None \<Rightarrow> None
     | Some q \<Rightarrow> (if i_status (m_intent m) = Quoted \<and> q_expiry q \<noteq> [] \<and> \<not> has_deposit_address q
         then Some (q_expiry q) else None))"

definition arm_expiry :: "env \<Rightarrow> num \<Rightarrow> model \<Rightarrow> step_result" where
  "arm_expiry env now m =
     (if wk_expiry (m_watched m) = expiry_key_of m then (m, [])
      else (let next = m\<lparr>m_watched := (m_watched m)\<lparr>wk_expiry := expiry_key_of m\<rparr>\<rparr> in
        emitting (if wk_expiry (m_watched m) \<noteq> None then [clear_timer TExpiry] else [])
          (if expiry_key_of m = None then (next\<lparr>m_quoteExpiresIn := None\<rparr>, [])
           else emitting [set_timer TExpiry 1000 True] (tick_expiry env now next))))"

definition poll_key_of :: "model \<Rightarrow> string option" where
  "poll_key_of m =
     (let waiting = awaiting_resend m;
          pending = ((case m_sign m of None \<Rightarrow> False | Some s \<Rightarrow> sg_stage s = StageExecute) \<and> \<not> waiting) in
      if \<not> pending \<and> in_flight (i_status (m_intent m)) \<and> \<not> blank_str (i_intentId (m_intent m))
      then Some (the (i_intentId (m_intent m)) @ '':'' @ status_str (i_status (m_intent m))
             @ (if waiting then '':resend'' else []))
      else None)"

definition arm_poll :: "env \<Rightarrow> num \<Rightarrow> model \<Rightarrow> step_result" where
  "arm_poll env now m =
     (if poll_key_of m = map_option pl_key (m_poll m) then (m, [])
      else emitting (case m_poll m of None \<Rightarrow> []
             | Some poll \<Rightarrow> (if pl_stopped poll then [] else [clear_timer TPoll]))
       (case poll_key_of m of
          None \<Rightarrow> (m\<lparr>m_poll := None\<rparr>, [])
        | Some key \<Rightarrow>
           (let gen = m_seq m + 1;
                poll = \<lparr>pl_key = key, pl_intentId = the (i_intentId (m_intent m)), pl_gen = gen,
                  pl_polls = 0, pl_answered = 0, pl_spent = 0,
                  pl_max = poll_ceiling_attempts (i_status (m_intent m)) (i_depositDeadline (m_intent m))
                    now STATUS_POLL_MS STATUS_POLL_FLAT_CEILING_MS
                    (unexecuted_finish_at env (i_quote (m_intent m))),
                  pl_stopped = False\<rparr>;
                next = m\<lparr>m_seq := gen, m_poll := Some poll\<rparr> in
            emitting [set_timer TPoll STATUS_POLL_MS True]
              (if awaiting_resend m then (next, []) else poll_tick False next))))"

definition settle_pass :: "env \<Rightarrow> num \<Rightarrow> model \<Rightarrow> step_result" where
  "settle_pass env now m =
     and_then (watch_wallet m) (\<lambda>m1. and_then (upgrade_preview env now m1)
       (\<lambda>m2. and_then (arm_expiry env now m2) (arm_poll env now)))"

text \<open>
  A rule that fires replaces a key it watches (the poll, for the last), so the pass returned the same
  object exactly when it returned an equal model.
\<close>

fun settle_passes :: "nat \<Rightarrow> env \<Rightarrow> num \<Rightarrow> model \<Rightarrow> step_result" where
  "settle_passes 0 env now m = (m, [])"
| "settle_passes (Suc n) env now m = (let r = settle_pass env now m in
     if fst r = m then r else and_then r (settle_passes n env now))"

definition settle :: "env \<Rightarrow> num \<Rightarrow> model \<Rightarrow> step_result" where
  "settle = settle_passes 4"

section \<open>update\<close>

definition update :: "env \<Rightarrow> model \<Rightarrow> message \<Rightarrow> step_result" where
  "update env m g =
     and_then (step env g (m\<lparr>m_hidden := msg_hidden g\<rparr>)) (settle env (msg_now g))"

text \<open>A run: each message is handled in the environment of its moment (its wall clock).\<close>

fun run :: "model \<Rightarrow> (env \<times> message) list \<Rightarrow> step_result" where
  "run m [] = (m, [])"
| "run m ((env, g) # gs) = and_then (update env m g) (\<lambda>m'. run m' gs)"

end
