(* ===== verification/MachineFrame.thy ===== *)
theory MachineFrame
  imports MachineUpdate
begin

text \<open>
  What the helpers and the operations of the trade machine change and what they leave alone: the
  projections of the model after each helper, as rewrite rules, and the kinds of effect an operation
  can ask for.
\<close>

section \<open>The validated move, field by field\<close>

lemma state_sets [simp]:
  "set QUOTE_BUSY_STATES = {Signing, AwaitingDeposit, Executing, Bridging, Settling}"
  "set POLL_INFLIGHT_STATES = {AwaitingDeposit, Executing, Bridging, Settling}"
  "set ALLOCATABLE_STATES = {Idle, Pending, Quoting, Quoted}"
  "set ENDED_STATES = {Completed, Refunded}"
  "set WALLET_INTERRUPTIBLE_STATES = {Quoted, Signing, Expired, Failed}"
  by (auto simp: QUOTE_BUSY_STATES_def POLL_INFLIGHT_STATES_def ALLOCATABLE_STATES_def
      ENDED_STATES_def WALLET_INTERRUPTIBLE_STATES_def)

lemma can_move_simps [simp]:
  "can_move s (StatusOf t) \<longleftrightarrow> can_transition_to s t"
  "\<not> can_move s (NotAStatus x)"
  by (simp_all add: can_move_def)

lemma supersede_flights_simps [simp]:
  "fst (supersede_flights m) = m\<lparr>m_flights := []\<rparr>"
  by (simp add: supersede_flights_def)

lemma abandon_sign_fst [simp]:
  "fst (abandon_sign m) = m\<lparr>m_sign := None, m_pendingIntentSig := None, m_awaitingPull := False,
     m_isSigningPull := False\<rparr>"
  by (simp add: abandon_sign_def)

definition moved_intent :: "intent_state \<Rightarrow> status_value \<Rightarrow> updates \<Rightarrow> intent_state" where
  "moved_intent i to upd = (case to of
     StatusOf t \<Rightarrow> (upd (i\<lparr>i_status := t\<rparr>))\<lparr>i_notSent := False\<rparr> | NotAStatus _ \<Rightarrow> i)"

definition left_ceremony :: "model \<Rightarrow> status_value \<Rightarrow> bool" where
  "left_ceremony m to \<longleftrightarrow> i_status (m_intent m) = Executing
     \<or> i_status (m_intent m) = Signing \<and> \<not> own_execute m to"

lemma own_execute_update [simp]:
  "own_execute (m\<lparr>m_intent := i\<rparr>) to = own_execute m to"
  "own_execute (m\<lparr>m_flights := fs\<rparr>) to = own_execute m to"
  by (simp_all add: own_execute_def)

lemma transition_refused [simp]:
  "\<not> can_move (i_status (m_intent m)) to \<Longrightarrow> fst (transition m to upd) = m"
  by (cases to) (simp_all add: transition_def apply_status_transition_def Let_def)

lemma transition_moved:
  assumes "can_move (i_status (m_intent m)) to"
  shows "fst (transition m to upd) =
     (let m1 = m\<lparr>m_intent := moved_intent (m_intent m) to upd\<rparr>;
          m2 = (if busy_value to \<and> \<not> busy (i_status (m_intent m)) then m1\<lparr>m_flights := []\<rparr> else m1) in
      if left_ceremony m to then fst (abandon_sign m2) else m2)"
proof -
  obtain t where t: "to = StatusOf t" using assms by (cases to) simp_all
  have a: "apply_status_transition (m_intent m) to upd = Some (upd ((m_intent m)\<lparr>i_status := t\<rparr>))"
    using assms t by (simp add: apply_status_transition_def)
  have b: "moved_intent (m_intent m) to upd = (upd ((m_intent m)\<lparr>i_status := t\<rparr>))\<lparr>i_notSent := False\<rparr>"
    by (simp add: t moved_intent_def)
  show ?thesis
    by (cases "busy_value to \<and> \<not> busy (i_status (m_intent m))"; cases "left_ceremony m to")
      (simp_all only: transition_def a option.case Let_def b if_True if_False and_then_simps
        supersede_flights_simps own_execute_update left_ceremony_def fst_conv not_False_eq_True not_True_eq_False simp_thms)
qed
lemma transition_fst:
  "fst (transition m to upd) = (if can_move (i_status (m_intent m)) to then
     (let m1 = m\<lparr>m_intent := moved_intent (m_intent m) to upd\<rparr>;
          m2 = (if busy_value to \<and> \<not> busy (i_status (m_intent m)) then m1\<lparr>m_flights := []\<rparr> else m1) in
      if left_ceremony m to then fst (abandon_sign m2) else m2) else m)"
  by (cases "can_move (i_status (m_intent m)) to") (simp_all only: transition_moved transition_refused
      if_True if_False not_False_eq_True)

lemma transition_frame [simp]:
  "m_config (fst (transition m to upd)) = m_config m"
  "m_ctx (fst (transition m to upd)) = m_ctx m"
  "m_hidden (fst (transition m to upd)) = m_hidden m"
  "m_amount (fst (transition m to upd)) = m_amount m"
  "m_allocationKey (fst (transition m to upd)) = m_allocationKey m"
  "m_seq (fst (transition m to upd)) = m_seq m"
  "m_poll (fst (transition m to upd)) = m_poll m"
  "m_refresh (fst (transition m to upd)) = m_refresh m"
  "m_quotedTrade (fst (transition m to upd)) = m_quotedTrade m"
  "m_seenDepositAddresses (fst (transition m to upd)) = m_seenDepositAddresses m"
  "m_watched (fst (transition m to upd)) = m_watched m"
  "m_submittedAt (fst (transition m to upd)) = m_submittedAt m"
  "m_quoteExpiresIn (fst (transition m to upd)) = m_quoteExpiresIn m"
  "m_notFoundReported (fst (transition m to upd)) = m_notFoundReported m"
  by (simp_all add: transition_fst Let_def)

lemma transition_intent:
  "m_intent (fst (transition m to upd)) =
     (if can_move (i_status (m_intent m)) to then moved_intent (m_intent m) to upd else m_intent m)"
  by (simp add: transition_fst Let_def)

lemma transition_sign:
  "m_sign (fst (transition m to upd)) =
     (if can_move (i_status (m_intent m)) to \<and> left_ceremony m to then None else m_sign m)"
  "m_pendingIntentSig (fst (transition m to upd)) =
     (if can_move (i_status (m_intent m)) to \<and> left_ceremony m to then None else m_pendingIntentSig m)"
  "m_awaitingPull (fst (transition m to upd)) =
     (if can_move (i_status (m_intent m)) to \<and> left_ceremony m to then False else m_awaitingPull m)"
  by (simp_all add: transition_fst Let_def)

lemma transition_flights:
  "m_flights (fst (transition m to upd)) =
     (if can_move (i_status (m_intent m)) to \<and> busy_value to \<and> \<not> busy (i_status (m_intent m)) then []
      else m_flights m)"
  by (simp add: transition_fst Let_def)

lemma moved_intent_simps [simp]:
  "moved_intent i (StatusOf t) upd = (upd (i\<lparr>i_status := t\<rparr>))\<lparr>i_notSent := False\<rparr>"
  by (simp add: moved_intent_def)

lemma busy_value_simps [simp]: "busy_value (StatusOf t) \<longleftrightarrow> busy t" "\<not> busy_value (NotAStatus x)"
  by (simp_all add: busy_value_def)

lemma patch_simps [simp]:
  "m_intent (patch m u) = u (m_intent m)" "m_sign (patch m u) = m_sign m"
  "m_pendingIntentSig (patch m u) = m_pendingIntentSig m" "m_flights (patch m u) = m_flights m"
  "m_config (patch m u) = m_config m" "m_quotedTrade (patch m u) = m_quotedTrade m"
  "m_ctx (patch m u) = m_ctx m" "m_amount (patch m u) = m_amount m" "m_poll (patch m u) = m_poll m"
  "m_awaitingPull (patch m u) = m_awaitingPull m" "m_seq (patch m u) = m_seq m"
  "m_seenDepositAddresses (patch m u) = m_seenDepositAddresses m" "m_watched (patch m u) = m_watched m"
  "m_submittedAt (patch m u) = m_submittedAt m" "m_hidden (patch m u) = m_hidden m"
  by (simp_all add: patch_def)

lemma end_sign_flow_simps [simp]:
  "m_intent (end_sign_flow m f) = m_intent m" "m_sign (end_sign_flow m f) = None"
  "m_pendingIntentSig (end_sign_flow m f) = m_pendingIntentSig m"
  "m_flights (end_sign_flow m f) = m_flights m" "m_config (end_sign_flow m f) = m_config m"
  "m_quotedTrade (end_sign_flow m f) = m_quotedTrade m" "m_ctx (end_sign_flow m f) = m_ctx m"
  "m_amount (end_sign_flow m f) = m_amount m" "m_poll (end_sign_flow m f) = m_poll m"
  "m_awaitingPull (end_sign_flow m f) = m_awaitingPull m" "m_seq (end_sign_flow m f) = m_seq m"
  "m_seenDepositAddresses (end_sign_flow m f) = m_seenDepositAddresses m"
  "m_watched (end_sign_flow m f) = m_watched m" "m_submittedAt (end_sign_flow m f) = m_submittedAt m"
  by (simp_all add: end_sign_flow_def)

section \<open>Kinds of effect\<close>

datatype effect_kind =
    KQuote | KExecute | KStatus | KSession | KSignIntent | KSignPull | KApproval | KResetApproval
  | KTimer | KEmit

fun kind :: "effect \<Rightarrow> effect_kind" where
  "kind (Api (ApiQuote _ _ _)) = KQuote"
| "kind (Api (ApiExecute _ _)) = KExecute"
| "kind (Api (ApiStatus _ _ _)) = KStatus"
| "kind (Wallet (EnsureSession _ _)) = KSession"
| "kind (Wallet (SignTypedData _ ForIntent _ _)) = KSignIntent"
| "kind (Wallet (SignTypedData _ ForPull _ _)) = KSignPull"
| "kind (Wallet (EnsureApproval _ _)) = KApproval"
| "kind (Wallet ResetApproval) = KResetApproval"
| "kind (Timer _) = KTimer"
| "kind (Emit _) = KEmit"

definition only :: "effect_kind set \<Rightarrow> effect list \<Rightarrow> bool" where
  "only ks es \<longleftrightarrow> kind ` set es \<subseteq> ks"

lemma only_simps [simp]:
  "only ks []" "only ks (e # es) \<longleftrightarrow> kind e \<in> ks \<and> only ks es"
  "only ks (es @ fs) \<longleftrightarrow> only ks es \<and> only ks fs"
  by (auto simp: only_def)

lemma only_mono: "only ks es \<Longrightarrow> ks \<subseteq> ls \<Longrightarrow> only ls es"
  by (auto simp: only_def)

lemma only_excludes: "only ks es \<Longrightarrow> kind e \<notin> ks \<Longrightarrow> e \<notin> set es"
  by (auto simp: only_def)

lemma helper_kinds [simp]:
  "kind (log_fx l s) = KEmit" "kind (set_timer t ms r) = KTimer" "kind (clear_timer t) = KTimer"
  by (simp_all add: log_fx_def set_timer_def clear_timer_def)

definition quiet :: "effect list \<Rightarrow> bool" where
  "quiet es \<longleftrightarrow> only {KTimer, KEmit} es"

lemma quiet_simps [simp]:
  "quiet []" "quiet (e # es) \<longleftrightarrow> (kind e = KTimer \<or> kind e = KEmit) \<and> quiet es"
  "quiet (es @ fs) \<longleftrightarrow> quiet es \<and> quiet fs"
  by (auto simp: quiet_def)

lemma quiet_only: "quiet es \<Longrightarrow> {KTimer, KEmit} \<subseteq> ks \<Longrightarrow> only ks es"
  by (auto simp: quiet_def intro: only_mono)

lemma end_allocation_quiet [simp]: "quiet (end_allocation a ok)"
  by (auto simp: end_allocation_def split: option.splits)

lemma supersede_quiet [simp]: "quiet (snd (supersede_flights m))"
proof -
  have "quiet (concat (map (\<lambda>f. end_allocation (fl_allocate f) False) fs))" for fs
    by (induction fs) simp_all
  from this [of "m_flights m"] show ?thesis by (simp add: supersede_flights_def)
qed

lemma abandon_quiet [simp]: "quiet (snd (abandon_sign m))"
  by (simp add: abandon_sign_def)

lemma transition_quiet [simp]: "quiet (snd (transition m to upd))"
  by (auto simp: transition_def Let_def simp del: state_set_simps split: option.splits)

lemma quiet_onlyI [simp]:
  "only (insert KTimer (insert KEmit ks)) (snd (transition m to upd))"
  "only (insert KTimer (insert KEmit ks)) (snd (abandon_sign m))"
  "only (insert KTimer (insert KEmit ks)) (snd (supersede_flights m))"
  "only (insert KTimer (insert KEmit ks)) (end_allocation a ok)"
  by (auto intro: quiet_only)

end
