(* ===== verification/MachineInv.thy ===== *)
theory MachineInv
  imports MachineFrame
begin

text \<open>
  The invariants of the trade machine, and that every operation keeps them: the signing ceremony is in
  step with the status, the held quote was asked for by this user and passed every gate, no quote is in
  flight while an order is, and a pull is only ever prompted for once it is pinned.
\<close>

section \<open>The invariants\<close>

definition in_ceremony :: "intent_status \<Rightarrow> bool" where
  "in_ceremony s \<longleftrightarrow> s = Signing \<or> s = Executing"

definition attempt_ok :: "execute_attempt \<Rightarrow> bool" where
  "attempt_ok a \<longleftrightarrow> at_resends a \<le> 3 \<and> (at_resendAt a \<noteq> None \<longrightarrow> at_resends a < 3)"

definition flow_ok :: "intent_status \<Rightarrow> sign_flow \<Rightarrow> bool" where
  "flow_ok st s \<longleftrightarrow> (if sg_stage s = StageExecute
     then st = Executing \<and> (\<exists>a. sg_execute s = Some a \<and> attempt_ok a)
     else in_ceremony st \<and> sg_execute s = None)"

definition signable_held :: "intent_state \<Rightarrow> bool" where
  "signable_held i \<longleftrightarrow> (\<exists>q. i_quote i = Some q \<and> q_canSolve q \<and> \<not> quote_is_preview q
     \<and> \<not> has_deposit_address q \<and> q_eip712Data q \<noteq> None)"

text \<open>
  The ceremony and the status agree, and it is about a signable quote that is still held; a not-sent
  order is an executing one.
\<close>

definition ceremony_ok :: "model \<Rightarrow> bool" where
  "ceremony_ok m \<longleftrightarrow> (let st = i_status (m_intent m) in
     (\<forall>s. m_sign m = Some s \<longrightarrow> flow_ok st s)
   \<and> (m_pendingIntentSig m \<noteq> None \<longrightarrow> in_ceremony st)
   \<and> (m_awaitingPull m \<longrightarrow> in_ceremony st)
   \<and> (m_sign m \<noteq> None \<or> m_pendingIntentSig m \<noteq> None \<longrightarrow> signable_held (m_intent m))
   \<and> (i_notSent (m_intent m) \<longrightarrow> st = Executing))"

text \<open>A flight whose request was sent carries the request of its own form, and it was sendable.\<close>

definition asked :: "quote_flight \<Rightarrow> bool" where
  "asked f \<longleftrightarrow> (\<exists>env t. fl_request f = Some (build_quote_request (raw_request f t))
     \<and> validate_swap_params env (params_of_request (build_quote_request (raw_request f t))) t = [])"

definition flights_ok :: "model \<Rightarrow> bool" where
  "flights_ok m \<longleftrightarrow> (\<forall>f \<in> set (m_flights m). fl_stage f = FApi \<longrightarrow> asked f)
     \<and> (busy (i_status (m_intent m)) \<longrightarrow> m_flights m = [])"

text \<open>
  The quote answered a flight of this form and passed every gate when it arrived: \<open>A e q\<close> says that a reply carrying
  \<open>q\<close> was handled in the environment \<open>e\<close>.
\<close>

type_synonym arrivals = "env \<Rightarrow> quote_response \<Rightarrow> bool"


definition vetted :: "arrivals \<Rightarrow> pinned_recipients option \<Rightarrow> quote_flight \<Rightarrow> quote_response \<Rightarrow> bool" where
  "vetted A pins f q \<longleftrightarrow> asked f \<and> (\<exists>env. A env q \<and> quote_gates env pins q f = Inr ())"

definition deposit_vetted :: "arrivals \<Rightarrow> string option \<Rightarrow> quote_flight \<Rightarrow> quote_response \<Rightarrow> stored_deposit option \<Rightarrow> bool" where
  "deposit_vetted A signer f q stored \<longleftrightarrow>
     (if has_deposit_address q
      then (\<exists>env r seen seen' d. A env q \<and> fl_request f = Some r \<and> q_settlementType q = Some (r_settlementPreference r)
            \<and> check_deposit_quote env r q signer seen = Inr (d, seen') \<and> stored = Some d)
      else stored = None)"

definition held_ok :: "arrivals \<Rightarrow> machine_config \<Rightarrow> trade_key option \<Rightarrow> intent_state \<Rightarrow> bool" where
  "held_ok A cfg traded i \<longleftrightarrow> (\<forall>q. i_quote i = Some q \<and> q_canSolve q \<longrightarrow>
     (\<exists>f. vetted A (cfg_pullRecipients cfg) f q
        \<and> deposit_vetted A (cfg_depositAttestationSigner cfg) f q (i_attestedDeposit i)
        \<and> traded = Some (trade_key_of (fl_ctx f)) \<and> i_quotedFromAmount i = Some (fl_amount f)
        \<and> i_quotedSettlement i = Some (requested_settlement f)))"

definition quote_ok :: "arrivals \<Rightarrow> model \<Rightarrow> bool" where
  "quote_ok A m \<longleftrightarrow> held_ok A (m_config m) (m_quotedTrade m) (m_intent m)"

definition pull_checked :: "machine_config \<Rightarrow> intent_state \<Rightarrow> bool" where
  "pull_checked cfg i \<longleftrightarrow> (\<exists>q pull td n.
     i_quote i = Some q \<and> q_pullAuthorization q = Some pull \<and> q_eip712Data q = Some td
   \<and> js_bigint (case or_null (i_quotedFromAmount i) of Some a \<Rightarrow> VStr a
        | None \<Rightarrow> (if truthy (msg td ''fromAmount'') then msg td ''fromAmount'' else VStr ''0'')) = Some n
   \<and> validate_solver_pin pull (cfg_solverPin cfg) n = Inr ())"

definition has_pull :: "intent_state \<Rightarrow> bool" where
  "has_pull i \<longleftrightarrow> Option.bind (i_quote i) q_pullAuthorization \<noteq> None"

text \<open>
  A pull in the wallet has been checked, and so has the pull of an execute whose signature is still held
  (a second tap could reach it again).
\<close>

definition pull_ok :: "model \<Rightarrow> bool" where
  "pull_ok m \<longleftrightarrow>
     (\<forall>s. m_sign m = Some s \<and> sg_stage s \<in> {StageApproval, StagePull} \<longrightarrow>
        pull_checked (m_config m) (m_intent m))
   \<and> (i_status (m_intent m) = Executing \<and> m_pendingIntentSig m \<noteq> None \<and> has_pull (m_intent m) \<longrightarrow>
        pull_checked (m_config m) (m_intent m))"

definition sound :: "arrivals \<Rightarrow> model \<Rightarrow> bool" where
  "sound A m \<longleftrightarrow> ceremony_ok m \<and> flights_ok m \<and> quote_ok A m \<and> pull_ok m"

lemmas sound_defs = sound_def ceremony_ok_def flights_ok_def quote_ok_def pull_ok_def

section \<open>Updates that keep the held quote\<close>

text \<open>An update of the intent that leaves the quote as it is, and one that may drop it.\<close>

definition keeps :: "updates \<Rightarrow> bool" where
  "keeps u \<longleftrightarrow> (\<forall>i. i_status (u i) = i_status i \<and> i_quote (u i) = i_quote i
     \<and> i_quotedFromAmount (u i) = i_quotedFromAmount i \<and> i_quotedSettlement (u i) = i_quotedSettlement i
     \<and> i_attestedDeposit (u i) = i_attestedDeposit i)"

definition unsolvable :: "quote_response option \<Rightarrow> bool" where
  "unsolvable q \<longleftrightarrow> (\<forall>x. q = Some x \<longrightarrow> \<not> q_canSolve x)"

definition drops :: "updates \<Rightarrow> bool" where
  "drops u \<longleftrightarrow> (\<forall>i. i_status (u i) = i_status i \<and> unsolvable (i_quote (u i)))"

lemma keepsD: "keeps u \<Longrightarrow> i_status (u i) = i_status i" "keeps u \<Longrightarrow> i_quote (u i) = i_quote i"
  "keeps u \<Longrightarrow> i_quotedFromAmount (u i) = i_quotedFromAmount i"
  "keeps u \<Longrightarrow> i_quotedSettlement (u i) = i_quotedSettlement i"
  "keeps u \<Longrightarrow> i_attestedDeposit (u i) = i_attestedDeposit i"
  by (simp_all add: keeps_def)

lemma dropsD: "drops u \<Longrightarrow> i_status (u i) = i_status i" "drops u \<Longrightarrow> unsolvable (i_quote (u i))"
  by (simp_all add: drops_def)

lemma keeps_set_error [simp]: "keeps (set_error e)" "keeps id"
  by (simp_all add: keeps_def set_error_def)

lemma held_ok_keeps: "keeps u \<Longrightarrow> held_ok A cfg t (u i) = held_ok A cfg t i"
  by (simp add: held_ok_def keepsD)

lemma pull_checked_keeps: "keeps u \<Longrightarrow> pull_checked cfg (u i) = pull_checked cfg i"
  by (simp add: pull_checked_def keepsD)

lemma signable_held_keeps: "keeps u \<Longrightarrow> signable_held (u i) = signable_held i"
  by (simp add: signable_held_def keepsD)

lemma signable_held_status [simp]:
  "signable_held (i\<lparr>i_status := s\<rparr>) = signable_held i" "signable_held (i\<lparr>i_notSent := b\<rparr>) = signable_held i"
  by (simp_all add: signable_held_def)

lemma has_pull_keeps: "keeps u \<Longrightarrow> has_pull (u i) = has_pull i"
  by (simp add: has_pull_def keepsD)

lemma held_ok_unsolvable: "unsolvable (i_quote i) \<Longrightarrow> held_ok A cfg t i"
  by (auto simp: held_ok_def unsolvable_def)

lemma held_ok_status [simp]: "held_ok A cfg t (i\<lparr>i_status := s\<rparr>) = held_ok A cfg t i"
  "held_ok A cfg t (i\<lparr>i_notSent := b\<rparr>) = held_ok A cfg t i"
  by (simp_all add: held_ok_def)

lemma held_ok_initial [simp]: "held_ok A cfg t INITIAL_INTENT_STATE"
  by (simp add: held_ok_def)

lemma in_ceremony_simps [simp]: "in_ceremony Signing" "in_ceremony Executing"
  by (simp_all add: in_ceremony_def)

lemma in_ceremony_busy: "in_ceremony s \<Longrightarrow> busy s"
  by (auto simp: in_ceremony_def)

text \<open>Nothing of a ceremony is left once the status is outside it.\<close>

lemma idle_ceremony:
  assumes "ceremony_ok m" "\<not> in_ceremony (i_status (m_intent m))"
  shows "m_sign m = None" "m_pendingIntentSig m = None" "\<not> m_awaitingPull m" "\<not> i_notSent (m_intent m)"
  using assms by (cases "m_sign m"; auto simp: ceremony_ok_def Let_def flow_ok_def split: if_splits)+

section \<open>Helpers keep the invariants\<close>

lemma sound_patch:
  assumes "sound A m" "keeps u" "i_notSent (u (m_intent m)) \<longrightarrow> i_status (m_intent m) = Executing"
  shows "sound A (patch m u)"
  using assms unfolding sound_defs Let_def
  by (simp add: patch_def keepsD held_ok_keeps pull_checked_keeps has_pull_keeps signable_held_keeps)

lemma sound_without_flight: "sound A m \<Longrightarrow> sound A (without_flight m fid)"
  by (simp add: sound_defs without_flight_def)

lemma sound_supersede: "sound A m \<Longrightarrow> sound A (m\<lparr>m_flights := []\<rparr>)"
  by (simp add: sound_defs)

lemma sound_abandon: "sound A m \<Longrightarrow> sound A (fst (abandon_sign m))"
  by (simp add: sound_defs Let_def)

lemma sound_end_sign_flow: "sound A m \<Longrightarrow> sound A (end_sign_flow m f)"
  by (simp add: sound_defs Let_def)

text \<open>The parts of the model no invariant reads.\<close>

lemma sound_frame [simp]:
  "sound A (m\<lparr>m_amount := a\<rparr>) = sound A m" "sound A (m\<lparr>m_ctx := c\<rparr>) = sound A m"
  "sound A (m\<lparr>m_hidden := h\<rparr>) = sound A m" "sound A (m\<lparr>m_seq := n\<rparr>) = sound A m"
  "sound A (m\<lparr>m_poll := p\<rparr>) = sound A m" "sound A (m\<lparr>m_refresh := r\<rparr>) = sound A m"
  "sound A (m\<lparr>m_watched := w\<rparr>) = sound A m" "sound A (m\<lparr>m_submittedAt := t\<rparr>) = sound A m"
  "sound A (m\<lparr>m_clientFillMs := t\<rparr>) = sound A m" "sound A (m\<lparr>m_allocationKey := k\<rparr>) = sound A m"
  "sound A (m\<lparr>m_quoteExpiresIn := x\<rparr>) = sound A m" "sound A (m\<lparr>m_notFoundReported := k\<rparr>) = sound A m"
  "sound A (m\<lparr>m_isSigningPull := h\<rparr>) = sound A m" "sound A (m\<lparr>m_seenDepositAddresses := sn\<rparr>) = sound A m"
  by (simp_all add: sound_defs Let_def)

lemma sound_clear [intro]:
  "sound A m \<Longrightarrow> sound A (m\<lparr>m_pendingIntentSig := None\<rparr>)"
  "sound A m \<Longrightarrow> sound A (m\<lparr>m_awaitingPull := False\<rparr>)"
  "sound A m \<Longrightarrow> sound A (m\<lparr>m_sign := None\<rparr>)"
  by (simp_all add: sound_defs Let_def)

section \<open>The validated move\<close>

lemma moved_status:
  "(\<And>i. i_status (u i) = i_status i) \<Longrightarrow> i_status (moved_intent i (StatusOf t) u) = t"
  "i_notSent (moved_intent i (StatusOf t) u) = False"
  by simp_all

lemma transition_ceremony:
  assumes "ceremony_ok m" "\<And>i. i_status (u i) = i_status i"
  shows "ceremony_ok (fst (transition m to u))"
proof (cases "can_move (i_status (m_intent m)) to")
  case True
  then obtain t where t: "to = StatusOf t" by (cases to) auto
  show ?thesis
  proof (cases "left_ceremony m to")
    case l: True
    then show ?thesis using True assms
      by (simp add: ceremony_ok_def Let_def transition_intent transition_sign t)
  next
    case l: False
    show ?thesis
    proof (cases "in_ceremony (i_status (m_intent m))")
      case c: True
      with l have own: "own_execute m to" and s: "i_status (m_intent m) = Signing"
        by (auto simp: left_ceremony_def in_ceremony_def)
      then obtain s where "m_sign m = Some s" "sg_stage s = StageExecute"
        by (auto simp: own_execute_def split: option.splits)
      with assms(1) s show ?thesis by (simp add: ceremony_ok_def Let_def flow_ok_def)
    next
      case c: False
      show ?thesis using True assms(2) idle_ceremony [OF assms(1) c]
        by (simp add: ceremony_ok_def Let_def transition_intent transition_sign t)
    qed
  qed
qed (simp add: assms)

lemma transition_flights_ok:
  assumes "flights_ok m" "\<And>i. i_status (u i) = i_status i"
  shows "flights_ok (fst (transition m to u))"
proof (cases "can_move (i_status (m_intent m)) to")
  case True
  then obtain t where t: "to = StatusOf t" by (cases to) auto
  from assms True show ?thesis
    by (simp add: flights_ok_def transition_intent transition_flights t del: state_set_simps)
qed (simp add: assms)

lemma transition_quote_ok:
  assumes "quote_ok A m" "keeps u \<or> drops u"
  shows "quote_ok A (fst (transition m to u))"
proof (cases "can_move (i_status (m_intent m)) to")
  case True
  then obtain t where t: "to = StatusOf t" by (cases to) auto
  from assms(2) show ?thesis
  proof
    assume "keeps u"
    with assms(1) True t show ?thesis
      by (simp add: quote_ok_def transition_intent held_ok_keeps)
  next
    assume "drops u"
    with True t show ?thesis
      by (simp add: quote_ok_def transition_intent held_ok_unsolvable dropsD)
  qed
qed (simp add: assms)

lemma transition_pull_ok:
  assumes "pull_ok m" "ceremony_ok m"
  shows "pull_ok (fst (transition m to u))"
proof (cases "can_move (i_status (m_intent m)) to")
  case can: True
  show ?thesis
  proof (cases "left_ceremony m to \<or> m_sign m = None \<and> m_pendingIntentSig m = None")
    case True
    then show ?thesis using can by (auto simp: pull_ok_def transition_sign)
  next
    case False
    then have "in_ceremony (i_status (m_intent m))" using idle_ceremony [OF assms(2)] by blast
    with False have own: "own_execute m to" and sg: "i_status (m_intent m) = Signing"
      by (auto simp: left_ceremony_def in_ceremony_def)
    then obtain s where "m_sign m = Some s" "sg_stage s = StageExecute"
      by (auto simp: own_execute_def split: option.splits)
    with sg assms(2) show ?thesis by (simp add: ceremony_ok_def Let_def flow_ok_def)
  qed
qed (simp add: assms)

lemma sound_transition:
  assumes "sound A m" "keeps u \<or> drops u"
  shows "sound A (fst (transition m to u))"
proof -
  from assms(2) have "\<And>i. i_status (u i) = i_status i" by (auto simp: keeps_def drops_def)
  with assms show ?thesis unfolding sound_def
    by (auto intro: transition_ceremony transition_flights_ok transition_quote_ok transition_pull_ok)
qed

lemma sound_transition_error [intro]: "sound A m \<Longrightarrow> sound A (fst (transition m to (set_error e)))"
  by (simp add: sound_transition)

end
