(* ===== verification/MachineSound.thy ===== *)
theory MachineSound
  imports MachineInv
begin

text \<open>
  Every operation of the trade machine keeps the invariants of \<open>MachineInv\<close>, leg by leg: the quote,
  the signing ceremony, the execute, the status poll, the reactive rules.
\<close>

section \<open>The quote leg\<close>

abbreviation calm :: "model \<Rightarrow> bool" where
  "calm m \<equiv> \<not> busy (i_status (m_intent m))"

lemma calm_idle:
  assumes "sound A m" "calm m"
  shows "m_sign m = None" "m_pendingIntentSig m = None" "\<not> m_awaitingPull m" "\<not> i_notSent (m_intent m)"
proof -
  from assms have c: "ceremony_ok m" "\<not> in_ceremony (i_status (m_intent m))"
    by (auto simp: sound_def in_ceremony_def)
  show "m_sign m = None" "m_pendingIntentSig m = None" "\<not> m_awaitingPull m" "\<not> i_notSent (m_intent m)"
    using idle_ceremony [OF c] by simp_all
qed

text \<open>An idle machine may be given any intent that is not busy and whose quote is accounted for.\<close>

lemma sound_calm_patch:
  assumes "sound A m" "calm m" "\<not> busy (i_status (u (m_intent m)))" "\<not> i_notSent (u (m_intent m))"
    "held_ok A (m_config m) (m_quotedTrade m) (u (m_intent m))"
  shows "sound A (patch m u)"
  using assms calm_idle [OF assms(1,2)]
  by (simp add: sound_defs patch_def Let_def)

lemma sound_put_flight:
  assumes "sound A m" "calm m" "fl_stage f = FApi \<Longrightarrow> asked f"
  shows "sound A (put_flight m f)"
  using assms by (auto simp: sound_defs put_flight_def Let_def)

lemma calm_transition:
  assumes "calm m" "\<not> busy t" "\<And>i. i_status (u i) = i_status i"
  shows "calm (fst (transition m (StatusOf t) u))"
  using assms by (simp add: transition_intent)

lemma raw_request_frame [simp]:
  "raw_request (f\<lparr>fl_stage := s\<rparr>) t = raw_request f t"
  "raw_request (f\<lparr>fl_request := r\<rparr>) t = raw_request f t"
  by (simp_all add: raw_request_def Let_def)

lemma sound_send_quote:
  assumes "sound A m" "calm m"
  shows "sound A (fst (send_quote env now f m))"
proof -
  let ?r = "build_quote_request (raw_request f now)"
  let ?e = "validate_swap_params env (params_of_request ?r) now"
  let ?m = "without_flight m (fl_id f)"
  have s: "sound A ?m" and c: "calm ?m" using assms
    by (simp_all add: sound_without_flight) (simp add: without_flight_def)
  have q: "sound A (fst (transition m (StatusOf Quoting) id))" "calm (fst (transition m (StatusOf Quoting) id))"
    using assms by (simp_all add: sound_transition transition_intent)
  show ?thesis
  proof (cases "cx_settlementPreference (fl_ctx f) = Stealth \<and> cx_stealthMetaAddress (fl_ctx f) = None")
    case True
    have "sound A (fst (transition ?m (StatusOf Quoting) (\<lambda>i. i\<lparr>i_quote := None, i_error := None\<rparr>)))"
      by (rule sound_transition [OF s]) (simp add: drops_def unsolvable_def)
    with True s show ?thesis by (simp add: send_quote_def Let_def)
  next
    case False
    show ?thesis
    proof (cases "?e = []")
      case True
      then have "asked (f\<lparr>fl_stage := FApi, fl_request := Some ?r\<rparr>)"
        by (auto simp: asked_def)
      with q assms show ?thesis
        unfolding send_quote_def if_not_P [OF False] Let_def True
        by (simp add: sound_put_flight del: state_sets)
    next
      case e: False
      have "held_ok A (m_config ?m) (m_quotedTrade ?m) (m_intent ?m)"
        using s by (simp add: sound_def quote_ok_def)
      then have "sound A (patch ?m (\<lambda>i. i\<lparr>i_status := Failed, i_error := Some (ErrText (hd ?e))\<rparr>))"
        using calm_idle(4) [OF s c]
        by (intro sound_calm_patch s c) (simp_all add: held_ok_def)
      with e s show ?thesis unfolding send_quote_def if_not_P [OF False] Let_def by simp
    qed
  qed
qed

lemma sound_start_quote:
  assumes "sound A m" "calm m"
  shows "sound A (fst (start_quote env now opts m))"
proof -
  have "keeps (\<lambda>i. i\<lparr>i_error := Some (ErrText ''Connect a wallet to quote this route'')\<rparr>)"
    by (simp add: keeps_def)
  then have "sound A (patch m (\<lambda>i. i\<lparr>i_error := Some (ErrText ''Connect a wallet to quote this route'')\<rparr>))"
    using calm_idle(4) [OF assms] by (intro sound_patch assms) simp_all
  moreover have "sound A (fst (send_quote env now f (m\<lparr>m_seq := n\<rparr>)))" for f n
    using assms by (intro sound_send_quote) simp_all
  moreover have "sound A (put_flight (m\<lparr>m_seq := n\<rparr>) f)" if "fl_stage f = FSession" for f n
    using assms that by (intro sound_put_flight) simp_all
  ultimately show ?thesis using assms by (simp add: start_quote_def Let_def)
qed

lemma sound_drop_stale: "sound A m \<Longrightarrow> sound A (fst (drop_stale_flight m f))"
  by (simp add: drop_stale_flight_def sound_without_flight)

lemma sound_fail_quote:
  assumes "sound A m" "calm m"
  shows "sound A (fail_quote m f e)"
proof -
  note n = calm_idle(4) [OF assms]
  have h: "held_ok A (m_config m) (m_quotedTrade m) (m_intent m)"
    using assms by (simp add: sound_def quote_ok_def)
  have "sound A (patch m (\<lambda>i. i\<lparr>i_status := Failed, i_error := Some e, i_quote := None\<rparr>))"
    using n by (intro sound_calm_patch assms) (simp_all add: held_ok_def)
  moreover have "sound A (patch m (\<lambda>i. i\<lparr>i_status := Quoted, i_error := Some e\<rparr>))"
    using n h by (intro sound_calm_patch assms) (simp_all add: held_ok_def)
  moreover have "sound A (patch m (\<lambda>i. i\<lparr>i_error := Some e\<rparr>))"
    using n by (intro sound_patch assms) (simp_all add: keeps_def)
  ultimately show ?thesis by (simp add: fail_quote_def allocation_failed_def)
qed

lemma sound_on_session:
  assumes "sound A m"
  shows "sound A (fst (on_session env now fid res m))"
proof (cases "find_flight m fid FSession")
  case (Some f)
  show ?thesis
  proof (cases "calm m")
    case True
    with assms have "sound A (fail_quote (without_flight m fid) f e)" for e
      by (intro sound_fail_quote sound_without_flight) (simp_all add: without_flight_def)
    with Some True assms show ?thesis
      by (simp add: on_session_def sound_send_quote sound_without_flight Let_def del: state_set_simps)
  qed (use Some assms in \<open>simp add: on_session_def sound_drop_stale\<close>)
qed (use assms in \<open>simp add: on_session_def\<close>)

section \<open>A quote reply\<close>

lemma find_flight_Some:
  "find_flight m fid st = Some f \<Longrightarrow> f \<in> set (m_flights m) \<and> fl_id f = fid \<and> fl_stage f = st"
  by (auto simp: find_flight_def find_Some_iff)

lemma sound_refuse_quote:
  "sound A m \<Longrightarrow> drops u \<Longrightarrow> sound A (fst (refuse_quote f u m))"
  by (simp add: refuse_quote_def sound_transition)

lemma sound_attestation_rejected: "sound A m \<Longrightarrow> sound A (fst (attestation_rejected f b m))"
  by (simp add: attestation_rejected_def sound_refuse_quote drops_def unsolvable_def)

lemma sound_accepted:
  assumes "sound A m" "calm m" "\<not> busy (i_status (u (m_intent m)))" "\<not> i_notSent (u (m_intent m))"
    "held_ok A (m_config m) (Some k) (u (m_intent m))"
  shows "sound A ((patch m u)\<lparr>m_quotedTrade := Some k\<rparr>)"
  using assms calm_idle [OF assms(1,2)] by (simp add: sound_defs patch_def Let_def)

lemma calm_transition_patch:
  assumes "sound A m" "calm m" "can_transition_to (i_status (m_intent m)) t" "\<not> busy t"
  shows "fst (transition m (StatusOf t) u) = patch m (\<lambda>i. (u (i\<lparr>i_status := t\<rparr>))\<lparr>i_notSent := False\<rparr>)"
  using assms by (simp add: transition_fst left_ceremony_def patch_def Let_def)

lemma sound_arm_refresh: "sound A (fst (arm_refresh env now f q m)) = sound A m"
  by (simp add: arm_refresh_def split: option.splits)

lemma accepted_held_ok:
  assumes "vetted A (cfg_pullRecipients cfg) f q"
    "deposit_vetted A (cfg_depositAttestationSigner cfg) f q att"
  shows "held_ok A cfg (Some (trade_key_of (fl_ctx f))) (accepted_state f q att i)"
  using assms by (auto simp: held_ok_def accepted_state_def)

lemma held_ok_exhausted [simp]: "held_ok A cfg t (i\<lparr>i_pollExhausted := b\<rparr>) = held_ok A cfg t i"
  by (simp add: held_ok_def)

lemma accepted_state_frame [simp]:
  "i_status (accepted_state f q att i) = i_status i" "i_notSent (accepted_state f q att i) = i_notSent i"
  by (simp_all add: accepted_state_def)

lemma sound_accept_quote:
  assumes m: "sound A m" "calm m"
    and v: "vetted A (cfg_pullRecipients (m_config m)) f q"
    and d: "deposit_vetted A (cfg_depositAttestationSigner (m_config m)) f q att"
  shows "sound A (fst (accept_quote env now f q att m))"
proof -
  note h = accepted_held_ok [OF v d] and n = calm_idle(4) [OF m]
  let ?fresh = "\<lambda>i. accepted_state f q att i\<lparr>i_pollExhausted := False\<rparr>"
  have p: "sound A ((patch m (accepted_state f q att))\<lparr>m_quotedTrade := Some (trade_key_of (fl_ctx f))\<rparr>)"
    using m h n by (intro sound_accepted) simp_all
  have fr: "sound A ((patch m ?fresh)\<lparr>m_quotedTrade := Some (trade_key_of (fl_ctx f))\<rparr>)"
    using m h n by (intro sound_accepted) simp_all
  have tr: "sound A ((fst (transition m (StatusOf Quoted) ?fresh))\<lparr>m_quotedTrade := Some (trade_key_of (fl_ctx f))\<rparr>)"
    if "can_transition_to (i_status (m_intent m)) Quoted"
    using m h n that by (subst calm_transition_patch) (auto intro!: sound_accepted)
  have no: "sound A (fst (transition m (StatusOf Quoted) ?fresh))"
    if "\<not> can_transition_to (i_status (m_intent m)) Quoted"
    using m that by (subst transition_refused) simp_all
  show ?thesis using m p fr tr no
    by (simp add: accept_quote_def accept_landing_def Let_def sound_arm_refresh del: state_set_simps)
qed

lemma gate_route_deposit:
  "gate_route q f = Inr () \<Longrightarrow> has_deposit_address q \<Longrightarrow> \<not> quote_is_preview q \<and> fl_depositOrigin f"
  by (auto simp: gate_route_def reject_with_def passed_def split: if_splits)

lemma deposit_precheck_Some:
  "deposit_precheck q req = Some r \<longleftrightarrow>
     req = Some r \<and> q_settlementType q = Some (r_settlementPreference r) \<and> \<not> blank_str (r_wallet r)"
  by (auto simp: deposit_precheck_def split: option.splits if_splits)

lemma gate_error_drops:
  assumes "quote_gates env pins q f = Inl rj"
  shows "unsolvable (rj_quote rj)"
proof -
  have one: "g = Inl rj \<Longrightarrow> g \<in> {gate_success q, gate_solvable q, gate_kind q f, gate_echo q f, gate_claim q f,
      gate_token f, gate_route q f, gate_signable env pins q f} \<Longrightarrow> unsolvable (rj_quote rj)" for g
    by (elim insertE; simp add: gate_success_def gate_solvable_def gate_kind_def gate_echo_def gate_claim_def
        gate_token_def gate_route_def gate_signable_def reject_with_def passed_def unsolvable_def
        split: if_splits option.splits prod.splits; auto)
  from assms obtain xs ys where "[gate_success q, gate_solvable q, gate_kind q f, gate_echo q f, gate_claim q f,
      gate_token f, gate_route q f, gate_signable env pins q f] = xs @ Inl rj # ys"
    by (auto simp only: quote_gates_def check_all_first_refusal)
  then have "Inl rj \<in> set [gate_success q, gate_solvable q, gate_kind q f, gate_echo q f, gate_claim q f,
      gate_token f, gate_route q f, gate_signable env pins q f]" by (metis in_set_conv_decomp)
  then show ?thesis by (intro one [OF refl]) simp
qed

lemma sound_take_quote:
  assumes m: "sound A m" "calm m" and a: "asked f" "A env q"
  shows "sound A (fst (take_quote env now f q m))"
proof (cases "quote_gates env (cfg_pullRecipients (m_config m)) q f")
  case (Inl rj)
  have "drops (\<lambda>i. i\<lparr>i_error := Some (ErrText (rj_error rj)), i_quote := rj_quote rj\<rparr>)"
    using gate_error_drops [OF Inl] by (simp add: drops_def)
  with m Inl show ?thesis by (simp add: take_quote_def sound_refuse_quote)
next
  case (Inr u)
  then have v: "vetted A (cfg_pullRecipients (m_config m)) f q" using a by (auto simp: vetted_def)
  show ?thesis
  proof (cases "has_deposit_address q")
    case False
    then have "deposit_vetted A (cfg_depositAttestationSigner (m_config m)) f q None"
      by (simp add: deposit_vetted_def)
    with False Inr m v show ?thesis by (simp add: take_quote_def sound_accept_quote)
  next
    case True
    have "sound A (fst (accept_quote env now f q (Some d) (m\<lparr>m_seenDepositAddresses := seen\<rparr>)))"
      if "fl_request f = Some r" "q_settlementType q = Some (r_settlementPreference r)"
        "check_deposit_quote env r q (cfg_depositAttestationSigner (m_config m)) (m_seenDepositAddresses m)
           = Inr (d, seen)" for r d seen
    proof -
      have "deposit_vetted A (cfg_depositAttestationSigner (m_config m)) f q (Some d)"
        using that True a(2) by (auto simp: deposit_vetted_def)
      then show ?thesis using m v by (intro sound_accept_quote) simp_all
    qed
    with True Inr m show ?thesis
      by (simp add: take_quote_def sound_attestation_rejected deposit_precheck_Some
          split: option.splits sum.splits prod.splits)
  qed
qed

lemma sound_on_quote:
  assumes "sound A m" "\<And>q. res = Inr q \<Longrightarrow> A env q"
  shows "sound A (fst (on_quote env now fid res m))"
proof (cases "find_flight m fid FApi")
  case (Some f)
  then have a: "asked f" using find_flight_Some [OF Some] assms by (auto simp: sound_def flights_ok_def)
  show ?thesis
  proof (cases "calm m")
    case True
    have w: "sound A (without_flight m fid)" "calm (without_flight m fid)"
      using assms True by (simp_all add: sound_without_flight) (simp add: without_flight_def)
    then have "sound A (fst (quote_threw f rp (without_flight m fid)))" for rp
      by (simp add: quote_threw_def sound_fail_quote)
    with Some True assms w a show ?thesis
      by (simp add: on_quote_def sound_drop_stale sound_take_quote Let_def del: state_set_simps split: sum.splits)
  qed (use Some assms in \<open>simp add: on_quote_def sound_drop_stale\<close>)
qed (use assms in \<open>simp add: on_quote_def\<close>)

end
