(* ===== verification/MachineSigned.thy ===== *)
theory MachineSigned
  imports MachineSound
begin

text \<open>
  The signing ceremony and the execute keep the invariants of \<open>MachineInv\<close>.
\<close>

section \<open>Confirm\<close>

lemma sound_sign_flow:
  assumes "sound A m" "flow_ok (i_status (m_intent m)) s" "signable_held (m_intent m)"
    "sg_stage s \<in> {StageApproval, StagePull} \<Longrightarrow> pull_checked (m_config m) (m_intent m)"
  shows "sound A (m\<lparr>m_sign := Some s\<rparr>)"
  using assms by (simp add: sound_defs Let_def)

lemma keeps_refusal [simp]:
  "keeps (\<lambda>i. i\<lparr>i_refusal := r\<rparr>)" "keeps (\<lambda>i. i\<lparr>i_error := e\<rparr>)"
  "keeps (\<lambda>i. i\<lparr>i_error := e, i_refusal := r\<rparr>)"
  by (simp_all add: keeps_def)

text \<open>A ceremony under way is about a quote that is held.\<close>

lemma ceremony_held:
  "sound A m \<Longrightarrow> m_sign m = Some s \<Longrightarrow> signable_held (m_intent m)"
  "sound A m \<Longrightarrow> m_pendingIntentSig m \<noteq> None \<Longrightarrow> signable_held (m_intent m)"
  by (simp_all add: sound_def ceremony_ok_def Let_def)

lemma sound_prompt_intent:
  assumes "sound A m" "signable_held (m_intent m)"
  shows "sound A (fst (prompt_intent m td))"
proof -
  obtain sg es where t: "transition m (StatusOf Signing) (\<lambda>i. i\<lparr>i_refusal := None\<rparr>) = (sg, es)"
    by fastforce
  then have s: "sound A sg"
    using sound_transition [OF assms(1), of "\<lambda>i. i\<lparr>i_refusal := None\<rparr>" "StatusOf Signing"] by simp
  have "signable_held (m_intent (fst (transition m (StatusOf Signing) (\<lambda>i. i\<lparr>i_refusal := None\<rparr>))))"
    using assms(2) by (simp add: transition_intent) (simp add: signable_held_def)
  then have h: "signable_held (m_intent sg)" by (simp add: t)
  have "sound A (sg\<lparr>m_seq := n, m_sign := Some \<lparr>sg_id = i, sg_origin = FromSign, sg_stage = StageIntent,
      sg_intentSignature = None, sg_execute = None\<rparr>\<rparr>)" if "i_status (m_intent sg) = Signing" for n i
    using s h that by (intro sound_sign_flow) (simp_all add: flow_ok_def)
  then show ?thesis using s by (simp add: prompt_intent_def t Let_def)
qed

lemma sound_patch_calm: "sound A m \<Longrightarrow> calm m \<Longrightarrow> keeps u \<Longrightarrow> (\<And>i. i_notSent (u i) = i_notSent i) \<Longrightarrow> sound A (patch m u)"
  using calm_idle(4) by (intro sound_patch) auto

lemma sound_confirm_quote:
  assumes "sound A m" "calm m" "signable_held (m_intent m)"
  shows "sound A (fst (confirm_quote env now q td m))"
proof -
  have "sound A (patch m (\<lambda>i. i\<lparr>i_refusal := r\<rparr>))" for r
    using assms(1,2) by (intro sound_patch_calm) simp_all
  then show ?thesis using assms
    by (simp add: confirm_quote_def sound_prompt_intent sound_transition split: sign_preflight.splits)
qed

lemma can_sign_quote_None: "\<not> can_sign_quote s None"
  by (simp add: can_sign_quote_def)

lemma sound_begin_sign:
  assumes "sound A m"
  shows "sound A (fst (begin_sign env now m))"
proof (cases "i_status (m_intent m) = Quoted")
  case True
  have p: "sound A (patch m (set_error e))" for e
    using assms True by (intro sound_patch_calm) (simp_all add: set_error_def)
  have "sound A (fst (reveal_deposit now m))"
    using assms by (simp add: reveal_deposit_def sound_transition)
  moreover have "sound A (fst (confirm_quote env now q td m))"
    if "i_quote (m_intent m) = Some q" "can_sign_quote Quoted (Some q)" "\<not> has_deposit_address q"
      "q_eip712Data q = Some td" for q td
    using assms True that by (intro sound_confirm_quote) (simp_all add: signable_held_def can_sign_quote_def)
  ultimately show ?thesis using assms p True
    by (cases "i_quote (m_intent m)") (simp_all add: begin_sign_def Let_def can_sign_quote_None split: option.splits)
qed (use assms in \<open>simp add: begin_sign_def\<close>)

section \<open>The wallet steps\<close>

lemma sound_sign_flow_failed:
  assumes "sound A m"
  shows "sound A (fst (sign_flow_failed rp m))"
proof (cases "m_sign m")
  case (Some s)
  let ?n = "end_sign_flow m s"
  have n: "sound A ?n" using assms by (rule sound_end_sign_flow)
  have k: "keeps (\<lambda>i. i\<lparr>i_error := e\<rparr>)" for e by simp
  from n have "sound A (patch ?n (set_error e))" for e
    by (intro sound_patch) (auto simp: set_error_def sound_def ceremony_ok_def Let_def)
  moreover have "sound A (?n\<lparr>m_awaitingPull := False\<rparr>)" using n by (rule sound_clear)
  ultimately show ?thesis using n
    by (simp add: sign_flow_failed_def Some Let_def sound_transition)
qed (use assms in \<open>simp add: sign_flow_failed_def\<close>)

text \<open>A flow handed to the pull step, whether or not the model holds it already.\<close>

definition pullable :: "model \<Rightarrow> sign_flow \<Rightarrow> bool" where
  "pullable m s \<longleftrightarrow> in_ceremony (i_status (m_intent m)) \<and> sg_stage s \<noteq> StageExecute \<and> sg_execute s = None
     \<and> (m_sign m \<noteq> None \<or> m_pendingIntentSig m \<noteq> None)
     \<and> (i_status (m_intent m) = Executing \<longrightarrow> m_pendingIntentSig m \<noteq> None)"

lemma pull_checkedI:
  assumes "quote_field m q_pullAuthorization = Some pull" "quote_field m q_eip712Data = Some td"
    "js_bigint (intended_amount m td) = Some n"
    "validate_solver_pin pull (cfg_solverPin (m_config m)) n = Inr ()"
  shows "pull_checked (m_config m) (m_intent m)"
  using assms unfolding pull_checked_def quote_field_def intended_amount_def
  by (cases "i_quote (m_intent m)") auto

lemma pull_checkedD:
  assumes "pull_checked (m_config m) (m_intent m)"
    "quote_field m q_pullAuthorization = Some pull" "quote_field m q_eip712Data = Some td"
  shows "\<exists>n. js_bigint (intended_amount m td) = Some n
    \<and> validate_solver_pin pull (cfg_solverPin (m_config m)) n = Inr ()"
proof -
  from assms(1) obtain q p t n where q: "i_quote (m_intent m) = Some q" "q_pullAuthorization q = Some p"
      "q_eip712Data q = Some t"
    and n: "js_bigint (intended_amount m t) = Some n" "validate_solver_pin p (cfg_solverPin (m_config m)) n = Inr ()"
    unfolding pull_checked_def intended_amount_def by blast
  from q assms(2,3) have "p = pull" "t = td" by (simp_all add: quote_field_def)
  with n show ?thesis by blast
qed

lemma transition_abandons:
  assumes "i_status (m_intent m) = Signing" "can_transition_to Signing t" "t \<noteq> Executing" "keeps u"
    and "sound A (m\<lparr>m_sign := None\<rparr>)"
  shows "sound A (fst (transition m (StatusOf t) u))"
proof -
  have "sound A (fst (transition (m\<lparr>m_sign := None\<rparr>) (StatusOf t) u))"
    using assms(5,4) by (intro sound_transition) simp_all
  moreover have "fst (transition (m\<lparr>m_sign := None\<rparr>) (StatusOf t) u) = fst (transition m (StatusOf t) u)"
    using assms(1-3) by (simp add: transition_fst Let_def left_ceremony_def own_execute_def)
  ultimately show ?thesis by simp
qed

lemma sound_complete_pull:
  assumes m: "sound A m" and p: "pullable m s"
  shows "sound A (fst (complete_pull s m))"
proof (cases "quote_field m q_pullAuthorization")
  case None
  then show ?thesis using m by (simp add: complete_pull_def sound_end_sign_flow)
next
  case (Some pull)
  note P = Some
  have clear: "sound A (m\<lparr>m_sign := None\<rparr>)" using m by (rule sound_clear)
  show ?thesis
  proof (cases "quote_field m q_eip712Data")
    case None
    then show ?thesis using m P by (simp add: complete_pull_def sound_end_sign_flow)
  next
    case (Some td)
    note T = Some
    show ?thesis
    proof (cases "js_bigint (intended_amount m td)")
      case None
      have "sound A (fst (sign_flow_failed rp (m\<lparr>m_sign := Some s\<rparr>)))" for rp
      proof -
        have "end_sign_flow (m\<lparr>m_sign := Some s\<rparr>) s = end_sign_flow m s"
          by (simp add: end_sign_flow_def)
        moreover have n: "sound A (end_sign_flow m s)" using m by (rule sound_end_sign_flow)
        moreover from n have "sound A (patch (end_sign_flow m s) (set_error e))" for e
          by (intro sound_patch) (auto simp: set_error_def sound_def ceremony_ok_def Let_def)
        moreover have "sound A ((end_sign_flow m s)\<lparr>m_awaitingPull := False\<rparr>)" using n by (rule sound_clear)
        ultimately show ?thesis by (simp add: sign_flow_failed_def Let_def sound_transition)
      qed
      with P T None show ?thesis by (simp add: complete_pull_def)
    next
      case (Some n)
      show ?thesis
      proof (cases "validate_solver_pin pull (cfg_solverPin (m_config m)) n")
        case (Inl e)
        have "\<not> pull_checked (m_config m) (m_intent m)"
          using pull_checkedD [OF _ P T] Some Inl by auto
        then have "\<not> (i_status (m_intent m) = Executing \<and> m_pendingIntentSig m \<noteq> None)"
          using m P by (auto simp: sound_def pull_ok_def has_pull_def quote_field_def)
        then have "i_status (m_intent m) = Signing" using p by (auto simp: pullable_def in_ceremony_def)
        then have "sound A (fst (transition (m\<lparr>m_sign := Some s\<rparr>) (StatusOf Quoted) u))" if "keeps u" for u
          using clear that by (intro transition_abandons) simp_all
        then show ?thesis by (simp add: complete_pull_def P T Some Inl split: prod.splits)
      next
        case (Inr u)
        have "pull_checked (m_config m) (m_intent m)" by (rule pull_checkedI [OF P T Some]) (use Inr in simp)
        then have "sound A (m\<lparr>m_sign := Some (s\<lparr>sg_stage := StageApproval\<rparr>)\<rparr>)"
          using m p by (intro sound_sign_flow) (auto simp: pullable_def flow_ok_def intro: ceremony_held)
        then show ?thesis by (simp add: complete_pull_def P T Some Inr)
      qed
    qed
  qed
qed

lemma blank_str_simps [simp]: "blank_str None" "blank_str (Some s) \<longleftrightarrow> s = []"
  by (simp_all add: blank_str_def)

lemma sound_begin_pull_sign:
  assumes "sound A m"
  shows "sound A (fst (begin_pull_sign env now m))"
proof (cases "blank_str (m_pendingIntentSig m) \<or> quote_field m q_pullAuthorization = None
    \<or> m_isSigningPull m \<or> m_sign m \<noteq> None")
  case False
  then have "m_pendingIntentSig m \<noteq> None" by (cases "m_pendingIntentSig m") simp_all
  then have "in_ceremony (i_status (m_intent m))" using assms by (simp add: sound_def ceremony_ok_def Let_def)
  then have "sound A (fst (complete_pull s (m\<lparr>m_isSigningPull := True, m_seq := n\<rparr>)))"
    if "sg_stage s = StageApproval" "sg_execute s = None" for s n
    using assms that \<open>m_pendingIntentSig m \<noteq> None\<close>
    by (intro sound_complete_pull) (simp_all add: pullable_def)
  moreover have "sound A (m\<lparr>m_awaitingPull := False\<rparr>)" using assms by (rule sound_clear)
  ultimately show ?thesis using assms False
    by (simp add: begin_pull_sign_def Let_def sound_transition split: sign_preflight.splits)
qed (use assms in \<open>simp add: begin_pull_sign_def\<close>)

lemma flow_at_Some: "flow_at m fid st = Some s \<longleftrightarrow> m_sign m = Some s \<and> sg_id s = fid \<and> sg_stage s = st"
  by (auto simp: flow_at_def split: option.splits)

lemma sound_flow: "sound A m \<Longrightarrow> m_sign m = Some s \<Longrightarrow> flow_ok (i_status (m_intent m)) s"
  by (simp add: sound_def ceremony_ok_def Let_def)

lemma sound_pull: "sound A m \<Longrightarrow> m_sign m = Some s \<Longrightarrow> sg_stage s \<in> {StageApproval, StagePull} \<Longrightarrow>
  pull_checked (m_config m) (m_intent m)"
  by (auto simp: sound_def pull_ok_def)

lemma sound_on_approval:
  assumes "sound A m"
  shows "sound A (fst (on_approval fid res m))"
proof (cases "flow_at m fid StageApproval")
  case (Some s)
  then have s: "m_sign m = Some s" "sg_stage s = StageApproval" by (simp_all add: flow_at_Some)
  have "sound A (m\<lparr>m_sign := Some (s\<lparr>sg_stage := StagePull\<rparr>)\<rparr>)"
    using assms sound_flow [OF assms s(1)] sound_pull [OF assms s(1)] ceremony_held(1) [OF assms s(1)] s
    by (intro sound_sign_flow) (simp_all add: flow_ok_def)
  then show ?thesis using assms Some
    by (simp add: on_approval_def sound_sign_flow_failed sound_transition sound_end_sign_flow
        split: sum.splits option.splits)
qed (use assms in \<open>simp add: on_approval_def\<close>)

section \<open>The execute\<close>

lemma sound_run_execute:
  assumes m: "sound A m" and h: "signable_held (m_intent m)"
    and p: "has_pull (m_intent m) \<Longrightarrow> pull_checked (m_config m) (m_intent m)"
  shows "sound A (fst (run_execute now s sig psig m))"
proof (cases "i_status (m_intent m) = Signing")
  case True
  define r where "r = \<lparr>x_intentId = or_else (i_intentId (m_intent m)) [],
     x_quoteId = or_else (i_quoteId (m_intent m)) [], x_signature = sig, x_nonce = now, x_pullSignature = psig\<rparr>"
  define staged where "staged = m\<lparr>m_sign := Some (s\<lparr>sg_stage := StageExecute, sg_execute := Some
     \<lparr>at_request = r, at_resends = 0, at_resendAt = None, at_error = None\<rparr>\<rparr>)\<rparr>"
  obtain ex es where t: "transition staged (StatusOf Executing) id = (ex, es)" by fastforce
  have "fst (transition staged (StatusOf Executing) id) =
      staged\<lparr>m_intent := (m_intent m)\<lparr>i_status := Executing, i_notSent := False\<rparr>\<rparr>"
    using True by (simp add: transition_fst staged_def left_ceremony_def own_execute_def Let_def)
  then have ex: "ex = staged\<lparr>m_intent := (m_intent m)\<lparr>i_status := Executing, i_notSent := False\<rparr>\<rparr>"
    using t by simp
  have "m_flights m = []" using m True by (simp add: sound_def flights_ok_def)
  then have "sound A ex" using m p h
    unfolding ex staged_def sound_defs Let_def
    by (simp add: flow_ok_def attempt_ok_def has_pull_def pull_checked_def)
  then have "sound A (ex\<lparr>m_submittedAt := a, m_clientFillMs := b\<rparr>)" for a b by simp
  moreover have "sound A (fst (abandon_sign m))" using m by (rule sound_abandon)
  ultimately show ?thesis using True t
    by (simp add: run_execute_def staged_def r_def Let_def)
qed (use m in \<open>simp add: run_execute_def sound_abandon del: abandon_sign_fst\<close>)

lemma sound_intent_signed:
  assumes m: "sound A m" and s: "m_sign m = Some s" "sg_stage s = StageIntent" "i_status (m_intent m) = Signing"
  shows "sound A (fst (intent_signed now s sig m))"
proof -
  let ?n = "m\<lparr>m_pendingIntentSig := Some sig\<rparr>"
  have n: "sound A ?n" using m s by (simp add: sound_defs Let_def)
  have "sound A (fst (run_execute now f sig None ?n))" if "quote_field ?n q_pullAuthorization = None" for f
    using n that ceremony_held(1) [OF m s(1)]
    by (intro sound_run_execute) (simp_all add: has_pull_def quote_field_def)
  moreover have "sound A (?n\<lparr>m_awaitingPull := True, m_sign := None\<rparr>)"
    using n s by (simp add: sound_defs Let_def)
  moreover have "sound A (fst (complete_pull (s\<lparr>sg_intentSignature := Some sig\<rparr>) ?n))"
    using n s sound_flow [OF m s(1)] by (intro sound_complete_pull) (simp_all add: pullable_def flow_ok_def)
  ultimately show ?thesis by (simp add: intent_signed_def Let_def)
qed

lemma sound_on_signed:
  assumes "sound A m"
  shows "sound A (fst (on_signed now fid p res m))"
proof (cases "flow_at m fid (stage_of_purpose p)")
  case (Some s)
  then have s: "m_sign m = Some s" "sg_stage s = stage_of_purpose p" by (simp_all add: flow_at_Some)
  show ?thesis
  proof (cases "i_status (m_intent m) = Signing")
    case True
    have "sound A (fst (run_execute now s a b (m\<lparr>m_awaitingPull := False\<rparr>)))" if "p = ForPull" for a b
      using assms s that sound_pull [OF assms s(1)] ceremony_held(1) [OF assms s(1)]
      by (intro sound_run_execute) (auto simp: stage_of_purpose_def)
    moreover have "sound A (fst (intent_signed now s sig m))" if "p = ForIntent" for sig
      using assms s that True by (intro sound_intent_signed) (simp_all add: stage_of_purpose_def)
    ultimately show ?thesis using assms Some True
      by (simp add: on_signed_def sound_sign_flow_failed split: sum.splits sign_purpose.splits)
  qed (use assms Some in \<open>simp add: on_signed_def sound_abandon del: abandon_sign_fst\<close>)
qed (use assms in \<open>simp add: on_signed_def\<close>)

end
