(* ===== verification/MachineExecuted.thy ===== *)
theory MachineExecuted
  imports MachineSigned
begin

text \<open>
  The execute reply, the resends, the status leg, the timers and the reactive rules keep the invariants
  of \<open>MachineInv\<close>; so does \<open>update\<close>, and so every run from the initial model.
\<close>

section \<open>Resends and the execute reply\<close>

lemma own_attempt_Some:
  "own_attempt s m = Some a \<Longrightarrow> sg_execute s = Some a \<and> i_status (m_intent m) = Executing"
  by (auto simp: own_attempt_def split: option.splits if_splits)

lemma sound_stop_resending:
  assumes "sound A m" "i_status (m_intent m) = Executing"
  shows "sound A (stop_resending s e m)"
  unfolding stop_resending_def
  by (rule sound_patch [OF sound_end_sign_flow [OF assms(1)]]) (simp_all add: keeps_def assms)

lemma sound_on_not_accepted:
  assumes "sound A m" "m_sign m = Some s" "on_not_accepted env now s rp m = (Some m', es)"
  shows "sound A m'"
proof -
  from assms(3) obtain a where a: "own_attempt s m = Some a"
    by (cases "own_attempt s m") (auto simp: on_not_accepted_def)
  then have x: "sg_execute s = Some a" "i_status (m_intent m) = Executing" by (simp_all add: own_attempt_Some)
  have c: "sound A (m\<lparr>m_pendingIntentSig := None\<rparr>)" using assms(1) by (rule sound_clear)
  let ?d = "decide_execute_resend (at_resends a) (report_retry_after rp)
    (execute_deadline env (i_quote (m_intent m))) now"
  show ?thesis
  proof (cases ?d)
    case (Resend delay)
    have "at_resends a < 3" using resend_decided [OF Resend] by simp
    have e: "m' = m\<lparr>m_pendingIntentSig := None, m_sign := Some (s\<lparr>sg_execute := Some (a\<lparr>
        at_resendAt := Some (now + delay), at_error := Some (or_else (er_value rp) busy_error)\<rparr>)\<rparr>)\<rparr>"
      using assms(3) a Resend by (simp add: on_not_accepted_def Let_def)
    have f: "flow_ok Executing (s\<lparr>sg_execute := Some (a\<lparr>at_resendAt := Some (now + delay),
        at_error := Some (or_else (er_value rp) busy_error)\<rparr>)\<rparr>)"
      using sound_flow [OF assms(1,2)] x \<open>at_resends a < 3\<close>
      by (auto simp: flow_ok_def attempt_ok_def split: if_splits)
    have g: "sg_stage s = StageExecute"
      using sound_flow [OF assms(1,2)] x by (auto simp: flow_ok_def split: if_splits)
    show ?thesis unfolding e by (rule sound_sign_flow [OF c]) (use f g x ceremony_held(1) [OF assms(1,2)] in simp_all)
  next
    case (GiveUp reason)
    then have "m' = stop_resending s (or_else (er_value rp) busy_error) (m\<lparr>m_pendingIntentSig := None\<rparr>)"
      using assms(3) a by (simp add: on_not_accepted_def Let_def)
    then show ?thesis using c x by (simp add: sound_stop_resending)
  qed
qed

lemma awaiting_resend_iff:
  "awaiting_resend m \<longleftrightarrow> (\<exists>s a t. m_sign m = Some s \<and> sg_stage s = StageExecute
     \<and> sg_execute s = Some a \<and> at_resendAt a = Some t)"
  by (auto simp: awaiting_resend_def split: option.splits)

lemma sound_resend_execute:
  assumes "sound A m"
  shows "sound A (fst (resend_execute env now m))"
proof (cases "awaiting_resend m \<and> i_status (m_intent m) = Executing")
  case True
  then obtain s a t where s: "m_sign m = Some s" "sg_stage s = StageExecute" "sg_execute s = Some a"
    "at_resendAt a = Some t" by (auto simp: awaiting_resend_iff)
  have "flow_ok Executing (s\<lparr>sg_id := i, sg_execute := Some (a\<lparr>at_resends := at_resends a + 1,
      at_resendAt := None, at_error := None\<rparr>)\<rparr>)" for i
    using sound_flow [OF assms s(1)] s True by (auto simp: flow_ok_def attempt_ok_def)
  then have "sound A (m\<lparr>m_seq := n, m_submittedAt := u, m_sign := Some (s\<lparr>sg_id := i,
      sg_execute := Some (a\<lparr>at_resends := at_resends a + 1, at_resendAt := None, at_error := None\<rparr>)\<rparr>)\<rparr>)" for n u i
    using assms True s ceremony_held(1) [OF assms s(1)] by (intro sound_sign_flow) simp_all
  moreover have "sound A (stop_resending s e m)" for e using assms True by (simp add: sound_stop_resending)
  ultimately show ?thesis using assms True s by (simp add: resend_execute_def Let_def)
next
  case False
  then show ?thesis using assms by (auto simp: resend_execute_def split: option.splits)
qed

lemma sound_resend_backstop: "sound A m \<Longrightarrow> sound A (fst (resend_backstop env now m))"
  by (simp add: resend_backstop_def sound_resend_execute split: option.splits)

lemma receipt_keeps [simp]: "keeps (\<lambda>i. (receipt_of r i)\<lparr>i_reconciling := b\<rparr>)"
  by (simp add: keeps_def receipt_of_def)

lemma decided_receipt: "decide_execute_result r = DecTransition st u b \<Longrightarrow> u = receipt_of r"
  by (auto simp: decide_execute_result_def Let_def split: if_splits)

lemma sound_keep_patch:
  assumes "sound A m" "keeps u" "\<And>i. i_notSent (u i) = i_notSent i"
  shows "sound A (patch m u)"
  using assms by (intro sound_patch) (auto simp: sound_def ceremony_ok_def Let_def)

lemma sound_reconciling: "sound A m \<Longrightarrow> sound A (patch m (\<lambda>i. i\<lparr>i_reconciling := b\<rparr>))"
  by (rule sound_keep_patch) (simp_all add: keeps_def)

lemma sound_apply_execute_result:
  assumes "sound A m"
  shows "sound A (fst (apply_execute_result now r unmapped m))"
proof (cases "\<not> xr_success r \<and> xr_status r = StatusOf Quoted \<and> i_status (m_intent m) = Executing
    \<and> \<not> i_reconciling (m_intent m)")
  case True
  have "sound A (patch m (\<lambda>i. i\<lparr>i_notSent := True, i_error := e\<rparr>))" for e
    using assms True by (intro sound_patch) (simp_all add: keeps_def)
  with True show ?thesis by (simp add: apply_execute_result_def)
next
  case False
  show ?thesis
  proof (cases "decide_execute_result r")
    case (DecFailed e b)
    have "keeps (\<lambda>i. i\<lparr>i_error := Some (ErrText e), i_mayHaveMoved := b\<rparr>)" by (simp add: keeps_def)
    then show ?thesis using assms DecFailed unfolding apply_execute_result_def if_not_P [OF False]
      by (simp add: sound_transition)
  next
    case (DecTransition st u b)
    have t: "sound A (fst (transition x st (\<lambda>i. (u i)\<lparr>i_reconciling := c\<rparr>)))" if "sound A x" for x c
      using that decided_receipt [OF DecTransition] by (simp add: sound_transition)
    define timed where "timed = (if st = StatusOf Completed \<and> m_submittedAt m \<noteq> None
      then m\<lparr>m_clientFillMs := Some (now - the (m_submittedAt m))\<rparr> else m)"
    have x: "sound A timed" using assms by (simp add: timed_def)
    show ?thesis unfolding apply_execute_result_def if_not_P [OF False] DecTransition
        execute_decision.case Let_def timed_def [symmetric]
      using t [OF x] x by (simp add: sound_reconciling)
  qed
qed

lemma sound_on_executed:
  assumes "sound A m"
  shows "sound A (fst (on_executed env now fid res m))"
proof (cases "flow_at m fid StageExecute")
  case (Some s)
  then have s: "m_sign m = Some s" by (simp add: flow_at_Some)
  obtain h es0 where h: "(case not_accepted_report res of None \<Rightarrow> (None, [])
      | Some report \<Rightarrow> on_not_accepted env now s report m) = (h, es0)" by fastforce
  obtain rep es1 where r: "response_unless_in_doubt res (i_intentId (m_intent
      (end_sign_flow (m\<lparr>m_pendingIntentSig := None\<rparr>) s))) = (rep, es1)" by fastforce
  have e: "sound A (end_sign_flow (m\<lparr>m_pendingIntentSig := None\<rparr>) s)"
    using assms by (intro sound_end_sign_flow sound_clear)
  have "sound A m'" if "h = Some m'" for m'
    using h that s assms by (auto split: option.splits intro: sound_on_not_accepted)
  with e show ?thesis using assms
    unfolding on_executed_def Some Let_def option.case h prod.case r
    by (simp add: sound_reconciling sound_apply_execute_result split: option.splits prod.splits)
qed (use assms in \<open>simp add: on_executed_def\<close>)

section \<open>The status leg\<close>

lemma status_updates_keep: "keeps (status_updates m w)"
  by (simp add: status_updates_def map_status_update_def keeps_def)

lemma merge_keeps: "merge_same_status_receipt i w = Some u \<Longrightarrow> keeps u \<and> (\<forall>j. i_notSent (u j) = i_notSent j)"
  by (auto simp: merge_same_status_receipt_def Let_def keeps_def split: if_splits)

lemma sound_end_not_sent: "sound A m \<Longrightarrow> sound A (end_not_sent st m)"
  unfolding end_not_sent_def by (simp add: sound_patch keeps_def)

lemma sound_doubt_unmapped: "sound A m \<Longrightarrow> sound A (doubt_unmapped b m)"
  by (simp add: doubt_unmapped_def sound_reconciling)

lemma sound_apply_status_update:
  assumes "sound A m"
  shows "sound A (fst (apply_status_update w b m))"
proof -
  have "sound A (patch m u)" if "merge_same_status_receipt (m_intent m) w = Some u" for u
    using assms merge_keeps [OF that] by (intro sound_keep_patch) simp_all
  then show ?thesis using assms
    by (simp add: apply_status_update_def Let_def sound_end_not_sent sound_doubt_unmapped sound_transition
        status_updates_keep split: option.splits)
qed

lemma sound_poll_tick: "sound A m \<Longrightarrow> sound A (fst (poll_tick b m))"
  by (simp add: poll_tick_def Let_def split: option.splits)

lemma sound_read_status:
  assumes "sound A m"
  shows "sound A (fst (fst (read_status env now b pid res m)))"
proof -
  have "keeps (\<lambda>i. i\<lparr>i_error := Some (ErrText NOT_SENT_SWEPT_ERROR), i_reconciling := False, i_mayHaveMoved := False\<rparr>)"
    by (simp add: keeps_def)
  then have "sound A (fst (fst (read_not_found env now pid m)))"
    using assms by (simp add: read_not_found_def Let_def sound_transition split: option.splits)
  moreover have "sound A (fst (fst (read_data b pid s m)))" for s
  proof -
    have "sound A (patch x (\<lambda>i. i\<lparr>i_legsWithheld := l\<rparr>))" if "sound A x" for x l
      using that by (rule sound_keep_patch) (simp_all add: keeps_def)
    then show ?thesis using sound_apply_status_update [OF assms] by (simp add: read_data_def Let_def)
  qed
  ultimately show ?thesis using assms
    by (simp add: read_status_def split: sum.splits status_result.splits)
qed

lemma sound_close_poll:
  assumes "sound A m"
  shows "sound A (fst (close_poll p a v m))"
proof -
  have "sound A (patch (m\<lparr>m_poll := q\<rparr>) (\<lambda>i. i\<lparr>i_pollExhausted := True\<rparr>))" for q
    using assms by (intro sound_keep_patch) (simp_all add: keeps_def)
  then show ?thesis using assms by (simp add: close_poll_def Let_def split: poll_verdict.splits)
qed

lemma sound_answer_poll:
  assumes "sound A m"
  shows "sound A (fst (answer_poll env now poll attempt res m))"
proof -
  let ?pid = "pl_intentId poll" and ?u = "reads_not_sent m poll (pl_intentId poll) attempt res"
  have "sound A (fst (mark_unsent ?u ?pid m))"
    using assms by (auto simp: mark_unsent_def reads_not_sent_def keeps_def intro!: sound_patch)
  then have "sound A (mark_slow ?pid attempt (fst (mark_unsent ?u ?pid m)))"
    by (simp add: mark_slow_def sound_reconciling)
  from sound_read_status [OF this]
  show ?thesis by (simp add: answer_poll_def Let_def sound_close_poll split: prod.splits)
      (metis fst_conv sound_close_poll)
qed

lemma sound_on_status: "sound A m \<Longrightarrow> sound A (fst (on_status env now gen attempt res m))"
  by (simp add: on_status_def sound_answer_poll split: option.splits)

section \<open>Timers and steps\<close>

lemma sound_tick_expiry: "sound A m \<Longrightarrow> sound A (fst (tick_expiry env now m))"
  by (simp add: tick_expiry_def Let_def sound_transition_error split: option.splits)

lemma sound_ask_again: "sound A m \<Longrightarrow> sound A (fst (ask_again env now m))"
  by (simp add: ask_again_def sound_start_quote)

lemma sound_refresh_fired: "sound A m \<Longrightarrow> sound A (fst (refresh_fired env now m))"
  by (auto simp: refresh_fired_def Let_def should_refresh_quote_def sound_start_quote split: option.splits if_splits)

lemma sound_on_timer: "sound A m \<Longrightarrow> sound A (fst (on_timer env now t m))"
  by (simp add: on_timer_def sound_ask_again sound_refresh_fired sound_tick_expiry sound_resend_backstop
      sound_poll_tick sound_sign_flow_failed sound_resend_execute split: timer_name.splits option.splits)

end
