(* ===== verification/MachineConfig.thy ===== *)
theory MachineConfig
  imports MachineFrame
begin

text \<open>No operation of the trade machine touches its configuration (the pins).\<close>

abbreviation cfg_kept :: "step_result \<Rightarrow> model \<Rightarrow> bool" where
  "cfg_kept r m \<equiv> m_config (fst r) = m_config m"

lemma quote_cfg [frame_simps]:
  "m_config (without_flight m fid) = m_config m" "m_config (put_flight m f) = m_config m"
  "m_config (fail_quote m f e) = m_config m"
  by (simp_all add: without_flight_def put_flight_def fail_quote_def allocation_failed_def)

lemma send_quote_cfg [frame_simps]: "cfg_kept (send_quote env now f m) m"
  unfolding send_quote_def Let_def fst_if emitting_simps and_then_simps fst_conv
  by (simp add: frame_simps)

lemma start_quote_cfg [frame_simps]: "cfg_kept (start_quote env now opts m) m"
  unfolding start_quote_def Let_def fst_if by (simp add: frame_simps)

lemma on_session_cfg [frame_simps]: "cfg_kept (on_session env now fid res m) m"
  by (simp add: on_session_def drop_stale_flight_def frame_simps Let_def split: option.splits)

lemma accept_cfg [frame_simps]: "cfg_kept (accept_quote env now f q att m) m"
  by (simp add: accept_quote_def accept_landing_def arm_refresh_def Let_def split: option.splits)

lemma refuse_cfg [frame_simps]: "cfg_kept (refuse_quote f u m) m" "cfg_kept (attestation_rejected f b m) m"
  by (simp_all add: refuse_quote_def attestation_rejected_def)

lemma on_quote_cfg [frame_simps]: "cfg_kept (on_quote env now fid res m) m"
  by (simp add: on_quote_def drop_stale_flight_def quote_threw_def take_quote_def frame_simps Let_def
    split: option.splits sum.splits prod.splits)

lemma transition_cfg_pair: "transition m to u = (x, es) \<Longrightarrow> m_config x = m_config m \<and> m_ctx x = m_ctx m"
  using transition_frame(1,2)[of m to u] by simp

lemma prompt_intent_cfg [frame_simps]: "cfg_kept (prompt_intent m td) m"
  by (auto simp: prompt_intent_def Let_def dest!: transition_cfg_pair split: prod.splits)

lemma begin_sign_cfg [frame_simps]: "cfg_kept (begin_sign env now m) m"
  by (simp add: begin_sign_def Let_def confirm_quote_def reveal_deposit_def frame_simps
      split: option.splits sign_preflight.splits)

lemma sign_flow_failed_cfg [frame_simps]: "cfg_kept (sign_flow_failed rp m) m"
  by (simp add: sign_flow_failed_def Let_def split: option.splits)

lemma complete_pull_cfg [frame_simps]: "cfg_kept (complete_pull s m) m"
  by (simp add: complete_pull_def frame_simps split: option.splits sum.splits prod.splits)

lemma begin_pull_cfg [frame_simps]: "cfg_kept (begin_pull_sign env now m) m"
  by (simp add: begin_pull_sign_def Let_def frame_simps split: sign_preflight.splits)

lemma on_approval_cfg [frame_simps]: "cfg_kept (on_approval fid res m) m"
  by (simp add: on_approval_def frame_simps split: option.splits sum.splits)

lemma run_execute_cfg [frame_simps]: "cfg_kept (run_execute now s a b m) m"
  by (auto simp: run_execute_def Let_def dest!: transition_cfg_pair split: prod.splits)

lemma on_signed_cfg [frame_simps]: "cfg_kept (on_signed now fid p res m) m"
  by (simp add: on_signed_def intent_signed_def Let_def frame_simps split: option.splits sum.splits sign_purpose.splits)

lemma resend_cfg [frame_simps]: "cfg_kept (resend_execute env now m) m" "cfg_kept (resend_backstop env now m) m"
proof -
  show r: "cfg_kept (resend_execute env now m) m" for m
    by (simp add: resend_execute_def stop_resending_def Let_def split: option.splits)
  show "cfg_kept (resend_backstop env now m) m"
    by (simp add: resend_backstop_def r split: option.splits)
qed

lemma apply_result_cfg [frame_simps]: "cfg_kept (apply_execute_result now r u m) m"
  unfolding apply_execute_result_def fst_if
  by (simp add: Let_def split: execute_decision.splits)

lemma not_accepted_cfg: "on_not_accepted env now s rp m = (Some m', es) \<Longrightarrow> m_config m' = m_config m"
proof (cases "own_attempt s m")
  case (Some a)
  assume "on_not_accepted env now s rp m = (Some m', es)"
  then show ?thesis
    by (cases "decide_execute_resend (at_resends a) (report_retry_after rp)
        (execute_deadline env (i_quote (m_intent m))) now")
      (auto simp: on_not_accepted_def Some Let_def stop_resending_def)
qed (simp add: on_not_accepted_def)

lemma on_executed_cfg [frame_simps]: "cfg_kept (on_executed env now fid res m) m"
proof (cases "flow_at m fid StageExecute")
  case (Some s)
  obtain h es0 where h: "(case not_accepted_report res of None \<Rightarrow> (None, [])
      | Some report \<Rightarrow> on_not_accepted env now s report m) = (h, es0)" by fastforce
  then have n: "h = Some m' \<Longrightarrow> m_config m' = m_config m" for m'
    by (auto simp: not_accepted_cfg split: option.splits)
  obtain rep es1 where e: "response_unless_in_doubt res (i_intentId (m_intent
        (end_sign_flow (m\<lparr>m_pendingIntentSig := None\<rparr>) s))) = (rep, es1)" by fastforce
  show ?thesis
  proof (cases h)
    case None
    then show ?thesis unfolding on_executed_def Some Let_def option.case h prod.case e
      by (simp add: frame_simps split: option.splits prod.splits)
  next
    case (Some m')
    from n [OF this] Some show ?thesis
      unfolding on_executed_def \<open>flow_at m fid StageExecute = Some s\<close> Let_def option.case h prod.case e
      by simp
  qed
qed (simp add: on_executed_def)

lemma apply_status_cfg [frame_simps]: "cfg_kept (apply_status_update w b m) m"
  by (simp add: apply_status_update_def Let_def end_not_sent_def doubt_unmapped_def split: option.splits)

lemma on_status_cfg [frame_simps]: "cfg_kept (on_status env now gen attempt res m) m"
proof -
  have r: "m_config (fst (fst (read_status env now b pid res x))) = m_config x" for b pid x
    by (simp add: read_status_def read_not_found_def read_data_def Let_def frame_simps
        split: sum.splits status_result.splits option.splits)
  have c: "m_config (fst (close_poll p a v x)) = m_config x" for p a v x
    by (simp add: close_poll_def Let_def split: poll_verdict.splits)
  have "cfg_kept (answer_poll env now p attempt res m) m" for p
  proof -
    let ?u = "reads_not_sent m p (pl_intentId p) attempt res"
    let ?x = "mark_slow (pl_intentId p) attempt (fst (mark_unsent ?u (pl_intentId p) m))"
    obtain rr v where rr: "read_status env now ?u (pl_intentId p) res ?x = (rr, v)" by fastforce
    then have "m_config (fst rr) = m_config ?x" using r [of ?u "pl_intentId p" ?x] by simp
    moreover have "m_config ?x = m_config m" by (simp add: mark_slow_def mark_unsent_def)
    ultimately show ?thesis using c by (simp add: answer_poll_def Let_def rr)
  qed
  then show ?thesis by (simp add: on_status_def split: option.splits)
qed

lemma timer_cfg [frame_simps]: "cfg_kept (tick_expiry env now m) m" "cfg_kept (poll_tick b m) m"
  "cfg_kept (ask_again env now m) m" "cfg_kept (refresh_fired env now m) m"
  by (simp_all add: tick_expiry_def poll_tick_def ask_again_def refresh_fired_def Let_def frame_simps split: option.splits)

lemma on_timer_cfg [frame_simps]: "cfg_kept (on_timer env now t m) m"
  by (simp add: on_timer_def frame_simps split: timer_name.splits option.splits)

lemma step_cfg: "cfg_kept (step env g m) m"
proof (cases "body g")
  case VisibilityChanged
  then show ?thesis unfolding step_def visibility_changed_def fst_if and_then_simps Let_def
    by (simp add: frame_simps fst_if split: option.splits)
next
  case (QuoteRequested a)
  then show ?thesis unfolding step_def quote_requested_def fst_if and_then_simps Let_def emitting_simps
    by simp
next
  case CancelSignRequested
  then show ?thesis by (simp add: step_def cancel_sign_def Let_def fst_if)
qed (simp_all add: step_def Let_def frame_simps context_changed_def allocate_requested_def
  reset_machine_def resume_intent_def stream_status_def split: option.splits)

lemma rules_cfg:
  "cfg_kept (watch_wallet m) m" "cfg_kept (upgrade_preview env now m) m"
  "cfg_kept (arm_expiry env now m) m" "cfg_kept (arm_poll env now m) m"
  by (simp_all add: watch_wallet_def upgrade_preview_def arm_expiry_def arm_poll_def Let_def frame_simps
      split: option.splits)

end
