(* ===== verification/MachineReach.thy ===== *)
theory MachineReach
  imports MachineExecuted MachineConfig
begin

text \<open>
  The models a host can reach, and the contract under which a predicate holds in all of them; the
  invariants of \<open>MachineInv\<close> meet it.
\<close>

section \<open>Reachability\<close>

text \<open>
  From any configuration, form and visibility, by any sequence of admissible messages in any order, each
  in its own environment.
\<close>

inductive reached :: "(env \<Rightarrow> message \<Rightarrow> bool) \<Rightarrow> machine_config \<Rightarrow> model \<Rightarrow> bool" for ok config where
  start: "reached ok config (init_model config ctx hidden)"
| update: "reached ok config m \<Longrightarrow> ok env g \<Longrightarrow> reached ok config (fst (update env m g))"

inductive_cases reached_cases: "reached ok config m"

abbreviation any_message :: "env \<Rightarrow> message \<Rightarrow> bool" where
  "any_message env g \<equiv> True"

text \<open>The messages whose quote replies are those of \<open>A\<close>; those of a run.\<close>

definition arriving :: "arrivals \<Rightarrow> env \<Rightarrow> message \<Rightarrow> bool" where
  "arriving A env g \<longleftrightarrow> (\<forall>fid q. body g = QuoteReplied fid (Inr q) \<longrightarrow> A env q)"

definition quoted_in :: "(env \<times> message) list \<Rightarrow> arrivals" where
  "quoted_in gs env q \<longleftrightarrow> (\<exists>g fid. (env, g) \<in> set gs \<and> body g = QuoteReplied fid (Inr q))"

lemma run_reached:
  "reached ok config m \<Longrightarrow> \<forall>(env, g) \<in> set gs. ok env g \<Longrightarrow> reached ok config (fst (run m gs))"
  by (induction m gs rule: run.induct) (auto simp: reached.update)

lemma reached_mono: "reached ok config m \<Longrightarrow> (\<And>env g. ok env g \<Longrightarrow> ok' env g) \<Longrightarrow> reached ok' config m"
  by (induction rule: reached.induct) (auto intro: reached.intros)

lemma run_arriving: "reached (arriving (quoted_in gs)) config (fst (run (init_model config ctx hidden) gs))"
  by (rule run_reached [OF reached.start]) (auto simp: arriving_def quoted_in_def)

section \<open>The contract of an invariant\<close>

text \<open>What each message and each reactive rule owes; the settling loop and the run then keep it.\<close>

locale machine_invariant =
  fixes ok :: "env \<Rightarrow> message \<Rightarrow> bool" and config :: machine_config and inv :: "model \<Rightarrow> bool"
  assumes init: "inv (init_model config ctx hidden)"
    and hide: "inv m \<Longrightarrow> inv (m\<lparr>m_hidden := h\<rparr>)"
    and step_keeps: "inv m \<Longrightarrow> ok env g \<Longrightarrow> inv (fst (step env g m))"
    and watch_keeps: "inv m \<Longrightarrow> inv (fst (watch_wallet m))"
    and upgrade_keeps: "inv m \<Longrightarrow> inv (fst (upgrade_preview env now m))"
    and expiry_keeps: "inv m \<Longrightarrow> inv (fst (arm_expiry env now m))"
    and poll_keeps: "inv m \<Longrightarrow> inv (fst (arm_poll env now m))"
begin

lemma pass_keeps: "inv m \<Longrightarrow> inv (fst (settle_pass env now m))"
  by (simp add: settle_pass_def watch_keeps upgrade_keeps expiry_keeps poll_keeps)

lemma passes_keep: "inv m \<Longrightarrow> inv (fst (settle_passes n env now m))"
  by (induction n env now m rule: settle_passes.induct) (simp_all add: Let_def pass_keeps)

lemma settle_keeps: "inv m \<Longrightarrow> inv (fst (settle env now m))"
  by (simp add: settle_def passes_keep)

lemma update_keeps: "inv m \<Longrightarrow> ok env g \<Longrightarrow> inv (fst (update env m g))"
  by (simp add: update_def hide step_keeps settle_keeps)

lemma reached_inv: "reached ok config m \<Longrightarrow> inv m"
  by (induction rule: reached.induct) (simp_all add: init update_keeps)

end

section \<open>Steps\<close>

lemma sound_init: "sound A (init_model config ctx hidden)"
  by (simp add: sound_defs init_model_def Let_def)

lemma sound_context_changed: "sound A m \<Longrightarrow> sound A (fst (context_changed ctx m))"
  by (simp add: context_changed_def Let_def sound_supersede)

lemma sound_restart_abandoned:
  assumes "sound A m"
  shows "sound A (fst (abandon_sign (m\<lparr>m_intent := INITIAL_INTENT_STATE\<rparr>)))"
  using assms by (simp add: sound_defs Let_def)

lemma sound_quote_requested:
  assumes "sound A m"
  shows "sound A (fst (quote_requested amount m))"
proof -
  have "sound A (fst (let next = x\<lparr>m_allocationKey := None, m_amount := amount, m_refresh := None\<rparr> in
      if amount = [] \<or> amount = ''0'' then
        (if survives_cleared_amount (m_intent m) then (next, [])
         else abandon_sign (next\<lparr>m_intent := INITIAL_INTENT_STATE\<rparr>))
      else (next, [set_timer TDebounce QUOTE_DEBOUNCE_MS False])))" if "sound A x" for x
    using that unfolding Let_def fst_if fst_conv
    by (simp add: sound_restart_abandoned del: abandon_sign_fst)
  moreover have "sound A (fst (if amount = m_amount m then (m, []) else supersede_flights m))"
    using assms by (simp add: sound_supersede)
  ultimately show ?thesis unfolding quote_requested_def emitting_simps and_then_simps by blast
qed

lemma sound_allocate_requested:
  "sound A m \<Longrightarrow> sound A (fst (allocate_requested env now key ref m))"
  by (auto simp: allocate_requested_def allocation_refused_def Let_def intro!: sound_start_quote)

lemma sound_cancel_sign: "sound A m \<Longrightarrow> sound A (fst (cancel_sign m))"
  unfolding cancel_sign_def fst_if and_then_simps fst_conv
  by (simp add: sound_transition_error sound_abandon del: abandon_sign_fst)

lemma sound_reset_machine: "sound A m \<Longrightarrow> sound A (fst (reset_machine m))"
  by (simp add: reset_machine_def sound_defs Let_def)

lemma resumed_state:
  "build_resumed_state i iid st ow d = Some r \<Longrightarrow>
     i_status i = Idle \<and> i_quote r = None \<and> i_notSent r = False \<and> i_status r = st \<and> i_intentId r = Some iid"
  by (auto simp: build_resumed_state_def can_adopt_resumed_intent_def split: if_splits)

lemma sound_resume_intent:
  assumes "sound A m"
  shows "sound A (fst (resume_intent iid st ow d sub m))"
proof (cases "build_resumed_state (m_intent m) iid st ow d")
  case (Some r)
  have c: "calm m" using resumed_state [OF Some] by simp
  have "sound A (m\<lparr>m_flights := [], m_intent := i\<rparr>)" if "i_quote i = None" "\<not> i_notSent i" for i
    using assms calm_idle [OF assms c] that by (simp add: sound_defs Let_def held_ok_def)
  with resumed_state [OF Some] show ?thesis by (simp add: resume_intent_def Some Let_def)
qed (use assms in \<open>simp add: resume_intent_def\<close>)

lemma sound_visibility_changed:
  assumes "sound A m"
  shows "sound A (fst (visibility_changed env now hidden m))"
proof -
  have q: "sound A (fst (start_quote env now opts m))" if "i_status (m_intent m) = Quoted \<or> i_status (m_intent m) = Expired"
    for opts using assms that by (intro sound_start_quote) auto
  let ?r = "if m_amount m \<noteq> [] \<and> should_refresh_on_return (i_status (m_intent m)) (cx_paused (m_ctx m))
              (case i_quote (m_intent m) of None \<Rightarrow> False | Some q \<Rightarrow> has_deposit_address q)
         then start_quote env now ((quote_opts_of (m_amount m))\<lparr>qo_forceRefresh := True\<rparr>) m else (m, [])"
  have r: "sound A (fst ?r)" using assms q by (simp add: should_refresh_on_return_def split: if_splits)
  have "sound A (patch x (\<lambda>i. i\<lparr>i_pollExhausted := False\<rparr>))" if "sound A x" for x
    using that by (rule sound_keep_patch) (simp_all add: keeps_def)
  then have "sound A (fst (if awaiting_resend x then resend_backstop env now x
     else (case m_poll x of None \<Rightarrow> (x, [])
       | Some poll \<Rightarrow> (if pl_stopped poll
           then ((patch x (\<lambda>i. i\<lparr>i_pollExhausted := False\<rparr>))\<lparr>m_poll := None\<rparr>, [])
           else poll_tick False x))))" if "sound A x" for x
    using that by (simp add: sound_resend_backstop sound_poll_tick split: option.splits)
  with r assms show ?thesis unfolding visibility_changed_def fst_if and_then_simps by simp
qed

lemma sound_stream_status: "sound A m \<Longrightarrow> sound A (fst (stream_status w m))"
  by (simp add: stream_status_def sound_apply_status_update)

lemma sound_step:
  assumes "sound A m" "arriving A env g"
  shows "sound A (fst (step env g m))"
  using assms
  by (cases "body g")
    (simp_all add: step_def Let_def sound_context_changed sound_quote_requested sound_allocate_requested
      sound_ask_again sound_begin_sign sound_begin_pull_sign sound_cancel_sign sound_reset_machine
      sound_resume_intent sound_visibility_changed sound_stream_status sound_on_timer sound_on_session
      sound_on_quote arriving_def sound_on_signed sound_on_approval sound_on_executed sound_on_status)

section \<open>The reactive rules\<close>

lemma sound_watch_wallet:
  assumes "sound A m"
  shows "sound A (fst (watch_wallet m))"
proof -
  have "sound A (m\<lparr>m_watched := w, m_intent := INITIAL_INTENT_STATE, m_refresh := r, m_awaitingPull := False,
      m_isSigningPull := False, m_pendingIntentSig := None, m_sign := None\<rparr>)" for w r
    using assms by (simp add: sound_defs Let_def)
  with assms show ?thesis by (simp add: watch_wallet_def Let_def)
qed

lemma sound_upgrade_preview: "sound A m \<Longrightarrow> sound A (fst (upgrade_preview env now m))"
  by (auto simp: upgrade_preview_def Let_def should_upgrade_preview_quote_def intro!: sound_start_quote)

lemma sound_arm_expiry: "sound A m \<Longrightarrow> sound A (fst (arm_expiry env now m))"
  by (simp add: arm_expiry_def Let_def sound_tick_expiry)

lemma sound_arm_poll: "sound A m \<Longrightarrow> sound A (fst (arm_poll env now m))"
  by (simp add: arm_poll_def Let_def sound_poll_tick split: option.splits)

interpretation trade: machine_invariant "arriving A" config "sound A" for A config
  by unfold_locales
    (simp_all add: sound_init sound_step sound_watch_wallet sound_upgrade_preview sound_arm_expiry sound_arm_poll)

lemma reached_sound: "reached ok config m \<Longrightarrow> sound (\<lambda>_ _. True) m"
  by (rule trade.reached_inv, erule reached_mono) (simp add: arriving_def)

interpretation configured: machine_invariant ok config "\<lambda>m. m_config m = config" for ok config
  by unfold_locales (simp_all add: init_model_def step_cfg rules_cfg)

end
