(* ===== verification/MachineEffects.thy ===== *)
theory MachineEffects
  imports MachineReach
begin

text \<open>
  Which effects an operation of the trade machine can ask for: the wallet is prompted, an order is
  executed and an approval is raised in exactly one place each, and the reactive rules only ask for
  quotes and polls.
\<close>

section \<open>Kinds, operation by operation\<close>

abbreviation only_quote :: "effect list \<Rightarrow> bool" where
  "only_quote es \<equiv> only {KTimer, KEmit, KQuote, KSession} es"

abbreviation only_quiet :: "effect list \<Rightarrow> bool" where
  "only_quiet es \<equiv> only {KTimer, KEmit} es"

lemma quiet_eq: "quiet es = only_quiet es"
  by (simp add: quiet_def)

lemma send_quote_kinds: "only_quote (snd (send_quote env now f m))"
  unfolding send_quote_def Let_def snd_if emitting_simps and_then_simps
  by simp

lemma start_quote_kinds: "only_quote (snd (start_quote env now opts m))"
  unfolding start_quote_def Let_def snd_if
  by (simp add: send_quote_kinds)

lemma on_session_kinds: "only_quote (snd (on_session env now fid res m))"
  by (simp add: on_session_def drop_stale_flight_def send_quote_kinds Let_def split: option.splits)

lemma reject_with_log: "reject_with lv text err qu = Inl rj \<Longrightarrow> kind (rj_log rj) = KEmit"
  by (auto simp: reject_with_def)

lemma gates_log:
  assumes "quote_gates env pins q f = Inl rj"
  shows "kind (rj_log rj) = KEmit"
proof -
  have one: "g = Inl rj \<Longrightarrow> g \<in> {gate_success q, gate_solvable q, gate_kind q f, gate_echo q f, gate_claim q f,
      gate_token f, gate_route q f, gate_signable env pins q f} \<Longrightarrow> kind (rj_log rj) = KEmit" for g
    by (elim insertE; simp add: gate_success_def gate_solvable_def gate_kind_def gate_echo_def gate_claim_def
        gate_token_def gate_route_def gate_signable_def passed_def
        split: if_splits option.splits prod.splits; auto dest: reject_with_log)
  from assms obtain xs ys where "[gate_success q, gate_solvable q, gate_kind q f, gate_echo q f, gate_claim q f,
      gate_token f, gate_route q f, gate_signable env pins q f] = xs @ Inl rj # ys"
    by (auto simp only: quote_gates_def check_all_first_refusal)
  then have "Inl rj \<in> set [gate_success q, gate_solvable q, gate_kind q f, gate_echo q f, gate_claim q f,
      gate_token f, gate_route q f, gate_signable env pins q f]" by (metis in_set_conv_decomp)
  then show ?thesis by (intro one [OF refl]) simp
qed

lemma refuse_quote_kinds: "only_quiet (snd (refuse_quote f u m))"
  by (simp add: refuse_quote_def)

lemma accept_quote_kinds: "only_quiet (snd (accept_quote env now f q att m))"
  by (simp add: accept_quote_def accept_landing_def arm_refresh_def Let_def split: option.splits)

lemma on_quote_kinds: "only_quiet (snd (on_quote env now fid res m))"
  by (auto simp: on_quote_def drop_stale_flight_def quote_threw_def take_quote_def refuse_quote_kinds
      attestation_rejected_def accept_quote_kinds Let_def dest: gates_log split: option.splits sum.splits)

lemma transition_pair: "transition m to u = (x, es) \<Longrightarrow> only (insert KTimer (insert KEmit ks)) es"
  using quiet_onlyI(1) [of ks m to u] by simp

lemma prompt_intent_kinds: "only {KTimer, KEmit, KSignIntent} (snd (prompt_intent m td))"
  by (auto simp: prompt_intent_def Let_def dest: transition_pair split: prod.splits)

lemma begin_sign_kinds: "only {KTimer, KEmit, KSignIntent} (snd (begin_sign env now m))"
  by (simp add: begin_sign_def Let_def confirm_quote_def reveal_deposit_def prompt_intent_kinds
      split: option.splits sign_preflight.splits)

lemma sign_flow_failed_kinds: "only_quiet (snd (sign_flow_failed rp m))"
  by (simp add: sign_flow_failed_def Let_def split: option.splits)

lemma only_insert: "only ks es \<Longrightarrow> only (insert k ks) es"
  by (auto simp: only_def)

lemma complete_pull_kinds: "only {KTimer, KEmit, KApproval} (snd (complete_pull s m))"
proof -
  have "only {KTimer, KEmit, KApproval} (snd (sign_flow_failed rp x))" for rp x
    by (rule only_mono [OF sign_flow_failed_kinds]) simp
  then show ?thesis by (simp add: complete_pull_def split: option.splits sum.splits prod.splits)
qed

lemma begin_pull_sign_kinds: "only {KTimer, KEmit, KApproval} (snd (begin_pull_sign env now m))"
  by (simp add: begin_pull_sign_def Let_def complete_pull_kinds split: sign_preflight.splits)

lemma on_approval_kinds: "only {KTimer, KEmit, KSignPull} (snd (on_approval fid res m))"
proof -
  have "only {KTimer, KEmit, KSignPull} (snd (sign_flow_failed rp x))" for rp x
    by (rule only_mono [OF sign_flow_failed_kinds]) simp
  then show ?thesis by (simp add: on_approval_def split: option.splits sum.splits)
qed

lemma run_execute_kinds: "only {KTimer, KEmit, KExecute} (snd (run_execute now s a b m))"
  by (auto simp: run_execute_def Let_def dest: transition_pair split: prod.splits)

lemma on_signed_kinds: "only {KTimer, KEmit, KExecute, KApproval} (snd (on_signed now fid p res m))"
proof -
  have "only {KTimer, KEmit, KExecute, KApproval} (snd (sign_flow_failed rp x))"
    "only {KTimer, KEmit, KExecute, KApproval} (snd (run_execute now s a b x))"
    "only {KTimer, KEmit, KExecute, KApproval} (snd (complete_pull s x))" for rp x s a b
    by (rule only_mono [OF sign_flow_failed_kinds] only_mono [OF run_execute_kinds]
        only_mono [OF complete_pull_kinds]; simp)+
  then show ?thesis
    by (simp add: on_signed_def intent_signed_def Let_def split: option.splits sum.splits sign_purpose.splits)
qed

lemma resend_execute_kinds: "only {KTimer, KEmit, KExecute} (snd (resend_execute env now m))"
  by (simp add: resend_execute_def Let_def split: option.splits)

lemma resend_backstop_kinds: "only {KTimer, KEmit, KExecute} (snd (resend_backstop env now m))"
  by (simp add: resend_backstop_def resend_execute_kinds split: option.splits)

lemma on_executed_kinds: "only_quiet (snd (on_executed env now fid res m))"
proof -
  have n: "only_quiet (snd (on_not_accepted env now s rp x))" for s rp x
    by (simp add: on_not_accepted_def Let_def split: option.splits execute_resend.splits)
  have r: "only_quiet (snd (response_unless_in_doubt res i))" for i
    by (simp add: response_unless_in_doubt_def split: exec_outcome.splits jsval.splits)
  have a: "only_quiet (snd (apply_execute_result now x u y))" for x u y
    unfolding apply_execute_result_def snd_if
    by (simp add: Let_def split: execute_decision.splits)
  show ?thesis
  proof (cases "flow_at m fid StageExecute")
    case (Some s)
    obtain h es0 where h: "(case not_accepted_report res of None \<Rightarrow> (None, [])
        | Some report \<Rightarrow> on_not_accepted env now s report m) = (h, es0)" by fastforce
    then have "only_quiet es0" using n by (auto split: option.splits) (metis snd_conv)
    obtain rep es1 where e: "response_unless_in_doubt res (i_intentId (m_intent
        (end_sign_flow (m\<lparr>m_pendingIntentSig := None\<rparr>) s))) = (rep, es1)" by fastforce
    have "only_quiet es1" using r e by (metis snd_conv)
    with \<open>only_quiet es0\<close> a show ?thesis
      unfolding on_executed_def Some Let_def option.case h prod.case e
      by (simp split: option.splits prod.splits)
  qed (simp add: on_executed_def)
qed

lemma apply_status_update_kinds: "only_quiet (snd (apply_status_update w b m))"
  by (simp add: apply_status_update_def Let_def split: option.splits)

lemma on_status_kinds: "only_quiet (snd (on_status env now gen attempt res m))"
proof -
  have u: "only_quiet (snd (mark_unsent b pid x))" for b pid x by (simp add: mark_unsent_def)
  have r: "only_quiet (snd (fst (read_status env now b pid res x)))" for b pid x
    by (simp add: read_status_def read_not_found_def read_data_def Let_def apply_status_update_kinds
        split: sum.splits status_result.splits option.splits)
  have c: "only_quiet (snd (close_poll p a v x))" for p a v x
    by (simp add: close_poll_def Let_def split: poll_verdict.splits)
  have "only_quiet (snd (answer_poll env now p attempt res m))" for p
  proof -
    let ?u = "reads_not_sent m p (pl_intentId p) attempt res"
    let ?x = "mark_slow (pl_intentId p) attempt (fst (mark_unsent ?u (pl_intentId p) m))"
    obtain rr v where rr: "read_status env now ?u (pl_intentId p) res ?x = (rr, v)" by fastforce
    then have "only_quiet (snd rr)" using r [of ?u "pl_intentId p" ?x] by simp
    with u c show ?thesis by (simp add: answer_poll_def Let_def rr)
  qed
  then show ?thesis by (simp add: on_status_def split: option.splits)
qed

lemma poll_tick_kinds: "only {KTimer, KEmit, KStatus} (snd (poll_tick b m))"
  by (simp add: poll_tick_def Let_def split: option.splits)

lemma tick_expiry_kinds: "only_quiet (snd (tick_expiry env now m))"
  by (simp add: tick_expiry_def Let_def split: option.splits)

lemma ask_again_kinds: "only_quote (snd (ask_again env now m))"
  by (simp add: ask_again_def start_quote_kinds)

lemma refresh_fired_kinds: "only_quote (snd (refresh_fired env now m))"
  by (simp add: refresh_fired_def Let_def start_quote_kinds split: option.splits)

text \<open>What a timer may do: everything but prompt the wallet.\<close>

definition timer_kinds :: "effect_kind set" where
  "timer_kinds = {KTimer, KEmit, KQuote, KSession, KStatus, KExecute}"

lemma timer_kinds_mono:
  "only_quote es \<Longrightarrow> only timer_kinds es" "only_quiet es \<Longrightarrow> only timer_kinds es"
  "only {KTimer, KEmit, KStatus} es \<Longrightarrow> only timer_kinds es"
  "only {KTimer, KEmit, KExecute} es \<Longrightarrow> only timer_kinds es"
  by (auto simp: only_def timer_kinds_def)

lemma on_timer_kinds: "only timer_kinds (snd (on_timer env now t m))"
  by (simp add: on_timer_def timer_kinds_mono ask_again_kinds refresh_fired_kinds tick_expiry_kinds
      resend_backstop_kinds poll_tick_kinds sign_flow_failed_kinds resend_execute_kinds
      split: timer_name.splits option.splits)

lemma visibility_kinds: "only timer_kinds (snd (visibility_changed env now h m))"
  unfolding visibility_changed_def snd_if and_then_simps
  by (simp add: timer_kinds_mono start_quote_kinds resend_backstop_kinds poll_tick_kinds split: option.splits)

lemma quote_requested_kinds: "only_quiet (snd (quote_requested a m))"
  unfolding quote_requested_def snd_if and_then_simps emitting_simps Let_def
  by simp

lemma allocate_requested_kinds: "only_quote (snd (allocate_requested env now key ref m))"
  by (simp add: allocate_requested_def Let_def start_quote_kinds)

lemma context_changed_kinds: "only_quiet (snd (context_changed c m))"
  by (simp add: context_changed_def Let_def)

lemma cancel_sign_kinds: "only_quiet (snd (cancel_sign m))"
  unfolding cancel_sign_def snd_if and_then_simps by simp

lemma reset_kinds: "only {KTimer, KEmit, KResetApproval} (snd (reset_machine m))"
  by (simp add: reset_machine_def)

lemma resume_kinds: "only_quiet (snd (resume_intent iid st ow d sub m))"
  by (simp add: resume_intent_def Let_def split: option.splits)

lemma stream_kinds: "only_quiet (snd (stream_status w m))"
  by (simp add: stream_status_def apply_status_update_kinds)

section \<open>The reactive rules\<close>

abbreviation rule_kinds :: "effect_kind set" where
  "rule_kinds \<equiv> {KTimer, KEmit, KQuote, KSession, KStatus}"

lemma rules_kinds:
  "only rule_kinds (snd (watch_wallet m))" "only rule_kinds (snd (upgrade_preview env now m))"
  "only rule_kinds (snd (arm_expiry env now m))" "only rule_kinds (snd (arm_poll env now m))"
proof -
  have t: "only rule_kinds (snd (tick_expiry env now x))" for x
    by (rule only_mono [OF tick_expiry_kinds]) simp
  have p: "only rule_kinds (snd (poll_tick b x))" for b x
    by (rule only_mono [OF poll_tick_kinds]) auto
  have s: "only rule_kinds (snd (start_quote env now o' x))" for o' x
    by (rule only_mono [OF start_quote_kinds]) auto
  show "only rule_kinds (snd (watch_wallet m))" by (simp add: watch_wallet_def Let_def)
  show "only rule_kinds (snd (upgrade_preview env now m))" by (simp add: upgrade_preview_def Let_def s)
  show "only rule_kinds (snd (arm_expiry env now m))" by (simp add: arm_expiry_def Let_def t)
  show "only rule_kinds (snd (arm_poll env now m))"
    by (simp add: arm_poll_def Let_def p split: option.splits)
qed

lemma settle_kinds: "only rule_kinds (snd (settle env now m))"
proof -
  have "only rule_kinds (snd (settle_pass env now x))" for x by (simp add: settle_pass_def rules_kinds)
  then have "only rule_kinds (snd (settle_passes n env now m))" for n
    by (induction n env now m rule: settle_passes.induct) (simp_all add: Let_def)
  then show ?thesis by (simp add: settle_def)
qed

text \<open>An effect the reactive rules cannot ask for was asked for by the step itself.\<close>

lemma update_effect:
  assumes "e \<in> set (snd (update env m g))" "kind e \<notin> rule_kinds"
  shows "e \<in> set (snd (step env g (m\<lparr>m_hidden := msg_hidden g\<rparr>)))"
  using assms only_excludes [OF settle_kinds] by (auto simp: update_def)

lemmas step_kinds = context_changed_kinds quote_requested_kinds allocate_requested_kinds ask_again_kinds
  begin_sign_kinds begin_pull_sign_kinds cancel_sign_kinds reset_kinds resume_kinds visibility_kinds
  stream_kinds on_timer_kinds on_session_kinds on_quote_kinds on_signed_kinds on_approval_kinds
  on_executed_kinds on_status_kinds

text \<open>The message behind a prompt, an approval and an execute.\<close>

lemma step_excludes: "only ks (snd r) \<Longrightarrow> e \<in> set (snd r) \<Longrightarrow> kind e \<in> ks"
  by (auto simp: only_def)

lemma sign_intent_step:
  assumes "e \<in> set (snd (step env g m))" "kind e = KSignIntent"
  shows "body g = SignRequested"
  using assms by (cases "body g") (auto simp: step_def Let_def timer_kinds_def dest!: step_kinds [THEN step_excludes])

lemma sign_pull_step:
  assumes "e \<in> set (snd (step env g m))" "kind e = KSignPull"
  shows "\<exists>fid res. body g = ApprovalReplied fid res"
  using assms by (cases "body g") (auto simp: step_def Let_def timer_kinds_def dest!: step_kinds [THEN step_excludes])

lemma approval_step:
  assumes "e \<in> set (snd (step env g m))" "kind e = KApproval"
  shows "body g = PullSignRequested \<or> (\<exists>fid p res. body g = SignReplied fid p res)"
  using assms by (cases "body g") (auto simp: step_def Let_def timer_kinds_def dest!: step_kinds [THEN step_excludes])

lemma execute_step:
  assumes "e \<in> set (snd (step env g m))" "kind e = KExecute"
  shows "(\<exists>fid p res. body g = SignReplied fid p res) \<or> body g = VisibilityChanged
    \<or> (\<exists>t. body g = TimerFired t)"
  using assms by (cases "body g") (auto simp: step_def Let_def timer_kinds_def dest!: step_kinds [THEN step_excludes])

end
