(* ===== verification/MachineSafety.thy ===== *)
theory MachineSafety
  imports MachineEffects
begin

text \<open>
  What the wallet is asked to sign and what is executed, over every run of the trade machine: the
  properties that join the quote checks, the pins, the preflight and the state machine.
\<close>

section \<open>The intent prompt\<close>

lemma sign_preflight_kinds:
  "sign_preflight_of env now m \<noteq> PfAwaitingDeposit" "sign_preflight_of env now m \<noteq> PfNoQuote"
  by (simp_all add: sign_preflight_of_def decide_sign_preflight_def WALLET_CHANGED_def)

lemma prompt_intent_emits:
  assumes "Wallet (SignTypedData sid ForIntent td ch) \<in> set (snd (prompt_intent m x))"
  shows "td = x \<and> ch = wl_chainId (cx_wallet (m_ctx m))"
proof -
  obtain sg es where t: "transition m (StatusOf Signing) (\<lambda>i. i\<lparr>i_refusal := None\<rparr>) = (sg, es)"
    by fastforce
  have "Wallet (SignTypedData sid ForIntent td ch) \<notin> set es"
    using only_excludes [OF transition_pair [OF t, of "{}"]] by simp
  moreover have "m_ctx sg = m_ctx m"
    using transition_frame(2) [of m "StatusOf Signing" "\<lambda>i. i\<lparr>i_refusal := None\<rparr>"] by (simp add: t)
  ultimately show ?thesis using assms
    by (auto simp: prompt_intent_def t Let_def set_timer_def split: if_splits)
qed

definition confirmable :: "env \<Rightarrow> num \<Rightarrow> model \<Rightarrow> quote_response \<Rightarrow> typed_data \<Rightarrow> bool" where
  "confirmable env now m q td \<longleftrightarrow> i_status (m_intent m) = Quoted \<and> holds_current_quote m
     \<and> i_quote (m_intent m) = Some q \<and> q_canSolve q \<and> \<not> quote_is_preview q
     \<and> \<not> has_deposit_address q \<and> q_eip712Data q = Some td
     \<and> sign_preflight_of env now m = PfProceed
     \<and> validate_payout_pin td (payout_expectation_of m q) = Inr ()"

lemma begin_sign_emits:
  assumes "Wallet (SignTypedData sid ForIntent td ch) \<in> set (snd (begin_sign env now m))"
  shows "\<exists>q. confirmable env now m q td \<and> ch = wl_chainId (cx_wallet (m_ctx m))"
proof -
  let ?e = "Wallet (SignTypedData sid ForIntent td ch)"
  have t: "?e \<notin> set (snd (transition m to u))" for to u
    using only_excludes [OF quiet_onlyI(1) [of "{}" m to u]] by simp
  have q: "i_status (m_intent m) = Quoted" "can_sign_quote Quoted (i_quote (m_intent m))" "holds_current_quote m"
    using assms by (auto simp: begin_sign_def log_fx_def split: if_splits)
  then obtain x where x: "i_quote (m_intent m) = Some x" by (cases "i_quote (m_intent m)") (simp_all add: can_sign_quote_def)
  have d: "\<not> has_deposit_address x"
    using assms q x t by (auto simp: begin_sign_def reveal_deposit_def Let_def log_fx_def split: if_splits)
  with assms q x obtain y where y: "q_eip712Data x = Some y" and e: "?e \<in> set (snd (confirm_quote env now x y m))"
    by (cases "q_eip712Data x") (simp_all add: begin_sign_def Let_def)
  from e t have p: "sign_preflight_of env now m = PfProceed" and ok: "is_ok (validate_payout_pin y (payout_expectation_of m x))"
    and "?e \<in> set (snd (prompt_intent m y))"
    using sign_preflight_kinds [of env now m]
    by (auto simp: confirm_quote_def log_fx_def split: sign_preflight.splits if_splits)
  with prompt_intent_emits have "td = y" "ch = wl_chainId (cx_wallet (m_ctx m))" by blast+
  with p ok q x y d show ?thesis
    by (cases "validate_payout_pin y (payout_expectation_of m x)") (auto simp: confirmable_def can_sign_quote_def)
qed

section \<open>The form\<close>

text \<open>The typed data names the trade on the form: what it spends, where, for what, to whom.\<close>

definition names_the_form :: "env \<Rightarrow> model \<Rightarrow> typed_data \<Rightarrow> bool" where
  "names_the_form env m td \<longleftrightarrow> (let c = m_ctx m in
     (\<exists>n > 0. big_int (m_amount m) = Some n \<and> big_of (msg td ''fromAmount'') = Some n)
   \<and> big_of (msg td ''fromChainId'') = Some (cx_fromChainId c)
   \<and> big_of (msg td ''toChainId'') = Some (cx_toChainId c)
   \<and> same_addressish (str_or_empty (msg td ''fromToken'')) (cx_fromToken c)
   \<and> same_addressish (str_or_empty (msg td ''toToken'')) (cx_toToken c)
   \<and> (\<exists>w. wl_address (cx_wallet c) = Some w \<and> w \<noteq> []
        \<and> same_addressish (str_or_empty (msg td ''wallet'')) w
        \<and> same_addressish (str_or_empty (msg td ''recipient'')) (or_else (trimmed (cx_recipientAddress c)) w))
   \<and> msg td ''settlementPreference'' = VStr (settlement_str (cx_settlementPreference c))
   \<and> deadline_bounded env (msg td ''deadline''))"

lemma trade_key_fields:
  assumes "trade_key_of c = trade_key_of d"
  shows "cx_fromChainId c = cx_fromChainId d" "cx_toChainId c = cx_toChainId d"
    "cx_fromToken c = cx_fromToken d" "cx_toToken c = cx_toToken d"
    "cx_settlementPreference c = cx_settlementPreference d"
    "trimmed (cx_recipientAddress c) = trimmed (cx_recipientAddress d)"
    "wl_address (cx_wallet c) = wl_address (cx_wallet d)" "wl_chainId (cx_wallet c) = wl_chainId (cx_wallet d)"
  using assms by (simp_all add: trade_key_of_def)

lemma request_fields [simp]:
  "r_fromChainId (build_quote_request (raw_request f t)) = cx_fromChainId (fl_ctx f)"
  "r_toChainId (build_quote_request (raw_request f t)) = cx_toChainId (fl_ctx f)"
  "r_fromToken (build_quote_request (raw_request f t)) = cx_fromToken (fl_ctx f)"
  "r_toToken (build_quote_request (raw_request f t)) = cx_toToken (fl_ctx f)"
  "r_fromAmount (build_quote_request (raw_request f t)) = fl_amount f"
  "r_settlementPreference (build_quote_request (raw_request f t)) = cx_settlementPreference (fl_ctx f)"
  "r_recipientAddress (build_quote_request (raw_request f t)) = trimmed (cx_recipientAddress (fl_ctx f))"
  "r_wallet (build_quote_request (raw_request f t)) =
     (if fl_preview f then None else wl_address (cx_wallet (fl_ctx f)))"
  by (simp_all add: build_quote_request_def raw_request_def Let_def)

lemma gates_passed:
  assumes "quote_gates env pins q f = Inr u"
  shows "q_canSolve q" "quote_is_preview q = fl_preview f" "gate_signable env pins q f = Inr ()"
  using assms
  by (simp_all add: quote_gates_def gate_solvable_def gate_kind_def reject_with_def split: if_splits)

lemma vetted_signable:
  assumes "vetted A pins f q" "\<not> has_deposit_address q" "q_eip712Data q = Some td"
  shows "\<exists>env r. A env q \<and> fl_request f = Some r \<and> check_signable_quote env r q pins = Inr ()"
proof -
  from assms(1) obtain env r where g: "quote_gates env pins q f = Inr ()" "A env q" and r: "fl_request f = Some r"
    by (auto simp: vetted_def asked_def)
  from gates_passed(3) [OF g(1)] r assms(2,3) have "is_ok (check_signable_quote env r q pins)"
    by (auto simp: gate_signable_def reject_with_def split: if_splits)
  then have "check_signable_quote env r q pins = Inr ()"
    by (cases "check_signable_quote env r q pins") simp_all
  with r g(2) show ?thesis by blast
qed

lemma asked_sendable:
  "asked f \<Longrightarrow> \<exists>env t. fl_request f = Some (build_quote_request (raw_request f t))
     \<and> sendable env (params_of_request (build_quote_request (raw_request f t))) t"
  by (auto simp: asked_def validate_swap_params_ok)

lemma held_names_the_form:
  assumes m: "sound A m" and c: "confirmable env now m q td"
  shows "\<exists>e. A e q \<and> names_the_form e m td"
proof -
  from c have q: "i_quote (m_intent m) = Some q" "q_canSolve q" "\<not> quote_is_preview q"
      "\<not> has_deposit_address q" "q_eip712Data q = Some td" "holds_current_quote m"
    and pf: "sign_preflight_of env now m = PfProceed" by (simp_all add: confirmable_def)
  from m q obtain f where v: "vetted A (cfg_pullRecipients (m_config m)) f q"
      and k: "m_quotedTrade m = Some (trade_key_of (fl_ctx f))" "i_quotedFromAmount (m_intent m) = Some (fl_amount f)"
    by (auto simp: sound_def quote_ok_def held_ok_def)
  with q(6) have k': "trade_key_of (fl_ctx f) = trade_key_of (m_ctx m)" "fl_amount f = m_amount m"
    by (simp_all add: holds_current_quote_def)
  note fields = trade_key_fields [OF k'(1)]
  from v obtain env0 where "quote_gates env0 (cfg_pullRecipients (m_config m)) q f = Inr ()" and a: "asked f"
    by (auto simp: vetted_def)
  from gates_passed(2) [OF this(1)] q(3) have "\<not> fl_preview f" by simp
  from vetted_signable [OF v q(4,5)] obtain e r where r: "fl_request f = Some r" and e: "A e q"
      and ok: "check_signable_quote e r q (cfg_pullRecipients (m_config m)) = Inr ()" by blast
  from asked_sendable [OF a] r obtain e' t where rt: "r = build_quote_request (raw_request f t)"
      and s: "sendable e' (params_of_request r) t" by auto
  from ok have "assert_intent_matches_request e (quote_request_params r) (served_of q) = Inr ()"
    by (simp add: check_signable_quote_ok)
  from checked_intent_bound [OF this s q(5)] have b: "intent_bound_to_request e r td" .
  from pf obtain w where w: "wl_address (cx_wallet (m_ctx m)) = Some w" "w \<noteq> []"
    by (auto simp: sign_preflight_of_def preflight_proceeds)
  obtain n where n: "big_int (r_fromAmount r) = Some n" "n > 0" using sendable_request(5) [OF s] by blast
  have "names_the_form e m td"
    using b n w \<open>\<not> fl_preview f\<close>
    by (cases "trimmed (cx_recipientAddress (m_ctx m))")
      (simp_all add: names_the_form_def intent_bound_to_request_def Let_def rt fields k')
  with e show ?thesis by blast
qed

text \<open>
  C1. The wallet is only ever asked to sign the trade on the form. Whatever messages a host sends, a prompt for
  the intent answers a Confirm, and its typed data is that of the held quote, which arrived in a reply of this
  run: it spends exactly the typed amount, of the chosen token on the chosen chain, for the chosen token and chain,
  from the connected wallet to the chosen recipient (or that wallet), under the chosen settlement, and pays out
  what was rendered; its deadline, if it has one, was at most an hour ahead of the clock when that reply arrived. The
  wallet is on the origin chain and the quote is not past its expiry.
\<close>

theorem prompted_intent_is_the_form:
  assumes "m = fst (run (init_model config ctx hidden) gs)"
    and "Wallet (SignTypedData sid ForIntent td ch) \<in> set (snd (update env m g))"
  shows "body g = SignRequested
    \<and> (\<exists>q a e h fid. i_quote (m_intent m) = Some q \<and> q_canSolve q \<and> \<not> quote_is_preview q
         \<and> q_eip712Data q = Some td
         \<and> (e, h) \<in> set gs \<and> body h = QuoteReplied fid (Inr q) \<and> names_the_form e m td
         \<and> resolved_recipient (m_ctx m) = Some a \<and> pays_out td (q_toAmount q) a
         \<and> (\<forall>x. quote_expiry_ms env (Some q) = Some x \<and> x \<noteq> 0 \<longrightarrow> msg_now g < x))
    \<and> wl_chainId (cx_wallet (m_ctx m)) = Some (cx_fromChainId (m_ctx m))
    \<and> ch = Some (cx_fromChainId (m_ctx m))"
proof -
  let ?m = "m\<lparr>m_hidden := msg_hidden g\<rparr>"
  from assms(2) have e: "Wallet (SignTypedData sid ForIntent td ch) \<in> set (snd (step env g ?m))"
    by (rule update_effect) simp
  from sign_intent_step [OF e] have g: "body g = SignRequested" by simp
  with e obtain q where c: "confirmable env (msg_now g) ?m q td" and ch: "ch = wl_chainId (cx_wallet (m_ctx m))"
    using begin_sign_emits by (fastforce simp: step_def Let_def)
  have s: "sound (quoted_in gs) ?m" using trade.reached_inv [OF run_arriving] by (simp add: assms(1))
  have n: "\<exists>e h fid. (e, h) \<in> set gs \<and> body h = QuoteReplied fid (Inr q) \<and> names_the_form e m td"
    using held_names_the_form [OF s c] by (auto simp: names_the_form_def quoted_in_def)
  from c have pf: "sign_preflight_of env (msg_now g) ?m = PfProceed" by (simp add: confirmable_def)
  then have w: "wl_chainId (cx_wallet (m_ctx m)) = Some (cx_fromChainId (m_ctx m))"
    by (simp add: sign_preflight_of_def preflight_proceeds)
  have x: "\<forall>e. quote_expiry_ms env (i_quote (m_intent m)) = Some e \<and> e \<noteq> 0 \<longrightarrow> msg_now g < e"
    using pf by (simp add: sign_preflight_of_def preflight_proceeds)
  from c have "validate_payout_pin td (payout_expectation_of ?m q) = Inr ()" by (simp add: confirmable_def)
  then obtain a where "resolved_recipient (m_ctx m) = Some a" "pays_out td (q_toAmount q) a"
    by (auto simp: validate_payout_pin_iff payout_expectation_of_def)
  moreover have "i_quote (m_intent m) = Some q" "q_canSolve q" "\<not> quote_is_preview q" "q_eip712Data q = Some td"
    using c by (simp_all add: confirmable_def)
  moreover have "\<forall>e. quote_expiry_ms env (Some q) = Some e \<and> e \<noteq> 0 \<longrightarrow> msg_now g < e" using x calculation(3) by simp
  ultimately show ?thesis using g n w ch by auto
qed

section \<open>The origin pull\<close>

text \<open>A pull is only raised once it is pinned, for the amount that was quoted.\<close>

definition pinned_pull :: "arrivals \<Rightarrow> machine_config \<Rightarrow> model \<Rightarrow> typed_data \<Rightarrow> int \<Rightarrow> bool" where
  "pinned_pull A cfg m pull n \<longleftrightarrow> n > 0 \<and> extract_pull_amount pull = Some n
     \<and> (pinned_erc3009 pull (cfg_solverPin cfg) \<or> pinned_permit2 pull (cfg_solverPin cfg))
     \<and> (\<exists>q td kind e c r. i_quote (m_intent m) = Some q \<and> q_pullAuthorization q = Some pull \<and> q_eip712Data q = Some td
          \<and> A e q \<and> m_quotedTrade m = Some (trade_key_of c) \<and> r_fromChainId r = cx_fromChainId c
          \<and> r_fromToken r = cx_fromToken c \<and> i_quotedFromAmount (m_intent m) = Some (r_fromAmount r)
          \<and> big_int (r_fromAmount r) = Some n
          \<and> pull_kind_of pull = Inr kind \<and> pull_bound_to_request e r td kind pull
          \<and> pull_recipient_pinned td kind pull (cfg_pullRecipients cfg))"

lemma pinned_pull_reads:
  "m_intent x = m_intent m \<Longrightarrow> m_quotedTrade x = m_quotedTrade m \<Longrightarrow> pinned_pull A cfg x pull n = pinned_pull A cfg m pull n"
  by (simp add: pinned_pull_def)

lemma or_null_Some: "or_null (Some a) = (if a = [] then None else Some a)"
  by (simp add: or_null_def)

lemma pull_checked_pinned:
  assumes m: "sound A m" and h: "signable_held (m_intent m)" and p: "pull_checked (m_config m) (m_intent m)"
  shows "\<exists>pull td n. quote_field m q_pullAuthorization = Some pull \<and> quote_field m q_eip712Data = Some td
    \<and> js_bigint (intended_amount m td) = Some n \<and> pinned_pull A (m_config m) m pull n"
proof -
  from p obtain q pull td n where q: "i_quote (m_intent m) = Some q" "q_pullAuthorization q = Some pull"
      "q_eip712Data q = Some td"
    and n: "js_bigint (case or_null (i_quotedFromAmount (m_intent m)) of Some a \<Rightarrow> VStr a
        | None \<Rightarrow> (if truthy (msg td ''fromAmount'') then msg td ''fromAmount'' else VStr ''0'')) = Some n"
    and v: "validate_solver_pin pull (cfg_solverPin (m_config m)) n = Inr ()"
    unfolding pull_checked_def by blast
  from h q have solv: "q_canSolve q" "\<not> has_deposit_address q" by (auto simp: signable_held_def)
  from m q(1) solv obtain f where ve: "vetted A (cfg_pullRecipients (m_config m)) f q"
      and am: "i_quotedFromAmount (m_intent m) = Some (fl_amount f)" and tr: "m_quotedTrade m = Some (trade_key_of (fl_ctx f))"
    by (auto simp: sound_def quote_ok_def held_ok_def)
  from vetted_signable [OF ve solv(2) q(3)] obtain e r where r: "fl_request f = Some r" and e: "A e q"
      and ok: "check_signable_quote e r q (cfg_pullRecipients (m_config m)) = Inr ()" by blast
  from ve have "asked f" by (simp add: vetted_def)
  from asked_sendable [OF this] r obtain e' t where rt: "r = build_quote_request (raw_request f t)"
      and s: "sendable e' (params_of_request r) t" by auto
  obtain k where k: "big_int (r_fromAmount r) = Some k" "k > 0" using sendable_request(5) [OF s] by blast
  then have fk: "big_int (fl_amount f) = Some k" by (simp add: rt)
  have "fl_amount f \<noteq> []" using s by (auto simp: rt sendable_def params_of_request_def)
  then have "n = k" using n fk by (simp add: am or_null_Some js_bigint_def)
  from accepted_signable [OF ok s q(2)] obtain td' kind where "q_eip712Data q = Some td'"
      "pull_kind_of pull = Inr kind" "pull_bound_to_request e r td' kind pull"
      "pull_recipient_pinned td' kind pull (cfg_pullRecipients (m_config m))" by blast
  moreover have "r_fromChainId r = cx_fromChainId (fl_ctx f)" "r_fromToken r = cx_fromToken (fl_ctx f)" "r_fromAmount r = fl_amount f"
    by (simp_all add: rt)
  moreover have "n > 0" "extract_pull_amount pull = Some n"
    "pinned_erc3009 pull (cfg_solverPin (m_config m)) \<or> pinned_permit2 pull (cfg_solverPin (m_config m))"
    using v k(2) \<open>n = k\<close> by (auto simp: validate_solver_pin_ok)
  ultimately have "pinned_pull A (m_config m) m pull n"
    using q e tr am k(1) \<open>n = k\<close> unfolding pinned_pull_def by metis
  moreover have "js_bigint (intended_amount m td) = Some n" using n unfolding intended_amount_def .
  ultimately show ?thesis using q by (auto simp: quote_field_def)
qed

lemma complete_pull_emits:
  assumes "Wallet (EnsureApproval fid amt) \<in> set (snd (complete_pull s m))"
  shows "pull_checked (m_config m) (m_intent m)
    \<and> (\<exists>td n. quote_field m q_eip712Data = Some td \<and> js_bigint (intended_amount m td) = Some n \<and> amt = show_int n)"
proof -
  let ?e = "Wallet (EnsureApproval fid amt)"
  have t: "?e \<notin> set (snd (transition x to u))" for x to u
    using only_excludes [OF quiet_onlyI(1) [of "{}" x to u]] by simp
  have f: "?e \<notin> set (snd (sign_flow_failed rp x))" for rp x
    using only_excludes [OF sign_flow_failed_kinds] by simp
  from assms obtain pull where p: "quote_field m q_pullAuthorization = Some pull"
    by (cases "quote_field m q_pullAuthorization") (auto simp: complete_pull_def)
  from assms p obtain td where d: "quote_field m q_eip712Data = Some td"
    by (cases "quote_field m q_eip712Data") (auto simp: complete_pull_def)
  from assms p d f obtain n where n: "js_bigint (intended_amount m td) = Some n"
    by (cases "js_bigint (intended_amount m td)") (auto simp: complete_pull_def)
  from assms p d n t have v: "validate_solver_pin pull (cfg_solverPin (m_config m)) n = Inr ()"
    by (cases "validate_solver_pin pull (cfg_solverPin (m_config m)) n") (auto simp: complete_pull_def log_fx_def)
  with assms p d n have "amt = show_int n" by (simp add: complete_pull_def)
  with pull_checkedI [OF p d n v] d n show ?thesis by blast
qed

text \<open>The approval is raised for the pinned amount.\<close>

lemma approval_emits:
  assumes m: "sound A m" and e: "Wallet (EnsureApproval fid amt) \<in> set (snd (step env g m))"
  shows "\<exists>pull n. pinned_pull A (m_config m) m pull n \<and> amt = show_int n"
proof -
  let ?e = "Wallet (EnsureApproval fid amt)"
  have conclude: ?thesis
    if "?e \<in> set (snd (complete_pull s x))" "m_intent x = m_intent m" "m_config x = m_config m" "m_quotedTrade x = m_quotedTrade m" "sound A x"
      "signable_held (m_intent m)" for s x
  proof -
    from complete_pull_emits [OF that(1)] obtain td n where k: "pull_checked (m_config x) (m_intent x)"
      "quote_field x q_eip712Data = Some td" "js_bigint (intended_amount x td) = Some n" "amt = show_int n" by blast
    from pull_checked_pinned [OF that(5) _ k(1)] that(2,6) obtain pull n' where "js_bigint (intended_amount x td) = Some n'"
      "pinned_pull A (m_config x) x pull n'" using k(2) by auto
    then show ?thesis using k(3,4) that(3) pinned_pull_reads [OF that(2,4)] by auto
  qed
  have nt: "?e \<notin> set (snd (transition x to u))" for x to u
    using only_excludes [OF quiet_onlyI(1) [of "{}" x to u]] by simp
  from approval_step [OF e] consider "body g = PullSignRequested"
    | (signed) fid' p res where "body g = SignReplied fid' p res" by auto
  then show ?thesis
  proof cases
    case 1
    let ?x = "m\<lparr>m_isSigningPull := True, m_seq := m_seq m + 1\<rparr>"
    from e 1 have b: "?e \<in> set (snd (begin_pull_sign env (msg_now g) m))" by (simp add: step_def Let_def)
    then have p: "m_pendingIntentSig m \<noteq> None"
      by (cases "m_pendingIntentSig m") (auto simp: begin_pull_sign_def)
    from b nt obtain s where "?e \<in> set (snd (complete_pull s ?x))"
      by (auto simp: begin_pull_sign_def Let_def split: if_splits sign_preflight.splits)
    then show ?thesis by (rule conclude) (use m ceremony_held(2) [OF m p] in simp_all)
  next
    case signed
    from e signed have b: "?e \<in> set (snd (on_signed (msg_now g) fid' p res m))" by (simp add: step_def Let_def)
    have nf: "?e \<notin> set (snd (sign_flow_failed rp x))" for rp x
      using only_excludes [OF sign_flow_failed_kinds] by simp
    have nr: "?e \<notin> set (snd (run_execute now s a b' x))" for now s a b' x
      using only_excludes [OF run_execute_kinds] by simp
    from b obtain s where s: "flow_at m fid' (stage_of_purpose p) = Some s"
      by (cases "flow_at m fid' (stage_of_purpose p)") (simp_all add: on_signed_def)
    then have sm: "m_sign m = Some s" by (simp add: flow_at_Some)
    from b s obtain sig where i: "i_status (m_intent m) = Signing" "p = ForIntent" "res = Inr sig"
      "?e \<in> set (snd (intent_signed (msg_now g) s sig m))"
      using nf nr by (auto simp: on_signed_def clear_timer_def abandon_sign_def set_timer_def
          split: if_splits sum.splits sign_purpose.splits)
    let ?x = "m\<lparr>m_pendingIntentSig := Some sig\<rparr>"
    have "?e \<in> set (snd (complete_pull (s\<lparr>sg_intentSignature := Some sig\<rparr>) ?x))"
      using i(4) nr by (auto simp: intent_signed_def Let_def split: if_splits)
    moreover have "sound A ?x" using m sm i(1) by (simp add: sound_defs Let_def)
    ultimately show ?thesis using ceremony_held(1) [OF m sm] by (intro conclude [where x = ?x]) simp_all
  qed
qed

lemma pull_prompt_emits:
  assumes m: "sound A m" and e: "Wallet (SignTypedData sid ForPull pull ch) \<in> set (snd (step env g m))"
  shows "\<exists>n. pinned_pull A (m_config m) m pull n"
proof -
  let ?e = "Wallet (SignTypedData sid ForPull pull ch)"
  from sign_pull_step [OF e] obtain fid res where g: "body g = ApprovalReplied fid res" by auto
  with e have b: "?e \<in> set (snd (on_approval fid res m))" by (simp add: step_def Let_def)
  have nt: "?e \<notin> set (snd (transition x to u))" for x to u
    using only_excludes [OF quiet_onlyI(1) [of "{}" x to u]] by simp
  have nf: "?e \<notin> set (snd (sign_flow_failed rp x))" for rp x
    using only_excludes [OF sign_flow_failed_kinds] by simp
  from b obtain s where s: "flow_at m fid StageApproval = Some s"
    by (cases "flow_at m fid StageApproval") (simp_all add: on_approval_def)
  then have sm: "m_sign m = Some s" "sg_stage s = StageApproval" by (simp_all add: flow_at_Some)
  from b s have q: "quote_field m q_pullAuthorization = Some pull"
    using nt nf by (auto simp: on_approval_def set_timer_def split: sum.splits if_splits option.splits)
  from pull_checked_pinned [OF m ceremony_held(1) [OF m sm(1)] sound_pull [OF m sm(1)]] sm q
  show ?thesis by auto
qed

text \<open>
  C2. The origin pull is pinned before the wallet sees it. Whatever messages a host sends, a token approval or a
  prompt for the pull is raised only for the pull of the held quote, which arrived in a reply of this run and was
  asked for the trade the machine holds it for. That pull was checked against the operator's solver pin and the
  client's pinned recipients: it collects exactly the amount that was quoted for, of the token of that trade, on
  the origin chain of that trade, and, where it and the intent carry an expiry, expires at most two hours after the
  reply arrived. The approval is for that amount.
\<close>

theorem pull_prompts_are_pinned:
  assumes "m = fst (run (init_model config ctx hidden) gs)"
  shows "(Wallet (SignTypedData sid ForPull pull ch) \<in> set (snd (update env m g)) \<longrightarrow>
      (\<exists>n. pinned_pull (quoted_in gs) config m pull n))
    \<and> (Wallet (EnsureApproval fid amt) \<in> set (snd (update env m g)) \<longrightarrow>
      (\<exists>p n. pinned_pull (quoted_in gs) config m p n \<and> amt = show_int n))"
proof -
  let ?A = "quoted_in gs" and ?m = "m\<lparr>m_hidden := msg_hidden g\<rparr>"
  have m: "sound ?A ?m" using trade.reached_inv [OF run_arriving] by (simp add: assms)
  have c: "m_config m = config" using configured.reached_inv [OF run_arriving] by (simp add: assms)
  have h: "pinned_pull ?A config ?m p n \<longleftrightarrow> pinned_pull ?A config m p n" for p n by (simp add: pinned_pull_def)
  have "\<exists>n. pinned_pull ?A config m pull n"
    if "Wallet (SignTypedData sid ForPull pull ch) \<in> set (snd (update env m g))"
    using pull_prompt_emits [OF m update_effect [OF that]] c h by simp
  moreover have "\<exists>p n. pinned_pull ?A config m p n \<and> amt = show_int n"
    if "Wallet (EnsureApproval fid amt) \<in> set (snd (update env m g))"
    using approval_emits [OF m update_effect [OF that]] c h by simp
  ultimately show ?thesis by blast
qed

end
