(* ===== verification/MachineSettle.thy ===== *)
theory MachineSettle
  imports MachineSafety
begin

text \<open>
  The reactive rules settle: after \<open>settle\<close> every key a rule watches is current, so running the rules
  again changes nothing and asks for nothing.
\<close>

section \<open>What each rule changes\<close>

definition with_wallet_key :: "model \<Rightarrow> model" where
  "with_wallet_key m = m\<lparr>m_watched := (m_watched m)\<lparr>wk_wallet := Some (wallet_key_of m)\<rparr>\<rparr>"

definition restarted :: "model \<Rightarrow> model" where
  "restarted m = m\<lparr>m_intent := INITIAL_INTENT_STATE, m_refresh := None, m_awaitingPull := False,
     m_isSigningPull := False, m_pendingIntentSig := None, m_sign := None\<rparr>"

lemma watch_wallet_cases:
  "fst (watch_wallet m) = with_wallet_key m
   \<or> fst (watch_wallet m) = restarted (with_wallet_key m) \<and> \<not> blank_str (i_quotedAddress (m_intent m))"
proof -
  have "wk_wallet (m_watched m) = Some (wallet_key_of m) \<Longrightarrow> with_wallet_key m = m"
    by (simp add: with_wallet_key_def)
  then show ?thesis by (auto simp: watch_wallet_def with_wallet_key_def restarted_def Let_def)
qed

lemma send_quote_silent:
  "fl_silent f \<Longrightarrow> \<exists>fs. fst (send_quote env now f m) = m\<lparr>m_flights := fs\<rparr>"
  unfolding send_quote_def Let_def fst_if emitting_simps and_then_simps
  by (simp add: without_flight_def put_flight_def) blast

lemma upgrade_preview_fst:
  "\<exists>n fs. fst (upgrade_preview env now m) =
     m\<lparr>m_watched := (m_watched m)\<lparr>wk_upgrade := Some (upgrade_key_of m)\<rparr>, m_seq := n, m_flights := fs\<rparr>"
proof (cases "wk_upgrade (m_watched m) = Some (upgrade_key_of m)")
  case True
  then show ?thesis by (intro exI [of _ "m_seq m"] exI [of _ "m_flights m"]) (simp add: upgrade_preview_def)
next
  case False
  let ?n = "m\<lparr>m_watched := (m_watched m)\<lparr>wk_upgrade := Some (upgrade_key_of m)\<rparr>\<rparr>"
  let ?c = "should_upgrade_preview_quote (\<not> blank_str (wl_address (cx_wallet (m_ctx m)))) (m_amount m \<noteq> [])
             (i_status (m_intent m)) (held_preview m) (\<not> is_chain_id (cx_fromChainId (m_ctx m)))"
  show ?thesis
  proof (cases ?c)
    case True
    then have w: "\<not> blank_str (wl_address (cx_wallet (m_ctx m)))" "is_chain_id (cx_fromChainId (m_ctx m))"
      "i_status (m_intent m) = Quoted" by (simp_all add: should_upgrade_preview_quote_def)
    define f where "f = \<lparr>fl_id = CHR ''q'' # show_nat (m_seq m + 1), fl_stage = FSession, fl_amount = m_amount m,
       fl_silent = True, fl_forceRefresh = True, fl_allocate = None, fl_ctx = m_ctx m, fl_depositOrigin = False,
       fl_preview = False, fl_request = None\<rparr>"
    have "start_quote env now \<lparr>qo_amount = m_amount m, qo_silent = True, qo_forceRefresh = True,
        qo_allocate = None\<rparr> ?n = send_quote env now f (?n\<lparr>m_seq := m_seq m + 1\<rparr>)"
      using w by (simp add: start_quote_def held_may_have_moved_def quote_access_decision_def f_def Let_def)
    moreover obtain fs where "fst (send_quote env now f (?n\<lparr>m_seq := m_seq m + 1\<rparr>)) =
        ?n\<lparr>m_seq := m_seq m + 1\<rparr>\<lparr>m_flights := fs\<rparr>"
      using send_quote_silent [of f env now "?n\<lparr>m_seq := m_seq m + 1\<rparr>"] by (auto simp: f_def)
    ultimately show ?thesis using False True
      by (intro exI [of _ "m_seq m + 1"] exI [of _ fs]) (simp add: upgrade_preview_def Let_def)
  next
    case c: False
    show ?thesis using False c
      by (intro exI [of _ "m_seq m"] exI [of _ "m_flights m"]) (simp add: upgrade_preview_def Let_def)
  qed
qed

text \<open>A quote ran out, or nothing changed.\<close>

definition expired_or_same :: "intent_state \<Rightarrow> intent_state \<Rightarrow> bool" where
  "expired_or_same i j \<longleftrightarrow> j = i \<or> i_status i = Quoted
     \<and> j = i\<lparr>i_status := Expired, i_error := Some (ErrText ''Quote expired''), i_notSent := False\<rparr>"

lemma arm_expiry_fst:
  "\<exists>x j. fst (arm_expiry env now m) = m\<lparr>m_watched := (m_watched m)\<lparr>wk_expiry := expiry_key_of m\<rparr>,
     m_quoteExpiresIn := x, m_intent := j\<rparr> \<and> expired_or_same (m_intent m) j
     \<and> (expiry_key_of m = None \<or> wk_expiry (m_watched m) = expiry_key_of m \<longrightarrow> j = m_intent m)"
proof -
  let ?n = "m\<lparr>m_watched := (m_watched m)\<lparr>wk_expiry := expiry_key_of m\<rparr>\<rparr>"
  have same: "\<exists>x j. y = m\<lparr>m_watched := (m_watched m)\<lparr>wk_expiry := expiry_key_of m\<rparr>,
     m_quoteExpiresIn := x, m_intent := j\<rparr> \<and> expired_or_same (m_intent m) j
     \<and> (expiry_key_of m = None \<or> wk_expiry (m_watched m) = expiry_key_of m \<longrightarrow> j = m_intent m)" if "y = ?n\<lparr>m_quoteExpiresIn := x\<rparr>" for y x
    by (intro exI [of _ x] exI [of _ "m_intent m"]) (simp add: that expired_or_same_def)
  show ?thesis
  proof (cases "wk_expiry (m_watched m) = expiry_key_of m")
    case True
    then show ?thesis by (intro same [of _ "m_quoteExpiresIn m"]) (simp add: arm_expiry_def)
  next
    case False
    show ?thesis
    proof (cases "expiry_key_of m")
      case None
      then show ?thesis unfolding arm_expiry_def if_not_P [OF False]
        by (intro same [of _ None]) (simp add: Let_def)
    next
      case (Some k)
      then obtain q where q: "i_quote (m_intent m) = Some q" "i_status (m_intent m) = Quoted" "q_expiry q \<noteq> []"
        by (auto simp: expiry_key_of_def split: option.splits if_splits)
      have f: "fst (arm_expiry env now m) = fst (tick_expiry env now ?n)"
        using False Some by (simp add: arm_expiry_def Let_def)
      show ?thesis
      proof (cases "date_get_time env (q_expiry q)")
        case None
        then show ?thesis using q f by (intro same [of _ "Some NaN"]) (simp add: tick_expiry_def)
      next
        case t: (Some t)
        define r where "r = max (0 :: num) (of_int \<lfloor>(t - now) / 1000\<rfloor>)"
        show ?thesis
        proof (cases "r = 0")
          case False
          then show ?thesis using q f t by (intro same [of _ "Some (Fin r)"]) (simp add: tick_expiry_def r_def Let_def)
        next
          case True
          have "fst (tick_expiry env now ?n) = fst (transition (?n\<lparr>m_quoteExpiresIn := Some (Fin r)\<rparr>)
              (StatusOf Expired) (set_error ''Quote expired''))"
            using q t True by (simp add: tick_expiry_def r_def Let_def)
          also have "\<dots> = ?n\<lparr>m_quoteExpiresIn := Some (Fin r), m_intent := (m_intent m)\<lparr>i_status := Expired,
              i_error := Some (ErrText ''Quote expired''), i_notSent := False\<rparr>\<rparr>"
            using q by (simp add: transition_fst left_ceremony_def Let_def set_error_def)
          finally show ?thesis using f q False Some
            by (intro exI [of _ "Some (Fin r)"] exI [of _ "(m_intent m)\<lparr>i_status := Expired,
              i_error := Some (ErrText ''Quote expired''), i_notSent := False\<rparr>"]) (auto simp: expired_or_same_def)
        qed
      qed
    qed
  qed
qed

lemma arm_poll_parts:
  defines "r \<equiv> \<lambda>env now m. fst (arm_poll env now m)"
  shows "r env now m = m\<lparr>m_seq := m_seq (r env now m), m_poll := m_poll (r env now m)\<rparr>
    \<and> map_option pl_key (m_poll (r env now m)) = poll_key_of m"
proof (cases "poll_key_of m = map_option pl_key (m_poll m)")
  case True
  then show ?thesis by (simp add: r_def arm_poll_def)
next
  case False
  then show ?thesis
    by (cases "poll_key_of m"; cases "awaiting_resend m")
      (simp_all add: r_def arm_poll_def poll_tick_def Let_def)
qed

lemma arm_poll_fst:
  "\<exists>n p. fst (arm_poll env now m) = m\<lparr>m_seq := n, m_poll := p\<rparr> \<and> map_option pl_key p = poll_key_of m"
  using arm_poll_parts by blast

section \<open>Settled models\<close>

text \<open>What each key reads.\<close>

lemma expiry_key_reads: "m_intent m = m_intent n \<Longrightarrow> expiry_key_of m = expiry_key_of n"
  by (simp add: expiry_key_of_def split: option.split)

lemma poll_key_reads: "m_intent m = m_intent n \<Longrightarrow> m_sign m = m_sign n \<Longrightarrow> poll_key_of m = poll_key_of n"
  by (simp add: poll_key_of_def awaiting_resend_def Let_def cong: if_cong option.case_cong)

lemma wallet_key_reads:
  "m_ctx m = m_ctx n \<Longrightarrow> i_quotedAddress (m_intent m) = i_quotedAddress (m_intent n) \<Longrightarrow>
   i_quotedChainId (m_intent m) = i_quotedChainId (m_intent n) \<Longrightarrow> wallet_key_of m = wallet_key_of n"
  by (simp add: wallet_key_of_def)

lemma upgrade_key_reads:
  "m_ctx m = m_ctx n \<Longrightarrow> m_amount m = m_amount n \<Longrightarrow> i_quote (m_intent m) = i_quote (m_intent n) \<Longrightarrow>
   i_status (m_intent m) = i_status (m_intent n) \<Longrightarrow> upgrade_key_of m = upgrade_key_of n"
  by (simp add: upgrade_key_of_def held_preview_def)

lemma expired_key: "i_status (m_intent m) \<noteq> Quoted \<Longrightarrow> expiry_key_of m = None"
  by (simp add: expiry_key_of_def split: option.splits)

definition settled :: "model \<Rightarrow> bool" where
  "settled m \<longleftrightarrow> wk_wallet (m_watched m) = Some (wallet_key_of m)
     \<and> wk_upgrade (m_watched m) = Some (upgrade_key_of m)
     \<and> wk_expiry (m_watched m) = expiry_key_of m
     \<and> map_option pl_key (m_poll m) = poll_key_of m"

lemma settled_pass: "settled m \<Longrightarrow> settle_pass env now m = (m, [])"
  by (simp add: settled_def settle_pass_def watch_wallet_def upgrade_preview_def arm_expiry_def arm_poll_def
      and_then_def)

lemma settled_passes: "settled m \<Longrightarrow> settle_passes n env now m = (m, [])"
  by (cases n) (simp_all add: settled_pass)

text \<open>One pass leaves the last three keys current unless a quote ran out, and the first unless the
  wallet moved.\<close>

lemma pass_shape:
  obtains w n fs x j n' p where "fst (settle_pass env now m) = w\<lparr>m_watched := (m_watched w)\<lparr>
       wk_upgrade := Some (upgrade_key_of w), wk_expiry := expiry_key_of w\<rparr>, m_seq := n', m_flights := fs,
       m_quoteExpiresIn := x, m_intent := j, m_poll := p\<rparr>"
    "w = fst (watch_wallet m)" "expired_or_same (m_intent w) j" "expiry_key_of w = None \<or> wk_expiry (m_watched w) = expiry_key_of w \<longrightarrow> j = m_intent w"
    "map_option pl_key p = poll_key_of (w\<lparr>m_intent := j\<rparr>)"
proof -
  define w where "w = fst (watch_wallet m)"
  obtain n fs where u: "fst (upgrade_preview env now w) =
      w\<lparr>m_watched := (m_watched w)\<lparr>wk_upgrade := Some (upgrade_key_of w)\<rparr>, m_seq := n, m_flights := fs\<rparr>"
    using upgrade_preview_fst by blast
  let ?u = "w\<lparr>m_watched := (m_watched w)\<lparr>wk_upgrade := Some (upgrade_key_of w)\<rparr>, m_seq := n, m_flights := fs\<rparr>"
  obtain x j where e: "fst (arm_expiry env now ?u) = ?u\<lparr>m_watched := (m_watched ?u)\<lparr>wk_expiry := expiry_key_of ?u\<rparr>,
     m_quoteExpiresIn := x, m_intent := j\<rparr>" "expired_or_same (m_intent ?u) j"
     "expiry_key_of ?u = None \<or> wk_expiry (m_watched ?u) = expiry_key_of ?u \<longrightarrow> j = m_intent ?u"
    using arm_expiry_fst by blast
  let ?e = "?u\<lparr>m_watched := (m_watched ?u)\<lparr>wk_expiry := expiry_key_of ?u\<rparr>, m_quoteExpiresIn := x, m_intent := j\<rparr>"
  obtain n' p where p: "fst (arm_poll env now ?e) = ?e\<lparr>m_seq := n', m_poll := p\<rparr>"
    "map_option pl_key p = poll_key_of ?e"
    using arm_poll_fst by blast
  have k: "expiry_key_of ?u = expiry_key_of w" "poll_key_of ?e = poll_key_of (w\<lparr>m_intent := j\<rparr>)"
    by (rule expiry_key_reads poll_key_reads; simp)+
  have "fst (settle_pass env now m) = fst (arm_poll env now ?e)"
    by (simp only: settle_pass_def and_then_simps w_def [symmetric] u e(1))
  also have "\<dots> = ?e\<lparr>m_seq := n', m_poll := p\<rparr>" by (rule p(1))
  also have "\<dots> = w\<lparr>m_watched := (m_watched w)\<lparr>wk_upgrade := Some (upgrade_key_of w),
      wk_expiry := expiry_key_of w\<rparr>, m_seq := n', m_flights := fs, m_quoteExpiresIn := x, m_intent := j, m_poll := p\<rparr>"
    by (simp add: k(1))
  finally show ?thesis using that w_def e(2,3) p(2) k by simp
qed

text \<open>The wallet key is the only one a restart can leave behind, a quote that ran out the next two.\<close>

definition nearly_settled :: "model \<Rightarrow> bool" where
  "nearly_settled m \<longleftrightarrow> map_option pl_key (m_poll m) = poll_key_of m
     \<and> (wk_wallet (m_watched m) = Some (wallet_key_of m)
          \<and> (i_status (m_intent m) = Expired \<or> wk_upgrade (m_watched m) = Some (upgrade_key_of m)
               \<and> wk_expiry (m_watched m) = expiry_key_of m)
        \<or> blank_str (i_quotedAddress (m_intent m)) \<and> wk_upgrade (m_watched m) = Some (upgrade_key_of m)
          \<and> wk_expiry (m_watched m) = expiry_key_of m)"

lemma first_pass: "nearly_settled (fst (settle_pass env now m))"
proof -
  obtain w n' fs x j p where f: "fst (settle_pass env now m) = w\<lparr>m_watched := (m_watched w)\<lparr>
       wk_upgrade := Some (upgrade_key_of w), wk_expiry := expiry_key_of w\<rparr>, m_seq := n', m_flights := fs,
       m_quoteExpiresIn := x, m_intent := j, m_poll := p\<rparr>" (is "_ = ?r")
    and w: "w = fst (watch_wallet m)" and j: "expired_or_same (m_intent w) j" "expiry_key_of w = None \<or> wk_expiry (m_watched w) = expiry_key_of w \<longrightarrow> j = m_intent w"
    and p: "map_option pl_key p = poll_key_of (w\<lparr>m_intent := j\<rparr>)"
    by (rule pass_shape)
  have pk: "map_option pl_key (m_poll ?r) = poll_key_of ?r"
    using p poll_key_reads [of ?r "w\<lparr>m_intent := j\<rparr>"] by simp
  have same: "wk_upgrade (m_watched ?r) = Some (upgrade_key_of ?r) \<and> wk_expiry (m_watched ?r) = expiry_key_of ?r"
    if "j = m_intent w"
    using that upgrade_key_reads [of ?r w] expiry_key_reads [of ?r w] by simp
  have j': "j = m_intent w \<or> i_status j = Expired"
    "i_quotedAddress j = i_quotedAddress (m_intent w)" "i_quotedChainId j = i_quotedChainId (m_intent w)"
    using j(1) by (auto simp: expired_or_same_def)
  from watch_wallet_cases [of m] w consider
      (key) "w = with_wallet_key m" | (reset) "w = restarted (with_wallet_key m)" by auto
  then have "nearly_settled ?r"
  proof cases
    case key
    then have "wallet_key_of ?r = wallet_key_of m"
      by (intro wallet_key_reads) (simp_all add: j' with_wallet_key_def)
    moreover have "wk_wallet (m_watched ?r) = Some (wallet_key_of m)"
      using key by (simp add: with_wallet_key_def)
    ultimately show ?thesis using pk same j'(1) unfolding nearly_settled_def by auto
  next
    case reset
    then have k: "expiry_key_of w = None" "m_intent w = INITIAL_INTENT_STATE"
      by (simp_all add: restarted_def expired_key)
    with j(2) pk same show ?thesis unfolding nearly_settled_def by simp
  qed
  then show ?thesis by (simp only: f)
qed

lemma second_pass:
  assumes n: "nearly_settled m"
  shows "settled (fst (settle_pass env now m))"
proof -
  obtain w n' fs x j p where f: "fst (settle_pass env now m) = w\<lparr>m_watched := (m_watched w)\<lparr>
       wk_upgrade := Some (upgrade_key_of w), wk_expiry := expiry_key_of w\<rparr>, m_seq := n', m_flights := fs,
       m_quoteExpiresIn := x, m_intent := j, m_poll := p\<rparr>" (is "_ = ?r")
    and w: "w = fst (watch_wallet m)" and j: "expired_or_same (m_intent w) j" "expiry_key_of w = None \<or> wk_expiry (m_watched w) = expiry_key_of w \<longrightarrow> j = m_intent w"
    and p: "map_option pl_key p = poll_key_of (w\<lparr>m_intent := j\<rparr>)"
    by (rule pass_shape)
  show ?thesis
  proof (cases "settled m")
    case True
    then show ?thesis by (simp add: settled_pass)
  next
    case False
    have wk: "w = with_wallet_key m"
      using n watch_wallet_cases [of m] w
      by (auto simp: nearly_settled_def watch_wallet_def with_wallet_key_def)
    have "expiry_key_of w = expiry_key_of m" using wk by (intro expiry_key_reads) (simp add: with_wallet_key_def)
    moreover have "wk_expiry (m_watched w) = wk_expiry (m_watched m)" using wk by (simp add: with_wallet_key_def)
    ultimately have "expiry_key_of w = None \<or> wk_expiry (m_watched w) = expiry_key_of w"
      using n by (auto simp: nearly_settled_def expired_key)
    then have jw: "j = m_intent w" using j(2) by blast
    have "wallet_key_of ?r = wallet_key_of m" "upgrade_key_of ?r = upgrade_key_of w"
      "expiry_key_of ?r = expiry_key_of w" "poll_key_of ?r = poll_key_of (w\<lparr>m_intent := j\<rparr>)"
      using jw wk by (auto simp: with_wallet_key_def intro!: wallet_key_reads upgrade_key_reads expiry_key_reads
          poll_key_reads)
    then have "settled ?r" unfolding settled_def using p wk by (simp add: with_wallet_key_def)
    then show ?thesis by (simp only: f)
  qed
qed

lemma settle_settled: "settled (fst (settle env now m))"
proof -
  define p1 where "p1 = fst (settle_pass env now m)"
  define p2 where "p2 = fst (settle_pass env now p1)"
  have n: "nearly_settled p1" by (simp add: p1_def first_pass)
  have s: "settled p2" unfolding p2_def by (rule second_pass [OF n])
  have four: "settle env now m = settle_passes (Suc (Suc (Suc (Suc 0)))) env now m"
    by (simp add: settle_def numeral_eq_Suc)
  show ?thesis
  proof (cases "p1 = m")
    case True
    then have "settled m" using s by (simp add: p1_def p2_def)
    then show ?thesis by (simp add: settle_def settled_passes)
  next
    case p1: False
    show ?thesis
    proof (cases "p2 = p1")
      case True
      then have "settled p1" using s by simp
      then show ?thesis using p1 unfolding four by (simp add: p1_def [symmetric] settled_pass Let_def)
    next
      case False
      then show ?thesis using p1 s unfolding four
        by (simp add: p1_def [symmetric] p2_def [symmetric] settled_pass Let_def)
    qed
  qed
qed

text \<open>
  C29. The reactive rules settle. The four passes \<open>update\<close> runs after a step are enough: afterwards the
  wallet, preview, expiry and poll rules are all quiet, at any later time and in any environment, until
  the next message.
\<close>

theorem reactive_rules_settle:
  "settle_pass env' now' (fst (settle env now m)) = (fst (settle env now m), [])"
  by (rule settled_pass [OF settle_settled])

lemma update_settled: "settled (fst (update env m g))"
  by (simp add: update_def settle_settled)

text \<open>In a reached model the poll, when there is one, is the poll of the current order and status.\<close>

lemma reached_poll_current:
  assumes "reached ok config m"
  shows "map_option pl_key (m_poll m) = poll_key_of m"
  using assms
proof cases
  case (start ctx hidden)
  then show ?thesis by (simp add: init_model_def poll_key_of_def Let_def)
next
  case (update m' g env)
  then show ?thesis using update_settled by (simp add: settled_def)
qed

text \<open>No poll runs outside the in-flight states.\<close>

lemma reached_no_poll:
  assumes "reached ok config m" "\<not> in_flight (i_status (m_intent m))"
  shows "m_poll m = None"
  using reached_poll_current [OF assms(1)] assms(2) by (simp add: poll_key_of_def Let_def)

end
