(* ===== verification/MachineHold.thy ===== *)
theory MachineHold
  imports MachineSettle
begin

text \<open>
  An order that may have moved funds stays on screen: once an in-flight order failed without the server
  saying that nothing moved, the trade machine neither re-quotes, nor signs, nor executes until the host
  resets it.
\<close>

section \<open>The held failure\<close>

definition locked :: "model \<Rightarrow> bool" where
  "locked m \<longleftrightarrow> sound (\<lambda>_ _. True) m \<and> i_status (m_intent m) = Failed \<and> i_mayHaveMoved (m_intent m)
     \<and> m_flights m = [] \<and> m_poll m = None"

text \<open>
  Every message but a reset and a pushed frame of status idle or quoting, which \<open>map_status_frame\<close> never makes: its
  frames are in flight.
\<close>

definition holding_message :: "message \<Rightarrow> bool" where
  "holding_message g \<longleftrightarrow> body g \<noteq> ResetRequested
     \<and> (\<forall>w. body g = StreamStatus w \<longrightarrow> w_status w \<noteq> StatusOf Idle \<and> w_status w \<noteq> StatusOf Quoting)"

lemma frames_hold: "map_status_frame v r = CurrentFrame revision (Some w) \<Longrightarrow> holding_message (g\<lparr>body := StreamStatus w\<rparr>)"
  by (auto simp: holding_message_def map_status_frame_def message_of_frame_def split: option.splits if_splits)

definition stays :: "model \<Rightarrow> step_result \<Rightarrow> bool" where
  "stays m r \<longleftrightarrow> locked (fst r) \<and> i_intentId (m_intent (fst r)) = i_intentId (m_intent m) \<and> only_quiet (snd r)"

lemma lockedD:
  assumes "locked m"
  shows "i_status (m_intent m) = Failed" "i_mayHaveMoved (m_intent m)" "m_flights m = []" "m_poll m = None"
    "m_sign m = None" "m_pendingIntentSig m = None" "\<not> m_awaitingPull m" "\<not> i_notSent (m_intent m)"
    "\<not> awaiting_resend m" "held_may_have_moved m" "sound (\<lambda>_ _. True) m"
  using assms calm_idle [of "\<lambda>_ _. True" m] by (simp_all add: locked_def awaiting_resend_def held_may_have_moved_def)

lemma stays_refl: "locked m \<Longrightarrow> only_quiet es \<Longrightarrow> stays m (m, es)"
  by (simp add: stays_def)

lemma locked_frame [simp]:
  "locked (m\<lparr>m_amount := a\<rparr>) = locked m" "locked (m\<lparr>m_ctx := c\<rparr>) = locked m"
  "locked (m\<lparr>m_hidden := h\<rparr>) = locked m" "locked (m\<lparr>m_seq := n\<rparr>) = locked m"
  "locked (m\<lparr>m_refresh := r\<rparr>) = locked m" "locked (m\<lparr>m_watched := w\<rparr>) = locked m"
  "locked (m\<lparr>m_allocationKey := k\<rparr>) = locked m" "locked (m\<lparr>m_quoteExpiresIn := x\<rparr>) = locked m"
  by (simp_all add: locked_def)

lemma start_quote_locked: "locked m \<Longrightarrow> stays m (start_quote env now opts m)"
  using lockedD [of m] by (simp add: start_quote_def stays_def)

lemma locked_transition_refused:
  "locked m \<Longrightarrow> to \<noteq> StatusOf Idle \<Longrightarrow> to \<noteq> StatusOf Quoting \<Longrightarrow> fst (transition m to u) = m"
  by (rule transition_refused) (cases to; simp add: locked_def)

lemma locked_patch:
  assumes "locked m" "keeps u" "\<And>i. i_notSent (u i) = i_notSent i" "\<And>i. i_mayHaveMoved (u i) = i_mayHaveMoved i"
  shows "locked (patch m u)"
  using assms by (simp add: locked_def sound_keep_patch keepsD)

lemma merge_moved: "merge_same_status_receipt i w = Some u \<Longrightarrow> i_mayHaveMoved (u j) = i_mayHaveMoved j \<and> i_intentId (u j) = i_intentId j"
  by (auto simp: merge_same_status_receipt_def Let_def split: if_splits)

lemma apply_status_locked:
  assumes m: "locked m" and w: "w_status w \<noteq> StatusOf Idle" "w_status w \<noteq> StatusOf Quoting"
  shows "stays m (apply_status_update w False m)"
proof -
  note d = lockedD [OF m]
  let ?st = "fst (map_status_update w)"
  have st: "?st = w_status w" by (simp add: map_status_update_def)
  have t: "fst (transition m ?st u) = m" for u
    using w by (intro locked_transition_refused m) (simp_all add: st)
  have p: "locked (patch m u) \<and> i_intentId (m_intent (patch m u)) = i_intentId (m_intent m)"
    if "merge_same_status_receipt (m_intent m) w = Some u" for u
    using merge_keeps [OF that] merge_moved [OF that] m by (simp add: locked_patch)
  have e: "end_not_sent ?st (doubt_unmapped False x) = x" if "locked x" for x
    using lockedD [OF that] by (simp add: end_not_sent_def doubt_unmapped_def)
  show ?thesis
  proof (cases "?st = StatusOf (i_status (m_intent m))")
    case True
    then show ?thesis using m p e
      by (cases "merge_same_status_receipt (m_intent m) w") (simp_all add: apply_status_update_def Let_def stays_def)
  next
    case False
    then show ?thesis using m t e by (simp add: apply_status_update_def Let_def stays_def)
  qed
qed

section \<open>Every message\<close>

lemma visibility_locked: "locked m \<Longrightarrow> stays m (visibility_changed env now h m)"
  using lockedD [of m]
  by (simp add: visibility_changed_def stays_def should_refresh_on_return_def)

lemma quote_requested_locked: "locked m \<Longrightarrow> stays m (quote_requested a m)"
  using lockedD [of m]
  by (simp add: quote_requested_def stays_def supersede_flights_def survives_cleared_amount_def Let_def)

lemma tick_expiry_locked:
  assumes "locked m"
  shows "stays m (tick_expiry env now m)"
proof -
  have "fst (transition (m\<lparr>m_quoteExpiresIn := x\<rparr>) (StatusOf Expired) u) = m\<lparr>m_quoteExpiresIn := x\<rparr>" for x u
    using assms by (intro locked_transition_refused) simp_all
  then show ?thesis using assms
    by (simp add: tick_expiry_def stays_def Let_def split: option.splits)
qed

lemma ask_again_locked: "locked m \<Longrightarrow> stays m (ask_again env now m)"
  using start_quote_locked by (simp add: ask_again_def stays_def)

lemma on_timer_locked:
  assumes m: "locked m"
  shows "stays m (on_timer env now t m)"
proof (cases t)
  case TRefresh
  with m lockedD(1) [OF m] show ?thesis
    by (simp add: on_timer_def refresh_fired_def should_refresh_quote_def stays_def Let_def split: option.splits)
qed (use m lockedD [OF m] in \<open>simp_all add: on_timer_def ask_again_locked tick_expiry_locked stays_refl
  sign_flow_failed_def resend_execute_def\<close>)

lemma step_locked:
  assumes m: "locked m" and g: "holding_message g"
  shows "stays m (step env g m)"
proof -
  note d = lockedD [OF m]
  have f: "flow_at m fid st = None" for fid st using d by (simp add: flow_at_def)
  have q: "find_flight m fid st = None" for fid st using d by (simp add: find_flight_def)
  show ?thesis
  proof (cases "body g")
    case (ContextChanged c)
    then show ?thesis using m d by (simp add: step_def context_changed_def stays_def Let_def)
  next
    case (AllocateRequested key ref)
    then show ?thesis using m d by (simp add: step_def allocate_requested_def allocation_refused_def stays_def Let_def)
  next
    case (ResumeRequested a b c x y)
    then show ?thesis using m d
      by (simp add: step_def resume_intent_def build_resumed_state_def can_adopt_resumed_intent_def stays_def Let_def)
  next
    case (StreamStatus w)
    then show ?thesis using m g apply_status_locked [OF m]
      by (auto simp: step_def stream_status_def holding_message_def stays_refl Let_def)
  next
    case ResetRequested
    then show ?thesis using g by (simp add: holding_message_def)
  qed (use m d f q in \<open>simp_all add: step_def Let_def stays_refl begin_sign_def begin_pull_sign_def
     cancel_sign_def visibility_locked quote_requested_locked ask_again_locked on_timer_locked
     on_session_def on_quote_def on_signed_def on_approval_def on_executed_def on_status_def\<close>)
qed

section \<open>The reactive rules\<close>

lemma rules_locked:
  assumes m: "locked m"
  shows "stays m (watch_wallet m)" "stays m (upgrade_preview env now m)" "stays m (arm_expiry env now m)"
    "stays m (arm_poll env now m)"
proof -
  note d = lockedD [OF m]
  show "stays m (watch_wallet m)" using m d by (simp add: watch_wallet_def stays_def Let_def)
  show "stays m (upgrade_preview env now m)" using m d
    by (simp add: upgrade_preview_def stays_def should_upgrade_preview_quote_def Let_def)
  have "expiry_key_of m = None" using d by (simp add: expired_key)
  then show "stays m (arm_expiry env now m)" using m d by (simp add: arm_expiry_def stays_def Let_def)
  have "poll_key_of m = None" using d by (simp add: poll_key_of_def Let_def)
  then show "stays m (arm_poll env now m)" using m d by (simp add: arm_poll_def stays_def)
qed

lemma stays_trans: "stays m r \<Longrightarrow> stays (fst r) (f (fst r)) \<Longrightarrow> stays m (and_then r f)"
  by (simp add: stays_def)

lemma settle_locked: "locked m \<Longrightarrow> stays m (settle env now m)"
proof -
  have l: "locked (fst r)" if "stays m r" for m r using that by (simp add: stays_def)
  have pass: "stays m (settle_pass env now m)" if "locked m" for m env now
    unfolding settle_pass_def using that by (auto intro!: stays_trans rules_locked l)
  have "locked m \<Longrightarrow> stays m (settle_passes n env now m)" for n m
  proof (induction n arbitrary: m)
    case (Suc n)
    have "stays (fst (settle_pass env now m)) (settle_passes n env now (fst (settle_pass env now m)))"
      using Suc.prems by (intro Suc.IH l [OF pass])
    then show ?case using pass [OF Suc.prems, of env now] by (simp add: Let_def stays_trans)
  qed (simp add: stays_refl)
  then show "locked m \<Longrightarrow> stays m (settle env now m)" by (simp add: settle_def)
qed

lemma update_locked:
  assumes "locked m" "holding_message g"
  shows "stays m (update env m g)"
proof -
  let ?m = "m\<lparr>m_hidden := msg_hidden g\<rparr>"
  have "stays ?m (step env g ?m)" using assms by (intro step_locked) simp_all
  moreover have "stays (fst (step env g ?m)) (settle env (msg_now g) (fst (step env g ?m)))"
    using calculation by (intro settle_locked) (simp add: stays_def)
  ultimately have "stays ?m (update env m g)" unfolding update_def by (rule stays_trans)
  then show ?thesis by (simp add: stays_def)
qed

lemma run_locked:
  "locked m \<Longrightarrow> \<forall>(env, g) \<in> set gs. holding_message g \<Longrightarrow> stays m (run m gs)"
proof (induction m gs rule: run.induct)
  case (2 m env g gs)
  have u: "stays m (update env m g)" using 2(2,3) by (intro update_locked) auto
  then have "locked (fst (update env m g))" by (simp add: stays_def)
  with 2 u show ?case by (auto intro!: stays_trans)
qed (simp add: stays_refl)

section \<open>How an order comes to be held\<close>

definition quoteless :: "model \<Rightarrow> bool" where
  "quoteless m \<longleftrightarrow> m_flights m = [] \<and> i_status (m_intent m) \<noteq> Quoted"

definition under_way :: "model \<Rightarrow> bool" where
  "under_way m \<longleftrightarrow> m_flights m = [] \<and> in_flight (i_status (m_intent m))"

lemma under_way_quoteless: "under_way m \<Longrightarrow> quoteless m"
  by (auto simp: under_way_def quoteless_def)

lemma quoteless_patch: "keeps u \<Longrightarrow> quoteless (patch m u) = quoteless m" "keeps u \<Longrightarrow> under_way (patch m u) = under_way m"
  by (simp_all add: quoteless_def under_way_def keepsD)

lemma quoteless_frame [simp]:
  "quoteless (m\<lparr>m_poll := p\<rparr>) = quoteless m" "quoteless (m\<lparr>m_watched := w\<rparr>) = quoteless m"
  "quoteless (m\<lparr>m_notFoundReported := x\<rparr>) = quoteless m" "quoteless (m\<lparr>m_pendingIntentSig := x\<rparr>) = quoteless m"
  "quoteless (m\<lparr>m_sign := s\<rparr>) = quoteless m" "quoteless (m\<lparr>m_clientFillMs := c\<rparr>) = quoteless m"
  "quoteless (end_sign_flow m f) = quoteless m"
  "under_way (m\<lparr>m_notFoundReported := x\<rparr>) = under_way m" "under_way (m\<lparr>m_pendingIntentSig := x\<rparr>) = under_way m"
  "under_way (m\<lparr>m_clientFillMs := c\<rparr>) = under_way m" "under_way (end_sign_flow m f) = under_way m"
  by (simp_all add: quoteless_def under_way_def)

lemma quoteless_transition:
  assumes "under_way m" "keeps u"
  shows "quoteless (fst (transition m to u))"
proof (cases "can_move (i_status (m_intent m)) to")
  case True
  then obtain t where t: "to = StatusOf t" by (cases to) auto
  have "t \<noteq> Quoted" using True assms(1) by (auto simp: t under_way_def)
  with assms t True show ?thesis
    by (simp add: quoteless_def under_way_def transition_flights transition_intent keepsD)
qed (use assms under_way_quoteless in simp)

lemma reconciling_keeps [simp]: "keeps (\<lambda>i. i\<lparr>i_reconciling := b\<rparr>)"
  "keeps (\<lambda>i. i\<lparr>i_notSent := n, i_error := e\<rparr>)" "keeps (\<lambda>i. i\<lparr>i_error := e, i_mayHaveMoved := b\<rparr>)"
  "keeps (\<lambda>i. i\<lparr>i_notSent := n\<rparr>)" "keeps (\<lambda>i. i\<lparr>i_notSent := n, i_reconciling := b\<rparr>)"
  "keeps (\<lambda>i. i\<lparr>i_legsWithheld := l\<rparr>)" "keeps (\<lambda>i. i\<lparr>i_pollExhausted := n\<rparr>)"
  "keeps (\<lambda>i. i\<lparr>i_error := e, i_reconciling := b, i_mayHaveMoved := n\<rparr>)"
  by (simp_all add: keeps_def)

lemma quoteless_apply_status:
  assumes "under_way m"
  shows "quoteless (fst (apply_status_update w b m))"
proof -
  have k: "quoteless (patch m u)" if "merge_same_status_receipt (m_intent m) w = Some u" for u
    using merge_keeps [OF that] under_way_quoteless [OF assms] by (simp add: quoteless_patch)
  have "quoteless (end_not_sent st (doubt_unmapped b x))" if "quoteless x" for st x
    using that by (simp add: end_not_sent_def doubt_unmapped_def quoteless_patch)
  then show ?thesis using k under_way_quoteless [OF assms] quoteless_transition [OF assms status_updates_keep]
    by (simp add: apply_status_update_def Let_def split: option.splits)
qed

lemma quoteless_on_status:
  assumes "under_way m"
  shows "quoteless (fst (on_status env now gen attempt res m))"
proof -
  have r: "quoteless (fst (fst (read_status env now b pid res x)))" if "under_way x" for b pid x
    using that under_way_quoteless [OF that]
    by (simp add: read_status_def read_not_found_def read_data_def Let_def quoteless_transition
        quoteless_apply_status quoteless_patch split: sum.splits status_result.splits option.splits)
  have c: "quoteless (fst (close_poll p a v x))" if "quoteless x" for p a v x
    using that by (simp add: close_poll_def Let_def quoteless_patch split: poll_verdict.splits)
  have "quoteless (fst (answer_poll env now p attempt res m))" for p
  proof -
    let ?u = "reads_not_sent m p (pl_intentId p) attempt res"
    let ?x = "mark_slow (pl_intentId p) attempt (fst (mark_unsent ?u (pl_intentId p) m))"
    obtain rr v where rr: "read_status env now ?u (pl_intentId p) res ?x = (rr, v)" by fastforce
    have "under_way ?x" using assms by (simp add: mark_slow_def mark_unsent_def quoteless_patch)
    then have "quoteless (fst rr)" using r [of ?x ?u "pl_intentId p"] rr by simp
    with c show ?thesis by (simp add: answer_poll_def Let_def rr)
  qed
  then show ?thesis using under_way_quoteless [OF assms] by (simp add: on_status_def split: option.splits)
qed

lemma quoteless_on_executed:
  assumes m: "under_way m"
  shows "quoteless (fst (on_executed env now fid res m))"
proof (cases "flow_at m fid StageExecute")
  case (Some s)
  note F = Some
  have q: "quoteless m" using m by (rule under_way_quoteless)
  obtain h es0 where h: "(case not_accepted_report res of None \<Rightarrow> (None, [])
      | Some report \<Rightarrow> on_not_accepted env now s report m) = (h, es0)" by fastforce
  let ?n = "end_sign_flow (m\<lparr>m_pendingIntentSig := None\<rparr>) s"
  obtain rep es1 where e: "response_unless_in_doubt res (i_intentId (m_intent ?n)) = (rep, es1)" by fastforce
  have n: "quoteless m'" if "on_not_accepted env now s rp m = (Some m', es)" for m' rp es
  proof (cases "own_attempt s m")
    case (Some a)
    with that q show ?thesis
      by (cases "decide_execute_resend (at_resends a) (report_retry_after rp)
          (execute_deadline env (i_quote (m_intent m))) now")
        (auto simp: on_not_accepted_def Let_def stop_resending_def quoteless_patch)
  qed (use that in \<open>simp add: on_not_accepted_def\<close>)
  have a: "quoteless (fst (apply_execute_result now r u x))" if x: "under_way x" for r u x
  proof -
    have t: "quoteless (fst (transition y st (\<lambda>i. (v i)\<lparr>i_reconciling := c\<rparr>)))"
      if "decide_execute_result r = DecTransition st' v d" "under_way y" for st st' v c d y
      using decided_receipt [OF that(1)] that(2) by (simp add: quoteless_transition)
    show ?thesis using x under_way_quoteless [OF x] t
      unfolding apply_execute_result_def fst_if
      by (simp add: Let_def quoteless_patch quoteless_transition split: execute_decision.splits)
  qed
  show ?thesis
  proof (cases h)
    case None
    then show ?thesis using m q a unfolding on_executed_def F Let_def option.case h prod.case e
      by (simp add: quoteless_patch split: option.splits prod.splits)
  next
    case (Some m')
    then have "quoteless m'" using h n by (auto split: option.splits)
    then show ?thesis using q unfolding on_executed_def F Let_def option.case h prod.case e
      by (simp add: Some)
  qed
qed (use under_way_quoteless [OF m] in \<open>simp add: on_executed_def\<close>)

lemma quoteless_settle:
  assumes "quoteless m"
  shows "quoteless (fst (settle env now m))"
proof -
  have w: "quoteless (fst (watch_wallet x))" if "quoteless x" for x
    using that by (auto simp: watch_wallet_def quoteless_def Let_def)
  have u: "quoteless (fst (upgrade_preview env now x))" if "quoteless x" for x
    using that by (auto simp: upgrade_preview_def should_upgrade_preview_quote_def quoteless_def Let_def)
  have e: "quoteless (fst (arm_expiry env now x))" if "quoteless x" for x
    using that expired_key [of x] by (simp add: arm_expiry_def quoteless_def Let_def)
  have p: "quoteless (fst (arm_poll env now x))" if "quoteless x" for x
  proof -
    obtain n' p where "fst (arm_poll env now x) = x\<lparr>m_seq := n', m_poll := p\<rparr>" using arm_poll_fst by blast
    with that show ?thesis by (simp add: quoteless_def)
  qed
  have pass: "quoteless (fst (settle_pass env now x))" if "quoteless x" for x
    using that by (simp add: settle_pass_def w u e p)
  have "quoteless x \<Longrightarrow> quoteless (fst (settle_passes n env now x))" for n x
    by (induction n arbitrary: x) (simp_all add: Let_def pass)
  with assms show ?thesis by (simp add: settle_def)
qed

definition outcome_message :: "message \<Rightarrow> bool" where
  "outcome_message g \<longleftrightarrow> (case body g of ExecuteReplied _ _ \<Rightarrow> True | StatusReplied _ _ _ \<Rightarrow> True
     | StreamStatus _ \<Rightarrow> True | _ \<Rightarrow> False)"

lemma outcome_quoteless:
  assumes "under_way m" "outcome_message g"
  shows "quoteless (fst (step env g m))"
  using assms under_way_quoteless [OF assms(1)]
  by (cases "body g") (simp_all add: step_def outcome_message_def Let_def quoteless_on_executed
      quoteless_on_status quoteless_apply_status stream_status_def)

section \<open>How an order fails\<close>

text \<open>The server's words: the failure names no execution, or a not-sent order is gone after its finish.\<close>

definition said_unexecuted :: "env \<Rightarrow> model \<Rightarrow> message \<Rightarrow> bool" where
  "said_unexecuted env m g \<longleftrightarrow> (case body g of
     ExecuteReplied _ (ExecReply (VObj ob)) \<Rightarrow> xr_substatus (result_of_reply ob) = Some NOT_EXECUTED_SUBSTATUS
   | StatusReplied _ _ (Inr (StatusData s)) \<Rightarrow> w_substatus (message_of_data [] s) = Some NOT_EXECUTED_SUBSTATUS
   | StatusReplied _ _ (Inr NotFound) \<Rightarrow> swept_past_finish env (m_intent m) (the (i_intentId (m_intent m))) (msg_now g)
   | StreamStatus w \<Rightarrow> w_substatus w = Some NOT_EXECUTED_SUBSTATUS
   | _ \<Rightarrow> False)"

text \<open>A model whose order did not fail, or failed and may have moved funds.\<close>

definition owns_up :: "model \<Rightarrow> bool" where
  "owns_up m \<longleftrightarrow> (i_status (m_intent m) = Failed \<longrightarrow> i_mayHaveMoved (m_intent m))"

lemma under_way_owns: "under_way m \<Longrightarrow> owns_up m"
  by (auto simp: under_way_def owns_up_def)

lemma owns_frame [simp]:
  "owns_up (m\<lparr>m_poll := p\<rparr>) = owns_up m" "owns_up (m\<lparr>m_notFoundReported := x\<rparr>) = owns_up m"
  "owns_up (m\<lparr>m_hidden := h\<rparr>) = owns_up m"
  "owns_up (m\<lparr>m_clientFillMs := c\<rparr>) = owns_up m"
  by (simp_all add: owns_up_def)

lemma owns_patch: "keeps u \<Longrightarrow> (\<And>i. i_mayHaveMoved (u i) = i_mayHaveMoved i) \<Longrightarrow> owns_up (patch m u) = owns_up m"
  by (simp add: owns_up_def keepsD)

lemma owns_transition:
  assumes "under_way m" "\<And>i. i_status (u i) = i_status i" "to = StatusOf Failed \<Longrightarrow> \<forall>i. i_mayHaveMoved (u i)"
  shows "owns_up (fst (transition m to u))"
proof (cases "can_move (i_status (m_intent m)) to")
  case True
  then obtain t where t: "to = StatusOf t" by (cases to) auto
  show ?thesis
  proof (cases "t = Failed")
    case f: True
    have "i_mayHaveMoved (u i)" for i using assms(3) t f by simp
    then show ?thesis using True by (simp add: owns_up_def transition_intent t)
  next
    case False
    then show ?thesis using True assms(2) by (simp add: owns_up_def transition_intent t)
  qed
qed (simp add: under_way_owns assms(1))

lemma owns_apply_status:
  assumes m: "under_way m" and w: "w_substatus w \<noteq> Some NOT_EXECUTED_SUBSTATUS"
  shows "owns_up (fst (apply_status_update w b m))"
proof -
  have o: "owns_up m" using m by (rule under_way_owns)
  have k: "owns_up (patch m u)" if "merge_same_status_receipt (m_intent m) w = Some u" for u
    using merge_keeps [OF that] merge_moved [OF that] o by (simp add: owns_patch)
  have e: "owns_up (end_not_sent st (doubt_unmapped b x))" if "owns_up x" for st x
    using that by (simp add: end_not_sent_def doubt_unmapped_def owns_patch)
  have fl: "in_flight (i_status (m_intent m))" using m by (simp add: under_way_def)
  have "\<forall>i. i_mayHaveMoved (status_updates m w i)" if f: "fst (map_status_update w) = StatusOf Failed"
  proof -
    have moved: "failure_may_have_moved (w_substatus w)" using w by (simp add: failure_may_have_moved_def)
    have "status_updates m w = (\<lambda>i. (snd (map_status_update w) i)\<lparr>i_mayHaveMoved := failure_may_have_moved (w_substatus w)\<rparr>)"
      using f fl by (simp only: status_updates_def case_prod_unfold simp_thms if_True)
    with moved show ?thesis by simp
  qed
  then have "owns_up (fst (transition m (fst (map_status_update w)) (status_updates m w)))"
    by (intro owns_transition [OF m]) (simp_all add: keepsD(1) [OF status_updates_keep])
  then show ?thesis using k o e by (simp add: apply_status_update_def Let_def split: option.splits)
qed

lemma owns_on_status:
  assumes m: "under_way m" and g: "body g = StatusReplied gen attempt res" and n: "\<not> said_unexecuted env m g"
  shows "owns_up (fst (on_status env (msg_now g) gen attempt res m))"
proof -
  have c: "owns_up (fst (close_poll p a v x))" if "owns_up x" for p a v x
    using that by (simp add: close_poll_def Let_def owns_patch split: poll_verdict.splits)
  have d: "owns_up (fst (fst (read_data b pid s x)))" if "under_way x" "res = Inr (StatusData s)" for b pid s x
  proof -
    have "w_substatus (message_of_data pid s) \<noteq> Some NOT_EXECUTED_SUBSTATUS"
      using n g that(2) by (simp add: said_unexecuted_def message_of_data_def)
    from owns_apply_status [OF that(1) this, of "d_unmapped s"] show ?thesis
      by (simp add: read_data_def Let_def owns_patch)
  qed
  have f: "owns_up (fst (fst (read_not_found env (msg_now g) pid x)))"
    if "under_way x" "res = Inr NotFound" "m_intent x = m_intent m \<or> m_intent x = (m_intent m)\<lparr>i_reconciling := True\<rparr>" for pid x
  proof -
    have "\<not> swept_past_finish env (m_intent x) pid (msg_now g)"
      using n g that(2,3) by (auto simp: said_unexecuted_def swept_past_finish_def)
    then show ?thesis using under_way_owns [OF that(1)]
      by (simp add: read_not_found_def split: option.splits)
  qed
  have "owns_up (fst (answer_poll env (msg_now g) p attempt res m))" for p
  proof -
    let ?u = "reads_not_sent m p (pl_intentId p) attempt res"
    let ?x = "mark_slow (pl_intentId p) attempt (fst (mark_unsent ?u (pl_intentId p) m))"
    have u: "under_way ?x" using m by (simp add: mark_slow_def mark_unsent_def quoteless_patch)
    have "res = Inr NotFound \<Longrightarrow> m_intent ?x = m_intent m \<or> m_intent ?x = (m_intent m)\<lparr>i_reconciling := True\<rparr>"
      by (simp add: mark_slow_def mark_unsent_def reads_not_sent_def patch_def)
    note f = f [OF u _ this]
    have o: "owns_up (fst (fst (read_status env (msg_now g) b (pl_intentId p) res ?x)))" for b
    proof (cases res)
      case (Inr a)
      then show ?thesis using d [OF u] f under_way_owns [OF u] by (cases a) (simp_all add: read_status_def)
    qed (use under_way_owns [OF u] in \<open>simp add: read_status_def\<close>)
    obtain rr v where rr: "read_status env (msg_now g) ?u (pl_intentId p) res ?x = (rr, v)" by fastforce
    have "owns_up (fst rr)" using o [of ?u] by (simp add: rr)
    with c show ?thesis by (simp add: answer_poll_def Let_def rr)
  qed
  then show ?thesis using under_way_owns [OF m] by (simp add: on_status_def split: option.splits)
qed

lemma owns_on_executed:
  assumes m: "under_way m" and g: "body g = ExecuteReplied fid res" and n: "\<not> said_unexecuted env m g"
  shows "owns_up (fst (on_executed env (msg_now g) fid res m))"
proof (cases "flow_at m fid StageExecute")
  case (Some s)
  note F = Some
  obtain h es0 where h: "(case not_accepted_report res of None \<Rightarrow> (None, [])
      | Some report \<Rightarrow> on_not_accepted env (msg_now g) s report m) = (h, es0)" by fastforce
  let ?n = "end_sign_flow (m\<lparr>m_pendingIntentSig := None\<rparr>) s"
  have u: "under_way ?n" using m by simp
  obtain rep es1 where e: "response_unless_in_doubt res (i_intentId (m_intent ?n)) = (rep, es1)" by fastforce
  have a: "owns_up (fst (apply_execute_result (msg_now g) r um ?n))" if rep: "rep = Some (r, um)" for r um
  proof -
    obtain ob where r: "res = ExecReply (VObj ob)" "r = result_of_reply ob"
      using e rep by (auto simp: response_unless_in_doubt_def is_relayed_execute_reply_def split: exec_outcome.splits if_splits jsval.splits)
    then have sub: "failure_may_have_moved (xr_substatus r)"
      using n g by (simp add: said_unexecuted_def failure_may_have_moved_def)
    have "owns_up (fst (transition y st (\<lambda>i. (v i)\<lparr>i_reconciling := c\<rparr>)))"
      if "decide_execute_result r = DecTransition st v d" "under_way y" for y st v c d
    proof (rule owns_transition [OF that(2)])
      show "i_status ((v i)\<lparr>i_reconciling := c\<rparr>) = i_status i" for i
        using decided_receipt [OF that(1)] by (simp add: receipt_of_def)
      show "st = StatusOf Failed \<Longrightarrow> \<forall>i. i_mayHaveMoved ((v i)\<lparr>i_reconciling := c\<rparr>)"
        using that(1) by (auto simp: decide_execute_result_def Let_def split: if_splits)
    qed
    moreover have "owns_up (fst (transition y (StatusOf Failed) (\<lambda>i. i\<lparr>i_error := Some (ErrText x), i_mayHaveMoved := b\<rparr>)))"
      if "decide_execute_result r = DecFailed x b" "under_way y" for x b y
    proof -
      have "b" using sub that(1) by (auto simp: decide_execute_result_def Let_def split: if_splits)
      then show ?thesis by (intro owns_transition [OF that(2)]) simp_all
    qed
    ultimately show ?thesis using u under_way_owns [OF u] unfolding apply_execute_result_def fst_if
      by (simp add: Let_def owns_patch owns_transition split: execute_decision.splits)
  qed
  have "owns_up m'" if "on_not_accepted env (msg_now g) s rp m = (Some m', es)" for m' rp es
  proof (cases "own_attempt s m")
    case (Some a)
    with that under_way_owns [OF m] show ?thesis
      by (cases "decide_execute_resend (at_resends a) (report_retry_after rp) (execute_deadline env (i_quote (m_intent m))) (msg_now g)")
        (auto simp: on_not_accepted_def Let_def stop_resending_def owns_patch owns_up_def end_sign_flow_def)
  qed (use that in \<open>simp add: on_not_accepted_def\<close>)
  then have k: "h = Some m' \<Longrightarrow> owns_up m'" for m' using h by (auto split: option.splits)
  show ?thesis using under_way_owns [OF m] under_way_owns [OF u] a k unfolding on_executed_def F Let_def option.case h prod.case e
    by (simp add: owns_patch split: option.splits prod.splits)
qed (use under_way_owns [OF m] in \<open>simp add: on_executed_def\<close>)

lemma owns_step:
  assumes "under_way m" "outcome_message g" "\<not> said_unexecuted env m g"
  shows "owns_up (fst (step env g m))"
proof (cases "body g")
  case (StreamStatus w)
  then have "w_substatus w \<noteq> Some NOT_EXECUTED_SUBSTATUS" using assms(3) by (simp add: said_unexecuted_def)
  then show ?thesis using StreamStatus assms(1) owns_apply_status under_way_owns
    by (simp add: step_def stream_status_def Let_def)
qed (use assms in \<open>simp_all add: step_def outcome_message_def Let_def owns_on_status owns_on_executed\<close>)

text \<open>The reactive rules make no failure of their own.\<close>

lemma owns_settle:
  assumes "quoteless m" "owns_up m"
  shows "owns_up (fst (settle env now m))"
proof -
  let ?P = "\<lambda>x. quoteless x \<and> owns_up x"
  have w: "?P (fst (watch_wallet x))" if "?P x" for x
    using that by (auto simp: watch_wallet_def quoteless_def owns_up_def Let_def)
  have u: "?P (fst (upgrade_preview env now x))" if "?P x" for x
    using that by (auto simp: upgrade_preview_def should_upgrade_preview_quote_def quoteless_def owns_up_def Let_def)
  have e: "?P (fst (arm_expiry env now x))" if "?P x" for x
    using that expired_key [of x] by (simp add: arm_expiry_def quoteless_def owns_up_def Let_def)
  have p: "?P (fst (arm_poll env now x))" if "?P x" for x
  proof -
    obtain n' p where "fst (arm_poll env now x) = x\<lparr>m_seq := n', m_poll := p\<rparr>" using arm_poll_fst by blast
    with that show ?thesis by (simp add: quoteless_def owns_up_def)
  qed
  have pass: "?P (fst (settle_pass env now x))" if "?P x" for x
    using w [OF that, THEN u, THEN e, THEN p] by (simp add: settle_pass_def)
  have "?P x \<Longrightarrow> ?P (fst (settle_passes n env now x))" for n x
    using pass by (induction n arbitrary: x) (simp_all add: Let_def)
  with assms show ?thesis by (simp add: settle_def)
qed

lemma failure_locks:
  assumes m: "reached any_message config m" "in_flight (i_status (m_intent m))" and g: "outcome_message g" "\<not> said_unexecuted env m g"
    and f: "i_status (m_intent (fst (update env m g))) = Failed"
  shows "locked (fst (update env m g))"
proof -
  have r: "reached any_message config (fst (update env m g))" using m(1) by (rule reached.update) simp
  have s: "sound (\<lambda>_ _. True) m" by (rule reached_sound [OF m(1)])
  let ?m = "m\<lparr>m_hidden := msg_hidden g\<rparr>"
  let ?x = "fst (step env g ?m)"
  have u: "under_way ?m"
    using m(2) s by (auto simp: under_way_def sound_def flights_ok_def)
  have q: "quoteless ?x" by (rule outcome_quoteless [OF u g(1)])
  have same: "m_intent ?m = m_intent m" by simp
  have "said_unexecuted env ?m g = said_unexecuted env m g" unfolding said_unexecuted_def same by (rule refl)
  then have o: "owns_up ?x" using owns_step [OF u g(1)] g(2) by simp
  have "i_mayHaveMoved (m_intent (fst (update env m g)))"
    using owns_settle [OF q o, of env "msg_now g"] f by (simp add: update_def owns_up_def)
  moreover have "quoteless (fst (update env m g))" using quoteless_settle [OF q] by (simp add: update_def)
  moreover have "m_poll (fst (update env m g)) = None" by (rule reached_no_poll [OF r]) (simp add: f)
  moreover have "sound (\<lambda>_ _. True) (fst (update env m g))" by (rule reached_sound [OF r])
  ultimately show ?thesis using f by (simp add: locked_def quoteless_def)
qed

text \<open>
  C3. An order that may have moved funds holds the screen. When the outcome of an in-flight order (an
  execute reply, a status poll or a stream frame) fails it, and the server neither named the failure as
  unexecuted nor had forgotten an order it never sent, no sequence of messages leaves that failure: whatever
  arrives, in any order and number, the intent stays the same failure that may have moved funds, and
  meanwhile no quote is requested, no session or approval raised, no signature asked for and no order sent. The
  only messages left out are a reset and a pushed frame of status idle or quoting, which the frame mapper never makes.
\<close>

theorem may_have_moved_holds:
  assumes "reached any_message config m" "in_flight (i_status (m_intent m))" "outcome_message g"
    and "i_status (m_intent (fst (update env m g))) = Failed" "\<not> said_unexecuted env m g"
    and "\<forall>(e, h) \<in> set gs. holding_message h"
  shows "let after = run (fst (update env m g)) gs in
      i_status (m_intent (fst after)) = Failed \<and> i_mayHaveMoved (m_intent (fst after))
    \<and> i_intentId (m_intent (fst after)) = i_intentId (m_intent (fst (update env m g)))
    \<and> (\<forall>e \<in> set (snd after). (\<exists>t. e = Timer t) \<or> (\<exists>v. e = Emit v))"
proof -
  have "stays (fst (update env m g)) (run (fst (update env m g)) gs)"
    by (rule run_locked [OF failure_locks [OF assms(1-3,5,4)] assms(6)])
  moreover have "kind e \<in> {KTimer, KEmit} \<longleftrightarrow> (\<exists>t. e = Timer t) \<or> (\<exists>v. e = Emit v)" for e
    by (cases e rule: kind.cases) simp_all
  ultimately show ?thesis by (auto simp: stays_def locked_def only_def Let_def image_subset_iff)
qed

end
