(* ===== verification/MachineVerdict.thy ===== *)
theory MachineVerdict
  imports MachineHold
begin

text \<open>
  What the trade machine makes of the reply to its execute: when it says that the order failed for good, and that a
  failure in doubt leaves the order executing and asked after.
\<close>

section \<open>Settling an order under way\<close>

definition polled :: "model \<Rightarrow> bool" where
  "polled m \<longleftrightarrow> (\<exists>p. m_poll m = Some p \<and> Some (pl_key p) = poll_key_of m \<and> Some (pl_intentId p) = i_intentId (m_intent m) \<and> \<not> pl_stopped p)"

text \<open>An order in flight whose execute has been answered.\<close>

definition answered :: "intent_state \<Rightarrow> model \<Rightarrow> bool" where
  "answered i m \<longleftrightarrow> m_intent m = i \<and> in_flight (i_status i) \<and> \<not> blank_str (i_intentId i) \<and> m_sign m = None"

text \<open>What both of them read.\<close>

definition alike :: "model \<Rightarrow> model \<Rightarrow> bool" where
  "alike n m \<longleftrightarrow> m_intent n = m_intent m \<and> m_sign n = m_sign m \<and> m_poll n = m_poll m"

lemma alike_answered: "alike n m \<Longrightarrow> answered i n = answered i m"
  by (simp add: alike_def answered_def)

lemma alike_polled: "alike n m \<Longrightarrow> polled n = polled m"
  using poll_key_reads [of n m] by (simp add: alike_def polled_def)

lemma answered_reads [simp]: "answered i (m\<lparr>m_seq := n, m_poll := p\<rparr>) = answered i m"
  by (simp add: answered_def)

lemma answered_key:
  assumes "answered i m"
  shows "\<exists>k j. i_intentId i = Some j \<and> poll_key_of m = Some k"
proof -
  obtain j where j: "i_intentId i = Some j" using assms by (cases "i_intentId i") (simp_all add: answered_def blank_str_def)
  moreover have "poll_key_of m \<noteq> None"
    using assms by (simp add: answered_def poll_key_of_def awaiting_resend_def Let_def)
  ultimately show ?thesis by blast
qed

lemma rules_alike:
  assumes "answered i m"
  shows "alike (fst (watch_wallet m)) m" "alike (fst (upgrade_preview env now m)) m" "alike (fst (arm_expiry env now m)) m"
proof -
  have s: "i_status (m_intent m) \<notin> {Quoted, Signing, Expired, Failed}" using assms by (auto simp: answered_def)
  then show "alike (fst (watch_wallet m)) m" by (simp add: watch_wallet_def alike_def Let_def)
  show "alike (fst (upgrade_preview env now m)) m"
    using s by (simp add: upgrade_preview_def should_upgrade_preview_quote_def alike_def Let_def)
  have "expiry_key_of m = None" using s by (simp add: expired_key)
  then show "alike (fst (arm_expiry env now m)) m" by (simp add: arm_expiry_def alike_def Let_def)
qed

lemma poll_answered:
  assumes "answered i m" "m_poll m = None \<or> polled m"
  shows "answered i (fst (arm_poll env now m)) \<and> polled (fst (arm_poll env now m))
    \<and> (m_poll m = None \<longrightarrow> (\<exists>gen. Api (ApiStatus (the (i_intentId i)) gen 1) \<in> set (snd (arm_poll env now m))))"
proof (cases "m_poll m")
  case None
  obtain k j where k: "i_intentId i = Some j" "poll_key_of m = Some k" using answered_key [OF assms(1)] by blast
  have r: "\<not> awaiting_resend m" "m_intent m = i" using assms(1) by (simp_all add: answered_def awaiting_resend_def)
  have same: "poll_key_of (m\<lparr>m_seq := n, m_poll := p\<rparr>) = Some k" for n p
    using k(2) poll_key_reads [of "m\<lparr>m_seq := n, m_poll := p\<rparr>" m] by simp
  show ?thesis using None k r assms(1) same
    by (auto simp: arm_poll_def poll_tick_def polled_def Let_def)
next
  case (Some p)
  then have "polled m" using assms(2) by simp
  then have "arm_poll env now m = (m, [])" by (auto simp: polled_def arm_poll_def)
  then show ?thesis using assms(1) \<open>polled m\<close> Some by simp
qed

lemma pass_answered:
  assumes "answered i m" "m_poll m = None \<or> polled m"
  shows "answered i (fst (settle_pass env now m)) \<and> polled (fst (settle_pass env now m))
    \<and> (m_poll m = None \<longrightarrow> (\<exists>gen. Api (ApiStatus (the (i_intentId i)) gen 1) \<in> set (snd (settle_pass env now m))))"
proof -
  define w where "w = fst (watch_wallet m)"
  define u where "u = fst (upgrade_preview env now w)"
  define v where "v = fst (arm_expiry env now u)"
  have a: "alike w m" "answered i w" using rules_alike(1) [OF assms(1)] assms(1) alike_answered unfolding w_def by blast+
  have b: "alike u w" "answered i u" using rules_alike(2) [OF a(2)] a(2) alike_answered unfolding u_def by blast+
  have c: "alike v u" "answered i v" using rules_alike(3) [OF b(2)] b(2) alike_answered unfolding v_def by blast+
  have "alike v m" using a b c by (simp add: alike_def)
  then have p: "m_poll v = m_poll m" "polled v = polled m" using alike_polled [of v m] by (simp_all add: alike_def)
  have "fst (settle_pass env now m) = fst (arm_poll env now v)" by (simp add: settle_pass_def w_def u_def v_def)
  moreover have "set (snd (arm_poll env now v)) \<subseteq> set (snd (settle_pass env now m))"
    by (simp add: settle_pass_def w_def u_def v_def le_supI2)
  moreover note poll_answered [OF c(2), of env now]
  ultimately show ?thesis using p assms(2) by (simp only:) (blast dest: subsetD)
qed

lemma settle_answered:
  assumes "answered i m" "m_poll m = None"
  shows "answered i (fst (settle env now m))" "polled (fst (settle env now m))"
    "\<exists>gen. Api (ApiStatus (the (i_intentId i)) gen 1) \<in> set (snd (settle env now m))"
proof -
  have more: "answered i x \<and> polled x \<Longrightarrow> answered i (fst (settle_passes n env now x)) \<and> polled (fst (settle_passes n env now x))" for n x
  proof (induction n arbitrary: x)
    case (Suc n)
    then have "answered i (fst (settle_pass env now x)) \<and> polled (fst (settle_pass env now x))" using pass_answered by blast
    with Suc.IH show ?case by (cases "fst (settle_pass env now x) = x") (simp_all add: Let_def)
  qed simp
  note p = pass_answered [OF assms(1), of env now]
  have "settle env now m = (if fst (settle_pass env now m) = m then settle_pass env now m
      else and_then (settle_pass env now m) (settle_passes 3 env now))"
    by (simp add: settle_def Let_def eval_nat_numeral)
  then show "answered i (fst (settle env now m))" "polled (fst (settle env now m))"
    "\<exists>gen. Api (ApiStatus (the (i_intentId i)) gen 1) \<in> set (snd (settle env now m))"
    using p assms(2) more [of "fst (settle_pass env now m)" 3] by auto
qed

section \<open>The reply\<close>

text \<open>The reply, when it is an execute response for this order.\<close>

definition own_reply :: "exec_outcome \<Rightarrow> string option \<Rightarrow> execute_result option" where
  "own_reply res own = (case res of
     ExecReply (VObj ob) \<Rightarrow> (if is_relayed_execute_reply (VObj ob) \<and> get_str ob ''intentId'' = own then Some (result_of_reply ob) else None)
   | _ \<Rightarrow> None)"

text \<open>The server says, without qualification, that the order failed and was not executed.\<close>

definition names_no_execution :: "execute_result \<Rightarrow> bool" where
  "names_no_execution r \<longleftrightarrow> xr_status r = StatusOf Failed \<and> \<not> xr_success r \<and> xr_reconciling r = Some False
     \<and> xr_substatus r = Some NOT_EXECUTED_SUBSTATUS"

text \<open>
  It says nothing for this order, or that it failed without denying both success and anything left to reconcile, or it
  withholds success on an order under way without saying that nothing is left to reconcile.
\<close>

definition leaves_doubt :: "execute_result option \<Rightarrow> bool" where
  "leaves_doubt reply \<longleftrightarrow> (case reply of None \<Rightarrow> True
     | Some r \<Rightarrow> xr_status r = StatusOf Failed \<and> (xr_success r \<or> xr_reconciling r \<noteq> Some False)
         \<or> \<not> xr_success r \<and> xr_reconciling r \<noteq> Some False \<and> xr_status r \<notin> {StatusOf Completed, StatusOf Refunded, StatusOf Quoted})"

definition doubtful_status :: "execute_result option \<Rightarrow> intent_status" where
  "doubtful_status reply = (case reply of
     Some r \<Rightarrow> if xr_status r = StatusOf Bridging then Bridging else if xr_status r = StatusOf Settling then Settling else Executing
   | None \<Rightarrow> Executing)"

lemma response_is_own:
  "\<exists>u es. response_unless_in_doubt res own = (map_option (\<lambda>r. (r, u)) (own_reply res own), es)"
proof (cases res)
  case (ExecReply v)
  then show ?thesis
    by (cases v) (auto simp: response_unless_in_doubt_def own_reply_def is_relayed_execute_reply_def)
qed (auto simp: response_unless_in_doubt_def own_reply_def)

text \<open>A handler that finds the reply to the execute that is out.\<close>

lemma on_executed_reply:
  assumes "flow_at m fid StageExecute = Some s" "\<not> awaiting_resend m" "not_accepted_report res = None"
  shows "\<exists>u. fst (on_executed env now fid res m) = (let n = end_sign_flow (m\<lparr>m_pendingIntentSig := None\<rparr>) s in
    case own_reply res (i_intentId (m_intent m)) of None \<Rightarrow> patch n (\<lambda>i. i\<lparr>i_reconciling := True\<rparr>)
    | Some r \<Rightarrow> fst (apply_execute_result now r u n))"
proof -
  obtain u es where "response_unless_in_doubt res (i_intentId (m_intent m)) = (map_option (\<lambda>r. (r, u)) (own_reply res (i_intentId (m_intent m))), es)"
    using response_is_own by blast
  then show ?thesis using assms
    by (intro exI [of _ u]) (auto simp: on_executed_def end_sign_flow_def Let_def split: option.split)
qed

lemma can_move_executing:
  "can_move Executing st \<longleftrightarrow> st \<in> {StatusOf Bridging, StatusOf Settling, StatusOf Completed, StatusOf Refunded, StatusOf Failed}"
  by (cases st) auto

lemma doubtful_result:
  assumes n: "i_status (m_intent n) = Executing" "m_sign n = None" "m_poll n = None" and d: "leaves_doubt (Some r)"
  shows "let x = fst (apply_execute_result now r u n) in i_status (m_intent x) = doubtful_status (Some r)
    \<and> i_reconciling (m_intent x) \<and> i_intentId (m_intent x) = i_intentId (m_intent n) \<and> m_sign x = None \<and> m_poll x = None"
proof -
  have w: "xr_status r \<noteq> StatusOf Completed" "xr_status r \<noteq> StatusOf Refunded" "xr_status r \<noteq> StatusOf Quoted"
    and rec: "or_else (xr_reconciling r) (\<not> xr_success r) \<or> xr_status r = StatusOf Failed \<and> xr_success r"
    using d by (auto simp: leaves_doubt_def or_else_def split: option.splits)
  let ?st = "if xr_status r = StatusOf Failed then StatusOf Executing else xr_status r"
  have dec: "decide_execute_result r = DecTransition ?st (receipt_of r) True"
    using w rec by (auto simp: decide_execute_result_def Let_def)
  show ?thesis
  proof (cases "can_move Executing ?st")
    case True
    then have "xr_status r = StatusOf Bridging \<or> xr_status r = StatusOf Settling"
      using w by (auto simp: can_move_executing split: if_splits)
    then show ?thesis using n w
      by (auto simp: apply_execute_result_def dec Let_def doubtful_status_def transition_intent transition_sign receipt_of_def)
  next
    case False
    then have "xr_status r \<noteq> StatusOf Bridging" "xr_status r \<noteq> StatusOf Settling" by (auto simp: can_move_executing)
    moreover have "fst (transition n ?st v) = n" for v by (rule transition_refused) (simp only: n(1) False not_False_eq_True)
    ultimately show ?thesis using n w False
      by (cases "xr_status r = StatusOf Failed") (simp_all add: apply_execute_result_def dec Let_def doubtful_status_def patch_def)
  qed
qed

lemma owns_result:
  assumes n: "under_way n" and r: "\<not> names_no_execution r"
  shows "owns_up (fst (apply_execute_result now r u n))"
proof (cases "decide_execute_result r")
  case (DecFailed e b)
  then have "xr_status r = StatusOf Failed" "\<not> xr_success r" "xr_reconciling r = Some False" "b = failure_may_have_moved (xr_substatus r)"
    by (auto simp: decide_execute_result_def Let_def or_else_def split: if_splits option.splits)
  then have "b" using r by (simp add: names_no_execution_def failure_may_have_moved_def)
  then have "owns_up (fst (transition n (StatusOf Failed) (\<lambda>i. i\<lparr>i_error := Some (ErrText e), i_mayHaveMoved := b\<rparr>)))"
    by (intro owns_transition [OF n]) simp_all
  then show ?thesis using DecFailed under_way_owns [OF n] unfolding apply_execute_result_def fst_if
    by (simp add: owns_patch)
next
  case (DecTransition st v d)
  have st: "st \<noteq> StatusOf Failed" using DecTransition by (auto simp: decide_execute_result_def Let_def split: if_splits)
  have "owns_up (fst (transition y st (\<lambda>i. (v i)\<lparr>i_reconciling := c\<rparr>)))" if "under_way y" for y c
    using st decided_receipt [OF DecTransition] by (intro owns_transition [OF that]) (simp_all add: receipt_of_def)
  then show ?thesis using DecTransition n under_way_owns [OF n] unfolding apply_execute_result_def fst_if
    by (simp add: owns_patch Let_def)
qed

lemma unexecuted_result:
  assumes "i_status (m_intent n) = Executing" "names_no_execution r"
  shows "i_status (m_intent (fst (apply_execute_result now r u n))) = Failed \<and> \<not> i_mayHaveMoved (m_intent (fst (apply_execute_result now r u n)))"
  using assms by (simp add: apply_execute_result_def names_no_execution_def decide_execute_result_def or_else_def Let_def
    failure_may_have_moved_def transition_intent)

lemma settle_ended:
  assumes "quoteless m"
  shows "m_intent (fst (settle env now m)) = m_intent m \<or> m_intent (fst (settle env now m)) = INITIAL_INTENT_STATE"
proof -
  let ?P = "\<lambda>x. quoteless x \<and> (m_intent x = m_intent m \<or> m_intent x = INITIAL_INTENT_STATE)"
  have w: "?P (fst (watch_wallet x))" if "?P x" for x
    using that by (auto simp: watch_wallet_def quoteless_def Let_def)
  have u: "?P (fst (upgrade_preview env now x))" if "?P x" for x
    using that by (auto simp: upgrade_preview_def should_upgrade_preview_quote_def quoteless_def Let_def)
  have e: "?P (fst (arm_expiry env now x))" if "?P x" for x
    using that expired_key [of x] by (auto simp: arm_expiry_def quoteless_def Let_def)
  have p: "?P (fst (arm_poll env now x))" if "?P x" for x
  proof -
    obtain n' p where "fst (arm_poll env now x) = x\<lparr>m_seq := n', m_poll := p\<rparr>" using arm_poll_fst by blast
    with that show ?thesis by (simp add: quoteless_def)
  qed
  have pass: "?P (fst (settle_pass env now x))" if "?P x" for x
    using w [OF that, THEN u, THEN e, THEN p] by (simp add: settle_pass_def)
  have "?P x \<Longrightarrow> ?P (fst (settle_passes n env now x))" for n x
    using pass by (induction n arbitrary: x) (simp_all add: Let_def)
  with assms show ?thesis by (simp add: settle_def)
qed

text \<open>
  C28. The verdict on an execute reply. While an execute is out, a reply other than the solver's busy refusal ends
  the order as failed with nothing moved, so that Retry is offered, only when it is an execute response for this
  order that says without qualification that the order failed unexecuted; and then the order is over (or the form
  starts afresh, when the wallet has moved). A reply that is lost, unreadable or about another order, that says
  failed without denying success and anything left to reconcile, or that withholds success on an order under way
  without saying that nothing is left to reconcile, leaves the order executing, or bridging or settling if it says
  so, in doubt, with a status read asked for at once and a poll of that order running.
\<close>

theorem execute_verdict:
  assumes "reached any_message config m" "flow_at m fid StageExecute = Some s" "\<not> awaiting_resend m"
    and "\<not> blank_str (i_intentId (m_intent m))" "body g = ExecuteReplied fid res" "not_accepted_report res = None"
  shows "let reply = own_reply res (i_intentId (m_intent m)); after = fst (update env m g); i = m_intent after in
      (i_status i = Failed \<and> \<not> i_mayHaveMoved i \<longrightarrow> (\<exists>r. reply = Some r \<and> names_no_execution r))
    \<and> ((\<exists>r. reply = Some r \<and> names_no_execution r) \<longrightarrow> i_status i = Failed \<and> \<not> i_mayHaveMoved i \<or> i = INITIAL_INTENT_STATE)
    \<and> (leaves_doubt reply \<longrightarrow> i_status i = doubtful_status reply \<and> i_reconciling i \<and> i_intentId i = i_intentId (m_intent m)
        \<and> (\<exists>p. m_poll after = Some p \<and> Some (pl_intentId p) = i_intentId i \<and> \<not> pl_stopped p)
        \<and> (\<exists>gen. Api (ApiStatus (the (i_intentId i)) gen 1) \<in> set (snd (update env m g))))"
proof -
  let ?m = "m\<lparr>m_hidden := msg_hidden g\<rparr>" and ?x = "fst (step env g (m\<lparr>m_hidden := msg_hidden g\<rparr>))"
  let ?reply = "own_reply res (i_intentId (m_intent m))" and ?n = "end_sign_flow (m\<lparr>m_hidden := msg_hidden g, m_pendingIntentSig := None\<rparr>) s"
  have so: "sound (\<lambda>_ _. True) m" by (rule reached_sound [OF assms(1)])
  have sg: "m_sign m = Some s" "sg_stage s = StageExecute" using assms(2) by (simp_all add: flow_at_Some)
  then have st: "i_status (m_intent m) = Executing" using so by (auto simp: sound_def ceremony_ok_def flow_ok_def Let_def)
  have pl: "m_poll m = None"
    using reached_poll_current [OF assms(1)] sg assms(3) by (simp add: poll_key_of_def Let_def)
  have at: "flow_at ?m fid StageExecute = Some s" "\<not> awaiting_resend ?m"
    using assms(2,3) by (simp_all add: flow_at_def awaiting_resend_def)
  obtain u where x: "?x = (case ?reply of None \<Rightarrow> patch ?n (\<lambda>i. i\<lparr>i_reconciling := True\<rparr>) | Some r \<Rightarrow> fst (apply_execute_result (msg_now g) r u ?n))"
    using on_executed_reply [OF at assms(6), of env "msg_now g"] assms(5) by (auto simp: step_def Let_def)
  have n: "i_status (m_intent ?n) = Executing" "m_sign ?n = None" "m_poll ?n = None" "i_intentId (m_intent ?n) = i_intentId (m_intent m)"
    using st pl by (simp_all add: end_sign_flow_def)
  have "under_way ?m" using so st by (auto simp: under_way_def sound_def flights_ok_def)
  then have uw: "under_way ?n" by (simp add: under_way_def end_sign_flow_def)
  have q: "quoteless ?x"
    using outcome_quoteless [OF \<open>under_way ?m\<close>, of g env] assms(5) by (simp add: outcome_message_def)
  have up: "update env m g = and_then (step env g ?m) (settle env (msg_now g))" by (simp add: update_def)
  have only: "\<exists>r. ?reply = Some r \<and> names_no_execution r"
    if "i_status (m_intent (fst (update env m g))) = Failed" "\<not> i_mayHaveMoved (m_intent (fst (update env m g)))"
  proof (rule ccontr)
    assume "\<not> ?thesis"
    then have "owns_up ?x" unfolding x using under_way_owns [OF uw] owns_result [OF uw]
      by (cases ?reply) (simp_all add: owns_patch)
    from owns_settle [OF q this, of env "msg_now g"] that show False by (simp add: up owns_up_def)
  qed
  have ended: "i_status (m_intent (fst (update env m g))) = Failed \<and> \<not> i_mayHaveMoved (m_intent (fst (update env m g)))
      \<or> m_intent (fst (update env m g)) = INITIAL_INTENT_STATE" if "\<exists>r. ?reply = Some r \<and> names_no_execution r"
  proof -
    from that obtain r where "?reply = Some r" "names_no_execution r" by blast
    then have "i_status (m_intent ?x) = Failed \<and> \<not> i_mayHaveMoved (m_intent ?x)"
      using unexecuted_result [OF n(1)] by (simp add: x)
    then show ?thesis using settle_ended [OF q, of env "msg_now g"] by (auto simp: up)
  qed
  have doubt: "i_status i = doubtful_status ?reply \<and> i_reconciling i \<and> i_intentId i = i_intentId (m_intent m)
        \<and> (\<exists>p. m_poll (fst (update env m g)) = Some p \<and> Some (pl_intentId p) = i_intentId i \<and> \<not> pl_stopped p)
        \<and> (\<exists>gen. Api (ApiStatus (the (i_intentId i)) gen 1) \<in> set (snd (update env m g)))"
    if d: "leaves_doubt ?reply" and i: "i = m_intent (fst (update env m g))" for i
  proof -
    have s: "i_status (m_intent ?x) = doubtful_status ?reply" "i_reconciling (m_intent ?x)"
      "i_intentId (m_intent ?x) = i_intentId (m_intent m)" "m_sign ?x = None" "m_poll ?x = None"
      using d doubtful_result [OF n(1-3), of _ "msg_now g" u] n
      by (cases ?reply; simp add: x doubtful_status_def patch_def Let_def)+
    have "in_flight (doubtful_status ?reply)" by (simp add: doubtful_status_def split: option.split)
    then have a: "answered (m_intent ?x) ?x" using s assms(4) by (simp add: answered_def)
    note settled = settle_answered [OF a s(5), of env "msg_now g"]
    then have "i = m_intent ?x" by (simp add: i up answered_def)
    then show ?thesis using s settled by (auto simp: up polled_def answered_def)
  qed
  show ?thesis unfolding Let_def using only ended doubt [OF _ refl] by blast
qed

end
