(* ===== verification/Walkthrough.thy ===== *)
theory Walkthrough
  imports MachineVerdict
begin

text \<open>
  One trade, followed through the machine from the first keystroke: the concrete run the witnesses of
  the machine properties evaluate. A thousand units of a token on Ethereum for one on Optimism, paid by
  an ERC-3009 pull to a pinned solver.
\<close>

section \<open>The parties and the quote\<close>

definition user :: string where "user = ''0x1111111111111111111111111111111111111111''"
definition token_in :: string where "token_in = ''0x2222222222222222222222222222222222222222''"
definition token_out :: string where "token_out = ''0x3333333333333333333333333333333333333333''"
definition solver :: string where "solver = ''0x4444444444444444444444444444444444444444''"
definition expiry_text :: string where "expiry_text = ''1970-01-01T00:30:00Z''"

definition noon :: env where
  "noon = \<lparr>wall_now = 1000000, date_other = (\<lambda>_. None), recover_message = (\<lambda>_ _. None), sha256 = (\<lambda>_. [])\<rparr>"

definition form :: trade_context where
  "form = \<lparr>cx_fromChainId = 1, cx_toChainId = 10, cx_fromToken = token_in, cx_toToken = token_out,
     cx_settlementPreference = Public, cx_trustScore = 0, cx_slippageBps = 50,
     cx_recipientAddress = None, cx_refundAddress = None, cx_stealthMetaAddress = None,
     cx_ref = None, cx_promo = None, cx_paused = False,
     cx_wallet = \<lparr>wl_address = Some user, wl_chainId = Some 1, wl_stepwise = False\<rparr>\<rparr>"

definition pins :: machine_config where
  "pins = \<lparr>cfg_solverPin = \<lparr>erc3009Allowlist = [solver], permit2Allowlist = [], requirePin = True\<rparr>,
     cfg_pullRecipients = None, cfg_depositAttestationSigner = None\<rparr>"

definition the_intent :: typed_data where
  "the_intent = \<lparr>td_domain = [], td_types = [], td_primaryType = ''XochiIntent'',
     td_message = [(''wallet'', VStr user), (''fromChainId'', VInt 1), (''toChainId'', VInt 10),
       (''fromToken'', VStr token_in), (''toToken'', VStr token_out), (''fromAmount'', VStr ''1000''),
       (''toAmount'', VStr ''990''), (''recipient'', VStr user), (''settlementPreference'', VStr ''public''),
       (''deadline'', VInt 1500)]\<rparr>"

definition the_pull :: typed_data where
  "the_pull = \<lparr>td_domain = [(''chainId'', VInt 1), (''verifyingContract'', VStr token_in)],
     td_types = [(''ReceiveWithAuthorization'', [])], td_primaryType = ''ReceiveWithAuthorization'',
     td_message = [(''from'', VStr user), (''to'', VStr solver), (''value'', VStr ''1000''),
       (''validBefore'', VInt 1600)]\<rparr>"

definition the_quote :: quote_response where
  "the_quote = \<lparr>q_success = True, q_intentId = ''int-1'', q_quoteId = ''quo-1'', q_canSolve = True,
     q_preview = None, q_toAmount = ''990'', q_minToAmount = ''985'', q_xochiFee = ''1'',
     q_xochiFeeRate = ''0.001'', q_costBps = None, q_feeBreakdown = None, q_feeDenomination = None,
     q_estimatedGasCost = ''0'', q_streamTopic = None, q_expiry = expiry_text, q_gasless = True,
     q_gaslessFee = None, q_paymentMethod = None, q_eip712Data = Some the_intent,
     q_pullAuthorization = Some the_pull, q_depositAddress = None, q_depositAttestation = None,
     q_depositDeadline = None, q_settlementType = None, q_escrow = VUndef, q_recipientAddress = None,
     q_settlementOptions = [], q_claimInfo = None, q_error = None, q_errorCategory = None,
     q_referral = VUndef, q_referralNote = None, q_promo = VUndef, q_promoNote = None,
     q_minimumAmountUsd = None, q_minFillableUsd = None\<rparr>"

lemma char_code [simp]: "code c = of_char c"
  by (simp add: code_def)

lemma party_facts [simp]:
  "user \<noteq> []" "is_valid_address user" "user \<noteq> ZERO_ADDRESS" "user \<noteq> token_out" "user \<noteq> solver"
  "is_valid_address token_in" "token_in \<noteq> ZERO_ADDRESS" "is_valid_address token_out" "token_out \<noteq> ZERO_ADDRESS"
  "token_in \<noteq> []" "token_out \<noteq> []" "to_lower solver = solver" "expiry_text \<noteq> []"
  "normalize_party_capable user \<noteq> normalize_party_capable token_out"
  by (simp_all add: user_def token_in_def token_out_def solver_def ZERO_ADDRESS_def is_valid_address_def
      starts_with_def is_hex_digit_def is_digit_def to_lower_def lower_char_def expiry_text_def
      normalize_party_capable_def hex_literal_i_def normalize_address_def trim_def is_space_def)

lemma expiry_time: "date_get_time env expiry_text = Some 1800000"
  by (simp add: expiry_text_def date_get_time_def iso_day_def iso_clock_def digits_at_def char_at_def
      is_digit_def digits_val_def digit_val_def zone_offset_def time_ms_def days_to_def
      days_before_year_def month_lengths_def)

section \<open>Evaluating an update\<close>

definition hear :: "msg_body \<Rightarrow> num \<Rightarrow> message" where
  "hear b t = \<lparr>body = b, msg_now = t, msg_hidden = False\<rparr>"

lemma hear_simps [simp]: "body (hear b t) = b" "msg_now (hear b t) = t" "msg_hidden (hear b t) = False"
  by (simp_all add: hear_def)

text \<open>An update is its step and one pass of the rules, when that pass settles.\<close>

lemma update_by:
  assumes "m_hidden m = False" "step env (hear b t) m = (a, es)" "settle_pass env t a = (c, fs)" "settled c"
  shows "update env m (hear b t) = (c, es @ fs)"
proof -
  have "m\<lparr>m_hidden := False\<rparr> = m" using assms(1) by simp
  moreover have "settle env t a = (c, fs)"
    using assms(3,4) by (cases "c = a") (simp_all add: settle_def numeral_eq_Suc Let_def and_then_def settled_passes settled_pass)
  ultimately show ?thesis using assms(2) by (simp add: update_def and_then_def)
qed

lemmas pass_defs = settle_pass_def watch_wallet_def upgrade_preview_def arm_expiry_def arm_poll_def
  wallet_key_of_def upgrade_key_of_def expiry_key_of_def poll_key_of_def held_preview_def wallet_moved_def
  should_upgrade_preview_quote_def and_then_def emitting_def settled_def awaiting_resend_def
  account_changed_def has_deposit_address_def quote_is_preview_def Let_def

definition watching :: "string option \<Rightarrow> int option \<Rightarrow> string \<Rightarrow> intent_status \<Rightarrow> string option \<Rightarrow> watched_keys" where
  "watching quoted_by quoted_on amount st expiry = \<lparr>wk_wallet = Some (Some user, Some 1, quoted_by, quoted_on),
     wk_upgrade = Some (trade_key_of form, amount, False, st), wk_expiry = expiry\<rparr>"

declare One_nat_def [simp del]

section \<open>To the quote\<close>

definition opened :: model where
  "opened = init_model pins form False"

definition typed :: model where
  "typed = opened\<lparr>m_amount := ''1000'', m_watched := watching None None ''1000'' Idle None\<rparr>"

definition the_flight :: quote_flight where
  "the_flight = \<lparr>fl_id = ''q1'', fl_stage = FSession, fl_amount = ''1000'', fl_silent = False,
     fl_forceRefresh = False, fl_allocate = None, fl_ctx = form, fl_depositOrigin = False,
     fl_preview = False, fl_request = None\<rparr>"

definition the_request :: quote_request where
  "the_request = build_quote_request (raw_request the_flight 1000000)"

definition asking :: model where
  "asking = typed\<lparr>m_seq := 1, m_intent := INITIAL_INTENT_STATE\<lparr>i_status := Quoting\<rparr>,
     m_flights := [the_flight\<lparr>fl_stage := FApi, fl_request := Some the_request\<rparr>],
     m_watched := watching None None ''1000'' Quoting None\<rparr>"

definition the_offer :: intent_state where
  "the_offer = INITIAL_INTENT_STATE\<lparr>i_status := Quoted, i_intentId := Some ''int-1'', i_quoteId := Some ''quo-1'',
     i_quote := Some the_quote, i_quotedAddress := Some user, i_quotedChainId := Some 1,
     i_quotedFromAmount := Some ''1000'', i_quotedSettlement := Some Public\<rparr>"

definition offered :: model where
  "offered = asking\<lparr>m_intent := the_offer, m_flights := [], m_quotedTrade := Some (trade_key_of form),
     m_refresh := Some (''1000'', False), m_quoteExpiresIn := Some (Fin 799),
     m_watched := watching (Some user) (Some 1) ''1000'' Quoted (Some expiry_text)\<rparr>"

lemma opened_simps [simp]:
  "m_config opened = pins" "m_ctx opened = form" "m_hidden opened = False"
  "m_intent opened = INITIAL_INTENT_STATE" "m_amount opened = []" "m_allocationKey opened = None"
  "\<not> m_awaitingPull opened" "\<not> m_isSigningPull opened" "m_pendingIntentSig opened = None"
  "m_seq opened = 0" "m_flights opened = []" "m_sign opened = None" "m_poll opened = None"
  "m_refresh opened = None" "m_quotedTrade opened = None" "m_seenDepositAddresses opened = []"
  "m_watched opened = \<lparr>wk_wallet = None, wk_upgrade = None, wk_expiry = None\<rparr>" "m_submittedAt opened = None"
  by (simp_all add: opened_def init_model_def)

lemma typed_simps [simp]:
  "m_config typed = pins" "m_ctx typed = form" "m_hidden typed = False"
  "m_intent typed = INITIAL_INTENT_STATE" "m_amount typed = ''1000''" "m_seq typed = 0" "m_flights typed = []"
  "m_sign typed = None" "m_poll typed = None"
  by (simp_all add: typed_def)

lemma the_flight_simps [simp]:
  "fl_id the_flight = ''q1''" "fl_ctx the_flight = form" "\<not> fl_silent the_flight" "\<not> fl_preview the_flight"
  "fl_allocate the_flight = None" "fl_amount the_flight = ''1000''" "\<not> fl_forceRefresh the_flight"
  "\<not> fl_depositOrigin the_flight"
  by (simp_all add: the_flight_def)

lemma form_simps [simp]:
  "cx_wallet form = \<lparr>wl_address = Some user, wl_chainId = Some 1, wl_stepwise = False\<rparr>"
  "cx_fromChainId form = 1" "cx_settlementPreference form = Public" "\<not> cx_paused form"
  "cx_toChainId form = 10" "cx_fromToken form = token_in" "cx_toToken form = token_out"
  "cx_recipientAddress form = None"
  by (simp_all add: form_def)

lemma type_amount:
  "update noon opened (hear (QuoteRequested ''1000'') 1000000) =
     (typed, [clear_timer TDebounce, clear_timer TRefresh, set_timer TDebounce QUOTE_DEBOUNCE_MS False])"
proof -
  have "step noon (hear (QuoteRequested ''1000'') 1000000) opened =
      (opened\<lparr>m_amount := ''1000''\<rparr>, [clear_timer TDebounce, clear_timer TRefresh, set_timer TDebounce QUOTE_DEBOUNCE_MS False])"
    by (simp add: step_def quote_requested_def supersede_flights_def Let_def and_then_def emitting_def)
  moreover have "settle_pass noon 1000000 (opened\<lparr>m_amount := ''1000''\<rparr>) = (typed, [])"
    by (simp add: pass_defs typed_def watching_def)
  moreover have "settled typed" by (simp add: pass_defs typed_def watching_def)
  ultimately show ?thesis using update_by [of opened noon "QuoteRequested ''1000''"] by simp
qed

lemma chain_1 [simp]: "is_chain_id 1" "is_selectable_chain_id 1" "is_selectable_chain_id 10"
  by (simp_all add: is_selectable_chain_id_def is_chain_id_def supported_chain_ids_def chain_list_def)

lemma numerals [simp]: "show_nat 1 = ''1''" "show_nat 2 = ''2''" "show_nat 3 = ''3''"
  by code_simp+

lemma amounts [simp]: "big_int ''1000'' = Some 1000" "big_int ''990'' = Some 990"
  by (simp_all add: big_int_digits all_digits_def is_digit_def digits_val_def digit_val_def)

lemma the_request_sendable: "validate_swap_params noon (params_of_request the_request) 1000000 = []"
  unfolding validate_swap_params_ok
  by (simp add: sendable_def the_request_def build_quote_request_def raw_request_def the_flight_def
      params_of_request_def trimmed_def normalize_quote_code_def normalize_stealth_def QUOTE_DEADLINE_SECS_def Let_def form_def)


lemma big_VInt [simp]: "big_of (VInt n) = Some n" if "\<bar>n\<bar> \<le> 100000"
  using that by (intro big_of_VInt) auto

lemma ask_for_quote:
  "update noon typed (hear (TimerFired TDebounce) 1000000) =
     (asking, [Api (ApiQuote ''q1'' the_request False)])"
proof -
  have r: "build_quote_request (raw_request the_flight 1000000) = the_request" by (simp add: the_request_def)
  have f: "\<lparr>fl_id = ''q1'', fl_stage = FSession, fl_amount = ''1000'', fl_silent = False,
     fl_forceRefresh = False, fl_allocate = None, fl_ctx = form, fl_depositOrigin = False,
     fl_preview = False, fl_request = None\<rparr> = the_flight" by (simp add: the_flight_def)
  let ?a = "typed\<lparr>m_seq := 1, m_intent := INITIAL_INTENT_STATE\<lparr>i_status := Quoting\<rparr>,
     m_flights := [the_flight\<lparr>fl_stage := FApi, fl_request := Some the_request\<rparr>]\<rparr>"
  have t: "transition (typed\<lparr>m_seq := 1\<rparr>) (StatusOf Quoting) id =
      (typed\<lparr>m_seq := 1, m_intent := INITIAL_INTENT_STATE\<lparr>i_status := Quoting\<rparr>\<rparr>, [])"
    by (simp add: transition_def apply_status_transition_def and_then_def own_execute_def Let_def INITIAL_INTENT_STATE_def)
  have sq: "send_quote noon 1000000 the_flight (typed\<lparr>m_seq := 1\<rparr>) = (?a, [Api (ApiQuote ''q1'' the_request False)])"
    using the_request_sendable
    by (simp add: send_quote_def r t and_then_def put_flight_def Let_def)
  have "step noon (hear (TimerFired TDebounce) 1000000) typed = (?a, [Api (ApiQuote ''q1'' the_request False)])"
    using sq by (simp add: step_def on_timer_def ask_again_def start_quote_def quote_opts_of_def held_may_have_moved_def
      quote_access_decision_def Let_def f)
  moreover have "settle_pass noon 1000000 ?a = (asking, [])"
    by (simp add: pass_defs asking_def typed_def watching_def)
  moreover have "settled asking" by (simp add: pass_defs asking_def typed_def watching_def)
  ultimately show ?thesis using update_by [of typed noon "TimerFired TDebounce"] by (simp add: typed_def)
qed


section \<open>The quote arrives\<close>

lemma numeric_intent [simp]: "same_numeric (VInt n) (VInt k) \<longleftrightarrow> n = k" if "\<bar>n\<bar> \<le> 100000" "\<bar>k\<bar> \<le> 100000"
  using that by (simp add: same_numeric_def)

lemma the_request_simps [simp]:
  "r_fromChainId the_request = 1" "r_toChainId the_request = 10" "r_fromToken the_request = token_in"
  "r_toToken the_request = token_out" "r_fromAmount the_request = ''1000''"
  "r_settlementPreference the_request = Public" "r_recipientAddress the_request = None"
  "r_wallet the_request = Some user"
  by (simp_all add: the_request_def trimmed_def)

lemma signable: "check_signable_quote noon the_request the_quote None = Inr ()"
proof -
  have "assert_intent_matches_request noon (quote_request_params the_request) (served_of the_quote) = Inr ()"
    by (simp add: assert_intent_ok quote_request_params_def served_of_def the_quote_def the_intent_def
        check_wallet_ok check_address_ok expected_recipient_def check_amounts_def check_numeric_ok
        deadline_bounded_def noon_def same_numeric_def str_or_empty_def val_or_def settlement_str_def)
  moreover have "assert_pull_matches_intent noon (served_of the_quote) (client_pull_options None) = Inr ()"
    by (simp add: assert_pull_ok served_of_def the_quote_def the_intent_def the_pull_def pull_kind_of_def
        pull_matches_def pulled_amount_def pulled_token_def pull_recipient_pinned_def pinned_for_def
        client_pull_options_def assert_pull_not_to_pinned_escrow_def check_pull_expiry_def pull_field_def
        pull_expiry_bound_seconds_def MAX_PULL_EXPIRY_AFTER_INTENT_SECONDS_def
        deadline_bounded_def noon_def same_numeric_def str_or_empty_def val_or_def passed_def refuse_if_def nullish_def Let_def)
  ultimately show ?thesis by (simp add: check_signable_quote_ok)
qed

lemma quote_passes:
  "quote_gates noon None the_quote (the_flight\<lparr>fl_stage := FApi, fl_request := Some the_request\<rparr>) = Inr ()"
  using signable
  by (simp add: quote_gates_def gate_success_def gate_solvable_def gate_kind_def gate_echo_def gate_claim_def
      gate_token_def gate_route_def gate_signable_def passed_def the_quote_def quote_is_preview_def
      has_deposit_address_def recipient_echo_error_def claim_info_error_def requested_settlement_def
      resolved_recipient_def trimmed_def or_null_def recipient_is_destination_token_def)


lemma pins_simps [simp]:
  "cfg_pullRecipients pins = None" "cfg_depositAttestationSigner pins = None"
  "cfg_solverPin pins = \<lparr>erc3009Allowlist = [solver], permit2Allowlist = [], requirePin = True\<rparr>"
  by (simp_all add: pins_def)

lemma the_quote_simps [simp]:
  "q_canSolve the_quote" "q_preview the_quote = None" "q_expiry the_quote = expiry_text"
  "q_eip712Data the_quote = Some the_intent" "q_pullAuthorization the_quote = Some the_pull"
  "q_depositAddress the_quote = None" "q_intentId the_quote = ''int-1''" "q_quoteId the_quote = ''quo-1''"
  "q_toAmount the_quote = ''990''" "\<not> quote_is_preview the_quote" "\<not> has_deposit_address the_quote"
  by (simp_all add: the_quote_def quote_is_preview_def has_deposit_address_def)

lemma quote_arrives:
  "update noon asking (hear (QuoteReplied ''q1'' (Inr the_quote)) 1001000) =
     (offered, [set_timer TRefresh 794000 False, set_timer TExpiry 1000 True])"
proof -
  let ?f = "the_flight\<lparr>fl_stage := FApi, fl_request := Some the_request\<rparr>"
  let ?w = "without_flight asking ''q1''"
  let ?b = "asking\<lparr>m_intent := the_offer, m_flights := [], m_quotedTrade := Some (trade_key_of form),
     m_refresh := Some (''1000'', False)\<rparr>"
  have a: "m_flights asking = [?f]" "i_status (m_intent asking) = Quoting" "m_config asking = pins" "m_hidden asking = False"
    by (simp_all add: asking_def)
  have t: "transition ?w (StatusOf Quoted) (\<lambda>i. accepted_state ?f the_quote None i\<lparr>i_pollExhausted := False\<rparr>) =
      (?w\<lparr>m_intent := the_offer\<rparr>, [])"
    by (simp add: transition_def apply_status_transition_def and_then_def Let_def without_flight_def asking_def
        accepted_state_def the_offer_def requested_settlement_def INITIAL_INTENT_STATE_def)
  have st: "i_status (m_intent ?w) = Quoting" "m_config ?w = pins" using a by (simp_all add: without_flight_def)
  have "accept_quote noon 1001000 ?f the_quote None ?w = (?b, [set_timer TRefresh 794000 False])"
    using st by (simp add: accept_quote_def accept_landing_def t and_then_def arm_refresh_def Let_def
        compute_refresh_delay_ms_def expiry_time QUOTE_REFRESH_BUFFER_MS_def end_allocation_def)
      (simp add: without_flight_def a)
  then have "step noon (hear (QuoteReplied ''q1'' (Inr the_quote)) 1001000) asking =
      (?b, [set_timer TRefresh 794000 False])"
    using quote_passes st a
    by (simp add: step_def on_quote_def find_flight_def Let_def take_quote_def)
  moreover have "settle_pass noon 1001000 ?b = (offered, [set_timer TExpiry 1000 True])"
    by (simp add: pass_defs tick_expiry_def expiry_time offered_def watching_def the_offer_def asking_def typed_def)
  moreover have "settled offered"
    by (simp add: pass_defs offered_def watching_def the_offer_def asking_def)
  ultimately show ?thesis using update_by [of asking noon] a by simp
qed

section \<open>The signatures\<close>

definition the_flow :: "sign_stage \<Rightarrow> string option \<Rightarrow> sign_flow" where
  "the_flow stage signed = \<lparr>sg_id = ''s2'', sg_origin = FromSign, sg_stage = stage,
     sg_intentSignature = signed, sg_execute = None\<rparr>"

definition prompted :: model where
  "prompted = offered\<lparr>m_seq := 2, m_intent := the_offer\<lparr>i_status := Signing\<rparr>,
     m_sign := Some (the_flow StageIntent None), m_quoteExpiresIn := None,
     m_watched := watching (Some user) (Some 1) ''1000'' Signing None\<rparr>"

definition approving :: model where
  "approving = prompted\<lparr>m_pendingIntentSig := Some ''0xa1'', m_sign := Some (the_flow StageApproval (Some ''0xa1''))\<rparr>"

definition pulling :: model where
  "pulling = approving\<lparr>m_sign := Some (the_flow StagePull (Some ''0xa1''))\<rparr>"

lemma the_offer_simps [simp]:
  "i_status the_offer = Quoted" "i_quote the_offer = Some the_quote" "i_quotedFromAmount the_offer = Some ''1000''"
  "i_quotedAddress the_offer = Some user" "i_quotedChainId the_offer = Some 1" "i_refusal the_offer = None"
  "\<not> i_notSent the_offer" "i_intentId the_offer = Some ''int-1''" "i_quoteId the_offer = Some ''quo-1''"
  "\<not> i_mayHaveMoved the_offer" "\<not> i_reconciling the_offer" "i_depositDeadline the_offer = None"
  by (simp_all add: the_offer_def INITIAL_INTENT_STATE_def)

lemma offered_simps [simp]:
  "m_intent offered = the_offer" "m_ctx offered = form" "m_amount offered = ''1000''" "m_config offered = pins"
  "m_hidden offered = False" "m_seq offered = 1" "m_flights offered = []" "m_sign offered = None"
  "m_poll offered = None" "m_quotedTrade offered = Some (trade_key_of form)" "\<not> m_isSigningPull offered"
  "m_pendingIntentSig offered = None" "\<not> m_awaitingPull offered" "m_quoteExpiresIn offered = Some (Fin 799)"
  "m_watched offered = watching (Some user) (Some 1) ''1000'' Quoted (Some expiry_text)"
  by (simp_all add: offered_def asking_def typed_def opened_def init_model_def)

lemma can_sign_now: "decide_sign_preflight \<lparr>pf_hasDepositAddress = False, pf_hasEip712 = True,
    pf_address = Some user, pf_quotedAddress = Some user, pf_quotedChainId = Some 1, pf_chainId = Some 1,
    pf_originChainId = 1, pf_expiryMs = Some 1800000, pf_now = 1002000\<rparr> = PfProceed"
  by (simp add: preflight_proceeds)

lemma pays_the_user: "validate_payout_pin the_intent \<lparr>pe_toAmount = ''990'', pe_recipient = Some user\<rparr> = Inr ()"
  by (simp add: validate_payout_pin_def the_intent_def same_amount_def same_recipient_def big_int_arg_def
      is_str_or_num_def passed_def refuse_if_def Let_def)

lemma confirm:
  "update noon offered (hear SignRequested 1002000) =
     (prompted, [Wallet (SignTypedData ''s2'' ForIntent the_intent (Some 1)),
        set_timer TSignPrompt SIGN_PROMPT_TIMEOUT_MS False, clear_timer TExpiry])"
proof -
  let ?a = "offered\<lparr>m_seq := 2, m_intent := the_offer\<lparr>i_status := Signing\<rparr>, m_sign := Some (the_flow StageIntent None)\<rparr>"
  have t: "transition offered (StatusOf Signing) (\<lambda>i. i\<lparr>i_refusal := None\<rparr>) =
      (offered\<lparr>m_intent := the_offer\<lparr>i_status := Signing\<rparr>\<rparr>, [])"
    by (simp add: transition_def apply_status_transition_def and_then_def Let_def busy_value_def supersede_flights_def
        the_offer_def INITIAL_INTENT_STATE_def)
  have "step noon (hear SignRequested 1002000) offered = (?a,
      [Wallet (SignTypedData ''s2'' ForIntent the_intent (Some 1)), set_timer TSignPrompt SIGN_PROMPT_TIMEOUT_MS False])"
    using can_sign_now pays_the_user
    by (simp add: step_def begin_sign_def confirm_quote_def prompt_intent_def can_sign_quote_def holds_current_quote_def
        sign_preflight_of_def payout_expectation_of_def quote_expiry_ms_def expiry_time resolved_recipient_def trimmed_def
        or_null_def t the_flow_def Let_def)
  moreover have "settle_pass noon 1002000 ?a = (prompted, [clear_timer TExpiry])"
    by (simp add: pass_defs prompted_def watching_def the_flow_def)
  moreover have "settled prompted"
    by (simp add: pass_defs prompted_def watching_def the_flow_def)
  ultimately show ?thesis using update_by [of offered noon SignRequested] by simp
qed

lemma prompted_simps [simp]:
  "m_intent prompted = the_offer\<lparr>i_status := Signing\<rparr>" "m_ctx prompted = form" "m_config prompted = pins"
  "m_hidden prompted = False" "m_amount prompted = ''1000''" "m_flights prompted = []" "m_poll prompted = None"
  "m_sign prompted = Some (the_flow StageIntent None)" "\<not> m_isSigningPull prompted"
  "m_quoteExpiresIn prompted = None"
  "m_watched prompted = watching (Some user) (Some 1) ''1000'' Signing None"
  by (simp_all add: prompted_def)

lemma the_flow_simps [simp]:
  "sg_id (the_flow st sig) = ''s2''" "sg_stage (the_flow st sig) = st" "sg_origin (the_flow st sig) = FromSign"
  "sg_intentSignature (the_flow st sig) = sig" "sg_execute (the_flow st sig) = None"
  "(the_flow st sig)\<lparr>sg_intentSignature := s\<rparr> = the_flow st s"
  "(the_flow st sig)\<lparr>sg_stage := z\<rparr> = the_flow z sig"
  by (simp_all add: the_flow_def)

lemma the_pull_pinned: "validate_solver_pin the_pull (cfg_solverPin pins) 1000 = Inr ()"
  by (simp add: validate_solver_pin_ok pinned_erc3009_def the_pull_def extract_pull_amount_def coerce_pull_amount_def
      trim_def is_space_def all_digits_def is_digit_def is_int_num_def)

lemma intent_signature:
  "update noon prompted (hear (SignReplied ''s2'' ForIntent (Inr ''0xa1'')) 1010000) =
     (approving, [clear_timer TSignPrompt, Wallet (EnsureApproval ''s2'' ''1000'')])"
proof -
  have "step noon (hear (SignReplied ''s2'' ForIntent (Inr ''0xa1'')) 1010000) prompted =
      (approving, [clear_timer TSignPrompt, Wallet (EnsureApproval ''s2'' ''1000'')])"
    using the_pull_pinned
    by (simp add: step_def on_signed_def flow_at_def stage_of_purpose_def intent_signed_def quote_field_def
        complete_pull_def intended_amount_def or_null_def js_bigint_def approving_def emitting_def Let_def) code_simp
  moreover have "settle_pass noon 1010000 approving = (approving, [])"
    by (simp add: pass_defs approving_def watching_def)
  moreover have "settled approving" by (simp add: pass_defs approving_def watching_def)
  ultimately show ?thesis using update_by [of prompted noon] by simp
qed

lemma pull_prompt:
  "update noon approving (hear (ApprovalReplied ''s2'' (Inr True)) 1011000) =
     (pulling, [Wallet (SignTypedData ''s2'' ForPull the_pull (Some 1)), set_timer TSignPrompt SIGN_PROMPT_TIMEOUT_MS False])"
proof -
  have "step noon (hear (ApprovalReplied ''s2'' (Inr True)) 1011000) approving =
      (pulling, [Wallet (SignTypedData ''s2'' ForPull the_pull (Some 1)), set_timer TSignPrompt SIGN_PROMPT_TIMEOUT_MS False])"
    by (simp add: step_def on_approval_def flow_at_def quote_field_def pulling_def approving_def Let_def)
  moreover have "settle_pass noon 1011000 pulling = (pulling, [])"
    by (simp add: pass_defs pulling_def approving_def watching_def)
  moreover have "settled pulling" by (simp add: pass_defs pulling_def approving_def watching_def)
  ultimately show ?thesis using update_by [of approving noon] by (simp add: approving_def)
qed

section \<open>The order, and a failure that says nothing\<close>

definition the_order :: execute_request where
  "the_order = \<lparr>x_intentId = ''int-1'', x_quoteId = ''quo-1'', x_signature = ''0xa1'', x_nonce = 1012000,
     x_pullSignature = Some ''0xb2''\<rparr>"

definition the_attempt :: execute_attempt where
  "the_attempt = \<lparr>at_request = the_order, at_resends = 0, at_resendAt = None, at_error = None\<rparr>"

definition sent :: model where
  "sent = pulling\<lparr>m_intent := the_offer\<lparr>i_status := Executing\<rparr>,
     m_sign := Some ((the_flow StageExecute (Some ''0xa1''))\<lparr>sg_execute := Some the_attempt\<rparr>),
     m_submittedAt := Some 1012000, m_clientFillMs := None,
     m_watched := watching (Some user) (Some 1) ''1000'' Executing None\<rparr>"

definition bare_failure :: jsval where
  "bare_failure = VObj [(''success'', VBool False), (''intentId'', VStr ''int-1''), (''status'', VStr ''failed''),
     (''reconciling'', VBool False)]"

definition stuck :: model where
  "stuck = sent\<lparr>m_intent := the_offer\<lparr>i_status := Failed, i_error := Some (ErrText ''Execution failed''),
       i_mayHaveMoved := True\<rparr>, m_sign := None, m_pendingIntentSig := None,
     m_watched := watching (Some user) (Some 1) ''1000'' Failed None\<rparr>"

lemma pulling_simps [simp]:
  "m_intent pulling = the_offer\<lparr>i_status := Signing\<rparr>" "m_ctx pulling = form" "m_config pulling = pins"
  "m_hidden pulling = False" "m_amount pulling = ''1000''" "m_flights pulling = []" "m_poll pulling = None"
  "m_sign pulling = Some (the_flow StagePull (Some ''0xa1''))" "\<not> m_isSigningPull pulling"
  "\<not> m_awaitingPull pulling" "m_quoteExpiresIn pulling = None" "pulling\<lparr>m_awaitingPull := False\<rparr> = pulling"
  "m_watched pulling = watching (Some user) (Some 1) ''1000'' Signing None"
  by (simp_all add: pulling_def approving_def prompted_def offered_def asking_def typed_def opened_def init_model_def)

lemma send_order:
  "update noon pulling (hear (SignReplied ''s2'' ForPull (Inr ''0xb2'')) 1012000) =
     (sent, [clear_timer TSignPrompt, Api (ApiExecute ''s2'' the_order)])"
proof -
  let ?s = "pulling\<lparr>m_sign := Some ((the_flow StageExecute (Some ''0xa1''))\<lparr>sg_execute := Some the_attempt\<rparr>)\<rparr>"
  let ?a = "?s\<lparr>m_intent := the_offer\<lparr>i_status := Executing\<rparr>, m_submittedAt := Some 1012000, m_clientFillMs := None\<rparr>"
  have t: "transition ?s (StatusOf Executing) id = (?s\<lparr>m_intent := the_offer\<lparr>i_status := Executing\<rparr>\<rparr>, [])"
    by (simp add: transition_def apply_status_transition_def and_then_def Let_def busy_value_def own_execute_def
        the_offer_def INITIAL_INTENT_STATE_def)
  have "run_execute 1012000 (the_flow StagePull (Some ''0xa1'')) ''0xa1'' (Some ''0xb2'') pulling =
      (?a, [Api (ApiExecute ''s2'' the_order)])"
    using t by (simp add: run_execute_def the_order_def the_attempt_def Let_def)
  then have "step noon (hear (SignReplied ''s2'' ForPull (Inr ''0xb2'')) 1012000) pulling =
      (?a, [clear_timer TSignPrompt, Api (ApiExecute ''s2'' the_order)])"
    by (simp add: step_def on_signed_def flow_at_def stage_of_purpose_def emitting_def Let_def)
  moreover have "settle_pass noon 1012000 ?a = (sent, [])"
    by (simp add: pass_defs sent_def watching_def the_attempt_def)
  moreover have "settled sent" by (simp add: pass_defs sent_def watching_def the_attempt_def)
  ultimately show ?thesis using update_by [of pulling noon] by simp
qed

lemma sent_simps [simp]:
  "m_intent sent = the_offer\<lparr>i_status := Executing\<rparr>" "m_ctx sent = form" "m_config sent = pins"
  "m_hidden sent = False" "m_amount sent = ''1000''" "m_flights sent = []" "m_poll sent = None"
  "m_sign sent = Some ((the_flow StageExecute (Some ''0xa1''))\<lparr>sg_execute := Some the_attempt\<rparr>)"
  "\<not> m_isSigningPull sent" "\<not> m_awaitingPull sent" "m_quoteExpiresIn sent = None"
  "m_watched sent = watching (Some user) (Some 1) ''1000'' Executing None"
  by (simp_all add: sent_def)

lemma bare_failure_read:
  "response_unless_in_doubt (ExecReply bare_failure) (Some ''int-1'') =
     (Some (\<lparr>xr_success = False, xr_status = StatusOf Failed, xr_reconciling = Some False, xr_error = None,
        xr_substatus = None, xr_txHash = None, xr_receivingTxHash = None, xr_settlementTxHash = None,
        xr_settlementChainId = None\<rparr>, False), [])"
  by (simp add: response_unless_in_doubt_def bare_failure_def is_relayed_execute_reply_def is_bool_def is_str_def
      optional_kind_def result_of_reply_def get_str_def get_bool_def get_num_def obj_get_def decode_wire_status_def
      intent_status_of_def all_statuses_def status_str_def decoded_value_def Let_def)

lemma order_fails:
  "fst (update noon sent (hear (ExecuteReplied ''s2'' (ExecReply bare_failure)) 1013000)) = stuck"
proof -
  let ?n = "sent\<lparr>m_pendingIntentSig := None, m_sign := None\<rparr>"
  let ?f = "the_offer\<lparr>i_status := Failed, i_error := Some (ErrText ''Execution failed''), i_mayHaveMoved := True\<rparr>"
  let ?a = "?n\<lparr>m_intent := ?f\<rparr>"
  have t: "fst (transition ?n (StatusOf Failed) (\<lambda>i. i\<lparr>i_error := Some (ErrText ''Execution failed''), i_mayHaveMoved := True\<rparr>)) = ?a"
    by (simp add: transition_def apply_status_transition_def and_then_def Let_def busy_value_def abandon_sign_def
        awaiting_resend_def the_offer_def INITIAL_INTENT_STATE_def)
  have r: "at_resendAt the_attempt = None" by (simp add: the_attempt_def)
  have n: "end_sign_flow (sent\<lparr>m_pendingIntentSig := None\<rparr>) ((the_flow StageExecute (Some ''0xa1''))\<lparr>sg_execute := Some the_attempt\<rparr>) = ?n"
    by (simp add: end_sign_flow_def)
  have "fst (step noon (hear (ExecuteReplied ''s2'' (ExecReply bare_failure)) 1013000) sent) = ?a"
    using t by (simp add: step_def on_executed_def flow_at_def awaiting_resend_def not_accepted_report_def
        n r or_null_def bare_failure_read apply_execute_result_def decide_execute_result_def failure_may_have_moved_def
        or_str_def emitting_def Let_def split: prod.splits)
  moreover have "settle_pass noon 1013000 ?a = (stuck, [])"
    by (simp add: pass_defs stuck_def watching_def)
  moreover have "settled stuck" by (simp add: pass_defs stuck_def watching_def)
  ultimately show ?thesis using update_by [of sent noon] by (metis (no_types, lifting) fst_conv prod.collapse sent_simps(4))
qed

section \<open>A busy solver\<close>

definition busy_report :: error_report where
  "busy_report = \<lparr>er_rejected = False, er_value = Some (ErrStruct \<lparr>se_message = ''busy'', se_code = Some 503,
     se_retryAfter = Some (Fin 1015), se_reason = None\<rparr>), er_notAccepted = Some True\<rparr>"

definition waiting_flow :: sign_flow where
  "waiting_flow = (the_flow StageExecute (Some ''0xa1''))\<lparr>sg_execute := Some (the_attempt\<lparr>
     at_resendAt := Some 1015000, at_error := er_value busy_report\<rparr>)\<rparr>"

definition waiting :: model where
  "waiting = sent\<lparr>m_pendingIntentSig := None, m_sign := Some waiting_flow, m_seq := 3,
     m_poll := Some \<lparr>pl_key = ''int-1:executing:resend'', pl_intentId = ''int-1'', pl_gen = 3, pl_polls = 0,
       pl_answered = 0, pl_spent = 0, pl_max = 213, pl_stopped = False\<rparr>\<rparr>"

lemma the_deadlines:
  "execute_deadline noon (Some the_quote) = Some 1500" "unexecuted_finish_at noon (Some the_quote) = Some 1860"
  by (simp_all add: execute_deadline_def unexecuted_finish_at_def expiry_secs_def expiry_time signed_field_def
      signed_secs_def present_def the_intent_def the_pull_def VInt_def QUOTED_EXPIRY_GRACE_SECS_def Let_def)

lemma waiting_key: "''int-1'' @ '':'' @ status_str Executing @ '':resend'' = ''int-1:executing:resend''"
  by (simp add: status_str_def)

lemma solver_busy: "fst (update noon sent (hear (ExecuteReplied ''s2'' (ExecFailed (Some busy_report))) 1013000)) = waiting"
proof -
  let ?a = "sent\<lparr>m_pendingIntentSig := None, m_sign := Some waiting_flow\<rparr>"
  have r: "decide_execute_resend 0 (Some (Fin 1015)) (Some 1500) 1013000 = Resend 2000"
    by (simp add: decide_execute_resend_def MAX_EXECUTE_RESENDS_def RETRY_AFTER_MAX_AGE_SECS_def
        EXECUTE_RESEND_MARGIN_SECS_def Let_def)
  have w: "awaiting_resend ?a" "sg_stage waiting_flow = StageExecute"
    by (simp_all add: awaiting_resend_def waiting_flow_def)
  have "fst (step noon (hear (ExecuteReplied ''s2'' (ExecFailed (Some busy_report))) 1013000) sent) = ?a"
    using r by (simp add: step_def on_executed_def flow_at_def awaiting_resend_def not_accepted_report_def on_not_accepted_def
        own_attempt_def the_attempt_def the_order_def busy_report_def report_retry_after_def the_deadlines waiting_flow_def
        Let_def split: prod.splits)
  moreover have "fst (settle_pass noon 1013000 ?a) = waiting"
  proof -
    have "\<lceil>851 / 4 :: num\<rceil> = 213" by (rule ceiling_unique) simp_all
    then have "poll_ceiling_attempts Executing None 1013000 STATUS_POLL_MS STATUS_POLL_FLAT_CEILING_MS (Some 1860) = 213"
      by (simp add: poll_ceiling_attempts_def poll_window_def nonzero_def STATUS_POLL_MS_def POLL_CEILING_MAX_MS_def
          STATUS_POLL_FLAT_CEILING_MS_def STATUS_POLL_FLAT_CEILING_ATTEMPTS_def)
    then have "arm_poll noon 1013000 ?a = (waiting, [set_timer TPoll STATUS_POLL_MS True])"
      using w waiting_key
      by (simp add: arm_poll_def poll_key_of_def blank_str_def the_deadlines emitting_def waiting_def Let_def)
        (simp add: sent_def pulling_def approving_def prompted_def)
    moreover have "watch_wallet ?a = (?a, [])" "upgrade_preview noon 1013000 ?a = (?a, [])" "arm_expiry noon 1013000 ?a = (?a, [])"
      by (simp_all add: pass_defs watching_def)
    ultimately show ?thesis by (simp add: settle_pass_def and_then_def)
  qed
  moreover have "settled waiting"
    using w waiting_key
    by (simp add: settled_def poll_key_of_def blank_str_def waiting_def awaiting_resend_def waiting_flow_def
        wallet_key_of_def upgrade_key_of_def expiry_key_of_def held_preview_def quote_is_preview_def watching_def Let_def)
  ultimately show ?thesis using update_by [of sent noon] by (metis (no_types, lifting) fst_conv prod.collapse sent_simps(4))
qed

section \<open>The run\<close>

lemma then_reached: "reached any_message config m \<Longrightarrow> update env m g = (m', es) \<Longrightarrow> reached any_message config m'"
  using reached.update [of any_message config m env g] by simp

lemma the_run:
  "reached any_message pins offered" "reached any_message pins approving" "reached any_message pins sent"
proof -
  have "reached any_message pins opened" unfolding opened_def by (rule reached.start)
  note a = then_reached [OF then_reached [OF then_reached [OF this type_amount] ask_for_quote] quote_arrives]
  note b = then_reached [OF then_reached [OF a confirm] intent_signature]
  note c = then_reached [OF then_reached [OF b pull_prompt] send_order]
  from a b c show "reached any_message pins offered" "reached any_message pins approving" "reached any_message pins sent"
    by blast+
qed

lemma approving_intent: "m_intent approving = the_offer\<lparr>i_status := Signing\<rparr>"
  by (simp add: approving_def)

lemma waiting_reached: "reached any_message pins waiting"
  using reached.update [OF the_run(3), where env = noon
      and g = "hear (ExecuteReplied ''s2'' (ExecFailed (Some busy_report))) 1013000"] by (simp add: solver_busy)

text \<open>The messages up to the quote, and up to the token approval.\<close>

definition to_offer :: "(env \<times> message) list" where
  "to_offer = [(noon, hear (QuoteRequested ''1000'') 1000000), (noon, hear (TimerFired TDebounce) 1000000),
     (noon, hear (QuoteReplied ''q1'' (Inr the_quote)) 1001000)]"

definition to_approval :: "(env \<times> message) list" where
  "to_approval = to_offer @ [(noon, hear SignRequested 1002000), (noon, hear (SignReplied ''s2'' ForIntent (Inr ''0xa1'')) 1010000)]"

lemma the_runs: "fst (run (init_model pins form False) to_offer) = offered" "fst (run (init_model pins form False) to_approval) = approving"
  by (simp_all add: to_offer_def to_approval_def opened_def [symmetric] type_amount ask_for_quote quote_arrives confirm intent_signature)

lemma prompted_intent_witness:
  "\<exists>e h fid. (e, h) \<in> set to_offer \<and> body h = QuoteReplied fid (Inr the_quote) \<and> names_the_form e offered the_intent
     \<and> pays_out the_intent ''990'' user"
  using prompted_intent_is_the_form [OF the_runs(1) [symmetric], of "''s2''" the_intent "Some 1" noon "hear SignRequested 1002000"]
  by (auto simp: confirm resolved_recipient_def trimmed_def or_null_def)

lemma pull_prompt_witness:
  "\<exists>n. pinned_pull (quoted_in to_approval) pins approving the_pull n"
  using pull_prompts_are_pinned [OF the_runs(2) [symmetric], of "''s2''" the_pull "Some 1" noon
      "hear (ApprovalReplied ''s2'' (Inr True)) 1011000" "[]" "[]"]
  by (simp add: pull_prompt)

lemma may_have_moved_witness:
  "let after = run stuck [(noon, hear (QuoteRequested ''1'') 1020000), (noon, hear (TimerFired TDebounce) 1021000)] in
     i_status (m_intent (fst after)) = Failed \<and> i_mayHaveMoved (m_intent (fst after))"
proof -
  let ?g = "hear (ExecuteReplied ''s2'' (ExecReply bare_failure)) 1013000"
  have "i_status (m_intent (fst (update noon sent ?g))) = Failed" by (simp add: order_fails stuck_def)
  moreover have "\<not> said_unexecuted noon sent ?g"
    by (simp add: said_unexecuted_def bare_failure_def result_of_reply_def get_str_def obj_get_def Let_def)
  ultimately show ?thesis
    using may_have_moved_holds [OF the_run(3), of ?g noon "[(noon, hear (QuoteRequested ''1'') 1020000), (noon, hear (TimerFired TDebounce) 1021000)]"]
    by (simp add: order_fails outcome_message_def holding_message_def Let_def)
qed

text \<open>The reply is lost.\<close>

lemma execute_verdict_witness:
  "let after = fst (update noon sent (hear (ExecuteReplied ''s2'' (ExecFailed None)) 1013000)) in
     i_status (m_intent after) = Executing \<and> i_reconciling (m_intent after) \<and> (\<exists>p. m_poll after = Some p \<and> pl_intentId p = ''int-1'' \<and> \<not> pl_stopped p)"
proof -
  let ?g = "hear (ExecuteReplied ''s2'' (ExecFailed None)) 1013000" and ?flow = "(the_flow StageExecute (Some ''0xa1''))\<lparr>sg_execute := Some the_attempt\<rparr>"
  have "flow_at sent ''s2'' StageExecute = Some ?flow" by (simp add: flow_at_def)
  moreover have "\<not> awaiting_resend sent" by (simp add: awaiting_resend_def the_attempt_def)
  moreover have "own_reply (ExecFailed None) (Some ''int-1'') = None" by (simp add: own_reply_def)
  moreover have "not_accepted_report (ExecFailed None) = None" by (simp add: not_accepted_report_def)
  ultimately show ?thesis
    using execute_verdict [OF the_run(3), of "''s2''" ?flow ?g "ExecFailed None" noon]
    by (auto simp: Let_def leaves_doubt_def doubtful_status_def blank_str_def)
qed

end
