(* ===== verification/View.thy ===== *)
theory View
  imports MachineSafety
begin

text \<open>
  \<open>packages/client/src/machine/view.ts\<close> and \<open>receipt.ts\<close>: the receipt the user is shown, as a function
  of the model. Every slot is a datatype with the source's variants; a figure can only be the served one
  because there is no other place it could come from.
\<close>

section \<open>The slots\<close>

datatype payout_slot = NoPayout | PreviewPayout string | ExactPayout string

datatype cost_slot = NoCost | CostUnavailable | CostServed num "string option"

datatype party_visibility = PartyVisible | OneTimeAddress | PrivateAccount

datatype recipient_action = NoAction | Claim

record disclosure =
  dis_mode :: settlement_type
  dis_label :: string
  dis_recipient :: party_visibility
  dis_amountVisible :: bool
  dis_recipientAction :: recipient_action

datatype quote_slot = NoQuoteSlot | LoadingQuote | DeclinedQuote "string option" | ReadyQuote bool bool "jsnum option"

datatype signing_slot =
    SigUnavailable | SigDeposit | SigReady nat | SigInWallet nat nat | SigAwaitingSecond
  | SigSubmitted | SigBusy int nat nat | SigRefused sign_refusal

record receipt =
  rc_phase :: swap_phase
  rc_quote :: quote_slot
  rc_payout :: payout_slot
  rc_cost :: cost_slot
  rc_settlement :: disclosure
  rc_signing :: signing_slot

section \<open>What a quote promises\<close>

definition payout_of :: "quote_response option \<Rightarrow> payout_slot" where
  "payout_of quote = (case quote of None \<Rightarrow> NoPayout
     | Some q \<Rightarrow> if \<not> q_canSolve q then NoPayout
         else if quote_is_preview q then PreviewPayout (q_toAmount q) else ExactPayout (q_toAmount q))"

definition cost_of :: "quote_response option \<Rightarrow> cost_slot" where
  "cost_of quote = (case quote of None \<Rightarrow> NoCost
     | Some q \<Rightarrow> (case q_costBps q of None \<Rightarrow> CostUnavailable
         | Some bps \<Rightarrow> if bps < 0 then CostUnavailable
             else CostServed bps (or_null (map_option fb_totalUsd (q_feeBreakdown q)))))"

definition settlement_disclosure :: "settlement_type \<Rightarrow> disclosure" where
  "settlement_disclosure mode = (case mode of
     Public \<Rightarrow> \<lparr>dis_mode = Public, dis_label = ''Public'', dis_recipient = PartyVisible,
       dis_amountVisible = True, dis_recipientAction = NoAction\<rparr>
   | Stealth \<Rightarrow> \<lparr>dis_mode = Stealth, dis_label = ''Stealth'', dis_recipient = OneTimeAddress,
       dis_amountVisible = True, dis_recipientAction = Claim\<rparr>
   | Shielded \<Rightarrow> \<lparr>dis_mode = Shielded, dis_label = ''Shielded'', dis_recipient = PrivateAccount,
       dis_amountVisible = True, dis_recipientAction = NoAction\<rparr>)"

datatype destination_type = DestChain | DestAztec | DestStealth

definition destination_disclosure :: "destination_type \<Rightarrow> bool \<Rightarrow> disclosure" where
  "destination_disclosure type shielded = (case type of
     DestAztec \<Rightarrow> settlement_disclosure (if shielded then Shielded else Stealth)
   | DestStealth \<Rightarrow> settlement_disclosure Stealth
   | DestChain \<Rightarrow> settlement_disclosure Public)"

section \<open>The view\<close>

definition quote_slot_of :: "model \<Rightarrow> quote_slot" where
  "quote_slot_of m = (let status = i_status (m_intent m) in
     case i_quote (m_intent m) of
       Some q \<Rightarrow>
        (if status = Quoted \<or> status = Quoting \<and> q_canSolve q
         then ReadyQuote (\<not> quote_is_preview q) (status = Quoting) (m_quoteExpiresIn m)
         else if status = Quoting then LoadingQuote
         else if \<not> q_canSolve q then DeclinedQuote (q_error q) else NoQuoteSlot)
     | None \<Rightarrow> (if status = Quoting then LoadingQuote else NoQuoteSlot))"

definition flow_slot :: "nat \<Rightarrow> sign_flow \<Rightarrow> signing_slot" where
  "flow_slot signatures flow = (case sg_stage flow of
     StageExecute \<Rightarrow>
      (case sg_execute flow of None \<Rightarrow> SigSubmitted
       | Some attempt \<Rightarrow> (case at_resendAt attempt of None \<Rightarrow> SigSubmitted
           | Some t \<Rightarrow> SigBusy \<lceil>t / 1000\<rceil> (at_resends attempt + 1) MAX_EXECUTE_RESENDS))
   | StageIntent \<Rightarrow> SigInWallet 1 signatures
   | _ \<Rightarrow> SigInWallet 2 2)"

definition signing_slot_of :: "model \<Rightarrow> signing_slot" where
  "signing_slot_of m =
     (let quote = i_quote (m_intent m); signatures = (if quote_field m q_pullAuthorization \<noteq> None then 2 else 1) in
      case m_sign m of Some flow \<Rightarrow> flow_slot signatures flow
      | None \<Rightarrow>
         (if m_awaitingPull m then SigAwaitingSecond
          else if \<not> can_sign_quote (i_status (m_intent m)) quote \<or> \<not> holds_current_quote m then SigUnavailable
          else (case i_refusal (m_intent m) of Some r \<Rightarrow> SigRefused r
            | None \<Rightarrow> (if quote \<noteq> None \<and> has_deposit_address (the quote) then SigDeposit else SigReady signatures))))"

definition view :: "model \<Rightarrow> receipt" where
  "view m = (let i = m_intent m in
     \<lparr>rc_phase = phase_from_status (i_status i) (i_reconciling i) (i_mayHaveMoved i) (i_notSent i),
      rc_quote = quote_slot_of m, rc_payout = payout_of (i_quote i), rc_cost = cost_of (i_quote i),
      rc_settlement = settlement_disclosure
        (case (i_quote i, i_quotedSettlement i) of
           (Some _, Some s) \<Rightarrow> s | _ \<Rightarrow> cx_settlementPreference (m_ctx m)),
      rc_signing = signing_slot_of m\<rparr>)"

section \<open>The receipt and the wallet prompt\<close>

text \<open>What the receipt shows when Confirm can be pressed: the exact payout and the mode to be signed.\<close>

definition offers :: "receipt \<Rightarrow> string \<Rightarrow> settlement_type \<Rightarrow> bool \<Rightarrow> bool" where
  "offers r amount mode pull \<longleftrightarrow> rc_phase r = PConfirm \<and> rc_payout r = ExactPayout amount
     \<and> rc_settlement r = settlement_disclosure mode
     \<and> (\<exists>t. rc_quote r = ReadyQuote True False t)
     \<and> (rc_signing r = SigReady (if pull then 2 else 1) \<or> (\<exists>f. rc_signing r = SigRefused f))"

lemma confirmable_offered:
  assumes m: "sound (\<lambda>_ _. True) m" and c: "confirmable env now m q td"
  shows "offers (view m) (q_toAmount q) (cx_settlementPreference (m_ctx m)) (q_pullAuthorization q \<noteq> None)"
proof -
  note d = c [unfolded confirmable_def]
  have idle: "m_sign m = None" "\<not> m_awaitingPull m"
    using idle_ceremony [of m] m d by (simp_all add: sound_def in_ceremony_def)
  from m d obtain f where v: "vetted (\<lambda>_ _. True) (cfg_pullRecipients (m_config m)) f q"
      and k: "m_quotedTrade m = Some (trade_key_of (fl_ctx f))" "i_quotedSettlement (m_intent m) = Some (requested_settlement f)"
    by (auto simp: sound_def quote_ok_def held_ok_def)
  from v obtain r t where "fl_request f = Some r" "r = build_quote_request (raw_request f t)"
    by (auto simp: vetted_def asked_def)
  then have "requested_settlement f = cx_settlementPreference (fl_ctx f)"
    by (simp add: requested_settlement_def build_quote_request_def raw_request_def Let_def)
  also have "\<dots> = cx_settlementPreference (m_ctx m)"
    using k(1) d trade_key_fields [of "fl_ctx f" "m_ctx m"] by (simp add: holds_current_quote_def)
  finally have "i_quotedSettlement (m_intent m) = Some (cx_settlementPreference (m_ctx m))" using k by simp
  then show ?thesis using d idle
    by (cases "i_refusal (m_intent m)") (simp_all add: offers_def view_def Let_def phase_from_status_def payout_of_def
        quote_slot_of_def signing_slot_of_def can_sign_quote_def quote_field_def)
qed

text \<open>
  What the receipt says is what is signed. Whenever the wallet is asked to sign the intent, the
  receipt on screen promised exactly the amount the typed data pays to the form's recipient, disclosed
  the settlement mode the typed data names, announced the number of signatures the quote needs, and
  showed an executable quote that was not being replaced.
\<close>

lemma prompt_is_the_receipt:
  assumes "reached any_message config m"
    and "Wallet (SignTypedData sid ForIntent td ch) \<in> set (snd (update env m g))"
  shows "\<exists>q a mode. i_quote (m_intent m) = Some q \<and> q_eip712Data q = Some td
    \<and> offers (view m) (q_toAmount q) mode (q_pullAuthorization q \<noteq> None)
    \<and> resolved_recipient (m_ctx m) = Some a \<and> pays_out td (q_toAmount q) a
    \<and> msg td ''settlementPreference'' = VStr (settlement_str mode)"
proof -
  let ?m = "m\<lparr>m_hidden := msg_hidden g\<rparr>"
  from assms(2) have e: "Wallet (SignTypedData sid ForIntent td ch) \<in> set (snd (step env g ?m))"
    by (rule update_effect) simp
  from sign_intent_step [OF e] e have "Wallet (SignTypedData sid ForIntent td ch) \<in> set (snd (begin_sign env (msg_now g) ?m))"
    by (simp add: step_def Let_def)
  from begin_sign_emits [OF this] obtain q where q: "confirmable env (msg_now g) ?m q td" by blast
  have m: "sound (\<lambda>_ _. True) ?m" using reached_sound [OF assms(1)] by simp
  from held_names_the_form [OF m q] obtain x where "names_the_form x ?m td" by blast
  then have s: "msg td ''settlementPreference'' = VStr (settlement_str (cx_settlementPreference (m_ctx m)))"
    by (simp add: names_the_form_def Let_def)
  from q obtain a where a: "resolved_recipient (m_ctx m) = Some a" "pays_out td (q_toAmount q) a"
    by (auto simp: confirmable_def validate_payout_pin_iff payout_expectation_of_def)
  have "view ?m = view m"
    by (simp add: view_def quote_slot_of_def signing_slot_of_def quote_field_def holds_current_quote_def Let_def
        cong: option.case_cong if_cong)
  then show ?thesis using confirmable_offered [OF m q] q a s by (auto simp: confirmable_def)
qed

text \<open>
  The busy slot counts within its budget: in every reached model a receipt that says the order is
  sent again names one of the three resends and the order is still executing.
\<close>

lemma busy_slot_in_budget:
  assumes "reached any_message config m" and "rc_signing (view m) = SigBusy due k n"
  shows "1 \<le> k \<and> k \<le> n \<and> n = 3 \<and> i_status (m_intent m) = Executing
    \<and> rc_phase (view m) \<in> {PSubmitting, PPending, PNotSent}"
proof -
  have "signing_slot_of m = SigBusy due k n" using assms(2) by (simp add: view_def Let_def)
  then obtain s where s: "m_sign m = Some s" "flow_slot (if quote_field m q_pullAuthorization \<noteq> None then 2 else 1) s = SigBusy due k n"
    by (auto simp: signing_slot_of_def Let_def split: option.splits if_splits)
  then obtain a t where a: "sg_stage s = StageExecute" "sg_execute s = Some a" "at_resendAt a = Some t"
      "k = at_resends a + 1" "n = MAX_EXECUTE_RESENDS"
    by (auto simp: flow_slot_def split: sign_stage.splits option.splits)
  have "sound (\<lambda>_ _. True) m" by (rule reached_sound [OF assms(1)])
  with s a have "i_status (m_intent m) = Executing" "attempt_ok a"
    by (auto simp: sound_def ceremony_ok_def Let_def flow_ok_def)
  then show ?thesis using a by (simp add: attempt_ok_def MAX_EXECUTE_RESENDS_def view_def phase_from_status_def Let_def)
qed

end
