(* ===== verification/Examples.thy ===== *)
theory Examples
  imports Walkthrough View
begin

text \<open>
  Concrete inputs for the properties of the components: a Tron deposit for a user on Optimism, whose
  binding is revealed, stored and read back, and one call each of the poll, resend, execute and preflight
  decisions.
\<close>

section \<open>A Tron deposit\<close>

definition attester :: string where "attester = ''0x5555555555555555555555555555555555555555''"
definition tron_token :: string where "tron_token = ''TR7NHqjeKQxGTCi8q8ZY4pL8otSzgjLj6t''"
definition tron_address :: string where "tron_address = ''TUEZSdKsoDHQMeZwihtdoBiN46zxhGWYdH''"
definition signature :: string where "signature = ''0x'' @ replicate 130 CHR ''a''"

definition attested_noon :: env where
  "attested_noon = noon\<lparr>recover_message := (\<lambda>_ _. Some attester)\<rparr>"

definition the_deal :: deposit_fields where
  "the_deal = \<lparr>f_intent_id = ''int-7'', f_quote_id = ''quo-7'', f_wallet = user, f_from_chain_id = Fin 728126428,
     f_from_token = tron_token, f_from_amount = ''1000'', f_deposit_address = Some tron_address,
     f_deposit_deadline = Some (Fin 2000), f_refund_address = None, f_to_chain_id = Fin 10,
     f_to_token = token_out, f_to_amount = ''990'', f_min_to_amount = ''985'', f_recipient = user,
     f_stealth_spending_pub_key = None, f_stealth_viewing_pub_key = None, f_settlement_preference = ''public''\<rparr>"

definition tron_request :: quote_request where
  "tron_request = the_request\<lparr>r_fromChainId := 728126428, r_fromToken := tron_token\<rparr>"

definition tron_quote :: quote_response where
  "tron_quote = the_quote\<lparr>q_intentId := ''int-7'', q_quoteId := ''quo-7'', q_eip712Data := None,
     q_pullAuthorization := None, q_depositAddress := Some tron_address, q_depositAttestation := Some signature,
     q_depositDeadline := Some 2000\<rparr>"

lemma digits_one_line: "newline \<notin> set (show_nat n)"
  using all_digits_show_nat [of n] by (auto simp: list_all_iff is_digit_def newline_def)

lemma deal_message: "\<exists>m. build_deposit_attestation_message the_deal = Some m"
proof -
  have n: "newline \<notin> set (show_jsnum (Fin (of_int k)))" if "0 \<le> k" "k < 10 ^ 21" for k
  proof -
    have "\<not> (of_int k :: num) \<ge> 10 ^ 21" using that(2) by (metis not_le of_int_less_numeral_power_cancel_iff)
    then show ?thesis using that digits_one_line by (simp add: show_jsnum_def show_num_def is_int_num_def show_int_def)
  qed
  have "\<forall>p \<in> set (attestation_parts the_deal). newline \<notin> set p"
    using n [of 728126428] n [of 10] n [of 2000]
    by (simp add: attestation_parts_def the_deal_def DEPOSIT_ATTESTATION_VERSION_def optional_str_def optional_num_def
        normalize_party_capable_def normalize_address_def user_def token_out_def tron_token_def tron_address_def
        newline_def starts_with_def hex_literal_def to_lower_def lower_char_def)
  then show ?thesis by (auto simp: build_message_Some)
qed

lemma well_formed [simp]: "signature_re signature" "signature \<noteq> []" "attester \<noteq> []" "tron_address \<noteq> []"
  "normalize_address tron_address = tron_address" "tron_token \<noteq> []"
  by (simp_all add: signature_re_def signature_def starts_with_def is_hex_digit_def attester_def
      tron_address_def normalize_address_def tron_token_def list_all_iff)

lemma deal_attested: "verify_deposit_attestation attested_noon the_deal (Some signature) (Some attester) = Inr ()"
  using deal_message by (auto simp: verify_attestation_ok the_deal_def attested_noon_def)

lemma tron_quote_simps:
  "q_depositAttestation tron_quote = Some signature" "q_recipientAddress tron_quote = None" "q_escrow tron_quote = VUndef"
  by (simp_all add: tron_quote_def the_quote_def)

lemma tron_fields: "deposit_attestation_fields (deposit_quote_of tron_request tron_quote) (quote_request_params tron_request) = Inr the_deal"
  by (simp add: deposit_attestation_fields_def require_param_def quote_request_params_def deposit_quote_of_def tron_request_def
      tron_quote_def the_deal_def nullish_def passed_def refuse_if_def the_quote_def settlement_str_def
      js_number_def or_else_def Let_def VInt_def) (simp add: the_request_def build_quote_request_def raw_request_def
      trimmed_def normalize_stealth_def form_def)

lemma tron_deal_matches:
  "assert_deposit_quote_matches_request attested_noon (quote_request_params tron_request) the_deal None VUndef = Inr ()"
  by (simp add: assert_deposit_quote_matches_request_def check_deposit_amount_def quote_request_params_def tron_request_def
      the_deal_def nullish_def same_amount_digits_def assert_deposit_parties_case_bindable_def party_case_bindable_def
      check_shown_recipient_def recipient_is_destination_token_def check_deposit_window_def window_too_short_def
      attested_noon_def noon_def DEPOSIT_MIN_WINDOW_SECONDS_def passed_def refuse_if_def)
    (simp add: user_def starts_with_def hex_literal_def is_hex_digit_def is_digit_def)

lemma tron_revealed:
  "check_deposit_quote attested_noon tron_request tron_quote (Some attester) [] =
     Inr (\<lparr>st_attested = the_deal, st_attestation = signature\<rparr>, [(tron_address, ''int-7'')])"
proof -
  have "verified_fields attested_noon tron_request tron_quote (Some attester) = Inr the_deal"
    using tron_deal_matches deal_attested by (simp add: verified_fields_def tron_fields tron_quote_simps Let_def)
  moreover have "record_deposit_address seen_get seen_put [] (or_else (f_deposit_address the_deal) []) (f_intent_id the_deal)
      = Inr [(tron_address, ''int-7'')]"
    by (simp add: record_deposit_address_def the_deal_def seen_get_def seen_put_def alist_put_def Let_def)
      (simp add: tron_address_def prototype_keys_def)
  ultimately show ?thesis by (simp add: check_deposit_quote_def tron_quote_simps Let_def)
qed

lemma revealed_deposit_witness:
  "deposit_bound attested_noon tron_request tron_quote (Some attester) \<lparr>st_attested = the_deal, st_attestation = signature\<rparr>"
  using revealed_deposit_is_attested [OF tron_revealed] by simp

lemma attestation_witness:
  "same_deal the_deal (the_deal\<lparr>f_to_token := ''0x'' @ to_upper (drop 2 token_out)\<rparr>)"
proof -
  obtain m where m: "build_deposit_attestation_message the_deal = Some m" using deal_message by blast
  have n: "normalize_party_capable (''0x'' @ to_upper (drop 2 token_out)) = normalize_party_capable token_out"
    by (simp add: token_out_def to_upper_def upper_char_def normalize_party_capable_def hex_literal_def is_hex_digit_def
        is_digit_def starts_with_def)
  then have "attestation_parts (the_deal\<lparr>f_to_token := ''0x'' @ to_upper (drop 2 token_out)\<rparr>) = attestation_parts the_deal"
    by (simp add: attestation_parts_def the_deal_def)
  with m have "build_deposit_attestation_message (the_deal\<lparr>f_to_token := ''0x'' @ to_upper (drop 2 token_out)\<rparr>) = Some m"
    by (simp add: build_message_Some)
  from attestation_message_injective [OF m this] show ?thesis .
qed

lemma one_intent_witness:
  "\<exists>i seen. record_all seen_get seen_put [] [(''0xAB'', ''int-7''), (''0xab'', i)] = Inr seen \<and> i = ''int-7''"
proof -
  have n: "normalize_address ''0xAB'' = ''0xab''" "normalize_address ''0xab'' = ''0xab''" by code_simp+
  have "record_all seen_get seen_put [] [(''0xAB'', ''int-7''), (''0xab'', ''int-7'')] = Inr [(''0xab'', ''int-7'')]"
    by (simp add: record_deposit_address_def n seen_get_def seen_put_def alist_put_def prototype_keys_def Let_def)
  from this one_intent_per_deposit_address [OF this, of "''0xAB''" "''int-7''" "''0xab''" "''int-7''"] n
  show ?thesis by (metis list.set_intros)
qed

definition stored_record :: jsval where
  "stored_record = stored_json True \<lparr>st_attested = the_deal, st_attestation = signature\<rparr>"

lemma stored_accepted:
  "verify_stored_deposit attested_noon stored_record (Some attester) ''int-7'' user =
     Inr \<lparr>st_attested = the_deal, st_attestation = signature\<rparr>"
proof -
  have "well_read the_deal"
    by (simp add: well_read_def the_deal_def safe_integer_def int_of_num_def is_int_num_def)
  then have "read_stored_deposit stored_record = Inr \<lparr>st_attested = the_deal, st_attestation = signature\<rparr>"
    by (simp add: stored_record_def read_stored_json)
  then show ?thesis
    by (simp add: verify_stored_ok deal_attested) (simp add: the_deal_def recipient_is_destination_token_def)
qed

lemma stored_deposit_witness:
  "verify_stored_deposit attested_noon (stored_json False \<lparr>st_attested = the_deal, st_attestation = signature\<rparr>)
     (Some attester) ''int-7'' user = Inr \<lparr>st_attested = the_deal, st_attestation = signature\<rparr>"
  using stored_deposit_roundtrip [OF stored_accepted, of False] by blast

section \<open>A quote and the decisions\<close>


lemma poll_ceiling_witness:
  "of_int (poll_ceiling_attempts AwaitingDeposit (Some 2000) 1000000 STATUS_POLL_MS STATUS_POLL_FLAT_CEILING_MS None)
     * STATUS_POLL_MS \<ge> (1600000 :: num)"
  using poll_ceiling_bounds [of AwaitingDeposit "Some 2000" 1000000 None]
  by (simp add: nonzero_def DEPOSIT_POLL_GRACE_MS_def POLL_CEILING_MAX_MS_def Let_def)

lemma resend_witness:
  "\<exists>delay. decide_execute_resend 1 (Some (Fin 1002)) (Some 1500) 1000000 = Resend delay \<and> 1000000 + delay \<le> 1495000"
proof -
  have r: "decide_execute_resend 1 (Some (Fin 1002)) (Some 1500) 1000000 = Resend 2000"
    by (simp add: decide_execute_resend_def MAX_EXECUTE_RESENDS_def RETRY_AFTER_MAX_AGE_SECS_def
        EXECUTE_RESEND_MARGIN_SECS_def Let_def)
  with resend_bounds [OF r] show ?thesis by auto
qed

lemma preflight_witness:
  "decide_sign_preflight \<lparr>pf_hasDepositAddress = False, pf_hasEip712 = True, pf_address = Some ''0xA'',
     pf_quotedAddress = Some ''0xa'', pf_quotedChainId = Some 1, pf_chainId = Some 1, pf_originChainId = 1,
     pf_expiryMs = Some 2, pf_now = 1\<rparr> = PfProceed"
  unfolding preflight_proceed_iff by (simp add: to_lower_def lower_char_def) code_simp

section \<open>The receipt\<close>

lemma prompt_receipt_witness: "\<exists>mode. offers (view offered) ''990'' mode True"
  using prompt_is_the_receipt [OF the_run(1), of "''s2''" the_intent "Some 1" noon "hear SignRequested 1002000"]
  by (auto simp: confirm)

lemma busy_slot_witness: "rc_signing (view waiting) = SigBusy 1015 1 3 \<and> i_status (m_intent waiting) = Executing"
proof -
  have b: "rc_signing (view waiting) = SigBusy 1015 1 3"
    by (simp add: view_def signing_slot_of_def waiting_def waiting_flow_def the_attempt_def flow_slot_def
        MAX_EXECUTE_RESENDS_def Let_def)
  with busy_slot_in_budget [OF waiting_reached b] show ?thesis by simp
qed

end
