(* ===== verification/Float64.thy ===== *)
theory Float64
  imports JsBase
begin

text \<open>
  Arithmetic on doubles, for the code that computes with figures that are not integers: a finite number
  stands for the exact value of its double, and an operation rounds its exact result to the nearest
  double, ties to even (\<open>fl\<close>), with overflow to an infinity and gradual underflow.
\<close>

section \<open>Rounding to a double\<close>

text \<open>How often a number below one doubles before it reaches one, up to the least normal exponent.\<close>

fun doublings :: "nat \<Rightarrow> num \<Rightarrow> nat" where
  "doublings 0 r = 0"
| "doublings (Suc n) r = (if r \<ge> 1 then 0 else Suc (doublings n (2 * r)))"

text \<open>The distance between neighbouring doubles at \<open>r\<close>.\<close>

definition spacing :: "num \<Rightarrow> num" where
  "spacing r = (if \<bar>r\<bar> \<ge> 1 then 2 ^ (bit_len (nat \<lfloor>\<bar>r\<bar>\<rfloor>)) / 2 ^ 53
     else 1 / 2 ^ (doublings 1022 \<bar>r\<bar> + 52))"

definition fl :: "num \<Rightarrow> jsnum" where
  "fl r = (let q = spacing r; m = of_int (round_even (r / q)) * q in
     if m \<ge> 2 ^ 1024 then PosInf else if m \<le> - (2 ^ 1024) then NegInf else Fin m)"

lemma spacing_pos: "spacing r > 0"
  by (simp add: spacing_def)

lemma round_even_of_int [simp]: "round_even (of_int n) = n"
  by (simp add: round_even_def)


end
