(* ===== verification/Fee.thy ===== *)
theory Fee
  imports Float64 Wire
begin

text \<open>
  \<open>packages/client/src/fee.ts\<close>: the layered fee of a quote, as the client recomputes it, and the check
  that a served breakdown reconciles. Basis points are whole numbers wherever the arithmetic is exact. A layer is \<open>floor(base * bps / 10000)\<close> in base units. The zod
  schema at the HTTP boundary is not modelled.
\<close>

section \<open>The schedule\<close>

datatype fee_tier = Standard | Trusted | Verified | Premium | Institutional
datatype asset_class = Stable | Volatile
datatype attestation_type = Compliance | NonMembership

definition surplus_share_pct :: int where "surplus_share_pct = 15"

definition tier_boundaries :: "(num \<times> fee_tier) list" where
  "tier_boundaries = [(100, Institutional), (75, Premium), (50, Verified), (25, Trusted), (0, Standard)]"

definition solver_base_bps :: "asset_class \<Rightarrow> int" where
  "solver_base_bps a = (case a of Stable \<Rightarrow> 8 | Volatile \<Rightarrow> 18)"

fun venue_bps :: "fee_tier \<Rightarrow> asset_class \<Rightarrow> int" where
  "venue_bps Standard Stable = 6" | "venue_bps Standard Volatile = 10"
| "venue_bps Trusted Stable = 5" | "venue_bps Trusted Volatile = 8"
| "venue_bps Verified Stable = 3" | "venue_bps Verified Volatile = 5"
| "venue_bps Premium Stable = 2" | "venue_bps Premium Volatile = 3"
| "venue_bps Institutional Stable = 1" | "venue_bps Institutional Volatile = 2"

fun routing_bps :: "fee_tier \<Rightarrow> asset_class \<Rightarrow> int" where
  "routing_bps Standard Stable = 8" | "routing_bps Standard Volatile = 12"
| "routing_bps Trusted Stable = 6" | "routing_bps Trusted Volatile = 9"
| "routing_bps Verified Stable = 4" | "routing_bps Verified Volatile = 6"
| "routing_bps Premium Stable = 2" | "routing_bps Premium Volatile = 4"
| "routing_bps Institutional Stable = 1" | "routing_bps Institutional Volatile = 2"

definition tier_attestation_requirements :: "fee_tier \<Rightarrow> attestation_type list" where
  "tier_attestation_requirements t = (case t of Standard \<Rightarrow> [] | Trusted \<Rightarrow> [] | Verified \<Rightarrow> [Compliance]
     | Premium \<Rightarrow> [Compliance, NonMembership] | Institutional \<Rightarrow> [Compliance, NonMembership])"

definition BPS_DENOMINATOR :: int where "BPS_DENOMINATOR = 10000"

definition TIER_GATE_ORDER :: "fee_tier list" where
  "TIER_GATE_ORDER = [Institutional, Premium, Verified, Trusted, Standard]"

section \<open>The tier\<close>

definition score_to_tier :: "jsnum \<Rightarrow> fee_tier" where
  "score_to_tier score = (case int_of_num score of None \<Rightarrow> Standard
     | Some n \<Rightarrow> (if n < 0 then Standard
         else (case find (\<lambda>(floor, _). of_int n \<ge> floor) tier_boundaries of
            Some (_, tier) \<Rightarrow> tier | None \<Rightarrow> Standard)))"

definition is_subset :: "attestation_type list \<Rightarrow> attestation_type list \<Rightarrow> bool" where
  "is_subset required provided \<longleftrightarrow> list_all (List.member provided) required"

definition gate_tier :: "fee_tier \<Rightarrow> attestation_type list \<Rightarrow> fee_tier" where
  "gate_tier raw provided =
     (if is_subset (tier_attestation_requirements raw) provided then raw
      else (case find (\<lambda>t. is_subset (tier_attestation_requirements t) provided) TIER_GATE_ORDER of
         Some t \<Rightarrow> t | None \<Rightarrow> Standard))"

section \<open>The layers\<close>

definition price_impact_bps :: "jsnum \<Rightarrow> jsnum option \<Rightarrow> int" where
  "price_impact_bps fill liquidity = (case (fill, liquidity) of
     (Fin f, Some (Fin l)) \<Rightarrow>
       (if l \<le> 0 then 0
        else (case (case fl (50 * f) of Fin x \<Rightarrow> fl (x / l) | x \<Rightarrow> x) of
           Fin r \<Rightarrow> \<lfloor>min 150 (max 0 r) + 1 / 2\<rfloor>
         | PosInf \<Rightarrow> 150 | _ \<Rightarrow> 0))
   | _ \<Rightarrow> 0)"

definition layer_amount :: "int \<Rightarrow> int \<Rightarrow> int" where
  "layer_amount base bps = (if base \<le> 0 \<or> bps \<le> 0 then 0 else base * bps div BPS_DENOMINATOR)"

datatype base_amount = AmountText string | AmountBig int

datatype fee_error = BadAmount | TotalBpsMismatch | BelowFloor | BadLayer | LayerSum | LayerAmount string

definition parse_base_amount :: "base_amount \<Rightarrow> fee_error + int" where
  "parse_base_amount a = (case a of
     AmountBig n \<Rightarrow> (if n < 0 then Inl BadAmount else Inr n)
   | AmountText s \<Rightarrow> (if all_digits s then Inr (int (digits_val 10 s)) else Inl BadAmount))"

record fee_params =
  fp_input_amount :: base_amount
  fp_asset_class :: "asset_class option"
  fp_trust_score :: "jsnum option"
  fp_tier :: "fee_tier option"
  fp_attestations :: "attestation_type list option"
  fp_acp_origin :: bool
  fp_fill_usd :: "jsnum option"
  fp_available_liquidity_usd :: "jsnum option"

record fee_core =
  fc_tier :: fee_tier
  fc_asset_class :: asset_class
  fc_solver_fee_bps :: int
  fc_solver_fee :: string
  fc_price_impact_bps :: int
  fc_price_impact :: string
  fc_venue_fee_bps :: int
  fc_venue_fee :: string
  fc_routing_fee_bps :: int
  fc_routing_fee :: string
  fc_total_bps :: int
  fc_total_fee :: string
  fc_surplus_share_pct :: int

definition fee_tier_of :: "fee_params \<Rightarrow> fee_tier" where
  "fee_tier_of p = or_else (fp_tier p)
     (gate_tier (score_to_tier (or_else (fp_trust_score p) (Fin 0))) (or_else (fp_attestations p) []))"

definition compute_fee_breakdown :: "fee_params \<Rightarrow> fee_error + fee_core" where
  "compute_fee_breakdown p =
     (let asset = or_else (fp_asset_class p) Stable; tier = fee_tier_of p;
          solver = solver_base_bps asset; venue = venue_bps tier asset;
          routing = (if fp_acp_origin p then 0 else routing_bps tier asset);
          impact = price_impact_bps (or_else (fp_fill_usd p) (Fin 0)) (fp_available_liquidity_usd p);
          total = max (solver + venue + routing + impact) solver in
      then_check (parse_base_amount (fp_input_amount p)) (\<lambda>base.
       (let solver_fee = layer_amount base solver; impact_fee = layer_amount base impact;
            venue_fee = layer_amount base venue; routing_fee = layer_amount base routing in
        Inr \<lparr>fc_tier = tier, fc_asset_class = asset,
          fc_solver_fee_bps = solver, fc_solver_fee = show_int solver_fee,
          fc_price_impact_bps = impact, fc_price_impact = show_int impact_fee,
          fc_venue_fee_bps = venue, fc_venue_fee = show_int venue_fee,
          fc_routing_fee_bps = routing, fc_routing_fee = show_int routing_fee,
          fc_total_bps = total, fc_total_fee = show_int (solver_fee + impact_fee + venue_fee + routing_fee),
          fc_surplus_share_pct = surplus_share_pct\<rparr>)))"

section \<open>Reconciling a breakdown\<close>

record fee_reconcilable =
  fr_solver_fee_bps :: num
  fr_price_impact_bps :: num
  fr_venue_fee_bps :: num
  fr_routing_fee_bps :: num
  fr_total_bps :: num
  fr_solver_fee :: string
  fr_price_impact :: string
  fr_venue_fee :: string
  fr_routing_fee :: string
  fr_total_fee :: string

definition reconcilable_of :: "fee_core \<Rightarrow> fee_reconcilable" where
  "reconcilable_of c = \<lparr>fr_solver_fee_bps = of_int (fc_solver_fee_bps c),
     fr_price_impact_bps = of_int (fc_price_impact_bps c), fr_venue_fee_bps = of_int (fc_venue_fee_bps c),
     fr_routing_fee_bps = of_int (fc_routing_fee_bps c), fr_total_bps = of_int (fc_total_bps c),
     fr_solver_fee = fc_solver_fee c, fr_price_impact = fc_price_impact c, fr_venue_fee = fc_venue_fee c,
     fr_routing_fee = fc_routing_fee c, fr_total_fee = fc_total_fee c\<rparr>"

definition fee_breakdown_reconcilable :: "fee_breakdown \<Rightarrow> fee_reconcilable" where
  "fee_breakdown_reconcilable fb = \<lparr>fr_solver_fee_bps = fb_solverFeeBps fb,
     fr_price_impact_bps = fb_priceImpactBps fb, fr_venue_fee_bps = fb_venueFeeBps fb,
     fr_routing_fee_bps = fb_routingFeeBps fb, fr_total_bps = fb_totalBps fb, fr_solver_fee = fb_solverFee fb,
     fr_price_impact = fb_priceImpact fb, fr_venue_fee = fb_venueFee fb, fr_routing_fee = fb_routingFee fb,
     fr_total_fee = fb_totalFee fb\<rparr>"

definition read_layer :: "string \<Rightarrow> fee_error + int" where
  "read_layer s = (case big_int s of Some n \<Rightarrow> Inr n | None \<Rightarrow> Inl BadLayer)"

definition check_layer :: "int \<Rightarrow> string \<Rightarrow> int \<Rightarrow> num \<Rightarrow> fee_error check" where
  "check_layer base name amount bps =
     (if base \<le> 0 \<or> bps \<le> 0 then refuse_if (amount \<noteq> 0) (LayerAmount name)
      else if \<not> is_int_num bps then Inl BadLayer
      else refuse_if (amount \<noteq> layer_amount base \<lfloor>bps\<rfloor>) (LayerAmount name))"

definition assert_fee_breakdown_invariants :: "fee_reconcilable \<Rightarrow> base_amount option \<Rightarrow> fee_error check" where
  "assert_fee_breakdown_invariants fb input =
     (let sum = fr_solver_fee_bps fb + fr_price_impact_bps fb + fr_venue_fee_bps fb + fr_routing_fee_bps fb in
      if fr_total_bps fb \<noteq> max sum (fr_solver_fee_bps fb) then Inl TotalBpsMismatch
      else if fr_total_bps fb < fr_solver_fee_bps fb then Inl BelowFloor
      else then_check (read_layer (fr_solver_fee fb)) (\<lambda>solver.
        then_check (read_layer (fr_price_impact fb)) (\<lambda>impact.
        then_check (read_layer (fr_venue_fee fb)) (\<lambda>venue.
        then_check (read_layer (fr_routing_fee fb)) (\<lambda>routing.
        then_check (read_layer (fr_total_fee fb)) (\<lambda>total.
          (if solver + impact + venue + routing \<noteq> total then Inl LayerSum
           else (case input of None \<Rightarrow> passed
             | Some amount \<Rightarrow> then_check (parse_base_amount amount) (\<lambda>base. check_all [
                 check_layer base ''solver_fee'' solver (fr_solver_fee_bps fb),
                 check_layer base ''price_impact'' impact (fr_price_impact_bps fb),
                 check_layer base ''venue_fee'' venue (fr_venue_fee_bps fb),
                 check_layer base ''routing_fee'' routing (fr_routing_fee_bps fb)])))))))))"

section \<open>Tiers are ordered\<close>

fun tier_rank :: "fee_tier \<Rightarrow> nat" where
  "tier_rank Standard = 0" | "tier_rank Trusted = 1" | "tier_rank Verified = 2"
| "tier_rank Premium = 3" | "tier_rank Institutional = 4"

lemma tier_rank_inject: "tier_rank s = tier_rank t \<Longrightarrow> s = t"
  by (cases s; cases t) simp_all

instantiation fee_tier :: linorder
begin

definition less_eq_fee_tier :: "fee_tier \<Rightarrow> fee_tier \<Rightarrow> bool" where
  "less_eq_fee_tier s t \<longleftrightarrow> tier_rank s \<le> tier_rank t"

definition less_fee_tier :: "fee_tier \<Rightarrow> fee_tier \<Rightarrow> bool" where
  "less_fee_tier s t \<longleftrightarrow> tier_rank s < tier_rank t"

instance
  by standard (auto simp: less_eq_fee_tier_def less_fee_tier_def intro: tier_rank_inject)

end

lemmas tier_order = less_eq_fee_tier_def less_fee_tier_def

definition qualifies :: "fee_tier \<Rightarrow> attestation_type list \<Rightarrow> bool" where
  "qualifies t provided \<longleftrightarrow> set (tier_attestation_requirements t) \<subseteq> set provided"

lemma is_subset_iff: "is_subset r p \<longleftrightarrow> set r \<subseteq> set p"
  by (auto simp: is_subset_def list_all_iff)

lemma qualifies_simps [simp]:
  "qualifies Standard p" "qualifies Trusted p" "qualifies Verified p \<longleftrightarrow> Compliance \<in> set p"
  "qualifies Premium p \<longleftrightarrow> Compliance \<in> set p \<and> NonMembership \<in> set p"
  "qualifies Institutional p \<longleftrightarrow> Compliance \<in> set p \<and> NonMembership \<in> set p"
  by (simp_all add: qualifies_def tier_attestation_requirements_def)

lemma gate_tier_qualifies:
  "gate_tier raw p = (if qualifies raw p then raw
     else if qualifies Institutional p then Institutional else if qualifies Verified p then Verified else Trusted)"
  by (simp add: gate_tier_def is_subset_iff TIER_GATE_ORDER_def flip: qualifies_def)

text \<open>
  The tier gate grants the best tier the presented proofs qualify for, and never a better one than
  the score earned.
\<close>

lemma gate_tier_best:
  "qualifies (gate_tier raw p) p \<and> gate_tier raw p \<le> raw
    \<and> (\<forall>t \<le> raw. qualifies t p \<longrightarrow> t \<le> gate_tier raw p)"
proof -
  have "t \<le> gate_tier raw p" if "t \<le> raw" "qualifies t p" for t
    using that by (cases t; cases raw) (auto simp: gate_tier_qualifies tier_order)
  moreover have "qualifies (gate_tier raw p) p \<and> gate_tier raw p \<le> raw"
    by (cases raw) (auto simp: gate_tier_qualifies tier_order)
  ultimately show ?thesis by blast
qed

lemma gate_tier_mono: "r \<le> s \<Longrightarrow> set p \<subseteq> set q \<Longrightarrow> gate_tier r p \<le> gate_tier s q"
  by (cases r; cases s) (auto simp: gate_tier_qualifies tier_order)

lemma score_to_tier_int:
  "score_to_tier (Fin (of_int n)) = (if n \<ge> 100 then Institutional else if n \<ge> 75 then Premium
     else if n \<ge> 50 then Verified else if n \<ge> 25 then Trusted else Standard)"
  by (simp add: score_to_tier_def int_of_num_def is_int_num_def tier_boundaries_def)

lemma score_to_tier_mono: "m \<le> n \<Longrightarrow> score_to_tier (Fin (of_int m)) \<le> score_to_tier (Fin (of_int n))"
  by (simp add: score_to_tier_int tier_order)

section \<open>The layers add up\<close>

lemma price_impact_range: "0 \<le> price_impact_bps f l" "price_impact_bps f l \<le> 150"
proof -
  have "0 \<le> \<lfloor>min 150 (max 0 r) + 1 / 2\<rfloor> \<and> \<lfloor>min 150 (max 0 r) + 1 / 2\<rfloor> \<le> 150" for r :: num
    by (auto simp: floor_less_iff le_floor_iff min_def max_def simp flip: not_less)
  then show "0 \<le> price_impact_bps f l" "price_impact_bps f l \<le> 150"
    by (auto simp: price_impact_bps_def split: jsnum.splits option.splits)
qed

lemma schedule_nonneg: "0 \<le> solver_base_bps a" "0 \<le> venue_bps t a" "0 \<le> routing_bps t a"
  by (cases a; cases t; simp add: solver_base_bps_def)+

lemma venue_bps_anti: "s \<le> t \<Longrightarrow> venue_bps t a \<le> venue_bps s a"
  by (cases s; cases t; cases a) (simp_all add: tier_order)

lemma routing_bps_anti: "s \<le> t \<Longrightarrow> routing_bps t a \<le> routing_bps s a"
  by (cases s; cases t; cases a) (simp_all add: tier_order)

lemma layer_amount_div: "0 \<le> base \<Longrightarrow> 0 \<le> bps \<Longrightarrow> layer_amount base bps = base * bps div 10000"
  by (auto simp: layer_amount_def BPS_DENOMINATOR_def)

lemma layer_amount_mono: "0 \<le> base \<Longrightarrow> 0 \<le> b \<Longrightarrow> b \<le> c \<Longrightarrow> layer_amount base b \<le> layer_amount base c"
  by (simp add: layer_amount_div zdiv_mono1 mult_left_mono)

lemma layer_amount_nonneg: "0 \<le> layer_amount base bps"
  by (simp add: layer_amount_def BPS_DENOMINATOR_def pos_imp_zdiv_nonneg_iff)

lemma parse_base_nonneg: "parse_base_amount a = Inr base \<Longrightarrow> 0 \<le> base"
  by (auto simp: parse_base_amount_def split: base_amount.splits if_splits)

lemma max_sum: "0 \<le> b \<Longrightarrow> 0 \<le> c \<Longrightarrow> 0 \<le> d \<Longrightarrow> max (a + b + c + d) a = a + d + b + (c :: int)"
  by simp

text \<open>The computed core, layer by layer.\<close>

lemma compute_fee_layers:
  assumes "compute_fee_breakdown p = Inr c"
  obtains base where "parse_base_amount (fp_input_amount p) = Inr base" "0 \<le> base"
    "0 \<le> fc_solver_fee_bps c" "0 \<le> fc_price_impact_bps c" "0 \<le> fc_venue_fee_bps c" "0 \<le> fc_routing_fee_bps c"
    "fc_total_bps c = fc_solver_fee_bps c + fc_price_impact_bps c + fc_venue_fee_bps c + fc_routing_fee_bps c"
    "fc_solver_fee c = show_int (layer_amount base (fc_solver_fee_bps c))"
    "fc_price_impact c = show_int (layer_amount base (fc_price_impact_bps c))"
    "fc_venue_fee c = show_int (layer_amount base (fc_venue_fee_bps c))"
    "fc_routing_fee c = show_int (layer_amount base (fc_routing_fee_bps c))"
    "fc_total_fee c = show_int (layer_amount base (fc_solver_fee_bps c) + layer_amount base (fc_price_impact_bps c)
       + layer_amount base (fc_venue_fee_bps c) + layer_amount base (fc_routing_fee_bps c))"
proof -
  from assms obtain base where b: "parse_base_amount (fp_input_amount p) = Inr base"
    by (auto simp: compute_fee_breakdown_def Let_def)
  show ?thesis
    using assms b schedule_nonneg price_impact_range parse_base_nonneg [OF b]
    by (intro that [of base]) (auto simp: compute_fee_breakdown_def max_sum Let_def)
qed

definition same_layers :: "fee_reconcilable \<Rightarrow> fee_core \<Rightarrow> bool" where
  "same_layers fb c \<longleftrightarrow> big_int (fr_solver_fee fb) = big_int (fc_solver_fee c)
     \<and> big_int (fr_price_impact fb) = big_int (fc_price_impact c)
     \<and> big_int (fr_venue_fee fb) = big_int (fc_venue_fee c)
     \<and> big_int (fr_routing_fee fb) = big_int (fc_routing_fee c)
     \<and> big_int (fr_total_fee fb) = big_int (fc_total_fee c)"

definition same_bps :: "fee_reconcilable \<Rightarrow> fee_core \<Rightarrow> bool" where
  "same_bps fb c \<longleftrightarrow> fr_solver_fee_bps fb = of_int (fc_solver_fee_bps c)
     \<and> fr_price_impact_bps fb = of_int (fc_price_impact_bps c) \<and> fr_venue_fee_bps fb = of_int (fc_venue_fee_bps c)
     \<and> fr_routing_fee_bps fb = of_int (fc_routing_fee_bps c)"

lemma read_layer_ok: "read_layer s = Inr n \<longleftrightarrow> big_int s = Some n"
  by (auto simp: read_layer_def split: option.splits)

lemma check_layer_int:
  "0 \<le> bps \<Longrightarrow> 0 \<le> base \<Longrightarrow> check_layer base name amount (of_int bps) = Inr () \<longleftrightarrow> amount = layer_amount base bps"
  by (auto simp: check_layer_def is_int_num_def layer_amount_def)

text \<open>
  The check of a served breakdown and the client's own computation agree. Against the origin amount, a
  breakdown at the computed basis points reconciles exactly when every layer and the total are the ones
  the client computes; in particular the computed breakdown itself always passes.
\<close>

lemma fee_check_is_computation:
  assumes "compute_fee_breakdown p = Inr c" and "same_bps fb c"
  shows "assert_fee_breakdown_invariants fb (Some (fp_input_amount p)) = Inr ()
    \<longleftrightarrow> fr_total_bps fb = of_int (fc_total_bps c) \<and> same_layers fb c"
proof -
  from assms(1) obtain base where b: "parse_base_amount (fp_input_amount p) = Inr base" "0 \<le> base"
    and n: "0 \<le> fc_solver_fee_bps c" "0 \<le> fc_price_impact_bps c" "0 \<le> fc_venue_fee_bps c" "0 \<le> fc_routing_fee_bps c"
    and t: "fc_total_bps c = fc_solver_fee_bps c + fc_price_impact_bps c + fc_venue_fee_bps c + fc_routing_fee_bps c"
    and l: "fc_solver_fee c = show_int (layer_amount base (fc_solver_fee_bps c))"
      "fc_price_impact c = show_int (layer_amount base (fc_price_impact_bps c))"
      "fc_venue_fee c = show_int (layer_amount base (fc_venue_fee_bps c))"
      "fc_routing_fee c = show_int (layer_amount base (fc_routing_fee_bps c))"
      "fc_total_fee c = show_int (layer_amount base (fc_solver_fee_bps c) + layer_amount base (fc_price_impact_bps c)
         + layer_amount base (fc_venue_fee_bps c) + layer_amount base (fc_routing_fee_bps c))"
    by (rule compute_fee_layers)
  have sum: "max (fr_solver_fee_bps fb + fr_price_impact_bps fb + fr_venue_fee_bps fb + fr_routing_fee_bps fb)
      (fr_solver_fee_bps fb) = of_int (fc_total_bps c)" "of_int (fc_total_bps c) \<ge> fr_solver_fee_bps fb"
    using assms(2) n t by (simp_all add: same_bps_def)
  show ?thesis
    using assms(2) sum n
    unfolding assert_fee_breakdown_invariants_def same_bps_def same_layers_def Let_def l
    by (auto simp: b read_layer_ok check_layer_int big_int_show_int layer_amount_nonneg add_nonneg_nonneg)
qed

lemma big_of_core: "compute_fee_breakdown p = Inr c \<Longrightarrow> same_bps (reconcilable_of c) c \<and> same_layers (reconcilable_of c) c"
  by (simp add: same_bps_def same_layers_def reconcilable_of_def)

definition fee_of :: "fee_core \<Rightarrow> int" where
  "fee_of c = the (big_int (fc_total_fee c))"

lemma fee_of_layers:
  assumes "compute_fee_breakdown p = Inr c" "parse_base_amount (fp_input_amount p) = Inr base"
  shows "fee_of c = layer_amount base (fc_solver_fee_bps c) + layer_amount base (fc_price_impact_bps c)
    + layer_amount base (fc_venue_fee_bps c) + layer_amount base (fc_routing_fee_bps c)"
  using assms(1)
proof (rule compute_fee_layers)
  fix b
  assume "parse_base_amount (fp_input_amount p) = Inr b"
    and "fc_total_fee c = show_int (layer_amount b (fc_solver_fee_bps c) + layer_amount b (fc_price_impact_bps c)
      + layer_amount b (fc_venue_fee_bps c) + layer_amount b (fc_routing_fee_bps c))"
  then show ?thesis using assms(2) by (simp add: fee_of_def big_int_show_int layer_amount_nonneg add_nonneg_nonneg)
qed

lemma floors_of_sum:
  fixes a b c d k :: int
  assumes "k > 0"
  shows "(a div k + b div k + c div k + d div k) * k \<le> a + b + c + d"
    "a + b + c + d < (a div k + b div k + c div k + d div k + 4) * k"
proof -
  have "x div k * k \<le> x" "x < x div k * k + k" for x
    using assms div_mult_mod_eq [of x k] pos_mod_sign [of k x] pos_mod_bound [of k x] by linarith+
  from this [of a] this [of b] this [of c] this [of d]
  show "(a div k + b div k + c div k + d div k) * k \<le> a + b + c + d"
    "a + b + c + d < (a div k + b div k + c div k + d div k + 4) * k"
    by (simp_all add: algebra_simps)
qed

text \<open>
  The fee never exceeds its headline rate and falls short of it by less than four base units: each of
  the four layers is rounded down on its own. The rate itself is between the solver floor and 190 basis
  points.
\<close>

lemma fee_within_rate:
  assumes "compute_fee_breakdown p = Inr c" and "parse_base_amount (fp_input_amount p) = Inr base"
  shows "fee_of c * 10000 \<le> base * fc_total_bps c \<and> base * fc_total_bps c < (fee_of c + 4) * 10000
    \<and> fc_solver_fee_bps c \<le> fc_total_bps c \<and> fc_total_bps c \<le> 190"
proof -
  from assms(1) obtain b where "0 \<le> b" "parse_base_amount (fp_input_amount p) = Inr b"
    and n: "0 \<le> fc_solver_fee_bps c" "0 \<le> fc_price_impact_bps c" "0 \<le> fc_venue_fee_bps c" "0 \<le> fc_routing_fee_bps c"
    and t: "fc_total_bps c = fc_solver_fee_bps c + fc_price_impact_bps c + fc_venue_fee_bps c + fc_routing_fee_bps c"
    by (rule compute_fee_layers)
  with assms(2) have b: "0 \<le> base" by simp
  have f: "fee_of c = base * fc_solver_fee_bps c div 10000 + base * fc_price_impact_bps c div 10000
      + base * fc_venue_fee_bps c div 10000 + base * fc_routing_fee_bps c div 10000"
    using fee_of_layers [OF assms] b n by (simp add: layer_amount_div)
  have total: "base * fc_total_bps c = base * fc_solver_fee_bps c + base * fc_price_impact_bps c
      + base * fc_venue_fee_bps c + base * fc_routing_fee_bps c"
    by (simp add: t algebra_simps)
  have "solver_base_bps a + venue_bps tier a + r \<le> 40" if "r \<in> {0, routing_bps tier a}" for a tier r
    using that by (cases a; cases tier) (auto simp: solver_base_bps_def)
  then have "fc_total_bps c \<le> 190"
    using assms(1) price_impact_range(2) [of "or_else (fp_fill_usd p) (Fin 0)" "fp_available_liquidity_usd p"]
    unfolding t by (auto simp: compute_fee_breakdown_def Let_def) (smt (verit) insertCI)+
  then show ?thesis using floors_of_sum [of 10000] n t unfolding f total by simp
qed

text \<open>
  Standing never costs more: for the same order, a higher trust score or more attestations never
  raise the fee.
\<close>

lemma fee_antitone_in_standing:
  assumes "compute_fee_breakdown p = Inr c"
    and "compute_fee_breakdown (p\<lparr>fp_trust_score := Some (Fin (of_int s')), fp_attestations := Some q'\<rparr>) = Inr d"
    and "fp_tier p = None" and "fp_trust_score p = Some (Fin (of_int s))" and "fp_attestations p = Some q"
    and "s \<le> s'" and "set q \<subseteq> set q'"
  shows "fee_of d \<le> fee_of c \<and> fc_total_bps d \<le> fc_total_bps c"
proof -
  let ?p' = "p\<lparr>fp_trust_score := Some (Fin (of_int s')), fp_attestations := Some q'\<rparr>"
  from assms(1) obtain base where b: "parse_base_amount (fp_input_amount p) = Inr base" "0 \<le> base"
    by (rule compute_fee_layers)
  have "gate_tier (score_to_tier (Fin (of_int s))) q \<le> gate_tier (score_to_tier (Fin (of_int s'))) q'"
    by (rule gate_tier_mono [OF score_to_tier_mono [OF assms(6)] assms(7)])
  then have tier: "fee_tier_of p \<le> fee_tier_of ?p'" using assms(3-5) by (simp add: fee_tier_of_def)
  have r: "fc_solver_fee_bps d = fc_solver_fee_bps c" "fc_price_impact_bps d = fc_price_impact_bps c"
    "fc_venue_fee_bps d \<le> fc_venue_fee_bps c" "fc_routing_fee_bps d \<le> fc_routing_fee_bps c"
    "0 \<le> fc_venue_fee_bps d" "0 \<le> fc_routing_fee_bps d"
    using assms(1,2) venue_bps_anti [OF tier] routing_bps_anti [OF tier] schedule_nonneg
    by (auto simp: compute_fee_breakdown_def Let_def)
  then have "layer_amount base (fc_venue_fee_bps d) \<le> layer_amount base (fc_venue_fee_bps c)"
    "layer_amount base (fc_routing_fee_bps d) \<le> layer_amount base (fc_routing_fee_bps c)"
    using layer_amount_mono [OF b(2)] by blast+
  moreover have "fee_of d = layer_amount base (fc_solver_fee_bps d) + layer_amount base (fc_price_impact_bps d)
      + layer_amount base (fc_venue_fee_bps d) + layer_amount base (fc_routing_fee_bps d)"
    using b by (intro fee_of_layers [OF assms(2)]) simp
  moreover note fee_of_layers [OF assms(1) b(1)]
  moreover have "fc_total_bps x = fc_solver_fee_bps x + fc_price_impact_bps x + fc_venue_fee_bps x + fc_routing_fee_bps x"
    if "compute_fee_breakdown y = Inr x" for x y
    using that by (rule compute_fee_layers)
  ultimately show ?thesis using r assms(1,2) by (metis add_mono order_refl)
qed

section \<open>An order of a hundred units\<close>

definition fee_order :: fee_params where
  "fee_order = \<lparr>fp_input_amount = AmountBig 123456, fp_asset_class = Some Volatile, fp_trust_score = Some (Fin (of_int 30)),
     fp_tier = None, fp_attestations = Some [Compliance], fp_acp_origin = False, fp_fill_usd = None,
     fp_available_liquidity_usd = None\<rparr>"

definition fee_charged :: "fee_tier \<Rightarrow> int \<Rightarrow> int \<Rightarrow> fee_core" where
  "fee_charged tier venue routing = \<lparr>fc_tier = tier, fc_asset_class = Volatile, fc_solver_fee_bps = 18,
     fc_solver_fee = show_int 222, fc_price_impact_bps = 0, fc_price_impact = show_int 0,
     fc_venue_fee_bps = venue, fc_venue_fee = show_int (123456 * venue div 10000),
     fc_routing_fee_bps = routing, fc_routing_fee = show_int (123456 * routing div 10000),
     fc_total_bps = 18 + venue + routing,
     fc_total_fee = show_int (222 + 123456 * venue div 10000 + 123456 * routing div 10000),
     fc_surplus_share_pct = 15\<rparr>"

lemma fee_order_charged: "compute_fee_breakdown fee_order = Inr (fee_charged Trusted 8 9)"
  unfolding compute_fee_breakdown_def fee_order_def
  by (simp add: fee_tier_of_def score_to_tier_int gate_tier_qualifies solver_base_bps_def price_impact_bps_def
      parse_base_amount_def layer_amount_def BPS_DENOMINATOR_def surplus_share_pct_def fee_charged_def Let_def
      del: of_int_numeral)

lemma fee_order_verified:
  "compute_fee_breakdown (fee_order\<lparr>fp_trust_score := Some (Fin (of_int 60)), fp_attestations := Some [Compliance]\<rparr>)
     = Inr (fee_charged Verified 5 6)"
  unfolding compute_fee_breakdown_def fee_order_def
  by (simp add: fee_tier_of_def score_to_tier_int gate_tier_qualifies solver_base_bps_def price_impact_bps_def
      parse_base_amount_def layer_amount_def BPS_DENOMINATOR_def surplus_share_pct_def fee_charged_def Let_def
      del: of_int_numeral)

lemma gate_tier_witness: "Verified \<le> gate_tier Institutional [Compliance]"
proof -
  have "Verified \<le> Institutional \<longrightarrow> qualifies Verified [Compliance] \<longrightarrow> Verified \<le> gate_tier Institutional [Compliance]"
    using gate_tier_best [of Institutional "[Compliance]"] by blast
  then show ?thesis by (simp add: tier_order)
qed

lemma fee_check_witness:
  "assert_fee_breakdown_invariants (reconcilable_of (fee_charged Trusted 8 9)) (Some (AmountBig 123456)) = Inr ()"
  using fee_check_is_computation [OF fee_order_charged, of "reconcilable_of (fee_charged Trusted 8 9)"]
    big_of_core [OF fee_order_charged]
  by (simp add: fee_order_def reconcilable_of_def)

lemma fee_rate_witness: "123456 * 35 < (fee_of (fee_charged Trusted 8 9) + 4) * 10000"
  using fee_within_rate [OF fee_order_charged, of 123456]
  by (simp add: fee_order_def parse_base_amount_def fee_charged_def)

lemma fee_antitone_witness: "fee_of (fee_charged Verified 5 6) \<le> fee_of (fee_charged Trusted 8 9)"
  using fee_antitone_in_standing [OF fee_order_charged fee_order_verified, of 30 "[Compliance]"]
  by (simp add: fee_order_def)

end
