(* ===== verification/Json.thy ===== *)
theory Json
  imports JsBase
begin

text \<open>
  \<open>JSON.parse\<close>, \<open>None\<close> where it throws. An object keeps the last value of a key it repeats. An escape
  \<open>\uXXXX\<close> above 255 has no code unit in the string model and is read as the substitute
  character 26, which no string the program compares with contains. The fuel is twice the length
  of the text: of two nested calls one reads a character, so more fuel reads the same
  (\<open>json_fuel\<close>).
\<close>

section \<open>Tokens\<close>

definition json_ws :: "string \<Rightarrow> string" where
  "json_ws = dropWhile (\<lambda>c. code c \<in> {9, 10, 13, 32})"

definition json_escape :: "char \<Rightarrow> char option" where
  "json_escape e = map_of [(CHR 0x22, CHR 0x22), (CHR 0x5C, CHR 0x5C), (CHR ''/'', CHR ''/''),
     (CHR ''b'', CHR 0x08), (CHR ''f'', CHR 0x0C), (CHR ''n'', CHR 0x0A), (CHR ''r'', CHR 0x0D),
     (CHR ''t'', CHR 0x09)] e"

definition json_unicode :: "string \<Rightarrow> char" where
  "json_unicode h = (let n = digits_val 16 h in if n < 256 then char_of n else char_of (26 :: nat))"

text \<open>The characters of a string after its opening quote, and what follows the closing one.\<close>

fun json_chars :: "string \<Rightarrow> (string \<times> string) option" where
  "json_chars [] = None"
| "json_chars (c # s) =
    (if c = CHR 0x22 then Some ([], s)
     else if code c < 32 then None
     else if c \<noteq> CHR 0x5C then map_option (apfst (Cons c)) (json_chars s)
     else (case s of
         [] \<Rightarrow> None
       | e # t \<Rightarrow>
         (if e = CHR ''u'' then (case t of
             h1 # h2 # h3 # h4 # u \<Rightarrow>
               (if list_all is_hex_digit [h1, h2, h3, h4]
                then map_option (apfst (Cons (json_unicode [h1, h2, h3, h4]))) (json_chars u) else None)
           | _ \<Rightarrow> None)
          else (case json_escape e of
             None \<Rightarrow> None
           | Some d \<Rightarrow> map_option (apfst (Cons d)) (json_chars t)))))"

text \<open>
  A number is the longest run of characters a number may have: no other token may follow one of them
  directly.
\<close>

definition number_char :: "char \<Rightarrow> bool" where
  "number_char c \<longleftrightarrow> is_digit c \<or> c \<in> set ''+-.eE''"

definition json_number_ok :: "string \<Rightarrow> bool" where
  "json_number_ok s = (let body = (if take 1 s = ''-'' then drop 1 s else s);
     (m, e) = split_at (\<lambda>c. c = CHR ''e'' \<or> c = CHR ''E'') body; (ip, fp) = split_at (\<lambda>c. c = CHR ''.'') m in
     all_digits ip \<and> (ip = ''0'' \<or> hd ip \<noteq> CHR ''0'') \<and> (case fp of None \<Rightarrow> True | Some f \<Rightarrow> all_digits f)
       \<and> (case e of None \<Rightarrow> True | Some x \<Rightarrow> signed_int x \<noteq> None))"

definition json_scalar :: "string \<Rightarrow> (jsval \<times> string) option" where
  "json_scalar s =
    (if starts_with s ''true'' then Some (VBool True, drop 4 s)
     else if starts_with s ''false'' then Some (VBool False, drop 5 s)
     else if starts_with s ''null'' then Some (VNull, drop 4 s)
     else (let n = takeWhile number_char s in
       if json_number_ok n then Some (VNum (decimal_num n), dropWhile number_char s) else None))"

section \<open>Values\<close>

fun json_value :: "nat \<Rightarrow> string \<Rightarrow> (jsval \<times> string) option"
and json_elems :: "nat \<Rightarrow> string \<Rightarrow> (jsval list \<times> string) option"
and json_members :: "nat \<Rightarrow> obj \<Rightarrow> string \<Rightarrow> (obj \<times> string) option" where
  "json_value 0 s = None"
| "json_value (Suc k) s = (case json_ws s of
      [] \<Rightarrow> None
    | c # t \<Rightarrow>
      (if c = CHR ''{'' then (case json_ws t of
           [] \<Rightarrow> None
         | d # u \<Rightarrow> (if d = CHR ''}'' then Some (VObj [], u) else map_option (apfst VObj) (json_members k [] t)))
       else if c = CHR ''['' then (case json_ws t of
           [] \<Rightarrow> None
         | d # u \<Rightarrow> (if d = CHR '']'' then Some (VArr [], u) else map_option (apfst VArr) (json_elems k t)))
       else if c = CHR 0x22 then map_option (apfst VStr) (json_chars t)
       else json_scalar (c # t)))"
| "json_elems 0 s = None"
| "json_elems (Suc k) s = (case json_value k s of
      None \<Rightarrow> None
    | Some (v, r) \<Rightarrow> (case json_ws r of
        [] \<Rightarrow> None
      | c # t \<Rightarrow> (if c = CHR '']'' then Some ([v], t)
          else if c = CHR '','' then map_option (apfst (Cons v)) (json_elems k t) else None)))"
| "json_members 0 ob s = None"
| "json_members (Suc k) ob s = (case json_ws s of
      [] \<Rightarrow> None
    | q # t \<Rightarrow> (if q \<noteq> CHR 0x22 then None else (case json_chars t of
        None \<Rightarrow> None
      | Some (key, r) \<Rightarrow> (case json_ws r of
          [] \<Rightarrow> None
        | c # u \<Rightarrow> (if c \<noteq> CHR '':'' then None else (case json_value k u of
            None \<Rightarrow> None
          | Some (v, r') \<Rightarrow> (case json_ws r' of
              [] \<Rightarrow> None
            | d # w \<Rightarrow> (if d = CHR ''}'' then Some (alist_put key v ob, w)
                else if d = CHR '','' then json_members k (alist_put key v ob) w else None))))))))"

definition json_parse :: "string \<Rightarrow> jsval option" where
  "json_parse s = (case json_value (2 * length s + 1) s of
     None \<Rightarrow> None
   | Some (v, r) \<Rightarrow> (if json_ws r = [] then Some v else None))"

section \<open>The fuel\<close>

lemma json_ws_length: "length (json_ws s) \<le> length s"
  by (simp add: json_ws_def length_dropWhile_le)

lemma json_ws_Cons: "json_ws s = c # t \<Longrightarrow> length t < length s"
  using json_ws_length [of s] by simp

lemma json_chars_length: "json_chars s = Some (x, r) \<Longrightarrow> length r < length s"
proof (induction s arbitrary: x rule: json_chars.induct)
  case (2 c s)
  show ?case
  proof (cases "c = CHR 0x22 \<or> code c < 32 \<or> c \<noteq> CHR 0x5C")
    case True
    with 2 show ?thesis by (fastforce split: if_splits)
  next
    case False
    with 2(4) obtain e t where s: "s = e # t" by (cases s) auto
    show ?thesis
    proof (cases "e = CHR ''u''")
      case True
      with False 2(4) s obtain h1 h2 h3 h4 u where t: "t = [h1, h2, h3, h4] @ u"
        by (auto split: list.splits)
      with False True 2(4) s 2(2) [of e t] show ?thesis by (fastforce split: if_splits)
    next
      case u: False
      with False 2(4) s obtain d where d: "json_escape e = Some d" by (cases "json_escape e") auto
      with False u 2(4) s 2(3) [of e t d] show ?thesis by fastforce
    qed
  qed
qed simp

lemma no_empty_number: "\<not> json_number_ok []"
  by (simp add: json_number_ok_def split_at_def all_digits_def)

lemma number_run_length: "json_number_ok (takeWhile number_char s) \<Longrightarrow> length (dropWhile number_char s) < length s"
  by (cases s) (auto simp: no_empty_number le_imp_less_Suc length_dropWhile_le split: if_splits)

lemma starts_with_length: "starts_with s p \<Longrightarrow> length p \<le> length s"
  by (metis length_take min.cobounded1 starts_with_def)

lemma json_scalar_length: "json_scalar s = Some (v, r) \<Longrightarrow> length r < length s"
  using starts_with_length [of s "''true''"] starts_with_length [of s "''false''"] starts_with_length [of s "''null''"]
    number_run_length [of s]
  by (auto simp: json_scalar_def Let_def split: if_splits)

lemma json_length:
  "json_value k s = Some (v, r) \<Longrightarrow> length r < length s"
  "json_elems k s = Some (vs, r) \<Longrightarrow> length r < length s"
  "json_members k ob s = Some (ob', r) \<Longrightarrow> length r < length s"
proof (induction k s and k s and k ob s arbitrary: v r and vs r and ob' r
    rule: json_value_json_elems_json_members.induct)
  case (2 k s)
  then obtain c t where c: "json_ws s = c # t" by (cases "json_ws s") auto
  have "length r < length (c # t)"
  proof (cases "c = CHR ''{'' \<or> c = CHR ''[''")
    case True
    with 2(3) c obtain d u where d: "json_ws t = d # u" by (cases "json_ws t") auto
    with True c 2 json_ws_Cons [OF d] show ?thesis by (fastforce split: if_splits)
  next
    case False
    with 2(3) c json_chars_length [of t _ r] json_scalar_length [of "c # t" v r] show ?thesis
      by (fastforce split: if_splits)
  qed
  with c json_ws_length [of s] show ?case by simp
next
  case (4 k s)
  then obtain v r1 where v: "json_value k s = Some (v, r1)" by (cases "json_value k s") auto
  with 4(3) obtain c t where c: "json_ws r1 = c # t" by (cases "json_ws r1") auto
  have "length r1 < length s" using 4(1) v by blast
  moreover have "length r \<le> length t" using 4 v c by (fastforce split: if_splits intro: less_imp_le)
  ultimately show ?case using json_ws_Cons [OF c] by simp
next
  case (6 k ob s)
  then obtain q t where q: "json_ws s = q # t" "q = CHR 0x22" by (cases "json_ws s") (auto split: if_splits)
  with 6(3) obtain key r1 where key: "json_chars t = Some (key, r1)" by (cases "json_chars t") auto
  with q 6(3) obtain c u where c: "json_ws r1 = c # u" "c = CHR '':''" by (cases "json_ws r1") (auto split: if_splits)
  with q key 6(3) obtain v r2 where v: "json_value k u = Some (v, r2)" by (cases "json_value k u") auto
  with q key c 6(3) obtain d w where d: "json_ws r2 = d # w" by (cases "json_ws r2") auto
  have "length r2 < length u" using 6(1) q key c v by blast
  moreover have "length r \<le> length w" using 6 q key c v d by (fastforce split: if_splits intro: less_imp_le)
  moreover note json_ws_Cons [OF q(1)] json_chars_length [OF key] json_ws_Cons [OF c(1)] json_ws_Cons [OF d]
  ultimately show ?case by linarith
qed simp_all

text \<open>Any fuel above twice the length of the text gives the same result.\<close>

lemma json_fuel:
  "2 * length s < k \<Longrightarrow> 2 * length s < m \<Longrightarrow> json_value k s = json_value m s"
  "2 * length s + 1 < k \<Longrightarrow> 2 * length s + 1 < m \<Longrightarrow> json_elems k s = json_elems m s"
  "2 * length s < k \<Longrightarrow> 2 * length s < m \<Longrightarrow> json_members k ob s = json_members m ob s"
proof (induction k s and k s and k ob s arbitrary: m and m and m
    rule: json_value_json_elems_json_members.induct)
  case (2 k s)
  from 2(4) obtain m' where m: "m = Suc m'" by (cases m) auto
  show ?case
  proof (cases "json_ws s")
    case (Cons c t)
    have t: "length t < length s" using json_ws_Cons [OF Cons] .
    have "json_members k [] t = json_members m' [] t" if "json_ws t = d # u" "c = CHR ''{''" "d \<noteq> CHR ''}''" for d u
      by (rule 2(1) [OF Cons that(2) that(1) that(3)]) (use t 2(3,4) m in simp_all)
    moreover have "json_elems k t = json_elems m' t"
      if "json_ws t = d # u" "c \<noteq> CHR ''{''" "c = CHR ''[''" "d \<noteq> CHR '']''" for d u
      by (rule 2(2) [OF Cons that(2,3) that(1) that(4)]) (use t 2(3,4) m in simp_all)
    ultimately show ?thesis by (simp add: m Cons split: list.splits)
  qed (simp add: m)
next
  case (4 k s)
  from 4(4) obtain m' where m: "m = Suc m'" by (cases m) auto
  have v: "json_value k s = json_value m' s" by (rule 4(1)) (use 4(3,4) m in simp_all)
  show ?case
  proof (cases "json_value k s")
    case (Some p)
    then obtain v r where p: "json_value k s = Some (v, r)" by (cases p) auto
    have "json_elems k t = json_elems m' t" if "json_ws r = c # t" "c \<noteq> CHR '']''" "c = CHR '',''" for c t
      by (rule 4(2) [OF p refl that]) (use json_ws_Cons [OF that(1)] json_length(1) [OF p] 4(3,4) m in simp_all)
    with p v show ?thesis by (simp add: m split: list.splits)
  qed (simp add: m flip: v)
next
  case (6 k ob s)
  from 6(4) obtain m' where m: "m = Suc m'" by (cases m) auto
  show ?case
  proof (cases "json_ws s")
    case (Cons q t)
    note t = json_ws_Cons [OF Cons]
    show ?thesis
    proof (cases "q \<noteq> CHR 0x22 \<or> json_chars t = None")
      case False
      then obtain key r where q: "\<not> q \<noteq> CHR 0x22" and r: "json_chars t = Some (key, r)" by auto
      show ?thesis
      proof (cases "json_ws r")
        case c: (Cons c u)
        note u = json_ws_Cons [OF c] json_chars_length [OF r]
        show ?thesis
        proof (cases "c \<noteq> CHR '':''")
          case False
          then have v: "json_value k u = json_value m' u"
            by (intro 6(1) [OF Cons q r refl c False]) (use t u 6(3,4) m in simp_all)
          have "json_members k (alist_put key w ob) z = json_members m' (alist_put key w ob) z"
            if "json_value k u = Some (w, r')" "json_ws r' = d # z" "d \<noteq> CHR ''}''" "d = CHR '',''" for w r' d z
            by (rule 6(2) [OF Cons q r refl c False that(1) refl that(2-4)])
              (use t u json_ws_Cons [OF that(2)] json_length(1) [OF that(1)] 6(3,4) m in simp_all)
          with q r c False Cons v show ?thesis by (simp add: m split: list.splits option.splits)
        qed (use q r c Cons in \<open>simp add: m\<close>)
      qed (use q r Cons in \<open>simp add: m\<close>)
    qed (use Cons in \<open>auto simp: m\<close>)
  qed (simp add: m)
qed simp_all

lemma json_parse_fuel:
  "2 * length s < k \<Longrightarrow> json_parse s = (case json_value k s of
     None \<Rightarrow> None | Some (v, r) \<Rightarrow> (if json_ws r = [] then Some v else None))"
  using json_fuel(1) [of s "2 * length s + 1" k] by (simp add: json_parse_def)

text \<open>A text may start and end in white space.\<close>

lemma json_ws_idem [simp]: "json_ws (json_ws s) = json_ws s"
  by (simp add: json_ws_def)

end
