(* ===== verification/Failure.thy ===== *)
theory Failure
  imports IntentState Json
begin

text \<open>
  \<open>packages/client/src/machine/failure.ts\<close>: what went wrong with a trade, as a typed kind. The regular
  expressions of the source are string functions here, each named after what it matches; they are
  read without the \<open>m\<close> flag, as the source writes them, so \<open>$\<close> is the end of the text.
\<close>

section \<open>The regular expressions\<close>

definition trim_start :: "string \<Rightarrow> string" where
  "trim_start = dropWhile is_space"

definition trim_end :: "string \<Rightarrow> string" where
  "trim_end s = rev (dropWhile is_space (rev s))"

text \<open>\<open>s.replace(/^\s*<phrase>[^.]*\.\s*/i, "")\<close>, the phrase in lower case.\<close>

definition strip_sentence :: "string \<Rightarrow> string \<Rightarrow> string" where
  "strip_sentence phrase s = (let t = trim_start s in
     if starts_with (to_lower t) phrase
     then (case dropWhile (\<lambda>c. c \<noteq> CHR ''.'') (drop (length phrase) t) of [] \<Rightarrow> s | _ # u \<Rightarrow> trim_start u)
     else s)"

text \<open>\<open>s.replace(/^\s*<label>:?\s*/i, "")\<close>.\<close>

definition strip_label :: "string \<Rightarrow> string \<Rightarrow> string" where
  "strip_label label s = (let t = trim_start s; u = drop (length label) t in
     if starts_with (to_lower t) label
     then trim_start (if take 1 u = '':'' then drop 1 u else u) else s)"

text \<open>\<open>s.replace(/\s*<phrase>\.?\s*$/i, "")\<close>.\<close>

definition ends_with :: "string \<Rightarrow> string \<Rightarrow> bool" where
  "ends_with s p \<longleftrightarrow> starts_with (rev s) (rev p)"

definition strip_ending :: "string \<Rightarrow> string \<Rightarrow> string" where
  "strip_ending phrase s = (let t = trim_end s; k = length phrase in
     if ends_with (to_lower t) phrase then trim_end (take (length t - k) t)
     else if ends_with (to_lower t) (phrase @ ''.'') then trim_end (take (length t - k - 1) t)
     else s)"

text \<open>\<open>/do(?:n't| not)\s+re-?submit/.test(s)\<close>.\<close>

definition resubmit_here :: "string \<Rightarrow> bool" where
  "resubmit_here s \<longleftrightarrow> (\<exists>p \<in> set [''don'' @ [CHR 0x27] @ ''t'', ''do not'']. starts_with s p
     \<and> (let t = drop (length p) s; u = trim_start t in
        u \<noteq> t \<and> (starts_with u ''resubmit'' \<or> starts_with u ''re-submit'')))"

fun says_do_not_resubmit :: "string \<Rightarrow> bool" where
  "says_do_not_resubmit [] = False"
| "says_do_not_resubmit (c # s) = (resubmit_here (c # s) \<or> says_do_not_resubmit s)"

text \<open>The group of \<open>/^\s*HTTP 503:\s*([\s\S]+)$/i\<close>.\<close>

definition http_503_body :: "string \<Rightarrow> string option" where
  "http_503_body s = (let t = trim_start s; u = drop 9 t in
     if \<not> starts_with (to_lower t) ''http 503:'' \<or> u = [] then None
     else if trim_start u = [] then Some [last u] else Some (trim_start u))"

section \<open>The kinds of failure\<close>

datatype failure_detail =
    FAuth | FInDoubt | FNoLiquidity | FWalletRejected | FInsufficientFunds | FNetwork | FBusy
  | FPricingUnavailable | FSolverTimeout | FRequestRejected "string option" | FQuoteExpired
  | FTokenUnresolved | FPairUnsupported string | FRouteUnsupported | FSettlementUnavailable
  | FAmountTooLarge string | FAmountTooSmall "string option" | FSlippage | FRateLimited
  | FVerificationUnavailable | FHttp num | FDeclined string | FUnrecognized string

record failure =
  f_detail :: failure_detail
  f_retryable :: bool

definition PAIR_DECLINE_MARKER :: string where
  "PAIR_DECLINE_MARKER = ''pick a different pair''"

definition BUSY_CATEGORIES :: "string list" where
  "BUSY_CATEGORIES = [''gas_floor_unpriced'', ''inventory_unverified'', ''quote_holds_exhausted'',
     ''idempotency_key_in_flight'', ''idempotency_unavailable'']"

definition NOT_RETRYABLE_STATUSES :: "num list" where
  "NOT_RETRYABLE_STATUSES = [400, 403, 404]"

definition retryable_of :: "failure_detail \<Rightarrow> bool" where
  "retryable_of d = (case d of
     FInDoubt \<Rightarrow> False | FInsufficientFunds \<Rightarrow> False | FRequestRejected _ \<Rightarrow> False
   | FPairUnsupported _ \<Rightarrow> False | FRouteUnsupported \<Rightarrow> False | FSettlementUnavailable \<Rightarrow> False
   | FAmountTooLarge _ \<Rightarrow> False | FAmountTooSmall _ \<Rightarrow> False | FDeclined _ \<Rightarrow> False
   | FHttp status \<Rightarrow> status \<notin> set NOT_RETRYABLE_STATUSES
   | _ \<Rightarrow> True)"

definition failure_with :: "failure_detail \<Rightarrow> failure" where
  "failure_with d = \<lparr>f_detail = d, f_retryable = retryable_of d\<rparr>"

section \<open>Reading the prose\<close>

definition pair_decline :: "string \<Rightarrow> failure_detail option" where
  "pair_decline message = (if \<not> includes_str (to_lower message) PAIR_DECLINE_MARKER then None
     else Some (FPairUnsupported (trim (strip_sentence ''that pair is not supported'' message))))"

definition rejected_field :: "string \<Rightarrow> string option" where
  "rejected_field message = (if \<not> includes_str (to_lower message) ''validation_failed'' then None
     else (let field = trim (strip_label ''request validation failed'' (strip_label ''validation_failed'' message)) in
       if field = [] then None else Some field))"

definition limit_of :: "string \<Rightarrow> string" where
  "limit_of message = trim (strip_ending ''try a smaller amount'' message)"

definition minimum_advice_of :: "string \<Rightarrow> string option" where
  "minimum_advice_of message = (let advice = trim (strip_sentence ''amount too small'' message) in
     if advice = [] then None else Some advice)"

definition says :: "string \<Rightarrow> string list \<Rightarrow> bool" where
  "says text phrases = list_ex (includes_str text) phrases"

definition by_message :: "string \<Rightarrow> failure_detail" where
  "by_message error = (let lower = to_lower error in
     if says lower [''unauthorized'', ''authentication required'', ''authorization failed'',
          ''invalid or expired token'', ''http 401''] then FAuth
     else if says_do_not_resubmit lower then FInDoubt
     else if says lower [''liquidity'', ''no route''] then FNoLiquidity
     else if says lower [''rejected'', ''denied'', ''cancelled''] then FWalletRejected
     else if says lower [''insufficient'', ''not enough''] then FInsufficientFunds
     else if says lower [''network'', ''connection'', ''timeout'', ''load failed'', ''fetch''] then FNetwork
     else if says lower [''temporarily unavailable'', ''service unavailable'', ''http 503''] then FBusy
     else if says lower [''validation_failed'', ''invalid_request'', ''could not accept this request'']
         \<and> \<not> includes_str lower ''expired'' then FRequestRejected (rejected_field error)
     else if says lower [''expired'', ''quote''] then FQuoteExpired
     else if says lower [''unsupported_origin_token'', ''unsupported_destination_token''] then FTokenUnresolved
     else (case pair_decline error of
         Some pair \<Rightarrow> pair
       | None \<Rightarrow>
         if says lower [''unsupported'', ''not supported''] then FRouteUnsupported
         else if includes_str lower ''above the maximum'' then FAmountTooLarge (limit_of error)
         else if says lower [''unprofitable'', ''below min'', ''minimum'', ''too small'']
           then FAmountTooSmall (minimum_advice_of error)
         else if includes_str lower ''slippage'' then FSlippage
         else if says lower [''rate'', ''too many''] then FRateLimited
         else if says lower [''proof'', ''verification unavailable''] then FVerificationUnavailable
         else FUnrecognized error))"

section \<open>The served category and the HTTP code\<close>

definition by_category :: "string \<Rightarrow> string \<Rightarrow> failure" where
  "by_category category message = failure_with
    (if category \<in> set BUSY_CATEGORIES then FBusy
     else if category = ''conversion_unavailable'' then FPricingUnavailable
     else if category = ''no_liquidity'' then FNoLiquidity
     else if category = ''auth'' then FAuth
     else if category = ''settlement_type_unavailable'' then FSettlementUnavailable
     else if category = ''invalid_request'' then FRequestRejected (rejected_field message)
     else if category = ''amount_too_large'' then FAmountTooLarge (limit_of message)
     else if category = ''amount_too_small'' then FAmountTooSmall (minimum_advice_of message)
     else if category = ''route_unsupported'' then or_else (pair_decline message) FRouteUnsupported
     else if category = ''unknown'' then
       (case by_message message of FUnrecognized _ \<Rightarrow> FDeclined message | detail \<Rightarrow> detail)
     else FDeclined message)"

definition by_status :: "num \<Rightarrow> failure_detail" where
  "by_status status = (if status = 401 then FAuth else if status = 429 then FRateLimited else FHttp status)"

definition structured_503 :: "string \<Rightarrow> failure_detail option" where
  "structured_503 message = (case http_503_body message of
     None \<Rightarrow> None
   | Some text \<Rightarrow> (case json_parse text of
       Some (VObj body) \<Rightarrow>
         (if obj_get body ''error_category'' = VStr ''conversion_unavailable'' then Some FPricingUnavailable
          else if obj_get body ''detail'' = VStr ''request timed out'' then Some FSolverTimeout
          else None)
     | _ \<Rightarrow> None))"

definition message_of :: "intent_error \<Rightarrow> string" where
  "message_of e = (case e of ErrText s \<Rightarrow> s | ErrStruct se \<Rightarrow> se_message se)"

definition code_of :: "intent_error \<Rightarrow> num option" where
  "code_of e = (case e of ErrText _ \<Rightarrow> None
     | ErrStruct se \<Rightarrow> (case se_code se of Some c \<Rightarrow> (if c = 0 then None else Some c) | None \<Rightarrow> None))"

definition classify_failure :: "intent_error \<Rightarrow> string option \<Rightarrow> failure" where
  "classify_failure error category = (let message = message_of error in
     if or_else category [] \<noteq> [] then by_category (or_else category []) message
     else (case code_of error of
       Some c \<Rightarrow> failure_with (if c = 503 then or_else (structured_503 message) FBusy else by_status c)
     | None \<Rightarrow> failure_with (by_message message)))"

section \<open>The settlement a route can offer\<close>

record settlement_option =
  so_type :: string
  so_available :: bool
  so_reason :: "string option"

definition is_settlement_available :: "settlement_option list option \<Rightarrow> settlement_type \<Rightarrow> bool option" where
  "is_settlement_available options t = (case options of
     None \<Rightarrow> None
   | Some opts \<Rightarrow> map_option so_available (find (\<lambda>o1. so_type o1 = settlement_str t) opts))"

definition settlement_refusal_reason :: "settlement_option list option \<Rightarrow> settlement_type \<Rightarrow> string option" where
  "settlement_refusal_reason options t =
    (case find (\<lambda>o1. so_type o1 = settlement_str t) (or_else options []) of
       None \<Rightarrow> None
     | Some opt \<Rightarrow> (if so_available opt then None else (case so_reason opt of
           None \<Rightarrow> None
         | Some r \<Rightarrow> (if trim r = [] then None else Some (trim r)))))"

datatype fallback_kind = FallbackRoute | FallbackRequest

definition settlement_fallback :: "settlement_type \<Rightarrow> intent_status \<Rightarrow> intent_error option \<Rightarrow> string option
    \<Rightarrow> fallback_kind option" where
  "settlement_fallback settlement status error category =
    (if settlement = Public \<or> status \<noteq> Failed then None
     else (case error of
       None \<Rightarrow> None
     | Some e \<Rightarrow> (if e = ErrText [] then None
         else (case f_detail (classify_failure (ErrText (message_of e)) category) of
             FRouteUnsupported \<Rightarrow> Some FallbackRoute
           | FPairUnsupported _ \<Rightarrow> Some FallbackRoute
           | FTokenUnresolved \<Rightarrow> Some FallbackRoute
           | FSettlementUnavailable \<Rightarrow> Some FallbackRoute
           | FRequestRejected _ \<Rightarrow> Some FallbackRequest
           | _ \<Rightarrow> None))))"

section \<open>What a classification may say\<close>

lemma trim_end_Cons: "trim_end (c # s) = (if list_all is_space (c # s) then [] else c # trim_end s)"
proof (cases "list_all is_space s")
  case True
  then have "dropWhile is_space (rev s) = []" by (simp add: list_all_iff)
  moreover from True have "dropWhile is_space (rev s @ [c]) = dropWhile is_space [c]"
    by (metis dropWhile_append2 list_all_iff set_rev)
  ultimately show ?thesis using True by (simp add: trim_end_def)
next
  case False
  then obtain x where "x \<in> set (rev s)" "\<not> is_space x" by (auto simp: list_all_iff)
  then show ?thesis using False by (simp add: trim_end_def dropWhile_append1)
qed

lemma trim_end_Nil [simp]: "trim_end [] = []"
  by (simp add: trim_end_def)

lemma trim_end_idem [simp]: "trim_end (trim_end s) = trim_end s"
  by (simp add: trim_end_def)

lemma trim_trim_end [simp]: "trim (trim_end s) = trim s"
proof (induction s)
  case (Cons c s)
  have "trim_end (c # s) = []" if "list_all is_space (c # s)" using that by (simp add: trim_end_Cons)
  moreover have "trim (c # s) = []" if "list_all is_space (c # s)"
  proof -
    have "dropWhile is_space (c # s) = []" using that by (auto simp: list_all_iff)
    then show ?thesis by (simp add: trim_def)
  qed
  moreover have "trim (c # trim_end s) = trim (c # s)" if "\<not> list_all is_space (c # s)"
  proof (cases "is_space c")
    case True
    then show ?thesis using Cons by (simp add: trim_def)
  next
    case False
    then have "c # trim_end s = trim_end (c # s)" by (simp add: trim_end_Cons)
    moreover have "trim (c # t) = trim_end (c # t)" for t using False by (simp add: trim_def trim_end_def)
    ultimately show ?thesis by (metis trim_end_idem)
  qed
  moreover have "trim [] = []" by (simp add: trim_def)
  ultimately show ?case by (simp add: trim_end_Cons)
qed (simp add: trim_def)

text \<open>The endings the Worker serves.\<close>

lemma strip_cap_advice:
  "strip_ending ''try a smaller amount'' (cap @ '' Try a smaller amount.'') = trim_end cap"
  "strip_ending ''try a smaller amount'' (cap @ '' Try a smaller amount'') = trim_end cap"
  "strip_ending ''try a smaller amount'' (cap @ '' try a smaller amount.'') = trim_end cap"
  "strip_ending ''try a smaller amount'' (cap @ '' try a smaller amount'') = trim_end cap"
  by (simp_all add: strip_ending_def Let_def trim_end_def is_space_def code_def ends_with_def starts_with_def
      to_lower_def lower_char_def char_of_def bit_0)

definition AUTH_PHRASES :: "string list" where
  "AUTH_PHRASES = [''unauthorized'', ''authentication required'', ''authorization failed'',
     ''invalid or expired token'', ''http 401'']"

lemma failure_with_simps [simp]:
  "f_detail (failure_with d) = d" "f_retryable (failure_with d) = retryable_of d"
  by (simp_all add: failure_with_def)

lemma pair_decline_shape: "pair_decline s = Some d \<Longrightarrow> \<exists>a. d = FPairUnsupported a"
  by (auto simp: pair_decline_def split: if_splits)

lemma structured_503_shape: "structured_503 s = Some d \<Longrightarrow> d = FPricingUnavailable \<or> d = FSolverTimeout"
  by (auto simp: structured_503_def split: option.splits jsval.splits if_splits)

text \<open>The three kinds the order of the prose rules protects.\<close>

lemma by_message_in_doubt:
  "by_message s = FInDoubt \<longleftrightarrow> says_do_not_resubmit (to_lower s) \<and> \<not> says (to_lower s) AUTH_PHRASES"
  using pair_decline_shape [of s]
  by (auto simp: by_message_def AUTH_PHRASES_def Let_def split: option.splits)

lemma by_message_wallet:
  assumes "by_message s \<in> {FWalletRejected, FInsufficientFunds}"
  shows "\<not> says (to_lower s) AUTH_PHRASES" "\<not> says_do_not_resubmit (to_lower s)"
    "\<not> says (to_lower s) [''liquidity'', ''no route'']"
  using assms pair_decline_shape [of s]
  by (auto simp: by_message_def AUTH_PHRASES_def Let_def split: option.splits if_splits)

lemma classify_by_message:
  assumes "f_detail (classify_failure e c) \<in> {FInDoubt, FWalletRejected, FInsufficientFunds}"
  shows "f_detail (classify_failure e c) = by_message (message_of e)"
proof -
  have "f_detail (by_category k m) = by_message m"
    if "f_detail (by_category k m) \<in> {FInDoubt, FWalletRejected, FInsufficientFunds}" for k m
    using that pair_decline_shape [of m]
    by (cases "by_message m"; cases "pair_decline m") (auto simp: by_category_def split: if_splits)
  moreover have "by_status k \<notin> {FInDoubt, FWalletRejected, FInsufficientFunds}" for k
    by (simp add: by_status_def)
  moreover have "or_else (structured_503 m) FBusy \<notin> {FInDoubt, FWalletRejected, FInsufficientFunds}" for m
    using structured_503_shape [of m] by (cases "structured_503 m") auto
  ultimately show ?thesis
    using assms by (auto simp: classify_failure_def Let_def split: option.splits if_splits)
qed

text \<open>
  Whatever the served category or HTTP code, a trade is read as the user's cancellation or as a wallet
  without funds only when its message speaks neither of the solver's liquidity or route, nor of a
  refused credential, nor of an order that must not be sent again.
\<close>

lemma wallet_never_blamed:
  assumes "f_detail (classify_failure e category) \<in> {FWalletRejected, FInsufficientFunds}"
  shows "\<not> says (to_lower (message_of e)) [''liquidity'', ''no route'']
    \<and> \<not> says (to_lower (message_of e)) AUTH_PHRASES \<and> \<not> says_do_not_resubmit (to_lower (message_of e))"
  using assms classify_by_message [of e category] by_message_wallet [of "message_of e"] by auto

text \<open>
  A message without a category and without an HTTP code that tells the client not to resubmit is the
  in-doubt failure, which is never retryable, exactly when it carries none of the credential phrases: those
  are read first, and then the failure is a retryable one, which the client README and the rule of in_doubt rule out.
\<close>

lemma in_doubt_unless_auth:
  assumes "code_of e = None" and "says_do_not_resubmit (to_lower (message_of e))"
  shows "classify_failure e None = failure_with
      (if says (to_lower (message_of e)) AUTH_PHRASES then FAuth else FInDoubt)
    \<and> (f_retryable (classify_failure e None) \<longleftrightarrow> says (to_lower (message_of e)) AUTH_PHRASES)"
proof -
  have "classify_failure e None = failure_with (by_message (message_of e))"
    using assms(1) by (simp add: classify_failure_def)
  moreover have "by_message (message_of e) = (if says (to_lower (message_of e)) AUTH_PHRASES then FAuth else FInDoubt)"
    using assms(2) by (simp add: by_message_def AUTH_PHRASES_def Let_def)
  ultimately show ?thesis by (simp add: retryable_of_def)
qed

text \<open>
  A declined quote whose category this client does not know is final and keeps its message, the names
  every JavaScript object inherits included; and a bare 503 is always worth another try.
\<close>

lemma unknown_category_final:
  "category \<notin> set (BUSY_CATEGORIES @ [[], ''conversion_unavailable'', ''no_liquidity'', ''auth'',
      ''settlement_type_unavailable'', ''invalid_request'', ''amount_too_large'', ''amount_too_small'',
      ''route_unsupported'', ''unknown'']) \<Longrightarrow>
   classify_failure e (Some category) = \<lparr>f_detail = FDeclined (message_of e), f_retryable = False\<rparr>"
  by (simp add: classify_failure_def by_category_def failure_with_def retryable_of_def)

lemma plain_503_retryable:
  "code_of e = Some 503 \<Longrightarrow> f_retryable (classify_failure e None)"
  using structured_503_shape [of "message_of e"]
  by (cases "structured_503 (message_of e)") (auto simp: classify_failure_def Let_def retryable_of_def)

text \<open>
  The switch to a public settlement is offered only for a failed trade that was not public, and never
  when its message says not to resubmit: such an order may have moved its funds. A served category
  speaks for the message, so the claim is about a quote that has none or one the Worker could not name.
\<close>

lemma no_switch_in_doubt:
  assumes "settlement_fallback settlement status error category = Some fallback"
    and "or_else category [] \<in> {[], ''unknown''}"
  shows "settlement \<noteq> Public \<and> status = Failed
    \<and> (\<exists>e. error = Some e \<and> \<not> says_do_not_resubmit (to_lower (message_of e)))"
proof -
  from assms(1) obtain e where e: "settlement \<noteq> Public" "status = Failed" "error = Some e"
      and k: "f_detail (classify_failure (ErrText (message_of e)) category) \<notin> {FInDoubt, FAuth}"
    by (auto simp: settlement_fallback_def split: option.splits if_splits failure_detail.splits)
  have "by_message (message_of e) \<in> {FInDoubt, FAuth}" if "says_do_not_resubmit (to_lower (message_of e))"
    using that by (simp add: by_message_def Let_def)
  then have "\<not> says_do_not_resubmit (to_lower (message_of e))"
    using k assms(2)
    by (auto simp: classify_failure_def by_category_def BUSY_CATEGORIES_def message_of_def code_of_def)
  with e show ?thesis by blast
qed

text \<open>
  The sentence naming the cap is what the Worker served before its advice to try less, with or without
  the full stop.
\<close>

lemma limit_is_the_cap_sentence:
  "advice \<in> {'' Try a smaller amount.'', '' Try a smaller amount'', '' try a smaller amount.'', '' try a smaller amount''}
    \<Longrightarrow> limit_of (cap @ advice) = trim cap"
  by (elim insertE emptyE) (simp_all only: limit_of_def strip_cap_advice trim_trim_end)

lemma wallet_witness: "\<not> says (to_lower ''User rejected the request'') [''liquidity'', ''no route'']"
  using wallet_never_blamed [of "ErrText ''User rejected the request''" None]
  by (simp add: message_of_def classify_failure_def code_of_def by_message_def Let_def says_def starts_with_def
      to_lower_def lower_char_def code_def resubmit_here_def)

lemma in_doubt_witness:
  "classify_failure (ErrText ''Authorization failed mid-pull: do not resubmit'') None = failure_with FAuth"
  using in_doubt_unless_auth [of "ErrText ''Authorization failed mid-pull: do not resubmit''"]
  by (simp add: message_of_def code_of_def says_def AUTH_PHRASES_def starts_with_def trim_start_def is_space_def
      to_lower_def lower_char_def code_def resubmit_here_def char_of_def bit_0)

lemma unknown_category_witness:
  "classify_failure (ErrText ''Maker offline'') (Some ''constructor'') = \<lparr>f_detail = FDeclined ''Maker offline'', f_retryable = False\<rparr>"
  using unknown_category_final [of "''constructor''" "ErrText ''Maker offline''"]
  by (simp add: BUSY_CATEGORIES_def message_of_def)

lemma no_switch_witness: "\<not> says_do_not_resubmit (to_lower ''unsupported pair'')"
  using no_switch_in_doubt [of Shielded Failed "Some (ErrText ''unsupported pair'')" None FallbackRoute]
  by (simp add: settlement_fallback_def message_of_def classify_failure_def code_of_def by_message_def Let_def says_def
      starts_with_def to_lower_def lower_char_def code_def resubmit_here_def pair_decline_def PAIR_DECLINE_MARKER_def)

lemma limit_witness: "limit_of ''The cap is 500 USDC. Try a smaller amount.'' = trim ''The cap is 500 USDC.''"
  using limit_is_the_cap_sentence [of "'' Try a smaller amount.''" "''The cap is 500 USDC.''"] by simp

end
