(* ===== verification/Effects.thy ===== *)
theory Effects
  imports Prelude
begin

text \<open>
  An \<open>async\<close> method over shared state: a function from the state to a result or a thrown error, and the
  state it leaves. \<open>io_bind\<close> is \<open>await\<close> followed by the rest, \<open>io_catch\<close> is \<open>try\<close> with its \<open>catch\<close>. A method
  runs from its call to its return; what other callers interleave is in the state of the world it
  asks, which may answer anything.

  \<open>wp m Q E s\<close> is the weakest precondition: \<open>m\<close> run in \<open>s\<close> returns into \<open>Q\<close> or throws into \<open>E\<close>. \<open>leaves R m\<close>
  says that every run of \<open>m\<close>, returning or throwing, relates the state before to the state after.
\<close>

type_synonym ('s, 'e, 'a) io = "'s \<Rightarrow> ('e + 'a) \<times> 's"

definition io_return :: "'a \<Rightarrow> ('s, 'e, 'a) io" where
  "io_return a s = (Inr a, s)"

definition io_throw :: "'e \<Rightarrow> ('s, 'e, 'a) io" where
  "io_throw e s = (Inl e, s)"

definition io_bind :: "('s, 'e, 'a) io \<Rightarrow> ('a \<Rightarrow> ('s, 'e, 'b) io) \<Rightarrow> ('s, 'e, 'b) io" where
  "io_bind m f s = (case m s of (Inl e, t) \<Rightarrow> (Inl e, t) | (Inr a, t) \<Rightarrow> f a t)"

definition io_catch :: "('s, 'e, 'a) io \<Rightarrow> ('e \<Rightarrow> ('s, 'e, 'a) io) \<Rightarrow> ('s, 'e, 'a) io" where
  "io_catch m h s = (case m s of (Inl e, t) \<Rightarrow> h e t | (Inr a, t) \<Rightarrow> (Inr a, t))"

definition io_read :: "('s \<Rightarrow> 'a) \<Rightarrow> ('s, 'e, 'a) io" where
  "io_read f s = (Inr (f s), s)"

definition io_update :: "('s \<Rightarrow> 's) \<Rightarrow> ('s, 'e, unit) io" where
  "io_update f s = (Inr (), f s)"

fun io_each :: "('a \<Rightarrow> ('s, 'e, unit) io) \<Rightarrow> 'a list \<Rightarrow> ('s, 'e, unit) io" where
  "io_each f [] = io_return ()"
| "io_each f (x # xs) = io_bind (f x) (\<lambda>_. io_each f xs)"

section \<open>Weakest preconditions\<close>

definition wp :: "('s, 'e, 'a) io \<Rightarrow> ('a \<Rightarrow> 's \<Rightarrow> bool) \<Rightarrow> ('e \<Rightarrow> 's \<Rightarrow> bool) \<Rightarrow> 's \<Rightarrow> bool" where
  "wp m Q E s = (case m s of (Inl e, t) \<Rightarrow> E e t | (Inr a, t) \<Rightarrow> Q a t)"

lemma wp_simps [simp]:
  "wp (io_return a) Q E = Q a"
  "wp (io_throw e) Q1 E = E e"
  "wp (io_bind m f) Q1 E = wp m (\<lambda>a. wp (f a) Q1 E) E"
  "wp (io_catch n h) Q E1 = wp n Q (\<lambda>e. wp (h e) Q E1)"
  "wp (io_read r) Q2 E = (\<lambda>s. Q2 (r s) s)"
  "wp (io_update u) Q3 E = (\<lambda>s. Q3 () (u s))"
  by (auto simp: fun_eq_iff wp_def io_return_def io_throw_def io_bind_def io_catch_def io_read_def io_update_def
      split: prod.split sum.split)

lemma wp_mono:
  assumes "wp m Q E s" "\<And>a t. Q a t \<Longrightarrow> Q' a t" "\<And>e t. E e t \<Longrightarrow> E' e t"
  shows "wp m Q' E' s"
  using assms by (auto simp: wp_def split: prod.splits sum.splits)

lemma wp_conj: "wp m Q E s \<Longrightarrow> wp m Q' E' s \<Longrightarrow> wp m (\<lambda>a t. Q a t \<and> Q' a t) (\<lambda>e t. E e t \<and> E' e t) s"
  by (auto simp: wp_def split: prod.splits sum.splits)

lemma wp_run: "wp m Q E s \<Longrightarrow> m s = (Inr a, t) \<Longrightarrow> Q a t"
  by (simp add: wp_def)

lemma wp_run_error: "wp m Q E s \<Longrightarrow> m s = (Inl e, t) \<Longrightarrow> E e t"
  by (simp add: wp_def)

lemma wpI: "(\<And>a t. m s = (Inr a, t) \<Longrightarrow> Q a t) \<Longrightarrow> (\<And>e t. m s = (Inl e, t) \<Longrightarrow> E e t) \<Longrightarrow> wp m Q E s"
  by (auto simp: wp_def split: prod.splits sum.splits)

section \<open>What a run leaves\<close>

definition leaves :: "('s \<Rightarrow> 's \<Rightarrow> bool) \<Rightarrow> ('s, 'e, 'a) io \<Rightarrow> bool" where
  "leaves R m \<longleftrightarrow> (\<forall>s. wp m (\<lambda>_. R s) (\<lambda>_. R s) s)"

named_theorems leaves_rules

lemma leavesD: "leaves R m \<Longrightarrow> m s = (r, t) \<Longrightarrow> R s t"
  by (cases r) (auto simp: leaves_def wp_def split: prod.splits sum.splits)

lemma leaves_wp: "leaves R m \<Longrightarrow> wp m (\<lambda>_. R s) (\<lambda>_. R s) s"
  by (simp add: leaves_def)

locale run_relation =
  fixes R :: "'s \<Rightarrow> 's \<Rightarrow> bool"
  assumes refl: "R s s" and trans: "R s t \<Longrightarrow> R t u \<Longrightarrow> R s u"
begin

lemma return_leaves: "leaves R (io_return a)"
  by (simp add: leaves_def refl)

lemma throw_leaves: "leaves R (io_throw e)"
  by (simp add: leaves_def refl)

lemma read_leaves: "leaves R (io_read f)"
  by (simp add: leaves_def refl)

lemma update_leaves: "(\<And>s. R s (f s)) \<Longrightarrow> leaves R (io_update f)"
  by (simp add: leaves_def)

lemma bind_leaves:
  assumes "leaves R m" "\<And>a. leaves R (f a)"
  shows "leaves R (io_bind m f)"
  unfolding leaves_def wp_simps
proof
  fix s
  show "wp m (\<lambda>a. wp (f a) (\<lambda>_. R s) (\<lambda>_. R s)) (\<lambda>_. R s) s"
    using assms(1) [unfolded leaves_def, rule_format, of s]
    by (rule wp_mono) (auto intro: wp_mono [OF leaves_wp [OF assms(2)]] trans)
qed

lemma catch_leaves:
  assumes "leaves R m" "\<And>e. leaves R (h e)"
  shows "leaves R (io_catch m h)"
  unfolding leaves_def wp_simps
proof
  fix s
  show "wp m (\<lambda>_. R s) (\<lambda>e. wp (h e) (\<lambda>_. R s) (\<lambda>_. R s)) s"
    using assms(1) [unfolded leaves_def, rule_format, of s]
    by (rule wp_mono) (auto intro: wp_mono [OF leaves_wp [OF assms(2)]] trans)
qed

lemma each_leaves: "(\<And>x. leaves R (f x)) \<Longrightarrow> leaves R (io_each f xs)"
  by (induction xs) (auto intro: bind_leaves return_leaves)

lemmas all_leaves = return_leaves throw_leaves read_leaves update_leaves bind_leaves catch_leaves each_leaves

end

end
