(* ===== verification/TxSender.thy ===== *)
theory TxSender
  imports Effects JsBase
begin

text \<open>
  \<open>packages/solver-sdk/src/tx-sender.ts\<close>: the transaction sender of the escrow gateway. A send takes one
  nonce slot of the key; an outcome in doubt is followed by observation and the slot is only ever
  re-sent, re-signed at the same nonce, or freed with a self-transfer.

  The node, the signer, the clocks and the contract call are fields of \<open>tx_node\<close>, functions of a world of
  any type that they may change: they are ethers and the chain, and every answer or error is allowed.
  \<open>sn_sent\<close> records each transaction handed to \<open>broadcastTransaction\<close>, in order; it is observed, the code
  keeps no such list. Slots are objects the code mutates through two references, so they live in
  \<open>sn_slots\<close> and are passed by their index. Reasons and warnings are prose and left out. The queue runs
  the critical sections of one key one after the other, as this model runs its operations.
\<close>

section \<open>Transactions, answers and errors\<close>

record tx =
  tx_kind :: string
  tx_to :: string
  tx_value :: nat
  tx_data :: string
  tx_nonce :: nat
  tx_gasLimit :: nat
  tx_maxFee :: "nat option"
  tx_tip :: "nat option"
  tx_gasPrice :: "nat option"

record signing =
  sg_tx :: tx
  sg_hash :: string

record fee_data =
  fd_gasPrice :: "nat option"
  fd_maxFee :: "nat option"
  fd_tip :: "nat option"

record head_block =
  hd_number :: nat
  hd_timestamp :: nat
  hd_baseFee :: "nat option"

record tx_receipt =
  rc_status :: "nat option"
  rc_blockNumber :: nat

datatype tx_state = Mined | Pending

datatype tx_error = NodeError jsval | Refusal string

datatype tx_outcome =
    Confirmed string nat
  | Reverted string nat
  | NotSent string
  | InDoubt string "string list" "(string \<times> nat) option"
  | Cancelled string "string list" string string nat

type_synonym ('w, 'a) ask = "'w \<Rightarrow> (jsval + 'a) \<times> 'w"

record 'w tx_node =
  nd_chain_id :: "('w, nat) ask"
  nd_address :: "('w, string) ask"
  nd_static_call :: "string \<Rightarrow> ('w, unit) ask"
  nd_populate :: "string \<Rightarrow> nat \<Rightarrow> ('w, tx) ask"
  nd_sign :: "tx \<Rightarrow> ('w, string) ask"
  nd_broadcast :: "signing \<Rightarrow> ('w, unit) ask"
  nd_pending :: "string \<Rightarrow> ('w, nat) ask"
  nd_count_at :: "string \<Rightarrow> nat \<Rightarrow> ('w, nat) ask"
  nd_block_number :: "('w, nat) ask"
  nd_head :: "('w, head_block option) ask"
  nd_receipt :: "string \<Rightarrow> ('w, tx_receipt option) ask"
  nd_lookup :: "string \<Rightarrow> ('w, nat option option) ask"
  nd_fees :: "('w, fee_data) ask"
  nd_estimate :: "string \<Rightarrow> ('w, nat) ask"
  nd_now_sec :: "('w, nat) ask"
  nd_now :: "'w \<Rightarrow> num \<times> 'w"
  nd_pause :: "num \<Rightarrow> 'w \<Rightarrow> 'w"

section \<open>Reading an error\<close>

definition code_field :: "jsval \<Rightarrow> jsval" where
  "code_field err = val_get err ''code''"

definition node_message :: "jsval \<Rightarrow> string" where
  "node_message err =
     (case val_or (val_get (val_get err ''error'') ''message'') (val_get (val_get (val_get err ''info'') ''error'') ''message'') of
        VStr s \<Rightarrow> s | _ \<Rightarrow> [])"

definition DEFINITE_REJECTIONS :: "string list" where
  "DEFINITE_REJECTIONS = [''INSUFFICIENT_FUNDS'', ''NONCE_EXPIRED'', ''REPLACEMENT_UNDERPRICED'']"

definition definitely_rejected :: "jsval \<Rightarrow> bool" where
  "definitely_rejected err \<longleftrightarrow>
     (case code_field err of VStr c \<Rightarrow> c \<in> set DEFINITE_REJECTIONS | _ \<Rightarrow> False)
     \<or> includes_str (to_lower (node_message err)) ''intrinsic gas too low''"

definition already_held :: "string \<Rightarrow> bool" where
  "already_held text = list_ex (includes_str (to_lower text)) [''already known'', ''known transaction'', ''alreadyknown'']"

definition describe_revert :: "jsval \<Rightarrow> string" where
  "describe_revert err = (let revert = val_get err ''revert'' in
     if truthy revert
     then js_string (val_get revert ''name'') @ ''('' @ join '', ''
       (case val_get revert ''args'' of VArr args \<Rightarrow> map js_string args | _ \<Rightarrow> []) @ '')''
     else js_string (val_or (val_get err ''shortMessage'') (val_or (val_get err ''message'') (VStr (js_string err)))))"

section \<open>Fees\<close>

definition bump_fee :: "nat \<Rightarrow> nat \<Rightarrow> nat" where
  "bump_fee paid least = (let raised = (paid * 9 + 7) div 8; at_least = (if raised > paid then raised else paid + 1) in
     if at_least > least then at_least else least)"

definition REPLACEMENT_FEE_CAP_MULTIPLE :: nat where
  "REPLACEMENT_FEE_CAP_MULTIPLE = 4"

definition below_inclusion :: "tx \<Rightarrow> nat option \<Rightarrow> fee_data \<Rightarrow> bool" where
  "below_inclusion r base_fee fees = (case tx_maxFee r of
     Some max_fee \<Rightarrow> (let tip = or_else (tx_tip r) 0 in
       (case base_fee of Some b \<Rightarrow> max_fee < b + tip | None \<Rightarrow> False)
       \<or> (case fd_tip fees of Some t \<Rightarrow> tip < t | None \<Rightarrow> False))
   | None \<Rightarrow> (case fd_gasPrice fees of Some g \<Rightarrow> or_else (tx_gasPrice r) 0 < g | None \<Rightarrow> False))"

definition offered_fee :: "tx \<Rightarrow> nat" where
  "offered_fee r = or_else (if tx_maxFee r \<noteq> None then tx_maxFee r else tx_gasPrice r) 0"

text \<open>The fees a same-nonce transaction offers over \<open>r\<close> and the market.\<close>

definition outbid :: "tx \<Rightarrow> fee_data \<Rightarrow> tx \<Rightarrow> tx" where
  "outbid r fees t = (if tx_maxFee r \<noteq> None
     then (let fee = bump_fee (offered_fee r) (or_else (fd_maxFee fees) 0);
             tip = bump_fee (or_else (tx_tip r) 0) (or_else (fd_tip fees) 0)
           in t\<lparr>tx_maxFee := Some fee, tx_tip := Some (if tip < fee then tip else fee)\<rparr>)
     else t\<lparr>tx_gasPrice := Some (bump_fee (offered_fee r) (or_else (fd_gasPrice fees) 0))\<rparr>)"

section \<open>The sender\<close>

record slot =
  sl_key :: string
  sl_signer :: nat
  sl_request :: tx
  sl_raw :: signing
  sl_hashes :: "string list"
  sl_from :: string
  sl_nonce :: nat
  sl_originalFee :: nat
  sl_passes :: nat
  sl_landBy :: "nat option"
  sl_cancel :: "signing option"
  sl_released :: bool

record nonce_record =
  nr_nonce :: nat
  nr_signing :: signing
  nr_landBy :: "nat option"
  nr_expiresAtMs :: num

record tx_options =
  op_receiptTimeoutMs :: num
  op_receiptPollMs :: num
  op_afterBlocks :: "nat option"
  op_afterPasses :: "nat option"
  op_withinSec :: "nat option"

record 'w sender =
  sn_world :: 'w
  sn_slots :: "slot list"
  sn_inDoubt :: "(string \<times> nat) list"
  sn_lastNonce :: "string \<Rightarrow> nonce_record option"
  sn_sent :: "signing list"

type_synonym ('w, 'a) run = "('w sender, tx_error, 'a) io"

definition ask :: "('w, 'a) ask \<Rightarrow> ('w, 'a) run" where
  "ask f s = (case f (sn_world s) of
     (Inl err, w) \<Rightarrow> (Inl (NodeError err), s\<lparr>sn_world := w\<rparr>)
   | (Inr a, w) \<Rightarrow> (Inr a, s\<lparr>sn_world := w\<rparr>))"

definition ask_now :: "'w tx_node \<Rightarrow> ('w, num) run" where
  "ask_now nd s = (case nd_now nd (sn_world s) of (t, w) \<Rightarrow> (Inr t, s\<lparr>sn_world := w\<rparr>))"

definition pause :: "'w tx_node \<Rightarrow> num \<Rightarrow> ('w, unit) run" where
  "pause nd ms = io_update (\<lambda>s. s\<lparr>sn_world := nd_pause nd ms (sn_world s)\<rparr>)"

definition broadcast :: "'w tx_node \<Rightarrow> signing \<Rightarrow> ('w, unit) run" where
  "broadcast nd x = io_bind (io_update (\<lambda>s. s\<lparr>sn_sent := sn_sent s @ [x]\<rparr>)) (\<lambda>_. ask (nd_broadcast nd x))"

definition sign_tx :: "'w tx_node \<Rightarrow> tx \<Rightarrow> ('w, signing) run" where
  "sign_tx nd t = io_bind (ask (nd_sign nd t)) (\<lambda>h. io_return \<lparr>sg_tx = t, sg_hash = h\<rparr>)"

definition the_slot :: "nat \<Rightarrow> ('w, slot) run" where
  "the_slot i = io_read (\<lambda>s. sn_slots s ! i)"

definition change_slot :: "nat \<Rightarrow> (slot \<Rightarrow> slot) \<Rightarrow> ('w, unit) run" where
  "change_slot i f = io_update (\<lambda>s. s\<lparr>sn_slots := (sn_slots s)[i := f (sn_slots s ! i)]\<rparr>)"

text \<open>A \<open>try\<close> whose handler reads the node's error.\<close>

definition error_value :: "tx_error \<Rightarrow> jsval" where
  "error_value e = (case e of NodeError v \<Rightarrow> v | Refusal text \<Rightarrow> VObj [(''message'', VStr text)])"

definition attempt :: "('w, 'a) run \<Rightarrow> ('w, jsval + 'a) run" where
  "attempt m = io_catch (io_bind m (\<lambda>a. io_return (Inr a))) (\<lambda>e. io_return (Inl (error_value e)))"

section \<open>Receipts and lookups\<close>

definition receipt_outcome :: "string \<Rightarrow> tx_receipt \<Rightarrow> tx_outcome" where
  "receipt_outcome h r = (if rc_status r = Some 1 then Confirmed h (rc_blockNumber r) else Reverted h (rc_blockNumber r))"

fun receipt_among :: "'w tx_node \<Rightarrow> string list \<Rightarrow> ('w, tx_outcome option) run" where
  "receipt_among nd [] = io_return None"
| "receipt_among nd (h # hs) = io_bind (ask (nd_receipt nd h)) (\<lambda>r. case r of
     Some receipt \<Rightarrow> io_return (Some (receipt_outcome h receipt))
   | None \<Rightarrow> receipt_among nd hs)"

definition tx_state_of :: "'w tx_node \<Rightarrow> string \<Rightarrow> ('w, tx_state option) run" where
  "tx_state_of nd h = io_bind (ask (nd_lookup nd h)) (\<lambda>t. io_return (case t of
     None \<Rightarrow> None | Some (Some _) \<Rightarrow> Some Mined | Some None \<Rightarrow> Some Pending))"

definition record_broadcast :: "'w tx_node \<Rightarrow> tx_options \<Rightarrow> string \<Rightarrow> nat \<Rightarrow> signing \<Rightarrow> nat option \<Rightarrow> ('w, unit) run" where
  "record_broadcast nd opts key nonce x land_by = io_bind (io_read (\<lambda>s. sn_lastNonce s key)) (\<lambda>prior.
     if (case prior of Some p \<Rightarrow> nr_nonce p > nonce | None \<Rightarrow> False) then io_return ()
     else io_bind (case prior of
         Some p \<Rightarrow> io_return (nr_expiresAtMs p)
       | None \<Rightarrow> io_bind (ask_now nd) (\<lambda>now. io_return (now + op_receiptTimeoutMs opts))) (\<lambda>expires.
       io_update (\<lambda>s. s\<lparr>sn_lastNonce := (sn_lastNonce s)(key \<mapsto>
         \<lparr>nr_nonce = nonce, nr_signing = x, nr_landBy = land_by, nr_expiresAtMs = expires\<rparr>)\<rparr>)))"

section \<open>Keeping a slot moving\<close>

definition rebroadcast :: "(nat \<Rightarrow> 'w tx_node) \<Rightarrow> tx_options \<Rightarrow> nat \<Rightarrow> ('w, unit) run" where
  "rebroadcast N opts i = io_bind (the_slot i) (\<lambda>sl. io_bind (attempt (broadcast (N (sl_signer sl)) (sl_raw sl))) (\<lambda>r.
     case r of
       Inl _ \<Rightarrow> io_return ()
     | Inr _ \<Rightarrow> record_broadcast (N (sl_signer sl)) opts (sl_key sl) (sl_nonce sl) (sl_raw sl) (sl_landBy sl)))"

definition adopt :: "signing \<Rightarrow> slot \<Rightarrow> slot" where
  "adopt x sl = sl\<lparr>sl_request := sg_tx x, sl_raw := x, sl_hashes := sl_hashes sl @ [sg_hash x], sl_passes := 0\<rparr>"

text \<open>
  The market fee of the kind the request pays, and the cap on what a replacement may offer.
\<close>

definition market_fee :: "tx \<Rightarrow> fee_data \<Rightarrow> nat" where
  "market_fee r fees = or_else (if tx_maxFee r \<noteq> None then fd_maxFee fees else fd_gasPrice fees) 0"

definition fee_cap :: "slot \<Rightarrow> fee_data \<Rightarrow> nat" where
  "fee_cap sl fees = (let market = market_fee (sl_request sl) fees in
     REPLACEMENT_FEE_CAP_MULTIPLE * (if sl_originalFee sl > market then sl_originalFee sl else market))"

definition replace_at_same_nonce :: "(nat \<Rightarrow> 'w tx_node) \<Rightarrow> tx_options \<Rightarrow> nat \<Rightarrow> fee_data option \<Rightarrow> ('w, bool) run" where
  "replace_at_same_nonce N opts i given = io_bind (the_slot i) (\<lambda>sl. let nd = N (sl_signer sl); r = sl_request sl in
     io_bind (case given of Some fees \<Rightarrow> io_return fees | None \<Rightarrow> ask (nd_fees nd)) (\<lambda>fees.
       if bump_fee (offered_fee r) (market_fee r fees) > fee_cap sl fees then io_return False
       else io_bind (sign_tx nd (outbid r fees r)) (\<lambda>x. io_bind (attempt (broadcast nd x)) (\<lambda>sent. case sent of
           Inl err \<Rightarrow> if definitely_rejected err then io_return False
             else io_bind (change_slot i (adopt x)) (\<lambda>_. io_return True)
         | Inr _ \<Rightarrow> io_bind (change_slot i (adopt x)) (\<lambda>_.
             io_bind (record_broadcast nd opts (sl_key sl) (sl_nonce sl) x (sl_landBy sl)) (\<lambda>_. io_return True))))))"

section \<open>Freeing a dead slot\<close>

definition self_transfer :: "slot \<Rightarrow> nat \<Rightarrow> tx" where
  "self_transfer sl gas = \<lparr>tx_kind = tx_kind (sl_request sl), tx_to = sl_from sl, tx_value = 0, tx_data = ''0x'',
     tx_nonce = sl_nonce sl, tx_gasLimit = gas, tx_maxFee = None, tx_tip = None, tx_gasPrice = None\<rparr>"

definition transfer_gas :: "nat \<Rightarrow> nat" where
  "transfer_gas estimate = (let padded = estimate + estimate div 5 in if padded > 21000 then padded else 21000)"

text \<open>The self-transfer of a slot, signed on the first call and kept.\<close>

definition cancel_signing :: "'w tx_node \<Rightarrow> nat \<Rightarrow> ('w, signing) run" where
  "cancel_signing nd i = io_bind (the_slot i) (\<lambda>sl. case sl_cancel sl of
     Some x \<Rightarrow> io_return x
   | None \<Rightarrow> io_bind (ask (nd_fees nd)) (\<lambda>fees. io_bind (ask (nd_estimate nd (sl_from sl))) (\<lambda>estimate.
       io_bind (sign_tx nd (outbid (sl_request sl) fees (self_transfer sl (transfer_gas estimate)))) (\<lambda>x.
       io_bind (change_slot i (\<lambda>sl. sl\<lparr>sl_cancel := Some x\<rparr>)) (\<lambda>_. io_return x)))))"

definition release_slot :: "(nat \<Rightarrow> 'w tx_node) \<Rightarrow> tx_options \<Rightarrow> nat \<Rightarrow> ('w, string option) run" where
  "release_slot N opts i = io_bind (the_slot i) (\<lambda>sl. let nd = N (sl_signer sl) in
     io_bind (attempt (cancel_signing nd i)) (\<lambda>signed. case signed of
       Inl _ \<Rightarrow> io_return None
     | Inr x \<Rightarrow> io_bind (attempt (broadcast nd x)) (\<lambda>sent. case sent of
         Inr _ \<Rightarrow> io_bind (record_broadcast nd opts (sl_key sl) (sl_nonce sl) x None) (\<lambda>_. io_return (Some (sg_hash x)))
       | Inl err \<Rightarrow>
         if code_field err = VStr ''NONCE_EXPIRED''
         then io_bind (change_slot i (\<lambda>sl. sl\<lparr>sl_released := True\<rparr>)) (\<lambda>_. io_return None)
         else if definitely_rejected err
         then io_bind (change_slot i (\<lambda>sl. sl\<lparr>sl_cancel := None\<rparr>)) (\<lambda>_. io_return None)
         else io_bind (attempt (tx_state_of nd (sg_hash x))) (\<lambda>held. case held of
             Inr (Some _) \<Rightarrow> io_bind (record_broadcast nd opts (sl_key sl) (sl_nonce sl) x None) (\<lambda>_.
               io_return (Some (sg_hash x)))
           | _ \<Rightarrow> io_return None))))"

definition release_dead_slots :: "(nat \<Rightarrow> 'w tx_node) \<Rightarrow> tx_options \<Rightarrow> nat \<Rightarrow> string \<Rightarrow> ('w, unit) run" where
  "release_dead_slots N opts g key = io_bind
     (io_read (\<lambda>s. filter (\<lambda>i. sl_key (sn_slots s ! i) = key \<and> sl_landBy (sn_slots s ! i) \<noteq> None
        \<and> \<not> sl_released (sn_slots s ! i)) (map snd (sn_inDoubt s)))) (\<lambda>slots.
     if slots = [] then io_return ()
     else io_bind (ask (nd_now_sec (N g))) (\<lambda>now. io_each (\<lambda>i. io_bind (the_slot i) (\<lambda>sl.
       if now < or_else (sl_landBy sl) 0 then io_return ()
       else io_bind (release_slot N opts i) (\<lambda>_. io_return ()))) slots))"

section \<open>The nonce of the next send\<close>

definition forget_nonce :: "string \<Rightarrow> ('w, unit) run" where
  "forget_nonce key = io_update (\<lambda>s. s\<lparr>sn_lastNonce := (sn_lastNonce s)(key := None)\<rparr>)"

definition past_land_by :: "'w tx_node \<Rightarrow> nonce_record \<Rightarrow> ('w, bool) run" where
  "past_land_by nd l = io_bind (ask_now nd) (\<lambda>now.
     if now > nr_expiresAtMs l then io_return True
     else (case nr_landBy l of
         None \<Rightarrow> io_return False
       | Some t \<Rightarrow> io_bind (ask (nd_now_sec nd)) (\<lambda>sec. io_return (sec \<ge> t))))"

text \<open>Whether a record the node's lookup does not show still occupies its nonce: re-broadcast once.\<close>

definition record_still_held :: "'w tx_node \<Rightarrow> nonce_record \<Rightarrow> ('w, bool) run" where
  "record_still_held nd l = io_bind (attempt (broadcast nd (nr_signing l))) (\<lambda>sent. case sent of
     Inr _ \<Rightarrow> io_return True
   | Inl err \<Rightarrow>
     if code_field err = VStr ''NONCE_EXPIRED'' \<or> code_field err = VStr ''REPLACEMENT_UNDERPRICED''
       \<or> already_held (node_message err) then io_return True
     else if definitely_rejected err then io_return False
     else io_bind (tx_state_of nd (sg_hash (nr_signing l))) (\<lambda>st. io_return (st \<noteq> None)))"

definition assign_nonce :: "'w tx_node \<Rightarrow> string \<Rightarrow> string \<Rightarrow> ('w, nat) run" where
  "assign_nonce nd key from = io_bind (ask (nd_pending nd from)) (\<lambda>pending.
     io_bind (io_read (\<lambda>s. sn_lastNonce s key)) (\<lambda>last. case last of
       None \<Rightarrow> io_bind (forget_nonce key) (\<lambda>_. io_return pending)
     | Some l \<Rightarrow>
       if pending > nr_nonce l then io_bind (forget_nonce key) (\<lambda>_. io_return pending)
       else io_bind (tx_state_of nd (sg_hash (nr_signing l))) (\<lambda>held.
         if held = Some Mined then io_return (nr_nonce l + 1)
         else io_bind (past_land_by nd l) (\<lambda>expired.
           io_bind (if expired then io_return False
             else if held = Some Pending then io_return True
             else record_still_held nd l) (\<lambda>keep.
             if keep then io_return (nr_nonce l + 1)
             else io_bind (forget_nonce key) (\<lambda>_. io_return pending))))))"

section \<open>Following a slot\<close>

definition resolve_slot :: "'w tx_node \<Rightarrow> string list \<Rightarrow> (string \<times> nat) option \<Rightarrow> (nat \<Rightarrow> ('w, bool) ask) option \<Rightarrow> ('w, tx_outcome) run" where
  "resolve_slot nd hashes at_slot effect = io_bind
     (case at_slot of
        None \<Rightarrow> io_return None
      | Some (from, nonce) \<Rightarrow> io_bind (ask (nd_block_number nd)) (\<lambda>b.
          io_bind (ask (nd_count_at nd from b)) (\<lambda>n. io_return (if n > nonce then Some b else None)))) (\<lambda>consumed_by.
     io_bind (receipt_among nd hashes) (\<lambda>landed. case landed of
       Some out \<Rightarrow> io_return out
     | None \<Rightarrow> (case (consumed_by, effect) of
         (None, _) \<Rightarrow> io_return (InDoubt (last hashes) hashes at_slot)
       | (Some b, None) \<Rightarrow> io_return (InDoubt (last hashes) hashes at_slot)
       | (Some b, Some eff) \<Rightarrow> io_bind (ask (eff b)) (\<lambda>present.
           if present then io_return (InDoubt (last hashes) hashes at_slot)
           else io_bind (receipt_among nd hashes) (\<lambda>again. case again of
               Some out \<Rightarrow> io_return out
             | None \<Rightarrow> io_return (NotSent (last hashes)))))))"

definition followed :: "slot \<Rightarrow> tx_outcome" where
  "followed sl = InDoubt (last (sl_hashes sl)) (sl_hashes sl) (Some (sl_from sl, sl_nonce sl))"

text \<open>
  Between two looks at the receipts: re-sign after a block that left the slot out, re-broadcast what the
  node does not hold. The result is the number of blocks missed since the slot was last signed.
\<close>

definition keep_moving :: "(nat \<Rightarrow> 'w tx_node) \<Rightarrow> tx_options \<Rightarrow> nat \<Rightarrow> bool \<Rightarrow> nat option \<Rightarrow> nat \<Rightarrow> ('w, nat) run" where
  "keep_moving N opts i new_block base_fee missed = io_bind (the_slot i) (\<lambda>sl. let nd = N (sl_signer sl) in
     io_bind (if new_block then io_bind (ask (nd_fees nd)) (\<lambda>fees.
         if below_inclusion (sl_request sl) base_fee fees \<or> missed \<ge> or_else (op_afterBlocks opts) 3
         then replace_at_same_nonce N opts i (Some fees) else io_return False)
       else io_return False) (\<lambda>adopted.
     if adopted then io_return 0
     else io_bind (tx_state_of nd (last (sl_hashes sl))) (\<lambda>st.
       if st = None then io_bind (rebroadcast N opts i) (\<lambda>_. io_return missed) else io_return missed)))"

type_synonym watch = "nat option \<times> nat"

definition watch_block :: "head_block option \<Rightarrow> watch \<Rightarrow> watch \<times> bool \<times> nat option" where
  "watch_block head w = (case (head, w) of
     (None, _) \<Rightarrow> (w, False, None)
   | (Some h, (None, missed)) \<Rightarrow> ((Some (hd_number h), missed), False, None)
   | (Some h, (Some n, missed)) \<Rightarrow> (if hd_number h > n
       then ((Some (hd_number h), missed + (hd_number h - n)), True, hd_baseFee h)
       else ((Some n, missed), False, None)))"

text \<open>One pass of the wait for a receipt: the outcome, or the blocks seen so far.\<close>

definition await_pass :: "(nat \<Rightarrow> 'w tx_node) \<Rightarrow> tx_options \<Rightarrow> nat \<Rightarrow> num \<Rightarrow> watch \<Rightarrow> ('w, tx_outcome + watch) run" where
  "await_pass N opts i deadline w = io_bind (the_slot i) (\<lambda>sl. let nd = N (sl_signer sl) in
     io_bind (if sl_landBy sl = None then io_return None
       else io_catch (ask (nd_head nd)) (\<lambda>_. io_return None)) (\<lambda>head.
     io_bind (io_catch (receipt_among nd (sl_hashes sl)) (\<lambda>_. io_return None)) (\<lambda>landed. case landed of
       Some out \<Rightarrow> io_return (Inl out)
     | None \<Rightarrow>
       if (case (head, sl_landBy sl) of (Some h, Some t) \<Rightarrow> hd_timestamp h \<ge> t | _ \<Rightarrow> False)
       then io_bind (release_slot N opts i) (\<lambda>freed. io_return (Inl (case freed of
           Some c \<Rightarrow> Cancelled (last (sl_hashes sl)) (sl_hashes sl) c (sl_from sl) (sl_nonce sl)
         | None \<Rightarrow> followed sl)))
       else (case watch_block head w of ((seen, missed), new_block, base_fee) \<Rightarrow>
         io_bind (ask_now nd) (\<lambda>now.
           if now \<ge> deadline then io_return (Inl (followed sl))
           else io_bind (pause nd (op_receiptPollMs opts)) (\<lambda>_.
             io_bind (io_catch (keep_moving N opts i new_block base_fee missed) (\<lambda>_. io_return missed))
               (\<lambda>missed. io_return (Inr (seen, missed)))))))))"

text \<open>The loop, \<open>None\<close> while the fuel is spent and the outcome still open.\<close>

fun await_receipt :: "nat \<Rightarrow> (nat \<Rightarrow> 'w tx_node) \<Rightarrow> tx_options \<Rightarrow> nat \<Rightarrow> num \<Rightarrow> watch \<Rightarrow> ('w, tx_outcome option) run" where
  "await_receipt 0 N opts i deadline w = io_return None"
| "await_receipt (Suc k) N opts i deadline w = io_bind (await_pass N opts i deadline w) (\<lambda>r. case r of
     Inl out \<Rightarrow> io_return (Some out)
   | Inr w' \<Rightarrow> await_receipt k N opts i deadline w')"

section \<open>Sending\<close>

record 'w send_plan =
  pl_signer :: nat
  pl_call :: string
  pl_simulate :: "('w, unit) ask option"
  pl_recheck :: "('w, unit) ask option"
  pl_inDoubtKey :: "string option"
  pl_landBy :: "nat option"

definition send_key :: "nat \<Rightarrow> string \<Rightarrow> string" where
  "send_key chain address = show_nat chain @ '':'' @ to_lower address"

definition simulate :: "'w tx_node \<Rightarrow> 'w send_plan \<Rightarrow> ('w, unit) run" where
  "simulate nd plan = (case pl_simulate plan of
     Some f \<Rightarrow> ask f
   | None \<Rightarrow> io_catch (ask (nd_static_call nd (pl_call plan))) (\<lambda>_. io_throw (Refusal ''simulation_failed'')))"

text \<open>
  Inside the queue of the key: the checks, the dead slots, the nonce, the signature and the broadcast. The
  result is the slot and the error of the broadcast, if it failed.
\<close>

definition open_slot :: "(nat \<Rightarrow> 'w tx_node) \<Rightarrow> tx_options \<Rightarrow> 'w send_plan \<Rightarrow> string \<Rightarrow> ('w, nat \<times> jsval option) run" where
  "open_slot N opts plan key = (let nd = N (pl_signer plan) in
     io_bind (case pl_recheck plan of Some f \<Rightarrow> ask f | None \<Rightarrow> io_return ()) (\<lambda>_.
     io_bind (simulate nd plan) (\<lambda>_.
     io_bind (release_dead_slots N opts (pl_signer plan) key) (\<lambda>_.
     io_bind (ask (nd_address nd)) (\<lambda>from.
     io_bind (assign_nonce nd key from) (\<lambda>nonce.
     io_bind (ask (nd_populate nd (pl_call plan) nonce)) (\<lambda>request.
     io_bind (sign_tx nd request) (\<lambda>x.
     io_bind (io_read (\<lambda>s. length (sn_slots s))) (\<lambda>i.
     io_bind (io_update (\<lambda>s. s\<lparr>sn_slots := sn_slots s @ [\<lparr>sl_key = key, sl_signer = pl_signer plan, sl_request = request,
        sl_raw = x, sl_hashes = [sg_hash x], sl_from = from, sl_nonce = nonce, sl_originalFee = offered_fee request,
        sl_passes = 0, sl_landBy = pl_landBy plan, sl_cancel = None, sl_released = False\<rparr>]\<rparr>)) (\<lambda>_.
     io_bind (attempt (broadcast nd x)) (\<lambda>sent. case sent of
       Inl err \<Rightarrow> io_return (i, Some err)
     | Inr _ \<Rightarrow> io_bind (record_broadcast nd opts key nonce x (pl_landBy plan)) (\<lambda>_. io_return (i, None)))))))))))))"

definition is_doubtful :: "tx_outcome \<Rightarrow> bool" where
  "is_doubtful out = (case out of InDoubt _ _ _ \<Rightarrow> True | Cancelled _ _ _ _ _ \<Rightarrow> True | _ \<Rightarrow> False)"

definition put_in_doubt :: "string \<Rightarrow> nat \<Rightarrow> ('w, unit) run" where
  "put_in_doubt key i = io_update (\<lambda>s. s\<lparr>sn_inDoubt := (if key \<in> fst ` set (sn_inDoubt s)
       then map (\<lambda>(k, j). (k, if k = key then i else j)) (sn_inDoubt s) else sn_inDoubt s @ [(key, i)])\<rparr>)"

definition send :: "nat \<Rightarrow> (nat \<Rightarrow> 'w tx_node) \<Rightarrow> tx_options \<Rightarrow> 'w send_plan \<Rightarrow> ('w, tx_outcome option) run" where
  "send fuel N opts plan = (let nd = N (pl_signer plan) in
     io_bind (ask (nd_chain_id nd)) (\<lambda>chain. io_bind (ask (nd_address nd)) (\<lambda>address.
     io_bind (open_slot N opts plan (send_key chain address)) (\<lambda>(i, err).
     if (case err of Some e \<Rightarrow> definitely_rejected e | None \<Rightarrow> False)
     then io_bind (the_slot i) (\<lambda>sl. io_return (Some (NotSent (hd (sl_hashes sl)))))
     else io_bind (ask_now nd) (\<lambda>now.
       io_bind (await_receipt fuel N opts i (now + op_receiptTimeoutMs opts) (None, 0)) (\<lambda>out. case out of
         None \<Rightarrow> io_return None
       | Some o1 \<Rightarrow> io_bind (case pl_inDoubtKey plan of
             Some key \<Rightarrow> if is_doubtful o1 then put_in_doubt key i else io_return ()
           | None \<Rightarrow> io_return ()) (\<lambda>_. io_return (Some o1))))))))"

section \<open>Before a second send\<close>

definition rescue :: "(nat \<Rightarrow> 'w tx_node) \<Rightarrow> tx_options \<Rightarrow> nat \<Rightarrow> nat \<Rightarrow> ('w, unit) run" where
  "rescue N opts i land_by = io_bind (the_slot i) (\<lambda>sl. io_bind (ask (nd_now_sec (N (sl_signer sl)))) (\<lambda>now.
     if now \<ge> land_by then io_bind (release_slot N opts i) (\<lambda>_. io_return ())
     else io_bind (change_slot i (\<lambda>sl. sl\<lparr>sl_passes := sl_passes sl + 1\<rparr>)) (\<lambda>_.
       io_bind (if sl_passes sl + 1 \<ge> or_else (op_afterPasses opts) 3 \<or> land_by - now \<le> or_else (op_withinSec opts) 300
         then replace_at_same_nonce N opts i None else io_return False) (\<lambda>adopted.
       if adopted then io_return () else rebroadcast N opts i))))"

definition forget_in_doubt :: "string \<Rightarrow> ('w, unit) run" where
  "forget_in_doubt key = io_update (\<lambda>s. s\<lparr>sn_inDoubt := filter (\<lambda>p. fst p \<noteq> key) (sn_inDoubt s)\<rparr>)"

definition guard_in_doubt :: "(nat \<Rightarrow> 'w tx_node) \<Rightarrow> tx_options \<Rightarrow> string \<Rightarrow> string \<Rightarrow> (nat option \<Rightarrow> ('w, bool) ask) \<Rightarrow> nat \<Rightarrow> ('w, unit) run" where
  "guard_in_doubt N opts key done_code is_done land_by = io_bind (io_read (\<lambda>s. map_of (sn_inDoubt s) key)) (\<lambda>prior. case prior of
     None \<Rightarrow> io_return ()
   | Some i \<Rightarrow> io_bind (the_slot i) (\<lambda>sl.
       io_bind (resolve_slot (N (sl_signer sl)) (sl_hashes sl) (Some (sl_from sl, sl_nonce sl)) (Some (\<lambda>b. is_done (Some b)))) (\<lambda>out.
       case out of
         Confirmed _ _ \<Rightarrow> io_bind (forget_in_doubt key) (\<lambda>_. io_throw (Refusal done_code))
       | InDoubt _ _ _ \<Rightarrow> io_bind (ask (is_done None)) (\<lambda>done.
           if done then io_bind (forget_in_doubt key) (\<lambda>_. io_throw (Refusal done_code))
           else io_bind (rescue N opts i land_by) (\<lambda>_. io_throw (Refusal ''in_doubt'')))
       | _ \<Rightarrow> forget_in_doubt key)))"

end
