(* ===== verification/TxSafety.thy ===== *)
theory TxSafety
  imports TxSender
begin

text \<open>
  What the sender hands to the network for one slot: transactions at the slot's own nonce, the same call
  re-priced or a self-transfer that frees the nonce. Every operation on a slot is shown to keep
  \<open>fine\<close>: the slot stays itself, and all it sent since the start belongs to it.
\<close>

section \<open>Slots\<close>

text \<open>What never changes in a slot.\<close>

record slot_identity =
  id_key :: string
  id_signer :: nat
  id_from :: string
  id_nonce :: nat
  id_landBy :: "nat option"
  id_call :: "string \<times> nat \<times> string"

definition call_of :: "tx \<Rightarrow> string \<times> nat \<times> string" where
  "call_of t = (tx_to t, tx_value t, tx_data t)"

definition identity :: "slot \<Rightarrow> slot_identity" where
  "identity sl = \<lparr>id_key = sl_key sl, id_signer = sl_signer sl, id_from = sl_from sl, id_nonce = sl_nonce sl,
     id_landBy = sl_landBy sl, id_call = call_of (sl_request sl)\<rparr>"

definition frees :: "slot_identity \<Rightarrow> tx \<Rightarrow> bool" where
  "frees d t \<longleftrightarrow> call_of t = (id_from d, 0, ''0x'')"

definition belongs :: "slot_identity \<Rightarrow> signing \<Rightarrow> bool" where
  "belongs d x \<longleftrightarrow> tx_nonce (sg_tx x) = id_nonce d \<and> (call_of (sg_tx x) = id_call d \<or> frees d (sg_tx x))"

definition slot_ok :: "slot \<Rightarrow> bool" where
  "slot_ok sl \<longleftrightarrow> tx_nonce (sl_request sl) = sl_nonce sl \<and> sg_tx (sl_raw sl) = sl_request sl
     \<and> sl_hashes sl \<noteq> [] \<and> last (sl_hashes sl) = sg_hash (sl_raw sl)
     \<and> (case sl_cancel sl of Some x \<Rightarrow> tx_nonce (sg_tx x) = sl_nonce sl \<and> frees (identity sl) (sg_tx x) | None \<Rightarrow> True)"

definition holds_slot :: "nat \<Rightarrow> slot_identity \<Rightarrow> 'w sender \<Rightarrow> bool" where
  "holds_slot i d s \<longleftrightarrow> i < length (sn_slots s) \<and> identity (sn_slots s ! i) = d \<and> slot_ok (sn_slots s ! i)"

text \<open>The transactions sent since \<open>s0\<close> satisfy \<open>P\<close>.\<close>

definition sends :: "(signing \<Rightarrow> bool) \<Rightarrow> 'w sender \<Rightarrow> 'w sender \<Rightarrow> bool" where
  "sends P s0 s \<longleftrightarrow> (\<exists>new. sn_sent s = sn_sent s0 @ new \<and> list_all P new)"

definition fine :: "nat \<Rightarrow> slot_identity \<Rightarrow> 'w sender \<Rightarrow> 'w sender \<Rightarrow> bool" where
  "fine i d s0 s \<longleftrightarrow> holds_slot i d s \<and> sends (belongs d) s0 s"

lemma sends_refl [simp]: "sends P s s"
  by (simp add: sends_def)

lemma sends_trans: "sends P s t \<Longrightarrow> sends P t u \<Longrightarrow> sends P s u"
  by (auto simp: sends_def)

lemma sends_mono: "sends P s t \<Longrightarrow> (\<And>x. P x \<Longrightarrow> Q x) \<Longrightarrow> sends Q s t"
  by (auto simp: sends_def list_all_iff)

lemma sends_more [simp]:
  "sends P s0 (s\<lparr>sn_world := w\<rparr>) = sends P s0 s"
  "sends P s0 (s\<lparr>sn_lastNonce := l\<rparr>) = sends P s0 s"
  "sends P s0 (s\<lparr>sn_inDoubt := k\<rparr>) = sends P s0 s"
  "sends P s0 (s\<lparr>sn_slots := sls\<rparr>) = sends P s0 s"
  by (simp_all add: sends_def)

lemma sends_one: "sends P s0 s \<Longrightarrow> P x \<Longrightarrow> sends P s0 (s\<lparr>sn_sent := sn_sent s @ [x]\<rparr>)"
  by (auto simp: sends_def)

lemma fine_more [simp]:
  "fine i d s0 (s\<lparr>sn_world := w\<rparr>) = fine i d s0 s"
  "fine i d s0 (s\<lparr>sn_lastNonce := l\<rparr>) = fine i d s0 s"
  "fine i d s0 (s\<lparr>sn_inDoubt := k\<rparr>) = fine i d s0 s"
  by (simp_all add: fine_def holds_slot_def)

lemma fine_slot: "fine i d s0 s \<Longrightarrow> identity (sn_slots s ! i) = d \<and> slot_ok (sn_slots s ! i)"
  by (simp add: fine_def holds_slot_def)

lemma fine_sent: "fine i d s0 s \<Longrightarrow> belongs d x \<Longrightarrow> fine i d s0 (s\<lparr>sn_sent := sn_sent s @ [x]\<rparr>)"
  by (simp add: fine_def holds_slot_def sends_one)

lemma fine_change:
  "fine i d s0 s \<Longrightarrow> (\<And>sl. identity sl = d \<Longrightarrow> slot_ok sl \<Longrightarrow> identity (f sl) = d \<and> slot_ok (f sl)) \<Longrightarrow>
   fine i d s0 (s\<lparr>sn_slots := (sn_slots s)[i := f (sn_slots s ! i)]\<rparr>)"
  by (simp add: fine_def holds_slot_def)

section \<open>Rules for the primitives\<close>

lemma wp_ask:
  "(\<And>a w. Q a (s\<lparr>sn_world := w\<rparr>)) \<Longrightarrow> (\<And>e w. E (NodeError e) (s\<lparr>sn_world := w\<rparr>)) \<Longrightarrow> wp (ask f) Q E s"
  by (simp add: wp_def ask_def split: prod.split sum.split)

lemma wp_ask_now: "(\<And>a w. Q a (s\<lparr>sn_world := w\<rparr>)) \<Longrightarrow> wp (ask_now nd) Q E s"
  by (simp add: wp_def ask_now_def split: prod.split)

lemma wp_pause: "(\<And>w. Q () (s\<lparr>sn_world := w\<rparr>)) \<Longrightarrow> wp (pause nd ms) Q E s"
  by (simp add: pause_def)

lemma wp_attempt [simp]:
  "wp (attempt m) Q E = wp m (\<lambda>a. Q (Inr a)) (\<lambda>e. Q (Inl (error_value e)))"
  by (simp add: attempt_def)

lemma wp_the_slot [simp]: "wp (the_slot i) Q E = (\<lambda>s. Q (sn_slots s ! i) s)"
  by (simp add: the_slot_def)

lemma wp_change_slot [simp]:
  "wp (change_slot i f) Q E = (\<lambda>s. Q () (s\<lparr>sn_slots := (sn_slots s)[i := f (sn_slots s ! i)]\<rparr>))"
  by (simp add: change_slot_def)

lemma wp_broadcast:
  assumes "\<And>w. Q () (s\<lparr>sn_sent := sn_sent s @ [x], sn_world := w\<rparr>)"
    and "\<And>e w. E (NodeError e) (s\<lparr>sn_sent := sn_sent s @ [x], sn_world := w\<rparr>)"
  shows "wp (broadcast nd x) Q E s"
  unfolding broadcast_def using assms by (auto intro!: wp_ask)

lemma wp_sign:
  "(\<And>h w. Q \<lparr>sg_tx = t, sg_hash = h\<rparr> (s\<lparr>sn_world := w\<rparr>)) \<Longrightarrow> (\<And>e w. E (NodeError e) (s\<lparr>sn_world := w\<rparr>)) \<Longrightarrow>
   wp (sign_tx nd t) Q E s"
  unfolding sign_tx_def by (auto intro!: wp_ask)

lemma wp_record_broadcast:
  assumes "\<And>w l. Q () (s\<lparr>sn_world := w, sn_lastNonce := l\<rparr>)"
  shows "wp (record_broadcast nd opts key nonce x t) Q E s"
proof -
  have same: "s\<lparr>sn_world := sn_world s, sn_lastNonce := sn_lastNonce s\<rparr> = s" by simp
  have keep: "Q () s" using assms [where w = "sn_world s" and l = "sn_lastNonce s"] by (simp only: same)
  have put: "Q () (s\<lparr>sn_lastNonce := l\<rparr>)" for l
  proof -
    have "s\<lparr>sn_world := sn_world s, sn_lastNonce := l\<rparr> = s\<lparr>sn_lastNonce := l\<rparr>" by simp
    then show ?thesis using assms [where w = "sn_world s" and l = l] by (simp only:)
  qed
  show ?thesis
    unfolding record_broadcast_def
    by (auto simp: keep put assms split: option.split intro!: wp_ask_now)
qed

lemma wp_receipt_of:
  "(\<And>r w. Q r (s\<lparr>sn_world := w\<rparr>)) \<Longrightarrow> (\<And>e w. E e (s\<lparr>sn_world := w\<rparr>)) \<Longrightarrow> wp (receipt_among nd hs) Q E s"
proof (induction hs arbitrary: s)
  case Nil
  from Nil(1) [of None "sn_world s"] show ?case by simp
next
  case (Cons h hs)
  show ?case using Cons.prems by (auto split: option.split intro!: wp_ask Cons.IH)
qed

lemma wp_tx_state:
  "(\<And>r w. Q r (s\<lparr>sn_world := w\<rparr>)) \<Longrightarrow> (\<And>e w. E e (s\<lparr>sn_world := w\<rparr>)) \<Longrightarrow> wp (tx_state_of nd h) Q E s"
  unfolding tx_state_of_def by (auto intro!: wp_ask)

lemmas wp_calls = wp_ask wp_ask_now wp_pause wp_broadcast wp_sign wp_record_broadcast wp_tx_state

section \<open>Operations on one slot\<close>

lemma outbid_keeps [simp]: "tx_nonce (outbid r fees t) = tx_nonce t" "call_of (outbid r fees t) = call_of t"
  by (simp_all add: outbid_def call_of_def Let_def)

lemma self_transfer_frees [simp]:
  "tx_nonce (self_transfer sl g) = sl_nonce sl" "call_of (self_transfer sl g) = (sl_from sl, 0, ''0x'')"
  by (simp_all add: self_transfer_def call_of_def)

lemma identity_simps [simp]:
  "id_nonce (identity sl) = sl_nonce sl" "id_call (identity sl) = call_of (sl_request sl)"
  "id_from (identity sl) = sl_from sl" "id_key (identity sl) = sl_key sl" "id_signer (identity sl) = sl_signer sl"
  "id_landBy (identity sl) = sl_landBy sl"
  by (simp_all add: identity_def)

lemma latest_belongs: "slot_ok sl \<Longrightarrow> belongs (identity sl) (sl_raw sl)"
  by (simp add: slot_ok_def belongs_def)

lemma replacement_belongs: "slot_ok sl \<Longrightarrow> sg_tx x = outbid (sl_request sl) fees (sl_request sl) \<Longrightarrow> belongs (identity sl) x"
  by (simp add: slot_ok_def belongs_def)

lemma adopt_ok:
  "identity sl = d \<Longrightarrow> slot_ok sl \<Longrightarrow> tx_nonce (sg_tx x) = id_nonce d \<Longrightarrow> call_of (sg_tx x) = id_call d \<Longrightarrow>
   identity (adopt x sl) = d \<and> slot_ok (adopt x sl)"
  by (auto simp: adopt_def slot_ok_def identity_def frees_def split: option.splits)

text \<open>The changes a slot undergoes, in the form the rules of the primitives leave them.\<close>

lemma fine_released:
  "fine i d s0 s \<Longrightarrow> sls = sn_slots s \<Longrightarrow> fine i d s0 (s\<lparr>sn_slots := sls[i := (sls ! i)\<lparr>sl_released := b\<rparr>]\<rparr>)"
  by (simp, rule fine_change) (auto simp: slot_ok_def identity_def frees_def split: option.splits)

lemma fine_uncancelled:
  "fine i d s0 s \<Longrightarrow> sls = sn_slots s \<Longrightarrow> fine i d s0 (s\<lparr>sn_slots := sls[i := (sls ! i)\<lparr>sl_cancel := None\<rparr>]\<rparr>)"
  by (simp, rule fine_change) (auto simp: slot_ok_def identity_def frees_def)

lemma fine_passes:
  "fine i d s0 s \<Longrightarrow> sls = sn_slots s \<Longrightarrow> fine i d s0 (s\<lparr>sn_slots := sls[i := (sls ! i)\<lparr>sl_passes := n\<rparr>]\<rparr>)"
  by (simp, rule fine_change) (auto simp: slot_ok_def identity_def frees_def split: option.splits)

lemma fine_adopted:
  assumes "fine i d s0 s" "sls = sn_slots s" "tx_nonce (sg_tx x) = id_nonce d" "call_of (sg_tx x) = id_call d"
  shows "fine i d s0 (s\<lparr>sn_slots := sls[i := adopt x (sls ! i)]\<rparr>)"
  using assms by (simp, intro fine_change adopt_ok)

lemma rebroadcast_fine: "fine i d s0 s \<Longrightarrow> wp (rebroadcast N opts i) (\<lambda>_. fine i d s0) (\<lambda>_ _. False) s"
  using fine_slot [of i d s0 s]
  by (auto simp: rebroadcast_def fine_sent latest_belongs intro!: wp_broadcast wp_record_broadcast)

lemma replace_fine:
  assumes "fine i d s0 s"
  shows "wp (replace_at_same_nonce N opts i given) (\<lambda>_. fine i d s0) (\<lambda>_. fine i d s0) s"
proof -
  let ?sl = "sn_slots s ! i"
  have sl: "identity ?sl = d" "slot_ok ?sl" using fine_slot [OF assms] by auto
  have b: "belongs d \<lparr>sg_tx = outbid (sl_request ?sl) fees (sl_request ?sl), sg_hash = h\<rparr>" for fees h
    using replacement_belongs [OF sl(2), of "\<lparr>sg_tx = outbid (sl_request ?sl) fees (sl_request ?sl), sg_hash = h\<rparr>" fees] sl(1)
    by simp
  have req: "tx_nonce (sl_request ?sl) = id_nonce d" "call_of (sl_request ?sl) = id_call d"
    using sl by (auto simp: slot_ok_def)
  show ?thesis
    using assms
    by (auto simp: replace_at_same_nonce_def Let_def req intro!: wp_calls fine_adopted fine_sent b split: option.split)
qed

lemma cancel_signing_fine:
  assumes "fine i d s0 s"
  shows "wp (cancel_signing nd i) (\<lambda>x t. fine i d s0 t \<and> tx_nonce (sg_tx x) = id_nonce d \<and> frees d (sg_tx x))
    (\<lambda>_. fine i d s0) s"
proof -
  let ?sl = "sn_slots s ! i"
  have sl: "identity ?sl = d" "slot_ok ?sl" using fine_slot [OF assms] by auto
  then have same: "id_nonce d = sl_nonce ?sl" "id_from d = sl_from ?sl" by auto
  have held: "tx_nonce (sg_tx x) = id_nonce d \<and> frees d (sg_tx x)" if "sl_cancel ?sl = Some x" for x
    using that sl by (simp add: slot_ok_def same)
  have keep: "fine i d s0 (t\<lparr>sn_slots := (sn_slots t)[i := (sn_slots t ! i)\<lparr>sl_cancel := Some y\<rparr>]\<rparr>)"
    if "fine i d s0 t" "tx_nonce (sg_tx y) = id_nonce d" "frees d (sg_tx y)" for t y
    by (rule fine_change [OF that(1)]) (use that(2,3) in \<open>auto simp: slot_ok_def identity_def frees_def\<close>)
  show ?thesis
    unfolding cancel_signing_def wp_simps wp_the_slot
    using assms held
    by (auto simp: same frees_def intro!: wp_calls keep split: option.split)
qed

lemma release_fine:
  assumes "fine i d s0 s"
  shows "wp (release_slot N opts i) (\<lambda>_. fine i d s0) (\<lambda>_ _. False) s"
proof -
  have b: "belongs d x" if "tx_nonce (sg_tx x) = id_nonce d" "frees d (sg_tx x)" for x
    using that by (simp add: belongs_def)
  show ?thesis
    unfolding release_slot_def Let_def wp_simps wp_the_slot wp_attempt
    by (rule wp_mono [OF cancel_signing_fine [OF assms]])
      (auto intro!: wp_calls fine_sent fine_released fine_uncancelled b split: option.split)
qed

lemma keep_moving_fine:
  assumes "fine i d s0 s"
  shows "wp (keep_moving N opts i nb bf missed) (\<lambda>_. fine i d s0) (\<lambda>_. fine i d s0) s"
  unfolding keep_moving_def Let_def wp_simps wp_the_slot
  using assms
  by (auto intro!: wp_calls wp_mono [OF replace_fine] wp_mono [OF rebroadcast_fine])

text \<open>One pass of the wait, and the whole wait: what the outcome says is what was seen.\<close>

definition outcome_of :: "slot_identity \<Rightarrow> tx_outcome \<Rightarrow> bool" where
  "outcome_of d out \<longleftrightarrow> (case out of
     Confirmed _ _ \<Rightarrow> True | Reverted _ _ \<Rightarrow> True | NotSent _ \<Rightarrow> False
   | InDoubt _ _ at_slot \<Rightarrow> at_slot = Some (id_from d, id_nonce d)
   | Cancelled _ _ _ from nonce \<Rightarrow> from = id_from d \<and> nonce = id_nonce d)"

lemma receipt_of_outcome:
  assumes "fine i d s0 s"
  shows "wp (receipt_among nd hs) (\<lambda>r t. fine i d s0 t \<and> (case r of Some out \<Rightarrow> outcome_of d out \<and> \<not> is_doubtful out | None \<Rightarrow> True))
    (\<lambda>_. fine i d s0) s"
  using assms
proof (induction hs arbitrary: s)
  case (Cons h hs)
  then show ?case
    by (auto simp: receipt_outcome_def outcome_of_def is_doubtful_def split: option.split intro!: wp_ask)
qed simp

lemma await_pass_fine:
  assumes "fine i d s0 s"
  shows "wp (await_pass N opts i deadline w)
    (\<lambda>r t. fine i d s0 t \<and> (case r of Inl out \<Rightarrow> outcome_of d out | Inr _ \<Rightarrow> True)) (\<lambda>_ _. False) s"
proof -
  have sl: "sl_from (sn_slots s ! i) = id_from d" "sl_nonce (sn_slots s ! i) = id_nonce d"
    using fine_slot [OF assms] by auto
  have free: "wp (release_slot N opts i)
      (\<lambda>r t. fine i d s0 t \<and> outcome_of d (case r of Some c \<Rightarrow>
           Cancelled (last (sl_hashes (sn_slots s ! i))) (sl_hashes (sn_slots s ! i)) c (sl_from (sn_slots s ! i)) (sl_nonce (sn_slots s ! i))
         | None \<Rightarrow> followed (sn_slots s ! i))) (\<lambda>_ _. False) t" if "fine i d s0 t" for t
    by (rule wp_mono [OF release_fine [OF that]]) (auto simp: outcome_of_def followed_def sl split: option.split)
  have follow: "outcome_of d (followed (sn_slots s ! i))" by (simp add: outcome_of_def followed_def sl)
  show ?thesis
    unfolding await_pass_def Let_def wp_simps wp_the_slot
    using assms
    by (auto simp: follow intro!: wp_calls wp_mono [OF receipt_of_outcome [where d = d and ?s0.0 = s0]] wp_mono [OF free]
        wp_mono [OF keep_moving_fine [where d = d and ?s0.0 = s0]] split: option.split prod.split)
qed

lemma await_fine:
  assumes "fine i d s0 s"
  shows "wp (await_receipt k N opts i deadline w)
    (\<lambda>r t. fine i d s0 t \<and> (case r of Some out \<Rightarrow> outcome_of d out | None \<Rightarrow> True)) (\<lambda>_ _. False) s"
  using assms
proof (induction k arbitrary: w s)
  case (Suc k)
  show ?case
    unfolding await_receipt.simps wp_simps
    by (rule wp_mono [OF await_pass_fine [OF Suc.prems]])
      (auto intro: wp_mono [OF Suc.IH] split: sum.split sum.splits)
qed simp

lemma rescue_fine:
  assumes "fine i d s0 s"
  shows "wp (rescue N opts i land_by) (\<lambda>_. fine i d s0) (\<lambda>_. fine i d s0) s"
  unfolding rescue_def wp_simps wp_the_slot wp_change_slot
  using assms
  by (auto intro!: wp_calls fine_passes wp_mono [OF replace_fine [where d = d and ?s0.0 = s0]]
      wp_mono [OF release_fine [where d = d and ?s0.0 = s0]] wp_mono [OF rebroadcast_fine [where d = d and ?s0.0 = s0]])

section \<open>No second nonce while an outcome is in doubt\<close>

lemma resolve_quiet:
  "wp (resolve_slot nd hs at_slot eff)
     (\<lambda>out t. sn_sent t = sn_sent s \<and> sn_slots t = sn_slots s \<and> sn_inDoubt t = sn_inDoubt s)
     (\<lambda>_ t. sn_sent t = sn_sent s \<and> sn_slots t = sn_slots s \<and> sn_inDoubt t = sn_inDoubt s) s"
  unfolding resolve_slot_def
  by (auto split: option.split intro!: wp_ask wp_receipt_of)

lemma receipt_settled: "wp (receipt_among nd hs) (\<lambda>r _. \<forall>out. r = Some out \<longrightarrow> \<not> is_doubtful out) (\<lambda>_ _. True) s"
  by (induction hs arbitrary: s) (auto simp: receipt_outcome_def is_doubtful_def split: option.split intro!: wp_ask)

lemma resolve_not_cancelled:
  "wp (resolve_slot nd hs at_slot eff) (\<lambda>out _. \<forall>h hs c from n. out \<noteq> Cancelled h hs c from n) (\<lambda>_ _. True) s"
proof -
  have r: "wp (receipt_among nd hs) (\<lambda>r _. \<forall>out. r = Some out \<longrightarrow> (\<forall>h hs c from n. out \<noteq> Cancelled h hs c from n)) (\<lambda>_ _. True) t" for t
    by (rule wp_mono [OF receipt_settled]) (auto simp: is_doubtful_def)
  show ?thesis
    unfolding resolve_slot_def wp_simps
    by (auto split: option.split intro!: wp_ask wp_mono [OF r])
qed

definition definite :: "tx_outcome \<Rightarrow> bool" where
  "definite out \<longleftrightarrow> (case out of Reverted _ _ \<Rightarrow> True | NotSent _ \<Rightarrow> True | _ \<Rightarrow> False)"

text \<open>The slot of a key, followed by observation in the state the guard starts from.\<close>

definition observed :: "(nat \<Rightarrow> 'w tx_node) \<Rightarrow> (nat option \<Rightarrow> ('w, bool) ask) \<Rightarrow> nat \<Rightarrow> 'w sender \<Rightarrow> tx_error + tx_outcome" where
  "observed N is_done i s = (let sl = sn_slots s ! i in
     fst (resolve_slot (N (sl_signer sl)) (sl_hashes sl) (Some (sl_from sl, sl_nonce sl)) (Some (\<lambda>b. is_done (Some b))) s))"

lemma guard_fine:
  assumes "map_of (sn_inDoubt s) key = Some i" "holds_slot i d s"
  shows "wp (guard_in_doubt N opts key done_code is_done land_by)
    (\<lambda>_ t. (\<exists>out. observed N is_done i s = Inr out \<and> definite out) \<and> fine i d s t \<and> map_of (sn_inDoubt t) key = None)
    (\<lambda>_. fine i d s) s"
proof -
  let ?sl = "sn_slots s ! i"
  have start: "fine i d s s" using assms(2) by (simp add: fine_def)
  have same: "fine i d s t" if "sn_sent t = sn_sent s" "sn_slots t = sn_slots s" for t
    using start that by (simp add: fine_def holds_slot_def sends_def)
  have gone: "map_of (filter (\<lambda>p. fst p \<noteq> key) xs) key = None" for xs :: "(string \<times> nat) list"
    by (auto simp: map_of_eq_None_iff)
  let ?r = "resolve_slot (N (sl_signer ?sl)) (sl_hashes ?sl) (Some (sl_from ?sl, sl_nonce ?sl)) (Some (\<lambda>b. is_done (Some b)))"
  have "wp ?r (\<lambda>out t. observed N is_done i s = Inr out \<and> (\<forall>h hs c from n. out \<noteq> Cancelled h hs c from n) \<and> fine i d s t)
      (\<lambda>_. fine i d s) s"
  proof (rule wpI)
    fix a t assume r: "?r s = (Inr a, t)"
    then show "observed N is_done i s = Inr a \<and> (\<forall>h hs c from n. a \<noteq> Cancelled h hs c from n) \<and> fine i d s t"
      using wp_run [OF resolve_quiet r] wp_run [OF resolve_not_cancelled r] same by (simp add: observed_def Let_def)
  next
    fix e t assume r: "?r s = (Inl e, t)"
    then show "fine i d s t" using wp_run_error [OF resolve_quiet r] same by simp
  qed
  then show ?thesis
    unfolding guard_in_doubt_def wp_simps wp_the_slot
    by (simp add: assms(1), elim wp_mono)
      (auto simp: forget_in_doubt_def definite_def gone intro!: wp_ask wp_mono [OF rescue_fine] split: tx_outcome.split)
qed

text \<open>How the gateway sends a fill or a claim: the guard, its other checks, the send.\<close>

definition guarded_send :: "nat \<Rightarrow> (nat \<Rightarrow> 'w tx_node) \<Rightarrow> tx_options \<Rightarrow> string \<Rightarrow> string \<Rightarrow> (nat option \<Rightarrow> ('w, bool) ask) \<Rightarrow> nat
    \<Rightarrow> ('w, unit) ask \<Rightarrow> 'w send_plan \<Rightarrow> ('w, tx_outcome option) run" where
  "guarded_send fuel N opts key done_code is_done land_by checks plan =
     io_bind (guard_in_doubt N opts key done_code is_done land_by) (\<lambda>_.
     io_bind (ask checks) (\<lambda>_. send fuel N opts plan))"

text \<open>
  C4. While an action of the solver is in doubt, it is never sent at a second nonce: whatever the nodes
  answer, a guarded send either finds the earlier slot definitely without effect (its transaction
  reverted, or its nonce consumed with the effect absent), or hands the network only transactions at
  the slot's own nonce, each the same call re-priced or the self-transfer that frees the nonce.
\<close>

theorem no_second_nonce_in_doubt:
  assumes "map_of (sn_inDoubt s) key = Some i" and "holds_slot i d s"
    and "guarded_send fuel N opts key done_code is_done land_by checks plan s = (r, t)"
  shows "(\<exists>out. observed N is_done i s = Inr out \<and> definite out) \<or> sends (belongs d) s t \<and> holds_slot i d t"
proof -
  obtain g u where g: "guard_in_doubt N opts key done_code is_done land_by s = (g, u)" by fastforce
  show ?thesis
  proof (cases g)
    case (Inl e)
    then have "t = u" using assms(3) g by (simp add: guarded_send_def io_bind_def)
    moreover have "fine i d s u" using wp_run_error [OF guard_fine [OF assms(1,2)] g [unfolded Inl]] .
    ultimately show ?thesis by (simp add: fine_def)
  next
    case (Inr a)
    then show ?thesis using wp_run [OF guard_fine [OF assms(1,2)] g [unfolded Inr]] by blast
  qed
qed

section \<open>What a replacement offers\<close>

lemma bump_fee_bounds: "paid < bump_fee paid least" "least \<le> bump_fee paid least" "9 * paid \<le> 8 * bump_fee paid least"
  "bump_fee paid least \<le> max least (paid + max 1 ((paid + 7) div 8))"
  by (auto simp: bump_fee_def Let_def)

lemma offered_outbid: "offered_fee (outbid r fees r) = bump_fee (offered_fee r) (market_fee r fees)"
  by (simp add: outbid_def offered_fee_def market_fee_def Let_def)

lemma tip_outbid: "tx_maxFee r \<noteq> None \<Longrightarrow> or_else (tx_tip (outbid r fees r)) 0 \<le> offered_fee (outbid r fees r)"
  by (simp add: outbid_def offered_fee_def Let_def)

text \<open>
  A replacement the sender adopts re-signs the same call at the same nonce, joins the slot's signings,
  and is priced: at least an eighth over the last offer, no less than the market and at most four
  times the higher of the first offer and the market, its tip within the fee. A node that answers
  every broadcast ambiguously cannot walk the fee up without limit.
\<close>

lemma replacement_is_priced:
  assumes "holds_slot i d s" and "replace_at_same_nonce N opts i (Some fees) s = (Inr True, t)"
  shows "\<exists>x. sn_slots t ! i = adopt x (sn_slots s ! i) \<and> tx_nonce (sg_tx x) = id_nonce d \<and> call_of (sg_tx x) = id_call d
    \<and> (let paid = offered_fee (sl_request (sn_slots s ! i)); fee = offered_fee (sg_tx x);
            market = market_fee (sl_request (sn_slots s ! i)) fees
       in paid < fee \<and> 9 * paid \<le> 8 * fee \<and> market \<le> fee \<and> fee \<le> 4 * max (sl_originalFee (sn_slots s ! i)) market
          \<and> (tx_maxFee (sg_tx x) \<noteq> None \<longrightarrow> or_else (tx_tip (sg_tx x)) 0 \<le> fee))"
proof -
  let ?sl = "sn_slots s ! i"
  let ?t = "outbid (sl_request ?sl) fees (sl_request ?sl)"
  have i: "i < length (sn_slots s)" and sl: "identity ?sl = d" "slot_ok ?sl" using assms(1) by (auto simp: holds_slot_def)
  have "wp (replace_at_same_nonce N opts i (Some fees)) (\<lambda>r t. r \<longrightarrow>
      bump_fee (offered_fee (sl_request ?sl)) (market_fee (sl_request ?sl) fees) \<le> fee_cap ?sl fees
      \<and> (\<exists>h. sn_slots t ! i = adopt \<lparr>sg_tx = ?t, sg_hash = h\<rparr> ?sl)) (\<lambda>_ _. True) s"
    using i by (auto simp: replace_at_same_nonce_def Let_def intro!: wp_calls)
  from wp_run [OF this assms(2)] obtain h where h: "sn_slots t ! i = adopt \<lparr>sg_tx = ?t, sg_hash = h\<rparr> ?sl"
      and cap: "bump_fee (offered_fee (sl_request ?sl)) (market_fee (sl_request ?sl) fees) \<le> fee_cap ?sl fees" by auto
  have "fee_cap ?sl fees \<le> 4 * max (sl_originalFee ?sl) (market_fee (sl_request ?sl) fees)"
    by (simp add: fee_cap_def REPLACEMENT_FEE_CAP_MULTIPLE_def Let_def)
  moreover have "tx_nonce ?t = id_nonce d" "call_of ?t = id_call d" using sl by (auto simp: slot_ok_def)
  moreover have "tx_maxFee ?t \<noteq> None \<Longrightarrow> tx_maxFee (sl_request ?sl) \<noteq> None"
    by (cases "tx_maxFee (sl_request ?sl)") (auto simp: outbid_def)
  ultimately show ?thesis
    using h cap bump_fee_bounds tip_outbid [of "sl_request ?sl" fees]
    by (intro exI [of _ "\<lparr>sg_tx = ?t, sg_hash = h\<rparr>"]) (auto simp: Let_def offered_outbid intro: order_trans)
qed

end
