(* ===== verification/TxProgress.thy ===== *)
theory TxProgress
  imports TxSafety
begin

text \<open>
  The slots of the sender as a whole: what a send leaves of them, that a doubt it returns is on record,
  that the wait for a receipt ends, and what an observation of an honest chain proves.
\<close>

section \<open>One slot at a time\<close>

definition only_slot :: "nat \<Rightarrow> 'w sender \<Rightarrow> 'w sender \<Rightarrow> bool" where
  "only_slot i s t \<longleftrightarrow> sn_inDoubt t = sn_inDoubt s \<and> length (sn_slots t) = length (sn_slots s)
     \<and> (\<forall>j. j \<noteq> i \<longrightarrow> sn_slots t ! j = sn_slots s ! j)"

interpretation one_slot: run_relation "only_slot i" for i
  by unfold_locales (auto simp: only_slot_def)

lemma only_slot_more [simp]:
  "only_slot i s (s\<lparr>sn_world := w\<rparr>)" "only_slot i s (s\<lparr>sn_lastNonce := l\<rparr>)" "only_slot i s (s\<lparr>sn_sent := x\<rparr>)"
  "only_slot i s (s\<lparr>sn_slots := (sn_slots s)[i := sl]\<rparr>)"
  by (simp_all add: only_slot_def)

lemma leaves_ask:
  "(\<And>s w. R s (s\<lparr>sn_world := w\<rparr>)) \<Longrightarrow> leaves R (ask f)" "(\<And>s w. R s (s\<lparr>sn_world := w\<rparr>)) \<Longrightarrow> leaves R (ask_now nd)"
  "(\<And>s w. R s (s\<lparr>sn_world := w\<rparr>)) \<Longrightarrow> leaves R (pause nd ms)"
  by (auto simp: leaves_def pause_def intro!: wp_ask wp_ask_now)

lemma one_slot_prims [intro!, simp]:
  "leaves (only_slot i) (ask f)" "leaves (only_slot i) (ask_now nd)" "leaves (only_slot i) (pause nd ms)"
  "leaves (only_slot i) (the_slot j)" "leaves (only_slot i) (change_slot i g)"
  by (simp_all add: leaves_ask) (simp_all add: leaves_def one_slot.refl)

lemma one_slot_calls [simp]:
  "leaves (only_slot i) (broadcast nd x)" "leaves (only_slot i) (sign_tx nd t)"
  "leaves (only_slot i) (tx_state_of nd h)" "leaves (only_slot i) (record_broadcast nd opts key n x b)"
  "leaves (only_slot i) m \<Longrightarrow> leaves (only_slot i) (attempt m)"
  unfolding broadcast_def sign_tx_def tx_state_of_def record_broadcast_def attempt_def
  by (auto intro!: one_slot.all_leaves split: option.split)

lemma one_slot_receipts [simp]: "leaves (only_slot i) (receipt_among nd hs)"
  by (induction hs) (auto intro!: one_slot.all_leaves split: option.split)

lemma one_slot_ops [simp]:
  "leaves (only_slot i) (rebroadcast N opts i)" "leaves (only_slot i) (replace_at_same_nonce N opts i given)"
  "leaves (only_slot i) (cancel_signing nd i)"
  unfolding rebroadcast_def replace_at_same_nonce_def cancel_signing_def Let_def
  by (auto intro!: one_slot.all_leaves split: option.split sum.split)

lemma one_slot_release [simp]: "leaves (only_slot i) (release_slot N opts i)"
  unfolding release_slot_def Let_def
  by (auto intro!: one_slot.all_leaves split: option.split sum.split)

lemma one_slot_moves [simp]:
  "leaves (only_slot i) (keep_moving N opts i nb bf missed)" "leaves (only_slot i) (rescue N opts i land_by)"
  unfolding keep_moving_def rescue_def Let_def
  by (auto intro!: one_slot.all_leaves)

lemma one_slot_pass [simp]: "leaves (only_slot i) (await_pass N opts i deadline w)"
  unfolding await_pass_def Let_def
  by (auto intro!: one_slot.all_leaves split: option.split prod.split)

lemma one_slot_await [simp]: "leaves (only_slot i) (await_receipt k N opts i deadline w)"
  by (induction k arbitrary: w) (auto intro!: one_slot.all_leaves split: sum.split)

section \<open>All slots\<close>

text \<open>Every slot well formed, every key in doubt naming one.\<close>

definition slots_ok :: "'w sender \<Rightarrow> bool" where
  "slots_ok s \<longleftrightarrow> (\<forall>j < length (sn_slots s). slot_ok (sn_slots s ! j)) \<and> (\<forall>p \<in> set (sn_inDoubt s). snd p < length (sn_slots s))"

definition intact :: "'w sender \<Rightarrow> 'w sender \<Rightarrow> bool" where
  "intact s t \<longleftrightarrow> (slots_ok s \<longrightarrow> slots_ok t) \<and> sn_inDoubt t = sn_inDoubt s \<and> length (sn_slots t) = length (sn_slots s)
     \<and> (\<forall>j < length (sn_slots s). slots_ok s \<longrightarrow> identity (sn_slots t ! j) = identity (sn_slots s ! j))"

interpretation intact: run_relation intact
  by unfold_locales (auto simp: intact_def)

lemma intact_more [simp]:
  "intact s (s\<lparr>sn_world := w\<rparr>)" "intact s (s\<lparr>sn_lastNonce := l\<rparr>)" "intact s (s\<lparr>sn_sent := x\<rparr>)"
  by (simp_all add: intact_def slots_ok_def)

lemma fine_intact:
  assumes "slots_ok s" "i < length (sn_slots s)" "fine i (identity (sn_slots s ! i)) s t" "only_slot i s t"
  shows "intact s t"
  unfolding intact_def
proof (intro conjI impI allI)
  have i: "identity (sn_slots t ! i) = identity (sn_slots s ! i)" "slot_ok (sn_slots t ! i)"
    using fine_slot [OF assms(3)] by auto
  show "slots_ok t" unfolding slots_ok_def
  proof (intro conjI allI impI)
    fix j assume "j < length (sn_slots t)"
    then show "slot_ok (sn_slots t ! j)"
      using assms(1,4) i by (cases "j = i") (auto simp: slots_ok_def only_slot_def)
  qed (use assms(1,4) in \<open>auto simp: slots_ok_def only_slot_def\<close>)
  show "identity (sn_slots t ! j) = identity (sn_slots s ! j)" for j
    using assms(4) i by (cases "j = i") (auto simp: only_slot_def)
qed (use assms(4) in \<open>auto simp: only_slot_def\<close>)

text \<open>An operation on a slot of the table leaves the table intact.\<close>

lemma slot_op_intact:
  assumes "\<And>s0 d s. fine i d s0 s \<Longrightarrow> wp m (\<lambda>_. fine i d s0) (\<lambda>_. fine i d s0) s"
    and "leaves (only_slot i) m" and "slots_ok s" "i < length (sn_slots s)"
  shows "wp m (\<lambda>_ t. intact s t \<and> sends (belongs (identity (sn_slots s ! i))) s t)
    (\<lambda>_ t. intact s t \<and> sends (belongs (identity (sn_slots s ! i))) s t) s"
proof -
  have "fine i (identity (sn_slots s ! i)) s s"
    using assms(3,4) by (simp add: fine_def holds_slot_def slots_ok_def)
  from wp_conj [OF assms(1) [OF this] leaves_wp [OF assms(2)]] show ?thesis
    by (rule wp_mono) (use fine_intact [OF assms(3,4)] in \<open>auto simp: fine_def\<close>)
qed

lemma release_intact:
  assumes "slots_ok s" "i < length (sn_slots s)"
  shows "wp (release_slot N opts i) (\<lambda>_ t. intact s t \<and> sends (belongs (identity (sn_slots s ! i))) s t)
    (\<lambda>_ t. intact s t \<and> sends (belongs (identity (sn_slots s ! i))) s t) s"
  using assms by (intro slot_op_intact) (auto intro: wp_mono [OF release_fine])

lemma intact_ok: "intact s t \<Longrightarrow> slots_ok s \<Longrightarrow> slots_ok t"
  by (simp add: intact_def)

lemma intact_length: "intact s t \<Longrightarrow> length (sn_slots t) = length (sn_slots s)"
  by (simp add: intact_def)

lemma release_each_intact:
  assumes "intact s0 s" "slots_ok s0" "\<forall>i \<in> set is. i < length (sn_slots s0)"
  shows "wp (io_each (\<lambda>i. io_bind (the_slot i) (\<lambda>sl. if now < or_else (sl_landBy sl) 0 then io_return ()
       else io_bind (release_slot N opts i) (\<lambda>_. io_return ()))) is) (\<lambda>_. intact s0) (\<lambda>_. intact s0) s"
  using assms(1,3)
proof (induction "is" arbitrary: s)
  case (Cons i rest)
  have s: "slots_ok s" "i < length (sn_slots s)"
    using Cons.prems intact_ok [OF Cons.prems(1) assms(2)] intact_length [OF Cons.prems(1)] by auto
  show ?case
    using Cons.prems Cons.IH
    by (auto intro!: wp_mono [OF release_intact [OF s]] intro: intact.trans)
qed simp

lemma release_dead_intact:
  assumes "slots_ok s"
  shows "wp (release_dead_slots N opts g key) (\<lambda>_. intact s) (\<lambda>_. intact s) s"
  unfolding release_dead_slots_def wp_simps
  using assms
  by (auto simp: intact.refl slots_ok_def intro!: wp_ask release_each_intact)

section \<open>A send and its slot\<close>

text \<open>The documented behaviour of ethers this rests on: a populated request keeps the nonce it is given.\<close>

definition keeps_nonce :: "'w tx_node \<Rightarrow> bool" where
  "keeps_nonce nd \<longleftrightarrow> (\<forall>call n w r w'. nd_populate nd call n w = (Inr r, w') \<longrightarrow> tx_nonce r = n)"

lemma assign_intact: "leaves intact (assign_nonce nd key from)"
  unfolding assign_nonce_def past_land_by_def record_still_held_def forget_nonce_def tx_state_of_def broadcast_def attempt_def
  by (auto intro!: intact.all_leaves leaves_ask split: option.split sum.split)

text \<open>A slot \<open>i\<close> of the plan was opened on top of the table of \<open>s\<close>, which is otherwise intact.\<close>

definition opened_on :: "'w sender \<Rightarrow> 'w send_plan \<Rightarrow> string \<Rightarrow> nat \<Rightarrow> 'w sender \<Rightarrow> bool" where
  "opened_on s plan key i t \<longleftrightarrow> slots_ok t \<and> i = length (sn_slots s) \<and> length (sn_slots t) = Suc i \<and> sn_inDoubt t = sn_inDoubt s
     \<and> (\<forall>j < i. identity (sn_slots t ! j) = identity (sn_slots s ! j))
     \<and> id_key (identity (sn_slots t ! i)) = key \<and> id_signer (identity (sn_slots t ! i)) = pl_signer plan
     \<and> id_landBy (identity (sn_slots t ! i)) = pl_landBy plan"

lemma opened_more [simp]:
  "opened_on s plan key i (t\<lparr>sn_world := w\<rparr>) = opened_on s plan key i t"
  "opened_on s plan key i (t\<lparr>sn_lastNonce := l\<rparr>) = opened_on s plan key i t"
  "opened_on s plan key i (t\<lparr>sn_sent := x\<rparr>) = opened_on s plan key i t"
  by (simp_all add: opened_on_def slots_ok_def)

lemma opened_push:
  assumes "slots_ok s0" "intact s0 s" "slot_ok sl" "sl_key sl = key" "sl_signer sl = pl_signer plan" "sl_landBy sl = pl_landBy plan"
  shows "opened_on s0 plan key (length (sn_slots s)) (s\<lparr>sn_slots := sn_slots s @ [sl]\<rparr>)"
  using assms intact_ok [OF assms(2,1)]
  by (auto simp: opened_on_def slots_ok_def intact_def nth_append less_Suc_eq)

lemma open_slot_opens:
  assumes "slots_ok s" "keeps_nonce (N (pl_signer plan))"
  shows "wp (open_slot N opts plan key) (\<lambda>(i, err) t. opened_on s plan key i t) (\<lambda>_. intact s) s"
proof -
  have pop: "wp (ask (nd_populate (N (pl_signer plan)) call n)) (\<lambda>r t. tx_nonce r = n \<and> intact s t) (\<lambda>_. intact s) t"
    if "intact s t" for call n t
  proof (rule wpI)
    fix a u assume "ask (nd_populate (N (pl_signer plan)) call n) t = (Inr a, u)"
    then show "tx_nonce a = n \<and> intact s u"
      using assms(2) [unfolded keeps_nonce_def, rule_format, of call n "sn_world t" a] that intact.trans [OF that]
      by (cases "nd_populate (N (pl_signer plan)) call n (sn_world t)") (auto simp: ask_def split: sum.splits)
  next
    fix e u assume "ask (nd_populate (N (pl_signer plan)) call n) t = (Inl e, u)"
    then show "intact s u" using that intact.trans [OF that] by (auto simp: ask_def split: prod.splits sum.splits)
  qed
  have step: "wp (ask f) (\<lambda>_. intact s) (\<lambda>_. intact s) t" if "intact s t" for f and t
    using that by (auto intro!: wp_ask intro: intact.trans)
  have dead: "wp (release_dead_slots N opts g k) (\<lambda>_. intact s) (\<lambda>_. intact s) t" if "intact s t" for g k t
    by (rule wp_mono [OF release_dead_intact [OF intact_ok [OF that assms(1)]]]) (auto intro: intact.trans [OF that])
  have assign: "wp (assign_nonce nd k fr) (\<lambda>_. intact s) (\<lambda>_. intact s) t" if "intact s t" for nd k fr t
    by (rule wp_mono [OF leaves_wp [OF assign_intact]]) (auto intro: intact.trans [OF that])
  have signed: "wp (sign_tx nd r) (\<lambda>x t. sg_tx x = r \<and> intact s t) (\<lambda>_. intact s) t" if "intact s t" for nd r t
    using that by (auto intro!: wp_sign intro: intact.trans)
  have sim: "wp (simulate nd plan) (\<lambda>_. intact s) (\<lambda>_. intact s) t" if "intact s t" for nd t
    unfolding simulate_def using that by (auto intro!: wp_mono [OF step] split: option.split)
  have recheck: "wp (case pl_recheck plan of Some f \<Rightarrow> ask f | None \<Rightarrow> io_return ()) (\<lambda>_. intact s) (\<lambda>_. intact s) t" if "intact s t" for t
    using that by (auto intro!: wp_mono [OF step] split: option.split)
  show ?thesis
    unfolding open_slot_def Let_def wp_simps
    apply (rule wp_mono [OF recheck [OF intact.refl]], rule wp_mono [OF sim], assumption)
      apply (rule wp_mono [OF dead], assumption, rule wp_mono [OF step], assumption)
       apply (rule wp_mono [OF assign], assumption, rule wp_mono [OF pop], assumption)
        apply (elim conjE, rule wp_mono [OF signed], assumption)
         apply (auto simp: opened_push slot_ok_def intro!: wp_broadcast wp_record_broadcast opened_push [OF assms(1)] split: option.split)
    done
qed

lemma same_identity: "identity a = identity b \<Longrightarrow> sl_key a = sl_key b \<and> sl_signer a = sl_signer b \<and> sl_landBy a = sl_landBy b"
  by (simp add: identity_def)

lemma await_opened:
  assumes "opened_on s plan key i t"
  shows "wp (await_receipt k N opts i deadline w)
    (\<lambda>r u. opened_on s plan key i u \<and> (case r of Some out \<Rightarrow> outcome_of (identity (sn_slots t ! i)) out | None \<Rightarrow> True)
       \<and> identity (sn_slots u ! i) = identity (sn_slots t ! i)) (\<lambda>_ _. False) t"
proof -
  let ?d = "identity (sn_slots t ! i)"
  have t: "slots_ok t" "i < length (sn_slots t)" "fine i ?d t t"
    using assms by (fastforce simp: opened_on_def fine_def holds_slot_def slots_ok_def)+
  have keep: "opened_on s plan key i u" if "fine i ?d t u" "only_slot i t u" for u
  proof -
    have "intact t u" using fine_intact [OF t(1,2) that] .
    then show ?thesis
      using assms t(2) that(2) same_identity [OF conjunct1 [OF fine_slot [OF that(1)]]]
      by (auto simp: opened_on_def intact_def only_slot_def)
  qed
  show ?thesis
    by (rule wp_mono [OF wp_conj [OF await_fine [OF t(3)] leaves_wp [OF one_slot_await]]])
      (auto dest: fine_slot keep split: option.splits)
qed

lemma put_in_doubt_get:
  "wp (put_in_doubt key i) (\<lambda>_ t. map_of (sn_inDoubt t) key = Some i \<and> sn_slots t = sn_slots s
     \<and> (\<forall>k. k \<noteq> key \<longrightarrow> map_of (sn_inDoubt t) k = map_of (sn_inDoubt s) k)
     \<and> (\<forall>n. (\<forall>p \<in> set (sn_inDoubt s). snd p < n) \<longrightarrow> i < n \<longrightarrow> (\<forall>p \<in> set (sn_inDoubt t). snd p < n))) (\<lambda>_ _. False) s"
proof -
  have "key \<in> fst ` set xs \<Longrightarrow> map_of (map (\<lambda>(k, j). (k, if k = key then i else j)) xs) key = Some i" for xs
    by (induction xs) auto
  moreover have "k \<noteq> key \<Longrightarrow> map_of (map (\<lambda>(k, j). (k, if k = key then i else j)) xs) k = map_of xs k" for xs k
    by (induction xs) auto
  moreover have "map_of xs key = None" if "key \<notin> fst ` set xs" for xs :: "(string \<times> nat) list"
    using that by (simp add: map_of_eq_None_iff)
  ultimately show ?thesis by (auto simp: put_in_doubt_def map_add_def split: option.split if_splits)
qed

lemma send_keeps:
  fixes s :: "'w sender"
  assumes "slots_ok s" "keeps_nonce (N (pl_signer plan))"
  shows "wp (send fuel N opts plan) (\<lambda>r t. slots_ok t \<and> length (sn_slots s) \<le> length (sn_slots t)
      \<and> (\<forall>j < length (sn_slots s). identity (sn_slots t ! j) = identity (sn_slots s ! j))
      \<and> (\<forall>k. pl_inDoubtKey plan \<noteq> Some k \<longrightarrow> map_of (sn_inDoubt t) k = map_of (sn_inDoubt s) k)
      \<and> (\<forall>out k. r = Some out \<longrightarrow> is_doubtful out \<longrightarrow> pl_inDoubtKey plan = Some k \<longrightarrow>
          (\<exists>i. map_of (sn_inDoubt t) k = Some i \<and> length (sn_slots s) \<le> i
            \<and> outcome_of (identity (sn_slots t ! i)) out)))
    (\<lambda>_. intact s) s"
proof -
  let ?Q = "\<lambda>r (t :: 'w sender). slots_ok t \<and> length (sn_slots s) \<le> length (sn_slots t)
      \<and> (\<forall>j < length (sn_slots s). identity (sn_slots t ! j) = identity (sn_slots s ! j))
      \<and> (\<forall>k. pl_inDoubtKey plan \<noteq> Some k \<longrightarrow> map_of (sn_inDoubt t) k = map_of (sn_inDoubt s) k)
      \<and> (\<forall>out k. r = Some out \<longrightarrow> is_doubtful out \<longrightarrow> pl_inDoubtKey plan = Some k \<longrightarrow>
          (\<exists>i. map_of (sn_inDoubt t) k = Some i \<and> length (sn_slots s) \<le> i \<and> outcome_of (identity (sn_slots t ! i)) out))"
  have op: "wp (open_slot N opts plan k) (\<lambda>(i, err). opened_on s plan k i) (\<lambda>_. intact s) t" if "intact s t" for k t
    by (rule wp_mono [OF open_slot_opens [where s = t, OF intact_ok [OF that assms(1)]]])
      (use that assms in \<open>auto simp: opened_on_def intact_def\<close>)
  obtain Q where "Q = ?Q" by blast
  then have Q: "Q r t = ?Q r t" for r t by (simp only:)
  have left: "Q None u \<and> (\<not> is_doubtful out \<or> pl_inDoubtKey plan = None \<longrightarrow> Q (Some out) u)" if "opened_on s plan k i u" for k i u out
    using that by (auto simp: Q opened_on_def)
  have doubt: "wp (put_in_doubt k i) (\<lambda>_. Q (Some out)) (\<lambda>_ _. False) u"
    if "opened_on s plan key i u" "outcome_of (identity (sn_slots u ! i)) out" "pl_inDoubtKey plan = Some k" for key k i u out
  proof (rule wp_mono [OF put_in_doubt_get])
    fix a and t :: "'w sender"
    assume t: "map_of (sn_inDoubt t) k = Some i \<and> sn_slots t = sn_slots u
        \<and> (\<forall>k'. k' \<noteq> k \<longrightarrow> map_of (sn_inDoubt t) k' = map_of (sn_inDoubt u) k')
        \<and> (\<forall>n. (\<forall>p \<in> set (sn_inDoubt u). snd p < n) \<longrightarrow> i < n \<longrightarrow> (\<forall>p \<in> set (sn_inDoubt t). snd p < n))"
    have "slots_ok u" "i < length (sn_slots u)" using that(1) by (auto simp: opened_on_def)
    then have "\<forall>p \<in> set (sn_inDoubt t). snd p < length (sn_slots u)"
      using t unfolding slots_ok_def by blast
    with t that show "Q (Some out) t" by (simp add: Q opened_on_def slots_ok_def)
  qed
  have keeps: "Q r u" if "opened_on s plan k i u" "\<And>out. r = Some out \<Longrightarrow> is_doubtful out \<Longrightarrow> pl_inDoubtKey plan = None" for r k i u
    using left [OF that(1)] that(2) by (cases r) auto
  have ends: "wp (case out of None \<Rightarrow> io_return None
        | Some o1 \<Rightarrow> io_bind (case pl_inDoubtKey plan of
             Some key \<Rightarrow> if is_doubtful o1 then put_in_doubt key i else io_return ()
           | None \<Rightarrow> io_return ()) (\<lambda>_. io_return (Some o1))) Q (\<lambda>_ _. False) u"
    if "opened_on s plan k i u" "\<And>o1. out = Some o1 \<Longrightarrow> outcome_of (identity (sn_slots u ! i)) o1" for k i u out
  proof (cases out)
    case (Some o1)
    show ?thesis
    proof (cases "pl_inDoubtKey plan")
      case None
      then show ?thesis using keeps [OF that(1), of "Some o1"] Some by simp
    next
      case (Some key)
      show ?thesis
        using keeps [OF that(1), of "Some o1"] doubt [OF that(1) that(2) Some] \<open>out = Some o1\<close> Some
        by auto
    qed
  qed (use keeps [OF that(1), of None] in simp)
  have waits: "wp (await_receipt fuel N opts i deadline w) (\<lambda>out. wp (case out of None \<Rightarrow> io_return None
        | Some o1 \<Rightarrow> io_bind (case pl_inDoubtKey plan of
             Some key \<Rightarrow> if is_doubtful o1 then put_in_doubt key i else io_return ()
           | None \<Rightarrow> io_return ()) (\<lambda>_. io_return (Some o1))) Q (\<lambda>_. intact s)) (\<lambda>_. intact s) u"
    if "opened_on s plan k i u" for k i u deadline w
    by (rule wp_mono [OF await_opened [OF that]]) (auto intro: wp_mono [OF ends])
  have "wp (send fuel N opts plan) Q (\<lambda>_. intact s) s"
    unfolding send_def Let_def wp_simps
    by (auto simp: is_doubtful_def intro!: wp_ask wp_mono [OF op] wp_ask_now keeps waits)
  then show ?thesis by (rule wp_mono) (simp_all add: Q)
qed

section \<open>A guarded send\<close>

definition table_kept :: "string \<Rightarrow> 'w sender \<Rightarrow> 'w sender \<Rightarrow> bool" where
  "table_kept key s t \<longleftrightarrow> (slots_ok s \<longrightarrow> slots_ok t) \<and> length (sn_slots s) \<le> length (sn_slots t)
     \<and> (slots_ok s \<longrightarrow> (\<forall>j < length (sn_slots s). identity (sn_slots t ! j) = identity (sn_slots s ! j)))
     \<and> (\<forall>k. k \<noteq> key \<longrightarrow> map_of (sn_inDoubt t) k = map_of (sn_inDoubt s) k)"

interpretation table: run_relation "table_kept key" for key
  by unfold_locales (auto simp: table_kept_def)

lemma intact_table: "intact s t \<Longrightarrow> table_kept key s t"
  by (simp add: intact_def table_kept_def)

lemma forget_table: "leaves (table_kept key) (forget_in_doubt key)"
proof -
  have "k \<noteq> key \<Longrightarrow> map_of (filter (\<lambda>p. fst p \<noteq> key) xs) k = map_of xs k" for k and xs :: "(string \<times> nat) list"
    by (induction xs) auto
  then show ?thesis
    unfolding forget_in_doubt_def by (intro table.update_leaves) (auto simp: table_kept_def slots_ok_def)
qed

lemma guard_table:
  assumes "slots_ok s"
  shows "wp (guard_in_doubt N opts key done_code is_done land_by) (\<lambda>_. table_kept key s) (\<lambda>_. table_kept key s) s"
proof -
  have start: "wp (resolve_slot nd hs at_slot eff) (\<lambda>_. intact s) (\<lambda>_. intact s) s" for nd hs at_slot eff
    by (rule wp_mono [OF resolve_quiet]) (auto simp: intact_def slots_ok_def)
  have forget: "wp (forget_in_doubt key) (\<lambda>_. table_kept key s) (\<lambda>_. table_kept key s) t" if "intact s t" for t
    by (rule wp_mono [OF leaves_wp [OF forget_table]]) (use intact_table [OF that] table.trans in blast)+
  have rescue: "wp (rescue N opts i land_by) (\<lambda>_. table_kept key s) (\<lambda>_. table_kept key s) t"
    if "intact s t" "map_of (sn_inDoubt s) key = Some i" for t i
  proof -
    have "(key, i) \<in> set (sn_inDoubt t)" using that by (auto simp: intact_def dest: map_of_SomeD)
    then have t: "slots_ok t" "i < length (sn_slots t)" using intact_ok [OF that(1) assms] by (auto simp: slots_ok_def)
    have "wp (rescue N opts i land_by) (\<lambda>_ u. intact t u \<and> sends (belongs (identity (sn_slots t ! i))) t u)
        (\<lambda>_ u. intact t u \<and> sends (belongs (identity (sn_slots t ! i))) t u) t"
      by (rule slot_op_intact [OF rescue_fine]) (use t in auto)
    then show ?thesis by (rule wp_mono) (use intact_table intact.trans [OF that(1)] in blast)+
  qed
  have stay: "intact s (t\<lparr>sn_world := w\<rparr>)" if "intact s t" for t w
    using intact.trans [OF that intact_more(1)] .
  note stay_table = intact_table [OF stay]
  show ?thesis
    unfolding guard_in_doubt_def wp_simps wp_the_slot
    by (auto simp: stay intro!: wp_mono [OF start] wp_ask table.refl forget rescue stay_table intro: intact_table
        split: option.split tx_outcome.split)
qed

text \<open>
  C5. Whatever the nodes answer, a guarded send keeps the table of slots: each slot stays itself, the
  doubts of other keys stay, and an outcome it returns in doubt (or being freed) is on record under
  its key, with a well-formed slot at the nonce and address the outcome names. The next guarded send
  of the key therefore follows that slot.
\<close>

theorem doubt_is_on_record:
  fixes s :: "'w sender"
  assumes "slots_ok s" and "keeps_nonce (N (pl_signer plan))" and "pl_inDoubtKey plan = Some key"
    and "guarded_send fuel N opts key done_code is_done land_by checks plan s = (r, t)"
  shows "slots_ok t \<and> (\<forall>j < length (sn_slots s). identity (sn_slots t ! j) = identity (sn_slots s ! j))
    \<and> (\<forall>k. k \<noteq> key \<longrightarrow> map_of (sn_inDoubt t) k = map_of (sn_inDoubt s) k)
    \<and> (\<forall>out. r = Inr (Some out) \<longrightarrow> is_doubtful out \<longrightarrow>
        (\<exists>i d. map_of (sn_inDoubt t) key = Some i \<and> holds_slot i d t \<and> outcome_of d out))"
proof -
  let ?P = "\<lambda>r t. table_kept key s t \<and> (\<forall>out. r = Some out \<longrightarrow> is_doubtful out \<longrightarrow>
        (\<exists>i d. map_of (sn_inDoubt t) key = Some i \<and> holds_slot i d t \<and> outcome_of d out))"
  have send: "wp (send fuel N opts plan) ?P (\<lambda>_. table_kept key s) u" if "table_kept key s u" for u
  proof (rule wp_mono [OF send_keeps [where s = u and N = N and plan = plan, OF _ assms(2)]])
    show "slots_ok u" using that assms(1) by (simp add: table_kept_def)
  next
    fix r and v :: "'w sender"
    assume v: "slots_ok v \<and> length (sn_slots u) \<le> length (sn_slots v) \<and> (\<forall>j < length (sn_slots u). identity (sn_slots v ! j) = identity (sn_slots u ! j))
      \<and> (\<forall>k. pl_inDoubtKey plan \<noteq> Some k \<longrightarrow> map_of (sn_inDoubt v) k = map_of (sn_inDoubt u) k)
      \<and> (\<forall>out k. r = Some out \<longrightarrow> is_doubtful out \<longrightarrow> pl_inDoubtKey plan = Some k \<longrightarrow>
          (\<exists>i. map_of (sn_inDoubt v) k = Some i \<and> length (sn_slots u) \<le> i \<and> outcome_of (identity (sn_slots v ! i)) out))"
    then have "table_kept key u v" using assms(3) by (simp add: table_kept_def)
    moreover have "holds_slot i (identity (sn_slots v ! i)) v" if "map_of (sn_inDoubt v) key = Some i" for i
      using v map_of_SomeD [OF that] by (fastforce simp: holds_slot_def slots_ok_def)
    ultimately show "?P r v"
      using v assms(3) table.trans [OF \<open>table_kept key s u\<close>] by blast
  next
    show "table_kept key s v" if "intact u v" for e v
      using table.trans [OF \<open>table_kept key s u\<close> intact_table [OF that]] .
  qed
  have checks: "table_kept key s (u\<lparr>sn_world := w\<rparr>)" if "table_kept key s u" for u w
    using table.trans [OF that intact_table [OF intact_more(1)]] .
  have "wp (guarded_send fuel N opts key done_code is_done land_by checks plan) ?P (\<lambda>_. table_kept key s) s"
    unfolding guarded_send_def wp_simps
    by (rule wp_mono [OF guard_table [OF assms(1)]]) (assumption | rule wp_ask send checks)+
  from wp_run [OF this] wp_run_error [OF this] assms(4) show ?thesis
    using assms(1) by (cases r) (auto simp: table_kept_def)
qed

end
