(* ===== verification/TxChain.thy ===== *)
theory TxChain
  imports TxProgress
begin

text \<open>
  What the sender's answers mean on an honest chain and an honest clock: the wait for a receipt ends, a
  nonce is assigned at or past the pending count, and a slot reported as not sent never takes
  effect. A small chain at the end shows that the hypotheses can hold.
\<close>

section \<open>The wait ends\<close>

text \<open>
  \<open>clock\<close> is the time of the world: it never runs back, \<open>Date.now()\<close> reads it, and a pause of \<open>ms\<close>
  takes at least \<open>ms\<close>.
\<close>

definition steady :: "('w \<Rightarrow> num) \<Rightarrow> ('w, 'a) ask \<Rightarrow> bool" where
  "steady clock f \<longleftrightarrow> (\<forall>w. clock w \<le> clock (snd (f w)))"

definition keeps_time :: "('w \<Rightarrow> num) \<Rightarrow> 'w tx_node \<Rightarrow> bool" where
  "keeps_time clock nd \<longleftrightarrow>
     (\<forall>w. fst (nd_now nd w) = clock w \<and> clock w \<le> clock (snd (nd_now nd w)))
     \<and> (\<forall>ms w. clock w + ms \<le> clock (nd_pause nd ms w))
     \<and> (\<forall>t. steady clock (nd_sign nd t)) \<and> (\<forall>x. steady clock (nd_broadcast nd x))
     \<and> (\<forall>h. steady clock (nd_receipt nd h)) \<and> (\<forall>h. steady clock (nd_lookup nd h))
     \<and> steady clock (nd_head nd) \<and> steady clock (nd_fees nd) \<and> (\<forall>a. steady clock (nd_estimate nd a))"

definition later :: "('w \<Rightarrow> num) \<Rightarrow> 'w sender \<Rightarrow> 'w sender \<Rightarrow> bool" where
  "later clock s t \<longleftrightarrow> clock (sn_world s) \<le> clock (sn_world t)"

interpretation later: run_relation "later clock" for clock
  by unfold_locales (auto simp: later_def)

lemma later_ask: "steady clock f \<Longrightarrow> leaves (later clock) (ask f)"
  by (auto simp: leaves_def wp_def ask_def later_def steady_def split: prod.split sum.split) (metis snd_conv)+

lemma later_now: "keeps_time clock nd \<Longrightarrow> leaves (later clock) (ask_now nd)"
  by (auto simp: leaves_def wp_def ask_now_def later_def keeps_time_def split: prod.split) (metis snd_conv)

lemma later_still [simp]:
  "leaves (later clock) (the_slot i)" "leaves (later clock) (change_slot i f)"
  "leaves (later clock) (io_update (\<lambda>s. s\<lparr>sn_sent := g s\<rparr>))" "leaves (later clock) (io_update (\<lambda>s. s\<lparr>sn_lastNonce := l s\<rparr>))"
  by (simp_all add: leaves_def later_def)

lemma later_attempt [simp]: "leaves (later clock) m \<Longrightarrow> leaves (later clock) (attempt m)"
  unfolding attempt_def by (auto intro!: later.all_leaves)

lemma later_calls:
  assumes "keeps_time clock nd"
  shows "leaves (later clock) (broadcast nd x)" "leaves (later clock) (sign_tx nd t)"
    "leaves (later clock) (tx_state_of nd h)" "leaves (later clock) (record_broadcast nd opts key n x b)"
  unfolding broadcast_def sign_tx_def tx_state_of_def record_broadcast_def
  using assms
  by (auto simp: keeps_time_def intro!: later.all_leaves later_ask later_now later_still split: option.split)

lemma later_receipts: "keeps_time clock nd \<Longrightarrow> leaves (later clock) (receipt_among nd hs)"
  by (induction hs) (auto simp: keeps_time_def intro!: later.all_leaves later_ask split: option.split)

lemma later_ops:
  assumes "\<And>g. keeps_time clock (N g)"
  shows "leaves (later clock) (rebroadcast N opts i)" "leaves (later clock) (replace_at_same_nonce N opts i given)"
    "leaves (later clock) (cancel_signing (N g) i)"
proof -
  have fees: "steady clock (nd_fees (N g))" "steady clock (nd_estimate (N g) a)" for g a
    using assms [of g] by (auto simp: keeps_time_def)
  show "leaves (later clock) (rebroadcast N opts i)" "leaves (later clock) (replace_at_same_nonce N opts i given)"
    "leaves (later clock) (cancel_signing (N g) i)"
    unfolding rebroadcast_def replace_at_same_nonce_def cancel_signing_def Let_def
    by (auto intro!: later.all_leaves later_still later_attempt later_calls later_ask fees assms split: option.split sum.split)
qed

lemma later_release: "(\<And>g. keeps_time clock (N g)) \<Longrightarrow> leaves (later clock) (release_slot N opts i)"
  unfolding release_slot_def Let_def
  by (auto intro!: later.all_leaves later_still later_attempt later_calls later_ops split: option.split sum.split)

lemma later_moving: "(\<And>g. keeps_time clock (N g)) \<Longrightarrow> leaves (later clock) (keep_moving N opts i nb bf missed)"
  unfolding keep_moving_def Let_def
  by (auto simp: keeps_time_def intro!: later.all_leaves later_still later_calls later_ops later_ask)

lemma later_from:
  "leaves (later clock) m \<Longrightarrow> T \<le> clock (sn_world s) \<Longrightarrow>
   wp m (\<lambda>_ t. T \<le> clock (sn_world t)) (\<lambda>_ t. T \<le> clock (sn_world t)) s"
  by (rule wp_mono [OF leaves_wp [where R = "later clock"]]) (auto simp: later_def)

text \<open>A pass that does not end the wait starts before its deadline and takes the poll interval.\<close>

lemma pass_takes_time:
  fixes clock :: "'w \<Rightarrow> num"
  assumes N: "\<And>g. keeps_time clock (N g)"
  shows "wp (await_pass N opts i deadline w) (\<lambda>r t. case r of Inl _ \<Rightarrow> True
      | Inr _ \<Rightarrow> clock (sn_world s) < deadline \<and> clock (sn_world s) + op_receiptPollMs opts \<le> clock (sn_world t))
    (\<lambda>_ _. True) s"
proof -
  obtain T where T: "T = clock (sn_world s)" by blast
  have head: "leaves (later clock) (if b then io_return None else io_catch (ask (nd_head (N g))) (\<lambda>_. io_return None))" for b g
    using N [of g] by (auto simp: keeps_time_def intro!: later.all_leaves later_ask)
  have receipts: "leaves (later clock) (io_catch (receipt_among (N g) hs) (\<lambda>_. io_return None))" for g hs
    by (intro later.all_leaves later_receipts N)
  have move: "leaves (later clock) (io_catch (keep_moving N opts i nb bf missed) (\<lambda>_. io_return missed))" for nb bf missed
    by (intro later.all_leaves later_moving N)
  have now: "wp (ask_now (N g)) (\<lambda>now t. T \<le> now \<and> now \<le> clock (sn_world t)) (\<lambda>_ _. True) t"
    if "T \<le> clock (sn_world t)" for g t
    using that N [of g] unfolding keeps_time_def
    by (auto simp: wp_def ask_now_def split: prod.split) (metis fst_conv order_trans, metis fst_conv snd_conv)
  have pause: "wp (pause (N g) ms) (\<lambda>_ u. n + ms \<le> clock (sn_world u)) (\<lambda>_ _. True) t" if "n \<le> clock (sn_world t)" for n g ms t
    using N [of g] that by (auto simp: pause_def keeps_time_def intro: order_trans [OF add_right_mono])
  have free: "wp (release_slot N opts i) (\<lambda>_ _. True) (\<lambda>_ _. True) t" for t
    by (simp add: wp_def split: prod.split sum.split)
  have rest: "wp (ask_now (N g)) (\<lambda>now. wp (if deadline \<le> now then io_return (Inl out)
        else io_bind (pause (N g) (op_receiptPollMs opts)) (\<lambda>_.
          io_bind (io_catch (keep_moving N opts i nb bf missed) (\<lambda>_. io_return missed)) (\<lambda>missed. io_return (Inr (seen, missed)))))
      (\<lambda>r t. case r of Inl _ \<Rightarrow> True | Inr _ \<Rightarrow> T < deadline \<and> T + op_receiptPollMs opts \<le> clock (sn_world t)) (\<lambda>_ _. True))
      (\<lambda>_ _. True) t" if "T \<le> clock (sn_world t)" for g nb bf missed seen out t
  proof (rule wp_mono [OF now [OF that]])
    fix n and u :: "'w sender"
    assume u: "T \<le> n \<and> n \<le> clock (sn_world u)"
    have "wp (pause (N g) (op_receiptPollMs opts)) (\<lambda>_. wp (io_catch (keep_moving N opts i nb bf missed) (\<lambda>_. io_return missed))
        (\<lambda>_ t. T + op_receiptPollMs opts \<le> clock (sn_world t)) (\<lambda>_ _. True)) (\<lambda>_ _. True) u"
    proof (rule wp_mono [OF pause [where n = n]])
      fix v :: "'w sender"
      assume "n + op_receiptPollMs opts \<le> clock (sn_world v)"
      with u have "T + op_receiptPollMs opts \<le> clock (sn_world v)" by simp
      from later_from [OF move this] show "wp (io_catch (keep_moving N opts i nb bf missed) (\<lambda>_. io_return missed))
        (\<lambda>_ t. T + op_receiptPollMs opts \<le> clock (sn_world t)) (\<lambda>_ _. True) v" by (rule wp_mono) auto
    qed (use u in auto)
    then show "wp (if deadline \<le> n then io_return (Inl out)
        else io_bind (pause (N g) (op_receiptPollMs opts)) (\<lambda>_.
          io_bind (io_catch (keep_moving N opts i nb bf missed) (\<lambda>_. io_return missed)) (\<lambda>missed. io_return (Inr (seen, missed)))))
      (\<lambda>r t. case r of Inl _ \<Rightarrow> True | Inr _ \<Rightarrow> T < deadline \<and> T + op_receiptPollMs opts \<le> clock (sn_world t)) (\<lambda>_ _. True) u"
      using u by (auto elim!: wp_mono)
  qed auto
  have ended: "wp (case landed of Some out \<Rightarrow> io_return (Inl out)
     | None \<Rightarrow> if free_it then io_bind (release_slot N opts i) (\<lambda>freed. io_return (Inl (done_with freed)))
       else (case seen of ((seen, missed), nb, bf) \<Rightarrow> io_bind (ask_now (N g)) (\<lambda>now. if deadline \<le> now then io_return (Inl out)
        else io_bind (pause (N g) (op_receiptPollMs opts)) (\<lambda>_.
          io_bind (io_catch (keep_moving N opts i nb bf missed) (\<lambda>_. io_return missed)) (\<lambda>missed. io_return (Inr (seen, missed)))))))
      (\<lambda>r t. case r of Inl _ \<Rightarrow> True | Inr _ \<Rightarrow> T < deadline \<and> T + op_receiptPollMs opts \<le> clock (sn_world t)) (\<lambda>_ _. True) t"
    if "T \<le> clock (sn_world t)" for landed free_it done_with seen g out t
  proof (cases landed)
    case None
    show ?thesis
    proof (cases free_it)
      case False
      obtain a missed nb bf where "seen = ((a, missed), nb, bf)" by (metis prod.exhaust)
      then show ?thesis unfolding None using rest [OF that] False by (simp only: option.case if_False prod.case wp_simps(3))
    qed (simp add: None wp_mono [OF free])
  qed simp
  show ?thesis
    unfolding await_pass_def Let_def wp_simps(3) wp_the_slot T [symmetric]
    by (rule wp_mono [OF later_from [where T = T, OF head]], simp add: T,
        rule wp_mono [OF later_from [where T = T, OF receipts]], assumption, rule ended, assumption) simp_all
qed

text \<open>With fuel for as many polls as fit before the deadline, the wait has an outcome.\<close>

lemma await_ends:
  assumes N: "\<And>g. keeps_time clock (N g)"
  shows "deadline \<le> clock (sn_world s) + of_nat k * op_receiptPollMs opts \<Longrightarrow>
    wp (await_receipt (Suc k) N opts i deadline w) (\<lambda>r _. r \<noteq> None) (\<lambda>_ _. True) s"
proof (induction k arbitrary: s w)
  case 0
  show ?case
    unfolding await_receipt.simps wp_simps
    by (rule wp_mono [OF pass_takes_time [OF N]]) (use 0 in \<open>auto split: sum.splits\<close>)
next
  case (Suc k)
  show ?case
    unfolding await_receipt.simps(2) [of "Suc k"] wp_simps
    by (rule wp_mono [OF pass_takes_time [OF N]])
      (use Suc in \<open>auto simp: algebra_simps split: sum.splits simp del: await_receipt.simps\<close>)
qed

lemma wp_true: "wp m (\<lambda>_ _. True) (\<lambda>_ _. True) s"
  by (simp add: wp_def split: prod.split sum.split)

text \<open>
  C30. On a clock that never runs back a send returns: with fuel for as many polls as cover the receipt
  timeout (\<open>receiptTimeoutMs / receiptPollMs\<close>, rounded up, and one more), the wait never runs out of
  fuel, whatever the nodes answer and however often the slot is replaced.
\<close>

theorem send_returns:
  assumes "\<And>g. keeps_time clock (N g)"
    and "op_receiptTimeoutMs opts \<le> of_nat k * op_receiptPollMs opts"
    and "send (Suc k) N opts plan s = (r, t)"
  shows "r \<noteq> Inr None"
proof -
  let ?nd = "N (pl_signer plan)"
  have now: "wp (ask_now ?nd) (\<lambda>now u. now \<le> clock (sn_world u)) (\<lambda>_ _. True) u" for u
    using assms(1) [of "pl_signer plan"] unfolding keeps_time_def
    by (auto simp: wp_def ask_now_def split: prod.split) (metis fst_conv snd_conv)
  have wait: "wp (await_receipt (Suc k) N opts i (now + op_receiptTimeoutMs opts) (None, 0)) (\<lambda>r _. r \<noteq> None) (\<lambda>_ _. True) u"
    if "now \<le> clock (sn_world u)" for now i u
    by (rule await_ends) (use that assms in auto)
  have op: "wp (open_slot N opts plan key) (\<lambda>_ _. True) (\<lambda>_ _. True) u" for key u
    by (rule wp_true)
  have put: "wp (put_in_doubt key i) (\<lambda>_ _. True) (\<lambda>_ _. True) u" for key i u
    by (rule wp_true)
  have "wp (send (Suc k) N opts plan) (\<lambda>r _. r \<noteq> None) (\<lambda>_ _. True) s"
    unfolding send_def Let_def wp_simps
    by (auto intro!: wp_ask wp_mono [OF op] wp_mono [OF put] wp_mono [OF now] wp_mono [OF wait]
        simp del: await_receipt.simps split: option.split)
  from wp_run [OF this] assms(3) show ?thesis by (cases r) auto
qed

section \<open>Nonces\<close>

text \<open>
  The nonce of a new send is the node's pending count, or one past the last transaction this sender
  broadcast from the key while the count does not show it: never below the count, so never one the
  chain has consumed.
\<close>

lemma nonce_at_or_past_pending:
  assumes "assign_nonce nd key fr s = (Inr n, t)"
  shows "\<exists>pending. fst (nd_pending nd fr (sn_world s)) = Inr pending \<and> pending \<le> n
    \<and> (n \<noteq> pending \<longrightarrow> (\<exists>l. sn_lastNonce s key = Some l \<and> n = nr_nonce l + 1 \<and> pending \<le> nr_nonce l))"
proof -
  let ?Q = "\<lambda>pending n. pending \<le> n
    \<and> (n \<noteq> pending \<longrightarrow> (\<exists>l. sn_lastNonce s key = Some l \<and> n = nr_nonce l + 1 \<and> pending \<le> nr_nonce l))"
  have past: "wp (past_land_by nd l) (\<lambda>_ _. True) (\<lambda>_ _. True) u" for l u by (rule wp_true)
  have held: "wp (record_still_held nd l) (\<lambda>_ _. True) (\<lambda>_ _. True) u" for l u by (rule wp_true)
  have "wp (ask (nd_pending nd fr)) (\<lambda>p u. fst (nd_pending nd fr (sn_world s)) = Inr p \<and> sn_lastNonce u = sn_lastNonce s) (\<lambda>_ _. True) s"
    by (auto simp: wp_def ask_def split: prod.split sum.split)
  then have "wp (assign_nonce nd key fr) (\<lambda>n _. \<exists>p. fst (nd_pending nd fr (sn_world s)) = Inr p \<and> ?Q p n) (\<lambda>_ _. True) s"
    unfolding assign_nonce_def wp_simps
    by (rule wp_mono) (auto simp: forget_nonce_def intro!: wp_tx_state wp_mono [OF past] wp_mono [OF held] split: option.split)
  from wp_run [OF this assms] show ?thesis .
qed

section \<open>What not sent means\<close>

text \<open>
  A chain is the transactions of each block, with their sender and whether they succeeded. An account
  uses a nonce once; the node counts what is on the chain; the effect check of an action sees a
  success of its call.
\<close>

type_synonym chain = "nat \<Rightarrow> (string \<times> tx \<times> bool) list"

definition on_chain :: "chain \<Rightarrow> nat \<Rightarrow> string \<Rightarrow> tx \<Rightarrow> bool \<Rightarrow> bool" where
  "on_chain ch b fr t ok \<longleftrightarrow> (fr, t, ok) \<in> set (ch b)"

definition nonces_once :: "chain \<Rightarrow> bool" where
  "nonces_once ch \<longleftrightarrow> (\<forall>b b' fr t t' ok ok'. on_chain ch b fr t ok \<longrightarrow> on_chain ch b' fr t' ok' \<longrightarrow>
     tx_nonce t = tx_nonce t' \<longrightarrow> b = b' \<and> t = t' \<and> ok = ok')"

definition counts :: "chain \<Rightarrow> 'w tx_node \<Rightarrow> bool" where
  "counts ch nd \<longleftrightarrow> (\<forall>fr b n k w w'. nd_count_at nd fr b w = (Inr n, w') \<longrightarrow> k < n \<longrightarrow>
     (\<exists>b' \<le> b. \<exists>t ok. on_chain ch b' fr t ok \<and> tx_nonce t = k))"

definition sees_effect :: "chain \<Rightarrow> string \<times> nat \<times> string \<Rightarrow> (nat \<Rightarrow> ('w, bool) ask) \<Rightarrow> bool" where
  "sees_effect ch call eff \<longleftrightarrow> (\<forall>b w w' b' fr t. eff b w = (Inr False, w') \<longrightarrow> b' \<le> b \<longrightarrow> call_of t = call \<longrightarrow> \<not> on_chain ch b' fr t True)"

lemma not_sent_observed:
  assumes "resolve_slot nd hs (Some (fr, n)) (Some eff) s = (Inr (NotSent h), t)"
  shows "\<exists>b m w w' v v'. nd_count_at nd fr b w = (Inr m, w') \<and> n < m \<and> eff b v = (Inr False, v')"
proof -
  have count: "wp (ask (nd_count_at nd fr b)) (\<lambda>m _. \<exists>w w'. nd_count_at nd fr b w = (Inr m, w')) (\<lambda>_ _. True) u" for b u
    by (auto simp: wp_def ask_def split: prod.split sum.split)
  have effect: "wp (ask (eff b)) (\<lambda>p _. \<exists>v v'. eff b v = (Inr p, v')) (\<lambda>_ _. True) u" for b u
    by (auto simp: wp_def ask_def split: prod.split sum.split)
  have seen: "wp (receipt_among nd hs) (\<lambda>r _. \<forall>out. r = Some out \<longrightarrow> (\<forall>h. out \<noteq> NotSent h)) (\<lambda>_ _. True) u" for u
    by (induction hs arbitrary: u) (auto simp: receipt_outcome_def split: option.split intro!: wp_ask)
  have "wp (resolve_slot nd hs (Some (fr, n)) (Some eff)) (\<lambda>out _. \<forall>h. out = NotSent h \<longrightarrow>
      (\<exists>b m w w' v v'. nd_count_at nd fr b w = (Inr m, w') \<and> n < m \<and> eff b v = (Inr False, v'))) (\<lambda>_ _. True) s"
    unfolding resolve_slot_def wp_simps
    by (auto intro!: wp_ask wp_mono [OF count] wp_mono [OF seen] wp_mono [OF effect] split: option.split; blast)
  from wp_run [OF this assms] show ?thesis by blast
qed

text \<open>
  C31. A slot resolved as not sent is final. On a chain where an account uses a nonce once, where the
  node's count at a block stands for transactions up to it, and where the effect check at a block
  sees every success of the call up to it: no transaction of the slot's address and nonce that
  carries the call succeeds, in any block, now or later. Planning the action again cannot do it twice.
\<close>

theorem not_sent_is_final:
  assumes "nonces_once ch" and "counts ch nd" and "sees_effect ch call eff"
    and "resolve_slot nd hs (Some (fr, n)) (Some eff) s = (Inr (NotSent h), t)"
  shows "\<not> (on_chain ch b fr x True \<and> tx_nonce x = n \<and> call_of x = call)"
proof
  assume x: "on_chain ch b fr x True \<and> tx_nonce x = n \<and> call_of x = call"
  from not_sent_observed [OF assms(4)] obtain b0 m w w' v v'
    where seen: "nd_count_at nd fr b0 w = (Inr m, w')" "n < m" "eff b0 v = (Inr False, v')" by blast
  from assms(2) seen(1,2) obtain b' y ok where y: "b' \<le> b0" "on_chain ch b' fr y ok" "tx_nonce y = n"
    unfolding counts_def by blast
  then have "b' = b" using assms(1) x unfolding nonces_once_def by metis
  with y x seen(3) assms(3) show False unfolding sees_effect_def by blast
qed

section \<open>A small chain\<close>

text \<open>
  A node whose world is the time: it holds what it is sent and never mines it. The account's pending
  count is 7, its count at any block 7, and a replacement finds a market of 12.
\<close>

definition idle_tx :: "string \<Rightarrow> nat \<Rightarrow> tx" where
  "idle_tx call n = \<lparr>tx_kind = ''2/8453'', tx_to = ''0xf111'', tx_value = 0, tx_data = call, tx_nonce = n, tx_gasLimit = 90000,
     tx_maxFee = Some 10, tx_tip = Some 1, tx_gasPrice = None\<rparr>"

definition idle_fees :: fee_data where
  "idle_fees = \<lparr>fd_gasPrice = Some 12, fd_maxFee = Some 12, fd_tip = Some 1\<rparr>"

definition idle_node :: "num tx_node" where
  "idle_node = \<lparr>nd_chain_id = (\<lambda>w. (Inr 8453, w)), nd_address = (\<lambda>w. (Inr ''0xA1'', w)),
     nd_static_call = (\<lambda>c w. (Inr (), w)), nd_populate = (\<lambda>c n w. (Inr (idle_tx c n), w)),
     nd_sign = (\<lambda>t w. (Inr (show_nat (offered_fee t)), w)), nd_broadcast = (\<lambda>x w. (Inr (), w)),
     nd_pending = (\<lambda>a w. (Inr 7, w)), nd_count_at = (\<lambda>a b w. (Inr 7, w)), nd_block_number = (\<lambda>w. (Inr 5, w)),
     nd_head = (\<lambda>w. (Inr None, w)), nd_receipt = (\<lambda>h w. (Inr None, w)), nd_lookup = (\<lambda>h w. (Inr (Some None), w)),
     nd_fees = (\<lambda>w. (Inr idle_fees, w)), nd_estimate = (\<lambda>a w. (Inr 21000, w)), nd_now_sec = (\<lambda>w. (Inr 100, w)),
     nd_now = (\<lambda>w. (w, w)), nd_pause = (\<lambda>ms w. w + ms)\<rparr>"

definition idle_options :: tx_options where
  "idle_options = \<lparr>op_receiptTimeoutMs = 2000, op_receiptPollMs = 1000, op_afterBlocks = None, op_afterPasses = None,
     op_withinSec = None\<rparr>"

definition idle_plan :: "num send_plan" where
  "idle_plan = \<lparr>pl_signer = 0, pl_call = ''fill'', pl_simulate = None, pl_recheck = None, pl_inDoubtKey = Some ''fill:1'',
     pl_landBy = Some 500\<rparr>"

definition idle_slot :: slot where
  "idle_slot = \<lparr>sl_key = ''8453:0xa1'', sl_signer = 0, sl_request = idle_tx ''fill'' 7,
     sl_raw = \<lparr>sg_tx = idle_tx ''fill'' 7, sg_hash = ''0x07''\<rparr>, sl_hashes = [''0x07''], sl_from = ''0xA1'', sl_nonce = 7,
     sl_originalFee = 10, sl_passes = 0, sl_landBy = Some 500, sl_cancel = None, sl_released = False\<rparr>"

definition fresh_sender :: "num sender" where
  "fresh_sender = \<lparr>sn_world = 0, sn_slots = [], sn_inDoubt = [], sn_lastNonce = (\<lambda>_. None), sn_sent = []\<rparr>"

definition doubtful_sender :: "num sender" where
  "doubtful_sender = fresh_sender\<lparr>sn_slots := [idle_slot], sn_inDoubt := [(''fill:1'', 0)]\<rparr>"

lemma idle_slot_held: "holds_slot 0 (identity idle_slot) doubtful_sender"
  by (simp add: holds_slot_def doubtful_sender_def slot_ok_def idle_slot_def idle_tx_def)

lemma idle_time: "keeps_time id idle_node"
  by (simp add: keeps_time_def idle_node_def steady_def)

lemma idle_nonce: "keeps_nonce idle_node"
  by (simp add: keeps_nonce_def idle_node_def idle_tx_def)

lemma send_returns_witness: "fst (send 3 (\<lambda>_. idle_node) idle_options idle_plan fresh_sender) \<noteq> Inr None"
  using send_returns [of id "\<lambda>_. idle_node" idle_options 2 idle_plan fresh_sender] idle_time
  by (cases "send 3 (\<lambda>_. idle_node) idle_options idle_plan fresh_sender") (simp add: idle_options_def numeral_3_eq_3)

lemma second_nonce_witness:
  "(\<exists>out. observed (\<lambda>_. idle_node) (\<lambda>_ w. (Inr False, w)) 0 doubtful_sender = Inr out \<and> definite out)
   \<or> sends (belongs (identity idle_slot)) doubtful_sender
       (snd (guarded_send 3 (\<lambda>_. idle_node) idle_options ''fill:1'' ''already_filled'' (\<lambda>_ w. (Inr False, w)) 500
         (\<lambda>w. (Inr (), w)) idle_plan doubtful_sender))"
proof -
  have "map_of (sn_inDoubt doubtful_sender) ''fill:1'' = Some 0" by (simp add: doubtful_sender_def)
  from no_second_nonce_in_doubt [OF this idle_slot_held surjective_pairing] show ?thesis by blast
qed

text \<open>The replacement offers the market's 12, under the cap of 48.\<close>

lemma idle_replacement: "fst (replace_at_same_nonce (\<lambda>_. idle_node) idle_options 0 (Some idle_fees) doubtful_sender) = Inr True"
  by (simp add: replace_at_same_nonce_def io_bind_def the_slot_def io_read_def io_return_def Let_def doubtful_sender_def
      idle_slot_def idle_tx_def idle_fees_def bump_fee_def fee_cap_def market_fee_def offered_fee_def sign_tx_def ask_def attempt_def
      io_catch_def broadcast_def io_update_def idle_node_def change_slot_def record_broadcast_def fresh_sender_def
      REPLACEMENT_FEE_CAP_MULTIPLE_def ask_now_def)

lemma replacement_witness:
  "\<exists>x. sn_slots (snd (replace_at_same_nonce (\<lambda>_. idle_node) idle_options 0 (Some idle_fees) doubtful_sender)) ! 0 = adopt x idle_slot
     \<and> tx_nonce (sg_tx x) = 7 \<and> offered_fee (sg_tx x) \<le> 48"
proof -
  let ?run = "replace_at_same_nonce (\<lambda>_. idle_node) idle_options 0 (Some idle_fees) doubtful_sender"
  have "?run = (Inr True, snd ?run)" using idle_replacement by (simp add: prod_eq_iff)
  from replacement_is_priced [OF idle_slot_held this] show ?thesis
    by (auto simp: Let_def doubtful_sender_def idle_slot_def market_fee_def idle_tx_def idle_fees_def)
qed

lemmas idle_run = guarded_send_def guard_in_doubt_def send_def open_slot_def simulate_def release_dead_slots_def assign_nonce_def
  forget_nonce_def await_pass_def watch_block_def keep_moving_def tx_state_of_def receipt_among.simps put_in_doubt_def is_doubtful_def
  followed_def io_bind_def the_slot_def io_read_def io_return_def Let_def offered_fee_def sign_tx_def ask_def attempt_def
  io_catch_def broadcast_def io_update_def change_slot_def record_broadcast_def ask_now_def pause_def numeral_3_eq_3 send_key_def
  fresh_sender_def idle_plan_def idle_options_def idle_node_def idle_tx_def

text \<open>A first send waits out its two polls and is on record in doubt.\<close>

lemma idle_send:
  "fst (guarded_send 3 (\<lambda>_. idle_node) idle_options ''fill:1'' ''already_filled'' (\<lambda>_ w. (Inr False, w)) 500
     (\<lambda>w. (Inr (), w)) idle_plan fresh_sender) = Inr (Some (InDoubt (show_nat 10) [show_nat 10] (Some (''0xA1'', 7))))"
  by (simp add: idle_run)

lemma doubt_witness:
  "\<exists>i (d :: slot_identity). map_of (sn_inDoubt (snd (guarded_send 3 (\<lambda>_. idle_node) idle_options ''fill:1'' ''already_filled'' (\<lambda>_ w. (Inr False, w)) 500
     (\<lambda>w. (Inr (), w)) idle_plan fresh_sender))) ''fill:1'' = Some i \<and> id_nonce d = 7"
proof -
  let ?run = "guarded_send 3 (\<lambda>_. idle_node) idle_options ''fill:1'' ''already_filled'' (\<lambda>_ w. (Inr False, w)) 500
     (\<lambda>w. (Inr (), w)) idle_plan fresh_sender"
  have "slots_ok fresh_sender" by (simp add: slots_ok_def fresh_sender_def)
  moreover have "pl_inDoubtKey idle_plan = Some ''fill:1''" by (simp add: idle_plan_def)
  ultimately have "\<forall>out. fst ?run = Inr (Some out) \<longrightarrow> is_doubtful out \<longrightarrow>
      (\<exists>i d. map_of (sn_inDoubt (snd ?run)) ''fill:1'' = Some i \<and> holds_slot i d (snd ?run) \<and> outcome_of d out)"
    using doubt_is_on_record [OF _ idle_nonce _ surjective_pairing [of ?run]] by blast
  from this [rule_format, OF idle_send] obtain i d where "map_of (sn_inDoubt (snd ?run)) ''fill:1'' = Some i"
      "outcome_of d (InDoubt (show_nat 10) [show_nat 10] (Some (''0xA1'', 7)))" by (auto simp: is_doubtful_def)
  then show ?thesis by (auto simp: outcome_of_def)
qed

text \<open>The chain on which the account's nonce 6 went to another transaction, in block 4.\<close>

definition idle_chain :: chain where
  "idle_chain b = (if b < 7 then [(''0xA1'', idle_tx ''other'' b, True)] else [])"

definition unseen_node :: "num tx_node" where
  "unseen_node = idle_node\<lparr>nd_count_at := (\<lambda>a b w. (Inr (if a = ''0xA1'' then min 7 (b + 1) else 0), w)), nd_block_number := (\<lambda>w. (Inr 6, w))\<rparr>"

lemma not_sent_witness:
  "\<forall>b x. \<not> (on_chain idle_chain b ''0xA1'' x True \<and> tx_nonce x = 6 \<and> call_of x = call_of (idle_tx ''fill'' 6))"
proof (intro allI, rule not_sent_is_final)
  show "nonces_once idle_chain"
    by (auto simp: nonces_once_def on_chain_def idle_chain_def idle_tx_def split: if_splits)
  show "counts idle_chain unseen_node"
    unfolding counts_def
  proof (intro allI impI)
    fix fr b n k and w w' :: num
    assume "nd_count_at unseen_node fr b w = (Inr n, w')" "k < n"
    then have "fr = ''0xA1''" "k < 7" "k \<le> b" by (auto simp: unseen_node_def split: if_splits)
    then show "\<exists>b' \<le> b. \<exists>t ok. on_chain idle_chain b' fr t ok \<and> tx_nonce t = k"
      by (intro exI [of _ k]) (auto simp: on_chain_def idle_chain_def idle_tx_def)
  qed
  show "sees_effect idle_chain (call_of (idle_tx ''fill'' 6)) (\<lambda>b (w :: num). (Inr False, w))"
    by (auto simp: sees_effect_def on_chain_def idle_chain_def idle_tx_def call_of_def split: if_splits)
  show "resolve_slot unseen_node [''0x06''] (Some (''0xA1'', 6)) (Some (\<lambda>b w. (Inr False, w))) fresh_sender
      = (Inr (NotSent ''0x06''), fresh_sender)"
    by (simp add: resolve_slot_def io_bind_def ask_def unseen_node_def idle_node_def io_return_def fresh_sender_def)
qed

lemma nonce_witness: "\<exists>pending. fst (nd_pending idle_node ''0xA1'' 0) = Inr pending \<and> pending \<le> (7 :: nat)"
  using nonce_at_or_past_pending [of idle_node "''8453:0xa1''" "''0xA1''" fresh_sender 7 fresh_sender]
  by (simp add: assign_nonce_def io_bind_def ask_def idle_node_def io_read_def fresh_sender_def forget_nonce_def io_update_def io_return_def fun_upd_def)

end
