(* ===== verification/Escrow.thy ===== *)
theory Escrow
  imports JsBase IntentVerify
begin

text \<open>
  The escrow primitives of the signer: \<open>signer/src/uint.ts\<close> (how an unsigned integer may be spelled) and
  \<open>signer/src/escrow.ts\<close> (keys, the destination commitment, the order id, the digests of the escrow
  contracts, and the guard that holds a pull to the user's own intent). Hashing, ABI encoding and
  signature recovery belong to ethers: they are the fields of the record \<open>ethers\<close>. A refusal is a
  constructor of \<open>escrow_error\<close>; its message is not modelled.
\<close>

section \<open>Unsigned integers\<close>

definition UINT32_MAX :: int where "UINT32_MAX = 2 ^ 32 - 1"
definition UINT64_MAX :: int where "UINT64_MAX = 2 ^ 64 - 1"
definition UINT256_MAX :: int where "UINT256_MAX = 2 ^ 256 - 1"

text \<open>\<open>Number.isSafeInteger\<close>, with the integer.\<close>

definition safe_int :: "jsnum \<Rightarrow> int option" where
  "safe_int n = (case n of
     Fin r \<Rightarrow> (if is_int_num r \<and> \<bar>r\<bar> \<le> 9007199254740991 then Some \<lfloor>r\<rfloor> else None)
   | _ \<Rightarrow> None)"

text \<open>The regular expressions \<open>^[0-9]+$\<close> and \<open>^(0|[1-9][0-9]*)$\<close>.\<close>

definition canonical_digits :: "string \<Rightarrow> bool" where
  "canonical_digits s \<longleftrightarrow> s = ''0'' \<or> all_digits s \<and> hd s \<noteq> CHR ''0''"

definition uint_spelling :: "jsval \<Rightarrow> bool \<Rightarrow> int option" where
  "uint_spelling v leading = (case v of
     VBig n \<Rightarrow> Some n
   | VNum n \<Rightarrow> safe_int n
   | VStr s \<Rightarrow> (if (if leading then all_digits s else canonical_digits s) then big_int s else None)
   | _ \<Rightarrow> None)"

datatype escrow_error =
    BadUint string
  | OutOfRange string
  | EmptyKey
  | EmptyIntentId
  | BadBlinding
  | ZeroBlinding
  | BadBytes32 string
  | BadEscrowAddress
  | EmptyHmacKey string
  | EthersThrew
  | NotAnInteger
  | PinRequired
  | PinRefused mismatch
  | NoPinnedEscrow int
  | Unbound string

definition parse_uint :: "string \<Rightarrow> bool \<Rightarrow> jsval \<Rightarrow> escrow_error + int" where
  "parse_uint field leading v = (case uint_spelling v leading of
     None \<Rightarrow> Inl (BadUint field)
   | Some n \<Rightarrow> if n < 0 then Inl (BadUint field) else Inr n)"

definition to_uint :: "string \<Rightarrow> jsval \<Rightarrow> escrow_error + int" where
  "to_uint field v = (case uint_spelling v True of
     None \<Rightarrow> Inl (BadUint field)
   | Some n \<Rightarrow> if n < 0 \<or> n > UINT256_MAX then Inl (OutOfRange field) else Inr n)"

section \<open>What ethers provides\<close>

text \<open>
  \<open>et_encode\<close> is the default ABI coder on a list of types and values, \<open>et_hash_domain\<close> is
  \<open>TypedDataEncoder.hashDomain\<close>, \<open>et_concat\<close> joins hex strings; \<open>None\<close> where ethers throws. \<open>et_id\<close> hashes a
  type string, \<open>et_utf8\<close> gives the bytes of a string.
\<close>

datatype abi = AStr string | AUint int

record domain =
  dm_name :: string
  dm_version :: string
  dm_chainId :: int
  dm_verifyingContract :: string

record ethers =
  et_keccak :: "string \<Rightarrow> string"
  et_utf8 :: "string \<Rightarrow> string"
  et_pad32 :: "string \<Rightarrow> string"
  et_encode :: "string list \<Rightarrow> abi list \<Rightarrow> string option"
  et_hash_domain :: "domain \<Rightarrow> string option"
  et_concat :: "string list \<Rightarrow> string option"
  et_recover :: "string \<Rightarrow> string \<Rightarrow> string option"
  et_bytes :: "string \<Rightarrow> string option"
  et_be32 :: "int \<Rightarrow> string"
  et_hmac :: "string \<Rightarrow> string \<Rightarrow> string"

definition et_id :: "ethers \<Rightarrow> string \<Rightarrow> string" where
  "et_id et s = et_keccak et (et_utf8 et s)"

definition ethers_call :: "'a option \<Rightarrow> escrow_error + 'a" where
  "ethers_call r = (case r of None \<Rightarrow> Inl EthersThrew | Some a \<Rightarrow> Inr a)"

text \<open>\<open>ethers.keccak256(coder.encode(types, values))\<close>, the shape of every hash here.\<close>

definition hash_of :: "ethers \<Rightarrow> string list \<Rightarrow> abi list \<Rightarrow> escrow_error + string" where
  "hash_of et types vals = then_check (ethers_call (et_encode et types vals)) (\<lambda>b. Inr (et_keccak et b))"

definition typed_digest :: "ethers \<Rightarrow> string \<Rightarrow> string \<Rightarrow> escrow_error + string" where
  "typed_digest et sep struct = then_check (ethers_call (et_concat et [''0x1901'', sep, struct])) (\<lambda>b. Inr (et_keccak et b))"

section \<open>Keys, commitment, order id\<close>

text \<open>The regular expression \<open>^0x[0-9a-fA-F]{64}$\<close>.\<close>

definition bytes32 :: "string \<Rightarrow> bool" where
  "bytes32 s \<longleftrightarrow> starts_with s ''0x'' \<and> length (drop 2 s) = 64 \<and> list_all is_hex_digit (drop 2 s)"

record dest_opening =
  do_recipient :: string
  do_toToken :: string
  do_toAmount :: jsval
  do_blinding :: string
  do_intentId :: string

record order_terms =
  ot_depositor :: string
  ot_fromChainId :: jsval
  ot_fromToken :: string
  ot_fromAmount :: jsval
  ot_toChainId :: jsval
  ot_fillDeadline :: jsval
  ot_escrow :: string
  ot_destCommitment :: string

definition DEST_TYPE :: string where
  "DEST_TYPE = ''RiddlerDestCommitment(bytes32 recipientKey,bytes32 toTokenKey,uint256 toAmount,bytes32 blinding,bytes32 intentIdHash)''"

definition ORDER_TYPE :: string where
  "ORDER_TYPE = ''RiddlerOrder(address depositor,uint256 fromChainId,address fromToken,uint256 fromAmount,uint256 toChainId,uint256 fillDeadline,address escrow,bytes32 destCommitment)''"

definition canonical_key :: "ethers \<Rightarrow> string \<Rightarrow> escrow_error + string" where
  "canonical_key et s = (if s = [] then Inl EmptyKey
     else if evm_address s then Inr (to_lower (et_pad32 et (to_lower s)))
     else Inr (et_keccak et (et_utf8 et s)))"

definition compute_intent_id_hash :: "ethers \<Rightarrow> string \<Rightarrow> escrow_error + string" where
  "compute_intent_id_hash et s = (if s = [] then Inl EmptyIntentId else Inr (et_keccak et (et_utf8 et s)))"

definition assert_blinding :: "string \<Rightarrow> escrow_error check" where
  "assert_blinding b = (if \<not> bytes32 b then Inl BadBlinding
     else if big_int b = Some 0 then Inl ZeroBlinding else passed)"

definition DEST_TYPES :: "string list" where
  "DEST_TYPES = [''bytes32'', ''bytes32'', ''bytes32'', ''uint256'', ''bytes32'', ''bytes32'']"

definition dest_args :: "ethers \<Rightarrow> dest_opening \<Rightarrow> escrow_error + abi list" where
  "dest_args et d =
     then_check (canonical_key et (do_recipient d)) (\<lambda>rk.
     then_check (canonical_key et (do_toToken d)) (\<lambda>tk.
     then_check (to_uint ''toAmount'' (do_toAmount d)) (\<lambda>n.
     then_check (compute_intent_id_hash et (do_intentId d)) (\<lambda>ih.
       Inr [AStr (et_id et DEST_TYPE), AStr rk, AStr tk, AUint n, AStr (do_blinding d), AStr ih]))))"

definition compute_dest_commitment :: "ethers \<Rightarrow> dest_opening \<Rightarrow> escrow_error + string" where
  "compute_dest_commitment et d =
     then_check (assert_blinding (do_blinding d)) (\<lambda>_. then_check (dest_args et d) (hash_of et DEST_TYPES))"

definition ORDER_TYPES :: "string list" where
  "ORDER_TYPES = [''bytes32'', ''address'', ''uint256'', ''address'', ''uint256'', ''uint256'', ''uint256'', ''address'', ''bytes32'']"

definition order_args :: "ethers \<Rightarrow> order_terms \<Rightarrow> escrow_error + abi list" where
  "order_args et t =
     then_check (to_uint ''fromChainId'' (ot_fromChainId t)) (\<lambda>fc.
     then_check (to_uint ''fromAmount'' (ot_fromAmount t)) (\<lambda>fa.
     then_check (to_uint ''toChainId'' (ot_toChainId t)) (\<lambda>tc.
     then_check (to_uint ''fillDeadline'' (ot_fillDeadline t)) (\<lambda>fd.
       Inr [AStr (et_id et ORDER_TYPE), AStr (to_lower (ot_depositor t)), AUint fc,
         AStr (to_lower (ot_fromToken t)), AUint fa, AUint tc, AUint fd, AStr (to_lower (ot_escrow t)),
         AStr (ot_destCommitment t)]))))"

definition compute_order_id :: "ethers \<Rightarrow> order_terms \<Rightarrow> escrow_error + string" where
  "compute_order_id et t = then_check (order_args et t) (hash_of et ORDER_TYPES)"

section \<open>Venue-side derivations\<close>

text \<open>A key is a hex string or the bytes themselves.\<close>

datatype hmac_key = HexKey string | RawKey string

definition key_bytes :: "ethers \<Rightarrow> hmac_key \<Rightarrow> escrow_error + string" where
  "key_bytes et k = (case k of HexKey s \<Rightarrow> ethers_call (et_bytes et s) | RawKey b \<Rightarrow> Inr b)"

definition DEST_BLINDING_TAG :: string where "DEST_BLINDING_TAG = ''riddler/dest-blinding/v1''"
definition FILL_SALT_TAG :: string where "FILL_SALT_TAG = ''riddler/fill-salt/v1''"

definition derive_dest_blinding :: "ethers \<Rightarrow> hmac_key \<Rightarrow> jsval \<Rightarrow> string \<Rightarrow> string \<Rightarrow> escrow_error + string" where
  "derive_dest_blinding et k chain escrow intent =
     (if \<not> evm_address escrow then Inl BadEscrowAddress
      else if intent = [] then Inl EmptyIntentId
      else then_check (key_bytes et k) (\<lambda>kb. if kb = [] then Inl (EmptyHmacKey ''blinding key'')
        else then_check (to_uint ''fromChainId'' chain) (\<lambda>n.
          then_check (ethers_call (et_concat et [et_utf8 et DEST_BLINDING_TAG, et_be32 et n, to_lower escrow, et_utf8 et intent])) (\<lambda>m.
            Inr (to_lower (et_hmac et kb m))))))"

definition normalize_bytes32 :: "string \<Rightarrow> string \<Rightarrow> escrow_error + string" where
  "normalize_bytes32 field v = (let w = (if starts_with v ''0x'' then v else ''0x'' @ v) in
     if bytes32 w then Inr (to_lower w) else Inl (BadBytes32 field))"

definition derive_fill_salt :: "ethers \<Rightarrow> hmac_key \<Rightarrow> string \<Rightarrow> escrow_error + string" where
  "derive_fill_salt et k order =
     then_check (normalize_bytes32 ''orderId'' order) (\<lambda>i.
     then_check (key_bytes et k) (\<lambda>kb. if kb = [] then Inl (EmptyHmacKey ''fill salt key'')
       else then_check (ethers_call (et_concat et [et_utf8 et FILL_SALT_TAG, i])) (\<lambda>m. Inr (to_lower (et_hmac et kb m)))))"

definition compute_fill_id :: "ethers \<Rightarrow> string \<Rightarrow> string \<Rightarrow> escrow_error + string" where
  "compute_fill_id et order salt =
     then_check (normalize_bytes32 ''orderId'' order) (\<lambda>i.
     then_check (normalize_bytes32 ''fillSalt'' salt) (\<lambda>s.
       hash_of et [''bytes32'', ''bytes32''] [AStr i, AStr s]))"

section \<open>Digests of the escrow contracts\<close>

record contract_domain =
  cd_chainId :: jsval
  cd_verifyingContract :: string

definition named_domain :: "string \<Rightarrow> string \<Rightarrow> contract_domain \<Rightarrow> escrow_error + domain" where
  "named_domain name version d = then_check (to_uint ''domain.chainId'' (cd_chainId d)) (\<lambda>n.
     Inr \<lparr>dm_name = name, dm_version = version, dm_chainId = n, dm_verifyingContract = cd_verifyingContract d\<rparr>)"

definition separator :: "ethers \<Rightarrow> string \<Rightarrow> string \<Rightarrow> contract_domain \<Rightarrow> escrow_error + string" where
  "separator et name version d = then_check (named_domain name version d) (\<lambda>nd. ethers_call (et_hash_domain et nd))"

definition open_auth_domain_separator :: "ethers \<Rightarrow> contract_domain \<Rightarrow> escrow_error + string" where
  "open_auth_domain_separator et = separator et ''RiddlerEscrow'' ''1''"

definition open_auth_struct_hash :: "ethers \<Rightarrow> string \<Rightarrow> jsval \<Rightarrow> escrow_error + string" where
  "open_auth_struct_hash et order expiry = then_check (to_uint ''expiry'' expiry) (\<lambda>n.
     hash_of et [''bytes32'', ''bytes32'', ''uint256'']
       [AStr (et_id et ''OpenAuth(bytes32 orderId,uint256 expiry)''), AStr order, AUint n])"

definition open_auth_digest :: "ethers \<Rightarrow> contract_domain \<Rightarrow> string \<Rightarrow> jsval \<Rightarrow> escrow_error + string" where
  "open_auth_digest et d order expiry = then_check (open_auth_domain_separator et d) (\<lambda>sep.
     then_check (open_auth_struct_hash et order expiry) (typed_digest et sep))"

record fill_auth =
  fa_fillId :: string
  fa_filler :: string
  fa_to :: string
  fa_token :: string
  fa_amount :: jsval
  fa_deadline :: jsval

definition FILL_AUTH_TYPE :: string where
  "FILL_AUTH_TYPE = ''FillAuth(bytes32 fillId,address filler,address to,address token,uint256 amount,uint256 deadline)''"

definition FILL_AUTH_TYPES :: "string list" where
  "FILL_AUTH_TYPES = [''bytes32'', ''bytes32'', ''address'', ''address'', ''address'', ''uint256'', ''uint256'']"

definition fill_auth_domain_separator :: "ethers \<Rightarrow> contract_domain \<Rightarrow> escrow_error + string" where
  "fill_auth_domain_separator et = separator et ''RiddlerFiller'' ''1''"

definition fill_auth_struct_hash :: "ethers \<Rightarrow> fill_auth \<Rightarrow> escrow_error + string" where
  "fill_auth_struct_hash et a = then_check (to_uint ''amount'' (fa_amount a)) (\<lambda>n.
     then_check (to_uint ''deadline'' (fa_deadline a)) (\<lambda>dl.
       hash_of et FILL_AUTH_TYPES [AStr (et_id et FILL_AUTH_TYPE), AStr (fa_fillId a), AStr (to_lower (fa_filler a)),
         AStr (to_lower (fa_to a)), AStr (to_lower (fa_token a)), AUint n, AUint dl]))"

definition fill_auth_digest :: "ethers \<Rightarrow> contract_domain \<Rightarrow> fill_auth \<Rightarrow> escrow_error + string" where
  "fill_auth_digest et d a = then_check (fill_auth_domain_separator et d) (\<lambda>sep.
     then_check (fill_auth_struct_hash et a) (typed_digest et sep))"

definition fill_attestation_domain_separator :: "ethers \<Rightarrow> contract_domain \<Rightarrow> escrow_error + string" where
  "fill_attestation_domain_separator et = separator et ''RiddlerFillAttestation'' ''1''"

definition fill_attestation_struct_hash :: "ethers \<Rightarrow> string \<Rightarrow> string \<Rightarrow> escrow_error + string" where
  "fill_attestation_struct_hash et order payee = hash_of et [''bytes32'', ''bytes32'', ''address'']
     [AStr (et_id et ''FillAttestation(bytes32 orderId,address payee)''), AStr order, AStr (to_lower payee)]"

definition fill_attestation_digest :: "ethers \<Rightarrow> contract_domain \<Rightarrow> string \<Rightarrow> string \<Rightarrow> escrow_error + string" where
  "fill_attestation_digest et d order payee = then_check (fill_attestation_domain_separator et d) (\<lambda>sep.
     then_check (fill_attestation_struct_hash et order payee) (typed_digest et sep))"

definition encode_attested_proof :: "ethers \<Rightarrow> string \<Rightarrow> string \<Rightarrow> escrow_error + string" where
  "encode_attested_proof et payee signature =
     then_check (ethers_call (et_encode et [''address'', ''bytes''] [AStr (to_lower payee), AStr signature])) (\<lambda>b. Inr (to_lower b))"

record slash_claim =
  sc_orderId :: string
  sc_solver :: string
  sc_beneficiary :: string
  sc_notional :: jsval
  sc_originChainId :: jsval
  sc_escrow :: string
  sc_deadline :: jsval

definition SLASH_ATTESTATION_TYPE :: string where
  "SLASH_ATTESTATION_TYPE = ''SlashAttestation(bytes32 orderId,address solver,address beneficiary,uint256 notional,uint256 originChainId,address escrow,uint256 deadline)''"

definition solver_bond_separator :: "ethers \<Rightarrow> contract_domain \<Rightarrow> escrow_error + string" where
  "solver_bond_separator et = separator et ''RiddlerSolverBond'' ''2''"

definition slash_attestation_struct_hash :: "ethers \<Rightarrow> slash_claim \<Rightarrow> escrow_error + string" where
  "slash_attestation_struct_hash et c =
     then_check (to_uint ''notional'' (sc_notional c)) (\<lambda>n.
     then_check (to_uint ''originChainId'' (sc_originChainId c)) (\<lambda>oc.
     then_check (to_uint ''deadline'' (sc_deadline c)) (\<lambda>dl.
       hash_of et [''bytes32'', ''bytes32'', ''address'', ''address'', ''uint256'', ''uint256'', ''address'', ''uint256'']
         [AStr (et_id et SLASH_ATTESTATION_TYPE), AStr (sc_orderId c), AStr (to_lower (sc_solver c)),
          AStr (to_lower (sc_beneficiary c)), AUint n, AUint oc, AStr (to_lower (sc_escrow c)), AUint dl])))"

definition slash_attestation_digest :: "ethers \<Rightarrow> contract_domain \<Rightarrow> slash_claim \<Rightarrow> escrow_error + string" where
  "slash_attestation_digest et d c = then_check (solver_bond_separator et d) (\<lambda>sep.
     then_check (slash_attestation_struct_hash et c) (typed_digest et sep))"

record fill_acceptance =
  fc_orderId :: string
  fc_originChainId :: jsval
  fc_escrow :: string
  fc_filler :: string
  fc_deadline :: jsval
  fc_fillAuth :: string

definition FILL_ACCEPTANCE_TYPE :: string where
  "FILL_ACCEPTANCE_TYPE = ''FillAcceptance(bytes32 orderId,uint256 originChainId,address escrow,address filler,uint256 deadline,bytes32 fillAuth)''"

definition fill_acceptance_of ::
  "ethers \<Rightarrow> string \<Rightarrow> jsval \<Rightarrow> string \<Rightarrow> contract_domain \<Rightarrow> fill_auth \<Rightarrow> escrow_error + fill_acceptance" where
  "fill_acceptance_of et order origin escrow d a =
     then_check (normalize_bytes32 ''orderId'' order) (\<lambda>i.
     then_check (fill_auth_digest et d a) (\<lambda>dg.
       Inr \<lparr>fc_orderId = i, fc_originChainId = origin, fc_escrow = escrow, fc_filler = fa_filler a,
         fc_deadline = fa_deadline a, fc_fillAuth = dg\<rparr>))"

definition fill_acceptance_struct_hash :: "ethers \<Rightarrow> fill_acceptance \<Rightarrow> escrow_error + string" where
  "fill_acceptance_struct_hash et a =
     then_check (normalize_bytes32 ''orderId'' (fc_orderId a)) (\<lambda>i.
     then_check (to_uint ''originChainId'' (fc_originChainId a)) (\<lambda>oc.
     then_check (to_uint ''deadline'' (fc_deadline a)) (\<lambda>dl.
     then_check (normalize_bytes32 ''fillAuth'' (fc_fillAuth a)) (\<lambda>fa.
       hash_of et [''bytes32'', ''bytes32'', ''uint256'', ''address'', ''address'', ''uint256'', ''bytes32'']
         [AStr (et_id et FILL_ACCEPTANCE_TYPE), AStr i, AUint oc, AStr (to_lower (fc_escrow a)),
          AStr (to_lower (fc_filler a)), AUint dl, AStr fa]))))"

definition fill_acceptance_digest :: "ethers \<Rightarrow> contract_domain \<Rightarrow> fill_acceptance \<Rightarrow> escrow_error + string" where
  "fill_acceptance_digest et d a = then_check (solver_bond_separator et d) (\<lambda>sep.
     then_check (fill_acceptance_struct_hash et a) (typed_digest et sep))"

section \<open>The guard before a pull\<close>

datatype pull_auth =
    Erc3009Pull string string jsval string
  | Permit2Pull string string jsval jsval

fun pa_spender :: "pull_auth \<Rightarrow> string" where
  "pa_spender (Erc3009Pull to1 _ _ _) = to1"
| "pa_spender (Permit2Pull sp _ _ _) = sp"

fun pa_token :: "pull_auth \<Rightarrow> string" where
  "pa_token (Erc3009Pull _ tk _ _) = tk"
| "pa_token (Permit2Pull _ tk _ _) = tk"

fun pa_amount :: "pull_auth \<Rightarrow> jsval" where
  "pa_amount (Erc3009Pull _ _ n _) = n"
| "pa_amount (Permit2Pull _ _ n _) = n"

record escrow_binding =
  eb_signer :: string
  eb_recipient :: string
  eb_toToken :: string
  eb_toChainId :: jsval
  eb_minOut :: jsval
  eb_terms :: order_terms
  eb_opening :: dest_opening
  eb_quotedOrderId :: string
  eb_pullAuth :: pull_auth
  eb_expectedEscrows :: jsval

definition eq_addr :: "string \<Rightarrow> string \<Rightarrow> bool" where
  "eq_addr a b \<longleftrightarrow> to_lower a = to_lower b"

definition pinned_escrow_for :: "jsval \<Rightarrow> jsval \<Rightarrow> escrow_error + string" where
  "pinned_escrow_for pin chain = (case pin of
     VObj ob \<Rightarrow> then_check (to_uint ''terms.fromChainId'' chain) (\<lambda>n.
       case resolve_pinned_escrow ob n of
         Inl e \<Rightarrow> Inl (PinRefused e)
       | Inr None \<Rightarrow> Inl (NoPinnedEscrow n)
       | Inr (Some a) \<Rightarrow> Inr a)
   | _ \<Rightarrow> Inl PinRequired)"

definition same_key :: "ethers \<Rightarrow> string \<Rightarrow> string \<Rightarrow> string \<Rightarrow> escrow_error check" where
  "same_key et field a b = then_check (canonical_key et a) (\<lambda>x. then_check (canonical_key et b) (\<lambda>y.
     refuse_if (x \<noteq> y) (Unbound field)))"

definition pull_names_order :: "pull_auth \<Rightarrow> string \<Rightarrow> escrow_error check" where
  "pull_names_order pa order = (case pa of
     Erc3009Pull _ _ _ nonce \<Rightarrow> then_check (normalize_bytes32 ''erc3009 nonce'' nonce) (\<lambda>n. refuse_if (n \<noteq> order) (Unbound ''nonce''))
   | Permit2Pull _ _ _ (VStr w) \<Rightarrow> then_check (normalize_bytes32 ''permit2 witness orderId'' w) (\<lambda>n. refuse_if (n \<noteq> order) (Unbound ''witness''))
   | Permit2Pull _ _ _ _ \<Rightarrow> Inl (Unbound ''witness''))"

definition assert_escrow_binding :: "ethers \<Rightarrow> escrow_binding \<Rightarrow> escrow_error + string" where
  "assert_escrow_binding et b = (let t = eb_terms b; d = eb_opening b; pa = eb_pullAuth b in
     then_check (pinned_escrow_for (eb_expectedEscrows b) (ot_fromChainId t)) (\<lambda>escrow.
     then_check (same_key et ''recipient'' (do_recipient d) (eb_recipient b)) (\<lambda>_.
     then_check (same_key et ''toToken'' (do_toToken d) (eb_toToken b)) (\<lambda>_.
     then_check (to_uint ''opening.toAmount'' (do_toAmount d)) (\<lambda>amount.
     then_check (to_uint ''minOut'' (eb_minOut b)) (\<lambda>least.
     then_check (refuse_if (amount < least) (Unbound ''toAmount'')) (\<lambda>_.
     then_check (assert_blinding (do_blinding d)) (\<lambda>_.
     then_check (if nullish (eb_toChainId b) then Inl (Unbound ''toChainId'') else
       then_check (to_uint ''terms.toChainId'' (ot_toChainId t)) (\<lambda>x. then_check (to_uint ''toChainId'' (eb_toChainId b)) (\<lambda>y.
         refuse_if (x \<noteq> y) (Unbound ''toChainId'')))) (\<lambda>_.
     then_check (compute_dest_commitment et d) (\<lambda>commitment.
     then_check (normalize_bytes32 ''terms.destCommitment'' (ot_destCommitment t)) (\<lambda>carried.
     then_check (refuse_if (carried \<noteq> commitment) (Unbound ''destCommitment'')) (\<lambda>_.
     then_check (compute_order_id et t) (\<lambda>order.
     then_check (normalize_bytes32 ''quotedOrderId'' (eb_quotedOrderId b)) (\<lambda>quoted.
     then_check (refuse_if (quoted \<noteq> order) (Unbound ''orderId'')) (\<lambda>_.
     then_check (refuse_if (\<not> eq_addr (ot_escrow t) escrow) (Unbound ''escrow'')) (\<lambda>_.
     then_check (refuse_if (\<not> eq_addr (pa_spender pa) escrow) (Unbound ''spender'')) (\<lambda>_.
     then_check (refuse_if (\<not> eq_addr (ot_depositor t) (eb_signer b)) (Unbound ''depositor'')) (\<lambda>_.
     then_check (refuse_if (\<not> eq_addr (ot_fromToken t) (pa_token pa)) (Unbound ''fromToken'')) (\<lambda>_.
     then_check (to_uint ''terms.fromAmount'' (ot_fromAmount t)) (\<lambda>x. then_check (to_uint ''pull-auth amount'' (pa_amount pa)) (\<lambda>y.
     then_check (refuse_if (x \<noteq> y) (Unbound ''fromAmount'')) (\<lambda>_.
     then_check (pull_names_order pa order) (\<lambda>_. Inr order)))))))))))))))))))))))"

section \<open>Spellings\<close>

lemma to_uint_ok: "to_uint f v = Inr n \<longleftrightarrow> uint_spelling v True = Some n \<and> 0 \<le> n \<and> n \<le> UINT256_MAX"
  by (auto simp: to_uint_def split: option.split)

lemma parse_uint_ok: "parse_uint f b v = Inr n \<longleftrightarrow> uint_spelling v b = Some n \<and> 0 \<le> n"
  by (auto simp: parse_uint_def split: option.split)

lemma spelling_VBig [simp]: "uint_spelling (VBig n) b = Some n"
  by (simp add: uint_spelling_def)

lemma spelling_digits: "all_digits s \<Longrightarrow> uint_spelling (VStr s) True = Some (int (digits_val 10 s))"
  by (simp add: uint_spelling_def big_int_digits)

lemma show_nat_0: "show_nat 0 = ''0''"
  by (simp add: show_nat.simps digit_char_def char_of_def bit_0)

lemma digits_val_snoc: "digits_val 10 (s @ [c]) = 10 * digits_val 10 s + digit_val c"
  by (simp add: digits_val_def)

lemma digit_char_val: "is_digit c \<Longrightarrow> digit_char (digit_val c) = c"
  by (auto simp: is_digit_def digit_char_def digit_val_def code_def Let_def)

lemma digit_val_less: "is_digit c \<Longrightarrow> digit_val c < 10"
  by (auto simp: is_digit_def digit_val_def code_def Let_def)

lemma show_digits_val:
  "canonical_digits s \<Longrightarrow> show_nat (digits_val 10 s) = s"
proof (induction s rule: rev_induct)
  case Nil
  then show ?case by (simp add: canonical_digits_def all_digits_def)
next
  case (snoc c s)
  show ?case
  proof (cases s)
    case Nil
    with snoc.prems have "is_digit c" by (auto simp: canonical_digits_def all_digits_def is_digit_def code_def)
    with Nil show ?thesis
      by (simp add: digits_val_def show_nat.simps digit_val_less digit_char_val)
  next
    case (Cons d ds)
    with snoc.prems have c: "is_digit c" "all_digits s" "d \<noteq> CHR ''0''" "is_digit d"
      by (auto simp: canonical_digits_def all_digits_def)
    then have s: "canonical_digits s" using Cons by (simp add: canonical_digits_def)
    then have s': "show_nat (digits_val 10 s) = s" by (rule snoc.IH)
    have "digits_val 10 s \<noteq> 0"
    proof
      assume "digits_val 10 s = 0"
      with s' have "s = ''0''" by (simp add: show_nat_0)
      with Cons c(3) show False by simp
    qed
    then show ?thesis using s' digit_val_less [OF c(1)] digit_char_val [OF c(1)]
      by (simp add: digits_val_snoc show_nat.simps [of "10 * _ + _"])
  qed
qed

lemma show_nat_canonical: "canonical_digits (show_nat n)"
proof (induction n rule: show_nat.induct)
  case (1 n)
  show ?case
  proof (cases "n < 10")
    case True
    then have "n = 0 \<or> n = 1 \<or> n = 2 \<or> n = 3 \<or> n = 4 \<or> n = 5 \<or> n = 6 \<or> n = 7 \<or> n = 8 \<or> n = 9" by arith
    then show ?thesis
      by (elim disjE) (simp_all add: show_nat.simps canonical_digits_def all_digits_def digit_char_def is_digit_def code_def)
  next
    case False
    with 1 have "canonical_digits (show_nat (n div 10))" by simp
    moreover have "show_nat (n div 10) \<noteq> ''0''"
    proof
      assume "show_nat (n div 10) = ''0''"
      then have "n div 10 = 0" using digits_val_show_nat [of "n div 10"] by (simp add: digits_val_def digit_val_def code_def)
      with False show False by simp
    qed
    ultimately have "hd (show_nat (n div 10)) \<noteq> CHR ''0''" "show_nat (n div 10) \<noteq> []"
      by (auto simp: canonical_digits_def all_digits_def)
    then show ?thesis using False all_digits_show_natI [of n]
      unfolding canonical_digits_def by (subst (asm) show_nat.simps, subst (1 2 3) show_nat.simps) simp
  qed
qed

text \<open>
  The strict reading of an unsigned integer has one spelling per value: a string is read as the
  number n exactly when it is what JavaScript prints for n, so neither white space, a sign, a prefix, an
  exponent nor a leading zero spells any value twice.
\<close>

lemma strict_uint_roundtrip: "parse_uint f False (VStr s) = Inr n \<longleftrightarrow> 0 \<le> n \<and> s = show_int n"
proof -
  have "s = show_nat (nat n)" if "canonical_digits s" "big_int s = Some n" "0 \<le> n"
  proof -
    have "all_digits s" using that(1) by (auto simp: canonical_digits_def all_digits_def is_digit_def code_def)
    then have "n = int (digits_val 10 s)" using that(2) by (simp add: big_int_digits)
    then show ?thesis using show_digits_val [OF that(1)] by simp
  qed
  moreover have "big_int (show_nat (nat n)) = Some n" if "0 \<le> n"
    using that big_int_show_int [of n] by (simp add: show_int_def)
  ultimately show ?thesis using show_nat_canonical
    by (auto simp: parse_uint_ok uint_spelling_def show_int_def split: if_splits)
qed

section \<open>What a hash binds\<close>

text \<open>
  ABI encoding is injective: equal encodings of fitting values have equal words. Strings of bytes and
  addresses stand for the value of their hex digits; \<open>zeroPadValue\<close> and \<open>toUtf8Bytes\<close> are injective.
\<close>

definition hex_value :: "string \<Rightarrow> string" where
  "hex_value s = (let t = to_lower s in if starts_with t ''0x'' then drop 2 t else t)"

fun same_word :: "abi \<Rightarrow> abi \<Rightarrow> bool" where
  "same_word (AUint m) (AUint n) = (m = n)"
| "same_word (AStr a) (AStr b) = (hex_value a = hex_value b)"
| "same_word _ _ = False"

fun fits :: "string \<Rightarrow> abi \<Rightarrow> bool" where
  "fits ty (AUint n) = (ty = ''uint256'')"
| "fits ty (AStr s) = (ty = ''bytes32'' \<or> ty = ''address'' \<and> to_lower s = s)"

definition coder_injective :: "ethers \<Rightarrow> bool" where
  "coder_injective et \<longleftrightarrow>
     (\<forall>types a b x. list_all2 fits types a \<longrightarrow> list_all2 fits types b \<longrightarrow>
        et_encode et types a = Some x \<longrightarrow> et_encode et types b = Some x \<longrightarrow> list_all2 same_word a b) \<and>
     (\<forall>a b. evm_address a \<longrightarrow> evm_address b \<longrightarrow>
        hex_value (to_lower (et_pad32 et (to_lower a))) = hex_value (to_lower (et_pad32 et (to_lower b))) \<longrightarrow> to_lower a = to_lower b) \<and>
     (\<forall>a b. et_utf8 et a = et_utf8 et b \<longrightarrow> a = b)"

text \<open>On the strings actually hashed, keccak has no collision and hits no padded address.\<close>

definition hashes_apart :: "ethers \<Rightarrow> string set \<Rightarrow> bool" where
  "hashes_apart et S \<longleftrightarrow> (\<forall>x \<in> S. \<forall>y \<in> S. hex_value (et_keccak et x) = hex_value (et_keccak et y) \<longrightarrow> x = y) \<and>
     (\<forall>x \<in> S. \<forall>a. evm_address a \<longrightarrow> hex_value (et_keccak et x) \<noteq> hex_value (to_lower (et_pad32 et (to_lower a))))"

definition encoded :: "ethers \<Rightarrow> string list \<Rightarrow> escrow_error + abi list \<Rightarrow> string set" where
  "encoded et types r = (case r of Inl _ \<Rightarrow> {} | Inr vals \<Rightarrow> set_option (et_encode et types vals))"

definition hashed_strings :: "ethers \<Rightarrow> dest_opening \<Rightarrow> order_terms \<Rightarrow> string set" where
  "hashed_strings et d t = et_utf8 et ` {do_recipient d, do_toToken d, do_intentId d}
     \<union> encoded et DEST_TYPES (dest_args et d) \<union> encoded et ORDER_TYPES (order_args et t)"

text \<open>Two names of one party or token: equal strings, or equal EVM addresses in any case.\<close>

definition same_party :: "string \<Rightarrow> string \<Rightarrow> bool" where
  "same_party a b \<longleftrightarrow> a = b \<or> evm_address a \<and> evm_address b \<and> eq_addr a b"

definition same_opening :: "dest_opening \<Rightarrow> dest_opening \<Rightarrow> bool" where
  "same_opening d e \<longleftrightarrow> same_party (do_recipient d) (do_recipient e) \<and> same_party (do_toToken d) (do_toToken e)
     \<and> to_uint [] (do_toAmount d) = to_uint [] (do_toAmount e)
     \<and> hex_value (do_blinding d) = hex_value (do_blinding e) \<and> do_intentId d = do_intentId e"

definition same_uint :: "jsval \<Rightarrow> jsval \<Rightarrow> bool" where
  "same_uint v w \<longleftrightarrow> (\<exists>n. to_uint [] v = Inr n \<and> to_uint [] w = Inr n)"

definition same_address :: "string \<Rightarrow> string \<Rightarrow> bool" where
  "same_address a b \<longleftrightarrow> hex_value a = hex_value b"

definition same_terms :: "order_terms \<Rightarrow> order_terms \<Rightarrow> bool" where
  "same_terms t u \<longleftrightarrow> same_address (ot_depositor t) (ot_depositor u) \<and> same_uint (ot_fromChainId t) (ot_fromChainId u)
     \<and> same_address (ot_fromToken t) (ot_fromToken u) \<and> same_uint (ot_fromAmount t) (ot_fromAmount u)
     \<and> same_uint (ot_toChainId t) (ot_toChainId u) \<and> same_uint (ot_fillDeadline t) (ot_fillDeadline u)
     \<and> same_address (ot_escrow t) (ot_escrow u) \<and> hex_value (ot_destCommitment t) = hex_value (ot_destCommitment u)"

lemma hex_value_lower [simp]: "hex_value (to_lower s) = hex_value s"
  by (simp add: hex_value_def)

lemma eq_addr_same: "eq_addr a b \<Longrightarrow> same_address a b"
  by (simp add: eq_addr_def same_address_def hex_value_def)

lemma same_address_trans: "same_address a b \<Longrightarrow> same_address b c \<Longrightarrow> same_address a c"
  by (simp add: same_address_def)

lemma canonical_key_lower: "canonical_key et s = Inr k \<Longrightarrow> hex_value k = hex_value (if evm_address s then to_lower (et_pad32 et (to_lower s)) else et_keccak et (et_utf8 et s))"
  by (auto simp: canonical_key_def split: if_splits)

lemma key_binds:
  assumes "canonical_key et a = Inr k" "canonical_key et b = Inr l" "hex_value k = hex_value l"
    and "coder_injective et" "hashes_apart et S" "et_utf8 et a \<in> S" "et_utf8 et b \<in> S"
  shows "same_party a b"
proof -
  note eq = assms(3) [unfolded canonical_key_lower [OF assms(1)] canonical_key_lower [OF assms(2)]]
  consider "evm_address a" "evm_address b" | "\<not> evm_address a" "\<not> evm_address b" | "evm_address a \<noteq> evm_address b" by blast
  then show ?thesis
  proof cases
    case 1
    then show ?thesis using eq assms(4) by (simp add: coder_injective_def same_party_def eq_addr_def)
  next
    case 2
    then have "et_utf8 et a = et_utf8 et b" using eq assms(5-7) by (simp add: hashes_apart_def)
    then show ?thesis using assms(4) by (simp add: coder_injective_def same_party_def)
  next
    case 3
    then show ?thesis using eq assms(5-7) unfolding hashes_apart_def by (auto split: if_splits) metis+
  qed
qed

lemma hash_binds:
  assumes "hash_of et types a = Inr h" "hash_of et types b = Inr k" "hex_value h = hex_value k"
    and "coder_injective et" "hashes_apart et S" "set_option (et_encode et types a) \<subseteq> S" "set_option (et_encode et types b) \<subseteq> S"
    and "list_all2 fits types a" "list_all2 fits types b"
  shows "list_all2 same_word a b"
proof -
  from assms(1) obtain x where x: "et_encode et types a = Some x" "h = et_keccak et x"
    by (auto simp: hash_of_def ethers_call_def split: option.splits)
  from assms(2) obtain y where y: "et_encode et types b = Some y" "k = et_keccak et y"
    by (auto simp: hash_of_def ethers_call_def split: option.splits)
  have "x = y" using assms(3,5-7) x y by (auto simp: hashes_apart_def)
  then show ?thesis using assms(4,8,9) x(1) y(1) unfolding coder_injective_def by blast
qed

lemma to_uint_label: "to_uint f v = Inr n \<longleftrightarrow> to_uint [] v = Inr n"
  by (simp add: to_uint_ok)

lemma dest_binds:
  assumes "compute_dest_commitment et d = Inr h" "compute_dest_commitment et e = Inr k" "hex_value h = hex_value k"
    and "coder_injective et" "hashes_apart et (hashed_strings et d t \<union> hashed_strings et e u)" (is "hashes_apart et ?S")
  shows "same_opening d e"
proof -
  obtain a b where ab: "dest_args et d = Inr a" "dest_args et e = Inr b"
    "hash_of et DEST_TYPES a = Inr h" "hash_of et DEST_TYPES b = Inr k"
    using assms(1,2) by (auto simp: compute_dest_commitment_def)
  have "list_all2 fits DEST_TYPES a" "list_all2 fits DEST_TYPES b"
    using ab(1,2) by (auto simp: dest_args_def DEST_TYPES_def)
  then have w: "list_all2 same_word a b"
    using hash_binds [OF ab(3,4) assms(3,4,5)] ab(1,2) by (auto simp: hashed_strings_def encoded_def)
  have u: "et_utf8 et s \<in> ?S" if "s \<in> {do_recipient d, do_toToken d, do_intentId d, do_recipient e, do_toToken e, do_intentId e}" for s
    using that by (auto simp: hashed_strings_def)
  obtain rk tk rl tl where k: "canonical_key et (do_recipient d) = Inr rk" "canonical_key et (do_recipient e) = Inr rl"
    "canonical_key et (do_toToken d) = Inr tk" "canonical_key et (do_toToken e) = Inr tl" "hex_value rk = hex_value rl" "hex_value tk = hex_value tl"
    using w ab(1,2) by (auto simp: dest_args_def)
  have "same_party (do_recipient d) (do_recipient e)" "same_party (do_toToken d) (do_toToken e)"
    by (rule key_binds [OF k(1,2,5) assms(4,5) u u], simp_all, rule key_binds [OF k(3,4,6) assms(4,5) u u], simp_all)
  moreover have "do_intentId d = do_intentId e"
  proof -
    have "et_utf8 et (do_intentId d) = et_utf8 et (do_intentId e)"
      using w ab(1,2) u assms(5) by (auto simp: dest_args_def compute_intent_id_hash_def hashes_apart_def split: if_splits)
    then show ?thesis using assms(4) by (simp add: coder_injective_def)
  qed
  moreover have "to_uint [] (do_toAmount d) = to_uint [] (do_toAmount e)" "hex_value (do_blinding d) = hex_value (do_blinding e)"
    using w ab(1,2) by (auto simp: dest_args_def to_uint_label [of "''toAmount''"])
  ultimately show ?thesis by (simp add: same_opening_def)
qed

lemma order_binds:
  assumes "compute_order_id et t = Inr h" "compute_order_id et u = Inr k" "hex_value h = hex_value k"
    and "coder_injective et" "hashes_apart et (hashed_strings et d t \<union> hashed_strings et e u)"
  shows "same_terms t u"
proof -
  obtain a b where ab: "order_args et t = Inr a" "order_args et u = Inr b"
    "hash_of et ORDER_TYPES a = Inr h" "hash_of et ORDER_TYPES b = Inr k"
    using assms(1,2) by (auto simp: compute_order_id_def)
  have "list_all2 fits ORDER_TYPES a" "list_all2 fits ORDER_TYPES b"
    using ab(1,2) by (auto simp: order_args_def ORDER_TYPES_def)
  then have "list_all2 same_word a b"
    using hash_binds [OF ab(3,4) assms(3,4,5)] ab(1,2) by (auto simp: hashed_strings_def encoded_def)
  then show ?thesis using ab(1,2)
    by (auto simp: order_args_def same_terms_def same_address_def same_uint_def to_uint_label [of "''fromChainId''"]
      to_uint_label [of "''fromAmount''"] to_uint_label [of "''toChainId''"] to_uint_label [of "''fillDeadline''"])
qed

text \<open>An order: the terms of a lock with the commitment of its destination.\<close>

definition opens_order :: "ethers \<Rightarrow> dest_opening \<Rightarrow> order_terms \<Rightarrow> string \<Rightarrow> bool" where
  "opens_order et d t oid \<longleftrightarrow> (\<exists>c h. compute_dest_commitment et d = Inr c \<and> hex_value (ot_destCommitment t) = hex_value c
     \<and> compute_order_id et t = Inr h \<and> hex_value h = hex_value oid)"

text \<open>The order id binds the whole order: two orders of one id, among strings keccak tells apart, are the same.\<close>

lemma order_id_binds:
  assumes "coder_injective et" "hashes_apart et (hashed_strings et d t \<union> hashed_strings et e u)"
    and "opens_order et d t oid" "opens_order et e u oid"
  shows "same_opening d e \<and> same_terms t u"
proof -
  from assms(3) obtain c h where d: "compute_dest_commitment et d = Inr c" "hex_value (ot_destCommitment t) = hex_value c"
    "compute_order_id et t = Inr h" "hex_value h = hex_value oid" unfolding opens_order_def by blast
  from assms(4) obtain c' h' where e: "compute_dest_commitment et e = Inr c'" "hex_value (ot_destCommitment u) = hex_value c'"
    "compute_order_id et u = Inr h'" "hex_value h' = hex_value oid" unfolding opens_order_def by blast
  have terms: "same_terms t u" using order_binds [OF d(3) e(3) _ assms(1,2)] d(4) e(4) by simp
  then have "hex_value c = hex_value c'" using d(2) e(2) by (simp add: same_terms_def)
  with dest_binds [OF d(1) e(1) _ assms(1,2)] terms show ?thesis by simp
qed

section \<open>What an accepted pull pays\<close>

lemma hashes_apart_mono: "hashes_apart et T \<Longrightarrow> S \<subseteq> T \<Longrightarrow> hashes_apart et S"
  unfolding hashes_apart_def by blast

lemma same_party_trans: "same_party a b \<Longrightarrow> same_party b c \<Longrightarrow> same_party a c"
  by (auto simp: same_party_def eq_addr_def)

lemma same_party_sym: "same_party a b \<Longrightarrow> same_party b a"
  by (auto simp: same_party_def eq_addr_def)

lemma same_key_ok: "same_key et f a b = Inr u \<longleftrightarrow> (\<exists>k. canonical_key et a = Inr k \<and> canonical_key et b = Inr k)"
  by (auto simp: same_key_def)

lemma hex_digit_not_x: "is_hex_digit c \<Longrightarrow> lower_char c \<noteq> CHR ''x''"
proof
  assume "is_hex_digit c" "lower_char c = CHR ''x''"
  then have "code (lower_char c) = 120" "code c < 103" by (auto simp: is_hex_digit_def is_digit_def code_def)
  moreover have "code (lower_char c) \<le> code c + 32" by (auto simp: lower_char_def Let_def code_def)
  moreover have "code (lower_char c) = (if 65 \<le> code c \<and> code c \<le> 90 then code c + 32 else code c)" if "code c < 103"
    using that by (auto simp: lower_char_def Let_def code_def)
  ultimately show False using \<open>is_hex_digit c\<close> by (auto simp: is_hex_digit_def is_digit_def split: if_splits)
qed

lemma normalize_bytes32_value:
  assumes "normalize_bytes32 f v = Inr w"
  shows "hex_value w = hex_value v"
proof (cases "starts_with v ''0x''")
  case True
  with assms show ?thesis by (auto simp: normalize_bytes32_def Let_def split: if_splits)
next
  case False
  with assms have w: "bytes32 (''0x'' @ v)" "w = to_lower (''0x'' @ v)" by (auto simp: normalize_bytes32_def Let_def split: if_splits)
  then have "list_all is_hex_digit v" by (simp add: bytes32_def)
  then have "\<not> starts_with (to_lower v) ''0x''"
    using hex_digit_not_x by (cases v; cases "tl v") (auto simp: starts_with_def to_lower_def)
  then show ?thesis using w(2) by (simp add: hex_value_def Let_def) (simp add: to_lower_def starts_with_def lower_char_def code_def)
qed

text \<open>What the guard has established when it returns an order id.\<close>

definition escrow_bound :: "ethers \<Rightarrow> escrow_binding \<Rightarrow> string \<Rightarrow> bool" where
  "escrow_bound et b oid \<longleftrightarrow> (let t = eb_terms b; d = eb_opening b; pa = eb_pullAuth b in
     (\<exists>escrow. pinned_escrow_for (eb_expectedEscrows b) (ot_fromChainId t) = Inr escrow
        \<and> eq_addr (ot_escrow t) escrow \<and> eq_addr (pa_spender pa) escrow) \<and>
     same_key et [] (do_recipient d) (eb_recipient b) = Inr () \<and> same_key et [] (do_toToken d) (eb_toToken b) = Inr () \<and>
     (\<exists>amount least. to_uint [] (do_toAmount d) = Inr amount \<and> to_uint [] (eb_minOut b) = Inr least \<and> least \<le> amount) \<and>
     \<not> nullish (eb_toChainId b) \<and> same_uint (ot_toChainId t) (eb_toChainId b) \<and>
     (\<exists>c. compute_dest_commitment et d = Inr c \<and> normalize_bytes32 [] (ot_destCommitment t) = Inr c) \<and>
     compute_order_id et t = Inr oid \<and> normalize_bytes32 [] (eb_quotedOrderId b) = Inr oid \<and>
     eq_addr (ot_depositor t) (eb_signer b) \<and> eq_addr (ot_fromToken t) (pa_token pa) \<and>
     same_uint (ot_fromAmount t) (pa_amount pa) \<and> pull_names_order pa oid = Inr ())"

lemma no_label:
  "f \<noteq> [] \<Longrightarrow> normalize_bytes32 f v = Inr w \<longleftrightarrow> normalize_bytes32 [] v = Inr w"
  "f \<noteq> [] \<Longrightarrow> to_uint f x = Inr n \<longleftrightarrow> to_uint [] x = Inr n"
  "f \<noteq> [] \<Longrightarrow> same_key et f a b = Inr u \<longleftrightarrow> same_key et [] a b = Inr u"
  by (auto simp: normalize_bytes32_def Let_def to_uint_ok same_key_ok)

lemma committed_blinding: "compute_dest_commitment et d = Inr c \<Longrightarrow> assert_blinding (do_blinding d) = Inr ()"
  by (auto simp: compute_dest_commitment_def)

text \<open>The guard before an escrow pull accepts exactly the bound quotes, with the order id it recomputed.\<close>

lemma escrow_binding_iff: "assert_escrow_binding et b = Inr oid \<longleftrightarrow> escrow_bound et b oid"
  unfolding assert_escrow_binding_def escrow_bound_def Let_def same_uint_def
  by (simp add: no_label split: if_splits) (blast dest: committed_blinding leD leI)

definition hashed_keys :: "ethers \<Rightarrow> escrow_binding \<Rightarrow> string set" where
  "hashed_keys et b = et_utf8 et ` {eb_recipient b, eb_toToken b}"

definition pays_user :: "escrow_binding \<Rightarrow> dest_opening \<Rightarrow> order_terms \<Rightarrow> bool" where
  "pays_user b e u \<longleftrightarrow> (\<exists>escrow. pinned_escrow_for (eb_expectedEscrows b) (ot_fromChainId (eb_terms b)) = Inr escrow
        \<and> same_address (ot_escrow u) escrow \<and> same_address (pa_spender (eb_pullAuth b)) escrow)
     \<and> same_uint (ot_fromChainId u) (ot_fromChainId (eb_terms b)) \<and> same_address (ot_depositor u) (eb_signer b) \<and> same_address (ot_fromToken u) (pa_token (eb_pullAuth b))
     \<and> same_uint (ot_fromAmount u) (pa_amount (eb_pullAuth b))
     \<and> same_uint (ot_toChainId u) (eb_toChainId b)
     \<and> same_party (do_recipient e) (eb_recipient b) \<and> same_party (do_toToken e) (eb_toToken b)
     \<and> (\<exists>amount least. to_uint [] (do_toAmount e) = Inr amount \<and> to_uint [] (eb_minOut b) = Inr least \<and> least \<le> amount)"

lemma same_uint_trans: "same_uint a b \<Longrightarrow> same_uint b c \<Longrightarrow> same_uint a c"
  by (auto simp: same_uint_def)

lemma same_uint_sym: "same_uint a b \<Longrightarrow> same_uint b a"
  by (auto simp: same_uint_def)

lemma same_address_sym: "same_address a b \<Longrightarrow> same_address b a"
  by (simp add: same_address_def)

lemma bound_keys:
  assumes "same_key et f a b = Inr ()" "coder_injective et" "hashes_apart et S" "et_utf8 et a \<in> S" "et_utf8 et b \<in> S"
  shows "same_party a b"
  using assms key_binds by (auto simp: same_key_ok)


end
