(* ===== verification/EscrowVerify.thy ===== *)
theory EscrowVerify
  imports Escrow
begin

text \<open>
  The solver's checks on an escrowed award before it moves inventory: \<open>solver-sdk/src/escrow-verify.ts\<close>,
  over the wire types of \<open>solver-sdk/src/types.ts\<close>. A refusal is its code with the order it names; a plain
  \<open>Error\<close> (a bad spelling, an error of ethers) is \<open>Plain\<close>.
\<close>

section \<open>The award on the wire\<close>

record award_opening =
  ao_recipient :: string
  ao_toToken :: string
  ao_toAmount :: string
  ao_blinding :: string
  ao_intentId :: string

record award_fill_auth =
  af_fillId :: "string option"
  af_filler :: "string option"
  af_to :: "string option"
  af_token :: "string option"
  af_amount :: "string option"
  af_deadline :: "string option"
  af_chainId :: "string option"
  af_fillerContract :: "string option"
  af_signature :: "string option"

record award_order_terms =
  aw_depositor :: string
  aw_fromChainId :: string
  aw_fromToken :: string
  aw_fromAmount :: string
  aw_toChainId :: string
  aw_fillDeadline :: string
  aw_escrow :: string
  aw_destCommitment :: string

record award_bond =
  ab_chainId :: string
  ab_address :: string

record award_escrow =
  ae_address :: string
  ae_intentRef :: string
  ae_fillId :: "string option"
  ae_destOpening :: "award_opening option"
  ae_fillAuth :: "award_fill_auth option"
  ae_orderTerms :: "award_order_terms option"
  ae_payee :: "string option"
  ae_bond :: "award_bond option"
  ae_acceptBy :: "string option"

record award =
  aw_auctionId :: string
  aw_intentId :: string
  aw_solverId :: string
  aw_output :: string
  aw_exclusiveUntil :: num
  aw_escrowEnvelope :: "award_escrow option"

record announcement =
  an_intentId :: string
  an_auctionId :: string
  an_orderId :: string
  an_fromChainId :: num
  an_toChainId :: num
  an_fromToken :: string
  an_toToken :: string
  an_fromAmount :: "string option"

record attestation_wire =
  at_orderId :: string
  at_payee :: string
  at_signature :: string
  at_proof :: string
  at_verifier :: string
  at_chainId :: string

section \<open>Refusals\<close>

datatype escrow_refusal =
    MalformedAward | WrongEscrow | WrongChain | OrderIdMismatch | AnnouncementMismatch | NotEvmFillable
  | FillAuthMismatch | NotFinal | OpenedMismatch | LockNotOpen | WindowClosed | AuthExpired | AlreadyFilled
  | InsufficientInventory | InsufficientAllowance | SimulationFailed | InDoubtFill | AttestationMismatch
  | AlreadyClaimed | BondMismatch | NotAccepted | AcceptWindowClosed | ClaimsPaused | InsufficientClaimGas

datatype award_error = Refuse escrow_refusal "string option" | Plain escrow_error

type_synonym 'a verdict = "award_error + 'a"

definition plainly :: "escrow_error + 'a \<Rightarrow> 'a verdict" where
  "plainly r = (case r of Inl e \<Rightarrow> Inl (Plain e) | Inr a \<Rightarrow> Inr a)"

text \<open>\<open>BigInt(s)\<close> of a string, and of a value of type \<open>UintLike\<close>.\<close>

definition big_or_throw :: "string \<Rightarrow> int verdict" where
  "big_or_throw s = (case big_int s of None \<Rightarrow> Inl (Plain NotAnInteger) | Some n \<Rightarrow> Inr n)"

definition big_uint :: "jsval \<Rightarrow> int verdict" where
  "big_uint v = (case v of
     VBig n \<Rightarrow> Inr n
   | VStr s \<Rightarrow> big_or_throw s
   | VNum (Fin r) \<Rightarrow> (if is_int_num r then Inr \<lfloor>r\<rfloor> else Inl (Plain NotAnInteger))
   | _ \<Rightarrow> Inl (Plain NotAnInteger))"

section \<open>The envelope\<close>

record fillable =
  fe_address :: string
  fe_orderRef :: string
  fe_fillId :: string
  fe_opening :: award_opening
  fe_acceptBy :: string
  fe_orderTerms :: "award_order_terms option"
  fe_payee :: "string option"
  fe_bond :: "award_bond option"
  fe_auth :: fill_auth
  fe_authChainId :: string
  fe_fillerContract :: string
  fe_signature :: string
  fe_amount :: string

text \<open>\<open>requireFillableEscrow\<close> narrows the optional fields; \<open>fe_amount\<close> is \<open>fillAuth.amount\<close> as a string.\<close>

definition require_fillable_escrow :: "award \<Rightarrow> fillable verdict" where
  "require_fillable_escrow a = (case aw_escrowEnvelope a of
     None \<Rightarrow> Inl (Refuse MalformedAward None)
   | Some e \<Rightarrow> (case (ae_fillId e, ae_destOpening e, ae_fillAuth e, ae_acceptBy e) of
       (Some fid, Some op, Some f, Some by) \<Rightarrow>
         (case (af_fillId f, af_filler f, af_to f, af_token f, af_amount f, af_deadline f, af_chainId f, af_fillerContract f, af_signature f) of
           (Some i, Some filler, Some to1, Some token, Some amount, Some deadline, Some chain, Some contract, Some sig) \<Rightarrow>
             Inr \<lparr>fe_address = ae_address e, fe_orderRef = ae_intentRef e, fe_fillId = fid, fe_opening = op, fe_acceptBy = by,
               fe_orderTerms = ae_orderTerms e, fe_payee = ae_payee e, fe_bond = ae_bond e,
               fe_auth = \<lparr>fa_fillId = i, fa_filler = filler, fa_to = to1, fa_token = token, fa_amount = VStr amount, fa_deadline = VStr deadline\<rparr>,
               fe_authChainId = chain, fe_fillerContract = contract, fe_signature = sig, fe_amount = amount\<rparr>
         | _ \<Rightarrow> Inl (Refuse MalformedAward (Some (ae_intentRef e))))
     | _ \<Rightarrow> Inl (Refuse MalformedAward (Some (ae_intentRef e)))))"

section \<open>The award against the lock\<close>

record origin_terms =
  og_depositor :: string
  og_fromChainId :: jsval
  og_fromToken :: string
  og_fromAmount :: jsval
  og_toChainId :: jsval
  og_fillDeadline :: jsval
  og_escrow :: string

record expectations =
  xp_solver :: string
  xp_originChainId :: jsval
  xp_escrow :: string
  xp_destinationChainId :: jsval
  xp_fillerContract :: string
  xp_originTerms :: origin_terms
  xp_announcement :: "announcement option"
  xp_bidOutput :: jsval

record verified_award =
  va_orderId :: string
  va_fillId :: string
  va_opening :: dest_opening
  va_terms :: order_terms
  va_fillAuth :: fill_auth
  va_signature :: string
  va_domainChainId :: int
  va_fillerContract :: string
  va_payee :: string
  va_acceptBy :: int

definition same_uint_as :: "string \<Rightarrow> jsval \<Rightarrow> jsval \<Rightarrow> bool verdict" where
  "same_uint_as field a b = then_check (plainly (parse_uint field True a)) (\<lambda>x.
     then_check (plainly (parse_uint field True b)) (\<lambda>y. Inr (x = y)))"

text \<open>\<open>if (!sameUint(a, b)) throw e\<close>\<close>

definition require_uint :: "string \<Rightarrow> jsval \<Rightarrow> jsval \<Rightarrow> award_error \<Rightarrow> unit verdict" where
  "require_uint field a b e = then_check (same_uint_as field a b) (\<lambda>same. refuse_if (\<not> same) e)"

definition with_commitment :: "origin_terms \<Rightarrow> string \<Rightarrow> order_terms" where
  "with_commitment t c = \<lparr>ot_depositor = og_depositor t, ot_fromChainId = og_fromChainId t, ot_fromToken = og_fromToken t,
     ot_fromAmount = og_fromAmount t, ot_toChainId = og_toChainId t, ot_fillDeadline = og_fillDeadline t,
     ot_escrow = og_escrow t, ot_destCommitment = c\<rparr>"

definition check_announcement :: "ethers \<Rightarrow> award \<Rightarrow> order_terms \<Rightarrow> dest_opening \<Rightarrow> announcement \<Rightarrow> string \<Rightarrow> unit verdict" where
  "check_announcement et a t d ann oid = (let e = Refuse AnnouncementMismatch (Some oid) in check_all [
     refuse_if (an_auctionId ann \<noteq> aw_auctionId a) e,
     refuse_if (to_lower (an_orderId ann) \<noteq> to_lower oid) e,
     refuse_if (an_intentId ann \<noteq> do_intentId d) e,
     require_uint ''fromChainId'' (ot_fromChainId t) (VNum (Fin (an_fromChainId ann))) e,
     require_uint ''toChainId'' (ot_toChainId t) (VNum (Fin (an_toChainId ann))) e,
     refuse_if (\<not> eq_addr (ot_fromToken t) (an_fromToken ann)) e,
     (case an_fromAmount ann of None \<Rightarrow> passed | Some n \<Rightarrow> require_uint ''fromAmount'' (ot_fromAmount t) (VStr n) e),
     then_check (plainly (canonical_key et (do_toToken d))) (\<lambda>x. then_check (plainly (canonical_key et (an_toToken ann))) (\<lambda>y.
       refuse_if (x \<noteq> y) e))])"

definition check_origin :: "fillable \<Rightarrow> expectations \<Rightarrow> unit verdict" where
  "check_origin env x = (let t = xp_originTerms x; ref = Some (fe_orderRef env) in check_all [
     refuse_if (\<not> eq_addr (fe_address env) (xp_escrow x)) (Refuse WrongEscrow ref),
     refuse_if (\<not> eq_addr (og_escrow t) (xp_escrow x)) (Refuse WrongEscrow ref),
     require_uint ''originChainId'' (og_fromChainId t) (xp_originChainId x) (Refuse WrongChain ref),
     require_uint ''destinationChainId'' (og_toChainId t) (xp_destinationChainId x) (Refuse WrongChain ref)])"

definition opening_of :: "award_opening \<Rightarrow> dest_opening" where
  "opening_of p = \<lparr>do_recipient = ao_recipient p, do_toToken = ao_toToken p, do_toAmount = VStr (ao_toAmount p),
     do_blinding = ao_blinding p, do_intentId = ao_intentId p\<rparr>"

text \<open>The commitment and the order id, recomputed and held to what the award names.\<close>

definition recompute_order :: "ethers \<Rightarrow> fillable \<Rightarrow> expectations \<Rightarrow> (order_terms \<times> string) verdict" where
  "recompute_order et env x = (let ref = Some (fe_orderRef env) in
     then_check (case compute_dest_commitment et (opening_of (fe_opening env)) of
         Inl _ \<Rightarrow> Inl (Refuse MalformedAward ref) | Inr c \<Rightarrow> Inr c) (\<lambda>c.
     then_check (case fe_orderTerms env of None \<Rightarrow> passed
       | Some ot \<Rightarrow> refuse_if (to_lower (aw_destCommitment ot) \<noteq> c) (Refuse OrderIdMismatch ref)) (\<lambda>_.
     then_check (plainly (compute_order_id et (with_commitment (xp_originTerms x) c))) (\<lambda>oid.
     then_check (refuse_if (oid \<noteq> to_lower (fe_orderRef env)) (Refuse OrderIdMismatch ref)) (\<lambda>_.
       Inr (with_commitment (xp_originTerms x) c, oid))))))"

definition check_fill_auth :: "fillable \<Rightarrow> expectations \<Rightarrow> award \<Rightarrow> string \<Rightarrow> unit verdict" where
  "check_fill_auth env x a oid = (let f = fe_auth env; p = fe_opening env; e = Refuse FillAuthMismatch (Some oid) in
     then_check (check_all [
       refuse_if (to_lower (fa_fillId f) \<noteq> to_lower (fe_fillId env)) e,
       refuse_if (\<not> eq_addr (fa_filler f) (xp_solver x)) e,
       refuse_if (\<not> eq_addr (fe_fillerContract env) (xp_fillerContract x)) e,
       require_uint ''fillAuth.chainId'' (VStr (fe_authChainId env)) (xp_destinationChainId x) e,
       refuse_if (\<not> eq_addr (fa_to f) (ao_recipient p)) e,
       refuse_if (\<not> eq_addr (fa_token f) (ao_toToken p)) e]) (\<lambda>_.
     then_check (big_or_throw (fe_amount env)) (\<lambda>amount.
     then_check (big_or_throw (ao_toAmount p)) (\<lambda>floor.
     then_check (refuse_if (amount < floor) e) (\<lambda>_.
     then_check (case big_int (aw_output a) of None \<Rightarrow> Inl (Refuse MalformedAward (Some oid)) | Some n \<Rightarrow> Inr n) (\<lambda>awarded.
     then_check (refuse_if (amount > awarded) e) (\<lambda>_.
     then_check (big_uint (xp_bidOutput x)) (\<lambda>bid.
     then_check (refuse_if (amount > bid) e) (\<lambda>_.
       (case fe_payee env of None \<Rightarrow> passed | Some p \<Rightarrow> refuse_if (\<not> eq_addr p (fa_filler f)) e))))))))))"

definition verify_award :: "ethers \<Rightarrow> award \<Rightarrow> expectations \<Rightarrow> verified_award verdict" where
  "verify_award et a x = then_check (require_fillable_escrow a) (\<lambda>env.
     then_check (check_origin env x) (\<lambda>_.
     then_check (recompute_order et env x) (\<lambda>(terms, oid). let d = opening_of (fe_opening env) in
     then_check (refuse_if (do_intentId d \<noteq> aw_intentId a) (Refuse OrderIdMismatch (Some oid))) (\<lambda>_.
     then_check (case xp_announcement x of None \<Rightarrow> passed | Some ann \<Rightarrow> check_announcement et a terms d ann oid) (\<lambda>_.
     then_check (refuse_if (\<not> evm_address (do_recipient d) \<or> \<not> evm_address (do_toToken d)) (Refuse NotEvmFillable (Some oid))) (\<lambda>_.
     then_check (check_fill_auth env x a oid) (\<lambda>_.
     then_check (big_or_throw (fe_authChainId env)) (\<lambda>chain.
     then_check (big_or_throw (fe_acceptBy env)) (\<lambda>by.
       Inr \<lparr>va_orderId = oid, va_fillId = to_lower (fa_fillId (fe_auth env)), va_opening = d, va_terms = terms,
         va_fillAuth = fe_auth env, va_signature = fe_signature env, va_domainChainId = chain,
         va_fillerContract = fe_fillerContract env, va_payee = fa_filler (fe_auth env), va_acceptBy = by\<rparr>)))))))))"

definition filler_domain :: "'x verified_award_scheme \<Rightarrow> contract_domain" where
  "filler_domain v = \<lparr>cd_chainId = VBig (va_domainChainId v), cd_verifyingContract = va_fillerContract v\<rparr>"

definition recover_fill_auth_signer :: "ethers \<Rightarrow> 'x verified_award_scheme \<Rightarrow> string verdict" where
  "recover_fill_auth_signer et v = plainly (then_check (fill_auth_digest et (filler_domain v) (va_fillAuth v))
     (\<lambda>dg. ethers_call (et_recover et dg (va_signature v))))"

section \<open>The lock, the window, the attestation\<close>

record opened_lock =
  ol_orderId :: string
  ol_depositor :: string
  ol_token :: string
  ol_amount :: int
  ol_toChainId :: int
  ol_refundableAt :: int
  ol_verifier :: string
  ol_blockNumber :: nat
  ol_blockHash :: string

definition origin_terms_from_lock :: "opened_lock \<Rightarrow> jsval \<Rightarrow> string \<Rightarrow> jsval \<Rightarrow> origin_terms verdict" where
  "origin_terms_from_lock l origin escrow window = then_check (big_uint origin) (\<lambda>o1. then_check (big_uint window) (\<lambda>w.
     Inr \<lparr>og_depositor = ol_depositor l, og_fromChainId = VBig o1, og_fromToken = ol_token l, og_fromAmount = VBig (ol_amount l),
       og_toChainId = VBig (ol_toChainId l), og_fillDeadline = VBig (ol_refundableAt l - w), og_escrow = escrow\<rparr>))"

definition check_lock_matches_terms :: "opened_lock \<Rightarrow> order_terms \<Rightarrow> unit verdict" where
  "check_lock_matches_terms l t = (let e = Refuse OpenedMismatch (Some (ol_orderId l)) in check_all [
     refuse_if (\<not> eq_addr (ol_token l) (ot_fromToken t)) e,
     then_check (big_uint (ot_fromAmount t)) (\<lambda>n. refuse_if (ol_amount l \<noteq> n) e),
     refuse_if (\<not> eq_addr (ol_depositor l) (ot_depositor t)) e,
     then_check (big_uint (ot_toChainId t)) (\<lambda>n. refuse_if (ol_toChainId l \<noteq> n) e),
     then_check (big_uint (ot_fillDeadline t)) (\<lambda>n. refuse_if (ol_refundableAt l < n) e)])"

definition ATTESTATION_LATENCY_SEC :: int where "ATTESTATION_LATENCY_SEC = 120"
definition SAFETY_MARGIN_SEC :: int where "SAFETY_MARGIN_SEC = 300"

record fill_window =
  fw_nowSec :: jsval
  fw_refundableAt :: jsval
  fw_fillAuthDeadline :: jsval
  fw_fillInclusionSec :: jsval
  fw_attestationLatencySec :: "jsval option"
  fw_safetyMarginSec :: "jsval option"

definition check_fill_window :: "fill_window \<Rightarrow> unit verdict" where
  "check_fill_window w =
     then_check (big_uint (fw_nowSec w)) (\<lambda>now.
     then_check (big_uint (fw_fillInclusionSec w)) (\<lambda>incl.
     then_check (big_uint (or_else (fw_attestationLatencySec w) (VBig ATTESTATION_LATENCY_SEC))) (\<lambda>latency.
     then_check (big_uint (or_else (fw_safetyMarginSec w) (VBig SAFETY_MARGIN_SEC))) (\<lambda>margin.
     then_check (big_uint (fw_refundableAt w)) (\<lambda>refundable.
     then_check (refuse_if (now + incl + latency + margin \<ge> refundable) (Refuse WindowClosed None)) (\<lambda>_.
     then_check (big_uint (fw_fillAuthDeadline w)) (\<lambda>deadline.
       refuse_if (now + incl > deadline) (Refuse AuthExpired None))))))))"

record attestation_expectations =
  ax_orderId :: string
  ax_payee :: string
  ax_originChainId :: jsval
  ax_verifier :: string

definition verify_fill_attestation :: "ethers \<Rightarrow> attestation_wire \<Rightarrow> attestation_expectations \<Rightarrow> (string \<times> string) verdict" where
  "verify_fill_attestation et w x = (let e = Refuse AttestationMismatch (Some (ax_orderId x)) in
     then_check (check_all [
       refuse_if (to_lower (at_orderId w) \<noteq> to_lower (ax_orderId x)) e,
       refuse_if (\<not> eq_addr (at_payee w) (ax_payee x)) e,
       require_uint ''attestation chainId'' (VStr (at_chainId w)) (ax_originChainId x) e,
       refuse_if (\<not> eq_addr (at_verifier w) (ax_verifier x)) e]) (\<lambda>_.
     then_check (plainly (encode_attested_proof et (at_payee w) (at_signature w))) (\<lambda>proof.
     then_check (refuse_if (to_lower (at_proof w) \<noteq> proof) e) (\<lambda>_.
     then_check (plainly (fill_attestation_digest et \<lparr>cd_chainId = ax_originChainId x, cd_verifyingContract = ax_verifier x\<rparr>
       (ax_orderId x) (ax_payee x))) (\<lambda>digest.
     (case et_recover et digest (at_signature w) of
       None \<Rightarrow> Inl e
     | Some attester \<Rightarrow> Inr (proof, attester)))))))"

section \<open>The acceptance\<close>

definition fill_acceptance_for :: "ethers \<Rightarrow> 'x verified_award_scheme \<Rightarrow> fill_acceptance verdict" where
  "fill_acceptance_for et v = then_check (big_uint (ot_fromChainId (va_terms v))) (\<lambda>origin.
     plainly (fill_acceptance_of et (va_orderId v) (VBig origin) (ot_escrow (va_terms v)) (filler_domain v) (va_fillAuth v)))"

definition check_award_bond :: "award \<Rightarrow> jsval \<Rightarrow> string \<Rightarrow> contract_domain verdict" where
  "check_award_bond a chain address = then_check (require_fillable_escrow a) (\<lambda>env. case fe_bond env of
     None \<Rightarrow> Inl (Refuse MalformedAward (Some (fe_orderRef env)))
   | Some b \<Rightarrow> let e = Refuse BondMismatch (Some (fe_orderRef env)) in
       then_check (refuse_if (\<not> eq_addr (ab_address b) address) e) (\<lambda>_.
       then_check (require_uint ''bond.chainId'' (VStr (ab_chainId b)) chain e) (\<lambda>_.
       then_check (big_or_throw (ab_chainId b)) (\<lambda>n.
         Inr \<lparr>cd_chainId = VBig n, cd_verifyingContract = ab_address b\<rparr>))))"

section \<open>What a verified award is\<close>

lemma plainly_ok [simp]: "plainly r = Inr v \<longleftrightarrow> r = Inr v"
  by (simp add: plainly_def split: sum.split)

lemma optional_check [simp]:
  "(case v of None \<Rightarrow> passed | Some y \<Rightarrow> f y) = Inr () \<longleftrightarrow> (\<forall>y \<in> set_option v. f y = Inr ())"
  by (simp add: passed_def split: option.split)

lemma require_uint_ok:
  "require_uint f a b e = Inr u \<longleftrightarrow> (\<exists>n. parse_uint [] True a = Inr n \<and> parse_uint [] True b = Inr n)"
  by (auto simp: require_uint_def same_uint_as_def parse_uint_ok)

lemma big_or_throw_ok [simp]: "big_or_throw s = Inr n \<longleftrightarrow> big_int s = Some n"
  by (simp add: big_or_throw_def split: option.split)

lemma spelled_big: "uint_spelling (VStr s) b = Some n \<Longrightarrow> big_int s = Some n"
  by (auto simp: uint_spelling_def split: if_splits)

lemma parsed_same_uint: "parse_uint [] True v = Inr n \<Longrightarrow> to_uint [] v = Inr m \<Longrightarrow> m = n"
  by (auto simp: parse_uint_ok to_uint_ok)

lemma check_origin_ok:
  "check_origin env x = Inr u \<longleftrightarrow> eq_addr (fe_address env) (xp_escrow x) \<and> eq_addr (og_escrow (xp_originTerms x)) (xp_escrow x)
     \<and> (\<exists>n. parse_uint [] True (og_fromChainId (xp_originTerms x)) = Inr n \<and> parse_uint [] True (xp_originChainId x) = Inr n)
     \<and> (\<exists>n. parse_uint [] True (og_toChainId (xp_originTerms x)) = Inr n \<and> parse_uint [] True (xp_destinationChainId x) = Inr n)"
  by (simp add: check_origin_def Let_def require_uint_ok)

lemma recompute_order_ok:
  "recompute_order et env x = Inr (t, oid) \<longleftrightarrow> (\<exists>c. compute_dest_commitment et (opening_of (fe_opening env)) = Inr c
     \<and> (\<forall>ot \<in> set_option (fe_orderTerms env). to_lower (aw_destCommitment ot) = c)
     \<and> t = with_commitment (xp_originTerms x) c \<and> compute_order_id et t = Inr oid \<and> oid = to_lower (fe_orderRef env))"
  by (auto simp: recompute_order_def Let_def split: sum.splits option.splits)

lemma check_fill_auth_ok:
  "check_fill_auth env x a oid = Inr u \<longleftrightarrow> to_lower (fa_fillId (fe_auth env)) = to_lower (fe_fillId env)
     \<and> eq_addr (fa_filler (fe_auth env)) (xp_solver x) \<and> eq_addr (fe_fillerContract env) (xp_fillerContract x)
     \<and> (\<exists>n. parse_uint [] True (VStr (fe_authChainId env)) = Inr n \<and> parse_uint [] True (xp_destinationChainId x) = Inr n)
     \<and> eq_addr (fa_to (fe_auth env)) (ao_recipient (fe_opening env)) \<and> eq_addr (fa_token (fe_auth env)) (ao_toToken (fe_opening env))
     \<and> (\<exists>amount floor awarded bid. big_int (fe_amount env) = Some amount \<and> big_int (ao_toAmount (fe_opening env)) = Some floor
        \<and> big_int (aw_output a) = Some awarded \<and> big_uint (xp_bidOutput x) = Inr bid
        \<and> floor \<le> amount \<and> amount \<le> awarded \<and> amount \<le> bid)
     \<and> (\<forall>p \<in> set_option (fe_payee env). eq_addr p (fa_filler (fe_auth env)))"
  by (auto simp: check_fill_auth_def Let_def require_uint_ok not_less split: option.splits)

definition fill_conforms :: "ethers \<Rightarrow> award \<Rightarrow> expectations \<Rightarrow> fillable \<Rightarrow> order_terms \<Rightarrow> string \<Rightarrow> bool" where
  "fill_conforms et a x env t oid \<longleftrightarrow> require_fillable_escrow a = Inr env \<and> check_origin env x = Inr ()
     \<and> recompute_order et env x = Inr (t, oid) \<and> ao_intentId (fe_opening env) = aw_intentId a
     \<and> (\<forall>ann \<in> set_option (xp_announcement x). check_announcement et a t (opening_of (fe_opening env)) ann oid = Inr ())
     \<and> evm_address (ao_recipient (fe_opening env)) \<and> evm_address (ao_toToken (fe_opening env))
     \<and> check_fill_auth env x a oid = Inr ()"

lemma opening_of_simps [simp]:
  "do_recipient (opening_of p) = ao_recipient p" "do_toToken (opening_of p) = ao_toToken p"
  "do_toAmount (opening_of p) = VStr (ao_toAmount p)" "do_blinding (opening_of p) = ao_blinding p" "do_intentId (opening_of p) = ao_intentId p"
  by (simp_all add: opening_of_def)

lemma verify_award_ok:
  "verify_award et a x = Inr v \<longleftrightarrow> (\<exists>env t oid chain by. fill_conforms et a x env t oid
     \<and> big_int (fe_authChainId env) = Some chain \<and> big_int (fe_acceptBy env) = Some by
     \<and> v = \<lparr>va_orderId = oid, va_fillId = to_lower (fa_fillId (fe_auth env)), va_opening = opening_of (fe_opening env), va_terms = t,
         va_fillAuth = fe_auth env, va_signature = fe_signature env, va_domainChainId = chain,
         va_fillerContract = fe_fillerContract env, va_payee = fa_filler (fe_auth env), va_acceptBy = by\<rparr>)"
  unfolding verify_award_def fill_conforms_def Let_def by (auto simp: split_paired_Ex)

lemma envelope_amount: "require_fillable_escrow a = Inr env \<Longrightarrow> fa_amount (fe_auth env) = VStr (fe_amount env)"
  by (auto simp: require_fillable_escrow_def split: option.splits)

lemma with_commitment_simps [simp]:
  "ot_escrow (with_commitment t c) = og_escrow t" "ot_toChainId (with_commitment t c) = og_toChainId t"
  "ot_fromChainId (with_commitment t c) = og_fromChainId t" "ot_destCommitment (with_commitment t c) = c"
  by (simp_all add: with_commitment_def)

definition fill_pays :: "expectations \<Rightarrow> award \<Rightarrow> verified_award \<Rightarrow> dest_opening \<Rightarrow> order_terms \<Rightarrow> bool" where
  "fill_pays x a v e u \<longleftrightarrow> (let f = va_fillAuth v in
     eq_addr (fa_filler f) (xp_solver x) \<and> va_payee v = fa_filler f \<and> eq_addr (va_fillerContract v) (xp_fillerContract x)
     \<and> eq_addr (fa_to f) (do_recipient e) \<and> eq_addr (fa_token f) (do_toToken e) \<and> do_intentId e = aw_intentId a
     \<and> (\<exists>amount floor bid. big_uint (fa_amount f) = Inr amount \<and> to_uint [] (do_toAmount e) = Inr floor
          \<and> big_uint (xp_bidOutput x) = Inr bid \<and> floor \<le> amount \<and> amount \<le> bid)
     \<and> to_uint [] (ot_toChainId u) = Inr (va_domainChainId v) \<and> same_address (ot_escrow u) (xp_escrow x))"

text \<open>
  C14. A verified award pays what the lock pays for. Whichever order the award's id locks, among
  strings keccak tells apart: the authorised fill goes to that order's recipient in its token on its
  chain and for its intent, is made by this solver through the trusted filler contract, is no
  smaller than the amount the attester releases on and no larger than the output the solver signed.
\<close>

theorem award_pays_the_lock:
  assumes "coder_injective et" and "verify_award et a x = Inr v" and "opens_order et e u (va_orderId v)"
    and "hashes_apart et (hashed_strings et (va_opening v) (va_terms v) \<union> hashed_strings et e u)"
  shows "fill_pays x a v e u"
proof -
  from assms(2) obtain env t oid chain acceptBy where ok: "fill_conforms et a x env t oid" "big_int (fe_authChainId env) = Some chain"
    and v: "va_opening v = opening_of (fe_opening env)" "va_terms v = t" "va_orderId v = oid" "va_fillAuth v = fe_auth env"
      "va_domainChainId v = chain" "va_fillerContract v = fe_fillerContract env" "va_payee v = fa_filler (fe_auth env)"
    by (auto simp: verify_award_ok)
  then have conf: "require_fillable_escrow a = Inr env" "check_origin env x = Inr ()" "check_fill_auth env x a oid = Inr ()"
    "ao_intentId (fe_opening env) = aw_intentId a" "evm_address (ao_recipient (fe_opening env))" "evm_address (ao_toToken (fe_opening env))"
    by (auto simp: fill_conforms_def)
  from ok(1) have order: "recompute_order et env x = Inr (t, oid)" by (simp add: fill_conforms_def)
  then obtain c where c: "compute_dest_commitment et (opening_of (fe_opening env)) = Inr c" "ot_destCommitment t = c"
    "compute_order_id et t = Inr oid" "t = with_commitment (xp_originTerms x) c" by (auto simp: recompute_order_ok)
  then have "opens_order et (opening_of (fe_opening env)) t oid" unfolding opens_order_def by simp
  then have same: "same_opening (opening_of (fe_opening env)) e" "same_terms t u"
    using order_id_binds [OF assms(1), of "opening_of (fe_opening env)" t e u oid] assms(3,4) v by simp_all
  from conf(3) obtain amount floor bid n where auth: "eq_addr (fa_filler (fe_auth env)) (xp_solver x)"
    "eq_addr (fe_fillerContract env) (xp_fillerContract x)" "eq_addr (fa_to (fe_auth env)) (ao_recipient (fe_opening env))"
    "eq_addr (fa_token (fe_auth env)) (ao_toToken (fe_opening env))" "big_int (fe_amount env) = Some amount"
    "big_int (ao_toAmount (fe_opening env)) = Some floor" "big_uint (xp_bidOutput x) = Inr bid" "floor \<le> amount" "amount \<le> bid"
    "parse_uint [] True (VStr (fe_authChainId env)) = Inr n" "parse_uint [] True (xp_destinationChainId x) = Inr n"
    by (auto simp: check_fill_auth_ok)
  have pays: "eq_addr (fa_to (fe_auth env)) (do_recipient e)" "eq_addr (fa_token (fe_auth env)) (do_toToken e)"
    using auth(3,4) same(1) by (auto simp: same_opening_def same_party_def eq_addr_def)
  obtain m where m: "to_uint [] (ot_toChainId t) = Inr m" "to_uint [] (ot_toChainId u) = Inr m"
    using same(2) by (auto simp: same_terms_def same_uint_def)
  moreover have "chain = m"
  proof -
    have "parse_uint [] True (ot_toChainId t) = Inr n" using conf(2) auth(11) c(4) by (auto simp: check_origin_ok)
    then have "m = n" using m(1) by (rule parsed_same_uint)
    then show ?thesis using auth(10) ok(2) by (auto simp: parse_uint_ok dest: spelled_big)
  qed
  moreover have "to_uint [] (do_toAmount e) = Inr floor"
  proof -
    obtain q where "to_uint [] (VStr (ao_toAmount (fe_opening env))) = Inr q"
      using c(1) by (auto simp: compute_dest_commitment_def dest_args_def to_uint_ok)
    moreover from this have "big_int (ao_toAmount (fe_opening env)) = Some q" by (auto simp: to_uint_ok dest: spelled_big)
    ultimately show ?thesis using same(1) auth(6) by (simp add: same_opening_def)
  qed
  moreover have "same_address (ot_escrow u) (xp_escrow x)"
    using same(2) conf(2) c(4) by (auto simp: same_terms_def check_origin_ok same_address_def dest!: eq_addr_same)
  moreover have "do_intentId e = aw_intentId a" using same(1) conf(4) by (simp add: same_opening_def)
  ultimately show ?thesis using auth pays envelope_amount [OF conf(1)] v
    unfolding fill_pays_def Let_def by (auto simp: big_uint_def)
qed

end
