(* ===== verification/EscrowExamples.thy ===== *)
theory EscrowExamples
  imports EscrowVerify
begin

text \<open>
  Concrete orders for the properties of \<open>Escrow\<close> and \<open>EscrowVerify\<close>, over a stand-in for ethers whose coder
  and hash are injective: every word is written out with each character escaped, a hash spells its
  input in nibbles, and the two hashes that must read as 32 bytes are fixed.
\<close>

definition nibble :: "nat \<Rightarrow> char" where
  "nibble n = char_of (97 + n)"

definition spelled :: "string \<Rightarrow> string" where
  "spelled x = ''0xk'' @ concat (map (\<lambda>c. [nibble (code c div 16), nibble (code c mod 16)]) x)"

definition escaped :: "string \<Rightarrow> string" where
  "escaped s = concat (map (\<lambda>c. [CHR ''0'', c]) s) @ ''1''"

fun word_text :: "abi \<Rightarrow> string" where
  "word_text (AStr s) = CHR ''s'' # escaped (hex_value s)"
| "word_text (AUint n) = CHR ''u'' # escaped (show_int n)"

definition text_of :: "abi list \<Rightarrow> string" where
  "text_of vals = concat (map word_text vals)"

definition payer :: string where "payer = ''0x'' @ replicate 40 CHR ''a''"
definition payee :: string where "payee = ''0x'' @ replicate 40 CHR ''b''"
definition usdc :: string where "usdc = ''0x'' @ replicate 40 CHR ''c''"
definition vault :: string where "vault = ''0x'' @ replicate 40 CHR ''d''"
definition blind :: string where "blind = ''0x'' @ replicate 64 CHR ''7''"
definition commitment :: string where "commitment = ''0x'' @ replicate 64 CHR ''8''"
definition lock_id :: string where "lock_id = ''0x'' @ replicate 64 CHR ''9''"

definition dest_words :: "abi list" where
  "dest_words = [AStr (spelled DEST_TYPE), AStr (''0xp'' @ payee), AStr (''0xp'' @ usdc), AUint 990, AStr blind, AStr (spelled ''i1'')]"

definition order_words :: "abi list" where
  "order_words = [AStr (spelled ORDER_TYPE), AStr payer, AUint 8453, AStr usdc, AUint 1000, AUint 42161, AUint 1700000000, AStr vault, AStr commitment]"

definition spelled_hash :: "string \<Rightarrow> string" where
  "spelled_hash x = (if x = text_of dest_words then commitment else if x = text_of order_words then lock_id else spelled x)"

definition ether :: ethers where
  "ether = \<lparr>et_keccak = spelled_hash, et_utf8 = (\<lambda>s. s), et_pad32 = (\<lambda>a. ''0xp'' @ a), et_encode = (\<lambda>_ vals. Some (text_of vals)),
     et_hash_domain = (\<lambda>d. Some (dm_name d @ dm_verifyingContract d)), et_concat = (\<lambda>ss. Some (concat ss)),
     et_recover = (\<lambda>dg sig. Some payer), et_bytes = Some, et_be32 = show_int, et_hmac = (@)\<rparr>"

lemma ether_simps [simp]:
  "et_keccak ether = spelled_hash" "et_utf8 ether s = s" "et_pad32 ether a = ''0xp'' @ a" "et_encode ether ts vals = Some (text_of vals)"
  by (simp_all add: ether_def)

lemma escaped_inject: "escaped s @ x = escaped t @ y \<longleftrightarrow> s = t \<and> x = y"
proof (induction s arbitrary: t)
  case Nil
  show ?case by (cases t) (auto simp: escaped_def)
next
  case (Cons c s)
  show ?case using Cons.IH by (cases t) (auto simp: escaped_def)
qed

lemma word_text_inject:
  "word_text a @ x = word_text b @ y \<Longrightarrow> same_word a b \<and> x = y"
proof (cases a; cases b)
  fix m n assume "a = AUint m" "b = AUint n" "word_text a @ x = word_text b @ y"
  then have "show_int m = show_int n \<and> x = y" by (simp add: escaped_inject)
  then show ?thesis using \<open>a = _\<close> \<open>b = _\<close> by (metis big_int_show_int option.inject same_word.simps(1))
qed (auto simp: escaped_inject)

lemma text_of_inject: "text_of a = text_of b \<Longrightarrow> list_all2 same_word a b"
proof (induction a arbitrary: b)
  case Nil
  then show ?case by (cases b; cases "hd b") (auto simp: text_of_def)
next
  case (Cons v a)
  then show ?case
  proof (cases b)
    case Nil
    with Cons.prems show ?thesis by (cases v) (auto simp: text_of_def)
  next
    case (Cons w c)
    with Cons.prems have "word_text v @ text_of a = word_text w @ text_of c" by (simp add: text_of_def)
    then show ?thesis using word_text_inject Cons Cons.IH by blast
  qed
qed

lemma code_nibble: "n < 16 \<Longrightarrow> code (nibble n) = 97 + n"
  by (simp add: nibble_def code_def)

lemma nibbles: "n < 16 \<Longrightarrow> m < 16 \<Longrightarrow> nibble n = nibble m \<longleftrightarrow> n = m" "n < 16 \<Longrightarrow> lower_char (nibble n) = nibble n"
  by (auto simp: lower_char_def Let_def code_nibble) (metis add_left_imp_eq code_nibble)

lemma char_nibbles: "code c div 16 = code d div 16 \<Longrightarrow> code c mod 16 = code d mod 16 \<Longrightarrow> c = d"
  by (metis code_def div_mult_mod_eq of_char_eq_iff)

lemma code_bound: "code c div 16 < 16"
proof -
  have "code c < 256" by (simp add: code_def)
  then show ?thesis by simp
qed

lemma hex_spelled: "hex_value (spelled x) = CHR ''k'' # concat (map (\<lambda>c. [nibble (code c div 16), nibble (code c mod 16)]) x)"
proof -
  have "map lower_char (concat (map (\<lambda>c. [nibble (code c div 16), nibble (code c mod 16)]) x))
      = concat (map (\<lambda>c. [nibble (code c div 16), nibble (code c mod 16)]) x)"
    by (induction x) (auto simp: nibbles(2) code_bound)
  then show ?thesis
    by (simp add: hex_value_def spelled_def to_lower_def starts_with_def Let_def lower_char_def code_def)
qed

lemma spelled_inject: "hex_value (spelled x) = hex_value (spelled y) \<Longrightarrow> x = y"
proof -
  have "concat (map (\<lambda>c. [nibble (code c div 16), nibble (code c mod 16)]) x)
      = concat (map (\<lambda>c. [nibble (code c div 16), nibble (code c mod 16)]) y) \<Longrightarrow> x = y"
  proof (induction x arbitrary: y)
    case Nil
    then show ?case by (cases y) auto
  next
    case (Cons c x)
    then show ?case by (cases y) (auto simp: nibbles(1) code_bound intro: char_nibbles)
  qed
  then show "hex_value (spelled x) = hex_value (spelled y) \<Longrightarrow> x = y" by (simp add: hex_spelled)
qed

lemma spelled_hash_other: "text_of dest_words \<noteq> x \<Longrightarrow> text_of order_words \<noteq> x \<Longrightarrow> spelled_hash x = spelled x"
  by (auto simp: spelled_hash_def)

lemma words_start: "text_of dest_words \<noteq> CHR ''R'' # x" "text_of order_words \<noteq> CHR ''R'' # x"
  "text_of dest_words \<noteq> CHR ''i'' # x" "text_of order_words \<noteq> CHR ''i'' # x"
  by (simp_all add: text_of_def dest_words_def order_words_def)

lemma words_differ: "text_of order_words \<noteq> text_of dest_words"
proof
  assume "text_of order_words = text_of dest_words"
  then have "list_all2 same_word order_words dest_words" by (rule text_of_inject)
  then have "hex_value (spelled ORDER_TYPE) = hex_value (spelled DEST_TYPE)" by (simp add: order_words_def dest_words_def)
  then have "ORDER_TYPE = DEST_TYPE" by (rule spelled_inject)
  then show False by (simp add: ORDER_TYPE_def DEST_TYPE_def)
qed

lemma hash_values: "hex_value commitment = replicate 64 CHR ''8''" "hex_value lock_id = replicate 64 CHR ''9''"
  by (simp_all add: commitment_def lock_id_def hex_value_def to_lower_def starts_with_def lower_char_def code_def Let_def)

lemma digit_head: "replicate 64 c = c # replicate 63 c"
  by (simp add: numeral_eq_Suc)

lemma pad_value: "hex_value (''0xp'' @ s) = CHR ''p'' # to_lower s"
  by (simp add: hex_value_def Let_def to_lower_def starts_with_def lower_char_def code_def)

lemma ether_apart: "hashes_apart ether S"
proof -
  have "x = y" if "hex_value (spelled_hash x) = hex_value (spelled_hash y)" for x y
    using that spelled_inject [of x y] words_differ
    by (auto simp: spelled_hash_def hash_values hex_spelled digit_head split: if_splits)
  moreover have "hex_value (spelled_hash x) \<noteq> hex_value (to_lower (''0xp'' @ to_lower a))" for x a
    by (auto simp: spelled_hash_def hash_values hex_spelled digit_head pad_value simp del: append.simps)
  ultimately show ?thesis by (simp add: hashes_apart_def)
qed

lemma ether_injective: "coder_injective ether"
proof -
  have "to_lower a = to_lower b"
    if "hex_value (to_lower (''0xp'' @ to_lower a)) = hex_value (to_lower (''0xp'' @ to_lower b))" for a b
    using that by (simp add: pad_value del: append.simps)
  then show ?thesis using text_of_inject by (auto simp: coder_injective_def)
qed

section \<open>A lock and its award\<close>

definition the_opening :: dest_opening where
  "the_opening = \<lparr>do_recipient = payee, do_toToken = usdc, do_toAmount = VStr ''990'', do_blinding = blind, do_intentId = ''i1''\<rparr>"

definition the_terms :: order_terms where
  "the_terms = \<lparr>ot_depositor = payer, ot_fromChainId = VStr ''8453'', ot_fromToken = usdc, ot_fromAmount = VStr ''1000'',
     ot_toChainId = VStr ''42161'', ot_fillDeadline = VStr ''1700000000'', ot_escrow = vault, ot_destCommitment = commitment\<rparr>"

lemma lower_addresses [simp]: "to_lower payee = payee" "to_lower usdc = usdc" "to_lower payer = payer" "to_lower vault = vault"
  by (simp_all add: payee_def usdc_def payer_def vault_def to_lower_def lower_char_def code_def Let_def)

lemma evm_addresses [simp]: "evm_address payee" "evm_address usdc" "evm_address vault" "payee \<noteq> []" "usdc \<noteq> []"
  by (simp_all add: payee_def usdc_def vault_def evm_address_def starts_with_def is_hex_digit_def code_def list_all_iff)

lemma keys [simp]: "canonical_key ether payee = Inr (''0xp'' @ payee)" "canonical_key ether usdc = Inr (''0xp'' @ usdc)"
proof -
  have "to_lower (''0xp'' @ s) = ''0xp'' @ to_lower s" for s by (simp add: to_lower_def lower_char_def code_def Let_def)
  then show "canonical_key ether payee = Inr (''0xp'' @ payee)" "canonical_key ether usdc = Inr (''0xp'' @ usdc)"
    by (simp_all add: canonical_key_def)
qed

lemma uints: "to_uint f (VStr ''990'') = Inr 990" "to_uint f (VStr ''8453'') = Inr 8453" "to_uint f (VStr ''1000'') = Inr 1000"
  "to_uint f (VStr ''42161'') = Inr 42161" "to_uint f (VStr ''1700000000'') = Inr 1700000000"
  by (simp_all add: to_uint_ok spelling_digits all_digits_def is_digit_def code_def digits_val_def digit_val_def Let_def UINT256_MAX_def)

lemma blinding_ok: "assert_blinding blind = Inr ()"
proof -
  have shape: "bytes32 blind" by (simp add: bytes32_def blind_def starts_with_def is_hex_digit_def is_digit_def code_def list_all_iff)
  have last: "replicate 64 CHR ''7'' = replicate 63 CHR ''7'' @ [CHR ''7'']"
    by (simp flip: replicate_append_same add: numeral_eq_Suc)
  have "digits_val 16 (replicate 64 CHR ''7'') \<noteq> 0" unfolding last by (simp add: digits_val_def digit_val_def code_def)
  moreover have "trim blind = blind"
    unfolding blind_def by (rule trim_no_space) (auto simp: is_space_def code_def list_all_iff)
  ultimately have "big_int blind \<noteq> Some 0"
    by (simp add: big_int_def Let_def) (simp add: blind_def starts_with_def digits_in_def)
  with shape show ?thesis by (simp add: assert_blinding_def)
qed

lemma the_commitment: "compute_dest_commitment ether the_opening = Inr commitment"
proof -
  have "dest_args ether the_opening = Inr dest_words"
    by (simp add: dest_args_def the_opening_def uints compute_intent_id_hash_def et_id_def dest_words_def)
       (simp add: DEST_TYPE_def spelled_hash_other words_start)
  then show ?thesis by (simp add: compute_dest_commitment_def hash_of_def ethers_call_def spelled_hash_def) (simp add: the_opening_def blinding_ok)
qed

lemma the_order_id: "compute_order_id ether the_terms = Inr lock_id"
proof -
  have "order_args ether the_terms = Inr order_words"
    by (simp add: order_args_def the_terms_def uints et_id_def order_words_def)
       (simp add: ORDER_TYPE_def spelled_hash_other words_start)
  then show ?thesis using words_differ by (simp add: compute_order_id_def hash_of_def ethers_call_def spelled_hash_def)
qed

lemma the_lock_opens: "opens_order ether the_opening the_terms lock_id"
  unfolding opens_order_def using the_commitment the_order_id by (simp add: the_terms_def)

definition the_binding :: escrow_binding where
  "the_binding = \<lparr>eb_signer = payer, eb_recipient = payee, eb_toToken = usdc, eb_toChainId = VBig 42161, eb_minOut = VBig 980,
     eb_terms = the_terms, eb_opening = the_opening, eb_quotedOrderId = lock_id,
     eb_pullAuth = Erc3009Pull vault usdc (VBig 1000) lock_id, eb_expectedEscrows = VObj [(''8453'', VStr vault)]\<rparr>"

lemma hash_shapes [simp]: "bytes32 commitment" "bytes32 lock_id" "to_lower commitment = commitment" "to_lower lock_id = lock_id"
  by (simp_all add: bytes32_def commitment_def lock_id_def starts_with_def is_hex_digit_def is_digit_def code_def list_all_iff
      to_lower_def lower_char_def Let_def)

lemma normal_hashes: "normalize_bytes32 f commitment = Inr commitment" "normalize_bytes32 f lock_id = Inr lock_id"
  by (simp_all add: normalize_bytes32_def Let_def) (simp_all add: commitment_def lock_id_def starts_with_def)

lemma vault_pinned: "pinned_escrow_for (VObj [(''8453'', VStr vault)]) (VStr ''8453'') = Inr vault"
proof -
  have "trim vault = vault"
    unfolding vault_def by (rule trim_no_space) (auto simp: is_space_def code_def list_all_iff)
  moreover have "\<not> zero_address vault" unfolding zero_address_def lower_addresses by (simp add: vault_def numeral_eq_Suc)
  moreover have "chain_id_of_key ''8453'' = Some 8453"
    by (simp add: chain_id_of_key_def Let_def trim_def is_space_def code_def hex_literal_i_def starts_with_def all_digits_def is_digit_def
        big_int_def decimal_int_def digits_val_def digit_val_def)
  ultimately show ?thesis by (simp add: pinned_escrow_for_def uints resolve_pinned_escrow_def)
qed

lemma big_uints: "0 \<le> n \<Longrightarrow> n < 10 ^ 70 \<Longrightarrow> to_uint f (VBig n) = Inr n"
  by (simp add: to_uint_ok UINT256_MAX_def)

lemma the_binding_accepted: "assert_escrow_binding ether the_binding = Inr lock_id"
  unfolding escrow_binding_iff escrow_bound_def Let_def the_binding_def
  by (simp add: the_commitment the_order_id normal_hashes pull_names_order_def eq_addr_def same_key_ok same_uint_def big_uints)
     (simp add: the_terms_def the_opening_def uints vault_pinned normal_hashes nullish_def)


definition the_order_terms :: award_order_terms where
  "the_order_terms = \<lparr>aw_depositor = payer, aw_fromChainId = ''8453'', aw_fromToken = usdc, aw_fromAmount = ''1000'',
     aw_toChainId = ''42161'', aw_fillDeadline = ''1700000000'', aw_escrow = vault, aw_destCommitment = commitment\<rparr>"

definition the_bond :: award_bond where
  "the_bond = \<lparr>ab_chainId = ''8453'', ab_address = vault\<rparr>"

definition the_award :: award where
  "the_award = \<lparr>aw_auctionId = ''a1'', aw_intentId = ''i1'', aw_solverId = ''s1'', aw_output = ''995'', aw_exclusiveUntil = 0,
     aw_escrowEnvelope = Some \<lparr>ae_address = vault, ae_intentRef = lock_id, ae_fillId = Some commitment,
       ae_destOpening = Some \<lparr>ao_recipient = payee, ao_toToken = usdc, ao_toAmount = ''990'', ao_blinding = blind, ao_intentId = ''i1''\<rparr>,
       ae_fillAuth = Some \<lparr>af_fillId = Some commitment, af_filler = Some payer, af_to = Some payee, af_token = Some usdc,
         af_amount = Some ''995'', af_deadline = Some ''1700000000'', af_chainId = Some ''42161'', af_fillerContract = Some vault,
         af_signature = Some ''0x''\<rparr>,
       ae_orderTerms = Some the_order_terms, ae_payee = None, ae_bond = Some the_bond, ae_acceptBy = Some ''1700000000''\<rparr>\<rparr>"

definition trusting :: expectations where
  "trusting = \<lparr>xp_solver = payer, xp_originChainId = VBig 8453, xp_escrow = vault, xp_destinationChainId = VBig 42161,
     xp_fillerContract = vault, xp_originTerms = \<lparr>og_depositor = payer, og_fromChainId = VStr ''8453'', og_fromToken = usdc,
       og_fromAmount = VStr ''1000'', og_toChainId = VStr ''42161'', og_fillDeadline = VStr ''1700000000'', og_escrow = vault\<rparr>,
     xp_announcement = None, xp_bidOutput = VStr ''995''\<rparr>"

definition the_fill :: fill_auth where
  "the_fill = \<lparr>fa_fillId = commitment, fa_filler = payer, fa_to = payee, fa_token = usdc, fa_amount = VStr ''995'', fa_deadline = VStr ''1700000000''\<rparr>"

definition the_verified :: verified_award where
  "the_verified = \<lparr>va_orderId = lock_id, va_fillId = commitment, va_opening = the_opening, va_terms = the_terms, va_fillAuth = the_fill,
     va_signature = ''0x'', va_domainChainId = 42161, va_fillerContract = vault, va_payee = payer, va_acceptBy = 1700000000\<rparr>"

definition the_envelope :: fillable where
  "the_envelope = \<lparr>fe_address = vault, fe_orderRef = lock_id, fe_fillId = commitment,
     fe_opening = \<lparr>ao_recipient = payee, ao_toToken = usdc, ao_toAmount = ''990'', ao_blinding = blind, ao_intentId = ''i1''\<rparr>,
     fe_acceptBy = ''1700000000'', fe_orderTerms = Some the_order_terms, fe_payee = None, fe_bond = Some the_bond, fe_auth = the_fill, fe_authChainId = ''42161'',
     fe_fillerContract = vault, fe_signature = ''0x'', fe_amount = ''995''\<rparr>"

lemma spelled_values: "big_int ''990'' = Some 990" "big_int ''995'' = Some 995" "big_int ''42161'' = Some 42161" "big_int ''1700000000'' = Some 1700000000"
  "big_int ''8453'' = Some 8453" "big_int ''1000'' = Some 1000"
  by (simp_all add: big_int_digits all_digits_def is_digit_def code_def digits_val_def digit_val_def Let_def)

lemma parsed_values: "parse_uint f True (VStr ''42161'') = Inr 42161" "parse_uint f True (VStr ''8453'') = Inr 8453"
  by (simp_all add: parse_uint_ok spelling_digits all_digits_def is_digit_def code_def digits_val_def digit_val_def Let_def)

lemma parsed_big: "0 \<le> n \<Longrightarrow> parse_uint f b (VBig n) = Inr n"
  by (simp add: parse_uint_ok)

lemma the_envelope_is: "require_fillable_escrow the_award = Inr the_envelope"
  by (simp add: require_fillable_escrow_def the_award_def the_envelope_def the_fill_def)

lemma the_award_verified: "verify_award ether the_award trusting = Inr the_verified"
proof -
  have op: "opening_of (fe_opening the_envelope) = the_opening"
    by (simp add: opening_of_def the_envelope_def the_opening_def)
  have terms: "with_commitment (xp_originTerms trusting) commitment = the_terms"
    by (simp add: with_commitment_def trusting_def the_terms_def)
  have order: "recompute_order ether the_envelope trusting = Inr (the_terms, lock_id)"
    by (simp add: recompute_order_ok op the_commitment terms the_order_id) (simp add: the_envelope_def the_order_terms_def)
  have origin: "check_origin the_envelope trusting = Inr ()"
    by (simp add: check_origin_ok the_envelope_def trusting_def eq_addr_def parsed_values parsed_big)
  have auth: "check_fill_auth the_envelope trusting the_award lock_id = Inr ()"
    by (simp add: check_fill_auth_ok the_envelope_def trusting_def the_fill_def the_award_def eq_addr_def parsed_values parsed_big spelled_values big_uint_def)
  have "fill_conforms ether the_award trusting the_envelope the_terms lock_id"
    using the_envelope_is order origin auth by (simp add: fill_conforms_def) (simp add: the_envelope_def the_award_def trusting_def)
  then show ?thesis unfolding verify_award_ok
    by (intro exI conjI) (assumption | simp add: op | simp add: the_envelope_def the_verified_def the_fill_def spelled_values the_opening_def opening_of_def)+
qed

lemma award_pays_witness: "fill_pays trusting the_award the_verified the_opening the_terms"
  by (rule award_pays_the_lock [OF ether_injective the_award_verified _ ether_apart])
     (simp add: the_verified_def the_lock_opens)

end
