(* ===== verification/GatewayBooks.thy ===== *)
theory GatewayBooks
  imports EscrowVerify Effects
begin

text \<open>
  The records \<open>OnchainEscrowGateway\<close> (\<open>solver-sdk/src/escrow-gateway.ts\<close>) keeps of the acceptances it signed and
  the fills it owes, and the stretches of \<open>accept\<close>, \<open>restoreAcceptance\<close> and \<open>fill\<close> that run without an
  \<open>await\<close>: the checks before the first one, the recording of a signature, the landing of a fill, and the
  \<open>finally\<close> blocks. \<open>Gateway\<close> composes them into the methods; \<open>GatewayRace\<close> interleaves them.
\<close>

section \<open>Prepared fills and the books\<close>

record prepared_fill = verified_award +
  pf_auctionId :: string
  pf_originChainId :: int
  pf_destinationChainId :: int
  pf_lock :: opened_lock
  pf_fillAuthSigner :: string
  pf_bondDomain :: contract_domain
  pf_bidOutput :: int

text \<open>An acceptance signed here, or restored (\<open>None\<close>) from an earlier process.\<close>

record acceptance_entry =
  en_acceptance :: fill_acceptance
  en_digest :: string
  en_signature :: "string option"

record owed_fill =
  ow_chainId :: int
  ow_token :: string
  ow_amount :: int
  ow_deadline :: int

text \<open>
  Maps as functions; \<open>bk_owed\<close> as the list of its entries in the order JavaScript iterates them.
\<close>

record books =
  bk_accepted :: "string \<Rightarrow> acceptance_entry option"
  bk_acceptedOrders :: "string \<Rightarrow> (string \<times> string) option"
  bk_accepting :: "string \<Rightarrow> (string \<times> string) option"
  bk_filling :: "string list"
  bk_landed :: "string \<Rightarrow> (string \<times> nat) option"
  bk_owed :: "(string \<times> owed_fill) list"

definition no_books :: books where
  "no_books = \<lparr>bk_accepted = (\<lambda>_. None), bk_acceptedOrders = (\<lambda>_. None), bk_accepting = (\<lambda>_. None), bk_filling = [],
     bk_landed = (\<lambda>_. None), bk_owed = []\<rparr>"

definition order_key :: "prepared_fill \<Rightarrow> string" where
  "order_key p = to_lower (va_orderId p)"

definition prepared_digest :: "ethers \<Rightarrow> prepared_fill \<Rightarrow> string verdict" where
  "prepared_digest et p = plainly (fill_auth_digest et (filler_domain p) (va_fillAuth p))"

definition gw_refuse :: "escrow_refusal \<Rightarrow> prepared_fill \<Rightarrow> 'a verdict" where
  "gw_refuse c p = Inl (Refuse c (Some (va_orderId p)))"

section \<open>The checks\<close>

definition require_own_fill_auth :: "prepared_fill \<Rightarrow> string \<Rightarrow> unit verdict" where
  "require_own_fill_auth p self =
     (if to_lower self \<noteq> to_lower (fa_filler (va_fillAuth p)) then gw_refuse FillAuthMismatch p
      else then_check (big_uint (fa_amount (va_fillAuth p))) (\<lambda>amount.
        if amount > pf_bidOutput p then gw_refuse FillAuthMismatch p else Inr ()))"

definition require_one_fill_per_order :: "books \<Rightarrow> prepared_fill \<Rightarrow> unit verdict" where
  "require_one_fill_per_order bk p = (case bk_acceptedOrders bk (order_key p) of
     Some (fid, _) \<Rightarrow> if to_lower fid \<noteq> to_lower (va_fillId p) then gw_refuse FillAuthMismatch p else Inr ()
   | None \<Rightarrow> Inr ())"

definition require_accepted_fill_auth :: "ethers \<Rightarrow> prepared_fill \<Rightarrow> fill_acceptance \<Rightarrow> unit verdict" where
  "require_accepted_fill_auth et p acc = then_check (prepared_digest et p) (\<lambda>dg.
     if dg \<noteq> to_lower (fc_fillAuth acc) then gw_refuse FillAuthMismatch p
     else then_check (big_uint (fa_amount (va_fillAuth p))) (\<lambda>amount.
       if amount > pf_bidOutput p then gw_refuse FillAuthMismatch p else Inr ()))"

text \<open>An acceptance of the order in flight under another FillAuth refuses; whether one is in flight at all.\<close>

definition accept_in_flight :: "books \<Rightarrow> prepared_fill \<Rightarrow> string \<Rightarrow> bool verdict" where
  "accept_in_flight bk p dg = (case bk_accepting bk (order_key p) of
     None \<Rightarrow> Inr False
   | Some (fid, d) \<Rightarrow> if to_lower fid \<noteq> to_lower (va_fillId p) \<or> dg \<noteq> d then gw_refuse FillAuthMismatch p else Inr True)"

section \<open>Accepting\<close>

text \<open>
  What \<open>accept\<close> does after its checks: wait for the call in flight and start over, post the signature it
  holds again, or sign, with \<open>resume\<close> when the acceptance is already owed.
\<close>

datatype accept_plan =
    AwaitOther
  | Repost acceptance_entry string
  | SignAcceptance bool

definition accept_start :: "ethers \<Rightarrow> books \<Rightarrow> prepared_fill \<Rightarrow> (accept_plan \<times> string) verdict" where
  "accept_start et bk p = then_check (prepared_digest et p) (\<lambda>dg.
     then_check (accept_in_flight bk p dg) (\<lambda>busy. if busy then Inr (AwaitOther, dg)
     else then_check (require_one_fill_per_order bk p) (\<lambda>_. case bk_accepted bk (va_fillId p) of
         None \<Rightarrow> Inr (SignAcceptance False, dg)
       | Some en \<Rightarrow> then_check (require_accepted_fill_auth et p (en_acceptance en)) (\<lambda>_. case en_signature en of
           Some sig \<Rightarrow> Inr (Repost en sig, dg)
         | None \<Rightarrow> Inr (SignAcceptance True, dg)))))"

definition enter_accepting :: "prepared_fill \<Rightarrow> string \<Rightarrow> books \<Rightarrow> books" where
  "enter_accepting p dg bk = bk\<lparr>bk_accepting := (bk_accepting bk)(order_key p \<mapsto> (va_fillId p, dg))\<rparr>"

definition leave_accepting :: "prepared_fill \<Rightarrow> books \<Rightarrow> books" where
  "leave_accepting p bk = bk\<lparr>bk_accepting := (bk_accepting bk)(order_key p := None)\<rparr>"

definition put_owed :: "string \<Rightarrow> owed_fill \<Rightarrow> (string \<times> owed_fill) list \<Rightarrow> (string \<times> owed_fill) list" where
  "put_owed fid f xs = (if fid \<in> fst ` set xs then map (\<lambda>(k, g). (k, if k = fid then f else g)) xs else xs @ [(fid, f)])"

definition owed_of :: "prepared_fill \<Rightarrow> owed_fill verdict" where
  "owed_of p = then_check (big_uint (fa_amount (va_fillAuth p))) (\<lambda>n. then_check (big_uint (fa_deadline (va_fillAuth p))) (\<lambda>dl.
     Inr \<lparr>ow_chainId = pf_destinationChainId p, ow_token = to_lower (fa_token (va_fillAuth p)), ow_amount = n, ow_deadline = dl\<rparr>))"

type_synonym 'a bookkeeping = "(books, award_error, 'a) io"

definition of_verdict :: "'a verdict \<Rightarrow> 'a bookkeeping" where
  "of_verdict r bk = (r, bk)"

definition record_owed_fill :: "prepared_fill \<Rightarrow> unit bookkeeping" where
  "record_owed_fill p = io_bind (of_verdict (owed_of p)) (\<lambda>f. io_update (\<lambda>bk. bk\<lparr>bk_owed := put_owed (va_fillId p) f (bk_owed bk)\<rparr>))"

definition set_accepted :: "prepared_fill \<Rightarrow> acceptance_entry \<Rightarrow> books \<Rightarrow> books" where
  "set_accepted p en bk = bk\<lparr>bk_accepted := (bk_accepted bk)(va_fillId p \<mapsto> en)\<rparr>"

definition set_accepted_order :: "prepared_fill \<Rightarrow> string \<Rightarrow> books \<Rightarrow> books" where
  "set_accepted_order p dg bk = bk\<lparr>bk_acceptedOrders := (bk_acceptedOrders bk)(order_key p \<mapsto> (va_fillId p, dg))\<rparr>"

text \<open>After the signature: \<open>accepted\<close>, \<open>owedFills\<close>, \<open>acceptedOrders\<close>, in this order.\<close>

definition record_signed :: "ethers \<Rightarrow> prepared_fill \<Rightarrow> acceptance_entry \<Rightarrow> unit bookkeeping" where
  "record_signed et p en = io_bind (io_update (set_accepted p en)) (\<lambda>_. io_bind (record_owed_fill p) (\<lambda>_.
     io_bind (of_verdict (prepared_digest et p)) (\<lambda>dg. io_update (set_accepted_order p dg))))"

definition restored_entry :: "ethers \<Rightarrow> prepared_fill \<Rightarrow> acceptance_entry verdict" where
  "restored_entry et p = then_check (fill_acceptance_for et p) (\<lambda>acc.
     then_check (plainly (fill_acceptance_digest et (pf_bondDomain p) acc)) (\<lambda>dg.
       Inr \<lparr>en_acceptance = acc, en_digest = dg, en_signature = None\<rparr>))"

definition restore_acceptance :: "ethers \<Rightarrow> prepared_fill \<Rightarrow> string \<Rightarrow> unit bookkeeping" where
  "restore_acceptance et p self =
     io_bind (of_verdict (require_own_fill_auth p self)) (\<lambda>_.
     io_bind (of_verdict (prepared_digest et p)) (\<lambda>dg.
     io_bind (io_read (\<lambda>bk. accept_in_flight bk p dg)) (\<lambda>busy. io_bind (of_verdict busy) (\<lambda>_.
     io_bind (io_read (\<lambda>bk. require_one_fill_per_order bk p)) (\<lambda>one. io_bind (of_verdict one) (\<lambda>_.
     io_bind (io_read (\<lambda>bk. bk_accepted bk (va_fillId p))) (\<lambda>sent. case sent of
       Some en \<Rightarrow> of_verdict (require_accepted_fill_auth et p (en_acceptance en))
     | None \<Rightarrow> io_bind (of_verdict (restored_entry et p)) (\<lambda>en.
         io_bind (io_update (set_accepted p en)) (\<lambda>_.
         io_bind (io_update (set_accepted_order p dg)) (\<lambda>_. record_owed_fill p))))))))))"

section \<open>Filling\<close>

definition fill_start :: "ethers \<Rightarrow> books \<Rightarrow> prepared_fill \<Rightarrow> unit verdict" where
  "fill_start et bk p = then_check (require_one_fill_per_order bk p) (\<lambda>_. case bk_accepted bk (va_fillId p) of
     None \<Rightarrow> gw_refuse NotAccepted p
   | Some en \<Rightarrow> then_check (require_accepted_fill_auth et p (en_acceptance en)) (\<lambda>_.
       if bk_landed bk (va_fillId p) \<noteq> None then gw_refuse AlreadyFilled p
       else if va_fillId p \<in> set (bk_filling bk) then gw_refuse InDoubtFill p else Inr ()))"

definition enter_filling :: "prepared_fill \<Rightarrow> books \<Rightarrow> books" where
  "enter_filling p bk = bk\<lparr>bk_filling := va_fillId p # bk_filling bk\<rparr>"

definition leave_filling :: "prepared_fill \<Rightarrow> books \<Rightarrow> books" where
  "leave_filling p bk = bk\<lparr>bk_filling := removeAll (va_fillId p) (bk_filling bk)\<rparr>"

definition note_landed :: "prepared_fill \<Rightarrow> string \<Rightarrow> nat \<Rightarrow> books \<Rightarrow> books" where
  "note_landed p h b bk = bk\<lparr>bk_landed := (bk_landed bk)(va_fillId p \<mapsto> (h, b)), bk_owed := filter (\<lambda>x. fst x \<noteq> va_fillId p) (bk_owed bk)\<rparr>"

definition drop_owed :: "string \<Rightarrow> books \<Rightarrow> books" where
  "drop_owed fid bk = bk\<lparr>bk_owed := filter (\<lambda>x. fst x \<noteq> fid) (bk_owed bk)\<rparr>"

end
