(* ===== verification/Gateway.thy ===== *)
theory Gateway
  imports GatewayBooks TxSender
begin

text \<open>
  \<open>OnchainEscrowGateway\<close> (\<open>solver-sdk/src/escrow-gateway.ts\<close>, with \<open>bond.ts\<close>): prepare, accept, fill and claim over
  the checks of \<open>EscrowVerify\<close>, the books of \<open>GatewayBooks\<close> and the sender of \<open>TxSender\<close>.

  The contracts, blocks and wallet behind a signer are the fields of \<open>chain_api\<close>, the venue and the
  persistence callback are fields of the options: functions of a world of any type that answer or throw.
  A thrown value is a JavaScript value; an \<open>EscrowRefusalError\<close> is the object \<open>refusal_value\<close>. Warnings,
  progress events and the bounded POST timeouts are left out. A loop over blocks has fuel and
  returns \<open>None\<close> without it; \<open>maxLogRange\<close> is taken positive.
\<close>

section \<open>Refusals as values\<close>

fun code_name :: "escrow_refusal \<Rightarrow> string" where
  "code_name MalformedAward = ''malformed_award''"
| "code_name WrongEscrow = ''wrong_escrow''"
| "code_name WrongChain = ''wrong_chain''"
| "code_name OrderIdMismatch = ''order_id_mismatch''"
| "code_name AnnouncementMismatch = ''announcement_mismatch''"
| "code_name NotEvmFillable = ''not_evm_fillable''"
| "code_name FillAuthMismatch = ''fill_auth_mismatch''"
| "code_name NotFinal = ''not_final''"
| "code_name OpenedMismatch = ''opened_mismatch''"
| "code_name LockNotOpen = ''lock_not_open''"
| "code_name WindowClosed = ''window_closed''"
| "code_name AuthExpired = ''auth_expired''"
| "code_name AlreadyFilled = ''already_filled''"
| "code_name InsufficientInventory = ''insufficient_inventory''"
| "code_name InsufficientAllowance = ''insufficient_allowance''"
| "code_name SimulationFailed = ''simulation_failed''"
| "code_name InDoubtFill = ''in_doubt''"
| "code_name AttestationMismatch = ''attestation_mismatch''"
| "code_name AlreadyClaimed = ''already_claimed''"
| "code_name BondMismatch = ''bond_mismatch''"
| "code_name NotAccepted = ''not_accepted''"
| "code_name AcceptWindowClosed = ''accept_window_closed''"
| "code_name ClaimsPaused = ''claims_paused''"
| "code_name InsufficientClaimGas = ''insufficient_claim_gas''"

definition refusal_named :: "string \<Rightarrow> jsval" where
  "refusal_named cd = VObj [(''name'', VStr ''EscrowRefusalError''), (''code'', VStr cd)]"

definition refusal_value :: "escrow_refusal \<Rightarrow> jsval" where
  "refusal_value c = refusal_named (code_name c)"

definition is_refusal :: "jsval \<Rightarrow> bool" where
  "is_refusal v \<longleftrightarrow> val_get v ''name'' = VStr ''EscrowRefusalError''"

definition has_code :: "jsval \<Rightarrow> escrow_refusal \<Rightarrow> bool" where
  "has_code v c \<longleftrightarrow> is_refusal v \<and> val_get v ''code'' = VStr (code_name c)"

definition thrown :: "award_error \<Rightarrow> jsval" where
  "thrown e = (case e of Refuse c _ \<Rightarrow> refusal_value c | Plain _ \<Rightarrow> VObj [(''name'', VStr ''Error'')])"

definition plain_error :: jsval where
  "plain_error = VObj [(''name'', VStr ''Error'')]"

section \<open>Chains and options\<close>

record lock_state =
  lk_depositor :: string
  lk_refundableAt :: int
  lk_status :: nat
  lk_token :: string
  lk_toChainId :: int
  lk_verifier :: string
  lk_amount :: int

definition LOCK_NONE :: nat where "LOCK_NONE = 0"
definition LOCK_OPEN :: nat where "LOCK_OPEN = 1"
definition LOCK_CLAIMED :: nat where "LOCK_CLAIMED = 2"
definition LOCK_REFUNDED :: nat where "LOCK_REFUNDED = 3"

record opened_args =
  oa_orderId :: string
  oa_depositor :: string
  oa_token :: string
  oa_amount :: int
  oa_toChainId :: int
  oa_refundableAt :: int

text \<open>A log with what \<open>parseLog\<close> makes of it.\<close>

record 'p event_log =
  lg_blockNumber :: nat
  lg_blockHash :: string
  lg_txHash :: string
  lg_removed :: bool
  lg_parsed :: "'p option"

text \<open>The call of \<open>RiddlerFiller.fill\<close>: fill id, to, token, amount, deadline, authorization.\<close>

record fill_call =
  fk_fillId :: string
  fk_to :: string
  fk_token :: string
  fk_amount :: int
  fk_deadline :: int
  fk_auth :: string

record 'w chain_api =
  ca_node :: "'w tx_node"
  ca_tagged :: "string \<Rightarrow> ('w, nat option) ask"
  ca_block_hash :: "nat \<Rightarrow> ('w, string option) ask"
  ca_opened :: "string \<Rightarrow> string \<Rightarrow> nat \<Rightarrow> nat \<Rightarrow> ('w, opened_args event_log list) ask"
  ca_claimed :: "string \<Rightarrow> string \<Rightarrow> nat \<Rightarrow> nat \<Rightarrow> ('w, string event_log list) ask"
  ca_lock :: "string \<Rightarrow> string \<Rightarrow> nat option \<Rightarrow> ('w, lock_state) ask"
  ca_claim_window :: "string \<Rightarrow> ('w, int) ask"
  ca_claims_paused :: "string \<Rightarrow> ('w, bool) ask"
  ca_static_claim :: "string \<Rightarrow> string \<Rightarrow> string \<Rightarrow> ('w, string) ask"
  ca_is_attester :: "string \<Rightarrow> string \<Rightarrow> ('w, bool) ask"
  ca_filled :: "string \<Rightarrow> string \<Rightarrow> nat option \<Rightarrow> ('w, bool) ask"
  ca_is_authorizer :: "string \<Rightarrow> string \<Rightarrow> ('w, bool) ask"
  ca_static_fill :: "string \<Rightarrow> fill_call \<Rightarrow> ('w, unit) ask"
  ca_balance :: "string \<Rightarrow> string \<Rightarrow> ('w, int) ask"
  ca_allowance :: "string \<Rightarrow> string \<Rightarrow> string \<Rightarrow> ('w, int) ask"
  ca_raw_approve :: "string \<Rightarrow> string \<Rightarrow> string \<Rightarrow> int \<Rightarrow> ('w, string) ask"
  ca_gas_balance :: "string \<Rightarrow> ('w, int) ask"
  ca_sign_acceptance :: "contract_domain \<Rightarrow> fill_acceptance \<Rightarrow> ('w, string) ask"

record origin_config =
  oc_signer :: nat
  oc_escrow :: string
  oc_lookbackBlocks :: "nat option"
  oc_maxLogRange :: "nat option"

record dest_config =
  dc_signer :: nat
  dc_fillerContract :: string

record bond_config =
  bc_signer :: nat
  bc_address :: string

record acceptance_receipt =
  rp_auctionId :: string
  rp_orderId :: string
  rp_signature :: string
  rp_acceptedAt :: num

record 'w gateway_options =
  go_ethers :: ethers
  go_api :: "nat \<Rightarrow> 'w chain_api"
  go_origins :: "(jsnum \<times> origin_config) list"
  go_destinations :: "(jsnum \<times> dest_config) list"
  go_bond :: "bond_config option"
  go_attestations :: "(string \<Rightarrow> ('w, attestation_wire option) ask) option"
  go_acceptances :: "(string \<Rightarrow> string \<Rightarrow> string \<Rightarrow> ('w, acceptance_receipt) ask) option"
  go_now :: "'w \<Rightarrow> num \<times> 'w"
  go_pause :: "num \<Rightarrow> 'w \<Rightarrow> 'w"
  go_tx :: tx_options
  go_fillInclusionSec :: "int option"
  go_claimInclusionSec :: "int option"
  go_acceptBudgetSec :: "int option"
  go_finalityPollMs :: "num option"
  go_claimGasBudget :: "int option"
  go_txFuel :: nat

record 'w gateway =
  gw_sender :: "'w sender"
  gw_books :: books
  gw_signed :: "(prepared_fill \<times> fill_acceptance) list"
  gw_posted :: "(string \<times> string) list"

type_synonym ('w, 'a) gw = "('w gateway, jsval, 'a) io"

definition gw_ask :: "('w, 'a) ask \<Rightarrow> ('w, 'a) gw" where
  "gw_ask f g = (case f (sn_world (gw_sender g)) of (r, w) \<Rightarrow> (r, g\<lparr>gw_sender := (gw_sender g)\<lparr>sn_world := w\<rparr>\<rparr>))"

definition tx_thrown :: "tx_error \<Rightarrow> jsval" where
  "tx_thrown e = (case e of NodeError v \<Rightarrow> v | Refusal cd \<Rightarrow> refusal_named cd)"

definition gw_tx :: "('w, 'a) run \<Rightarrow> ('w, 'a) gw" where
  "gw_tx m g = (case m (gw_sender g) of
     (Inl e, s) \<Rightarrow> (Inl (tx_thrown e), g\<lparr>gw_sender := s\<rparr>) | (Inr a, s) \<Rightarrow> (Inr a, g\<lparr>gw_sender := s\<rparr>))"

definition gw_book :: "'a bookkeeping \<Rightarrow> ('w, 'a) gw" where
  "gw_book m g = (case m (gw_books g) of
     (Inl e, b) \<Rightarrow> (Inl (thrown e), g\<lparr>gw_books := b\<rparr>) | (Inr a, b) \<Rightarrow> (Inr a, g\<lparr>gw_books := b\<rparr>))"

definition gw_check :: "'a verdict \<Rightarrow> ('s, jsval, 'a) io" where
  "gw_check v = (case v of Inl e \<Rightarrow> io_throw (thrown e) | Inr a \<Rightarrow> io_return a)"

definition gw_reject :: "escrow_refusal \<Rightarrow> ('s, jsval, 'a) io" where
  "gw_reject c = io_throw (refusal_value c)"

definition gw_now :: "'w gateway_options \<Rightarrow> ('w, num) ask" where
  "gw_now go w = (case go_now go w of (t, v) \<Rightarrow> (Inr t, v))"

text \<open>\<open>opts.origins[Number(chainId)]\<close> and its twin.\<close>

definition origin_of :: "'w gateway_options \<Rightarrow> int \<Rightarrow> ('s, jsval, origin_config) io" where
  "origin_of go c = (case map_of (go_origins go) (round_double (of_int c)) of
     None \<Rightarrow> gw_reject WrongChain | Some oc \<Rightarrow> io_return oc)"

definition destination_of :: "'w gateway_options \<Rightarrow> int \<Rightarrow> ('s, jsval, dest_config) io" where
  "destination_of go c = (case map_of (go_destinations go) (round_double (of_int c)) of
     None \<Rightarrow> gw_reject WrongChain | Some dc \<Rightarrow> io_return dc)"

section \<open>Time\<close>

fun latest_times :: "'w gateway_options \<Rightarrow> nat list \<Rightarrow> ('w, int list) ask" where
  "latest_times go [] = io_return []"
| "latest_times go (g # gs) = io_bind (nd_head (ca_node (go_api go g))) (\<lambda>b. io_bind (latest_times go gs) (\<lambda>ts.
     io_return ((case b of Some h \<Rightarrow> [int (hd_timestamp h)] | None \<Rightarrow> []) @ ts)))"

definition now_sec :: "'w gateway_options \<Rightarrow> nat list \<Rightarrow> bool \<Rightarrow> ('w, int) ask" where
  "now_sec go gs with_local = io_bind (latest_times go gs) (\<lambda>ts.
     io_bind (if with_local then gw_now go else io_return 0) (\<lambda>now.
     io_return (foldl (\<lambda>m t. if t > m then t else m) (if with_local then \<lfloor>now / 1000\<rfloor> else 0) ts)))"

text \<open>The node of a signer, with the clocks the gateway gives the sender.\<close>

definition node_of :: "'w gateway_options \<Rightarrow> nat \<Rightarrow> 'w tx_node" where
  "node_of go g = (ca_node (go_api go g))\<lparr>nd_now_sec := io_bind (now_sec go [g] False) (\<lambda>t. io_return (nat t)),
     nd_now := go_now go, nd_pause := go_pause go\<rparr>"

definition address_of :: "'w gateway_options \<Rightarrow> nat \<Rightarrow> ('w, string) ask" where
  "address_of go g = nd_address (ca_node (go_api go g))"

section \<open>Waiting for the lock\<close>

function block_ranges :: "nat \<Rightarrow> nat \<Rightarrow> nat \<Rightarrow> (nat \<times> nat) list" where
  "block_ranges from1 head step = (if from1 > head \<or> step = 0 then []
     else (from1, min head (from1 + step - 1)) # block_ranges (from1 + step) head step)"
  by pat_completeness auto
termination by (relation "measure (\<lambda>(f, h, s). Suc h - f)") auto

declare block_ranges.simps [simp del]

fun collect_logs :: "(nat \<Rightarrow> nat \<Rightarrow> ('w, 'p event_log list) ask) \<Rightarrow> (nat \<times> nat) list \<Rightarrow> ('w, 'p event_log list) ask" where
  "collect_logs f [] = io_return []"
| "collect_logs f ((a, b) # rs) = io_bind (f a b) (\<lambda>ls. io_bind (collect_logs f rs) (\<lambda>more. io_return (ls @ more)))"

definition safe_head :: "'w chain_api \<Rightarrow> ('w, nat option) ask" where
  "safe_head ca = io_bind (io_catch (ca_tagged ca ''safe'') (\<lambda>_. io_return None)) (\<lambda>safe. case safe of
     Some n \<Rightarrow> io_return (Some n) | None \<Rightarrow> ca_tagged ca ''finalized'')"

definition read_final_lock :: "'w chain_api \<Rightarrow> string \<Rightarrow> opened_args event_log \<Rightarrow> nat \<Rightarrow> ('w, opened_lock option) ask" where
  "read_final_lock ca escrow lg safe = (case lg_parsed lg of
     None \<Rightarrow> io_return None
   | Some a \<Rightarrow> io_bind (ca_lock ca escrow (to_lower (oa_orderId a)) (Some safe)) (\<lambda>l.
       if lk_status l = LOCK_NONE then io_return None
       else if lk_status l \<noteq> LOCK_OPEN then gw_reject LockNotOpen
       else if eq_addr (lk_depositor l) (oa_depositor a) \<and> eq_addr (lk_token l) (oa_token a) \<and> lk_amount l = oa_amount a
         \<and> lk_toChainId l = oa_toChainId a \<and> lk_refundableAt l = oa_refundableAt a
       then io_return (Some \<lparr>ol_orderId = to_lower (oa_orderId a), ol_depositor = oa_depositor a, ol_token = oa_token a,
         ol_amount = oa_amount a, ol_toChainId = oa_toChainId a, ol_refundableAt = oa_refundableAt a, ol_verifier = lk_verifier l,
         ol_blockNumber = lg_blockNumber lg, ol_blockHash = lg_blockHash lg\<rparr>)
       else gw_reject OpenedMismatch))"

text \<open>One look: the lock once its only \<open>Opened\<close> log is canonical at or below the safe head.\<close>

definition look_for_lock :: "'w chain_api \<Rightarrow> string \<Rightarrow> string \<Rightarrow> nat \<Rightarrow> nat \<Rightarrow> ('w, opened_lock option) ask" where
  "look_for_lock ca escrow order from_block per = io_bind (nd_block_number (ca_node ca)) (\<lambda>head.
     io_bind (collect_logs (ca_opened ca escrow order) (block_ranges from_block head per)) (\<lambda>logs.
     case filter (\<lambda>l. \<not> lg_removed l) logs of
       [lg] \<Rightarrow> io_bind (safe_head ca) (\<lambda>safe. case safe of
           None \<Rightarrow> io_return None
         | Some n \<Rightarrow> if n < lg_blockNumber lg then io_return None
           else io_bind (ca_block_hash ca (lg_blockNumber lg)) (\<lambda>h.
             if h \<noteq> Some (lg_blockHash lg) then io_return None else read_final_lock ca escrow lg n))
     | _ \<Rightarrow> io_return None))"

fun await_lock :: "nat \<Rightarrow> 'w gateway_options \<Rightarrow> 'w chain_api \<Rightarrow> string \<Rightarrow> string \<Rightarrow> nat \<Rightarrow> nat \<Rightarrow> num \<Rightarrow> ('w, bool) ask
    \<Rightarrow> ('w, opened_lock option) ask" where
  "await_lock 0 go ca escrow order from_block per deadline ab = io_return None"
| "await_lock (Suc n) go ca escrow order from_block per deadline ab = io_bind ab (\<lambda>stop. if stop then io_throw plain_error
     else io_bind (look_for_lock ca escrow order from_block per) (\<lambda>found. case found of
       Some l \<Rightarrow> io_return (Some l)
     | None \<Rightarrow> io_bind (gw_now go) (\<lambda>now. if now \<ge> deadline then gw_reject NotFinal
         else io_bind (io_update (go_pause go (or_else (go_finalityPollMs go) 4000))) (\<lambda>_.
           await_lock n go ca escrow order from_block per deadline ab))))"

definition await_opened_final :: "nat \<Rightarrow> 'w gateway_options \<Rightarrow> string \<Rightarrow> int \<Rightarrow> nat option \<Rightarrow> num option \<Rightarrow> ('w, bool) ask
    \<Rightarrow> ('w, opened_lock option) ask" where
  "await_opened_final fuel go order chain from_block timeout ab = io_bind (origin_of go chain) (\<lambda>oc.
     let ca = go_api go (oc_signer oc) in
     io_bind (gw_now go) (\<lambda>now. io_bind (nd_block_number (ca_node ca)) (\<lambda>head0.
       await_lock fuel go ca (oc_escrow oc) order (or_else from_block (head0 - or_else (oc_lookbackBlocks oc) 20000))
         (or_else (oc_maxLogRange oc) 2000) (now + or_else timeout (45 * 60000)) ab)))"

section \<open>Preparing\<close>

definition trusted_bond :: "'w gateway_options \<Rightarrow> ('w, int \<times> string) ask" where
  "trusted_bond go = (case go_bond go of
     None \<Rightarrow> gw_reject BondMismatch
   | Some b \<Rightarrow> io_bind (nd_chain_id (ca_node (go_api go (bc_signer b)))) (\<lambda>n. io_return (int n, bc_address b)))"

record prepare_options =
  po_bidAuctionId :: string
  po_bidOrderId :: string
  po_bidOutput :: string
  po_announcement :: "announcement option"
  po_originChainId :: "int option"
  po_fromBlock :: "nat option"
  po_timeoutMs :: "num option"

definition chain_of_key :: "jsnum \<Rightarrow> int" where
  "chain_of_key k = (case k of Fin r \<Rightarrow> \<lfloor>r\<rfloor> | _ \<Rightarrow> 0)"

definition resolve_origin :: "'w gateway_options \<Rightarrow> fillable \<Rightarrow> prepare_options \<Rightarrow> int verdict" where
  "resolve_origin go env po = (case po_originChainId po of
     Some c \<Rightarrow> Inr c
   | None \<Rightarrow> (case po_announcement po of
       Some ann \<Rightarrow> big_uint (VNum (Fin (an_fromChainId ann)))
     | None \<Rightarrow> (case fe_orderTerms env of
         Some t \<Rightarrow> big_or_throw (aw_fromChainId t)
       | None \<Rightarrow> (case filter (\<lambda>(k, oc). eq_addr (oc_escrow oc) (fe_address env)) (go_origins go) of
           [(k, oc)] \<Rightarrow> Inr (chain_of_key k)
         | [] \<Rightarrow> Inl (Refuse WrongEscrow (Some (fe_orderRef env)))
         | _ \<Rightarrow> Inl (Refuse MalformedAward (Some (fe_orderRef env)))))))"

definition envelope_terms :: "award_order_terms \<Rightarrow> origin_terms" where
  "envelope_terms t = \<lparr>og_depositor = aw_depositor t, og_fromChainId = VStr (aw_fromChainId t), og_fromToken = aw_fromToken t,
     og_fromAmount = VStr (aw_fromAmount t), og_toChainId = VStr (aw_toChainId t), og_fillDeadline = VStr (aw_fillDeadline t),
     og_escrow = aw_escrow t\<rparr>"

text \<open>\<open>Number(n)\<close> of a bigint.\<close>

definition number_of_big :: "int \<Rightarrow> num" where
  "number_of_big n = (case round_double (of_int n) of Fin r \<Rightarrow> r | _ \<Rightarrow> of_int n)"

definition fill_inclusion :: "'w gateway_options \<Rightarrow> int" where
  "fill_inclusion go = or_else (go_fillInclusionSec go) 60"

text \<open>No lock is waited for past the last moment its fill could land.\<close>

definition prepare_timeout :: "'w gateway_options \<Rightarrow> prepare_options \<Rightarrow> int \<Rightarrow> num \<Rightarrow> num" where
  "prepare_timeout go po deadline now = (let fillable_for = number_of_big ((deadline - fill_inclusion go) * 1000) - now in
     max 0 (min (or_else (po_timeoutMs po) (45 * 60000)) fillable_for))"

definition expect :: "prepare_options \<Rightarrow> origin_config \<Rightarrow> dest_config \<Rightarrow> int \<Rightarrow> int \<Rightarrow> string \<Rightarrow> origin_terms \<Rightarrow> expectations" where
  "expect po oc dc origin dest solver t = \<lparr>xp_solver = solver, xp_originChainId = VBig origin, xp_escrow = oc_escrow oc,
     xp_destinationChainId = VBig dest, xp_fillerContract = dc_fillerContract dc, xp_originTerms = t,
     xp_announcement = po_announcement po, xp_bidOutput = VStr (po_bidOutput po)\<rparr>"

definition resolve_terms :: "'w gateway_options \<Rightarrow> fillable \<Rightarrow> origin_config \<Rightarrow> int \<Rightarrow> opened_lock \<Rightarrow> ('w, origin_terms) ask" where
  "resolve_terms go env oc origin l = (case fe_orderTerms env of
     Some t \<Rightarrow> io_return (envelope_terms t)
   | None \<Rightarrow> io_bind (ca_claim_window (go_api go (oc_signer oc)) (oc_escrow oc)) (\<lambda>w.
       gw_check (origin_terms_from_lock l (VBig origin) (oc_escrow oc) (VBig w))))"

definition prepared :: "verified_award \<Rightarrow> award \<Rightarrow> int \<Rightarrow> int \<Rightarrow> opened_lock \<Rightarrow> string \<Rightarrow> contract_domain \<Rightarrow> int \<Rightarrow> prepared_fill" where
  "prepared v a origin dest l signer bond bid = verified_award.extend v
     \<lparr>pf_auctionId = aw_auctionId a, pf_originChainId = origin, pf_destinationChainId = dest, pf_lock = l,
      pf_fillAuthSigner = signer, pf_bondDomain = bond, pf_bidOutput = bid\<rparr>"

definition prepare :: "nat \<Rightarrow> 'w gateway_options \<Rightarrow> award \<Rightarrow> prepare_options \<Rightarrow> ('w, bool) ask \<Rightarrow> ('w, prepared_fill option) ask" where
  "prepare fuel go a po ab = io_bind (gw_check (require_fillable_escrow a)) (\<lambda>env.
     if po_bidAuctionId po \<noteq> aw_auctionId a \<or> to_lower (po_bidOrderId po) \<noteq> to_lower (fe_orderRef env) then gw_reject AnnouncementMismatch
     else io_bind (trusted_bond go) (\<lambda>(bond_chain, bond_address).
     io_bind (gw_check (check_award_bond a (VBig bond_chain) bond_address)) (\<lambda>bond.
     io_bind (gw_check (resolve_origin go env po)) (\<lambda>origin.
     io_bind (origin_of go origin) (\<lambda>oc.
     io_bind (gw_check (big_or_throw (fe_authChainId env))) (\<lambda>dest.
     io_bind (destination_of go dest) (\<lambda>dc.
     io_bind (address_of go (dc_signer dc)) (\<lambda>solver.
     let verify = (\<lambda>t. gw_check (verify_award (go_ethers go) a (expect po oc dc origin dest solver t))) in
     io_bind (case fe_orderTerms env of
         Some t \<Rightarrow> io_bind (verify (envelope_terms t)) (\<lambda>_. io_return ()) | None \<Rightarrow> io_return ()) (\<lambda>_.
     io_bind (gw_check (big_uint (fa_deadline (fe_auth env)))) (\<lambda>deadline.
     io_bind (gw_now go) (\<lambda>now.
     io_bind (await_opened_final fuel go (fe_orderRef env) origin (po_fromBlock po) (Some (prepare_timeout go po deadline now)) ab) (\<lambda>found.
     case found of None \<Rightarrow> io_return None | Some l \<Rightarrow>
     io_bind (resolve_terms go env oc origin l) (\<lambda>t.
     io_bind (verify t) (\<lambda>v.
     io_bind (gw_check (check_lock_matches_terms l (va_terms v))) (\<lambda>_.
     io_bind (gw_check (recover_fill_auth_signer (go_ethers go) v)) (\<lambda>signer.
     io_bind (ca_is_authorizer (go_api go (dc_signer dc)) (dc_fillerContract dc) signer) (\<lambda>ok.
     if \<not> ok then gw_reject FillAuthMismatch
     else io_bind (gw_check (big_or_throw (po_bidOutput po))) (\<lambda>bid.
       io_return (Some (prepared v a origin dest l signer bond bid))))))))))))))))))))"

section \<open>Before a fill\<close>

definition fill_call_of :: "prepared_fill \<Rightarrow> int \<Rightarrow> int \<Rightarrow> fill_call" where
  "fill_call_of p amount deadline = \<lparr>fk_fillId = va_fillId p, fk_to = fa_to (va_fillAuth p), fk_token = fa_token (va_fillAuth p),
     fk_amount = amount, fk_deadline = deadline, fk_auth = va_signature p\<rparr>"

definition owed_candidates :: "books \<Rightarrow> prepared_fill \<Rightarrow> (string \<times> owed_fill) list" where
  "owed_candidates bk p = filter (\<lambda>(fid, f). fid \<noteq> va_fillId p \<and> ow_chainId f = pf_destinationChainId p
     \<and> ow_token f = to_lower (fa_token (va_fillAuth p)) \<and> bk_landed bk fid = None) (bk_owed bk)"

fun sum_owed :: "'w chain_api \<Rightarrow> string \<Rightarrow> int \<Rightarrow> (string \<times> owed_fill) list \<Rightarrow> int \<Rightarrow> ('w, int) gw" where
  "sum_owed ca filler now [] owed = io_return owed"
| "sum_owed ca filler now ((fid, f) # fs) owed =
     (if now > ow_deadline f then io_bind (io_update (\<lambda>g. g\<lparr>gw_books := drop_owed fid (gw_books g)\<rparr>)) (\<lambda>_. sum_owed ca filler now fs owed)
      else io_bind (gw_ask (ca_filled ca filler fid None)) (\<lambda>done.
        if done then io_bind (io_update (\<lambda>g. g\<lparr>gw_books := drop_owed fid (gw_books g)\<rparr>)) (\<lambda>_. sum_owed ca filler now fs owed)
        else sum_owed ca filler now fs (owed + ow_amount f)))"

definition owed_inventory :: "'w gateway_options \<Rightarrow> prepared_fill \<Rightarrow> dest_config \<Rightarrow> ('w, int) gw" where
  "owed_inventory go p dc = io_bind (io_read (\<lambda>g. owed_candidates (gw_books g) p)) (\<lambda>fs.
     if fs = [] then io_return 0
     else io_bind (gw_ask (now_sec go [dc_signer dc] False)) (\<lambda>now.
       sum_owed (go_api go (dc_signer dc)) (dc_fillerContract dc) now fs 0))"

definition fill_preflight :: "'w gateway_options \<Rightarrow> prepared_fill \<Rightarrow> dest_config \<Rightarrow> bool \<Rightarrow> ('w, unit) gw" where
  "fill_preflight go p dc reserve_owed = (let ca = go_api go (dc_signer dc); token = fa_token (va_fillAuth p) in
     io_bind (gw_ask (ca_filled ca (dc_fillerContract dc) (va_fillId p) None)) (\<lambda>done.
     if done then gw_reject AlreadyFilled
     else io_bind (gw_ask (address_of go (dc_signer dc))) (\<lambda>self.
     io_bind (gw_check (big_uint (fa_amount (va_fillAuth p)))) (\<lambda>amount.
     io_bind (if reserve_owed then owed_inventory go p dc else io_return 0) (\<lambda>owed.
     io_bind (gw_ask (ca_balance ca token self)) (\<lambda>balance.
     if balance < amount + owed then gw_reject InsufficientInventory
     else io_bind (gw_ask (ca_allowance ca token self (dc_fillerContract dc))) (\<lambda>allowance.
     if allowance < amount then gw_reject InsufficientAllowance
     else io_catch (io_bind (gw_check (big_uint (fa_deadline (va_fillAuth p)))) (\<lambda>deadline.
         gw_ask (ca_static_fill ca (dc_fillerContract dc) (fill_call_of p amount deadline))))
       (\<lambda>_. gw_reject SimulationFailed))))))))"

definition CLAIM_GAS_BUDGET :: int where
  "CLAIM_GAS_BUDGET = 300000"

text \<open>The reason a claim could not repay the fill, if there is one.\<close>

definition claim_readiness :: "'w gateway_options \<Rightarrow> prepared_fill \<Rightarrow> ('w, escrow_refusal option) ask" where
  "claim_readiness go p = io_bind (origin_of go (pf_originChainId p)) (\<lambda>oc. let ca = go_api go (oc_signer oc) in
     io_bind (ca_claims_paused ca (oc_escrow oc)) (\<lambda>paused.
     if paused then io_return (Some ClaimsPaused)
     else io_bind (address_of go (oc_signer oc)) (\<lambda>claimer.
     io_bind (ca_gas_balance ca claimer) (\<lambda>balance.
     io_bind (nd_fees (ca_node ca)) (\<lambda>fees.
     case (if fd_maxFee fees \<noteq> None then fd_maxFee fees else fd_gasPrice fees) of
       None \<Rightarrow> io_return (Some InsufficientClaimGas)
     | Some fee \<Rightarrow> io_return (if balance < or_else (go_claimGasBudget go) CLAIM_GAS_BUDGET * int fee
         then Some InsufficientClaimGas else None))))))"

section \<open>Accepting\<close>

datatype receipt_status = Recorded string num | Mismatch | Unacknowledged

definition classify_acceptance_receipt :: "ethers \<Rightarrow> prepared_fill \<Rightarrow> acceptance_receipt \<Rightarrow> string \<Rightarrow> string \<Rightarrow> receipt_status" where
  "classify_acceptance_receipt et p rp dg self =
     (if rp_auctionId rp \<noteq> pf_auctionId p then Mismatch
      else if to_lower (rp_orderId rp) \<noteq> to_lower (va_orderId p) then Mismatch
      else (case et_recover et dg (rp_signature rp) of
          None \<Rightarrow> Mismatch
        | Some signer \<Rightarrow> if to_lower signer \<noteq> to_lower self then Mismatch
            else Recorded (to_lower (rp_signature rp)) (rp_acceptedAt rp)))"

record signed_acceptance =
  sa_acceptance :: fill_acceptance
  sa_digest :: string
  sa_signature :: string

record accepted_fill = signed_acceptance +
  sa_receipt :: receipt_status

definition with_receipt :: "signed_acceptance \<Rightarrow> receipt_status \<Rightarrow> accepted_fill" where
  "with_receipt sg st = signed_acceptance.extend sg \<lparr>sa_receipt = st\<rparr>"

record 'w accept_options =
  ac_resume :: bool
  ac_onSigned :: "(signed_acceptance \<Rightarrow> ('w, unit) ask) option"

definition post_acceptance :: "'w gateway_options \<Rightarrow> prepared_fill \<Rightarrow> signed_acceptance \<Rightarrow> ('w, receipt_status) gw" where
  "post_acceptance go p sg = io_bind (destination_of go (pf_destinationChainId p)) (\<lambda>dc.
     io_catch (case go_acceptances go of
         None \<Rightarrow> io_throw plain_error
       | Some post \<Rightarrow> io_bind (io_update (\<lambda>g. g\<lparr>gw_posted := gw_posted g @ [(va_orderId p, sa_signature sg)]\<rparr>)) (\<lambda>_.
           io_bind (gw_ask (post (pf_auctionId p) (va_orderId p) (sa_signature sg))) (\<lambda>rp.
           io_bind (gw_ask (address_of go (dc_signer dc))) (\<lambda>self.
             io_return (classify_acceptance_receipt (go_ethers go) p rp (sa_digest sg) self)))))
       (\<lambda>_. io_return Unacknowledged))"

definition call_on_signed :: "'w accept_options \<Rightarrow> signed_acceptance \<Rightarrow> ('w, unit) gw" where
  "call_on_signed o1 sg = (case ac_onSigned o1 of Some f \<Rightarrow> gw_ask (f sg) | None \<Rightarrow> io_return ())"

definition sign_now :: "'w gateway_options \<Rightarrow> prepared_fill \<Rightarrow> dest_config \<Rightarrow> ('w, signed_acceptance) gw" where
  "sign_now go p dc = io_bind (gw_check (fill_acceptance_for (go_ethers go) p)) (\<lambda>acc.
     io_bind (gw_check (plainly (fill_acceptance_digest (go_ethers go) (pf_bondDomain p) acc))) (\<lambda>dg.
     io_bind (gw_ask (ca_sign_acceptance (go_api go (dc_signer dc)) (pf_bondDomain p) acc)) (\<lambda>raw. let sig = to_lower raw in
     io_bind (io_update (\<lambda>g. g\<lparr>gw_signed := gw_signed g @ [(p, acc)]\<rparr>)) (\<lambda>_.
     io_bind (gw_book (record_signed (go_ethers go) p \<lparr>en_acceptance = acc, en_digest = dg, en_signature = Some sig\<rparr>)) (\<lambda>_.
       io_return \<lparr>sa_acceptance = acc, sa_digest = dg, sa_signature = sig\<rparr>)))))"

text \<open>What must hold before a fresh acceptance is signed, inside the token's queue.\<close>

definition accept_checks :: "'w gateway_options \<Rightarrow> prepared_fill \<Rightarrow> dest_config \<Rightarrow> ('w, unit) gw" where
  "accept_checks go p dc = (let budget = or_else (go_acceptBudgetSec go) 15 in
     io_bind (origin_of go (pf_originChainId p)) (\<lambda>oc.
     io_bind (gw_ask (now_sec go [oc_signer oc, dc_signer dc] True)) (\<lambda>now.
     if now + budget > va_acceptBy p then gw_reject AcceptWindowClosed
     else io_bind (gw_check (check_fill_window \<lparr>fw_nowSec = VBig now, fw_refundableAt = VBig (ol_refundableAt (pf_lock p)),
         fw_fillAuthDeadline = fa_deadline (va_fillAuth p), fw_fillInclusionSec = VBig (fill_inclusion go + budget),
         fw_attestationLatencySec = None, fw_safetyMarginSec = None\<rparr>)) (\<lambda>_.
       io_bind (fill_preflight go p dc True) (\<lambda>_.
       io_bind (gw_ask (claim_readiness go p)) (\<lambda>bad. case bad of
         Some c \<Rightarrow> gw_reject c | None \<Rightarrow> io_return ()))))))"

definition sign_acceptance :: "'w gateway_options \<Rightarrow> prepared_fill \<Rightarrow> 'w accept_options \<Rightarrow> bool \<Rightarrow> ('w, accepted_fill) gw" where
  "sign_acceptance go p o1 resume = io_bind (destination_of go (pf_destinationChainId p)) (\<lambda>dc.
     io_bind (gw_ask (address_of go (dc_signer dc))) (\<lambda>self.
     io_bind (gw_check (require_own_fill_auth p self)) (\<lambda>_.
     io_bind (if resume then sign_now go p dc else io_bind (accept_checks go p dc) (\<lambda>_. sign_now go p dc)) (\<lambda>sg.
     io_bind (call_on_signed o1 sg) (\<lambda>_.
     io_bind (post_acceptance go p sg) (\<lambda>st. io_return (with_receipt sg st)))))))"

text \<open>
  \<open>accept\<close>. \<open>others\<close> is the state the gateway is in once the call in flight it waits for is over; after each
  wait the method starts over.
\<close>

fun accept :: "nat \<Rightarrow> ('w gateway \<Rightarrow> 'w gateway) \<Rightarrow> 'w gateway_options \<Rightarrow> prepared_fill \<Rightarrow> 'w accept_options \<Rightarrow> ('w, accepted_fill option) gw" where
  "accept 0 others go p o1 = io_return None"
| "accept (Suc n) others go p o1 =
     (if go_acceptances go = None then io_throw plain_error
      else io_bind (io_read (\<lambda>g. accept_start (go_ethers go) (gw_books g) p)) (\<lambda>plan. io_bind (gw_check plan) (\<lambda>(pl, dg). case pl of
        AwaitOther \<Rightarrow> io_bind (io_update others) (\<lambda>_. accept n others go p o1)
      | Repost en sig \<Rightarrow> (let sg = \<lparr>sa_acceptance = en_acceptance en, sa_digest = en_digest en, sa_signature = sig\<rparr> in
          io_bind (call_on_signed o1 sg) (\<lambda>_. io_bind (post_acceptance go p sg) (\<lambda>st. io_return (Some (with_receipt sg st)))))
      | SignAcceptance again \<Rightarrow>
          io_bind (io_update (\<lambda>g. g\<lparr>gw_books := enter_accepting p dg (gw_books g)\<rparr>)) (\<lambda>_.
          io_bind (io_catch (io_bind (sign_acceptance go p o1 (again \<or> ac_resume o1)) (\<lambda>a. io_return (Inr a))) (\<lambda>e. io_return (Inl e))) (\<lambda>res.
          io_bind (io_update (\<lambda>g. g\<lparr>gw_books := leave_accepting p (gw_books g)\<rparr>)) (\<lambda>_.
            case res of Inl e \<Rightarrow> io_throw e | Inr a \<Rightarrow> io_return (Some a)))))))"

definition restore :: "'w gateway_options \<Rightarrow> prepared_fill \<Rightarrow> ('w, unit) gw" where
  "restore go p = io_bind (destination_of go (pf_destinationChainId p)) (\<lambda>dc.
     io_bind (gw_ask (address_of go (dc_signer dc))) (\<lambda>self. gw_book (restore_acceptance (go_ethers go) p self)))"

end
