(* ===== verification/GatewaySend.thy ===== *)
theory GatewaySend
  imports Gateway
begin

text \<open>
  The transactions of \<open>OnchainEscrowGateway\<close>: fill, claim, the claim loop, allowances and the bond
  (\<open>solver-sdk/src/escrow-gateway.ts\<close>, \<open>bond.ts\<close>). A contract call is the text of its contract, method and
  arguments, which is what a node simulates and populates. A send runs the receipt wait with the fuel
  of the options, \<open>None\<close> when it runs out.
\<close>

section \<open>Filling\<close>

definition show_call :: "string \<Rightarrow> string \<Rightarrow> string list \<Rightarrow> string" where
  "show_call contract method args = join '','' (contract # method # args)"

definition fill_key :: "prepared_fill \<Rightarrow> string" where
  "fill_key p = ''fill:'' @ va_fillId p"

definition claim_key :: "prepared_fill \<Rightarrow> string" where
  "claim_key p = ''claim:'' @ va_orderId p"

text \<open>\<open>isFilled\<close>\<close>

definition is_filled :: "'w gateway_options \<Rightarrow> prepared_fill \<Rightarrow> nat option \<Rightarrow> ('w, bool) ask" where
  "is_filled go p tag = io_bind (destination_of go (pf_destinationChainId p)) (\<lambda>dc.
     ca_filled (go_api go (dc_signer dc)) (dc_fillerContract dc) (va_fillId p) tag)"

definition gw_send :: "'w gateway_options \<Rightarrow> 'w send_plan \<Rightarrow> ('w, tx_outcome option) gw" where
  "gw_send go plan = gw_tx (send (go_txFuel go) (node_of go) (go_tx go) plan)"

definition gw_guard :: "'w gateway_options \<Rightarrow> string \<Rightarrow> escrow_refusal \<Rightarrow> (nat option \<Rightarrow> ('w, bool) ask) \<Rightarrow> int \<Rightarrow> ('w, unit) gw" where
  "gw_guard go key done is_done land_by = gw_tx (guard_in_doubt (node_of go) (go_tx go) key (code_name done) is_done (nat land_by))"

definition not_past :: "'w gateway_options \<Rightarrow> nat \<Rightarrow> int \<Rightarrow> ('w, unit) ask" where
  "not_past go g deadline = io_bind (now_sec go [g] False) (\<lambda>now.
     if now > deadline then gw_reject AuthExpired else io_return ())"

text \<open>The window of an accepted fill is only warned about; what its check throws besides a refusal escapes.\<close>

definition advisory_window :: "'w gateway_options \<Rightarrow> prepared_fill \<Rightarrow> int \<Rightarrow> ('w, unit) gw" where
  "advisory_window go p dest_now = io_bind (io_catch
       (io_bind (origin_of go (pf_originChainId p)) (\<lambda>oc. gw_ask (now_sec go [oc_signer oc] True)))
       (\<lambda>_. io_bind (gw_ask (gw_now go)) (\<lambda>now. io_return \<lfloor>now / 1000\<rfloor>))) (\<lambda>window_now.
     io_catch (gw_check (check_fill_window \<lparr>fw_nowSec = VBig (if dest_now > window_now then dest_now else window_now),
         fw_refundableAt = VBig (ol_refundableAt (pf_lock p)), fw_fillAuthDeadline = fa_deadline (va_fillAuth p),
         fw_fillInclusionSec = VBig (fill_inclusion go), fw_attestationLatencySec = None, fw_safetyMarginSec = None\<rparr>))
       (\<lambda>e. if is_refusal e then io_return () else io_throw e))"

definition fill_plan :: "'w gateway_options \<Rightarrow> prepared_fill \<Rightarrow> dest_config \<Rightarrow> int \<Rightarrow> int \<Rightarrow> 'w send_plan" where
  "fill_plan go p dc amount deadline = \<lparr>pl_signer = dc_signer dc,
     pl_call = show_call (dc_fillerContract dc) ''fill'' [va_fillId p, fa_to (va_fillAuth p), fa_token (va_fillAuth p),
       show_int amount, show_int deadline, va_signature p],
     pl_simulate = None, pl_recheck = Some (not_past go (dc_signer dc) deadline), pl_inDoubtKey = Some (fill_key p),
     pl_landBy = Some (nat (deadline + 1))\<rparr>"

definition send_fill :: "'w gateway_options \<Rightarrow> prepared_fill \<Rightarrow> ('w, tx_outcome option) gw" where
  "send_fill go p = io_bind (destination_of go (pf_destinationChainId p)) (\<lambda>dc.
     io_bind (gw_check (big_uint (fa_deadline (va_fillAuth p)))) (\<lambda>deadline.
     io_bind (gw_guard go (fill_key p) AlreadyFilled (is_filled go p) (deadline + 1)) (\<lambda>_.
     io_bind (gw_ask (now_sec go [dc_signer dc] False)) (\<lambda>dest_now.
     if dest_now > deadline then gw_reject AuthExpired
     else io_bind (advisory_window go p dest_now) (\<lambda>_.
       io_bind (fill_preflight go p dc False) (\<lambda>_.
       io_bind (io_catch (io_bind (gw_ask (claim_readiness go p)) (\<lambda>_. io_return ())) (\<lambda>_. io_return ())) (\<lambda>_.
       io_bind (gw_check (big_uint (fa_amount (va_fillAuth p)))) (\<lambda>amount.
         gw_send go (fill_plan go p dc amount deadline)))))))))"

definition fill :: "'w gateway_options \<Rightarrow> prepared_fill \<Rightarrow> ('w, tx_outcome option) gw" where
  "fill go p = io_bind (io_read (\<lambda>g. fill_start (go_ethers go) (gw_books g) p)) (\<lambda>ok. io_bind (gw_check ok) (\<lambda>_.
     io_bind (io_update (\<lambda>g. g\<lparr>gw_books := enter_filling p (gw_books g)\<rparr>)) (\<lambda>_.
     io_bind (io_catch (io_bind (send_fill go p) (\<lambda>out. io_bind (case out of
           Some (Confirmed h b) \<Rightarrow> io_update (\<lambda>g. g\<lparr>gw_books := note_landed p h b (gw_books g)\<rparr>)
         | _ \<Rightarrow> io_return ()) (\<lambda>_. io_return (Inr out)))) (\<lambda>e. io_return (Inl e))) (\<lambda>res.
     io_bind (io_update (\<lambda>g. g\<lparr>gw_books := leave_filling p (gw_books g)\<rparr>)) (\<lambda>_.
       case res of Inl e \<Rightarrow> io_throw e | Inr out \<Rightarrow> io_return out)))))"

section \<open>Claiming\<close>

record verified_attestation =
  vt_orderId :: string
  vt_payee :: string
  vt_proof :: string
  vt_attester :: string

definition fetch_attestation :: "'w gateway_options \<Rightarrow> prepared_fill \<Rightarrow> ('w, verified_attestation option) ask" where
  "fetch_attestation go p = (case go_attestations go of
     None \<Rightarrow> io_throw plain_error
   | Some get \<Rightarrow> io_bind (get (va_orderId p)) (\<lambda>wire. case wire of
       None \<Rightarrow> io_return None
     | Some w \<Rightarrow> io_bind (gw_check (verify_fill_attestation (go_ethers go) w \<lparr>ax_orderId = va_orderId p, ax_payee = va_payee p,
           ax_originChainId = VBig (pf_originChainId p), ax_verifier = ol_verifier (pf_lock p)\<rparr>)) (\<lambda>(proof, attester).
         io_bind (origin_of go (pf_originChainId p)) (\<lambda>oc.
         io_bind (ca_is_attester (go_api go (oc_signer oc)) (ol_verifier (pf_lock p)) attester) (\<lambda>ok.
           if \<not> ok then gw_reject AttestationMismatch
           else io_return (Some \<lparr>vt_orderId = va_orderId p, vt_payee = va_payee p, vt_proof = proof, vt_attester = attester\<rparr>))))))"

definition lock_status :: "'w gateway_options \<Rightarrow> prepared_fill \<Rightarrow> nat option \<Rightarrow> ('w, nat) ask" where
  "lock_status go p tag = io_bind (origin_of go (pf_originChainId p)) (\<lambda>oc.
     io_bind (ca_lock (go_api go (oc_signer oc)) (oc_escrow oc) (va_orderId p) tag) (\<lambda>l. io_return (lk_status l)))"

definition guard_in_doubt_claim :: "'w gateway_options \<Rightarrow> prepared_fill \<Rightarrow> ('w, unit) gw" where
  "guard_in_doubt_claim go p = gw_guard go (claim_key p) AlreadyClaimed
     (\<lambda>tag. io_bind (lock_status go p tag) (\<lambda>st. io_return (st = LOCK_CLAIMED))) (ol_refundableAt (pf_lock p))"

definition claim_inclusion :: "'w gateway_options \<Rightarrow> int" where
  "claim_inclusion go = or_else (go_claimInclusionSec go) 60"

definition check_claim_window :: "'w gateway_options \<Rightarrow> prepared_fill \<Rightarrow> nat \<Rightarrow> ('w, unit) ask" where
  "check_claim_window go p g = io_bind (now_sec go [g] True) (\<lambda>now.
     if now + claim_inclusion go \<ge> ol_refundableAt (pf_lock p) then gw_reject WindowClosed else io_return ())"

definition claim_plan :: "'w gateway_options \<Rightarrow> prepared_fill \<Rightarrow> origin_config \<Rightarrow> string \<Rightarrow> 'w send_plan" where
  "claim_plan go p oc proof = \<lparr>pl_signer = oc_signer oc, pl_call = show_call (oc_escrow oc) ''claim'' [va_orderId p, proof],
     pl_simulate = None, pl_recheck = Some (check_claim_window go p (oc_signer oc)), pl_inDoubtKey = Some (claim_key p),
     pl_landBy = Some (nat (ol_refundableAt (pf_lock p)))\<rparr>"

definition claim :: "'w gateway_options \<Rightarrow> prepared_fill \<Rightarrow> verified_attestation \<Rightarrow> ('w, tx_outcome option) gw" where
  "claim go p att = io_bind (origin_of go (pf_originChainId p)) (\<lambda>oc.
     io_bind (guard_in_doubt_claim go p) (\<lambda>_.
     io_bind (gw_ask (lock_status go p None)) (\<lambda>st.
     if st = LOCK_CLAIMED then gw_reject AlreadyClaimed
     else if st \<noteq> LOCK_OPEN then gw_reject LockNotOpen
     else io_bind (gw_ask (check_claim_window go p (oc_signer oc))) (\<lambda>_.
       io_bind (io_catch (gw_ask (ca_static_claim (go_api go (oc_signer oc)) (oc_escrow oc) (va_orderId p) (vt_proof att)))
         (\<lambda>_. gw_reject SimulationFailed)) (\<lambda>payee.
       if \<not> eq_addr payee (va_payee p) then gw_reject AttestationMismatch
       else gw_send go (claim_plan go p oc (vt_proof att)))))))"

section \<open>The claim loop\<close>

datatype claim_result =
    ClaimedBySolver string
  | ClaimedByOther string string
  | ClaimedUnverified
  | LoopLockNotOpen nat
  | LoopWindowClosed
  | LoopAborted

definition claim_event :: "prepared_fill \<Rightarrow> string event_log \<Rightarrow> claim_result option" where
  "claim_event p lg = (if lg_removed lg then None else (case lg_parsed lg of
     None \<Rightarrow> None
   | Some payee \<Rightarrow> Some (if eq_addr payee (va_payee p) then ClaimedBySolver (lg_txHash lg) else ClaimedByOther payee (lg_txHash lg))))"

fun first_event :: "prepared_fill \<Rightarrow> string event_log list \<Rightarrow> claim_result option" where
  "first_event p [] = None"
| "first_event p (lg # lgs) = (case claim_event p lg of Some r \<Rightarrow> Some r | None \<Rightarrow> first_event p lgs)"

fun who_among :: "(nat \<Rightarrow> nat \<Rightarrow> ('w, string event_log list) ask) \<Rightarrow> prepared_fill \<Rightarrow> (nat \<times> nat) list \<Rightarrow> ('w, claim_result) ask" where
  "who_among f p [] = io_throw plain_error"
| "who_among f p ((a, b) # rs) = io_bind (f a b) (\<lambda>lgs. case first_event p lgs of
     Some r \<Rightarrow> io_return r | None \<Rightarrow> who_among f p rs)"

definition who_claimed :: "'w gateway_options \<Rightarrow> prepared_fill \<Rightarrow> ('w, claim_result) ask" where
  "who_claimed go p = io_bind (origin_of go (pf_originChainId p)) (\<lambda>oc. let ca = go_api go (oc_signer oc) in
     io_bind (nd_block_number (ca_node ca)) (\<lambda>head.
       who_among (ca_claimed ca (oc_escrow oc) (va_orderId p)) p
         (block_ranges (ol_blockNumber (pf_lock p)) head (or_else (oc_maxLogRange oc) 2000))))"

definition after_window :: "'w gateway_options \<Rightarrow> prepared_fill \<Rightarrow> ('w, claim_result) ask" where
  "after_window go p = io_bind (io_catch (io_bind (lock_status go p None) (\<lambda>st. io_return (Some st))) (\<lambda>_. io_return None)) (\<lambda>seen.
     if seen = Some LOCK_REFUNDED then io_return (LoopLockNotOpen LOCK_REFUNDED)
     else if seen \<noteq> Some LOCK_CLAIMED then io_return LoopWindowClosed
     else io_catch (who_claimed go p) (\<lambda>_. io_return ClaimedUnverified))"

record claim_options =
  co_pollMs :: "num option"
  co_maxBackoffMs :: "num option"

record claim_vars =
  cv_backoff :: num
  cv_aheadMs :: num
  cv_verified :: "verified_attestation option"

text \<open>How a pass of the loop goes on: with a result, or with a delay.\<close>

datatype claim_step = LoopDone claim_result | LoopDelay num | LoopOutOfFuel

definition last_send_sec :: "'w gateway_options \<Rightarrow> prepared_fill \<Rightarrow> int" where
  "last_send_sec go p = ol_refundableAt (pf_lock p) - claim_inclusion go"

definition reread_attestation :: "'w gateway_options \<Rightarrow> prepared_fill \<Rightarrow> verified_attestation option \<Rightarrow> ('w, verified_attestation option) gw" where
  "reread_attestation go p verified = io_catch
     (io_bind (gw_ask (fetch_attestation go p)) (\<lambda>att. io_return (if att \<noteq> None then att else verified)))
     (\<lambda>e. if verified = None then io_throw e else io_return verified)"

text \<open>
  The body of \<open>try\<close>, with the variables it leaves. They outlive a throw, so each part returns them beside
  its outcome: \<open>Inl\<close> is what it threw.
\<close>

definition claim_attempt :: "'w gateway_options \<Rightarrow> prepared_fill \<Rightarrow> num \<Rightarrow> claim_vars \<Rightarrow> ('w, (jsval + claim_step) \<times> claim_vars) gw" where
  "claim_attempt go p poll cv = io_bind (io_catch (io_bind (io_bind (guard_in_doubt_claim go p) (\<lambda>_.
       reread_attestation go p (cv_verified cv))) (\<lambda>att. io_return (Inr att))) (\<lambda>e. io_return (Inl e))) (\<lambda>got. case got of
     Inl e \<Rightarrow> io_return (Inl e, cv)
   | Inr att \<Rightarrow> (let cv1 = cv\<lparr>cv_verified := att\<rparr> in case att of
       None \<Rightarrow> io_return (Inr (LoopDelay poll), cv1\<lparr>cv_backoff := poll\<rparr>)
     | Some a \<Rightarrow> io_bind (io_catch (io_bind (claim go p a) (\<lambda>out. io_return (Inr out))) (\<lambda>e. io_return (Inl e))) (\<lambda>sent. case sent of
         Inl e \<Rightarrow> io_return (Inl e, cv1)
       | Inr None \<Rightarrow> io_return (Inr LoopOutOfFuel, cv1)
       | Inr (Some (Confirmed h b)) \<Rightarrow> io_return (Inr (LoopDone (ClaimedBySolver h)), cv1)
       | Inr (Some _) \<Rightarrow> io_return (Inr (LoopDelay poll), cv1\<lparr>cv_backoff := poll\<rparr>))))"

definition claim_try :: "'w gateway_options \<Rightarrow> prepared_fill \<Rightarrow> nat \<Rightarrow> num \<Rightarrow> claim_vars \<Rightarrow> ('w, (jsval + claim_step) \<times> claim_vars) gw" where
  "claim_try go p g poll cv = io_bind (io_catch (io_bind (gw_ask (lock_status go p None)) (\<lambda>st.
       if st = LOCK_CLAIMED then io_bind (gw_ask (who_claimed go p)) (\<lambda>r. io_return (Inr (Some (LoopDone r), None)))
       else if st = LOCK_REFUNDED then io_return (Inr (Some (LoopDone (LoopLockNotOpen st)), None))
       else if st \<noteq> LOCK_OPEN then io_throw plain_error
       else io_bind (gw_ask (now_sec go [g] True)) (\<lambda>chain_now. io_bind (gw_ask (gw_now go)) (\<lambda>now.
         io_return (Inr (None, Some (chain_now, max 0 (number_of_big chain_now * 1000 - now)))))))) (\<lambda>e. io_return (Inl e))) (\<lambda>seen. case seen of
     Inl e \<Rightarrow> io_return (Inl e, cv)
   | Inr (Some done, _) \<Rightarrow> io_return (Inr done, cv)
   | Inr (None, Some (chain_now, ahead)) \<Rightarrow> (let cv1 = cv\<lparr>cv_aheadMs := ahead\<rparr> in
       if chain_now \<ge> last_send_sec go p then io_bind (gw_ask (after_window go p)) (\<lambda>r. io_return (Inr (LoopDone r), cv1))
       else claim_attempt go p poll cv1)
   | Inr (None, None) \<Rightarrow> io_return (Inl plain_error, cv))"

definition claim_recover :: "num \<Rightarrow> num \<Rightarrow> (jsval + claim_step) \<times> claim_vars \<Rightarrow> claim_step \<times> claim_vars" where
  "claim_recover poll max_backoff res = (case res of
     (Inr st, cv) \<Rightarrow> (st, cv)
   | (Inl e, cv) \<Rightarrow>
       if has_code e InDoubtFill then (LoopDelay poll, cv\<lparr>cv_backoff := poll\<rparr>)
       else if has_code e AlreadyClaimed then (LoopDelay 0, cv)
       else (LoopDelay (cv_backoff cv), cv\<lparr>cv_backoff := min (cv_backoff cv * 2) max_backoff\<rparr>))"

definition capped_delay :: "num \<Rightarrow> num \<Rightarrow> num" where
  "capped_delay delay left_ms = (if delay \<ge> left_ms then max 0 (min left_ms (max 1000 (of_int \<lfloor>left_ms / 2\<rfloor>))) else delay)"

fun run_claim_loop :: "nat \<Rightarrow> 'w gateway_options \<Rightarrow> prepared_fill \<Rightarrow> claim_options \<Rightarrow> ('w, bool) ask \<Rightarrow> nat \<Rightarrow> claim_vars \<Rightarrow> ('w, claim_result option) gw" where
  "run_claim_loop 0 go p co ab g cv = io_return None"
| "run_claim_loop (Suc n) go p co ab g cv = (let poll = or_else (co_pollMs co) 15000 in
     io_bind (gw_ask ab) (\<lambda>stop. if stop then io_return (Some LoopAborted)
     else io_bind (gw_ask (gw_now go)) (\<lambda>now. if \<lfloor>now / 1000\<rfloor> \<ge> last_send_sec go p
       then io_bind (gw_ask (after_window go p)) (\<lambda>r. io_return (Some r))
       else io_bind (claim_try go p g poll cv) (\<lambda>res.
         case claim_recover poll (or_else (co_maxBackoffMs co) 120000) res of
           (LoopDone r, _) \<Rightarrow> io_return (Some r)
         | (LoopOutOfFuel, _) \<Rightarrow> io_return None
         | (LoopDelay delay, cv1) \<Rightarrow> io_bind (gw_ask (gw_now go)) (\<lambda>now2.
             io_bind (gw_ask (io_update (go_pause go (capped_delay delay
               (number_of_big (last_send_sec go p) * 1000 - (now2 + cv_aheadMs cv1)))))) (\<lambda>_.
               run_claim_loop n go p co ab g cv1))))))"

definition claim_until_refundable :: "nat \<Rightarrow> 'w gateway_options \<Rightarrow> prepared_fill \<Rightarrow> claim_options \<Rightarrow> ('w, bool) ask \<Rightarrow> ('w, claim_result option) gw" where
  "claim_until_refundable fuel go p co ab = (if go_attestations go = None then io_throw plain_error
     else io_bind (origin_of go (pf_originChainId p)) (\<lambda>oc.
       run_claim_loop fuel go p co ab (oc_signer oc) \<lparr>cv_backoff = or_else (co_pollMs co) 15000, cv_aheadMs = 0, cv_verified = None\<rparr>))"

section \<open>Observation, allowance, bond\<close>

definition resolve_tx :: "'w gateway_options \<Rightarrow> int \<Rightarrow> string list \<Rightarrow> (string \<times> nat) option \<Rightarrow> (nat \<Rightarrow> ('w, bool) ask) option \<Rightarrow> ('w, tx_outcome) gw" where
  "resolve_tx go c hashes known effect =
     (if hashes = [] then io_throw plain_error
      else (case (map_of (go_destinations go) (round_double (of_int c)), map_of (go_origins go) (round_double (of_int c))) of
          (Some dc, _) \<Rightarrow> gw_tx (resolve_slot (node_of go (dc_signer dc)) hashes known effect)
        | (None, Some oc) \<Rightarrow> gw_tx (resolve_slot (node_of go (oc_signer oc)) hashes known effect)
        | (None, None) \<Rightarrow> io_throw plain_error))"

definition ABI_TRUE :: string where
  "ABI_TRUE = ''0x'' @ replicate 63 CHR ''0'' @ ''1''"

definition simulate_approve :: "'w chain_api \<Rightarrow> string \<Rightarrow> string \<Rightarrow> string \<Rightarrow> int \<Rightarrow> ('w, unit) ask" where
  "simulate_approve ca token from1 spender v = io_bind (io_catch (ca_raw_approve ca token from1 spender v) (\<lambda>_. gw_reject SimulationFailed)) (\<lambda>out.
     if out \<noteq> ''0x'' \<and> to_lower out \<noteq> ABI_TRUE then gw_reject SimulationFailed else io_return ())"

definition bare_plan :: "nat \<Rightarrow> string \<Rightarrow> 'w send_plan" where
  "bare_plan g call = \<lparr>pl_signer = g, pl_call = call, pl_simulate = None, pl_recheck = None, pl_inDoubtKey = None, pl_landBy = None\<rparr>"

definition approve :: "'w gateway_options \<Rightarrow> nat \<Rightarrow> string \<Rightarrow> string \<Rightarrow> string \<Rightarrow> int \<Rightarrow> ('w, tx_outcome option) gw" where
  "approve go g token self spender v = gw_send go ((bare_plan g (show_call token ''approve'' [spender, show_int v]))
     \<lparr>pl_simulate := Some (simulate_approve (go_api go g) token self spender v)\<rparr>)"

text \<open>The outer \<open>None\<close> is out of fuel; the inner is \<open>null\<close>: nothing needed sending.\<close>

definition ensure_allowance :: "'w gateway_options \<Rightarrow> nat \<Rightarrow> string \<Rightarrow> string \<Rightarrow> int \<Rightarrow> int option \<Rightarrow> ('w, tx_outcome option option) gw" where
  "ensure_allowance go g token spender amount sufficient = io_bind (gw_ask (address_of go g)) (\<lambda>self.
     io_bind (gw_ask (ca_allowance (go_api go g) token self spender)) (\<lambda>current.
     if current \<ge> amount \<or> (case sufficient of Some s \<Rightarrow> current \<ge> s | None \<Rightarrow> False) then io_return (Some None)
     else io_bind (if current > 0 then io_bind (approve go g token self spender 0) (\<lambda>r. io_return (Some r)) else io_return None) (\<lambda>reset.
       case reset of
         Some None \<Rightarrow> io_return None
       | Some (Some out) \<Rightarrow> (case out of
             Confirmed _ _ \<Rightarrow> io_bind (approve go g token self spender amount) (\<lambda>r. io_return (map_option Some r))
           | _ \<Rightarrow> io_return (Some (Some out)))
       | None \<Rightarrow> io_bind (approve go g token self spender amount) (\<lambda>r. io_return (map_option Some r)))))"

definition bond_contract :: "'w gateway_options \<Rightarrow> ('w, bond_config) gw" where
  "bond_contract go = (case go_bond go of None \<Rightarrow> io_throw plain_error
   | Some b \<Rightarrow> io_bind (gw_ask (address_of go (bc_signer b))) (\<lambda>_. io_return b))"

definition bond_send :: "'w gateway_options \<Rightarrow> string \<Rightarrow> string list \<Rightarrow> ('w, tx_outcome option) gw" where
  "bond_send go method args = io_bind (bond_contract go) (\<lambda>b. gw_send go (bare_plan (bc_signer b) (show_call (bc_address b) method args)))"

definition bond_deposit :: "'w gateway_options \<Rightarrow> int \<Rightarrow> ('w, tx_outcome option) gw" where
  "bond_deposit go amount = bond_send go ''deposit'' [show_int amount]"

definition bond_request_withdrawal :: "'w gateway_options \<Rightarrow> int \<Rightarrow> ('w, tx_outcome option) gw" where
  "bond_request_withdrawal go amount = bond_send go ''requestWithdrawal'' [show_int amount]"

definition bond_cancel_withdrawal :: "'w gateway_options \<Rightarrow> ('w, tx_outcome option) gw" where
  "bond_cancel_withdrawal go = bond_send go ''cancelWithdrawal'' []"

definition bond_complete_withdrawal :: "'w gateway_options \<Rightarrow> string option \<Rightarrow> ('w, tx_outcome option) gw" where
  "bond_complete_withdrawal go to1 = (case to1 of
     Some a \<Rightarrow> if a = [] then bond_send go ''completeWithdrawal'' [] else bond_send go ''completeWithdrawalTo'' [a]
   | None \<Rightarrow> bond_send go ''completeWithdrawal'' [])"

end
