(* ===== verification/GatewayTime.thy ===== *)
theory GatewayTime
  imports GatewaySend TxSafety
begin

text \<open>
  What a run of the gateway asked, and when. \<open>onward go w v\<close> says that the world \<open>v\<close> comes out of \<open>w\<close> by
  calls of the functions of the options; an answer the gateway acted on is one given on the way from
  the world before to the world after (\<open>asked\<close>). Over a world that keeps the history of its calls, this
  is an answer that the run itself was given.
\<close>

section \<open>Worlds\<close>

inductive world_step :: "'w gateway_options \<Rightarrow> 'w \<Rightarrow> 'w \<Rightarrow> bool" for go where
  "world_step go w (snd (nd_chain_id (ca_node (go_api go i)) w))"
| "world_step go w (snd (nd_address (ca_node (go_api go i)) w))"
| "world_step go w (snd (nd_static_call (ca_node (go_api go i)) c w))"
| "world_step go w (snd (nd_populate (ca_node (go_api go i)) c n w))"
| "world_step go w (snd (nd_sign (ca_node (go_api go i)) t w))"
| "world_step go w (snd (nd_broadcast (ca_node (go_api go i)) x w))"
| "world_step go w (snd (nd_pending (ca_node (go_api go i)) a w))"
| "world_step go w (snd (nd_count_at (ca_node (go_api go i)) a n w))"
| "world_step go w (snd (nd_block_number (ca_node (go_api go i)) w))"
| "world_step go w (snd (nd_head (ca_node (go_api go i)) w))"
| "world_step go w (snd (nd_receipt (ca_node (go_api go i)) a w))"
| "world_step go w (snd (nd_lookup (ca_node (go_api go i)) a w))"
| "world_step go w (snd (nd_fees (ca_node (go_api go i)) w))"
| "world_step go w (snd (nd_estimate (ca_node (go_api go i)) a w))"
| "world_step go w (snd (ca_tagged (go_api go i) a w))"
| "world_step go w (snd (ca_block_hash (go_api go i) n w))"
| "world_step go w (snd (ca_opened (go_api go i) a b m n w))"
| "world_step go w (snd (ca_claimed (go_api go i) a b m n w))"
| "world_step go w (snd (ca_lock (go_api go i) a b tag w))"
| "world_step go w (snd (ca_claim_window (go_api go i) a w))"
| "world_step go w (snd (ca_claims_paused (go_api go i) a w))"
| "world_step go w (snd (ca_static_claim (go_api go i) a b c w))"
| "world_step go w (snd (ca_is_attester (go_api go i) a b w))"
| "world_step go w (snd (ca_filled (go_api go i) a b tag w))"
| "world_step go w (snd (ca_is_authorizer (go_api go i) a b w))"
| "world_step go w (snd (ca_static_fill (go_api go i) a k w))"
| "world_step go w (snd (ca_balance (go_api go i) a b w))"
| "world_step go w (snd (ca_allowance (go_api go i) a b c w))"
| "world_step go w (snd (ca_raw_approve (go_api go i) a b c amount w))"
| "world_step go w (snd (ca_gas_balance (go_api go i) a w))"
| "world_step go w (snd (ca_sign_acceptance (go_api go i) place acc w))"
| "go_attestations go = Some get \<Longrightarrow> world_step go w (snd (get a w))"
| "go_acceptances go = Some post \<Longrightarrow> world_step go w (snd (post a b c w))"
| "world_step go w (snd (go_now go w))"
| "world_step go w (go_pause go ms w)"

definition onward :: "'w gateway_options \<Rightarrow> 'w \<Rightarrow> 'w \<Rightarrow> bool" where
  "onward go = (world_step go)\<^sup>*\<^sup>*"

lemma onward_step: "world_step go w v \<Longrightarrow> onward go w v"
  by (simp add: onward_def)

interpretation worlds: run_relation "onward go" for go :: "'w gateway_options"
  by unfold_locales (auto simp: onward_def)

definition sender_onward :: "'w gateway_options \<Rightarrow> 'w sender \<Rightarrow> 'w sender \<Rightarrow> bool" where
  "sender_onward go s t \<longleftrightarrow> onward go (sn_world s) (sn_world t)"

interpretation senders: run_relation "sender_onward go" for go :: "'w gateway_options"
  by unfold_locales (auto simp: sender_onward_def intro: worlds.refl worlds.trans)

definition world_of :: "'w gateway \<Rightarrow> 'w" where
  "world_of g = sn_world (gw_sender g)"

definition gateway_onward :: "'w gateway_options \<Rightarrow> 'w gateway \<Rightarrow> 'w gateway \<Rightarrow> bool" where
  "gateway_onward go g h \<longleftrightarrow> onward go (world_of g) (world_of h)"

interpretation gateways: run_relation "gateway_onward go" for go :: "'w gateway_options"
  by unfold_locales (auto simp: gateway_onward_def intro: worlds.refl worlds.trans)

section \<open>Asking\<close>

lemma leaves_fun: "leaves R m \<longleftrightarrow> (\<forall>s. R s (snd (m s)))"
proof -
  have "wp m (\<lambda>_. R s) (\<lambda>_. R s) s = R s (snd (m s))" for s by (cases "m s"; cases "fst (m s)") (auto simp: wp_def)
  then show ?thesis by (simp add: leaves_def)
qed

lemma field_asks:
  "leaves (onward go) (nd_chain_id (ca_node (go_api go i)))" "leaves (onward go) (nd_address (ca_node (go_api go i)))"
  "leaves (onward go) (nd_static_call (ca_node (go_api go i)) c)" "leaves (onward go) (nd_populate (ca_node (go_api go i)) c n)"
  "leaves (onward go) (nd_sign (ca_node (go_api go i)) t)" "leaves (onward go) (nd_broadcast (ca_node (go_api go i)) x)"
  "leaves (onward go) (nd_pending (ca_node (go_api go i)) a)" "leaves (onward go) (nd_count_at (ca_node (go_api go i)) a n)"
  "leaves (onward go) (nd_block_number (ca_node (go_api go i)))" "leaves (onward go) (nd_head (ca_node (go_api go i)))"
  "leaves (onward go) (nd_receipt (ca_node (go_api go i)) a)" "leaves (onward go) (nd_lookup (ca_node (go_api go i)) a)"
  "leaves (onward go) (nd_fees (ca_node (go_api go i)))" "leaves (onward go) (nd_estimate (ca_node (go_api go i)) a)"
  "leaves (onward go) (ca_tagged (go_api go i) a)" "leaves (onward go) (ca_block_hash (go_api go i) n)"
  "leaves (onward go) (ca_opened (go_api go i) a b m n)" "leaves (onward go) (ca_claimed (go_api go i) a b m n)"
  "leaves (onward go) (ca_lock (go_api go i) a b tag)" "leaves (onward go) (ca_claim_window (go_api go i) a)"
  "leaves (onward go) (ca_claims_paused (go_api go i) a)" "leaves (onward go) (ca_static_claim (go_api go i) a b d)"
  "leaves (onward go) (ca_is_attester (go_api go i) a b)" "leaves (onward go) (ca_filled (go_api go i) a b tag)"
  "leaves (onward go) (ca_is_authorizer (go_api go i) a b)" "leaves (onward go) (ca_static_fill (go_api go i) a k)"
  "leaves (onward go) (ca_balance (go_api go i) a b)" "leaves (onward go) (ca_allowance (go_api go i) a b d)"
  "leaves (onward go) (ca_raw_approve (go_api go i) a b d amount)" "leaves (onward go) (ca_gas_balance (go_api go i) a)"
  "leaves (onward go) (ca_sign_acceptance (go_api go i) place acc)"
  by (auto simp: leaves_fun intro: onward_step world_step.intros)

lemma attestations_ask: "go_attestations go = Some get \<Longrightarrow> leaves (onward go) (get a)"
  by (auto simp: leaves_fun intro: onward_step world_step.intros)

lemma clock_ask: "leaves (onward go) (gw_now go)"
  using onward_step [OF world_step.intros(34)] unfolding leaves_fun gw_now_def by (metis prod.case_eq_if snd_conv)

lemma pause_ask: "leaves (onward go) (io_update (go_pause go ms))"
  unfolding leaves_def by (simp add: onward_step [OF world_step.intros(35)])

named_theorems onward_asks
lemmas [onward_asks] = field_asks clock_ask pause_ask

lemma wp_gw_check [simp]: "wp (gw_check v) Q E g \<longleftrightarrow> (case v of Inl e \<Rightarrow> E (thrown e) g | Inr a \<Rightarrow> Q a g)"
  by (simp add: gw_check_def split: sum.split)

lemma wp_gw_reject [simp]: "wp (gw_reject c) Q E g \<longleftrightarrow> E (refusal_value c) g"
  by (simp add: gw_reject_def)

lemma verdict_ask [onward_asks]: "leaves (onward go) (gw_check v)" "leaves (onward go) (gw_reject c)"
  by (auto simp: leaves_def worlds.refl split: sum.split)

lemma wired_asks [onward_asks]: "leaves (onward go) (origin_of go c)" "leaves (onward go) (destination_of go c)"
  by (auto simp: origin_of_def destination_of_def intro!: worlds.all_leaves onward_asks split: option.split)

lemma latest_asks [onward_asks]: "leaves (onward go) (latest_times go gs)"
  by (induction gs) (auto intro!: worlds.all_leaves onward_asks split: option.split)

lemma time_asks [onward_asks]: "leaves (onward go) (now_sec go gs b)" "leaves (onward go) (address_of go i)"
  by (auto simp: now_sec_def address_of_def intro!: worlds.all_leaves onward_asks)

lemma collect_asks [onward_asks]: "(\<And>a b. leaves (onward go) (f a b)) \<Longrightarrow> leaves (onward go) (collect_logs f rs)"
  by (induction rs) (auto intro!: worlds.all_leaves)

lemma lock_asks [onward_asks]:
  "leaves (onward go) (safe_head (go_api go i))" "leaves (onward go) (read_final_lock (go_api go i) e lg n)"
  unfolding safe_head_def read_final_lock_def
  by (auto intro!: worlds.all_leaves onward_asks split: option.split)

lemma look_asks [onward_asks]: "leaves (onward go) (look_for_lock (go_api go i) e order from1 per)"
  unfolding look_for_lock_def by (intro worlds.all_leaves onward_asks) (auto intro!: worlds.all_leaves onward_asks split: list.split option.split)

lemma await_lock_asks [onward_asks]:
  "leaves (onward go) ab \<Longrightarrow> leaves (onward go) (await_lock n go (go_api go i) e order from1 per d ab)"
  by (induction n) (auto intro!: worlds.all_leaves onward_asks split: option.split)

lemma await_opened_asks [onward_asks]: "leaves (onward go) ab \<Longrightarrow> leaves (onward go) (await_opened_final n go order c from1 d ab)"
  unfolding await_opened_final_def Let_def by (intro worlds.all_leaves onward_asks)

lemma readiness_asks [onward_asks]: "leaves (onward go) (claim_readiness go p)" "leaves (onward go) (is_filled go p tag)"
  "leaves (onward go) (lock_status go p tag)" "leaves (onward go) (check_claim_window go p i)" "leaves (onward go) (not_past go i d)"
  unfolding claim_readiness_def is_filled_def lock_status_def check_claim_window_def not_past_def Let_def
  by (auto intro!: worlds.all_leaves onward_asks split: option.split)

lemma attestation_asks [onward_asks]: "leaves (onward go) (fetch_attestation go p)"
  unfolding fetch_attestation_def by (auto intro!: worlds.all_leaves onward_asks attestations_ask split: option.split)

lemma among_asks [onward_asks]: "(\<And>a b. leaves (onward go) (f a b)) \<Longrightarrow> leaves (onward go) (who_among f p rs)"
  by (induction rs) (auto intro!: worlds.all_leaves split: option.split)

lemma who_asks [onward_asks]: "leaves (onward go) (who_claimed go p)"
  unfolding who_claimed_def Let_def by (intro worlds.all_leaves onward_asks)

lemma window_asks [onward_asks]: "leaves (onward go) (after_window go p)"
  unfolding after_window_def by (auto intro!: worlds.all_leaves onward_asks)

section \<open>Sending\<close>

lemma node_of_simps [simp]:
  "nd_chain_id (node_of go i) = nd_chain_id (ca_node (go_api go i))" "nd_address (node_of go i) = nd_address (ca_node (go_api go i))"
  "nd_static_call (node_of go i) = nd_static_call (ca_node (go_api go i))" "nd_populate (node_of go i) = nd_populate (ca_node (go_api go i))"
  "nd_sign (node_of go i) = nd_sign (ca_node (go_api go i))" "nd_broadcast (node_of go i) = nd_broadcast (ca_node (go_api go i))"
  "nd_pending (node_of go i) = nd_pending (ca_node (go_api go i))" "nd_count_at (node_of go i) = nd_count_at (ca_node (go_api go i))"
  "nd_block_number (node_of go i) = nd_block_number (ca_node (go_api go i))" "nd_head (node_of go i) = nd_head (ca_node (go_api go i))"
  "nd_receipt (node_of go i) = nd_receipt (ca_node (go_api go i))" "nd_lookup (node_of go i) = nd_lookup (ca_node (go_api go i))"
  "nd_fees (node_of go i) = nd_fees (ca_node (go_api go i))" "nd_estimate (node_of go i) = nd_estimate (ca_node (go_api go i))"
  "nd_now (node_of go i) = go_now go" "nd_pause (node_of go i) = go_pause go"
  "nd_now_sec (node_of go i) = io_bind (now_sec go [i] False) (\<lambda>t. io_return (nat t))"
  by (simp_all add: node_of_def)

lemma sender_ask: "leaves (onward go) f \<Longrightarrow> leaves (sender_onward go) (ask f)"
  by (auto simp: leaves_fun ask_def sender_onward_def split: prod.split sum.split) (metis snd_conv)+

lemma sender_now: "leaves (sender_onward go) (ask_now (node_of go i))"
  unfolding leaves_fun ask_now_def sender_onward_def prod.case_eq_if by (simp add: onward_step [OF world_step.intros(34)])

lemma sender_pause: "leaves (sender_onward go) (pause (node_of go i) ms)"
  unfolding leaves_def pause_def by (simp add: sender_onward_def onward_step [OF world_step.intros(35)])

lemma sender_still:
  "leaves (sender_onward go) (the_slot i)" "leaves (sender_onward go) (change_slot i f)"
  "leaves (sender_onward go) (io_update (\<lambda>s. s\<lparr>sn_sent := f1 s\<rparr>))" "leaves (sender_onward go) (io_update (\<lambda>s. s\<lparr>sn_lastNonce := f2 s\<rparr>))"
  "leaves (sender_onward go) (io_update (\<lambda>s. s\<lparr>sn_slots := f3 s\<rparr>))" "leaves (sender_onward go) (io_update (\<lambda>s. s\<lparr>sn_inDoubt := f4 s\<rparr>))"
  by (simp_all add: leaves_def sender_onward_def worlds.refl)

lemma sender_attempt: "leaves (sender_onward go) m \<Longrightarrow> leaves (sender_onward go) (attempt m)"
  unfolding attempt_def by (intro senders.all_leaves)

lemma node_sec: "leaves (onward go) (nd_now_sec (node_of go i))"
  by (auto intro!: worlds.all_leaves onward_asks)

named_theorems sends_onward
lemmas [sends_onward] = sender_ask sender_now sender_pause sender_still sender_attempt senders.all_leaves worlds.all_leaves onward_asks node_sec

lemma sender_calls [sends_onward]:
  "leaves (sender_onward go) (broadcast (node_of go i) x)" "leaves (sender_onward go) (sign_tx (node_of go i) t)"
  "leaves (sender_onward go) (tx_state_of (node_of go i) h)" "leaves (sender_onward go) (record_broadcast (node_of go i) opts key n x b)"
  unfolding broadcast_def sign_tx_def tx_state_of_def record_broadcast_def
  by (auto intro!: sends_onward split: option.split)

lemma sender_receipts [sends_onward]: "leaves (sender_onward go) (receipt_among (node_of go i) hs)"
  by (induction hs) (auto intro!: sends_onward split: option.split)

lemma sender_moves [sends_onward]:
  "leaves (sender_onward go) (rebroadcast (node_of go) opts i)" "leaves (sender_onward go) (replace_at_same_nonce (node_of go) opts i given)"
  "leaves (sender_onward go) (cancel_signing (node_of go g) i)"
  unfolding rebroadcast_def replace_at_same_nonce_def cancel_signing_def Let_def
  by (auto intro!: sends_onward split: option.split sum.split)

lemma sender_release [sends_onward]: "leaves (sender_onward go) (release_slot (node_of go) opts i)"
  unfolding release_slot_def Let_def by (auto intro!: sends_onward split: option.split sum.split)

lemma sender_passes [sends_onward]:
  "leaves (sender_onward go) (keep_moving (node_of go) opts i nb bf missed)" "leaves (sender_onward go) (rescue (node_of go) opts i land_by)"
  unfolding keep_moving_def rescue_def Let_def node_of_simps by (auto intro!: sends_onward)

lemma sender_pass [sends_onward]: "leaves (sender_onward go) (await_pass (node_of go) opts i deadline w)"
  unfolding await_pass_def Let_def by (auto intro!: sends_onward split: option.split prod.split)

lemma sender_await [sends_onward]: "leaves (sender_onward go) (await_receipt k (node_of go) opts i deadline w)"
  by (induction k arbitrary: w) (auto intro!: sends_onward split: sum.split)

lemma sender_nonce [sends_onward]: "leaves (sender_onward go) (assign_nonce (node_of go i) key from1)"
  unfolding assign_nonce_def forget_nonce_def past_land_by_def record_still_held_def
  by (auto intro!: sends_onward split: option.split sum.split)

lemma sender_dead [sends_onward]: "leaves (sender_onward go) (release_dead_slots (node_of go) opts g key)"
  unfolding release_dead_slots_def by (auto intro!: sends_onward)

lemma sender_resolve [sends_onward]: "(\<And>b eff. effect = Some eff \<Longrightarrow> leaves (onward go) (eff b)) \<Longrightarrow>
    leaves (sender_onward go) (resolve_slot (node_of go i) hs at_slot effect)"
  unfolding resolve_slot_def by (auto intro!: sends_onward split: option.split prod.split)

lemma sender_open [sends_onward]: "(\<And>f. pl_recheck plan = Some f \<Longrightarrow> leaves (onward go) f) \<Longrightarrow>
    (\<And>f. pl_simulate plan = Some f \<Longrightarrow> leaves (onward go) f) \<Longrightarrow> leaves (sender_onward go) (open_slot (node_of go) opts plan key)"
  unfolding open_slot_def simulate_def Let_def by (auto intro!: sends_onward split: option.split sum.split)

lemma sender_send [sends_onward]: "(\<And>f. pl_recheck plan = Some f \<Longrightarrow> leaves (onward go) f) \<Longrightarrow>
    (\<And>f. pl_simulate plan = Some f \<Longrightarrow> leaves (onward go) f) \<Longrightarrow> leaves (sender_onward go) (send k (node_of go) opts plan)"
  unfolding send_def put_in_doubt_def Let_def by (auto intro!: sends_onward split: option.split sum.split prod.split)

lemma sender_guard [sends_onward]: "(\<And>tag. leaves (onward go) (is_done tag)) \<Longrightarrow>
    leaves (sender_onward go) (guard_in_doubt (node_of go) opts key cd is_done land_by)"
  unfolding guard_in_doubt_def forget_in_doubt_def by (auto intro!: sends_onward split: option.split tx_outcome.split)

section \<open>Answers on the way\<close>

definition asked :: "'w gateway_options \<Rightarrow> 'w \<Rightarrow> ('w, 'a) ask \<Rightarrow> 'a \<Rightarrow> 'w \<Rightarrow> bool" where
  "asked go w f a v \<longleftrightarrow> (\<exists>x y. onward go w x \<and> f x = (Inr a, y) \<and> onward go y v)"

lemma askedI: "onward go w x \<Longrightarrow> f x = (Inr a, y) \<Longrightarrow> onward go y v \<Longrightarrow> asked go w f a v"
  unfolding asked_def by blast

lemma askedE:
  assumes "asked go w f a v"
  obtains x y where "onward go w x" "f x = (Inr a, y)" "onward go y v"
  using assms unfolding asked_def by blast

lemma onward_trans3: "onward go a b \<Longrightarrow> onward go b c \<Longrightarrow> onward go c d \<Longrightarrow> onward go a d"
  by (rule worlds.trans, assumption, rule worlds.trans)

lemma asked_later: "asked go w f a v \<Longrightarrow> onward go v u \<Longrightarrow> asked go w f a u"
  by (elim askedE) (rule askedI, assumption+, rule worlds.trans)

lemma asked_earlier: "onward go u w \<Longrightarrow> asked go w f a v \<Longrightarrow> asked go u f a v"
  by (elim askedE) (rule askedI, rule worlds.trans, assumption+)

lemma asked_bind:
  assumes "asked go w (io_bind f k) b v" "leaves (onward go) f" "\<And>a. leaves (onward go) (k a)"
  obtains a where "asked go w f a v" "asked go w (k a) b v"
proof -
  from assms(1) obtain x y where xy: "onward go w x" "io_bind f k x = (Inr b, y)" "onward go y v" by (rule askedE)
  from xy(2) obtain a z where z: "f x = (Inr a, z)" "k a z = (Inr b, y)" by (auto simp: io_bind_def split: prod.splits sum.splits)
  have steps: "onward go x z" "onward go z y" using leavesD [OF assms(2) z(1)] leavesD [OF assms(3) z(2)] .
  show ?thesis
  proof
    show "asked go w f a v" using xy(1) z(1) worlds.trans [OF steps(2) xy(3)] by (rule askedI)
    show "asked go w (k a) b v" using worlds.trans [OF xy(1) steps(1)] z(2) xy(3) by (rule askedI)
  qed
qed

lemma asked_return [simp]: "asked go w (io_return a) b v \<longleftrightarrow> b = a \<and> onward go w v"
  by (auto simp: asked_def io_return_def intro: worlds.refl worlds.trans)

lemma asked_throw [simp]: "\<not> asked go w (io_throw e) b v" "\<not> asked go w (gw_reject c) b v"
  by (simp_all add: asked_def io_throw_def gw_reject_def)

lemma asked_check [simp]: "asked go w (gw_check r) b v \<longleftrightarrow> r = Inr b \<and> onward go w v"
  by (cases r) (auto simp: gw_check_def)

lemma asked_catch:
  assumes "asked go w (io_catch f h) a v" "leaves (onward go) f"
  shows "asked go w f a v \<or> (\<exists>e. asked go w (h e) a v)"
proof -
  from assms(1) obtain x y where xy: "onward go w x" "io_catch f h x = (Inr a, y)" "onward go y v" by (rule askedE)
  show ?thesis
  proof (cases "f x")
    case (Pair r z)
    have "onward go w z" using worlds.trans [OF xy(1) leavesD [OF assms(2) Pair]] .
    then have "asked go w (h e) a v" if "r = Inl e" for e
      using xy(2,3) Pair that by (intro askedI [of _ _ z _ _ y]) (auto simp: io_catch_def)
    moreover have "asked go w f a v" if "r = Inr b" for b
      using xy Pair that by (intro askedI [of _ _ x _ _ y]) (auto simp: io_catch_def)
    ultimately show ?thesis by (cases r) auto
  qed
qed

lemma asked_origin: "asked go w (origin_of go c) oc v \<Longrightarrow> map_of (go_origins go) (round_double (of_int c)) = Some oc"
  by (simp add: origin_of_def split: option.splits)

lemma asked_destination: "asked go w (destination_of go c) dc v \<Longrightarrow> map_of (go_destinations go) (round_double (of_int c)) = Some dc"
  by (simp add: destination_of_def split: option.splits)

section \<open>Runs of the gateway\<close>

definition at_world :: "'w \<Rightarrow> 'w gateway \<Rightarrow> 'w gateway" where
  "at_world w g = g\<lparr>gw_sender := (gw_sender g)\<lparr>sn_world := w\<rparr>\<rparr>"

lemma at_world_simps [simp]: "gw_books (at_world w g) = gw_books g" "gw_signed (at_world w g) = gw_signed g"
  "gw_posted (at_world w g) = gw_posted g" "world_of (at_world w g) = w" "at_world w (at_world v g) = at_world w g"
  "sn_slots (gw_sender (at_world w g)) = sn_slots (gw_sender g)" "sn_inDoubt (gw_sender (at_world w g)) = sn_inDoubt (gw_sender g)"
  by (simp_all add: at_world_def world_of_def)

lemma wp_gw_ask: "wp (gw_ask f) Q E g = (case f (world_of g) of
    (Inl e, w) \<Rightarrow> E e (at_world w g) | (Inr a, w) \<Rightarrow> Q a (at_world w g))"
  by (auto simp: wp_def gw_ask_def at_world_def world_of_def split: prod.split sum.split)

lemma wp_gw_asked:
  assumes "leaves (onward go) f" "\<And>e w. onward go (world_of g) w \<Longrightarrow> E e (at_world w g)"
    and "\<And>a w. asked go (world_of g) f a w \<Longrightarrow> onward go (world_of g) w \<Longrightarrow> Q a (at_world w g)"
  shows "wp (gw_ask f) Q E g"
proof (cases "f (world_of g)")
  case (Pair r v)
  have "onward go (world_of g) v" using leavesD [OF assms(1) Pair] .
  then have "asked go (world_of g) f a v" if "r = Inr a" for a
    using Pair that by (intro askedI [OF worlds.refl _ worlds.refl]) simp
  with \<open>onward go (world_of g) v\<close> show ?thesis using assms(2,3) Pair unfolding wp_gw_ask by (cases r) auto
qed

lemma wp_gw_tx:
  "wp m (\<lambda>a s. Q a (g\<lparr>gw_sender := s\<rparr>)) (\<lambda>e s. E (tx_thrown e) (g\<lparr>gw_sender := s\<rparr>)) (gw_sender g) \<Longrightarrow> wp (gw_tx m) Q E g"
  by (auto simp: wp_def gw_tx_def split: prod.splits sum.splits)

lemma wp_any: "(\<And>a t. Q a t) \<Longrightarrow> (\<And>e t. E e t) \<Longrightarrow> wp m Q E s"
  by (simp add: wp_def split: prod.split sum.split)

lemma wp_destination: "(\<And>dc. Q dc s) \<Longrightarrow> (\<And>e. E e s) \<Longrightarrow> wp (destination_of go c) Q E s"
  by (simp add: destination_of_def split: option.split)

lemma wp_origin: "(\<And>oc. Q oc s) \<Longrightarrow> (\<And>e. E e s) \<Longrightarrow> wp (origin_of go c) Q E s"
  by (simp add: origin_of_def split: option.split)

lemma gateway_ask: "leaves (onward go) f \<Longrightarrow> leaves (gateway_onward go) (gw_ask f)"
  by (auto simp: leaves_fun gw_ask_def gateway_onward_def world_of_def prod.case_eq_if)

lemma gateway_tx: "leaves (sender_onward go) m \<Longrightarrow> leaves (gateway_onward go) (gw_tx m)"
  by (auto simp: leaves_fun gw_tx_def gateway_onward_def sender_onward_def world_of_def split: prod.split sum.split) (metis snd_conv)+

lemma gateway_still:
  "leaves (gateway_onward go) (io_update (\<lambda>g. g\<lparr>gw_books := f1 g\<rparr>))" "leaves (gateway_onward go) (io_update (\<lambda>g. g\<lparr>gw_signed := f2 g\<rparr>))"
  "leaves (gateway_onward go) (io_update (\<lambda>g. g\<lparr>gw_posted := f3 g\<rparr>))" "leaves (gateway_onward go) (gw_check v)" "leaves (gateway_onward go) (gw_reject c)"
  "leaves (gateway_onward go) (origin_of go n)" "leaves (gateway_onward go) (destination_of go n)"
  by (simp_all add: leaves_def gateway_onward_def world_of_def worlds.refl origin_of_def destination_of_def split: sum.split option.split)

named_theorems runs_onward
lemmas [runs_onward] = gateway_ask gateway_tx gateway_still gateways.all_leaves onward_asks sends_onward

lemma sum_owed_onward [runs_onward]: "leaves (gateway_onward go) (sum_owed (go_api go i) filler now fs owed)"
  by (induction fs arbitrary: owed) (auto intro!: runs_onward)

lemma preflight_onward [runs_onward]: "leaves (gateway_onward go) (owed_inventory go p dc)" "leaves (gateway_onward go) (fill_preflight go p dc b)"
  unfolding owed_inventory_def fill_preflight_def Let_def by (auto intro!: runs_onward)

lemma guard_onward [runs_onward]: "leaves (gateway_onward go) (guard_in_doubt_claim go p)"
  unfolding guard_in_doubt_claim_def gw_guard_def by (intro runs_onward)

lemma claim_onward [runs_onward]: "leaves (gateway_onward go) (claim go p att)"
  unfolding claim_def gw_send_def claim_plan_def by (auto intro!: runs_onward)

lemma reread_onward [runs_onward]: "leaves (gateway_onward go) (reread_attestation go p verified)"
  unfolding reread_attestation_def by (auto intro!: runs_onward)

lemma attempt_onward [runs_onward]: "leaves (gateway_onward go) (claim_attempt go p poll cv)"
  unfolding claim_attempt_def Let_def
  by (auto intro!: runs_onward split: option.split sum.split tx_outcome.split)

lemma try_onward [runs_onward]: "leaves (gateway_onward go) (claim_try go p i poll cv)"
  unfolding claim_try_def Let_def by (auto intro!: runs_onward split: option.split sum.split)

end
