(* ===== verification/GatewayRace.thy ===== *)
theory GatewayRace
  imports GatewayBooks
begin

text \<open>
  The calls of one gateway, interleaved. JavaScript runs a method from one \<open>await\<close> to the next without
  interruption, and any other call may run in between: a step of \<open>gw_step\<close> is one such stretch of one
  call, as \<open>GatewayBooks\<close> has it. Whatever is awaited (nodes, the venue, the wallet) may take any time, answer
  anything and fail, so a call in progress may also end without its next stretch.
  \<open>gr_signed\<close> lists the acceptances signed, with their order, and \<open>gr_confirmed\<close> the ids of the fills whose transaction
  came back confirmed; they are observed, the code keeps no such lists.
\<close>

datatype gw_call = NoCall | Signing prepared_fill | Signed prepared_fill | Filling prepared_fill

record race =
  gr_books :: books
  gr_calls :: "nat \<Rightarrow> gw_call"
  gr_signed :: "(string \<times> fill_acceptance) list"
  gr_confirmed :: "string list"

definition race_start :: race where
  "race_start = \<lparr>gr_books = no_books, gr_calls = (\<lambda>_. NoCall), gr_signed = [], gr_confirmed = []\<rparr>"

text \<open>Fill ids of a verified award are lower case.\<close>

definition own_id :: "prepared_fill \<Rightarrow> bool" where
  "own_id p \<longleftrightarrow> to_lower (va_fillId p) = va_fillId p"

lemma verified_own_id: "verify_award et a x = Inr v \<Longrightarrow> to_lower (va_fillId v) = va_fillId v"
  by (auto simp: verify_award_ok)

inductive gw_step :: "ethers \<Rightarrow> race \<Rightarrow> race \<Rightarrow> bool" for et where
  begin_accept: "gr_calls r c = NoCall \<Longrightarrow> own_id p \<Longrightarrow> accept_start et (gr_books r) p = Inr (SignAcceptance again, dg) \<Longrightarrow>
    gw_step et r (r\<lparr>gr_calls := (gr_calls r)(c := Signing p), gr_books := enter_accepting p dg (gr_books r)\<rparr>)"
| sign: "gr_calls r c = Signing p \<Longrightarrow> fill_acceptance_for et p = Inr acc \<Longrightarrow>
    record_signed et p \<lparr>en_acceptance = acc, en_digest = dg, en_signature = Some sig\<rparr> (gr_books r) = (res, bk) \<Longrightarrow>
    gw_step et r (r\<lparr>gr_calls := (gr_calls r)(c := Signed p), gr_books := bk, gr_signed := gr_signed r @ [(order_key p, acc)]\<rparr>)"
| end_accept: "gr_calls r c = Signing p \<or> gr_calls r c = Signed p \<Longrightarrow>
    gw_step et r (r\<lparr>gr_calls := (gr_calls r)(c := NoCall), gr_books := leave_accepting p (gr_books r)\<rparr>)"
| restore: "own_id p \<Longrightarrow> restore_acceptance et p self (gr_books r) = (res, bk) \<Longrightarrow> gw_step et r (r\<lparr>gr_books := bk\<rparr>)"
| begin_fill: "gr_calls r c = NoCall \<Longrightarrow> own_id p \<Longrightarrow> fill_start et (gr_books r) p = Inr () \<Longrightarrow>
    gw_step et r (r\<lparr>gr_calls := (gr_calls r)(c := Filling p), gr_books := enter_filling p (gr_books r)\<rparr>)"
| end_fill: "gr_calls r c = Filling p \<Longrightarrow>
    bk = (case landing of Some (h, b) \<Rightarrow> note_landed p h b (gr_books r) | None \<Rightarrow> gr_books r) \<Longrightarrow>
    gw_step et r (r\<lparr>gr_calls := (gr_calls r)(c := NoCall), gr_books := leave_filling p bk,
      gr_confirmed := (case landing of Some _ \<Rightarrow> va_fillId p # gr_confirmed r | None \<Rightarrow> gr_confirmed r)\<rparr>)"
| forget: "gw_step et r (r\<lparr>gr_books := drop_owed fid (gr_books r)\<rparr>)"

inductive gw_reach :: "ethers \<Rightarrow> race \<Rightarrow> bool" for et where
  start: "gw_reach et race_start"
| step: "gw_reach et r \<Longrightarrow> gw_step et r s \<Longrightarrow> gw_reach et s"

section \<open>Invariants of the steps\<close>

locale race_invariant =
  fixes et :: ethers and I :: "race \<Rightarrow> bool"
  assumes start_ok: "I race_start" and step_ok: "I r \<Longrightarrow> gw_step et r s \<Longrightarrow> I s"
begin

lemma reach_ok: "gw_reach et r \<Longrightarrow> I r"
  by (induction rule: gw_reach.induct) (auto intro: start_ok step_ok)

end

section \<open>What a stretch leaves in the books\<close>

lemma big_of_to_uint: "to_uint f v = Inr n \<Longrightarrow> big_uint v = Inr n"
  by (auto simp: to_uint_ok uint_spelling_def big_uint_def safe_int_def spelling_digits big_int_digits
      split: jsval.splits jsnum.splits if_splits)

lemma accepted_digest: "fill_acceptance_for et p = Inr acc \<Longrightarrow> prepared_digest et p = Inr (fc_fillAuth acc)"
  by (auto simp: fill_acceptance_for_def fill_acceptance_of_def prepared_digest_def)

lemma accepted_owed:
  assumes "fill_acceptance_for et p = Inr acc"
  shows "\<exists>f. owed_of p = Inr f"
proof -
  from accepted_digest [OF assms] obtain n m where "to_uint ''amount'' (fa_amount (va_fillAuth p)) = Inr n"
    "to_uint ''deadline'' (fa_deadline (va_fillAuth p)) = Inr m"
    by (auto simp: prepared_digest_def fill_auth_digest_def fill_auth_struct_hash_def)
  then show ?thesis by (auto simp: owed_of_def dest!: big_of_to_uint)
qed

lemma record_signed_books:
  assumes "fill_acceptance_for et p = Inr acc" "record_signed et p en bk = (r, bk')"
  shows "bk_accepted bk' = (bk_accepted bk)(va_fillId p \<mapsto> en)"
    "bk_acceptedOrders bk' = (bk_acceptedOrders bk)(order_key p \<mapsto> (va_fillId p, fc_fillAuth acc))"
    "bk_accepting bk' = bk_accepting bk" "bk_filling bk' = bk_filling bk" "bk_landed bk' = bk_landed bk"
proof -
  obtain f where "owed_of p = Inr f" using accepted_owed [OF assms(1)] ..
  with assms(2) accepted_digest [OF assms(1)] have
    "bk' = set_accepted_order p (fc_fillAuth acc) ((set_accepted p en bk)\<lparr>bk_owed := put_owed (va_fillId p) f (bk_owed bk)\<rparr>)"
    by (auto simp: record_signed_def record_owed_fill_def io_bind_def io_update_def of_verdict_def set_accepted_def split: sum.splits)
  then show "bk_accepted bk' = (bk_accepted bk)(va_fillId p \<mapsto> en)"
    "bk_acceptedOrders bk' = (bk_acceptedOrders bk)(order_key p \<mapsto> (va_fillId p, fc_fillAuth acc))"
    "bk_accepting bk' = bk_accepting bk" "bk_filling bk' = bk_filling bk" "bk_landed bk' = bk_landed bk"
    by (simp_all add: set_accepted_order_def set_accepted_def)
qed

lemma restore_books:
  assumes "restore_acceptance et p self bk = (r, bk')"
  shows "bk_accepting bk' = bk_accepting bk" "bk_filling bk' = bk_filling bk" "bk_landed bk' = bk_landed bk"
    "bk_acceptedOrders bk' = bk_acceptedOrders bk \<and> bk_accepted bk' = bk_accepted bk
     \<or> bk_accepted bk (va_fillId p) = None \<and> require_one_fill_per_order bk p = Inr ()
       \<and> (\<exists>en. bk_accepted bk' = (bk_accepted bk)(va_fillId p \<mapsto> en))
       \<and> (\<exists>d. bk_acceptedOrders bk' = (bk_acceptedOrders bk)(order_key p \<mapsto> (va_fillId p, d)))"
  using assms
  by (auto simp: restore_acceptance_def io_bind_def io_read_def io_update_def of_verdict_def set_accepted_def set_accepted_order_def
      record_owed_fill_def split: sum.splits option.splits prod.splits)

lemma owed_only [simp]:
  "bk_accepted (drop_owed f bk) = bk_accepted bk" "bk_acceptedOrders (drop_owed f bk) = bk_acceptedOrders bk"
  "bk_accepting (drop_owed f bk) = bk_accepting bk" "bk_filling (drop_owed f bk) = bk_filling bk" "bk_landed (drop_owed f bk) = bk_landed bk"
  by (simp_all add: drop_owed_def)

section \<open>One acceptance per order\<close>

definition accept_of :: "gw_call \<Rightarrow> prepared_fill option" where
  "accept_of c = (case c of Signing p \<Rightarrow> Some p | Signed p \<Rightarrow> Some p | _ \<Rightarrow> None)"

lemma accept_of_simps [simp]: "accept_of NoCall = None" "accept_of (Signing p) = Some p" "accept_of (Signed p) = Some p"
  "accept_of (Filling p) = None"
  by (simp_all add: accept_of_def)

definition held :: "books \<Rightarrow> string \<Rightarrow> bool" where
  "held bk k \<longleftrightarrow> (\<exists>f d en. bk_acceptedOrders bk k = Some (f, d) \<and> to_lower f = f \<and> bk_accepted bk f = Some en \<and> en_signature en \<noteq> None)"

definition accepts_ok :: "race \<Rightarrow> bool" where
  "accepts_ok r \<longleftrightarrow> (\<forall>k \<in> fst ` set (gr_signed r). held (gr_books r) k) \<and> distinct (map fst (gr_signed r))
     \<and> (\<forall>c p. gr_calls r c = Signing p \<longrightarrow> own_id p \<and> order_key p \<notin> fst ` set (gr_signed r))
     \<and> (\<forall>c p. accept_of (gr_calls r c) = Some p \<longrightarrow> bk_accepting (gr_books r) (order_key p) \<noteq> None)
     \<and> (\<forall>c d p q. accept_of (gr_calls r c) = Some p \<longrightarrow> accept_of (gr_calls r d) = Some q \<longrightarrow> order_key p = order_key q \<longrightarrow> c = d)"

lemma accept_in_flight_False [simp]: "accept_in_flight bk p dg = Inr False \<longleftrightarrow> bk_accepting bk (order_key p) = None"
  by (auto simp: accept_in_flight_def gw_refuse_def split: option.split)

lemma one_fill_ok:
  "require_one_fill_per_order bk p = Inr u \<longleftrightarrow> (\<forall>f d. bk_acceptedOrders bk (order_key p) = Some (f, d) \<longrightarrow> to_lower f = to_lower (va_fillId p))"
  by (auto simp: require_one_fill_per_order_def gw_refuse_def split: option.split)

text \<open>A call that is let sign finds no call for its order in flight, and no signature for its order.\<close>

lemma accept_start_signs:
  assumes "accept_start et bk p = Inr (SignAcceptance again, dg)" "own_id p"
  shows "bk_accepting bk (order_key p) = None" "\<not> held bk (order_key p)"
proof -
  from assms(1) obtain d busy where d: "accept_in_flight bk p d = Inr busy" "\<not> busy" "require_one_fill_per_order bk p = Inr ()"
    "\<forall>en. bk_accepted bk (va_fillId p) = Some en \<longrightarrow> en_signature en = None"
    by (auto simp: accept_start_def split: option.splits if_splits)
  then show "bk_accepting bk (order_key p) = None" by simp
  show "\<not> held bk (order_key p)"
    using d(3,4) assms(2) by (auto simp: held_def one_fill_ok own_id_def)
qed

lemma held_keep:
  "held bk k \<Longrightarrow> bk_acceptedOrders bk' = bk_acceptedOrders bk \<Longrightarrow> bk_accepted bk' = bk_accepted bk \<Longrightarrow> held bk' k"
  by (simp add: held_def)

lemma held_record:
  assumes "fill_acceptance_for et p = Inr acc" "record_signed et p en bk = (r, bk')" "own_id p" "en_signature en \<noteq> None"
  shows "held bk' (order_key p)" "held bk k \<Longrightarrow> held bk' k"
  using record_signed_books(1,2) [OF assms(1,2)] assms(3,4) by (auto simp: held_def own_id_def)

lemma held_restore:
  assumes "restore_acceptance et p self bk = (r, bk')" "own_id p" "held bk k"
  shows "held bk' k"
  using restore_books(4) [OF assms(1)]
proof
  assume "bk_acceptedOrders bk' = bk_acceptedOrders bk \<and> bk_accepted bk' = bk_accepted bk"
  then show ?thesis using assms(3) held_keep by blast
next
  assume r: "bk_accepted bk (va_fillId p) = None \<and> require_one_fill_per_order bk p = Inr ()
    \<and> (\<exists>en. bk_accepted bk' = (bk_accepted bk)(va_fillId p \<mapsto> en))
    \<and> (\<exists>d. bk_acceptedOrders bk' = (bk_acceptedOrders bk)(order_key p \<mapsto> (va_fillId p, d)))"
  from assms(3) obtain f d en where h: "bk_acceptedOrders bk k = Some (f, d)" "to_lower f = f" "bk_accepted bk f = Some en" "en_signature en \<noteq> None"
    by (auto simp: held_def)
  then have "f \<noteq> va_fillId p" using r by auto
  moreover have "order_key p \<noteq> k"
    using r h assms(2) \<open>f \<noteq> _\<close> by (auto simp: require_one_fill_per_order_def gw_refuse_def own_id_def split: if_splits)
  ultimately show ?thesis using r h by (auto simp: held_def)
qed

lemma accepts_keep:
  assumes "accepts_ok r" "gr_calls s = gr_calls r" "gr_signed s = gr_signed r"
    and "\<And>k. held (gr_books r) k \<Longrightarrow> held (gr_books s) k" "bk_accepting (gr_books s) = bk_accepting (gr_books r)"
  shows "accepts_ok s"
  using assms unfolding accepts_ok_def by simp

lemma accepts_step:
  assumes ok: "accepts_ok r" and "gw_step et r s"
  shows "accepts_ok s"
  using assms(2)
proof cases
  case (begin_accept c p again dg)
  note new = accept_start_signs [OF begin_accept(4,3)]
  have "\<forall>d q. accept_of (gr_calls r d) = Some q \<longrightarrow> order_key q \<noteq> order_key p"
    using ok new(1) unfolding accepts_ok_def by metis
  moreover have "order_key p \<notin> fst ` set (gr_signed r)" using ok new(2) unfolding accepts_ok_def by blast
  ultimately show ?thesis using ok begin_accept
    unfolding accepts_ok_def by (auto simp: enter_accepting_def held_def split: if_splits; metis)
next
  case (sign c p acc dg sig res bk)
  let ?en = "\<lparr>en_acceptance = acc, en_digest = dg, en_signature = Some sig\<rparr>"
  have p: "own_id p" "order_key p \<notin> fst ` set (gr_signed r)" using ok sign(2) unfolding accepts_ok_def by blast+
  have h: "held bk (order_key p)" "\<And>k. held (gr_books r) k \<Longrightarrow> held bk k"
    using held_record [OF sign(3,4) p(1)] by auto
  have "\<forall>d q. gr_calls r d = Signing q \<longrightarrow> d \<noteq> c \<longrightarrow> order_key q \<noteq> order_key p"
    using ok sign(2) unfolding accepts_ok_def by (metis accept_of_simps(2))
  then show ?thesis using ok sign p h record_signed_books(3) [OF sign(3,4)]
    unfolding accepts_ok_def by (auto simp: accept_of_def split: if_splits gw_call.splits)
next
  case (end_accept c p)
  have "\<forall>d q. accept_of (gr_calls r d) = Some q \<longrightarrow> d \<noteq> c \<longrightarrow> order_key q \<noteq> order_key p"
    using ok end_accept(2) unfolding accepts_ok_def by (metis accept_of_simps(2,3))
  then show ?thesis using ok end_accept
    unfolding accepts_ok_def by (auto simp: leave_accepting_def held_def split: if_splits)
next
  case (restore p self res bk)
  show ?thesis using accepts_keep [OF ok] held_restore [OF restore(3,2)] restore_books(1) [OF restore(3)] restore(1) by simp
next
  case (begin_fill c p)
  then show ?thesis using ok unfolding accepts_ok_def by (auto simp: enter_filling_def held_def split: if_splits)
next
  case (end_fill c p bk landing)
  then show ?thesis using ok unfolding accepts_ok_def
    by (auto simp: leave_filling_def note_landed_def held_def split: if_splits option.splits)
next
  case (forget fid)
  then show ?thesis using accepts_keep [OF ok, of s] by (simp add: held_def)
qed

lemma accepts_start: "accepts_ok race_start"
  by (simp add: accepts_ok_def race_start_def)

interpretation accepts: race_invariant et accepts_ok
  by unfold_locales (fact accepts_start, fact accepts_step)

text \<open>
  C6. One acceptance per order. However the calls of accept, restoreAcceptance and fill interleave, and
  whatever the nodes, the wallet and the venue answer or withhold, the solver signs at most one
  acceptance for an order: the lock repays one fill, and a second signed FillAuth would be a slashable
  no-show.
\<close>

theorem one_acceptance_per_order:
  "gw_reach et r \<Longrightarrow> distinct (map fst (gr_signed r))"
  using accepts.reach_ok unfolding accepts_ok_def by blast

section \<open>One fill at a time\<close>

definition fills_ok :: "race \<Rightarrow> bool" where
  "fills_ok r \<longleftrightarrow> distinct (gr_confirmed r) \<and> (\<forall>f \<in> set (gr_confirmed r). bk_landed (gr_books r) f \<noteq> None)
     \<and> (\<forall>c p. gr_calls r c = Filling p \<longrightarrow> va_fillId p \<in> set (bk_filling (gr_books r)) \<and> bk_landed (gr_books r) (va_fillId p) = None)
     \<and> (\<forall>c d p q. gr_calls r c = Filling p \<longrightarrow> gr_calls r d = Filling q \<longrightarrow> va_fillId p = va_fillId q \<longrightarrow> c = d)"

lemma fill_start_fresh:
  "fill_start et bk p = Inr () \<Longrightarrow> va_fillId p \<notin> set (bk_filling bk) \<and> bk_landed bk (va_fillId p) = None"
  by (cases "bk_landed bk (va_fillId p)") (auto simp: fill_start_def gw_refuse_def split: option.splits if_splits)

lemma fills_keep:
  assumes "fills_ok r" "\<And>c p. gr_calls s c = Filling p \<Longrightarrow> gr_calls r c = Filling p"
    and "bk_filling (gr_books s) = bk_filling (gr_books r)" "bk_landed (gr_books s) = bk_landed (gr_books r)" "gr_confirmed s = gr_confirmed r"
  shows "fills_ok s"
  using assms unfolding fills_ok_def by metis

lemma fills_step:
  assumes ok: "fills_ok r" and "gw_step et r s"
  shows "fills_ok s"
  using assms(2)
proof cases
  case (begin_accept c p again dg)
  then show ?thesis by (intro fills_keep [OF ok]) (auto simp: enter_accepting_def split: if_splits)
next
  case (sign c p acc dg sig res bk)
  then show ?thesis using record_signed_books(4,5) [OF sign(3,4)] by (intro fills_keep [OF ok]) (auto split: if_splits)
next
  case (end_accept c p)
  then show ?thesis by (intro fills_keep [OF ok]) (auto simp: leave_accepting_def split: if_splits)
next
  case (restore p self res bk)
  then show ?thesis using restore_books(2,3) [OF restore(3)] by (intro fills_keep [OF ok]) auto
next
  case (begin_fill c p)
  have "\<forall>d q. gr_calls r d = Filling q \<longrightarrow> va_fillId q \<noteq> va_fillId p"
    using ok fill_start_fresh [OF begin_fill(4)] unfolding fills_ok_def by metis
  then show ?thesis using ok fill_start_fresh [OF begin_fill(4)] begin_fill(1)
    unfolding fills_ok_def by (auto simp: enter_filling_def split: if_splits; metis)
next
  case (end_fill c p bk landing)
  have other: "\<forall>d q. gr_calls r d = Filling q \<longrightarrow> d \<noteq> c \<longrightarrow> va_fillId q \<noteq> va_fillId p"
    and none: "bk_landed (gr_books r) (va_fillId p) = None" and c: "distinct (gr_confirmed r)"
      "\<forall>f \<in> set (gr_confirmed r). bk_landed (gr_books r) f \<noteq> None"
    using ok end_fill(2) unfolding fills_ok_def by metis+
  then have new: "va_fillId p \<notin> set (gr_confirmed r)" by auto
  show ?thesis using ok end_fill(1,3) other c new unfolding fills_ok_def
    by (auto simp: leave_filling_def note_landed_def split: if_splits option.splits)
next
  case (forget fid)
  then show ?thesis by (intro fills_keep [OF ok]) auto
qed

interpretation fills: race_invariant et fills_ok
proof
  show "fills_ok race_start" by (simp add: fills_ok_def race_start_def)
qed (fact fills_step)

text \<open>
  C7. One fill at a time. In every interleaving two calls never send the fill of one fill id at once, none is
  sending it after a call for it came back confirmed, and so no fill id is confirmed twice: an award delivered twice
  is one transaction.
\<close>

theorem one_fill_at_a_time:
  assumes "gw_reach et r"
  shows "distinct (gr_confirmed r)
    \<and> (\<forall>c p. gr_calls r c = Filling p \<longrightarrow> va_fillId p \<notin> set (gr_confirmed r)
        \<and> (\<forall>d q. gr_calls r d = Filling q \<and> va_fillId q = va_fillId p \<longrightarrow> d = c))"
proof -
  have ok: "fills_ok r" by (rule fills.reach_ok [OF assms])
  then have "va_fillId p \<notin> set (gr_confirmed r)" if "gr_calls r c = Filling p" for c p
    using that unfolding fills_ok_def by metis
  with ok show ?thesis unfolding fills_ok_def by metis
qed

end
