(* ===== verification/GatewaySafety.thy ===== *)
theory GatewaySafety
  imports GatewayTime GatewayRace
begin

text \<open>
  What the gateway's methods do, whatever the nodes, the venue and the wallet answer: what a fill needs
  before anything is sent, what an acceptance needs before it is signed, what the claim loop reports,
  and that a fill in doubt is followed at its own nonce.
\<close>

section \<open>What a fill needs\<close>

lemma fill_start_ok:
  assumes "fill_start et bk p = Inr ()"
  obtains en amount where "bk_accepted bk (va_fillId p) = Some en" "prepared_digest et p = Inr (to_lower (fc_fillAuth (en_acceptance en)))"
    "big_uint (fa_amount (va_fillAuth p)) = Inr amount" "amount \<le> pf_bidOutput p"
    "bk_landed bk (va_fillId p) = None" "va_fillId p \<notin> set (bk_filling bk)"
  using assms
  by (cases "bk_landed bk (va_fillId p)")
     (auto simp: fill_start_def require_accepted_fill_auth_def gw_refuse_def split: option.splits if_splits)

lemma fill_refused: "fill_start (go_ethers go) (gw_books g) p = Inl e \<Longrightarrow> fill go p g = (Inl (thrown e), g)"
  by (simp add: fill_def io_bind_def io_read_def gw_check_def io_throw_def)

text \<open>
  C9. A fill is sent only for an accepted award. Whenever calling fill hands a transaction to the network, the
  solver had accepted that fill id, under the very FillAuth it is now filling, for an amount within its
  signed bid, and no fill of it had been seen confirmed or was running.
\<close>

theorem fill_sends_only_accepted:
  assumes "fill go p g = (r, h)" and "sn_sent (gw_sender h) \<noteq> sn_sent (gw_sender g)"
  shows "\<exists>en amount. bk_accepted (gw_books g) (va_fillId p) = Some en
    \<and> prepared_digest (go_ethers go) p = Inr (to_lower (fc_fillAuth (en_acceptance en)))
    \<and> big_uint (fa_amount (va_fillAuth p)) = Inr amount \<and> amount \<le> pf_bidOutput p
    \<and> bk_landed (gw_books g) (va_fillId p) = None \<and> va_fillId p \<notin> set (bk_filling (gw_books g))"
proof (cases "fill_start (go_ethers go) (gw_books g) p")
  case (Inl e)
  then show ?thesis using assms fill_refused [OF Inl] by simp
next
  case (Inr u)
  then have "fill_start (go_ethers go) (gw_books g) p = Inr ()" by simp
  then show ?thesis by (rule fill_start_ok) blast
qed

section \<open>A fill in doubt\<close>

definition follows_slot :: "'w gateway_options \<Rightarrow> prepared_fill \<Rightarrow> nat \<Rightarrow> slot_identity \<Rightarrow> 'w gateway \<Rightarrow> 'w gateway \<Rightarrow> bool" where
  "follows_slot go p i d g h \<longleftrightarrow> (\<exists>out. observed (node_of go) (is_filled go p) i (gw_sender g) = Inr out \<and> definite out)
     \<or> fine i d (gw_sender g) (gw_sender h)"

lemma send_fill_follows:
  assumes "map_of (sn_inDoubt (gw_sender g)) (fill_key p) = Some i" "holds_slot i d (gw_sender g)"
  shows "wp (send_fill go p) (\<lambda>_. follows_slot go p i d g) (\<lambda>_. follows_slot go p i d g) (g\<lparr>gw_books := bk\<rparr>)"
proof -
  have self: "follows_slot go p i d g (g\<lparr>gw_books := bk\<rparr>)"
    using assms(2) by (simp add: follows_slot_def fine_def)
  have guarded: "wp (gw_guard go (fill_key p) AlreadyFilled (is_filled go p) land_by) (\<lambda>_ _. \<exists>out. observed (node_of go) (is_filled go p) i (gw_sender g) = Inr out \<and> definite out)
      (\<lambda>_. follows_slot go p i d g) (g\<lparr>gw_books := bk\<rparr>)" for land_by
    unfolding gw_guard_def
    by (rule wp_gw_tx, simp, rule wp_mono [OF guard_fine [OF assms]]) (auto simp: follows_slot_def)
  show ?thesis unfolding send_fill_def wp_simps
    by (rule wp_destination; simp add: self split: sum.split)
       (intro allI impI, rule wp_mono [OF guarded], (intro wp_any; simp add: follows_slot_def), assumption)
qed

text \<open>
  C10. A fill in doubt is followed at its own nonce. Calling fill again over an earlier transaction of the
  same fill id that is still in the sender's table either finds that one definitely without effect, or
  hands the network only transactions at its nonce, the same call re-priced or the self-transfer
  that frees it.
\<close>

theorem fill_in_doubt_is_followed:
  assumes "map_of (sn_inDoubt (gw_sender g)) (fill_key p) = Some i" "holds_slot i d (gw_sender g)" "fill go p g = (r, h)"
  shows "follows_slot go p i d g h"
proof (cases "fill_start (go_ethers go) (gw_books g) p")
  case (Inl e)
  then show ?thesis using assms(2,3) fill_refused [OF Inl] by (simp add: follows_slot_def fine_def)
next
  case (Inr u)
  have books: "follows_slot go p i d g (k\<lparr>gw_books := b\<rparr>) \<longleftrightarrow> follows_slot go p i d g k" for k b by (simp add: follows_slot_def)
  have "wp (fill go p) (\<lambda>_. follows_slot go p i d g) (\<lambda>_. follows_slot go p i d g) g"
    unfolding fill_def wp_simps Inr
    by (simp, rule wp_mono [OF send_fill_follows [OF assms(1,2)]]) (auto simp: books split: option.split tx_outcome.split)
  then show ?thesis using assms(3) by (cases r) (auto dest: wp_run wp_run_error)
qed

section \<open>What an acceptance needs\<close>

text \<open>
  An accepted fill ties up no inventory any more: on the way from \<open>w\<close> to \<open>v\<close> a time past its deadline was read,
  or that it was filled.
\<close>

definition spent :: "'w gateway_options \<Rightarrow> dest_config \<Rightarrow> 'w \<Rightarrow> 'w \<Rightarrow> string \<times> owed_fill \<Rightarrow> bool" where
  "spent go dc w v x \<longleftrightarrow> (\<exists>now. asked go w (now_sec go [dc_signer dc] False) now v \<and> ow_deadline (snd x) < now)
     \<or> asked go w (ca_filled (go_api go (dc_signer dc)) (dc_fillerContract dc) (fst x) None) True v"

text \<open>\<open>owed\<close> is what the fills of the list owe, less some that are spent.\<close>

definition accounted :: "'w gateway_options \<Rightarrow> dest_config \<Rightarrow> (string \<times> owed_fill) list \<Rightarrow> 'w \<Rightarrow> 'w \<Rightarrow> int \<Rightarrow> bool" where
  "accounted go dc fs w v owed \<longleftrightarrow> (\<exists>D. (\<forall>x \<in> set fs. fst x \<in> D \<longrightarrow> spent go dc w v x)
     \<and> owed = sum_list (map (ow_amount \<circ> snd) (filter (\<lambda>x. fst x \<notin> D) fs)))"

text \<open>
  On the way from \<open>w\<close> to \<open>v\<close> the solver's own balance was read, and covers this fill and all that the books owe of
  its token, less what is spent.
\<close>

definition covered :: "'w gateway_options \<Rightarrow> prepared_fill \<Rightarrow> dest_config \<Rightarrow> books \<Rightarrow> 'w \<Rightarrow> 'w \<Rightarrow> bool" where
  "covered go p dc bk w v \<longleftrightarrow> (\<exists>amount self balance owed. big_uint (fa_amount (va_fillAuth p)) = Inr amount
     \<and> asked go w (address_of go (dc_signer dc)) self v
     \<and> asked go w (ca_balance (go_api go (dc_signer dc)) (fa_token (va_fillAuth p)) self) balance v
     \<and> accounted go dc (owed_candidates bk p) w v owed \<and> amount + owed \<le> balance)"

text \<open>The time was read, and leaves room.\<close>

definition in_time :: "'w gateway_options \<Rightarrow> prepared_fill \<Rightarrow> dest_config \<Rightarrow> 'w \<Rightarrow> 'w \<Rightarrow> bool" where
  "in_time go p dc w v \<longleftrightarrow> (\<exists>(oc :: origin_config) now deadline. map_of (go_origins go) (round_double (of_int (pf_originChainId p))) = Some oc
     \<and> asked go w (now_sec go [oc_signer oc, dc_signer dc] True) now v
     \<and> big_uint (fa_deadline (va_fillAuth p)) = Inr deadline
     \<and> (let budget = or_else (go_acceptBudgetSec go) 15; lands = now + fill_inclusion go + budget in
         now + budget \<le> va_acceptBy p \<and> lands \<le> deadline
         \<and> lands + ATTESTATION_LATENCY_SEC + SAFETY_MARGIN_SEC < ol_refundableAt (pf_lock p)))"

lemma spent_earlier: "onward go u w \<Longrightarrow> spent go dc w v x \<Longrightarrow> spent go dc u v x"
  unfolding spent_def by (blast intro: asked_earlier)

lemma spent_later: "spent go dc w v x \<Longrightarrow> onward go v u \<Longrightarrow> spent go dc w u x"
  unfolding spent_def by (blast intro: asked_later)

lemma accounted_earlier: "onward go u w \<Longrightarrow> accounted go dc fs w v owed \<Longrightarrow> accounted go dc fs u v owed"
  unfolding accounted_def by (blast intro: spent_earlier)

lemma accounted_later: "accounted go dc fs w v owed \<Longrightarrow> onward go v u \<Longrightarrow> accounted go dc fs w u owed"
  unfolding accounted_def by (blast intro: spent_later)

lemma accounted_nil [simp]: "accounted go dc [] w v owed \<longleftrightarrow> owed = 0"
  by (simp add: accounted_def)

lemma accounted_drop:
  assumes "spent go dc w v (fid, f)" "accounted go dc fs w v owed" "fid \<notin> fst ` set fs"
  shows "accounted go dc ((fid, f) # fs) w v owed"
proof -
  obtain D where D: "\<forall>x \<in> set fs. fst x \<in> D \<longrightarrow> spent go dc w v x" "owed = sum_list (map (ow_amount \<circ> snd) (filter (\<lambda>x. fst x \<notin> D) fs))"
    using assms(2) unfolding accounted_def by blast
  have same: "filter (\<lambda>y. fst y \<noteq> fid \<and> fst y \<notin> D) fs = filter (\<lambda>y. fst y \<notin> D) fs"
    using assms(3) by (auto intro!: filter_cong)
  show ?thesis unfolding accounted_def using D assms(1,3) by (intro exI [of _ "insert fid D"]) (auto simp: same)
qed

lemma accounted_keep:
  assumes "accounted go dc fs w v owed" "fid \<notin> fst ` set fs"
  shows "accounted go dc ((fid, f) # fs) w v (ow_amount f + owed)"
proof -
  obtain D where D: "\<forall>x \<in> set fs. fst x \<in> D \<longrightarrow> spent go dc w v x" "owed = sum_list (map (ow_amount \<circ> snd) (filter (\<lambda>x. fst x \<notin> D) fs))"
    using assms(1) unfolding accounted_def by blast
  have same: "filter (\<lambda>y. fst y \<in> D \<longrightarrow> fst y = fid) fs = filter (\<lambda>y. fst y \<notin> D) fs"
    using assms(2) by (auto intro!: filter_cong)
  show ?thesis unfolding accounted_def using D assms(2) by (intro exI [of _ "D - {fid}"]) (auto simp: same)
qed

lemma covered_later: "covered go p dc bk w v \<Longrightarrow> onward go v u \<Longrightarrow> covered go p dc bk w u"
  unfolding covered_def by (blast intro: asked_later accounted_later)

lemma covered_earlier: "onward go u w \<Longrightarrow> covered go p dc bk w v \<Longrightarrow> covered go p dc bk u v"
  unfolding covered_def by (blast intro: asked_earlier accounted_earlier)

lemma in_time_earlier: "onward go u w \<Longrightarrow> in_time go p dc w v \<Longrightarrow> in_time go p dc u v"
  unfolding in_time_def by (blast intro: asked_earlier)

lemma in_time_later: "in_time go p dc w v \<Longrightarrow> onward go v u \<Longrightarrow> in_time go p dc w u"
  unfolding in_time_def by (blast intro: asked_later)

lemma wp_sum_owed:
  assumes "distinct (map fst fs)" "asked go w (now_sec go [dc_signer dc] False) now (world_of g)" "onward go w (world_of g)"
  shows "wp (sum_owed (go_api go (dc_signer dc)) (dc_fillerContract dc) now fs owed)
    (\<lambda>r h. onward go (world_of g) (world_of h) \<and> accounted go dc fs w (world_of h) (r - owed)) (\<lambda>_ _. True) g"
  using assms
proof (induction fs arbitrary: owed g)
  case Nil
  show ?case by (simp add: worlds.refl)
next
  case (Cons x fs)
  obtain fid f where x: "x = (fid, f)" by fastforce
  then have fs: "distinct (map fst fs)" "fid \<notin> fst ` set fs" using Cons.prems(1) by auto
  let ?Q = "\<lambda>r h. onward go (world_of g) (world_of h) \<and> accounted go dc ((fid, f) # fs) w (world_of h) (r - owed)"
  have go_on: "wp (sum_owed (go_api go (dc_signer dc)) (dc_fillerContract dc) now fs owed')
      (\<lambda>r h. onward go (world_of g) (world_of h) \<and> onward go v (world_of h) \<and> accounted go dc fs w (world_of h) (r - owed')) (\<lambda>_ _. True) g'"
    if "world_of g' = v" "onward go (world_of g) v" for g' v owed'
    by (rule wp_mono [OF Cons.IH [OF fs(1)]])
      (use that Cons.prems(2,3) in \<open>auto intro: asked_later worlds.trans\<close>)
  have dropped: "wp (sum_owed (go_api go (dc_signer dc)) (dc_fillerContract dc) now fs owed) ?Q (\<lambda>_ _. True) g'"
    if "world_of g' = v" "onward go (world_of g) v" "spent go dc w v (fid, f)" for g' v
    using go_on [OF that(1,2)] by (rule wp_mono) (use accounted_drop [OF spent_later [OF that(3)] _ fs(2)] in auto)
  have kept: "wp (sum_owed (go_api go (dc_signer dc)) (dc_fillerContract dc) now fs (owed + ow_amount f)) ?Q (\<lambda>_ _. True) g'"
    if "world_of g' = v" "onward go (world_of g) v" for g' v
    using go_on [OF that, of "owed + ow_amount f"]
    by (rule wp_mono) (use accounted_keep [OF _ fs(2), of go dc w _ _ f] in \<open>force simp: algebra_simps\<close>, simp)
  have late: "spent go dc w (world_of g) (fid, f)" if "ow_deadline f < now"
    using Cons.prems(2) that by (auto simp: spent_def)
  have filled: "spent go dc w v (fid, f)"
    if "asked go (world_of g) (ca_filled (go_api go (dc_signer dc)) (dc_fillerContract dc) fid None) True v" for v
    using asked_earlier [OF Cons.prems(3) that] by (simp add: spent_def)
  have world: "world_of (k\<lparr>gw_books := b\<rparr>) = world_of k" for k :: "'a gateway" and b by (simp add: world_of_def)
  show ?case
  proof (cases "ow_deadline f < now")
    case True
    then show ?thesis unfolding x using dropped [OF world worlds.refl late] by simp
  next
    case False
    show ?thesis unfolding x sum_owed.simps using False
      by (simp, intro wp_gw_asked [where go = go] onward_asks TrueI)
        (auto intro: dropped [OF _ _ filled] kept simp: world)
  qed
qed

lemma wp_owed_inventory:
  assumes "distinct (map fst (bk_owed (gw_books g)))" "onward go w (world_of g)"
  shows "wp (owed_inventory go p dc)
    (\<lambda>r h. onward go (world_of g) (world_of h) \<and> accounted go dc (owed_candidates (gw_books g) p) w (world_of h) r) (\<lambda>_ _. True) g"
proof -
  let ?fs = "owed_candidates (gw_books g) p"
  have distinct: "distinct (map fst ?fs)" using assms(1) by (simp add: owed_candidates_def distinct_map_filter)
  have sum: "wp (sum_owed (go_api go (dc_signer dc)) (dc_fillerContract dc) now ?fs 0)
      (\<lambda>r h. onward go (world_of g) (world_of h) \<and> accounted go dc ?fs w (world_of h) r) (\<lambda>_ _. True) (at_world v g)"
    if "asked go (world_of g) (now_sec go [dc_signer dc] False) now v" "onward go (world_of g) v" for now v
    by (rule wp_mono [OF wp_sum_owed [OF distinct, of go w]])
      (use that assms(2) in \<open>auto intro: asked_earlier worlds.trans\<close>)
  show ?thesis
  proof (cases "?fs = []")
    case True
    then show ?thesis by (simp add: owed_inventory_def worlds.refl)
  next
    case False
    then show ?thesis unfolding owed_inventory_def
      by (simp, intro wp_gw_asked [where go = go] onward_asks TrueI sum)
  qed
qed

lemma wp_fill_preflight:
  assumes "distinct (map fst (bk_owed (gw_books g)))"
  shows "wp (fill_preflight go p dc True) (\<lambda>_ h. covered go p dc (gw_books g) (world_of g) (world_of h)) (\<lambda>_ _. True) g"
proof -
  have inventory: "wp (owed_inventory go p dc) (\<lambda>r h. onward go v (world_of h)
      \<and> accounted go dc (owed_candidates (gw_books g) p) (world_of g) (world_of h) r) (\<lambda>_ _. True) (at_world v g)"
    if "onward go (world_of g) v" for v
    using wp_owed_inventory [of "at_world v g" go "world_of g" p dc] assms that by simp
  have balanced: "covered go p dc (gw_books g) (world_of g) v"
    if "big_uint (fa_amount (va_fillAuth p)) = Inr amount"
      and a: "asked go u0 (address_of go (dc_signer dc)) self u1" and o: "onward go (world_of g) u0" "onward go u0 u1"
      and b: "asked go u2 (ca_balance (go_api go (dc_signer dc)) (fa_token (va_fillAuth p)) self) balance v"
      and c: "accounted go dc (owed_candidates (gw_books g) p) (world_of g) u2 owed" and o2: "onward go u1 u2" "onward go u2 v"
      and "\<not> balance < amount + owed" for amount u0 u1 u2 self owed balance v
    unfolding covered_def
  proof (intro exI conjI)
    have way: "onward go (world_of g) u2" using onward_trans3 [OF o o2(1)] .
    show "big_uint (fa_amount (va_fillAuth p)) = Inr amount" by (rule that(1))
    show "asked go (world_of g) (address_of go (dc_signer dc)) self v"
      using asked_later [OF asked_earlier [OF o(1) a] worlds.trans [OF o2]] .
    show "asked go (world_of g) (ca_balance (go_api go (dc_signer dc)) (fa_token (va_fillAuth p)) self) balance v"
      using asked_earlier [OF way b] .
    show "accounted go dc (owed_candidates (gw_books g) p) (world_of g) v owed" using accounted_later [OF c o2(2)] .
    show "amount + owed \<le> balance" using that(9) by simp
  qed
  define last where "last balance amount owed self = (if balance < amount + owed then gw_reject InsufficientInventory
     else io_bind (gw_ask (ca_allowance (go_api go (dc_signer dc)) (fa_token (va_fillAuth p)) self (dc_fillerContract dc))) (\<lambda>allowance.
     if allowance < amount then gw_reject InsufficientAllowance
     else io_catch (io_bind (gw_check (big_uint (fa_deadline (va_fillAuth p)))) (\<lambda>deadline.
         gw_ask (ca_static_fill (go_api go (dc_signer dc)) (dc_fillerContract dc) (fill_call_of p amount deadline))))
       (\<lambda>_. gw_reject SimulationFailed)))" for amount owed :: int and self :: string and balance :: int
  have on: "leaves (gateway_onward go) (last balance amount owed self)" for amount owed self balance
    unfolding last_def by (auto intro!: runs_onward)
  have checked: "wp (last balance amount owed self) (\<lambda>_ h. covered go p dc (gw_books g) (world_of g) (world_of h)) (\<lambda>_ _. True) h"
    if "\<not> balance < amount + owed \<Longrightarrow> covered go p dc (gw_books g) (world_of g) (world_of h)" for amount owed self balance h
  proof (cases "balance < amount + owed")
    case False
    with that show ?thesis
      by (intro wp_mono [OF leaves_wp [OF on]]) (auto simp: gateway_onward_def intro: covered_later)
  qed (simp add: last_def)
  have shape: "fill_preflight go p dc True = io_bind (gw_ask (ca_filled (go_api go (dc_signer dc)) (dc_fillerContract dc) (va_fillId p) None)) (\<lambda>done.
      if done then gw_reject AlreadyFilled else io_bind (gw_ask (address_of go (dc_signer dc))) (\<lambda>self.
      io_bind (gw_check (big_uint (fa_amount (va_fillAuth p)))) (\<lambda>amount. io_bind (owed_inventory go p dc) (\<lambda>owed.
      io_bind (gw_ask (ca_balance (go_api go (dc_signer dc)) (fa_token (va_fillAuth p)) self)) (\<lambda>balance. last balance amount owed self)))))"
    unfolding fill_preflight_def Let_def last_def by simp
  show ?thesis unfolding shape wp_simps
    apply (rule wp_gw_asked [where go = go], rule onward_asks, rule TrueI)
    apply (simp split: if_splits)
    apply (intro impI)
    apply (rule wp_gw_asked [where go = go], rule onward_asks, rule TrueI)
    apply (simp split: sum.split)
    apply (intro impI allI)
    apply (rule wp_mono [OF inventory])
      apply (erule (1) worlds.trans)
     apply (rule wp_gw_asked [where go = go], rule onward_asks, rule TrueI)
     apply (rule checked, simp)
     apply (elim conjE)
     apply (rule balanced, assumption+)
    done
qed

lemma window_open:
  "check_fill_window \<lparr>fw_nowSec = VBig now, fw_refundableAt = VBig refundable, fw_fillAuthDeadline = d, fw_fillInclusionSec = VBig incl,
     fw_attestationLatencySec = None, fw_safetyMarginSec = None\<rparr> = Inr u
   \<longleftrightarrow> now + incl + ATTESTATION_LATENCY_SEC + SAFETY_MARGIN_SEC < refundable \<and> (\<exists>deadline. big_uint d = Inr deadline \<and> now + incl \<le> deadline)"
  by (auto simp: check_fill_window_def big_uint_def not_le not_less)

lemma in_timeI:
  assumes "map_of (go_origins go) (round_double (of_int (pf_originChainId p))) = Some oc"
    and "asked go w (now_sec go [oc_signer oc, dc_signer dc] True) now v" "\<not> va_acceptBy p < now + or_else (go_acceptBudgetSec go) 15"
    "check_fill_window \<lparr>fw_nowSec = VBig now, fw_refundableAt = VBig (ol_refundableAt (pf_lock p)), fw_fillAuthDeadline = fa_deadline (va_fillAuth p),
      fw_fillInclusionSec = VBig (fill_inclusion go + or_else (go_acceptBudgetSec go) 15), fw_attestationLatencySec = None, fw_safetyMarginSec = None\<rparr> = Inr u"
  shows "in_time go p dc w v"
proof -
  from assms(4) obtain deadline where d: "big_uint (fa_deadline (va_fillAuth p)) = Inr deadline"
    "now + (fill_inclusion go + or_else (go_acceptBudgetSec go) 15) \<le> deadline"
    "now + (fill_inclusion go + or_else (go_acceptBudgetSec go) 15) + ATTESTATION_LATENCY_SEC + SAFETY_MARGIN_SEC < ol_refundableAt (pf_lock p)"
    unfolding window_open by blast
  show ?thesis unfolding in_time_def Let_def
    by (rule exI [of _ oc], rule exI [of _ now], rule exI [of _ deadline])
       (use assms(1-3) d in \<open>simp add: not_less add.assoc\<close>)
qed

text \<open>All of it, at the world of \<open>h\<close>.\<close>

definition ready :: "'w gateway_options \<Rightarrow> prepared_fill \<Rightarrow> dest_config \<Rightarrow> books \<Rightarrow> 'w \<Rightarrow> 'w gateway \<Rightarrow> bool" where
  "ready go p dc bk w h \<longleftrightarrow> covered go p dc bk w (world_of h) \<and> in_time go p dc w (world_of h)"

lemma ready_world: "ready go p dc bk w h \<Longrightarrow> onward go (world_of h) v \<Longrightarrow> ready go p dc bk w (at_world v h)"
  by (auto simp: ready_def intro: covered_later in_time_later)

lemma ready_from: "ready go p dc bk w h \<Longrightarrow> onward go u w \<Longrightarrow> ready go p dc bk u h"
  by (auto simp: ready_def intro: covered_earlier in_time_earlier)

lemma wp_accept_checks:
  assumes "distinct (map fst (bk_owed (gw_books g)))"
  shows "wp (accept_checks go p dc) (\<lambda>_. ready go p dc (gw_books g) (world_of g)) (\<lambda>_ _. True) g"
proof (cases "map_of (go_origins go) (round_double (of_int (pf_originChainId p)))")
  case None
  then show ?thesis by (simp add: accept_checks_def Let_def origin_of_def)
next
  case (Some oc)
  let ?R = "ready go p dc (gw_books g) (world_of g)"
  have preflight: "wp (fill_preflight go p dc True) (\<lambda>_. ?R) (\<lambda>_ _. True) (at_world w g)"
    if "in_time go p dc (world_of g) w" "onward go (world_of g) w" for w
  proof -
    have "wp (fill_preflight go p dc True) (\<lambda>_ h. covered go p dc (gw_books g) w (world_of h)) (\<lambda>_ _. True) (at_world w g)"
      using wp_fill_preflight [of "at_world w g"] assms by simp
    then show ?thesis
      by (rule wp_mono [OF wp_conj [OF _ leaves_wp [OF preflight_onward(2) [of go]]]])
        (use that in \<open>auto simp: ready_def gateway_onward_def intro: covered_earlier in_time_later\<close>)
  qed
  have tail: "wp (gw_ask (claim_readiness go p)) (\<lambda>a. wp (case a of Some c \<Rightarrow> gw_reject c | None \<Rightarrow> io_return ()) (\<lambda>_. ?R) (\<lambda>_ _. True)) (\<lambda>_ _. True) h"
    if "?R h" for h
    by (rule wp_gw_asked [where go = go], rule onward_asks) (use that in \<open>auto simp: ready_world split: option.split\<close>)
  show ?thesis unfolding accept_checks_def Let_def wp_simps origin_of_def Some option.case
    apply (rule wp_gw_asked [where go = go], rule onward_asks, rule TrueI)
    apply (simp split: if_splits sum.splits)
    apply (intro impI)
    apply (rule wp_mono [OF preflight])
    apply (rule in_timeI [OF Some], assumption, simp, assumption+)
     apply (erule tail)
    apply (rule TrueI)
    done
qed

text \<open>None of it signs anything.\<close>

definition unsigned :: "'w gateway \<Rightarrow> 'w gateway \<Rightarrow> bool" where
  "unsigned g h \<longleftrightarrow> gw_signed h = gw_signed g"

interpretation unsigned: run_relation unsigned
  by unfold_locales (simp_all add: unsigned_def)

lemma unsigned_ask: "leaves unsigned (gw_ask f)"
  by (auto simp: leaves_def wp_gw_ask unsigned_def split: prod.split sum.split)

lemma unsigned_still: "leaves unsigned (io_update (\<lambda>g. g\<lparr>gw_books := f1 g\<rparr>))" "leaves unsigned (gw_check v)" "leaves unsigned (gw_reject c)"
  "leaves unsigned (origin_of go n)"
  by (auto simp: leaves_def unsigned_def origin_of_def split: sum.split option.split)

lemmas unsigned_rules = unsigned_ask unsigned_still unsigned.all_leaves

lemma sum_unsigned: "leaves unsigned (sum_owed ca filler now fs owed)"
  by (induction fs arbitrary: owed) (auto intro!: unsigned_rules)

lemma checks_unsigned: "leaves unsigned (accept_checks go p dc)"
  unfolding accept_checks_def fill_preflight_def owed_inventory_def Let_def
  by (auto intro!: unsigned_rules sum_unsigned split: option.split)

section \<open>A fresh acceptance\<close>

text \<open>Signatures beyond \<open>S\<close>: none, or one made, on a world \<open>v\<close> come from \<open>w\<close>, for a covered fill in time.\<close>

definition fresh :: "'w gateway_options \<Rightarrow> prepared_fill \<Rightarrow> (prepared_fill \<times> fill_acceptance) list \<Rightarrow> books \<Rightarrow> 'w \<Rightarrow> 'w gateway \<Rightarrow> bool" where
  "fresh go p S bk w h \<longleftrightarrow> gw_signed h = S \<or> (\<exists>acc dc v raw. gw_signed h = S @ [(p, acc)] \<and> fill_acceptance_for (go_ethers go) p = Inr acc
     \<and> map_of (go_destinations go) (round_double (of_int (pf_destinationChainId p))) = Some dc
     \<and> covered go p dc bk w v \<and> in_time go p dc w v \<and> fst (ca_sign_acceptance (go_api go (dc_signer dc)) (pf_bondDomain p) acc v) = Inr raw)"

lemma fresh_keep: "gw_signed k = gw_signed h \<Longrightarrow> fresh go p S bk w h \<Longrightarrow> fresh go p S bk w k"
  by (simp add: fresh_def)

lemma record_signed_runs:
  assumes "fill_acceptance_for et p = Inr acc"
  obtains f where "record_signed et p en bk = (Inr (), set_accepted_order p (fc_fillAuth acc) ((set_accepted p en bk)\<lparr>bk_owed := put_owed (va_fillId p) f (bk_owed bk)\<rparr>))"
proof -
  obtain f where "owed_of p = Inr f" using accepted_owed [OF assms] ..
  with accepted_digest [OF assms] show ?thesis
    by (intro that [of f]) (simp add: record_signed_def record_owed_fill_def io_bind_def io_update_def of_verdict_def set_accepted_def)
qed

lemma wp_sign_now:
  assumes "ready go p dc bk w g" "gw_signed g = S"
    and dc: "map_of (go_destinations go) (round_double (of_int (pf_destinationChainId p))) = Some dc"
  shows "wp (sign_now go p dc) (\<lambda>_. fresh go p S bk w) (\<lambda>_. fresh go p S bk w) g"
proof -
  let ?F = "fresh go p S bk w"
  have start: "?F g" using assms(2) by (simp add: fresh_def)
  have recorded: "wp (gw_book (record_signed (go_ethers go) p en)) (\<lambda>_. ?F) (\<lambda>_. ?F) ((at_world v g)\<lparr>gw_signed := S @ [(p, acc)]\<rparr>)"
    if acc: "fill_acceptance_for (go_ethers go) p = Inr acc"
      and signed: "ca_sign_acceptance (go_api go (dc_signer dc)) (pf_bondDomain p) acc (world_of g) = (Inr raw, v)" for en v acc raw
  proof -
    have "?F (((at_world v g)\<lparr>gw_signed := S @ [(p, acc)]\<rparr>)\<lparr>gw_books := b\<rparr>)" for b
      using assms(1) acc dc signed unfolding fresh_def ready_def
      by (intro disjI2 exI [of _ acc] exI [of _ dc] exI [of _ "world_of g"] exI [of _ raw]) simp
    then show ?thesis by (simp add: wp_def gw_book_def split: prod.split sum.split)
  qed
  show ?thesis unfolding sign_now_def Let_def wp_simps
    using start assms(2) recorded
    by (auto simp: wp_gw_ask fresh_keep [of "at_world _ g" g] split: sum.split prod.split)
qed

lemma post_keeps: "fresh go p S bk w h \<Longrightarrow> wp (post_acceptance go p sg) (\<lambda>_. fresh go p S bk w) (\<lambda>_. fresh go p S bk w) h"
  unfolding post_acceptance_def wp_simps
  apply (rule wp_destination)
   apply (cases "go_acceptances go"; simp add: wp_gw_ask split: prod.split sum.split)
   apply (auto elim!: fresh_keep [rotated])
  done

lemma on_signed_keeps: "fresh go p S bk w h \<Longrightarrow> wp (call_on_signed o1 sg) (\<lambda>_. fresh go p S bk w) (\<lambda>_. fresh go p S bk w) h"
  by (auto simp: call_on_signed_def wp_gw_ask elim!: fresh_keep [rotated] split: option.split prod.split sum.split)

lemma wp_sign_acceptance:
  assumes "distinct (map fst (bk_owed (gw_books g)))" "gw_signed g = S"
  shows "wp (sign_acceptance go p o1 False) (\<lambda>_. fresh go p S (gw_books g) (world_of g)) (\<lambda>_. fresh go p S (gw_books g) (world_of g)) g"
proof -
  let ?F = "fresh go p S (gw_books g) (world_of g)"
  have none: "?F h" if "gw_signed h = S" for h using that by (simp add: fresh_def)
  have signing: "wp (sign_now go p dc) (\<lambda>a. wp (call_on_signed o1 a) (\<lambda>_. wp (post_acceptance go p a) (\<lambda>_. ?F) (\<lambda>_. ?F)) (\<lambda>_. ?F)) (\<lambda>_. ?F) h"
    if "ready go p dc (gw_books g) (world_of g) h" "gw_signed h = S"
      "map_of (go_destinations go) (round_double (of_int (pf_destinationChainId p))) = Some dc" for dc h
    by (rule wp_mono [OF wp_sign_now [OF that]]) (auto intro!: wp_mono [OF on_signed_keeps] post_keeps)
  have checked: "wp (accept_checks go p dc) (\<lambda>_ h. ready go p dc (gw_books g) (world_of g) h \<and> gw_signed h = S) (\<lambda>_ h. gw_signed h = S) (at_world v g)"
    if "onward go (world_of g) v" for v dc
    by (rule wp_mono [OF wp_conj [OF wp_accept_checks leaves_wp [OF checks_unsigned]]])
      (use assms that in \<open>auto simp: unsigned_def intro: ready_from\<close>)
  show ?thesis
  proof (cases "map_of (go_destinations go) (round_double (of_int (pf_destinationChainId p)))")
    case None
    then show ?thesis using none [OF assms(2)] by (simp add: sign_acceptance_def destination_of_def)
  next
    case (Some dc)
    then show ?thesis unfolding sign_acceptance_def wp_simps destination_of_def option.case if_False
      apply simp
      apply (rule wp_gw_asked [where go = go], rule onward_asks, rule none, simp add: assms(2))
      apply (simp add: none assms(2) split: sum.split)
      apply (intro impI)
      apply (rule wp_mono [OF checked], assumption)
       apply (elim conjE, rule signing; assumption)
      apply (erule none)
      done
  qed
qed


end
