(* ===== verification/GatewayClaim.thy ===== *)
theory GatewayClaim
  imports GatewayTime
begin

text \<open>
  What \<open>claimUntilRefundable\<close> reports rests on: for every result, an answer the loop was given on its way.
\<close>

section \<open>A confirmed send\<close>

definition shown :: "'w gateway_options \<Rightarrow> 'w \<Rightarrow> string \<Rightarrow> nat \<Rightarrow> 'w \<Rightarrow> bool" where
  "shown go w h b v \<longleftrightarrow> (\<exists>j rc. asked go w (nd_receipt (ca_node (go_api go j)) h) (Some rc) v
     \<and> rc_status rc = Some 1 \<and> rc_blockNumber rc = b)"

lemma shown_later: "shown go w h b v \<Longrightarrow> onward go v u \<Longrightarrow> shown go w h b u"
  unfolding shown_def by (blast intro: asked_later)

lemma shown_earlier: "onward go u w \<Longrightarrow> shown go w h b v \<Longrightarrow> shown go u h b v"
  unfolding shown_def by (blast intro: asked_earlier)

lemma wp_asked:
  assumes "leaves (onward go) f" "\<And>e w. E (NodeError e) (s\<lparr>sn_world := w\<rparr>)"
    and "\<And>a w. asked go (sn_world s) f a w \<Longrightarrow> onward go (sn_world s) w \<Longrightarrow> Q a (s\<lparr>sn_world := w\<rparr>)"
  shows "wp (ask f) Q E s"
proof (cases "f (sn_world s)")
  case (Pair r v)
  have v: "onward go (sn_world s) v" using leavesD [OF assms(1) Pair] .
  have "asked go (sn_world s) f a v" if "r = Inr a" for a
    using Pair that by (intro askedI [OF worlds.refl _ worlds.refl]) simp
  with v show ?thesis using assms(2,3) Pair by (cases r) (auto simp: wp_def ask_def)
qed

definition confirmed_shown :: "'w gateway_options \<Rightarrow> 'w \<Rightarrow> tx_outcome option \<Rightarrow> 'w sender \<Rightarrow> bool" where
  "confirmed_shown go w r t \<longleftrightarrow> (\<forall>h b. r = Some (Confirmed h b) \<longrightarrow> shown go w h b (sn_world t))"

lemma receipts_shown:
  "onward go w (sn_world s) \<Longrightarrow> wp (receipt_among (node_of go j) hs) (confirmed_shown go w) (\<lambda>_ _. True) s"
proof (induction hs arbitrary: s)
  case (Cons h hs)
  show ?case unfolding receipt_among.simps wp_simps
  proof (rule wp_asked [where go = go])
    fix r v assume r: "asked go (sn_world s) (nd_receipt (node_of go j) h) r v" "onward go (sn_world s) v"
    have "onward go w v" using Cons.prems r(2) by (rule worlds.trans)
    then show "wp (case r of None \<Rightarrow> receipt_among (node_of go j) hs | Some rc \<Rightarrow> io_return (Some (receipt_outcome h rc)))
      (confirmed_shown go w) (\<lambda>_ _. True) (s\<lparr>sn_world := v\<rparr>)"
      using asked_earlier [OF Cons.prems r(1)] Cons.IH [of "s\<lparr>sn_world := v\<rparr>"]
      by (cases r) (simp_all, auto simp: confirmed_shown_def receipt_outcome_def shown_def)
  qed (auto intro: onward_asks)
qed (simp add: confirmed_shown_def)

lemma pass_shown:
  assumes "onward go w (sn_world s)"
  shows "wp (await_pass (node_of go) opts i deadline x) (\<lambda>r. confirmed_shown go w (case r of Inl out \<Rightarrow> Some out | Inr _ \<Rightarrow> None)) (\<lambda>_ _. True) s"
proof -
  let ?Q = "\<lambda>r. confirmed_shown go w (case r of Inl out \<Rightarrow> Some out | Inr _ \<Rightarrow> None)"
  have free: "wp (release_slot N opts i) (\<lambda>a. confirmed_shown go w (Some (case a of
      None \<Rightarrow> followed sl | Some c \<Rightarrow> Cancelled (last (sl_hashes sl)) (sl_hashes sl) c (sl_from sl) (sl_nonce sl)))) (\<lambda>_ _. True) t"
    and follow: "confirmed_shown go w (Some (followed sl)) t" and on: "confirmed_shown go w None t" for N sl t
    by (auto intro!: wp_any simp: confirmed_shown_def followed_def split: option.split)
  have move: "wp (keep_moving N opts i nb bf m) (\<lambda>_ _. True) (\<lambda>_ _. True) t" for N nb bf m t
    by (intro wp_any TrueI)
  have head: "wp (if sl_landBy sl = None then io_return None else io_catch (ask (nd_head (node_of go j))) (\<lambda>_. io_return None))
      (\<lambda>_ t. onward go w (sn_world t)) (\<lambda>_ _. True) s" for sl j
    using assms worlds.trans [OF assms] by (auto intro!: wp_mono [OF leaves_wp [OF sender_ask [OF field_asks(10)]]] simp: sender_onward_def)
  have receipts: "wp (io_catch (receipt_among (node_of go j) hs) (\<lambda>_. io_return None)) (confirmed_shown go w) (\<lambda>_ _. True) t"
    if "onward go w (sn_world t)" for j hs t
    unfolding wp_simps by (rule wp_mono [OF receipts_shown [OF that]]) (auto simp: on)
  show ?thesis unfolding await_pass_def Let_def
    apply (subst wp_simps(3), simp only: wp_the_slot)
    apply (subst wp_simps(3), rule wp_mono [OF head])
     apply (subst wp_simps(3), rule wp_mono [OF receipts], assumption)
      apply (auto simp: free follow on move intro!: wp_ask_now wp_pause split: option.split prod.split)
    done
qed

lemma await_shown:
  "onward go w (sn_world s) \<Longrightarrow> wp (await_receipt k (node_of go) opts i deadline x) (confirmed_shown go w) (\<lambda>_ _. True) s"
proof (induction k arbitrary: x s)
  case (Suc k)
  have "wp (await_pass (node_of go) opts i deadline x) (\<lambda>r t. onward go w (sn_world t)
      \<and> confirmed_shown go w (case r of Inl out \<Rightarrow> Some out | Inr _ \<Rightarrow> None) t) (\<lambda>_ _. True) s"
    by (rule wp_mono [OF wp_conj [OF leaves_wp [OF sender_pass] pass_shown [OF Suc.prems]]])
      (auto simp: sender_onward_def intro: worlds.trans [OF Suc.prems])
  then show ?case unfolding await_receipt.simps wp_simps
    by (rule wp_mono) (auto split: sum.split intro: Suc.IH)
qed (simp add: confirmed_shown_def)

lemma send_shown:
  assumes "\<And>f. pl_recheck plan = Some f \<Longrightarrow> leaves (onward go) f" "\<And>f. pl_simulate plan = Some f \<Longrightarrow> leaves (onward go) f"
  shows "wp (send k (node_of go) opts plan) (confirmed_shown go (sn_world s)) (\<lambda>_ _. True) s"
proof -
  let ?w = "sn_world s"
  have step: "leaves (sender_onward go) m \<Longrightarrow> onward go ?w (sn_world t) \<Longrightarrow> (\<And>a u. onward go ?w (sn_world u) \<Longrightarrow> Q a u) \<Longrightarrow> wp m Q (\<lambda>_ _. True) t" for m Q t
    by (rule wp_mono [OF leaves_wp [of "sender_onward go"]]) (auto simp: sender_onward_def intro: worlds.trans)
  have doubt: "wp (put_in_doubt key i) (\<lambda>_. confirmed_shown go ?w (Some o1)) (\<lambda>_ _. True) t" if "is_doubtful o1" for o1 key i t
    using that by (auto simp: put_in_doubt_def confirmed_shown_def is_doubtful_def)
  have none: "confirmed_shown go ?w (Some (NotSent h)) t" "confirmed_shown go ?w None t" for h t
    by (simp_all add: confirmed_shown_def)
  show ?thesis unfolding send_def Let_def wp_simps
    apply (rule step, intro sender_ask, simp add: field_asks, rule worlds.refl)
    apply (rule step, intro sender_ask, simp add: field_asks, assumption)
    apply (rule step, rule sender_open, erule assms(1), erule assms(2), assumption)
    apply (auto simp: none split: prod.split)
      apply (rule step [OF sender_now], assumption, rule wp_mono [OF await_shown], assumption; auto simp: none doubt split: option.split)+
    done
qed

section \<open>What a result rests on\<close>

definition claim_log :: "'w gateway_options \<Rightarrow> prepared_fill \<Rightarrow> 'w \<Rightarrow> string \<Rightarrow> string \<Rightarrow> 'w \<Rightarrow> bool" where
  "claim_log go p w payee h v \<longleftrightarrow> (\<exists>oc a b lgs lg. map_of (go_origins go) (round_double (of_int (pf_originChainId p))) = Some oc
     \<and> asked go w (ca_claimed (go_api go (oc_signer oc)) (oc_escrow oc) (va_orderId p) a b) lgs v \<and> lg \<in> set lgs
     \<and> \<not> lg_removed lg \<and> lg_parsed lg = Some payee \<and> lg_txHash lg = h)"

definition repaid :: "'w gateway_options \<Rightarrow> prepared_fill \<Rightarrow> 'w \<Rightarrow> verified_attestation \<Rightarrow> string \<Rightarrow> 'w \<Rightarrow> bool" where
  "repaid go p w att h v \<longleftrightarrow> (\<exists>oc payee b. map_of (go_origins go) (round_double (of_int (pf_originChainId p))) = Some oc
     \<and> asked go w (ca_static_claim (go_api go (oc_signer oc)) (oc_escrow oc) (va_orderId p) (vt_proof att)) payee v
     \<and> eq_addr payee (va_payee p) \<and> shown go w h b v)"

fun rests_on :: "'w gateway_options \<Rightarrow> prepared_fill \<Rightarrow> ('w, bool) ask \<Rightarrow> 'w \<Rightarrow> 'w \<Rightarrow> claim_result \<Rightarrow> bool" where
  "rests_on go p ab w v (ClaimedBySolver h) \<longleftrightarrow>
     (\<exists>att. asked go w (fetch_attestation go p) (Some att) v \<and> repaid go p w att h v)
     \<or> (\<exists>payee. claim_log go p w payee h v \<and> eq_addr payee (va_payee p))"
| "rests_on go p ab w v (ClaimedByOther payee h) \<longleftrightarrow> claim_log go p w payee h v \<and> \<not> eq_addr payee (va_payee p)"
| "rests_on go p ab w v ClaimedUnverified \<longleftrightarrow> asked go w (lock_status go p None) LOCK_CLAIMED v"
| "rests_on go p ab w v (LoopLockNotOpen st) \<longleftrightarrow> st = LOCK_REFUNDED \<and> asked go w (lock_status go p None) st v"
| "rests_on go p ab w v LoopWindowClosed \<longleftrightarrow> (\<exists>t. asked go w (gw_now go) t v \<and> last_send_sec go p \<le> \<lfloor>t / 1000\<rfloor>)
     \<or> (\<exists>i t. asked go w (now_sec go [i] True) t v \<and> last_send_sec go p \<le> t)"
| "rests_on go p ab w v LoopAborted \<longleftrightarrow> asked go w ab True v"

lemma first_event_log: "first_event p lgs = Some r \<Longrightarrow> (\<exists>lg payee. lg \<in> set lgs \<and> \<not> lg_removed lg \<and> lg_parsed lg = Some payee
    \<and> r = (if eq_addr payee (va_payee p) then ClaimedBySolver (lg_txHash lg) else ClaimedByOther payee (lg_txHash lg)))"
  by (induction lgs) (auto simp: claim_event_def split: option.splits if_splits)

lemma among_log:
  assumes "asked go w (who_among f p rs) r v" "\<And>a b. leaves (onward go) (f a b)"
  shows "\<exists>a b lgs. asked go w (f a b) lgs v \<and> first_event p lgs = Some r"
  using assms(1)
proof (induction rs)
  case (Cons x rs)
  obtain a b where x: "x = (a, b)" by fastforce
  from Cons.prems [unfolded x who_among.simps] show ?case
  proof (rule asked_bind)
    fix lgs assume got: "asked go w (f a b) lgs v"
      "asked go w (case first_event p lgs of None \<Rightarrow> who_among f p rs | Some r \<Rightarrow> io_return r) r v"
    then show ?thesis using Cons.IH by (cases "first_event p lgs") (auto intro: exI [of _ a])
  qed (use assms(2) in \<open>auto intro!: worlds.all_leaves onward_asks split: option.split\<close>)
qed simp

lemma who_claimed_rests:
  assumes "asked go w (who_claimed go p) r v"
  shows "rests_on go p ab w v r"
  using assms [unfolded who_claimed_def Let_def]
proof (rule asked_bind)
  fix oc assume oc: "asked go w (origin_of go (pf_originChainId p)) oc v"
    and rest: "asked go w (io_bind (nd_block_number (ca_node (go_api go (oc_signer oc)))) (\<lambda>head.
       who_among (ca_claimed (go_api go (oc_signer oc)) (oc_escrow oc) (va_orderId p)) p
         (block_ranges (ol_blockNumber (pf_lock p)) head (or_else (oc_maxLogRange oc) 2000)))) r v"
  from rest show ?thesis
  proof (rule asked_bind)
    fix head assume "asked go w (who_among (ca_claimed (go_api go (oc_signer oc)) (oc_escrow oc) (va_orderId p)) p
         (block_ranges (ol_blockNumber (pf_lock p)) head (or_else (oc_maxLogRange oc) 2000))) r v"
    from among_log [OF this field_asks(18)] obtain a b lgs where logs: "asked go w (ca_claimed (go_api go (oc_signer oc)) (oc_escrow oc) (va_orderId p) a b) lgs v"
      "first_event p lgs = Some r" by blast
    from first_event_log [OF logs(2)] obtain lg payee where lg: "lg \<in> set lgs" "\<not> lg_removed lg" "lg_parsed lg = Some payee"
      "r = (if eq_addr payee (va_payee p) then ClaimedBySolver (lg_txHash lg) else ClaimedByOther payee (lg_txHash lg))" by blast
    have "claim_log go p w payee (lg_txHash lg) v"
      using asked_origin [OF oc] logs(1) lg unfolding claim_log_def by blast
    then show ?thesis using lg(4) by auto
  qed (intro onward_asks)+
qed (intro worlds.all_leaves onward_asks)+

text \<open>\<open>after_window\<close> is called once the last moment to send has passed.\<close>

lemma after_window_rests:
  assumes "asked go w (after_window go p) r v" "rests_on go p ab w v LoopWindowClosed"
  shows "rests_on go p ab w v r"
  using assms(1) [unfolded after_window_def]
proof (rule asked_bind)
  let ?look = "io_catch (io_bind (lock_status go p None) (\<lambda>st. io_return (Some st))) (\<lambda>_. io_return None)"
  fix seen assume seen: "asked go w ?look seen v"
    and rest: "asked go w (if seen = Some LOCK_REFUNDED then io_return (LoopLockNotOpen LOCK_REFUNDED)
      else if seen \<noteq> Some LOCK_CLAIMED then io_return LoopWindowClosed
      else io_catch (who_claimed go p) (\<lambda>_. io_return ClaimedUnverified)) r v"
  have status: "asked go w (lock_status go p None) st v" if "seen = Some st" for st
  proof -
    have "leaves (onward go) (io_bind (lock_status go p None) (\<lambda>st. io_return (Some st)))"
      by (intro worlds.all_leaves onward_asks)
    from asked_catch [OF seen this] that
    have "asked go w (io_bind (lock_status go p None) (\<lambda>st. io_return (Some st))) (Some st) v" by simp
    then show ?thesis by (rule asked_bind) (auto intro: worlds.all_leaves onward_asks)
  qed
  consider "seen = Some LOCK_REFUNDED" "r = LoopLockNotOpen LOCK_REFUNDED" | "r = LoopWindowClosed"
    | "seen = Some LOCK_CLAIMED" "asked go w (io_catch (who_claimed go p) (\<lambda>_. io_return ClaimedUnverified)) r v"
    using rest by (auto split: if_splits)
  then show ?thesis
  proof cases
    case 3
    from asked_catch [OF 3(2) who_asks] show ?thesis using who_claimed_rests status [OF 3(1)] by auto
  qed (use status assms(2) in auto)
qed (auto intro!: worlds.all_leaves onward_asks)

section \<open>The claim\<close>

definition claim_confirmed :: "'w gateway_options \<Rightarrow> prepared_fill \<Rightarrow> verified_attestation \<Rightarrow> 'w \<Rightarrow> tx_outcome option \<Rightarrow> 'w gateway \<Rightarrow> bool" where
  "claim_confirmed go p att w r h \<longleftrightarrow> (\<forall>x b. r = Some (Confirmed x b) \<longrightarrow> repaid go p w att x (world_of h))"

lemma gw_send_shown:
  assumes "\<And>f. pl_recheck plan = Some f \<Longrightarrow> leaves (onward go) f" "\<And>f. pl_simulate plan = Some f \<Longrightarrow> leaves (onward go) f"
  shows "wp (gw_send go plan) (\<lambda>r h. \<forall>x b. r = Some (Confirmed x b) \<longrightarrow> shown go (world_of g) x b (world_of h)) (\<lambda>_ _. True) g"
  unfolding gw_send_def
  by (rule wp_gw_tx, rule wp_mono [OF send_shown [OF assms]]) (auto simp: confirmed_shown_def world_of_def)

lemma wp_onward: "leaves (gateway_onward go) m \<Longrightarrow> (\<And>a h. onward go (world_of g) (world_of h) \<Longrightarrow> Q a h) \<Longrightarrow>
    (\<And>e h. onward go (world_of g) (world_of h) \<Longrightarrow> E e h) \<Longrightarrow> wp m Q E g"
  by (rule wp_mono [OF leaves_wp [of "gateway_onward go"]]) (auto simp: gateway_onward_def)

lemma repaidI:
  "map_of (go_origins go) (round_double (of_int (pf_originChainId p))) = Some oc \<Longrightarrow>
   asked go w (ca_static_claim (go_api go (oc_signer oc)) (oc_escrow oc) (va_orderId p) (vt_proof att)) payee u \<Longrightarrow> eq_addr payee (va_payee p) \<Longrightarrow>
   onward go w u \<Longrightarrow> onward go u v \<Longrightarrow> shown go u h b v \<Longrightarrow> repaid go p w att h v"
  unfolding repaid_def by (blast intro: asked_later shown_earlier)

lemma wp_claim: "wp (claim go p att) (claim_confirmed go p att (world_of g)) (\<lambda>_ _. True) g"
proof (cases "map_of (go_origins go) (round_double (of_int (pf_originChainId p)))")
  case None
  then show ?thesis by (simp add: claim_def origin_of_def)
next
  case (Some oc)
  let ?w = "world_of g" and ?plan = "claim_plan go p oc (vt_proof att)"
  let ?static = "ca_static_claim (go_api go (oc_signer oc)) (oc_escrow oc) (va_orderId p) (vt_proof att)"
  have plan: "leaves (onward go) f" if "pl_recheck ?plan = Some f \<or> pl_simulate ?plan = Some f" for f
    using that by (auto simp: claim_plan_def intro: onward_asks)
  have sent: "wp (gw_send go ?plan) (claim_confirmed go p att ?w) (\<lambda>_ _. True) h"
    if "asked go ?w ?static payee (world_of h)" "eq_addr payee (va_payee p)" "onward go ?w (world_of h)" for payee h
  proof -
    have "leaves (gateway_onward go) (gw_send go ?plan)" unfolding gw_send_def using plan by (auto intro!: runs_onward)
    from wp_conj [OF leaves_wp [OF this, of h] gw_send_shown [of ?plan go h]] plan
    have "wp (gw_send go ?plan) (\<lambda>r k. gateway_onward go h k \<and> (\<forall>x b. r = Some (Confirmed x b) \<longrightarrow> shown go (world_of h) x b (world_of k))) (\<lambda>_ _. True) h"
      by (auto elim: wp_mono)
    then show ?thesis
      by (rule wp_mono) (use that Some in \<open>auto simp: claim_confirmed_def gateway_onward_def intro: repaidI\<close>)
  qed
  show ?thesis unfolding claim_def origin_of_def Some option.case wp_simps
    apply (rule wp_onward [OF guard_onward], rule wp_gw_asked [where go = go], rule onward_asks, simp)
     apply (simp split: if_splits)
     apply (intro impI, rule wp_gw_asked [where go = go], rule onward_asks, simp)
     apply (rule wp_gw_asked [where go = go], rule onward_asks, simp)
     apply (simp split: if_splits)
     apply (intro impI, rule sent)
       apply (simp, rule asked_earlier [OF onward_trans3]; assumption)
      apply assumption
     apply (simp, rule worlds.trans [OF onward_trans3]; assumption)
    apply (rule TrueI)
    done
qed

section \<open>The loop\<close>

text \<open>An attestation the loop holds was fetched on its way.\<close>

definition holds_fetched :: "'w gateway_options \<Rightarrow> prepared_fill \<Rightarrow> 'w \<Rightarrow> claim_vars \<Rightarrow> 'w \<Rightarrow> bool" where
  "holds_fetched go p w cv v \<longleftrightarrow> onward go w v \<and> (\<forall>a. cv_verified cv = Some a \<longrightarrow> asked go w (fetch_attestation go p) (Some a) v)"

lemma fetched_later: "holds_fetched go p w cv v \<Longrightarrow> onward go v u \<Longrightarrow> holds_fetched go p w cv u"
  unfolding holds_fetched_def by (blast intro: asked_later worlds.trans)

definition step_rests :: "'w gateway_options \<Rightarrow> prepared_fill \<Rightarrow> ('w, bool) ask \<Rightarrow> 'w \<Rightarrow> (jsval + claim_step) \<times> claim_vars \<Rightarrow> 'w gateway \<Rightarrow> bool" where
  "step_rests go p ab w res h \<longleftrightarrow> holds_fetched go p w (snd res) (world_of h)
     \<and> (\<forall>r. fst res = Inr (LoopDone r) \<longrightarrow> rests_on go p ab w (world_of h) r)"

lemma wp_reread:
  assumes "holds_fetched go p w cv (world_of g)"
  shows "wp (reread_attestation go p (cv_verified cv)) (\<lambda>att h. holds_fetched go p w (cv\<lparr>cv_verified := att\<rparr>) (world_of h))
    (\<lambda>_ h. onward go w (world_of h)) g"
proof -
  have w: "onward go w (world_of g)" using assms by (simp add: holds_fetched_def)
  have kept: "onward go w v \<and> (\<forall>a. cv_verified cv = Some a \<longrightarrow> asked go w (fetch_attestation go p) (Some a) v)" if "onward go (world_of g) v" for v
    using fetched_later [OF assms that] by (simp add: holds_fetched_def)
  show ?thesis unfolding reread_attestation_def wp_simps
    by (rule wp_gw_asked [where go = go])
      (use kept asked_earlier [OF w] in \<open>auto simp: holds_fetched_def intro!: onward_asks split: if_split\<close>)
qed

lemma wp_attempt_loop:
  assumes cv: "holds_fetched go p w cv (world_of g)"
  shows "wp (claim_attempt go p poll cv) (step_rests go p ab w) (\<lambda>_ _. True) g"
proof -
  have failed: "step_rests go p ab w (Inl e, c) h" "step_rests go p ab w (Inr (LoopDelay d), c) h" "step_rests go p ab w (Inr LoopOutOfFuel, c) h"
    if "holds_fetched go p w c (world_of h)" for e c d h
    using that by (simp_all add: step_rests_def)
  have same: "holds_fetched go p w (c\<lparr>cv_backoff := b\<rparr>) v = holds_fetched go p w c v" for c b v
    by (simp add: holds_fetched_def)
  have claimed: "wp (claim go p a) (\<lambda>r h. holds_fetched go p w c (world_of h) \<and> (\<forall>x b. r = Some (Confirmed x b) \<longrightarrow> rests_on go p ab w (world_of h) (ClaimedBySolver x)))
      (\<lambda>_ h. holds_fetched go p w c (world_of h)) h"
    if c: "holds_fetched go p w c (world_of h)" "cv_verified c = Some a" for a c h
  proof (rule wp_mono [OF wp_conj [OF leaves_wp [OF claim_onward [of go]] wp_claim [of go p a h]]])
    fix r k assume k: "gateway_onward go h k \<and> claim_confirmed go p a (world_of h) r k"
    have "asked go w (fetch_attestation go p) (Some a) (world_of k)" "onward go w (world_of h)"
      using c k by (auto simp: holds_fetched_def gateway_onward_def intro: asked_later)
    moreover have "repaid go p w a x v" if "repaid go p (world_of h) a x v" "onward go w (world_of h)" for x v
      using that unfolding repaid_def by (blast intro: asked_earlier shown_earlier)
    ultimately show "holds_fetched go p w c (world_of k) \<and> (\<forall>x b. r = Some (Confirmed x b) \<longrightarrow> rests_on go p ab w (world_of k) (ClaimedBySolver x))"
      using k c fetched_later [OF c(1)] by (auto simp: claim_confirmed_def gateway_onward_def)
  qed (use fetched_later [OF c(1)] in \<open>auto simp: gateway_onward_def\<close>)
  have guarded: "wp (guard_in_doubt_claim go p) (\<lambda>_ h. holds_fetched go p w cv (world_of h)) (\<lambda>_ h. holds_fetched go p w cv (world_of h)) g"
    by (rule wp_onward [OF guard_onward]) (auto intro: fetched_later [OF cv])
  have reread: "wp (reread_attestation go p (cv_verified cv)) (\<lambda>att h. holds_fetched go p w (cv\<lparr>cv_verified := att\<rparr>) (world_of h))
      (\<lambda>_ h. holds_fetched go p w cv (world_of h)) h" if "holds_fetched go p w cv (world_of h)" for h
    by (rule wp_mono [OF wp_conj [OF wp_reread [OF that] leaves_wp [OF reread_onward [of go]]]])
      (auto simp: gateway_onward_def intro: fetched_later [OF that])
  show ?thesis unfolding claim_attempt_def wp_simps Let_def
    apply (rule wp_mono [OF guarded])
     apply (rule wp_mono [OF reread], assumption)
      apply (auto simp: failed same split: option.split intro!: wp_mono [OF claimed])
    apply (auto simp: failed same step_rests_def split: tx_outcome.split option.split)
    done
qed

lemma rests_later: "rests_on go p ab w v r \<Longrightarrow> onward go v u \<Longrightarrow> rests_on go p ab w u r"
  by (cases r) (auto simp: claim_log_def repaid_def intro: asked_later shown_later, (blast intro: asked_later shown_later)+)

lemma rests_earlier: "onward go u w \<Longrightarrow> rests_on go p ab w v r \<Longrightarrow> rests_on go p ab u v r"
  by (cases r) (auto simp: claim_log_def repaid_def intro: asked_earlier shown_earlier, (blast intro: asked_earlier shown_earlier)+)

text \<open>What the first reads of a pass leave it: a result, or the time.\<close>

definition looked :: "'w gateway_options \<Rightarrow> prepared_fill \<Rightarrow> ('w, bool) ask \<Rightarrow> nat \<Rightarrow> 'w \<Rightarrow> claim_vars
    \<Rightarrow> jsval + (claim_step option \<times> (int \<times> num) option) \<Rightarrow> 'w gateway \<Rightarrow> bool" where
  "looked go p ab i w cv seen h \<longleftrightarrow> holds_fetched go p w cv (world_of h)
     \<and> (\<forall>d x. seen = Inr (Some d, x) \<longrightarrow> (\<exists>r. d = LoopDone r \<and> rests_on go p ab w (world_of h) r))
     \<and> (\<forall>t x. seen = Inr (None, Some (t, x)) \<longrightarrow> asked go w (now_sec go [i] True) t (world_of h))"

lemma wp_look:
  assumes cv: "holds_fetched go p w cv (world_of g)"
  shows "wp (io_catch (io_bind (gw_ask (lock_status go p None)) (\<lambda>st.
       if st = LOCK_CLAIMED then io_bind (gw_ask (who_claimed go p)) (\<lambda>r. io_return (Inr (Some (LoopDone r), None)))
       else if st = LOCK_REFUNDED then io_return (Inr (Some (LoopDone (LoopLockNotOpen st)), None))
       else if st \<noteq> LOCK_OPEN then io_throw plain_error
       else io_bind (gw_ask (now_sec go [i] True)) (\<lambda>chain_now. io_bind (gw_ask (gw_now go)) (\<lambda>now.
         io_return (Inr (None, Some (chain_now, max 0 (number_of_big chain_now * 1000 - now)))))))) (\<lambda>e. io_return (Inl e)))
     (looked go p ab i w cv) (\<lambda>_ _. True) g"
proof -
  have w: "onward go w (world_of g)" using cv by (simp add: holds_fetched_def)
  have failed: "looked go p ab i w cv (Inl e) h" if "onward go (world_of g) (world_of h)" for e h
    using fetched_later [OF cv that] by (simp add: looked_def)
  have found: "looked go p ab i w cv (Inr (Some (LoopDone r), x)) h"
    if "onward go (world_of g) (world_of h)" "rests_on go p ab w (world_of h) r" for r x h
    using fetched_later [OF cv that(1)] that(2) by (simp add: looked_def)
  have time: "looked go p ab i w cv (Inr (None, Some (t, x))) h"
    if "onward go (world_of g) (world_of h)" "asked go w (now_sec go [i] True) t (world_of h)" for t x h
    using fetched_later [OF cv that(1)] that(2) by (simp add: looked_def)
  have who: "wp (gw_ask (who_claimed go p)) (\<lambda>r. looked go p ab i w cv (Inr (Some (LoopDone r), None))) (\<lambda>e. looked go p ab i w cv (Inl e)) (at_world v g)"
    if "onward go (world_of g) v" for v
    by (rule wp_gw_asked [where go = go])
      (use that worlds.trans [OF that] worlds.trans [OF w] in
        \<open>auto intro!: onward_asks failed found rests_earlier [OF worlds.trans [OF w that]] dest!: who_claimed_rests [where ab = ab]\<close>)
  have times: "wp (gw_ask (now_sec go [i] True)) (\<lambda>t. wp (gw_ask (gw_now go)) (\<lambda>now. looked go p ab i w cv
        (Inr (None, Some (t, max 0 (number_of_big t * 1000 - now))))) (\<lambda>e. looked go p ab i w cv (Inl e))) (\<lambda>e. looked go p ab i w cv (Inl e)) (at_world v g)"
    if v: "onward go (world_of g) v" for v
  proof (rule wp_gw_asked [where go = go])
    fix t u assume t: "asked go (world_of (at_world v g)) (now_sec go [i] True) t u" "onward go (world_of (at_world v g)) u"
    then have u: "onward go (world_of g) u" "asked go w (now_sec go [i] True) t u"
      using worlds.trans [OF v] asked_earlier [OF worlds.trans [OF w v]] by simp_all
    show "wp (gw_ask (gw_now go)) (\<lambda>now. looked go p ab i w cv (Inr (None, Some (t, max 0 (number_of_big t * 1000 - now)))))
        (\<lambda>e. looked go p ab i w cv (Inl e)) (at_world u (at_world v g))"
      by (rule wp_gw_asked [where go = go])
        (use worlds.trans [OF u(1)] u(2) in \<open>auto intro!: onward_asks failed time intro: asked_later\<close>)
  qed (use worlds.trans [OF v] in \<open>auto intro!: onward_asks failed\<close>)
  show ?thesis unfolding wp_simps
  proof (rule wp_gw_asked [where go = go], goal_cases asks fails goes)
    case (goes st v)
    have "rests_on go p ab w v (LoopLockNotOpen LOCK_REFUNDED)" if "st = LOCK_REFUNDED"
      using asked_earlier [OF w goes(1)] that by simp
    then show ?case using goes(2) who times failed found by (auto simp: wp_simps)
  qed (auto intro!: onward_asks failed)
qed

lemma after_window_onward:
  assumes "holds_fetched go p w cv (world_of h)" "rests_on go p ab w (world_of h) LoopWindowClosed"
  shows "wp (gw_ask (after_window go p)) (\<lambda>r k. holds_fetched go p w cv (world_of k) \<and> rests_on go p ab w (world_of k) r) (\<lambda>_ _. True) h"
proof (rule wp_gw_asked [where go = go])
  fix r v assume r: "asked go (world_of h) (after_window go p) r v" "onward go (world_of h) v"
  have w: "onward go w (world_of h)" using assms(1) by (simp add: holds_fetched_def)
  show "holds_fetched go p w cv (world_of (at_world v h)) \<and> rests_on go p ab w (world_of (at_world v h)) r"
    using after_window_rests [OF asked_earlier [OF w r(1)] rests_later [OF assms(2) r(2)]] fetched_later [OF assms(1) r(2)] by simp
qed (auto intro!: onward_asks)

lemma wp_try:
  assumes cv: "holds_fetched go p w cv (world_of g)"
  shows "wp (claim_try go p i poll cv) (step_rests go p ab w) (\<lambda>_ _. True) g"
proof -
  have same: "holds_fetched go p w (cv\<lparr>cv_aheadMs := m\<rparr>) v = holds_fetched go p w cv v" for m v
    by (simp add: holds_fetched_def)
  have closed: "wp (gw_ask (after_window go p)) (\<lambda>r k. holds_fetched go p w cv (world_of k) \<and> rests_on go p ab w (world_of k) r) (\<lambda>_ _. True) h"
    if h: "holds_fetched go p w cv (world_of h)" "asked go w (now_sec go [i] True) t (world_of h)" "last_send_sec go p \<le> t" for t h
    using after_window_onward [OF h(1), of ab] h(2,3) by auto
  show ?thesis unfolding claim_try_def Let_def
    apply (subst wp_simps(3), rule wp_mono [OF wp_look [OF cv, where ab = ab and i = i]])
    apply (auto simp: step_rests_def looked_def same split: sum.split option.split intro!: wp_attempt_loop closed)
    done
qed

lemma recovered:
  assumes "step_rests go p ab w res h" "claim_recover poll most res = (st, cv)"
  shows "holds_fetched go p w cv (world_of h) \<and> (\<forall>r. st = LoopDone r \<longrightarrow> rests_on go p ab w (world_of h) r)"
  using assms by (auto simp: claim_recover_def step_rests_def holds_fetched_def split: prod.splits sum.splits if_splits)

lemma wp_loop:
  assumes ab: "leaves (onward go) ab" and "holds_fetched go p w cv (world_of g)"
  shows "wp (run_claim_loop n go p co ab i cv) (\<lambda>r h. \<forall>x. r = Some x \<longrightarrow> rests_on go p ab w (world_of h) x) (\<lambda>_ _. True) g"
  using assms(2)
proof (induction n arbitrary: cv g)
  case (Suc n)
  let ?Q = "\<lambda>r h. \<forall>x. r = Some x \<longrightarrow> rests_on go p ab w (world_of h) x"
  let ?poll = "or_else (co_pollMs co) 15000" and ?most = "or_else (co_maxBackoffMs co) 120000"
  have again: "wp (gw_ask (gw_now go)) (\<lambda>now2. wp (gw_ask (io_update (go_pause go (f now2)))) (\<lambda>_. wp (run_claim_loop n go p co ab i cv1) ?Q (\<lambda>_ _. True)) (\<lambda>_ _. True)) (\<lambda>_ _. True) h"
    if "holds_fetched go p w cv1 (world_of h)" for cv1 f h
    using Suc.IH fetched_later [OF that] worlds.trans
    by (intro wp_gw_asked [where go = go] onward_asks) (auto intro!: Suc.IH elim: fetched_later [OF fetched_later [OF that]])
  have tried: "wp (claim_try go p i ?poll cv) (\<lambda>res. wp (case claim_recover ?poll ?most res of
           (LoopDone r, _) \<Rightarrow> io_return (Some r)
         | (LoopOutOfFuel, _) \<Rightarrow> io_return None
         | (LoopDelay delay, cv1) \<Rightarrow> io_bind (gw_ask (gw_now go)) (\<lambda>now2.
             io_bind (gw_ask (io_update (go_pause go (capped_delay delay
               (number_of_big (last_send_sec go p) * 1000 - (now2 + cv_aheadMs cv1)))))) (\<lambda>_.
               run_claim_loop n go p co ab i cv1))) ?Q (\<lambda>_ _. True)) (\<lambda>_ _. True) h"
    if "holds_fetched go p w cv (world_of h)" for h
    by (rule wp_mono [OF wp_try [OF that, where ab = ab]]) (auto dest!: recovered intro!: again split: prod.split claim_step.split)
  have closed: "wp (gw_ask (after_window go p)) (\<lambda>r h. rests_on go p ab w (world_of h) r) (\<lambda>_ _. True) h"
    if "holds_fetched go p w cv (world_of h)" "asked go w (gw_now go) t (world_of h)" "last_send_sec go p \<le> \<lfloor>t / 1000\<rfloor>" for t h
  proof -
    have "rests_on go p ab w (world_of h) LoopWindowClosed" using that(2,3) by auto
    from after_window_onward [OF that(1) this] show ?thesis by (rule wp_mono) simp_all
  qed
  show ?case unfolding run_claim_loop.simps Let_def wp_simps
  proof (rule wp_gw_asked [where go = go], rule ab, goal_cases fails goes)
    case (goes stop v)
    have v: "holds_fetched go p w cv v" using fetched_later [OF Suc.prems goes(2)] .
    have w: "onward go w (world_of g)" "onward go w v" using Suc.prems v by (simp_all add: holds_fetched_def)
    have clock: "wp (gw_ask (gw_now go)) (\<lambda>now. wp (if last_send_sec go p \<le> \<lfloor>now / 1000\<rfloor>
       then io_bind (gw_ask (after_window go p)) (\<lambda>r. io_return (Some r))
       else io_bind (claim_try go p i ?poll cv) (\<lambda>res. case claim_recover ?poll ?most res of
           (LoopDone r, _) \<Rightarrow> io_return (Some r)
         | (LoopDelay delay, cv1) \<Rightarrow> io_bind (gw_ask (gw_now go)) (\<lambda>now2.
             io_bind (gw_ask (io_update (go_pause go (capped_delay delay
               (number_of_big (last_send_sec go p) * 1000 - (now2 + cv_aheadMs cv1)))))) (\<lambda>_.
               run_claim_loop n go p co ab i cv1))
         | (LoopOutOfFuel, _) \<Rightarrow> io_return None)) ?Q (\<lambda>_ _. True)) (\<lambda>_ _. True) (at_world v g)"
      by (rule wp_gw_asked [where go = go])
        (use v fetched_later [OF v] asked_earlier [OF w(2)] in \<open>auto intro!: onward_asks closed tried\<close>)
    show ?case using clock asked_earlier [OF w(1) goes(1)] by (cases stop) simp_all
  qed simp
qed simp

text \<open>
  C11. What the claim loop reports is so. A claim it reports as its own was simulated to pay the award's
  payee, under an attestation that was checked, and its receipt was shown; or the escrow's log names that
  payee. A foreign claim is one the log shows. A refund, an unverified claim and a missed window
  rest on the lock's state or the clock that was read, and an abort on the caller's signal.
\<close>

theorem claim_report_is_so:
  assumes "claim_until_refundable n go p co ab g = (Inr (Some r), h)" and "leaves (onward go) ab"
  shows "rests_on go p ab (world_of g) (world_of h) r"
proof -
  have "holds_fetched go p (world_of g) \<lparr>cv_backoff = b, cv_aheadMs = 0, cv_verified = None\<rparr> (world_of g)" for b
    by (simp add: holds_fetched_def worlds.refl)
  then have "wp (claim_until_refundable n go p co ab) (\<lambda>r h. \<forall>x. r = Some x \<longrightarrow> rests_on go p ab (world_of g) (world_of h) x) (\<lambda>_ _. True) g"
    unfolding claim_until_refundable_def origin_of_def using wp_loop [OF assms(2)] by (auto split: option.split)
  then show ?thesis using wp_run assms(1) by fastforce
qed

end
