(* ===== verification/GatewayPrepare.thy ===== *)
theory GatewayPrepare
  imports GatewayTime GatewayRace
begin

text \<open>
  What \<open>prepare\<close> returns: a fill of the verified award over a lock that matches its terms, and that the
  origin chain showed open at or below its safe head.
\<close>

section \<open>Prepared fills\<close>

definition lock_backs :: "opened_lock \<Rightarrow> order_terms \<Rightarrow> bool" where
  "lock_backs l t \<longleftrightarrow> eq_addr (ol_token l) (ot_fromToken t) \<and> big_uint (ot_fromAmount t) = Inr (ol_amount l)
     \<and> eq_addr (ol_depositor l) (ot_depositor t) \<and> big_uint (ot_toChainId t) = Inr (ol_toChainId l)
     \<and> (\<exists>n. big_uint (ot_fillDeadline t) = Inr n \<and> n \<le> ol_refundableAt l)"

lemma check_lock_ok: "check_lock_matches_terms l t = Inr u \<longleftrightarrow> lock_backs l t"
  by (auto simp: check_lock_matches_terms_def lock_backs_def Let_def not_less)

lemma prepared_simps [simp]:
  "verified_award.truncate (prepared v a origin dest l signer bond bid) = v" "va_orderId (prepared v a origin dest l signer bond bid) = va_orderId v"
  "va_fillId (prepared v a origin dest l signer bond bid) = va_fillId v" "va_terms (prepared v a origin dest l signer bond bid) = va_terms v"
  "va_fillAuth (prepared v a origin dest l signer bond bid) = va_fillAuth v" "va_signature (prepared v a origin dest l signer bond bid) = va_signature v"
  "va_domainChainId (prepared v a origin dest l signer bond bid) = va_domainChainId v"
  "va_fillerContract (prepared v a origin dest l signer bond bid) = va_fillerContract v"
  "pf_auctionId (prepared v a origin dest l signer bond bid) = aw_auctionId a" "pf_lock (prepared v a origin dest l signer bond bid) = l"
  "pf_originChainId (prepared v a origin dest l signer bond bid) = origin"
  "pf_destinationChainId (prepared v a origin dest l signer bond bid) = dest" "pf_fillAuthSigner (prepared v a origin dest l signer bond bid) = signer"
  "pf_bidOutput (prepared v a origin dest l signer bond bid) = bid"
  by (simp_all add: prepared_def verified_award.defs)

lemma recover_prepared [simp]:
  "recover_fill_auth_signer et (prepared v a origin dest l signer bond bid) = recover_fill_auth_signer et v"
  by (simp add: recover_fill_auth_signer_def filler_domain_def)

section \<open>A well-formed fill\<close>

text \<open>
  What an award is held against: the solver's own address on the destination chain, the configured escrow and
  filler contract, the chains of the fill, the order terms (the envelope's, or those of the lock with the claim
  window the escrow answered), the announcement and the bid that prepare was given.
\<close>

definition held_against :: "'w gateway_options \<Rightarrow> fillable \<Rightarrow> prepare_options \<Rightarrow> origin_config \<Rightarrow> dest_config \<Rightarrow> prepared_fill \<Rightarrow> 'w \<Rightarrow> 'w \<Rightarrow> expectations \<Rightarrow> bool" where
  "held_against go env po oc dc p w v x \<longleftrightarrow> (\<exists>solver t. asked go w (address_of go (dc_signer dc)) solver v
     \<and> (case fe_orderTerms env of Some ot \<Rightarrow> t = envelope_terms ot
        | None \<Rightarrow> \<exists>n. asked go w (ca_claim_window (go_api go (oc_signer oc)) (oc_escrow oc)) n v
            \<and> origin_terms_from_lock (pf_lock p) (VBig (pf_originChainId p)) (oc_escrow oc) (VBig n) = Inr t)
     \<and> x = \<lparr>xp_solver = solver, xp_originChainId = VBig (pf_originChainId p), xp_escrow = oc_escrow oc,
         xp_destinationChainId = VBig (pf_destinationChainId p), xp_fillerContract = dc_fillerContract dc, xp_originTerms = t,
         xp_announcement = po_announcement po, xp_bidOutput = VStr (po_bidOutput po)\<rparr>)"

text \<open>The fill is of the award and the bid, on configured chains, with the bond the configured contract binds.\<close>

definition fill_of_bid :: "'w gateway_options \<Rightarrow> award \<Rightarrow> fillable \<Rightarrow> prepare_options \<Rightarrow> prepared_fill \<Rightarrow> 'w \<Rightarrow> 'w \<Rightarrow> bool" where
  "fill_of_bid go a env po p w v \<longleftrightarrow> pf_auctionId p = aw_auctionId a \<and> po_bidAuctionId po = aw_auctionId a
     \<and> to_lower (po_bidOrderId po) = to_lower (fe_orderRef env)
     \<and> resolve_origin go env po = Inr (pf_originChainId p) \<and> big_int (fe_authChainId env) = Some (pf_destinationChainId p)
     \<and> (\<exists>b n. go_bond go = Some b \<and> asked go w (nd_chain_id (ca_node (go_api go (bc_signer b)))) n v
         \<and> check_award_bond a (VBig (int n)) (bc_address b) = Inr (pf_bondDomain p))
     \<and> big_int (po_bidOutput po) = Some (pf_bidOutput p)
     \<and> (\<exists>n. big_uint (fa_amount (va_fillAuth p)) = Inr n \<and> n \<le> pf_bidOutput p)"

definition well_formed :: "'w gateway_options \<Rightarrow> award \<Rightarrow> prepare_options \<Rightarrow> prepared_fill \<Rightarrow> 'w \<Rightarrow> 'w \<Rightarrow> bool" where
  "well_formed go a po p w v \<longleftrightarrow> (\<exists>env oc dc x. require_fillable_escrow a = Inr env
     \<and> map_of (go_origins go) (round_double (of_int (pf_originChainId p))) = Some oc
     \<and> map_of (go_destinations go) (round_double (of_int (pf_destinationChainId p))) = Some dc
     \<and> held_against go env po oc dc p w v x \<and> verify_award (go_ethers go) a x = Inr (verified_award.truncate p)
     \<and> fill_of_bid go a env po p w v \<and> own_id p \<and> to_lower (va_orderId p) = va_orderId p
     \<and> va_domainChainId p = pf_destinationChainId p \<and> lock_backs (pf_lock p) (va_terms p)
     \<and> recover_fill_auth_signer (go_ethers go) p = Inr (pf_fillAuthSigner p)
     \<and> asked go w (ca_is_authorizer (go_api go (dc_signer dc)) (dc_fillerContract dc) (pf_fillAuthSigner p)) True v)"

section \<open>A final lock\<close>

definition shows_lock :: "lock_state \<Rightarrow> opened_lock \<Rightarrow> bool" where
  "shows_lock k l \<longleftrightarrow> lk_status k = LOCK_OPEN \<and> eq_addr (lk_depositor k) (ol_depositor l) \<and> eq_addr (lk_token k) (ol_token l)
     \<and> lk_amount k = ol_amount l \<and> lk_toChainId k = ol_toChainId l \<and> lk_refundableAt k = ol_refundableAt l
     \<and> lk_verifier k = ol_verifier l"

text \<open>
  The origin chain named a safe (or finalized) block at or above the lock's, has the lock's block in its
  chain, and shows the lock open as of the safe one.
\<close>

definition lock_final :: "'w gateway_options \<Rightarrow> origin_config \<Rightarrow> opened_lock \<Rightarrow> 'w \<Rightarrow> 'w \<Rightarrow> bool" where
  "lock_final go oc l w v \<longleftrightarrow> (\<exists>n k. (asked go w (ca_tagged (go_api go (oc_signer oc)) ''safe'') (Some n) v
        \<or> asked go w (ca_tagged (go_api go (oc_signer oc)) ''finalized'') (Some n) v)
     \<and> ol_blockNumber l \<le> n \<and> asked go w (ca_block_hash (go_api go (oc_signer oc)) (ol_blockNumber l)) (Some (ol_blockHash l)) v
     \<and> asked go w (ca_lock (go_api go (oc_signer oc)) (oc_escrow oc) (ol_orderId l) (Some n)) k v \<and> shows_lock k l)"

lemma lock_final_later: "lock_final go oc l w v \<Longrightarrow> onward go v u \<Longrightarrow> lock_final go oc l w u"
  unfolding lock_final_def by (blast intro: asked_later)

lemma lock_final_earlier: "onward go u w \<Longrightarrow> lock_final go oc l w v \<Longrightarrow> lock_final go oc l u v"
  unfolding lock_final_def by (blast intro: asked_earlier)

lemma safe_head_tagged:
  assumes "asked go w (safe_head (go_api go i)) (Some n) v"
  shows "asked go w (ca_tagged (go_api go i) ''safe'') (Some n) v \<or> asked go w (ca_tagged (go_api go i) ''finalized'') (Some n) v"
  using assms [unfolded safe_head_def]
proof (rule asked_bind)
  fix tagged
  assume t: "asked go w (io_catch (ca_tagged (go_api go i) ''safe'') (\<lambda>_. io_return None)) tagged v"
    "asked go w (case tagged of None \<Rightarrow> ca_tagged (go_api go i) ''finalized'' | Some n \<Rightarrow> io_return (Some n)) (Some n) v"
  show ?thesis using t(2) asked_catch [OF t(1) field_asks(15)] by (cases tagged) auto
qed (auto intro!: worlds.all_leaves onward_asks split: option.split)

lemma final_lock_shown:
  assumes "asked go w (read_final_lock (go_api go i) e lg n) (Some l) v"
  shows "(\<exists>k. asked go w (ca_lock (go_api go i) e (ol_orderId l) (Some n)) k v \<and> shows_lock k l)
    \<and> ol_blockNumber l = lg_blockNumber lg \<and> ol_blockHash l = lg_blockHash lg"
proof (cases "lg_parsed lg")
  case (Some a)
  from assms [unfolded read_final_lock_def Some option.case] show ?thesis
  proof (rule asked_bind)
    fix k
    assume k: "asked go w (ca_lock (go_api go i) e (to_lower (oa_orderId a)) (Some n)) k v"
      and rest: "asked go w (if lk_status k = LOCK_NONE then io_return None
        else if lk_status k \<noteq> LOCK_OPEN then gw_reject LockNotOpen
        else if eq_addr (lk_depositor k) (oa_depositor a) \<and> eq_addr (lk_token k) (oa_token a) \<and> lk_amount k = oa_amount a
          \<and> lk_toChainId k = oa_toChainId a \<and> lk_refundableAt k = oa_refundableAt a
        then io_return (Some \<lparr>ol_orderId = to_lower (oa_orderId a), ol_depositor = oa_depositor a, ol_token = oa_token a,
          ol_amount = oa_amount a, ol_toChainId = oa_toChainId a, ol_refundableAt = oa_refundableAt a, ol_verifier = lk_verifier k,
          ol_blockNumber = lg_blockNumber lg, ol_blockHash = lg_blockHash lg\<rparr>)
        else gw_reject OpenedMismatch) (Some l) v"
    show ?thesis using k rest by (auto simp: shows_lock_def split: if_splits)
  qed (auto intro!: worlds.all_leaves onward_asks)
qed (use assms in \<open>simp add: read_final_lock_def\<close>)

lemma look_final:
  assumes "asked go w (look_for_lock (go_api go (oc_signer oc)) (oc_escrow oc) order from1 per) (Some l) v"
  shows "lock_final go oc l w v"
  using assms [unfolded look_for_lock_def]
proof (rule asked_bind, goal_cases asks rest step)
  case (step head)
  from step(2) show ?case
  proof (rule asked_bind, goal_cases asks rest step)
    case (step logs)
    then obtain lg where "filter (\<lambda>l. \<not> lg_removed l) logs = [lg]" by (auto split: list.splits)
    from step(2) [unfolded this list.case] show ?case
    proof (rule asked_bind, goal_cases asks rest step)
      case (step safe)
      then obtain n where n: "safe = Some n" "\<not> n < lg_blockNumber lg" by (auto split: option.splits if_splits)
      from step(2) n have rest: "asked go w (io_bind (ca_block_hash (go_api go (oc_signer oc)) (lg_blockNumber lg)) (\<lambda>h.
        if h \<noteq> Some (lg_blockHash lg) then io_return None else read_final_lock (go_api go (oc_signer oc)) (oc_escrow oc) lg n)) (Some l) v" by simp
      from rest show ?case
      proof (rule asked_bind, goal_cases asks rest step)
        case (step h)
        then have h: "h = Some (lg_blockHash lg)" and lock: "asked go w (read_final_lock (go_api go (oc_signer oc)) (oc_escrow oc) lg n) (Some l) v"
          by (auto split: if_splits)
        show ?case using final_lock_shown [OF lock] safe_head_tagged [of go w "oc_signer oc" n v] \<open>asked go w (safe_head _) safe v\<close> n step(1) h
          unfolding lock_final_def by (metis not_less)
      qed (auto intro!: worlds.all_leaves onward_asks)
    qed (auto intro!: worlds.all_leaves onward_asks split: option.split)
  qed (auto intro!: worlds.all_leaves onward_asks split: option.split list.split)
qed (auto intro!: worlds.all_leaves onward_asks split: option.split list.split)

lemma await_final:
  assumes "asked go w (await_lock n go (go_api go (oc_signer oc)) (oc_escrow oc) order from1 per d ab) (Some l) v" and "leaves (onward go) ab"
  shows "lock_final go oc l w v"
  using assms(1)
proof (induction n)
  case (Suc n)
  from Suc.prems [unfolded await_lock.simps] show ?case
  proof (rule asked_bind, goal_cases asks rest step)
    case (step stop)
    then have "asked go w (io_bind (look_for_lock (go_api go (oc_signer oc)) (oc_escrow oc) order from1 per) (\<lambda>found. case found of
       Some l \<Rightarrow> io_return (Some l)
     | None \<Rightarrow> io_bind (gw_now go) (\<lambda>now. if now \<ge> d then gw_reject NotFinal
         else io_bind (io_update (go_pause go (or_else (go_finalityPollMs go) 4000))) (\<lambda>_.
           await_lock n go (go_api go (oc_signer oc)) (oc_escrow oc) order from1 per d ab)))) (Some l) v" by (cases stop) simp_all
    then show ?case
    proof (rule asked_bind, goal_cases asks rest step)
      case (step found)
      show ?case
      proof (cases found)
        case (Some x)
        then show ?thesis using step look_final by simp
      next
        case None
        with step(2) have "asked go w (io_bind (gw_now go) (\<lambda>now. if now \<ge> d then gw_reject NotFinal
         else io_bind (io_update (go_pause go (or_else (go_finalityPollMs go) 4000))) (\<lambda>_.
           await_lock n go (go_api go (oc_signer oc)) (oc_escrow oc) order from1 per d ab))) (Some l) v" by simp
        then show ?thesis
        proof (rule asked_bind, goal_cases asks rest step)
          case (step now)
          then have "asked go w (io_bind (io_update (go_pause go (or_else (go_finalityPollMs go) 4000))) (\<lambda>_.
           await_lock n go (go_api go (oc_signer oc)) (oc_escrow oc) order from1 per d ab)) (Some l) v" by (simp split: if_splits)
          then show ?case by (rule asked_bind) (auto intro!: Suc.IH onward_asks assms(2))
        qed (auto intro!: worlds.all_leaves onward_asks assms(2))
      qed
    qed (auto intro!: worlds.all_leaves onward_asks assms(2) split: option.split)
  qed (auto intro!: worlds.all_leaves onward_asks assms(2) split: option.split)
qed simp

section \<open>What prepare returns\<close>

lemma resolve_terms_asks [onward_asks]: "leaves (onward go) (resolve_terms go env oc origin l)" "leaves (onward go) (trusted_bond go)"
  unfolding resolve_terms_def trusted_bond_def by (auto intro!: worlds.all_leaves onward_asks split: option.split)

lemma lock_awaited:
  fixes go :: "'w gateway_options"
  assumes "asked go w (await_opened_final n go order origin from1 timeout ab) (Some l) v" "leaves (onward go) ab"
    and "map_of (go_origins go) (round_double (of_int origin)) = Some oc"
  shows "lock_final go oc l w v"
proof -
  have skip: "io_bind (io_return x) f = f x" for x :: origin_config and f :: "origin_config \<Rightarrow> ('w, opened_lock option) ask"
    by (rule ext) (simp add: io_bind_def io_return_def)
  from assms(1,3) have "asked go w (io_bind (gw_now go) (\<lambda>now. io_bind (nd_block_number (ca_node (go_api go (oc_signer oc)))) (\<lambda>head0.
       await_lock n go (go_api go (oc_signer oc)) (oc_escrow oc) order (or_else from1 (head0 - or_else (oc_lookbackBlocks oc) 20000))
         (or_else (oc_maxLogRange oc) 2000) (now + or_else timeout (45 * 60000)) ab))) (Some l) v"
    by (simp add: await_opened_final_def origin_of_def skip Let_def)
  then show ?thesis
  proof (rule asked_bind, goal_cases asks rest step)
    case (step now)
    from step(2) show ?case by (rule asked_bind) (auto intro!: onward_asks assms(2) dest: await_final [OF _ assms(2)])
  qed (auto intro!: worlds.all_leaves onward_asks assms(2))
qed

text \<open>The last steps, once the lock is found.\<close>

definition finishing :: "'w gateway_options \<Rightarrow> award \<Rightarrow> fillable \<Rightarrow> prepare_options \<Rightarrow> origin_config \<Rightarrow> dest_config \<Rightarrow> int \<Rightarrow> int \<Rightarrow> contract_domain \<Rightarrow> string
    \<Rightarrow> opened_lock \<Rightarrow> ('w, prepared_fill option) ask" where
  "finishing go a env po oc dc origin dest bond solver l = io_bind (resolve_terms go env oc origin l) (\<lambda>t.
     io_bind (gw_check (verify_award (go_ethers go) a (expect po oc dc origin dest solver t))) (\<lambda>x.
     io_bind (gw_check (check_lock_matches_terms l (va_terms x))) (\<lambda>_.
     io_bind (gw_check (recover_fill_auth_signer (go_ethers go) x)) (\<lambda>signer.
     io_bind (ca_is_authorizer (go_api go (dc_signer dc)) (dc_fillerContract dc) signer) (\<lambda>ok.
     if \<not> ok then gw_reject FillAuthMismatch
     else io_bind (gw_check (big_or_throw (po_bidOutput po))) (\<lambda>bid. io_return (Some (prepared x a origin dest l signer bond bid))))))))"

lemma resolved_terms:
  assumes "asked go w (resolve_terms go env oc origin l) t v"
  shows "case fe_orderTerms env of Some ot \<Rightarrow> t = envelope_terms ot
    | None \<Rightarrow> \<exists>n. asked go w (ca_claim_window (go_api go (oc_signer oc)) (oc_escrow oc)) n v
        \<and> origin_terms_from_lock l (VBig origin) (oc_escrow oc) (VBig n) = Inr t"
proof (cases "fe_orderTerms env")
  case None
  with assms have "asked go w (io_bind (ca_claim_window (go_api go (oc_signer oc)) (oc_escrow oc)) (\<lambda>w.
       gw_check (origin_terms_from_lock l (VBig origin) (oc_escrow oc) (VBig w)))) t v" by (simp add: resolve_terms_def)
  then show ?thesis by (rule asked_bind) (auto simp: None intro!: onward_asks)
qed (use assms in \<open>simp add: resolve_terms_def\<close>)

lemma finished:
  assumes "asked go w (finishing go a env po oc dc origin dest bond solver l) (Some p) v"
  shows "\<exists>t x signer bid. asked go w (resolve_terms go env oc origin l) t v
    \<and> verify_award (go_ethers go) a (expect po oc dc origin dest solver t) = Inr x \<and> lock_backs l (va_terms x)
    \<and> recover_fill_auth_signer (go_ethers go) x = Inr signer
    \<and> asked go w (ca_is_authorizer (go_api go (dc_signer dc)) (dc_fillerContract dc) signer) True v
    \<and> big_int (po_bidOutput po) = Some bid \<and> p = prepared x a origin dest l signer bond bid"
  using assms unfolding finishing_def
  apply (elim asked_bind)
  apply (auto simp: check_lock_ok intro!: worlds.all_leaves onward_asks split: if_splits)
  apply (erule asked_bind)
  apply (auto simp: big_or_throw_def intro!: worlds.all_leaves onward_asks split: option.splits)
  done

lemma trusted_asked:
  assumes "asked go w (trusted_bond go) r v"
  shows "\<exists>b n. go_bond go = Some b \<and> asked go w (nd_chain_id (ca_node (go_api go (bc_signer b)))) n v \<and> r = (int n, bc_address b)"
proof (cases "go_bond go")
  case (Some b)
  with assms have "asked go w (io_bind (nd_chain_id (ca_node (go_api go (bc_signer b)))) (\<lambda>n. io_return (int n, bc_address b))) r v"
    by (simp add: trusted_bond_def)
  then show ?thesis by (rule asked_bind) (auto simp: Some intro!: worlds.all_leaves onward_asks)
qed (use assms in \<open>simp add: trusted_bond_def\<close>)

lemma finishing_asks [onward_asks]: "leaves (onward go) (finishing go a env po oc dc origin dest bond solver l)"
  unfolding finishing_def by (auto intro!: worlds.all_leaves onward_asks)

lemma prepared_asked: "prepare fuel go a po ab w = (Inr r, v) \<Longrightarrow> asked go w (prepare fuel go a po ab) r v"
  by (rule askedI [OF worlds.refl _ worlds.refl])

lemma prepared_steps:
  assumes "asked go w (prepare fuel go a po ab) (Some p) v" "leaves (onward go) ab"
  shows "\<exists>env bond_chain bond_address bond origin oc dest dc solver t l. require_fillable_escrow a = Inr env
    \<and> po_bidAuctionId po = aw_auctionId a \<and> to_lower (po_bidOrderId po) = to_lower (fe_orderRef env)
    \<and> asked go w (trusted_bond go) (bond_chain, bond_address) v \<and> check_award_bond a (VBig bond_chain) bond_address = Inr bond
    \<and> resolve_origin go env po = Inr origin \<and> map_of (go_origins go) (round_double (of_int origin)) = Some oc
    \<and> big_int (fe_authChainId env) = Some dest \<and> map_of (go_destinations go) (round_double (of_int dest)) = Some dc
    \<and> asked go w (address_of go (dc_signer dc)) solver v
    \<and> asked go w (await_opened_final fuel go (fe_orderRef env) origin (po_fromBlock po) t ab) (Some l) v
    \<and> asked go w (finishing go a env po oc dc origin dest bond solver l) (Some p) v"
  using assms(1) unfolding prepare_def Let_def finishing_def [symmetric]
  apply (elim asked_bind)
  apply (auto intro!: worlds.all_leaves onward_asks assms(2) split: option.split prod.split)[2]
  apply (simp split: if_splits)
  apply (elim asked_bind conjE)
  apply (auto intro!: worlds.all_leaves onward_asks assms(2) split: option.split prod.split)[2]
  apply (simp split: if_splits prod.splits)
  apply (elim asked_bind conjE)
  apply (auto intro!: worlds.all_leaves onward_asks assms(2) split: option.split prod.split)[2]
  apply (auto intro!: worlds.all_leaves onward_asks assms(2) split: option.split)[18]
  apply (simp add: big_or_throw_def split: option.splits)
  apply (drule asked_origin, drule asked_destination, blast)+
  done

lemma well_formedI:
  assumes "require_fillable_escrow a = Inr env" "po_bidAuctionId po = aw_auctionId a" "to_lower (po_bidOrderId po) = to_lower (fe_orderRef env)"
    and "asked go w (trusted_bond go) (bond_chain, bond_address) v" "check_award_bond a (VBig bond_chain) bond_address = Inr bond"
    and "resolve_origin go env po = Inr origin" "map_of (go_origins go) (round_double (of_int origin)) = Some oc"
    and "big_int (fe_authChainId env) = Some dest" "map_of (go_destinations go) (round_double (of_int dest)) = Some dc"
    and "asked go w (address_of go (dc_signer dc)) solver v" "asked go w (finishing go a env po oc dc origin dest bond solver l) (Some p) v"
  shows "well_formed go a po p w v"
proof -
  from finished [OF assms(11)] obtain t x signer bid where t: "asked go w (resolve_terms go env oc origin l) t v"
    and x: "verify_award (go_ethers go) a (expect po oc dc origin dest solver t) = Inr x" "lock_backs l (va_terms x)"
      "recover_fill_auth_signer (go_ethers go) x = Inr signer"
    and ok: "asked go w (ca_is_authorizer (go_api go (dc_signer dc)) (dc_fillerContract dc) signer) True v"
    and bid: "big_int (po_bidOutput po) = Some bid" and p: "p = prepared x a origin dest l signer bond bid"
    by blast
  from x(1) obtain e terms oid chain acceptBy where conf: "fill_conforms (go_ethers go) a (expect po oc dc origin dest solver t) e terms oid"
      "big_int (fe_authChainId e) = Some chain"
    and v: "va_orderId x = oid" "va_fillId x = to_lower (fa_fillId (fe_auth e))" "va_fillAuth x = fe_auth e" "va_domainChainId x = chain"
    by (auto simp: verify_award_ok)
  then have e: "e = env" using assms(1) by (simp add: fill_conforms_def)
  from conf(1) have checked: "check_fill_auth e (expect po oc dc origin dest solver t) a oid = Inr ()"
      "recompute_order (go_ethers go) e (expect po oc dc origin dest solver t) = Inr (terms, oid)"
    by (simp_all add: fill_conforms_def)
  have lower: "to_lower oid = oid" using checked(2) by (auto simp: recompute_order_ok)
  have "xp_bidOutput (expect po oc dc origin dest solver t) = VStr (po_bidOutput po)" by (simp add: expect_def)
  then obtain amount where amount: "big_int (fe_amount e) = Some amount" "amount \<le> bid"
    using checked(1) assms(1,8) bid e by (auto simp: check_fill_auth_ok big_uint_def)
  obtain b n where bond: "go_bond go = Some b" "asked go w (nd_chain_id (ca_node (go_api go (bc_signer b)))) n v"
      "bond_chain = int n" "bond_address = bc_address b"
    using trusted_asked [OF assms(4)] by auto
  have pb: "pf_bondDomain p = bond" by (simp add: p prepared_def verified_award.defs)
  have against: "held_against go env po oc dc p w v (expect po oc dc origin dest solver t)"
    unfolding held_against_def p prepared_simps using assms(10) resolved_terms [OF t]
    by (intro exI [of _ solver] exI [of _ t]) (simp add: expect_def)
  have bid_fill: "fill_of_bid go a env po p w v"
    unfolding fill_of_bid_def using assms(2,3,5,6,8) bond bid amount v e envelope_amount [OF assms(1)] pb
    by (auto simp: p big_uint_def)
  show ?thesis unfolding well_formed_def
    using assms(1,7,8,9) against bid_fill x ok v conf(2) e lower
    by (intro exI [of _ env] exI [of _ oc] exI [of _ dc] exI [of _ "expect po oc dc origin dest solver t"])
      (auto simp: p own_id_def)
qed

text \<open>
  C12. A prepared fill is well formed. The fill that prepare returns is of the award and of the bid it was given, on
  chains it is configured for, with the configured bond contract's domain; its award passed verify_award against
  the solver's own address, the configured escrow and filler contract, the order terms (the envelope's or the
  lock's), the announcement and the bid's output; its amount is no larger than that output, its lock's token,
  amount, depositor, destination chain and refund time match the terms, and the signer its signature recovers to
  is one the filler contract was asked about and authorizes. The caller's abort check may do what any of the
  gateway's reads does to the world, no more.
\<close>

theorem prepared_fill_is_well_formed:
  assumes "prepare fuel go a po ab w = (Inr (Some p), v)" "leaves (onward go) ab"
  shows "well_formed go a po p w v"
  using prepared_steps [OF prepared_asked [OF assms(1)] assms(2)] by (blast intro: well_formedI)

text \<open>
  C13. A prepared lock is final. Whenever prepare returns a fill, the origin chain was asked and named a safe
  or finalized block no older than the lock's, answered the lock's block hash for its height, and showed
  the escrow's lock as of the safe block: open, with the fields the Opened log has.
\<close>

theorem prepared_lock_is_final:
  assumes "prepare fuel go a po ab w = (Inr (Some p), v)" "leaves (onward go) ab"
  shows "\<exists>oc. map_of (go_origins go) (round_double (of_int (pf_originChainId p))) = Some oc \<and> lock_final go oc (pf_lock p) w v"
proof -
  from prepared_steps [OF prepared_asked [OF assms(1)] assms(2)] obtain env origin oc bond dest dc solver n t l
    where steps: "map_of (go_origins go) (round_double (of_int origin)) = Some oc"
      "asked go w (await_opened_final fuel go (fe_orderRef env) origin (po_fromBlock po) t ab) (Some l) v"
      "asked go w (finishing go a env po oc dc origin dest bond solver l) (Some p) v"
    by blast
  then have "lock_final go oc l w v" "pf_originChainId p = origin" "pf_lock p = l"
    using lock_awaited [OF steps(2) assms(2) steps(1)] finished [OF steps(3)] by auto
  with steps(1) show ?thesis by blast
qed

end
