(* ===== verification/GatewayExamples.thy ===== *)
theory GatewayExamples
  imports EscrowExamples TxChain GatewaySafety GatewayClaim GatewayPrepare
begin

text \<open>
  One order through the gateway: a shop whose chains always give the same answers, over a stand-in for ethers
  that hashes everything to one word. The properties of the gateway are applied to its prepare, accept,
  fill and claim.
\<close>

definition flat :: ethers where
  "flat = ether\<lparr>et_keccak := (\<lambda>_. lock_id)\<rparr>"

lemma flat_simps [simp]:
  "et_keccak flat x = lock_id" "et_utf8 flat s = s" "et_pad32 flat a = ''0xp'' @ a" "et_encode flat ts vals = Some (text_of vals)"
  "et_hash_domain flat d = Some (dm_name d @ dm_verifyingContract d)" "et_concat flat ss = Some (concat ss)" "et_recover flat dg sig = Some payer"
  by (simp_all add: flat_def ether_def)

definition shop_terms :: order_terms where
  "shop_terms = the_terms\<lparr>ot_destCommitment := lock_id\<rparr>"

definition shop_award :: award where
  "shop_award = the_award\<lparr>aw_escrowEnvelope := map_option (\<lambda>e. e\<lparr>ae_orderTerms := Some (the_order_terms\<lparr>aw_destCommitment := lock_id\<rparr>)\<rparr>)
     (aw_escrowEnvelope the_award)\<rparr>"

definition shop_envelope :: fillable where
  "shop_envelope = the_envelope\<lparr>fe_orderTerms := Some (the_order_terms\<lparr>aw_destCommitment := lock_id\<rparr>)\<rparr>"

definition shop_verified :: verified_award where
  "shop_verified = the_verified\<lparr>va_terms := shop_terms\<rparr>"

definition hex_word :: "char \<Rightarrow> string" where
  "hex_word c = ''0x'' @ replicate 64 c"

definition shop_lock :: opened_lock where
  "shop_lock = \<lparr>ol_orderId = lock_id, ol_depositor = payer, ol_token = usdc, ol_amount = 1000, ol_toChainId = 42161,
     ol_refundableAt = 1800000000, ol_verifier = vault, ol_blockNumber = 105, ol_blockHash = ''0xb105''\<rparr>"

definition shop_head :: head_block where
  "shop_head = \<lparr>hd_number = 110, hd_timestamp = 1600000000, hd_baseFee = None\<rparr>"

definition shop_log :: "opened_args event_log" where
  "shop_log = \<lparr>lg_blockNumber = 105, lg_blockHash = ''0xb105'', lg_txHash = ''0x01'', lg_removed = False,
     lg_parsed = Some \<lparr>oa_orderId = lock_id, oa_depositor = payer, oa_token = usdc, oa_amount = 1000, oa_toChainId = 42161, oa_refundableAt = 1800000000\<rparr>\<rparr>"

definition open_lock :: lock_state where
  "open_lock = \<lparr>lk_depositor = payer, lk_refundableAt = 1800000000, lk_status = LOCK_OPEN, lk_token = usdc, lk_toChainId = 42161,
     lk_verifier = vault, lk_amount = 1000\<rparr>"

text \<open>A transaction is mined as soon as it is sent.\<close>

definition shop_node :: "unit tx_node" where
  "shop_node = \<lparr>nd_chain_id = (\<lambda>w. (Inr 8453, w)), nd_address = (\<lambda>w. (Inr payer, w)),
     nd_static_call = (\<lambda>c w. (Inr (), w)), nd_populate = (\<lambda>c n w. (Inr (idle_tx c n), w)),
     nd_sign = (\<lambda>t w. (Inr ''0x05'', w)), nd_broadcast = (\<lambda>x w. (Inr (), w)),
     nd_pending = (\<lambda>a w. (Inr 7, w)), nd_count_at = (\<lambda>a b w. (Inr 7, w)), nd_block_number = (\<lambda>w. (Inr 110, w)),
     nd_head = (\<lambda>w. (Inr (Some shop_head), w)), nd_receipt = (\<lambda>h w. (Inr (Some \<lparr>rc_status = Some 1, rc_blockNumber = 110\<rparr>), w)),
     nd_lookup = (\<lambda>h w. (Inr (Some None), w)), nd_fees = (\<lambda>w. (Inr idle_fees, w)), nd_estimate = (\<lambda>a w. (Inr 21000, w)),
     nd_now_sec = (\<lambda>w. (Inr 1600000000, w)), nd_now = (\<lambda>w. (1600000000000, w)), nd_pause = (\<lambda>ms w. w)\<rparr>"

definition shop_chain :: "lock_state \<Rightarrow> unit chain_api" where
  "shop_chain lk = \<lparr>ca_node = shop_node, ca_tagged = (\<lambda>t w. (Inr (Some 108), w)), ca_block_hash = (\<lambda>n w. (Inr (Some ''0xb105''), w)),
     ca_opened = (\<lambda>e k a b w. (Inr [shop_log], w)),
     ca_claimed = (\<lambda>e k a b w. (Inr [\<lparr>lg_blockNumber = 109, lg_blockHash = ''0xb109'', lg_txHash = ''0x09'', lg_removed = False, lg_parsed = Some payer\<rparr>], w)),
     ca_lock = (\<lambda>e k tag w. (Inr lk, w)), ca_claim_window = (\<lambda>e w. (Inr 3600, w)), ca_claims_paused = (\<lambda>e w. (Inr False, w)),
     ca_static_claim = (\<lambda>e k pf w. (Inr payer, w)), ca_is_attester = (\<lambda>v a w. (Inr True, w)), ca_filled = (\<lambda>c k tag w. (Inr False, w)),
     ca_is_authorizer = (\<lambda>c a w. (Inr True, w)), ca_static_fill = (\<lambda>c k w. (Inr (), w)), ca_balance = (\<lambda>t a w. (Inr 1000, w)),
     ca_allowance = (\<lambda>t a s w. (Inr 1000, w)), ca_raw_approve = (\<lambda>t a s n w. (Inr ''0x'', w)), ca_gas_balance = (\<lambda>a w. (Inr (10 ^ 18), w)),
     ca_sign_acceptance = (\<lambda>d a w. (Inr ''0xs'', w))\<rparr>"

definition shop_origin :: origin_config where
  "shop_origin = \<lparr>oc_signer = 0, oc_escrow = vault, oc_lookbackBlocks = None, oc_maxLogRange = None\<rparr>"

definition shop_destination :: dest_config where
  "shop_destination = \<lparr>dc_signer = 1, dc_fillerContract = vault\<rparr>"

definition shop :: "lock_state \<Rightarrow> unit gateway_options" where
  "shop lk = \<lparr>go_ethers = flat, go_api = (\<lambda>_. shop_chain lk), go_origins = [(round_double 8453, shop_origin)],
     go_destinations = [(round_double 42161, shop_destination)], go_bond = Some \<lparr>bc_signer = 0, bc_address = vault\<rparr>,
     go_attestations = Some (\<lambda>k w. (Inr None, w)), go_acceptances = Some (\<lambda>a k s w. (Inl plain_error, w)),
     go_now = (\<lambda>w. (1600000000000, w)), go_pause = (\<lambda>ms w. w), go_tx = idle_options, go_fillInclusionSec = None,
     go_claimInclusionSec = None, go_acceptBudgetSec = None, go_finalityPollMs = None, go_claimGasBudget = None, go_txFuel = 1\<rparr>"

definition shop_bid :: prepare_options where
  "shop_bid = \<lparr>po_bidAuctionId = ''a1'', po_bidOrderId = lock_id, po_bidOutput = ''995'', po_announcement = None,
     po_originChainId = Some 8453, po_fromBlock = Some 100, po_timeoutMs = None\<rparr>"

definition shop_bond :: contract_domain where
  "shop_bond = \<lparr>cd_chainId = VBig 8453, cd_verifyingContract = vault\<rparr>"

definition shop_fill :: prepared_fill where
  "shop_fill = prepared shop_verified shop_award 8453 42161 shop_lock payer shop_bond 995"

section \<open>Preparing\<close>

lemma flat_keys [simp]: "canonical_key flat payee = Inr (''0xp'' @ payee)" "canonical_key flat usdc = Inr (''0xp'' @ usdc)"
proof -
  have "to_lower (''0xp'' @ s) = ''0xp'' @ to_lower s" for s by (simp add: to_lower_def lower_char_def code_def Let_def)
  then show "canonical_key flat payee = Inr (''0xp'' @ payee)" "canonical_key flat usdc = Inr (''0xp'' @ usdc)"
    by (simp_all add: canonical_key_def)
qed

lemma flat_commitment: "compute_dest_commitment flat the_opening = Inr lock_id"
  by (simp add: compute_dest_commitment_def dest_args_def the_opening_def uints compute_intent_id_hash_def hash_of_def ethers_call_def blinding_ok)

lemma flat_order: "compute_order_id flat shop_terms = Inr lock_id"
  by (simp add: compute_order_id_def order_args_def shop_terms_def the_terms_def uints hash_of_def ethers_call_def)

lemma shop_envelope_is: "require_fillable_escrow shop_award = Inr shop_envelope"
  by (simp add: require_fillable_escrow_def shop_award_def shop_envelope_def the_award_def the_envelope_def the_fill_def)

definition shop_trusting :: expectations where
  "shop_trusting = expect shop_bid shop_origin shop_destination 8453 42161 payer (envelope_terms (the_order_terms\<lparr>aw_destCommitment := lock_id\<rparr>))"

lemma shop_verifies: "verify_award flat shop_award shop_trusting = Inr shop_verified"
proof -
  have op: "opening_of (fe_opening shop_envelope) = the_opening"
    by (simp add: opening_of_def shop_envelope_def the_envelope_def the_opening_def)
  have terms: "with_commitment (xp_originTerms shop_trusting) lock_id = shop_terms"
    by (simp add: with_commitment_def shop_trusting_def expect_def envelope_terms_def the_order_terms_def shop_terms_def the_terms_def)
  have order: "recompute_order flat shop_envelope shop_trusting = Inr (shop_terms, lock_id)"
    by (simp add: recompute_order_ok op flat_commitment terms flat_order) (simp add: shop_envelope_def the_envelope_def the_order_terms_def)
  have origin: "check_origin shop_envelope shop_trusting = Inr ()"
    by (simp add: check_origin_ok shop_envelope_def the_envelope_def shop_trusting_def expect_def envelope_terms_def the_order_terms_def
        shop_origin_def eq_addr_def parsed_values parsed_big)
  have auth: "check_fill_auth shop_envelope shop_trusting shop_award lock_id = Inr ()"
    by (simp add: check_fill_auth_ok shop_envelope_def the_envelope_def shop_trusting_def expect_def shop_destination_def shop_bid_def the_fill_def
        shop_award_def the_award_def eq_addr_def parsed_values parsed_big spelled_values big_uint_def)
  have "fill_conforms flat shop_award shop_trusting shop_envelope shop_terms lock_id"
    using shop_envelope_is order origin auth
    by (simp add: fill_conforms_def) (simp add: shop_envelope_def the_envelope_def shop_award_def the_award_def shop_trusting_def expect_def shop_bid_def)
  then show ?thesis unfolding verify_award_ok
    by (intro exI conjI) (assumption | simp add: op | simp add: shop_envelope_def the_envelope_def shop_verified_def the_verified_def the_fill_def spelled_values the_opening_def opening_of_def)+
qed

lemmas runs = io_bind_def io_return_def io_throw_def io_catch_def io_read_def io_update_def

lemma shop_places [simp]: "origin_of (shop lk) 8453 = io_return shop_origin" "destination_of (shop lk) 42161 = io_return shop_destination"
  by (simp_all add: origin_of_def destination_of_def shop_def)

lemma shop_fields [simp]: "go_api (shop lk) i = shop_chain lk" "go_ethers (shop lk) = flat" "go_now (shop lk) w = (1600000000000, w)"
  "go_bond (shop lk) = Some \<lparr>bc_signer = 0, bc_address = vault\<rparr>" "go_fillInclusionSec (shop lk) = None" "go_acceptBudgetSec (shop lk) = None"
  "go_claimInclusionSec (shop lk) = None" "go_claimGasBudget (shop lk) = None" "go_tx (shop lk) = idle_options" "go_txFuel (shop lk) = 1"
  "oc_signer shop_origin = 0" "oc_escrow shop_origin = vault" "oc_maxLogRange shop_origin = None" "dc_signer shop_destination = 1"
  "dc_fillerContract shop_destination = vault" "ca_node (shop_chain lk) = shop_node" "nd_chain_id shop_node w = (Inr 8453, w)"
  "nd_address shop_node w = (Inr payer, w)" "nd_block_number shop_node w = (Inr 110, w)" "nd_head shop_node w = (Inr (Some shop_head), w)"
  "ca_tagged (shop_chain lk) t w = (Inr (Some 108), w)" "ca_block_hash (shop_chain lk) a w = (Inr (Some ''0xb105''), w)"
  "ca_opened (shop_chain lk) e k a b w = (Inr [shop_log], w)" "ca_lock (shop_chain lk) e k tag w = (Inr lk, w)"
  "ca_is_authorizer (shop_chain lk) c s w = (Inr True, w)"
  by (simp_all add: shop_def shop_chain_def shop_node_def shop_origin_def shop_destination_def)

lemma shop_bonded: "check_award_bond shop_award (VBig 8453) vault = Inr shop_bond"
proof -
  have "fe_bond shop_envelope = Some the_bond" by (simp add: shop_envelope_def the_envelope_def)
  then show ?thesis
    by (simp add: check_award_bond_def shop_envelope_is Let_def require_uint_ok eq_addr_def)
       (simp add: the_bond_def parsed_values parsed_big spelled_values shop_bond_def)
qed

lemma bid_uint: "to_uint f (VStr ''995'') = Inr 995"
  by (simp add: to_uint_ok spelling_digits all_digits_def is_digit_def code_def digits_val_def digit_val_def Let_def UINT256_MAX_def)

lemma bigs: "big_or_throw ''42161'' = Inr 42161" "big_or_throw ''1700000000'' = Inr 1700000000" "big_or_throw ''995'' = Inr 995"
  by (simp_all add: spelled_values)

lemma shop_ranges: "block_ranges 100 110 2000 = [(100, 110)]"
  by (simp add: block_ranges.simps)

lemma shop_awaits: "await_opened_final (Suc 0) (shop open_lock) lock_id 8453 (Some 100) t (io_return False) w = (Inr (Some shop_lock), w)"
  by (simp add: await_opened_final_def Let_def One_nat_def runs gw_now_def look_for_lock_def shop_ranges shop_log_def safe_head_def
      read_final_lock_def open_lock_def LOCK_NONE_def LOCK_OPEN_def eq_addr_def shop_lock_def)

lemma shop_prepares: "prepare 1 (shop open_lock) shop_award shop_bid (io_return False) w = (Inr (Some shop_fill), w)"
proof -
  have po: "po_bidAuctionId shop_bid = aw_auctionId shop_award" "po_bidOrderId shop_bid = fe_orderRef shop_envelope" "po_originChainId shop_bid = Some 8453"
    "po_fromBlock shop_bid = Some 100" "po_bidOutput shop_bid = ''995''"
    by (simp_all add: shop_bid_def shop_award_def the_award_def shop_envelope_def the_envelope_def)
  have env: "fe_authChainId shop_envelope = ''42161''" "fe_orderTerms shop_envelope = Some (the_order_terms\<lparr>aw_destCommitment := lock_id\<rparr>)"
    "fe_orderRef shop_envelope = lock_id" "fa_deadline (fe_auth shop_envelope) = VStr ''1700000000''"
    by (simp_all add: shop_envelope_def the_envelope_def the_fill_def)
  have lock: "check_lock_matches_terms shop_lock (va_terms shop_verified) = Inr ()"
    by (simp add: check_lock_ok lock_backs_def shop_verified_def shop_terms_def the_terms_def shop_lock_def eq_addr_def big_uint_def spelled_values)
  have signer: "recover_fill_auth_signer flat shop_verified = Inr payer"
    by (simp add: recover_fill_auth_signer_def fill_auth_digest_def fill_auth_domain_separator_def separator_def named_domain_def
        filler_domain_def shop_verified_def the_verified_def big_uints ethers_call_def fill_auth_struct_hash_def the_fill_def uints bid_uint hash_of_def typed_digest_def)
  show ?thesis unfolding prepare_def
    by (simp add: shop_envelope_is runs gw_check_def po env trusted_bond_def shop_bonded resolve_origin_def address_of_def bigs
        big_uint_def gw_now_def shop_awaits resolve_terms_def shop_verifies [unfolded shop_trusting_def] lock signer shop_fill_def)
qed

lemma prepared_witness: "well_formed (shop open_lock) shop_award shop_bid shop_fill () ()"
  using prepared_fill_is_well_formed [OF shop_prepares worlds.return_leaves] by simp

lemma prepared_lock_witness: "\<exists>oc. map_of (go_origins (shop open_lock)) (round_double 8453) = Some oc \<and> lock_final (shop open_lock) oc shop_lock () ()"
  using prepared_lock_is_final [OF shop_prepares worlds.return_leaves] by (simp add: shop_fill_def)

section \<open>Claiming\<close>

definition shop_sender :: "unit sender" where
  "shop_sender = \<lparr>sn_world = (), sn_slots = [], sn_inDoubt = [], sn_lastNonce = (\<lambda>_. None), sn_sent = []\<rparr>"

definition shop_gateway :: "unit gateway" where
  "shop_gateway = \<lparr>gw_sender = shop_sender, gw_books = no_books, gw_signed = [], gw_posted = []\<rparr>"

definition claimed_lock :: lock_state where
  "claimed_lock = open_lock\<lparr>lk_status := LOCK_CLAIMED\<rparr>"

lemma shop_fill_fields [simp]: "pf_originChainId shop_fill = 8453" "pf_destinationChainId shop_fill = 42161" "pf_lock shop_fill = shop_lock"
  "va_orderId shop_fill = lock_id" "va_fillId shop_fill = commitment" "va_fillAuth shop_fill = the_fill" "pf_bidOutput shop_fill = 995"
  "pf_bondDomain shop_fill = shop_bond" "va_payee shop_fill = payer" "va_terms shop_fill = shop_terms" "va_acceptBy shop_fill = 1700000000"
  "va_domainChainId shop_fill = 42161" "va_fillerContract shop_fill = vault" "va_signature shop_fill = ''0x''"
  by (simp_all add: shop_fill_def shop_verified_def the_verified_def prepared_def verified_award.defs)

lemma lock_codes: "LOCK_NONE = 0" "LOCK_OPEN = 1" "LOCK_CLAIMED = 2" "LOCK_REFUNDED = 3"
  by (simp_all add: LOCK_NONE_def LOCK_OPEN_def LOCK_CLAIMED_def LOCK_REFUNDED_def)

lemma claim_ranges: "block_ranges 105 110 2000 = [(105, 110)]"
  by (simp add: block_ranges.simps)

lemma shop_logs [simp]: "ca_claimed (shop_chain lk) e k a b w
    = (Inr [\<lparr>lg_blockNumber = 109, lg_blockHash = ''0xb109'', lg_txHash = ''0x09'', lg_removed = False, lg_parsed = Some payer\<rparr>], w)"
  by (simp add: shop_chain_def)

lemma shop_claimed:
  "claim_until_refundable 1 (shop claimed_lock) shop_fill \<lparr>co_pollMs = None, co_maxBackoffMs = None\<rparr> (io_return False) shop_gateway
     = (Inr (Some (ClaimedBySolver ''0x09'')), shop_gateway)"
proof -
  have attests: "go_attestations (shop claimed_lock) \<noteq> None" by (simp add: shop_def)
  have status: "lock_status (shop claimed_lock) shop_fill tag w = (Inr LOCK_CLAIMED, w)" for tag w
    by (simp add: lock_status_def runs claimed_lock_def)
  have who: "who_claimed (shop claimed_lock) shop_fill w = (Inr (ClaimedBySolver ''0x09''), w)" for w
    by (simp add: who_claimed_def runs Let_def claim_ranges claim_event_def eq_addr_def shop_lock_def)
  have last: "last_send_sec (shop claimed_lock) shop_fill = 1799999940"
    by (simp add: last_send_sec_def claim_inclusion_def shop_lock_def)
  show ?thesis
    by (simp add: claim_until_refundable_def attests One_nat_def runs gw_ask_def gw_now_def last claim_try_def status who claim_recover_def Let_def)
qed

lemma claim_report_witness:
  "rests_on (shop claimed_lock) shop_fill (io_return False) () () (ClaimedBySolver ''0x09'')"
  using claim_report_is_so [OF shop_claimed worlds.return_leaves] by (simp add: world_of_def)

section \<open>Accepting\<close>

lemma shop_digest: "fill_auth_digest flat (filler_domain shop_fill) the_fill = Inr lock_id"
  by (simp add: fill_auth_digest_def fill_auth_domain_separator_def separator_def named_domain_def
        filler_domain_def big_uints ethers_call_def fill_auth_struct_hash_def the_fill_def uints bid_uint hash_of_def typed_digest_def)

definition shop_acceptance :: fill_acceptance where
  "shop_acceptance = \<lparr>fc_orderId = lock_id, fc_originChainId = VBig 8453, fc_escrow = vault, fc_filler = payer,
     fc_deadline = VStr ''1700000000'', fc_fillAuth = lock_id\<rparr>"

lemma shop_accepts: "fill_acceptance_for flat shop_fill = Inr shop_acceptance"
proof -
  have "big_uint (ot_fromChainId shop_terms) = Inr 8453" by (simp add: shop_terms_def the_terms_def big_uint_def spelled_values)
  moreover have "ot_escrow shop_terms = vault" by (simp add: shop_terms_def the_terms_def)
  moreover have "fa_filler the_fill = payer" "fa_deadline the_fill = VStr ''1700000000''" by (simp_all add: the_fill_def)
  ultimately show ?thesis
    by (simp add: fill_acceptance_for_def fill_acceptance_of_def normal_hashes shop_digest shop_acceptance_def)
qed

lemma shop_prepared_digest: "prepared_digest flat shop_fill = Inr lock_id"
  using accepted_digest [OF shop_accepts] by (simp add: shop_acceptance_def)

lemma shop_bond_digest: "fill_acceptance_digest flat shop_bond shop_acceptance = Inr lock_id"
  by (simp add: fill_acceptance_digest_def solver_bond_separator_def separator_def named_domain_def shop_bond_def big_uints ethers_call_def
      fill_acceptance_struct_hash_def shop_acceptance_def normal_hashes uints hash_of_def typed_digest_def)

lemma shop_starts: "accept_start flat no_books shop_fill = Inr (SignAcceptance False, lock_id)"
  by (simp add: accept_start_def shop_prepared_digest require_one_fill_per_order_def) (rule exI [of _ False], simp add: no_books_def)

definition shop_entry :: acceptance_entry where
  "shop_entry = \<lparr>en_acceptance = shop_acceptance, en_digest = lock_id, en_signature = Some ''0xs''\<rparr>"

lemma shop_run: "\<exists>r b. gw_reach flat r \<and> gr_signed r = [(lock_id, shop_acceptance)] \<and> gr_calls r 0 = Signed shop_fill \<and> gr_calls r 1 = NoCall
    \<and> record_signed flat shop_fill shop_entry (enter_accepting shop_fill lock_id no_books) = (Inr (), b) \<and> gr_books r = b"
proof -
  have own: "own_id shop_fill" by (simp add: own_id_def)
  obtain b where b: "record_signed flat shop_fill shop_entry (enter_accepting shop_fill lock_id no_books) = (Inr (), b)"
    using record_signed_runs [OF shop_accepts] by blast
  let ?r = "race_start\<lparr>gr_calls := (gr_calls race_start)(0 := Signing shop_fill), gr_books := enter_accepting shop_fill lock_id (gr_books race_start)\<rparr>"
  have "gw_step flat race_start ?r"
    by (rule begin_accept [where again = False]) (simp_all add: race_start_def own shop_starts)
  then have one: "gw_reach flat ?r" using gw_reach.start gw_reach.step by blast
  have "gw_step flat ?r (?r\<lparr>gr_calls := (gr_calls ?r)(0 := Signed shop_fill), gr_books := b, gr_signed := gr_signed ?r @ [(order_key shop_fill, shop_acceptance)]\<rparr>)"
    by (rule sign [OF _ shop_accepts, of ?r 0 lock_id "''0xs''" "Inr ()"]) (use b in \<open>simp_all add: race_start_def shop_entry_def\<close>)
  from gw_reach.step [OF one this] b show ?thesis
    by (intro exI conjI) (assumption | simp add: race_start_def order_key_def)+
qed

lemma one_acceptance_witness: "\<exists>r. gw_reach flat r \<and> gr_signed r \<noteq> [] \<and> distinct (map fst (gr_signed r))"
proof -
  obtain r where r: "gw_reach flat r" "gr_signed r = [(lock_id, shop_acceptance)]" using shop_run by blast
  then show ?thesis using one_acceptance_per_order [OF r(1)] by (intro exI [of _ r]) simp
qed

definition eager :: "unit accept_options" where
  "eager = \<lparr>ac_resume = False, ac_onSigned = None\<rparr>"

lemma shop_answers [simp]: "ca_filled (shop_chain lk) c k tag w = (Inr False, w)" "ca_balance (shop_chain lk) t s w = (Inr 1000, w)"
  "ca_allowance (shop_chain lk) t s k w = (Inr 1000, w)" "ca_static_fill (shop_chain lk) c fk w = (Inr (), w)"
  "ca_claims_paused (shop_chain lk) e w = (Inr False, w)" "ca_gas_balance (shop_chain lk) s w = (Inr (10 ^ 18), w)"
  "ca_sign_acceptance (shop_chain lk) d fa w = (Inr ''0xs'', w)" "nd_fees shop_node w = (Inr idle_fees, w)"
  by (simp_all add: shop_chain_def shop_node_def)

lemma shop_time: "now_sec (shop lk) gs b w = (Inr (if gs = [] \<and> \<not> b then 0 else 1600000000), w)"
proof -
  have latest: "latest_times (shop lk) gs w = (Inr (replicate (length gs) 1600000000), w)" for gs w
    by (induction gs) (simp_all add: runs shop_head_def)
  have same: "foldl (\<lambda>m t :: int. if t > m then t else m) 1600000000 (replicate n 1600000000) = 1600000000" for n
    by (induction n) simp_all
  have "foldl (\<lambda>m t :: int. if t > m then t else m) 0 (replicate n 1600000000) = (if n = 0 then 0 else 1600000000)" for n
    using same by (cases n) simp_all
  then show ?thesis using same by (simp add: now_sec_def runs latest gw_now_def)
qed

lemma shop_window: "check_fill_window \<lparr>fw_nowSec = VBig 1600000000, fw_refundableAt = VBig (ol_refundableAt shop_lock), fw_fillAuthDeadline = fa_deadline the_fill,
    fw_fillInclusionSec = VBig n, fw_attestationLatencySec = None, fw_safetyMarginSec = None\<rparr> = Inr ()" if "n \<le> 1000"
  using that by (simp add: window_open shop_lock_def the_fill_def big_uint_def bigs ATTESTATION_LATENCY_SEC_def SAFETY_MARGIN_SEC_def)

lemma fill_amounts: "big_uint (fa_amount the_fill) = Inr 995" "big_uint (fa_deadline the_fill) = Inr 1700000000"
  by (simp_all add: the_fill_def big_uint_def spelled_values)

lemma shop_world: "g\<lparr>gw_sender := (gw_sender g)\<lparr>sn_world := ()\<rparr>\<rparr> = g" for g :: "unit gateway"
  by (cases g; cases "gw_sender g") simp

lemma shop_ask: "f () = (r, ()) \<Longrightarrow> gw_ask f g = (r, g)"
  by (simp add: gw_ask_def shop_world)

lemma shop_ready: "claim_readiness (shop lk) shop_fill () = (Inr None, ())"
  by (simp add: claim_readiness_def runs Let_def address_of_def idle_fees_def CLAIM_GAS_BUDGET_def)

lemma shop_preflight:
  assumes "b \<longrightarrow> bk_owed (gw_books g) = []"
  shows "fill_preflight (shop lk) shop_fill shop_destination b g = (Inr (), g)"
proof -
  have owed: "owed_inventory (shop lk) shop_fill shop_destination g = (Inr 0, g)" if b
    using assms that by (simp add: owed_inventory_def runs owed_candidates_def)
  show ?thesis
    by (cases b) (simp_all add: fill_preflight_def Let_def runs shop_ask address_of_def gw_check_def fill_amounts owed)
qed

lemma shop_checks: "bk_owed (gw_books g) = [] \<Longrightarrow> accept_checks (shop lk) shop_fill shop_destination g = (Inr (), g)"
  by (simp add: accept_checks_def Let_def runs shop_ask shop_time gw_check_def fill_inclusion_def shop_window shop_preflight shop_ready)

lemma shop_own: "require_own_fill_auth shop_fill payer = Inr ()"
proof -
  have "fa_filler the_fill = payer" by (simp add: the_fill_def)
  then show ?thesis by (simp add: require_own_fill_auth_def fill_amounts)
qed

lemma shop_signs: "gw_signed (snd (accept (Suc 0) id (shop open_lock) shop_fill eager shop_gateway)) = [(shop_fill, shop_acceptance)]"
proof -
  let ?g = "shop_gateway\<lparr>gw_books := enter_accepting shop_fill lock_id no_books\<rparr>"
  have own: "bk_owed (gw_books ?g) = []" by (simp add: enter_accepting_def no_books_def)
  obtain b where b: "record_signed flat shop_fill shop_entry (enter_accepting shop_fill lock_id no_books) = (Inr (), b)"
    using record_signed_runs [OF shop_accepts] by blast
  have posts: "go_acceptances (shop open_lock) = Some (\<lambda>a k s w. (Inl plain_error, w))" by (simp add: shop_def)
  have start: "gw_books shop_gateway = no_books" by (simp add: shop_gateway_def)
  have signature: "to_lower ''0xs'' = ''0xs''" by (simp add: to_lower_def lower_char_def code_def Let_def)
  have signing: "sign_now (shop open_lock) shop_fill shop_destination ?g
      = (Inr \<lparr>sa_acceptance = shop_acceptance, sa_digest = lock_id, sa_signature = ''0xs''\<rparr>,
         ?g\<lparr>gw_signed := [(shop_fill, shop_acceptance)], gw_books := b\<rparr>)"
    using b by (simp add: sign_now_def runs gw_check_def shop_accepts shop_bond_digest shop_ask signature Let_def gw_book_def shop_entry_def plainly_def)
      (simp add: shop_gateway_def)
  show ?thesis
    by (simp add: start runs gw_check_def shop_starts posts eager_def sign_acceptance_def shop_ask address_of_def shop_own
        shop_checks [OF own] signing call_on_signed_def post_acceptance_def)
qed


section \<open>Filling\<close>

definition shop_books :: books where
  "shop_books = snd (record_signed flat shop_fill shop_entry no_books)"

lemma shop_books_fields: "bk_accepted shop_books (va_fillId shop_fill) = Some shop_entry"
  "bk_acceptedOrders shop_books (order_key shop_fill) = Some (commitment, lock_id)" "bk_filling shop_books = []" "bk_landed shop_books k = None"
proof -
  obtain f where "record_signed flat shop_fill shop_entry no_books = (Inr (), set_accepted_order shop_fill (fc_fillAuth shop_acceptance)
      ((set_accepted shop_fill shop_entry no_books)\<lparr>bk_owed := put_owed (va_fillId shop_fill) f (bk_owed no_books)\<rparr>))"
    using record_signed_runs [OF shop_accepts] .
  then show "bk_accepted shop_books (va_fillId shop_fill) = Some shop_entry"
    "bk_acceptedOrders shop_books (order_key shop_fill) = Some (commitment, lock_id)" "bk_filling shop_books = []" "bk_landed shop_books k = None"
    by (simp_all add: shop_books_def set_accepted_order_def set_accepted_def no_books_def shop_acceptance_def)
qed

lemma fill_may_start:
  assumes "bk_accepted b (va_fillId shop_fill) = Some shop_entry" "bk_acceptedOrders b (order_key shop_fill) = Some (commitment, d)"
    "bk_filling b = []" "bk_landed b (va_fillId shop_fill) = None"
  shows "fill_start flat b shop_fill = Inr ()"
  using assms by (simp add: fill_start_def require_one_fill_per_order_def require_accepted_fill_auth_def shop_prepared_digest fill_amounts
      shop_entry_def shop_acceptance_def)

definition shop_accepted :: "unit gateway" where
  "shop_accepted = shop_gateway\<lparr>gw_books := shop_books\<rparr>"

lemma shop_send:
  assumes "pl_simulate plan = None" "pl_recheck plan = Some f" "f () = (Inr (), ())"
  shows "\<exists>s. send (Suc 0) (node_of (shop lk)) idle_options plan shop_sender = (Inr (Some (Confirmed ''0x05'' 110)), s) \<and> sn_sent s \<noteq> []"
proof -
  have settled: "is_doubtful (Confirmed h b) = False" for h b by (simp add: is_doubtful_def)
  show ?thesis
  using assms
  by (cases "pl_inDoubtKey plan"; cases "pl_landBy plan"; simp add: settled shop_head_def send_def runs Let_def ask_def shop_sender_def open_slot_def simulate_def release_dead_slots_def assign_nonce_def
      forget_nonce_def sign_tx_def attempt_def broadcast_def record_broadcast_def ask_now_def await_pass_def the_slot_def
      receipt_outcome_def shop_node_def send_key_def definitely_rejected_def)
qed

lemma shop_sends: "\<exists>h. fill (shop open_lock) shop_fill shop_accepted = (Inr (Some (Confirmed ''0x05'' 110)), h) \<and> sn_sent (gw_sender h) \<noteq> []"
proof -
  have start: "fill_start flat (gw_books shop_accepted) shop_fill = Inr ()"
    using fill_may_start shop_books_fields by (simp add: shop_accepted_def)
  let ?plan = "fill_plan (shop open_lock) shop_fill shop_destination 995 1700000000"
  have plan: "pl_simulate ?plan = None" "pl_recheck ?plan = Some (not_past (shop open_lock) 1 1700000000)"
    by (simp_all add: fill_plan_def)
  have "not_past (shop open_lock) 1 1700000000 () = (Inr (), ())" by (simp add: not_past_def runs shop_time)
  from shop_send [OF plan this] obtain s where s: "send (Suc 0) (node_of (shop open_lock)) idle_options ?plan shop_sender = (Inr (Some (Confirmed ''0x05'' 110)), s)"
    "sn_sent s \<noteq> []" by blast
  let ?g = "shop_accepted\<lparr>gw_books := enter_filling shop_fill shop_books\<rparr>"
  have here: "gw_books shop_accepted = shop_books" "gw_sender ?g = shop_sender" by (simp_all add: shop_accepted_def shop_gateway_def)
  have guard: "gw_guard (shop open_lock) key cd is_done n ?g = (Inr (), ?g)" for key cd is_done n
  proof -
    have "guard_in_doubt (node_of (shop open_lock)) idle_options key (code_name cd) is_done (nat n) shop_sender = (Inr (), shop_sender)"
      by (simp add: guard_in_doubt_def runs shop_sender_def)
    then show ?thesis by (simp add: gw_guard_def gw_tx_def shop_accepted_def shop_gateway_def)
  qed
  have window: "advisory_window (shop open_lock) shop_fill 1600000000 k = (Inr (), k)" for k
    by (simp add: advisory_window_def runs shop_ask shop_time gw_check_def fill_inclusion_def shop_window)
  have send: "send_fill (shop open_lock) shop_fill ?g = (Inr (Some (Confirmed ''0x05'' 110)), ?g\<lparr>gw_sender := s\<rparr>)"
    by (simp add: send_fill_def runs gw_check_def fill_amounts guard shop_ask shop_time window shop_preflight shop_ready gw_send_def gw_tx_def)
       (simp add: shop_accepted_def shop_gateway_def s)
  show ?thesis using s(2) by (simp add: fill_def runs here start [unfolded here] gw_check_def send)
qed

lemma accepted_fill_witness:
  "\<exists>en amount. bk_accepted shop_books commitment = Some en \<and> prepared_digest flat shop_fill = Inr (to_lower (fc_fillAuth (en_acceptance en)))
    \<and> big_uint (fa_amount the_fill) = Inr amount \<and> amount \<le> 995
    \<and> bk_landed shop_books commitment = None \<and> commitment \<notin> set (bk_filling shop_books)"
proof -
  obtain h where "fill (shop open_lock) shop_fill shop_accepted = (Inr (Some (Confirmed ''0x05'' 110)), h)" "sn_sent (gw_sender h) \<noteq> []"
    using shop_sends by blast
  then show ?thesis using fill_sends_only_accepted [of "shop open_lock" shop_fill shop_accepted "Inr (Some (Confirmed ''0x05'' 110))" h]
    by (simp add: shop_accepted_def shop_gateway_def shop_sender_def)
qed

text \<open>A second call, over a slot of an earlier one.\<close>

definition stuck :: "unit gateway" where
  "stuck = shop_accepted\<lparr>gw_sender := shop_sender\<lparr>sn_slots := [idle_slot], sn_inDoubt := [(fill_key shop_fill, 0)]\<rparr>\<rparr>"

lemma followed_witness: "follows_slot (shop open_lock) shop_fill 0 (identity idle_slot) stuck (snd (fill (shop open_lock) shop_fill stuck))"
proof (rule fill_in_doubt_is_followed)
  show "holds_slot 0 (identity idle_slot) (gw_sender stuck)"
    by (simp add: holds_slot_def stuck_def slot_ok_def idle_slot_def idle_tx_def)
qed (simp_all add: stuck_def prod_eq_iff)

text \<open>In an interleaving: accepted, then filled.\<close>

lemma one_fill_witness:
  "\<exists>r. gw_reach flat r \<and> gr_calls r 1 = Filling shop_fill \<and> commitment \<notin> set (gr_confirmed r)
    \<and> (\<forall>d q. gr_calls r d = Filling q \<and> va_fillId q = commitment \<longrightarrow> d = 1)"
proof -
  obtain r b where r: "gw_reach flat r" "gr_calls r 0 = Signed shop_fill" "gr_calls r 1 = NoCall" "gr_books r = b"
    "record_signed flat shop_fill shop_entry (enter_accepting shop_fill lock_id no_books) = (Inr (), b)"
    using shop_run by (elim exE conjE) (rule that, assumption+)
  have b: "bk_accepted b (va_fillId shop_fill) = Some shop_entry" "bk_acceptedOrders b (order_key shop_fill) = Some (commitment, lock_id)"
    "bk_filling b = []" "bk_landed b (va_fillId shop_fill) = None"
    using record_signed_books [OF shop_accepts r(5)] by (simp_all add: enter_accepting_def no_books_def shop_acceptance_def)
  let ?r = "r\<lparr>gr_calls := (gr_calls r)(1 := Filling shop_fill), gr_books := enter_filling shop_fill (gr_books r)\<rparr>"
  have "gw_step flat r ?r"
    by (rule begin_fill) (use r b fill_may_start in \<open>simp_all add: own_id_def\<close>)
  then have reach: "gw_reach flat ?r" using r(1) gw_reach.step by blast
  have filling: "gr_calls ?r 1 = Filling shop_fill" by simp
  show ?thesis using one_fill_at_a_time [OF reach] filling reach unfolding shop_fill_fields by (metis shop_fill_fields)
qed

end
