(* ===== verification/FloatOrder.thy ===== *)
theory FloatOrder
  imports Float64
begin

lemma bit_len_pow: "n > 0 \<Longrightarrow> 2 ^ (bit_len n - 1) \<le> n \<and> n < 2 ^ bit_len n \<and> bit_len n > 0"
proof (induction n rule: bit_len.induct)
  case (1 n)
  show ?case
  proof (cases "n div 2 = 0")
    case True
    then have "n = 1" using 1 by linarith
    then show ?thesis by (simp add: bit_len.simps)
  next
    case False
    then have ih: "2 ^ (bit_len (n div 2) - 1) \<le> n div 2" "n div 2 < 2 ^ bit_len (n div 2)" "bit_len (n div 2) > 0"
      using 1 by auto
    have s: "bit_len n = Suc (bit_len (n div 2))" using 1(2) by (subst bit_len.simps) simp
    obtain k where k: "bit_len (n div 2) = Suc k" using ih(3) by (cases "bit_len (n div 2)") auto
    have "2 * 2 ^ k \<le> n" "n < 2 * (2 * 2 ^ k)" using ih(1,2) unfolding k by simp_all
    then show ?thesis by (simp add: s k)
  qed
qed

lemma round_even_mono:
  assumes "r \<le> s"
  shows "round_even r \<le> round_even s"
proof (cases "\<lfloor>r\<rfloor> = \<lfloor>s\<rfloor>")
  case True
  then show ?thesis using assms by (auto simp: round_even_def Let_def)
next
  case False
  then have "\<lfloor>r\<rfloor> + 1 \<le> \<lfloor>s\<rfloor>" using assms floor_mono [OF assms] by linarith
  then show ?thesis by (auto simp: round_even_def Let_def)
qed

definition rd :: "num \<Rightarrow> num" where
  "rd r = of_int (round_even (r / spacing r)) * spacing r"

lemma rd_below:
  assumes "r \<le> B" "B = spacing r * of_int k"
  shows "rd r \<le> B"
proof -
  have q: "spacing r > 0" by (rule spacing_pos)
  have "r / spacing r \<le> of_int k" using assms q by (simp add: field_simps)
  from round_even_mono [OF this] have "round_even (r / spacing r) \<le> k" by simp
  then have "of_int (round_even (r / spacing r)) * spacing r \<le> of_int k * spacing r"
    using q by (intro mult_right_mono) auto
  then show ?thesis using assms(2) by (simp add: rd_def mult.commute)
qed

lemma rd_above:
  assumes "B \<le> r" "B = spacing r * of_int k"
  shows "B \<le> rd r"
proof -
  have q: "spacing r > 0" by (rule spacing_pos)
  have "of_int k \<le> r / spacing r" using assms q by (simp add: field_simps)
  from round_even_mono [OF this] have "k \<le> round_even (r / spacing r)" by simp
  then have "of_int k * spacing r \<le> of_int (round_even (r / spacing r)) * spacing r"
    using q by (intro mult_right_mono) auto
  then show ?thesis using assms(2) by (simp add: rd_def mult.commute)
qed

lemma doublings_step:
  "j < doublings n r \<Longrightarrow> r * 2 ^ j < 1" "doublings n r < n \<Longrightarrow> 1 \<le> r * 2 ^ doublings n r" "doublings n r \<le> n"
proof (induction n r arbitrary: j rule: doublings.induct)
  case (2 n r)
  {
    case 1
    show ?case
    proof (cases "r \<ge> 1")
      case False
      show ?thesis
      proof (cases j)
        case (Suc i)
        then have "i < doublings n (2 * r)" using 1 False by simp
        from 2(1) [OF False this] show ?thesis using Suc by (simp add: ac_simps)
      qed (use False in simp)
    qed (use 1 in simp)
  next
    case 2
    then show ?case using "2.IH"(2) by (cases "r \<ge> 1") (simp_all add: ac_simps)
  next
    case 3
    then show ?case using "2.IH"(3) by simp
  }
qed simp_all

lemma spacing_large: "r \<ge> 1 \<Longrightarrow> spacing r = 2 ^ bit_len (nat \<lfloor>r\<rfloor>) / 2 ^ 53"
  by (simp add: spacing_def)

lemma spacing_small: "0 \<le> r \<Longrightarrow> r < 1 \<Longrightarrow> spacing r = 1 / 2 ^ (doublings 1022 r + 52)"
  by (simp add: spacing_def)

lemma binade: "(r :: num) \<ge> 1 \<Longrightarrow> \<exists>k. bit_len (nat \<lfloor>r\<rfloor>) = Suc k \<and> 2 ^ k \<le> r \<and> r < 2 ^ Suc k"
proof -
  assume r: "r \<ge> 1"
  then have n: "nat \<lfloor>r\<rfloor> > 0" "of_nat (nat \<lfloor>r\<rfloor>) \<le> r" "r < of_nat (nat \<lfloor>r\<rfloor>) + 1"
    by (auto simp: le_floor_iff) linarith+
  obtain k where k: "bit_len (nat \<lfloor>r\<rfloor>) = Suc k" using bit_len_pow [OF n(1)] by (cases "bit_len (nat \<lfloor>r\<rfloor>)") auto
  have "2 ^ k \<le> nat \<lfloor>r\<rfloor>" "nat \<lfloor>r\<rfloor> + 1 \<le> 2 ^ Suc k" using bit_len_pow [OF n(1)] unfolding k by simp_all
  then have a: "(of_nat (2 ^ k) :: num) \<le> of_nat (nat \<lfloor>r\<rfloor>)" "(of_nat (nat \<lfloor>r\<rfloor> + 1) :: num) \<le> of_nat (2 ^ Suc k)"
    by (simp_all only: of_nat_le_iff)
  have "2 ^ k \<le> r" using order_trans [OF a(1) n(2)] by simp
  moreover have "r < 2 ^ Suc k" using less_le_trans [OF n(3), of "of_nat (2 ^ Suc k)"] a(2) by simp
  ultimately show ?thesis using k by blast
qed

text \<open>A power of two between two numbers of different spacing is representable beside both.\<close>

lemma rd_mono:
  assumes "0 \<le> r" "r \<le> s"
  shows "rd r \<le> rd s"
proof (cases "spacing r = spacing s")
  case True
  have "r / spacing s \<le> s / spacing s" using assms spacing_pos [of s] by (simp add: divide_right_mono)
  from round_even_mono [OF this] show ?thesis
    using spacing_pos [of s] by (simp add: rd_def True mult_right_mono)
next
  case False
  have "\<exists>B j k. r \<le> B \<and> B \<le> s \<and> B = spacing r * of_int j \<and> B = spacing s * of_int k"
  proof (cases "s \<ge> 1")
    case s1: True
    then obtain k where k: "bit_len (nat \<lfloor>s\<rfloor>) = Suc k" "2 ^ k \<le> s" using binade by blast
    have s2: "(2 :: num) ^ k = spacing s * of_int (2 ^ 52)" using s1 k(1) by (simp add: spacing_large)
    show ?thesis
    proof (cases "r \<ge> 1")
      case r1: True
      then obtain j where j: "bit_len (nat \<lfloor>r\<rfloor>) = Suc j" "2 ^ j \<le> r" "r < 2 ^ Suc j" using binade by blast
      have "Suc j \<noteq> Suc k" using False r1 s1 j k by (auto simp: spacing_large)
      moreover have "j < Suc k"
      proof (rule ccontr)
        assume "\<not> j < Suc k"
        then have "(2 :: num) ^ Suc k \<le> 2 ^ j" by (intro power_increasing) auto
        moreover have "s < 2 ^ Suc k" using binade [OF s1] k(1) by auto
        ultimately show False using j(2) assms(2) by linarith
      qed
      ultimately have jk: "Suc j \<le> k" by simp
      then have "r \<le> 2 ^ k" using j(3) power_increasing [OF jk, of "2 :: num"] by simp
      moreover have "(2 :: num) ^ k = spacing r * of_int (2 ^ (k - Suc j) * 2 ^ 53)"
      proof -
        obtain i where "k = Suc j + i" using le_Suc_ex [OF jk] by blast
        then show ?thesis using r1 j(1) by (simp add: spacing_large power_add)
      qed
      ultimately show ?thesis using k(2) s2 by blast
    next
      case r1: False
      have "r \<le> 2 ^ k" using r1 one_le_power [of "2 :: num" k] by linarith
      moreover have "(2 :: num) ^ k = spacing r * of_int (2 ^ k * 2 ^ (doublings 1022 r + 52))"
        using r1 assms(1) by (simp add: spacing_small)
      ultimately show ?thesis using k(2) s2 by blast
    qed
  next
    case s1: False
    let ?d = "doublings 1022 s" and ?e = "doublings 1022 r"
    have sm: "spacing r = 1 / 2 ^ (?e + 52)" "spacing s = 1 / 2 ^ (?d + 52)"
      using assms s1 by (simp_all add: spacing_small)
    have de: "?d < ?e"
    proof (rule ccontr)
      assume "\<not> ?d < ?e"
      then have lt: "?e < ?d" using False sm by (cases "?e = ?d") auto
      then have "s * 2 ^ ?e < 1" "1 \<le> r * 2 ^ ?e"
        using doublings_step(1) [of ?e 1022 s] doublings_step(2,3) [of 1022 r] doublings_step(3) [of 1022 s] by simp_all
      moreover have "r * 2 ^ ?e \<le> s * 2 ^ ?e" using assms(2) by (simp add: mult_right_mono)
      ultimately show False by linarith
    qed
    then have "r * 2 ^ ?d < 1" "1 \<le> s * 2 ^ ?d"
      using doublings_step(1) [of ?d 1022 r] doublings_step(2) [of 1022 s] doublings_step(3) [of 1022 r] by simp_all
    then have "r \<le> 1 / 2 ^ ?d" "1 / 2 ^ ?d \<le> s" by (simp_all add: field_simps)
    moreover have "(1 :: num) / 2 ^ ?d = spacing r * of_int (2 ^ (?e - ?d) * 2 ^ 52)"
      using de by (simp add: sm power_add field_simps flip: power_diff)
    moreover have "(1 :: num) / 2 ^ ?d = spacing s * of_int (2 ^ 52)"
      by (simp add: sm power_add field_simps)
    ultimately show ?thesis by blast
  qed
  then obtain B j k where B: "r \<le> B" "B \<le> s" "B = spacing r * of_int j" "B = spacing s * of_int k" by blast
  show ?thesis using rd_below [OF B(1,3)] rd_above [OF B(2,4)] by linarith
qed

lemma integer_on_grid:
  assumes "0 \<le> r" "r < 2 ^ 53"
  shows "\<exists>j. of_int K = spacing r * of_int j"
proof (cases "r \<ge> 1")
  case True
  then obtain k where k: "bit_len (nat \<lfloor>r\<rfloor>) = Suc k" "2 ^ k \<le> r" using binade by blast
  have "k < 53"
  proof (rule ccontr)
    assume "\<not> k < 53"
    then have "(2 :: num) ^ 53 \<le> 2 ^ k" by (intro power_increasing) auto
    then show False using k(2) assms(2) by linarith
  qed
  then have "Suc k \<le> 53" by simp
  then have "of_int K = spacing r * of_int (K * 2 ^ (53 - Suc k))"
    using True k(1) by (simp add: spacing_large flip: power_add)
  then show ?thesis by blast
next
  case False
  have "of_int K = spacing r * of_int (K * 2 ^ (doublings 1022 r + 52))"
    using False assms(1) by (simp add: spacing_small)
  then show ?thesis by blast
qed

lemma rd_int_bounds:
  assumes "0 \<le> r" "r < 2 ^ 53"
  shows "r \<le> of_int K \<Longrightarrow> rd r \<le> of_int K" "of_int K \<le> r \<Longrightarrow> of_int K \<le> rd r"
  using integer_on_grid [OF assms, of K] rd_below [of r "of_int K"] rd_above [of "of_int K" r] by blast+

definition fl_num :: "num \<Rightarrow> num" where
  "fl_num r = (case fl r of Fin x \<Rightarrow> x | _ \<Rightarrow> r)"

lemma fl_num_rd:
  assumes "0 \<le> r" "r < 2 ^ 53"
  shows "fl_num r = rd r"
proof -
  have "rd r \<le> of_int (2 ^ 53)" using rd_int_bounds(1) [OF assms, of "2 ^ 53"] assms(2) by simp
  moreover have "(0 :: num) \<le> rd r" using rd_int_bounds(2) [OF assms, of 0] assms(1) by simp
  moreover have "(2 :: num) ^ 53 < 2 ^ 1024" by (rule power_strict_increasing) auto
  ultimately show ?thesis
    by (auto simp: fl_num_def fl_def rd_def Let_def)
qed

end
