(* ===== verification/SdkTiers.thy ===== *)
theory SdkTiers
  imports Fee FloatOrder "HOL-Library.Multiset"
begin

text \<open>
  The compliance SDK's trust tiers, \<open>packages/sdk/src/tiers.ts\<close>, its scoring of attestations,
  \<open>scoring.ts\<close>, and the recency check of a proof, \<open>recency.ts\<close>. Tier and asset names are those of \<open>Fee\<close>, which
  models the client's own copy of the schedule. Points are finite numbers.
\<close>

section \<open>Comparing numbers\<close>

text \<open>\<open>a <= b\<close>; a comparison with \<open>NaN\<close> is false.\<close>

fun js_le :: "jsnum \<Rightarrow> jsnum \<Rightarrow> bool" where
  "js_le NaN b = False"
| "js_le a NaN = False"
| "js_le NegInf b = True"
| "js_le a PosInf = True"
| "js_le (Fin a) (Fin b) = (a \<le> b)"
| "js_le a b = False"

definition js_less :: "jsnum \<Rightarrow> jsnum \<Rightarrow> bool" where
  "js_less a b \<longleftrightarrow> js_le a b \<and> \<not> js_le b a"

lemma js_le_NaN [simp]: "\<not> js_le x NaN"
  by (cases x) simp_all

lemma js_less_Fin [simp]: "js_less (Fin a) (Fin b) \<longleftrightarrow> a < b" "\<not> js_less NaN x" "\<not> js_less x NaN"
  by (auto simp: js_less_def)

section \<open>The schedule and the tiers\<close>

record sdk_layers =
  sl_solver :: num
  sl_venue :: num
  sl_routing :: num

definition layers :: "num \<Rightarrow> num \<Rightarrow> num \<Rightarrow> sdk_layers" where
  "layers s v r = \<lparr>sl_solver = s, sl_venue = v, sl_routing = r\<rparr>"

fun SDK_FEE_SCHEDULE :: "fee_tier \<Rightarrow> asset_class \<Rightarrow> sdk_layers" where
  "SDK_FEE_SCHEDULE Standard Stable = layers 8 6 8"
| "SDK_FEE_SCHEDULE Standard Volatile = layers 18 10 12"
| "SDK_FEE_SCHEDULE Trusted Stable = layers 8 5 6"
| "SDK_FEE_SCHEDULE Trusted Volatile = layers 18 8 9"
| "SDK_FEE_SCHEDULE Verified Stable = layers 8 3 4"
| "SDK_FEE_SCHEDULE Verified Volatile = layers 18 5 6"
| "SDK_FEE_SCHEDULE Premium Stable = layers 8 2 2"
| "SDK_FEE_SCHEDULE Premium Volatile = layers 18 3 4"
| "SDK_FEE_SCHEDULE Institutional Stable = layers 8 1 1"
| "SDK_FEE_SCHEDULE Institutional Volatile = layers 18 2 2"

definition headline_bps :: "sdk_layers \<Rightarrow> num" where
  "headline_bps l = sl_solver l + sl_venue l + sl_routing l"

definition TIER_ORDER :: "fee_tier list" where
  "TIER_ORDER = [Standard, Trusted, Verified, Premium, Institutional]"

definition TIER_MINS :: "num list" where
  "TIER_MINS = [0, 25, 50, 75, 100]"

record tier_info =
  ti_name :: fee_tier
  ti_min :: num
  ti_max :: jsnum
  ti_rate :: num

definition TIERS :: "tier_info list" where
  "TIERS = map (\<lambda>i. \<lparr>ti_name = TIER_ORDER ! i, ti_min = TIER_MINS ! i,
     ti_max = (if i < 4 then Fin (TIER_MINS ! (i + 1) - 1) else PosInf),
     ti_rate = headline_bps (SDK_FEE_SCHEDULE (TIER_ORDER ! i) Stable) / 100\<rparr>) [0..<5]"

definition SHIELDED_MIN_SCORE :: num where
  "SHIELDED_MIN_SCORE = 50"

datatype privacy_name = Open | PublicLevel | StandardLevel | StealthLevel | PrivateLevel | Sovereign
datatype settlement_kind = PublicSettlement | Erc5564 | Aztec

record privacy_level =
  pv_name :: privacy_name
  pv_minTrustScore :: num
  pv_settlement :: settlement_kind

definition PRIVACY_LEVELS :: "privacy_level list" where
  "PRIVACY_LEVELS = map (\<lambda>(n, m, s). \<lparr>pv_name = n, pv_minTrustScore = m, pv_settlement = s\<rparr>)
     [(Open, 0, PublicSettlement), (PublicLevel, 0, PublicSettlement), (StandardLevel, 0, PublicSettlement),
      (StealthLevel, 0, Erc5564), (PrivateLevel, 50, Aztec), (Sovereign, 75, Aztec)]"

definition sanitize_score :: "jsnum \<Rightarrow> num" where
  "sanitize_score s = (case s of Fin r \<Rightarrow> if r < 0 then 0 else r | _ \<Rightarrow> 0)"

definition get_tier_name :: "jsnum \<Rightarrow> fee_tier" where
  "get_tier_name score = (let s = sanitize_score score in
     if s \<ge> 100 then Institutional else if s \<ge> 75 then Premium else if s \<ge> 50 then Verified
     else if s \<ge> 25 then Trusted else Standard)"

definition get_fee_schedule :: "jsnum \<Rightarrow> asset_class \<Rightarrow> sdk_layers" where
  "get_fee_schedule score a = SDK_FEE_SCHEDULE (get_tier_name score) a"

definition get_fee_bps :: "jsnum \<Rightarrow> asset_class \<Rightarrow> num" where
  "get_fee_bps score a = headline_bps (get_fee_schedule score a)"

definition get_fee_rate :: "jsnum \<Rightarrow> asset_class \<Rightarrow> num" where
  "get_fee_rate score a = get_fee_bps score a / 100"

definition in_tier :: "jsnum \<Rightarrow> tier_info \<Rightarrow> bool" where
  "in_tier s t \<longleftrightarrow> js_le (Fin (ti_min t)) s \<and> js_le s (ti_max t)"

definition get_tier_from_score :: "jsnum \<Rightarrow> tier_info" where
  "get_tier_from_score score = or_else (find (in_tier (Fin (sanitize_score score))) TIERS) (TIERS ! 0)"

text \<open>\<open>findIndex\<close> is -1 when nothing is found, so the next tier is then the first.\<close>

definition get_next_tier :: "jsnum \<Rightarrow> tier_info option" where
  "get_next_tier score = (case find (\<lambda>i. in_tier score (TIERS ! i)) [0..<5] of
     None \<Rightarrow> Some (TIERS ! 0)
   | Some i \<Rightarrow> if i < 4 then Some (TIERS ! (i + 1)) else None)"

definition get_max_privacy_level :: "jsnum \<Rightarrow> privacy_name" where
  "get_max_privacy_level score = (let s = sanitize_score score in
     if s \<ge> 75 then Sovereign else if s \<ge> 50 then PrivateLevel else StealthLevel)"

definition get_privacy_level :: "privacy_name \<Rightarrow> privacy_level" where
  "get_privacy_level n = or_else (find (\<lambda>p. pv_name p = n) PRIVACY_LEVELS) (PRIVACY_LEVELS ! 2)"

definition is_privacy_level_allowed :: "privacy_name \<Rightarrow> jsnum \<Rightarrow> bool" where
  "is_privacy_level_allowed n score \<longleftrightarrow> sanitize_score score \<ge> pv_minTrustScore (get_privacy_level n)"

section \<open>Scoring\<close>

definition CATEGORIES :: "string list" where
  "CATEGORIES = [''humanity'', ''identity'', ''reputation'', ''compliance'']"

definition CATEGORY_MAX :: "string \<Rightarrow> num" where
  "CATEGORY_MAX c = (if c = ''humanity'' then 25 else if c = ''identity'' then 35
     else if c = ''reputation'' then 20 else 40)"

text \<open>
  The names every object inherits are \<open>in\<close> a plain object too, and reading one of \<open>grouped\<close> answers a
  value that is no array.
\<close>

record attestation =
  at_category :: string
  at_points :: num

text \<open>\<open>0.1\<close> as a double, and a product rounded to one.\<close>

definition tenth :: num where
  "tenth = 3602879701896397 / 36028797018963968"

definition times_multiplier :: "nat \<Rightarrow> num \<Rightarrow> num" where
  "times_multiplier i points = fl_num (if i = 0 then points else if i = 1 then points * (1 / 4) else points * tenth)"

fun score_sorted :: "nat \<Rightarrow> num list \<Rightarrow> num" where
  "score_sorted i [] = 0"
| "score_sorted i (p # ps) = of_int \<lfloor>times_multiplier i p\<rfloor> + score_sorted (Suc i) ps"

definition points_of :: "string \<Rightarrow> attestation list \<Rightarrow> num list" where
  "points_of c atts = map at_points (filter (\<lambda>a. at_category a = c) atts)"

definition category_score :: "string \<Rightarrow> attestation list \<Rightarrow> num" where
  "category_score c atts = min (score_sorted 0 (sort_key uminus (points_of c atts))) (CATEGORY_MAX c)"

text \<open>\<open>None\<close> is the \<open>TypeError\<close> of pushing onto what is no array.\<close>

definition calculate_score_from_attestations :: "attestation list \<Rightarrow> (num \<times> (string \<times> num) list) option" where
  "calculate_score_from_attestations atts =
     (if list_ex (\<lambda>a. at_category a \<in> set prototype_keys) atts then None
      else (let by = map (\<lambda>c. (c, category_score c atts)) CATEGORIES in Some (foldl (\<lambda>s kv. s + snd kv) 0 by, by)))"

section \<open>Recency\<close>

definition DEFAULT_MAX_PROOF_AGE :: num where
  "DEFAULT_MAX_PROOF_AGE = 3600"

datatype recency_fault = BadMaxAge | BadTimestamp | BadNow | InFuture | TooOld

definition natural :: "jsnum \<Rightarrow> bool" where
  "natural n = (case int_of_num n of Some k \<Rightarrow> 0 \<le> k \<and> k < 2 ^ 53 | None \<Rightarrow> False)"

definition recency_error :: "jsnum \<Rightarrow> jsnum \<Rightarrow> jsnum \<Rightarrow> recency_fault option" where
  "recency_error stamp max_age now =
     (if \<not> natural max_age then Some BadMaxAge
      else if \<not> natural stamp then Some BadTimestamp
      else if \<not> natural now then Some BadNow
      else if js_less now stamp then Some InFuture
      else (case (now, stamp, max_age) of (Fin n, Fin s, Fin m) \<Rightarrow> if n - s > m then Some TooOld else None | _ \<Rightarrow> None))"

definition is_proof_recent :: "jsnum \<Rightarrow> jsnum \<Rightarrow> jsnum \<Rightarrow> bool" where
  "is_proof_recent stamp max_age now \<longleftrightarrow> recency_error stamp max_age now = None"

definition assert_proof_recent :: "jsnum \<Rightarrow> jsnum \<Rightarrow> jsnum \<Rightarrow> recency_fault check" where
  "assert_proof_recent stamp max_age now = (case recency_error stamp max_age now of None \<Rightarrow> passed | Some e \<Rightarrow> Inl e)"

text \<open>The stamp read from the chain: the earlier of the head's time and the local clock, in seconds.\<close>

definition chain_proof_timestamp :: "int \<Rightarrow> num \<Rightarrow> (int \<times> int) + string" where
  "chain_proof_timestamp block_time now_ms = (let now = \<lfloor>now_ms / 1000\<rfloor> in
     if block_time - now > 3600 then Inl (block_time, now)
     else Inr (show_int (if block_time < now then block_time else now)))"

section \<open>Whole scores read one way\<close>

lemma tiers_are: "TIERS = [\<lparr>ti_name = Standard, ti_min = 0, ti_max = Fin 24, ti_rate = 22 / 100\<rparr>,
    \<lparr>ti_name = Trusted, ti_min = 25, ti_max = Fin 49, ti_rate = 19 / 100\<rparr>,
    \<lparr>ti_name = Verified, ti_min = 50, ti_max = Fin 74, ti_rate = 15 / 100\<rparr>,
    \<lparr>ti_name = Premium, ti_min = 75, ti_max = Fin 99, ti_rate = 12 / 100\<rparr>,
    \<lparr>ti_name = Institutional, ti_min = 100, ti_max = PosInf, ti_rate = 10 / 100\<rparr>]"
  by (simp add: TIERS_def TIER_ORDER_def TIER_MINS_def headline_bps_def layers_def upt_rec)

text \<open>
  C34. One schedule. At every whole trust score the SDK's tier by threshold, its tier by range and the client's
  tier are the same, and the SDK's fee layers are the client's, on either asset class.
\<close>

theorem whole_scores_agree:
  fixes n :: int
  defines "t \<equiv> score_to_tier (Fin (of_int n))"
  shows "get_tier_name (Fin (of_int n)) = t \<and> ti_name (get_tier_from_score (Fin (of_int n))) = t
    \<and> get_fee_schedule (Fin (of_int n)) a = layers (of_int (solver_base_bps a)) (of_int (venue_bps t a)) (of_int (routing_bps t a))"
proof -
  have name: "get_tier_name (Fin (of_int n)) = t"
    by (simp add: t_def score_to_tier_int get_tier_name_def sanitize_score_def Let_def)
  moreover have "ti_name (get_tier_from_score (Fin (of_int n))) = t"
    unfolding t_def get_tier_from_score_def tiers_are
    by (auto simp: score_to_tier_int in_tier_def sanitize_score_def)
  moreover have "get_fee_schedule (Fin (of_int n)) a = layers (of_int (solver_base_bps a)) (of_int (venue_bps t a)) (of_int (routing_bps t a))"
    unfolding get_fee_schedule_def name by (cases t; cases a) (simp_all add: solver_base_bps_def)
  ultimately show ?thesis by blast
qed

text \<open>Between two whole scores the range table has a gap, which the threshold ladder does not have.\<close>

lemma half_scores_differ:
  "get_tier_name (Fin (99 / 2)) = Trusted" "ti_name (get_tier_from_score (Fin (99 / 2))) = Standard"
  "map_option ti_name (get_next_tier (Fin (99 / 2))) = Some Standard"
  by (simp_all add: get_tier_name_def sanitize_score_def get_tier_from_score_def get_next_tier_def in_tier_def tiers_are upt_rec)

section \<open>More attestations never score less\<close>

definition sane_points :: "attestation \<Rightarrow> bool" where
  "sane_points a \<longleftrightarrow> 0 \<le> at_points a \<and> at_points a < 2 ^ 53"

lemma multiplied_mono:
  assumes "0 \<le> p" "p \<le> q" "q < 2 ^ 53"
  shows "\<lfloor>times_multiplier i p\<rfloor> \<le> \<lfloor>times_multiplier i q\<rfloor>" "0 \<le> \<lfloor>times_multiplier i p\<rfloor>"
proof -
  have r: "fl_num (p * m) \<le> fl_num (q * m)" "0 \<le> fl_num (p * m)" if "0 \<le> m" "m \<le> 1" for m
  proof -
    have le: "p * m \<le> q * m" "0 \<le> p * m" using assms that by (auto intro: mult_right_mono)
    have "q * m \<le> q * 1" using assms that by (intro mult_left_mono) auto
    then have lt: "q * m < 2 ^ 53" "p * m < 2 ^ 53" using assms(3) le by linarith+
    show "fl_num (p * m) \<le> fl_num (q * m)" using le lt rd_mono [OF le(2,1)] by (simp add: fl_num_rd)
    show "0 \<le> fl_num (p * m)" using le lt rd_int_bounds(2) [of "p * m" 0] by (simp add: fl_num_rd)
  qed
  show "\<lfloor>times_multiplier i p\<rfloor> \<le> \<lfloor>times_multiplier i q\<rfloor>" "0 \<le> \<lfloor>times_multiplier i p\<rfloor>"
    using r [of 1] r [of "1 / 4"] r [of tenth] by (auto simp: times_multiplier_def tenth_def intro: floor_mono)
qed

definition sane :: "num list \<Rightarrow> bool" where
  "sane ps \<longleftrightarrow> (\<forall>p \<in> set ps. 0 \<le> p \<and> p < 2 ^ 53)"

lemma score_drop_head: "sorted_wrt (\<ge>) (p # ps) \<Longrightarrow> sane (p # ps) \<Longrightarrow> score_sorted i ps \<le> score_sorted i (p # ps)"
proof (induction ps arbitrary: p i)
  case Nil
  then show ?case using multiplied_mono(2) [of p p i] by (simp add: sane_def)
next
  case (Cons q qs)
  from Cons.IH [of q "Suc i"] Cons.prems have "score_sorted (Suc i) qs \<le> score_sorted (Suc i) (q # qs)"
    by (simp add: sane_def)
  moreover have "\<lfloor>times_multiplier i q\<rfloor> \<le> \<lfloor>times_multiplier i p\<rfloor>"
    using Cons.prems by (intro multiplied_mono) (auto simp: sane_def)
  ultimately show ?case by simp
qed

lemma score_insert:
  "sorted_wrt (\<ge>) ps \<Longrightarrow> sane (p # ps) \<Longrightarrow> score_sorted i ps \<le> score_sorted i (insort_key uminus p ps)"
proof (induction ps arbitrary: i)
  case Nil
  then show ?case using multiplied_mono(2) [of p p i] by (simp add: sane_def)
next
  case (Cons q qs)
  show ?case
  proof (cases "q \<le> p")
    case True
    then have "sorted_wrt (\<ge>) (p # q # qs)" using Cons.prems(1) by auto
    from score_drop_head [OF this] Cons.prems(2) True show ?thesis by simp
  next
    case False
    then show ?thesis using Cons.IH [of "Suc i"] Cons.prems by (auto simp: sane_def)
  qed
qed

lemma sorted_desc: "sorted_wrt (\<ge>) (sort_key uminus (ps :: num list))"
  using sorted_sort_key [of uminus ps] by (simp add: sorted_map)

lemma sort_desc_mset: "mset ps = mset qs \<Longrightarrow> sort_key uminus (ps :: num list) = sort_key uminus qs"
proof -
  have r: "sort xs = rev (sort_key uminus xs)" for xs :: "num list"
    using sorted_desc [of xs] by (intro properties_for_sort) (simp_all add: sorted_wrt_rev)
  assume "mset ps = mset qs"
  then have "sort ps = sort qs" by (metis sorted_list_of_multiset_mset)
  then show ?thesis unfolding r by simp
qed

lemma score_add: "sane (p # ps) \<Longrightarrow> score_sorted 0 (sort_key uminus ps) \<le> score_sorted 0 (sort_key uminus (p # ps))"
  using score_insert [OF sorted_desc, of p ps 0] by (simp add: sane_def)

lemma score_more:
  assumes "mset ps \<subseteq># mset qs" "sane qs"
  shows "score_sorted 0 (sort_key uminus ps) \<le> score_sorted 0 (sort_key uminus qs)"
proof -
  obtain rs where rs: "mset qs = mset (rs @ ps)"
    using assms(1) by (metis ex_mset mset_append subset_mset.add_diff_inverse union_commute)
  have "sane (rs @ ps)" using assms(2) mset_eq_setD [OF rs] by (simp add: sane_def)
  then have "score_sorted 0 (sort_key uminus ps) \<le> score_sorted 0 (sort_key uminus (rs @ ps))"
  proof (induction rs)
    case (Cons r rs)
    then have "score_sorted 0 (sort_key uminus ps) \<le> score_sorted 0 (sort_key uminus (rs @ ps))" by (simp add: sane_def)
    also have "\<dots> \<le> score_sorted 0 (sort_key uminus (r # rs @ ps))" using Cons.prems by (intro score_add) simp
    finally show ?case by simp
  qed simp
  then show ?thesis using sort_desc_mset [OF rs] by simp
qed

lemma points_mset: "mset xs \<subseteq># mset ys \<Longrightarrow> mset (points_of c xs) \<subseteq># mset (points_of c ys)"
  by (simp add: points_of_def image_mset_subseteq_mono multiset_filter_mono)

lemma sane_category: "\<forall>a \<in> set xs. sane_points a \<Longrightarrow> sane (points_of c xs)"
  by (auto simp: sane_def points_of_def sane_points_def)

lemma category_bounds:
  assumes "mset xs \<subseteq># mset ys" "\<forall>a \<in> set ys. sane_points a"
  shows "0 \<le> category_score c xs" "category_score c xs \<le> category_score c ys" "category_score c ys \<le> CATEGORY_MAX c"
proof -
  have s: "sane (points_of c ys)" "sane (points_of c xs)"
    using assms(2) set_mset_mono [OF assms(1)] by (auto intro: sane_category)
  from score_more [OF _ s(2), of "[]"] show "0 \<le> category_score c xs"
    by (simp add: category_score_def CATEGORY_MAX_def)
  show "category_score c xs \<le> category_score c ys"
    using score_more [OF points_mset [OF assms(1)] s(1)] by (simp add: category_score_def min.coboundedI1)
  show "category_score c ys \<le> CATEGORY_MAX c" by (simp add: category_score_def)
qed

text \<open>
  C33. Attestations only add. Whenever attestations with points from 0 up to 2 to the 53, none of a category that
  every object inherits, are added, in whatever order they are listed, both scores are computed and the score does
  not fall, in total or in any category; no category passes its cap and the total stays in 0 to 120. Outside
  those conditions it can: negative points are added as they are, and an inherited category throws.
\<close>

theorem attestations_only_add:
  assumes "mset xs \<subseteq># mset ys" "\<forall>a \<in> set ys. sane_points a \<and> at_category a \<notin> set prototype_keys"
  shows "\<exists>s by1 t by2. calculate_score_from_attestations xs = Some (s, by1) \<and> calculate_score_from_attestations ys = Some (t, by2)
    \<and> 0 \<le> s \<and> s \<le> t \<and> t \<le> 120 \<and> list_all2 (\<lambda>(c, u) (d, v). c = d \<and> 0 \<le> u \<and> u \<le> v \<and> v \<le> CATEGORY_MAX c) by1 by2"
proof -
  have "\<forall>a \<in> set ys. sane_points a" "\<forall>a \<in> set xs. at_category a \<notin> set prototype_keys"
    using assms(2) set_mset_mono [OF assms(1)] by auto
  note b = category_bounds [OF assms(1) this(1)] and xs = this(2)
  obtain s by1 t by2 where c: "calculate_score_from_attestations xs = Some (s, by1)" "calculate_score_from_attestations ys = Some (t, by2)"
    using xs assms(2) by (auto simp: calculate_score_from_attestations_def list_ex_iff Let_def)
  then have "s = category_score ''humanity'' xs + category_score ''identity'' xs + category_score ''reputation'' xs + category_score ''compliance'' xs"
    "t = category_score ''humanity'' ys + category_score ''identity'' ys + category_score ''reputation'' ys + category_score ''compliance'' ys"
    "by1 = map (\<lambda>c. (c, category_score c xs)) CATEGORIES" "by2 = map (\<lambda>c. (c, category_score c ys)) CATEGORIES"
    by (auto simp: calculate_score_from_attestations_def CATEGORIES_def Let_def split: if_splits)
  moreover have "CATEGORY_MAX ''humanity'' + CATEGORY_MAX ''identity'' + CATEGORY_MAX ''reputation'' + CATEGORY_MAX ''compliance'' = 120"
    by (simp add: CATEGORY_MAX_def)
  ultimately show ?thesis
    using c b [of "''humanity''"] b [of "''identity''"] b [of "''reputation''"] b [of "''compliance''"]
    by (simp add: CATEGORIES_def)
qed

text \<open>Negative points lower a score: nothing holds them to zero.\<close>

lemma small_negative: "fl_num (- 5) = - 5"
proof -
  have "bit_len 5 = 3" by (simp add: bit_len.simps)
  then have q: "spacing (- 5) = 8 / 9007199254740992" by (simp add: spacing_def)
  have "round_even (- 5 / spacing (- 5)) = - 5629499534213120"
    using round_even_of_int [of "- 5629499534213120"] unfolding q by simp
  then show ?thesis by (simp add: fl_num_def fl_def q)
qed

lemma negative_points_lower:
  "calculate_score_from_attestations [\<lparr>at_category = ''identity'', at_points = - 5\<rparr>]
     = Some (- 5, [(''humanity'', 0), (''identity'', - 5), (''reputation'', 0), (''compliance'', 0)])"
  by (simp add: calculate_score_from_attestations_def prototype_keys_def CATEGORIES_def category_score_def points_of_def
    CATEGORY_MAX_def times_multiplier_def small_negative Let_def)

text \<open>A category named like a property every object inherits is not skipped: reading its group throws.\<close>

lemma inherited_category_throws:
  "calculate_score_from_attestations [\<lparr>at_category = ''constructor'', at_points = 5\<rparr>] = None"
  "calculate_score_from_attestations [\<lparr>at_category = ''unknown'', at_points = 5\<rparr>] \<noteq> None"
  by (simp_all add: calculate_score_from_attestations_def prototype_keys_def Let_def)

definition passport :: attestation where
  "passport = \<lparr>at_category = ''identity'', at_points = 20\<rparr>"

definition licence :: attestation where
  "licence = \<lparr>at_category = ''identity'', at_points = 30\<rparr>"

lemma passport_scores: "\<exists>s by1. calculate_score_from_attestations [passport] = Some (s, by1)"
  "\<exists>t by2. calculate_score_from_attestations [licence, passport] = Some (t, by2)"
  by (simp_all add: calculate_score_from_attestations_def prototype_keys_def Let_def passport_def licence_def)

lemma attestations_witness:
  "\<exists>s by1 t by2. calculate_score_from_attestations [passport] = Some (s, by1)
     \<and> calculate_score_from_attestations [licence, passport] = Some (t, by2) \<and> 0 \<le> s \<and> s \<le> t \<and> t \<le> 120"
proof -
  obtain s by1 t by2 where c: "calculate_score_from_attestations [passport] = Some (s, by1)"
    "calculate_score_from_attestations [licence, passport] = Some (t, by2)"
    using passport_scores by blast
  have sane: "\<forall>a \<in> set [licence, passport]. sane_points a \<and> at_category a \<notin> set prototype_keys"
    by (simp add: sane_points_def passport_def licence_def prototype_keys_def)
  have "mset [passport] \<subseteq># mset [licence, passport]" by simp
  from attestations_only_add [OF this sane] show ?thesis using c by auto
qed

end
