(* ===== verification/Execution.thy ===== *)
theory Execution
  imports SdkTiers
begin

text \<open>
  Planning a split settlement, \<open>packages/sdk/src/split.ts\<close>, \<open>venue-router.ts\<close>, \<open>diffusion-scheduler.ts\<close> and
  \<open>execution-orchestrator.ts\<close>, which composes the three. Parameters: the id of the trade (a viem hash of the
  request and a random nonce, \<open>None\<close> when the ABI coder refuses the amount) and the words of
  \<open>crypto.getRandomValues\<close>. A count of sub-trades stays inside the safe integers.
\<close>

datatype plan_error =
    BadThreshold | BadMaxSubTrades | BadMinSize | BadTotal | Unhashable | NotAnInteger
  | BadTrustScore | NoPreference | UnknownVenue string | NoVenueFits nat
  | LengthMismatch | BadWindow | WindowTooShort
  | BadGasBudget | BadSlippage

section \<open>Splitting\<close>

record split_config =
  sc_splitThreshold :: int
  sc_maxSubTrades :: jsnum
  sc_minSubTradeSize :: int

record sub_trade =
  st_index :: nat
  st_amount :: int

record split_plan =
  sp_tradeId :: string
  sp_subTrades :: "sub_trade list"
  sp_totalAmount :: int
  sp_splitConfig :: split_config

definition MIN_SPLIT_THRESHOLD :: int where
  "MIN_SPLIT_THRESHOLD = 10 * 10 ^ 18"

definition DEFAULT_SPLIT_CONFIG :: split_config where
  "DEFAULT_SPLIT_CONFIG = \<lparr>sc_splitThreshold = 100 * 10 ^ 18, sc_maxSubTrades = Fin 10, sc_minSubTradeSize = 1 * 10 ^ 18\<rparr>"

definition validate_split_config :: "split_config \<Rightarrow> plan_error check" where
  "validate_split_config c = check_all
     [refuse_if (sc_splitThreshold c < MIN_SPLIT_THRESHOLD) BadThreshold,
      refuse_if (js_less (sc_maxSubTrades c) (Fin 2) \<or> js_less (Fin 100) (sc_maxSubTrades c)) BadMaxSubTrades,
      refuse_if (sc_minSubTradeSize c \<le> 0) BadMinSize]"

text \<open>The first count: the ceiling of total over threshold, at least 2 and at most the cap.\<close>

definition initial_count :: "split_config \<Rightarrow> int \<Rightarrow> num" where
  "initial_count c amount = (let n = of_int ((amount + sc_splitThreshold c - 1) div sc_splitThreshold c);
     m = (if n < 2 then 2 else n) in case sc_maxSubTrades c of Fin k \<Rightarrow> if m > k then k else m | _ \<Rightarrow> m)"

definition equal_parts :: "int \<Rightarrow> nat \<Rightarrow> int \<Rightarrow> sub_trade list" where
  "equal_parts amount n base = map (\<lambda>i. \<lparr>st_index = i, st_amount = base\<rparr>) [0..<n - 1]
     @ [\<lparr>st_index = n - 1, st_amount = amount - base * int (n - 1)\<rparr>]"

definition whole_trade :: "int \<Rightarrow> sub_trade list" where
  "whole_trade amount = [\<lparr>st_index = 0, st_amount = amount\<rparr>]"

text \<open>The loop that lowers the count; \<open>BigInt(n)\<close> refuses a fraction.\<close>

function split_from :: "int \<Rightarrow> int \<Rightarrow> num \<Rightarrow> plan_error + sub_trade list" where
  "split_from amount min_size n =
     (if n < 2 then Inr (whole_trade amount)
      else if \<not> is_int_num n then Inl NotAnInteger
      else if amount div \<lfloor>n\<rfloor> \<ge> min_size then Inr (equal_parts amount (nat \<lfloor>n\<rfloor>) (amount div \<lfloor>n\<rfloor>))
      else split_from amount min_size (n - 1))"
  by pat_completeness auto
termination
proof (relation "measure (\<lambda>(t, m, n). nat \<lfloor>n\<rfloor>)")
  fix amount min_size :: int and n :: num
  assume "\<not> n < 2"
  then have "2 \<le> \<lfloor>n\<rfloor>" by (simp add: le_floor_iff)
  then show "((amount, min_size, n - 1), amount, min_size, n) \<in> measure (\<lambda>(t, m, n). nat \<lfloor>n\<rfloor>)" by simp
qed simp

declare split_from.simps [simp del]

definition plan_split :: "(int \<Rightarrow> num \<Rightarrow> string \<Rightarrow> string option) \<Rightarrow> int \<Rightarrow> num \<Rightarrow> string \<Rightarrow> split_config \<Rightarrow> plan_error + split_plan" where
  "plan_split trade_id amount jurisdiction submitter c = then_check (validate_split_config c) (\<lambda>_.
     if amount \<le> 0 then Inl BadTotal
     else (case trade_id amount jurisdiction submitter of
         None \<Rightarrow> Inl Unhashable
       | Some tid \<Rightarrow> then_check (if amount \<le> sc_splitThreshold c then Inr (whole_trade amount)
             else split_from amount (sc_minSubTradeSize c) (initial_count c amount)) (\<lambda>parts.
           Inr \<lparr>sp_tradeId = tid, sp_subTrades = parts, sp_totalAmount = amount, sp_splitConfig = c\<rparr>)))"

section \<open>Venues\<close>

datatype venue_id = Shielded | Stealth | PublicVenue

definition venue_named :: "string \<Rightarrow> venue_id option" where
  "venue_named s = (if s = ''public'' then Some PublicVenue else if s = ''stealth'' then Some Stealth
     else if s = ''shielded'' then Some Shielded else None)"

record venue_assignment =
  va_index :: nat
  va_venue :: venue_id
  va_estimatedGas :: int

record venue_constraints =
  vc_trustScore :: jsnum
  vc_gasEstimates :: "venue_id \<Rightarrow> int"

definition DEFAULT_GAS_ESTIMATES :: "venue_id \<Rightarrow> int" where
  "DEFAULT_GAS_ESTIMATES v = (case v of PublicVenue \<Rightarrow> 65000 | Stealth \<Rightarrow> 150000 | Shielded \<Rightarrow> 400000)"

definition VENUE_MIN_SCORES :: "venue_id \<Rightarrow> num" where
  "VENUE_MIN_SCORES v = (case v of PublicVenue \<Rightarrow> pv_minTrustScore (get_privacy_level PublicLevel)
     | Stealth \<Rightarrow> pv_minTrustScore (get_privacy_level StealthLevel) | Shielded \<Rightarrow> SHIELDED_MIN_SCORE)"

definition validate_constraints :: "venue_constraints \<Rightarrow> plan_error + num" where
  "validate_constraints vc = (case vc_trustScore vc of Fin r \<Rightarrow> if r < 0 then Inl BadTrustScore else Inr r | _ \<Rightarrow> Inl BadTrustScore)"

definition validate_preference :: "string list \<Rightarrow> plan_error + venue_id list" where
  "validate_preference ps = (if ps = [] then Inl NoPreference
     else foldr (\<lambda>p r. case venue_named p of None \<Rightarrow> Inl (UnknownVenue p) | Some v \<Rightarrow> then_check r (\<lambda>vs. Inr (v # vs))) ps (Inr []))"

definition ordered_preference :: "venue_id list \<Rightarrow> venue_id list" where
  "ordered_preference vs = filter (\<lambda>v. v \<in> set vs) [Shielded, Stealth, PublicVenue]"

definition fits :: "num \<Rightarrow> (venue_id \<Rightarrow> int) \<Rightarrow> int \<Rightarrow> int \<Rightarrow> venue_id \<Rightarrow> bool" where
  "fits score gas budget remaining v \<longleftrightarrow> \<not> score < VENUE_MIN_SCORES v \<and> \<not> (budget > 0 \<and> gas v > remaining)"

fun assign_each :: "num \<Rightarrow> (venue_id \<Rightarrow> int) \<Rightarrow> int \<Rightarrow> venue_id list \<Rightarrow> int \<Rightarrow> sub_trade list \<Rightarrow> plan_error + venue_assignment list" where
  "assign_each score gas budget prefs remaining [] = Inr []"
| "assign_each score gas budget prefs remaining (t # ts) = (case find (fits score gas budget remaining) prefs of
     None \<Rightarrow> Inl (NoVenueFits (st_index t))
   | Some v \<Rightarrow> then_check (assign_each score gas budget prefs (if budget > 0 then remaining - gas v else remaining) ts) (\<lambda>as.
       Inr (\<lparr>va_index = st_index t, va_venue = v, va_estimatedGas = gas v\<rparr> # as)))"

definition assign_venues :: "sub_trade list \<Rightarrow> string list \<Rightarrow> venue_constraints \<Rightarrow> int \<Rightarrow> plan_error + venue_assignment list" where
  "assign_venues ts prefs vc budget = then_check (validate_constraints vc) (\<lambda>score.
     then_check (validate_preference prefs) (\<lambda>vs.
     if ts = [] then Inr []
     else then_check (assign_each score (vc_gasEstimates vc) budget (ordered_preference vs) budget
         (sort_key (\<lambda>t. - st_amount t) ts)) (\<lambda>as. Inr (sort_key va_index as))))"

section \<open>Diffusion\<close>

record scheduled_sub_trade = sub_trade +
  ss_venue :: venue_id
  ss_targetTimestamp :: num

definition MIN_SPACING_SECONDS :: int where
  "MIN_SPACING_SECONDS = 12"

definition scheduled :: "sub_trade \<Rightarrow> venue_id \<Rightarrow> num \<Rightarrow> scheduled_sub_trade" where
  "scheduled t v at1 = sub_trade.extend t \<lparr>ss_venue = v, ss_targetTimestamp = at1\<rparr>"

text \<open>\<open>Math.floor(((i + random / 2 ** 32) * slack) / n)\<close>\<close>

definition jitter_offset :: "nat \<Rightarrow> int \<Rightarrow> nat \<Rightarrow> nat \<Rightarrow> int" where
  "jitter_offset n slack word i = \<lfloor>fl_num (fl_num (fl_num (of_nat i + of_nat word / 2 ^ 32) * of_int slack) / of_nat n)\<rfloor>"

definition schedule_diffusion :: "(nat \<Rightarrow> nat list) \<Rightarrow> sub_trade list \<Rightarrow> venue_id list \<Rightarrow> jsnum \<Rightarrow> plan_error + scheduled_sub_trade list" where
  "schedule_diffusion random ts vs window =
     (if ts = [] then Inr []
      else if length ts \<noteq> length vs then Inl LengthMismatch
      else (case window of
          Fin w \<Rightarrow> (let n = length ts; min_window = int (n - 1) * MIN_SPACING_SECONDS in
            if w < 0 then Inl BadWindow
            else if w = 0 then Inr (map2 (\<lambda>t v. scheduled t v 0) ts vs)
            else if w < of_int min_window then Inl WindowTooShort
            else (let slack = \<lfloor>w\<rfloor> - min_window; words = random n in
              Inr (map (\<lambda>i. scheduled (ts ! i) (vs ! i)
                (of_int (jitter_offset n slack (words ! i) i + int i * MIN_SPACING_SECONDS))) [0..<n])))
        | _ \<Rightarrow> Inl BadWindow))"

section \<open>The plan\<close>

record execution_config =
  xc_splitConfig :: split_config
  xc_maxGasBudget :: int
  xc_maxSlippagePerSubTrade :: jsnum
  xc_diffusionWindow :: jsnum
  xc_venuePreference :: "string list"

record execution_plan =
  xp_tradeId :: string
  xp_subTrades :: "scheduled_sub_trade list"
  xp_totalAmount :: int
  xp_config :: execution_config

definition DEFAULT_EXECUTION_CONFIG :: execution_config where
  "DEFAULT_EXECUTION_CONFIG = \<lparr>xc_splitConfig = DEFAULT_SPLIT_CONFIG, xc_maxGasBudget = 0, xc_maxSlippagePerSubTrade = Fin 50,
     xc_diffusionWindow = Fin 0, xc_venuePreference = [''public'']\<rparr>"

definition validate_execution_config :: "execution_config \<Rightarrow> plan_error check" where
  "validate_execution_config c = check_all
     [refuse_if (xc_maxGasBudget c < 0) BadGasBudget,
      refuse_if (js_less (xc_maxSlippagePerSubTrade c) (Fin 1) \<or> js_less (Fin 10000) (xc_maxSlippagePerSubTrade c)) BadSlippage,
      refuse_if (js_less (xc_diffusionWindow c) (Fin 0)) BadWindow,
      refuse_if (xc_venuePreference c = []) NoPreference]"

definition plan_execution :: "(int \<Rightarrow> num \<Rightarrow> string \<Rightarrow> string option) \<Rightarrow> (nat \<Rightarrow> nat list) \<Rightarrow> int \<Rightarrow> num \<Rightarrow> string
    \<Rightarrow> venue_constraints \<Rightarrow> execution_config \<Rightarrow> plan_error + execution_plan" where
  "plan_execution trade_id random amount jurisdiction submitter vc c = then_check (validate_execution_config c) (\<lambda>_.
     then_check (plan_split trade_id amount jurisdiction submitter (xc_splitConfig c)) (\<lambda>sp.
     then_check (assign_venues (sp_subTrades sp) (xc_venuePreference c) vc (xc_maxGasBudget c)) (\<lambda>as.
     then_check (schedule_diffusion random (sp_subTrades sp) (map va_venue as) (xc_diffusionWindow c)) (\<lambda>ss.
       Inr \<lparr>xp_tradeId = sp_tradeId sp, xp_subTrades = ss, xp_totalAmount = sp_totalAmount sp, xp_config = c\<rparr>))))"

end
