(* ===== verification/ExecutionSound.thy ===== *)
theory ExecutionSound
  imports Execution
begin

text \<open>
  What a plan of \<open>Execution\<close> guarantees: each stage keeps its own contract, and the composed plan pays out
  the whole amount, within the gas budget, at venues the score admits, spaced inside the window.
\<close>

section \<open>Splitting\<close>

definition splits_well :: "int \<Rightarrow> int \<Rightarrow> sub_trade list \<Rightarrow> bool" where
  "splits_well amount min_size ts \<longleftrightarrow> ts \<noteq> [] \<and> map st_index ts = [0..<length ts]
     \<and> sum_list (map st_amount ts) = amount \<and> (\<forall>t \<in> set ts. st_amount t > 0)
     \<and> (length ts = 1 \<or> (\<forall>t \<in> set ts. st_amount t \<ge> min_size))"

lemma whole_splits: "amount > 0 \<Longrightarrow> splits_well amount m (whole_trade amount)"
  by (simp add: splits_well_def whole_trade_def)

lemma equal_parts_split:
  assumes "amount > 0" "m > 0" "n \<ge> 2" "amount div int n \<ge> m"
  shows "splits_well amount m (equal_parts amount n (amount div int n))" "length (equal_parts amount n (amount div int n)) = n"
proof -
  let ?b = "amount div int n"
  obtain k where n: "n = Suc k" using assms(3) by (cases n) auto
  have b: "?b * int n \<le> amount" using div_mult_mod_eq [of amount "int n"] pos_mod_sign [of "int n" amount] assms(3) by linarith
  then have last: "?b \<le> amount - ?b * int k" by (simp add: n algebra_simps)
  have "sum_list (map st_amount (equal_parts amount n ?b)) = amount"
    by (simp add: equal_parts_def n comp_def sum_list_triv)
  moreover have "map st_index (equal_parts amount n ?b) = [0..<n]"
    by (simp add: equal_parts_def n comp_def)
  moreover have len: "length (equal_parts amount n ?b) = n" by (simp add: equal_parts_def n)
  moreover have "\<forall>t \<in> set (equal_parts amount n ?b). st_amount t \<ge> m"
    using assms(4) last by (auto simp: equal_parts_def n)
  ultimately show "splits_well amount m (equal_parts amount n ?b)" "length (equal_parts amount n ?b) = n"
    using assms(2,3) by (auto simp: splits_well_def)
qed

lemma split_from_splits:
  assumes "split_from amount m n = Inr ts" "amount > 0" "m > 0"
  shows "splits_well amount m ts \<and> of_nat (length ts) \<le> max 1 n"
  using assms
proof (induction amount m n rule: split_from.induct)
  case (1 a m n)
  show ?case
  proof (cases "n < 2")
    case True
    then have "ts = whole_trade a" using 1(2) by (simp add: split_from.simps)
    then show ?thesis using whole_splits [OF 1(3)] by (simp add: whole_trade_def)
  next
    case n2: False
    then have int: "is_int_num n" using 1(2) by (subst (asm) split_from.simps) (auto split: if_splits)
    then have n: "n = of_int \<lfloor>n\<rfloor>" "int (nat \<lfloor>n\<rfloor>) = \<lfloor>n\<rfloor>" "nat \<lfloor>n\<rfloor> \<ge> 2"
      using n2 by (auto simp: is_int_num_def le_floor_iff nat_le_iff)
    show ?thesis
    proof (cases "a div \<lfloor>n\<rfloor> \<ge> m")
      case True
      then have "ts = equal_parts a (nat \<lfloor>n\<rfloor>) (a div int (nat \<lfloor>n\<rfloor>))"
        using 1(2) n2 int n(2) by (simp add: split_from.simps)
      moreover have "rat_of_nat (nat \<lfloor>n\<rfloor>) = n" using n(1,2) by (metis of_int_of_nat_eq)
      ultimately show ?thesis using equal_parts_split [OF 1(3,4) n(3)] True n(2) by simp
    next
      case False
      then have "split_from a m (n - 1) = Inr ts" using 1(2) n2 int by (simp add: split_from.simps [of a m n])
      from 1(1) [OF n2 _ False this 1(3,4)] int show ?thesis by auto
    qed
  qed
qed

text \<open>A plan never has more sub-trades than the cap, whether or not the amount had to be split.\<close>

lemma initial_count_cap: "sc_maxSubTrades c = Fin k \<Longrightarrow> k \<ge> 2 \<Longrightarrow> initial_count c amount \<le> k"
  by (auto simp: initial_count_def Let_def)

lemma plan_split_sound:
  assumes "plan_split tid amount j s c = Inr sp"
  shows "splits_well amount (sc_minSubTradeSize c) (sp_subTrades sp)" "sp_totalAmount sp = amount"
    "sc_maxSubTrades c = Fin k \<Longrightarrow> of_nat (length (sp_subTrades sp)) \<le> k"
    "amount \<le> sc_splitThreshold c \<Longrightarrow> length (sp_subTrades sp) = 1"
proof -
  from assms obtain id where c: "validate_split_config c = passed" "\<not> amount \<le> 0" "tid amount j s = Some id" "sp_totalAmount sp = amount"
    and parts: "(if amount \<le> sc_splitThreshold c then Inr (whole_trade amount)
      else split_from amount (sc_minSubTradeSize c) (initial_count c amount)) = Inr (sp_subTrades sp)"
    by (auto simp: plan_split_def split: if_splits option.splits)
  have m: "sc_minSubTradeSize c > 0" "sc_maxSubTrades c = Fin k \<Longrightarrow> k \<ge> 2"
    using c(1) by (auto simp: validate_split_config_def not_less)
  note whole = whole_splits [of amount "sc_minSubTradeSize c"]
  have len: "length (whole_trade amount) = 1" by (simp add: whole_trade_def)
  show "splits_well amount (sc_minSubTradeSize c) (sp_subTrades sp)"
    using parts split_from_splits [OF _ _ m(1)] whole c(2) by (auto split: if_splits)
  show "amount \<le> sc_splitThreshold c \<Longrightarrow> length (sp_subTrades sp) = 1" using parts len by auto
  show "of_nat (length (sp_subTrades sp)) \<le> k" if k: "sc_maxSubTrades c = Fin k"
  proof (cases "amount \<le> sc_splitThreshold c")
    case True
    then show ?thesis using parts len m(2) [OF k] by auto
  next
    case False
    then have "of_nat (length (sp_subTrades sp)) \<le> max 1 (initial_count c amount)"
      using parts split_from_splits [OF _ _ m(1)] c(2) by auto
    then show ?thesis using initial_count_cap [OF k m(2) [OF k], of amount] m(2) [OF k] by linarith
  qed
  show "sp_totalAmount sp = amount" by fact
qed

section \<open>Venues\<close>

definition admits :: "num \<Rightarrow> (venue_id \<Rightarrow> int) \<Rightarrow> venue_id list \<Rightarrow> venue_assignment \<Rightarrow> bool" where
  "admits score gas vs a \<longleftrightarrow> va_venue a \<in> set vs \<and> VENUE_MIN_SCORES (va_venue a) \<le> score \<and> va_estimatedGas a = gas (va_venue a)"

lemma assign_each_sound:
  assumes "assign_each score gas budget prefs remaining ts = Inr as"
  shows "map va_index as = map st_index ts" "\<forall>a \<in> set as. admits score gas prefs a"
    "budget > 0 \<Longrightarrow> 0 \<le> remaining \<Longrightarrow> sum_list (map va_estimatedGas as) \<le> remaining"
  using assms
proof (induction ts arbitrary: remaining as)
  case (Cons t ts)
  {
    case 1
    then show ?case using Cons.IH(1) by (auto split: option.splits)
  next
    case 2
    then show ?case using Cons.IH(2) by (fastforce split: option.splits simp: find_Some_iff fits_def admits_def not_less)
  next
    case 3
    then obtain v bs where v: "find (fits score gas budget remaining) prefs = Some v"
      "assign_each score gas budget prefs (remaining - gas v) ts = Inr bs" "as = \<lparr>va_index = st_index t, va_venue = v, va_estimatedGas = gas v\<rparr> # bs"
      by (auto split: option.splits)
    then have "gas v \<le> remaining" using 3(1) by (auto simp: find_Some_iff fits_def)
    then have "sum_list (map va_estimatedGas bs) \<le> remaining - gas v" using Cons.IH(3) [OF 3(1) _ v(2)] by simp
    then show ?case using v(3) by simp
  }
qed auto

lemma preference_named: "validate_preference ps = Inr vs \<Longrightarrow> map Some vs = map venue_named ps"
proof (induction ps arbitrary: vs)
  case (Cons p ps)
  then show ?case
    by (cases "ps = []") (auto simp: validate_preference_def split: if_splits option.splits)
qed (simp add: validate_preference_def)

lemma assign_venues_sound:
  assumes "assign_venues ts prefs vc budget = Inr as" "map st_index ts = [0..<length ts]"
  shows "length as = length ts" "map va_index as = [0..<length ts]"
    "\<exists>score. vc_trustScore vc = Fin score \<and> (\<forall>a \<in> set as. (\<exists>p \<in> set prefs. venue_named p = Some (va_venue a))
       \<and> VENUE_MIN_SCORES (va_venue a) \<le> score \<and> va_estimatedGas a = vc_gasEstimates vc (va_venue a))"
    "budget > 0 \<Longrightarrow> sum_list (map va_estimatedGas as) \<le> budget"
proof -
  from assms(1) obtain score vs where v: "validate_constraints vc = Inr score" "validate_preference prefs = Inr vs"
    by (auto simp: assign_venues_def)
  then have score: "vc_trustScore vc = Fin score" by (auto simp: validate_constraints_def split: jsnum.splits if_splits)
  have named: "\<exists>p \<in> set prefs. venue_named p = Some w" if "w \<in> set (ordered_preference vs)" for w
  proof -
    from that have "Some w \<in> set (map Some vs)" by (auto simp: ordered_preference_def split: if_splits)
    then show ?thesis unfolding preference_named [OF v(2)] by force
  qed
  have "length as = length ts \<and> map va_index as = [0..<length ts]
    \<and> (\<forall>a \<in> set as. admits score (vc_gasEstimates vc) (ordered_preference vs) a) \<and> (budget > 0 \<longrightarrow> sum_list (map va_estimatedGas as) \<le> budget)"
  proof (cases "ts = []")
    case True
    then show ?thesis using assms(1) v by (simp add: assign_venues_def)
  next
    case False
    let ?ts = "sort_key (\<lambda>t. - st_amount t) ts"
    from False assms(1) v obtain bs where bs: "assign_each score (vc_gasEstimates vc) budget (ordered_preference vs) budget ?ts = Inr bs"
      "as = sort_key va_index bs" by (auto simp: assign_venues_def)
    note each = assign_each_sound [OF bs(1)]
    have ms: "mset (map va_index as) = mset [0..<length ts]"
      using arg_cong [OF each(1), of mset] arg_cong [OF assms(2), of mset] by (simp add: bs(2))
    moreover have "sorted (map va_index as)" by (simp add: bs(2))
    ultimately have idx: "map va_index as = [0..<length ts]"
      using properties_for_sort [of "map va_index as" "[0..<length ts]"] by (simp add: sorted_sort_id)
    have "sum_list (map va_estimatedGas as) = sum_list (map va_estimatedGas bs)"
      unfolding bs(2) by (metis mset_map mset_sort sum_mset_sum_list)
    moreover have "length bs = length ts" using arg_cong [OF each(1), of length] by simp
    ultimately show ?thesis using idx each(2,3) by (auto simp: bs(2))
  qed
  then show "length as = length ts" "map va_index as = [0..<length ts]" "budget > 0 \<Longrightarrow> sum_list (map va_estimatedGas as) \<le> budget"
    "\<exists>score. vc_trustScore vc = Fin score \<and> (\<forall>a \<in> set as. (\<exists>p \<in> set prefs. venue_named p = Some (va_venue a))
       \<and> VENUE_MIN_SCORES (va_venue a) \<le> score \<and> va_estimatedGas a = vc_gasEstimates vc (va_venue a))"
    using score named by (auto simp: admits_def)
qed

section \<open>Diffusion\<close>

text \<open>The jittered offsets, computed in doubles, stay in order and inside the slack.\<close>

definition stratum :: "int \<Rightarrow> nat \<Rightarrow> nat \<Rightarrow> num" where
  "stratum slack word i = fl_num (fl_num (of_nat i + of_nat word / 2 ^ 32) * of_int slack)"

lemma fl_num_between:
  assumes "of_int a \<le> r" "r \<le> of_int b" "0 \<le> a" "b < 2 ^ 53"
  shows "of_int a \<le> fl_num r" "fl_num r \<le> of_int b"
proof -
  have "(of_int b :: num) < of_int (2 ^ 53)" using assms(4) by (simp only: of_int_less_iff)
  then have r: "0 \<le> r" "r < 2 ^ 53" using assms by (auto intro: order_trans le_less_trans)
  show "of_int a \<le> fl_num r" "fl_num r \<le> of_int b"
    unfolding fl_num_rd [OF r] using rd_int_bounds [OF r] assms by auto
qed

lemma stratum_between:
  assumes "0 \<le> slack" "word < 2 ^ 32" "i < n" "int n * slack < 2 ^ 53" "int n < 2 ^ 53"
  shows "of_int (int i * slack) \<le> stratum slack word i" "stratum slack word i \<le> of_int ((int i + 1) * slack)"
proof -
  let ?a = "fl_num (of_nat i + of_nat word / 2 ^ 32)"
  have "(of_nat word :: num) < of_nat (2 ^ 32)" using assms(2) by (simp only: of_nat_less_iff)
  then have "(of_nat i :: num) \<le> of_nat i + of_nat word / 2 ^ 32" "(of_nat i :: num) + of_nat word / 2 ^ 32 \<le> of_int (int i + 1)"
    by simp_all
  then have a: "of_int (int i) \<le> ?a" "?a \<le> of_int (int i + 1)"
    using fl_num_between [of "int i" "of_nat i + of_nat word / 2 ^ 32" "int i + 1"] assms(3,5) by auto
  have "of_int (int i * slack) \<le> ?a * of_int slack" "?a * of_int slack \<le> of_int ((int i + 1) * slack)"
    using mult_right_mono [OF a(1), of "of_int slack"] mult_right_mono [OF a(2), of "of_int slack"] assms(1) by simp_all
  moreover have "(int i + 1) * slack < 2 ^ 53"
    using mult_right_mono [of "int i + 1" "int n" slack] assms(1,3,4) by linarith
  ultimately show "of_int (int i * slack) \<le> stratum slack word i" "stratum slack word i \<le> of_int ((int i + 1) * slack)"
    unfolding stratum_def using fl_num_between [of "int i * slack" "?a * of_int slack" "(int i + 1) * slack"] assms(1) by simp_all
qed

lemma jitter_bounds:
  assumes "0 \<le> slack" "word < 2 ^ 32" "i < n" "int n * slack < 2 ^ 53" "int n < 2 ^ 53"
  shows "0 \<le> jitter_offset n slack word i" "jitter_offset n slack word i \<le> slack"
proof -
  note s = stratum_between [OF assms]
  have n: "(0 :: num) < of_nat n" using assms(3) by simp
  have "(int i + 1) * slack \<le> int n * slack" using assms(1,3) by (intro mult_right_mono) auto
  then have "(of_int ((int i + 1) * slack) :: num) \<le> of_int (int n * slack)" by (simp only: of_int_le_iff)
  then have "stratum slack word i \<le> of_nat n * of_int slack" using s(2) by simp
  then have "stratum slack word i / of_nat n \<le> of_int slack" using n by (simp add: field_simps)
  moreover have "(0 :: num) \<le> of_int (int i * slack)" using assms(1) by simp
  then have "0 \<le> stratum slack word i" using s(1) by linarith
  then have "of_int 0 \<le> stratum slack word i / of_nat n" using n by simp
  moreover have "slack < 2 ^ 53" using mult_right_mono [of 1 "int n" slack] assms(1,3,4) by simp
  ultimately have "of_int 0 \<le> fl_num (stratum slack word i / of_nat n)" "fl_num (stratum slack word i / of_nat n) \<le> of_int slack"
    using fl_num_between [of 0 "stratum slack word i / of_nat n" slack] assms(1) by simp_all
  then show "0 \<le> jitter_offset n slack word i" "jitter_offset n slack word i \<le> slack"
    by (simp_all add: jitter_offset_def stratum_def floor_le_iff le_floor_iff)
qed

lemma jitter_mono:
  assumes "0 \<le> slack" "u < 2 ^ 32" "w < 2 ^ 32" "Suc i < n" "int n * slack < 2 ^ 53" "int n < 2 ^ 53"
  shows "jitter_offset n slack u i \<le> jitter_offset n slack w (Suc i)"
proof -
  have s: "0 \<le> stratum slack u i" "stratum slack u i \<le> stratum slack w (Suc i)" "stratum slack w (Suc i) \<le> of_int (int n * slack)"
  proof -
    note a = stratum_between [OF assms(1,2) _ assms(5,6), of i] and b = stratum_between [OF assms(1,3,4,5,6)]
    have "(0 :: num) \<le> of_int (int i * slack)" using assms(1) by simp
    then show "0 \<le> stratum slack u i" using a(1) assms(4) by linarith
    show "stratum slack u i \<le> stratum slack w (Suc i)" using a(2) b(1) assms(4) by (simp add: algebra_simps)
    have "(int (Suc i) + 1) * slack \<le> int n * slack" using assms(1,4) by (intro mult_right_mono) auto
    then have "(of_int ((int (Suc i) + 1) * slack) :: num) \<le> of_int (int n * slack)" by (simp only: of_int_le_iff)
    then show "stratum slack w (Suc i) \<le> of_int (int n * slack)" using b(2) by linarith
  qed
  have n: "(1 :: num) \<le> of_nat n" using assms(4) by simp
  have lt: "(of_int (int n * slack) :: num) < of_int (2 ^ 53)" using assms(5) by (simp only: of_int_less_iff)
  have d: "x / of_nat n \<le> x" if "0 \<le> x" for x :: num using mult_left_mono [OF n that] n by (simp add: field_simps)
  have q: "0 \<le> stratum slack u i / of_nat n" "stratum slack u i / of_nat n \<le> stratum slack w (Suc i) / of_nat n"
    using s n by (simp_all add: divide_right_mono)
  moreover have "stratum slack w (Suc i) / of_nat n < 2 ^ 53"
    using d [of "stratum slack w (Suc i)"] s lt by simp
  ultimately have "fl_num (stratum slack u i / of_nat n) \<le> fl_num (stratum slack w (Suc i) / of_nat n)"
    using rd_mono [OF q] by (simp add: fl_num_rd)
  then show ?thesis by (simp add: jitter_offset_def stratum_def floor_mono)
qed

text \<open>Without a window (0, the default) there is no diffusion: every time is 0.\<close>

definition spaced_within :: "num \<Rightarrow> scheduled_sub_trade list \<Rightarrow> bool" where
  "spaced_within w ss \<longleftrightarrow> (if w = 0 then \<forall>s \<in> set ss. ss_targetTimestamp s = 0
     else (\<forall>s \<in> set ss. 0 \<le> ss_targetTimestamp s \<and> ss_targetTimestamp s \<le> w)
       \<and> (\<forall>i. Suc i < length ss \<longrightarrow> ss_targetTimestamp (ss ! i) + 12 \<le> ss_targetTimestamp (ss ! Suc i)))"

lemma scheduled_fields [simp]:
  "sub_trade.truncate (scheduled t v x) = t" "ss_venue (scheduled t v x) = v" "ss_targetTimestamp (scheduled t v x) = x"
  by (simp_all add: scheduled_def sub_trade.truncate_def sub_trade.extend_def)

lemma schedule_sound:
  assumes "schedule_diffusion random ts vs window = Inr ss" "ts \<noteq> []" "length vs = length ts"
    and words: "length (random (length ts)) = length ts" "\<forall>u \<in> set (random (length ts)). u < 2 ^ 32"
    and small: "\<And>w. window = Fin w \<Longrightarrow> of_nat (length ts) * max 1 w < 2 ^ 53"
  shows "\<exists>w. window = Fin w \<and> map sub_trade.truncate ss = ts \<and> map ss_venue ss = vs \<and> spaced_within w ss"
proof -
  let ?n = "length ts"
  have n: "?n > 0" using assms(2) by simp
  obtain w where w: "window = Fin w" "\<not> w < 0"
    using assms(1-3) by (auto simp: schedule_diffusion_def Let_def split: jsnum.splits if_splits)
  show ?thesis
  proof (cases "w = 0")
    case True
    then have "ss = map2 (\<lambda>t v. scheduled t v 0) ts vs"
      using assms(1-3) w by (simp add: schedule_diffusion_def)
    then show ?thesis using assms(3) w(1) True
      by (auto simp: comp_def case_prod_unfold spaced_within_def simp flip: map_map intro!: nth_equalityI)
  next
    case False
    let ?slack = "\<lfloor>w\<rfloor> - int (?n - 1) * MIN_SPACING_SECONDS"
    let ?at = "\<lambda>i. jitter_offset ?n ?slack (random ?n ! i) i"
    have ok: "\<not> w < of_int (int (?n - 1) * MIN_SPACING_SECONDS)"
      and ss: "ss = map (\<lambda>i. scheduled (ts ! i) (vs ! i) (of_int (?at i + int i * MIN_SPACING_SECONDS))) [0..<?n]"
      using assms(1-3) w False by (auto simp: schedule_diffusion_def Let_def split: if_splits)
    have slack: "0 \<le> ?slack" using ok by (simp add: le_floor_iff not_less)
    have "of_nat ?n * w \<le> of_nat ?n * max 1 w" by (intro mult_left_mono) auto
    moreover have "(of_int (int ?n * ?slack) :: num) \<le> of_nat ?n * w"
    proof -
      have "?slack \<le> \<lfloor>w\<rfloor>" by (simp add: MIN_SPACING_SECONDS_def)
      then have "(of_int ?slack :: num) \<le> w" by (simp only: le_floor_iff)
      then show ?thesis using mult_left_mono [of "of_int ?slack :: num" w "of_nat ?n"] by simp
    qed
    ultimately have "(of_int (int ?n * ?slack) :: num) < of_int (2 ^ 53)" using small [OF w(1)] by simp
    then have big: "int ?n * ?slack < 2 ^ 53" by (simp only: of_int_less_iff)
    have "of_nat ?n * 1 \<le> of_nat ?n * max 1 w" by (intro mult_left_mono) auto
    then have "(of_int (int ?n) :: num) < of_int (2 ^ 53)" using small [OF w(1)] by simp
    then have big1: "int ?n < 2 ^ 53" by (simp only: of_int_less_iff)
    have word: "random ?n ! i < 2 ^ 32" if "i < ?n" for i using words that by (metis nth_mem)
    have step: "?at i \<le> ?at (Suc i)" if "Suc i < ?n" for i
      using jitter_mono [OF slack word word that big big1] that by simp
    have low: "0 \<le> ?at i" and high: "?at i \<le> ?slack" if "i < ?n" for i
      using jitter_bounds [OF slack word that big big1] that by simp_all
    have "0 \<le> (of_int (?at i + int i * MIN_SPACING_SECONDS) :: num) \<and> of_int (?at i + int i * MIN_SPACING_SECONDS) \<le> w" if "i < ?n" for i
    proof -
      have "int i * MIN_SPACING_SECONDS \<le> int (?n - 1) * MIN_SPACING_SECONDS" using that by (simp add: MIN_SPACING_SECONDS_def)
      then have "?at i + int i * MIN_SPACING_SECONDS \<le> \<lfloor>w\<rfloor>" using high [OF that] by linarith
      moreover have "0 \<le> ?at i + int i * MIN_SPACING_SECONDS" using low [OF that] by (simp add: MIN_SPACING_SECONDS_def)
      ultimately show ?thesis by (simp only: le_floor_iff of_int_0_le_iff)
    qed
    moreover have "(of_int (?at i + int i * MIN_SPACING_SECONDS) :: num) + 12 \<le> of_int (?at (Suc i) + int (Suc i) * MIN_SPACING_SECONDS)"
      if "Suc i < ?n" for i
    proof -
      have "?at i + int i * MIN_SPACING_SECONDS + 12 \<le> ?at (Suc i) + int (Suc i) * MIN_SPACING_SECONDS"
        using step [OF that] by (simp add: MIN_SPACING_SECONDS_def)
      then have "(of_int (?at i + int i * MIN_SPACING_SECONDS + 12) :: num) \<le> of_int (?at (Suc i) + int (Suc i) * MIN_SPACING_SECONDS)"
        by (simp only: of_int_le_iff)
      then show ?thesis by simp
    qed
    ultimately have "spaced_within w ss" using False unfolding spaced_within_def ss by auto
    moreover have "map sub_trade.truncate ss = ts" "map ss_venue ss = vs"
      using assms(3) by (auto simp: ss comp_def intro: nth_equalityI)
    ultimately show ?thesis using w(1) by blast
  qed
qed

section \<open>The plan\<close>

text \<open>
  C32. A planned execution is sound. Its sub-trades pay out exactly the amount, each at least the configured
  minimum unless the trade is whole, and no more of them than the cap; each goes to a preferred venue the
  trust score admits; their gas estimates together fit the budget; and their times lie inside the window,
  twelve seconds apart. As in the code, a gas budget of 0 is no bound, a window of 0 (the default) puts every
  sub-trade at time 0, and a NaN cap, which validation lets pass, caps nothing. Assumed: the random words are as
  many as asked for and 32 bits wide, and the number of sub-trades times the window (at least 1) is below 2 to the 53.
\<close>

theorem planned_execution_is_sound:
  assumes "plan_execution tid random amount j s vc c = Inr pl"
    and "\<forall>n. length (random n) = n \<and> (\<forall>u \<in> set (random n). u < 2 ^ 32)"
    and "\<forall>w. xc_diffusionWindow c = Fin w \<longrightarrow> of_nat (length (xp_subTrades pl)) * max 1 w < 2 ^ 53"
  shows "\<exists>score w. splits_well amount (sc_minSubTradeSize (xc_splitConfig c)) (map sub_trade.truncate (xp_subTrades pl))
    \<and> (\<forall>k. sc_maxSubTrades (xc_splitConfig c) = Fin k \<longrightarrow> of_nat (length (xp_subTrades pl)) \<le> k)
    \<and> vc_trustScore vc = Fin score \<and> (\<forall>t \<in> set (xp_subTrades pl). VENUE_MIN_SCORES (ss_venue t) \<le> score
        \<and> (\<exists>p \<in> set (xc_venuePreference c). venue_named p = Some (ss_venue t)))
    \<and> (xc_maxGasBudget c > 0 \<longrightarrow> sum_list (map (\<lambda>t. vc_gasEstimates vc (ss_venue t)) (xp_subTrades pl)) \<le> xc_maxGasBudget c)
    \<and> xc_diffusionWindow c = Fin w \<and> spaced_within w (xp_subTrades pl)"
proof -
  from assms(1) obtain sp as ss where sp: "plan_split tid amount j s (xc_splitConfig c) = Inr sp"
    and as: "assign_venues (sp_subTrades sp) (xc_venuePreference c) vc (xc_maxGasBudget c) = Inr as"
    and sch: "schedule_diffusion random (sp_subTrades sp) (map va_venue as) (xc_diffusionWindow c) = Inr ss"
    and pl: "xp_subTrades pl = ss"
    by (auto simp: plan_execution_def)
  note split = plan_split_sound [OF sp]
  have idx: "map st_index (sp_subTrades sp) = [0..<length (sp_subTrades sp)]" "sp_subTrades sp \<noteq> []"
    using split(1) by (simp_all add: splits_well_def)
  note venues = assign_venues_sound [OF as idx(1)]
  have len: "length ss = length (sp_subTrades sp)"
    using sch venues(1) idx(2) by (auto simp: schedule_diffusion_def Let_def split: jsnum.splits if_splits)
  from schedule_sound [OF sch idx(2)] assms(2,3) venues(1) len pl obtain w where w: "xc_diffusionWindow c = Fin w"
    "map sub_trade.truncate ss = sp_subTrades sp" "map ss_venue ss = map va_venue as" "spaced_within w ss"
    by auto
  obtain score where score: "vc_trustScore vc = Fin score" "\<forall>a \<in> set as. (\<exists>p \<in> set (xc_venuePreference c). venue_named p = Some (va_venue a))
       \<and> VENUE_MIN_SCORES (va_venue a) \<le> score \<and> va_estimatedGas a = vc_gasEstimates vc (va_venue a)"
    using venues(3) by blast
  have "\<forall>v \<in> set (map va_venue as). (\<exists>p \<in> set (xc_venuePreference c). venue_named p = Some v) \<and> VENUE_MIN_SCORES v \<le> score"
    using score(2) by auto
  then have at: "\<forall>t \<in> set ss. VENUE_MIN_SCORES (ss_venue t) \<le> score \<and> (\<exists>p \<in> set (xc_venuePreference c). venue_named p = Some (ss_venue t))"
    unfolding w(3) [symmetric] by auto
  have "map va_estimatedGas as = map (vc_gasEstimates vc) (map va_venue as)" using score(2) by simp
  then have "map va_estimatedGas as = map (\<lambda>t. vc_gasEstimates vc (ss_venue t)) ss"
    unfolding w(3) [symmetric] by (simp add: comp_def)
  then show ?thesis using split(1,3) venues(4) score(1) w at len by (auto simp: pl)
qed

section \<open>A plan\<close>

text \<open>250 ETH in three parts, two of them at a stealth address before the gas budget runs out, over a minute.\<close>

definition big_trade :: execution_config where
  "big_trade = DEFAULT_EXECUTION_CONFIG\<lparr>xc_maxGasBudget := 400000, xc_diffusionWindow := Fin 60, xc_venuePreference := [''public'', ''stealth'']\<rparr>"

definition trader :: venue_constraints where
  "trader = \<lparr>vc_trustScore = Fin 60, vc_gasEstimates = DEFAULT_GAS_ESTIMATES\<rparr>"

definition big_plan :: "plan_error + execution_plan" where
  "big_plan = plan_execution (\<lambda>_ _ _. Some ''0xaa'') (\<lambda>n. replicate n 0) 250000000000000000000 0 ''0xme'' trader big_trade"

lemma fl_num_whole: "0 \<le> a \<Longrightarrow> a < 2 ^ 53 \<Longrightarrow> fl_num (of_int a) = of_int a"
  using fl_num_between [of a "of_int a" a] by (simp add: antisym)

lemma fl_num_numeral [simp]: "(numeral k :: int) < 2 ^ 53 \<Longrightarrow> fl_num (numeral k) = numeral k" "fl_num 0 = 0" "fl_num 1 = 1"
  using fl_num_whole [of "numeral k"] fl_num_whole [of 0] fl_num_whole [of 1] by simp_all

lemma big_split:
  "plan_split (\<lambda>_ _ _. Some ''0xaa'') 250000000000000000000 0 ''0xme'' DEFAULT_SPLIT_CONFIG = Inr \<lparr>sp_tradeId = ''0xaa'',
     sp_subTrades = [\<lparr>st_index = 0, st_amount = 83333333333333333333\<rparr>, \<lparr>st_index = 1, st_amount = 83333333333333333333\<rparr>,
       \<lparr>st_index = 2, st_amount = 83333333333333333334\<rparr>], sp_totalAmount = 250000000000000000000, sp_splitConfig = DEFAULT_SPLIT_CONFIG\<rparr>"
  by (simp add: plan_split_def validate_split_config_def DEFAULT_SPLIT_CONFIG_def MIN_SPLIT_THRESHOLD_def passed_def refuse_if_def
      initial_count_def split_from.simps is_int_num_def equal_parts_def upt_rec)

lemma big_plan_is:
  "big_plan = Inr \<lparr>xp_tradeId = ''0xaa'', xp_subTrades = [scheduled \<lparr>st_index = 0, st_amount = 83333333333333333333\<rparr> Stealth 0,
     scheduled \<lparr>st_index = 1, st_amount = 83333333333333333333\<rparr> PublicVenue 24,
     scheduled \<lparr>st_index = 2, st_amount = 83333333333333333334\<rparr> Stealth 48], xp_totalAmount = 250000000000000000000, xp_config = big_trade\<rparr>"
  unfolding big_plan_def plan_execution_def
  by (simp add: big_trade_def DEFAULT_EXECUTION_CONFIG_def big_split validate_execution_config_def passed_def refuse_if_def
      assign_venues_def validate_constraints_def validate_preference_def venue_named_def trader_def ordered_preference_def fits_def
      DEFAULT_GAS_ESTIMATES_def VENUE_MIN_SCORES_def get_privacy_level_def PRIVACY_LEVELS_def SHIELDED_MIN_SCORE_def
      schedule_diffusion_def MIN_SPACING_SECONDS_def jitter_offset_def upt_rec)

lemma planned_execution_witness:
  "\<exists>pl. big_plan = Inr pl \<and> splits_well 250000000000000000000 (10 ^ 18) (map sub_trade.truncate (xp_subTrades pl)) \<and> spaced_within 60 (xp_subTrades pl)"
proof -
  obtain pl where pl: "big_plan = Inr pl" "length (xp_subTrades pl) = 3" using big_plan_is by simp
  have "\<forall>w. xc_diffusionWindow big_trade = Fin w \<longrightarrow> of_nat (length (xp_subTrades pl)) * max 1 w < 2 ^ 53"
    by (simp add: pl(2) big_trade_def)
  with planned_execution_is_sound [OF pl(1) [unfolded big_plan_def]] pl(1) show ?thesis
    by (auto simp: big_trade_def DEFAULT_EXECUTION_CONFIG_def DEFAULT_SPLIT_CONFIG_def)
qed

end
