(* ===== verification/Journal.thy ===== *)
theory Journal
  imports JsBase
begin

text \<open>
  The journal of fund-moving operations, \<open>tools/recipient/src/operation-journal.ts\<close>: a directory with one file per
  operation and one lock file, shared by processes that may die between any two file operations.

  A method is a program: a tree of file operations (\<open>Act\<close>), each atomic on the directory, ending in a
  result. So one definition is run to its end, run for a number of file operations and abandoned (a crash),
  or interleaved with others. Writing a file and renaming it into place is one operation, and so is
  reading all records. A \<open>randomUUID\<close> is a number never drawn before. File operations do not fail
  for other reasons than an existing or missing file, and leftover temporary files are left out. The
  two loops have fuel.
\<close>

section \<open>Records\<close>

datatype op_kind = Spend | Exit | RefundFrozenNotes | RefundFrozenDeposits | RefundUnprocessedDeposit
datatype op_status = Building | Broadcast | Complete | OpFailed | Aborted | OpInDoubt
datatype op_receipt = Checkpointed | Proven | Finalized | FinalizedFailed
datatype op_fault = BeforeSubmission | NeedsReconciliation | RevertedReceipt

type_synonym uuid = nat

record op_withdrawal =
  wd_index :: nat
  wd_finalizationData :: string
  wd_operationId :: "string option"

record op_record =
  or_id :: uuid
  or_lockNonce :: uuid
  or_kind :: op_kind
  or_status :: op_status
  or_createdAt :: string
  or_updatedAt :: string
  or_request :: "(string \<times> string) list"
  or_txHash :: "string option"
  or_receiptStatus :: "op_receipt option"
  or_receiptBlockNumber :: "string option"
  or_receiptBlockHash :: "string option"
  or_withdrawals :: "op_withdrawal list option"
  or_error :: "op_fault option"

text \<open>The regular expressions \<open>^0x[0-9a-f]+$\<close>, \<open>^0x[0-9a-f]{64}$\<close> (case ignored) and \<open>^(0|[1-9][0-9]*)$\<close>.\<close>

definition op_hex :: "string \<Rightarrow> bool" where
  "op_hex s \<longleftrightarrow> hex_literal_i s"

definition tx_hash_text :: "string \<Rightarrow> bool" where
  "tx_hash_text s \<longleftrightarrow> hex_literal_i s \<and> length s = 66"

definition op_decimal :: "string \<Rightarrow> bool" where
  "op_decimal s \<longleftrightarrow> s = ''0'' \<or> all_digits s \<and> hd s \<noteq> CHR ''0''"

definition terminal :: "op_status \<Rightarrow> bool" where
  "terminal s \<longleftrightarrow> s \<in> {Complete, OpFailed, Aborted}"

definition opt_ok :: "('a \<Rightarrow> bool) \<Rightarrow> 'a option \<Rightarrow> bool" where
  "opt_ok P x = (case x of None \<Rightarrow> True | Some a \<Rightarrow> P a)"

text \<open>\<open>OperationRecordSchema\<close>: the fields, then the six rules of \<open>superRefine\<close>.\<close>

definition record_valid :: "op_record \<Rightarrow> bool" where
  "record_valid r \<longleftrightarrow> or_createdAt r \<noteq> [] \<and> or_updatedAt r \<noteq> []
     \<and> opt_ok tx_hash_text (or_txHash r) \<and> opt_ok op_decimal (or_receiptBlockNumber r) \<and> opt_ok tx_hash_text (or_receiptBlockHash r)
     \<and> opt_ok (list_all (\<lambda>w. op_hex (wd_finalizationData w))) (or_withdrawals r)
     \<and> (or_status r \<in> {Broadcast, Complete, OpFailed, OpInDoubt} \<longleftrightarrow> or_txHash r \<noteq> None)
     \<and> (or_receiptStatus r \<noteq> None \<longrightarrow> or_status r \<in> {Complete, OpFailed})
     \<and> (or_receiptBlockNumber r \<noteq> None \<longleftrightarrow> or_receiptBlockHash r \<noteq> None)
     \<and> (or_receiptBlockNumber r \<noteq> None \<longrightarrow> or_receiptStatus r \<in> {Some Finalized, Some FinalizedFailed})
     \<and> (or_status r = OpFailed \<longrightarrow> or_receiptStatus r = Some FinalizedFailed \<and> or_receiptBlockNumber r \<noteq> None
          \<and> or_error r = Some RevertedReceipt)
     \<and> (or_receiptStatus r = Some FinalizedFailed \<longrightarrow> or_status r = OpFailed)
     \<and> (or_error r \<noteq> None \<longrightarrow> or_status r \<in> {Aborted, OpInDoubt, Complete, OpFailed})"

text \<open>The lock names its operation, and until the record is published holds a copy of it.\<close>

record op_owner =
  ow_id :: uuid
  ow_lockNonce :: uuid
  ow_kind :: op_kind

definition owner_of :: "op_record \<Rightarrow> op_owner" where
  "owner_of r = \<lparr>ow_id = or_id r, ow_lockNonce = or_lockNonce r, ow_kind = or_kind r\<rparr>"

text \<open>A lock file just created has no content and cannot be read.\<close>

datatype lock_file = EmptyLock | OwnedLock op_owner "op_record option"

record release_claim =
  rc_id :: uuid
  rc_lockNonce :: uuid
  rc_pid :: nat
  rc_nonce :: uuid

text \<open>
  The directory. A record file is keyed by its name; a claim file \<open>released-<id>-<nonce>[-<claim>].lock\<close> by its three
  parts. \<open>dk_dead\<close> are the processes that no longer run. Beside the directory the state holds \<open>dk_sent\<close>, the hashes of the
  transactions handed to a node, the last first.
\<close>

type_synonym claim_path = "uuid \<times> uuid \<times> uuid option"

record disk =
  dk_lock :: "lock_file option"
  dk_recs :: "(uuid \<times> op_record) list"
  dk_claims :: "(claim_path \<times> release_claim) list"
  dk_uuid :: nat
  dk_dead :: "nat list"
  dk_sent :: "string list"

definition empty_disk :: disk where
  "empty_disk = \<lparr>dk_lock = None, dk_recs = [], dk_claims = [], dk_uuid = 0, dk_dead = [], dk_sent = []\<rparr>"

definition transitions :: "op_status \<Rightarrow> op_status list" where
  "transitions s = (case s of Building \<Rightarrow> [Broadcast, Aborted] | Broadcast \<Rightarrow> [Complete, OpFailed, Aborted, OpInDoubt]
     | OpInDoubt \<Rightarrow> [Complete, OpFailed, OpInDoubt] | _ \<Rightarrow> [])"

section \<open>Programs over the directory\<close>

datatype journal_error =
    UnreadableRecord | UnreadableLock | InvalidRecord | Unresolved uuid | LockHeld | NotOwner | NoTransition
  | NoRecoverableRecord | ReleaseClaimed | ClaimCycle | NotEmpty | DuplicateIds | ManyUnresolved | OutOfFuel
  | FeeTooHigh | NothingLeft | TipTooHigh | NotBegun | Stopped "op_fault option option"
  | NoOperation | NoTxHash | NotDurable | EvidenceMismatch | NotFinalized

datatype 'a prog = Ret "journal_error + 'a" | Act "disk \<Rightarrow> 'a prog \<times> disk"

primrec p_bind :: "'a prog \<Rightarrow> ('a \<Rightarrow> 'b prog) \<Rightarrow> 'b prog" where
  "p_bind (Ret r) k = (case r of Inl e \<Rightarrow> Ret (Inl e) | Inr a \<Rightarrow> k a)"
| "p_bind (Act f) k = Act (\<lambda>d. map_prod (\<lambda>p. p_bind p k) id (f d))"

primrec p_catch :: "'a prog \<Rightarrow> (journal_error \<Rightarrow> 'a prog) \<Rightarrow> 'a prog" where
  "p_catch (Ret r) h = (case r of Inl e \<Rightarrow> h e | Inr a \<Rightarrow> Ret (Inr a))"
| "p_catch (Act f) h = Act (\<lambda>d. map_prod (\<lambda>p. p_catch p h) id (f d))"

definition p_return :: "'a \<Rightarrow> 'a prog" where "p_return a = Ret (Inr a)"
definition p_throw :: "journal_error \<Rightarrow> 'a prog" where "p_throw e = Ret (Inl e)"
definition p_read :: "(disk \<Rightarrow> journal_error + 'a) \<Rightarrow> 'a prog" where "p_read f = Act (\<lambda>d. (Ret (f d), d))"
definition p_write :: "(disk \<Rightarrow> disk) \<Rightarrow> unit prog" where "p_write f = Act (\<lambda>d. (Ret (Inr ()), f d))"
definition p_guard :: "bool \<Rightarrow> journal_error \<Rightarrow> unit prog" where "p_guard c e = (if c then p_return () else p_throw e)"

text \<open>To the end; for \<open>n\<close> file operations.\<close>

primrec finish :: "'a prog \<Rightarrow> disk \<Rightarrow> (journal_error + 'a) \<times> disk" where
  "finish (Ret r) = (\<lambda>d. (r, d))"
| "finish (Act f) = (\<lambda>d. case map_prod finish id (f d) of (g, e) \<Rightarrow> g e)"

fun run_steps :: "nat \<Rightarrow> 'a prog \<Rightarrow> disk \<Rightarrow> 'a prog \<times> disk" where
  "run_steps 0 p d = (p, d)"
| "run_steps (Suc n) (Ret r) d = (Ret r, d)"
| "run_steps (Suc n) (Act f) d = (case f d of (q, e) \<Rightarrow> run_steps n q e)"

section \<open>File operations\<close>

definition random_uuid :: "uuid prog" where
  "random_uuid = Act (\<lambda>d. (Ret (Inr (dk_uuid d)), d\<lparr>dk_uuid := Suc (dk_uuid d)\<rparr>))"

text \<open>\<open>openSync(lockPath, "wx")\<close>: whether the file was created.\<close>

definition create_lock :: "bool prog" where
  "create_lock = Act (\<lambda>d. case dk_lock d of None \<Rightarrow> (Ret (Inr True), d\<lparr>dk_lock := Some EmptyLock\<rparr>) | Some _ \<Rightarrow> (Ret (Inr False), d))"

definition put_lock :: "op_owner \<Rightarrow> op_record option \<Rightarrow> unit prog" where
  "put_lock ow rc = p_write (\<lambda>d. d\<lparr>dk_lock := Some (OwnedLock ow rc)\<rparr>)"

definition put_record :: "op_record \<Rightarrow> unit prog" where
  "put_record r = p_write (\<lambda>d. d\<lparr>dk_recs := alist_put (or_id r) r (dk_recs d)\<rparr>)"

definition lock_exists :: "bool prog" where
  "lock_exists = p_read (\<lambda>d. Inr (dk_lock d \<noteq> None))"

definition read_active_lock :: "(op_owner \<times> op_record option) prog" where
  "read_active_lock = p_read (\<lambda>d. case dk_lock d of Some (OwnedLock ow rc) \<Rightarrow> Inr (ow, rc) | _ \<Rightarrow> Inl UnreadableLock)"

definition find_record :: "uuid \<Rightarrow> op_record option prog" where
  "find_record i = p_read (\<lambda>d. Inr (map_of (dk_recs d) i))"

definition get_record :: "uuid \<Rightarrow> op_record prog" where
  "get_record i = p_read (\<lambda>d. case map_of (dk_recs d) i of Some r \<Rightarrow> Inr r | None \<Rightarrow> Inl UnreadableRecord)"

text \<open>By creation: \<open>localeCompare\<close> of two ISO time stamps, which have one length, as an order of numbers.\<close>

definition stamp_rank :: "string \<Rightarrow> nat" where
  "stamp_rank s = foldl (\<lambda>n c. 256 * n + code c) 0 s"

definition by_creation :: "op_record list \<Rightarrow> op_record list" where
  "by_creation rs = sort_key (\<lambda>r. stamp_rank (or_createdAt r)) rs"

definition records :: "op_record list prog" where
  "records = p_read (\<lambda>d. Inr (by_creation (map snd (dk_recs d))))"

definition live_records :: "op_record list \<Rightarrow> op_record list" where
  "live_records rs = filter (\<lambda>r. \<not> terminal (or_status r)) rs"

lemma live_by_creation [simp]: "live_records (by_creation rs) = by_creation (live_records rs)"
  by (simp add: live_records_def by_creation_def filter_sort)

lemma by_creation_simps [simp]: "by_creation [] = []" "by_creation [r] = [r]" "by_creation rs = [] \<longleftrightarrow> rs = []"
proof -
  show "by_creation rs = [] \<longleftrightarrow> rs = []" unfolding by_creation_def by (metis length_0_conv length_sort)
qed (simp_all add: by_creation_def)

definition unresolved :: "op_record option prog" where
  "unresolved = p_bind records (\<lambda>rs. p_return (case live_records rs of [] \<Rightarrow> None | r # _ \<Rightarrow> Some r))"

section \<open>Releasing the lock\<close>

definition assert_owns_active_lock :: "op_owner \<Rightarrow> unit prog" where
  "assert_owns_active_lock ow = p_bind read_active_lock (\<lambda>(have, _). p_guard (have = ow) NotOwner)"

text \<open>Linking a claim into place: \<open>None\<close> when the path was free, else the claim that is there.\<close>

definition link_claim :: "claim_path \<Rightarrow> release_claim \<Rightarrow> release_claim option prog" where
  "link_claim path cl = Act (\<lambda>d. case map_of (dk_claims d) path of
     None \<Rightarrow> (Ret (Inr None), d\<lparr>dk_claims := (path, cl) # dk_claims d\<rparr>) | Some there \<Rightarrow> (Ret (Inr (Some there)), d))"

definition process_alive :: "nat \<Rightarrow> bool prog" where
  "process_alive pid = p_read (\<lambda>d. Inr (pid \<notin> set (dk_dead d)))"

fun claim_release :: "nat \<Rightarrow> nat \<Rightarrow> op_owner \<Rightarrow> claim_path list \<Rightarrow> claim_path \<Rightarrow> unit prog" where
  "claim_release 0 pid ow visited path = p_throw OutOfFuel"
| "claim_release (Suc n) pid ow visited path = (if path \<in> set visited then p_throw ClaimCycle
     else p_bind random_uuid (\<lambda>nonce.
       p_bind (link_claim path \<lparr>rc_id = ow_id ow, rc_lockNonce = ow_lockNonce ow, rc_pid = pid, rc_nonce = nonce\<rparr>) (\<lambda>there. case there of
         None \<Rightarrow> p_return ()
       | Some cl \<Rightarrow> p_bind (process_alive (rc_pid cl)) (\<lambda>alive.
           if rc_id cl \<noteq> ow_id ow \<or> rc_lockNonce cl \<noteq> ow_lockNonce ow \<or> alive then p_throw ReleaseClaimed
           else claim_release n pid ow (path # visited) (ow_id ow, ow_lockNonce ow, Some (rc_nonce cl))))))"

definition release_lock :: "nat \<Rightarrow> nat \<Rightarrow> op_owner \<Rightarrow> unit prog" where
  "release_lock fuel pid ow = p_bind (assert_owns_active_lock ow) (\<lambda>_.
     p_bind (claim_release fuel pid ow [] (ow_id ow, ow_lockNonce ow, None)) (\<lambda>_.
     p_bind (assert_owns_active_lock ow) (\<lambda>_. p_write (\<lambda>d. d\<lparr>dk_lock := None\<rparr>))))"

section \<open>Recovery\<close>

definition record_for_lock :: "op_owner \<Rightarrow> op_record option \<Rightarrow> op_record prog" where
  "record_for_lock ow emb = p_bind (find_record (ow_id ow)) (\<lambda>found.
     p_bind (case found of
         Some r \<Rightarrow> p_return r
       | None \<Rightarrow> (case emb of None \<Rightarrow> p_throw NoRecoverableRecord | Some r \<Rightarrow> p_bind (put_record r) (\<lambda>_. p_return r))) (\<lambda>r.
     p_bind (p_guard (owner_of r = ow) NotOwner) (\<lambda>_.
     p_bind (if emb \<noteq> None then put_lock ow None else p_return ()) (\<lambda>_. p_return r))))"

definition active_unresolved :: "op_record option prog" where
  "active_unresolved = p_bind lock_exists (\<lambda>ex. if \<not> ex then p_return None
     else p_bind read_active_lock (\<lambda>(ow, emb). p_bind (record_for_lock ow emb) (\<lambda>r.
       p_return (if terminal (or_status r) then None else Some r))))"

definition p_try :: "'a prog \<Rightarrow> 'a option prog" where
  "p_try p = p_catch (p_bind p (\<lambda>a. p_return (Some a))) (\<lambda>_. p_return None)"

definition release_recovered_terminal_lock :: "nat \<Rightarrow> nat \<Rightarrow> bool prog" where
  "release_recovered_terminal_lock fuel pid = p_bind (p_try read_active_lock) (\<lambda>lk. case lk of
     None \<Rightarrow> p_return False
   | Some (ow, emb) \<Rightarrow> p_bind (p_try (record_for_lock ow emb)) (\<lambda>found. case found of
       None \<Rightarrow> p_return False
     | Some r \<Rightarrow> if \<not> terminal (or_status r) then p_return False
         else p_bind records (\<lambda>rs. if live_records rs \<noteq> [] then p_return False
           else p_bind (release_lock fuel pid ow) (\<lambda>_. p_return True))))"

section \<open>Beginning\<close>

text \<open>The loop that creates the lock file; the same process releases a lock left by a finished operation.\<close>

fun take_lock :: "nat \<Rightarrow> nat \<Rightarrow> nat \<Rightarrow> unit prog" where
  "take_lock 0 fuel pid = p_throw OutOfFuel"
| "take_lock (Suc n) fuel pid = p_bind create_lock (\<lambda>mine. if mine then p_return ()
     else p_bind (release_recovered_terminal_lock fuel pid) (\<lambda>freed. if freed then take_lock n fuel pid
       else p_bind unresolved (\<lambda>u. p_throw (case u of Some r \<Rightarrow> Unresolved (or_id r) | None \<Rightarrow> LockHeld))))"

definition publish :: "nat \<Rightarrow> nat \<Rightarrow> op_record \<Rightarrow> op_record prog" where
  "publish fuel pid r = p_bind (p_catch (p_bind unresolved (\<lambda>u. case u of
       Some v \<Rightarrow> p_throw (Unresolved (or_id v)) | None \<Rightarrow> put_record r))
     (\<lambda>e. p_bind (release_lock fuel pid (owner_of r)) (\<lambda>_. p_throw e))) (\<lambda>_.
     p_bind (put_lock (owner_of r) None) (\<lambda>_. p_return r))"

definition fresh_record :: "uuid \<Rightarrow> uuid \<Rightarrow> op_kind \<Rightarrow> (string \<times> string) list \<Rightarrow> string \<Rightarrow> string option \<Rightarrow> op_record" where
  "fresh_record i nonce kind request now tx = \<lparr>or_id = i, or_lockNonce = nonce, or_kind = kind,
     or_status = (if tx = None then Building else Broadcast), or_createdAt = now, or_updatedAt = now, or_request = request,
     or_txHash = tx, or_receiptStatus = None, or_receiptBlockNumber = None, or_receiptBlockHash = None, or_withdrawals = None, or_error = None\<rparr>"

definition begin_with_state :: "nat \<Rightarrow> nat \<Rightarrow> op_kind \<Rightarrow> (string \<times> string) list \<Rightarrow> string \<Rightarrow> string option \<Rightarrow> op_record prog" where
  "begin_with_state fuel pid kind request now tx = p_bind random_uuid (\<lambda>i. p_bind random_uuid (\<lambda>nonce.
     let r = fresh_record i nonce kind request now tx in
     p_bind (p_guard (record_valid r) InvalidRecord) (\<lambda>_.
     p_bind (take_lock fuel fuel pid) (\<lambda>_.
     p_bind (put_lock (owner_of r) (Some r)) (\<lambda>_. publish fuel pid r)))))"

definition begin_operation :: "nat \<Rightarrow> nat \<Rightarrow> op_kind \<Rightarrow> (string \<times> string) list \<Rightarrow> string \<Rightarrow> op_record prog" where
  "begin_operation fuel pid kind request now = begin_with_state fuel pid kind request now None"

definition begin_broadcast :: "nat \<Rightarrow> nat \<Rightarrow> op_kind \<Rightarrow> (string \<times> string) list \<Rightarrow> string \<Rightarrow> string \<Rightarrow> op_record prog" where
  "begin_broadcast fuel pid kind request tx now = begin_with_state fuel pid kind request now (Some tx)"

section \<open>Updating\<close>

text \<open>\<open>{ ...current, ...patch }\<close>: a field absent from the patch stays, a present one may be \<open>undefined\<close>.\<close>

record op_patch =
  pa_status :: "op_status option"
  pa_txHash :: "string option option"
  pa_receiptStatus :: "op_receipt option"
  pa_receiptBlockNumber :: "string option"
  pa_receiptBlockHash :: "string option"
  pa_request :: "(string \<times> string) list option"
  pa_withdrawals :: "op_withdrawal list option"
  pa_error :: "op_fault option"

definition apply_patch :: "op_patch \<Rightarrow> string \<Rightarrow> op_record \<Rightarrow> op_record" where
  "apply_patch pa now r = r\<lparr>or_status := or_else (pa_status pa) (or_status r), or_updatedAt := now,
     or_txHash := or_else (pa_txHash pa) (or_txHash r),
     or_receiptStatus := (if pa_receiptStatus pa \<noteq> None then pa_receiptStatus pa else or_receiptStatus r),
     or_receiptBlockNumber := (if pa_receiptBlockNumber pa \<noteq> None then pa_receiptBlockNumber pa else or_receiptBlockNumber r),
     or_receiptBlockHash := (if pa_receiptBlockHash pa \<noteq> None then pa_receiptBlockHash pa else or_receiptBlockHash r),
     or_request := or_else (pa_request pa) (or_request r),
     or_withdrawals := (if pa_withdrawals pa \<noteq> None then pa_withdrawals pa else or_withdrawals r),
     or_error := (if pa_error pa \<noteq> None then pa_error pa else or_error r)\<rparr>"

definition no_patch :: op_patch where
  "no_patch = \<lparr>pa_status = None, pa_txHash = None, pa_receiptStatus = None, pa_receiptBlockNumber = None, pa_receiptBlockHash = None,
     pa_request = None, pa_withdrawals = None, pa_error = None\<rparr>"

definition may_move_to :: "op_status \<Rightarrow> op_status option \<Rightarrow> bool" where
  "may_move_to s t = (case t of None \<Rightarrow> True | Some u \<Rightarrow> u = s \<or> u \<in> set (transitions s))"

definition update_operation :: "nat \<Rightarrow> nat \<Rightarrow> uuid \<Rightarrow> op_patch \<Rightarrow> string \<Rightarrow> op_record prog" where
  "update_operation fuel pid i pa now = p_bind (get_record i) (\<lambda>r.
     p_bind (assert_owns_active_lock (owner_of r)) (\<lambda>_.
     p_bind (p_guard (may_move_to (or_status r) (pa_status pa)) NoTransition) (\<lambda>_. let next = apply_patch pa now r in
     p_bind (p_guard (record_valid next) InvalidRecord) (\<lambda>_.
     p_bind (put_record next) (\<lambda>_.
     p_bind (if terminal (or_status next) then release_lock fuel pid (owner_of r) else p_return ()) (\<lambda>_. p_return next))))))"

text \<open>The error to throw: whether the operation was aborted, or is in doubt; \<open>None\<close> when it had ended already.\<close>

definition fail_or_abort :: "nat \<Rightarrow> nat \<Rightarrow> uuid \<Rightarrow> bool option \<Rightarrow> string \<Rightarrow> op_fault option prog" where
  "fail_or_abort fuel pid i boundary now = p_bind (get_record i) (\<lambda>r.
     if terminal (or_status r) then p_return None
     else (let abort = (boundary = Some False \<and> or_status r \<in> {Building, Broadcast} \<or> boundary = None \<and> or_status r = Building);
         fault = (if abort then BeforeSubmission else NeedsReconciliation) in
       p_bind (update_operation fuel pid i (no_patch\<lparr>pa_status := Some (if abort then Aborted else OpInDoubt),
           pa_txHash := Some (if abort then None else or_txHash r), pa_error := Some fault\<rparr>) now) (\<lambda>_. p_return (Some fault))))"

definition restore_records :: "op_record list \<Rightarrow> unit prog" where
  "restore_records rs = p_bind (p_read (\<lambda>d. Inr (dk_lock d = None \<and> dk_recs d = [] \<and> dk_claims d = []))) (\<lambda>empty.
     p_bind (p_guard empty NotEmpty) (\<lambda>_.
     p_bind (p_guard (list_all record_valid rs) InvalidRecord) (\<lambda>_.
     p_bind (p_guard (distinct (map or_id rs)) DuplicateIds) (\<lambda>_.
     p_bind (p_guard (length (live_records rs) \<le> 1) ManyUnresolved) (\<lambda>_.
     p_bind (foldr (\<lambda>r p. p_bind (put_record r) (\<lambda>_. p)) rs (p_return ())) (\<lambda>_.
       case live_records rs of [] \<Rightarrow> p_return () | r # _ \<Rightarrow> put_lock (owner_of r) None))))))"

end
