(* ===== verification/JournalSafe.thy ===== *)
theory JournalSafe
  imports Journal
begin

text \<open>
  The journal under crashes: processes run one after another, each may die between any two file operations.
  An invariant of the directory holds after every file operation of every method.
\<close>

section \<open>Every file operation keeps an invariant\<close>

primrec safe :: "(disk \<Rightarrow> bool) \<Rightarrow> (journal_error + 'a \<Rightarrow> disk \<Rightarrow> bool) \<Rightarrow> 'a prog \<Rightarrow> disk \<Rightarrow> bool" where
  "safe I Q (Ret r) = (\<lambda>d. Q r d)"
| "safe I Q (Act f) = (\<lambda>d. case map_prod (safe I Q) id (f d) of (g, e) \<Rightarrow> I e \<and> g e)"

lemma prog_step_induct [case_names Ret Act]:
  assumes "\<And>r. P (Ret r)" "\<And>f. (\<And>d q e. f d = (q, e) \<Longrightarrow> P q) \<Longrightarrow> P (Act f)"
  shows "P p"
proof (induction p)
  case (Act f)
  show ?case
  proof (rule assms(2))
    fix d q e
    assume "f d = (q, e)"
    then have "(q, e) \<in> range f" by (metis rangeI)
    then show "P q" using Act [of "(q, e)" q] by (simp add: prod_set_simps)
  qed
qed (rule assms(1))

lemma safe_bind [simp]: "safe I Q (p_bind p k) d \<longleftrightarrow> safe I (\<lambda>r e. case r of Inl x \<Rightarrow> Q (Inl x) e | Inr a \<Rightarrow> safe I Q (k a) e) p d"
proof (induction p arbitrary: d rule: prog_step_induct)
  case (Act f)
  then show ?case by (cases "f d") auto
qed (simp split: sum.split)

lemma safe_catch [simp]: "safe I Q (p_catch p h) d \<longleftrightarrow> safe I (\<lambda>r e. case r of Inl x \<Rightarrow> safe I Q (h x) e | Inr a \<Rightarrow> Q (Inr a) e) p d"
proof (induction p arbitrary: d rule: prog_step_induct)
  case (Act f)
  then show ?case by (cases "f d") auto
qed (simp split: sum.split)

lemma safe_finish: "safe I Q p d \<Longrightarrow> finish p d = (r, e) \<Longrightarrow> Q r e"
proof (induction p arbitrary: d rule: prog_step_induct)
  case (Act f)
  then show ?case by (cases "f d") auto
qed simp

lemma safe_steps: "safe I Q p d \<Longrightarrow> I d \<Longrightarrow> run_steps n p d = (q, e) \<Longrightarrow> I e"
proof (induction p arbitrary: n d rule: prog_step_induct)
  case (Ret r)
  then show ?case by (cases n) auto
next
  case (Act f)
  show ?case
  proof (cases n)
    case (Suc m)
    obtain p1 d1 where f: "f d = (p1, d1)" by (cases "f d")
    then show ?thesis using Act.IH [OF f, of d1 m] Act.prems Suc by simp
  qed (use Act.prems in simp)
qed

lemma safe_mono:
  assumes "safe I Q p d" "\<And>r e. Q r e \<Longrightarrow> R r e" "\<And>e. I e \<Longrightarrow> K e"
  shows "safe K R p d"
  using assms(1)
proof (induction p arbitrary: d rule: prog_step_induct)
  case (Act f)
  then show ?case using assms(3) by (cases "f d") auto
qed (simp add: assms(2))

lemma safe_then:
  assumes "safe I R p d" "\<And>x e. R (Inl x) e \<Longrightarrow> Q (Inl x) e" "\<And>a e. R (Inr a) e \<Longrightarrow> safe I Q (k a) e"
  shows "safe I Q (p_bind p k) d"
  unfolding safe_bind by (rule safe_mono [OF assms(1)]) (auto split: sum.splits intro: assms(2,3))

lemma safe_conj: "safe I Q p d \<Longrightarrow> safe I R p d \<Longrightarrow> safe I (\<lambda>r e. Q r e \<and> R r e) p d"
proof (induction p arbitrary: d rule: prog_step_induct)
  case (Act f)
  then show ?case by (cases "f d") auto
qed simp

lemma safe_ops [simp]:
  "safe I Q1 (p_return a) d \<longleftrightarrow> Q1 (Inr a) d"
  "safe I Q1 (p_throw e) d \<longleftrightarrow> Q1 (Inl e) d"
  "safe I Q2 (p_read g) d \<longleftrightarrow> I d \<and> Q2 (g d) d"
  "safe I Q3 (p_write u) d \<longleftrightarrow> I (u d) \<and> Q3 (Inr ()) (u d)"
  "safe I Q3 (p_guard c e) d \<longleftrightarrow> (if c then Q3 (Inr ()) d else Q3 (Inl e) d)"
  by (auto simp: p_return_def p_throw_def p_read_def p_write_def p_guard_def)

lemma safe_files [simp]:
  "safe I Q4 random_uuid d \<longleftrightarrow> I (d\<lparr>dk_uuid := Suc (dk_uuid d)\<rparr>) \<and> Q4 (Inr (dk_uuid d)) (d\<lparr>dk_uuid := Suc (dk_uuid d)\<rparr>)"
  "safe I Q5 create_lock d \<longleftrightarrow> (if dk_lock d = None then I (d\<lparr>dk_lock := Some EmptyLock\<rparr>) \<and> Q5 (Inr True) (d\<lparr>dk_lock := Some EmptyLock\<rparr>)
     else I d \<and> Q5 (Inr False) d)"
  "safe I Q6 (link_claim path cl) d \<longleftrightarrow> (case map_of (dk_claims d) path of
     None \<Rightarrow> I (d\<lparr>dk_claims := (path, cl) # dk_claims d\<rparr>) \<and> Q6 (Inr None) (d\<lparr>dk_claims := (path, cl) # dk_claims d\<rparr>)
   | Some there \<Rightarrow> I d \<and> Q6 (Inr (Some there)) d)"
  by (auto simp: random_uuid_def create_lock_def link_claim_def split: option.split)

section \<open>The invariant\<close>

definition recs_ok :: "disk \<Rightarrow> bool" where
  "recs_ok d \<longleftrightarrow> distinct (map fst (dk_recs d))
     \<and> (\<forall>(i, r) \<in> set (dk_recs d). or_id r = i \<and> record_valid r \<and> i < dk_uuid d \<and> or_lockNonce r < dk_uuid d)"

text \<open>An unresolved operation owns the lock.\<close>

definition live_owned :: "disk \<Rightarrow> bool" where
  "live_owned d \<longleftrightarrow> (\<forall>(i, r) \<in> set (dk_recs d). \<not> terminal (or_status r) \<longrightarrow> (\<exists>emb. dk_lock d = Some (OwnedLock (owner_of r) emb)))"

text \<open>The lock leads to its record: a file, or the copy it holds.\<close>

definition lock_ok :: "disk \<Rightarrow> bool" where
  "lock_ok d \<longleftrightarrow> (\<forall>ow emb. dk_lock d = Some (OwnedLock ow emb) \<longrightarrow> ow_id ow < dk_uuid d \<and> ow_lockNonce ow < dk_uuid d
     \<and> (\<forall>r. map_of (dk_recs d) (ow_id ow) = Some r \<longrightarrow> owner_of r = ow)
     \<and> (emb = None \<longrightarrow> map_of (dk_recs d) (ow_id ow) \<noteq> None) \<and> (\<forall>r. emb = Some r \<longrightarrow> owner_of r = ow \<and> record_valid r))"

text \<open>Claims form a chain: the claim at a path leads to a path of a later number. A claim on the lock is a dead process's.\<close>

definition claims_ok :: "nat list \<Rightarrow> disk \<Rightarrow> bool" where
  "claims_ok running d \<longleftrightarrow> (\<forall>((i, n, s), cl) \<in> set (dk_claims d). rc_id cl = i \<and> rc_lockNonce cl = n \<and> i < dk_uuid d \<and> n < dk_uuid d
     \<and> rc_nonce cl < dk_uuid d \<and> (\<forall>m. s = Some m \<longrightarrow> m < rc_nonce cl)
     \<and> ((\<exists>ow emb. dk_lock d = Some (OwnedLock ow emb) \<and> ow_id ow = i \<and> ow_lockNonce ow = n) \<longrightarrow> rc_pid cl \<in> set (dk_dead d) \<union> set running))"

definition journal_ok :: "nat list \<Rightarrow> disk \<Rightarrow> bool" where
  "journal_ok running d \<longleftrightarrow> recs_ok d \<and> live_owned d \<and> lock_ok d \<and> claims_ok running d"

lemmas journal_defs = journal_ok_def recs_ok_def live_owned_def lock_ok_def claims_ok_def

lemma claims_frame [simp]:
  "recs_ok (d\<lparr>dk_claims := c\<rparr>) = recs_ok d" "live_owned (d\<lparr>dk_claims := c\<rparr>) = live_owned d" "lock_ok (d\<lparr>dk_claims := c\<rparr>) = lock_ok d"
  by (simp_all add: recs_ok_def live_owned_def lock_ok_def)

lemma journal_grow [simp]: "journal_ok A d \<Longrightarrow> journal_ok A (d\<lparr>dk_uuid := Suc (dk_uuid d)\<rparr>)"
proof -
  assume ok: "journal_ok A d"
  have "recs_ok (d\<lparr>dk_uuid := Suc (dk_uuid d)\<rparr>)" using ok unfolding journal_ok_def recs_ok_def by (auto intro: less_SucI)
  moreover have "lock_ok (d\<lparr>dk_uuid := Suc (dk_uuid d)\<rparr>)" using ok unfolding journal_ok_def lock_ok_def by (auto intro: less_SucI split: option.splits)
  moreover have "claims_ok A (d\<lparr>dk_uuid := Suc (dk_uuid d)\<rparr>)"
    using ok unfolding journal_ok_def claims_ok_def by (auto intro: less_SucI)
  ultimately show ?thesis using ok by (simp add: journal_ok_def live_owned_def)
qed

lemma journal_running: "journal_ok [] d \<Longrightarrow> journal_ok A d"
  unfolding journal_ok_def claims_ok_def by auto

lemma journal_died: "journal_ok [pid] d \<Longrightarrow> journal_ok [] (d\<lparr>dk_dead := pid # dk_dead d\<rparr>)"
  unfolding journal_defs by (auto split: option.splits)

lemma journal_create: "journal_ok A d \<Longrightarrow> dk_lock d = None \<Longrightarrow> journal_ok A (d\<lparr>dk_lock := Some EmptyLock\<rparr>)"
  unfolding journal_defs by (auto split: option.splits)

lemma live_lock: "journal_ok A d \<Longrightarrow> (i, r) \<in> set (dk_recs d) \<Longrightarrow> \<not> terminal (or_status r) \<Longrightarrow> \<exists>emb. dk_lock d = Some (OwnedLock (owner_of r) emb)"
  unfolding journal_ok_def live_owned_def by blast

lemma rec_at: "journal_ok A d \<Longrightarrow> (i, r) \<in> set (dk_recs d) \<longleftrightarrow> map_of (dk_recs d) i = Some r"
  unfolding journal_ok_def recs_ok_def by auto

lemma rec_facts: "journal_ok A d \<Longrightarrow> map_of (dk_recs d) i = Some r \<Longrightarrow> or_id r = i \<and> record_valid r \<and> i < dk_uuid d \<and> or_lockNonce r < dk_uuid d"
  unfolding journal_ok_def recs_ok_def by (auto dest!: map_of_SomeD)

text \<open>At most one operation is unresolved.\<close>

lemma one_live:
  assumes "journal_ok A d"
  shows "length (live_records (map snd (dk_recs d))) \<le> 1"
proof (rule ccontr)
  assume "\<not> ?thesis"
  then obtain r s rest where l: "live_records (map snd (dk_recs d)) = r # s # rest"
    by (cases "live_records (map snd (dk_recs d))"; cases "tl (live_records (map snd (dk_recs d)))") auto
  have ids: "map or_id (map snd (dk_recs d)) = map fst (dk_recs d)"
    using assms unfolding journal_ok_def recs_ok_def by (auto intro!: map_cong)
  moreover have "distinct (map fst (dk_recs d))" using assms unfolding journal_ok_def recs_ok_def by blast
  ultimately have "distinct (map or_id (map snd (dk_recs d)))" by (simp only:)
  then have "distinct (map or_id (live_records (map snd (dk_recs d))))"
    unfolding live_records_def by (rule distinct_map_filter)
  moreover have "\<forall>x \<in> set [r, s]. \<exists>emb. dk_lock d = Some (OwnedLock (owner_of x) emb)"
  proof
    fix x
    assume "x \<in> set [r, s]"
    then have "x \<in> set (live_records (map snd (dk_recs d)))" using l by auto
    then show "\<exists>emb. dk_lock d = Some (OwnedLock (owner_of x) emb)"
      using live_lock [OF assms] by (auto simp: live_records_def)
  qed
  ultimately show False using l by (auto simp: owner_of_def)
qed

section \<open>Releasing\<close>

definition rank :: "claim_path \<Rightarrow> nat" where
  "rank path = (case snd (snd path) of None \<Rightarrow> 0 | Some m \<Rightarrow> Suc m)"

definition all_ended :: "disk \<Rightarrow> bool" where
  "all_ended d \<longleftrightarrow> live_records (map snd (dk_recs d)) = []"

lemma all_ended_iff: "all_ended d \<longleftrightarrow> (\<forall>(i, r) \<in> set (dk_recs d). terminal (or_status r))"
  by (auto simp: all_ended_def live_records_def filter_empty_conv)

text \<open>What a release leaves alone.\<close>

definition released_frame :: "op_owner \<Rightarrow> disk \<Rightarrow> disk \<Rightarrow> bool" where
  "released_frame ow d e \<longleftrightarrow> dk_recs e = dk_recs d \<and> dk_dead e = dk_dead d \<and> dk_uuid d \<le> dk_uuid e
     \<and> (\<forall>x \<in> set (dk_claims e). x \<in> set (dk_claims d) \<or> fst (fst x) = ow_id ow)"

lemma claim_facts:
  assumes "journal_ok A d" "map_of (dk_claims d) (i, n, s) = Some cl"
  shows "rc_id cl = i" "rc_lockNonce cl = n" "rc_nonce cl < dk_uuid d" "rank (i, n, s) < Suc (rc_nonce cl)"
    "dk_lock d = Some (OwnedLock ow emb) \<Longrightarrow> ow_id ow = i \<Longrightarrow> ow_lockNonce ow = n \<Longrightarrow> rc_pid cl \<in> set (dk_dead d) \<union> set A"
proof -
  have m: "((i, n, s), cl) \<in> set (dk_claims d)" using assms(2) by (rule map_of_SomeD)
  note f = assms(1) [unfolded journal_ok_def claims_ok_def, THEN conjunct2, THEN conjunct2, THEN conjunct2, rule_format, OF m, simplified]
  show "rc_id cl = i" "rc_lockNonce cl = n" "rc_nonce cl < dk_uuid d" "rank (i, n, s) < Suc (rc_nonce cl)"
    using f by (auto simp: rank_def split: option.splits)
  show "dk_lock d = Some (OwnedLock ow emb) \<Longrightarrow> ow_id ow = i \<Longrightarrow> ow_lockNonce ow = n \<Longrightarrow> rc_pid cl \<in> set (dk_dead d) \<union> set A"
    using f by blast
qed

lemma journal_claim:
  assumes "journal_ok [] d" "dk_lock d = Some (OwnedLock ow emb)" "nonce < dk_uuid d" "s = None \<or> (\<exists>m. s = Some m \<and> m < nonce)"
  shows "journal_ok [pid] (d\<lparr>dk_claims := ((ow_id ow, ow_lockNonce ow, s),
    \<lparr>rc_id = ow_id ow, rc_lockNonce = ow_lockNonce ow, rc_pid = pid, rc_nonce = nonce\<rparr>) # dk_claims d\<rparr>)"
proof -
  let ?cl = "\<lparr>rc_id = ow_id ow, rc_lockNonce = ow_lockNonce ow, rc_pid = pid, rc_nonce = nonce\<rparr>"
  have "claims_ok [pid] d" using journal_running [OF assms(1)] by (simp add: journal_ok_def)
  moreover have "ow_id ow < dk_uuid d" "ow_lockNonce ow < dk_uuid d"
    using assms(1,2) unfolding journal_ok_def lock_ok_def by blast+
  ultimately have "claims_ok [pid] (d\<lparr>dk_claims := ((ow_id ow, ow_lockNonce ow, s), ?cl) # dk_claims d\<rparr>)"
    using assms(3,4) by (auto simp: claims_ok_def)
  then show ?thesis using assms(1) by (simp add: journal_ok_def)
qed

lemma safe_claim:
  assumes "journal_ok [] d" "dk_lock d = Some (OwnedLock ow emb)" "path = (ow_id ow, ow_lockNonce ow, s)" "rank path \<le> u" "u \<le> dk_uuid d"
    and "\<forall>v \<in> set visited. rank v < rank path" "\<forall>x \<in> set (dk_claims d). rc_nonce (snd x) < u"
  shows "safe (journal_ok [pid]) (\<lambda>r e. dk_lock e = dk_lock d \<and> released_frame ow d e \<and> (case r of
      Inr _ \<Rightarrow> journal_ok [pid] e | Inl x \<Rightarrow> journal_ok [] e \<and> n + rank path \<le> u)) (claim_release n pid ow visited path) d"
  using assms
proof (induction n arbitrary: d visited path s)
  case 0
  then show ?case by (simp add: released_frame_def)
next
  case (Suc n)
  let ?d = "d\<lparr>dk_uuid := Suc (dk_uuid d)\<rparr>"
  have ok: "journal_ok [] ?d" using Suc.prems(1) by simp
  have new: "path \<notin> set visited" using Suc.prems(6) by auto
  show ?case
  proof (cases "map_of (dk_claims d) path")
    case None
    have "journal_ok [pid] (?d\<lparr>dk_claims := (path, \<lparr>rc_id = ow_id ow, rc_lockNonce = ow_lockNonce ow, rc_pid = pid, rc_nonce = dk_uuid d\<rparr>) # dk_claims ?d\<rparr>)"
      unfolding Suc.prems(3) using Suc.prems(2,3,4,5)
      by (intro journal_claim [OF ok]) (auto simp: rank_def split: option.splits)
    then show ?thesis using None new journal_running [OF ok, of "[pid]"] by (simp add: released_frame_def Suc.prems(3))
  next
    case (Some cl)
    note f = claim_facts [OF Suc.prems(1) Some [unfolded Suc.prems(3)]]
    have dead: "rc_pid cl \<in> set (dk_dead d)" using f(5) [OF Suc.prems(2)] by simp
    have later: "rc_nonce cl < u" using map_of_SomeD [OF Some] Suc.prems(7) by auto
    have up: "rank path < Suc (rc_nonce cl)" using f(4) Suc.prems(3) by simp
    have "safe (journal_ok [pid]) (\<lambda>r e. dk_lock e = dk_lock ?d \<and> released_frame ow ?d e \<and> (case r of
        Inr _ \<Rightarrow> journal_ok [pid] e | Inl x \<Rightarrow> journal_ok [] e \<and> n + rank (ow_id ow, ow_lockNonce ow, Some (rc_nonce cl)) \<le> u))
        (claim_release n pid ow (path # visited) (ow_id ow, ow_lockNonce ow, Some (rc_nonce cl))) ?d"
      using Suc.prems(2,5,6,7) up later by (intro Suc.IH [OF ok]) (auto simp: rank_def)
    then have "safe (journal_ok [pid]) (\<lambda>r e. dk_lock e = dk_lock d \<and> released_frame ow d e \<and> (case r of
        Inr _ \<Rightarrow> journal_ok [pid] e | Inl x \<Rightarrow> journal_ok [] e \<and> Suc n + rank path \<le> u))
        (claim_release n pid ow (path # visited) (ow_id ow, ow_lockNonce ow, Some (rc_nonce cl))) ?d"
      by (rule safe_mono) (use up in \<open>auto simp: released_frame_def rank_def split: sum.splits\<close>)
    then show ?thesis using Some new dead f(1,2) journal_running [OF ok, of "[pid]"] by (simp add: process_alive_def)
  qed
qed

lemma journal_unlock:
  assumes "journal_ok A d" "all_ended d"
  shows "journal_ok [] (d\<lparr>dk_lock := None\<rparr>)"
  using assms unfolding journal_ok_def all_ended_iff
  by (auto simp: recs_ok_def live_owned_def lock_ok_def claims_ok_def)

lemma safe_release:
  assumes ok: "journal_ok [] d" and lk: "dk_lock d = Some (OwnedLock ow emb)" and ended: "all_ended d"
  shows "safe (journal_ok [pid]) (\<lambda>r e. journal_ok [] e \<and> released_frame ow d e \<and> (case r of
      Inr _ \<Rightarrow> dk_lock e = None | Inl x \<Rightarrow> dk_lock e = dk_lock d \<and> fuel \<le> dk_uuid d)) (release_lock fuel pid ow) d"
proof -
  have "safe (journal_ok [pid]) (\<lambda>r e. dk_lock e = dk_lock d \<and> released_frame ow d e \<and> (case r of
      Inr _ \<Rightarrow> journal_ok [pid] e | Inl x \<Rightarrow> journal_ok [] e \<and> fuel + rank (ow_id ow, ow_lockNonce ow, None) \<le> dk_uuid d))
      (claim_release fuel pid ow [] (ow_id ow, ow_lockNonce ow, None)) d"
    using ok lk by (intro safe_claim) (auto simp: rank_def journal_ok_def claims_ok_def)
  note claim = this
  let ?G = "\<lambda>r e. journal_ok [] e \<and> released_frame ow d e \<and> (case r of
      Inr _ \<Rightarrow> dk_lock e = None | Inl x \<Rightarrow> dk_lock e = dk_lock d \<and> fuel \<le> dk_uuid d)"
  let ?rest = "p_bind (assert_owns_active_lock ow) (\<lambda>_. p_write (\<lambda>d. d\<lparr>dk_lock := None\<rparr>))"
  have rest: "safe (journal_ok [pid]) ?G ?rest e"
    if e: "journal_ok [pid] e" "dk_lock e = dk_lock d" "released_frame ow d e" for e
  proof -
    have "journal_ok [] (e\<lparr>dk_lock := None\<rparr>)"
      using e(3) ended by (intro journal_unlock [OF e(1)]) (simp add: released_frame_def all_ended_def)
    moreover from this have "journal_ok [pid] (e\<lparr>dk_lock := None\<rparr>)" by (rule journal_running)
    moreover have "released_frame ow d (e\<lparr>dk_lock := None\<rparr>)" using e(3) by (simp add: released_frame_def)
    ultimately show ?thesis using e lk by (simp add: assert_owns_active_lock_def read_active_lock_def)
  qed
  have "safe (journal_ok [pid]) ?G (p_bind (claim_release fuel pid ow [] (ow_id ow, ow_lockNonce ow, None)) (\<lambda>_. ?rest)) d"
    by (rule safe_then [OF claim]) (auto simp: rank_def simp del: safe_bind intro: rest)
  then show ?thesis using journal_running [OF ok, of "[pid]"] lk
    unfolding release_lock_def by (simp add: assert_owns_active_lock_def read_active_lock_def)
qed

section \<open>Recovering\<close>

lemma recs_put:
  assumes "journal_ok A d" "dk_lock d = Some (OwnedLock (owner_of r) emb)" "record_valid r"
  shows "journal_ok A (d\<lparr>dk_recs := alist_put (or_id r) r (dk_recs d)\<rparr>)"
proof -
  have ow: "or_id r < dk_uuid d" "or_lockNonce r < dk_uuid d"
    using assms(1,2) unfolding journal_ok_def lock_ok_def by (auto simp: owner_of_def)
  have "recs_ok (d\<lparr>dk_recs := alist_put (or_id r) r (dk_recs d)\<rparr>)"
  proof -
    have "distinct (map fst (dk_recs d))" and
      "\<forall>(i, r) \<in> set (dk_recs d). or_id r = i \<and> record_valid r \<and> i < dk_uuid d \<and> or_lockNonce r < dk_uuid d"
      using assms(1) by (simp_all add: journal_ok_def recs_ok_def)
    then show ?thesis using assms(3) ow unfolding recs_ok_def by (simp add: alist_put_def distinct_map_filter) fastforce
  qed
  moreover have "live_owned (d\<lparr>dk_recs := alist_put (or_id r) r (dk_recs d)\<rparr>)"
  proof -
    have "\<exists>emb. dk_lock d = Some (OwnedLock (owner_of x) emb)"
      if "(i, x) \<in> set (alist_put (or_id r) r (dk_recs d))" "\<not> terminal (or_status x)" for i x
    proof -
      from that(1) consider "x = r" | "(i, x) \<in> set (dk_recs d)" by (auto simp: alist_put_def)
      then show ?thesis using assms(2) live_lock [OF assms(1) _ that(2)] by cases blast+
    qed
    then show ?thesis by (auto simp: live_owned_def)
  qed
  moreover have "lock_ok (d\<lparr>dk_recs := alist_put (or_id r) r (dk_recs d)\<rparr>)"
  proof -
    have "lock_ok d" using assms(1) by (simp add: journal_ok_def)
    then show ?thesis by (simp add: lock_ok_def assms(2))
  qed
  ultimately show ?thesis using assms(1) by (simp add: journal_ok_def claims_ok_def)
qed

lemma lock_settle:
  assumes "journal_ok A d" "dk_lock d = Some (OwnedLock ow emb)" "map_of (dk_recs d) (ow_id ow) \<noteq> None"
  shows "journal_ok A (d\<lparr>dk_lock := Some (OwnedLock ow None)\<rparr>)"
  using assms unfolding journal_ok_def
  by (auto simp: recs_ok_def live_owned_def lock_ok_def claims_ok_def)

text \<open>What recovering the record of the lock leaves alone.\<close>

definition settled_frame :: "op_owner \<Rightarrow> disk \<Rightarrow> disk \<Rightarrow> bool" where
  "settled_frame ow d e \<longleftrightarrow> dk_claims e = dk_claims d \<and> dk_dead e = dk_dead d \<and> dk_uuid e = dk_uuid d
     \<and> (\<forall>i. i \<noteq> ow_id ow \<longrightarrow> map_of (dk_recs e) i = map_of (dk_recs d) i)
     \<and> (\<forall>i rc. map_of (dk_recs d) i = Some rc \<longrightarrow> map_of (dk_recs e) i = Some rc)"

lemma safe_record_for_lock:
  assumes ok: "journal_ok [] d" and lk: "dk_lock d = Some (OwnedLock ow emb)"
  shows "safe (journal_ok [pid]) (\<lambda>r e. case r of Inl _ \<Rightarrow> False | Inr rc \<Rightarrow> journal_ok [] e \<and> owner_of rc = ow
      \<and> dk_lock e = Some (OwnedLock ow None) \<and> map_of (dk_recs e) (ow_id ow) = Some rc \<and> settled_frame ow d e) (record_for_lock ow emb) d"
proof (cases "map_of (dk_recs d) (ow_id ow)")
  case (Some rc)
  have ow: "owner_of rc = ow" using ok lk Some unfolding journal_ok_def lock_ok_def by blast
  have "journal_ok [] (d\<lparr>dk_lock := Some (OwnedLock ow None)\<rparr>)" by (rule lock_settle [OF ok lk]) (simp add: Some)
  then show ?thesis using Some ow lk ok journal_running
    by (cases emb) (simp_all add: record_for_lock_def find_record_def put_lock_def settled_frame_def)
next
  case None
  then obtain rc where rc: "emb = Some rc" "owner_of rc = ow" "record_valid rc"
    using ok lk unfolding journal_ok_def lock_ok_def by blast
  have i: "ow_id ow = or_id rc" using rc(2) by (auto simp: owner_of_def)
  have put: "journal_ok [] (d\<lparr>dk_recs := alist_put (or_id rc) rc (dk_recs d)\<rparr>)"
    using lk rc by (intro recs_put [OF ok]) simp_all
  then have "journal_ok [] (d\<lparr>dk_recs := alist_put (or_id rc) rc (dk_recs d), dk_lock := Some (OwnedLock ow None)\<rparr>)"
    using lock_settle [OF put, of ow emb] lk i by simp
  then show ?thesis using None rc put ok journal_running i
    by (simp add: record_for_lock_def find_record_def put_record_def put_lock_def settled_frame_def)
qed

lemma p_try_ok: "safe I (\<lambda>r e. case r of Inl _ \<Rightarrow> Q (Inr None) e | Inr a \<Rightarrow> Q (Inr (Some a)) e) p d \<Longrightarrow> safe I Q (p_try p) d"
  unfolding p_try_def by (simp, erule safe_mono) (auto split: sum.splits)

text \<open>The lock's operation has ended: so have all.\<close>

lemma owner_ended:
  assumes ok: "journal_ok A e" and lk: "dk_lock e = Some (OwnedLock ow emb)" and rc: "map_of (dk_recs e) (ow_id ow) = Some rc"
    and t: "terminal (or_status rc)"
  shows "all_ended e"
proof (rule ccontr)
  assume "\<not> all_ended e"
  then obtain i r where r: "(i, r) \<in> set (dk_recs e)" "\<not> terminal (or_status r)" by (auto simp: all_ended_iff)
  then have "owner_of r = ow" using live_lock [OF ok r] lk by auto
  then have "i = ow_id ow" using rec_facts [OF ok] rec_at [OF ok] r(1) by (auto simp: owner_of_def)
  then show False using r rc t rec_at [OF ok] by simp
qed

lemma unlocked_ended: "journal_ok A d \<Longrightarrow> dk_lock d = None \<or> dk_lock d = Some EmptyLock \<Longrightarrow> all_ended d"
  unfolding all_ended_iff using live_lock [of A d] by (metis (no_types, lifting) case_prodI2 lock_file.distinct(1) option.distinct(1) option.inject)

text \<open>The unresolved operation that owns the lock.\<close>

definition held :: "op_record \<Rightarrow> disk \<Rightarrow> bool" where
  "held rc e \<longleftrightarrow> dk_lock e = Some (OwnedLock (owner_of rc) None) \<and> map_of (dk_recs e) (or_id rc) = Some rc \<and> \<not> terminal (or_status rc)"

text \<open>
  A process asked to recover answers the unresolved operation that owns the lock; an empty lock file it
  cannot read.
\<close>

lemma safe_active_unresolved:
  assumes ok: "journal_ok [] d"
  shows "safe (journal_ok [pid]) (\<lambda>r e. journal_ok [] e \<and> (case r of
      Inl x \<Rightarrow> dk_lock e = Some EmptyLock | Inr None \<Rightarrow> all_ended e | Inr (Some rc) \<Rightarrow> held rc e)) active_unresolved d"
proof (cases "dk_lock d")
  case None
  then show ?thesis using unlocked_ended [OF ok] ok journal_running by (simp add: active_unresolved_def lock_exists_def)
next
  case (Some l)
  show ?thesis
  proof (cases l)
    case EmptyLock
    then show ?thesis using Some ok journal_running by (simp add: active_unresolved_def lock_exists_def read_active_lock_def)
  next
    case (OwnedLock ow emb)
    have lk: "dk_lock d = Some (OwnedLock ow emb)" using Some OwnedLock by simp
    have "safe (journal_ok [pid]) (\<lambda>r e. journal_ok [] e \<and> (case r of
      Inl x \<Rightarrow> dk_lock e = Some EmptyLock | Inr None \<Rightarrow> all_ended e | Inr (Some rc) \<Rightarrow> held rc e))
      (p_bind (record_for_lock ow emb) (\<lambda>r. p_return (if terminal (or_status r) then None else Some r))) d"
      by (rule safe_then [OF safe_record_for_lock [OF ok lk]]) (auto simp: held_def owner_of_def intro: owner_ended)
    then show ?thesis using lk journal_running [OF ok, of "[pid]"]
      by (simp add: active_unresolved_def lock_exists_def read_active_lock_def)
  qed
qed

end
