(* ===== verification/JournalCalls.thy ===== *)
theory JournalCalls
  imports JournalSafe
begin

text \<open>
  What each method of the journal does to a directory that satisfies the invariant, run alone to its end, and
  that the invariant holds after every file operation on the way.
\<close>

section \<open>Names not used yet\<close>

definition unused :: "uuid \<Rightarrow> disk \<Rightarrow> bool" where
  "unused i d \<longleftrightarrow> i < dk_uuid d \<and> map_of (dk_recs d) i = None \<and> (\<forall>x \<in> set (dk_claims d). fst (fst x) \<noteq> i)
     \<and> (\<forall>ow emb. dk_lock d = Some (OwnedLock ow emb) \<longrightarrow> ow_id ow \<noteq> i)"

text \<open>Recovery keeps every record and takes no new name.\<close>

definition later :: "disk \<Rightarrow> disk \<Rightarrow> bool" where
  "later d e \<longleftrightarrow> dk_uuid d \<le> dk_uuid e \<and> dk_dead e = dk_dead d \<and> (\<forall>i. unused i d \<longrightarrow> unused i e)
     \<and> (\<forall>i rc. map_of (dk_recs d) i = Some rc \<longrightarrow> map_of (dk_recs e) i = Some rc)"

lemma later_refl [simp]: "later d d"
  by (simp add: later_def)

lemma later_trans: "later d e \<Longrightarrow> later e f \<Longrightarrow> later d f"
  by (auto simp: later_def)

lemma settled_later:
  "settled_frame ow d e \<Longrightarrow> dk_lock d = Some (OwnedLock ow emb) \<Longrightarrow> dk_lock e = Some (OwnedLock ow emb') \<Longrightarrow> later d e"
  by (auto simp: settled_frame_def later_def unused_def)

lemma released_later:
  "released_frame ow d e \<Longrightarrow> dk_lock d = Some (OwnedLock ow emb) \<Longrightarrow> dk_lock e = None \<or> dk_lock e = dk_lock d \<Longrightarrow> later d e"
  by (fastforce simp: released_frame_def later_def unused_def)

lemma held_live: "journal_ok A e \<Longrightarrow> held rc e \<Longrightarrow> live_records (map snd (dk_recs e)) = [rc]"
proof -
  assume ok: "journal_ok A e" and h: "held rc e"
  then have "rc \<in> set (live_records (map snd (dk_recs e)))"
    by (force simp: live_records_def held_def dest!: map_of_SomeD)
  then show ?thesis using one_live [OF ok] by (cases "live_records (map snd (dk_recs e))") auto
qed

section \<open>Taking the lock\<close>

lemma safe_try_lock: "I d \<Longrightarrow> dk_lock d = Some (OwnedLock ow emb) \<Longrightarrow>
    safe I Q (p_bind (p_try read_active_lock) k) d \<longleftrightarrow> safe I Q (k (Some (ow, emb))) d"
  by (simp add: p_try_def read_active_lock_def)

lemma safe_release_recovered:
  assumes ok: "journal_ok [] d" and some: "dk_lock d \<noteq> None"
  shows "safe (journal_ok [pid]) (\<lambda>r e. journal_ok [] e \<and> later d e \<and> (case r of
      Inl x \<Rightarrow> fuel \<le> dk_uuid d
    | Inr freed \<Rightarrow> if freed then dk_lock e = None else dk_lock e = Some EmptyLock \<and> dk_lock d = Some EmptyLock \<or> (\<exists>rc. held rc e)))
    (release_recovered_terminal_lock fuel pid) d" (is "safe _ ?Q _ _")
proof (cases "the (dk_lock d)")
  case EmptyLock
  then have "dk_lock d = Some EmptyLock" using some by auto
  then show ?thesis using ok journal_running
    by (simp add: release_recovered_terminal_lock_def p_try_def read_active_lock_def)
next
  case (OwnedLock ow emb)
  then have lk: "dk_lock d = Some (OwnedLock ow emb)" using some by auto
  let ?rest = "\<lambda>r. if \<not> terminal (or_status r) then p_return False
         else p_bind records (\<lambda>rs. if live_records rs \<noteq> [] then p_return False
           else p_bind (release_lock fuel pid ow) (\<lambda>_. p_return True))"
  have rest: "safe (journal_ok [pid]) ?Q (?rest rc) e"
    if e: "journal_ok [] e" "owner_of rc = ow" "dk_lock e = Some (OwnedLock ow None)" "map_of (dk_recs e) (ow_id ow) = Some rc"
      "settled_frame ow d e" for rc e
  proof (cases "terminal (or_status rc)")
    case False
    have "held rc e" using e False by (auto simp: held_def owner_of_def)
    then show ?thesis using False e(1) settled_later [OF e(5) lk e(3)] by auto
  next
    case True
    have ended: "all_ended e" by (rule owner_ended [OF e(1,3,4) True])
    have "safe (journal_ok [pid]) ?Q (p_bind (release_lock fuel pid ow) (\<lambda>_. p_return True)) e"
    proof (rule safe_then [OF safe_release [OF e(1,3) ended]])
      fix x :: journal_error and f
      assume f: "journal_ok [] f \<and> released_frame ow e f \<and> (case Inl x of Inr _ \<Rightarrow> dk_lock f = None | Inl x \<Rightarrow> dk_lock f = dk_lock e \<and> fuel \<le> dk_uuid e)"
      then show "?Q (Inl x) f" using later_trans [OF settled_later [OF e(5) lk e(3)] released_later [of ow e f None]] e(3,5) f by (simp add: settled_frame_def)
    next
      fix a :: unit and f
      assume f: "journal_ok [] f \<and> released_frame ow e f \<and> (case Inr a of Inr _ \<Rightarrow> dk_lock f = None | Inl x \<Rightarrow> dk_lock f = dk_lock e \<and> fuel \<le> dk_uuid e)"
      then show "safe (journal_ok [pid]) ?Q (p_return True) f"
        using later_trans [OF settled_later [OF e(5) lk e(3)] released_later [of ow e f None]] e(3) f journal_running [of f "[pid]"] by simp
    qed
    then show ?thesis using True ended journal_running [OF e(1), of "[pid]"] by (simp add: records_def all_ended_def)
  qed
  let ?R = "\<lambda>r e. case r of Inr (Some rc) \<Rightarrow> journal_ok [] e \<and> owner_of rc = ow
      \<and> dk_lock e = Some (OwnedLock ow None) \<and> map_of (dk_recs e) (ow_id ow) = Some rc \<and> settled_frame ow d e | _ \<Rightarrow> False"
  have found: "safe (journal_ok [pid]) ?R (p_try (record_for_lock ow emb)) d"
    by (rule p_try_ok, rule safe_mono [OF safe_record_for_lock [OF ok lk]]) (auto split: sum.splits)
  have "safe (journal_ok [pid]) ?Q (p_bind (p_try (record_for_lock ow emb)) (\<lambda>found. case found of
       None \<Rightarrow> p_return False | Some r \<Rightarrow> ?rest r)) d"
  proof (rule safe_then [OF found])
    fix a :: "op_record option" and e
    assume "?R (Inr a) e"
    then show "safe (journal_ok [pid]) ?Q (case a of None \<Rightarrow> p_return False | Some r \<Rightarrow> ?rest r) e"
      using rest by (cases a) (simp_all del: safe_bind)
  qed simp
  then show ?thesis unfolding release_recovered_terminal_lock_def
    by (simp only: safe_try_lock [where I = "journal_ok [pid]", OF journal_running [OF ok] lk] option.case prod.case)
qed

text \<open>Why a begin is refused.\<close>

definition begin_refused :: "journal_error \<Rightarrow> disk \<Rightarrow> disk \<Rightarrow> bool" where
  "begin_refused x d e \<longleftrightarrow> (\<exists>rc. x = Unresolved (or_id rc) \<and> held rc e) \<or> x = LockHeld \<and> dk_lock d = Some EmptyLock"

lemma safe_take_lock:
  "journal_ok [] d \<Longrightarrow> safe (journal_ok [pid]) (\<lambda>r e. journal_ok [] e \<and> later d e \<and> (case r of
      Inl x \<Rightarrow> n \<le> (if dk_lock d = None then 0 else 1) \<or> dk_lock d \<noteq> None \<and> fuel \<le> dk_uuid d \<or> begin_refused x d e
    | Inr _ \<Rightarrow> dk_lock e = Some EmptyLock)) (take_lock n fuel pid) d"
proof (induction n arbitrary: d)
  case (Suc n)
  note ok = Suc.prems
  let ?Q = "\<lambda>r e. journal_ok [] e \<and> later d e \<and> (case r of
      Inl x \<Rightarrow> Suc n \<le> (if dk_lock d = None then 0 else 1) \<or> dk_lock d \<noteq> None \<and> fuel \<le> dk_uuid d \<or> begin_refused x d e
    | Inr _ \<Rightarrow> dk_lock e = Some EmptyLock)"
  show ?case
  proof (cases "dk_lock d")
    case None
    then show ?thesis using journal_create [OF ok] journal_running [OF journal_create [OF ok], of "[pid]"]
      by (simp add: later_def unused_def)
  next
    case (Some l)
    let ?rest = "\<lambda>freed. if freed then take_lock n fuel pid
       else p_bind unresolved (\<lambda>u. p_throw (case u of Some r \<Rightarrow> Unresolved (or_id r) | None \<Rightarrow> LockHeld))"
    have freed: "safe (journal_ok [pid]) ?Q (?rest True) e" if "journal_ok [] e" "later d e" "dk_lock e = None" for e
    proof -
      from Suc.IH [OF that(1)] show ?thesis unfolding if_True
      by (rule safe_mono) (use that Some in \<open>auto simp: begin_refused_def intro: later_trans split: sum.splits\<close>)
    qed
    have "safe (journal_ok [pid]) ?Q (p_bind (release_recovered_terminal_lock fuel pid) ?rest) d"
    proof (rule safe_then [OF safe_release_recovered [OF ok]])
      fix freed :: bool and e
      assume e: "journal_ok [] e \<and> later d e \<and> (case Inr freed of Inl x \<Rightarrow> fuel \<le> dk_uuid d
        | Inr freed \<Rightarrow> if freed then dk_lock e = None else dk_lock e = Some EmptyLock \<and> dk_lock d = Some EmptyLock \<or> (\<exists>rc. held rc e))"
      show "safe (journal_ok [pid]) ?Q (?rest freed) e"
      proof (cases freed)
        case True
        then show ?thesis using e freed [of e] by simp
      next
        case False
        then consider "dk_lock e = Some EmptyLock" "dk_lock d = Some EmptyLock" | rc where "held rc e" using e by auto
        then show ?thesis
        proof cases
          case 1
          then have "all_ended e" using e unlocked_ended by blast
          then show ?thesis using False 1 e journal_running [of e "[pid]"]
            by (simp add: unresolved_def records_def all_ended_def begin_refused_def)
        next
          case 2
          then have "live_records (map snd (dk_recs e)) = [rc]" using e held_live by blast
          then show ?thesis using False 2 e journal_running [of e "[pid]"]
            by (auto simp add: unresolved_def records_def begin_refused_def)
        qed
      qed
    qed (use Some in auto)
    then show ?thesis using Some journal_running [OF ok, of "[pid]"] by simp
  qed
qed simp

section \<open>Beginning\<close>

lemma lock_new:
  assumes ok: "journal_ok [] d" and "dk_lock d = Some EmptyLock" "unused (or_id r) d" "or_lockNonce r < dk_uuid d" "record_valid r"
  shows "journal_ok [] (d\<lparr>dk_lock := Some (OwnedLock (owner_of r) (Some r))\<rparr>)" (is "journal_ok [] ?e")
proof -
  have "all_ended d" using unlocked_ended [OF ok] assms(2) by blast
  then have "live_owned ?e" by (auto simp: live_owned_def all_ended_iff)
  moreover have "lock_ok ?e" using assms(3-5) by (simp add: lock_ok_def owner_of_def unused_def)
  moreover have "claims_ok [] ?e" using ok assms(3) unfolding journal_ok_def claims_ok_def
    by (auto simp: owner_of_def unused_def)
  moreover have "recs_ok ?e" using ok by (simp add: journal_ok_def recs_ok_def)
  ultimately show ?thesis by (simp add: journal_ok_def)
qed

lemma safe_publish:
  assumes ok: "journal_ok [] d" and lk: "dk_lock d = Some (OwnedLock (owner_of r) (Some r))" and new: "map_of (dk_recs d) (or_id r) = None"
    and ended: "all_ended d"
  shows "safe (journal_ok [pid]) (\<lambda>q e. q = Inr r \<and> journal_ok [] e
    \<and> e = d\<lparr>dk_recs := alist_put (or_id r) r (dk_recs d), dk_lock := Some (OwnedLock (owner_of r) None)\<rparr>) (publish fuel pid r) d"
proof -
  let ?d = "d\<lparr>dk_recs := alist_put (or_id r) r (dk_recs d)\<rparr>"
  have v: "record_valid r" using ok lk by (simp add: journal_ok_def lock_ok_def)
  have put: "journal_ok [] ?d" by (rule recs_put [OF ok lk v])
  then have "journal_ok [] (?d\<lparr>dk_lock := Some (OwnedLock (owner_of r) None)\<rparr>)"
    by (rule lock_settle [where ow = "owner_of r" and emb = "Some r"]) (simp_all add: lk owner_of_def)
  then show ?thesis using ended journal_running [OF ok, of "[pid]"] journal_running [OF put, of "[pid]"] journal_running
    by (simp add: publish_def unresolved_def records_def all_ended_def put_record_def put_lock_def)
qed

text \<open>
  A begin that returns: the directory holds its record as the only unresolved one, under a lock that names it,
  and every record that was there.
\<close>

definition begun :: "op_record \<Rightarrow> disk \<Rightarrow> disk \<Rightarrow> bool" where
  "begun rc d e \<longleftrightarrow> held rc e \<and> live_records (map snd (dk_recs e)) = [rc] \<and> map_of (dk_recs d) (or_id rc) = None
     \<and> (\<forall>j r. map_of (dk_recs d) j = Some r \<longrightarrow> map_of (dk_recs e) j = Some r)"

lemma fresh_fields [simp]:
  "or_id (fresh_record i n k q now tx) = i" "or_lockNonce (fresh_record i n k q now tx) = n"
  "\<not> terminal (or_status (fresh_record i n k q now tx))" "or_kind (fresh_record i n k q now tx) = k"
  by (simp_all add: fresh_record_def terminal_def)

lemma journal_fresh:
  assumes ok: "journal_ok A d" and "dk_uuid d < n"
  shows "unused (dk_uuid d) (d\<lparr>dk_uuid := n\<rparr>)"
proof -
  have "map_of (dk_recs d) (dk_uuid d) = None"
    using rec_facts [OF ok, of "dk_uuid d"] by (cases "map_of (dk_recs d) (dk_uuid d)") auto
  moreover have "fst (fst x) \<noteq> dk_uuid d" if "x \<in> set (dk_claims d)" for x
  proof -
    obtain i n s cl where x: "x = ((i, n, s), cl)" by (metis prod.exhaust)
    have "claims_ok A d" using ok by (simp add: journal_ok_def)
    then have "i < dk_uuid d" using that unfolding claims_ok_def x by fast
    then show ?thesis by (simp add: x)
  qed
  moreover have "ow_id ow \<noteq> dk_uuid d" if "dk_lock d = Some (OwnedLock ow emb)" for ow emb
    using ok that unfolding journal_ok_def lock_ok_def by (metis less_irrefl)
  ultimately show ?thesis using assms(2) by (simp add: unused_def)
qed

lemma safe_begin:
  fixes kind :: op_kind and request :: "(string \<times> string) list" and now :: string and tx :: "string option"
  assumes ok: "journal_ok [] d"
  defines "rc \<equiv> fresh_record (dk_uuid d) (Suc (dk_uuid d)) kind request now tx"
  shows "safe (journal_ok [pid]) (\<lambda>r e. journal_ok [] e \<and> dk_dead e = dk_dead d \<and> (case r of
      Inr got \<Rightarrow> got = rc \<and> begun rc d e
    | Inl x \<Rightarrow> x = InvalidRecord \<and> \<not> record_valid rc \<or> fuel \<le> dk_uuid d + 2 \<or> begin_refused x d e)) (begin_with_state fuel pid kind request now tx) d"
    (is "safe _ ?Q _ _")
proof -
  let ?d = "d\<lparr>dk_uuid := Suc (Suc (dk_uuid d))\<rparr>"
  have ok2: "journal_ok [] ?d" using journal_grow [OF journal_grow [OF ok]] by simp
  have free: "unused (or_id rc) ?d" using journal_fresh [OF ok] by (simp add: rc_def)
  let ?rest = "p_bind (put_lock (owner_of rc) (Some rc)) (\<lambda>_. publish fuel pid rc)"
  have rest: "safe (journal_ok [pid]) ?Q ?rest e"
    if e: "journal_ok [] e" "later ?d e" "dk_lock e = Some EmptyLock" and v: "record_valid rc" for e
  proof -
    let ?e = "e\<lparr>dk_lock := Some (OwnedLock (owner_of rc) (Some rc))\<rparr>"
    have new: "unused (or_id rc) e" using e(2) free by (simp add: later_def)
    have ok3: "journal_ok [] ?e"
      using lock_new [OF e(1,3) new _ v] e(2) by (simp add: later_def rc_def)
    have ended: "all_ended ?e" using unlocked_ended [OF e(1)] e(3) by (simp add: all_ended_def)
    have kept: "\<And>j r. map_of (dk_recs d) j = Some r \<Longrightarrow> map_of (dk_recs e) j = Some r" "dk_dead e = dk_dead d"
      using e(2) by (auto simp: later_def)
    have pub: "safe (journal_ok [pid]) ?Q (publish fuel pid rc) ?e"
    proof (rule safe_mono [OF safe_publish [OF ok3 _ _ ended, where fuel = fuel and pid = pid]])
      fix q :: "journal_error + op_record" and f
      assume f: "q = Inr rc \<and> journal_ok [] f \<and> f = ?e\<lparr>dk_recs := alist_put (or_id rc) rc (dk_recs ?e), dk_lock := Some (OwnedLock (owner_of rc) None)\<rparr>"
      have h: "held rc f" using f by (simp add: held_def) (simp add: rc_def)
      moreover have "map_of (dk_recs d) (or_id rc) = None" using free by (simp add: unused_def)
      ultimately have "begun rc d f" using held_live [OF _ h] f kept(1) new unfolding begun_def unused_def by auto
      moreover have "journal_ok [] f" "q = Inr rc" using f by blast+
      moreover have "dk_dead f = dk_dead d" using f kept(2) by simp
      ultimately show "?Q q f" by simp
    qed (use new in \<open>simp_all add: unused_def\<close>)
    then show ?thesis using journal_running [OF ok3, of "[pid]"] by (simp add: put_lock_def)
  qed
  have "safe (journal_ok [pid]) ?Q (p_bind (take_lock fuel fuel pid) (\<lambda>_. ?rest)) ?d" if v: "record_valid rc"
  proof (rule safe_then [OF safe_take_lock [OF ok2]])
    fix x :: journal_error and e
    assume e: "journal_ok [] e \<and> later ?d e \<and> (case Inl x of
        Inl x \<Rightarrow> fuel \<le> (if dk_lock ?d = None then 0 else 1) \<or> dk_lock ?d \<noteq> None \<and> fuel \<le> dk_uuid ?d \<or> begin_refused x ?d e | Inr _ \<Rightarrow> dk_lock e = Some EmptyLock)"
    then show "?Q (Inl x) e" by (auto simp: later_def begin_refused_def split: if_splits)
  next
    fix a :: unit and e
    assume "journal_ok [] e \<and> later ?d e \<and> (case Inr a of
        Inl x \<Rightarrow> fuel \<le> (if dk_lock ?d = None then 0 else 1) \<or> dk_lock ?d \<noteq> None \<and> fuel \<le> dk_uuid ?d \<or> begin_refused x ?d e | Inr _ \<Rightarrow> dk_lock e = Some EmptyLock)"
    then show "safe (journal_ok [pid]) ?Q ?rest e" using rest [OF _ _ _ v] by (simp del: safe_bind)
  qed
  then show ?thesis using journal_running [OF journal_grow [OF ok], of "[pid]"] journal_running [OF ok2, of "[pid]"] ok2
    unfolding begin_with_state_def rc_def by (simp add: Let_def)
qed

section \<open>Updating\<close>

text \<open>What an update asks for, and what it leaves behind.\<close>

definition update_allowed :: "uuid \<Rightarrow> op_patch \<Rightarrow> string \<Rightarrow> op_record \<Rightarrow> disk \<Rightarrow> bool" where
  "update_allowed i pa now old d \<longleftrightarrow> map_of (dk_recs d) i = Some old \<and> (\<exists>emb. dk_lock d = Some (OwnedLock (owner_of old) emb))
     \<and> may_move_to (or_status old) (pa_status pa) \<and> record_valid (apply_patch pa now old)"

definition updated :: "uuid \<Rightarrow> op_record \<Rightarrow> disk \<Rightarrow> disk \<Rightarrow> bool" where
  "updated i next d e \<longleftrightarrow> dk_recs e = alist_put i next (dk_recs d)
     \<and> dk_lock e = (if terminal (or_status next) then None else dk_lock d)"

lemma apply_patch_owner [simp]: "owner_of (apply_patch pa now r) = owner_of r" "or_id (apply_patch pa now r) = or_id r"
  by (simp_all add: apply_patch_def owner_of_def)

lemma update_refuses:
  assumes "journal_ok [] d" "\<not> (\<exists>old. update_allowed i pa now old d)"
  shows "safe (journal_ok [pid]) (\<lambda>r e. e = d \<and> (\<exists>x. r = Inl x)) (update_operation fuel pid i pa now) d"
  using assms(2) journal_running [OF assms(1), of "[pid]"]
  by (cases "dk_lock d"; cases "the (dk_lock d)")
    (auto simp: update_operation_def get_record_def assert_owns_active_lock_def read_active_lock_def Let_def update_allowed_def
      split: option.split)

lemma safe_update:
  assumes ok: "journal_ok [] d" and up: "update_allowed i pa now old d"
  shows "safe (journal_ok [pid]) (\<lambda>r e. journal_ok [] e \<and> dk_dead e = dk_dead d \<and> dk_uuid d \<le> dk_uuid e \<and> (case r of
      Inr next \<Rightarrow> next = apply_patch pa now old \<and> updated i next d e
    | Inl x \<Rightarrow> fuel \<le> dk_uuid d)) (update_operation fuel pid i pa now) d" (is "safe _ ?Q _ _")
proof -
  let ?next = "apply_patch pa now old" and ?d = "d\<lparr>dk_recs := alist_put i (apply_patch pa now old) (dk_recs d)\<rparr>"
  obtain emb where lk: "dk_lock d = Some (OwnedLock (owner_of old) emb)" and old: "map_of (dk_recs d) i = Some old"
    and v: "record_valid ?next" and mv: "may_move_to (or_status old) (pa_status pa)"
    using up by (auto simp: update_allowed_def)
  have i: "or_id old = i" using rec_facts [OF ok old] by simp
  have put: "journal_ok [] ?d" using recs_put [OF ok, of ?next emb] lk v i by simp
  let ?rest = "p_bind (if terminal (or_status ?next) then release_lock fuel pid (owner_of old) else p_return ()) (\<lambda>_. p_return ?next)"
  have rest: "safe (journal_ok [pid]) ?Q ?rest ?d"
  proof (cases "terminal (or_status ?next)")
    case False
    then show ?thesis using put by (simp add: updated_def)
  next
    case True
    have lk2: "dk_lock ?d = Some (OwnedLock (owner_of old) emb)" using lk by simp
    have ended: "all_ended ?d"
      by (rule owner_ended [OF put lk2, of ?next]) (simp_all add: True i owner_of_def)
    have "safe (journal_ok [pid]) ?Q (p_bind (release_lock fuel pid (owner_of old)) (\<lambda>_. p_return ?next)) ?d"
      by (rule safe_then [OF safe_release [OF put lk2 ended]]) (auto simp: released_frame_def updated_def True)
    then show ?thesis using True by (simp only: if_True)
  qed
  show ?thesis using rest lk old v mv journal_running [OF ok, of "[pid]"] journal_running [OF put, of "[pid]"]
    unfolding update_operation_def Let_def
    by (simp add: get_record_def assert_owns_active_lock_def read_active_lock_def put_record_def i)
qed

lemma safe_update_any: "journal_ok [] d \<Longrightarrow> safe (journal_ok [pid]) (\<lambda>r e. journal_ok [] e) (update_operation fuel pid i pa now) d"
proof (cases "\<exists>old. update_allowed i pa now old d")
  case True
  assume ok: "journal_ok [] d"
  from True obtain old where "update_allowed i pa now old d" by blast
  from safe_update [OF ok this] show ?thesis by (rule safe_mono) auto
next
  case False
  assume ok: "journal_ok [] d"
  from update_refuses [OF ok False] show ?thesis by (rule safe_mono) (use ok in auto)
qed

lemma safe_fail_or_abort: "journal_ok [] d \<Longrightarrow> safe (journal_ok [pid]) (\<lambda>r e. journal_ok [] e) (fail_or_abort fuel pid i boundary now) d"
  using journal_running [of d "[pid]"]
  by (auto simp: fail_or_abort_def get_record_def Let_def split: option.split sum.split intro!: safe_mono [OF safe_update_any])

end
