(* ===== verification/Movement.thy ===== *)
theory Movement
  imports Journal
begin

text \<open>
  What the recipient tool does with its journal: spending and exiting, \<open>tools/recipient/src/chain.ts\<close>, over the
  submission hook of \<open>node-submission.ts\<close>; submitting and reconciling a refund, \<open>refund.ts\<close>; and the reconcile
  command of \<open>cli.ts\<close>. Parameters: the Aztec wallet library that builds, proves and submits a transaction
  (\<open>library\<close>, any sequence of calls back into the tool), the node's answers, keccak, and the observation
  of the L1 chain. The checks of a refund bundle and of the network before these steps are not modelled.
\<close>

section \<open>One submission\<close>

text \<open>
  A run of the library: it reports prepared withdrawals, hands a transaction of some hash to the node, which accepts it or
  not, and is told of each whether the call threw; it returns whether the receipt is durable, its hash and
  the withdrawals, or it throws.
\<close>

datatype wallet_library =
    Returned bool string "op_withdrawal list"
  | Failed
  | Prepared "op_withdrawal list" "bool \<Rightarrow> wallet_library"
  | Sends string bool "bool \<Rightarrow> wallet_library"

definition node_receives :: "string \<Rightarrow> unit prog" where
  "node_receives h = p_write (\<lambda>d. d\<lparr>dk_sent := h # dk_sent d\<rparr>)"

definition broadcast_patch :: "string \<Rightarrow> op_patch" where
  "broadcast_patch h = no_patch\<lparr>pa_status := Some Broadcast, pa_txHash := Some (Some h)\<rparr>"

text \<open>
  \<open>NodeSubmission.sendTx\<close> under an armed hook: a second submission throws, the hash is recorded before the node
  receives the transaction. The flag is \<open>submissionBoundaryReached\<close>.
\<close>

primrec submit_operations :: "nat \<Rightarrow> nat \<Rightarrow> uuid \<Rightarrow> string \<Rightarrow> wallet_library \<Rightarrow> bool
    \<Rightarrow> (bool \<times> (bool \<times> string \<times> op_withdrawal list) option) prog" where
  "submit_operations fuel pid i now (Returned durable h ws) b = p_return (b, if b then Some (durable, h, ws) else None)"
| "submit_operations fuel pid i now Failed b = p_return (b, None)"
| "submit_operations fuel pid i now (Prepared ws k) b =
     p_bind (p_try (update_operation fuel pid i (no_patch\<lparr>pa_withdrawals := Some ws\<rparr>) now)) (\<lambda>u.
       submit_operations fuel pid i now (k (u \<noteq> None)) b)"
| "submit_operations fuel pid i now (Sends h accepted k) b = (if b then submit_operations fuel pid i now (k False) b
     else p_bind (p_try (update_operation fuel pid i (broadcast_patch h) now)) (\<lambda>u. case u of
         None \<Rightarrow> submit_operations fuel pid i now (k False) False
       | Some _ \<Rightarrow> p_bind (node_receives h) (\<lambda>_. submit_operations fuel pid i now (k accepted) True)))"

section \<open>Spending and exiting\<close>

text \<open>\<open>sanitizeFundMovementFailure\<close>: the operation is aborted or put in doubt; the diagnostic of the error is left out.\<close>

definition stop_operation :: "nat \<Rightarrow> nat \<Rightarrow> uuid \<Rightarrow> bool \<Rightarrow> string \<Rightarrow> 'a prog" where
  "stop_operation fuel pid i reached now =
     p_bind (p_try (fail_or_abort fuel pid i (Some reached) now)) (\<lambda>w. p_throw (Stopped w))"

definition move_funds :: "nat \<Rightarrow> nat \<Rightarrow> op_record prog \<Rightarrow> (string \<Rightarrow> op_withdrawal list \<Rightarrow> op_patch) \<Rightarrow> wallet_library \<Rightarrow> string \<Rightarrow> string prog" where
  "move_funds fuel pid starts outcome lib now = p_bind (p_try starts) (\<lambda>op. case op of None \<Rightarrow> p_throw NotBegun | Some r \<Rightarrow>
     p_bind (submit_operations fuel pid (or_id r) now lib False) (\<lambda>(reached, got). case got of
         Some (True, h, ws) \<Rightarrow> p_bind (p_try (update_operation fuel pid (or_id r) (outcome h ws) now)) (\<lambda>u. case u of
             Some _ \<Rightarrow> p_return h
           | None \<Rightarrow> stop_operation fuel pid (or_id r) reached now)
       | _ \<Rightarrow> stop_operation fuel pid (or_id r) reached now))"

definition spend_outcome :: "string \<Rightarrow> op_withdrawal list \<Rightarrow> op_patch" where
  "spend_outcome h ws = no_patch\<lparr>pa_status := Some Complete, pa_txHash := Some (Some h)\<rparr>"

definition exit_outcome :: "string \<Rightarrow> op_withdrawal list \<Rightarrow> op_patch" where
  "exit_outcome h ws = (spend_outcome h ws)\<lparr>pa_withdrawals := Some ws\<rparr>"

definition spend_funds :: "nat \<Rightarrow> nat \<Rightarrow> string \<Rightarrow> string \<Rightarrow> int \<Rightarrow> wallet_library \<Rightarrow> string \<Rightarrow> string prog" where
  "spend_funds fuel pid account recipient amount lib now = move_funds fuel pid
     (begin_operation fuel pid Spend [(''from'', account), (''to'', recipient), (''amount'', show_int amount)] now) spend_outcome lib now"

record exit_request =
  xr_l1Recipient :: string
  xr_amount :: int
  xr_proverTip :: int
  xr_relayerTip :: int
  xr_maxExecutorFee :: int

definition withdrawal_execution_amount :: "int \<Rightarrow> int \<Rightarrow> journal_error + int" where
  "withdrawal_execution_amount amount prover_tip = (if prover_tip > amount then Inl TipTooHigh else Inr (amount - prover_tip))"

definition plain_withdrawal_net_amount :: "int \<Rightarrow> int \<Rightarrow> int \<Rightarrow> journal_error + int" where
  "plain_withdrawal_net_amount amount prover_tip fee = (case withdrawal_execution_amount amount prover_tip of Inl e \<Rightarrow> Inl e
     | Inr n \<Rightarrow> if n \<le> fee then Inl NothingLeft else Inr (n - fee))"

definition exit_amount :: "exit_request \<Rightarrow> int \<Rightarrow> journal_error + int" where
  "exit_amount x fee = (if fee > xr_maxExecutorFee x then Inl FeeTooHigh
     else (case plain_withdrawal_net_amount (xr_amount x) (xr_proverTip x) fee of Inl e \<Rightarrow> Inl e
       | Inr net \<Rightarrow> if xr_relayerTip x \<ge> net then Inl TipTooHigh else Inr (net - xr_relayerTip x)))"

definition begin_exit :: "nat \<Rightarrow> nat \<Rightarrow> string \<Rightarrow> exit_request \<Rightarrow> int \<Rightarrow> string \<Rightarrow> op_record prog" where
  "begin_exit fuel pid account x fee now = (case exit_amount x fee of Inl e \<Rightarrow> p_throw e
     | Inr amount \<Rightarrow> begin_operation fuel pid Exit [(''from'', account), (''l1Recipient'', xr_l1Recipient x), (''amount'', show_int (xr_amount x)),
         (''proverTip'', show_int (xr_proverTip x)), (''relayerTip'', show_int (xr_relayerTip x)),
         (''maxExecutorFee'', show_int (xr_maxExecutorFee x)), (''executorFee'', show_int fee), (''recipientAmount'', show_int amount)] now)"

definition exit_funds :: "nat \<Rightarrow> nat \<Rightarrow> string \<Rightarrow> exit_request \<Rightarrow> int \<Rightarrow> wallet_library \<Rightarrow> string \<Rightarrow> string prog" where
  "exit_funds fuel pid account x fee lib now = move_funds fuel pid (begin_exit fuel pid account x fee now) exit_outcome lib now"

section \<open>Refunds\<close>

text \<open>The end of \<open>submitRefund\<close>: the hash of the signed transaction is recorded, then it is sent once.\<close>

definition submit_refund :: "nat \<Rightarrow> nat \<Rightarrow> op_kind \<Rightarrow> (string \<times> string) list \<Rightarrow> string \<Rightarrow> string option \<Rightarrow> string \<Rightarrow> unit prog" where
  "submit_refund fuel pid kind request h answer now = p_bind (begin_broadcast fuel pid kind request h now) (\<lambda>r.
     p_bind (node_receives h) (\<lambda>_. if map_option to_lower answer = Some h then p_return ()
       else p_bind (fail_or_abort fuel pid (or_id r) None now) (\<lambda>w. p_throw (Stopped (Some w)))))"

record refund_observation =
  ro_chainId :: int
  ro_hash :: string
  ro_to :: "string option"
  ro_input :: string
  ro_value :: int
  ro_blockNumber :: "int option"
  ro_blockHash :: "string option"
  ro_receiptHash :: string
  ro_success :: bool
  ro_receiptBlockNumber :: int
  ro_receiptBlockHash :: string
  ro_canonicalNumber :: int
  ro_canonicalHash :: string
  ro_finalizedNumber :: int

definition is_refund :: "op_kind \<Rightarrow> bool" where
  "is_refund k \<longleftrightarrow> k \<in> {RefundFrozenNotes, RefundFrozenDeposits, RefundUnprocessedDeposit}"

definition evidence_matches :: "(string \<Rightarrow> string) \<Rightarrow> int \<Rightarrow> refund_observation \<Rightarrow> op_record \<Rightarrow> string \<Rightarrow> bool" where
  "evidence_matches keccak chain ob r h \<longleftrightarrow> ro_chainId ob = chain \<and> to_lower (ro_hash ob) = to_lower h
     \<and> to_lower (ro_receiptHash ob) = to_lower h \<and> map_option to_lower (ro_to ob) = map_of (or_request r) ''portal'' \<and> ro_value ob = 0
     \<and> Some (to_lower (keccak (ro_input ob))) = map_of (or_request r) ''calldataHash''
     \<and> ro_blockNumber ob = Some (ro_receiptBlockNumber ob) \<and> map_option to_lower (ro_blockHash ob) = Some (to_lower (ro_receiptBlockHash ob))
     \<and> ro_canonicalNumber ob = ro_receiptBlockNumber ob \<and> to_lower (ro_canonicalHash ob) = to_lower (ro_receiptBlockHash ob)"

definition refund_patch :: "refund_observation \<Rightarrow> op_patch" where
  "refund_patch ob = (let base = no_patch\<lparr>pa_receiptBlockNumber := Some (show_int (ro_receiptBlockNumber ob)),
       pa_receiptBlockHash := Some (ro_receiptBlockHash ob)\<rparr> in
     if \<not> ro_success ob then base\<lparr>pa_status := Some OpFailed, pa_receiptStatus := Some FinalizedFailed, pa_error := Some RevertedReceipt\<rparr>
     else base\<lparr>pa_status := Some Complete, pa_receiptStatus := Some Finalized\<rparr>)"

text \<open>Whether the refund finalized with success.\<close>

definition apply_refund_reconciliation :: "(string \<Rightarrow> string) \<Rightarrow> int \<Rightarrow> nat \<Rightarrow> nat \<Rightarrow> refund_observation \<Rightarrow> string \<Rightarrow> bool prog" where
  "apply_refund_reconciliation keccak chain fuel pid ob now = p_bind active_unresolved (\<lambda>op. case op of None \<Rightarrow> p_throw NoOperation
     | Some r \<Rightarrow> if \<not> is_refund (or_kind r) then p_throw NoOperation
       else (case or_txHash r of None \<Rightarrow> p_throw NoTxHash
       | Some h \<Rightarrow> p_bind (p_guard (evidence_matches keccak chain ob r h) EvidenceMismatch) (\<lambda>_.
           p_bind (p_guard (ro_receiptBlockNumber ob \<le> ro_finalizedNumber ob) NotFinalized) (\<lambda>_.
           p_bind (update_operation fuel pid (or_id r) (refund_patch ob) now) (\<lambda>_. p_return (ro_success ob))))))"

section \<open>Reconciling a spend or an exit\<close>

text \<open>The status of the receipt, \<open>None\<close> when it is not one of the durable three.\<close>

definition reconcile_operation :: "nat \<Rightarrow> nat \<Rightarrow> (string \<Rightarrow> op_receipt option) \<Rightarrow> string \<Rightarrow> op_record prog" where
  "reconcile_operation fuel pid receipt now = p_bind active_unresolved (\<lambda>op. case op of None \<Rightarrow> p_throw NoOperation
     | Some r \<Rightarrow> if is_refund (or_kind r) then p_throw NoOperation
       else (case or_txHash r of None \<Rightarrow> p_throw NoTxHash
       | Some h \<Rightarrow> (case receipt h of
           Some st \<Rightarrow> if st = FinalizedFailed then p_throw NotDurable
             else update_operation fuel pid (or_id r) (no_patch\<lparr>pa_status := Some Complete, pa_receiptStatus := Some st\<rparr>) now
         | None \<Rightarrow> p_throw NotDurable)))"

end
