(* ===== verification/MovementSafe.thy ===== *)
theory MovementSafe
  imports JournalCalls Movement
begin

text \<open>
  Moving funds under the journal: every file operation keeps the journal's invariant, and a transaction the node
  received stays on record.
\<close>

section \<open>Programs that keep an invariant\<close>

text \<open>From a state with \<open>J\<close> every file operation keeps \<open>I\<close>, and \<open>J\<close> holds again at the end, whatever the result.\<close>

definition steady :: "(disk \<Rightarrow> bool) \<Rightarrow> (disk \<Rightarrow> bool) \<Rightarrow> 'a prog \<Rightarrow> bool" where
  "steady I J p \<longleftrightarrow> (\<forall>d. J d \<longrightarrow> safe I (\<lambda>r e. J e) p d)"

lemma steadyD: "steady I J p \<Longrightarrow> J d \<Longrightarrow> safe I (\<lambda>r e. J e) p d"
  by (simp add: steady_def)

lemma steady_plain [simp, intro]: "steady I J (p_return a)" "steady I J (p_throw e)" "steady I J (p_guard c x)"
  by (simp_all add: steady_def)

lemma steady_bind: "steady I J p \<Longrightarrow> (\<And>a. steady I J (k a)) \<Longrightarrow> steady I J (p_bind p k)"
  unfolding steady_def by (auto simp del: safe_bind intro: safe_then [of I "\<lambda>r e. J e"])

lemma steady_catch: "steady I J p \<Longrightarrow> (\<And>x. steady I J (h x)) \<Longrightarrow> steady I J (p_catch p h)"
  unfolding steady_def safe_catch by (auto elim!: safe_mono split: sum.split)

lemma steady_try: "steady I J p \<Longrightarrow> steady I J (p_try p)"
  unfolding p_try_def by (auto intro!: steady_catch steady_bind)

lemmas steady_rules = steady_bind steady_catch steady_try

section \<open>The journal under the movements\<close>

lemma steady_journal:
  "steady (journal_ok [pid]) (journal_ok []) (begin_with_state fuel pid kind request now tx)"
  "steady (journal_ok [pid]) (journal_ok []) active_unresolved"
  "steady (journal_ok [pid]) (journal_ok []) (update_operation fuel pid i pa now)"
  "steady (journal_ok [pid]) (journal_ok []) (fail_or_abort fuel pid i boundary now)"
  unfolding steady_def
  by (auto intro!: safe_mono [OF safe_begin] safe_mono [OF safe_active_unresolved] safe_update_any safe_fail_or_abort)

lemma journal_sent [simp]: "journal_ok A (d\<lparr>dk_sent := s\<rparr>) = journal_ok A d"
  by (simp add: journal_defs)

lemma steady_receives: "steady (journal_ok [pid]) (journal_ok []) (node_receives h)"
  by (simp add: steady_def node_receives_def journal_running)

lemma steady_submit: "steady (journal_ok [pid]) (journal_ok []) (submit_operations fuel pid i now lib b)"
  by (induction lib arbitrary: b) (auto intro!: steady_rules steady_journal steady_receives split: option.split)

lemma steady_move: "steady (journal_ok [pid]) (journal_ok []) starts \<Longrightarrow>
    steady (journal_ok [pid]) (journal_ok []) (move_funds fuel pid starts outcome lib now)"
  unfolding move_funds_def stop_operation_def
  by (auto intro!: steady_rules steady_journal steady_submit split: option.split bool.split)

lemma steady_moves:
  "steady (journal_ok [pid]) (journal_ok []) (begin_with_state fuel pid kind request now tx)"
  "steady (journal_ok [pid]) (journal_ok []) active_unresolved"
  "steady (journal_ok [pid]) (journal_ok []) (update_operation fuel pid i pa now)"
  "steady (journal_ok [pid]) (journal_ok []) (fail_or_abort fuel pid i boundary now)"
  "steady (journal_ok [pid]) (journal_ok []) (spend_funds fuel pid account recipient amount lib now)"
  "steady (journal_ok [pid]) (journal_ok []) (exit_funds fuel pid account x fee lib now)"
  "steady (journal_ok [pid]) (journal_ok []) (submit_refund fuel pid kind request h answer now)"
  "steady (journal_ok [pid]) (journal_ok []) (apply_refund_reconciliation keccak chain fuel pid ob now)"
  "steady (journal_ok [pid]) (journal_ok []) (reconcile_operation fuel pid receipt now)"
proof -
  note j = steady_journal [of pid]
  have e: "steady (journal_ok [pid]) (journal_ok []) (begin_exit fuel pid account x fee now)"
    by (auto simp: begin_exit_def begin_operation_def intro!: j split: sum.split)
  show "steady (journal_ok [pid]) (journal_ok []) (spend_funds fuel pid account recipient amount lib now)"
    by (auto simp: spend_funds_def begin_operation_def intro!: steady_move j)
  show "steady (journal_ok [pid]) (journal_ok []) (exit_funds fuel pid account x fee lib now)"
    by (auto simp: exit_funds_def intro!: steady_move e)
  show "steady (journal_ok [pid]) (journal_ok []) (submit_refund fuel pid kind request h answer now)"
    by (auto simp: submit_refund_def begin_broadcast_def intro!: steady_bind j steady_receives)
  show "steady (journal_ok [pid]) (journal_ok []) (apply_refund_reconciliation keccak chain fuel pid ob now)"
    by (auto simp: apply_refund_reconciliation_def intro!: steady_bind j split: option.split)
  show "steady (journal_ok [pid]) (journal_ok []) (reconcile_operation fuel pid receipt now)"
    by (auto simp: reconcile_operation_def intro!: steady_bind j split: option.split)
qed (rule steady_journal)+

end
