(* ===== verification/JournalReach.thy ===== *)
theory JournalReach
  imports MovementSafe
begin

text \<open>
  The directories a journal can come to: calls of processes that run one after another, each to its end or until
  its process dies between two file operations. What every such directory satisfies, and what a begin that is
  refused, a recovery and an update do there.
\<close>

section \<open>The remaining methods\<close>

definition loaded :: "op_record list \<Rightarrow> (uuid \<times> op_record) list \<Rightarrow> (uuid \<times> op_record) list" where
  "loaded rs recs = foldl (\<lambda>recs r. alist_put (or_id r) r recs) recs rs"

lemma safe_load: "safe (\<lambda>_. True) Q (foldr (\<lambda>r p. p_bind (put_record r) (\<lambda>_. p)) rs (p_return ())) d
    \<longleftrightarrow> Q (Inr ()) (d\<lparr>dk_recs := loaded rs (dk_recs d)\<rparr>)"
  by (induction rs arbitrary: d) (simp_all add: loaded_def put_record_def)

lemma loaded_distinct: "distinct (map or_id rs) \<Longrightarrow> set (map or_id rs) \<inter> fst ` set recs = {}
    \<Longrightarrow> loaded rs recs = rev (map (\<lambda>r. (or_id r, r)) rs) @ recs"
proof (induction rs arbitrary: recs)
  case (Cons r rs)
  have "alist_put (or_id r) r recs = (or_id r, r) # recs"
    using Cons.prems(2) by (force simp: alist_put_def filter_id_conv)
  then show ?case using Cons by (simp add: loaded_def)
qed (simp add: loaded_def)

lemma restored_ok:
  assumes "dk_lock d = None" "dk_recs d = []" "dk_claims d = []"
    and rs: "distinct (map or_id rs)" "list_all record_valid rs" "\<forall>r \<in> set rs. or_id r < dk_uuid d \<and> or_lockNonce r < dk_uuid d"
    and live: "length (live_records rs) \<le> 1"
  shows "journal_ok [] (case live_records rs of [] \<Rightarrow> d\<lparr>dk_recs := loaded rs []\<rparr>
    | r # _ \<Rightarrow> d\<lparr>dk_recs := loaded rs [], dk_lock := Some (OwnedLock (owner_of r) None)\<rparr>)"
proof -
  have l: "loaded rs [] = rev (map (\<lambda>r. (or_id r, r)) rs)" using loaded_distinct [OF rs(1), of "[]"] by simp
  have recs: "recs_ok (d\<lparr>dk_recs := loaded rs []\<rparr>)"
    using rs by (auto simp: l recs_ok_def rev_map [symmetric] comp_def list_all_iff)
  show ?thesis
  proof (cases "live_records rs")
    case Nil
    then show ?thesis using recs assms(1-3)
      by (auto simp: journal_ok_def live_owned_def lock_ok_def claims_ok_def l live_records_def filter_empty_conv)
  next
    case (Cons r more)
    then have only: "live_records rs = [r]" using live by simp
    have r: "r \<in> set rs" using only by (metis filter_is_subset live_records_def list.set_intros(1) subset_code(1))
    have same: "x = r" if "x \<in> set rs" "\<not> terminal (or_status x)" for x
    proof -
      have "x \<in> set (live_records rs)" using that by (simp add: live_records_def)
      then show ?thesis using only by simp
    qed
    have find: "map_of (loaded rs []) (or_id r) = Some r"
      using r rs(1) by (simp add: l rev_map [symmetric] map_of_eq_Some_iff comp_def)
    have "recs_ok (d\<lparr>dk_recs := loaded rs [], dk_lock := Some (OwnedLock (owner_of r) None)\<rparr>)"
      using recs by (simp add: recs_ok_def)
    then show ?thesis using only r same rs(3) find assms(3)
      by (auto simp: journal_ok_def live_owned_def lock_ok_def claims_ok_def l owner_of_def)
  qed
qed

lemma restore_ok:
  assumes ok: "journal_ok [] d" and "\<forall>r \<in> set rs. or_id r < dk_uuid d \<and> or_lockNonce r < dk_uuid d"
  shows "safe (\<lambda>_. True) (\<lambda>r e. journal_ok [] e) (restore_records rs) d"
  using ok restored_ok [OF _ _ _ _ _ assms(2)]
  by (auto simp: restore_records_def safe_load put_lock_def split: list.splits)

section \<open>Reachable directories\<close>

datatype journal_call =
    CallBegin op_kind "(string \<times> string) list" string "string option"
  | CallUpdate uuid op_patch string
  | CallFail uuid "bool option" string
  | CallActive
  | CallSpend string string int wallet_library string
  | CallExit string exit_request int wallet_library string
  | CallSubmitRefund op_kind "(string \<times> string) list" string "string option" string
  | CallReconcileRefund "string \<Rightarrow> string" int refund_observation string
  | CallReconcile "string \<Rightarrow> op_receipt option" string
  | CallRestore "op_record list"

definition forget :: "'a prog \<Rightarrow> unit prog" where
  "forget p = p_bind p (\<lambda>_. p_return ())"

fun call_prog :: "nat \<Rightarrow> nat \<Rightarrow> journal_call \<Rightarrow> unit prog" where
  "call_prog fuel pid (CallBegin kind request now tx) = forget (begin_with_state fuel pid kind request now tx)"
| "call_prog fuel pid (CallUpdate i pa now) = forget (update_operation fuel pid i pa now)"
| "call_prog fuel pid (CallFail i boundary now) = forget (fail_or_abort fuel pid i boundary now)"
| "call_prog fuel pid CallActive = forget active_unresolved"
| "call_prog fuel pid (CallSpend account recipient amount lib now) = forget (spend_funds fuel pid account recipient amount lib now)"
| "call_prog fuel pid (CallExit account x fee lib now) = forget (exit_funds fuel pid account x fee lib now)"
| "call_prog fuel pid (CallSubmitRefund kind request h answer now) = submit_refund fuel pid kind request h answer now"
| "call_prog fuel pid (CallReconcileRefund keccak chain ob now) = forget (apply_refund_reconciliation keccak chain fuel pid ob now)"
| "call_prog fuel pid (CallReconcile receipt now) = forget (reconcile_operation fuel pid receipt now)"
| "call_prog fuel pid (CallRestore rs) = restore_records rs"

text \<open>A backup restored holds ids drawn before; a restore is not cut short.\<close>

fun admissible :: "journal_call \<Rightarrow> disk \<Rightarrow> bool" where
  "admissible (CallRestore rs) d \<longleftrightarrow> (\<forall>r \<in> set rs. or_id r < dk_uuid d \<and> or_lockNonce r < dk_uuid d)"
| "admissible _ d \<longleftrightarrow> True"

fun is_restore :: "journal_call \<Rightarrow> bool" where
  "is_restore (CallRestore rs) = True"
| "is_restore _ = False"

definition dies :: "nat \<Rightarrow> disk \<Rightarrow> disk" where
  "dies pid d = d\<lparr>dk_dead := pid # dk_dead d\<rparr>"

inductive journal_reach :: "disk \<Rightarrow> bool" where
  start: "journal_reach (empty_disk\<lparr>dk_uuid := n\<rparr>)"
| call: "journal_reach d \<Longrightarrow> pid \<notin> set (dk_dead d) \<Longrightarrow> admissible c d \<Longrightarrow> finish (call_prog fuel pid c) d = (r, e) \<Longrightarrow> journal_reach e"
| crash: "journal_reach d \<Longrightarrow> pid \<notin> set (dk_dead d) \<Longrightarrow> \<not> is_restore c \<Longrightarrow> run_steps n (call_prog fuel pid c) d = (q, e)
    \<Longrightarrow> journal_reach (dies pid e)"

lemma safe_call:
  assumes "journal_ok [] d" and c: "\<not> is_restore c"
  shows "safe (journal_ok [pid]) (\<lambda>r e. journal_ok [] e) (call_prog fuel pid c) d"
proof -
  have "steady (journal_ok [pid]) (journal_ok []) (call_prog fuel pid c)"
    using c by (cases c) (auto simp: forget_def intro!: steady_bind steady_moves steady_plain)
  then show ?thesis using assms(1) by (simp add: steady_def)
qed

lemma journal_reach_ok: "journal_reach d \<Longrightarrow> journal_ok [] d"
proof (induction rule: journal_reach.induct)
  case (start n)
  then show ?case by (simp add: journal_defs empty_disk_def)
next
  case (call d pid c fuel r e)
  show ?case
  proof (cases c)
    case (CallRestore rs)
    then show ?thesis using safe_finish [OF restore_ok [OF call.IH]] call.hyps by auto
  qed (use safe_finish [OF safe_call [OF call.IH] call.hyps(4)] in auto)
next
  case (crash d pid c n fuel q e)
  have "journal_ok [pid] e"
    by (rule safe_steps [OF safe_call [OF crash.IH crash.hyps(3)] journal_running [OF crash.IH] crash.hyps(4)])
  then show ?case unfolding dies_def by (rule journal_died)
qed

section \<open>What holds there\<close>

text \<open>
  C35. One operation at a time, across processes and crashes. When the processes of a journal run one after another,
  each to its end or until it dies between any two of its file operations, though not inside a restore, at most one
  operation on disk is unresolved, and it owns the lock. A restore that is cut short leaves an unresolved operation
  that owns no lock, and two processes that interleave can too.
\<close>

theorem one_operation_unresolved:
  assumes "journal_reach d"
  shows "length (live_records (map snd (dk_recs d))) \<le> 1
    \<and> (\<forall>i r. map_of (dk_recs d) i = Some r \<and> \<not> terminal (or_status r) \<longrightarrow> (\<exists>emb. dk_lock d = Some (OwnedLock (owner_of r) emb)))"
  using one_live [OF journal_reach_ok [OF assms]] live_lock [OF journal_reach_ok [OF assms]] by (auto dest: map_of_SomeD)

text \<open>
  C37. Never blocked for good. In a directory that processes running one after another came to, each to its end or
  until it died between two file operations, though not inside a restore: unless a crash left an empty lock file, a
  begin of a valid record succeeds, or names the unresolved operation; recovery then returns exactly that
  operation, and recording its outcome is accepted and releases the lock. A restore cut short, or begins that
  interleave, can leave an operation that a begin names and recovery does not return.
\<close>

theorem begin_succeeds_or_names_the_operation:
  assumes "journal_reach d" "dk_lock d \<noteq> Some EmptyLock" "dk_uuid d + 2 < fuel"
    and "record_valid (fresh_record (dk_uuid d) (Suc (dk_uuid d)) kind request now tx)"
    and "finish (begin_with_state fuel pid kind request now tx) d = (Inl x, e)"
  shows "\<exists>rc. x = Unresolved (or_id rc) \<and> fst (finish active_unresolved e) = Inr (Some rc)
    \<and> (\<forall>pa at2 fuel2 pid2. may_move_to (or_status rc) (pa_status pa) \<and> record_valid (apply_patch pa at2 rc) \<and> dk_uuid e < fuel2 \<longrightarrow>
        (\<exists>f. finish (update_operation fuel2 pid2 (or_id rc) pa at2) e = (Inr (apply_patch pa at2 rc), f)
          \<and> (terminal (or_status (apply_patch pa at2 rc)) \<longrightarrow> dk_lock f = None)))"
proof -
  from safe_finish [OF safe_begin [OF journal_reach_ok [OF assms(1)]] assms(5)]
  have e: "journal_ok [] e" and "begin_refused x d e" using assms(3,4) by auto
  then obtain rc where x: "x = Unresolved (or_id rc)" and h: "held rc e" using assms(2) by (auto simp: begin_refused_def)
  have lk: "dk_lock e = Some (OwnedLock (owner_of rc) None)" and rc: "map_of (dk_recs e) (or_id rc) = Some rc"
    and live: "\<not> terminal (or_status rc)" using h by (simp_all add: held_def)
  have "fst (finish active_unresolved e) = Inr (Some rc)"
    using lk rc live by (simp add: active_unresolved_def lock_exists_def p_read_def read_active_lock_def record_for_lock_def
      find_record_def p_return_def p_guard_def owner_of_def)
  moreover have "\<exists>f. finish (update_operation fuel2 pid2 (or_id rc) pa at2) e = (Inr (apply_patch pa at2 rc), f)
      \<and> (terminal (or_status (apply_patch pa at2 rc)) \<longrightarrow> dk_lock f = None)"
    if "may_move_to (or_status rc) (pa_status pa)" "record_valid (apply_patch pa at2 rc)" "dk_uuid e < fuel2" for pa at2 fuel2 pid2
  proof -
    have up: "update_allowed (or_id rc) pa at2 rc e" using lk rc that(1,2) by (simp add: update_allowed_def)
    obtain r f where f: "finish (update_operation fuel2 pid2 (or_id rc) pa at2) e = (r, f)" by fastforce
    from safe_finish [OF safe_update [OF e up] f] that(3) f show ?thesis by (auto simp: updated_def split: sum.splits)
  qed
  ultimately show ?thesis using x by blast
qed

end
