(* ===== verification/MovementRecord.thy ===== *)
theory MovementRecord
  imports JournalReach
begin

text \<open>
  What the journal is for: a transaction the node received is on record, wherever the process dies, and an
  operation is recorded as aborted only if the node received nothing.
\<close>

section \<open>Programs that hand nothing to the node\<close>

lemma steady_read: "(\<And>d. J d \<Longrightarrow> I d) \<Longrightarrow> steady I J (p_read f)"
  by (simp add: steady_def)

lemma steady_write: "(\<And>d. J d \<Longrightarrow> I (f d) \<and> J (f d)) \<Longrightarrow> steady I J (p_write f)"
  by (simp add: steady_def)

definition quiet :: "string list \<Rightarrow> (uuid \<times> op_record) list \<Rightarrow> disk \<Rightarrow> bool" where
  "quiet s recs e \<longleftrightarrow> dk_sent e = s \<and> dk_recs e = recs"

definition sent :: "string list \<Rightarrow> disk \<Rightarrow> bool" where
  "sent s e \<longleftrightarrow> dk_sent e = s"

lemma steady_claim:
  assumes "\<And>d n. J d \<Longrightarrow> J (d\<lparr>dk_uuid := n\<rparr>)" "\<And>d c. J d \<Longrightarrow> J (d\<lparr>dk_claims := c\<rparr>)"
  shows "steady J J (claim_release n pid ow visited path)"
proof (induction n arbitrary: visited path)
  case (Suc n)
  have files: "steady J J random_uuid" "steady J J (link_claim path cl)" "steady J J (process_alive p)" for path cl p
    using assms by (auto simp: steady_def process_alive_def split: option.split)
  show ?case by (auto intro!: steady_bind files Suc.IH split: option.split)
qed simp

lemma steady_release:
  assumes "\<And>d n. J d \<Longrightarrow> J (d\<lparr>dk_uuid := n\<rparr>)" "\<And>d c. J d \<Longrightarrow> J (d\<lparr>dk_claims := c\<rparr>)" "\<And>d. J d \<Longrightarrow> J (d\<lparr>dk_lock := None\<rparr>)"
  shows "steady J J (release_lock n pid ow)"
  unfolding release_lock_def assert_owns_active_lock_def read_active_lock_def
  using assms by (auto intro!: steady_bind steady_claim steady_read steady_write split: prod.split)

lemma quiet_release: "steady (quiet s recs) (quiet s recs) (release_lock n pid ow)"
  by (rule steady_release) (simp_all add: quiet_def)

lemma sent_files:
  "steady (sent s) (sent s) (release_lock n pid ow)" "steady (sent s) (sent s) (put_lock ow rc)"
  "steady (sent s) (sent s) (put_record r)" "steady (sent s) (sent s) create_lock" "steady (sent s) (sent s) random_uuid"
  "steady (sent s) (sent s) (p_read f)"
  by (rule steady_release) (auto simp: sent_def steady_def put_lock_def put_record_def)

lemma sent_recovery:
  "steady (sent s) (sent s) (record_for_lock ow emb)" "steady (sent s) (sent s) (release_recovered_terminal_lock fuel pid)"
  "steady (sent s) (sent s) unresolved"
proof -
  show r: "steady (sent s) (sent s) (record_for_lock ow emb)" for ow emb
    unfolding record_for_lock_def find_record_def by (auto intro!: steady_bind sent_files split: option.split)
  show "steady (sent s) (sent s) (release_recovered_terminal_lock fuel pid)"
    unfolding release_recovered_terminal_lock_def read_active_lock_def records_def
    by (auto intro!: steady_rules sent_files r split: option.split prod.split)
  show "steady (sent s) (sent s) unresolved"
    unfolding unresolved_def records_def by (auto intro!: steady_bind sent_files)
qed

lemma sent_take: "steady (sent s) (sent s) (take_lock n fuel pid)"
  by (induction n) (auto intro!: steady_bind sent_files sent_recovery)

lemma sent_begin: "steady (sent s) (sent s) (begin_with_state fuel pid kind request now tx)"
  unfolding begin_with_state_def publish_def Let_def
  by (auto intro!: steady_rules sent_files sent_recovery sent_take split: option.split)

section \<open>Updating one record\<close>

lemma safe_update_record:
  fixes pa :: op_patch and now :: string
  assumes old: "map_of (dk_recs d) i = Some old" and i: "or_id old = i" and s: "dk_sent d = s"
  defines "nx \<equiv> apply_patch pa now old"
  shows "safe (\<lambda>e. dk_sent e = s \<and> (map_of (dk_recs e) i = Some old \<or> may_move_to (or_status old) (pa_status pa) \<and> map_of (dk_recs e) i = Some nx))
    (\<lambda>r e. dk_sent e = s \<and> (case r of
        Inr got \<Rightarrow> got = nx \<and> may_move_to (or_status old) (pa_status pa) \<and> map_of (dk_recs e) i = Some nx
      | Inl x \<Rightarrow> map_of (dk_recs e) i = Some old
          \<or> may_move_to (or_status old) (pa_status pa) \<and> terminal (or_status nx) \<and> map_of (dk_recs e) i = Some nx))
    (update_operation fuel pid i pa now) d" (is "safe ?I ?Q _ _")
proof -
  let ?d = "d\<lparr>dk_recs := alist_put i nx (dk_recs d)\<rparr>"
  have rel: "safe ?I ?Q (p_bind (if terminal (or_status nx) then release_lock fuel pid (owner_of old) else p_return ()) (\<lambda>_. p_return nx)) ?d"
    if mv: "may_move_to (or_status old) (pa_status pa)"
  proof (cases "terminal (or_status nx)")
    case True
    have "safe ?I (\<lambda>r e. quiet s (dk_recs ?d) e) (release_lock fuel pid (owner_of old)) ?d"
      by (rule safe_mono [OF steadyD [OF quiet_release [where recs = "dk_recs ?d" and s = s]]]) (auto simp: quiet_def s mv)
    then have "safe ?I ?Q (p_bind (release_lock fuel pid (owner_of old)) (\<lambda>_. p_return nx)) ?d"
      by (rule safe_then) (simp_all add: quiet_def mv True)
    then show ?thesis using True by (simp only: if_True)
  qed (simp add: s mv)
  show ?thesis
    using old s rel unfolding update_operation_def Let_def nx_def
    by (auto simp: get_record_def assert_owns_active_lock_def read_active_lock_def put_record_def i split: option.split lock_file.split)
qed

section \<open>A submission\<close>

text \<open>
  Operation \<open>i\<close>, begun when the node had received \<open>s\<close>: before and after its submission, and at any point (\<open>on_record\<close>).
\<close>

definition unsent :: "uuid \<Rightarrow> string list \<Rightarrow> disk \<Rightarrow> bool" where
  "unsent i s e \<longleftrightarrow> dk_sent e = s \<and> (\<exists>r. map_of (dk_recs e) i = Some r \<and> or_id r = i \<and> or_status r = Building)"

definition sent_as :: "uuid \<Rightarrow> string list \<Rightarrow> string \<Rightarrow> disk \<Rightarrow> bool" where
  "sent_as i s h e \<longleftrightarrow> dk_sent e = h # s \<and> (\<exists>r. map_of (dk_recs e) i = Some r \<and> or_id r = i \<and> or_status r = Broadcast \<and> or_txHash r = Some h)"

definition on_record :: "uuid \<Rightarrow> string list \<Rightarrow> disk \<Rightarrow> bool" where
  "on_record i s e \<longleftrightarrow> dk_sent e = s \<or> (\<exists>h r. dk_sent e = h # s \<and> map_of (dk_recs e) i = Some r
     \<and> (or_status r \<in> {Broadcast, OpInDoubt} \<and> or_txHash r = Some h \<or> or_status r = Complete))"

lemma on_record_if: "unsent i s e \<Longrightarrow> on_record i s e" "sent_as i s h e \<Longrightarrow> on_record i s e"
  by (auto simp: unsent_def sent_as_def on_record_def)

lemma patch_fields:
  "or_id (apply_patch pa now r) = or_id r" "or_status (apply_patch pa now r) = or_else (pa_status pa) (or_status r)"
  "or_txHash (apply_patch pa now r) = or_else (pa_txHash pa) (or_txHash r)"
  by (simp_all add: apply_patch_def)

lemma no_patch_fields [simp]: "pa_status no_patch = None" "pa_txHash no_patch = None"
  by (simp_all add: no_patch_def)

text \<open>An update that leaves status and hash.\<close>

lemma unsent_update:
  assumes "unsent i s d" "pa_status pa = None" "pa_txHash pa = None"
  shows "safe (on_record i s) (\<lambda>r e. unsent i s e) (update_operation fuel pid i pa now) d"
proof -
  obtain old where o: "dk_sent d = s" "map_of (dk_recs d) i = Some old" "or_id old = i" "or_status old = Building"
    using assms(1) by (auto simp: unsent_def)
  show ?thesis
    by (rule safe_mono [OF safe_update_record [OF o(2,3,1)]])
      (use o assms(2,3) in \<open>auto simp: unsent_def on_record_def patch_fields terminal_def split: sum.splits\<close>)
qed

lemma sent_as_update:
  assumes "sent_as i s h d" "pa_status pa = None" "pa_txHash pa = None"
  shows "safe (on_record i s) (\<lambda>r e. sent_as i s h e) (update_operation fuel pid i pa now) d"
proof -
  obtain old where o: "dk_sent d = h # s" "map_of (dk_recs d) i = Some old" "or_id old = i" "or_status old = Broadcast" "or_txHash old = Some h"
    using assms(1) by (auto simp: sent_as_def)
  show ?thesis
    by (rule safe_mono [OF safe_update_record [OF o(2,3,1)]])
      (use o assms(2,3) in \<open>auto simp: sent_as_def on_record_def patch_fields terminal_def split: sum.splits\<close>)
qed

lemma submit_after: "sent_as i s h d \<Longrightarrow>
    safe (on_record i s) (\<lambda>r e. sent_as i s h e \<and> (\<exists>got. r = Inr (True, got))) (submit_operations fuel pid i now lib True) d"
proof (induction lib arbitrary: d)
  case (Prepared ws k)
  have "safe (on_record i s) (\<lambda>r e. sent_as i s h e \<and> (\<exists>a. r = Inr a)) (p_try (update_operation fuel pid i (no_patch\<lparr>pa_withdrawals := Some ws\<rparr>) now)) d"
    by (rule p_try_ok, rule safe_mono [OF sent_as_update [OF Prepared.prems]]) (auto split: sum.splits)
  then show ?case unfolding submit_operations.simps by (rule safe_then) (auto intro: Prepared.IH)
qed (auto intro: on_record_if)

lemma broadcast_update:
  assumes "unsent i s d"
  shows "safe (on_record i s) (\<lambda>r e. case r of Inr _ \<Rightarrow> sent_as i s h (e\<lparr>dk_sent := h # s\<rparr>) \<and> dk_sent e = s | Inl _ \<Rightarrow> unsent i s e)
    (update_operation fuel pid i (broadcast_patch h) now) d"
proof -
  obtain old where o: "dk_sent d = s" "map_of (dk_recs d) i = Some old" "or_id old = i" "or_status old = Building"
    using assms(1) by (auto simp: unsent_def)
  show ?thesis
    by (rule safe_mono [OF safe_update_record [OF o(2,3,1)]])
      (use o in \<open>auto simp: unsent_def sent_as_def on_record_def patch_fields broadcast_patch_def terminal_def split: sum.splits\<close>)
qed

definition submitted :: "uuid \<Rightarrow> string list \<Rightarrow> journal_error + (bool \<times> 'a option) \<Rightarrow> disk \<Rightarrow> bool" where
  "submitted i s r e \<longleftrightarrow> (\<exists>b got. r = Inr (b, got) \<and> (if b then \<exists>h. sent_as i s h e else unsent i s e \<and> got = None))"

lemma submit_before: "unsent i s d \<Longrightarrow>
    safe (on_record i s) (submitted i s)
      (submit_operations fuel pid i now lib False) d"
proof (induction lib arbitrary: d)
  case (Prepared ws k)
  have "safe (on_record i s) (\<lambda>r e. unsent i s e \<and> (\<exists>a. r = Inr a)) (p_try (update_operation fuel pid i (no_patch\<lparr>pa_withdrawals := Some ws\<rparr>) now)) d"
    by (rule p_try_ok, rule safe_mono [OF unsent_update [OF Prepared.prems]]) (auto split: sum.splits)
  then show ?case unfolding submit_operations.simps by (rule safe_then) (auto intro: Prepared.IH)
next
  case (Sends h accepted k)
  let ?R = "\<lambda>r e. case r of Inr (Some _) \<Rightarrow> sent_as i s h (e\<lparr>dk_sent := h # s\<rparr>) \<and> dk_sent e = s | Inr None \<Rightarrow> unsent i s e | Inl _ \<Rightarrow> False"
  have u: "safe (on_record i s) ?R (p_try (update_operation fuel pid i (broadcast_patch h) now)) d"
    by (rule p_try_ok, rule safe_mono [OF broadcast_update [OF Sends.prems]]) (auto split: sum.splits)
  have after: "safe (on_record i s) (submitted i s) (p_bind (node_receives h) (\<lambda>_. submit_operations fuel pid i now (k accepted) True)) e"
    if e: "sent_as i s h (e\<lparr>dk_sent := h # s\<rparr>)" "dk_sent e = s" for e
  proof -
    have "safe (on_record i s) (submitted i s) (submit_operations fuel pid i now (k accepted) True) (e\<lparr>dk_sent := h # s\<rparr>)"
      by (rule safe_mono [OF submit_after [OF e(1)]]) (auto simp: submitted_def)
    then show ?thesis using on_record_if(2) [OF e(1)] e(2) by (simp add: node_receives_def)
  qed
  show ?case unfolding submit_operations.simps if_False
  proof (rule safe_then [OF u])
    fix a :: "op_record option" and e
    assume "?R (Inr a) e"
    then show "safe (on_record i s) (submitted i s) (case a of None \<Rightarrow> submit_operations fuel pid i now (k False) False
       | Some _ \<Rightarrow> p_bind (node_receives h) (\<lambda>_. submit_operations fuel pid i now (k accepted) True)) e"
      using Sends.IH [of "k False"] after by (cases a) (simp_all del: safe_bind)
  qed simp
qed (auto simp: submitted_def)

section \<open>Stopping and completing\<close>

definition completed :: "uuid \<Rightarrow> string list \<Rightarrow> disk \<Rightarrow> bool" where
  "completed i s e \<longleftrightarrow> (\<exists>h r. dk_sent e = h # s \<and> map_of (dk_recs e) i = Some r \<and> or_id r = i \<and> or_status r = Complete)"

lemma on_record_completed: "completed i s e \<Longrightarrow> on_record i s e"
  by (auto simp: completed_def on_record_def)

lemma record_fail:
  assumes "(if b then (\<exists>h. sent_as i s h d) \<or> completed i s d else unsent i s d)"
  shows "safe (on_record i s) (\<lambda>r e. on_record i s e) (fail_or_abort fuel pid i (Some b) now) d"
proof -
  have on: "on_record i s d" using assms on_record_if on_record_completed by (auto split: if_splits)
  obtain old where o: "map_of (dk_recs d) i = Some old" "or_id old = i"
    and st: "if b then or_status old = Complete \<or> or_status old = Broadcast \<and> (\<exists>h. or_txHash old = Some h \<and> dk_sent d = h # s)
      else or_status old = Building \<and> dk_sent d = s"
    using assms by (auto simp: unsent_def sent_as_def completed_def split: if_splits)
  let ?pa = "\<lambda>abort. no_patch\<lparr>pa_status := Some (if abort then Aborted else OpInDoubt),
      pa_txHash := Some (if abort then None else or_txHash old), pa_error := Some (if abort then BeforeSubmission else NeedsReconciliation)\<rparr>"
  have up: "safe (on_record i s) (\<lambda>r e. on_record i s e) (update_operation fuel pid i (?pa (\<not> b)) now) d"
    if "\<not> terminal (or_status old)"
    by (rule safe_mono [OF safe_update_record [OF o refl]])
      (use o st that on in \<open>auto simp: on_record_def patch_fields terminal_def split: if_splits sum.splits\<close>)
  show ?thesis
  proof (cases "terminal (or_status old)")
    case True
    then show ?thesis using o on by (simp add: fail_or_abort_def get_record_def)
  next
    case False
    have ab: "(Some b = Some False \<and> or_status old \<in> {Building, Broadcast} \<or> Some b = None \<and> or_status old = Building) \<longleftrightarrow> \<not> b"
      using st by (auto split: if_splits)
    have "safe (on_record i s) (\<lambda>r e. on_record i s e) (p_bind (update_operation fuel pid i (?pa (\<not> b)) now) (\<lambda>_. p_return (Some (if \<not> b then BeforeSubmission else NeedsReconciliation)))) d"
      by (rule safe_then [OF up [OF False]]) simp_all
    then show ?thesis using False o on unfolding fail_or_abort_def Let_def ab [symmetric] by (simp add: get_record_def)
  qed
qed

lemma record_stop:
  assumes "(if b then (\<exists>h. sent_as i s h d) \<or> completed i s d else unsent i s d)"
  shows "safe (on_record i s) (\<lambda>r e. on_record i s e \<and> (\<exists>x. r = Inl x)) (stop_operation fuel pid i b now) d"
proof -
  have "safe (on_record i s) (\<lambda>r e. on_record i s e \<and> (\<exists>a. r = Inr a)) (p_try (fail_or_abort fuel pid i (Some b) now)) d"
    by (rule p_try_ok, rule safe_mono [OF record_fail [OF assms]]) (auto split: sum.splits)
  then show ?thesis unfolding stop_operation_def by (rule safe_then) auto
qed

lemma complete_update:
  assumes "sent_as i s h d" "pa_status pa = Some Complete"
  shows "safe (on_record i s) (\<lambda>r e. case r of
      Inr got \<Rightarrow> completed i s e \<and> map_of (dk_recs e) i = Some got \<and> or_txHash got = or_else (pa_txHash pa) (Some h)
    | Inl x \<Rightarrow> sent_as i s h e \<or> completed i s e) (update_operation fuel pid i pa now) d"
proof -
  obtain old where o: "dk_sent d = h # s" "map_of (dk_recs d) i = Some old" "or_id old = i" "or_status old = Broadcast" "or_txHash old = Some h"
    using assms(1) by (auto simp: sent_as_def)
  show ?thesis
    by (rule safe_mono [OF safe_update_record [OF o(2,3,1)]])
      (use o assms(2) in \<open>auto simp: sent_as_def completed_def on_record_def patch_fields split: sum.splits\<close>)
qed

text \<open>What a spend or an exit that returns a hash leaves: its record is complete with that hash.\<close>

definition moved :: "uuid \<Rightarrow> string list \<Rightarrow> journal_error + string \<Rightarrow> disk \<Rightarrow> bool" where
  "moved i s r e \<longleftrightarrow> on_record i s e \<and> (\<forall>h. r = Inr h \<longrightarrow> completed i s e \<and> (\<exists>rc. map_of (dk_recs e) i = Some rc \<and> or_txHash rc = Some h))"

lemma safe_move:
  assumes begins: "safe (on_record i s) (\<lambda>r e. on_record i s e \<and> (\<forall>rc. r = Inr rc \<longrightarrow> or_id rc = i \<and> unsent i s e)) starts d"
    and outcome: "\<And>h ws. pa_status (outcome h ws) = Some Complete \<and> pa_txHash (outcome h ws) = Some (Some h)"
  shows "safe (on_record i s) (moved i s) (move_funds fuel pid starts outcome lib now) d"
proof -
  have stop: "safe (on_record i s) (moved i s) (stop_operation fuel pid i b now) e"
    if "(if b then (\<exists>h. sent_as i s h e) \<or> completed i s e else unsent i s e)" for b e
    by (rule safe_mono [OF record_stop [OF that]]) (auto simp: moved_def)
  have fin: "safe (on_record i s) (moved i s) (p_bind (p_try (update_operation fuel pid i (outcome h ws) now)) (\<lambda>u. case u of
      Some _ \<Rightarrow> p_return h | None \<Rightarrow> stop_operation fuel pid i True now)) e" if e: "sent_as i s g e" for h ws g e
  proof -
    have "safe (on_record i s) (\<lambda>r e. case r of Inr (Some got) \<Rightarrow> completed i s e \<and> map_of (dk_recs e) i = Some got \<and> or_txHash got = Some h
        | Inr None \<Rightarrow> (\<exists>h. sent_as i s h e) \<or> completed i s e | Inl _ \<Rightarrow> False) (p_try (update_operation fuel pid i (outcome h ws) now)) e"
      by (rule p_try_ok, rule safe_mono [OF complete_update [OF e]]) (use outcome in \<open>auto split: sum.splits\<close>)
    then show ?thesis
      by (rule safe_then) (auto simp: moved_def on_record_completed intro!: stop split: option.splits)
  qed
  have rest: "safe (on_record i s) (moved i s) (p_bind (submit_operations fuel pid i now lib False) (\<lambda>(reached, got). case got of
         Some (True, h, ws) \<Rightarrow> p_bind (p_try (update_operation fuel pid i (outcome h ws) now)) (\<lambda>u. case u of
             Some _ \<Rightarrow> p_return h
           | None \<Rightarrow> stop_operation fuel pid i reached now)
       | _ \<Rightarrow> stop_operation fuel pid i reached now)) e" if "unsent i s e" for e
  proof (rule safe_then [OF submit_before [OF that]])
    fix a :: "bool \<times> (bool \<times> string \<times> op_withdrawal list) option" and f
    assume "submitted i s (Inr a) f"
    then show "safe (on_record i s) (moved i s) ((\<lambda>(reached, got). case got of
         Some (True, h, ws) \<Rightarrow> p_bind (p_try (update_operation fuel pid i (outcome h ws) now)) (\<lambda>u. case u of
             Some _ \<Rightarrow> p_return h
           | None \<Rightarrow> stop_operation fuel pid i reached now)
       | _ \<Rightarrow> stop_operation fuel pid i reached now) a) f"
      by (auto simp: submitted_def simp del: safe_bind intro!: stop fin split: prod.splits option.splits bool.splits if_splits)
  qed (auto simp: submitted_def)
  have tries: "safe (on_record i s) (\<lambda>r e. case r of Inr (Some rc) \<Rightarrow> or_id rc = i \<and> unsent i s e | Inr None \<Rightarrow> on_record i s e | Inl _ \<Rightarrow> False) (p_try starts) d"
    by (rule p_try_ok, rule safe_mono [OF begins]) (auto split: sum.splits)
  show ?thesis unfolding move_funds_def
  proof (rule safe_then [OF tries], goal_cases)
    case (2 a e)
    then show ?case
    proof (cases a)
      case (Some rc)
      then show ?thesis using 2 rest [of e] by (simp only: option.case sum.case)
    qed (simp add: moved_def)
  qed simp
qed

lemma safe_both: "safe I Q p d \<Longrightarrow> safe J R p d \<Longrightarrow> safe (\<lambda>e. I e \<and> J e) (\<lambda>r e. Q r e \<and> R r e) p d"
proof (induction p arbitrary: d rule: prog_step_induct)
  case (Act f)
  then show ?case by (cases "f d") auto
qed simp

lemma begin_unsent:
  assumes "journal_ok [] d"
  shows "safe (on_record (dk_uuid d) (dk_sent d)) (\<lambda>r e. on_record (dk_uuid d) (dk_sent d) e
    \<and> (\<forall>rc. r = Inr rc \<longrightarrow> or_id rc = dk_uuid d \<and> unsent (dk_uuid d) (dk_sent d) e)) (begin_with_state fuel pid kind request now None) d"
  by (rule safe_mono [OF safe_both [OF safe_begin [OF assms] steadyD [OF sent_begin [of "dk_sent d"]]]])
    (auto simp: on_record_def unsent_def sent_def begun_def held_def fresh_record_def split: sum.splits)

definition fund_movement :: "string prog \<Rightarrow> bool" where
  "fund_movement p \<longleftrightarrow> (\<exists>fuel pid account recipient amount lib now. p = spend_funds fuel pid account recipient amount lib now)
     \<or> (\<exists>fuel pid account x fee lib now. p = exit_funds fuel pid account x fee lib now)"

lemma safe_movement:
  assumes ok: "journal_ok [] d" and p: "fund_movement p"
  shows "safe (on_record (dk_uuid d) (dk_sent d)) (moved (dk_uuid d) (dk_sent d)) p d"
proof -
  have on: "on_record (dk_uuid d) (dk_sent d) d" by (simp add: on_record_def)
  have out: "pa_status (spend_outcome h ws) = Some Complete \<and> pa_txHash (spend_outcome h ws) = Some (Some h)"
    "pa_status (exit_outcome h ws) = Some Complete \<and> pa_txHash (exit_outcome h ws) = Some (Some h)" for h ws
    by (simp_all add: exit_outcome_def spend_outcome_def)
  show ?thesis using p unfolding fund_movement_def
    by (auto simp: spend_funds_def exit_funds_def begin_exit_def begin_operation_def on
      intro!: safe_move begin_unsent [OF ok] out split: sum.split)
qed

section \<open>What the tool guarantees\<close>

text \<open>
  C38. Nothing is sent off the record. Whatever the wallet library does, and wherever the process of a spend or an exit
  dies, the node has received at most one transaction for it, and then the operation's record, on disk, is
  broadcast or in doubt with exactly that hash, or complete: it is never building or aborted.
\<close>

theorem nothing_sent_off_the_record:
  assumes "journal_reach d" "fund_movement p" "run_steps n p d = (q, e)"
  shows "dk_sent e = dk_sent d \<or> (\<exists>h r. dk_sent e = h # dk_sent d \<and> map_of (dk_recs e) (dk_uuid d) = Some r
    \<and> (or_status r \<in> {Broadcast, OpInDoubt} \<and> or_txHash r = Some h \<or> or_status r = Complete))"
  using safe_steps [OF safe_movement [OF journal_reach_ok [OF assms(1)] assms(2)] _ assms(3)] by (simp add: on_record_def)

text \<open>
  C?. A reported hash is on record. When a spend or an exit returns a hash, exactly one transaction was handed to the
  node for it and its record is complete with the hash returned.
\<close>

theorem returned_hash_is_recorded:
  assumes "journal_reach d" "fund_movement p" "finish p d = (Inr h, e)"
  shows "(\<exists>g. dk_sent e = g # dk_sent d)
    \<and> (\<exists>r. map_of (dk_recs e) (dk_uuid d) = Some r \<and> or_status r = Complete \<and> or_txHash r = Some h)"
  using safe_finish [OF safe_movement [OF journal_reach_ok [OF assms(1)] assms(2)] assms(3)] by (auto simp: moved_def completed_def)

end
