(* ===== verification/Refunds.thy ===== *)
theory Refunds
  imports MovementRecord Escrow
begin

text \<open>
  Reconciling a refund, \<open>applyRefundReconciliation\<close>: the lock is released exactly on matching and finalized evidence.
\<close>

lemma finish_bind [simp]: "finish (p_bind p k) d = (case finish p d of (Inl x, e) \<Rightarrow> (Inl x, e) | (Inr a, e) \<Rightarrow> finish (k a) e)"
proof (induction p arbitrary: d rule: prog_step_induct)
  case (Ret r)
  then show ?case by (cases r) simp_all
next
  case (Act f)
  then show ?case by (cases "f d") simp
qed

lemma finish_ops [simp]: "finish (p_return a) d = (Inr a, d)" "finish (p_throw x) d = (Inl x, d)"
  "finish (p_guard c x) d = (if c then Inr () else Inl x, d)"
  by (simp_all add: p_return_def p_throw_def p_guard_def)

lemma op_decimal_show: "0 \<le> n \<Longrightarrow> op_decimal (show_int n)"
  using show_nat_canonical [of "nat n"] by (auto simp: op_decimal_def canonical_digits_def show_int_def)

lemma refund_fields: "pa_status (refund_patch ob) = Some (if ro_success ob then Complete else OpFailed)"
  "pa_txHash (refund_patch ob) = None"
  by (simp_all add: refund_patch_def Let_def)

lemma refund_valid:
  assumes "record_valid r" "\<not> terminal (or_status r)" "or_txHash r = Some h"
    and "tx_hash_text (ro_receiptBlockHash ob)" "0 \<le> ro_receiptBlockNumber ob" "now \<noteq> []"
  shows "record_valid (apply_patch (refund_patch ob) now r)" "may_move_to (or_status r) (pa_status (refund_patch ob))"
proof -
  have st: "or_status r = Broadcast \<or> or_status r = OpInDoubt"
    using assms(1-3) by (cases "or_status r") (auto simp: record_valid_def terminal_def)
  have old: "or_createdAt r \<noteq> []" "opt_ok tx_hash_text (or_txHash r)" "opt_ok (list_all (\<lambda>w. op_hex (wd_finalizationData w))) (or_withdrawals r)"
    using assms(1) by (simp_all add: record_valid_def)
  show "record_valid (apply_patch (refund_patch ob) now r)"
    using old assms(3,4,6) op_decimal_show [OF assms(5)]
    by (cases "ro_success ob") (simp_all add: record_valid_def apply_patch_def refund_patch_def no_patch_def Let_def opt_ok_def)
  show "may_move_to (or_status r) (pa_status (refund_patch ob))"
    using st by (auto simp: refund_fields may_move_to_def transitions_def)
qed

lemma counter_active: "steady (\<lambda>e. dk_uuid e = u) (\<lambda>e. dk_uuid e = u) active_unresolved"
proof -
  have rw: "steady (\<lambda>e. dk_uuid e = u) (\<lambda>e. dk_uuid e = u) (p_read f)"
    "steady (\<lambda>e. dk_uuid e = u) (\<lambda>e. dk_uuid e = u) (put_lock ow rc)" "steady (\<lambda>e. dk_uuid e = u) (\<lambda>e. dk_uuid e = u) (put_record r)"
    for f :: "disk \<Rightarrow> journal_error + 'b" and ow rc r
    by (simp_all add: steady_def put_lock_def put_record_def)
  show ?thesis
    unfolding active_unresolved_def lock_exists_def read_active_lock_def record_for_lock_def find_record_def
    by (auto intro!: steady_bind rw split: option.split prod.split)
qed

text \<open>
  C39. A refund is settled on final evidence only, and then it is; refused evidence changes nothing. In a reachable
  directory a reconciliation succeeds exactly when recovery finds an unresolved refund with a hash, the evidence
  matches it and its block is final; it then records the outcome of the receipt, and no operation is unresolved
  and the lock is free. Otherwise it throws, and the directory is the one recovery left, with the operation
  recovery found still unresolved and holding the lock.
\<close>

theorem refund_settled_iff_final:
  assumes "journal_reach d" "dk_uuid d < fuel" "now \<noteq> []"
    and "tx_hash_text (ro_receiptBlockHash ob)" "0 \<le> ro_receiptBlockNumber ob"
  shows "if \<exists>r h. fst (finish active_unresolved d) = Inr (Some r) \<and> is_refund (or_kind r) \<and> or_txHash r = Some h
        \<and> evidence_matches keccak chain ob r h \<and> ro_receiptBlockNumber ob \<le> ro_finalizedNumber ob
    then \<exists>e. finish (apply_refund_reconciliation keccak chain fuel pid ob now) d = (Inr (ro_success ob), e)
        \<and> dk_lock e = None \<and> live_records (map snd (dk_recs e)) = []
        \<and> (\<exists>r. or_status r = (if ro_success ob then Complete else OpFailed) \<and> map_of (dk_recs e) (or_id r) = Some r
            \<and> is_refund (or_kind r) \<and> (\<exists>h. or_txHash r = Some h \<and> evidence_matches keccak chain ob r h))
    else (\<exists>x. finish (apply_refund_reconciliation keccak chain fuel pid ob now) d = (Inl x, snd (finish active_unresolved d)))
        \<and> (\<forall>r. fst (finish active_unresolved d) = Inr (Some r) \<longrightarrow> held r (snd (finish active_unresolved d)))" (is "if ?R then ?L else ?N")
proof (cases ?R)
  obtain a d1 where act: "finish active_unresolved d = (a, d1)" by fastforce
  {
    case False
    have "held r d1" if "a = Inr (Some r)" for r
      using safe_finish [OF safe_active_unresolved [OF journal_reach_ok [OF assms(1)]] act] that by simp
    moreover have "\<exists>x. finish (apply_refund_reconciliation keccak chain fuel pid ob now) d = (Inl x, d1)"
      using False act by (auto simp: apply_refund_reconciliation_def split: sum.splits option.splits if_splits)
    ultimately show ?thesis using False act by (simp only: if_False) simp
  next
    case True
    then obtain r h where a: "a = Inr (Some r)" and k: "is_refund (or_kind r)" and h: "or_txHash r = Some h"
      and ev: "evidence_matches keccak chain ob r h" and fin: "ro_receiptBlockNumber ob \<le> ro_finalizedNumber ob"
      using act by auto
    from safe_finish [OF safe_active_unresolved [OF journal_reach_ok [OF assms(1)]] act] have ok1: "journal_ok [] d1" and held: "held r d1"
      by (simp_all add: a)
    have rc: "map_of (dk_recs d1) (or_id r) = Some r" and lk: "dk_lock d1 = Some (OwnedLock (owner_of r) None)" and live: "\<not> terminal (or_status r)"
      using held by (simp_all add: held_def)
    let ?new = "apply_patch (refund_patch ob) now r"
    have v: "record_valid ?new" "may_move_to (or_status r) (pa_status (refund_patch ob))"
      using refund_valid [OF _ live h assms(4,5,3)] rec_facts [OF ok1 rc] by auto
    have up: "update_allowed (or_id r) (refund_patch ob) now r d1" using v rc lk by (simp add: update_allowed_def)
    obtain x e where u: "finish (update_operation fuel pid (or_id r) (refund_patch ob) now) d1 = (x, e)" by fastforce
    have same: "dk_uuid d1 = dk_uuid d" using safe_finish [OF steadyD [OF counter_active refl] act] by simp
    from safe_finish [OF safe_update [OF ok1 up] u] assms(2) same
    have x: "x = Inr ?new" "updated (or_id r) ?new d1 e" "journal_ok [] e" by (auto split: sum.splits)
    have t: "terminal (or_status ?new)" by (simp add: patch_fields refund_fields terminal_def)
    have lke: "dk_lock e = None" and new: "map_of (dk_recs e) (or_id r) = Some ?new" using x(2) t by (simp_all add: updated_def)
    have "live_records (map snd (dk_recs e)) = []" using unlocked_ended [OF x(3)] lke by (simp add: all_ended_def)
    moreover have "evidence_matches keccak chain ob ?new h"
      using ev by (simp add: evidence_matches_def apply_patch_def refund_patch_def no_patch_def Let_def)
    moreover have "or_kind ?new = or_kind r" "or_txHash ?new = Some h" "or_id ?new = or_id r"
      using h by (simp_all add: apply_patch_def refund_fields)
    ultimately have ?L using act a k h ev fin u x(1) lke new
      by (auto simp: apply_refund_reconciliation_def patch_fields refund_fields intro!: exI [of _ ?new])
    then show ?thesis using True by (simp only: if_True)
  }
qed

end
