(* ===== verification/JournalRace.thy ===== *)
theory JournalRace
  imports JournalReach
begin

text \<open>
  Processes that share a journal and run at once: their calls interleaved file operation by file operation, each
  process cut off anywhere, a restore included. What every directory they come to satisfies, and what a begin
  that then runs by itself finds and leaves there.
\<close>

section \<open>Directories of interleaved calls\<close>

text \<open>Records are filed under their own ids; ids on disk were drawn before; a lock embeds its own record.\<close>

definition dir_ok :: "disk \<Rightarrow> bool" where
  "dir_ok d \<longleftrightarrow> distinct (map fst (dk_recs d)) \<and> (\<forall>(i, r) \<in> set (dk_recs d). or_id r = i \<and> i < dk_uuid d)
     \<and> (\<forall>ow emb. dk_lock d = Some (OwnedLock ow emb) \<longrightarrow> ow_id ow < dk_uuid d \<and> (\<forall>r. emb = Some r \<longrightarrow> or_id r = ow_id ow))"

text \<open>
  A program that keeps such a directory at each of its file operations, whatever other programs did to the directory
  since the last one, as long as the ids below \<open>n\<close> are drawn; its result satisfies \<open>Q\<close>.
\<close>

primrec neat :: "(nat \<Rightarrow> journal_error + 'a \<Rightarrow> bool) \<Rightarrow> 'a prog \<Rightarrow> nat \<Rightarrow> bool" where
  "neat Q (Ret r) = (\<lambda>n. Q n r)"
| "neat Q (Act f) = (\<lambda>n. \<forall>d. dir_ok d \<and> n \<le> dk_uuid d \<longrightarrow>
     (case map_prod (neat Q) id (f d) of (g, e) \<Rightarrow> dir_ok e \<and> dk_uuid d \<le> dk_uuid e \<and> g (dk_uuid e)))"

lemma neat_bind [simp]: "neat Q (p_bind p k) n \<longleftrightarrow> neat (\<lambda>m r. case r of Inl x \<Rightarrow> Q m (Inl x) | Inr a \<Rightarrow> neat Q (k a) m) p n"
proof (induction p arbitrary: n rule: prog_step_induct)
  case (Act f)
  have "(case map_prod (neat Q) id (map_prod (\<lambda>p. p_bind p k) id (f d)) of (g, e) \<Rightarrow> dir_ok e \<and> dk_uuid d \<le> dk_uuid e \<and> g (dk_uuid e))
      \<longleftrightarrow> (case map_prod (neat (\<lambda>m r. case r of Inl x \<Rightarrow> Q m (Inl x) | Inr a \<Rightarrow> neat Q (k a) m)) id (f d) of
        (g, e) \<Rightarrow> dir_ok e \<and> dk_uuid d \<le> dk_uuid e \<and> g (dk_uuid e))" for d
    by (cases "f d") (simp add: Act.IH)
  then show ?case by simp
qed (simp split: sum.split)

lemma neat_catch [simp]: "neat Q (p_catch p h) n \<longleftrightarrow> neat (\<lambda>m r. case r of Inl x \<Rightarrow> neat Q (h x) m | Inr a \<Rightarrow> Q m (Inr a)) p n"
proof (induction p arbitrary: n rule: prog_step_induct)
  case (Act f)
  have "(case map_prod (neat Q) id (map_prod (\<lambda>p. p_catch p h) id (f d)) of (g, e) \<Rightarrow> dir_ok e \<and> dk_uuid d \<le> dk_uuid e \<and> g (dk_uuid e))
      \<longleftrightarrow> (case map_prod (neat (\<lambda>m r. case r of Inl x \<Rightarrow> neat Q (h x) m | Inr a \<Rightarrow> Q m (Inr a))) id (f d) of
        (g, e) \<Rightarrow> dir_ok e \<and> dk_uuid d \<le> dk_uuid e \<and> g (dk_uuid e))" for d
    by (cases "f d") (simp add: Act.IH)
  then show ?case by simp
qed (simp split: sum.split)

lemma neat_later: "neat Q p n \<Longrightarrow> neat (\<lambda>m r. n \<le> m \<and> Q m r) p n"
proof -
  have "neat Q p k \<Longrightarrow> n \<le> k \<Longrightarrow> neat (\<lambda>m r. n \<le> m \<and> Q m r) p k" for k
  proof (induction p arbitrary: k rule: prog_step_induct)
    case (Act f)
    show ?case
      unfolding neat.simps
    proof (intro allI impI)
      fix d
      assume d: "dir_ok d \<and> k \<le> dk_uuid d"
      obtain q e where f: "f d = (q, e)" by fastforce
      have "dir_ok e" "dk_uuid d \<le> dk_uuid e" "neat Q q (dk_uuid e)"
        using Act.prems(1) d f by auto
      with Act.IH [OF f] Act.prems(2) d f
      show "case map_prod (neat (\<lambda>m r. n \<le> m \<and> Q m r)) id (f d) of (g, e) \<Rightarrow> dir_ok e \<and> dk_uuid d \<le> dk_uuid e \<and> g (dk_uuid e)"
        by simp
    qed
  qed simp
  then show "neat Q p n \<Longrightarrow> neat (\<lambda>m r. n \<le> m \<and> Q m r) p n" by blast
qed

lemma neat_mono: "neat Q p n \<Longrightarrow> (\<And>m r. Q m r \<Longrightarrow> R m r) \<Longrightarrow> neat R p n"
proof (induction p arbitrary: n rule: prog_step_induct)
  case (Act f)
  show ?case unfolding neat.simps
  proof (intro allI impI)
    fix d
    assume d: "dir_ok d \<and> n \<le> dk_uuid d"
    obtain q e where f: "f d = (q, e)" by fastforce
    have "dir_ok e" "dk_uuid d \<le> dk_uuid e" "neat Q q (dk_uuid e)" using Act.prems(1) d f by auto
    then show "case map_prod (neat R) id (f d) of (g, e) \<Rightarrow> dir_ok e \<and> dk_uuid d \<le> dk_uuid e \<and> g (dk_uuid e)"
      using Act.IH [OF f _ Act.prems(2)] f by simp
  qed
qed simp

text \<open>Any result, from then on.\<close>

abbreviation runs :: "'a prog \<Rightarrow> nat \<Rightarrow> bool" where
  "runs p n \<equiv> neat (\<lambda>m r. True) p n"

lemma neat_then: "neat Q p n \<Longrightarrow> (\<And>m a. n \<le> m \<Longrightarrow> Q m (Inr a) \<Longrightarrow> runs (k a) m) \<Longrightarrow> runs (p_bind p k) n"
  unfolding neat_bind by (rule neat_mono [OF neat_later]) (auto split: sum.split)

lemma runs_try: "runs p n \<Longrightarrow> neat (\<lambda>m r. n \<le> m) (p_try p) n"
  unfolding p_try_def p_return_def neat_catch neat_bind
  by (rule neat_mono [OF neat_later]) (auto split: sum.split)

lemma neat_later_disk: "runs p n \<Longrightarrow> n \<le> m \<Longrightarrow> runs p m"
  by (cases p) auto

lemma neat_ops [simp]:
  "neat Q1 (p_return a) n \<longleftrightarrow> Q1 n (Inr a)" "neat Q1 (p_throw e) n \<longleftrightarrow> Q1 n (Inl e)"
  "neat Q2 (p_guard c e) n \<longleftrightarrow> (if c then Q2 n (Inr ()) else Q2 n (Inl e))"
  "neat Q3 (p_read g) n \<longleftrightarrow> (\<forall>d. dir_ok d \<and> n \<le> dk_uuid d \<longrightarrow> Q3 (dk_uuid d) (g d))"
  "neat Q4 (p_write u) n \<longleftrightarrow> (\<forall>d. dir_ok d \<and> n \<le> dk_uuid d \<longrightarrow> dir_ok (u d) \<and> dk_uuid d \<le> dk_uuid (u d) \<and> Q4 (dk_uuid (u d)) (Inr ()))"
  by (auto simp: p_return_def p_throw_def p_guard_def p_read_def p_write_def)

section \<open>Every method is neat\<close>

lemma dir_grow [simp]: "dir_ok d \<Longrightarrow> dir_ok (d\<lparr>dk_uuid := Suc (dk_uuid d)\<rparr>)"
  unfolding dir_ok_def by (auto intro: less_SucI)

lemma dir_frame [simp]: "dir_ok (d\<lparr>dk_claims := c\<rparr>) = dir_ok d" "dir_ok (d\<lparr>dk_dead := p\<rparr>) = dir_ok d" "dir_ok (d\<lparr>dk_sent := s\<rparr>) = dir_ok d"
  by (simp_all add: dir_ok_def)

lemma dir_unlock [simp]: "dir_ok d \<Longrightarrow> dir_ok (d\<lparr>dk_lock := None\<rparr>)" "dir_ok d \<Longrightarrow> dir_ok (d\<lparr>dk_lock := Some EmptyLock\<rparr>)"
  by (simp_all add: dir_ok_def)

lemma dir_put: "dir_ok d \<Longrightarrow> or_id r < dk_uuid d \<Longrightarrow> dir_ok (d\<lparr>dk_recs := alist_put (or_id r) r (dk_recs d)\<rparr>)"
  unfolding dir_ok_def alist_put_def by (auto simp: distinct_map_filter)

lemma neat_files [simp]:
  "neat (\<lambda>m r. \<exists>i. r = Inr i \<and> i < m) random_uuid n"
  "runs create_lock n" "runs (link_claim path cl) n" "runs (node_receives h) n"
  by (auto simp: random_uuid_def create_lock_def link_claim_def node_receives_def split: option.split)

lemma runs_put: "or_id r < n \<Longrightarrow> runs (put_record r) n"
  unfolding put_record_def by (auto intro!: dir_put)

lemma runs_put_lock: "ow_id ow < n \<Longrightarrow> (\<forall>r. emb = Some r \<longrightarrow> or_id r = ow_id ow) \<Longrightarrow> runs (put_lock ow emb) n"
  unfolding put_lock_def by (auto simp: dir_ok_def)

lemma neat_read_lock: "neat (\<lambda>m r. \<forall>ow emb. r = Inr (ow, emb) \<longrightarrow> ow_id ow < m \<and> (\<forall>r. emb = Some r \<longrightarrow> or_id r = ow_id ow)) read_active_lock n"
  by (auto simp: read_active_lock_def dir_ok_def split: option.splits lock_file.splits)

lemma runs_owner: "runs (assert_owns_active_lock ow) n"
  unfolding assert_owns_active_lock_def by (rule neat_then [OF neat_read_lock]) auto

lemma runs_claim: "runs (claim_release k pid ow visited path) n"
proof (induction k arbitrary: visited path n)
  case (Suc k)
  have alive: "runs (process_alive q) m" for q m by (simp add: process_alive_def)
  show ?case
    by (auto intro!: neat_then [OF neat_files(1)] neat_then [OF neat_files(3)] neat_then [OF alive] Suc.IH simp del: neat_bind split: option.split)
qed simp

lemma runs_release: "runs (release_lock fuel pid ow) n"
  unfolding release_lock_def by (rule neat_then [OF runs_owner], rule neat_then [OF runs_claim], rule neat_then [OF runs_owner]) simp

lemma runs_record_for:
  assumes "ow_id ow < n" "\<forall>r. emb = Some r \<longrightarrow> or_id r = ow_id ow"
  shows "runs (record_for_lock ow emb) n"
proof -
  have put: "runs (p_bind (put_record r) (\<lambda>_. p_return r)) m" if "emb = Some r" "n \<le> m" for r m
    by (rule neat_then [OF runs_put]) (use assms that in auto)
  have lock: "runs (p_bind (if emb \<noteq> None then put_lock ow None else p_return ()) (\<lambda>_. p_return r)) m" if "n \<le> m" for r m
    by (rule neat_then [OF neat_mono [of "\<lambda>_ _. True"]]) (use assms that in \<open>auto intro!: runs_put_lock\<close>)
  have guard: "runs (p_bind (p_guard (owner_of r = ow) NotOwner) (\<lambda>_. p_bind (if emb \<noteq> None then put_lock ow None else p_return ()) (\<lambda>_. p_return r))) m"
    if "n \<le> m" for r m
  proof -
    have "runs (p_guard (owner_of r = ow) NotOwner) m" by simp
    then show ?thesis by (rule neat_then) (rule lock, use that in simp)
  qed
  have find: "runs (find_record (ow_id ow)) n" by (simp add: find_record_def)
  show ?thesis unfolding record_for_lock_def
  proof (rule neat_then [OF find])
    fix m found
    assume "n \<le> m"
    then have "runs (case found of Some r \<Rightarrow> p_return r | None \<Rightarrow> (case emb of None \<Rightarrow> p_throw NoRecoverableRecord
        | Some r \<Rightarrow> p_bind (put_record r) (\<lambda>_. p_return r))) m"
      using put by (auto split: option.split simp del: neat_bind)
    then show "runs (p_bind (case found of Some r \<Rightarrow> p_return r | None \<Rightarrow> (case emb of None \<Rightarrow> p_throw NoRecoverableRecord
        | Some r \<Rightarrow> p_bind (put_record r) (\<lambda>_. p_return r))) (\<lambda>r. p_bind (p_guard (owner_of r = ow) NotOwner) (\<lambda>_.
          p_bind (if emb \<noteq> None then put_lock ow None else p_return ()) (\<lambda>_. p_return r)))) m"
      by (rule neat_then, intro guard) (use \<open>n \<le> m\<close> in simp)
  qed
qed

lemma runs_lock_record: "neat (\<lambda>m r. \<forall>ow emb. r = Inr (ow, emb) \<longrightarrow> ow_id ow < m \<and> (\<forall>r. emb = Some r \<longrightarrow> or_id r = ow_id ow)) p n
    \<Longrightarrow> (\<And>m r. runs (k r) m) \<Longrightarrow> runs (p_bind p (\<lambda>(ow, emb). p_bind (record_for_lock ow emb) k)) n"
  by (erule neat_then) (auto simp del: neat_bind split: prod.split intro!: neat_then [OF runs_record_for])

lemma runs_active: "runs active_unresolved n"
proof -
  have ex: "runs lock_exists n" for n by (simp add: lock_exists_def)
  show ?thesis unfolding active_unresolved_def
    by (rule neat_then [OF ex]) (auto simp del: neat_bind intro!: runs_lock_record neat_read_lock)
qed

lemma neat_try: "neat Q p n \<Longrightarrow> neat (\<lambda>m r. n \<le> m \<and> (\<forall>a. r = Inr (Some a) \<longrightarrow> Q m (Inr a))) (p_try p) n"
  unfolding p_try_def p_return_def neat_catch neat_bind
  by (rule neat_mono [OF neat_later]) (auto split: sum.split)

lemma runs_recovered: "runs (release_recovered_terminal_lock fuel pid) n"
proof -
  have recs: "runs records m" for m by (simp add: records_def)
  show ?thesis unfolding release_recovered_terminal_lock_def
  proof (rule neat_then [OF neat_try [OF neat_read_lock]])
    fix m and lk :: "(op_owner \<times> op_record option) option"
    assume lk: "n \<le> m \<and> (\<forall>a. Inr lk = Inr (Some a) \<longrightarrow> (\<forall>ow emb. Inr a = Inr (ow, emb) \<longrightarrow> ow_id ow < m \<and> (\<forall>r. emb = Some r \<longrightarrow> or_id r = ow_id ow)))"
    let ?k = "\<lambda>ow found. case found of None \<Rightarrow> p_return False
       | Some r \<Rightarrow> if \<not> terminal (or_status r) then p_return False
           else p_bind records (\<lambda>rs. if live_records rs \<noteq> [] then p_return False
             else p_bind (release_lock fuel pid ow) (\<lambda>_. p_return True))"
    have k: "runs (?k ow found) m" for ow found m
      by (auto simp del: neat_bind split: option.split intro!: neat_then [OF recs] neat_then [OF runs_release])
    show "runs (case lk of None \<Rightarrow> p_return False | Some (ow, emb) \<Rightarrow> p_bind (p_try (record_for_lock ow emb)) (?k ow)) m"
    proof (cases lk)
      case (Some x)
      obtain ow emb where x: "x = (ow, emb)" by fastforce
      have "runs (p_bind (p_try (record_for_lock ow emb)) (?k ow)) m"
        by (rule neat_then [OF neat_try [OF runs_record_for]]) (use lk Some x k in \<open>auto simp del: neat_bind\<close>)
      then show ?thesis by (simp only: Some x option.case prod.case)
    qed simp
  qed
qed

lemma runs_unresolved: "runs unresolved n"
  by (simp add: unresolved_def records_def)

lemma runs_take: "runs (take_lock k fuel pid) n"
proof (induction k arbitrary: n)
  case (Suc k)
  show ?case
    by (auto simp del: neat_bind intro!: neat_then [OF neat_files(2)] neat_then [OF runs_recovered] neat_then [OF runs_unresolved] Suc.IH)
qed simp

lemma runs_publish: "or_id r < n \<Longrightarrow> runs (publish fuel pid r) n"
proof -
  assume r: "or_id r < n"
  have body: "runs (p_bind unresolved (\<lambda>u. case u of Some v \<Rightarrow> p_throw (Unresolved (or_id v)) | None \<Rightarrow> put_record r)) n"
    by (rule neat_then [OF runs_unresolved]) (use r in \<open>auto split: option.split intro!: runs_put\<close>)
  have release: "runs (p_bind (release_lock fuel pid (owner_of r)) (\<lambda>_. p_throw e)) m" for e m
    by (rule neat_then [OF runs_release]) simp
  have "neat (\<lambda>m q. n \<le> m) (p_catch (p_bind unresolved (\<lambda>u. case u of Some v \<Rightarrow> p_throw (Unresolved (or_id v)) | None \<Rightarrow> put_record r))
      (\<lambda>e. p_bind (release_lock fuel pid (owner_of r)) (\<lambda>_. p_throw e))) n"
    unfolding neat_catch using neat_later [OF body]
    by (rule neat_mono) (auto simp del: neat_bind split: sum.split intro: neat_mono [OF neat_later [OF release]])
  then show ?thesis unfolding publish_def
    by (rule neat_then) (use r in \<open>auto simp del: neat_bind simp: owner_of_def intro!: neat_then [OF runs_put_lock]\<close>)
qed

lemma runs_begin: "runs (begin_with_state fuel pid kind request now tx) n"
proof -
  have late: "runs (p_bind (take_lock fuel fuel pid) (\<lambda>_. p_bind (put_lock (owner_of r) (Some r)) (\<lambda>_. publish fuel pid r))) m"
    if "or_id r < m" for r m
    by (rule neat_then [OF runs_take], rule neat_then [OF runs_put_lock], use that in \<open>auto simp: owner_of_def intro: runs_publish\<close>)
  have guard: "runs (p_bind (p_guard c x) (\<lambda>_. p_bind (take_lock fuel fuel pid) (\<lambda>_. p_bind (put_lock (owner_of r) (Some r)) (\<lambda>_. publish fuel pid r)))) m"
    if "or_id r < m" for c x r m
    by (rule neat_then [of "\<lambda>_ _. True"]) (use that late in \<open>simp_all del: neat_bind\<close>)
  show ?thesis unfolding begin_with_state_def Let_def
    by (rule neat_then [OF neat_files(1)], rule neat_then [OF neat_files(1)], rule guard) auto
qed

lemma runs_update: "runs (update_operation fuel pid i pa now) n"
proof -
  have get: "neat (\<lambda>m r. \<forall>x. r = Inr x \<longrightarrow> or_id x < m) (get_record i) n" for n
    unfolding get_record_def by (auto simp: dir_ok_def dest!: map_of_SomeD split: option.split)
  have guard: "runs (p_guard c x) m" for c x m by simp
  have put: "runs (put_record (apply_patch pa now r)) m" if "or_id r < m" for r m by (rule runs_put) (use that in simp)
  have free: "runs (if c then release_lock fuel pid ow else p_return ()) m" for c ow m by (simp add: runs_release)
  show ?thesis unfolding update_operation_def Let_def
    apply (rule neat_then [OF get])
    apply (rule neat_then [OF runs_owner])
    apply (rule neat_then [OF guard])
    apply (rule neat_then [OF guard])
    apply (rule neat_then [OF put], force)
    apply (rule neat_then [OF free])
    apply simp
    done
qed

lemma runs_bind: "(\<And>n. runs p n) \<Longrightarrow> (\<And>a n. runs (k a) n) \<Longrightarrow> runs (p_bind p k) n"
  by (rule neat_then)

lemma runs_catch: "(\<And>n. runs p n) \<Longrightarrow> (\<And>x n. runs (h x) n) \<Longrightarrow> runs (p_catch p h) n"
  unfolding neat_catch by (rule neat_mono [of "\<lambda>_ _. True"]) (auto split: sum.split)

lemma runs_tried: "(\<And>n. runs p n) \<Longrightarrow> runs (p_try p) n"
  by (rule neat_mono [OF runs_try]) auto

lemma runs_plain: "runs (p_return a) n" "runs (p_throw e) n" "runs (p_guard c x) n"
  by simp_all

lemma runs_fail: "runs (fail_or_abort fuel pid i boundary now) n"
proof -
  have get: "runs (get_record i) n" for n by (simp add: get_record_def)
  show ?thesis unfolding fail_or_abort_def Let_def
    by (rule runs_bind [OF get]) (auto simp del: neat_bind intro!: runs_bind runs_update runs_plain)
qed

lemmas run_rules = runs_bind runs_catch runs_tried runs_plain runs_begin runs_active runs_update runs_fail neat_files(4)

lemma runs_submit: "runs (submit_operations fuel pid i now lib b) n"
  by (induction lib arbitrary: b n) (auto simp del: neat_bind intro!: run_rules split: option.split)

lemma runs_move: "(\<And>n. runs starts n) \<Longrightarrow> runs (move_funds fuel pid starts outcome lib now) n"
  unfolding move_funds_def stop_operation_def
  by (auto simp del: neat_bind intro!: run_rules runs_submit split: option.split bool.split)

lemma runs_restore: "\<forall>r \<in> set rs. or_id r < n \<Longrightarrow> runs (restore_records rs) n"
proof -
  assume rs: "\<forall>r \<in> set rs. or_id r < n"
  have load: "\<forall>r \<in> set xs. or_id r < m \<Longrightarrow> runs (foldr (\<lambda>r p. p_bind (put_record r) (\<lambda>_. p)) xs (p_return ())) m" for xs m
  proof (induction xs arbitrary: m)
    case (Cons x xs)
    show ?case unfolding foldr.simps comp_def
      by (rule neat_then [OF runs_put]) (use Cons.prems in \<open>auto intro!: Cons.IH\<close>)
  qed simp
  have lock: "runs (case live_records rs of [] \<Rightarrow> p_return () | r # _ \<Rightarrow> put_lock (owner_of r) None) m" if "n \<le> m" for m
  proof (cases "live_records rs")
    case (Cons r more)
    then have "r \<in> set (live_records rs)" by simp
    then have "or_id r < m" using rs that by (fastforce simp: live_records_def)
    then show ?thesis using Cons by (auto simp: owner_of_def intro!: runs_put_lock)
  qed simp
  have empty: "runs (p_read (\<lambda>d. Inr (dk_lock d = None \<and> dk_recs d = [] \<and> dk_claims d = []))) n" by simp
  show ?thesis unfolding restore_records_def
    apply (rule neat_then [OF empty])
    apply (rule neat_then [OF runs_plain(3)])
    apply (rule neat_then [OF runs_plain(3)])
    apply (rule neat_then [OF runs_plain(3)])
    apply (rule neat_then [OF runs_plain(3)])
    apply (rule neat_then [OF load])
    using rs apply force
    apply (rule lock)
    apply simp
    done
qed

lemma runs_call: "admissible c d \<Longrightarrow> runs (call_prog fuel pid c) (dk_uuid d)"
proof (cases c)
  case (CallRestore rs)
  then show "admissible c d \<Longrightarrow> ?thesis" by (simp add: runs_restore)
qed (auto simp: forget_def spend_funds_def exit_funds_def begin_exit_def begin_operation_def submit_refund_def begin_broadcast_def
    apply_refund_reconciliation_def reconcile_operation_def simp del: neat_bind intro!: run_rules runs_move split: option.split sum.split)

section \<open>Interleaving\<close>

inductive interleaved :: "disk \<Rightarrow> (nat \<times> unit prog) list \<Rightarrow> bool" where
  start: "interleaved (empty_disk\<lparr>dk_uuid := n\<rparr>) []"
| call: "interleaved d ps \<Longrightarrow> pid \<notin> set (dk_dead d) \<Longrightarrow> admissible c d \<Longrightarrow> interleaved d ((pid, call_prog fuel pid c) # ps)"
| step: "interleaved d (ps @ (pid, Act f) # qs) \<Longrightarrow> f d = (p, e) \<Longrightarrow> interleaved e (ps @ (pid, p) # qs)"
| died: "interleaved d ps \<Longrightarrow> interleaved (dies pid d) (filter (\<lambda>(q, _). q \<noteq> pid) ps)"

lemma interleaved_neat: "interleaved d ps \<Longrightarrow> dir_ok d \<and> (\<forall>(pid, p) \<in> set ps. runs p (dk_uuid d))"
proof (induction rule: interleaved.induct)
  case (start n)
  then show ?case by (simp add: dir_ok_def empty_disk_def)
next
  case (call d ps pid c fuel)
  then show ?case using runs_call by auto
next
  case (step d ps pid f qs p e)
  from step.IH have "runs (Act f) (dk_uuid d)" "dir_ok d" by auto
  with step.hyps(2) have "dir_ok e" "dk_uuid d \<le> dk_uuid e" "runs p (dk_uuid e)" by auto
  with step.IH show ?case using neat_later_disk by fastforce
next
  case (died d ps pid)
  then show ?case by (auto simp: dies_def)
qed

section \<open>A begin by itself\<close>

text \<open>What the directory grows by: records of ids below \<open>n\<close>, none changed.\<close>

definition grown :: "nat \<Rightarrow> disk \<Rightarrow> disk \<Rightarrow> bool" where
  "grown n d e \<longleftrightarrow> (\<forall>j r. map_of (dk_recs d) j = Some r \<longrightarrow> map_of (dk_recs e) j = Some r)
     \<and> distinct (map fst (dk_recs e)) \<and> (\<forall>(j, r) \<in> set (dk_recs e). or_id r = j \<and> j < n)"

definition lock_below :: "nat \<Rightarrow> disk \<Rightarrow> bool" where
  "lock_below n e \<longleftrightarrow> (\<forall>ow emb. dk_lock e = Some (OwnedLock ow emb) \<longrightarrow> ow_id ow < n \<and> (\<forall>r. emb = Some r \<longrightarrow> or_id r = ow_id ow))"

abbreviation ends :: "(journal_error + 'a \<Rightarrow> disk \<Rightarrow> bool) \<Rightarrow> 'a prog \<Rightarrow> disk \<Rightarrow> bool" where
  "ends Q p d \<equiv> safe (\<lambda>_. True) Q p d"

lemma grown_frame [simp]:
  "grown n d (e\<lparr>dk_uuid := k\<rparr>) = grown n d e" "grown n d (e\<lparr>dk_lock := l\<rparr>) = grown n d e" "grown n d (e\<lparr>dk_claims := c\<rparr>) = grown n d e"
  "lock_below n (e\<lparr>dk_uuid := k\<rparr>) = lock_below n e" "lock_below n (e\<lparr>dk_claims := c\<rparr>) = lock_below n e" "lock_below n (e\<lparr>dk_recs := rs\<rparr>) = lock_below n e"
  "lock_below n (e\<lparr>dk_lock := None\<rparr>)" "lock_below n (e\<lparr>dk_lock := Some EmptyLock\<rparr>)"
  by (simp_all add: grown_def lock_below_def)

lemma ends_any: "ends (\<lambda>_ _. True) p d"
proof (induction p arbitrary: d rule: prog_step_induct)
  case (Act f)
  then show ?case by (cases "f d") auto
qed simp

lemma claim_ends: "grown n d e \<and> lock_below n e \<Longrightarrow> ends (\<lambda>r f. grown n d f \<and> lock_below n f) (claim_release k pid ow visited path) e"
proof (induction k arbitrary: e visited path)
  case (Suc k)
  then show ?case by (auto simp: process_alive_def split: option.split)
qed simp

lemma release_ends: "grown n d e \<and> lock_below n e \<Longrightarrow> ends (\<lambda>r f. grown n d f \<and> lock_below n f) (release_lock fuel pid ow) e"
  unfolding release_lock_def assert_owns_active_lock_def read_active_lock_def
  by (auto intro!: safe_mono [OF claim_ends] split: option.split lock_file.split sum.split)

lemma record_for_ends:
  assumes "grown n d e" "lock_below n e" "ow_id ow < n" "\<forall>r. emb = Some r \<longrightarrow> or_id r = ow_id ow"
  shows "ends (\<lambda>r f. grown n d f \<and> lock_below n f) (record_for_lock ow emb) e"
proof -
  have put: "grown n d (e\<lparr>dk_recs := alist_put (or_id r) r (dk_recs e)\<rparr>)" if "emb = Some r" "map_of (dk_recs e) (ow_id ow) = None" for r
    using assms that unfolding grown_def by (auto simp: alist_put_def distinct_map_filter)
  show ?thesis using assms put
    by (auto simp: record_for_lock_def find_record_def put_record_def put_lock_def lock_below_def split: option.split)
qed

lemma try_read: "ends Q (p_bind (p_try read_active_lock) k) e \<longleftrightarrow> (case dk_lock e of
    Some (OwnedLock ow emb) \<Rightarrow> ends Q (k (Some (ow, emb))) e | _ \<Rightarrow> ends Q (k None) e)"
  by (simp add: p_try_def read_active_lock_def split: option.split lock_file.split)

lemma recovered_ends:
  assumes "grown n d e" "lock_below n e"
  shows "ends (\<lambda>r f. grown n d f \<and> lock_below n f) (release_recovered_terminal_lock fuel pid) e"
proof -
  let ?Q = "\<lambda>r f. grown n d f \<and> lock_below n f"
  have found: "ends ?Q (case found of None \<Rightarrow> p_return False
       | Some r \<Rightarrow> if \<not> terminal (or_status r) then p_return False
           else p_bind records (\<lambda>rs. if live_records rs \<noteq> [] then p_return False
             else p_bind (release_lock fuel pid ow) (\<lambda>_. p_return True))) f" if "grown n d f" "lock_below n f" for found f ow
    using that by (auto simp: records_def intro!: safe_mono [OF release_ends] split: option.split sum.split)
  have tried: "ends ?Q (p_bind (p_try (record_for_lock ow emb)) k) e"
    if "dk_lock e = Some (OwnedLock ow emb)" and k: "\<And>found f. grown n d f \<Longrightarrow> lock_below n f \<Longrightarrow> ends ?Q (k found) f"
    for ow emb and k :: "op_record option \<Rightarrow> bool prog"
  proof -
    have "ow_id ow < n" "\<forall>r. emb = Some r \<longrightarrow> or_id r = ow_id ow" using assms(2) that(1) by (auto simp: lock_below_def)
    from record_for_ends [OF assms this] show ?thesis unfolding p_try_def safe_bind safe_catch
      by (rule safe_mono) (use k in \<open>auto split: sum.split\<close>)
  qed
  show ?thesis unfolding release_recovered_terminal_lock_def try_read
    by (simp add: assms del: safe_bind split: option.split lock_file.split) (intro allI impI, rule tried, assumption, rule found)
qed

lemma take_ends:
  "grown n d e \<Longrightarrow> lock_below n e \<Longrightarrow> ends (\<lambda>r f. r = Inr () \<longrightarrow> grown n d f \<and> dk_lock f = Some EmptyLock) (take_lock k fuel pid) e"
proof (induction k arbitrary: e)
  case (Suc k)
  let ?Q = "\<lambda>r f. r = Inr () \<longrightarrow> grown n d f \<and> dk_lock f = Some EmptyLock"
  have rest: "ends ?Q (if freed then take_lock k fuel pid
      else p_bind unresolved (\<lambda>u. p_throw (case u of Some r \<Rightarrow> Unresolved (or_id r) | None \<Rightarrow> LockHeld))) f"
    if "grown n d f" "lock_below n f" for freed f
    using Suc.IH that by (simp add: unresolved_def records_def)
  have "ends ?Q (p_bind (release_recovered_terminal_lock fuel pid) (\<lambda>freed. if freed then take_lock k fuel pid
      else p_bind unresolved (\<lambda>u. p_throw (case u of Some r \<Rightarrow> Unresolved (or_id r) | None \<Rightarrow> LockHeld)))) e"
    unfolding safe_bind [of _ _ "release_recovered_terminal_lock fuel pid"]
    by (rule safe_mono [OF recovered_ends [OF Suc.prems]]) (auto simp del: safe_bind split_paired_All intro: rest split: sum.split split del: if_split)
  then show ?case using Suc.prems by (simp del: safe_bind) (simp del: safe_bind add: safe_bind [of _ _ create_lock])
qed simp

lemma publish_ends:
  assumes "grown n d e" "or_id rc = n"
  shows "ends (\<lambda>r f. \<forall>x. r = Inr x \<longrightarrow> x = rc \<and> all_ended e \<and> f = e\<lparr>dk_recs := alist_put n rc (dk_recs e), dk_lock := Some (OwnedLock (owner_of rc) None)\<rparr>) (publish fuel pid rc) e"
proof -
  show ?thesis
  proof (cases "live_records (map snd (dk_recs e))")
    case Nil
    then show ?thesis using assms
      by (simp add: publish_def unresolved_def records_def put_record_def put_lock_def all_ended_def)
  next
    case (Cons v vs)
    then obtain w ws where w: "by_creation (v # vs) = w # ws" by (metis by_creation_simps(3) list.exhaust list.simps(3))
    then show ?thesis using Cons
      by (auto simp add: publish_def unresolved_def records_def intro!: safe_mono [OF ends_any] split: sum.split)
  qed
qed

lemma begin_ends:
  assumes "dir_ok d"
  shows "ends (\<lambda>r f. \<forall>rc. r = Inr rc \<longrightarrow> rc = fresh_record (dk_uuid d) (Suc (dk_uuid d)) kind request now tx \<and> record_valid rc
      \<and> (\<exists>e. grown (dk_uuid d) d e \<and> all_ended e \<and> dk_recs f = alist_put (dk_uuid d) rc (dk_recs e) \<and> dk_lock f = Some (OwnedLock (owner_of rc) None)))
    (begin_with_state fuel pid kind request now tx) d"
proof -
  let ?n = "dk_uuid d" and ?rc = "fresh_record (dk_uuid d) (Suc (dk_uuid d)) kind request now tx"
  let ?Q = "\<lambda>r f. \<forall>rc. r = Inr rc \<longrightarrow> rc = ?rc \<and> record_valid rc
      \<and> (\<exists>e. grown ?n d e \<and> all_ended e \<and> dk_recs f = alist_put ?n rc (dk_recs e) \<and> dk_lock f = Some (OwnedLock (owner_of rc) None))"
  let ?d = "d\<lparr>dk_uuid := Suc (Suc (dk_uuid d))\<rparr>"
  have start: "grown ?n d ?d" "lock_below ?n ?d" using assms by (auto simp: dir_ok_def grown_def lock_below_def)
  have publish: "ends ?Q (publish fuel pid ?rc) (e\<lparr>dk_lock := Some (OwnedLock (owner_of ?rc) (Some ?rc))\<rparr>)"
    if "grown ?n d e" "record_valid ?rc" for e
    by (rule safe_mono [OF publish_ends [of ?n d]]) (use that in \<open>auto simp: all_ended_def intro!: exI [of _ e]\<close>)
  have "ends ?Q (p_bind (take_lock fuel fuel pid) (\<lambda>_. p_bind (put_lock (owner_of ?rc) (Some ?rc)) (\<lambda>_. publish fuel pid ?rc))) ?d"
    if "record_valid ?rc"
    by (rule safe_then [OF take_ends [OF start]]) (use publish that in \<open>simp_all add: put_lock_def\<close>)
  then show ?thesis unfolding begin_with_state_def Let_def by (simp del: safe_bind add: safe_bind [of _ _ random_uuid] safe_bind [of _ _ "p_guard _ _"])
qed

text \<open>
  C36. Funds move only under the lock. However processes that share a journal ran at once, their calls interleaved file
  operation by file operation and any of them cut off anywhere, a restore included: when a begin that then runs
  without another in between returns, every operation that was recorded has ended and is still recorded as it was, the new one is
  on disk as the only unresolved operation with the hash it was given, and the lock names it.
\<close>

theorem begin_returns_alone:
  assumes "interleaved d ps" and "finish (begin_with_state fuel pid kind request now tx) d = (Inr rc, e)"
  shows "held rc e \<and> live_records (map snd (dk_recs e)) = [rc] \<and> or_txHash rc = tx \<and> record_valid rc
    \<and> (\<forall>i r. map_of (dk_recs d) i = Some r \<longrightarrow> terminal (or_status r) \<and> map_of (dk_recs e) i = Some r)"
proof -
  have d: "dir_ok d" using interleaved_neat [OF assms(1)] by blast
  from safe_finish [OF begin_ends [OF d] assms(2)] obtain g where rc: "rc = fresh_record (dk_uuid d) (Suc (dk_uuid d)) kind request now tx"
      "record_valid rc" and g: "grown (dk_uuid d) d g" "all_ended g" "dk_recs e = alist_put (dk_uuid d) rc (dk_recs g)"
      "dk_lock e = Some (OwnedLock (owner_of rc) None)"
    by blast
  have id: "or_id rc = dk_uuid d" "\<not> terminal (or_status rc)" "or_txHash rc = tx" by (simp_all add: rc(1)) (simp add: fresh_record_def)
  have below: "j < dk_uuid d" if "(j, r) \<in> set (dk_recs g)" for j r using g(1) that by (auto simp: grown_def)
  have old: "terminal (or_status r) \<and> map_of (dk_recs e) i = Some r" if "map_of (dk_recs d) i = Some r" for i r
  proof -
    have k: "map_of (dk_recs g) i = Some r" using g(1) that by (simp add: grown_def)
    then have "(i, r) \<in> set (dk_recs g)" by (rule map_of_SomeD)
    then show ?thesis using k g(2,3) below by (auto simp: all_ended_iff)
  qed
  have "live_records (map snd (dk_recs e)) = [rc]"
    using g(2) id(2) by (auto simp: g(3) alist_put_def live_records_def all_ended_iff filter_empty_conv)
  then show ?thesis using rc(2) id old g(3,4) by (auto simp: held_def)
qed

end
