(* ===== verification/JournalExamples.thy ===== *)
theory JournalExamples
  imports Refunds JournalRace
begin

text \<open>
  A journal run by a few processes: the properties at a concrete directory, and three runs that end with an operation
  nobody can settle, which the sequential runs of \<open>journal_reach\<close> exclude.
\<close>

lemmas prog_eval = p_return_def p_throw_def p_read_def p_write_def p_guard_def random_uuid_def create_lock_def put_lock_def
  put_record_def lock_exists_def read_active_lock_def find_record_def get_record_def records_def live_records_def unresolved_def by_creation_def
  assert_owns_active_lock_def link_claim_def process_alive_def release_lock_def record_for_lock_def active_unresolved_def
  p_try_def release_recovered_terminal_lock_def publish_def begin_with_state_def update_operation_def restore_records_def
  forget_def owner_of_def alist_put_def terminal_def Let_def

definition the_record :: op_record where
  "the_record = fresh_record 0 1 Spend [] ''2026-01-01'' None"

definition begun_disk :: disk where
  "begun_disk = \<lparr>dk_lock = Some (OwnedLock (owner_of the_record) None), dk_recs = [(0, the_record)], dk_claims = [], dk_uuid = 2, dk_dead = [], dk_sent = []\<rparr>"

lemma the_record_valid [simp]: "record_valid (fresh_record i n Spend [] ''2026-01-01'' None)"
  by (simp add: fresh_record_def record_valid_def opt_ok_def)

lemma the_record_fields [simp]: "or_id the_record = 0" "or_lockNonce the_record = 1" "or_kind the_record = Spend"
  "or_status the_record = Building" "or_txHash the_record = None"
  by (simp_all add: the_record_def fresh_record_def)

lemma the_record_ok [simp]: "record_valid the_record"
  by (simp add: the_record_def)

lemma fresh_is: "fresh_record 0 (Suc 0) Spend [] ''2026-01-01'' None = the_record"
  by (simp add: the_record_def)

lemma begin_runs: "finish (begin_with_state 9 1 Spend [] ''2026-01-01'' None) empty_disk = (Inr the_record, begun_disk)"
  by (simp add: prog_eval fresh_is empty_disk_def begun_disk_def eval_nat_numeral)

lemma empty_reachable: "journal_reach empty_disk"
  using journal_reach.start [of 0] by (simp add: empty_disk_def)

lemma begun_reachable: "journal_reach begun_disk"
proof (rule journal_reach.call [OF empty_reachable])
  show "finish (call_prog 9 1 (CallBegin Spend [] ''2026-01-01'' None)) empty_disk = (Inr (), begun_disk)"
    by (simp add: prog_eval fresh_is empty_disk_def begun_disk_def eval_nat_numeral)
qed (simp_all add: empty_disk_def)

text \<open>A process that dies after its first lock write, and another that recovers its operation.\<close>

definition crashed_disk :: disk where
  "crashed_disk = dies 1 (snd (run_steps 4 (call_prog 9 1 (CallBegin Spend [] ''2026-01-01'' None)) empty_disk))"

lemma crashed_is: "crashed_disk = \<lparr>dk_lock = Some (OwnedLock (owner_of the_record) (Some the_record)), dk_recs = [], dk_claims = [],
    dk_uuid = 2, dk_dead = [1], dk_sent = []\<rparr>"
  by (simp add: crashed_disk_def dies_def prog_eval fresh_is empty_disk_def eval_nat_numeral)

lemma crashed_reachable: "journal_reach crashed_disk"
proof -
  obtain q e where r: "run_steps 4 (call_prog 9 1 (CallBegin Spend [] ''2026-01-01'' None)) empty_disk = (q, e)" by fastforce
  from journal_reach.crash [OF empty_reachable _ _ r] show ?thesis unfolding crashed_disk_def r by (simp add: empty_disk_def)
qed

lemma journal_recovered: "finish active_unresolved crashed_disk = (Inr (Some the_record), begun_disk\<lparr>dk_dead := [1]\<rparr>)"
  by (simp add: crashed_is begun_disk_def prog_eval)

lemma one_operation_witness:
  "journal_reach begun_disk \<and> length (live_records (map snd (dk_recs begun_disk))) \<le> 1 \<and> map_of (dk_recs begun_disk) 0 = Some the_record"
  using one_operation_unresolved [OF begun_reachable] begun_reachable by (simp add: begun_disk_def)

lemma begin_alone_witness:
  "interleaved empty_disk [] \<and> finish (begin_with_state 9 1 Spend [] ''2026-01-01'' None) empty_disk = (Inr the_record, begun_disk) \<and> held the_record begun_disk"
proof -
  have "interleaved empty_disk []" using interleaved.start [of 0] by (simp add: empty_disk_def)
  with begin_returns_alone [OF this begin_runs] begin_runs show ?thesis by blast
qed

text \<open>A second begin over the crashed one is refused and names the operation.\<close>

lemma begin_refused_runs:
  "fst (finish (begin_with_state 9 2 Exit [] ''2026-01-02'' None) crashed_disk) = Inl (Unresolved 0)"
  by (simp add: crashed_is prog_eval eval_nat_numeral record_valid_def fresh_record_def opt_ok_def)

lemma begin_names_witness:
  "\<exists>e. finish (begin_with_state 9 2 Exit [] ''2026-01-02'' None) crashed_disk = (Inl (Unresolved 0), e)
    \<and> (\<exists>rc. or_id rc = 0 \<and> fst (finish active_unresolved e) = Inr (Some rc))"
proof -
  obtain e where e: "finish (begin_with_state 9 2 Exit [] ''2026-01-02'' None) crashed_disk = (Inl (Unresolved 0), e)"
    using begin_refused_runs by (metis prod.collapse)
  have v: "record_valid (fresh_record (dk_uuid crashed_disk) (Suc (dk_uuid crashed_disk)) Exit [] ''2026-01-02'' None)"
    by (simp add: fresh_record_def record_valid_def opt_ok_def)
  from begin_succeeds_or_names_the_operation [OF crashed_reachable _ _ v e] e show ?thesis
    by (auto simp: crashed_is)
qed

section \<open>A spend and a refund\<close>

definition the_hash :: string where
  "the_hash = ''0x'' @ replicate 64 CHR ''a''"

lemma the_hash_ok [simp]: "tx_hash_text the_hash" "to_lower the_hash = the_hash"
  by (simp_all add: the_hash_def tx_hash_text_def hex_literal_i_def is_hex_digit_def is_digit_def code_def starts_with_def
    to_lower_def lower_char_def list_all_iff)

definition the_library :: wallet_library where
  "the_library = Sends the_hash True (\<lambda>_. Returned True the_hash [])"

definition the_spend :: "string prog" where
  "the_spend = spend_funds 9 1 ''alice'' ''bob'' 5 the_library ''2026-01-01''"

lemma spend_runs: "fst (finish the_spend empty_disk) = Inr the_hash"
  by (simp add: the_spend_def spend_funds_def move_funds_def the_library_def begin_operation_def stop_operation_def node_receives_def
    broadcast_patch_def spend_outcome_def no_patch_def prog_eval empty_disk_def record_valid_def fresh_record_def opt_ok_def
    apply_patch_def may_move_to_def transitions_def or_else_def eval_nat_numeral del: finish_bind)

lemma spend_moves: "fund_movement the_spend"
  unfolding fund_movement_def the_spend_def by blast

lemma nothing_sent_witness:
  "\<forall>n. case run_steps n the_spend empty_disk of (q, e) \<Rightarrow> dk_sent e = [] \<or> (\<exists>h r. dk_sent e = [h] \<and> map_of (dk_recs e) 0 = Some r
    \<and> (or_status r \<in> {Broadcast, OpInDoubt} \<and> or_txHash r = Some h \<or> or_status r = Complete))"
proof
  fix n
  obtain q e where r: "run_steps n the_spend empty_disk = (q, e)" by fastforce
  from nothing_sent_off_the_record [OF empty_reachable spend_moves r] r
  show "case run_steps n the_spend empty_disk of (q, e) \<Rightarrow> dk_sent e = [] \<or> (\<exists>h r. dk_sent e = [h] \<and> map_of (dk_recs e) 0 = Some r
    \<and> (or_status r \<in> {Broadcast, OpInDoubt} \<and> or_txHash r = Some h \<or> or_status r = Complete))"
    by (simp add: empty_disk_def)
qed

lemma returned_hash_witness:
  "case finish the_spend empty_disk of (r, e) \<Rightarrow> r = Inr the_hash \<and> (\<exists>g. dk_sent e = [g])
    \<and> (\<exists>r. map_of (dk_recs e) 0 = Some r \<and> or_status r = Complete \<and> or_txHash r = Some the_hash)"
proof -
  obtain e where e: "finish the_spend empty_disk = (Inr the_hash, e)" using spend_runs by (metis prod.collapse)
  from returned_hash_is_recorded [OF empty_reachable spend_moves e] e show ?thesis by (simp add: empty_disk_def)
qed

definition the_refund :: "unit prog" where
  "the_refund = submit_refund 9 1 RefundFrozenNotes [(''portal'', ''0xab''), (''calldataHash'', ''0xcd'')] the_hash (Some the_hash) ''2026-01-01''"

definition refund_disk :: disk where
  "refund_disk = snd (finish the_refund empty_disk)"

definition refund_record :: op_record where
  "refund_record = fresh_record 0 1 RefundFrozenNotes [(''portal'', ''0xab''), (''calldataHash'', ''0xcd'')] ''2026-01-01'' (Some the_hash)"

lemma refund_is: "refund_disk = \<lparr>dk_lock = Some (OwnedLock (owner_of refund_record) None), dk_recs = [(0, refund_record)], dk_claims = [],
    dk_uuid = 2, dk_dead = [], dk_sent = [the_hash]\<rparr>"
  by (simp add: refund_disk_def the_refund_def submit_refund_def begin_broadcast_def node_receives_def prog_eval empty_disk_def
    record_valid_def fresh_record_def refund_record_def opt_ok_def eval_nat_numeral del: finish_bind)

lemma refund_reachable: "journal_reach refund_disk"
proof -
  obtain r e where f: "finish (call_prog 9 1 (CallSubmitRefund RefundFrozenNotes [(''portal'', ''0xab''), (''calldataHash'', ''0xcd'')] the_hash
    (Some the_hash) ''2026-01-01'')) empty_disk = (r, e)" by fastforce
  from journal_reach.call [OF empty_reachable _ _ f] show ?thesis using f by (simp add: refund_disk_def the_refund_def empty_disk_def)
qed

definition the_observation :: refund_observation where
  "the_observation = \<lparr>ro_chainId = 1, ro_hash = the_hash, ro_to = Some ''0xab'', ro_input = [], ro_value = 0, ro_blockNumber = Some 7,
     ro_blockHash = Some the_hash, ro_receiptHash = the_hash, ro_success = True, ro_receiptBlockNumber = 7, ro_receiptBlockHash = the_hash,
     ro_canonicalNumber = 7, ro_canonicalHash = the_hash, ro_finalizedNumber = 9\<rparr>"

lemma refund_settled_witness:
  "\<exists>e. finish (apply_refund_reconciliation (\<lambda>_. ''0xcd'') 1 9 2 the_observation ''2026-01-02'') refund_disk = (Inr True, e) \<and> dk_lock e = None"
proof -
  have act: "fst (finish active_unresolved refund_disk) = Inr (Some refund_record)"
    by (simp add: refund_is prog_eval refund_record_def fresh_record_def del: finish_bind)
  have ev: "evidence_matches (\<lambda>_. ''0xcd'') 1 the_observation refund_record the_hash"
    by (simp add: evidence_matches_def the_observation_def refund_record_def fresh_record_def to_lower_def lower_char_def code_def)
  have "is_refund (or_kind refund_record)" "or_txHash refund_record = Some the_hash"
    by (simp_all add: refund_record_def is_refund_def fresh_record_def)
  then have "\<exists>r h. fst (finish active_unresolved refund_disk) = Inr (Some r) \<and> is_refund (or_kind r) \<and> or_txHash r = Some h
      \<and> evidence_matches (\<lambda>_. ''0xcd'') 1 the_observation r h \<and> ro_receiptBlockNumber the_observation \<le> ro_finalizedNumber the_observation"
    using act ev by (auto simp: the_observation_def)
  with refund_settled_iff_final [OF refund_reachable, of 9 "''2026-01-02''" the_observation "\<lambda>_. ''0xcd''" 1 2]
  show ?thesis by (simp only: if_True) (auto simp: refund_is the_observation_def)
qed

section \<open>Operations nobody can settle\<close>

text \<open>
  A begin interleaved with another: process 1 has written its lock and not yet its record when process 2 begins, finds the
  lock held, and recovers the record from it. Process 1 then finds its own record unresolved, throws and releases
  the lock. The operation is left without a lock: no begin, no update and no recovery settles it.
\<close>

lemma begin_strands_itself:
  "case run_steps 4 (begin_with_state 9 1 Spend [] ''2026-01-01'' None) empty_disk of (q, d1) \<Rightarrow>
    (case finish (begin_with_state 9 2 Spend [] ''2026-01-01'' None) d1 of (r2, d2) \<Rightarrow>
    (case finish q d2 of (r1, d3) \<Rightarrow> r2 = Inl (Unresolved 0) \<and> r1 = Inl (Unresolved 0) \<and> dk_lock d3 = None
      \<and> map_of (dk_recs d3) 0 = Some the_record
      \<and> fst (finish active_unresolved d3) = Inr None
      \<and> fst (finish (update_operation 9 1 0 (no_patch\<lparr>pa_status := Some Aborted\<rparr>) ''2026-01-01'') d3) = Inl UnreadableLock
      \<and> fst (finish (begin_with_state 9 1 Spend [] ''2026-01-01'' None) d3) = Inl (Unresolved 0)))"
  by (simp add: prog_eval fresh_is empty_disk_def eval_nat_numeral)

text \<open>A restore cut between the record and its lock ends the same way.\<close>

lemma restore_strands:
  "case run_steps 2 (restore_records [the_record]) (empty_disk\<lparr>dk_uuid := 2\<rparr>) of (q, d1) \<Rightarrow> dk_lock d1 = None
    \<and> fst (finish active_unresolved d1) = Inr None
    \<and> fst (finish (restore_records [the_record]) d1) = Inl NotEmpty
    \<and> fst (finish (begin_with_state 9 1 Spend [] ''2026-01-01'' None) d1) = Inl (Unresolved 0)"
  by (simp add: prog_eval fresh_is empty_disk_def eval_nat_numeral the_record_def [symmetric])

text \<open>A process that dies between creating its lock file and writing it leaves one that nothing reads or replaces.\<close>

lemma empty_lock_blocks:
  "case run_steps 3 (begin_with_state 9 1 Spend [] ''2026-01-01'' None) empty_disk of (q, d1) \<Rightarrow> dk_lock d1 = Some EmptyLock
    \<and> fst (finish active_unresolved d1) = Inl UnreadableLock
    \<and> fst (finish (begin_with_state 9 2 Spend [] ''2026-01-01'' None) d1) = Inl LockHeld"
  by (simp add: prog_eval fresh_is empty_disk_def eval_nat_numeral)

end
