(* ===== verification/Provider.thy ===== *)
theory Provider
  imports JsBase
begin

text \<open>
  The attestation provider, \<open>packages/provider/src\<close>: field encoding and payload hashes (\<open>pedersen.ts\<close>), the
  validated signature of a digest (\<open>keystore.ts\<close>, \<open>signer.ts\<close>), credential roots (\<open>credential-root-signer.ts\<close>,
  \<open>eip712.ts\<close>) and the signing ledger (\<open>replay-db.ts\<close>). Bytes are characters. Parameters: the Pedersen hash of
  bb.js, secp256k1, keccak and the ABI coder of viem (a record), the answers of a digest signer and the clock.
\<close>

type_synonym bytes = string

datatype provider_error =
    FieldNegative | FieldTooLarge | BadFieldLength | HashFailed | BadProofType | BadSignals | BadWeights | BadSlot
  | BadKey | BadDigest | SignerFailed | BadSignatureLength | BadCompact | HighS | WrongKey | NoRecovery
  | StoredBadLength | StoredIdentity | StoredPayload | StoredCompact | StoredHighS | StoredSignature | StoredCommitment
  | NotTheCandidate | BadCoding

datatype abi_value = Bytes32 bytes | HexBytes32 string | Uint nat int | HexAddress string

record provider_crypto =
  pc_pedersen :: "bytes list \<Rightarrow> bytes option"
  pc_point :: "bytes \<Rightarrow> bool"
  pc_compact :: "bytes \<Rightarrow> bool"
  pc_high_s :: "bytes \<Rightarrow> bool"
  pc_verify :: "bytes \<Rightarrow> bytes \<Rightarrow> bytes \<Rightarrow> bool"
  pc_recover :: "bytes \<Rightarrow> nat \<Rightarrow> bytes \<Rightarrow> bytes option"
  pc_keccak :: "bytes \<Rightarrow> bytes"
  pc_abi :: "abi_value list \<Rightarrow> bytes option"

section \<open>Fields and payload hashes\<close>

text \<open>The loop that writes a byte and shifts, the last byte first.\<close>

fun field_loop :: "nat \<Rightarrow> int \<Rightarrow> bytes \<Rightarrow> bytes \<times> int" where
  "field_loop 0 v out = (out, v)"
| "field_loop (Suc k) v out = field_loop k (v div 256) (char_of (nat (v mod 256)) # out)"

definition field_to_bytes :: "int \<Rightarrow> provider_error + bytes" where
  "field_to_bytes v = (if v < 0 then Inl FieldNegative
     else (case field_loop 32 v [] of (out, rest) \<Rightarrow> if rest \<noteq> 0 then Inl FieldTooLarge else Inr out))"

definition bytes_value :: "bytes \<Rightarrow> int" where
  "bytes_value bs = foldl (\<lambda>v b. v * 256 + int (code b)) 0 bs"

definition bytes_to_bigint :: "bytes \<Rightarrow> provider_error + int" where
  "bytes_to_bigint bs = (if length bs \<noteq> 32 then Inl BadFieldLength else Inr (bytes_value bs))"

fun collect :: "(provider_error + 'a) list \<Rightarrow> provider_error + 'a list" where
  "collect [] = Inr []"
| "collect (r # rs) = (case r of Inl e \<Rightarrow> Inl e | Inr a \<Rightarrow> (case collect rs of Inl e \<Rightarrow> Inl e | Inr as \<Rightarrow> Inr (a # as)))"

definition pedersen_hash :: "provider_crypto \<Rightarrow> int list \<Rightarrow> provider_error + bytes" where
  "pedersen_hash c inputs = (case collect (map field_to_bytes inputs) of Inl e \<Rightarrow> Inl e
     | Inr bs \<Rightarrow> (case pc_pedersen c bs of None \<Rightarrow> Inl HashFailed | Some h \<Rightarrow> Inr h))"

definition DOMAIN_SIGNED_SIGNALS :: int where "DOMAIN_SIGNED_SIGNALS = 0x5349475f53494753"
definition DOMAIN_RISK_SIGNED_SIGNALS :: int where "DOMAIN_RISK_SIGNED_SIGNALS = 0x52534b5f53494753"
definition DOMAIN_SIGNER_PUBKEY :: int where "DOMAIN_SIGNER_PUBKEY = 0x5349475f504b"
definition DOMAIN_MULTI_SIGNED_SIGNALS :: int where "DOMAIN_MULTI_SIGNED_SIGNALS = 0x4d554c54495f5349"
definition MAX_PROVIDERS_MULTI :: int where "MAX_PROVIDERS_MULTI = 5"

definition SIGNED_SIGNALS_DOMAINS :: "int \<Rightarrow> int option" where
  "SIGNED_SIGNALS_DOMAINS t = (if t = 7 then Some DOMAIN_SIGNED_SIGNALS else if t = 8 then Some DOMAIN_RISK_SIGNED_SIGNALS else None)"

record signal_fields =
  sf_chainId :: int
  sf_oracleAddress :: int
  sf_providerSetHash :: int
  sf_signals :: "int list"
  sf_weights :: "int list"
  sf_timestamp :: int
  sf_submitter :: int

datatype sign_request =
    SignSignals int signal_fields
  | SignSlot int int int signal_fields

text \<open>\<open>SignSignals proofType\<close> and \<open>SignSlot slotIndex jurisdictionId configHash\<close>.\<close>

fun fields_of :: "sign_request \<Rightarrow> signal_fields" where
  "fields_of (SignSignals t f) = f"
| "fields_of (SignSlot i j g f) = f"

definition signed_inputs :: "int \<Rightarrow> signal_fields \<Rightarrow> int list" where
  "signed_inputs domain f = [domain, sf_chainId f, sf_oracleAddress f, sf_providerSetHash f] @ sf_signals f @ sf_weights f
     @ [sf_timestamp f, sf_submitter f]"

definition slot_inputs :: "int \<Rightarrow> int \<Rightarrow> int \<Rightarrow> signal_fields \<Rightarrow> int list" where
  "slot_inputs i j g f = [DOMAIN_MULTI_SIGNED_SIGNALS, i, sf_chainId f, sf_oracleAddress f, j, sf_providerSetHash f, g] @ sf_signals f
     @ sf_weights f @ [sf_timestamp f, sf_submitter f]"

definition compute_signed_payload_hash :: "provider_crypto \<Rightarrow> int \<Rightarrow> signal_fields \<Rightarrow> provider_error + bytes" where
  "compute_signed_payload_hash c t f = (case SIGNED_SIGNALS_DOMAINS t of None \<Rightarrow> Inl BadProofType
     | Some domain \<Rightarrow> if length (sf_signals f) \<noteq> 8 then Inl BadSignals else if length (sf_weights f) \<noteq> 8 then Inl BadWeights
         else pedersen_hash c (signed_inputs domain f))"

definition compute_slot_payload_hash :: "provider_crypto \<Rightarrow> int \<Rightarrow> int \<Rightarrow> int \<Rightarrow> signal_fields \<Rightarrow> provider_error + bytes" where
  "compute_slot_payload_hash c i j g f = (if i < 0 \<or> i \<ge> MAX_PROVIDERS_MULTI then Inl BadSlot
     else if length (sf_signals f) \<noteq> 8 then Inl BadSignals else if length (sf_weights f) \<noteq> 8 then Inl BadWeights
     else pedersen_hash c (slot_inputs i j g f))"

fun payload_hash :: "provider_crypto \<Rightarrow> sign_request \<Rightarrow> provider_error + bytes" where
  "payload_hash c (SignSignals t f) = compute_signed_payload_hash c t f"
| "payload_hash c (SignSlot i j g f) = compute_slot_payload_hash c i j g f"

definition coordinate_to_fields :: "bytes \<Rightarrow> provider_error + (int \<times> int)" where
  "coordinate_to_fields bs = (if length bs \<noteq> 32 then Inl BadFieldLength else Inr (bytes_value (take 16 bs), bytes_value (drop 16 bs)))"

definition compute_signer_pubkey_hash :: "provider_crypto \<Rightarrow> bytes \<Rightarrow> bytes \<Rightarrow> provider_error + bytes" where
  "compute_signer_pubkey_hash c x y = (case coordinate_to_fields x of Inl e \<Rightarrow> Inl e | Inr (xh, xl) \<Rightarrow>
     (case coordinate_to_fields y of Inl e \<Rightarrow> Inl e | Inr (yh, yl) \<Rightarrow> pedersen_hash c [DOMAIN_SIGNER_PUBKEY, xh, xl, yh, yl]))"

definition hex_char :: "nat \<Rightarrow> char" where
  "hex_char d = (if d < 10 then char_of (48 + d) else char_of (87 + d))"

fun show_hex :: "nat \<Rightarrow> string" where
  "show_hex n = (if n < 16 then [hex_char n] else show_hex (n div 16) @ [hex_char (n mod 16)])"

declare show_hex.simps [simp del]

definition pad2 :: "string \<Rightarrow> string" where
  "pad2 s = (if length s < 2 then replicate (2 - length s) CHR ''0'' @ s else s)"

definition bytes_to_hex :: "bytes \<Rightarrow> string" where
  "bytes_to_hex bs = ''0x'' @ concat (map (\<lambda>b. pad2 (show_hex (code b))) bs)"

definition bytes_to_hex_field :: "bytes \<Rightarrow> provider_error + string" where
  "bytes_to_hex_field bs = (if length bs \<noteq> 32 then Inl BadFieldLength else Inr (bytes_to_hex bs))"

section \<open>Signing a digest\<close>

record signer_key =
  sk_x :: bytes
  sk_y :: bytes

definition uncompressed_public_key :: "signer_key \<Rightarrow> bytes" where
  "uncompressed_public_key k = CHR 0x04 # sk_x k @ sk_y k"

definition snapshot_digest_signer_identity :: "provider_crypto \<Rightarrow> signer_key \<Rightarrow> provider_error check" where
  "snapshot_digest_signer_identity c k = check_all [refuse_if (length (sk_x k) \<noteq> 32 \<or> length (sk_y k) \<noteq> 32) BadKey,
     refuse_if (\<not> pc_point c (uncompressed_public_key k)) BadKey]"

text \<open>The signer's answer is \<open>None\<close> when it throws. The result is the compact signature and its recovery bit.\<close>

definition validated_sign_digest :: "provider_crypto \<Rightarrow> signer_key \<Rightarrow> bytes \<Rightarrow> bytes option \<Rightarrow> provider_error + (bytes \<times> nat)" where
  "validated_sign_digest c k digest answer = then_check (refuse_if (length digest \<noteq> 32) BadDigest) (\<lambda>_.
     then_check (snapshot_digest_signer_identity c k) (\<lambda>_. case answer of None \<Rightarrow> Inl SignerFailed
     | Some sig \<Rightarrow> then_check (check_all [refuse_if (length sig \<noteq> 64) BadSignatureLength, refuse_if (\<not> pc_compact c sig) BadCompact,
           refuse_if (pc_high_s c sig) HighS, refuse_if (\<not> pc_verify c sig digest (uncompressed_public_key k)) WrongKey]) (\<lambda>_.
         case find (\<lambda>v. case pc_recover c sig v digest of None \<Rightarrow> False
             | Some r \<Rightarrow> take (length r) (uncompressed_public_key k) = r) [0, 1] of
           None \<Rightarrow> Inl NoRecovery | Some v \<Rightarrow> Inr (sig, v))))"

record signed_bundle =
  bu_signature :: bytes
  bu_pubkeyX :: bytes
  bu_pubkeyY :: bytes
  bu_signerPubkeyHash :: bytes
  bu_payloadHash :: bytes

definition sign_payload_hash :: "provider_crypto \<Rightarrow> signer_key \<Rightarrow> bytes \<Rightarrow> bytes option \<Rightarrow> provider_error + signed_bundle" where
  "sign_payload_hash c k h answer = then_check (validated_sign_digest c k h answer) (\<lambda>(sig, v).
     then_check (compute_signer_pubkey_hash c (sk_x k) (sk_y k)) (\<lambda>commitment.
       Inr \<lparr>bu_signature = sig, bu_pubkeyX = sk_x k, bu_pubkeyY = sk_y k, bu_signerPubkeyHash = commitment, bu_payloadHash = h\<rparr>))"

text \<open>Signing without a ledger.\<close>

definition sign_signals :: "provider_crypto \<Rightarrow> signer_key \<Rightarrow> int \<Rightarrow> signal_fields \<Rightarrow> bytes option \<Rightarrow> provider_error + signed_bundle" where
  "sign_signals c k t f answer = then_check (compute_signed_payload_hash c t f) (\<lambda>h. sign_payload_hash c k h answer)"

definition sign_slot_payload :: "provider_crypto \<Rightarrow> signer_key \<Rightarrow> int \<Rightarrow> int \<Rightarrow> int \<Rightarrow> signal_fields \<Rightarrow> bytes option \<Rightarrow> provider_error + signed_bundle" where
  "sign_slot_payload c k i j g f answer = (if i < 0 \<or> i \<ge> MAX_PROVIDERS_MULTI then Inl BadSlot
     else then_check (compute_slot_payload_hash c i j g f) (\<lambda>h. sign_payload_hash c k h answer))"

section \<open>Credential roots\<close>

record root_request =
  rr_chainId :: int
  rr_oracleAddress :: string
  rr_providerId :: int
  rr_root :: string
  rr_cid :: string
  rr_notBefore :: int
  rr_notAfter :: int

definition EIP712_DOMAIN_TYPE :: string where
  "EIP712_DOMAIN_TYPE = ''EIP712Domain(string name,string version,uint256 chainId,address verifyingContract)''"

definition CREDENTIAL_ROOT_TYPE :: string where
  "CREDENTIAL_ROOT_TYPE = ''CredentialRootPublication(uint256 providerId,bytes32 root,bytes32 cidHash,uint64 notBefore,uint64 notAfter)''"

definition build_domain_separator :: "provider_crypto \<Rightarrow> int \<Rightarrow> string \<Rightarrow> bytes option" where
  "build_domain_separator c chain contract = map_option (pc_keccak c) (pc_abi c [Bytes32 (pc_keccak c EIP712_DOMAIN_TYPE),
     Bytes32 (pc_keccak c ''ERC8262Oracle''), Bytes32 (pc_keccak c ''1''), Uint 256 chain, HexAddress contract])"

definition hash_publication :: "provider_crypto \<Rightarrow> root_request \<Rightarrow> bytes option" where
  "hash_publication c r = map_option (pc_keccak c) (pc_abi c [Bytes32 (pc_keccak c CREDENTIAL_ROOT_TYPE), Uint 256 (rr_providerId r),
     HexBytes32 (rr_root r), Bytes32 (pc_keccak c (rr_cid r)), Uint 64 (rr_notBefore r), Uint 64 (rr_notAfter r)])"

definition credential_root_digest :: "provider_crypto \<Rightarrow> root_request \<Rightarrow> bytes option" where
  "credential_root_digest c r = (case build_domain_separator c (rr_chainId r) (rr_oracleAddress r) of None \<Rightarrow> None
     | Some ds \<Rightarrow> (case hash_publication c r of None \<Rightarrow> None | Some sh \<Rightarrow> Some (pc_keccak c (CHR 0x19 # CHR 0x01 # ds @ sh))))"

record root_result =
  rt_signature :: bytes
  rt_digest :: bytes
  rt_signer :: string

definition ethereum_address_from_pubkey :: "provider_crypto \<Rightarrow> signer_key \<Rightarrow> string" where
  "ethereum_address_from_pubkey c k = (let d = bytes_to_hex (pc_keccak c (sk_x k @ sk_y k)) in ''0x'' @ drop (length d - 40) d)"

definition sign_credential_root :: "provider_crypto \<Rightarrow> signer_key \<Rightarrow> root_request \<Rightarrow> bytes option \<Rightarrow> provider_error + root_result" where
  "sign_credential_root c k r answer = (case credential_root_digest c r of None \<Rightarrow> Inl BadCoding
     | Some d \<Rightarrow> then_check (field_to_bytes (bytes_value d)) (\<lambda>digest.
         then_check (validated_sign_digest c k digest answer) (\<lambda>(sig, v).
           Inr \<lparr>rt_signature = sig @ [char_of (27 + v)], rt_digest = digest, rt_signer = ethereum_address_from_pubkey c k\<rparr>)))"

section \<open>The ledger\<close>

text \<open>The two operations of a \<open>ReplayDb\<close> on its state: each is told the clock it reads.\<close>

record 's replay_db =
  rd_lookup :: "int \<Rightarrow> int \<Rightarrow> bytes \<Rightarrow> 's \<Rightarrow> signed_bundle option \<times> 's"
  rd_record :: "int \<Rightarrow> int \<Rightarrow> bytes \<Rightarrow> int \<Rightarrow> signed_bundle \<Rightarrow> 's \<Rightarrow> (signed_bundle \<times> bool) \<times> 's"

text \<open>The one in memory is a JavaScript map, oldest entry first. An entry holds the signed time and the bundle.\<close>

record ledger =
  ld_entries :: "(string \<times> (int \<times> signed_bundle)) list"
  ld_retention :: int
  ld_maxEntries :: int

definition new_ledger :: "jsnum \<Rightarrow> jsnum \<Rightarrow> ledger option" where
  "new_ledger retention most = (case (retention, most) of (Fin r, Fin m) \<Rightarrow>
       if is_int_num r \<and> \<not> r < 0 \<and> is_int_num m \<and> \<not> m < 1 then Some \<lparr>ld_entries = [], ld_retention = \<lfloor>r\<rfloor>, ld_maxEntries = \<lfloor>m\<rfloor>\<rparr> else None
     | _ \<Rightarrow> None)"

definition key_for :: "int \<Rightarrow> bytes \<Rightarrow> string" where
  "key_for submitter h = (if submitter < 0 then CHR ''-'' # show_hex (nat (- submitter)) else show_hex (nat submitter))
     @ '':'' @ drop 2 (bytes_to_hex h)"

definition evict_expired :: "int \<Rightarrow> ledger \<Rightarrow> ledger" where
  "evict_expired now l = l\<lparr>ld_entries := filter (\<lambda>e. \<not> fst (snd e) < now - ld_retention l) (ld_entries l)\<rparr>"

definition ledger_lookup :: "int \<Rightarrow> int \<Rightarrow> bytes \<Rightarrow> ledger \<Rightarrow> signed_bundle option \<times> ledger" where
  "ledger_lookup now submitter h l = (let l1 = evict_expired now l in
     (map_option snd (map_of (ld_entries l1) (key_for submitter h)), l1))"

definition result_matches_identity :: "signed_bundle \<Rightarrow> bytes \<Rightarrow> bytes \<Rightarrow> bool" where
  "result_matches_identity b x y \<longleftrightarrow> bu_pubkeyX b = x \<and> bu_pubkeyY b = y"

fun drop_oldest :: "nat \<Rightarrow> 'a list \<Rightarrow> 'a list" where
  "drop_oldest most [] = []"
| "drop_oldest most (x # xs) = (if length (x # xs) > most then drop_oldest most xs else x # xs)"

text \<open>The retained bundle, and whether the candidate became it.\<close>

definition record_canonical :: "int \<Rightarrow> int \<Rightarrow> bytes \<Rightarrow> int \<Rightarrow> signed_bundle \<Rightarrow> ledger \<Rightarrow> (signed_bundle \<times> bool) \<times> ledger" where
  "record_canonical now submitter h timestamp b l = (let l1 = evict_expired now l; key = key_for submitter h;
       replace = ((b, True), l1\<lparr>ld_entries := drop_oldest (nat (ld_maxEntries l1))
         (filter (\<lambda>e. fst e \<noteq> key) (ld_entries l1) @ [(key, (timestamp, b))])\<rparr>) in
     case map_of (ld_entries l1) key of
       Some (ts, existing) \<Rightarrow> if result_matches_identity existing (bu_pubkeyX b) (bu_pubkeyY b) then ((existing, False), l1) else replace
     | None \<Rightarrow> replace)"

definition ledger_size :: "int \<Rightarrow> ledger \<Rightarrow> nat \<times> ledger" where
  "ledger_size now l = (let l1 = evict_expired now l in (length (ld_entries l1), l1))"

definition ledger_reset :: "ledger \<Rightarrow> ledger" where
  "ledger_reset l = l\<lparr>ld_entries := []\<rparr>"

definition memory_replay_db :: "ledger replay_db" where
  "memory_replay_db = \<lparr>rd_lookup = ledger_lookup, rd_record = record_canonical\<rparr>"

section \<open>Signing through the ledger\<close>

definition validate_replay_result :: "provider_crypto \<Rightarrow> signer_key \<Rightarrow> bytes \<Rightarrow> signed_bundle \<Rightarrow> provider_error + signed_bundle" where
  "validate_replay_result c k h b = then_check (check_all
      [refuse_if (length (bu_signature b) \<noteq> 64 \<or> length (bu_pubkeyX b) \<noteq> 32 \<or> length (bu_pubkeyY b) \<noteq> 32
         \<or> length (bu_signerPubkeyHash b) \<noteq> 32 \<or> length (bu_payloadHash b) \<noteq> 32) StoredBadLength,
       refuse_if (\<not> result_matches_identity b (sk_x k) (sk_y k)) StoredIdentity,
       refuse_if (bu_payloadHash b \<noteq> h) StoredPayload,
       refuse_if (\<not> pc_compact c (bu_signature b)) StoredCompact,
       refuse_if (pc_high_s c (bu_signature b)) StoredHighS,
       refuse_if (\<not> pc_verify c (bu_signature b) h (uncompressed_public_key k)) StoredSignature]) (\<lambda>_.
     then_check (compute_signer_pubkey_hash c (bu_pubkeyX b) (bu_pubkeyY b)) (\<lambda>expected.
       if bu_signerPubkeyHash b \<noteq> expected then Inl StoredCommitment else Inr b))"

text \<open>
  \<open>signThroughLedger\<close> in its two stretches, before and after the signer is awaited. The first answers, or asks for a
  signature (\<open>None\<close>); a released bundle comes with whether it was replayed.
\<close>

definition ledger_begin :: "'s replay_db \<Rightarrow> provider_crypto \<Rightarrow> signer_key \<Rightarrow> int \<Rightarrow> int \<Rightarrow> bytes \<Rightarrow> 's
    \<Rightarrow> (provider_error + (signed_bundle \<times> bool)) option \<times> 's" where
  "ledger_begin db c k now submitter h l = (case snapshot_digest_signer_identity c k of Inl e \<Rightarrow> (Some (Inl e), l)
     | Inr _ \<Rightarrow> (case rd_lookup db now submitter h l of (found, l1) \<Rightarrow> (case found of
         Some b \<Rightarrow> if result_matches_identity b (sk_x k) (sk_y k)
           then (Some (then_check (validate_replay_result c k h b) (\<lambda>v. Inr (v, True))), l1) else (None, l1)
       | None \<Rightarrow> (None, l1))))"

definition ledger_finish :: "'s replay_db \<Rightarrow> provider_crypto \<Rightarrow> signer_key \<Rightarrow> int \<Rightarrow> int \<Rightarrow> int \<Rightarrow> bytes \<Rightarrow> bytes option \<Rightarrow> 's
    \<Rightarrow> (provider_error + (signed_bundle \<times> bool)) \<times> 's" where
  "ledger_finish db c k now submitter timestamp h answer l = (case sign_payload_hash c k h answer of Inl e \<Rightarrow> (Inl e, l)
     | Inr candidate \<Rightarrow> (case rd_record db now submitter h timestamp candidate l of ((b, inserted), l1) \<Rightarrow>
         (then_check (validate_replay_result c k h b) (\<lambda>v.
            if inserted \<and> v \<noteq> candidate then Inl NotTheCandidate else Inr (v, \<not> inserted)), l1)))"

text \<open>The two in a row, at the times of the two calls of the database.\<close>

definition sign_through_ledger :: "'s replay_db \<Rightarrow> provider_crypto \<Rightarrow> signer_key \<Rightarrow> int \<times> int \<Rightarrow> int \<Rightarrow> int \<Rightarrow> bytes \<Rightarrow> bytes option \<Rightarrow> 's
    \<Rightarrow> (provider_error + (signed_bundle \<times> bool)) \<times> 's" where
  "sign_through_ledger db c k clocks submitter timestamp h answer l = (case ledger_begin db c k (fst clocks) submitter h l of
       (Some r, l1) \<Rightarrow> (r, l1)
     | (None, l1) \<Rightarrow> ledger_finish db c k (snd clocks) submitter timestamp h answer l1)"

definition sign_with_replay_protection :: "'s replay_db \<Rightarrow> provider_crypto \<Rightarrow> signer_key \<Rightarrow> int \<times> int \<Rightarrow> sign_request \<Rightarrow> bytes option \<Rightarrow> 's
    \<Rightarrow> (provider_error + (signed_bundle \<times> bool)) \<times> 's" where
  "sign_with_replay_protection db c k clocks req answer l = (case payload_hash c req of Inl e \<Rightarrow> (Inl e, l)
     | Inr h \<Rightarrow> sign_through_ledger db c k clocks (sf_submitter (fields_of req)) (sf_timestamp (fields_of req)) h answer l)"

end
