(* ===== verification/Daemon.thy ===== *)
theory Daemon
  imports Provider
begin

text \<open>
  The signing daemon's request handlers, \<open>packages/provider/daemon/src/handlers.ts\<close>: parsing a body, the pinned
  policy, signing through the ledger, and the audit record written before a signature is released. Texts of messages
  are left out. Parameters: the clock, the signer's answers and which audit records the sink accepts.
\<close>

section \<open>Reading a body\<close>

datatype request_error = BadRequest | Rejected nat string

type_synonym 'a parsed = "request_error + 'a"

definition plain_hex_or_decimal :: "string \<Rightarrow> bool" where
  "plain_hex_or_decimal s \<longleftrightarrow> (starts_with s ''0x'' \<or> starts_with s ''0X'') \<and> digits_in is_hex_digit (drop 2 s) \<or> all_digits s"

definition as_bigint :: "jsval \<Rightarrow> int parsed" where
  "as_bigint v = (case v of
     VNum (Fin r) \<Rightarrow> if is_int_num r \<and> \<bar>r\<bar> < 2 ^ 53 \<and> \<not> r < 0 then Inr \<lfloor>r\<rfloor> else Inl BadRequest
   | VStr s \<Rightarrow> if plain_hex_or_decimal s then (case big_int s of Some n \<Rightarrow> Inr n | None \<Rightarrow> Inl BadRequest) else Inl BadRequest
   | _ \<Rightarrow> Inl BadRequest)"

definition as_number :: "jsval \<Rightarrow> int \<Rightarrow> int parsed" where
  "as_number v most = then_check (as_bigint v) (\<lambda>n. if n > most then Inl BadRequest else Inr n)"

definition ADDRESS_RE :: "string \<Rightarrow> bool" where
  "ADDRESS_RE s \<longleftrightarrow> starts_with s ''0x'' \<and> length s = 42 \<and> list_all is_hex_digit (drop 2 s)"

definition as_address :: "jsval \<Rightarrow> string parsed" where
  "as_address v = (case v of VStr s \<Rightarrow> if ADDRESS_RE s then Inr s else Inl BadRequest | _ \<Rightarrow> Inl BadRequest)"

definition big_address :: "string \<Rightarrow> int" where
  "big_address s = int (digits_val 16 (drop 2 s))"

fun each :: "'a parsed list \<Rightarrow> 'a list parsed" where
  "each [] = Inr []"
| "each (r # rs) = then_check r (\<lambda>a. then_check (each rs) (\<lambda>as. Inr (a # as)))"

definition eight :: "jsval \<Rightarrow> jsval list parsed" where
  "eight v = (case v of VArr vs \<Rightarrow> if length vs = 8 then Inr vs else Inl BadRequest | _ \<Rightarrow> Inl BadRequest)"

definition is_text :: "jsval \<Rightarrow> bool" where
  "is_text v \<longleftrightarrow> (case v of VStr _ \<Rightarrow> True | _ \<Rightarrow> False)"

definition require :: "bool \<Rightarrow> unit parsed" where
  "require ok = (if ok then Inr () else Inl BadRequest)"

text \<open>A JSON body that is an object; an array is one too, with none of the fields.\<close>

definition json_object :: "jsval \<Rightarrow> obj parsed" where
  "json_object v = (case v of VObj ob \<Rightarrow> Inr ob | VArr _ \<Rightarrow> Inr [] | _ \<Rightarrow> Inl BadRequest)"

definition silent_slots :: "int list \<Rightarrow> int list \<Rightarrow> bool" where
  "silent_slots signals weights \<longleftrightarrow> list_all2 (\<lambda>s w. w > 0 \<or> s = 0) signals weights"

definition gap_free :: "int list \<Rightarrow> bool" where
  "gap_free weights \<longleftrightarrow> list_all2 (\<lambda>v w. w > 0 \<longrightarrow> v > 0) (butlast weights) (tl weights)"

definition parse_signal_fields :: "jsval \<Rightarrow> bool \<Rightarrow> signal_fields parsed" where
  "parse_signal_fields raw contiguous = then_check (json_object raw) (\<lambda>body.
     then_check (require (is_text (obj_get body ''providerSetHash''))) (\<lambda>_.
     then_check (eight (obj_get body ''signals'')) (\<lambda>ss.
     then_check (eight (obj_get body ''weights'')) (\<lambda>ws.
     then_check (require (obj_get body ''timestamp'' \<noteq> VUndef \<and> obj_get body ''chainId'' \<noteq> VUndef)) (\<lambda>_.
     then_check (each (map (\<lambda>s. as_number s 100) ss)) (\<lambda>signals.
     then_check (each (map (\<lambda>w. as_number w 10000) ws)) (\<lambda>weights.
     then_check (require (list_ex (\<lambda>w. w > 0) weights)) (\<lambda>_.
     then_check (require (silent_slots signals weights)) (\<lambda>_.
     then_check (require (\<not> contiguous \<or> gap_free weights)) (\<lambda>_.
     then_check (as_address (obj_get body ''submitter'')) (\<lambda>submitter.
     then_check (require (big_address submitter \<noteq> 0)) (\<lambda>_.
     then_check (as_bigint (obj_get body ''chainId'')) (\<lambda>chain.
     then_check (as_address (obj_get body ''oracleAddress'')) (\<lambda>oracle.
     then_check (as_bigint (obj_get body ''providerSetHash'')) (\<lambda>pset.
     then_check (as_bigint (obj_get body ''timestamp'')) (\<lambda>stamp.
       Inr \<lparr>sf_chainId = chain, sf_oracleAddress = big_address oracle, sf_providerSetHash = pset, sf_signals = signals, sf_weights = weights,
         sf_timestamp = stamp, sf_submitter = big_address submitter\<rparr>))))))))))))))))"

definition parse_sign_body :: "jsval \<Rightarrow> sign_request parsed" where
  "parse_sign_body raw = then_check (parse_signal_fields raw True) (\<lambda>f. let t = val_get raw ''proofType'' in
     then_check (require (t \<noteq> VUndef)) (\<lambda>_. then_check (as_number t 255) (\<lambda>n.
       if n = 7 \<or> n = 8 then Inr (SignSignals n f) else Inl BadRequest)))"

definition parse_sign_multi_body :: "jsval \<Rightarrow> sign_request parsed" where
  "parse_sign_multi_body raw = then_check (parse_signal_fields raw False) (\<lambda>f.
     then_check (require (val_get raw ''slotIndex'' \<noteq> VUndef \<and> val_get raw ''jurisdictionId'' \<noteq> VUndef \<and> is_text (val_get raw ''configHash''))) (\<lambda>_.
     then_check (as_number (val_get raw ''slotIndex'') (MAX_PROVIDERS_MULTI - 1)) (\<lambda>i.
     then_check (as_number (val_get raw ''jurisdictionId'') 4) (\<lambda>j.
     then_check (as_bigint (val_get raw ''configHash'')) (\<lambda>g. Inr (SignSlot i j g f))))))"

section \<open>The policy\<close>

record signing_policy =
  sp_chainId :: int
  sp_oracleAddress :: int
  sp_providerId :: "int option"
  sp_maxTimestampAgeSeconds :: int
  sp_maxTimestampSkewSeconds :: int
  sp_credentialRootMaxValiditySeconds :: int

definition enforce_deployment :: "signing_policy \<Rightarrow> int \<Rightarrow> int \<Rightarrow> unit parsed" where
  "enforce_deployment p chain oracle = (if chain \<noteq> sp_chainId p then Inl (Rejected 403 ''CHAIN_MISMATCH'')
     else if oracle \<noteq> sp_oracleAddress p then Inl (Rejected 403 ''ORACLE_MISMATCH'') else Inr ())"

definition enforce_signal_policy :: "signing_policy \<Rightarrow> int \<Rightarrow> signal_fields \<Rightarrow> unit parsed" where
  "enforce_signal_policy p now f = then_check (enforce_deployment p (sf_chainId f) (sf_oracleAddress f)) (\<lambda>_.
     if sf_timestamp f < now - sp_maxTimestampAgeSeconds p \<or> sf_timestamp f > now + sp_maxTimestampSkewSeconds p
       then Inl (Rejected 403 ''TIMESTAMP_OUT_OF_WINDOW'') else Inr ())"

definition U64_MAX :: int where
  "U64_MAX = 0xffffffffffffffff"

definition root_text :: "string \<Rightarrow> bool" where
  "root_text s \<longleftrightarrow> starts_with s ''0x'' \<and> length s = 66 \<and> list_all is_hex_digit (drop 2 s)"

definition text_where :: "(string \<Rightarrow> bool) \<Rightarrow> jsval \<Rightarrow> string parsed" where
  "text_where P v = (case v of VStr s \<Rightarrow> if P s then Inr s else Inl BadRequest | _ \<Rightarrow> Inl BadRequest)"

definition parse_sign_credential_root_body :: "jsval \<Rightarrow> root_request parsed" where
  "parse_sign_credential_root_body raw = then_check (json_object raw) (\<lambda>body.
     then_check (require (obj_get body ''chainId'' \<noteq> VUndef \<and> obj_get body ''providerId'' \<noteq> VUndef)) (\<lambda>_.
     then_check (text_where root_text (obj_get body ''root'')) (\<lambda>root.
     then_check (text_where (\<lambda>s. s \<noteq> []) (obj_get body ''cid'')) (\<lambda>cid.
     then_check (require (obj_get body ''notBefore'' \<noteq> VUndef \<and> obj_get body ''notAfter'' \<noteq> VUndef)) (\<lambda>_.
     then_check (as_bigint (obj_get body ''notBefore'')) (\<lambda>nb.
     then_check (as_bigint (obj_get body ''notAfter'')) (\<lambda>na.
     then_check (require (\<not> nb > U64_MAX \<and> \<not> na > U64_MAX)) (\<lambda>_.
     then_check (as_bigint (obj_get body ''chainId'')) (\<lambda>chain.
     then_check (as_address (obj_get body ''oracleAddress'')) (\<lambda>oracle.
     then_check (as_bigint (obj_get body ''providerId'')) (\<lambda>provider.
       Inr \<lparr>rr_chainId = chain, rr_oracleAddress = oracle, rr_providerId = provider, rr_root = root, rr_cid = cid,
         rr_notBefore = nb, rr_notAfter = na\<rparr>)))))))))))"

definition enforce_credential_root_policy :: "signing_policy \<Rightarrow> int \<Rightarrow> root_request \<Rightarrow> unit parsed" where
  "enforce_credential_root_policy p now r = then_check (enforce_deployment p (rr_chainId r) (big_address (rr_oracleAddress r))) (\<lambda>_.
     if (\<exists>i \<in> set_option (sp_providerId p). rr_providerId r \<noteq> i) then Inl (Rejected 403 ''PROVIDER_MISMATCH'')
     else if rr_notAfter r < rr_notBefore r then Inl (Rejected 400 ''BAD_RANGE'')
     else if rr_notAfter r \<le> now then Inl (Rejected 403 ''WINDOW_EXPIRED'')
     else if rr_notAfter r > now + sp_credentialRootMaxValiditySeconds p then Inl (Rejected 403 ''VALIDITY_TOO_LONG'')
     else Inr ())"

section \<open>Handlers\<close>

datatype audit_outcome = AuditSigned | AuditReplayed | AuditRejected
datatype audit_route = SignRoute | SignMultiRoute | CredentialRootRoute

record audit_event =
  ae_route :: audit_route
  ae_outcome :: audit_outcome
  ae_source :: string
  ae_payloadHash :: "string option"
  ae_submitter :: "string option"
  ae_signerPubkeyHash :: "string option"
  ae_signer :: "string option"
  ae_credentialRoot :: "root_request option"

record sign_response =
  re_signature :: string
  re_pubkeyX :: string
  re_pubkeyY :: string
  re_signerPubkeyHash :: string
  re_payloadHash :: string

record root_response =
  ro_signature :: string
  ro_digest :: string
  ro_signer :: string

text \<open>The status and code of a refusal, or the body of a 200.\<close>

type_synonym 'a handler_result = "(nat \<times> string) + 'a"

definition rejection :: "request_error \<Rightarrow> nat \<times> string" where
  "rejection e = (case e of Rejected status why \<Rightarrow> (status, why) | BadRequest \<Rightarrow> (400, ''BAD_REQUEST''))"

text \<open>The daemon: its ledger, and the audit records the sink has accepted, the last first.\<close>

record 's daemon =
  dm_ledger :: 's
  dm_audit :: "audit_event list"

definition audited :: "(audit_event \<Rightarrow> bool) \<Rightarrow> audit_event \<Rightarrow> 'a handler_result \<Rightarrow> 's daemon \<Rightarrow> 'a handler_result \<times> 's daemon" where
  "audited sink ev result d = (if sink ev then (result, d\<lparr>dm_audit := ev # dm_audit d\<rparr>) else (Inl (500, ''AUDIT_FAILED''), d))"

definition pad40 :: "string \<Rightarrow> string" where
  "pad40 s = replicate (40 - length s) CHR ''0'' @ s"

definition submitter_text :: "jsval \<Rightarrow> string option" where
  "submitter_text raw = (case val_get raw ''submitter'' of VStr s \<Rightarrow> if ADDRESS_RE s then Some (to_lower s) else None | _ \<Rightarrow> None)"

definition sign_event :: "audit_route \<Rightarrow> audit_outcome \<Rightarrow> string \<Rightarrow> audit_event" where
  "sign_event route outcome source = \<lparr>ae_route = route, ae_outcome = outcome, ae_source = source, ae_payloadHash = None, ae_submitter = None,
     ae_signerPubkeyHash = None, ae_signer = None, ae_credentialRoot = None\<rparr>"

definition sign_response_of :: "signed_bundle \<Rightarrow> sign_response" where
  "sign_response_of b = \<lparr>re_signature = bytes_to_hex (bu_signature b), re_pubkeyX = bytes_to_hex (bu_pubkeyX b),
     re_pubkeyY = bytes_to_hex (bu_pubkeyY b), re_signerPubkeyHash = bytes_to_hex (bu_signerPubkeyHash b),
     re_payloadHash = bytes_to_hex (bu_payloadHash b)\<rparr>"

text \<open>\<open>clocks\<close>: the policy's, and the ledger's at its two calls. \<open>answer\<close> is the signer's to the one digest asked for.\<close>

definition handle_signal_route :: "'s replay_db \<Rightarrow> provider_crypto \<Rightarrow> signer_key \<Rightarrow> signing_policy \<Rightarrow> (audit_event \<Rightarrow> bool) \<Rightarrow> int \<times> int \<times> int \<Rightarrow> bytes option
    \<Rightarrow> audit_route \<Rightarrow> (jsval \<Rightarrow> sign_request parsed) \<Rightarrow> jsval \<Rightarrow> string \<Rightarrow> 's daemon \<Rightarrow> sign_response handler_result \<times> 's daemon" where
  "handle_signal_route db c k p sink clocks answer route parse body source d =
     (case then_check (parse body) (\<lambda>req. then_check (enforce_signal_policy p (fst clocks) (fields_of req)) (\<lambda>_. Inr req)) of
        Inl e \<Rightarrow> audited sink ((sign_event route AuditRejected source)\<lparr>ae_submitter := submitter_text body\<rparr>) (Inl (rejection e)) d
      | Inr req \<Rightarrow> (let submitter = ''0x'' @ pad40 (show_hex (nat (sf_submitter (fields_of req)))) in
          (case sign_with_replay_protection db c k (snd clocks) req answer (dm_ledger d) of (r, l) \<Rightarrow> (let d1 = d\<lparr>dm_ledger := l\<rparr> in
           (case r of
              Inl e \<Rightarrow> audited sink ((sign_event route AuditRejected source)\<lparr>ae_submitter := Some submitter\<rparr>) (Inl (500, ''SIGN_FAILED'')) d1
            | Inr (b, replayed) \<Rightarrow> (let response = sign_response_of b in
                audited sink ((sign_event route (if replayed then AuditReplayed else AuditSigned) source)\<lparr>ae_submitter := Some submitter,
                  ae_payloadHash := Some (re_payloadHash response), ae_signerPubkeyHash := Some (re_signerPubkeyHash response)\<rparr>) (Inr response) d1))))))"

definition handle_sign :: "'s replay_db \<Rightarrow> provider_crypto \<Rightarrow> signer_key \<Rightarrow> signing_policy \<Rightarrow> (audit_event \<Rightarrow> bool) \<Rightarrow> int \<times> int \<times> int \<Rightarrow> bytes option
    \<Rightarrow> jsval \<Rightarrow> string \<Rightarrow> 's daemon \<Rightarrow> sign_response handler_result \<times> 's daemon" where
  "handle_sign db c k p sink clocks answer body source d = handle_signal_route db c k p sink clocks answer SignRoute parse_sign_body body source d"

definition handle_sign_multi :: "'s replay_db \<Rightarrow> provider_crypto \<Rightarrow> signer_key \<Rightarrow> signing_policy \<Rightarrow> (audit_event \<Rightarrow> bool) \<Rightarrow> int \<times> int \<times> int \<Rightarrow> bytes option
    \<Rightarrow> jsval \<Rightarrow> string \<Rightarrow> 's daemon \<Rightarrow> sign_response handler_result \<times> 's daemon" where
  "handle_sign_multi db c k p sink clocks answer body source d =
     handle_signal_route db c k p sink clocks answer SignMultiRoute parse_sign_multi_body body source d"

definition handle_sign_credential_root :: "provider_crypto \<Rightarrow> signer_key \<Rightarrow> signing_policy \<Rightarrow> (audit_event \<Rightarrow> bool) \<Rightarrow> int \<Rightarrow> bytes option
    \<Rightarrow> jsval \<Rightarrow> string \<Rightarrow> 's daemon \<Rightarrow> root_response handler_result \<times> 's daemon" where
  "handle_sign_credential_root c k p sink now answer body source d = (let rejected = sign_event CredentialRootRoute AuditRejected source in
     case parse_sign_credential_root_body body of
       Inl e \<Rightarrow> audited sink rejected (Inl (rejection e)) d
     | Inr req \<Rightarrow> (case enforce_credential_root_policy p now req of
         Inl e \<Rightarrow> audited sink (rejected\<lparr>ae_credentialRoot := Some req\<rparr>) (Inl (rejection e)) d
       | Inr _ \<Rightarrow> (case sign_credential_root c k req answer of
           Inl e \<Rightarrow> audited sink (rejected\<lparr>ae_credentialRoot := Some req\<rparr>) (Inl (500, ''SIGN_FAILED'')) d
         | Inr r \<Rightarrow> (let response = \<lparr>ro_signature = bytes_to_hex (rt_signature r), ro_digest = bytes_to_hex (rt_digest r), ro_signer = rt_signer r\<rparr> in
             audited sink ((sign_event CredentialRootRoute AuditSigned source)\<lparr>ae_payloadHash := Some (ro_digest response),
               ae_signer := Some (ro_signer response), ae_credentialRoot := Some req\<rparr>) (Inr response) d))))"

definition handle_pubkey_hash :: "provider_crypto \<Rightarrow> signer_key \<Rightarrow> provider_error + (string \<times> string \<times> string)" where
  "handle_pubkey_hash c k = then_check (refuse_if (\<not> pc_point c (uncompressed_public_key k)) BadKey) (\<lambda>_.
     then_check (compute_signer_pubkey_hash c (sk_x k) (sk_y k)) (\<lambda>h. Inr (bytes_to_hex h, bytes_to_hex (sk_x k), bytes_to_hex (sk_y k))))"

end
