(* ===== verification/Server.thy ===== *)
theory Server
  imports Daemon Json
begin

text \<open>
  The signing daemon around its handlers: the configuration read from the environment
  (\<open>packages/provider/daemon/src/config.ts\<close>) and the HTTP server (\<open>server.ts\<close>) with its scoped credentials, routes, body
  limit and bounded queue. Parameters: TLS (whether a client certificate verified and its common name), the decoding of
  body bytes, and the handlers' own. Not modelled: sockets, listening and closing, headers of an answer.
\<close>

section \<open>Configuration\<close>

datatype config_error =
    KeyRequired | TlsPair | CaWithoutTls | NoAuthentication | RootKeyIgnored | SameKeys | NamesWithoutCa | NameInBothScopes
  | BadChainId | BadOracle | BadProviderId | BadInsecureFlag | BadInteger string | TooBig string | EmptyEntry string | UnsafeBind | LedgerRefused

record daemon_config =
  dc_host :: string
  dc_port :: int
  dc_signerKeyHex :: string
  dc_apiKey :: "string option"
  dc_credentialRootApiKey :: "string option"
  dc_tlsCertPath :: "string option"
  dc_tlsKeyPath :: "string option"
  dc_clientCaPath :: "string option"
  dc_signalsClientCns :: "string list option"
  dc_credentialRootClientCns :: "string list option"
  dc_auditLogPath :: "string option"
  dc_providerLabel :: string
  dc_policy :: signing_policy
  dc_oracleAddress :: string
  dc_allowInsecureBind :: bool

text \<open>A string that is there and not empty.\<close>

definition truthy_text :: "string option \<Rightarrow> bool" where
  "truthy_text v \<longleftrightarrow> (case v of None \<Rightarrow> False | Some s \<Rightarrow> s \<noteq> [])"

fun pieces :: "char \<Rightarrow> string \<Rightarrow> string list" where
  "pieces d [] = [[]]"
| "pieces d (c # s) = (if c = d then [] # pieces d s else (case pieces d s of p # ps \<Rightarrow> (c # p) # ps | [] \<Rightarrow> [[c]]))"

type_synonym environment = "string \<Rightarrow> string option"

definition env_int :: "environment \<Rightarrow> string \<Rightarrow> int \<Rightarrow> int \<Rightarrow> config_error + int" where
  "env_int env name fallback most = (if \<not> truthy_text (env name) then Inr fallback
     else if \<not> all_digits (the (env name)) then Inl (BadInteger name)
     else if int (digits_val 10 (the (env name))) > most then Inl (TooBig name) else Inr (int (digits_val 10 (the (env name)))))"

definition env_list :: "environment \<Rightarrow> string \<Rightarrow> config_error + string list option" where
  "env_list env name = (if \<not> truthy_text (env name) then Inr None
     else (let items = map trim (pieces CHR '','' (the (env name))) in if [] \<in> set items then Inl (EmptyEntry name) else Inr (Some items)))"

definition is_loopback_host :: "string \<Rightarrow> bool" where
  "is_loopback_host host \<longleftrightarrow> host = ''localhost'' \<or> host = ''::1'' \<or> (case pieces CHR ''.'' host of
     [a, b, c, d] \<Rightarrow> a = ''127'' \<and> list_all (\<lambda>p. all_digits p \<and> length p \<le> 3) [b, c, d] | _ \<Rightarrow> False)"

definition assert_safe_bind :: "daemon_config \<Rightarrow> config_error check" where
  "assert_safe_bind cfg = refuse_if (\<not> (truthy_text (dc_tlsCertPath cfg) \<and> truthy_text (dc_tlsKeyPath cfg)) \<and> \<not> is_loopback_host (dc_host cfg)
     \<and> \<not> dc_allowInsecureBind cfg) UnsafeBind"

definition names_overlap :: "string list option \<Rightarrow> string list option \<Rightarrow> bool" where
  "names_overlap a b \<longleftrightarrow> (case (a, b) of (Some xs, Some ys) \<Rightarrow> list_ex (\<lambda>cn. cn \<in> set ys) xs | _ \<Rightarrow> False)"

definition assert_credential_separation :: "daemon_config \<Rightarrow> config_error check" where
  "assert_credential_separation cfg = check_all
     [refuse_if (dc_apiKey cfg \<noteq> None \<and> dc_credentialRootApiKey cfg \<noteq> None \<and> dc_apiKey cfg = dc_credentialRootApiKey cfg) SameKeys,
      if truthy_text (dc_clientCaPath cfg) then refuse_if (dc_credentialRootApiKey cfg \<noteq> None) RootKeyIgnored
      else refuse_if (dc_signalsClientCns cfg \<noteq> None \<or> dc_credentialRootClientCns cfg \<noteq> None) NamesWithoutCa,
      refuse_if (names_overlap (dc_signalsClientCns cfg) (dc_credentialRootClientCns cfg)) NameInBothScopes]"

definition chain_id_text :: "string \<Rightarrow> bool" where
  "chain_id_text s \<longleftrightarrow> all_digits s \<and> hd s \<noteq> CHR ''0''"

definition or_default :: "string option \<Rightarrow> string \<Rightarrow> string" where
  "or_default v d = (case v of None \<Rightarrow> d | Some s \<Rightarrow> s)"

definition load_config :: "environment \<Rightarrow> config_error + daemon_config" where
  "load_config env = (let tls_cert = env ''SIGNER_TLS_CERT''; tls_key = env ''SIGNER_TLS_KEY''; ca = env ''SIGNER_CLIENT_CA'';
       api_key = env ''SIGNER_API_KEY''; root_key = env ''SIGNER_CREDENTIAL_ROOT_API_KEY''; chain = env ''SIGNER_CHAIN_ID'';
       orc = env ''SIGNER_ORACLE_ADDRESS''; provider = env ''SIGNER_PROVIDER_ID''; insecure = env ''SIGNER_ALLOW_INSECURE_BIND'' in
     then_check (check_all [refuse_if (\<not> truthy_text (env ''SIGNER_PRIVATE_KEY_HEX'')) KeyRequired,
       refuse_if (truthy_text tls_cert \<noteq> truthy_text tls_key) TlsPair,
       refuse_if (truthy_text ca \<and> \<not> truthy_text tls_cert) CaWithoutTls,
       refuse_if (\<not> truthy_text ca \<and> \<not> truthy_text api_key) NoAuthentication]) (\<lambda>_.
     then_check (env_list env ''SIGNER_SIGNALS_CLIENT_CNS'') (\<lambda>signals_cns.
     then_check (env_list env ''SIGNER_CREDENTIAL_ROOT_CLIENT_CNS'') (\<lambda>root_cns.
     then_check (check_all [refuse_if (truthy_text root_key \<and> truthy_text ca) RootKeyIgnored,
       refuse_if (truthy_text root_key \<and> root_key = api_key) SameKeys,
       refuse_if ((signals_cns \<noteq> None \<or> root_cns \<noteq> None) \<and> \<not> truthy_text ca) NamesWithoutCa,
       refuse_if (names_overlap signals_cns root_cns) NameInBothScopes,
       refuse_if (\<not> truthy_text chain \<or> \<not> chain_id_text (the chain)) BadChainId,
       refuse_if (\<not> truthy_text orc \<or> \<not> ADDRESS_RE (the orc)) BadOracle,
       refuse_if (truthy_text provider \<and> \<not> all_digits (the provider)) BadProviderId,
       refuse_if (truthy_text insecure \<and> insecure \<noteq> Some ''0'' \<and> insecure \<noteq> Some ''1'') BadInsecureFlag]) (\<lambda>_.
     then_check (env_int env ''SIGNER_HTTP_PORT'' 8548 65535) (\<lambda>port.
     then_check (env_int env ''SIGNER_MAX_TIMESTAMP_AGE_SECONDS'' 300 86400) (\<lambda>age.
     then_check (env_int env ''SIGNER_MAX_TIMESTAMP_SKEW_SECONDS'' 30 3600) (\<lambda>skew.
     then_check (env_int env ''SIGNER_CREDENTIAL_ROOT_MAX_VALIDITY_SECONDS'' 3600 172800) (\<lambda>validity.
       let cfg = \<lparr>dc_host = or_default (env ''SIGNER_HTTP_HOST'') ''127.0.0.1'', dc_port = port, dc_signerKeyHex = the (env ''SIGNER_PRIVATE_KEY_HEX''),
         dc_apiKey = api_key, dc_credentialRootApiKey = root_key, dc_tlsCertPath = tls_cert, dc_tlsKeyPath = tls_key, dc_clientCaPath = ca,
         dc_signalsClientCns = signals_cns, dc_credentialRootClientCns = root_cns, dc_auditLogPath = env ''SIGNER_AUDIT_LOG'',
         dc_providerLabel = or_default (env ''SIGNER_PROVIDER_LABEL'') ''xochi-provider'',
         dc_policy = \<lparr>sp_chainId = int (digits_val 10 (the chain)), sp_oracleAddress = big_address (the orc),
           sp_providerId = (if truthy_text provider then Some (int (digits_val 10 (the provider))) else None),
           sp_maxTimestampAgeSeconds = age, sp_maxTimestampSkewSeconds = skew, sp_credentialRootMaxValiditySeconds = validity\<rparr>,
         dc_oracleAddress = the orc, dc_allowInsecureBind = (insecure = Some ''1'')\<rparr> in
       then_check (assert_safe_bind cfg) (\<lambda>_. then_check (assert_credential_separation cfg) (\<lambda>_. Inr cfg)))))))))))"

section \<open>The queue\<close>

text \<open>Admitted requests, the one that runs first. Each starts when the one before it has ended.\<close>

definition MAX_PENDING_BARRETENBERG_REQUESTS :: nat where "MAX_PENDING_BARRETENBERG_REQUESTS = 64"

definition queue_run :: "nat \<Rightarrow> 'a \<Rightarrow> 'a list \<Rightarrow> bool \<times> 'a list" where
  "queue_run most job q = (if length q \<ge> most then (False, q) else (True, q @ [job]))"

definition queue_settle :: "'a list \<Rightarrow> 'a list" where
  "queue_settle q = drop 1 q"

section \<open>Credentials\<close>

datatype scope = Signals | CredentialRoot
datatype credential = Mtls "string option" | Bearer "string option"
datatype body_event = BodyData bytes | BodyEnd | BodyFailed
datatype body_error = BodyTooLarge | BodyReadFailed

record http_request =
  hr_method :: string
  hr_url :: "string option"
  hr_authorized :: bool
  hr_commonName :: "string option"
  hr_authorization :: "string option"
  hr_body :: "body_event list"

definition scopes_for :: "credential \<Rightarrow> daemon_config \<Rightarrow> scope list" where
  "scopes_for cred cfg = (case cred of
     Mtls cn \<Rightarrow> if (case (cn, dc_credentialRootClientCns cfg) of (Some n, Some ns) \<Rightarrow> n \<in> set ns | _ \<Rightarrow> False) then [CredentialRoot]
       else if (case dc_signalsClientCns cfg of None \<Rightarrow> False | Some ns \<Rightarrow> (case cn of None \<Rightarrow> True | Some n \<Rightarrow> n \<notin> set ns)) then []
       else [Signals]
   | Bearer None \<Rightarrow> []
   | Bearer (Some token) \<Rightarrow> (if dc_apiKey cfg = Some token then [Signals] else []) @ (if dc_credentialRootApiKey cfg = Some token then [CredentialRoot] else []))"

definition presented_credential :: "http_request \<Rightarrow> daemon_config \<Rightarrow> credential option" where
  "presented_credential req cfg = (if truthy_text (dc_clientCaPath cfg) then (if \<not> hr_authorized req then None else Some (Mtls (hr_commonName req)))
     else (case hr_authorization req of None \<Rightarrow> Some (Bearer None)
       | Some h \<Rightarrow> if starts_with h ''Bearer '' then Some (Bearer (Some (drop 7 h))) else Some (Bearer None)))"

definition source_label :: "credential \<Rightarrow> scope \<Rightarrow> string" where
  "source_label cred scope = (case cred of Mtls cn \<Rightarrow> ''mtls:'' @ or_default cn ''unknown''
     | Bearer _ \<Rightarrow> (if scope = CredentialRoot then ''bearer:credential-root'' else ''bearer:signals''))"

section \<open>Reading and routing\<close>

definition MAX_BODY_BYTES :: nat where "MAX_BODY_BYTES = 32 * 1024"

text \<open>The first of the events that settles the promise does; without one it stays open.\<close>

fun read_body :: "bytes \<Rightarrow> body_event list \<Rightarrow> (body_error + bytes) option" where
  "read_body got [] = None"
| "read_body got (BodyData chunk # es) = (if length got + length chunk > MAX_BODY_BYTES then Some (Inl BodyTooLarge) else read_body (got @ chunk) es)"
| "read_body got (BodyEnd # es) = Some (Inr got)"
| "read_body got (BodyFailed # es) = Some (Inl BodyReadFailed)"

definition post_route :: "http_request \<Rightarrow> (audit_route \<times> scope \<times> bool) option" where
  "post_route req = (if hr_method req \<noteq> ''POST'' then None
     else if hr_url req = Some ''/sign'' then Some (SignRoute, Signals, True)
     else if hr_url req = Some ''/sign-multi'' then Some (SignMultiRoute, Signals, True)
     else if hr_url req = Some ''/sign-credential-root'' then Some (CredentialRootRoute, CredentialRoot, False) else None)"

datatype served = Healthy | PubkeyHash string string string | SignedBundle sign_response | SignedRoot root_response

definition map_served :: "('a \<Rightarrow> served) \<Rightarrow> 'a handler_result \<times> 's daemon \<Rightarrow> served handler_result \<times> 's daemon" where
  "map_served f out = (map_sum id f (fst out), snd out)"

definition invoke_route :: "'s replay_db \<Rightarrow> provider_crypto \<Rightarrow> signer_key \<Rightarrow> daemon_config \<Rightarrow> (audit_event \<Rightarrow> bool) \<Rightarrow> int \<times> int \<times> int \<Rightarrow> bytes option
    \<Rightarrow> audit_route \<Rightarrow> jsval \<Rightarrow> string \<Rightarrow> 's daemon \<Rightarrow> served handler_result \<times> 's daemon" where
  "invoke_route db c k cfg sink clocks answer route body source d = (case route of
     SignRoute \<Rightarrow> map_served SignedBundle (handle_sign db c k (dc_policy cfg) sink clocks answer body source d)
   | SignMultiRoute \<Rightarrow> map_served SignedBundle (handle_sign_multi db c k (dc_policy cfg) sink clocks answer body source d)
   | CredentialRootRoute \<Rightarrow> map_served SignedRoot (handle_sign_credential_root c k (dc_policy cfg) sink (fst clocks) answer body source d))"

text \<open>
  The answer to one request, \<open>None\<close> while its body stays open. \<open>decode\<close> turns body bytes into text, \<open>busy\<close> says whether
  the queue was full. The handlers answer every error themselves, so of \<open>invoke\<close> only the queue throws.
\<close>

definition serve :: "'s replay_db \<Rightarrow> provider_crypto \<Rightarrow> signer_key \<Rightarrow> daemon_config \<Rightarrow> (audit_event \<Rightarrow> bool) \<Rightarrow> (bytes \<Rightarrow> string) \<Rightarrow> bool
    \<Rightarrow> int \<times> int \<times> int \<Rightarrow> bytes option \<Rightarrow> http_request \<Rightarrow> 's daemon \<Rightarrow> (served handler_result \<times> 's daemon) option" where
  "serve db c k cfg sink decode busy clocks answer req d =
     (if hr_method req = ''GET'' \<and> hr_url req = Some ''/healthz'' then Some (Inr Healthy, d)
      else (case presented_credential req cfg of None \<Rightarrow> Some (Inl (401, ''UNAUTHORIZED''), d) | Some cred \<Rightarrow>
        if scopes_for cred cfg = [] then Some (Inl (401, ''UNAUTHORIZED''), d)
        else if hr_method req = ''GET'' \<and> hr_url req = Some ''/pubkey-hash'' then Some (if busy then Inl (503, ''OVERLOADED'')
            else (case handle_pubkey_hash c k of Inl _ \<Rightarrow> Inl (500, ''INTERNAL'') | Inr (h, x, y) \<Rightarrow> Inr (PubkeyHash h x y)), d)
        else (case post_route req of None \<Rightarrow> Some (Inl (404, ''NOT_FOUND''), d) | Some (route, scope, queued) \<Rightarrow>
          (let source = source_label cred scope; refused = (\<lambda>status why. audited sink (sign_event route AuditRejected source) (Inl (status, why)) d) in
           if scope \<notin> set (scopes_for cred cfg) then Some (refused 403 ''ROUTE_NOT_PERMITTED'')
           else (case read_body [] (hr_body req) of
               None \<Rightarrow> None
             | Some (Inl BodyTooLarge) \<Rightarrow> Some (refused 413 ''BODY_TOO_LARGE'')
             | Some (Inl BodyReadFailed) \<Rightarrow> Some (refused 400 ''BODY_READ_FAILED'')
             | Some (Inr raw) \<Rightarrow> Some (case json_parse (decode raw) of
                 None \<Rightarrow> refused 400 ''BAD_JSON''
               | Some body \<Rightarrow> if queued \<and> busy then refused 503 ''OVERLOADED'' else invoke_route db c k cfg sink clocks answer route body source d))))))"

text \<open>The daemon as it starts: a memory ledger that retains for the whole timestamp window, and no record yet.\<close>

definition start_daemon :: "environment \<Rightarrow> config_error + (daemon_config \<times> ledger daemon)" where
  "start_daemon env = then_check (load_config env) (\<lambda>cfg.
     case new_ledger (Fin (of_int (sp_maxTimestampAgeSeconds (dc_policy cfg) + sp_maxTimestampSkewSeconds (dc_policy cfg)))) (Fin 100000) of
       None \<Rightarrow> Inl LedgerRefused
     | Some l \<Rightarrow> then_check (check_all [assert_safe_bind cfg, assert_credential_separation cfg]) (\<lambda>_. Inr (cfg, \<lparr>dm_ledger = l, dm_audit = []\<rparr>)))"

end
