(* ===== verification/ProviderSafe.thy ===== *)
theory ProviderSafe
  imports Provider
begin

text \<open>
  Payload hashes commit to their request, and the ledger is a map from submitter and payload to the one bundle retained,
  stated as the contract of a \<open>ReplayDb\<close> and discharged for the one in memory.
\<close>

section \<open>Fields\<close>

lemma bytes_value_cons: "bytes_value (b # bs) = int (code b) * 256 ^ length bs + bytes_value bs"
proof -
  have "foldl (\<lambda>v b. v * 256 + int (code b)) a bs = a * 256 ^ length bs + foldl (\<lambda>v b. v * 256 + int (code b)) 0 bs" for a bs
  proof (induction bs arbitrary: a)
    case (Cons x xs)
    show ?case using Cons [of "a * 256 + int (code x)"] Cons [of "int (code x)"] by (simp add: algebra_simps)
  qed simp
  from this [of "int (code b)" bs] show ?thesis by (simp add: bytes_value_def)
qed

lemma bytes_value_Nil [simp]: "bytes_value [] = 0"
  by (simp add: bytes_value_def)

lemma field_loop_value:
  assumes "0 \<le> v" "field_loop k v out = (bs, rest)"
  shows "rest = v div 256 ^ k \<and> length bs = k + length out \<and> bytes_value bs = (v mod 256 ^ k) * 256 ^ length out + bytes_value out"
  using assms
proof (induction k arbitrary: v out)
  case (Suc k)
  have step: "field_loop k (v div 256) (char_of (nat (v mod 256)) # out) = (bs, rest)" using Suc.prems(2) by simp
  have c: "int (code (char_of (nat (v mod 256)))) = v mod 256" by (simp add: code_def)
  have d: "v mod (256 * 256 ^ k) = 256 * (v div 256 mod 256 ^ k) + v mod 256"
    using zmod_zmult2_eq [of "256 ^ k" v 256] by simp
  have q: "v div 256 div 256 ^ k = v div (256 * 256 ^ k)" using zdiv_zmult2_eq [of "256 ^ k" v 256] by simp
  have "rest = v div (256 * 256 ^ k) \<and> length bs = Suc (k + length out)
      \<and> bytes_value bs = (v div 256 mod 256 ^ k) * (256 * 256 ^ length out) + (v mod 256 * 256 ^ length out + bytes_value out)"
    using Suc.IH [OF _ step] Suc.prems(1) by (simp add: bytes_value_cons c q pos_imp_zdiv_nonneg_iff)
  then show ?case by (simp add: d distrib_right mult.assoc mult.left_commute)
qed simp

lemma field_bytes: "field_to_bytes v = Inr bs \<Longrightarrow> length bs = 32 \<and> bytes_value bs = v \<and> 0 \<le> v \<and> v < 2 ^ 256"
proof -
  assume a: "field_to_bytes v = Inr bs"
  obtain out rest where l: "field_loop 32 v [] = (out, rest)" by fastforce
  have v: "0 \<le> v" "rest = 0" "out = bs" using a l by (auto simp: field_to_bytes_def split: if_splits)
  from field_loop_value [OF v(1) l] have f: "v div 256 ^ 32 = 0" "length bs = 32" "bytes_value bs = v mod 256 ^ 32"
    using v by auto
  have "v < 256 ^ 32" using f(1) v(1) pos_imp_zdiv_pos_iff [of "256 ^ 32" v] by simp
  then show ?thesis using f v(1) by simp
qed

lemma field_injective: "field_to_bytes v = Inr bs \<Longrightarrow> field_to_bytes w = Inr bs \<Longrightarrow> v = w"
  using field_bytes by metis

lemma collect_map: "collect (map f xs) = Inr ys \<longleftrightarrow> list_all2 (\<lambda>x y. f x = Inr y) xs ys"
proof (induction xs arbitrary: ys)
  case (Cons x xs)
  have "collect (map f (x # xs)) = Inr ys \<longleftrightarrow> (\<exists>a bs. f x = Inr a \<and> collect (map f xs) = Inr bs \<and> ys = a # bs)"
    by (simp split: sum.split) blast
  also have "\<dots> \<longleftrightarrow> (\<exists>a bs. f x = Inr a \<and> list_all2 (\<lambda>x y. f x = Inr y) xs bs \<and> ys = a # bs)" by (simp only: Cons)
  also have "\<dots> \<longleftrightarrow> list_all2 (\<lambda>x y. f x = Inr y) (x # xs) ys" unfolding list_all2_Cons1 by blast
  finally show ?case .
qed auto

lemma fields_injective: "collect (map field_to_bytes xs) = Inr bs \<Longrightarrow> collect (map field_to_bytes ys) = Inr bs \<Longrightarrow> xs = ys"
  unfolding collect_map
proof (induction xs bs arbitrary: ys rule: list_all2_induct)
  case (Cons x xs b bs)
  obtain y zs where "ys = y # zs" "field_to_bytes y = Inr b" "list_all2 (\<lambda>x z. field_to_bytes x = Inr z) zs bs"
    using Cons.prems by (auto simp: list_all2_Cons2)
  then show ?case using Cons.IH Cons.hyps(1) field_injective by blast
qed simp

section \<open>One payload, one request\<close>

fun hashed :: "sign_request \<Rightarrow> int list" where
  "hashed (SignSignals t f) = signed_inputs (if t = 7 then DOMAIN_SIGNED_SIGNALS else DOMAIN_RISK_SIGNED_SIGNALS) f"
| "hashed (SignSlot i j g f) = slot_inputs i j g f"

text \<open>Two requests whose field vectors are different inputs of the hash with one output.\<close>

definition pedersen_collision :: "provider_crypto \<Rightarrow> sign_request \<Rightarrow> sign_request \<Rightarrow> bool" where
  "pedersen_collision c r r' \<longleftrightarrow> (case (collect (map field_to_bytes (hashed r)), collect (map field_to_bytes (hashed r'))) of
     (Inr a, Inr b) \<Rightarrow> a \<noteq> b \<and> pc_pedersen c a \<noteq> None \<and> pc_pedersen c a = pc_pedersen c b | _ \<Rightarrow> False)"

lemma pedersen_injective:
  assumes "pedersen_hash c (hashed r) = Inr h" "pedersen_hash c (hashed r') = Inr h" "hashed r \<noteq> hashed r'"
  shows "pedersen_collision c r r'"
proof -
  obtain a where a: "collect (map field_to_bytes (hashed r)) = Inr a" "pc_pedersen c a = Some h"
    using assms(1) by (auto simp: pedersen_hash_def split: sum.splits option.splits)
  obtain b where b: "collect (map field_to_bytes (hashed r')) = Inr b" "pc_pedersen c b = Some h"
    using assms(2) by (auto simp: pedersen_hash_def split: sum.splits option.splits)
  have "a \<noteq> b" using fields_injective a(1) b(1) assms(3) by blast
  then show ?thesis using a b by (simp add: pedersen_collision_def)
qed

lemma payload_hashed:
  "payload_hash c r = Inr h \<Longrightarrow> pedersen_hash c (hashed r) = Inr h \<and> length (sf_signals (fields_of r)) = 8 \<and> length (sf_weights (fields_of r)) = 8
    \<and> (\<forall>t f. r = SignSignals t f \<longrightarrow> t = 7 \<or> t = 8)"
  by (cases r) (auto simp: compute_signed_payload_hash_def compute_slot_payload_hash_def SIGNED_SIGNALS_DOMAINS_def split: if_splits option.splits)

lemma fields_eq: "length (sf_signals f) = 8 \<Longrightarrow> length (sf_signals g) = 8 \<Longrightarrow> length (sf_weights f) = 8 \<Longrightarrow> length (sf_weights g) = 8 \<Longrightarrow>
    sf_signals f @ sf_weights f @ [sf_timestamp f, sf_submitter f] = sf_signals g @ sf_weights g @ [sf_timestamp g, sf_submitter g] \<Longrightarrow>
    sf_chainId f = sf_chainId g \<Longrightarrow> sf_oracleAddress f = sf_oracleAddress g \<Longrightarrow> sf_providerSetHash f = sf_providerSetHash g \<Longrightarrow> f = (g :: signal_fields)"
  by (auto intro: signal_fields.equality)

lemma vector_commits:
  assumes "payload_hash c r = Inr h" "payload_hash c r' = Inr h'" "hashed r = hashed r'"
  shows "r = r'"
proof -
  note p = payload_hashed [OF assms(1)] and q = payload_hashed [OF assms(2)] and e = assms(3)
  have len: "length (hashed r) = (case r of SignSignals _ _ \<Rightarrow> 22 | SignSlot _ _ _ _ \<Rightarrow> 25)"
    "length (hashed r') = (case r' of SignSignals _ _ \<Rightarrow> 22 | SignSlot _ _ _ _ \<Rightarrow> 25)"
    using p q by (auto simp: signed_inputs_def slot_inputs_def split: sign_request.split)
  show ?thesis
  proof (cases r)
    case (SignSignals t f)
    then obtain t' f' where r': "r' = SignSignals t' f'" using e len by (cases r') auto
    note e' = e [unfolded SignSignals r' hashed.simps signed_inputs_def append_Cons append_Nil list.inject]
    have "f = f'" by (rule fields_eq) (use e' p q SignSignals r' in simp_all)
    moreover have "t = 7 \<or> t = 8" "t' = 7 \<or> t' = 8" using p q SignSignals r' by blast+
    then have "t = t'" using conjunct1 [OF e'] by (elim disjE) (simp_all add: DOMAIN_SIGNED_SIGNALS_def DOMAIN_RISK_SIGNED_SIGNALS_def)
    ultimately show ?thesis using SignSignals r' by simp
  next
    case (SignSlot i j g f)
    then obtain i' j' g' f' where r': "r' = SignSlot i' j' g' f'" using e len by (cases r') auto
    note e' = e [unfolded SignSlot r' hashed.simps slot_inputs_def append_Cons append_Nil list.inject]
    have "f = f'" by (rule fields_eq) (use e' p q SignSlot r' in simp_all)
    then show ?thesis using e' SignSlot r' by simp
  qed
qed

text \<open>
  C24. One payload, one request. If two different requests have the same payload hash, their field vectors are a
  collision of the Pedersen hash: no two requests share a vector, whatever their proof type, deployment, signals,
  weights, time, submitter, or slot, jurisdiction and configuration. So a signature minted for one payload is a
  signature for another only by a collision.
\<close>

theorem payload_commits_to_request:
  assumes "payload_hash c r = Inr h" "payload_hash c r' = Inr h" "r \<noteq> r'"
  shows "pedersen_collision c r r'"
  using pedersen_injective payload_hashed assms vector_commits by metis

section \<open>Ledger keys\<close>

lemma code_hex_char: "d < 16 \<Longrightarrow> code (hex_char d) = (if d < 10 then 48 + d else 87 + d)"
  by (simp add: hex_char_def code_def)

lemma digit_hex_char: "d < 16 \<Longrightarrow> digit_val (hex_char d) = d"
  by (simp add: digit_val_def code_hex_char Let_def)

lemma show_hex_value [simp]: "digits_val 16 (show_hex n) = n"
proof (induction n rule: show_hex.induct)
  case (1 n)
  show ?case
  proof (cases "n < 16")
    case True
    then show ?thesis by (subst show_hex.simps) (simp add: digits_val_def digit_hex_char)
  next
    case False
    then show ?thesis using 1 by (subst show_hex.simps) (simp add: digits_val_append digit_hex_char)
  qed
qed

lemma show_hex_digits: "\<forall>x \<in> set (show_hex n). \<exists>d < 16. x = hex_char d"
proof (induction n rule: show_hex.induct)
  case (1 n)
  show ?case
  proof (cases "n < 16")
    case True
    then show ?thesis by (subst show_hex.simps) auto
  next
    case False
    then show ?thesis using 1 by (subst show_hex.simps) (auto intro: exI [of _ "n mod 16"])
  qed
qed

lemma hex_not_colon: "CHR '':'' \<notin> set (show_hex n)"
proof
  assume "CHR '':'' \<in> set (show_hex n)"
  then obtain d where d: "d < 16" "CHR '':'' = hex_char d" using show_hex_digits by blast
  then have "code (hex_char d) = 58" by (simp add: code_def flip: d(2))
  then show False using code_hex_char [OF d(1)] d(1) by (auto split: if_splits)
qed

lemma split_colon: "CHR '':'' \<notin> set a \<Longrightarrow> CHR '':'' \<notin> set b \<Longrightarrow> a @ CHR '':'' # x = b @ CHR '':'' # y \<longleftrightarrow> a = b \<and> x = y"
proof (induction a arbitrary: b)
  case Nil
  then show ?case by (cases b) auto
next
  case (Cons c a)
  then show ?case by (cases b) auto
qed

lemma two_digits: "pad2 (show_hex (code b)) = [hex_char (code b div 16), hex_char (code b mod 16)]"
proof -
  have b: "code b < 256" by (simp add: code_def)
  show ?thesis
  proof (cases "code b < 16")
    case True
    then show ?thesis by (simp add: pad2_def show_hex.simps [of "code b"]) (simp add: hex_char_def char_of_def bit_0)
  next
    case False
    have q: "code b div 16 < 16" using b by (simp add: div_less_iff_less_mult)
    then have "show_hex (code b div 16) = [hex_char (code b div 16)]" by (subst show_hex.simps) simp
    then have "show_hex (code b) = [hex_char (code b div 16), hex_char (code b mod 16)]" using False by (subst show_hex.simps) simp
    then show ?thesis by (simp add: pad2_def)
  qed
qed

lemma hex_char_inject: "d < 16 \<Longrightarrow> e < 16 \<Longrightarrow> hex_char d = hex_char e \<longleftrightarrow> d = e"
  using digit_hex_char by metis

lemma code_inject: "code a = code b \<longleftrightarrow> a = b"
  by (simp add: code_def)

lemma two_digits_inject: "pad2 (show_hex (code a)) = pad2 (show_hex (code b)) \<longleftrightarrow> a = b"
proof -
  have "code a < 256" "code b < 256" by (simp_all add: code_def)
  then have q: "code a div 16 < 16" "code b div 16 < 16" by (simp_all add: div_less_iff_less_mult)
  have "a = b" if "code a div 16 = code b div 16" "code a mod 16 = code b mod 16"
    using that code_inject [of a b] by (metis div_mod_decomp)
  then show ?thesis using q by (auto simp: two_digits hex_char_inject)
qed

lemma hex_bytes_inject: "drop 2 (bytes_to_hex a) = drop 2 (bytes_to_hex b) \<longleftrightarrow> a = b"
proof -
  have "concat (map (\<lambda>x. pad2 (show_hex (code x))) a) = concat (map (\<lambda>x. pad2 (show_hex (code x))) b) \<longleftrightarrow> a = b"
  proof (induction a arbitrary: b)
    case Nil
    then show ?case by (cases b) (auto simp: two_digits)
  next
    case (Cons x xs)
    show ?case
    proof (cases b)
      case (Cons y ys)
      have "length (pad2 (show_hex (code x))) = length (pad2 (show_hex (code y)))" by (simp add: two_digits)
      then show ?thesis using Cons Cons.IH [of ys] two_digits_inject by simp
    qed (simp add: two_digits)
  qed
  then show ?thesis by (simp add: bytes_to_hex_def)
qed

lemma minus_not_hex: "CHR ''-'' \<notin> set (show_hex n)"
proof
  assume "CHR ''-'' \<in> set (show_hex n)"
  then obtain d where d: "d < 16" "CHR ''-'' = hex_char d" using show_hex_digits by blast
  then have "code (hex_char d) = 45" by (simp add: code_def flip: d(2))
  then show False using code_hex_char [OF d(1)] d(1) by (auto split: if_splits)
qed

definition show_big :: "int \<Rightarrow> string" where
  "show_big u = (if u < 0 then CHR ''-'' # show_hex (nat (- u)) else show_hex (nat u))"

lemma show_hex_inject: "show_hex m = show_hex n \<longleftrightarrow> m = n"
  by (metis show_hex_value)

lemma show_big_inject: "show_big u = show_big v \<longleftrightarrow> u = v"
proof -
  have "CHR ''-'' # a \<noteq> show_hex n" for a n using minus_not_hex [of n] by (metis list.set_intros(1))
  then show ?thesis by (auto simp: show_big_def show_hex_inject eq_commute [of "show_hex _" "_ # _"])
qed

lemma key_injective: "key_for u g = key_for v h \<longleftrightarrow> u = v \<and> g = h"
proof -
  have c: "CHR '':'' \<notin> set (show_big w)" for w using hex_not_colon by (simp add: show_big_def)
  have k: "key_for w b = show_big w @ CHR '':'' # drop 2 (bytes_to_hex b)" for w b by (simp add: key_for_def show_big_def)
  show ?thesis unfolding k split_colon [OF c c] hex_bytes_inject show_big_inject ..
qed

end
