(* ===== verification/ReplayLedger.thy ===== *)
theory ReplayLedger
  imports ProviderSafe
begin

text \<open>
  The contract of a \<open>ReplayDb\<close> as a locale, calls of \<open>signThroughLedger\<close> interleaved at the signer's await as a step
  relation, what every database that keeps the contract gives them, and the contract discharged for the one in memory.
\<close>

section \<open>A bundle that may be released\<close>

definition valid_bundle :: "provider_crypto \<Rightarrow> signer_key \<Rightarrow> bytes \<Rightarrow> signed_bundle \<Rightarrow> bool" where
  "valid_bundle c k h b \<longleftrightarrow> bu_payloadHash b = h \<and> length h = 32 \<and> bu_pubkeyX b = sk_x k \<and> bu_pubkeyY b = sk_y k
     \<and> length (bu_signature b) = 64 \<and> pc_compact c (bu_signature b) \<and> \<not> pc_high_s c (bu_signature b)
     \<and> pc_verify c (bu_signature b) h (uncompressed_public_key k)
     \<and> compute_signer_pubkey_hash c (sk_x k) (sk_y k) = Inr (bu_signerPubkeyHash b)"

lemma validate_replay_result_iff:
  "validate_replay_result c k h b = Inr v \<longleftrightarrow> v = b \<and> valid_bundle c k h b \<and> length (sk_x k) = 32 \<and> length (sk_y k) = 32
     \<and> length (bu_signerPubkeyHash b) = 32"
  by (auto simp: validate_replay_result_def valid_bundle_def then_check_Inr result_matches_identity_def refuse_if_def split: if_splits)

lemma candidate_identity:
  "sign_payload_hash c k h answer = Inr b \<Longrightarrow> bu_pubkeyX b = sk_x k \<and> bu_pubkeyY b = sk_y k \<and> bu_payloadHash b = h"
  by (auto simp: sign_payload_hash_def then_check_Inr split: prod.splits)

lemma begin_answer: "ledger_begin db c k now u h l = (Some (Inr (b, replayed)), l') \<Longrightarrow>
    replayed \<and> valid_bundle c k h b \<and> rd_lookup db now u h l = (Some b, l')"
  by (auto simp: ledger_begin_def then_check_Inr validate_replay_result_iff split: sum.splits prod.splits option.splits if_splits)

lemma finish_answer:
  assumes "ledger_finish db c k now u ts h answer l = (Inr (b, replayed), l')"
  obtains candidate where "sign_payload_hash c k h answer = Inr candidate" "rd_record db now u h ts candidate l = ((b, \<not> replayed), l')"
    "valid_bundle c k h b" "\<not> replayed \<longrightarrow> b = candidate"
  using assms by (auto simp: ledger_finish_def then_check_Inr validate_replay_result_iff split: sum.splits prod.splits if_splits)

section \<open>Interleaved calls\<close>

text \<open>
  The database, the calls that await the signer, the bundles released so far (the last first) and how many calls began.
  Calls begin with requests no older than \<open>oldest\<close>, up to \<open>most\<close> of them, and the clock reads at most \<open>last_time\<close>.
\<close>

record 's signing_run =
  ru_store :: 's
  ru_waiting :: "sign_request list"
  ru_released :: "(sign_request \<times> signed_bundle \<times> bool) list"
  ru_calls :: nat

definition start_run :: "'s \<Rightarrow> 's signing_run" where
  "start_run l = \<lparr>ru_store = l, ru_waiting = [], ru_released = [], ru_calls = 0\<rparr>"

fun release :: "sign_request \<Rightarrow> provider_error + (signed_bundle \<times> bool) \<Rightarrow> 's signing_run \<Rightarrow> 's signing_run" where
  "release req (Inl e) s = s"
| "release req (Inr p) s = s\<lparr>ru_released := (req, p) # ru_released s\<rparr>"

definition submitter_of :: "sign_request \<Rightarrow> int" where "submitter_of req = sf_submitter (fields_of req)"
definition timestamp_of :: "sign_request \<Rightarrow> int" where "timestamp_of req = sf_timestamp (fields_of req)"

inductive signing_step :: "'s replay_db \<Rightarrow> provider_crypto \<Rightarrow> signer_key \<Rightarrow> int \<Rightarrow> int \<Rightarrow> nat \<Rightarrow> 's signing_run \<Rightarrow> 's signing_run \<Rightarrow> bool"
  for db c k last_time oldest most where
  Asks: "ru_calls s < most \<Longrightarrow> now \<le> last_time \<Longrightarrow> oldest \<le> timestamp_of req \<Longrightarrow> payload_hash c req = Inr h \<Longrightarrow>
     ledger_begin db c k now (submitter_of req) h (ru_store s) = (None, l) \<Longrightarrow>
     signing_step db c k last_time oldest most s (s\<lparr>ru_store := l, ru_waiting := req # ru_waiting s, ru_calls := Suc (ru_calls s)\<rparr>)"
| Replays: "ru_calls s < most \<Longrightarrow> now \<le> last_time \<Longrightarrow> oldest \<le> timestamp_of req \<Longrightarrow> payload_hash c req = Inr h \<Longrightarrow>
     ledger_begin db c k now (submitter_of req) h (ru_store s) = (Some r, l) \<Longrightarrow>
     signing_step db c k last_time oldest most s (release req r (s\<lparr>ru_store := l, ru_calls := Suc (ru_calls s)\<rparr>))"
| Signs: "req \<in> set (ru_waiting s) \<Longrightarrow> now \<le> last_time \<Longrightarrow> payload_hash c req = Inr h \<Longrightarrow>
     ledger_finish db c k now (submitter_of req) (timestamp_of req) h answer (ru_store s) = (r, l) \<Longrightarrow>
     signing_step db c k last_time oldest most s (release req r (s\<lparr>ru_store := l, ru_waiting := remove1 req (ru_waiting s)\<rparr>))"

definition same_payload :: "provider_crypto \<Rightarrow> sign_request \<Rightarrow> sign_request \<Rightarrow> bool" where
  "same_payload c r r' \<longleftrightarrow> submitter_of r = submitter_of r' \<and> payload_hash c r = payload_hash c r'"

definition newly_signed :: "provider_crypto \<Rightarrow> sign_request \<Rightarrow> 's signing_run \<Rightarrow> (sign_request \<times> signed_bundle \<times> bool) list" where
  "newly_signed c req s = filter (\<lambda>(r, b, replayed). \<not> replayed \<and> same_payload c r req) (ru_released s)"

section \<open>The contract\<close>

text \<open>
  \<open>kept\<close> is the bundle retained for a submitter and payload. \<open>room n t s\<close>: what \<open>s\<close> holds, and \<open>n\<close> records more,
  outlive the time \<open>t\<close>; a record does when its signed time is at most \<open>retention\<close> before it.
\<close>

definition released_kept :: "(int \<Rightarrow> bytes \<Rightarrow> 's \<Rightarrow> signed_bundle option) \<Rightarrow> provider_crypto \<Rightarrow> signer_key \<Rightarrow> 's \<Rightarrow> sign_request \<times> signed_bundle \<times> bool \<Rightarrow> bool" where
  "released_kept kept c k l = (\<lambda>(r, b, replayed). \<exists>h. payload_hash c r = Inr h \<and> valid_bundle c k h b \<and> kept (submitter_of r) h l = Some b)"

definition run_ok :: "(int \<Rightarrow> bytes \<Rightarrow> 's \<Rightarrow> signed_bundle option) \<Rightarrow> (nat \<Rightarrow> int \<Rightarrow> 's \<Rightarrow> bool) \<Rightarrow> provider_crypto \<Rightarrow> signer_key \<Rightarrow> int \<Rightarrow> int \<Rightarrow> nat
    \<Rightarrow> 's signing_run \<Rightarrow> bool" where
  "run_ok kept room c k t oldest most s \<longleftrightarrow> ru_calls s \<le> most \<and> room (length (ru_waiting s) + (most - ru_calls s)) t (ru_store s)
     \<and> (\<forall>r \<in> set (ru_waiting s). oldest \<le> timestamp_of r) \<and> list_all (released_kept kept c k (ru_store s)) (ru_released s)
     \<and> (\<forall>r. length (newly_signed c r s) \<le> 1)"

lemma released_kept_mono: "list_all (released_kept kept c k l) rs \<Longrightarrow>
    (\<forall>r b i h. (r, b, i) \<in> set rs \<longrightarrow> payload_hash c r = Inr h \<longrightarrow> valid_bundle c k h b \<longrightarrow> kept (submitter_of r) h l = Some b \<longrightarrow>
      kept (submitter_of r) h l' = Some b) \<Longrightarrow> list_all (released_kept kept c k l') rs"
  unfolding list_all_iff released_kept_def by fast

lemma newly_signed_release:
  "newly_signed c r (release req (Inr (b, replayed)) s) = (if \<not> replayed \<and> same_payload c req r then [(req, b, replayed)] else []) @ newly_signed c r s"
  by (simp add: newly_signed_def)

lemma no_release_newly_signed: "\<forall>(r, b, i) \<in> set (ru_released s). \<not> same_payload c r req \<Longrightarrow> newly_signed c req s = []"
  by (auto simp: newly_signed_def filter_empty_conv)

locale replay_store =
  fixes db :: "'s replay_db" and kept :: "int \<Rightarrow> bytes \<Rightarrow> 's \<Rightarrow> signed_bundle option" and room :: "nat \<Rightarrow> int \<Rightarrow> 's \<Rightarrow> bool" and retention :: int
  assumes less_room: "room (Suc n) t s \<Longrightarrow> room n t s"
    and lookup_kept: "room n t s \<Longrightarrow> now \<le> t \<Longrightarrow> rd_lookup db now u h s = (found, s') \<Longrightarrow>
      found = kept u h s \<and> room n t s' \<and> (\<forall>u' h'. kept u' h' s' = kept u' h' s)"
    and record_existing: "room n t s \<Longrightarrow> now \<le> t \<Longrightarrow> kept u h s = Some e \<Longrightarrow> result_matches_identity e (bu_pubkeyX b) (bu_pubkeyY b) \<Longrightarrow>
      rd_record db now u h ts b s = (r, s') \<Longrightarrow> r = (e, False) \<and> room n t s' \<and> (\<forall>u' h'. kept u' h' s' = kept u' h' s)"
    and record_candidate: "room (Suc n) t s \<Longrightarrow> now \<le> t \<Longrightarrow> t - retention \<le> ts \<Longrightarrow>
      (\<forall>e. kept u h s = Some e \<longrightarrow> \<not> result_matches_identity e (bu_pubkeyX b) (bu_pubkeyY b)) \<Longrightarrow>
      rd_record db now u h ts b s = (r, s') \<Longrightarrow>
      r = (b, True) \<and> room n t s' \<and> (\<forall>u' h'. kept u' h' s' = (if u' = u \<and> h' = h then Some b else kept u' h' s))"
begin

text \<open>What a call that ends does: its bundle is the one kept, all others stay; a bundle is new only where none was kept.\<close>

lemma begin_kept:
  assumes "room n t s" "now \<le> t" "ledger_begin db c k now u h s = (r, s')"
  shows "room n t s' \<and> (\<forall>u' h'. kept u' h' s' = kept u' h' s)"
  using assms lookup_kept by (auto simp: ledger_begin_def split: sum.splits prod.splits option.splits if_splits; blast)

lemma begin_released:
  assumes "room n t s" "now \<le> t" "ledger_begin db c k now u h s = (Some (Inr (b, i)), s')"
  shows "i \<and> valid_bundle c k h b \<and> kept u h s' = Some b"
  using assms begin_answer [OF assms(3)] lookup_kept by metis

lemma finish_room:
  assumes "room (Suc n) t s" "now \<le> t" "t - retention \<le> ts" "ledger_finish db c k now u ts h answer s = (r, s')"
  shows "room n t s' \<and> (kept u' h' s = Some b \<and> result_matches_identity b (sk_x k) (sk_y k) \<longrightarrow> kept u' h' s' = Some b)"
proof (cases "sign_payload_hash c k h answer")
  case (Inl e)
  then show ?thesis using assms less_room by (auto simp: ledger_finish_def)
next
  case (Inr cand)
  obtain p where p: "rd_record db now u h ts cand s = (p, s')"
    using assms(4) Inr by (auto simp: ledger_finish_def split: prod.splits)
  have c: "bu_pubkeyX cand = sk_x k" "bu_pubkeyY cand = sk_y k" using candidate_identity [OF Inr] by auto
  show ?thesis
  proof (cases "\<exists>e. kept u h s = Some e \<and> result_matches_identity e (sk_x k) (sk_y k)")
    case True
    then show ?thesis using record_existing [OF less_room [OF assms(1)] assms(2) _ _ p] c by auto
  next
    case False
    then show ?thesis using record_candidate [OF assms(1-3) _ p] c by auto
  qed
qed

lemma finish_released:
  assumes "room (Suc n) t s" "now \<le> t" "t - retention \<le> ts" "ledger_finish db c k now u ts h answer s = (Inr (b, i), s')"
  shows "valid_bundle c k h b \<and> kept u h s' = Some b
    \<and> (\<not> i \<longrightarrow> (\<forall>e. kept u h s = Some e \<longrightarrow> \<not> result_matches_identity e (sk_x k) (sk_y k)))"
proof -
  obtain cand where cand: "sign_payload_hash c k h answer = Inr cand" "rd_record db now u h ts cand s = ((b, \<not> i), s')" "valid_bundle c k h b"
    using finish_answer [OF assms(4)] by metis
  have c: "bu_pubkeyX cand = sk_x k" "bu_pubkeyY cand = sk_y k" using candidate_identity [OF cand(1)] by auto
  show ?thesis
  proof (cases "\<exists>e. kept u h s = Some e \<and> result_matches_identity e (sk_x k) (sk_y k)")
    case True
    then show ?thesis using record_existing [OF less_room [OF assms(1)] assms(2) _ _ cand(2)] c cand(3) by auto
  next
    case False
    then show ?thesis using record_candidate [OF assms(1-3) _ cand(2)] c cand(3) by auto
  qed
qed

text \<open>So a run stays sound.\<close>

lemma valid_identity: "valid_bundle c k h b \<Longrightarrow> result_matches_identity b (sk_x k) (sk_y k)"
  by (simp add: valid_bundle_def result_matches_identity_def)

lemma releases_stay:
  assumes "list_all (released_kept kept c k l) rs"
    "\<And>u h b. kept u h l = Some b \<Longrightarrow> result_matches_identity b (sk_x k) (sk_y k) \<Longrightarrow> kept u h l' = Some b"
  shows "list_all (released_kept kept c k l') rs"
  using assms(1) by (rule released_kept_mono) (use assms(2) valid_identity in blast)

lemma run_ok_start: "room most t l \<Longrightarrow> run_ok kept room c k t oldest most (start_run l)"
  by (simp add: run_ok_def start_run_def newly_signed_def)

lemma unreleased:
  assumes "list_all (released_kept kept c k l) rs" "payload_hash c req = Inr h"
    "\<forall>e. kept (submitter_of req) h l = Some e \<longrightarrow> \<not> result_matches_identity e (sk_x k) (sk_y k)"
  shows "\<forall>(r, b, i) \<in> set rs. \<not> same_payload c r req"
  using assms valid_identity unfolding list_all_iff released_kept_def same_payload_def by fastforce

lemma same_payload_newly: "same_payload c req r \<Longrightarrow> newly_signed c r s = newly_signed c req s"
  by (auto simp: newly_signed_def same_payload_def intro!: filter_cong)

lemma run_ok_replays:
  assumes "run_ok kept room c k t oldest most s" "ru_calls s < most" "now \<le> t" "payload_hash c req = Inr h"
    "ledger_begin db c k now (submitter_of req) h (ru_store s) = (Some r, l)"
  shows "run_ok kept room c k t oldest most (release req r (s\<lparr>ru_store := l, ru_calls := Suc (ru_calls s)\<rparr>))"
proof -
  note ok = assms(1) [unfolded run_ok_def]
  have rm: "room (Suc (length (ru_waiting s) + (most - Suc (ru_calls s)))) t (ru_store s)"
    using ok assms(2) by (simp add: Suc_diff_Suc)
  note b = begin_kept [OF less_room [OF rm] assms(3,5)]
  have st: "list_all (released_kept kept c k l) (ru_released s)" by (rule releases_stay [of _ _ "ru_store s"]) (use ok b in auto)
  show ?thesis
  proof (cases r)
    case (Inl e)
    then show ?thesis using ok b st assms(2) by (simp add: run_ok_def newly_signed_def)
  next
    case (Inr p)
    obtain bu i where p: "p = (bu, i)" by fastforce
    have rel: "i" "valid_bundle c k h bu" "kept (submitter_of req) h l = Some bu"
      using begin_released [OF rm assms(3)] assms(5) Inr p b by metis+
    then have "released_kept kept c k l (req, bu, i)" using assms(4) by (simp add: released_kept_def)
    then show ?thesis using ok b st assms(2) Inr p rel(1) by (simp add: run_ok_def newly_signed_release) (simp add: newly_signed_def)
  qed
qed

lemma run_ok_asks:
  assumes "run_ok kept room c k t oldest most s" "ru_calls s < most" "now \<le> t" "oldest \<le> timestamp_of req"
    "ledger_begin db c k now (submitter_of req) h (ru_store s) = (None, l)"
  shows "run_ok kept room c k t oldest most (s\<lparr>ru_store := l, ru_waiting := req # ru_waiting s, ru_calls := Suc (ru_calls s)\<rparr>)"
proof -
  note ok = assms(1) [unfolded run_ok_def]
  have rm: "room (length (ru_waiting s) + (most - ru_calls s)) t (ru_store s)" using ok by blast
  note b = begin_kept [OF rm assms(3,5)]
  have st: "list_all (released_kept kept c k l) (ru_released s)"
    by (rule releases_stay [of _ _ "ru_store s"]) (use ok b in auto)
  then show ?thesis using ok b assms(2,4) by (simp add: run_ok_def newly_signed_def Suc_diff_Suc)
qed

lemma run_ok_signs:
  assumes "run_ok kept room c k t (t - retention) most s" "req \<in> set (ru_waiting s)" "now \<le> t" "payload_hash c req = Inr h"
    "ledger_finish db c k now (submitter_of req) (timestamp_of req) h answer (ru_store s) = (r, l)"
  shows "run_ok kept room c k t (t - retention) most (release req r (s\<lparr>ru_store := l, ru_waiting := remove1 req (ru_waiting s)\<rparr>))"
proof -
  note ok = assms(1) [unfolded run_ok_def]
  have w: "length (ru_waiting s) = Suc (length (remove1 req (ru_waiting s)))"
    using assms(2) length_pos_if_in_set [OF assms(2)] by (simp add: length_remove1 del: length_greater_0_conv)
  have ts: "t - retention \<le> timestamp_of req" using ok assms(2) by blast
  have rm: "room (Suc (length (remove1 req (ru_waiting s)) + (most - ru_calls s))) t (ru_store s)"
    using conjunct1 [OF conjunct2 [OF ok]] unfolding w by (simp only: add_Suc)
  have b: "room (length (remove1 req (ru_waiting s)) + (most - ru_calls s)) t l" using finish_room [OF rm assms(3) ts assms(5)] by blast
  have st: "list_all (released_kept kept c k l) (ru_released s)"
    by (rule releases_stay [of _ _ "ru_store s"]) (use ok finish_room [OF rm assms(3) ts assms(5)] in auto)
  have wait: "\<forall>r \<in> set (remove1 req (ru_waiting s)). t - retention \<le> timestamp_of r" using ok set_remove1_subset by fastforce
  show ?thesis
  proof (cases r)
    case (Inl e)
    then show ?thesis using ok b st wait by (simp add: run_ok_def newly_signed_def)
  next
    case (Inr p)
    obtain bu i where p: "p = (bu, i)" by fastforce
    note rel = finish_released [OF rm assms(3) ts assms(5) [unfolded Inr p]]
    then have "released_kept kept c k l (req, bu, i)" using assms(4) by (simp add: released_kept_def)
    moreover have "newly_signed c r s = []" if "\<not> i" "same_payload c req r" for r
      using unreleased [of c k "ru_store s" "ru_released s" req h] assms(4) ok rel that no_release_newly_signed [of s c req]
        same_payload_newly [OF that(2), of s] by simp
    ultimately show ?thesis using ok b st wait Inr p by (simp add: run_ok_def newly_signed_release) (simp add: newly_signed_def)
  qed
qed

lemma run_ok_step: "signing_step db c k t (t - retention) most s s' \<Longrightarrow> run_ok kept room c k t (t - retention) most s \<Longrightarrow>
    run_ok kept room c k t (t - retention) most s'"
  by (induction rule: signing_step.cases) (simp_all add: run_ok_asks run_ok_replays run_ok_signs)

lemma run_ok_run: "(signing_step db c k t (t - retention) most)\<^sup>*\<^sup>* s s' \<Longrightarrow> run_ok kept room c k t (t - retention) most s \<Longrightarrow>
    run_ok kept room c k t (t - retention) most s'"
  by (induction rule: rtranclp_induct) (auto intro: run_ok_step)

lemma run_releases:
  assumes "(signing_step db c k t (t - retention) most)\<^sup>*\<^sup>* (start_run l) s" "room most t l" "(r, b, i) \<in> set (ru_released s)"
  shows "(\<exists>h. payload_hash c r = Inr h \<and> valid_bundle c k h b) \<and> length (newly_signed c r s) \<le> 1
    \<and> (\<forall>r' b' i'. (r', b', i') \<in> set (ru_released s) \<longrightarrow> same_payload c r r' \<longrightarrow> b' = b)"
proof -
  note ok = run_ok_run [OF assms(1) run_ok_start [OF assms(2)], unfolded run_ok_def]
  then have rel: "list_all (released_kept kept c k (ru_store s)) (ru_released s)" by blast
  show ?thesis using ok rel assms(3) unfolding list_all_iff released_kept_def same_payload_def by fastforce
qed

end

section \<open>The ledger in memory\<close>

definition stored :: "int \<Rightarrow> bytes \<Rightarrow> ledger \<Rightarrow> signed_bundle option" where
  "stored u h l = map_option snd (map_of (ld_entries l) (key_for u h))"

definition ledger_room :: "int \<Rightarrow> nat \<Rightarrow> int \<Rightarrow> ledger \<Rightarrow> bool" where
  "ledger_room retention n t l \<longleftrightarrow> ld_retention l = retention \<and> int (length (ld_entries l) + n) \<le> ld_maxEntries l
     \<and> (\<forall>e \<in> set (ld_entries l). t - retention \<le> fst (snd e))"

lemma evict_nothing: "ledger_room w n t l \<Longrightarrow> now \<le> t \<Longrightarrow> evict_expired now l = l"
  unfolding ledger_room_def evict_expired_def by (intro ledger.equality) (fastforce intro: filter_True)+

lemma drop_nothing: "length xs \<le> m \<Longrightarrow> drop_oldest m xs = xs"
  by (cases xs) auto

lemma map_of_replace: "map_of (filter (\<lambda>e. fst e \<noteq> k) xs @ [(k, v)]) = (map_of xs)(k \<mapsto> v)"
proof -
  have "map_of (filter (\<lambda>e. fst e \<noteq> k) xs) = (map_of xs)(k := None)" by (induction xs) auto
  then show ?thesis by (simp add: map_add_def fun_eq_iff split: option.split)
qed

interpretation memory: replay_store memory_replay_db stored "ledger_room w" w for w
proof unfold_locales
  show "ledger_room w (Suc n) t s \<Longrightarrow> ledger_room w n t s" for n t s by (simp add: ledger_room_def)
next
  show "ledger_room w n t s \<Longrightarrow> now \<le> t \<Longrightarrow> rd_lookup memory_replay_db now u h s = (found, s') \<Longrightarrow>
      found = stored u h s \<and> ledger_room w n t s' \<and> (\<forall>u' h'. stored u' h' s' = stored u' h' s)" for n t s now u h found s'
    using evict_nothing [of w n t s now] by (auto simp: memory_replay_db_def ledger_lookup_def stored_def Let_def)
next
  show "r = (e, False) \<and> ledger_room w n t s' \<and> (\<forall>u' h'. stored u' h' s' = stored u' h' s)"
    if "ledger_room w n t s" "now \<le> t" "stored u h s = Some e" "result_matches_identity e (bu_pubkeyX b) (bu_pubkeyY b)"
      "rd_record memory_replay_db now u h ts b s = (r, s')" for n t s now u h e b ts r s'
    using that evict_nothing [OF that(1,2)] by (auto simp: memory_replay_db_def record_canonical_def stored_def Let_def)
next
  show "r = (b, True) \<and> ledger_room w n t s' \<and> (\<forall>u' h'. stored u' h' s' = (if u' = u \<and> h' = h then Some b else stored u' h' s))"
    if "ledger_room w (Suc n) t s" "now \<le> t" "t - w \<le> ts" "\<forall>e. stored u h s = Some e \<longrightarrow> \<not> result_matches_identity e (bu_pubkeyX b) (bu_pubkeyY b)"
      "rd_record memory_replay_db now u h ts b s = (r, s')" for n t s now u h b ts r s'
  proof -
    let ?es = "filter (\<lambda>e. fst e \<noteq> key_for u h) (ld_entries s) @ [(key_for u h, (ts, b))]"
    have len: "length (filter (\<lambda>e. fst e \<noteq> key_for u h) (ld_entries s)) \<le> length (ld_entries s)" by (rule length_filter_le)
    have d: "drop_oldest (nat (ld_maxEntries s)) ?es = ?es" by (rule drop_nothing) (use len that(1) in \<open>simp add: ledger_room_def; linarith\<close>)
    have e: "r = (b, True) \<and> s' = s\<lparr>ld_entries := ?es\<rparr>"
      using that(4,5) evict_nothing [OF that(1,2)] by (auto simp: memory_replay_db_def record_canonical_def stored_def Let_def d split: option.splits)
    have "ledger_room w n t (s\<lparr>ld_entries := ?es\<rparr>)" using that(1,3) len by (simp add: ledger_room_def) (use len in linarith)
    moreover have "stored u' h' (s\<lparr>ld_entries := ?es\<rparr>) = (if u' = u \<and> h' = h then Some b else stored u' h' s)" for u' h'
      using map_of_replace [of "key_for u h" "ld_entries s" "(ts, b)"] by (simp add: stored_def key_injective del: map_of_append)
    ultimately show ?thesis using e by simp
  qed
qed

text \<open>
  C19. One bundle per payload. However calls interleave while the signer is awaited, and whatever it answers each of
  them: in a run of at most as many calls as the ledger holds, with requests no older than its retention before the
  last clock reading, all releases for one submitter and payload are one bundle, byte for byte, at most one of
  them is reported as newly signed, and each verifies for its request under the daemon's key.
\<close>

theorem one_bundle_per_payload:
  assumes "new_ledger keep largest = Some l"
    "(signing_step memory_replay_db c k t (t - ld_retention l) (nat (ld_maxEntries l)))\<^sup>*\<^sup>* (start_run l) s" "(r, b, i) \<in> set (ru_released s)"
  shows "(\<exists>h. payload_hash c r = Inr h \<and> valid_bundle c k h b) \<and> length (newly_signed c r s) \<le> 1
    \<and> (\<forall>r' b' i'. (r', b', i') \<in> set (ru_released s) \<longrightarrow> same_payload c r r' \<longrightarrow> b' = b)"
proof -
  have "ledger_room (ld_retention l) (nat (ld_maxEntries l)) t l"
    using assms(1) by (auto simp: new_ledger_def ledger_room_def split: jsnum.splits if_splits)
  then show ?thesis using assms(2,3) by (intro memory.run_releases)
qed

end
