(* ===== verification/DaemonSafe.thy ===== *)
theory DaemonSafe
  imports Daemon ReplayLedger
begin

text \<open>
  What the signing daemon releases, to any request and over any \<open>ReplayDb\<close>: a request inside its policy, a
  signature that verifies over that request's payload, and an audit record accepted before it.
\<close>

section \<open>What parsing and policy leave\<close>

definition signal_slots_ok :: "bool \<Rightarrow> signal_fields \<Rightarrow> bool" where
  "signal_slots_ok contiguous f \<longleftrightarrow> length (sf_signals f) = 8 \<and> length (sf_weights f) = 8
     \<and> (\<forall>s \<in> set (sf_signals f). 0 \<le> s \<and> s \<le> 100) \<and> (\<forall>w \<in> set (sf_weights f). 0 \<le> w \<and> w \<le> 10000)
     \<and> (\<exists>w \<in> set (sf_weights f). 0 < w) \<and> (\<forall>i < 8. sf_weights f ! i = 0 \<longrightarrow> sf_signals f ! i = 0)
     \<and> (contiguous \<longrightarrow> (\<forall>i < 8. 0 < sf_weights f ! i \<longrightarrow> (\<forall>j < i. 0 < sf_weights f ! j)))"

definition signal_policy_ok :: "signing_policy \<Rightarrow> int \<Rightarrow> signal_fields \<Rightarrow> bool" where
  "signal_policy_ok p now f \<longleftrightarrow> sf_chainId f = sp_chainId p \<and> sf_oracleAddress f = sp_oracleAddress p
     \<and> now - sp_maxTimestampAgeSeconds p \<le> sf_timestamp f \<and> sf_timestamp f \<le> now + sp_maxTimestampSkewSeconds p"

lemma not_space_hex: "is_hex_digit c \<Longrightarrow> \<not> is_space c"
  by (auto simp: is_hex_digit_def is_digit_def is_space_def)

lemma big_int_hex:
  assumes "starts_with s ''0x'' \<or> starts_with s ''0X''" "digits_in is_hex_digit (drop 2 s)"
  shows "big_int s = Some (int (digits_val 16 (drop 2 s)))"
proof -
  have d: "list_all is_hex_digit (drop 2 s)" using assms(2) by (simp add: digits_in_def)
  obtain x where x: "s = CHR ''0'' # x # drop 2 s" "x = CHR ''x'' \<or> x = CHR ''X''"
    using assms(1) by (cases s; cases "tl s") (auto simp: starts_with_def)
  have "list_all (\<lambda>c. \<not> is_space c) (CHR ''0'' # x # drop 2 s)"
    using d x(2) not_space_hex by (auto simp: list_all_iff is_space_def code_def)
  then have "trim s = s" using trim_no_space x(1) by metis
  then show ?thesis using assms x by (auto simp: big_int_def Let_def)
qed

lemma as_bigint_nonneg: "as_bigint v = Inr n \<Longrightarrow> 0 \<le> n"
  by (auto simp: as_bigint_def plain_hex_or_decimal_def big_int_hex big_int_digits split: jsval.splits jsnum.splits if_splits)

lemma as_number_bounds: "as_number v most = Inr n \<Longrightarrow> 0 \<le> n \<and> n \<le> most"
  by (auto simp: as_number_def then_check_Inr as_bigint_nonneg split: if_splits)

lemma each_map: "each (map f xs) = Inr ys \<longleftrightarrow> list_all2 (\<lambda>x y. f x = Inr y) xs ys"
  by (induction xs arbitrary: ys) (auto simp: then_check_Inr list_all2_Cons1)

lemma each_bounds: "each (map (\<lambda>v. as_number v most) vs) = Inr ns \<Longrightarrow> length ns = length vs \<and> (\<forall>n \<in> set ns. 0 \<le> n \<and> n \<le> most)"
  using as_number_bounds by (fastforce simp: each_map list_all2_conv_all_nth in_set_conv_nth)

lemma require_Inr [simp]: "require ok = Inr u \<longleftrightarrow> ok"
  by (auto simp: require_def)

lemma eight_Inr: "eight v = Inr vs \<longleftrightarrow> v = VArr vs \<and> length vs = 8"
  by (auto simp: eight_def split: jsval.splits if_splits)

lemma gap_free_prefix:
  assumes "gap_free ws" "i < length ws" "0 < ws ! i" "j < i"
  shows "0 < (ws ! j :: int)"
  using assms(4)
proof (induction rule: strict_inc_induct)
  case (base j)
  then show ?case using assms by (auto simp: gap_free_def list_all2_conv_all_nth nth_butlast nth_tl)
next
  case (step j)
  then have "Suc j < length ws" "j < length (butlast ws)" using assms(2) by auto
  then show ?case using assms(1) step by (auto simp: gap_free_def list_all2_conv_all_nth nth_butlast nth_tl)
qed

lemma parsed_fields:
  assumes "parse_signal_fields raw contiguous = Inr f"
  shows "signal_slots_ok contiguous f \<and> sf_submitter f \<noteq> 0 \<and> 0 \<le> sf_submitter f \<and> 0 \<le> sf_timestamp f"
proof -
  obtain ss ws signals weights submitter chain orc pset stamp where p: "length ss = 8" "length ws = 8"
      "each (map (\<lambda>s. as_number s 100) ss) = Inr signals" "each (map (\<lambda>w. as_number w 10000) ws) = Inr weights"
      "list_ex (\<lambda>w. w > 0) weights" "silent_slots signals weights" "\<not> contiguous \<or> gap_free weights"
      "big_address submitter \<noteq> 0" "as_bigint stamp = Inr (sf_timestamp f)"
      "f = \<lparr>sf_chainId = chain, sf_oracleAddress = orc, sf_providerSetHash = pset, sf_signals = signals, sf_weights = weights,
         sf_timestamp = sf_timestamp f, sf_submitter = big_address submitter\<rparr>"
    using assms unfolding parse_signal_fields_def then_check_Inr require_Inr eight_Inr by fastforce
  note bs = each_bounds [OF p(3)] each_bounds [OF p(4)]
  have f: "sf_signals f = signals" "sf_weights f = weights" "sf_submitter f = big_address submitter" by (subst p(10); simp)+
  have "\<forall>i < 8. weights ! i = 0 \<longrightarrow> signals ! i = 0" using p(6) bs p(1,2) by (auto simp: silent_slots_def list_all2_conv_all_nth)
  moreover have "contiguous \<longrightarrow> (\<forall>i < 8. 0 < weights ! i \<longrightarrow> (\<forall>j < i. 0 < weights ! j))"
    using p(7) gap_free_prefix [of weights] bs p(2) by auto
  ultimately have "signal_slots_ok contiguous f" using bs p(1,2,5) by (auto simp: signal_slots_ok_def f list_ex_iff)
  then show ?thesis using p(8) as_bigint_nonneg [OF p(9)] by (simp add: f big_address_def)
qed

lemma enforced_fields: "enforce_signal_policy p now f = Inr u \<Longrightarrow> signal_policy_ok p now f"
  by (auto simp: enforce_signal_policy_def enforce_deployment_def signal_policy_ok_def then_check_Inr split: if_splits)

section \<open>Released signatures\<close>

text \<open>The record of a bundle released for a request, and what releasing it means.\<close>

definition release_event :: "audit_route \<Rightarrow> bool \<Rightarrow> string \<Rightarrow> sign_request \<Rightarrow> signed_bundle \<Rightarrow> audit_event" where
  "release_event route replayed source req b = (sign_event route (if replayed then AuditReplayed else AuditSigned) source)\<lparr>
     ae_submitter := Some (''0x'' @ pad40 (show_hex (nat (submitter_of req)))), ae_payloadHash := Some (bytes_to_hex (bu_payloadHash b)),
     ae_signerPubkeyHash := Some (bytes_to_hex (bu_signerPubkeyHash b))\<rparr>"

definition released_verified :: "provider_crypto \<Rightarrow> signer_key \<Rightarrow> (audit_event \<Rightarrow> bool) \<Rightarrow> audit_route \<Rightarrow> string \<Rightarrow> sign_request
    \<Rightarrow> sign_response \<Rightarrow> 's daemon \<Rightarrow> 's daemon \<Rightarrow> bool" where
  "released_verified c k sink route source req response d d' \<longleftrightarrow> (\<exists>h b replayed. payload_hash c req = Inr h \<and> valid_bundle c k h b
     \<and> response = sign_response_of b \<and> sink (release_event route replayed source req b)
     \<and> dm_audit d' = release_event route replayed source req b # dm_audit d)"

lemma sign_through_valid:
  "sign_with_replay_protection db c k clocks req answer l = (Inr (b, replayed), l') \<Longrightarrow> \<exists>h. payload_hash c req = Inr h \<and> valid_bundle c k h b"
  by (auto simp: sign_with_replay_protection_def sign_through_ledger_def split: sum.splits prod.splits option.splits
      dest: begin_answer elim!: finish_answer)

lemma audited_release: "audited sink ev r d = (Inr response, d') \<Longrightarrow> sink ev \<and> r = Inr response \<and> d' = d\<lparr>dm_audit := ev # dm_audit d\<rparr>"
  by (auto simp: audited_def split: if_splits)

lemma signal_route_release:
  assumes "handle_signal_route db c k p sink clocks answer route parse body source d = (Inr response, d')"
  obtains req where "parse body = Inr req" "signal_policy_ok p (fst clocks) (fields_of req)" "released_verified c k sink route source req response d d'"
proof -
  obtain req u where req: "parse body = Inr req" "enforce_signal_policy p (fst clocks) (fields_of req) = Inr u"
    using assms by (auto simp: handle_signal_route_def then_check_Inr split: sum.splits dest!: audited_release)
  obtain r l where r: "sign_with_replay_protection db c k (snd clocks) req answer (dm_ledger d) = (r, l)" by fastforce
  obtain b i where b: "r = Inr (b, i)" using assms by (auto simp: handle_signal_route_def req r Let_def split: sum.splits dest!: audited_release)
  obtain h where h: "payload_hash c req = Inr h" "valid_bundle c k h b" using sign_through_valid r b by metis
  have "audited sink (release_event route i source req b) (Inr (sign_response_of b)) (d\<lparr>dm_ledger := l\<rparr>) = (Inr response, d')"
    using assms by (simp add: handle_signal_route_def req r b Let_def release_event_def submitter_of_def sign_response_of_def)
  then have "released_verified c k sink route source req response d d'"
    unfolding released_verified_def using h by (intro exI [of _ h] exI [of _ b] exI [of _ i]) (auto dest!: audited_release)
  then show thesis using that req(1) enforced_fields [OF req(2)] by blast
qed

lemma parsed_sign: "parse_sign_body body = Inr req \<Longrightarrow> \<exists>t f. req = SignSignals t f \<and> (t = 7 \<or> t = 8) \<and> signal_slots_ok True f \<and> 0 < sf_submitter f"
  using parsed_fields by (fastforce simp: parse_sign_body_def then_check_Inr Let_def split: if_splits)

lemma parsed_multi: "parse_sign_multi_body body = Inr req \<Longrightarrow>
    \<exists>i j g f. req = SignSlot i j g f \<and> 0 \<le> i \<and> i < 5 \<and> 0 \<le> j \<and> j \<le> 4 \<and> signal_slots_ok False f \<and> 0 < sf_submitter f"
  using parsed_fields as_number_bounds by (fastforce simp: parse_sign_multi_body_def then_check_Inr MAX_PROVIDERS_MULTI_def)

section \<open>Released roots\<close>

definition root_policy_ok :: "signing_policy \<Rightarrow> int \<Rightarrow> root_request \<Rightarrow> bool" where
  "root_policy_ok p now r \<longleftrightarrow> rr_chainId r = sp_chainId p \<and> big_address (rr_oracleAddress r) = sp_oracleAddress p
     \<and> (sp_providerId p \<noteq> None \<longrightarrow> sp_providerId p = Some (rr_providerId r)) \<and> rr_notBefore r \<le> rr_notAfter r \<and> now < rr_notAfter r
     \<and> rr_notAfter r \<le> now + sp_credentialRootMaxValiditySeconds p \<and> 0 \<le> rr_notBefore r \<and> rr_notAfter r \<le> U64_MAX"

definition recovers :: "provider_crypto \<Rightarrow> signer_key \<Rightarrow> bytes \<Rightarrow> bytes \<Rightarrow> bool" where
  "recovers c k digest sig65 \<longleftrightarrow> (\<exists>sig v. sig65 = sig @ [char_of (27 + v)] \<and> v \<le> (1::nat) \<and> length sig = 64 \<and> \<not> pc_high_s c sig
     \<and> pc_verify c sig digest (uncompressed_public_key k)
     \<and> (\<exists>r. pc_recover c sig v digest = Some r \<and> take (length r) (uncompressed_public_key k) = r))"

lemma validated_signature:
  assumes "validated_sign_digest c k digest answer = Inr (sig, v)"
  shows "recovers c k digest (sig @ [char_of (27 + v)])"
proof -
  define P where "P = (\<lambda>sig v. case pc_recover c sig v digest of None \<Rightarrow> False | Some r \<Rightarrow> take (length r) (uncompressed_public_key k) = r)"
  obtain s where s: "answer = Some s"
    using assms by (cases answer) (simp_all add: validated_sign_digest_def then_check_Inr)
  have f: "find (P sig) [0, 1] = Some v" "length sig = 64" "\<not> pc_high_s c sig" "pc_verify c sig digest (uncompressed_public_key k)"
  proof -
    have "(case find (P s) [0, 1] of None \<Rightarrow> Inl NoRecovery | Some v \<Rightarrow> Inr (s, v)) = (Inr (sig, v) :: provider_error + (bytes \<times> nat))"
      and "length s = 64" "\<not> pc_high_s c s" "pc_verify c s digest (uncompressed_public_key k)"
      using assms unfolding validated_sign_digest_def s then_check_Inr check_all_Inr P_def [symmetric] option.case
      by (simp_all add: P_def del: find.simps)
    then show "find (P sig) [0, 1] = Some v" "length sig = 64" "\<not> pc_high_s c sig" "pc_verify c sig digest (uncompressed_public_key k)"
      by (auto simp del: find.simps split: option.splits)
  qed
  have v: "P sig v \<and> v \<le> 1" using f(1) by (auto split: if_splits)
  have "\<exists>r. pc_recover c sig v digest = Some r \<and> take (length r) (uncompressed_public_key k) = r"
    using v by (auto simp: P_def split: option.splits)
  then show ?thesis unfolding recovers_def using v f(2-4) by blast
qed

definition root_event :: "string \<Rightarrow> root_request \<Rightarrow> root_response \<Rightarrow> audit_event" where
  "root_event source req response = (sign_event CredentialRootRoute AuditSigned source)\<lparr>ae_payloadHash := Some (ro_digest response),
     ae_signer := Some (ro_signer response), ae_credentialRoot := Some req\<rparr>"

lemma enforced_root: "parse_sign_credential_root_body body = Inr r \<Longrightarrow> enforce_credential_root_policy p now r = Inr u \<Longrightarrow> root_policy_ok p now r"
  by (auto simp: parse_sign_credential_root_body_def enforce_credential_root_policy_def enforce_deployment_def root_policy_ok_def then_check_Inr
      as_bigint_nonneg split: if_splits)

text \<open>A digest of 32 bytes goes through the field encoding unchanged.\<close>

lemma bytes_value_bounds: "0 \<le> bytes_value zs \<and> bytes_value zs < 256 ^ length zs"
proof (induction zs)
  case (Cons z zs)
  have "code z < 256" by (simp add: code_def)
  then have "int (code z) \<le> 255" by simp
  then have "int (code z) * 256 ^ length zs \<le> 255 * 256 ^ length zs" by (rule mult_right_mono) simp
  moreover have "0 \<le> int (code z) * 256 ^ length zs" by simp
  ultimately have "0 \<le> int (code z) * 256 ^ length zs + bytes_value zs \<and> int (code z) * 256 ^ length zs + bytes_value zs < 256 * 256 ^ length zs"
    using Cons by linarith
  then show ?case by (simp only: bytes_value_cons length_Cons power_Suc)
qed simp

lemma bytes_value_inject: "length a = length b \<Longrightarrow> bytes_value a = bytes_value b \<longleftrightarrow> a = b"
proof (induction a b rule: list_induct2)
  case (Cons x xs y ys)
  have "code x = code y" if e: "int (code x) * 256 ^ length xs + bytes_value xs = int (code y) * 256 ^ length xs + bytes_value ys"
  proof -
    have "int (code x) = (int (code x) * 256 ^ length xs + bytes_value xs) div 256 ^ length xs" using bytes_value_bounds [of xs] by simp
    also have "\<dots> = int (code y)" unfolding e using bytes_value_bounds [of ys] Cons.hyps by simp
    finally show ?thesis by simp
  qed
  then show ?case using Cons by (auto simp: bytes_value_cons code_inject)
qed simp

lemma field_total: "0 \<le> v \<Longrightarrow> v < 2 ^ 256 \<Longrightarrow> \<exists>bs. field_to_bytes v = Inr bs"
proof -
  assume v: "0 \<le> v" "v < 2 ^ 256"
  obtain out rest where l: "field_loop 32 v [] = (out, rest)" by fastforce
  have "rest = 0" using field_loop_value [OF v(1) l] v by (simp add: div_pos_pos_trivial)
  then show ?thesis using v l by (simp add: field_to_bytes_def)
qed

lemma bytes_field: "length bs = 32 \<Longrightarrow> field_to_bytes (bytes_value bs) = Inr bs"
proof -
  assume l: "length bs = 32"
  then have "bytes_value bs < 2 ^ 256" using bytes_value_bounds [of bs] by simp
  then obtain out where "field_to_bytes (bytes_value bs) = Inr out" using field_total bytes_value_bounds [of bs] by blast
  then show ?thesis using field_bytes bytes_value_inject [of out bs] l by metis
qed

text \<open>
  Fields round trip. A value of at most 256 bits encodes to 32 bytes that decode to it, 32 bytes decode to a value
  that encodes to them, and every other value is refused.
\<close>

lemma field_roundtrip:
  "(if 0 \<le> v \<and> v < 2 ^ 256 then \<exists>out. field_to_bytes v = Inr out \<and> bytes_to_bigint out = Inr v else isl (field_to_bytes v))
   \<and> (if length bs = 32 then \<exists>w. bytes_to_bigint bs = Inr w \<and> field_to_bytes w = Inr bs else isl (bytes_to_bigint bs))"
proof (intro conjI)
  show "if 0 \<le> v \<and> v < 2 ^ 256 then \<exists>out. field_to_bytes v = Inr out \<and> bytes_to_bigint out = Inr v else isl (field_to_bytes v)"
  proof (cases "field_to_bytes v")
    case (Inl e)
    then show ?thesis using field_total [of v] by auto
  next
    case (Inr out)
    then show ?thesis using field_bytes [OF Inr] by (simp add: bytes_to_bigint_def)
  qed
  show "if length bs = 32 then \<exists>w. bytes_to_bigint bs = Inr w \<and> field_to_bytes w = Inr bs else isl (bytes_to_bigint bs)"
    using bytes_field by (simp add: bytes_to_bigint_def)
qed

text \<open>
  C20. What \<open>/sign\<close> and \<open>/sign-multi\<close> release. Over any database, honest or not, and whatever the signer answers, a
  200 means: the body parsed to a request with well-formed slots (active slots a prefix on \<open>/sign\<close>), for the pinned
  chain and Oracle, with a timestamp in the window and a submitter; the bundle is a low-S signature of that
  request's payload hash that verifies under this daemon's key, with the right commitment; and the audit sink has
  accepted the record that names payload and submitter.
\<close>

theorem released_signature_is_scoped:
  "(handle_sign db c k p sink clocks answer body source d = (Inr response, d') \<longrightarrow> (\<exists>t f. parse_sign_body body = Inr (SignSignals t f)
     \<and> (t = 7 \<or> t = 8) \<and> signal_slots_ok True f \<and> 0 < sf_submitter f \<and> signal_policy_ok p (fst clocks) f
     \<and> released_verified c k sink SignRoute source (SignSignals t f) response d d'))
   \<and> (handle_sign_multi db c k p sink clocks answer body source d = (Inr response, d') \<longrightarrow> (\<exists>i j g f. parse_sign_multi_body body = Inr (SignSlot i j g f)
     \<and> 0 \<le> i \<and> i < 5 \<and> 0 \<le> j \<and> j \<le> 4 \<and> signal_slots_ok False f \<and> 0 < sf_submitter f \<and> signal_policy_ok p (fst clocks) f
     \<and> released_verified c k sink SignMultiRoute source (SignSlot i j g f) response d d'))"
proof (intro conjI impI)
  assume "handle_sign db c k p sink clocks answer body source d = (Inr response, d')"
  then obtain req where r: "parse_sign_body body = Inr req" "signal_policy_ok p (fst clocks) (fields_of req)"
      "released_verified c k sink SignRoute source req response d d'"
    unfolding handle_sign_def by (rule signal_route_release)
  then show "\<exists>t f. parse_sign_body body = Inr (SignSignals t f) \<and> (t = 7 \<or> t = 8) \<and> signal_slots_ok True f \<and> 0 < sf_submitter f
     \<and> signal_policy_ok p (fst clocks) f \<and> released_verified c k sink SignRoute source (SignSignals t f) response d d'"
    using parsed_sign [OF r(1)] by auto
next
  assume "handle_sign_multi db c k p sink clocks answer body source d = (Inr response, d')"
  then obtain req where r: "parse_sign_multi_body body = Inr req" "signal_policy_ok p (fst clocks) (fields_of req)"
      "released_verified c k sink SignMultiRoute source req response d d'"
    unfolding handle_sign_multi_def by (rule signal_route_release)
  then show "\<exists>i j g f. parse_sign_multi_body body = Inr (SignSlot i j g f) \<and> 0 \<le> i \<and> i < 5 \<and> 0 \<le> j \<and> j \<le> 4 \<and> signal_slots_ok False f \<and> 0 < sf_submitter f
     \<and> signal_policy_ok p (fst clocks) f \<and> released_verified c k sink SignMultiRoute source (SignSlot i j g f) response d d'"
    using parsed_multi [OF r(1)] by auto
qed

text \<open>
  C21. What \<open>/sign-credential-root\<close> releases: a signature of the EIP-712 digest of the parsed publication, recoverable
  to this daemon's key, for the pinned chain, Oracle and provider, a window that has not ended and ends within the longest
  validity, and an accepted record. The ledger is not touched.
\<close>

theorem released_root_is_scoped:
  assumes "handle_sign_credential_root c k p sink now answer body source d = (Inr response, d')"
  shows "\<exists>req raw digest sig65. parse_sign_credential_root_body body = Inr req \<and> root_policy_ok p now req
    \<and> credential_root_digest c req = Some raw \<and> length digest = 32 \<and> bytes_value digest = bytes_value raw \<and> recovers c k digest sig65
    \<and> response = \<lparr>ro_signature = bytes_to_hex sig65, ro_digest = bytes_to_hex digest, ro_signer = ethereum_address_from_pubkey c k\<rparr>
    \<and> sink (root_event source req response) \<and> d' = d\<lparr>dm_audit := root_event source req response # dm_audit d\<rparr>"
proof -
  obtain req u where r: "parse_sign_credential_root_body body = Inr req" "enforce_credential_root_policy p now req = Inr u"
    using assms by (auto simp: handle_sign_credential_root_def Let_def split: sum.splits dest!: audited_release)
  obtain res where res: "sign_credential_root c k req answer = Inr res"
    using assms by (auto simp: handle_sign_credential_root_def Let_def r split: sum.splits dest!: audited_release)
  obtain raw digest sig v where s: "credential_root_digest c req = Some raw" "field_to_bytes (bytes_value raw) = Inr digest"
      "validated_sign_digest c k digest answer = Inr (sig, v)"
      "res = \<lparr>rt_signature = sig @ [char_of (27 + v)], rt_digest = digest, rt_signer = ethereum_address_from_pubkey c k\<rparr>"
    using res by (auto simp: sign_credential_root_def split: option.splits)
  have "audited sink (root_event source req \<lparr>ro_signature = bytes_to_hex (rt_signature res), ro_digest = bytes_to_hex digest, ro_signer = rt_signer res\<rparr>)
      (Inr \<lparr>ro_signature = bytes_to_hex (rt_signature res), ro_digest = bytes_to_hex digest, ro_signer = rt_signer res\<rparr>) d = (Inr response, d')"
    using assms by (simp add: handle_sign_credential_root_def Let_def r res s(4) root_event_def)
  note a = audited_release [OF this]
  show ?thesis
    using r(1) enforced_root [OF r] s(1) field_bytes [OF s(2)] validated_signature [OF s(3)] a s(4) by auto
qed

text \<open>One record the sink accepted, a rejection iff the answer is an error; or none, and \<open>AUDIT_FAILED\<close>.\<close>

definition audited_once :: "(audit_event \<Rightarrow> bool) \<Rightarrow> 'a handler_result \<times> 's daemon \<Rightarrow> 's daemon \<Rightarrow> bool" where
  "audited_once sink out d \<longleftrightarrow> (fst out = Inl (500, ''AUDIT_FAILED'') \<and> dm_audit (snd out) = dm_audit d)
     \<or> (\<exists>ev. sink ev \<and> dm_audit (snd out) = ev # dm_audit d \<and> (ae_outcome ev = AuditRejected \<longleftrightarrow> isl (fst out)))"

lemma audited_audits: "dm_audit e = dm_audit d \<Longrightarrow> (ae_outcome ev = AuditRejected \<longleftrightarrow> isl r) \<Longrightarrow> audited_once sink (audited sink ev r e) d"
  by (auto simp: audited_once_def audited_def)

lemma signal_route_audits: "audited_once sink (handle_signal_route db c k p sink clocks answer route parse body source d) d"
  by (auto simp: handle_signal_route_def Let_def sign_event_def intro!: audited_audits split: sum.splits prod.splits)

lemma sign_audits: "audited_once sink (handle_sign db c k p sink clocks answer body source d) d"
  by (simp add: handle_sign_def signal_route_audits)

lemma multi_audits: "audited_once sink (handle_sign_multi db c k p sink clocks answer body source d) d"
  by (simp add: handle_sign_multi_def signal_route_audits)

lemma root_audits: "audited_once sink (handle_sign_credential_root c k p sink now answer body source d) d"
  by (auto simp: handle_sign_credential_root_def Let_def sign_event_def intro!: audited_audits split: sum.splits prod.splits)

end
