(* ===== verification/ServerSafe.thy ===== *)
theory ServerSafe
  imports Server DaemonSafe
begin

text \<open>
  The daemon as it is reached: every authenticated request to a signing route is audited, nothing else moves its
  state, and no credential reaches both kinds of signature.
\<close>

section \<open>What a credential reaches\<close>

lemma separated_scopes:
  assumes "assert_credential_separation cfg = Inr ()"
  shows "\<not> (Signals \<in> set (scopes_for cred cfg) \<and> CredentialRoot \<in> set (scopes_for cred cfg))"
  using assms by (auto simp: scopes_for_def assert_credential_separation_def split: credential.splits option.splits if_splits)

lemma map_served_fst: "fst (map_served f out) = Inr x \<longleftrightarrow> (\<exists>r. fst out = Inr r \<and> x = f r)"
  by (cases "fst out") (auto simp: map_served_def)

lemma audited_refusal: "fst (audited sink ev (Inl e) d) \<noteq> Inr x"
  by (simp add: audited_def)

text \<open>A request refused before its route, and one that reaches it.\<close>

definition authenticated :: "http_request \<Rightarrow> daemon_config \<Rightarrow> credential \<Rightarrow> bool" where
  "authenticated req cfg cred \<longleftrightarrow> presented_credential req cfg = Some cred \<and> scopes_for cred cfg \<noteq> []"

lemma serve_unrouted:
  assumes "serve db c k cfg sink decode busy clocks answer req d = Some (out, d')" "\<not> (\<exists>cred. authenticated req cfg cred) \<or> post_route req = None"
  shows "d' = d \<and> out \<noteq> Inr (SignedBundle r) \<and> out \<noteq> Inr (SignedRoot q)"
  using assms by (auto simp: serve_def authenticated_def split: option.splits if_splits sum.splits)

lemma routed_method: "post_route req = Some p \<Longrightarrow> hr_method req = ''POST''"
  by (auto simp: post_route_def split: if_splits)

lemma serve_routed:
  assumes "serve db c k cfg sink decode busy clocks answer req d = Some out" "authenticated req cfg cred" "post_route req = Some (route, scope, queued)"
  shows "(\<exists>e. out = audited sink (sign_event route AuditRejected (source_label cred scope)) (Inl e) d)
    \<or> (scope \<in> set (scopes_for cred cfg) \<and> (\<exists>body. out = invoke_route db c k cfg sink clocks answer route body (source_label cred scope) d))"
  using assms(1) unfolding serve_def assms(3) assms(2) [unfolded authenticated_def, THEN conjunct1] option.case prod.case
  using routed_method [OF assms(3)] assms(2)
  by (auto simp: authenticated_def Let_def split: if_splits option.splits sum.splits body_error.splits)

lemma route_scope: "post_route req = Some (route, scope, queued) \<Longrightarrow> scope = (if route = CredentialRootRoute then CredentialRoot else Signals)"
  by (auto simp: post_route_def split: if_splits)

text \<open>How an answer that is a signature came about.\<close>

lemma served_bundle:
  assumes "serve db c k cfg sink decode busy clocks answer req d = Some (Inr (SignedBundle r), d')"
  shows "\<exists>cred. presented_credential req cfg = Some cred \<and> Signals \<in> set (scopes_for cred cfg)"
proof -
  obtain cred where a: "authenticated req cfg cred" "post_route req \<noteq> None" using serve_unrouted [OF assms] by blast
  then obtain route scope queued where p: "post_route req = Some (route, scope, queued)" by (cases "post_route req") auto
  obtain body where b: "scope \<in> set (scopes_for cred cfg)"
      "(Inr (SignedBundle r), d') = invoke_route db c k cfg sink clocks answer route body (source_label cred scope) d"
    using serve_routed [OF assms a(1) p] audited_refusal by (metis fst_conv)
  have "route \<noteq> CredentialRootRoute" using b(2) by (auto simp: invoke_route_def map_served_def map_sum_def split: sum.splits)
  then show ?thesis using route_scope [OF p] a(1) b(1) by (auto simp: authenticated_def)
qed

lemma served_root:
  assumes "serve db c k cfg sink decode busy clocks answer req d = Some (Inr (SignedRoot r), d')"
  shows "\<exists>cred. presented_credential req cfg = Some cred \<and> CredentialRoot \<in> set (scopes_for cred cfg)"
proof -
  obtain cred where a: "authenticated req cfg cred" "post_route req \<noteq> None" using serve_unrouted [OF assms] by blast
  then obtain route scope queued where p: "post_route req = Some (route, scope, queued)" by (cases "post_route req") auto
  obtain body where b: "scope \<in> set (scopes_for cred cfg)"
      "(Inr (SignedRoot r), d') = invoke_route db c k cfg sink clocks answer route body (source_label cred scope) d"
    using serve_routed [OF assms a(1) p] audited_refusal by (metis fst_conv)
  have "route = CredentialRootRoute" using b(2) by (cases route) (auto simp: invoke_route_def map_served_def map_sum_def split: sum.splits)
  then show ?thesis using route_scope [OF p] a(1) b(1) by (auto simp: authenticated_def)
qed

text \<open>
  C22. Roles stay separate. A daemon that started from any environment never answers requests with one credential with
  both a screening signature and a credential-root signature, whatever its state and the requests, as long as the
  credential is the same.
\<close>

theorem roles_stay_separate:
  assumes "start_daemon env = Inr (cfg, d0)" "presented_credential req cfg = presented_credential req' cfg"
    "serve db c k cfg sink decode busy clocks answer req d = Some (Inr (SignedBundle r), e)"
    "serve db c k cfg sink decode busy' clocks' answer' req' d' = Some (out, e')"
  shows "out \<noteq> Inr (SignedRoot q)"
proof -
  have "assert_credential_separation cfg = Inr ()" using assms(1) by (auto simp: start_daemon_def split: option.splits)
  then show ?thesis using separated_scopes served_bundle [OF assms(3)] served_root assms(2,4) by (metis option.inject)
qed

lemma invoke_audits: "audited_once sink (invoke_route db c k cfg sink clocks answer route body source d) d"
proof -
  have m: "audited_once sink out d \<Longrightarrow> audited_once sink (map_served f out) d" for f out
    by (cases "fst out") (auto simp: audited_once_def map_served_def)
  show ?thesis by (cases route) (simp_all add: invoke_route_def m sign_audits multi_audits root_audits)
qed

text \<open>
  C23. Every authenticated request to a signing route is audited: its answer leaves exactly one record the sink accepted,
  a rejection if and only if the answer is an error, or the sink refused the record and the answer is \<open>AUDIT_FAILED\<close>.
  Any other answer, to a stranger or off the routes, leaves the daemon as it was and is no signature.
\<close>

theorem every_request_is_audited:
  assumes "serve db c k cfg sink decode busy clocks answer req d = Some (out, d')"
  shows "if (\<exists>cred. authenticated req cfg cred) \<and> post_route req \<noteq> None then audited_once sink (out, d') d
    else d' = d \<and> out \<noteq> Inr (SignedBundle r) \<and> out \<noteq> Inr (SignedRoot q)"
proof (cases "(\<exists>cred. authenticated req cfg cred) \<and> post_route req \<noteq> None")
  case True
  then obtain cred route scope queued where a: "authenticated req cfg cred" "post_route req = Some (route, scope, queued)"
    by (cases "post_route req") auto
  have "audited_once sink (audited sink (sign_event route AuditRejected source) (Inl e) d) d" for source e
    by (rule audited_audits) (simp_all add: sign_event_def)
  then have "audited_once sink (out, d') d" using serve_routed [OF assms a] invoke_audits by metis
  then show ?thesis using True by simp
next
  case False
  then have "\<not> (\<exists>cred. authenticated req cfg cred) \<or> post_route req = None" by blast
  from serve_unrouted [OF assms this] show ?thesis unfolding if_not_P [OF False] .
qed

section \<open>The configured daemon\<close>

lemma queue_bounded: "length q \<le> most \<Longrightarrow> length (snd (queue_run most job q)) \<le> most \<and> length (queue_settle q) \<le> most"
  by (auto simp: queue_run_def queue_settle_def)

lemma env_int_bounds: "env_int env name fallback most = Inr n \<Longrightarrow> 0 \<le> fallback \<Longrightarrow> fallback \<le> most \<Longrightarrow> 0 \<le> n \<and> n \<le> most"
  by (auto simp: env_int_def split: if_splits)

lemma loaded_policy:
  assumes "load_config env = Inr cfg"
  shows "0 \<le> sp_maxTimestampAgeSeconds (dc_policy cfg) \<and> 0 \<le> sp_maxTimestampSkewSeconds (dc_policy cfg)"
proof -
  have age: "env_int env name 300 86400 = Inr n \<Longrightarrow> 0 \<le> n" "env_int env name 30 3600 = Inr n \<Longrightarrow> 0 \<le> n" for name n
    using env_int_bounds [of env name 300 86400 n] env_int_bounds [of env name 30 3600 n] by simp_all
  show ?thesis using assms unfolding load_config_def Let_def then_check_Inr sum.inject
    by (elim exE conjE, hypsubst) (simp only: daemon_config.simps signing_policy.simps age simp_thms)
qed

lemma policy_within_retention:
  assumes "start_daemon env = Inr (cfg, d)" "enforce_signal_policy (dc_policy cfg) now f = Inr u"
  shows "now - ld_retention (dm_ledger d) \<le> sf_timestamp f"
proof -
  obtain l where l: "load_config env = Inr cfg" "d = \<lparr>dm_ledger = l, dm_audit = []\<rparr>"
    "new_ledger (Fin (of_int (sp_maxTimestampAgeSeconds (dc_policy cfg) + sp_maxTimestampSkewSeconds (dc_policy cfg)))) (Fin 100000) = Some l"
    using assms(1) by (auto simp: start_daemon_def split: option.splits)
  have "ld_retention l = sp_maxTimestampAgeSeconds (dc_policy cfg) + sp_maxTimestampSkewSeconds (dc_policy cfg)"
    using l(3) unfolding new_ledger_def prod.case jsnum.case by (simp del: of_int_add split: if_splits) auto
  then show ?thesis using enforced_fields [OF assms(2)] loaded_policy [OF l(1)] l(2) by (simp add: signal_policy_ok_def)
qed

end
