(* ===== verification/DaemonExamples.thy ===== *)
theory DaemonExamples
  imports DaemonSafe
begin

text \<open>Concrete requests: each theorem of the provider applied where its hypotheses hold.\<close>

section \<open>A daemon\<close>

definition demo_hash :: bytes where "demo_hash = replicate 32 CHR ''h''"

definition demo_crypto :: provider_crypto where
  "demo_crypto = \<lparr>pc_pedersen = \<lambda>_. Some demo_hash, pc_point = \<lambda>_. True, pc_compact = \<lambda>s. length s = 64, pc_high_s = \<lambda>s. False,
     pc_verify = \<lambda>s h _. s = h @ h, pc_recover = \<lambda>s v h. if v = 1 then Some (CHR 0x04 # replicate 32 CHR ''x'' @ replicate 32 CHR ''y'') else None,
     pc_keccak = \<lambda>_. replicate 32 CHR ''k'', pc_abi = \<lambda>_. Some []\<rparr>"

definition demo_key :: signer_key where
  "demo_key = \<lparr>sk_x = replicate 32 CHR ''x'', sk_y = replicate 32 CHR ''y''\<rparr>"

definition demo_fields :: "int \<Rightarrow> signal_fields" where
  "demo_fields n = \<lparr>sf_chainId = 1, sf_oracleAddress = 11, sf_providerSetHash = 5, sf_signals = [n, 0, 0, 0, 0, 0, 0, 0],
     sf_weights = [100, 0, 0, 0, 0, 0, 0, 0], sf_timestamp = 1000, sf_submitter = 12\<rparr>"

definition demo_bundle :: signed_bundle where
  "demo_bundle = \<lparr>bu_signature = demo_hash @ demo_hash, bu_pubkeyX = sk_x demo_key, bu_pubkeyY = sk_y demo_key, bu_signerPubkeyHash = demo_hash,
     bu_payloadHash = demo_hash\<rparr>"

lemma demo_key_simps [simp]: "length (sk_x demo_key) = 32" "length (sk_y demo_key) = 32"
  by (simp_all add: demo_key_def)

lemma demo_hash_length [simp]: "length demo_hash = 32"
  by (simp add: demo_hash_def)

lemma pedersen_total: "\<forall>v \<in> set vs. 0 \<le> v \<and> v < 2 ^ 256 \<Longrightarrow> pedersen_hash demo_crypto vs = Inr demo_hash"
proof -
  assume v: "\<forall>v \<in> set vs. 0 \<le> v \<and> v < 2 ^ 256"
  then have "\<exists>bs. list_all2 (\<lambda>x y. field_to_bytes x = Inr y) vs bs"
  proof (induction vs)
    case (Cons v vs)
    then show ?case using field_total [of v] by (auto intro: list_all2_Cons [THEN iffD2])
  qed auto
  then show ?thesis by (auto simp: pedersen_hash_def demo_crypto_def collect_map [of field_to_bytes, symmetric] simp flip: map_map)
qed

lemma demo_payload: "0 \<le> n \<Longrightarrow> n \<le> 100 \<Longrightarrow> payload_hash demo_crypto (SignSignals 7 (demo_fields n)) = Inr demo_hash"
  by (simp add: compute_signed_payload_hash_def SIGNED_SIGNALS_DOMAINS_def demo_fields_def, rule pedersen_total)
    (auto simp: signed_inputs_def DOMAIN_SIGNED_SIGNALS_def)

lemma demo_pubkey: "compute_signer_pubkey_hash demo_crypto (sk_x demo_key) (sk_y demo_key) = Inr demo_hash"
proof -
  have b: "0 \<le> bytes_value bs \<and> bytes_value bs < 2 ^ 256" if "length bs = 16" for bs
    using bytes_value_bounds [of bs] that by simp
  have "length (take 16 x) = 16" "length (drop 16 x) = 16" if "length x = 32" for x :: bytes using that by simp_all
  then show ?thesis
    by (simp add: compute_signer_pubkey_hash_def coordinate_to_fields_def) (rule pedersen_total, use b in \<open>auto simp: DOMAIN_SIGNER_PUBKEY_def\<close>)
qed

lemma demo_signs: "sign_payload_hash demo_crypto demo_key demo_hash (Some (demo_hash @ demo_hash)) = Inr demo_bundle"
  by (simp add: sign_payload_hash_def validated_sign_digest_def snapshot_digest_signer_identity_def demo_pubkey demo_bundle_def)
    (simp add: demo_crypto_def demo_key_def uncompressed_public_key_def)

lemma demo_valid: "validate_replay_result demo_crypto demo_key demo_hash demo_bundle = Inr demo_bundle"
  by (simp add: validate_replay_result_iff valid_bundle_def demo_bundle_def demo_pubkey) (simp add: demo_crypto_def)

theorem payload_commits_to_request_witness:
  "pedersen_collision demo_crypto (SignSignals 7 (demo_fields 0)) (SignSignals 7 (demo_fields 1))"
  by (rule payload_commits_to_request [OF demo_payload demo_payload]) (simp_all add: demo_fields_def)

section \<open>Two calls at once\<close>

definition demo_req :: sign_request where
  "demo_req = SignSignals 7 (demo_fields 3)"

definition demo_ledger :: "(string \<times> (int \<times> signed_bundle)) list \<Rightarrow> ledger" where
  "demo_ledger es = \<lparr>ld_entries = es, ld_retention = 3600, ld_maxEntries = 2\<rparr>"

definition demo_entry :: "(string \<times> (int \<times> signed_bundle)) list" where
  "demo_entry = [(key_for 12 demo_hash, (1000, demo_bundle))]"

definition demo_run :: "sign_request list \<Rightarrow> (string \<times> (int \<times> signed_bundle)) list \<Rightarrow> (sign_request \<times> signed_bundle \<times> bool) list \<Rightarrow> nat \<Rightarrow> ledger signing_run" where
  "demo_run w es rel n = \<lparr>ru_store = demo_ledger es, ru_waiting = w, ru_released = rel, ru_calls = n\<rparr>"

lemma demo_req_facts [simp]: "payload_hash demo_crypto demo_req = Inr demo_hash" "submitter_of demo_req = 12" "timestamp_of demo_req = 1000"
  using demo_payload [of 3] by (simp_all add: demo_req_def submitter_of_def timestamp_of_def demo_fields_def)

lemma demo_snapshot: "snapshot_digest_signer_identity demo_crypto demo_key = Inr ()"
  by (simp add: snapshot_digest_signer_identity_def) (simp add: demo_crypto_def)

lemma demo_begin: "ledger_begin memory_replay_db demo_crypto demo_key 1500 12 demo_hash (demo_ledger []) = (None, demo_ledger [])"
  by (simp add: ledger_begin_def demo_snapshot memory_replay_db_def ledger_lookup_def evict_expired_def demo_ledger_def)

lemma demo_finish: "ledger_finish memory_replay_db demo_crypto demo_key 1500 12 1000 demo_hash (Some (demo_hash @ demo_hash)) (demo_ledger [])
    = (Inr (demo_bundle, False), demo_ledger demo_entry)"
  by (simp add: ledger_finish_def demo_signs memory_replay_db_def record_canonical_def evict_expired_def demo_ledger_def demo_valid demo_entry_def)

lemma demo_finish_again: "ledger_finish memory_replay_db demo_crypto demo_key 1500 12 1000 demo_hash (Some (demo_hash @ demo_hash)) (demo_ledger demo_entry)
    = (Inr (demo_bundle, True), demo_ledger demo_entry)"
  by (simp add: ledger_finish_def demo_signs memory_replay_db_def record_canonical_def evict_expired_def demo_ledger_def demo_valid demo_entry_def
      result_matches_identity_def)

lemma demo_runs: "(signing_step memory_replay_db demo_crypto demo_key 1500 (1500 - 3600) 2)\<^sup>*\<^sup>* (start_run (demo_ledger []))
    (demo_run [] demo_entry [(demo_req, demo_bundle, True), (demo_req, demo_bundle, False)] 2)"
proof -
  let ?step = "signing_step memory_replay_db demo_crypto demo_key 1500 (1500 - 3600) 2"
  have ask: "?step (demo_run w [] [] n) (demo_run (demo_req # w) [] [] (Suc n))" if "n < 2" for w n
    using Asks [of "demo_run w [] [] n" 2 1500 1500 "1500 - 3600" demo_req demo_crypto demo_hash memory_replay_db demo_key "demo_ledger []"]
      demo_begin that by (simp add: demo_run_def)
  have first: "?step (demo_run [demo_req, demo_req] [] [] 2) (demo_run [demo_req] demo_entry [(demo_req, demo_bundle, False)] 2)"
    using Signs [of demo_req "demo_run [demo_req, demo_req] [] [] 2" 1500 1500 demo_crypto demo_hash memory_replay_db demo_key
        "Some (demo_hash @ demo_hash)" "Inr (demo_bundle, False)" "demo_ledger demo_entry" "1500 - 3600" 2] demo_finish
    by (simp add: demo_run_def)
  have second: "?step (demo_run [demo_req] demo_entry [(demo_req, demo_bundle, False)] 2)
      (demo_run [] demo_entry [(demo_req, demo_bundle, True), (demo_req, demo_bundle, False)] 2)"
    using Signs [of demo_req "demo_run [demo_req] demo_entry [(demo_req, demo_bundle, False)] 2" 1500 1500 demo_crypto demo_hash memory_replay_db
        demo_key "Some (demo_hash @ demo_hash)" "Inr (demo_bundle, True)" "demo_ledger demo_entry" "1500 - 3600" 2] demo_finish_again
    by (simp add: demo_run_def)
  have "?step\<^sup>*\<^sup>* (demo_run [] [] [] 0) (demo_run [demo_req, demo_req] [] [] 2)"
    using ask [of 0 "[]"] ask [of 1 "[demo_req]"] by (simp add: numeral_2_eq_2)
  then show ?thesis using first second by (simp add: start_run_def demo_run_def)
qed

theorem one_bundle_per_payload_witness:
  "length (newly_signed demo_crypto demo_req (demo_run [] demo_entry [(demo_req, demo_bundle, True), (demo_req, demo_bundle, False)] 2)) \<le> 1"
  using one_bundle_per_payload [of "Fin 3600" "Fin 2" "demo_ledger []" demo_crypto demo_key 1500
      "demo_run [] demo_entry [(demo_req, demo_bundle, True), (demo_req, demo_bundle, False)] 2" demo_req demo_bundle True] demo_runs
  by (simp add: new_ledger_def is_int_num_def demo_ledger_def) (simp add: demo_run_def)

section \<open>A request to the daemon\<close>

definition demo_policy :: signing_policy where
  "demo_policy = \<lparr>sp_chainId = 1, sp_oracleAddress = 11, sp_providerId = Some 9, sp_maxTimestampAgeSeconds = 600, sp_maxTimestampSkewSeconds = 60,
     sp_credentialRootMaxValiditySeconds = 1000\<rparr>"

definition demo_address :: "char \<Rightarrow> string" where
  "demo_address c = ''0x'' @ replicate 39 CHR ''0'' @ [c]"

definition demo_body :: "(string \<times> jsval) list \<Rightarrow> jsval" where
  "demo_body fs = VObj (fs @ [(''providerSetHash'', VStr ''5''), (''signals'', VArr [VStr ''3'', VStr ''0'', VStr ''0'', VStr ''0'', VStr ''0'', VStr ''0'', VStr ''0'', VStr ''0'']),
     (''weights'', VArr [VStr ''100'', VStr ''0'', VStr ''0'', VStr ''0'', VStr ''0'', VStr ''0'', VStr ''0'', VStr ''0'']), (''timestamp'', VStr ''1000''), (''chainId'', VStr ''1''),
     (''submitter'', VStr (demo_address CHR ''c'')), (''oracleAddress'', VStr (demo_address CHR ''b''))])"

lemma demo_bigints [simp]: "as_bigint (VStr ''0'') = Inr 0" "as_bigint (VStr ''1'') = Inr 1" "as_bigint (VStr ''3'') = Inr 3" "as_bigint (VStr ''5'') = Inr 5"
    "as_bigint (VStr ''7'') = Inr 7" "as_bigint (VStr ''9'') = Inr 9" "as_bigint (VStr ''100'') = Inr 100" "as_bigint (VStr ''1000'') = Inr 1000"
  by (simp_all add: as_bigint_def plain_hex_or_decimal_def big_int_digits all_digits_def is_digit_def code_def digits_val_def digit_val_def Let_def)

lemma demo_addresses [simp]: "ADDRESS_RE (demo_address CHR ''c'')" "big_address (demo_address CHR ''c'') = 12"
    "ADDRESS_RE (demo_address CHR ''b'')" "big_address (demo_address CHR ''b'') = 11"
  by (simp_all add: ADDRESS_RE_def demo_address_def starts_with_def is_hex_digit_def is_digit_def code_def list_all_iff big_address_def
      digits_val_def digit_val_def Let_def numeral_nat)

lemma demo_parse_fields: "fst ` set fs \<subseteq> {''proofType'', ''slotIndex'', ''jurisdictionId'', ''configHash''} \<Longrightarrow>
    parse_signal_fields (demo_body fs) contiguous = Inr (demo_fields 3)"
proof -
  assume "fst ` set fs \<subseteq> {''proofType'', ''slotIndex'', ''jurisdictionId'', ''configHash''}"
  then have n: "map_of fs k = None" if "k \<notin> {''proofType'', ''slotIndex'', ''jurisdictionId'', ''configHash''}" for k
    using that by (auto simp: map_of_eq_None_iff)
  show ?thesis
    by (simp add: parse_signal_fields_def demo_body_def json_object_def obj_get_def n map_add_def is_text_def eight_def as_number_def as_address_def
        silent_slots_def gap_free_def demo_fields_def)
qed

lemma demo_parse: "parse_sign_body (demo_body [(''proofType'', VStr ''7'')]) = Inr demo_req"
  by (simp add: parse_sign_body_def demo_parse_fields) (simp add: demo_body_def val_get_def as_number_def demo_req_def)

definition demo_slot :: sign_request where
  "demo_slot = SignSlot 1 1 5 (demo_fields 3)"

lemma demo_parse_multi:
  "parse_sign_multi_body (demo_body [(''slotIndex'', VStr ''1''), (''jurisdictionId'', VStr ''1''), (''configHash'', VStr ''5'')]) = Inr demo_slot"
  by (simp add: parse_sign_multi_body_def demo_parse_fields)
    (simp add: demo_body_def val_get_def as_number_def demo_slot_def is_text_def MAX_PROVIDERS_MULTI_def)

lemma demo_slot_payload: "payload_hash demo_crypto demo_slot = Inr demo_hash"
  by (simp add: demo_slot_def compute_slot_payload_hash_def MAX_PROVIDERS_MULTI_def demo_fields_def, rule pedersen_total)
    (auto simp: slot_inputs_def DOMAIN_MULTI_SIGNED_SIGNALS_def)

abbreviation demo_sign :: "((jsval \<Rightarrow> string \<Rightarrow> ledger daemon \<Rightarrow> sign_response handler_result \<times> ledger daemon) \<Rightarrow> jsval
    \<Rightarrow> sign_response handler_result \<times> ledger daemon)" where
  "demo_sign handler body \<equiv> handler body ''10.0.0.1'' \<lparr>dm_ledger = demo_ledger [], dm_audit = []\<rparr>"

lemma demo_signed: "req \<in> {demo_req, demo_slot} \<Longrightarrow>
    sign_with_replay_protection memory_replay_db demo_crypto demo_key (1500, 1500) req (Some (demo_hash @ demo_hash)) (demo_ledger [])
      = (Inr (demo_bundle, False), demo_ledger demo_entry)"
  using demo_begin demo_finish demo_req_facts demo_slot_payload
  by (auto simp: sign_with_replay_protection_def sign_through_ledger_def submitter_of_def timestamp_of_def demo_slot_def demo_fields_def)

lemma demo_enforced: "req \<in> {demo_req, demo_slot} \<Longrightarrow> enforce_signal_policy demo_policy 1500 (fields_of req) = Inr ()"
  by (auto simp: enforce_signal_policy_def enforce_deployment_def demo_policy_def demo_req_def demo_slot_def demo_fields_def)

lemma demo_handled:
  assumes "parse body = Inr req" "req \<in> {demo_req, demo_slot}"
  shows "\<exists>d'. demo_sign (handle_signal_route memory_replay_db demo_crypto demo_key demo_policy (\<lambda>_. True) (1500, 1500, 1500)
    (Some (demo_hash @ demo_hash)) route parse) body = (Inr (sign_response_of demo_bundle), d')"
  by (simp add: handle_signal_route_def assms(1) Let_def audited_def demo_signed [OF assms(2)] demo_enforced [OF assms(2)])

theorem released_signature_is_scoped_witness:
  "signal_policy_ok demo_policy 1500 (demo_fields 3) \<and> signal_slots_ok True (demo_fields 3) \<and> signal_slots_ok False (demo_fields 3)"
proof -
  obtain d1 where d1: "demo_sign (handle_sign memory_replay_db demo_crypto demo_key demo_policy (\<lambda>_. True) (1500, 1500, 1500) (Some (demo_hash @ demo_hash)))
      (demo_body [(''proofType'', VStr ''7'')]) = (Inr (sign_response_of demo_bundle), d1)"
    unfolding handle_sign_def using demo_handled [where parse = parse_sign_body, OF demo_parse] by blast
  obtain d2 where d2: "demo_sign (handle_sign_multi memory_replay_db demo_crypto demo_key demo_policy (\<lambda>_. True) (1500, 1500, 1500) (Some (demo_hash @ demo_hash)))
      (demo_body [(''slotIndex'', VStr ''1''), (''jurisdictionId'', VStr ''1''), (''configHash'', VStr ''5'')]) = (Inr (sign_response_of demo_bundle), d2)"
    unfolding handle_sign_multi_def using demo_handled [where parse = parse_sign_multi_body, OF demo_parse_multi] by blast
  show ?thesis
    using conjunct1 [OF released_signature_is_scoped, rule_format, OF d1] conjunct2 [OF released_signature_is_scoped, rule_format, OF d2]
    by (auto simp: demo_parse demo_parse_multi demo_req_def demo_slot_def)
qed

section \<open>A root\<close>

definition demo_root_body :: jsval where
  "demo_root_body = VObj [(''chainId'', VStr ''1''), (''providerId'', VStr ''9''), (''root'', VStr (''0x'' @ replicate 64 CHR ''a'')),
     (''cid'', VStr ''bafy''), (''notBefore'', VStr ''1000''), (''notAfter'', VStr ''1000''), (''oracleAddress'', VStr (demo_address CHR ''b''))]"

lemma demo_root_parse: "\<exists>r. parse_sign_credential_root_body demo_root_body = Inr r \<and> enforce_credential_root_policy demo_policy 900 r = Inr ()"
  by (simp add: parse_sign_credential_root_body_def demo_root_body_def json_object_def as_address_def text_where_def root_text_def starts_with_def
      list_all_iff is_hex_digit_def is_digit_def code_def U64_MAX_def enforce_credential_root_policy_def enforce_deployment_def demo_policy_def)

lemma demo_root_signs: "\<exists>res. sign_credential_root demo_crypto demo_key r (Some (replicate 64 CHR ''k'')) = Inr res"
proof -
  have k: "length (replicate 32 CHR ''k'') = 32" "replicate 32 CHR ''k'' @ replicate 32 CHR ''k'' = replicate 64 CHR ''k''"
    by (simp_all flip: replicate_add)
  show ?thesis
    by (simp add: sign_credential_root_def credential_root_digest_def build_domain_separator_def hash_publication_def demo_crypto_def)
      (simp add: bytes_field validated_sign_digest_def snapshot_digest_signer_identity_def uncompressed_public_key_def k demo_key_def)
qed

theorem released_root_is_scoped_witness:
  "\<exists>req. parse_sign_credential_root_body demo_root_body = Inr req \<and> root_policy_ok demo_policy 900 req"
proof -
  obtain r where r: "parse_sign_credential_root_body demo_root_body = Inr r" "enforce_credential_root_policy demo_policy 900 r = Inr ()"
    using demo_root_parse by blast
  obtain res where res: "sign_credential_root demo_crypto demo_key r (Some (replicate 64 CHR ''k'')) = Inr res" using demo_root_signs by blast
  have "\<exists>response d'. handle_sign_credential_root demo_crypto demo_key demo_policy (\<lambda>_. True) 900 (Some (replicate 64 CHR ''k'')) demo_root_body ''10.0.0.1''
      \<lparr>dm_ledger = demo_ledger [], dm_audit = []\<rparr> = (Inr response, d')"
    by (simp add: handle_sign_credential_root_def r res Let_def audited_def)
  then show ?thesis using released_root_is_scoped by blast
qed


end
