(* ===== verification/ServerExamples.thy ===== *)
theory ServerExamples
  imports ServerSafe DaemonExamples
begin

text \<open>A daemon started from an environment, and what two requests with one bearer token get.\<close>

definition demo_env :: "string option \<Rightarrow> environment" where
  "demo_env root_key = (map_of [(''SIGNER_PRIVATE_KEY_HEX'', ''aa''), (''SIGNER_API_KEY'', ''s''), (''SIGNER_CHAIN_ID'', ''1''),
     (''SIGNER_ORACLE_ADDRESS'', demo_address CHR ''b'')])(''SIGNER_CREDENTIAL_ROOT_API_KEY'' := root_key)"

definition demo_config :: "string option \<Rightarrow> daemon_config" where
  "demo_config root_key = \<lparr>dc_host = ''127.0.0.1'', dc_port = 8548, dc_signerKeyHex = ''aa'', dc_apiKey = Some ''s'', dc_credentialRootApiKey = root_key,
     dc_tlsCertPath = None, dc_tlsKeyPath = None, dc_clientCaPath = None, dc_signalsClientCns = None, dc_credentialRootClientCns = None,
     dc_auditLogPath = None, dc_providerLabel = ''xochi-provider'',
     dc_policy = \<lparr>sp_chainId = 1, sp_oracleAddress = 11, sp_providerId = None, sp_maxTimestampAgeSeconds = 300, sp_maxTimestampSkewSeconds = 30,
       sp_credentialRootMaxValiditySeconds = 3600\<rparr>, dc_oracleAddress = demo_address CHR ''b'', dc_allowInsecureBind = False\<rparr>"

definition demo_started :: "ledger daemon" where
  "demo_started = \<lparr>dm_ledger = \<lparr>ld_entries = [], ld_retention = 330, ld_maxEntries = 100000\<rparr>, dm_audit = []\<rparr>"

lemma demo_separation: "root_key \<noteq> Some ''s'' \<Longrightarrow> assert_credential_separation (demo_config root_key) = Inr ()"
  by (auto simp: assert_credential_separation_def demo_config_def truthy_text_def names_overlap_def)

lemma demo_safe_bind: "assert_safe_bind (demo_config root_key) = Inr ()"
  by (simp add: assert_safe_bind_def demo_config_def is_loopback_host_def all_digits_def is_digit_def code_def)

lemma demo_loads: "root_key \<noteq> Some ''s'' \<Longrightarrow> load_config (demo_env root_key) = Inr (demo_config root_key)"
proof -
  assume r: "root_key \<noteq> Some ''s''"
  have e: "demo_env root_key k = (if k = ''SIGNER_CREDENTIAL_ROOT_API_KEY'' then root_key else map_of [(''SIGNER_PRIVATE_KEY_HEX'', ''aa''),
      (''SIGNER_API_KEY'', ''s''), (''SIGNER_CHAIN_ID'', ''1''), (''SIGNER_ORACLE_ADDRESS'', demo_address CHR ''b'')] k)" for k
    by (simp add: demo_env_def)
  have n: "demo_address CHR ''b'' \<noteq> []" by (simp add: demo_address_def)
  show ?thesis
    using r demo_separation [OF r] demo_safe_bind [of root_key]
    by (simp add: load_config_def e truthy_text_def env_list_def env_int_def names_overlap_def chain_id_text_def all_digits_def is_digit_def code_def n
        or_default_def digits_val_def digit_val_def Let_def demo_config_def)
qed

lemma demo_starts: "root_key \<noteq> Some ''s'' \<Longrightarrow> start_daemon (demo_env root_key) = Inr (demo_config root_key, demo_started)"
  using demo_separation demo_safe_bind by (simp add: start_daemon_def demo_loads demo_started_def new_ledger_def demo_config_def is_int_num_def)

text \<open>An empty credential-root key is kept as a key, and an empty token holds its scope.\<close>

lemma empty_root_key_is_a_key:
  "load_config (demo_env (Some [])) = Inr (demo_config (Some [])) \<and> scopes_for (Bearer (Some [])) (demo_config (Some [])) = [CredentialRoot]"
  by (simp add: demo_loads) (simp add: scopes_for_def demo_config_def)

section \<open>Two requests\<close>

definition demo_json :: string where
  "demo_json = map (\<lambda>c. if c = CHR ''|'' then CHR 0x22 else c)
     (''{|oracleAddress|:|0x000000000000000000000000000000000000000b|,|submitter|:|0x000000000000000000000000000000000000000c|,|chainId|:|1|,'' @
      ''|timestamp|:|1000|,|weights|:[|100|,|0|,|0|,|0|,|0|,|0|,|0|,|0|],|signals|:[|3|,|0|,|0|,|0|,|0|,|0|,|0|,|0|],|providerSetHash|:|5|,|proofType|:|7|}'')"

lemma demo_json_parses: "json_parse demo_json = Some (demo_body [(''proofType'', VStr ''7'')])"
  by code_simp

definition demo_request :: "string \<Rightarrow> http_request" where
  "demo_request url = \<lparr>hr_method = ''POST'', hr_url = Some url, hr_authorized = False, hr_commonName = None, hr_authorization = Some ''Bearer s'',
     hr_body = [BodyData demo_json, BodyEnd]\<rparr>"

abbreviation demo_serve :: "http_request \<Rightarrow> (served handler_result \<times> ledger daemon) option" where
  "demo_serve req \<equiv> serve memory_replay_db demo_crypto demo_key (demo_config (Some ''r'')) (\<lambda>_. True) (\<lambda>b. b) False (1100, 1100, 1100)
     (Some (demo_hash @ demo_hash)) req demo_started"

lemma demo_presented: "presented_credential (demo_request url) (demo_config root_key) = Some (Bearer (Some ''s''))"
  by (simp add: presented_credential_def demo_request_def demo_config_def truthy_text_def starts_with_def)

lemma demo_route: "hr_method (demo_request url) = ''POST''" "post_route (demo_request ''/sign'') = Some (SignRoute, Signals, True)"
    "post_route (demo_request ''/sign-credential-root'') = Some (CredentialRootRoute, CredentialRoot, False)"
  by (simp_all add: demo_request_def post_route_def)

lemma demo_scopes: "scopes_for (Bearer (Some ''s'')) (demo_config (Some ''r'')) = [Signals]"
  by (simp add: scopes_for_def demo_config_def)

lemma demo_json_length: "length demo_json \<le> MAX_BODY_BYTES"
  by (simp add: demo_json_def MAX_BODY_BYTES_def)

lemma demo_read: "read_body [] (hr_body (demo_request url)) = Some (Inr demo_json)"
  using demo_json_length by (simp add: demo_request_def)

lemma demo_releases: "\<exists>l. sign_with_replay_protection memory_replay_db demo_crypto demo_key (1100, 1100) demo_req (Some (demo_hash @ demo_hash)) (dm_ledger demo_started)
    = (Inr (demo_bundle, False), l)"
  using demo_req_facts
  by (simp add: sign_with_replay_protection_def sign_through_ledger_def submitter_of_def timestamp_of_def ledger_begin_def demo_snapshot
      memory_replay_db_def ledger_lookup_def evict_expired_def demo_started_def ledger_finish_def demo_signs record_canonical_def demo_valid)

lemma demo_serves: "\<exists>e. demo_serve (demo_request ''/sign'') = Some (Inr (SignedBundle (sign_response_of demo_bundle)), e)"
proof -
  obtain l where l: "sign_with_replay_protection memory_replay_db demo_crypto demo_key (1100, 1100) demo_req (Some (demo_hash @ demo_hash)) (dm_ledger demo_started)
      = (Inr (demo_bundle, False), l)" using demo_releases by blast
  have e: "enforce_signal_policy (dc_policy (demo_config (Some ''r''))) 1100 (fields_of demo_req) = Inr ()"
    by (simp add: enforce_signal_policy_def enforce_deployment_def demo_config_def demo_req_def demo_fields_def)
  show ?thesis
    by (simp add: serve_def demo_presented demo_scopes demo_read demo_json_parses Let_def invoke_route_def handle_sign_def handle_signal_route_def
        demo_parse e l audited_def map_served_def demo_route)
qed

lemma demo_refused: "\<exists>e. demo_serve (demo_request ''/sign-credential-root'') = Some (Inl (403, ''ROUTE_NOT_PERMITTED''), e)"
  by (simp add: serve_def demo_presented demo_scopes Let_def audited_def demo_route)

theorem roles_stay_separate_witness:
  "\<exists>out e. demo_serve (demo_request ''/sign-credential-root'') = Some (out, e) \<and> (\<forall>q. out \<noteq> Inr (SignedRoot q))"
proof -
  obtain e where e: "demo_serve (demo_request ''/sign'') = Some (Inr (SignedBundle (sign_response_of demo_bundle)), e)" using demo_serves by blast
  obtain e' where e': "demo_serve (demo_request ''/sign-credential-root'') = Some (Inl (403, ''ROUTE_NOT_PERMITTED''), e')" using demo_refused by blast
  have "presented_credential (demo_request ''/sign'') (demo_config (Some ''r'')) = presented_credential (demo_request ''/sign-credential-root'') (demo_config (Some ''r''))"
    by (simp add: demo_presented)
  from roles_stay_separate [OF demo_starts [of "Some ''r''"] this e e'] e' show ?thesis by auto
qed

theorem every_request_is_audited_witness:
  "\<exists>out e. demo_serve (demo_request ''/sign'') = Some (out, e) \<and> audited_once (\<lambda>_. True) (out, e) demo_started"
proof -
  obtain e where e: "demo_serve (demo_request ''/sign'') = Some (Inr (SignedBundle (sign_response_of demo_bundle)), e)" using demo_serves by blast
  have a: "(\<exists>cred. authenticated (demo_request ''/sign'') (demo_config (Some ''r'')) cred) \<and> post_route (demo_request ''/sign'') \<noteq> None"
    by (simp add: authenticated_def demo_presented demo_scopes demo_route)
  show ?thesis using every_request_is_audited [OF e] e unfolding if_P [OF a] by blast
qed

end
