(* ===== verification/Spec2Isabelle.thy ===== *)
theory Spec2Isabelle
  imports Examples Fee Failure TxChain GatewayExamples ExecutionSound JournalExamples ServerExamples
begin

text \<open>
  The two ends of a \<open>xochi-sdk\<close> trade: the trade client, \<open>packages/client/src\<close>, with the value checks of
  \<open>packages/signer/src\<close> it calls before a wallet signs anything, and of the solver, \<open>packages/solver-sdk/src\<close>,
  the escrow gateway that takes an award from its lock to its repayment, and the sender that moves its inventory.
  Beside them the part of the compliance SDK, \<open>packages/sdk/src\<close>, that scores a trader and plans the execution
  of a trade, the provider that signs screening results, \<open>packages/provider\<close>, and the fund movements of the recipient's
  tool, \<open>tools/recipient/src\<close>, with the journal that guards them.

  \<^bold>\<open>How the parts interact.\<close> A host feeds messages to the trade machine (\<open>machine/machine.ts\<close>): keystrokes
  of the form, clicks, replies of the Worker and of the wallet, timers. \<open>update\<close> returns the next model
  and the effects a driver runs. The machine decides with the pure functions of \<open>machine/decisions.ts\<close>,
  reads replies with \<open>machine/wire.ts\<close>, moves the intent with \<open>machine/transition.ts\<close> over the status
  table of \<open>shared/intents.ts\<close>, and before a prompt holds the quote to the request with
  \<open>machine/quoteChecks.ts\<close>, \<open>machine/solverPin.ts\<close> and \<open>machine/deposit.ts\<close>, which call
  \<open>intent-verify.ts\<close>, \<open>escrow-pin.ts\<close>, \<open>permit2.ts\<close> and \<open>deposit-verify.ts\<close> of the signer.
  \<open>machine/view.ts\<close> and \<open>machine/failure.ts\<close> present the model; \<open>fee.ts\<close> charges the quoted layers.
  On the solver's side \<open>tx-sender.ts\<close> signs, broadcasts, replaces and follows the transactions of an
  award, and decides after a failure whether the nonce is free, spent or in doubt. Before it
  \<open>escrow-verify.ts\<close> holds an award to the lock that will repay it, with the order hashes of the
  signer's \<open>escrow.ts\<close>. \<open>escrow-gateway.ts\<close> drives both: \<open>prepare\<close> waits until the award's lock is final and
  verifies the award against it, \<open>accept\<close> signs the acceptance that obliges the solver, \<open>fill\<close> pays the
  recipient out of inventory and \<open>claimUntilRefundable\<close> collects the lock, each transaction through the sender.
  In the compliance SDK \<open>scoring.ts\<close> turns attestations into the trust score that \<open>tiers.ts\<close> reads into a fee
  schedule and privacy levels, and \<open>execution-orchestrator.ts\<close> splits a large trade (\<open>split.ts\<close>), sends each part to
  a venue the score admits (\<open>venue-router.ts\<close>) and spreads them over time (\<open>diffusion-scheduler.ts\<close>).
  The provider's daemon (\<open>daemon/src/server.ts\<close>) maps a credential to the routes it may use, parses a request and holds
  it to the policy pinned in its configuration (\<open>handlers.ts\<close>, \<open>config.ts\<close>), signs its payload hash (\<open>pedersen.ts\<close>,
  \<open>keystore.ts\<close>, \<open>signer.ts\<close>) through the replay ledger (\<open>replay-db.ts\<close>), and answers once the audit record is accepted.
  The recipient's tool begins an operation in its journal (\<open>operation-journal.ts\<close>) before it spends, exits or refunds,
  records the hash of a transaction before a node receives it (\<open>chain.ts\<close>, \<open>node-submission.ts\<close>, \<open>refund.ts\<close>) and
  lets the next operation begin only when the last has a final outcome.

  \<^bold>\<open>Theories and sources.\<close>
  \<^item> \<open>Prelude\<close>, \<open>JsBase\<close>, \<open>Json\<close>, \<open>Float64\<close>: checks that refuse, JavaScript values, strings, numbers and
    dates, \<open>JSON.parse\<close>, rounding to a double.
  \<^item> \<open>Intents\<close>, \<open>Chains\<close>, \<open>Eip712\<close>: the status tables (\<open>shared/intents.ts\<close>), the chain registry and address
    checks (\<open>shared/chains.ts\<close>, \<open>stealth.ts\<close>, \<open>validators.ts\<close>), typed data (\<open>shared/eip712.ts\<close>, signer
    \<open>compare.ts\<close>, \<open>permit2.ts\<close>).
  \<^item> \<open>Wire\<close> (\<open>machine/wire.ts\<close>), \<open>Validate\<close> (\<open>machine/validateRequest.ts\<close>).
  \<^item> \<open>IntentVerify\<close> (signer \<open>intent-verify.ts\<close>, \<open>escrow-pin.ts\<close>), \<open>DepositVerify\<close> (signer \<open>deposit-verify.ts\<close>),
    \<open>SolverPin\<close>, \<open>QuoteChecks\<close>, \<open>Deposit\<close> (the client files of these names).
  \<^item> \<open>IntentState\<close> (\<open>state.ts\<close>, \<open>transition.ts\<close>, \<open>phase.ts\<close>), \<open>Decisions\<close> (\<open>decisions.ts\<close>).
  \<^item> \<open>Machine\<close> (the model record, messages, effects, \<open>init\<close>), \<open>MachineQuote\<close> (quoting and accepting),
    \<open>MachineSign\<close> (the signing ceremony and execute), \<open>MachineStatus\<close> (polls and pushed frames),
    \<open>MachineUpdate\<close> (every message handler, the reactive rules, \<open>update\<close>): together \<open>machine.ts\<close>, one
    definition per handler, composed as the source composes them.
  \<^item> \<open>View\<close> (\<open>view.ts\<close>, \<open>receipt.ts\<close>), \<open>Failure\<close> (\<open>failure.ts\<close>), \<open>Fee\<close> (\<open>fee.ts\<close>).
  \<^item> \<open>Effects\<close> (operations that throw over a state, with their weakest preconditions), \<open>TxSender\<close>
    (\<open>solver-sdk/src/tx-sender.ts\<close>: the slots in flight as a list addressed by index, the broadcasts as a
    list in the state, one definition per method), \<open>TxSafety\<close>, \<open>TxProgress\<close>, \<open>TxChain\<close> (its properties).
  \<^item> \<open>Escrow\<close> (signer \<open>uint.ts\<close>, \<open>escrow.ts\<close>: spellings, commitments, order ids, digests, the pull guard),
    \<open>EscrowVerify\<close> (\<open>solver-sdk/src/escrow-verify.ts\<close>), \<open>EscrowExamples\<close> (an order, its pull and its award).
  \<^item> \<open>GatewayBooks\<close> (the gateway's maps and the synchronous stretches of its methods between two awaits),
    \<open>Gateway\<close> (prepare, the wait for the lock, accept, restore) and \<open>GatewaySend\<close> (fill, claim, the claim loop,
    resolveTx, allowances, the bond): \<open>solver-sdk/src/escrow-gateway.ts\<close> and \<open>bond.ts\<close>. A method is a function of
    the gateway's state, which holds the sender's and so the world's; \<open>GatewayRace\<close> is the step relation in
    which the stretches of concurrent calls interleave over one set of books.
  \<^item> \<open>SdkTiers\<close> (\<open>sdk/src/tiers.ts\<close>, \<open>scoring.ts\<close>, \<open>recency.ts\<close>), \<open>Execution\<close> (\<open>split.ts\<close>, \<open>venue-router.ts\<close>,
    \<open>diffusion-scheduler.ts\<close>, \<open>execution-orchestrator.ts\<close>) and \<open>ExecutionSound\<close> (its properties), on the
    order of doubles in \<open>FloatOrder\<close>.
  \<^item> \<open>Journal\<close> (\<open>tools/recipient/src/operation-journal.ts\<close>: the directory as a record, each method a tree of atomic file
    operations) and \<open>Movement\<close> (\<open>chain.ts\<close>, \<open>node-submission.ts\<close>, \<open>refund.ts\<close>, the reconcile command of \<open>cli.ts\<close>).
  \<^item> \<open>Provider\<close> (\<open>provider/src\<close>: \<open>pedersen.ts\<close>, the digest validation of \<open>keystore.ts\<close>, \<open>signer.ts\<close>,
    \<open>credential-root-signer.ts\<close>, \<open>eip712.ts\<close>, \<open>replay-db.ts\<close>; a \<open>ReplayDb\<close> is a record of its two operations on a state of
    any type), \<open>Daemon\<close> (\<open>daemon/src/handlers.ts\<close>) and \<open>Server\<close> (\<open>config.ts\<close>, \<open>server.ts\<close>, the start in \<open>index.ts\<close>).

  \<^bold>\<open>What the lemmas show.\<close> \<open>MachineFrame\<close> to \<open>MachineEffects\<close> are the invariants of one step and the frame of
  each handler: which fields it may change and which effects it may emit. \<open>MachineReach\<close> states the
  states a host can reach as a step relation and the locale through which an invariant of \<open>update\<close>
  becomes one of every reachable state; the relation has the messages admitted as a parameter, so that an invariant
  can speak of the very replies a run received (\<open>arriving\<close>). On it \<open>MachineSafety\<close> shows what a wallet is ever asked to
  sign, \<open>MachineHold\<close> that an order whose funds may have moved is never replaced, \<open>MachineVerdict\<close> what becomes of
  an order when its execute is answered, \<open>MachineSettle\<close> that the
  reactive rules reach a fixed point. \<open>Walkthrough\<close> runs a whole trade, opened form to stuck order, and
  with \<open>Examples\<close> applies each property to a concrete input. The other theories prove their
  component: soundness and completeness of validation, what an accepted quote or a revealed deposit
  address implies, the round trip of a stored deposit, the bounds of resends and polls, the fee
  layers against the checker the client runs on a served breakdown. \<open>TxSafety\<close> shows that a guarded send
  over an effect in doubt broadcasts nothing new and that a replacement raises both prices;
  \<open>TxProgress\<close> that whatever was broadcast and not resolved stays in the table; \<open>TxChain\<close>, against a node
  whose answers come from one chain, that an outcome of "not sent" is final and the nonce never reused.
  \<open>Escrow\<close> and \<open>EscrowVerify\<close> show that an order id stands for one order, so that an accepted pull pays
  the user and a verified award pays what its lock pays for. \<open>GatewayRace\<close> shows that in every interleaving an order
  is accepted at most once, a fill id filled by one call at a time and never again once a call saw it confirmed. \<open>GatewayTime\<close> orders the worlds
  a call passes through (\<open>onward\<close>) and says of an answer that it was given on the way (\<open>asked\<close>); on it
  \<open>GatewayPrepare\<close>, \<open>GatewaySafety\<close> and \<open>GatewayClaim\<close> show what a prepared fill, a signed acceptance, a sent fill
  and a reported claim rest on. \<open>GatewayExamples\<close> runs an award from prepare to a confirmed claim.
  \<open>SdkTiers\<close> shows that the SDK and the client charge one schedule and that attestations never lower a score;
  \<open>ExecutionSound\<close> shows, over the rounding of doubles, that a plan pays out exactly its amount, to venues the
  score and the gas budget admit, inside its window.
  \<open>JournalSafe\<close> has the calculus in which an invariant of the directory is shown after every file operation, and the
  journal's invariant; \<open>JournalCalls\<close> what each method does; \<open>JournalReach\<close> the directories processes reach that run one
  after another and may die anywhere but inside a restore: one operation is unresolved at a time, and what blocks a begin
  can be settled; \<open>JournalRace\<close> those of processes that run at once, interleaved and cut off anywhere: a begin returns only
  alone. \<open>MovementSafe\<close> and \<open>MovementRecord\<close> show that the node never receives a transaction that is
  off the record, \<open>Refunds\<close> that a refund is settled exactly on final evidence. \<open>JournalExamples\<close> also runs the
  three ways in which an interleaving or a crash that \<open>JournalReach\<close> leaves out strands an operation.
  \<open>ProviderSafe\<close> shows that a field vector stands for one request, \<open>ReplayLedger\<close> states the contract of a \<open>ReplayDb\<close>
  as a locale, discharges it for the ledger in memory and shows of interleaved calls that a payload has one bundle;
  \<open>DaemonSafe\<close> shows what a released signature implies over any database, \<open>ServerSafe\<close> that every authenticated request is
  audited and that no credential reaches both kinds of signature. \<open>DaemonExamples\<close> and \<open>ServerExamples\<close> run a daemon.

  \<^bold>\<open>Bounds and fuel.\<close> A string is a list of code units below 256. The passes of the reactive rules are
  bounded (\<open>settle\<close>) and the bound is proved enough (\<open>reactive_rules_settle\<close>). \<open>json_parse\<close> has twice
  the length of its text as fuel, and more reads the same (\<open>json_fuel\<close>). The wait for a
  receipt has \<open>receiptTimeoutMs / receiptPollMs + 1\<close> rounds, and \<open>send_returns\<close> shows that a
  send over a node that answers always ends. The wait for a final lock, the retries of an \<open>accept\<close> behind
  another and the claim loop have a fuel argument and return \<open>None\<close> without it: a node that never shows the
  lock, or a clock that never moves, keeps the program waiting too, so their properties are of the
  calls that return. The receipt waits within the gateway have the fuel \<open>go_txFuel\<close>. Clocks, deadlines and counters
  are rational; the fee layers are computed with the rounding to binary64 where the source divides.

  \<^bold>\<open>Parameters.\<close> The record \<open>env\<close> holds what is not under \<open>src/\<close>: the host's clock, its reading of a date
  outside the specified format, the recovery of a signed message (ethers) and SHA-256 (viem). A
  record \<open>ethers\<close> holds the hashing, coding and recovery of ethers; the injectivity of its coder and the
  absence of collisions among the strings hashed are hypotheses. A \<open>tx_node\<close> holds the answers of a JSON-RPC node, any function of the world's state. A
  \<open>chain_api\<close> holds the answers of the escrow, filler, verifier and token contracts and of the wallet behind a
  signer, and \<open>gateway_options\<close> those of the venue and the clock: functions of a world of any type that
  answer or throw. \<open>maxLogRange\<close> is positive. Planning takes the hash that names a trade and the words of
  \<open>crypto.getRandomValues\<close> as functions. A \<open>wallet_library\<close> is any sequence of calls the Aztec wallet makes back into the
  tool. A \<open>provider_crypto\<close> holds Pedersen, secp256k1, keccak and ABI coding; the answer of a digest signer, which audit
  records the sink accepts and which client certificate verified are arguments. A \<open>randomUUID\<close> is a number not drawn before and a process id is not used again.

  \<^bold>\<open>Not modelled.\<close> The zod schemas (a body is mapped after it passed), HTTP, the payload of log lines, the
  rendering of copy, and the packages listed as such in the manifest: key custody, key derivation and
  signatures, proof generation, the widget frame and the rest of the operator tools. The per-key promise queue of
  \<open>tx-sender.ts\<close> is modelled by its effect: the sends of one key run one after another; so is the
  token queue of \<open>accept\<close>. The gateway's warnings, progress events and POST timeouts are left out, and so is
  the joining of a second claim loop for an order to the first. Of the journal, file errors other than an existing or missing
  file are left out, and leftover temporary files; the fuel of its two loops is enough when it exceeds the number of
  identifiers drawn. Of the provider's daemon, sockets, TLS, shutdown and the audit files are left out, and the timestamp
  and the reason text of a record; two requests at once are the step relation \<open>signing_step\<close>, whose steps end where the
  program awaits the signer.
\<close>

end
